(* ===== verification/Auggie_Prelude.thy ===== *)
theory Auggie_Prelude
  imports Main "HOL-Library.Sublist" "HOL-Library.AList"
begin

text \<open>
  Shared vocabulary of the development: points in time, Python strings (as lists of
  characters), SQL tables (as lists of rows in insertion order) and the lemmas about them that
  the component theories use. The collection \<open>table_simps\<close> holds the laws of the
  table combinators.
\<close>

named_theorems table_simps \<open>laws of the SQL table combinators\<close>
named_theorems str_simps \<open>laws of the Python string helpers\<close>

section \<open>Time\<close>

text \<open>
  A point in time and an interval are counted in microseconds, the resolution of a
  PostgreSQL timestamp.
\<close>

type_synonym time = int

definition seconds :: "int \<Rightarrow> time" where
  "seconds n = n * 1000000"

definition minutes :: "int \<Rightarrow> time" where
  "minutes n = seconds (60 * n)"

definition hours :: "int \<Rightarrow> time" where
  "hours n = minutes (60 * n)"

definition days :: "int \<Rightarrow> time" where
  "days n = hours (24 * n)"

lemmas time_defs = seconds_def minutes_def hours_def days_def

section \<open>Tables\<close>

text \<open>
  \<open>UPDATE t SET ... WHERE P\<close> maps over the rows; \<open>INSERT\<close> appends; a sequence
  hands out the next identifier.
\<close>

definition update_where :: "('r \<Rightarrow> bool) \<Rightarrow> ('r \<Rightarrow> 'r) \<Rightarrow> 'r list \<Rightarrow> 'r list" where
  "update_where P f t = map (\<lambda>r. if P r then f r else r) t"

definition count_where :: "('r \<Rightarrow> bool) \<Rightarrow> 'r list \<Rightarrow> int" where
  "count_where P t = int (length (filter P t))"

lemma length_update_where [simp]: "length (update_where P f t) = length t"
  by (simp add: update_where_def)

lemma update_where_Nil [simp]: "update_where P f [] = []"
  by (simp add: update_where_def)

lemma update_where_Cons [simp]:
  "update_where P f (r # t) = (if P r then f r else r) # update_where P f t"
  by (simp add: update_where_def)

lemma update_where_append [simp]:
  "update_where P f (t @ t') = update_where P f t @ update_where P f t'"
  by (simp add: update_where_def)

lemma map_update_where [table_simps]:
  assumes "\<And>r. P r \<Longrightarrow> g (f r) = g r"
  shows "map g (update_where P f t) = map g t"
  using assms by (simp add: update_where_def)

lemma set_update_where:
  "set (update_where P f t) = f ` {r \<in> set t. P r} \<union> {r \<in> set t. \<not> P r}"
  by (auto simp: update_where_def)

lemma update_where_all:
  assumes "x \<in> set (update_where P f t)" "\<And>r. P r \<Longrightarrow> Q (f r)" "\<And>r. \<not> P r \<Longrightarrow> Q r"
  shows "Q x"
  using assms by (auto simp: update_where_def)

lemma update_where_id: "(\<And>r. r \<in> set t \<Longrightarrow> \<not> P r) \<Longrightarrow> update_where P f t = t"
  by (induction t) auto

lemma ball_update_where:
  assumes "\<And>r. r \<in> set t \<Longrightarrow> Q r" and "\<And>r. r \<in> set t \<Longrightarrow> Q r \<Longrightarrow> P r \<Longrightarrow> Q (f r)"
    and "x \<in> set (update_where P f t)"
  shows "Q x"
  using assms by (auto simp: set_update_where)

lemma count_where_Nil [simp]: "count_where P [] = 0"
  by (simp add: count_where_def)

lemma count_where_Cons [simp]:
  "count_where P (r # t) = (if P r then 1 else 0) + count_where P t"
  by (simp add: count_where_def)

lemma count_where_append [simp]: "count_where P (t @ t') = count_where P t + count_where P t'"
  by (simp add: count_where_def)

lemma count_where_nonneg [simp]: "0 \<le> count_where P t"
  by (simp add: count_where_def)

lemma count_where_eq_0: "count_where P t = 0 \<longleftrightarrow> (\<forall>r \<in> set t. \<not> P r)"
  by (simp add: count_where_def filter_empty_conv)

lemma find_update_where [table_simps]:
  assumes "\<And>r. P r \<Longrightarrow> key (f r) = key r"
  shows "find (\<lambda>r. key r = k) (update_where P f t) =
    map_option (\<lambda>r. if P r then f r else r) (find (\<lambda>r. key r = k) t)"
  using assms by (induction t) auto

lemma find_update_same [table_simps]:
  assumes "\<And>r. P r \<Longrightarrow> P (f r)"
  shows "find P (update_where P f t) = map_option f (find P t)"
  using assms by (induction t) auto

lemma find_Some_mem: "find P t = Some r \<Longrightarrow> r \<in> set t \<and> P r"
  by (auto simp: find_Some_iff)

lemma find_None_all: "find P t = None \<Longrightarrow> r \<in> set t \<Longrightarrow> \<not> P r"
  by (auto simp: find_None_iff)

lemma find_append:
  "find P (t @ t') = (case find P t of None \<Rightarrow> find P t' | Some r \<Rightarrow> Some r)"
  by (induction t) auto

text \<open>Rows with distinct keys: the row found under a key is the only one with that key.\<close>

lemma find_distinct:
  assumes "distinct (map key t)" and "r \<in> set t"
  shows "find (\<lambda>x. key x = key r) t = Some r"
  using assms by (induction t) auto

lemma distinct_key_eq:
  assumes "distinct (map key t)" and "r \<in> set t" and "r' \<in> set t" and "key r = key r'"
  shows "r = r'"
  using assms by (metis find_distinct option.inject)

text \<open>
  A table with a \<open>BIGSERIAL\<close> key: the keys are distinct and below the next value of the
  sequence.
\<close>

definition serial :: "('r \<Rightarrow> int) \<Rightarrow> int \<Rightarrow> 'r list \<Rightarrow> bool" where
  "serial key next t \<longleftrightarrow> distinct (map key t) \<and> (\<forall>r \<in> set t. key r < next)"

lemma serial_Nil [simp]: "serial key n []"
  by (simp add: serial_def)

lemma serial_distinct: "serial key n t \<Longrightarrow> distinct (map key t)"
  by (simp add: serial_def)

lemma serial_fresh: "serial key n t \<Longrightarrow> find (\<lambda>r. key r = n) t = None"
  by (auto simp: serial_def find_None_iff)

lemma serial_snoc [table_simps]: "serial key n t \<Longrightarrow> key r = n \<Longrightarrow> serial key (n + 1) (t @ [r])"
  by (force simp: serial_def)

lemma serial_update [table_simps]:
  assumes "serial key n t" "\<And>r. key (f r) = key r"
  shows "serial key n (update_where P f t)"
  using assms by (auto simp: serial_def map_update_where set_update_where)

lemma serial_filter [table_simps]: "serial key n t \<Longrightarrow> serial key n (filter P t)"
  by (auto simp: serial_def distinct_map inj_on_def)

lemma serial_find_snoc:
  assumes "serial key n t" "key r = n"
  shows "find (\<lambda>x. key x = k) (t @ [r]) = (if k = n then Some r else find (\<lambda>x. key x = k) t)"
  using serial_fresh [OF assms(1)] assms(2) by (auto simp: find_append split: option.split)

section \<open>Options\<close>

text \<open>SQL's \<open>COALESCE(x, y)\<close> on one nullable and one plain value.\<close>

definition coalesce :: "'a option \<Rightarrow> 'a \<Rightarrow> 'a" where
  "coalesce x y = (case x of None \<Rightarrow> y | Some v \<Rightarrow> v)"

lemma coalesce_simps [simp]: "coalesce None y = y" "coalesce (Some x) y = x"
  by (simp_all add: coalesce_def)

end
