(* ===== verification/Py_Strings.thy ===== *)
theory Py_Strings
  imports Auggie_Prelude
begin

text \<open>
  Python's \<open>str\<close> as a list of characters. The helpers are the string methods the code calls:
  \<open>lower\<close>, \<open>strip\<close>, \<open>in\<close>, \<open>startswith\<close>, \<open>endswith\<close>, \<open>split\<close>
  with a separator, \<open>join\<close>, \<open>str(int)\<close> and \<open>dict.fromkeys\<close>-style
  deduplication. Characters are bytes, so the model is of ASCII text: Unicode case folding
  and Unicode whitespace are outside it.
\<close>

section \<open>Characters\<close>

definition upper_char :: "char \<Rightarrow> bool" where
  "upper_char c \<longleftrightarrow> 65 \<le> (of_char c :: nat) \<and> (of_char c :: nat) \<le> 90"

definition lower_char :: "char \<Rightarrow> char" where
  "lower_char c = (if upper_char c then char_of ((of_char c :: nat) + 32) else c)"

definition is_space :: "char \<Rightarrow> bool" where
  "is_space c \<longleftrightarrow> (let n = (of_char c :: nat) in
     n = 32 \<or> (9 \<le> n \<and> n \<le> 13) \<or> (28 \<le> n \<and> n \<le> 31))"

definition py_lower :: "string \<Rightarrow> string" where
  "py_lower s = map lower_char s"

definition py_strip :: "string \<Rightarrow> string" where
  "py_strip s = rev (dropWhile is_space (rev (dropWhile is_space s)))"

text \<open>\<open>needle in haystack\<close>\<close>

definition py_in :: "string \<Rightarrow> string \<Rightarrow> bool" where
  "py_in needle s = sublist needle s"

definition startswith :: "string \<Rightarrow> string \<Rightarrow> bool" where
  "startswith s p = prefix p s"

definition endswith :: "string \<Rightarrow> string \<Rightarrow> bool" where
  "endswith s p = suffix p s"

fun py_join :: "string \<Rightarrow> string list \<Rightarrow> string" where
  "py_join sep [] = []"
| "py_join sep [x] = x"
| "py_join sep (x # y # ys) = x @ sep @ py_join sep (y # ys)"

text \<open>
  \<open>s.split(sep)\<close> for a non-empty separator: \<open>acc\<close> is the current piece, reversed.
\<close>

fun split_go :: "string \<Rightarrow> string \<Rightarrow> string \<Rightarrow> string list" where
  "split_go sep acc [] = [rev acc]"
| "split_go sep acc (c # s) =
     (if sep \<noteq> [] \<and> prefix sep (c # s) then rev acc # split_go sep [] (drop (length sep - 1) s)
      else split_go sep (c # acc) s)"

definition py_split :: "string \<Rightarrow> string \<Rightarrow> string list" where
  "py_split s sep = split_go sep [] s"

section \<open>Decimal printing\<close>

definition digit_char :: "nat \<Rightarrow> char" where
  "digit_char d = char_of (48 + d)"

fun str_nat :: "nat \<Rightarrow> string" where
  "str_nat n = (if n < 10 then [digit_char n] else str_nat (n div 10) @ [digit_char (n mod 10)])"

declare str_nat.simps [simp del]

definition str_int :: "int \<Rightarrow> string" where
  "str_int i = (if i < 0 then CHR ''-'' # str_nat (nat (- i)) else str_nat (nat i))"

section \<open>Parsing integers\<close>

text \<open>
  \<open>int(s)\<close>: surrounding whitespace is stripped, a sign may lead, and single underscores may
  separate digits. \<open>None\<close> stands for \<open>ValueError\<close>.
\<close>

definition digit_value :: "char \<Rightarrow> nat option" where
  "digit_value c = (let n = (of_char c :: nat) in if 48 \<le> n \<and> n \<le> 57 then Some (n - 48) else None)"

fun parse_digits :: "nat \<Rightarrow> string \<Rightarrow> nat option" where
  "parse_digits acc [] = Some acc"
| "parse_digits acc (c # s) = (case digit_value c of
     Some d \<Rightarrow> parse_digits (10 * acc + d) s
   | None \<Rightarrow> (if c = CHR ''_'' then (case s of
        [] \<Rightarrow> None
      | c' # s' \<Rightarrow> (case digit_value c' of None \<Rightarrow> None | Some d \<Rightarrow> parse_digits (10 * acc + d) s'))
      else None))"

definition parse_nat :: "string \<Rightarrow> nat option" where
  "parse_nat s = (case s of [] \<Rightarrow> None
     | c # s' \<Rightarrow> (case digit_value c of None \<Rightarrow> None | Some d \<Rightarrow> parse_digits d s'))"

definition py_int :: "string \<Rightarrow> int option" where
  "py_int s = (case py_strip s of
     [] \<Rightarrow> None
   | c # t \<Rightarrow> if c = CHR ''-'' then map_option (\<lambda>n. - int n) (parse_nat t)
       else if c = CHR ''+'' then map_option int (parse_nat t)
       else map_option int (parse_nat (c # t)))"

section \<open>Order-preserving deduplication\<close>

text \<open>The loop \<open>if x not in seen: seen.add(x); out.append(x)\<close>.\<close>

fun dedup_go :: "'a list \<Rightarrow> 'a list \<Rightarrow> 'a list" where
  "dedup_go seen [] = []"
| "dedup_go seen (x # xs) =
     (if x \<in> set seen then dedup_go seen xs else x # dedup_go (x # seen) xs)"

definition dedup :: "'a list \<Rightarrow> 'a list" where
  "dedup xs = dedup_go [] xs"

lemma dedup_go_props:
  "set (dedup_go seen xs) = set xs - set seen" "distinct (dedup_go seen xs)"
  by (induction seen xs rule: dedup_go.induct) auto

lemma set_dedup [simp]: "set (dedup xs) = set xs"
  by (simp add: dedup_def dedup_go_props)

lemma distinct_dedup [simp]: "distinct (dedup xs)"
  by (simp add: dedup_def dedup_go_props)

lemma dedup_go_id: "distinct xs \<Longrightarrow> set xs \<inter> set seen = {} \<Longrightarrow> dedup_go seen xs = xs"
  by (induction seen xs rule: dedup_go.induct) auto

lemma dedup_id: "distinct xs \<Longrightarrow> dedup xs = xs"
  by (simp add: dedup_def dedup_go_id)

lemma dedup_go_subseq: "subseq (dedup_go seen xs) xs"
  by (induction seen xs rule: dedup_go.induct) auto

lemma dedup_subseq: "subseq (dedup xs) xs"
  by (simp add: dedup_def dedup_go_subseq)

section \<open>Laws\<close>

lemma digit_char_inj: "a < 10 \<Longrightarrow> b < 10 \<Longrightarrow> digit_char a = digit_char b \<Longrightarrow> a = b"
  unfolding digit_char_def
  by (drule arg_cong [where f = "of_char :: char \<Rightarrow> nat"]) simp

lemma digit_char_code: "d < 10 \<Longrightarrow> (of_char (digit_char d) :: nat) = 48 + d"
  by (simp add: digit_char_def)

lemma str_nat_digits: "c \<in> set (str_nat n) \<Longrightarrow> \<exists>d < 10. c = digit_char d"
proof (induction n rule: str_nat.induct)
  case (1 n)
  show ?case
  proof (cases "n < 10")
    case True
    with "1.prems" show ?thesis by (auto simp: str_nat.simps [of n])
  next
    case False
    with "1.prems" have "c \<in> set (str_nat (n div 10)) \<or> c = digit_char (n mod 10)"
      by (auto simp: str_nat.simps [of n])
    then show ?thesis
    proof
      assume "c \<in> set (str_nat (n div 10))"
      with False "1.IH" show ?thesis by simp
    next
      assume "c = digit_char (n mod 10)"
      moreover have "n mod 10 < 10" by simp
      ultimately show ?thesis by blast
    qed
  qed
qed

lemma str_nat_nonempty [simp]: "str_nat n \<noteq> []"
  by (subst str_nat.simps) simp

lemma str_nat_inj: "str_nat m = str_nat n \<Longrightarrow> m = n"
proof (induction m arbitrary: n rule: str_nat.induct)
  case (1 m)
  have ne: "str_nat (k div 10) @ [c] \<noteq> [d]" for k c d by simp
  show ?case
  proof (cases "m < 10")
    case True
    with "1.prems" have "str_nat n = [digit_char m]" by (simp add: str_nat.simps [of m])
    then have "n < 10" and "digit_char n = digit_char m"
      by (auto simp: str_nat.simps [of n] split: if_splits)
    with True show ?thesis using digit_char_inj by metis
  next
    case False
    with "1.prems" have eq: "str_nat n = str_nat (m div 10) @ [digit_char (m mod 10)]"
      by (simp add: str_nat.simps [of m])
    have n: "\<not> n < 10"
    proof
      assume "n < 10"
      then have "str_nat n = [digit_char n]" by (simp add: str_nat.simps [of n])
      with eq ne [of m "digit_char (m mod 10)" "digit_char n"] show False by simp
    qed
    with eq have "str_nat (m div 10) = str_nat (n div 10)"
      and "digit_char (m mod 10) = digit_char (n mod 10)"
      by (auto simp: str_nat.simps [of n])
    with False "1.IH" have "m div 10 = n div 10" and "m mod 10 = n mod 10"
      by (simp, intro digit_char_inj) auto
    then show ?thesis by (metis div_mult_mod_eq)
  qed
qed

lemma minus_not_digit: "CHR ''-'' \<notin> set (str_nat n)"
proof
  assume "CHR ''-'' \<in> set (str_nat n)"
  then obtain d where "d < 10" and "CHR ''-'' = digit_char d"
    using str_nat_digits by blast
  then have "(of_char CHR ''-'' :: nat) = 48 + d" using digit_char_code by metis
  then show False by simp
qed

lemma str_int_inj: "str_int i = str_int j \<Longrightarrow> i = j"
proof -
  assume eq: "str_int i = str_int j"
  have hd: "hd (str_nat n) \<noteq> CHR ''-''" for n
    using minus_not_digit [of n] hd_in_set [OF str_nat_nonempty [of n]] by metis
  show "i = j"
  proof (cases "i < 0")
    case True
    with eq hd [of "nat j"] have "j < 0 \<and> str_nat (nat (- i)) = str_nat (nat (- j))"
      by (auto simp: str_int_def split: if_splits) (metis list.sel(1))+
    with True show ?thesis by (auto dest: str_nat_inj)
  next
    case False
    with eq hd [of "nat i"] have "\<not> j < 0 \<and> str_nat (nat i) = str_nat (nat j)"
      by (auto simp: str_int_def split: if_splits)
    with False show ?thesis by (auto dest: str_nat_inj)
  qed
qed

lemma py_lower_Nil [simp]: "py_lower [] = []"
  by (simp add: py_lower_def)

lemma length_py_lower [simp]: "length (py_lower s) = length s"
  by (simp add: py_lower_def)

lemma lower_char_lower: "\<not> upper_char (lower_char c)"
proof (cases "upper_char c")
  case True
  then have "(of_char c :: nat) + 32 < 256" by (simp add: upper_char_def)
  with True show ?thesis by (simp add: upper_char_def lower_char_def)
next
  case False
  then show ?thesis by (simp add: lower_char_def)
qed

lemma py_lower_idem [simp]: "py_lower (py_lower s) = py_lower s"
  using lower_char_lower by (simp add: py_lower_def lower_char_def)

lemma length_dropWhile_rev: "length (rev (dropWhile P (rev xs))) \<le> length xs"
  by (metis length_dropWhile_le length_rev)

lemma length_py_strip_le: "length (py_strip s) \<le> length s"
  unfolding py_strip_def
  by (metis length_dropWhile_le length_rev order_trans)

lemma hd_dropWhile_False: "dropWhile P xs = [] \<or> \<not> P (hd (dropWhile P xs))"
  using hd_dropWhile by blast

lemma py_strip_ends:
  assumes "py_strip s \<noteq> []"
  shows "\<not> is_space (hd (py_strip s))" and "\<not> is_space (last (py_strip s))"
proof -
  let ?a = "dropWhile is_space s" and ?b = "dropWhile is_space (rev (dropWhile is_space s))"
  have b: "?b \<noteq> []"
    using assms unfolding py_strip_def by (metis rev.simps(1))
  then show "\<not> is_space (last (py_strip s))"
    using hd_dropWhile [OF b] by (simp add: py_strip_def last_rev)
  have a: "?a \<noteq> []"
  proof
    assume "?a = []"
    then have "?b = dropWhile is_space (rev [])" by (simp only:)
    with b show False by simp
  qed
  obtain ws where ws: "rev ?a = ws @ ?b"
    by (metis takeWhile_dropWhile_id)
  then have "?a = rev ?b @ rev ws" by (metis rev_append rev_rev_ident)
  moreover have "hd (rev ?b @ rev ws) = hd (rev ?b)"
    using b by (metis hd_append2 rev_is_Nil_conv)
  ultimately have "hd (rev ?b) = hd ?a" by metis
  then show "\<not> is_space (hd (py_strip s))"
    using hd_dropWhile [OF a] unfolding py_strip_def by metis
qed

lemma py_strip_idem [simp]: "py_strip (py_strip s) = py_strip s"
proof (cases "py_strip s = []")
  case True
  then show ?thesis by (simp only: True) (simp add: py_strip_def)
next
  case False
  let ?t = "py_strip s"
  have "dropWhile is_space ?t = ?t"
    using py_strip_ends(1) [OF False] False by (cases ?t) auto
  moreover have "dropWhile is_space (rev ?t) = rev ?t"
    using py_strip_ends(2) [OF False] False
    by (cases "rev ?t") (auto simp: hd_rev)
  ultimately show ?thesis unfolding py_strip_def [of ?t] by simp
qed

section \<open>Printing and parsing an integer\<close>

lemma digit_value_digit_char: "d < 10 \<Longrightarrow> digit_value (digit_char d) = Some d"
  by (simp add: digit_value_def digit_char_code Let_def)

lemma parse_digits_snoc:
  assumes "parse_digits acc s = Some n" "\<forall>c \<in> set s. digit_value c \<noteq> None" "d < 10"
  shows "parse_digits acc (s @ [digit_char d]) = Some (10 * n + d)"
  using assms by (induction s arbitrary: acc)
    (auto simp: digit_value_digit_char split: option.splits)

lemma str_nat_digit_values: "\<forall>c \<in> set (str_nat n). digit_value c \<noteq> None"
  using str_nat_digits digit_value_digit_char by (metis option.distinct(1))

lemma parse_nat_str_nat: "parse_nat (str_nat n) = Some n"
proof (induction n rule: str_nat.induct)
  case (1 n)
  show ?case
  proof (cases "n < 10")
    case True
    then show ?thesis
      by (simp add: str_nat.simps [of n] parse_nat_def digit_value_digit_char)
  next
    case False
    from str_nat_nonempty [of "n div 10"] obtain c s where cs: "str_nat (n div 10) = c # s"
      by (cases "str_nat (n div 10)") auto
    from "1.IH" [OF False] cs obtain d where d: "digit_value c = Some d"
      "parse_digits d s = Some (n div 10)" by (auto simp: parse_nat_def split: option.splits)
    have "\<forall>c \<in> set s. digit_value c \<noteq> None"
      using str_nat_digit_values [of "n div 10"] cs by simp
    from parse_digits_snoc [OF d(2) this, of "n mod 10"]
    have "parse_digits d (s @ [digit_char (n mod 10)]) = Some n" by simp
    then show ?thesis
      using False by (simp add: str_nat.simps [of n] parse_nat_def cs d)
  qed
qed

lemma digit_not_space: "digit_value c \<noteq> None \<Longrightarrow> \<not> is_space c \<and> c \<noteq> CHR ''-'' \<and> c \<noteq> CHR ''+''"
  by (auto simp: digit_value_def is_space_def Let_def split: if_splits)

lemma py_strip_no_space:
  assumes "\<forall>c \<in> set s. \<not> is_space c"
  shows "py_strip s = s"
proof -
  have "dropWhile is_space xs = xs" if "\<forall>c \<in> set xs. \<not> is_space c" for xs
    using that by (cases xs) auto
  from this [of s] this [of "rev s"] assms show ?thesis by (simp add: py_strip_def)
qed

theorem py_int_str_int [simp]: "py_int (str_int i) = Some i"
proof -
  have ns: "\<forall>c \<in> set (str_nat n). \<not> is_space c" for n
    using str_nat_digit_values digit_not_space by blast
  show ?thesis
  proof (cases "i < 0")
    case True
    have "py_strip (str_int i) = CHR ''-'' # str_nat (nat (- i))"
      using True ns by (subst py_strip_no_space) (auto simp: str_int_def is_space_def)
    with True show ?thesis by (simp add: py_int_def parse_nat_str_nat)
  next
    case False
    then have "py_strip (str_int i) = str_nat (nat i)"
      using ns by (subst py_strip_no_space) (auto simp: str_int_def)
    moreover obtain c t where "str_nat (nat i) = c # t"
      using str_nat_nonempty [of "nat i"] by (cases "str_nat (nat i)") auto
    moreover have "c \<noteq> CHR ''-'' \<and> c \<noteq> CHR ''+''"
      using str_nat_digit_values [of "nat i"] digit_not_space calculation(2) by auto
    moreover have "parse_nat (c # t) = Some (nat i)"
      using parse_nat_str_nat [of "nat i"] calculation(2) by simp
    ultimately show ?thesis using False by (simp add: py_int_def)
  qed
qed

section \<open>Splitting what was joined\<close>

text \<open>No separator begins inside the piece, even when one follows it.\<close>

definition sep_free :: "string \<Rightarrow> string \<Rightarrow> bool" where
  "sep_free sep x \<longleftrightarrow> (\<forall>i < length x. \<not> prefix sep (drop i x @ sep))"

lemma sep_free_Cons: "sep_free sep (a # x) \<longleftrightarrow> \<not> prefix sep (a # x @ sep) \<and> sep_free sep x"
  by (auto simp: sep_free_def less_Suc_eq_0_disj)

lemma prefix_append_long: "length sep \<le> length u \<Longrightarrow> prefix sep (u @ v) \<longleftrightarrow> prefix sep u"
  by (auto simp: prefix_append)

lemma split_go_piece:
  assumes "sep_free sep x" "sep \<noteq> []"
  shows "split_go sep acc (x @ sep @ rest) = (rev acc @ x) # split_go sep [] rest"
  using assms(1)
proof (induction x arbitrary: acc)
  case Nil
  obtain c r where sep: "sep = c # r" using assms(2) by (cases sep) auto
  then show ?case by simp
next
  case (Cons a x)
  have "prefix sep (a # x @ sep @ rest) \<longleftrightarrow> prefix sep (a # x @ sep)"
    using prefix_append_long [of sep "a # x @ sep" rest] by simp
  then show ?case using Cons by (simp add: sep_free_Cons)
qed

lemma split_go_last: "sep_free sep x \<Longrightarrow> split_go sep acc x = [rev acc @ x]"
proof (induction x arbitrary: acc)
  case (Cons a x)
  have "prefix sep (a # x) \<Longrightarrow> prefix sep (a # x @ sep)"
    by (metis append_Cons prefix_prefix)
  then show ?case using Cons by (auto simp: sep_free_Cons)
qed simp

lemma split_join:
  assumes "sep \<noteq> []" "xs \<noteq> []" "\<forall>x \<in> set xs. sep_free sep x"
  shows "py_split (py_join sep xs) sep = xs"
  using assms(2,3,1)
proof (induction sep xs rule: py_join.induct)
  case (3 sep x y ys)
  have "sep_free sep x" using 3(3) by simp
  from split_go_piece [OF this 3(4), of "[]"] 3 show ?case by (simp add: py_split_def)
qed (auto simp: py_split_def split_go_last)

end
