(* ===== verification/Task_Queue.thy ===== *)
theory Task_Queue
  imports Py_Strings "HOL-Library.Product_Lexorder"
begin

text \<open>
  The durable task queue, \<open>db/task_queue.py\<close> over the table \<open>task_queue\<close>
  (migrations 003 and 023). Every operation is one SQL statement or one transaction, and is
  modelled as one atomic function on the table; \<open>now\<close> is the value of \<open>now()\<close> in the
  statement.
\<close>

section \<open>Data\<close>

datatype task_status = Pending | Running | Completed | Failed

record scored_account =
  sa_id :: int
  sa_status :: string
  sa_document :: "int option"
  sa_pain :: "int option"
  sa_fit :: "int option"
  sa_timing :: "int option"
  sa_composite :: "int option"
  sa_name :: "string option"

text \<open>
  The values the code puts into a task payload: JSON scalars, lists of identifiers, and the
  \<open>{"list_id": ..., "accounts": [...]}\<close> context of an automation task.
\<close>

datatype pval = PNull | PBool bool | PInt int | PStr string | PIds "int list"
  | PCtx int "scored_account list"

type_synonym payload = "(string \<times> pval) list"

text \<open>
  The SQL condition \<open>payload->>key = value\<close>. A JSON null or a missing key is SQL NULL, and
  the text of an object or array starts with a bracket, so none of them equals the text of an identifier.
\<close>

definition payload_matches :: "string \<Rightarrow> string \<Rightarrow> payload \<Rightarrow> bool" where
  "payload_matches key val p = (case map_of p key of
     Some (PInt i) \<Rightarrow> str_int i = val
   | Some (PStr s) \<Rightarrow> s = val
   | Some (PBool b) \<Rightarrow> (if b then ''true'' else ''false'') = val
   | _ \<Rightarrow> False)"

record task =
  tk_id :: int
  tk_type :: string
  tk_payload :: payload
  tk_status :: task_status
  tk_attempts :: int
  tk_max :: int
  tk_created :: time
  tk_started :: "time option"
  tk_completed :: "time option"
  tk_error :: "string option"
  tk_claimed :: "string option"
  tk_run_at :: "time option"

record task_db =
  tq_rows :: "task list"
  tq_next :: int

text \<open>A row as \<open>INSERT\<close> fills it: the column defaults of the table.\<close>

definition new_task :: "int \<Rightarrow> time \<Rightarrow> string \<Rightarrow> payload \<Rightarrow> task" where
  "new_task i now ty p = \<lparr>tk_id = i, tk_type = ty, tk_payload = p, tk_status = Pending,
     tk_attempts = 0, tk_max = 3, tk_created = now, tk_started = None, tk_completed = None,
     tk_error = None, tk_claimed = None, tk_run_at = Some now\<rparr>"

definition insert_task :: "task_db \<Rightarrow> task \<Rightarrow> task_db" where
  "insert_task d t = d\<lparr>tq_rows := tq_rows d @ [t], tq_next := tq_next d + 1\<rparr>"

text \<open>\<open>s LIKE '_finalize_%'\<close>: in SQL each underscore stands for any one character.\<close>

definition like_finalize :: "string \<Rightarrow> bool" where
  "like_finalize s = (case s of [] \<Rightarrow> False
     | c # rest \<Rightarrow> prefix ''finalize'' rest \<and> 8 < length rest)"

section \<open>Operations\<close>

definition enqueue :: "time \<Rightarrow> string \<Rightarrow> payload \<Rightarrow> task_db \<Rightarrow> task_db \<times> int" where
  "enqueue now ty p d = (insert_task d (new_task (tq_next d) now ty p), tq_next d)"

fun enqueue_all :: "time \<Rightarrow> string \<Rightarrow> payload list \<Rightarrow> task_db \<Rightarrow> task_db" where
  "enqueue_all now ty [] d = d"
| "enqueue_all now ty (p # ps) d = enqueue_all now ty ps (fst (enqueue now ty p d))"

definition enqueue_many :: "time \<Rightarrow> string \<Rightarrow> payload list \<Rightarrow> task_db \<Rightarrow> task_db \<times> int" where
  "enqueue_many now ty ps d =
     (if ps = [] then (d, 0) else (enqueue_all now ty ps d, int (length ps)))"

text \<open>
  The subquery of \<open>claim_next\<close>. \<open>locked\<close> are the rows another transaction has locked
  (\<open>SKIP LOCKED\<close>); among the rows with the least \<open>created_at\<close> the database may
  return any, and \<open>tie\<close> says which.
\<close>

definition claimable :: "time \<Rightarrow> int list \<Rightarrow> task \<Rightarrow> bool" where
  "claimable now locked t \<longleftrightarrow> tk_status t = Pending \<and> tk_attempts t < tk_max t \<and>
     (case tk_run_at t of None \<Rightarrow> True | Some r \<Rightarrow> r \<le> now) \<and> tk_id t \<notin> set locked"

definition oldest_claimable :: "time \<Rightarrow> int list \<Rightarrow> task_db \<Rightarrow> task list" where
  "oldest_claimable now locked d =
     (let cs = filter (claimable now locked) (tq_rows d)
      in filter (\<lambda>t. \<forall>u \<in> set cs. tk_created t \<le> tk_created u) cs)"

definition claim_row :: "string \<Rightarrow> time \<Rightarrow> task \<Rightarrow> task" where
  "claim_row worker now t = t\<lparr>tk_status := Running, tk_started := Some now,
     tk_attempts := tk_attempts t + 1, tk_claimed := Some worker\<rparr>"

definition claim_next ::
    "string \<Rightarrow> time \<Rightarrow> int list \<Rightarrow> nat \<Rightarrow> task_db \<Rightarrow> task_db \<times> task option" where
  "claim_next worker now locked tie d =
     (case oldest_claimable now locked d of
        [] \<Rightarrow> (d, None)
      | c # cs \<Rightarrow>
          let t = (c # cs) ! (tie mod length (c # cs))
          in (d\<lparr>tq_rows := update_where (\<lambda>r. tk_id r = tk_id t) (claim_row worker now) (tq_rows d)\<rparr>,
              Some (claim_row worker now t)))"

definition complete_row :: "time \<Rightarrow> task \<Rightarrow> task" where
  "complete_row now t = t\<lparr>tk_status := Completed, tk_completed := Some now\<rparr>"

definition complete :: "time \<Rightarrow> int \<Rightarrow> task_db \<Rightarrow> task_db" where
  "complete now i d =
     d\<lparr>tq_rows := update_where (\<lambda>t. tk_id t = i) (complete_row now) (tq_rows d)\<rparr>"

text \<open>\<open>LEAST(10 * power(2, attempts), 300)\<close> seconds\<close>

definition backoff :: "int \<Rightarrow> time" where
  "backoff attempts = seconds (min (10 * 2 ^ nat attempts) 300)"

definition fail_row :: "time \<Rightarrow> string \<Rightarrow> task \<Rightarrow> task" where
  "fail_row now err t = t\<lparr>
     tk_status := (if tk_attempts t < tk_max t then Pending else Failed),
     tk_error := (if err = [] then None else Some (take 2000 err)),
     tk_completed := (if tk_attempts t \<ge> tk_max t then Some now else None),
     tk_started := None,
     tk_claimed := None,
     tk_run_at := (if tk_attempts t < tk_max t then Some (now + backoff (tk_attempts t))
                   else tk_run_at t)\<rparr>"

definition fail :: "time \<Rightarrow> int \<Rightarrow> string \<Rightarrow> task_db \<Rightarrow> task_db \<times> bool" where
  "fail now i err d =
     (d\<lparr>tq_rows := update_where (\<lambda>t. tk_id t = i) (fail_row now err) (tq_rows d)\<rparr>,
      case find (\<lambda>t. tk_id t = i) (tq_rows d) of
        None \<Rightarrow> False | Some t \<Rightarrow> tk_attempts t \<ge> tk_max t)"

definition stale :: "time \<Rightarrow> int \<Rightarrow> task \<Rightarrow> bool" where
  "stale now mins t \<longleftrightarrow> tk_status t = Running \<and>
     (case tk_started t of None \<Rightarrow> False | Some s \<Rightarrow> s < now - minutes mins)"

definition requeue_row :: "time \<Rightarrow> task \<Rightarrow> task" where
  "requeue_row now t = t\<lparr>
     tk_status := (if tk_attempts t + 1 < tk_max t then Pending else Failed),
     tk_attempts := tk_attempts t + 1,
     tk_started := None,
     tk_claimed := None,
     tk_completed := (if tk_attempts t + 1 \<ge> tk_max t then Some now else None)\<rparr>"

definition expired_marker :: "time \<Rightarrow> task \<Rightarrow> bool" where
  "expired_marker now t \<longleftrightarrow> like_finalize (tk_type t) \<and>
     (case tk_completed t of None \<Rightarrow> False | Some c \<Rightarrow> c < now - hours 24)"

definition requeue_stale :: "time \<Rightarrow> int \<Rightarrow> task_db \<Rightarrow> task_db \<times> int" where
  "requeue_stale now mins d =
     (let rows = update_where (stale now mins) (requeue_row now) (tq_rows d)
      in (d\<lparr>tq_rows := filter (\<lambda>t. \<not> expired_marker now t) rows\<rparr>,
          count_where (stale now mins) (tq_rows d)))"

definition marker_type :: "string \<Rightarrow> string \<Rightarrow> string" where
  "marker_type key val = ''_finalize_'' @ key @ ''_'' @ val"

definition marker_row :: "int \<Rightarrow> time \<Rightarrow> string \<Rightarrow> task" where
  "marker_row i now ty =
     (new_task i now ty [])\<lparr>tk_status := Completed, tk_completed := Some now\<rparr>"

definition unfinished :: "string \<Rightarrow> string \<Rightarrow> task \<Rightarrow> bool" where
  "unfinished key val t \<longleftrightarrow> payload_matches key val (tk_payload t) \<and>
     tk_status t \<notin> {Completed, Failed}"

definition check_no_pending_siblings ::
    "time \<Rightarrow> string \<Rightarrow> string \<Rightarrow> task_db \<Rightarrow> task_db \<times> bool" where
  "check_no_pending_siblings now key val d =
     (if find (\<lambda>t. tk_type t = marker_type key val) (tq_rows d) \<noteq> None then (d, False)
      else if count_where (unfinished key val) (tq_rows d) \<noteq> 0 then (d, False)
      else (insert_task d (marker_row (tq_next d) now (marker_type key val)), True))"

definition get_failed_tasks :: "nat \<Rightarrow> task_db \<Rightarrow> task list" where
  "get_failed_tasks limit d = take limit
     (sort_key (\<lambda>t. case tk_completed t of None \<Rightarrow> (1 :: int, 0) | Some c \<Rightarrow> (0, - c))
       (filter (\<lambda>t. tk_status t = Failed \<and> \<not> like_finalize (tk_type t)) (tq_rows d)))"

definition retry_row :: "task \<Rightarrow> task" where
  "retry_row t = t\<lparr>tk_status := Pending, tk_error := None, tk_attempts := 0,
     tk_started := None, tk_completed := None, tk_claimed := None\<rparr>"

definition retry_failed_task :: "int \<Rightarrow> task_db \<Rightarrow> task_db \<times> bool" where
  "retry_failed_task i d =
     (d\<lparr>tq_rows := update_where (\<lambda>t. tk_id t = i \<and> tk_status t = Failed) retry_row (tq_rows d)\<rparr>,
      count_where (\<lambda>t. tk_id t = i \<and> tk_status t = Failed) (tq_rows d) = 1)"

definition cleanable :: "time \<Rightarrow> int \<Rightarrow> task \<Rightarrow> bool" where
  "cleanable now n t \<longleftrightarrow> tk_status t \<in> {Completed, Failed} \<and>
     (case tk_completed t of None \<Rightarrow> False | Some c \<Rightarrow> c < now - days n) \<and>
     \<not> like_finalize (tk_type t)"

definition cleanup_completed_tasks :: "time \<Rightarrow> int \<Rightarrow> task_db \<Rightarrow> task_db \<times> int" where
  "cleanup_completed_tasks now n d =
     (d\<lparr>tq_rows := filter (\<lambda>t. \<not> cleanable now n t) (tq_rows d)\<rparr>,
      count_where (cleanable now n) (tq_rows d))"

definition get_queue_stats :: "task_db \<Rightarrow> task_status \<Rightarrow> int option" where
  "get_queue_stats d st =
     (let n = count_where (\<lambda>t. tk_status t = st \<and> \<not> like_finalize (tk_type t)) (tq_rows d)
      in if n = 0 then None else Some n)"

section \<open>Well-formed rows\<close>

text \<open>
  What the operations keep true of a row. A pending row still has an attempt left, so it is
  never stranded; a running row has a start, an owner and at most \<open>max_attempts\<close> attempts; a
  finished row has a completion time. A stale task that is requeued may count one attempt more
  than the maximum.
\<close>

definition task_wf :: "task \<Rightarrow> bool" where
  "task_wf t \<longleftrightarrow> 0 < tk_max t \<and> 0 \<le> tk_attempts t \<and> tk_attempts t \<le> tk_max t + 1 \<and>
     (case tk_status t of
        Pending \<Rightarrow> tk_attempts t < tk_max t \<and> tk_started t = None \<and> tk_claimed t = None \<and>
          tk_completed t = None
      | Running \<Rightarrow> 1 \<le> tk_attempts t \<and> tk_attempts t \<le> tk_max t \<and> tk_started t \<noteq> None \<and>
          tk_claimed t \<noteq> None \<and> tk_completed t = None
      | Completed \<Rightarrow> tk_completed t \<noteq> None
      | Failed \<Rightarrow> tk_completed t \<noteq> None)"

definition queue_wf :: "task_db \<Rightarrow> bool" where
  "queue_wf d \<longleftrightarrow> (\<forall>t \<in> set (tq_rows d). task_wf t \<and> tk_id t < tq_next d) \<and>
     distinct (map tk_id (tq_rows d))"

lemma queue_wfI:
  assumes "\<And>t. t \<in> set (tq_rows d) \<Longrightarrow> task_wf t" "\<And>t. t \<in> set (tq_rows d) \<Longrightarrow> tk_id t < tq_next d"
    and "distinct (map tk_id (tq_rows d))"
  shows "queue_wf d"
  using assms by (simp add: queue_wf_def)

lemma queue_wfD:
  assumes "queue_wf d"
  shows "t \<in> set (tq_rows d) \<Longrightarrow> task_wf t" and "t \<in> set (tq_rows d) \<Longrightarrow> tk_id t < tq_next d"
    and "distinct (map tk_id (tq_rows d))"
  using assms by (simp_all add: queue_wf_def)

lemma task_wf_new [intro]: "task_wf (new_task i now ty p)"
  by (simp add: task_wf_def new_task_def)

lemma task_wf_marker [intro]: "task_wf (marker_row i now ty)"
  by (simp add: task_wf_def marker_row_def new_task_def)

lemma task_wf_claim: "task_wf t \<Longrightarrow> claimable now locked t \<Longrightarrow> task_wf (claim_row w now t)"
  by (simp add: task_wf_def claim_row_def claimable_def)

lemma task_wf_complete: "task_wf t \<Longrightarrow> task_wf (complete_row now t)"
  by (simp add: task_wf_def complete_row_def)

lemma task_wf_fail: "task_wf t \<Longrightarrow> task_wf (fail_row now err t)"
  by (auto simp: task_wf_def fail_row_def)

lemma task_wf_requeue: "task_wf t \<Longrightarrow> stale now mins t \<Longrightarrow> task_wf (requeue_row now t)"
  by (auto simp: task_wf_def requeue_row_def stale_def split: option.splits)

lemma task_wf_retry: "task_wf t \<Longrightarrow> task_wf (retry_row t)"
  by (simp add: task_wf_def retry_row_def)

lemma row_id_simps [simp]:
  "tk_id (claim_row w now t) = tk_id t" "tk_id (complete_row now t) = tk_id t"
  "tk_id (fail_row now err t) = tk_id t" "tk_id (requeue_row now t) = tk_id t"
  "tk_id (retry_row t) = tk_id t" "tk_id (new_task i now ty p) = i"
  "tk_id (marker_row i now ty) = i"
  by (simp_all add: claim_row_def complete_row_def fail_row_def requeue_row_def retry_row_def
      new_task_def marker_row_def)

lemma row_type_simps [simp]:
  "tk_type (claim_row w now t) = tk_type t" "tk_type (complete_row now t) = tk_type t"
  "tk_type (fail_row now err t) = tk_type t" "tk_type (requeue_row now t) = tk_type t"
  "tk_type (retry_row t) = tk_type t" "tk_type (new_task i now ty p) = ty"
  "tk_type (marker_row i now ty) = ty"
  by (simp_all add: claim_row_def complete_row_def fail_row_def requeue_row_def retry_row_def
      new_task_def marker_row_def)

text \<open>The three ways an operation changes the table: append, update rows in place, delete rows.\<close>

lemma queue_wf_insert:
  assumes "queue_wf d" "task_wf t" "tk_id t = tq_next d"
  shows "queue_wf (insert_task d t)"
proof (rule queue_wfI)
  fix r assume "r \<in> set (tq_rows (insert_task d t))"
  then have r: "r \<in> set (tq_rows d) \<or> r = t" by (auto simp: insert_task_def)
  then show "task_wf r" using assms(2) queue_wfD(1) [OF assms(1)] by blast
  show "tk_id r < tq_next (insert_task d t)"
    using r assms(3) queue_wfD(2) [OF assms(1)] by (force simp: insert_task_def)
next
  have "tq_next d \<notin> tk_id ` set (tq_rows d)"
    using queue_wfD(2) [OF assms(1)] by force
  then show "distinct (map tk_id (tq_rows (insert_task d t)))"
    using assms(3) queue_wfD(3) [OF assms(1)] by (simp add: insert_task_def)
qed

lemma queue_wf_update:
  assumes wf: "queue_wf d" and id: "\<And>t. tk_id (f t) = tk_id t"
    and ok: "\<And>t. t \<in> set (tq_rows d) \<Longrightarrow> task_wf t \<Longrightarrow> P t \<Longrightarrow> task_wf (f t)"
  shows "queue_wf (d\<lparr>tq_rows := update_where P f (tq_rows d)\<rparr>)"
proof (rule queue_wfI)
  fix r assume "r \<in> set (tq_rows (d\<lparr>tq_rows := update_where P f (tq_rows d)\<rparr>))"
  then show "task_wf r" "tk_id r < tq_next (d\<lparr>tq_rows := update_where P f (tq_rows d)\<rparr>)"
    using ok queue_wfD(1,2) [OF wf] id by (auto simp: set_update_where)
next
  show "distinct (map tk_id (tq_rows (d\<lparr>tq_rows := update_where P f (tq_rows d)\<rparr>)))"
    using queue_wfD(3) [OF wf] id by (simp add: map_update_where)
qed

lemma queue_wf_filter:
  assumes "queue_wf d"
  shows "queue_wf (d\<lparr>tq_rows := filter P (tq_rows d)\<rparr>)"
  using assms by (auto simp: queue_wf_def distinct_map inj_on_def)

lemmas queue_wf_rules = queue_wf_insert queue_wf_update queue_wf_filter

lemma oldest_claimable_mem:
  "t \<in> set (oldest_claimable now locked d) \<longleftrightarrow>
     t \<in> set (tq_rows d) \<and> claimable now locked t \<and>
     (\<forall>u \<in> set (tq_rows d). claimable now locked u \<longrightarrow> tk_created t \<le> tk_created u)"
  by (auto simp: oldest_claimable_def Let_def)

lemma oldest_claimable_Nil:
  "oldest_claimable now locked d = [] \<longleftrightarrow> (\<forall>t \<in> set (tq_rows d). \<not> claimable now locked t)"
proof
  assume empty: "oldest_claimable now locked d = []"
  show "\<forall>t \<in> set (tq_rows d). \<not> claimable now locked t"
  proof (rule ccontr)
    let ?cs = "{t \<in> set (tq_rows d). claimable now locked t}"
    assume "\<not> ?thesis"
    then have "finite ?cs" "?cs \<noteq> {}" by auto
    then obtain t where "t \<in> ?cs" and "\<forall>u \<in> ?cs. tk_created t \<le> tk_created u"
      by (metis (mono_tags) arg_min_if_finite(1) arg_min_least)
    then have "t \<in> set (oldest_claimable now locked d)" by (auto simp: oldest_claimable_mem)
    with empty show False by simp
  qed
next
  assume "\<forall>t \<in> set (tq_rows d). \<not> claimable now locked t"
  then have "\<And>t. t \<notin> set (oldest_claimable now locked d)" by (auto simp: oldest_claimable_mem)
  then show "oldest_claimable now locked d = []" by (metis list.set_intros(1) neq_Nil_conv)
qed

text \<open>The shape of a claim, used by every lemma about it.\<close>

lemma claim_next_cases:
  obtains (none) "claim_next w now locked tie d = (d, None)"
      "\<forall>t \<in> set (tq_rows d). \<not> claimable now locked t"
  | (some) t where "t \<in> set (tq_rows d)" "claimable now locked t"
      "\<forall>u \<in> set (tq_rows d). claimable now locked u \<longrightarrow> tk_created t \<le> tk_created u"
      "claim_next w now locked tie d =
        (d\<lparr>tq_rows := update_where (\<lambda>r. tk_id r = tk_id t) (claim_row w now) (tq_rows d)\<rparr>,
         Some (claim_row w now t))"
proof (cases "oldest_claimable now locked d")
  case Nil
  show thesis
  proof (rule none)
    show "claim_next w now locked tie d = (d, None)" using Nil by (simp add: claim_next_def)
    show "\<forall>t \<in> set (tq_rows d). \<not> claimable now locked t"
      using Nil by (simp add: oldest_claimable_Nil)
  qed
next
  case (Cons c cs)
  let ?t = "(c # cs) ! (tie mod length (c # cs))"
  have "tie mod length (c # cs) < length (c # cs)" by (rule mod_less_divisor) simp
  then have "?t \<in> set (oldest_claimable now locked d)" using Cons by (metis nth_mem)
  moreover have "claim_next w now locked tie d =
      (d\<lparr>tq_rows := update_where (\<lambda>r. tk_id r = tk_id ?t) (claim_row w now) (tq_rows d)\<rparr>,
       Some (claim_row w now ?t))"
    by (simp add: claim_next_def Cons Let_def)
  ultimately show thesis using some [of ?t] unfolding oldest_claimable_mem by blast
qed

end
