(* ===== verification/Queue_Properties.thy ===== *)
theory Queue_Properties
  imports Queue_Steps
begin

text \<open>
  The properties of the task queue: liveness of pending tasks, order and exclusiveness of
  claims, the bound on the number of executions, the retry schedule, and the finalization
  claim of the fan-out jobs.
\<close>

section \<open>The execution budget of a task\<close>

text \<open>
  What is left of the attempts of a task: three before it is inserted, none once its row is
  gone.
\<close>

definition budget :: "int \<Rightarrow> task_db \<Rightarrow> nat" where
  "budget i d = (case task_of d i of
     None \<Rightarrow> if i < tq_next d then 0 else 3
   | Some t \<Rightarrow> nat (tk_max t - tk_attempts t))"

fun run_ops :: "queue_op list \<Rightarrow> task_db \<Rightarrow> task_db" where
  "run_ops [] d = d"
| "run_ops (op # ops) d = run_ops ops (exec_op op d)"

text \<open>The identifiers handed to workers along a run, one entry per execution.\<close>

fun executions :: "queue_op list \<Rightarrow> task_db \<Rightarrow> int list" where
  "executions [] d = []"
| "executions (op # ops) d =
     (case claimed_of op d of None \<Rightarrow> executions ops (exec_op op d)
      | Some i \<Rightarrow> i # executions ops (exec_op op d))"

text \<open>The tasks an administrator sends back by hand along a run; that gives them new attempts.\<close>

fun retried :: "queue_op list \<Rightarrow> int list" where
  "retried [] = []"
| "retried (RetryFailed i # ops) = i # retried ops"
| "retried (op # ops) = retried ops"

lemma budget_update:
  assumes "\<And>t. tk_id (f t) = tk_id t" "\<And>t. tk_max (f t) = tk_max t"
    and "\<And>t. tk_attempts t \<le> tk_attempts (f t)"
  shows "budget i (d\<lparr>tq_rows := update_where P f (tq_rows d)\<rparr>) \<le> budget i d"
  using assms by (auto simp: budget_def task_of_update_where split: option.splits intro!: nat_mono)

lemma task_of_filter:
  assumes "distinct (map tk_id (tq_rows d))"
  shows "task_of (d\<lparr>tq_rows := filter P (tq_rows d)\<rparr>) i =
    (case task_of d i of None \<Rightarrow> None | Some t \<Rightarrow> if P t then Some t else None)"
proof -
  have "find (\<lambda>t. tk_id t = i) (filter P ts) =
      (case find (\<lambda>t. tk_id t = i) ts of None \<Rightarrow> None | Some t \<Rightarrow> if P t then Some t else None)"
    if "distinct (map tk_id ts)" for ts
    using that
  proof (induction ts)
    case (Cons a ts)
    show ?case
    proof (cases "tk_id a = i")
      case True
      have "\<forall>x \<in> set ts. tk_id x \<noteq> i"
        using Cons.prems True by (metis distinct.simps(2) image_eqI list.simps(9) set_map)
      then have "find (\<lambda>t. tk_id t = i) ts = None"
        and "find (\<lambda>t. tk_id t = i) (filter P ts) = None"
        by (auto simp: find_None_iff)
      with True show ?thesis by simp
    next
      case False
      with Cons show ?thesis by simp
    qed
  qed simp
  with assms show ?thesis by (simp add: task_of_def)
qed

lemma budget_filter:
  assumes "queue_wf d"
  shows "budget i (d\<lparr>tq_rows := filter P (tq_rows d)\<rparr>) \<le> budget i d"
proof (cases "task_of d i")
  case None
  then show ?thesis by (simp add: budget_def task_of_filter queue_wfD(3) [OF assms])
next
  case (Some t)
  then have "i < tq_next d" using queue_wfD(2) [OF assms] by (auto dest: task_of_SomeD)
  with Some show ?thesis by (simp add: budget_def task_of_filter queue_wfD(3) [OF assms])
qed

lemma task_of_insert:
  assumes "queue_wf d" "tk_id t = tq_next d"
  shows "task_of (insert_task d t) i = (if i = tq_next d then Some t else task_of d i)"
proof (cases "task_of d i")
  case None
  then show ?thesis using assms(2) by (auto simp: task_of_def insert_task_def find_append)
next
  case (Some u)
  then have "i < tq_next d" using queue_wfD(2) [OF assms(1)] by (auto dest: task_of_SomeD)
  with Some show ?thesis by (simp add: task_of_def insert_task_def find_append)
qed

lemma budget_insert:
  assumes wf: "queue_wf d" and id: "tk_id t = tq_next d" and m: "tk_max t - tk_attempts t \<le> 3"
  shows "budget i (insert_task d t) \<le> budget i d"
proof (cases "i = tq_next d")
  case True
  have "task_of d i = None"
  proof (cases "task_of d i")
    case (Some u)
    then have "i < tq_next d" using queue_wfD(2) [OF wf] by (auto dest: task_of_SomeD)
    with True show ?thesis by simp
  qed
  with True m show ?thesis by (simp add: budget_def task_of_insert [OF wf id])
next
  case False
  then have "task_of (insert_task d t) i = task_of d i" by (simp add: task_of_insert [OF wf id])
  then show ?thesis by (auto simp: budget_def insert_task_def split: option.splits)
qed

lemma row_budget_simps [simp]:
  "tk_max (claim_row w now t) = tk_max t" "tk_max (complete_row now t) = tk_max t"
  "tk_max (fail_row now e t) = tk_max t" "tk_max (requeue_row now t) = tk_max t"
  "tk_attempts (claim_row w now t) = tk_attempts t + 1"
  "tk_attempts (complete_row now t) = tk_attempts t"
  "tk_attempts (fail_row now e t) = tk_attempts t"
  "tk_attempts (requeue_row now t) = tk_attempts t + 1"
  "tk_max (new_task j now ty p) = 3" "tk_attempts (new_task j now ty p) = 0"
  "tk_max (marker_row j now ty) = 3" "tk_attempts (marker_row j now ty) = 0"
  by (simp_all add: claim_row_def complete_row_def fail_row_def requeue_row_def new_task_def
      marker_row_def)

lemma budget_enqueue_all:
  "queue_wf d \<Longrightarrow> budget i (enqueue_all now ty ps d) \<le> budget i d"
proof (induction ps arbitrary: d)
  case (Cons p ps)
  let ?d = "fst (enqueue now ty p d)"
  have "queue_wf ?d" using Cons.prems queue_wf_exec [of d "Enqueue now ty p"] by simp
  then have "budget i (enqueue_all now ty ps ?d) \<le> budget i ?d" by (rule Cons.IH)
  also have "\<dots> \<le> budget i d"
    using Cons.prems by (simp add: enqueue_def budget_insert)
  finally show ?case by simp
qed simp

lemma budget_requeue:
  assumes "queue_wf d"
  shows "budget i (fst (requeue_stale now mins d)) \<le> budget i d"
proof -
  let ?d = "d\<lparr>tq_rows := update_where (stale now mins) (requeue_row now) (tq_rows d)\<rparr>"
  have "queue_wf ?d"
    by (intro queue_wf_update [OF assms]) (auto intro: task_wf_requeue)
  then have "budget i (?d\<lparr>tq_rows := filter (\<lambda>t. \<not> expired_marker now t) (tq_rows ?d)\<rparr>)
      \<le> budget i ?d"
    by (rule budget_filter)
  also have "\<dots> \<le> budget i d" by (intro budget_update) simp_all
  finally show ?thesis by (simp add: requeue_stale_def Let_def)
qed

lemma budget_claim:
  assumes "queue_wf d"
  shows "budget i (exec_op (Claim w now locked tie) d) +
    (if claimed_of (Claim w now locked tie) d = Some i then 1 else 0) \<le> budget i d"
proof (cases "claim_next w now locked tie d")
  case (Pair d' r)
  show ?thesis
  proof (cases r)
    case None
    then have "d' = d" using Pair queue.claim_none [of "(w, now, locked, tie)" d d']
      by (simp add: claim_id_def)
    with Pair None show ?thesis by simp
  next
    case (Some t')
    with Pair have "claim_next w now locked tie d = (d', Some t')" by simp
    from claim_next_Some [OF assms this] obtain t where t: "task_of d (tk_id t) = Some t"
      "claimable now locked t" "t' = claim_row w now t"
      "\<And>j. task_of d' j = (if j = tk_id t then Some (claim_row w now t) else task_of d j)"
      by metis
    have nx: "tq_next d' = tq_next d"
      using Pair by (auto simp: claim_next_def Let_def split: list.splits)
    have lt: "tk_attempts t < tk_max t" using t(2) by (simp add: claimable_def)
    show ?thesis
      using Pair Some t nx lt by (auto simp: budget_def split: option.splits)
  qed
qed

text \<open>No operation writes \<open>max_attempts\<close>: it keeps the default of the column.\<close>

definition three_attempts :: "task_db \<Rightarrow> bool" where
  "three_attempts d \<longleftrightarrow> (\<forall>t \<in> set (tq_rows d). tk_max t = 3)"

lemma three_attempts_update:
  assumes "three_attempts d" "\<And>t. tk_max (f t) = tk_max t"
  shows "three_attempts (d\<lparr>tq_rows := update_where P f (tq_rows d)\<rparr>)"
  using assms by (auto simp: three_attempts_def set_update_where)

lemma three_attempts_insert:
  "three_attempts d \<Longrightarrow> tk_max t = 3 \<Longrightarrow> three_attempts (insert_task d t)"
  by (auto simp: three_attempts_def insert_task_def)

lemma three_attempts_enqueue_all: "three_attempts d \<Longrightarrow> three_attempts (enqueue_all now ty ps d)"
  by (induction ps arbitrary: d) (simp_all add: enqueue_def three_attempts_insert)

lemma retry_row_max [simp]: "tk_max (retry_row t) = tk_max t" "tk_attempts (retry_row t) = 0"
  by (simp_all add: retry_row_def)

lemma three_attempts_filter: "three_attempts d \<Longrightarrow> three_attempts (d\<lparr>tq_rows := filter P (tq_rows d)\<rparr>)"
  by (simp add: three_attempts_def)

lemma three_attempts_exec:
  assumes "three_attempts d"
  shows "three_attempts (exec_op op d)"
proof (cases op)
  case (Claim w now locked tie)
  then show ?thesis using assms by (auto simp: claim_next_def Let_def three_attempts_update split: list.split)
next
  case (RequeueStale now mins)
  have "three_attempts (d\<lparr>tq_rows := update_where (stale now mins) (requeue_row now) (tq_rows d)\<rparr>)"
    using assms by (simp add: three_attempts_update)
  then show ?thesis by (simp add: RequeueStale requeue_stale_def Let_def three_attempts_def)
qed (use assms in \<open>simp_all add: enqueue_def three_attempts_insert enqueue_many_def three_attempts_enqueue_all
    complete_def fail_def retry_failed_task_def three_attempts_update cleanup_completed_tasks_def
    three_attempts_filter check_no_pending_siblings_def\<close>)

lemma budget_retry:
  assumes "three_attempts d"
  shows "budget i (fst (retry_failed_task j d)) \<le> budget i d + (if j = i then 3 else 0)"
proof -
  let ?f = "\<lambda>t. if tk_id t = j \<and> tk_status t = Failed then retry_row t else t"
  have q: "task_of (fst (retry_failed_task j d)) i = map_option ?f (task_of d i)"
    by (simp add: retry_failed_task_def task_of_update_where retry_row_def)
  have n: "tq_next (fst (retry_failed_task j d)) = tq_next d" by (simp add: retry_failed_task_def)
  show ?thesis
  proof (cases "task_of d i")
    case None
    then show ?thesis by (simp add: budget_def q n)
  next
    case (Some t)
    then have "tk_max t = 3" "tk_id t = i" using assms by (auto simp: three_attempts_def dest: task_of_SomeD)
    with Some show ?thesis by (auto simp: budget_def q n)
  qed
qed

lemma budget_exec:
  assumes wf: "queue_wf d" and "three_attempts d"
  shows "budget i (exec_op op d) + (if claimed_of op d = Some i then 1 else 0) \<le>
    budget i d + 3 * count_list (retried [op]) i"
proof (cases op)
  case (Claim w now locked tie)
  then show ?thesis using budget_claim [OF wf] by (simp del: exec_op.simps claimed_of.simps)
next
  case (Enqueue now ty p)
  then show ?thesis using wf by (simp add: enqueue_def budget_insert)
next
  case (CheckSiblings now key val)
  then show ?thesis using wf by (simp add: check_no_pending_siblings_def budget_insert)
next
  case (RetryFailed j)
  then show ?thesis using budget_retry [OF assms(2), of i j] by (auto split: if_splits)
qed (simp_all add: enqueue_many_def budget_enqueue_all wf complete_def fail_def budget_update
    budget_requeue cleanup_completed_tasks_def budget_filter)

lemma retried_Cons: "count_list (retried (op # ops)) i = count_list (retried [op]) i + count_list (retried ops) i"
  by (cases op) simp_all

lemma executions_le_budget:
  "queue_wf d \<Longrightarrow> three_attempts d \<Longrightarrow>
    count_list (executions ops d) i \<le> budget i d + 3 * count_list (retried ops) i"
proof (induction ops arbitrary: d)
  case (Cons op ops)
  have "count_list (executions ops (exec_op op d)) i \<le> budget i (exec_op op d) + 3 * count_list (retried ops) i"
    using Cons.IH [OF queue_wf_exec [OF Cons.prems(1)] three_attempts_exec [OF Cons.prems(2)]] .
  moreover have "count_list (executions (op # ops) d) i =
      (if claimed_of op d = Some i then 1 else 0) + count_list (executions ops (exec_op op d)) i"
    by (auto split: option.splits)
  ultimately show ?case
    using budget_exec [OF Cons.prems, of i op] unfolding retried_Cons [of op ops] distrib_left by linarith
qed simp

section \<open>A concrete queue\<close>

definition queue_of_two :: task_db where
  "queue_of_two =
     \<lparr>tq_rows = [new_task 1 5 ''bulk'' [], new_task 2 5 ''bulk'' []], tq_next = 3\<rparr>"

definition queue_one_claimed :: task_db where
  "queue_one_claimed = \<lparr>tq_rows = [claim_row ''w'' 5 (new_task 1 5 ''bulk'' []),
     new_task 2 5 ''bulk'' []], tq_next = 3\<rparr>"

lemma queue_of_two_wf: "queue_wf queue_of_two"
  by (auto simp: queue_wf_def queue_of_two_def)

lemma queue_of_two_claims:
  "claim_next ''w'' 5 [] 0 queue_of_two =
     (queue_one_claimed, Some (claim_row ''w'' 5 (new_task 1 5 ''bulk'' [])))"
  "claim_next ''v'' 6 [] 0 queue_one_claimed =
     (queue_one_claimed\<lparr>tq_rows := [claim_row ''w'' 5 (new_task 1 5 ''bulk'' []),
        claim_row ''v'' 6 (new_task 2 5 ''bulk'' [])]\<rparr>,
      Some (claim_row ''v'' 6 (new_task 2 5 ''bulk'' [])))"
  by (simp_all add: queue_of_two_def queue_one_claimed_def claim_next_def oldest_claimable_def
      claimable_def new_task_def claim_row_def)

lemma queue_one_claimed_wf: "queue_wf queue_one_claimed"
  using queue_wf_claim [OF queue_of_two_wf, of "''w''" 5 "[]" 0] queue_of_two_claims(1) by simp

section \<open>Properties\<close>

text \<open>
  C1: in every queue that any sequence of the operations can produce, a pending task that is due can be
  claimed (it has an attempt left), and a call of \<open>claim_next\<close> that finds nothing locked claims some
  task: no task is pending and yet never claimable.
\<close>

theorem reachable_pending_not_stranded:
  assumes "queue_reachable d" and "t \<in> set (tq_rows d)" and "tk_status t = Pending"
    and "tk_run_at t = None \<or> tk_run_at t = Some r \<and> r \<le> now"
  shows "claimable now [] t \<and> snd (claim_next w now [] tie d) \<noteq> None"
proof
  have "task_wf t" using reachable_queue_wf [OF assms(1)] assms(2) by (simp add: queue_wf_def)
  then show c: "claimable now [] t" using assms(3,4) by (auto simp: claimable_def task_wf_def)
  show "snd (claim_next w now [] tie d) \<noteq> None"
    by (cases rule: claim_next_cases [of w now "[]" tie d]) (use c assms(2) in auto)
qed

theorem reachable_pending_not_stranded_witness:
  "snd (claim_next ''w'' 5 [] 0 (exec_op (Enqueue 5 ''bulk'' []) empty_queue)) \<noteq> None"
  using reachable_pending_not_stranded [of "exec_op (Enqueue 5 ''bulk'' []) empty_queue"
      "new_task 1 5 ''bulk'' []" 5 5 "''w''" 0]
    queue_reachable.step [OF queue_reachable.init, of "Enqueue 5 ''bulk'' []"]
  by (simp add: enqueue_def insert_task_def empty_queue_def new_task_def)

text \<open>
  C34: \<open>claim_next\<close> takes a pending task that is due, has attempts left and is not locked, the
  oldest such task; it marks exactly that row as running for the worker, counts the attempt and
  returns the updated row.
\<close>

theorem claim_next_takes_oldest_due:
  assumes "queue_wf d" and "claim_next w now locked tie d = (d', Some t')"
  shows "\<exists>t \<in> set (tq_rows d). tk_status t = Pending \<and> tk_attempts t < tk_max t \<and>
    (case tk_run_at t of None \<Rightarrow> True | Some r \<Rightarrow> r \<le> now) \<and> tk_id t \<notin> set locked \<and>
    (\<forall>u \<in> set (tq_rows d). claimable now locked u \<longrightarrow> tk_created t \<le> tk_created u) \<and>
    t' = t\<lparr>tk_status := Running, tk_started := Some now, tk_attempts := tk_attempts t + 1,
           tk_claimed := Some w\<rparr> \<and>
    tq_rows d' = map (\<lambda>r. if r = t then t' else r) (tq_rows d)"
proof (cases rule: claim_next_cases [of w now locked tie d])
  case none
  with assms(2) show ?thesis by simp
next
  case (some t)
  have "tk_id r = tk_id t \<longleftrightarrow> r = t" if "r \<in> set (tq_rows d)" for r
    using distinct_key_eq [OF queue_wfD(3) [OF assms(1)] that some(1)] by blast
  then have "update_where (\<lambda>r. tk_id r = tk_id t) (claim_row w now) (tq_rows d) =
      map (\<lambda>r. if r = t then claim_row w now t else r) (tq_rows d)"
    by (simp add: update_where_def)
  then show ?thesis
    using some assms(2) by (intro bexI [of _ t]) (auto simp: claimable_def claim_row_def)
qed

theorem claim_next_takes_oldest_due_witness:
  "\<exists>t \<in> set (tq_rows queue_of_two). tk_status t = Pending \<and>
    tq_rows (fst (claim_next ''w'' 5 [] 0 queue_of_two)) =
      map (\<lambda>r. if r = t then claim_row ''w'' 5 (new_task 1 5 ''bulk'' []) else r)
        (tq_rows queue_of_two)"
  using claim_next_takes_oldest_due [OF queue_of_two_wf queue_of_two_claims(1)]
    queue_of_two_claims(1) by auto

text \<open>
  two claims in a row, by the same or by different workers, never return the same task.
\<close>

theorem claims_return_distinct_tasks:
  assumes "queue_wf d" and "claim_next w now locked tie d = (d', Some t)"
    and "claim_next w' now' locked' tie' d' = (d'', Some t')"
  shows "tk_id t \<noteq> tk_id t'"
  using queue.claims_exclusive [of d "(w, now, locked, tie)" d' "tk_id t" "(w', now', locked', tie')"]
    assms by (simp add: claim_id_def)

theorem claims_return_distinct_tasks_witness:
  "tk_id (claim_row ''w'' 5 (new_task 1 5 ''bulk'' [])) \<noteq>
    tk_id (claim_row ''v'' 6 (new_task 2 5 ''bulk'' []))"
  by (rule claims_return_distinct_tasks [OF queue_of_two_wf queue_of_two_claims])

text \<open>
  C2: along any sequence of operations, starting with the empty queue, a task is handed to a
  worker at most three times, \<open>max_attempts\<close>, and three times more for every time it was sent
  back by hand, whatever fails, goes stale or is requeued in between.
\<close>

theorem executions_bounded:
  "count_list (executions ops empty_queue) i \<le> 3 + 3 * count_list (retried ops) i"
proof -
  have "count_list (executions ops empty_queue) i \<le> budget i empty_queue + 3 * count_list (retried ops) i"
    by (rule executions_le_budget [OF queue_wf_empty]) (simp add: three_attempts_def empty_queue_def)
  moreover have "budget i empty_queue \<le> 3" by (simp add: budget_def task_of_def empty_queue_def)
  ultimately show ?thesis by linarith
qed

lemma fail_cases:
  assumes "queue_wf d" and "task_of d i = Some t" and "tk_status t = Running"
    and "fail now i err d = (d', exhausted)"
  shows "exhausted \<longleftrightarrow> tk_attempts t = tk_max t"
    and "\<not> exhausted \<Longrightarrow> \<exists>t' r. task_of d' i = Some t' \<and> tk_status t' = Pending \<and>
      tk_run_at t' = Some r \<and> now + seconds 20 \<le> r \<and> r \<le> now + seconds 300 \<and>
      (\<forall>n locked. n < r \<longrightarrow> \<not> claimable n locked t') \<and> (\<forall>n \<ge> r. claimable n [] t')"
    and "exhausted \<Longrightarrow> status_of d' i = Some Failed"
proof -
  have wf: "task_wf t" using assms(1,2) by (auto simp: queue_wf_def dest: task_of_SomeD)
  then have a: "1 \<le> tk_attempts t" "tk_attempts t \<le> tk_max t"
    using assms(3) by (auto simp: task_wf_def)
  have ex: "exhausted \<longleftrightarrow> tk_attempts t \<ge> tk_max t"
    using assms(2,4) by (auto simp: fail_def task_of_def)
  then show "exhausted \<longleftrightarrow> tk_attempts t = tk_max t" using a by linarith
  have d': "d' = d\<lparr>tq_rows := update_where (\<lambda>t. tk_id t = i) (fail_row now err) (tq_rows d)\<rparr>"
    using assms(4) by (simp add: fail_def)
  have t': "task_of d' i = Some (fail_row now err t)"
    using assms(2) by (auto simp: d' task_of_update_where dest: task_of_SomeD)
  show "status_of d' i = Some Failed" if "exhausted"
    using t' that ex by (simp add: status_of_def fail_row_def)
  obtain k where k: "nat (tk_attempts t) = Suc k"
    using a(1) by (metis Suc_nat_eq_nat_zadd1 le_add_diff_inverse zle_diff1_eq
        add.commute diff_ge_0_iff_ge)
  have "(2 :: int) \<le> 2 ^ nat (tk_attempts t)" using one_le_power [of "2 :: int" k] by (simp add: k)
  then have b: "seconds 20 \<le> backoff (tk_attempts t)" "backoff (tk_attempts t) \<le> seconds 300"
    by (simp_all add: backoff_def seconds_def)
  let ?r = "now + backoff (tk_attempts t)"
  show "\<exists>t' r. task_of d' i = Some t' \<and> tk_status t' = Pending \<and>
      tk_run_at t' = Some r \<and> now + seconds 20 \<le> r \<and> r \<le> now + seconds 300 \<and>
      (\<forall>n locked. n < r \<longrightarrow> \<not> claimable n locked t') \<and> (\<forall>n \<ge> r. claimable n [] t')"
    if "\<not> exhausted"
    using t' that ex b
    by (intro exI [of _ "fail_row now err t"] exI [of _ ?r]) (auto simp: fail_row_def claimable_def)
qed

text \<open>
  a failure with attempts left sends the task back to pending, not to be claimed before
  its backoff of at least 20 and at most 300 seconds has passed; a failure on the last attempt
  is final, and only then does \<open>fail\<close> return true.
\<close>

theorem fail_requeues_with_backoff:
  assumes "queue_wf d" and "task_of d i = Some t" and "tk_status t = Running"
    and "fail now i err d = (d', exhausted)"
  shows "exhausted = (tk_attempts t = tk_max t) \<and>
    (if exhausted then status_of d' i = Some Failed
     else \<exists>t' r. task_of d' i = Some t' \<and> tk_status t' = Pending \<and>
      tk_run_at t' = Some r \<and> now + seconds 20 \<le> r \<and> r \<le> now + seconds 300 \<and>
      (\<forall>n locked. n < r \<longrightarrow> \<not> claimable n locked t') \<and> (\<forall>n \<ge> r. claimable n [] t'))"
  using fail_cases [OF assms] by (auto split: if_splits)

theorem fail_requeues_with_backoff_witness:
  "\<exists>t' r. task_of (fst (fail 7 1 ''boom'' queue_one_claimed)) 1 = Some t' \<and>
     tk_status t' = Pending \<and> tk_run_at t' = Some r \<and> 7 + seconds 20 \<le> r"
proof -
  have "task_of queue_one_claimed 1 = Some (claim_row ''w'' 5 (new_task 1 5 ''bulk'' []))"
    by (simp add: task_of_def queue_one_claimed_def)
  moreover have "tk_status (claim_row ''w'' 5 (new_task 1 5 ''bulk'' [])) = Running"
    by (simp add: claim_row_def)
  moreover have "fail 7 1 ''boom'' queue_one_claimed =
      (fst (fail 7 1 ''boom'' queue_one_claimed), False)"
    by (simp add: fail_def queue_one_claimed_def)
  ultimately show ?thesis
    using fail_requeues_with_backoff [OF queue_one_claimed_wf] by fastforce
qed

text \<open>
  The finalization claim of the fan-out jobs. \<open>finalizers\<close> counts how many calls of
  \<open>check_no_pending_siblings\<close> for one key are answered true along a run.
\<close>

fun wins :: "string \<Rightarrow> string \<Rightarrow> queue_op \<Rightarrow> task_db \<Rightarrow> bool" where
  "wins key val (CheckSiblings now k v) d =
     (k = key \<and> v = val \<and> snd (check_no_pending_siblings now k v d))"
| "wins key val _ d = False"

fun finalizers :: "string \<Rightarrow> string \<Rightarrow> queue_op list \<Rightarrow> task_db \<Rightarrow> nat" where
  "finalizers key val [] d = 0"
| "finalizers key val (op # ops) d =
     (if wins key val op d then 1 else 0) + finalizers key val ops (exec_op op d)"

text \<open>
  \<open>requeue_stale\<close> deletes markers that are older than a day. \<open>within t0 op\<close>: the operation reads the
  clock at \<open>t0\<close> or in the 24 hours after it.
\<close>

fun clock_of :: "queue_op \<Rightarrow> time option" where
  "clock_of (Enqueue now ty p) = Some now"
| "clock_of (EnqueueMany now ty ps) = Some now"
| "clock_of (Claim w now locked tie) = Some now"
| "clock_of (Complete now i) = Some now"
| "clock_of (FailTask now i e) = Some now"
| "clock_of (RequeueStale now mins) = Some now"
| "clock_of (CheckSiblings now key val) = Some now"
| "clock_of (RetryFailed i) = None"
| "clock_of (Cleanup now n) = Some now"

definition within :: "time \<Rightarrow> queue_op \<Rightarrow> bool" where
  "within t0 op \<longleftrightarrow> (case clock_of op of None \<Rightarrow> True | Some now \<Rightarrow> t0 \<le> now \<and> now \<le> t0 + hours 24)"

text \<open>A marker row of the type that is not completed before \<open>t0\<close>\<close>

definition young :: "time \<Rightarrow> task \<Rightarrow> bool" where
  "young t0 t \<longleftrightarrow> (case tk_completed t of None \<Rightarrow> True | Some c \<Rightarrow> t0 \<le> c)"

definition marked :: "time \<Rightarrow> string \<Rightarrow> task_db \<Rightarrow> bool" where
  "marked t0 ty d \<longleftrightarrow> (\<exists>t \<in> set (tq_rows d). tk_type t = ty \<and> young t0 t)"

lemma marked_update:
  assumes "marked t0 ty d" "\<And>t. tk_type (f t) = tk_type t" "\<And>t. young t0 t \<Longrightarrow> young t0 (f t)"
  shows "marked t0 ty (d\<lparr>tq_rows := update_where P f (tq_rows d)\<rparr>)"
proof -
  obtain t where t: "t \<in> set (tq_rows d)" "tk_type t = ty" "young t0 t" using assms(1) by (auto simp: marked_def)
  then have "(if P t then f t else t) \<in> set (update_where P f (tq_rows d))" by (auto simp: update_where_def)
  moreover have "tk_type (if P t then f t else t) = ty" "young t0 (if P t then f t else t)" using t assms(2,3) by auto
  ultimately show ?thesis by (auto simp: marked_def)
qed

lemma marked_insert: "marked t0 ty d \<Longrightarrow> marked t0 ty (insert_task d t)"
  by (auto simp: marked_def insert_task_def)

lemma marked_enqueue_all: "marked t0 ty d \<Longrightarrow> marked t0 ty (enqueue_all now ty' ps d)"
  by (induction ps arbitrary: d) (simp_all add: enqueue_def marked_insert)

lemma like_finalize_marker: "like_finalize (marker_type key val)"
  by (simp add: like_finalize_def marker_type_def)

lemma young_rows:
  "young t0 t \<Longrightarrow> young t0 (claim_row w now t)"
  "t0 \<le> now \<Longrightarrow> young t0 (complete_row now t)" "t0 \<le> now \<Longrightarrow> young t0 (fail_row now e t)"
  "t0 \<le> now \<Longrightarrow> young t0 (requeue_row now t)" "young t0 (retry_row t)"
  by (simp_all add: young_def claim_row_def complete_row_def fail_row_def requeue_row_def retry_row_def)

lemma row_types:
  "tk_type (claim_row w now t) = tk_type t" "tk_type (complete_row now t) = tk_type t"
  "tk_type (fail_row now e t) = tk_type t" "tk_type (requeue_row now t) = tk_type t" "tk_type (retry_row t) = tk_type t"
  by (simp_all add: claim_row_def complete_row_def fail_row_def requeue_row_def retry_row_def)

lemma marked_exec:
  assumes m: "marked t0 (marker_type key val) d" and w: "within t0 op"
  shows "marked t0 (marker_type key val) (exec_op op d)"
proof (cases op)
  case (Claim w now locked tie)
  then show ?thesis
    using m by (auto simp: claim_next_def Let_def marked_update young_rows row_types split: list.splits)
next
  case (Cleanup now n)
  then show ?thesis using m like_finalize_marker
    by (auto simp: cleanup_completed_tasks_def marked_def cleanable_def)
next
  case (RequeueStale now mins)
  let ?d = "d\<lparr>tq_rows := update_where (stale now mins) (requeue_row now) (tq_rows d)\<rparr>"
  have t: "t0 \<le> now" "now \<le> t0 + hours 24" using w RequeueStale by (simp_all add: within_def)
  have "marked t0 (marker_type key val) ?d" using m t(1) by (simp add: marked_update young_rows row_types)
  then have "marked t0 (marker_type key val) (?d\<lparr>tq_rows := filter (\<lambda>t. \<not> expired_marker now t) (tq_rows ?d)\<rparr>)"
    using t(2) by (fastforce simp: marked_def expired_marker_def young_def split: option.splits)
  then show ?thesis by (simp add: RequeueStale requeue_stale_def Let_def)
qed (use m w in \<open>simp_all add: enqueue_def marked_insert enqueue_many_def marked_enqueue_all within_def
    complete_def fail_def retry_failed_task_def marked_update young_rows row_types check_no_pending_siblings_def\<close>)

lemma wins_marker:
  assumes "wins key val op d"
  shows "\<not> marked t0 (marker_type key val) d"
    and "within t0 op \<Longrightarrow> marked t0 (marker_type key val) (exec_op op d)"
proof -
  obtain now where op: "op = CheckSiblings now key val"
    using assms by (cases op) auto
  then have t: "snd (check_no_pending_siblings now key val d)" using assms by simp
  then show "\<not> marked t0 (marker_type key val) d"
    by (auto simp: check_no_pending_siblings_def marked_def find_None_iff split: if_splits)
  show "marked t0 (marker_type key val) (exec_op op d)" if "within t0 op"
    using t op that by (auto simp: check_no_pending_siblings_def marked_def insert_task_def within_def
        marker_row_def new_task_def young_def split: if_splits)
qed

lemma no_finalizer_after_marker:
  "marked t0 (marker_type key val) d \<Longrightarrow> \<forall>op \<in> set ops. within t0 op \<Longrightarrow> finalizers key val ops d = 0"
proof (induction ops arbitrary: d)
  case (Cons op ops)
  then have "marked t0 (marker_type key val) (exec_op op d)" by (intro marked_exec) simp_all
  moreover have "\<not> wins key val op d" using wins_marker(1) Cons.prems(1) by blast
  ultimately show ?case using Cons by simp
qed simp

text \<open>
  C3: along any sequence of operations that takes at most 24 hours, \<open>requeue_stale\<close> with its purge of
  old markers included, at most one call of \<open>check_no_pending_siblings\<close> for a job is answered true: within
  a day a job is finalized at most once.
\<close>

theorem at_most_one_finalizer:
  assumes "\<forall>op \<in> set ops. within t0 op"
  shows "finalizers key val ops d \<le> 1"
  using assms
proof (induction ops arbitrary: d)
  case (Cons op ops)
  then have rest: "\<forall>op \<in> set ops. within t0 op" "within t0 op" by simp_all
  show ?case
  proof (cases "wins key val op d")
    case True
    then show ?thesis using no_finalizer_after_marker [OF wins_marker(2) [OF True rest(2)] rest(1)] by simp
  next
    case False
    then show ?thesis using Cons.IH [OF rest(1)] by simp
  qed
qed simp

theorem at_most_one_finalizer_witness:
  "finalizers ''list_id'' ''7''
     [CheckSiblings 1 ''list_id'' ''7'', RequeueStale 9 15, CheckSiblings 10 ''list_id'' ''7''] empty_queue \<le> 1"
  by (rule at_most_one_finalizer [where ?t0.0 = 1]) (simp add: within_def hours_def minutes_def seconds_def)

end
