(* ===== verification/Profiles.thy ===== *)
theory Profiles
  imports Py_Strings
begin

text \<open>
  The seller's profile: the JSON values stored in \<open>users.seller_profile\<close> and the
  functions of \<open>db/users.py\<close> that turn the onboarding answers and the website profile into
  the text given to the prompts. A Python exception (\<open>.strip()\<close> on a value that is not a
  string, iteration over a number) is \<open>None\<close>.
\<close>

section \<open>JSON values\<close>

datatype json = JNull | JBool bool | JInt int | JStr string | JList "json list"
  | JDict "(string \<times> json) list"

fun truthy :: "json \<Rightarrow> bool" where
  "truthy JNull = False"
| "truthy (JBool b) = b"
| "truthy (JInt i) = (i \<noteq> 0)"
| "truthy (JStr s) = (s \<noteq> [])"
| "truthy (JList xs) = (xs \<noteq> [])"
| "truthy (JDict d) = (d \<noteq> [])"

text \<open>\<open>d.get(k)\<close>, and \<open>v or w\<close>\<close>

definition dict_get :: "(string \<times> json) list \<Rightarrow> string \<Rightarrow> json" where
  "dict_get d k = (case map_of d k of None \<Rightarrow> JNull | Some v \<Rightarrow> v)"

definition or_else :: "json \<Rightarrow> json \<Rightarrow> json" where
  "or_else v w = (if truthy v then v else w)"

text \<open>\<open>str.strip\<close> of a value that has to be a string; iteration over a value\<close>

fun strip_value :: "json \<Rightarrow> string option" where
  "strip_value (JStr s) = Some (py_strip s)"
| "strip_value _ = None"

fun iterate :: "json \<Rightarrow> json list option" where
  "iterate (JStr s) = Some (map (\<lambda>c. JStr [c]) s)"
| "iterate (JList xs) = Some xs"
| "iterate (JDict d) = Some (map (\<lambda>e. JStr (fst e)) d)"
| "iterate _ = None"

text \<open>\<open>[p.strip() for p in xs if isinstance(p, str) and p.strip()]\<close>\<close>

fun clean_strings :: "json list \<Rightarrow> string list" where
  "clean_strings [] = []"
| "clean_strings (JStr s # xs) =
     (if py_strip s \<noteq> [] then py_strip s # clean_strings xs else clean_strings xs)"
| "clean_strings (_ # xs) = clean_strings xs"

lemma clean_strings_nonempty: "s \<in> set (clean_strings xs) \<Longrightarrow> s \<noteq> [] \<and> py_strip s = s"
  by (induction xs rule: clean_strings.induct) (auto split: if_splits)

section \<open>The stored profile\<close>

text \<open>
  \<open>_normalize_seller_profile\<close>; \<open>loads\<close> is \<open>json.loads\<close>, with \<open>None\<close> for a decode error.
\<close>

fun normalize_seller_profile ::
    "(string \<Rightarrow> json option) \<Rightarrow> json \<Rightarrow> (string \<times> json) list option" where
  "normalize_seller_profile loads (JDict d) = Some d"
| "normalize_seller_profile loads (JStr s) =
     (case loads s of Some (JDict d) \<Rightarrow> Some d | _ \<Rightarrow> None)"
| "normalize_seller_profile loads _ = None"

record profile =
  pf_company_name :: string
  pf_company_website :: string
  pf_product_name :: string
  pf_product_description :: string
  pf_problems_solved :: string
  pf_differentiators :: string
  pf_target_company_size :: string
  pf_target_industries :: string
  pf_target_personas :: string
  pf_competitors :: string
  pf_product_type :: string
  pf_custom_signals :: string
  pf_solution_motion :: string
  pf_seller_product_category :: string

definition labelled :: "string \<Rightarrow> string \<Rightarrow> string list" where
  "labelled label v = (if v \<noteq> [] then [label @ v] else [])"

definition context_parts :: "profile \<Rightarrow> string list" where
  "context_parts p =
     labelled ''**Product:** '' (pf_product_name p) @
     labelled ''**Seller product category:** '' (pf_seller_product_category p) @
     labelled ''**What it does:** '' (pf_product_description p) @
     labelled ''**Problems it solves:** '' (pf_problems_solved p) @
     labelled ''**Key differentiators:** '' (pf_differentiators p) @
     labelled ''**Target company size:** '' (pf_target_company_size p) @
     labelled ''**Buyer company verticals:** '' (pf_target_industries p) @
     labelled ''**Target personas:** '' (pf_target_personas p) @
     labelled ''**Competitors:** '' (pf_competitors p) @
     labelled ''**Custom signals:** '' (pf_custom_signals p)"

definition newline :: string where
  "newline = [CHR 0x0A]"

definition build_product_context :: "profile \<Rightarrow> string" where
  "build_product_context p = py_join newline
     (if context_parts p = []
      then [''(Product details to be extracted from uploaded materials)'']
      else context_parts p)"

definition strip_field :: "(string \<times> json) list \<Rightarrow> string \<Rightarrow> string option" where
  "strip_field d k = strip_value (or_else (dict_get d k) (JStr []))"

definition list_field :: "(string \<times> json) list \<Rightarrow> string \<Rightarrow> string list option" where
  "list_field d k = map_option clean_strings (iterate (or_else (dict_get d k) (JList [])))"

text \<open>One list line of the profile: at most \<open>n\<close> entries, no line when there is none.\<close>

definition list_line :: "string \<Rightarrow> nat \<Rightarrow> string list \<Rightarrow> string list" where
  "list_line label n xs = (if xs = [] then [] else [label @ py_join '', '' (take n xs)])"

definition field_line ::
    "(string \<times> json) list \<Rightarrow> string \<Rightarrow> string \<Rightarrow> nat \<Rightarrow> string list option" where
  "field_line d k label n = map_option (list_line label n) (list_field d k)"

definition text_line :: "(string \<times> json) list \<Rightarrow> string \<Rightarrow> string \<Rightarrow> string list option" where
  "text_line d k label = map_option (labelled label) (strip_field d k)"

fun concat_options :: "'a list option list \<Rightarrow> 'a list option" where
  "concat_options [] = Some []"
| "concat_options (None # xs) = None"
| "concat_options (Some x # xs) = map_option ((@) x) (concat_options xs)"

definition seller_profile_lines :: "(string \<times> json) list \<Rightarrow> string list option" where
  "seller_profile_lines d = concat_options [
     text_line d ''one_liner'' ''- Website value proposition: '',
     field_line d ''problems_solved'' ''- Website-derived problems solved: '' 5,
     field_line d ''target_personas'' ''- Website-derived target personas: '' 5,
     field_line d ''target_industries'' ''- Website-derived target industries: '' 6,
     field_line d ''target_company_sizes'' ''- Website-derived target company sizes: '' 4,
     field_line d ''differentiators'' ''- Website-derived differentiators: '' 5,
     field_line d ''proof_points'' ''- Website-derived proof points: '' 4,
     field_line d ''keywords_to_seek'' ''- Keywords to seek in account research: '' 8,
     text_line d ''notes'' ''- Notes: '',
     field_line d ''source_pages'' ''- Source pages: '' 4]"

definition build_seller_profile_context ::
    "(string \<Rightarrow> json option) \<Rightarrow> json \<Rightarrow> string option" where
  "build_seller_profile_context loads v = (case normalize_seller_profile loads v of
     None \<Rightarrow> Some []
   | Some d \<Rightarrow> if d = [] then Some []
       else map_option (\<lambda>ls. py_join newline
         (''SELLER WEBSITE PROFILE (derived from the seller's public website):'' # ls))
         (seller_profile_lines d))"

text \<open>
  \<open>get_effective_product_context\<close> and \<open>get_effective_problems_solved\<close>; the argument
  \<open>base\<close> is \<open>user.get("product_context") or ""\<close>, \<open>manual\<close> the onboarding answer.
\<close>

definition get_effective_product_context ::
    "(string \<Rightarrow> json option) \<Rightarrow> string \<Rightarrow> json \<Rightarrow> string option" where
  "get_effective_product_context loads base v =
     map_option (\<lambda>ctx. let b = py_strip base in
        if b \<noteq> [] \<and> ctx \<noteq> [] then b @ newline @ newline @ ctx
        else if b \<noteq> [] then b else ctx)
       (build_seller_profile_context loads v)"

definition get_effective_problems_solved ::
    "(string \<Rightarrow> json option) \<Rightarrow> string \<Rightarrow> json \<Rightarrow> string option" where
  "get_effective_problems_solved loads manual v =
     (if py_strip manual \<noteq> [] then Some (py_strip manual)
      else map_option (\<lambda>ps. py_join ''; '' (take 5 ps))
        (list_field (case normalize_seller_profile loads v of None \<Rightarrow> [] | Some d \<Rightarrow> d)
          ''problems_solved''))"

section \<open>Laws\<close>

lemma labelled_nonempty: "x \<in> set (labelled l v) \<Longrightarrow> v \<noteq> [] \<and> x = l @ v"
  by (simp add: labelled_def split: if_splits)

lemma py_join_nonempty: "xs \<noteq> [] \<Longrightarrow> (\<And>x. x \<in> set xs \<Longrightarrow> x \<noteq> []) \<Longrightarrow> py_join sep xs \<noteq> []"
  by (induction sep xs rule: py_join.induct) auto

lemma context_parts_nonempty: "x \<in> set (context_parts p) \<Longrightarrow> x \<noteq> []"
  by (auto simp: context_parts_def dest: labelled_nonempty)

lemma build_product_context_nonempty: "build_product_context p \<noteq> []"
  unfolding build_product_context_def
  by (rule py_join_nonempty) (auto dest: context_parts_nonempty split: if_splits)

lemma effective_problems_manual:
  "py_strip manual \<noteq> [] \<Longrightarrow> get_effective_problems_solved loads manual v = Some (py_strip manual)"
  by (simp add: get_effective_problems_solved_def)

text \<open>The website profile never hides what the user typed: the base context is a prefix.\<close>

lemma effective_context_keeps_base:
  "get_effective_product_context loads base v = Some ctx \<Longrightarrow> prefix (py_strip base) ctx"
  by (auto simp: get_effective_product_context_def Let_def split: if_splits)

end
