(* ===== verification/Accounts.thy ===== *)
theory Accounts
  imports Profiles
begin

text \<open>
  The tables \<open>users\<close>, \<open>organizations\<close>, \<open>org_members\<close>, \<open>org_invites\<close>,
  \<open>credit_ledger\<close> and \<open>fulfilled_sessions\<close> (migrations 001 and 024), the in-process usage
  cache, and the user operations of \<open>db/users.py\<close>. A unique or foreign-key violation aborts
  the transaction: the operation returns the error and leaves the state as it was. (Gaps that an
  aborted insert leaves in a sequence are not modelled.)
\<close>

section \<open>Rows\<close>

datatype db_error = UniqueViolation | ForeignKeyViolation | MissingRow

datatype role = Admin | Member | Viewer

record user_row =
  us_id :: int
  us_email :: string
  us_name :: string
  us_picture :: string
  us_google :: "string option"
  us_microsoft :: "string option"
  us_org :: "int option"
  us_is_admin :: bool
  us_bonus :: int
  us_searches :: int
  us_stripe :: "string option"
  us_subscription :: "string option"
  us_sub_status :: string
  us_context :: string
  us_profile :: profile
  us_seller :: json
  us_seller_at :: "time option"

record org_row =
  og_id :: int
  og_name :: string
  og_slug :: string
  og_bonus :: int
  og_stripe :: "string option"

record member_row =
  mb_org :: int
  mb_user :: int
  mb_role :: role
  mb_joined :: time

record invite_row =
  iv_id :: int
  iv_org :: int
  iv_email :: string
  iv_role :: role
  iv_token :: string
  iv_by :: int
  iv_accepted :: "time option"
  iv_expires :: time
  iv_created :: time

datatype ledger_op = LedgerCharge | LedgerRefund | LedgerTopup

record ledger_row =
  lg_org :: int
  lg_amount :: int
  lg_after :: int
  lg_op :: ledger_op

record session_row =
  fs_session :: string
  fs_user :: int
  fs_credits :: int
  fs_org :: "int option"

record usage =
  ug_searches :: int
  ug_credits :: int
  ug_status :: string
  ug_is_admin :: bool

record accounts =
  ac_users :: "user_row list"
  ac_orgs :: "org_row list"
  ac_members :: "member_row list"
  ac_invites :: "invite_row list"
  ac_ledger :: "ledger_row list"
  ac_sessions :: "session_row list"
  ac_usage_cache :: "int \<Rightarrow> usage option"
  ac_auth_cache :: "int list"
  ac_next_user :: int
  ac_next_org :: int
  ac_next_invite :: int

section \<open>Lookups\<close>

definition user_of :: "accounts \<Rightarrow> int \<Rightarrow> user_row option" where
  "user_of a uid = find (\<lambda>u. us_id u = uid) (ac_users a)"

definition org_row_of :: "accounts \<Rightarrow> int \<Rightarrow> org_row option" where
  "org_row_of a oid = find (\<lambda>g. og_id g = oid) (ac_orgs a)"

text \<open>\<open>SELECT org_id FROM users WHERE id = $1\<close>\<close>

definition org_of_user :: "accounts \<Rightarrow> int \<Rightarrow> int option" where
  "org_of_user a uid = (case user_of a uid of None \<Rightarrow> None | Some u \<Rightarrow> us_org u)"

definition balance_of :: "accounts \<Rightarrow> int \<Rightarrow> int option" where
  "balance_of a oid = map_option og_bonus (org_row_of a oid)"

definition get_user_by_google_id :: "string \<Rightarrow> accounts \<Rightarrow> user_row option" where
  "get_user_by_google_id g a = find (\<lambda>u. us_google u = Some g) (ac_users a)"

definition get_user_by_microsoft_id :: "string \<Rightarrow> accounts \<Rightarrow> user_row option" where
  "get_user_by_microsoft_id m a = find (\<lambda>u. us_microsoft u = Some m) (ac_users a)"

text \<open>
  \<open>get_user_by_id\<close> joins the user with every membership row of the user and with the
  organization of \<open>users.org_id\<close>; \<open>fetchrow\<close> returns one of the joined rows, and the query
  does not order them: \<open>tie\<close> says which membership the database returns first.
\<close>

record user_view =
  vw_user :: user_row
  vw_role :: "role option"
  vw_org_name :: "string option"
  vw_org_slug :: "string option"
  vw_org_credits :: "int option"
  vw_org_stripe :: "string option"

definition joined_roles :: "accounts \<Rightarrow> int \<Rightarrow> role option list" where
  "joined_roles a uid =
     (case filter (\<lambda>m. mb_user m = uid) (ac_members a) of
        [] \<Rightarrow> [None] | ms \<Rightarrow> map (\<lambda>m. Some (mb_role m)) ms)"

definition get_user_by_id :: "nat \<Rightarrow> int \<Rightarrow> accounts \<Rightarrow> user_view option" where
  "get_user_by_id tie uid a = (case user_of a uid of
     None \<Rightarrow> None
   | Some u \<Rightarrow>
       let g = (case us_org u of None \<Rightarrow> None | Some oid \<Rightarrow> org_row_of a oid);
           roles = joined_roles a uid
       in Some \<lparr>vw_user = u, vw_role = roles ! (tie mod length roles),
            vw_org_name = map_option og_name g, vw_org_slug = map_option og_slug g,
            vw_org_credits = map_option og_bonus g,
            vw_org_stripe = (case g of None \<Rightarrow> None | Some r \<Rightarrow> og_stripe r)\<rparr>)"

section \<open>Creating users\<close>

definition empty_profile :: profile where
  "empty_profile = \<lparr>pf_company_name = [], pf_company_website = [], pf_product_name = [],
     pf_product_description = [], pf_problems_solved = [], pf_differentiators = [],
     pf_target_company_size = [], pf_target_industries = [], pf_target_personas = [],
     pf_competitors = [], pf_product_type = [], pf_custom_signals = [], pf_solution_motion = [],
     pf_seller_product_category = []\<rparr>"

definition new_user ::
    "int \<Rightarrow> string \<Rightarrow> string \<Rightarrow> string \<Rightarrow> string option \<Rightarrow> string option \<Rightarrow> user_row" where
  "new_user i email name picture g m = \<lparr>us_id = i, us_email = email, us_name = name,
     us_picture = picture, us_google = g, us_microsoft = m, us_org = None, us_is_admin = False,
     us_bonus = 0, us_searches = 0, us_stripe = None, us_subscription = None,
     us_sub_status = ''none'', us_context = [], us_profile = empty_profile, us_seller = JNull,
     us_seller_at = None\<rparr>"

definition slug_for :: "int \<Rightarrow> string" where
  "slug_for uid = ''user-'' @ str_int uid"

definition same_identity :: "string option \<Rightarrow> string option \<Rightarrow> bool" where
  "same_identity x y \<longleftrightarrow> x \<noteq> None \<and> x = y"

text \<open>
  The common transaction of \<open>create_user\<close> and \<open>create_user_microsoft\<close>: insert the user,
  insert a one-person organization that holds the 1000 cents of starting credit, point the user
  at it and make the user its admin.
\<close>

definition add_user_with_org :: "time \<Rightarrow> user_row \<Rightarrow> string \<Rightarrow> accounts \<Rightarrow> accounts" where
  "add_user_with_org now u org_name a =
     a\<lparr>ac_users := ac_users a @ [u\<lparr>us_org := Some (ac_next_org a)\<rparr>],
       ac_orgs := ac_orgs a @ [\<lparr>og_id = ac_next_org a, og_name = org_name,
         og_slug = slug_for (us_id u), og_bonus = 1000, og_stripe = None\<rparr>],
       ac_members := ac_members a @ [\<lparr>mb_org = ac_next_org a, mb_user = us_id u,
         mb_role = Admin, mb_joined = now\<rparr>],
       ac_next_user := ac_next_user a + 1, ac_next_org := ac_next_org a + 1\<rparr>"

definition create_user_with ::
    "time \<Rightarrow> string \<Rightarrow> string \<Rightarrow> string \<Rightarrow> string option \<Rightarrow> string option \<Rightarrow> accounts
     \<Rightarrow> db_error + (accounts \<times> user_view)" where
  "create_user_with now email name picture g m a =
     (if (\<exists>u \<in> set (ac_users a). us_email u = email \<or> same_identity (us_google u) g \<or>
            same_identity (us_microsoft u) m) then Inl UniqueViolation
      else let u = new_user (ac_next_user a) email name picture g m;
               org_name = (if name \<noteq> [] then name else email) in
        if (\<exists>r \<in> set (ac_orgs a). og_slug r = slug_for (us_id u)) then Inl UniqueViolation
        else Inr (add_user_with_org now u org_name a,
           \<lparr>vw_user = u\<lparr>us_org := Some (ac_next_org a)\<rparr>, vw_role = Some Admin,
            vw_org_name = Some org_name, vw_org_slug = Some (slug_for (us_id u)),
            vw_org_credits = Some 1000, vw_org_stripe = None\<rparr>))"

definition create_user ::
    "time \<Rightarrow> string \<Rightarrow> string \<Rightarrow> string \<Rightarrow> string \<Rightarrow> accounts \<Rightarrow> db_error + (accounts \<times> user_view)" where
  "create_user now email name picture google_id a =
     create_user_with now email name picture (Some google_id) None a"

definition create_user_microsoft ::
    "time \<Rightarrow> string \<Rightarrow> string \<Rightarrow> string \<Rightarrow> string \<Rightarrow> accounts \<Rightarrow> db_error + (accounts \<times> user_view)" where
  "create_user_microsoft now email name picture microsoft_id a =
     create_user_with now email name picture None (Some microsoft_id) a"

section \<open>Updating users\<close>

text \<open>
  \<open>invalidate_user_cache\<close> drops the cached authentication record; the cache itself
  (\<open>cachetools.TTLCache\<close>) may also forget any entry at any time.
\<close>

definition invalidate_user_cache :: "int \<Rightarrow> accounts \<Rightarrow> accounts" where
  "invalidate_user_cache uid a = a\<lparr>ac_auth_cache := removeAll uid (ac_auth_cache a)\<rparr>"

definition update_user_where :: "int \<Rightarrow> (user_row \<Rightarrow> user_row) \<Rightarrow> accounts \<Rightarrow> accounts" where
  "update_user_where uid f a = a\<lparr>ac_users := update_where (\<lambda>u. us_id u = uid) f (ac_users a)\<rparr>"

definition update_user_profile ::
    "int \<Rightarrow> profile \<Rightarrow> accounts \<Rightarrow> db_error + (accounts \<times> user_row)" where
  "update_user_profile uid p a =
     (let p' = p\<lparr>pf_company_website := py_strip (pf_company_website p)\<rparr>;
          f = (\<lambda>u. u\<lparr>us_profile := p', us_context := build_product_context p\<rparr>);
          a' = invalidate_user_cache uid (update_user_where uid f a)
      in case user_of a' uid of None \<Rightarrow> Inl MissingRow | Some u \<Rightarrow> Inr (a', u))"

definition clear_seller_profile :: "int \<Rightarrow> accounts \<Rightarrow> accounts" where
  "clear_seller_profile uid a = invalidate_user_cache uid
     (update_user_where uid (\<lambda>u. u\<lparr>us_seller := JNull, us_seller_at := None\<rparr>) a)"

definition update_seller_profile ::
    "time \<Rightarrow> int \<Rightarrow> string \<Rightarrow> (string \<times> json) list \<Rightarrow> accounts \<Rightarrow>
     db_error + (accounts \<times> user_row)" where
  "update_seller_profile now uid website sp a =
     (let f = (\<lambda>u. u\<lparr>us_profile := (us_profile u)\<lparr>pf_company_website := py_strip website\<rparr>,
                us_seller := JDict sp, us_seller_at := Some now\<rparr>);
          a' = invalidate_user_cache uid (update_user_where uid f a)
      in case user_of a' uid of None \<Rightarrow> Inl MissingRow | Some u \<Rightarrow> Inr (a', u))"

definition update_user_stripe ::
    "int \<Rightarrow> string \<Rightarrow> string option \<Rightarrow> string \<Rightarrow> accounts \<Rightarrow> db_error + (accounts \<times> user_row)" where
  "update_user_stripe uid customer subscription status a =
     (if (\<exists>u \<in> set (ac_users a). us_id u \<noteq> uid \<and> us_stripe u = Some customer) \<and>
         user_of a uid \<noteq> None then Inl UniqueViolation
      else let a' = update_user_where uid (\<lambda>u. u\<lparr>us_stripe := Some customer,
                 us_subscription := subscription, us_sub_status := status\<rparr>) a
        in case user_of a' uid of None \<Rightarrow> Inl MissingRow | Some u \<Rightarrow> Inr (a', u))"

definition toggle_admin :: "int \<Rightarrow> accounts \<Rightarrow> accounts \<times> bool" where
  "toggle_admin uid a =
     (let a' = update_user_where uid (\<lambda>u. u\<lparr>us_is_admin := \<not> us_is_admin u\<rparr>) a
      in (a', case user_of a' uid of None \<Rightarrow> False | Some u \<Rightarrow> us_is_admin u))"

section \<open>Well-formed account tables\<close>

definition accounts_wf :: "accounts \<Rightarrow> bool" where
  "accounts_wf a \<longleftrightarrow> distinct (map us_id (ac_users a)) \<and> distinct (map og_id (ac_orgs a)) \<and>
     distinct (map og_slug (ac_orgs a)) \<and> distinct (map fs_session (ac_sessions a)) \<and>
     distinct (map (\<lambda>m. (mb_org m, mb_user m)) (ac_members a)) \<and>
     (\<forall>u \<in> set (ac_users a). us_id u < ac_next_user a) \<and>
     (\<forall>g \<in> set (ac_orgs a). og_id g < ac_next_org a) \<and>
     (\<forall>m \<in> set (ac_members a). mb_org m < ac_next_org a) \<and>
     (\<forall>g \<in> set (ac_orgs a). 0 \<le> og_bonus g)"

lemma user_of_mem: "user_of a uid = Some u \<Longrightarrow> u \<in> set (ac_users a) \<and> us_id u = uid"
  unfolding user_of_def by (drule find_Some_mem) simp

lemma org_row_of_mem: "org_row_of a oid = Some g \<Longrightarrow> g \<in> set (ac_orgs a) \<and> og_id g = oid"
  unfolding org_row_of_def by (drule find_Some_mem) simp

lemma user_of_update:
  assumes "\<And>u. us_id (f u) = us_id u"
  shows "user_of (update_user_where uid f a) i =
    map_option (\<lambda>u. if us_id u = uid then f u else u) (user_of a i)"
  using assms by (simp add: user_of_def update_user_where_def find_update_where)

lemma distinct_map_snoc: "distinct (map f (xs @ [x])) \<longleftrightarrow> distinct (map f xs) \<and> f x \<notin> f ` set xs"
  by simp

lemma accounts_wf_add:
  assumes "accounts_wf a" "us_id u = ac_next_user a"
    and "\<forall>r \<in> set (ac_orgs a). og_slug r \<noteq> slug_for (us_id u)"
  shows "accounts_wf (add_user_with_org now u org_name a)"
proof -
  have "ac_next_user a \<notin> us_id ` set (ac_users a)" "ac_next_org a \<notin> og_id ` set (ac_orgs a)"
    "slug_for (us_id u) \<notin> og_slug ` set (ac_orgs a)"
    "(ac_next_org a, us_id u) \<notin> (\<lambda>m. (mb_org m, mb_user m)) ` set (ac_members a)"
    using assms by (force simp: accounts_wf_def)+
  with assms show ?thesis
    unfolding accounts_wf_def add_user_with_org_def
    by (simp add: distinct_map_snoc del: map_append) force
qed

lemma create_user_wf:
  assumes "accounts_wf a" and "create_user_with now e n pic g m a = Inr (a', v)"
  shows "accounts_wf a'"
proof -
  let ?u = "new_user (ac_next_user a) e n pic g m"
  have "us_id ?u = ac_next_user a" by (simp add: new_user_def)
  with assms show ?thesis
    by (auto simp: create_user_with_def Let_def intro!: accounts_wf_add split: if_splits)
qed

end
