(* ===== verification/Credits.thy ===== *)
theory Credits
  imports Accounts
begin

text \<open>
  The credit pool of an organization: \<open>use_credit\<close>, \<open>refund_credit\<close>, \<open>add_credits\<close>,
  \<open>fulfill_session\<close> and \<open>get_user_usage\<close> of \<open>db/users.py\<close>, the conditional update of
  \<open>db/jobs.py\<close> and \<open>db/bulk.py\<close>, and \<open>db/credit_ledger.py\<close>. Amounts are in cents (100
  cents are one credit). The interface \<open>credit_pool\<close> states what the callers rely on.
\<close>

section \<open>The SQL statements\<close>

text \<open>\<open>UPDATE organizations SET bonus_credits = bonus_credits + n WHERE id = ... RETURNING\<close>\<close>

definition add_to_org :: "int \<Rightarrow> int \<Rightarrow> accounts \<Rightarrow> accounts" where
  "add_to_org oid n a = a\<lparr>ac_orgs :=
     update_where (\<lambda>g. og_id g = oid) (\<lambda>g. g\<lparr>og_bonus := og_bonus g + n\<rparr>) (ac_orgs a)\<rparr>"

definition invalidate_usage_cache :: "int \<Rightarrow> accounts \<Rightarrow> accounts" where
  "invalidate_usage_cache uid a = a\<lparr>ac_usage_cache := (ac_usage_cache a)(uid := None)\<rparr>"

text \<open>
  \<open>record_credit_event\<close> writes on a connection of its own and swallows every exception:
  \<open>ok\<close> says whether the insert succeeded.
\<close>

definition record_credit_event ::
    "bool \<Rightarrow> int \<Rightarrow> int \<Rightarrow> int \<Rightarrow> ledger_op \<Rightarrow> accounts \<Rightarrow> accounts" where
  "record_credit_event ok oid amount after_balance operation a =
     (if ok then a\<lparr>ac_ledger := ac_ledger a @
        [\<lparr>lg_org = oid, lg_amount = amount, lg_after = after_balance, lg_op = operation\<rparr>]\<rparr>
      else a)"

text \<open>
  The conditional charge: the organization of the user pays if its balance covers the amount.
  Returns the organization and its new balance, or nothing.
\<close>

definition charge_org :: "int \<Rightarrow> int \<Rightarrow> accounts \<Rightarrow> accounts \<times> (int \<times> int) option" where
  "charge_org uid cents a = (case org_of_user a uid of
     None \<Rightarrow> (a, None)
   | Some oid \<Rightarrow> (case balance_of a oid of
       None \<Rightarrow> (a, None)
     | Some b \<Rightarrow> if b \<ge> cents then (add_to_org oid (- cents) a, Some (oid, b - cents))
                 else (a, None)))"

definition credit_org :: "int \<Rightarrow> int \<Rightarrow> accounts \<Rightarrow> accounts \<times> (int \<times> int) option" where
  "credit_org uid cents a = (case org_of_user a uid of
     None \<Rightarrow> (a, None)
   | Some oid \<Rightarrow> (case balance_of a oid of
       None \<Rightarrow> (a, None)
     | Some b \<Rightarrow> (add_to_org oid cents a, Some (oid, b + cents))))"

section \<open>The operations\<close>

definition use_credit_conn :: "int \<Rightarrow> int \<Rightarrow> accounts \<Rightarrow> accounts \<times> bool" where
  "use_credit_conn uid cents a = (case charge_org uid cents a of
     (a', None) \<Rightarrow> (a', False) | (a', Some _) \<Rightarrow> (a', True))"

definition use_credit :: "bool \<Rightarrow> int \<Rightarrow> int \<Rightarrow> accounts \<Rightarrow> accounts \<times> bool" where
  "use_credit ledger_ok uid cents a = (case charge_org uid cents a of
     (a', None) \<Rightarrow> (invalidate_usage_cache uid a', False)
   | (a', Some (oid, b)) \<Rightarrow>
       (record_credit_event ledger_ok oid (- cents) b LedgerCharge (invalidate_usage_cache uid a'),
        True))"

definition refund_credit :: "bool \<Rightarrow> int \<Rightarrow> int \<Rightarrow> accounts \<Rightarrow> accounts" where
  "refund_credit ledger_ok uid cents a = (case credit_org uid cents a of
     (a', None) \<Rightarrow> invalidate_usage_cache uid a'
   | (a', Some (oid, b)) \<Rightarrow>
       record_credit_event ledger_ok oid cents b LedgerRefund (invalidate_usage_cache uid a'))"

text \<open>\<open>add_credits\<close> subscripts the returned row, which raises when there is none.\<close>

definition add_credits :: "int \<Rightarrow> int \<Rightarrow> accounts \<Rightarrow> db_error + (accounts \<times> int)" where
  "add_credits uid credits a = (case credit_org uid (credits * 100) a of
     (a', None) \<Rightarrow> Inl MissingRow
   | (a', Some (oid, b)) \<Rightarrow> Inr (invalidate_usage_cache uid a', b))"

definition fulfill_session ::
    "bool \<Rightarrow> string \<Rightarrow> int \<Rightarrow> int \<Rightarrow> accounts \<Rightarrow> db_error + (accounts \<times> bool)" where
  "fulfill_session ledger_ok session uid credits a =
     (let oid = org_of_user a uid in
      if (\<exists>f \<in> set (ac_sessions a). fs_session f = session) then Inr (a, False)
      else if user_of a uid = None then Inl ForeignKeyViolation
      else
        let a1 = a\<lparr>ac_sessions := ac_sessions a @ [\<lparr>fs_session = session, fs_user = uid,
                     fs_credits = credits, fs_org = oid\<rparr>]\<rparr>
        in (case oid of
              None \<Rightarrow> Inr (a1, True)
            | Some g \<Rightarrow> (case balance_of a1 g of
                None \<Rightarrow> Inr (a1, True)
              | Some b \<Rightarrow> Inr (record_credit_event ledger_ok g (credits * 100) (b + credits * 100)
                  LedgerTopup (add_to_org g (credits * 100) a1), True))))"

text \<open>
  \<open>get_user_usage\<close> goes through a \<open>TTLCache\<close>; \<open>live\<close> says whether the cache still
  holds the entry it was last given.
\<close>

definition usage_of :: "accounts \<Rightarrow> user_row \<Rightarrow> usage" where
  "usage_of a u = \<lparr>ug_searches = us_searches u,
     ug_credits = (case us_org u of None \<Rightarrow> us_bonus u
                   | Some oid \<Rightarrow> coalesce (balance_of a oid) (us_bonus u)),
     ug_status = us_sub_status u, ug_is_admin = us_is_admin u\<rparr>"

definition get_user_usage :: "bool \<Rightarrow> int \<Rightarrow> accounts \<Rightarrow> accounts \<times> usage option" where
  "get_user_usage live uid a =
     (case (if live then ac_usage_cache a uid else None) of
        Some g \<Rightarrow> (a, Some g)
      | None \<Rightarrow> (case user_of a uid of
          None \<Rightarrow> (a, None)
        | Some u \<Rightarrow> (a\<lparr>ac_usage_cache := (ac_usage_cache a)(uid \<mapsto> usage_of a u)\<rparr>,
            Some (usage_of a u))))"

definition get_credit_history :: "int \<Rightarrow> nat \<Rightarrow> accounts \<Rightarrow> ledger_row list" where
  "get_credit_history oid limit a =
     take limit (rev (filter (\<lambda>l. lg_org l = oid) (ac_ledger a)))"

section \<open>What the statements do\<close>

lemma org_of_user_simps [simp]:
  "org_of_user (add_to_org oid n a) = org_of_user a"
  "org_of_user (invalidate_usage_cache uid a) = org_of_user a"
  "org_of_user (record_credit_event ok oid n b k a) = org_of_user a"
  by (auto simp: org_of_user_def user_of_def add_to_org_def invalidate_usage_cache_def
      record_credit_event_def)

lemma balance_of_simps [simp]:
  "balance_of (invalidate_usage_cache uid a) = balance_of a"
  "balance_of (record_credit_event ok oid n b k a) = balance_of a"
  "balance_of (a\<lparr>ac_sessions := ss\<rparr>) = balance_of a"
  by (auto simp: balance_of_def org_row_of_def invalidate_usage_cache_def record_credit_event_def
      fun_eq_iff)

lemma balance_of_add_to_org:
  "balance_of (add_to_org oid n a) i =
     (if i = oid then map_option (\<lambda>b. b + n) (balance_of a i) else balance_of a i)"
proof -
  have "org_row_of (add_to_org oid n a) i = map_option
      (\<lambda>g. if og_id g = oid then g\<lparr>og_bonus := og_bonus g + n\<rparr> else g) (org_row_of a i)"
    by (simp add: org_row_of_def add_to_org_def find_update_where)
  then show ?thesis
    by (cases "org_row_of a i") (auto simp: balance_of_def dest: org_row_of_mem)
qed

definition affordable :: "accounts \<Rightarrow> int \<Rightarrow> int \<Rightarrow> bool" where
  "affordable a uid cents \<longleftrightarrow> (case org_of_user a uid of None \<Rightarrow> False
     | Some oid \<Rightarrow> (case balance_of a oid of None \<Rightarrow> False | Some b \<Rightarrow> cents \<le> b))"

lemma charge_org_cases:
  obtains (refused) "charge_org uid cents a = (a, None)" "\<not> affordable a uid cents"
  | (paid) oid b where "org_of_user a uid = Some oid" "balance_of a oid = Some b" "cents \<le> b"
      "charge_org uid cents a = (add_to_org oid (- cents) a, Some (oid, b - cents))"
proof (cases "affordable a uid cents")
  case True
  then obtain oid b where "org_of_user a uid = Some oid" "balance_of a oid = Some b" "cents \<le> b"
    by (auto simp: affordable_def split: option.splits)
  then show thesis by (intro paid) (simp_all add: charge_org_def)
next
  case False
  then show thesis
    by (intro refused) (auto simp: charge_org_def affordable_def split: option.splits)
qed

lemma credit_org_cases:
  obtains (nobody) "credit_org uid cents a = (a, None)"
      "\<And>oid. org_of_user a uid = Some oid \<Longrightarrow> balance_of a oid = None"
  | (credited) oid b where "org_of_user a uid = Some oid" "balance_of a oid = Some b"
      "credit_org uid cents a = (add_to_org oid cents a, Some (oid, b + cents))"
proof (cases "\<exists>oid b. org_of_user a uid = Some oid \<and> balance_of a oid = Some b")
  case True
  then show thesis by (auto intro: credited simp: credit_org_def)
next
  case False
  then have no: "balance_of a oid = None" if "org_of_user a uid = Some oid" for oid
    using that by simp
  then have "credit_org uid cents a = (a, None)"
    by (auto simp: credit_org_def split: option.split)
  then show thesis using no by (rule nobody)
qed

section \<open>The interface\<close>

datatype credit_op = Charge int int | Refund int int

fun op_amount :: "credit_op \<Rightarrow> int" where
  "op_amount (Charge u c) = c"
| "op_amount (Refund u c) = c"

text \<open>A run of charges and refunds, and what it moves in and out of one organization.\<close>

fun run_credit :: "(int \<Rightarrow> int \<Rightarrow> 's \<Rightarrow> 's \<times> bool) \<Rightarrow> (int \<Rightarrow> int \<Rightarrow> 's \<Rightarrow> 's) \<Rightarrow> credit_op list \<Rightarrow> 's \<Rightarrow> 's" where
  "run_credit ch rf [] s = s"
| "run_credit ch rf (Charge u c # ops) s = run_credit ch rf ops (fst (ch u c s))"
| "run_credit ch rf (Refund u c # ops) s = run_credit ch rf ops (rf u c s)"

fun charged :: "(int \<Rightarrow> int \<Rightarrow> 's \<Rightarrow> 's \<times> bool) \<Rightarrow> (int \<Rightarrow> int \<Rightarrow> 's \<Rightarrow> 's) \<Rightarrow> (int \<Rightarrow> int option) \<Rightarrow>
    int \<Rightarrow> credit_op list \<Rightarrow> 's \<Rightarrow> int" where
  "charged ch rf pool oid [] s = 0"
| "charged ch rf pool oid (Charge u c # ops) s =
     (if pool u = Some oid \<and> snd (ch u c s) then c else 0) +
     charged ch rf pool oid ops (fst (ch u c s))"
| "charged ch rf pool oid (Refund u c # ops) s = charged ch rf pool oid ops (rf u c s)"

fun refunded :: "(int \<Rightarrow> int option) \<Rightarrow> int \<Rightarrow> credit_op list \<Rightarrow> int" where
  "refunded pool oid [] = 0"
| "refunded pool oid (Charge u c # ops) = refunded pool oid ops"
| "refunded pool oid (Refund u c # ops) =
     (if pool u = Some oid then c else 0) + refunded pool oid ops"

locale credit_pool =
  fixes pool :: "'s \<Rightarrow> int \<Rightarrow> int option"
    and balance :: "'s \<Rightarrow> int \<Rightarrow> int option"
    and charge :: "int \<Rightarrow> int \<Rightarrow> 's \<Rightarrow> 's \<times> bool"
    and refund :: "int \<Rightarrow> int \<Rightarrow> 's \<Rightarrow> 's"
  assumes pool_charge: "pool (fst (charge u c s)) = pool s"
    and pool_refund: "pool (refund u c s) = pool s"
    and charge_paid: "charge u c s = (s', True) \<Longrightarrow>
      \<exists>g b. pool s u = Some g \<and> balance s g = Some b \<and> c \<le> b \<and>
        balance s' = (balance s)(g \<mapsto> b - c)"
    and charge_refused: "charge u c s = (s', False) \<Longrightarrow> balance s' = balance s \<and>
      (\<forall>g b. pool s u = Some g \<longrightarrow> balance s g = Some b \<longrightarrow> b < c)"
    and refund_balance: "balance (refund u c s) = (case pool s u of
      None \<Rightarrow> balance s | Some g \<Rightarrow> (balance s)(g := map_option (\<lambda>b. b + c) (balance s g)))"
begin

lemma charge_iff_affordable:
  "snd (charge u c s) \<longleftrightarrow> (\<exists>g b. pool s u = Some g \<and> balance s g = Some b \<and> c \<le> b)"
proof (cases "charge u c s")
  case (Pair s' ok)
  show ?thesis
  proof (cases ok)
    case True
    with Pair charge_paid [of u c s s'] show ?thesis by auto
  next
    case False
    with Pair charge_refused [of u c s s'] show ?thesis by fastforce
  qed
qed

lemma charge_then_refund:
  assumes "charge u c s = (s', True)"
  shows "balance (refund u c s') = balance s"
proof -
  from charge_paid [OF assms] obtain g b where g: "pool s u = Some g" "balance s g = Some b"
    "balance s' = (balance s)(g \<mapsto> b - c)" by blast
  have "pool s' u = Some g" using pool_charge [of u c s] assms g(1) by simp
  with g show ?thesis by (simp add: refund_balance fun_eq_iff)
qed

lemma balance_charge:
  assumes "balance s g = Some b"
  shows "balance (fst (charge u c s)) g =
    Some (b - (if pool s u = Some g \<and> snd (charge u c s) then c else 0))"
proof (cases "charge u c s")
  case (Pair s' ok)
  show ?thesis
  proof (cases ok)
    case True
    with Pair charge_paid [of u c s s'] assms show ?thesis by auto
  next
    case False
    with Pair charge_refused [of u c s s'] assms show ?thesis by auto
  qed
qed

lemma balance_refund:
  assumes "balance s g = Some b"
  shows "balance (refund u c s) g = Some (b + (if pool s u = Some g then c else 0))"
  using assms by (auto simp: refund_balance split: option.splits)

text \<open>Every run of charges and refunds accounts for each cent of an organization.\<close>

lemma run_conserves:
  assumes "balance s g = Some b"
  shows "balance (run_credit charge refund ops s) g =
    Some (b - charged charge refund (pool s) g ops s + refunded (pool s) g ops)"
  using assms
proof (induction ops arbitrary: s b)
  case (Cons op ops)
  show ?case
  proof (cases op)
    case (Charge u c)
    from Cons.IH [OF balance_charge [OF Cons.prems]] Charge show ?thesis
      by (simp add: pool_charge)
  next
    case (Refund u c)
    from Cons.IH [OF balance_refund [OF Cons.prems]] Refund show ?thesis
      by (simp add: pool_refund)
  qed
qed simp

lemma run_nonneg:
  assumes "balance s g = Some b" "0 \<le> b" "\<And>op. op \<in> set ops \<Longrightarrow> 0 \<le> op_amount op"
  shows "\<exists>b'. balance (run_credit charge refund ops s) g = Some b' \<and> 0 \<le> b'"
  using assms
proof (induction ops arbitrary: s b)
  case (Cons op ops)
  show ?case
  proof (cases op)
    case (Charge u c)
    have "0 \<le> b - (if pool s u = Some g \<and> snd (charge u c s) then c else 0)"
      using Cons.prems(1,2) charge_iff_affordable [of u c s] by auto
    from Cons.IH [OF balance_charge [OF Cons.prems(1)] this] Cons.prems(3) Charge show ?thesis
      by simp
  next
    case (Refund u c)
    have "0 \<le> b + (if pool s u = Some g then c else 0)"
      using Cons.prems(2) Cons.prems(3) [of op] Refund by simp
    from Cons.IH [OF balance_refund [OF Cons.prems(1)] this] Cons.prems(3) Refund show ?thesis
      by simp
  qed
qed simp

end

lemma refund_credit_balance:
  "balance_of (refund_credit ok uid c a) = (case org_of_user a uid of
     None \<Rightarrow> balance_of a | Some g \<Rightarrow> (balance_of a)(g := map_option (\<lambda>b. b + c) (balance_of a g)))"
  by (cases rule: credit_org_cases [of uid c a])
    (auto simp: refund_credit_def balance_of_add_to_org fun_eq_iff split: option.splits)

lemma refund_credit_pool: "org_of_user (refund_credit ok uid c a) = org_of_user a"
  by (cases rule: credit_org_cases [of uid c a]) (simp_all add: refund_credit_def)

interpretation wallet: credit_pool org_of_user balance_of "use_credit ok" "refund_credit ok"
proof unfold_locales
  fix a a' :: accounts and u c
  show "org_of_user (fst (use_credit ok u c a)) = org_of_user a"
    by (cases rule: charge_org_cases [of u c a]) (simp_all add: use_credit_def)
  show "use_credit ok u c a = (a', True) \<Longrightarrow> \<exists>g b. org_of_user a u = Some g \<and>
      balance_of a g = Some b \<and> c \<le> b \<and> balance_of a' = (balance_of a)(g \<mapsto> b - c)"
    by (cases rule: charge_org_cases [of u c a])
      (auto simp: use_credit_def balance_of_add_to_org fun_eq_iff)
  show "use_credit ok u c a = (a', False) \<Longrightarrow> balance_of a' = balance_of a \<and>
      (\<forall>g b. org_of_user a u = Some g \<longrightarrow> balance_of a g = Some b \<longrightarrow> b < c)"
    by (cases rule: charge_org_cases [of u c a]) (auto simp: use_credit_def affordable_def)
qed (simp_all add: refund_credit_pool refund_credit_balance)

interpretation reservation: credit_pool org_of_user balance_of use_credit_conn "refund_credit ok"
proof unfold_locales
  fix a a' :: accounts and u c
  show "org_of_user (fst (use_credit_conn u c a)) = org_of_user a"
    by (cases rule: charge_org_cases [of u c a]) (simp_all add: use_credit_conn_def)
  show "use_credit_conn u c a = (a', True) \<Longrightarrow> \<exists>g b. org_of_user a u = Some g \<and>
      balance_of a g = Some b \<and> c \<le> b \<and> balance_of a' = (balance_of a)(g \<mapsto> b - c)"
    by (cases rule: charge_org_cases [of u c a])
      (auto simp: use_credit_conn_def balance_of_add_to_org fun_eq_iff)
  show "use_credit_conn u c a = (a', False) \<Longrightarrow> balance_of a' = balance_of a \<and>
      (\<forall>g b. org_of_user a u = Some g \<longrightarrow> balance_of a g = Some b \<longrightarrow> b < c)"
    by (cases rule: charge_org_cases [of u c a]) (auto simp: use_credit_conn_def affordable_def)
qed (simp_all add: refund_credit_pool refund_credit_balance)

section \<open>A small account database\<close>

text \<open>One organization with two users, and a third user without an organization.\<close>

definition office :: accounts where
  "office = \<lparr>ac_users = [(new_user 1 ''a@x'' ''A'' [] (Some ''g1'') None)\<lparr>us_org := Some 1\<rparr>,
       (new_user 2 ''b@x'' ''B'' [] (Some ''g2'') None)\<lparr>us_org := Some 1\<rparr>,
       new_user 3 ''c@x'' ''C'' [] (Some ''g3'') None],
     ac_orgs = [\<lparr>og_id = 1, og_name = ''A'', og_slug = slug_for 1, og_bonus = 250, og_stripe = None\<rparr>],
     ac_members = [\<lparr>mb_org = 1, mb_user = 1, mb_role = Admin, mb_joined = 0\<rparr>,
       \<lparr>mb_org = 1, mb_user = 2, mb_role = Member, mb_joined = 0\<rparr>],
     ac_invites = [], ac_ledger = [], ac_sessions = [], ac_usage_cache = (\<lambda>_. None),
     ac_auth_cache = [], ac_next_user = 4, ac_next_org = 2, ac_next_invite = 1\<rparr>"

lemma office_lookups [simp]:
  "org_of_user office 1 = Some 1" "org_of_user office 2 = Some 1" "org_of_user office 3 = None"
  "balance_of office 1 = Some 250" "user_of office 4 = None"
  "user_of office 3 = Some (new_user 3 ''c@x'' ''C'' [] (Some ''g3'') None)"
  "ac_sessions office = []" "ac_ledger office = []"
  by (simp_all add: office_def org_of_user_def user_of_def balance_of_def org_row_of_def
      new_user_def)

text \<open>
  Properties of the credit pool: no organization is overdrawn, each cent is accounted for, a
  payment is credited once, and the ledger entries of a charge and a refund state the balance.
\<close>

lemma sessions_unchanged:
  "ac_sessions (record_credit_event ok oid n b k a) = ac_sessions a"
  "ac_sessions (add_to_org oid n a) = ac_sessions a"
  by (simp_all add: record_credit_event_def add_to_org_def)

section \<open>Conservation\<close>

text \<open>
  C4: Over every sequence of charges and refunds the balance of an organization is its initial
  balance less the charges that were accepted for its users plus the refunds to its users:
  a refused charge moves nothing and no cent is lost or made, whatever the audit ledger does.
\<close>

theorem credits_conserved:
  assumes "balance_of a g = Some b"
  shows "balance_of (run_credit (use_credit ok) (refund_credit ok) ops a) g =
    Some (b - charged (use_credit ok) (refund_credit ok) (org_of_user a) g ops a +
      refunded (org_of_user a) g ops)"
  using assms by (rule wallet.run_conserves)

lemma office_charge:
  assumes "u \<in> {1, 2}" "balance_of a 1 = Some b" "org_of_user a = org_of_user office"
  shows "snd (use_credit ok u c a) \<longleftrightarrow> c \<le> b"
proof -
  have "org_of_user a u = Some 1" using assms by auto
  then show ?thesis using assms(2) by (simp add: wallet.charge_iff_affordable)
qed

lemma office_run:
  "charged (use_credit ok) (refund_credit ok) (org_of_user office) 1
     [Charge 1 100, Charge 2 200, Refund 1 100, Charge 2 200] office = 300"
proof -
  let ?a1 = "fst (use_credit ok 1 100 office)"
  let ?a2 = "fst (use_credit ok 2 200 ?a1)"
  let ?a3 = "refund_credit ok 1 100 ?a2"
  have pool: "org_of_user ?a1 = org_of_user office" "org_of_user ?a2 = org_of_user office"
    "org_of_user ?a3 = org_of_user office"
    by (simp_all add: wallet.pool_charge wallet.pool_refund)
  have s0: "snd (use_credit ok 1 100 office)"
    using office_charge [of 1 office 250 ok 100] by simp
  then have b1: "balance_of ?a1 1 = Some 150"
    using wallet.balance_charge [of office 1 250 ok 1 100] by simp
  then have s1: "\<not> snd (use_credit ok 2 200 ?a1)"
    using office_charge [of 2 ?a1 150 ok 200] pool by simp
  then have b2: "balance_of ?a2 1 = Some 150"
    using wallet.balance_charge [OF b1, of ok 2 200] by simp
  then have b3: "balance_of ?a3 1 = Some 250"
    using wallet.balance_refund [OF b2, of ok 1 100] pool by simp
  then have s3: "snd (use_credit ok 2 200 ?a3)"
    using office_charge [of 2 ?a3 250 ok 200] pool by simp
  show ?thesis using s0 s1 s3 by simp
qed

theorem credits_conserved_witness:
  "balance_of (run_credit (use_credit True) (refund_credit True)
     [Charge 1 100, Charge 2 200, Refund 1 100, Charge 2 200] office) 1 = Some 50"
  by (simp only: credits_conserved [OF office_lookups(4)] office_run) simp

text \<open>
  C5: A balance is never driven below zero: after any sequence of charges and refunds of
  non-negative amounts an organization that had a non-negative balance still has one.
\<close>

theorem credits_never_overdrawn:
  assumes "balance_of a g = Some b" "0 \<le> b" "\<And>op. op \<in> set ops \<Longrightarrow> 0 \<le> op_amount op"
  shows "\<exists>b'. balance_of (run_credit (use_credit ok) (refund_credit ok) ops a) g = Some b' \<and> 0 \<le> b'"
  using assms by (rule wallet.run_nonneg)

theorem credits_never_overdrawn_witness:
  "\<exists>b'. balance_of (run_credit (use_credit True) (refund_credit True)
     [Charge 1 100, Charge 2 200, Charge 2 120, Refund 1 100] office) 1 = Some b' \<and> 0 \<le> b'"
  by (rule credits_never_overdrawn [of _ _ 250]) auto

text \<open>
  An accepted charge writes the audit row with the negated amount and the balance the
  organization has afterwards; a refused charge writes none.
\<close>

theorem charge_is_audited:
  assumes "use_credit True uid cents a = (a', ok)"
  shows "\<exists>g b. ac_ledger a' = ac_ledger a @ (if ok
     then [\<lparr>lg_org = g, lg_amount = - cents, lg_after = b, lg_op = LedgerCharge\<rparr>] else []) \<and>
     (ok \<longrightarrow> org_of_user a uid = Some g \<and> balance_of a' g = Some b)"
proof (cases rule: charge_org_cases [of uid cents a])
  case refused
  with assms show ?thesis by (auto simp: use_credit_def invalidate_usage_cache_def)
next
  case (paid oid b)
  with assms have "ok" and a': "a' = record_credit_event True oid (- cents) (b - cents) LedgerCharge
      (invalidate_usage_cache uid (add_to_org oid (- cents) a))"
    by (auto simp: use_credit_def)
  moreover have "balance_of a' oid = Some (b - cents)"
    using paid by (simp add: a' balance_of_add_to_org)
  ultimately show ?thesis using paid
    by (auto simp: record_credit_event_def invalidate_usage_cache_def add_to_org_def)
qed

theorem charge_is_audited_witness:
  "\<exists>g b. ac_ledger (fst (use_credit True 2 100 office)) =
       [\<lparr>lg_org = g, lg_amount = - 100, lg_after = b, lg_op = LedgerCharge\<rparr>] \<and>
     org_of_user office 2 = Some g \<and> balance_of (fst (use_credit True 2 100 office)) g = Some b"
proof -
  have "snd (use_credit True 2 100 office)"
    using office_charge [of 2 office 250 True 100] by simp
  then have "use_credit True 2 100 office = (fst (use_credit True 2 100 office), True)"
    by (metis prod.collapse)
  from charge_is_audited [OF this] show ?thesis by simp
qed

section \<open>Payments\<close>

text \<open>
  A payment is credited once: after a checkout session has been fulfilled, a second
  delivery of the same session (the webhook is retried, or the success page is reloaded)
  answers False and changes nothing, whichever user and amount it names.
\<close>

theorem fulfill_session_once:
  assumes "fulfill_session ok1 session uid credits a = Inr (a1, added)"
  shows "fulfill_session ok2 session uid' credits' a1 = Inr (a1, False)"
proof -
  have "\<exists>f \<in> set (ac_sessions a1). fs_session f = session"
    using assms by (auto simp: fulfill_session_def Let_def record_credit_event_def add_to_org_def
        split: if_splits option.splits)
  then show ?thesis by (simp add: fulfill_session_def)
qed

text \<open>
  A payment of n credits for a user of an organization raises the balance of exactly that
  organization by 100 n cents; a payment for a user without an organization raises none, yet the
  session is recorded as fulfilled and True is returned, so no later delivery can credit it.
\<close>

theorem fulfill_session_credits_org:
  assumes "user_of a uid \<noteq> None" "\<forall>f \<in> set (ac_sessions a). fs_session f \<noteq> session"
  shows "\<exists>a'. fulfill_session ok session uid credits a = Inr (a', True) \<and>
     balance_of a' = (case org_of_user a uid of None \<Rightarrow> balance_of a
       | Some g \<Rightarrow> (balance_of a)(g := map_option (\<lambda>b. b + credits * 100) (balance_of a g))) \<and>
     fs_session ` set (ac_sessions a') = insert session (fs_session ` set (ac_sessions a))"
proof -
  have fresh: "\<not> (\<exists>f \<in> set (ac_sessions a). fs_session f = session)" using assms(2) by blast
  note defs = fulfill_session_def Let_def record_credit_event_def add_to_org_def
  show ?thesis
  proof (cases "org_of_user a uid")
    case None
    with assms(1) fresh show ?thesis by (auto simp: fulfill_session_def Let_def)
  next
    case (Some g)
    show ?thesis
    proof (cases "balance_of a g")
      case None
      with Some assms(1) fresh show ?thesis
        by (auto simp: fulfill_session_def Let_def fun_eq_iff)
    next
      case (Some b)
      with \<open>org_of_user a uid = Some g\<close> assms(1) fresh show ?thesis
        by (cases ok) (auto simp: fulfill_session_def Let_def fun_eq_iff balance_of_add_to_org
            sessions_unchanged)
    qed
  qed
qed

theorem fulfill_session_once_witness:
  "\<exists>a1. fulfill_session True ''cs_1'' 1 5 office = Inr (a1, True) \<and>
     fulfill_session False ''cs_1'' 2 7 a1 = Inr (a1, False)"
proof -
  have "user_of office 1 \<noteq> None" by (simp add: office_def user_of_def new_user_def)
  then obtain a1 where a1: "fulfill_session True ''cs_1'' 1 5 office = Inr (a1, True)"
    by (auto simp: fulfill_session_def Let_def)
  with fulfill_session_once [OF a1] show ?thesis by blast
qed

theorem fulfill_session_credits_org_witness:
  "\<exists>a'. fulfill_session True ''cs_9'' 3 10 office = Inr (a', True) \<and>
     balance_of a' = balance_of office \<and> fs_session ` set (ac_sessions a') = {''cs_9''}"
  using fulfill_session_credits_org [of office 3 "''cs_9''" True 10] by simp

end
