(* ===== verification/Pagination.thy ===== *)
theory Pagination
  imports Py_Strings
begin

text \<open>
  Keyset pagination. The database functions fetch one row more than the page holds to learn
  whether there is more (\<open>page_of\<close>); the iterators of the SDK (\<open>iter_research\<close>,
  \<open>iter_bulk_jobs\<close>, \<open>iter_lists\<close>, \<open>iter_watchlist\<close>) ask for page after page with the
  identifier of the last item as cursor; the generators of \<open>db/bulk.py\<close> and \<open>db/lists.py\<close>
  scan a table upwards. The interface \<open>paged_store\<close> states what an endpoint owes to the
  iterators, whatever the order of its rows is.
\<close>

section \<open>Pages\<close>

text \<open>\<open>items = rows of LIMIT limit + 1; has_more = len(items) > limit; items[:limit]\<close>\<close>

definition page_of :: "nat \<Rightarrow> 'r list \<Rightarrow> 'r list \<times> bool" where
  "page_of limit rows = (let items = take (limit + 1) rows in (take limit items, limit < length items))"

text \<open>\<open>ORDER BY id DESC\<close>\<close>

definition newest_first :: "('r \<Rightarrow> int) \<Rightarrow> 'r list \<Rightarrow> 'r list" where
  "newest_first key rows = sort_key (\<lambda>r. - key r) rows"

definition newest_page :: "('r \<Rightarrow> int) \<Rightarrow> ('r \<Rightarrow> bool) \<Rightarrow> nat \<Rightarrow> int option \<Rightarrow> 'r list \<Rightarrow> 'r list \<times> bool" where
  "newest_page key P limit starting_after rows =
     page_of limit (newest_first key (filter (\<lambda>r. P r \<and>
       (case starting_after of None \<Rightarrow> True | Some c \<Rightarrow> key r < c)) rows))"

section \<open>Client loops\<close>

text \<open>
  \<open>fetch\<close> performs the request for a page; \<open>None\<close> stands for an exception. The cursor of the
  next request is computed from the last item of the page.
\<close>

partial_function (option) iter_pages ::
    "('c option \<Rightarrow> ('r list \<times> bool) option) \<Rightarrow> ('r \<Rightarrow> 'c) \<Rightarrow> 'c option \<Rightarrow> 'r list option" where
  "iter_pages fetch cursor_of cursor = Option.bind (fetch cursor) (\<lambda>(items, has_more).
     if \<not> has_more \<or> items = [] then Some items
     else Option.bind (iter_pages fetch cursor_of (Some (cursor_of (last items))))
       (\<lambda>rest. Some (items @ rest)))"

text \<open>The query parameter \<open>starting_after\<close> is parsed as an integer before the handler runs.\<close>

definition query_int :: "(int option \<Rightarrow> 'r list \<times> bool) \<Rightarrow> string option \<Rightarrow> ('r list \<times> bool) option" where
  "query_int f cursor = (case cursor of
     None \<Rightarrow> Some (f None)
   | Some s \<Rightarrow> (case py_int s of None \<Rightarrow> None | Some i \<Rightarrow> Some (f (Some i))))"

text \<open>
  The endpoints refuse a \<open>limit\<close> outside of 1 to 500 with a 422, which the client raises. Requests over the
  rate limit are not part of these loops: the pages are those of admitted requests.
\<close>

definition valid_limit :: "nat \<Rightarrow> bool" where
  "valid_limit limit \<longleftrightarrow> 1 \<le> limit \<and> limit \<le> 500"

definition iter_by_id :: "nat \<Rightarrow> (int option \<Rightarrow> 'r list \<times> bool) \<Rightarrow> ('r \<Rightarrow> int) \<Rightarrow> 'r list option" where
  "iter_by_id limit f key = (if valid_limit limit then iter_pages (query_int f) (\<lambda>r. str_int (key r)) None else None)"

text \<open>The database generators: \<open>fetch last_id\<close> is the query, the loop ends at an empty page.\<close>

partial_function (option) scan_pages :: "(int \<Rightarrow> 'r list) \<Rightarrow> ('r \<Rightarrow> int) \<Rightarrow> int \<Rightarrow> 'r list option" where
  "scan_pages fetch key last_id = (let rows = fetch last_id in
     if rows = [] then Some []
     else Option.bind (scan_pages fetch key (key (last rows))) (\<lambda>rest. Some (rows @ rest)))"

definition scan_fetch :: "('r \<Rightarrow> int) \<Rightarrow> ('r \<Rightarrow> bool) \<Rightarrow> nat \<Rightarrow> 'r list \<Rightarrow> int \<Rightarrow> 'r list" where
  "scan_fetch key P page_size rows last_id =
     take page_size (sort_key key (filter (\<lambda>r. P r \<and> last_id < key r) rows))"

section \<open>Laws of pages\<close>

lemma page_of_simps: "fst (page_of n xs) = take n xs" "snd (page_of n xs) \<longleftrightarrow> n < length xs"
  by (auto simp: page_of_def Let_def min_def)

lemma page_of_eq: "page_of n xs = (take n xs, n < length xs)"
  using page_of_simps [of n xs] by (cases "page_of n xs") auto

lemma page_of_split:
  assumes "page_of n xs = (items, True)" "0 < n"
  obtains ys r zs where "items = ys @ [r]" "xs = ys @ r # zs" "zs \<noteq> []" "last items = r"
proof -
  have items: "items = take n xs" and len: "n < length xs"
    using assms(1) by (simp_all add: page_of_eq)
  then have ne: "items \<noteq> []" using assms(2) by (cases xs) (auto simp: take_Cons')
  have "xs = butlast items @ last items # drop n xs"
    using ne items by (metis append_butlast_last_id append_Cons append_Nil append_assoc
        append_take_drop_id)
  moreover have "drop n xs \<noteq> []" using len by simp
  ultimately show thesis
    using append_butlast_last_id [OF ne] by (intro that [of "butlast items" "last items" "drop n xs"])
      simp_all
qed

lemma strict_desc_above:
  fixes key :: "'r \<Rightarrow> 'k::linorder"
  assumes "sorted_wrt (\<lambda>x y. key y < key x) (xs @ r # ys)"
  shows "filter (\<lambda>x. key x < key r) (xs @ r # ys) = ys"
proof -
  have "filter (\<lambda>x. key x < key r) xs = []"
    using assms by (auto simp: filter_empty_conv sorted_wrt_append not_less dest: less_imp_le)
  moreover have "filter (\<lambda>x. key x < key r) ys = ys"
    using assms by (auto simp: filter_id_conv sorted_wrt_append)
  ultimately show ?thesis by simp
qed

lemma strict_sort_key:
  fixes f :: "'r \<Rightarrow> 'k::linorder"
  assumes "distinct (map f xs)"
  shows "sorted_wrt (\<lambda>x y. f x < f y) (sort_key f xs)"
proof -
  have "distinct (map f (sort_key f xs))"
    using assms by (simp add: distinct_map)
  then show ?thesis
    using sorted_sort_key [of f xs]
    by (metis sorted_wrt_map strict_sorted_iff)
qed

lemma filter_newest_first:
  "filter Q (newest_first key xs) = newest_first key (filter Q xs)"
  by (simp add: newest_first_def filter_sort)

lemma newest_first_strict:
  assumes "distinct (map key rows)"
  shows "sorted_wrt (\<lambda>x y. key y < key x) (newest_first key (filter P rows))"
proof -
  have "distinct (map (\<lambda>r. - key r) (filter P rows))"
    using assms by (auto simp: distinct_map inj_on_def)
  from strict_sort_key [OF this] show ?thesis by (simp add: newest_first_def)
qed

lemma newest_page_first: "newest_page key P n None rows = page_of n (newest_first key (filter P rows))"
  by (simp add: newest_page_def)

lemma newest_page_next:
  assumes "distinct (map key rows)" "newest_first key (filter P rows) = xs @ r # ys"
  shows "newest_page key P n (Some (key r)) rows = page_of n ys"
proof -
  have "newest_first key (filter (\<lambda>x. P x \<and> key x < key r) rows) =
      filter (\<lambda>x. key x < key r) (newest_first key (filter P rows))"
    by (simp add: filter_newest_first conj_commute)
  also have "\<dots> = ys"
    using strict_desc_above [OF newest_first_strict [OF assms(1), of P, unfolded assms(2)]]
    by (simp add: assms(2))
  finally show ?thesis by (simp add: newest_page_def)
qed

section \<open>The interface of a paginated endpoint\<close>

locale paged_store =
  fixes ok :: "'s \<Rightarrow> bool"
    and fetch :: "'s \<Rightarrow> nat \<Rightarrow> 'c option \<Rightarrow> ('r list \<times> bool) option"
    and everything :: "'s \<Rightarrow> 'r list"
    and cursor_of :: "'r \<Rightarrow> 'c"
  assumes first_page: "ok s \<Longrightarrow> fetch s n None = Some (page_of n (everything s))"
    and next_page: "ok s \<Longrightarrow> everything s = xs @ r # ys \<Longrightarrow>
      fetch s n (Some (cursor_of r)) = Some (page_of n ys)"
begin

lemma iter_from:
  assumes "ok s" "0 < n" "everything s = pre @ ys" "fetch s n c = Some (page_of n ys)"
  shows "iter_pages (fetch s n) cursor_of c = Some ys"
  using assms
proof (induction "length ys" arbitrary: ys pre c rule: less_induct)
  case less
  obtain items more where p: "page_of n ys = (items, more)" by (cases "page_of n ys")
  show ?case
  proof (cases more)
    case False
    then have "items = ys" using p by (auto simp: page_of_eq)
    with False p less.prems(4) show ?thesis by (simp add: iter_pages.simps [of "fetch s n"])
  next
    case True
    with p have "page_of n ys = (items, True)" by simp
    from page_of_split [OF this less.prems(2)] obtain us r zs
      where split: "items = us @ [r]" "ys = us @ r # zs" "zs \<noteq> []" "last items = r" .
    have all: "everything s = (pre @ us) @ r # zs" using less.prems(3) split by simp
    have "iter_pages (fetch s n) cursor_of (Some (cursor_of r)) = Some zs"
    proof (rule less.hyps)
      show "length zs < length ys" using split by simp
      show "everything s = ((pre @ us) @ [r]) @ zs" using all by simp
      show "fetch s n (Some (cursor_of r)) = Some (page_of n zs)"
        by (rule next_page [OF less.prems(1) all])
    qed fact+
    with p True split less.prems(4) show ?thesis by (simp add: iter_pages.simps [of "fetch s n" _ c])
  qed
qed

lemma iter_all: "ok s \<Longrightarrow> 0 < n \<Longrightarrow> iter_pages (fetch s n) cursor_of None = Some (everything s)"
  using iter_from [of s n "[]" "everything s" None] by (simp add: first_page)

end

lemma scan_pages_all:
  assumes "distinct (map key rows)" "0 < n"
  shows "scan_pages (scan_fetch key P n rows) key l =
    Some (sort_key key (filter (\<lambda>r. P r \<and> l < key r) rows))"
proof (induction "length (filter (\<lambda>r. P r \<and> l < key r) rows)" arbitrary: l rule: less_induct)
  case less
  let ?all = "\<lambda>l. sort_key key (filter (\<lambda>r. P r \<and> l < key r) rows)"
  let ?rows = "scan_fetch key P n rows l"
  have rows: "?rows = take n (?all l)" by (simp add: scan_fetch_def)
  show ?case
  proof (cases "?all l = []")
    case True
    then have "?rows = []" by (simp add: rows)
    with True show ?thesis by (subst scan_pages.simps) simp
  next
    case False
    then have ne: "?rows \<noteq> []" using assms(2) by (simp add: rows)
    let ?r = "last ?rows"
    have eq: "?all l = butlast ?rows @ ?r # drop n (?all l)"
      using ne rows by (metis append_butlast_last_id append_Cons append_Nil append_assoc
          append_take_drop_id)
    have strict: "sorted_wrt (\<lambda>x y. key x < key y) (?all l)"
      using assms(1) by (intro strict_sort_key) (auto simp: distinct_map inj_on_def)
    have r: "?r \<in> set (?all l)" using eq by (metis in_set_conv_decomp)
    then have lr: "l < key ?r" "P ?r" "?r \<in> set rows" by auto
    have "?all (key ?r) = filter (\<lambda>x. key ?r < key x) (?all l)"
      using lr(1) by (simp add: filter_sort) (rule arg_cong [where f = "sort_key key"],
        auto intro!: filter_cong)
    also have "\<dots> = drop n (?all l)"
      using strict by (subst (asm) eq, subst eq)
        (auto simp: sorted_wrt_append filter_empty_conv filter_id_conv dest: less_asym)
    finally have next': "?all (key ?r) = drop n (?all l)" .
    have "length (filter (\<lambda>x. P x \<and> key ?r < key x) rows) =
        length (?all (key ?r))" by simp
    also have "\<dots> < length (?all l)" unfolding next' using False assms(2)
      by (simp del: length_sort)
    finally have "scan_pages (scan_fetch key P n rows) key (key ?r) = Some (?all (key ?r))"
      by (intro less.hyps) simp
    then have "scan_pages (scan_fetch key P n rows) key l = Some (?rows @ drop n (?all l))"
      using ne unfolding next' by (subst scan_pages.simps) (simp add: Let_def)
    then show ?thesis by (simp add: rows)
  qed
qed

end
