(* ===== verification/Research_Jobs.thy ===== *)
theory Research_Jobs
  imports Credits Pagination
begin

text \<open>
  Research jobs (\<open>db/jobs.py\<close>, table \<open>research_jobs\<close>): creation, with and without the
  atomic credit reservation, status and progress updates, and the paginated listing.
\<close>

section \<open>The table\<close>

datatype job_status = Processing | JobCompleted | JobFailed

record job =
  jb_id :: int
  jb_user :: int
  jb_api_key :: "int option"
  jb_url :: string
  jb_status :: job_status
  jb_document :: "int option"
  jb_error :: "string option"
  jb_progress :: "string option"
  jb_created :: time
  jb_completed :: "time option"

record job_db =
  jt_rows :: "job list"
  jt_next :: int

datatype job_error = InsufficientCredits | JobDb db_error

definition job_of :: "job_db \<Rightarrow> int \<Rightarrow> job option" where
  "job_of d i = find (\<lambda>j. jb_id j = i) (jt_rows d)"

section \<open>Creation\<close>

definition new_job :: "time \<Rightarrow> int \<Rightarrow> int \<Rightarrow> int option \<Rightarrow> string \<Rightarrow> job" where
  "new_job now i uid key url = \<lparr>jb_id = i, jb_user = uid, jb_api_key = key, jb_url = url,
     jb_status = Processing, jb_document = None, jb_error = None, jb_progress = None,
     jb_created = now, jb_completed = None\<rparr>"

definition insert_job :: "time \<Rightarrow> int \<Rightarrow> int option \<Rightarrow> string \<Rightarrow> job_db \<Rightarrow> job_db \<times> job" where
  "insert_job now uid key url d = (let j = new_job now (jt_next d) uid key url in
     (d\<lparr>jt_rows := jt_rows d @ [j], jt_next := jt_next d + 1\<rparr>, j))"

text \<open>The \<open>users\<close> reference of the row is checked by the database.\<close>

definition create_research_job ::
    "time \<Rightarrow> int \<Rightarrow> int option \<Rightarrow> string \<Rightarrow> accounts \<Rightarrow> job_db \<Rightarrow> db_error + (job_db \<times> job)" where
  "create_research_job now uid key url a d =
     (if user_of a uid = None then Inl ForeignKeyViolation else Inr (insert_job now uid key url d))"

text \<open>
  One transaction: \<open>_use_credit_conn\<close>, then \<open>_insert_job\<close>; the usage cache is dropped
  after the commit.
\<close>

definition create_job_with_credit ::
    "time \<Rightarrow> int \<Rightarrow> int option \<Rightarrow> string \<Rightarrow> int \<Rightarrow> accounts \<Rightarrow> job_db \<Rightarrow>
     job_error + (accounts \<times> job_db \<times> job)" where
  "create_job_with_credit now uid key url cents a d =
     (case use_credit_conn uid cents a of
        (a', ok) \<Rightarrow> if \<not> ok then Inl InsufficientCredits
          else (case create_research_job now uid key url a' d of
             Inl e \<Rightarrow> Inl (JobDb e)
           | Inr (d', j) \<Rightarrow> Inr (invalidate_usage_cache uid a', d', j)))"

section \<open>Reading and updating\<close>

definition get_research_job :: "int \<Rightarrow> int \<Rightarrow> job_db \<Rightarrow> job option" where
  "get_research_job i uid d = find (\<lambda>j. jb_id j = i \<and> jb_user j = uid) (jt_rows d)"

definition settled_status :: "job_status \<Rightarrow> bool" where
  "settled_status s \<longleftrightarrow> s \<in> {JobCompleted, JobFailed}"

definition update_job_status ::
    "time \<Rightarrow> int \<Rightarrow> job_status \<Rightarrow> int option \<Rightarrow> string option \<Rightarrow> job_db \<Rightarrow> job_db" where
  "update_job_status now i status document error d = d\<lparr>jt_rows :=
     update_where (\<lambda>j. jb_id j = i)
       (\<lambda>j. j\<lparr>jb_status := status, jb_document := document, jb_error := error,
          jb_completed := (if settled_status status then Some now else jb_completed j)\<rparr>)
       (jt_rows d)\<rparr>"

definition update_job_progress :: "int \<Rightarrow> string \<Rightarrow> job_db \<Rightarrow> job_db" where
  "update_job_progress i progress d = d\<lparr>jt_rows :=
     update_where (\<lambda>j. jb_id j = i) (\<lambda>j. j\<lparr>jb_progress := Some progress\<rparr>) (jt_rows d)\<rparr>"

definition list_user_jobs :: "int \<Rightarrow> nat \<Rightarrow> int option \<Rightarrow> job_db \<Rightarrow> job list \<times> bool" where
  "list_user_jobs uid limit starting_after d =
     newest_page jb_id (\<lambda>j. jb_user j = uid) limit starting_after (jt_rows d)"

text \<open>The iterator of the SDK over the endpoint \<open>GET /v1/research\<close>.\<close>

definition iter_research :: "int \<Rightarrow> nat \<Rightarrow> job_db \<Rightarrow> job list option" where
  "iter_research uid limit d = iter_by_id limit (\<lambda>c. list_user_jobs uid limit c d) jb_id"

section \<open>Well-formed job tables\<close>

definition job_wf :: "job \<Rightarrow> bool" where
  "job_wf j \<longleftrightarrow> (settled_status (jb_status j) \<longrightarrow> jb_completed j \<noteq> None)"

definition jobs_wf :: "job_db \<Rightarrow> bool" where
  "jobs_wf d \<longleftrightarrow> serial jb_id (jt_next d) (jt_rows d) \<and> (\<forall>j \<in> set (jt_rows d). job_wf j)"

lemma jobs_wf_distinct: "jobs_wf d \<Longrightarrow> distinct (map jb_id (jt_rows d))"
  by (auto simp: jobs_wf_def dest: serial_distinct)

definition no_jobs :: job_db where
  "no_jobs = \<lparr>jt_rows = [], jt_next = 1\<rparr>"

lemma jobs_wf_empty [simp]: "jobs_wf no_jobs"
  by (simp add: jobs_wf_def no_jobs_def)

lemma new_job_simps [simp]:
  "jb_id (new_job now i uid key url) = i" "jb_user (new_job now i uid key url) = uid"
  "jb_status (new_job now i uid key url) = Processing" "job_wf (new_job now i uid key url)"
  by (simp_all add: new_job_def job_wf_def settled_status_def)

lemma jobs_wf_insert: "jobs_wf d \<Longrightarrow> insert_job now uid key url d = (d', j) \<Longrightarrow> jobs_wf d'"
  by (auto simp: jobs_wf_def insert_job_def Let_def serial_snoc)

lemma jobs_wf_update:
  assumes "jobs_wf d" "\<And>j. jb_id (f j) = jb_id j" "\<And>j. job_wf j \<Longrightarrow> job_wf (f j)"
  shows "jobs_wf (d\<lparr>jt_rows := update_where P f (jt_rows d)\<rparr>)"
  using assms by (auto simp: jobs_wf_def serial_update set_update_where)

lemma jobs_wf_update_status [simp]: "jobs_wf d \<Longrightarrow> jobs_wf (update_job_status now i st doc e d)"
  unfolding update_job_status_def by (rule jobs_wf_update) (auto simp: job_wf_def)

lemma jobs_wf_update_progress [simp]: "jobs_wf d \<Longrightarrow> jobs_wf (update_job_progress i p d)"
  unfolding update_job_progress_def by (rule jobs_wf_update) (auto simp: job_wf_def)

lemma job_of_insert:
  assumes "jobs_wf d" "insert_job now uid key url d = (d', j)"
  shows "job_of d' = (job_of d)(jt_next d \<mapsto> j)" "jb_id j = jt_next d"
  using assms by (auto simp: job_of_def insert_job_def Let_def jobs_wf_def fun_eq_iff
      serial_find_snoc [where n = "jt_next d"])

lemma job_of_update_status:
  "job_of (update_job_status now i st doc e d) k = map_option (\<lambda>j. if jb_id j = i
     then j\<lparr>jb_status := st, jb_document := doc, jb_error := e,
        jb_completed := (if settled_status st then Some now else jb_completed j)\<rparr>
     else j) (job_of d k)"
  by (simp add: job_of_def update_job_status_def find_update_where)

lemma job_of_update_progress:
  "job_of (update_job_progress i p d) k =
     map_option (\<lambda>j. if jb_id j = i then j\<lparr>jb_progress := Some p\<rparr> else j) (job_of d k)"
  by (simp add: job_of_def update_job_progress_def find_update_where)

lemma get_research_job_wf:
  assumes "jobs_wf d"
  shows "get_research_job i uid d =
    (case job_of d i of None \<Rightarrow> None | Some j \<Rightarrow> if jb_user j = uid then Some j else None)"
proof (cases "job_of d i")
  case None
  then have "get_research_job i uid d = None"
    by (auto simp: get_research_job_def job_of_def find_None_iff)
  with None show ?thesis by simp
next
  case (Some j)
  then have j: "j \<in> set (jt_rows d)" "jb_id j = i" unfolding job_of_def by (auto dest: find_Some_mem)
  have "get_research_job i uid d = (if jb_user j = uid then Some j else None)"
  proof (cases "get_research_job i uid d")
    case None
    then show ?thesis using j by (auto simp: get_research_job_def find_None_iff)
  next
    case (Some k)
    then have "k \<in> set (jt_rows d)" "jb_id k = i" "jb_user k = uid"
      unfolding get_research_job_def by (auto dest: find_Some_mem)
    then have "k = j" using j jobs_wf_distinct [OF assms] by (metis distinct_key_eq)
    then show ?thesis using Some \<open>jb_user k = uid\<close> by simp
  qed
  then show ?thesis using Some by simp
qed

lemma create_job_with_credit_cases:
  obtains (refused) "create_job_with_credit now uid key url cents a d = Inl InsufficientCredits"
      "\<not> affordable a uid cents"
  | (created) oid b d' j where "org_of_user a uid = Some oid" "balance_of a oid = Some b" "cents \<le> b"
      "insert_job now uid key url d = (d', j)"
      "create_job_with_credit now uid key url cents a d =
         Inr (invalidate_usage_cache uid (add_to_org oid (- cents) a), d', j)"
proof (cases rule: charge_org_cases [of uid cents a])
  case refused
  then show thesis by (intro that(1)) (auto simp: create_job_with_credit_def use_credit_conn_def)
next
  case (paid oid b)
  obtain d' j where ins: "insert_job now uid key url d = (d', j)"
    by (cases "insert_job now uid key url d")
  have "user_of (add_to_org oid (- cents) a) uid \<noteq> None"
    using paid(1) by (auto simp: org_of_user_def user_of_def add_to_org_def split: option.splits)
  with paid ins show thesis
    by (intro that(2) [of oid b d' j])
      (simp_all add: create_job_with_credit_def use_credit_conn_def create_research_job_def)
qed

section \<open>The listing endpoint\<close>

definition jobs_of_user :: "int \<Rightarrow> job_db \<Rightarrow> job list" where
  "jobs_of_user uid d = newest_first jb_id (filter (\<lambda>j. jb_user j = uid) (jt_rows d))"

lemma newest_page_query:
  assumes "distinct (map key rows)"
  shows "query_int (\<lambda>c. newest_page key P n c rows) None =
      Some (page_of n (newest_first key (filter P rows)))"
    and "newest_first key (filter P rows) = xs @ r # ys \<Longrightarrow>
      query_int (\<lambda>c. newest_page key P n c rows) (Some (str_int (key r))) = Some (page_of n ys)"
  by (simp_all add: query_int_def newest_page_first newest_page_next [OF assms])

interpretation research_listing: paged_store jobs_wf
  "\<lambda>d limit. query_int (\<lambda>c. list_user_jobs uid limit c d)" "jobs_of_user uid" "\<lambda>j. str_int (jb_id j)"
  by unfold_locales
    (simp_all add: list_user_jobs_def jobs_of_user_def newest_page_query jobs_wf_distinct)

section \<open>Properties\<close>

text \<open>
  Reserving a credit and creating a job is all or nothing: either the balance of the
  organization covers the price, is lowered by exactly it and a new job in status
  processing is appended under a fresh identifier, or the call fails with the
  insufficient-credits error (and leaves accounts and jobs as they were).
\<close>

theorem create_job_with_credit_atomic:
  assumes "jobs_wf d"
  shows "(case create_job_with_credit now uid key url cents a d of
      Inl e \<Rightarrow> e = InsufficientCredits \<and> \<not> affordable a uid cents
    | Inr (a', d', j) \<Rightarrow> affordable a uid cents \<and>
        (\<exists>g b. org_of_user a uid = Some g \<and> balance_of a g = Some b \<and>
           balance_of a' = (balance_of a)(g \<mapsto> b - cents)) \<and>
        job_of d (jb_id j) = None \<and> job_of d' = (job_of d)(jb_id j \<mapsto> j) \<and>
        jb_status j = Processing \<and> jb_user j = uid \<and> jobs_wf d')"
proof (cases rule: create_job_with_credit_cases [of now uid key url cents a d])
  case refused
  then show ?thesis by simp
next
  case (created oid b d' j)
  have "job_of d (jt_next d) = None"
    using assms by (simp add: jobs_wf_def job_of_def serial_fresh)
  moreover have "jb_status j = Processing \<and> jb_user j = uid"
    using created(4) by (auto simp: insert_job_def Let_def)
  moreover have "affordable a uid cents" using created by (simp add: affordable_def)
  moreover have "balance_of (add_to_org oid (- cents) a) = (balance_of a)(oid \<mapsto> b - cents)"
    using created by (simp add: balance_of_add_to_org fun_eq_iff)
  ultimately show ?thesis
    using created job_of_insert [OF assms created(4)] jobs_wf_insert [OF assms created(4)]
    by simp
qed

text \<open>
  The SDK iterator over research jobs ends and yields every job of the user exactly
  once, newest first, for every page size the endpoint accepts, as long as no request is rate limited.
\<close>

theorem iter_research_complete:
  assumes "jobs_wf d" "valid_limit limit"
  shows "\<exists>js. iter_research uid limit d = Some js \<and> distinct (map jb_id js) \<and>
    set js = {j \<in> set (jt_rows d). jb_user j = uid} \<and>
    sorted_wrt (\<lambda>x y. jb_id y < jb_id x) js"
proof (intro exI conjI)
  show "iter_research uid limit d = Some (jobs_of_user uid d)"
    using assms research_listing.iter_all [OF assms(1), of limit] by (simp add: iter_research_def iter_by_id_def valid_limit_def)
  show sorted: "sorted_wrt (\<lambda>x y. jb_id y < jb_id x) (jobs_of_user uid d)"
    using assms by (simp add: jobs_of_user_def jobs_wf_distinct newest_first_strict)
  show "set (jobs_of_user uid d) = {j \<in> set (jt_rows d). jb_user j = uid}"
    by (auto simp: jobs_of_user_def newest_first_def)
  have "sorted_wrt (>) (map jb_id (jobs_of_user uid d))" using sorted by (simp add: sorted_wrt_map)
  then show "distinct (map jb_id (jobs_of_user uid d))"
    using strict_sorted_iff [of "rev (map jb_id (jobs_of_user uid d))"]
    by (simp add: sorted_wrt_rev)
qed

definition three_jobs :: job_db where
  "three_jobs = \<lparr>jt_rows = [new_job 0 1 7 None ''a'', new_job 5 2 8 None ''b'',
     new_job 9 3 7 None ''c''], jt_next = 4\<rparr>"

lemma three_jobs_wf: "jobs_wf three_jobs"
  by (simp add: jobs_wf_def three_jobs_def serial_def)

theorem iter_research_complete_witness:
  "\<exists>js. iter_research 7 1 three_jobs = Some js \<and> distinct (map jb_id js) \<and>
    set js = {j \<in> set (jt_rows three_jobs). jb_user j = 7} \<and>
    sorted_wrt (\<lambda>x y. jb_id y < jb_id x) js"
  by (rule iter_research_complete [OF three_jobs_wf]) (simp add: valid_limit_def)

theorem create_job_with_credit_atomic_witness:
  "(case create_job_with_credit 0 1 None ''acme.com'' 100 office three_jobs of
      Inl e \<Rightarrow> False
    | Inr (a', d', j) \<Rightarrow> balance_of a' 1 = Some 150 \<and> job_of three_jobs (jb_id j) = None \<and>
        job_of d' = (job_of three_jobs)(jb_id j \<mapsto> j) \<and> jb_status j = Processing \<and> jobs_wf d')"
  using create_job_with_credit_atomic [OF three_jobs_wf, where now = 0 and uid = 1
      and key = None and url = "''acme.com''" and cents = 100 and a = office]
  by (auto simp: affordable_def split: sum.splits prod.splits)

end
