(* ===== verification/Cursors.thy ===== *)
theory Cursors
  imports Pagination
begin

text \<open>
  The composite cursors of \<open>api/pagination.py\<close>: a sort value and a row identifier, joined by a
  colon and encoded in URL-safe Base64. \<open>b64_encode\<close> and \<open>b64_decode\<close> model Python's
  \<open>base64.urlsafe_b64encode\<close> and \<open>urlsafe_b64decode\<close> (the lenient decoder, which skips
  characters outside the alphabet); \<open>None\<close> stands for an exception. Texts are ASCII.
\<close>

section \<open>Base64\<close>

definition b64_char :: "nat \<Rightarrow> char" where
  "b64_char v = (if v < 26 then char_of (65 + v) else if v < 52 then char_of (71 + v)
     else if v < 62 then char_of (v - 4) else if v = 62 then CHR ''-'' else CHR ''_'')"

definition b64_value :: "char \<Rightarrow> nat option" where
  "b64_value c = (let n = (of_char c :: nat) in
     if 65 \<le> n \<and> n \<le> 90 then Some (n - 65)
     else if 97 \<le> n \<and> n \<le> 122 then Some (n - 71)
     else if 48 \<le> n \<and> n \<le> 57 then Some (n + 4)
     else if n = 45 \<or> n = 43 then Some 62  \<comment> \<open>- or +\<close>
     else if n = 95 \<or> n = 47 then Some 63  \<comment> \<open>_ or /\<close>
     else None)"

definition byte :: "char \<Rightarrow> nat" where
  "byte c = of_char c"

fun b64_encode :: "string \<Rightarrow> string" where
  "b64_encode [] = []"
| "b64_encode [a] = [b64_char (byte a div 4), b64_char (byte a mod 4 * 16), CHR ''='', CHR ''='']"
| "b64_encode [a, b] = [b64_char (byte a div 4), b64_char (byte a mod 4 * 16 + byte b div 16),
     b64_char (byte b mod 16 * 4), CHR ''='']"
| "b64_encode (a # b # c # s) = b64_char (byte a div 4) # b64_char (byte a mod 4 * 16 + byte b div 16) #
     b64_char (byte b mod 16 * 4 + byte c div 64) # b64_char (byte c mod 64) # b64_encode s"

text \<open>
  The decoder keeps the position in the current group of four, the bits left over from the last
  character and the number of padding characters seen in the group.
\<close>

fun b64_go :: "nat \<Rightarrow> nat \<Rightarrow> nat \<Rightarrow> string \<Rightarrow> string option" where
  "b64_go q left pads [] = (if q = 0 then Some [] else None)"
| "b64_go q left pads (c # s) =
     (if c = CHR ''='' then
        (if q \<ge> 2 then (if q + (pads + 1) \<ge> 4 then Some [] else b64_go q left (pads + 1) s)
         else b64_go q left pads s)
      else (case b64_value c of
        None \<Rightarrow> b64_go q left pads s
      | Some v \<Rightarrow>
          if q = 0 then b64_go 1 v 0 s
          else if q = 1 then map_option ((#) (char_of (left * 4 + v div 16))) (b64_go 2 (v mod 16) 0 s)
          else if q = 2 then map_option ((#) (char_of (left * 16 + v div 4))) (b64_go 3 (v mod 4) 0 s)
          else map_option ((#) (char_of (left * 64 + v))) (b64_go 0 0 0 s)))"

definition b64_decode :: "string \<Rightarrow> string option" where
  "b64_decode s = b64_go 0 0 0 s"

definition is_ascii :: "string \<Rightarrow> bool" where
  "is_ascii s \<longleftrightarrow> (\<forall>c \<in> set s. byte c < 128)"

section \<open>Cursors\<close>

definition encode_cursor :: "string \<Rightarrow> string" where
  "encode_cursor v = b64_encode v"

definition decode_cursor :: "string \<Rightarrow> string option" where
  "decode_cursor c = (case b64_decode c of None \<Rightarrow> None | Some s \<Rightarrow> if is_ascii s then Some s else None)"

datatype cursor_value = NoValue | IntValue int | TextValue string

fun value_text :: "cursor_value \<Rightarrow> string" where
  "value_text NoValue = ''null''"
| "value_text (IntValue i) = str_int i"
| "value_text (TextValue t) = t"

definition encode_composite_cursor :: "cursor_value \<Rightarrow> int \<Rightarrow> string" where
  "encode_composite_cursor v item_id = encode_cursor (value_text v @ '':'' @ str_int item_id)"

text \<open>\<open>raw.rsplit(":", 1)\<close>; the subscript \<open>parts[1]\<close> raises when there is no colon.\<close>

definition rsplit_colon :: "string \<Rightarrow> (string \<times> string) option" where
  "rsplit_colon s = (let r = rev s in
     if CHR '':'' \<notin> set s then None
     else Some (rev (tl (dropWhile (\<lambda>c. c \<noteq> CHR '':'') r)), rev (takeWhile (\<lambda>c. c \<noteq> CHR '':'') r)))"

definition decode_composite_cursor :: "string \<Rightarrow> (string option \<times> int) option" where
  "decode_composite_cursor c = Option.bind (decode_cursor c) (\<lambda>raw.
     Option.bind (rsplit_colon raw) (\<lambda>(sort_val, i).
     map_option (Pair (if sort_val = ''null'' then None else Some sort_val)) (py_int i)))"

section \<open>The round trip\<close>

lemma byte_less: "byte c < 256"
  by (simp add: byte_def)

lemma b64_value_char: "v < 64 \<Longrightarrow> b64_value (b64_char v) = Some v \<and> b64_char v \<noteq> CHR ''=''"
proof -
  assume "v < 64"
  then consider "v < 26" | "26 \<le> v" "v < 52" | "52 \<le> v" "v < 62" | "v = 62" | "v = 63" by linarith
  then have "b64_value (b64_char v) = Some v"
    by cases (auto simp: b64_value_def b64_char_def Let_def)
  moreover have "b64_value CHR ''='' = None" by (simp add: b64_value_def)
  ultimately show ?thesis by (metis option.distinct(1))
qed

lemma char_of_byte [simp]: "char_of (byte c) = c"
  by (simp add: byte_def)

lemma b64_go_step:
  assumes "v < 64"
  shows "b64_go q left pads (b64_char v # s) =
    (if q = 0 then b64_go 1 v 0 s
     else if q = 1 then map_option ((#) (char_of (left * 4 + v div 16))) (b64_go 2 (v mod 16) 0 s)
     else if q = 2 then map_option ((#) (char_of (left * 16 + v div 4))) (b64_go 3 (v mod 4) 0 s)
     else map_option ((#) (char_of (left * 64 + v))) (b64_go 0 0 0 s))"
  using b64_value_char [OF assms] by simp

lemma split_pos:
  fixes q t k :: nat
  assumes "t < k"
  shows "(q * k + t) div k = q" "(q * k + t) mod k = t"
  using assms by simp_all

lemma sextets:
  fixes a b c :: nat
  assumes "a < 256" "b < 256" "c < 256"
  shows "a div 4 < 64" "a mod 4 * 16 < 64" "a mod 4 * 16 + b div 16 < 64" "b mod 16 * 4 < 64"
    "b mod 16 * 4 + c div 64 < 64" "c mod 64 < 64"
    "a div 4 * 4 + a mod 4 * 16 div 16 = a" "a mod 4 * 16 mod 16 = 0"
    "b mod 16 * 4 mod 4 = 0"
    "(a mod 4 * 16 + b div 16) div 16 = a mod 4" "(a mod 4 * 16 + b div 16) mod 16 = b div 16"
    "(b mod 16 * 4 + c div 64) div 4 = b mod 16" "(b mod 16 * 4 + c div 64) mod 4 = c div 64"
    "b mod 16 * 4 div 4 = b mod 16" "b div 16 * 16 + b mod 16 = b" "a div 4 * 4 + a mod 4 = a"
    "c div 64 * 64 + c mod 64 = c"
proof -
  have lt: "b div 16 < 16" "c div 64 < 4" "a mod 4 < 4" "b mod 16 < 16" using assms by simp_all
  then show "a div 4 < 64" "a mod 4 * 16 < 64" "a mod 4 * 16 + b div 16 < 64" "b mod 16 * 4 < 64"
    "b mod 16 * 4 + c div 64 < 64" "c mod 64 < 64" using assms(1) by simp_all
  show "(a mod 4 * 16 + b div 16) div 16 = a mod 4" "(a mod 4 * 16 + b div 16) mod 16 = b div 16"
    by (rule split_pos [OF lt(1)])+
  show "(b mod 16 * 4 + c div 64) div 4 = b mod 16" "(b mod 16 * 4 + c div 64) mod 4 = c div 64"
    by (rule split_pos [OF lt(2)])+
qed simp_all

lemma b64_round_trip: "b64_decode (b64_encode s) = Some s"
  unfolding b64_decode_def
proof (induction s rule: b64_encode.induct)
  case (2 a)
  note sx = sextets [OF byte_less [of a] byte_less [of a] byte_less [of a]]
  show ?case by (simp only: b64_encode.simps b64_go_step sx) (simp add: sx)
next
  case (3 a b)
  note sx = sextets [OF byte_less [of a] byte_less [of b] byte_less [of b]]
  show ?case by (simp only: b64_encode.simps b64_go_step sx) (simp add: sx)
next
  case (4 a b c s)
  note sx = sextets [OF byte_less [of a] byte_less [of b] byte_less [of c]]
  show ?case by (simp only: b64_encode.simps b64_go_step sx 4) (simp add: sx)
qed simp

lemma cursor_round_trip: "is_ascii s \<Longrightarrow> decode_cursor (encode_cursor s) = Some s"
  by (simp add: decode_cursor_def encode_cursor_def b64_round_trip)

lemma rsplit_last_colon:
  assumes "CHR '':'' \<notin> set b"
  shows "rsplit_colon (a @ '':'' @ b) = Some (a, b)"
proof -
  have all: "\<forall>c \<in> set (rev b). c \<noteq> CHR '':''" using assms by auto
  then have "takeWhile (\<lambda>c. c \<noteq> CHR '':'') (rev b @ CHR '':'' # rev a) = rev b"
    "dropWhile (\<lambda>c. c \<noteq> CHR '':'') (rev b @ CHR '':'' # rev a) = CHR '':'' # rev a"
    by (subst takeWhile_append2 dropWhile_append2; simp)+
  then show ?thesis by (simp add: rsplit_colon_def Let_def)
qed

lemma str_int_chars: "c \<in> set (str_int i) \<Longrightarrow> c = CHR ''-'' \<or> digit_value c \<noteq> None"
  using str_nat_digit_values by (auto simp: str_int_def split: if_splits)

lemma str_int_ascii: "is_ascii (str_int i)" "CHR '':'' \<notin> set (str_int i)"
proof -
  have "byte c < 128 \<and> c \<noteq> CHR '':''" if "c \<in> set (str_int i)" for c
    using str_int_chars [OF that] by (auto simp: byte_def digit_value_def Let_def split: if_splits)
  then show "is_ascii (str_int i)" "CHR '':'' \<notin> set (str_int i)" by (auto simp: is_ascii_def)
qed

lemma cursor_decodes:
  assumes "is_ascii (value_text v)"
  shows "decode_composite_cursor (encode_composite_cursor v item_id) =
    Some (if v = NoValue \<or> v = TextValue ''null'' then None else Some (value_text v), item_id)"
proof -
  let ?s = "value_text v @ '':'' @ str_int item_id"
  have "is_ascii ?s"
    using assms str_int_ascii(1) [of item_id] by (auto simp: is_ascii_def byte_def)
  then have dec: "decode_cursor (encode_composite_cursor v item_id) = Some ?s"
    by (simp add: encode_composite_cursor_def cursor_round_trip)
  have "str_int i \<noteq> ''null''" for i
  proof
    assume eq: "str_int i = ''null''"
    have "CHR ''n'' \<in> set (str_int i)" by (simp add: eq)
    from str_int_chars [OF this] show False by (simp add: digit_value_def)
  qed
  then have "value_text v = ''null'' \<longleftrightarrow> v = NoValue \<or> v = TextValue ''null''"
    by (cases v) auto
  then show ?thesis
    unfolding decode_composite_cursor_def dec
    by (simp add: rsplit_last_colon [OF str_int_ascii(2)] del: append.simps)
qed



end
