(* ===== verification/Batches.thy ===== *)
theory Batches
  imports Pagination
begin

text \<open>
  What bulk jobs (\<open>db/bulk.py\<close>) and account lists (\<open>db/lists.py\<close>) share: a parent row with a
  total and two counters, children whose outcomes move the counters in the transaction that
  records them, and a final status read off the counters. The interface \<open>batch_counter\<close> states
  the contract of the child update.
\<close>

datatype batch_status = BatchCreated | BatchProcessing | BatchAnalyzing | BatchCompleted
  | BatchPartialFailure | BatchFailed

datatype child_status = ChildPending | ChildProcessing | ChildCompleted | ChildFailed

text \<open>The status computed by \<open>finalize_bulk_job\<close> and \<open>finalize_list\<close>.\<close>

definition batch_verdict :: "int \<Rightarrow> int \<Rightarrow> batch_status" where
  "batch_verdict n failed =
     (if failed = n then BatchFailed else if failed > 0 then BatchPartialFailure
      else BatchCompleted)"

definition settled_child :: "child_status \<Rightarrow> bool" where
  "settled_child s \<longleftrightarrow> s \<in> {ChildCompleted, ChildFailed}"

section \<open>Counting outcomes\<close>

text \<open>A child and whether it succeeded.\<close>

type_synonym outcome = "int \<times> bool"

definition outcomes_of :: "(int \<Rightarrow> int option) \<Rightarrow> int \<Rightarrow> bool \<Rightarrow> outcome list \<Rightarrow> int" where
  "outcomes_of owner p b os = count_where (\<lambda>(c, ok). owner c = Some p \<and> ok = b) os"

fun settle_all :: "(int \<Rightarrow> bool \<Rightarrow> 's \<Rightarrow> 's) \<Rightarrow> outcome list \<Rightarrow> 's \<Rightarrow> 's" where
  "settle_all settle [] s = s"
| "settle_all settle ((c, b) # os) s = settle_all settle os (settle c b s)"

definition bump :: "bool \<Rightarrow> int \<times> int \<times> int \<Rightarrow> int \<times> int \<times> int" where
  "bump b = (\<lambda>(t, d, f). if b then (t, d + 1, f) else (t, d, f + 1))"

locale batch_counter =
  fixes owner :: "'s \<Rightarrow> int \<Rightarrow> int option"
    and counts :: "'s \<Rightarrow> int \<Rightarrow> (int \<times> int \<times> int) option"
    and settle :: "int \<Rightarrow> bool \<Rightarrow> 's \<Rightarrow> 's"
  assumes owner_settle: "owner (settle c b s) = owner s"
    and counts_settle: "counts (settle c b s) p =
      (if owner s c = Some p then map_option (bump b) (counts s p) else counts s p)"
begin

lemma owner_settle_all [simp]: "owner (settle_all settle os s) = owner s"
  by (induction os arbitrary: s) (auto simp: owner_settle)

lemma counts_settle_all:
  "counts (settle_all settle os s) p = map_option (\<lambda>(t, d, f).
     (t, d + outcomes_of (owner s) p True os, f + outcomes_of (owner s) p False os)) (counts s p)"
proof (induction os arbitrary: s)
  case Nil
  then show ?case by (simp add: outcomes_of_def option.map_ident)
next
  case (Cons o' os)
  obtain c b where o': "o' = (c, b)" by fastforce
  show ?case
    by (cases "counts s p") (auto simp: o' Cons counts_settle owner_settle outcomes_of_def bump_def)
qed

text \<open>
  When every one of the children of a parent has been settled exactly once, the counters add
  up and the verdict says whether all, some or none of them failed.
\<close>

lemma all_settled_verdict:
  assumes "counts s p = Some (int (length os), 0, 0)" "\<And>c b. (c, b) \<in> set os \<Longrightarrow> owner s c = Some p"
  shows "\<exists>d f. counts (settle_all settle os s) p = Some (int (length os), d, f) \<and>
    d + f = int (length os) \<and>
    (batch_verdict (int (length os)) f = BatchFailed \<longleftrightarrow> (\<forall>(c, b) \<in> set os. \<not> b)) \<and>
    (batch_verdict (int (length os)) f = BatchCompleted \<longleftrightarrow> os \<noteq> [] \<and> (\<forall>(c, b) \<in> set os. b))"
proof -
  let ?d = "outcomes_of (owner s) p True os" and ?f = "outcomes_of (owner s) p False os"
  have owned: "outcomes_of (owner s) p b os = count_where (\<lambda>(c, ok). ok = b) os" for b
    using assms(2) unfolding outcomes_of_def count_where_def
    by (auto intro!: arg_cong [where f = length] filter_cong)
  have sum: "count_where (\<lambda>(c, ok). ok = True) os + count_where (\<lambda>(c, ok). ok = False) os =
      int (length os)"
    by (induction os) auto
  have f0: "?f = 0 \<longleftrightarrow> (\<forall>(c, b) \<in> set os. b)" and d0: "?d = 0 \<longleftrightarrow> (\<forall>(c, b) \<in> set os. \<not> b)"
    unfolding owned count_where_eq_0 by auto
  have nonneg: "0 \<le> ?f" by (simp add: outcomes_of_def)
  have total: "?d + ?f = int (length os)" using sum by (simp only: owned)
  have "counts (settle_all settle os s) p = Some (int (length os), ?d, ?f)"
    using assms(1) by (simp add: counts_settle_all)
  moreover have "batch_verdict (int (length os)) ?f = BatchFailed \<longleftrightarrow> ?d = 0"
    using total by (auto simp: batch_verdict_def)
  moreover have "batch_verdict (int (length os)) ?f = BatchCompleted \<longleftrightarrow> os \<noteq> [] \<and> ?f = 0"
    using total nonneg by (auto simp: batch_verdict_def)
  ultimately show ?thesis using total f0 d0 by blast
qed

end

end
