(* ===== verification/Bulk_Jobs.thy ===== *)
theory Bulk_Jobs
  imports Batches Credits Research_Jobs
begin

text \<open>
  Bulk research jobs and their items: \<open>db/bulk.py\<close>, tables \<open>bulk_jobs\<close> and
  \<open>bulk_job_items\<close>.
\<close>

section \<open>The tables\<close>

record bulk_row =
  bj_id :: int
  bj_user :: int
  bj_key :: int
  bj_name :: "string option"
  bj_status :: batch_status
  bj_total :: int
  bj_completed :: int
  bj_failed :: int
  bj_credits :: int
  bj_created :: time
  bj_completed_at :: "time option"

record item_row =
  bi_id :: int
  bi_job :: int
  bi_research :: "int option"
  bi_url :: string
  bi_status :: child_status
  bi_document :: "int option"
  bi_error :: "string option"
  bi_created :: time
  bi_completed_at :: "time option"

record bulk_db =
  bk_jobs :: "bulk_row list"
  bk_items :: "item_row list"
  bk_next_job :: int
  bk_next_item :: int

definition bulk_of :: "bulk_db \<Rightarrow> int \<Rightarrow> bulk_row option" where
  "bulk_of d i = find (\<lambda>j. bj_id j = i) (bk_jobs d)"

definition item_of :: "bulk_db \<Rightarrow> int \<Rightarrow> item_row option" where
  "item_of d i = find (\<lambda>r. bi_id r = i) (bk_items d)"

section \<open>Operations\<close>

definition new_bulk :: "time \<Rightarrow> int \<Rightarrow> int \<Rightarrow> int \<Rightarrow> string option \<Rightarrow> int \<Rightarrow> int \<Rightarrow> bulk_row" where
  "new_bulk now i uid key name n credits = \<lparr>bj_id = i, bj_user = uid, bj_key = key,
     bj_name = name, bj_status = BatchProcessing, bj_total = n, bj_completed = 0, bj_failed = 0,
     bj_credits = credits, bj_created = now, bj_completed_at = None\<rparr>"

definition create_bulk_job ::
    "time \<Rightarrow> int \<Rightarrow> int \<Rightarrow> string option \<Rightarrow> int \<Rightarrow> int \<Rightarrow> bulk_db \<Rightarrow> bulk_db \<times> bulk_row" where
  "create_bulk_job now uid key name n credits d =
     (let j = new_bulk now (bk_next_job d) uid key name n credits in
      (d\<lparr>bk_jobs := bk_jobs d @ [j], bk_next_job := bk_next_job d + 1\<rparr>, j))"

definition create_bulk_job_with_credit ::
    "time \<Rightarrow> int \<Rightarrow> int \<Rightarrow> string option \<Rightarrow> int \<Rightarrow> int \<Rightarrow> accounts \<Rightarrow> bulk_db \<Rightarrow>
     job_error + (accounts \<times> bulk_db \<times> bulk_row)" where
  "create_bulk_job_with_credit now uid key name n cents a d =
     (case use_credit_conn uid cents a of (a', ok) \<Rightarrow>
        if \<not> ok then Inl InsufficientCredits
        else (case create_bulk_job now uid key name n cents d of (d', j) \<Rightarrow>
          Inr (invalidate_usage_cache uid a', d', j)))"

definition get_bulk_job :: "int \<Rightarrow> int \<Rightarrow> bulk_db \<Rightarrow> bulk_row option" where
  "get_bulk_job i uid d = find (\<lambda>j. bj_id j = i \<and> bj_user j = uid) (bk_jobs d)"

definition list_bulk_jobs :: "int \<Rightarrow> nat \<Rightarrow> int option \<Rightarrow> bulk_db \<Rightarrow> bulk_row list \<times> bool" where
  "list_bulk_jobs uid limit starting_after d =
     newest_page bj_id (\<lambda>j. bj_user j = uid) limit starting_after (bk_jobs d)"

definition iter_bulk_jobs :: "int \<Rightarrow> nat \<Rightarrow> bulk_db \<Rightarrow> bulk_row list option" where
  "iter_bulk_jobs uid limit d = iter_by_id limit (\<lambda>c. list_bulk_jobs uid limit c d) bj_id"

definition new_item :: "time \<Rightarrow> int \<Rightarrow> int \<Rightarrow> string \<Rightarrow> item_row" where
  "new_item now i job url = \<lparr>bi_id = i, bi_job = job, bi_research = None, bi_url = url,
     bi_status = ChildPending, bi_document = None, bi_error = None, bi_created = now,
     bi_completed_at = None\<rparr>"

fun insert_items :: "time \<Rightarrow> int \<Rightarrow> string list \<Rightarrow> bulk_db \<Rightarrow> bulk_db" where
  "insert_items now job [] d = d"
| "insert_items now job (url # urls) d = insert_items now job urls
     (d\<lparr>bk_items := bk_items d @ [new_item now (bk_next_item d) job url],
       bk_next_item := bk_next_item d + 1\<rparr>)"

definition create_bulk_job_items ::
    "time \<Rightarrow> int \<Rightarrow> string list \<Rightarrow> bulk_db \<Rightarrow> bulk_db \<times> item_row list" where
  "create_bulk_job_items now job urls d = (let d' = insert_items now job urls d in
     (d', sort_key bi_id (filter (\<lambda>r. bi_job r = job) (bk_items d'))))"

text \<open>The generator starts below every identifier and reads 500 rows at a time.\<close>

definition iter_bulk_job_items :: "int \<Rightarrow> nat \<Rightarrow> bulk_db \<Rightarrow> item_row list option" where
  "iter_bulk_job_items job page_size d =
     scan_pages (scan_fetch bi_id (\<lambda>r. bi_job r = job) page_size (bk_items d)) bi_id 0"

definition get_bulk_job_items :: "int \<Rightarrow> bulk_db \<Rightarrow> item_row list option" where
  "get_bulk_job_items job d = iter_bulk_job_items job 500 d"

text \<open>
  The item and the counter of its parent are updated in one transaction.
\<close>

definition set_item ::
    "time \<Rightarrow> child_status \<Rightarrow> int option \<Rightarrow> int option \<Rightarrow> string option \<Rightarrow> item_row \<Rightarrow> item_row" where
  "set_item now status research document error r = r\<lparr>bi_status := status, bi_research := research,
     bi_document := document, bi_error := error,
     bi_completed_at := (if settled_child status then Some now else bi_completed_at r)\<rparr>"

definition update_bulk_job_item ::
    "time \<Rightarrow> int \<Rightarrow> child_status \<Rightarrow> int option \<Rightarrow> int option \<Rightarrow> string option \<Rightarrow> bulk_db \<Rightarrow> bulk_db" where
  "update_bulk_job_item now item status research document error d =
     (let items = update_where (\<lambda>r. bi_id r = item)
            (set_item now status research document error) (bk_items d);
          parent = map_option bi_job (find (\<lambda>r. bi_id r = item) items)
      in d\<lparr>bk_items := items,
           bk_jobs := (if status = ChildCompleted then
               update_where (\<lambda>j. parent = Some (bj_id j)) (\<lambda>j. j\<lparr>bj_completed := bj_completed j + 1\<rparr>)
                 (bk_jobs d)
             else if status = ChildFailed then
               update_where (\<lambda>j. parent = Some (bj_id j)) (\<lambda>j. j\<lparr>bj_failed := bj_failed j + 1\<rparr>)
                 (bk_jobs d)
             else bk_jobs d)\<rparr>)"

text \<open>\<open>row["failed_items"]\<close> raises when the job does not exist.\<close>

definition finalize_bulk_job :: "time \<Rightarrow> int \<Rightarrow> bulk_db \<Rightarrow> db_error + (bulk_db \<times> bulk_row)" where
  "finalize_bulk_job now job d = (case bulk_of d job of
     None \<Rightarrow> Inl MissingRow
   | Some r \<Rightarrow>
       let f = (\<lambda>j. j\<lparr>bj_status := batch_verdict (bj_total r) (bj_failed r),
                  bj_completed_at := Some now\<rparr>)
       in Inr (d\<lparr>bk_jobs := update_where (\<lambda>j. bj_id j = job) f (bk_jobs d)\<rparr>, f r))"

section \<open>Well-formed tables\<close>

definition bulk_wf :: "bulk_db \<Rightarrow> bool" where
  "bulk_wf d \<longleftrightarrow> serial bj_id (bk_next_job d) (bk_jobs d) \<and>
     serial bi_id (bk_next_item d) (bk_items d) \<and> (\<forall>r \<in> set (bk_items d). 0 < bi_id r) \<and>
     0 < bk_next_item d"

definition no_bulk :: bulk_db where
  "no_bulk = \<lparr>bk_jobs = [], bk_items = [], bk_next_job = 1, bk_next_item = 1\<rparr>"

lemma bulk_wf_empty [simp]: "bulk_wf no_bulk"
  by (simp add: bulk_wf_def no_bulk_def)

lemma bulk_wf_create: "bulk_wf d \<Longrightarrow> create_bulk_job now uid key name n c d = (d', j) \<Longrightarrow> bulk_wf d'"
  by (auto simp: bulk_wf_def create_bulk_job_def Let_def new_bulk_def serial_snoc)

lemma insert_items_eq:
  "bulk_wf d \<Longrightarrow> bulk_wf (insert_items now job urls d) \<and>
    bk_jobs (insert_items now job urls d) = bk_jobs d \<and>
    (\<exists>new. bk_items (insert_items now job urls d) = bk_items d @ new \<and> map bi_url new = urls \<and>
       (\<forall>r \<in> set new. bi_job r = job \<and> bi_status r = ChildPending))"
proof (induction now job urls d rule: insert_items.induct)
  case (2 now job url urls d)
  let ?r = "new_item now (bk_next_item d) job url"
  have "bulk_wf (d\<lparr>bk_items := bk_items d @ [?r], bk_next_item := bk_next_item d + 1\<rparr>)"
    using 2(2) by (auto simp: bulk_wf_def new_item_def serial_snoc)
  from 2(1) [OF this] show ?case
    by (auto simp: new_item_def)
qed simp

lemma set_item_simps [simp]:
  "bi_id (set_item now st rj doc e r) = bi_id r" "bi_job (set_item now st rj doc e r) = bi_job r"
  by (simp_all add: set_item_def)

lemma bulk_wf_update [simp]: "bulk_wf d \<Longrightarrow> bulk_wf (update_bulk_job_item now i st rj doc e d)"
  by (auto simp: bulk_wf_def update_bulk_job_item_def Let_def serial_update set_update_where)

lemma bulk_wf_finalize: "bulk_wf d \<Longrightarrow> finalize_bulk_job now i d = Inr (d', r) \<Longrightarrow> bulk_wf d'"
  by (auto simp: bulk_wf_def finalize_bulk_job_def Let_def serial_update split: option.splits)

section \<open>The counters\<close>

definition bulk_owner :: "bulk_db \<Rightarrow> int \<Rightarrow> int option" where
  "bulk_owner d i = map_option bi_job (item_of d i)"

definition bulk_counts :: "bulk_db \<Rightarrow> int \<Rightarrow> (int \<times> int \<times> int) option" where
  "bulk_counts d p = map_option (\<lambda>j. (bj_total j, bj_completed j, bj_failed j)) (bulk_of d p)"

definition settle_item ::
    "time \<Rightarrow> (int \<Rightarrow> int) \<Rightarrow> (int \<Rightarrow> int) \<Rightarrow> (int \<Rightarrow> string) \<Rightarrow> int \<Rightarrow> bool \<Rightarrow> bulk_db \<Rightarrow> bulk_db" where
  "settle_item now rj doc err item ok d =
     (if ok then update_bulk_job_item now item ChildCompleted (Some (rj item)) (Some (doc item)) None d
      else update_bulk_job_item now item ChildFailed (Some (rj item)) None (Some (err item)) d)"

lemma bulk_items_update:
  "bk_items (update_bulk_job_item now i st rj doc e d) =
     update_where (\<lambda>r. bi_id r = i) (set_item now st rj doc e) (bk_items d)"
  by (simp add: update_bulk_job_item_def Let_def)

lemma bulk_owner_update [simp]: "bulk_owner (update_bulk_job_item now i st rj doc e d) = bulk_owner d"
proof
  fix k
  have "item_of (update_bulk_job_item now i st rj doc e d) k =
      map_option (\<lambda>r. if bi_id r = i then set_item now st rj doc e r else r) (item_of d k)"
    by (simp add: item_of_def bulk_items_update find_update_where)
  then show "bulk_owner (update_bulk_job_item now i st rj doc e d) k = bulk_owner d k"
    by (cases "item_of d k") (simp_all add: bulk_owner_def)
qed

lemma find_update_parent:
  assumes "\<And>j. bj_id (f j) = bj_id j"
  shows "find (\<lambda>j. bj_id j = p) (update_where (\<lambda>j. q = Some (bj_id j)) f t) =
    map_option (\<lambda>j. if q = Some p then f j else j) (find (\<lambda>j. bj_id j = p) t)"
  using assms by (induction t) auto

lemma bulk_jobs_update:
  "bk_jobs (update_bulk_job_item now i st rj doc e d) =
    (if st = ChildCompleted then update_where (\<lambda>j. bulk_owner d i = Some (bj_id j))
       (\<lambda>j. j\<lparr>bj_completed := bj_completed j + 1\<rparr>) (bk_jobs d)
     else if st = ChildFailed then update_where (\<lambda>j. bulk_owner d i = Some (bj_id j))
       (\<lambda>j. j\<lparr>bj_failed := bj_failed j + 1\<rparr>) (bk_jobs d)
     else bk_jobs d)"
proof -
  have parent: "map_option bi_job (find (\<lambda>r. bi_id r = i)
      (update_where (\<lambda>r. bi_id r = i) (set_item now st rj doc e) (bk_items d))) = bulk_owner d i"
    using fun_cong [OF bulk_owner_update [of now i st rj doc e d], of i]
    by (simp add: bulk_owner_def item_of_def bulk_items_update del: bulk_owner_update)
  show ?thesis unfolding update_bulk_job_item_def Let_def parent by simp
qed

lemma bulk_counts_update:
  "bulk_counts (update_bulk_job_item now i st rj doc e d) p =
    (if bulk_owner d i = Some p \<and> settled_child st
     then map_option (bump (st = ChildCompleted)) (bulk_counts d p) else bulk_counts d p)"
  by (cases st; cases "find (\<lambda>j. bj_id j = p) (bk_jobs d)")
    (simp_all add: bulk_counts_def bulk_of_def bulk_jobs_update settled_child_def bump_def
      find_update_parent)

interpretation bulk: batch_counter bulk_owner bulk_counts "settle_item now rj doc err"
  by unfold_locales (auto simp: settle_item_def bulk_counts_update settled_child_def)

section \<open>The listing\<close>

definition bulk_jobs_of_user :: "int \<Rightarrow> bulk_db \<Rightarrow> bulk_row list" where
  "bulk_jobs_of_user uid d = newest_first bj_id (filter (\<lambda>j. bj_user j = uid) (bk_jobs d))"

lemma bulk_wf_distinct:
  "bulk_wf d \<Longrightarrow> distinct (map bj_id (bk_jobs d))" "bulk_wf d \<Longrightarrow> distinct (map bi_id (bk_items d))"
  by (auto simp: bulk_wf_def dest: serial_distinct)

interpretation bulk_listing: paged_store bulk_wf
  "\<lambda>d limit. query_int (\<lambda>c. list_bulk_jobs uid limit c d)" "bulk_jobs_of_user uid"
  "\<lambda>j. str_int (bj_id j)"
  by unfold_locales
    (simp_all add: list_bulk_jobs_def bulk_jobs_of_user_def newest_page_query bulk_wf_distinct)

section \<open>Properties\<close>

text \<open>
  C7: Once every item of a bulk job has been settled exactly once, its counters add up to
  the number of items, and the status that finalizing computes is failed exactly when all items
  failed, completed exactly when none did, and partial failure in between.
\<close>

theorem bulk_verdict_correct:
  assumes "bulk_counts d p = Some (int (length os), 0, 0)"
    and "\<And>c b. (c, b) \<in> set os \<Longrightarrow> bulk_owner d c = Some p"
  shows "\<exists>d' r. finalize_bulk_job fin p (settle_all (settle_item now rj doc err) os d) = Inr (d', r) \<and>
    bj_completed r + bj_failed r = int (length os) \<and> bj_completed_at r = Some fin \<and>
    (bj_status r = BatchFailed \<longleftrightarrow> (\<forall>(c, b) \<in> set os. \<not> b)) \<and>
    (bj_status r = BatchCompleted \<longleftrightarrow> os \<noteq> [] \<and> (\<forall>(c, b) \<in> set os. b)) \<and>
    bj_status r \<in> {BatchCompleted, BatchPartialFailure, BatchFailed}"
proof -
  let ?d = "settle_all (settle_item now rj doc err) os d"
  obtain dn f where c: "bulk_counts ?d p = Some (int (length os), dn, f)"
    "dn + f = int (length os)"
    "batch_verdict (int (length os)) f = BatchFailed \<longleftrightarrow> (\<forall>(c, b) \<in> set os. \<not> b)"
    "batch_verdict (int (length os)) f = BatchCompleted \<longleftrightarrow> os \<noteq> [] \<and> (\<forall>(c, b) \<in> set os. b)"
    using bulk.all_settled_verdict [OF assms(1), where now = now and rj = rj and doc = doc and err = err]
      assms(2) by metis
  from c(1) obtain j where j: "bulk_of ?d p = Some j" "bj_total j = int (length os)"
    "bj_completed j = dn" "bj_failed j = f"
    by (auto simp: bulk_counts_def)
  have "batch_verdict (int (length os)) f \<in> {BatchCompleted, BatchPartialFailure, BatchFailed}"
    by (simp add: batch_verdict_def)
  with c j show ?thesis by (simp add: finalize_bulk_job_def Let_def)
qed

text \<open>
  Counters are not idempotent: settling an item that was already settled moves a counter
  again, so a job whose item is first timed out by the status endpoint and then completed by
  its worker reports more settled items than it has.
\<close>

theorem settling_twice_counts_twice:
  assumes "bulk_owner d item = Some p" "bulk_counts d p = Some (t, c, f)"
  shows "bulk_counts (update_bulk_job_item now' item ChildCompleted rj' doc' e'
      (update_bulk_job_item now item ChildFailed rj doc e d)) p = Some (t, c + 1, f + 1)"
  using assms by (simp add: bulk_counts_update settled_child_def bump_def)

text \<open>
  Reading the items of a bulk job through the paged generator terminates and yields
  every item of the job once, in the order of insertion.
\<close>

theorem bulk_items_complete:
  assumes "bulk_wf d"
  shows "get_bulk_job_items job d = Some (sort_key bi_id (filter (\<lambda>r. bi_job r = job) (bk_items d)))"
proof -
  have "filter (\<lambda>r. bi_job r = job \<and> 0 < bi_id r) (bk_items d) = filter (\<lambda>r. bi_job r = job) (bk_items d)"
    using assms by (auto simp: bulk_wf_def intro!: filter_cong)
  then show ?thesis
    using scan_pages_all [OF bulk_wf_distinct(2) [OF assms], of 500 "\<lambda>r. bi_job r = job" 0]
    by (simp add: get_bulk_job_items_def iter_bulk_job_items_def)
qed

text \<open>
  A bulk job is paid for when it is created: with enough credit the whole price leaves
  the balance and an empty-counter job of that size is stored with the price it reserved;
  otherwise nothing changes.
\<close>

theorem create_bulk_job_atomic:
  assumes "bulk_wf d"
  shows "(case create_bulk_job_with_credit now uid key name n cents a d of
      Inl e \<Rightarrow> e = InsufficientCredits \<and> \<not> affordable a uid cents
    | Inr (a', d', j) \<Rightarrow> affordable a uid cents \<and>
        (\<exists>g b. org_of_user a uid = Some g \<and> balance_of a g = Some b \<and>
           balance_of a' = (balance_of a)(g \<mapsto> b - cents)) \<and>
        bulk_counts d (bj_id j) = None \<and> bulk_counts d' (bj_id j) = Some (n, 0, 0) \<and>
        bj_credits j = cents \<and> bulk_wf d')"
proof (cases rule: charge_org_cases [of uid cents a])
  case refused
  then show ?thesis by (simp add: create_bulk_job_with_credit_def use_credit_conn_def)
next
  case (paid oid b)
  obtain d' j where cr: "create_bulk_job now uid key name n cents d = (d', j)"
    by (cases "create_bulk_job now uid key name n cents d")
  have fresh: "bulk_of d (bk_next_job d) = None"
    using assms by (simp add: bulk_wf_def bulk_of_def serial_fresh)
  have j: "bj_id j = bk_next_job d" "bj_credits j = cents" "bulk_counts d' (bj_id j) = Some (n, 0, 0)"
    using cr fresh by (auto simp: create_bulk_job_def Let_def new_bulk_def bulk_counts_def
        bulk_of_def find_append)
  have "balance_of (add_to_org oid (- cents) a) = (balance_of a)(oid \<mapsto> b - cents)"
    using paid by (simp add: balance_of_add_to_org fun_eq_iff)
  with paid cr j fresh bulk_wf_create [OF assms cr] show ?thesis
    by (simp add: create_bulk_job_with_credit_def use_credit_conn_def affordable_def bulk_counts_def)
qed

section \<open>A concrete bulk job\<close>

definition pair_job :: bulk_db where
  "pair_job = insert_items 0 1 [''a.com'', ''b.com''] (fst (create_bulk_job 0 9 4 None 2 200 no_bulk))"

lemma pair_job_facts: "bulk_wf pair_job" "bulk_counts pair_job 1 = Some (2, 0, 0)"
  "bulk_owner pair_job 1 = Some 1" "bulk_owner pair_job 2 = Some 1"
proof -
  obtain d j where d: "create_bulk_job 0 9 4 None 2 200 no_bulk = (d, j)" by fastforce
  have "bulk_wf d" using bulk_wf_create [OF bulk_wf_empty d] .
  from insert_items_eq [OF this] d show "bulk_wf pair_job"
    by (simp add: pair_job_def del: insert_items.simps)
qed (simp_all add: pair_job_def create_bulk_job_def Let_def no_bulk_def new_bulk_def new_item_def
    bulk_counts_def bulk_of_def bulk_owner_def item_of_def)

theorem bulk_verdict_correct_witness:
  "\<exists>d' r. finalize_bulk_job 50 1 (settle_all (settle_item 40 (\<lambda>i. i) (\<lambda>i. i) (\<lambda>i. ''x''))
      [(1, True), (2, False)] pair_job) = Inr (d', r) \<and>
    bj_completed r + bj_failed r = 2 \<and> bj_status r \<noteq> BatchFailed \<and> bj_status r \<noteq> BatchCompleted"
  using bulk_verdict_correct [of pair_job 1 "[(1, True), (2, False)]" 50 40 "\<lambda>i. i" "\<lambda>i. i" "\<lambda>i. ''x''"]
    pair_job_facts by fastforce

theorem settling_twice_counts_twice_witness:
  "bulk_counts (update_bulk_job_item 9 1 ChildCompleted None None None
      (update_bulk_job_item 5 1 ChildFailed None None None pair_job)) 1 = Some (2, 1, 1)"
  using settling_twice_counts_twice [OF pair_job_facts(3,2)] by simp

theorem bulk_items_complete_witness:
  "get_bulk_job_items 1 pair_job =
     Some (sort_key bi_id (filter (\<lambda>r. bi_job r = 1) (bk_items pair_job)))"
  by (rule bulk_items_complete [OF pair_job_facts(1)])

theorem create_bulk_job_atomic_witness:
  "(case create_bulk_job_with_credit 0 2 4 None 2 200 office pair_job of
      Inl e \<Rightarrow> False
    | Inr (a', d', j) \<Rightarrow> balance_of a' 1 = Some 50 \<and> bulk_counts d' (bj_id j) = Some (2, 0, 0) \<and>
        bj_credits j = 200 \<and> bulk_wf d')"
  using create_bulk_job_atomic [OF pair_job_facts(1), where now = 0 and uid = 2 and key = 4
      and name = None and n = 2 and cents = 200 and a = office]
  by (auto simp: affordable_def split: sum.splits prod.splits)

end
