(* ===== verification/Account_Lists.thy ===== *)
theory Account_Lists
  imports Batches Cursors Credits Research_Jobs "HOL-Library.Product_Lexorder"
begin

text \<open>
  Account lists: \<open>db/lists.py\<close>, \<open>try_start_list_analysis\<close> of \<open>db/users.py\<close>, tables
  \<open>lists\<close> and \<open>list_accounts\<close>. Lists belong to an organization; their accounts are the
  children of the batch. \<open>get_list_accounts\<close> sorts by a score and pages with a composite cursor.
\<close>

section \<open>The tables\<close>

record list_row =
  ls_id :: int
  ls_user :: int
  ls_key :: "int option"
  ls_name :: string
  ls_org :: "int option"
  ls_status :: batch_status
  ls_total :: int
  ls_analyzed :: int
  ls_failed :: int
  ls_credits :: int
  ls_source :: "(string \<times> json) list"
  ls_created :: time
  ls_updated :: time

record account_row =
  la_id :: int
  la_list :: int
  la_url :: string
  la_source :: "string option"
  la_status :: child_status
  la_document :: "int option"
  la_research :: "int option"
  la_pain :: "int option"
  la_fit :: "int option"
  la_timing :: "int option"
  la_composite :: "int option"
  la_company :: "string option"
  la_error :: "string option"
  la_created :: time
  la_analyzed_at :: "time option"
  la_enrichment :: string
  la_outreach :: string
  la_pushed :: "(string \<times> json) list"

record list_db =
  ld_lists :: "list_row list"
  ld_accounts :: "account_row list"
  ld_next_list :: int
  ld_next_account :: int

definition list_of :: "list_db \<Rightarrow> int \<Rightarrow> list_row option" where
  "list_of d i = find (\<lambda>l. ls_id l = i) (ld_lists d)"

definition account_of :: "list_db \<Rightarrow> int \<Rightarrow> account_row option" where
  "account_of d i = find (\<lambda>r. la_id r = i) (ld_accounts d)"

section \<open>Lists\<close>

definition new_list :: "time \<Rightarrow> int \<Rightarrow> int \<Rightarrow> int option \<Rightarrow> string \<Rightarrow> int option \<Rightarrow> list_row" where
  "new_list now i uid key name org = \<lparr>ls_id = i, ls_user = uid, ls_key = key, ls_name = name,
     ls_org = org, ls_status = BatchCreated, ls_total = 0, ls_analyzed = 0, ls_failed = 0,
     ls_credits = 0, ls_source = [], ls_created = now, ls_updated = now\<rparr>"

text \<open>Without an explicit organization the list gets that of its user.\<close>

definition create_list ::
    "time \<Rightarrow> int \<Rightarrow> int option \<Rightarrow> string \<Rightarrow> int option \<Rightarrow> accounts \<Rightarrow> list_db \<Rightarrow> list_db \<times> list_row" where
  "create_list now uid key name org a d =
     (let org' = (case org of None \<Rightarrow> org_of_user a uid | Some g \<Rightarrow> Some g);
          l = new_list now (ld_next_list d) uid key name org'
      in (d\<lparr>ld_lists := ld_lists d @ [l], ld_next_list := ld_next_list d + 1\<rparr>, l))"

text \<open>\<open>org_id = (SELECT org_id ...)\<close> does not hold when either side is NULL.\<close>

definition in_org_of :: "accounts \<Rightarrow> int \<Rightarrow> list_row \<Rightarrow> bool" where
  "in_org_of a uid l \<longleftrightarrow> org_of_user a uid \<noteq> None \<and> ls_org l = org_of_user a uid"

definition get_list :: "int \<Rightarrow> int \<Rightarrow> accounts \<Rightarrow> list_db \<Rightarrow> list_row option" where
  "get_list i uid a d = find (\<lambda>l. ls_id l = i \<and> in_org_of a uid l) (ld_lists d)"

definition list_lists :: "int \<Rightarrow> nat \<Rightarrow> int option \<Rightarrow> accounts \<Rightarrow> list_db \<Rightarrow> list_row list \<times> bool" where
  "list_lists uid limit starting_after a d =
     newest_page ls_id (in_org_of a uid) limit starting_after (ld_lists d)"

definition iter_lists :: "int \<Rightarrow> nat \<Rightarrow> accounts \<Rightarrow> list_db \<Rightarrow> list_row list option" where
  "iter_lists uid limit a d = iter_by_id limit (\<lambda>c. list_lists uid limit c a d) ls_id"

text \<open>Deleting a list cascades to its accounts.\<close>

definition delete_list :: "int \<Rightarrow> int \<Rightarrow> accounts \<Rightarrow> list_db \<Rightarrow> list_db \<times> bool" where
  "delete_list i uid a d = (case get_list i uid a d of
     None \<Rightarrow> (d, False)
   | Some l \<Rightarrow> (d\<lparr>ld_lists := filter (\<lambda>l. \<not> (ls_id l = i \<and> in_org_of a uid l)) (ld_lists d),
        ld_accounts := filter (\<lambda>r. la_list r \<noteq> i) (ld_accounts d)\<rparr>, True))"

definition update_list_where :: "int \<Rightarrow> (list_row \<Rightarrow> list_row) \<Rightarrow> list_db \<Rightarrow> list_db" where
  "update_list_where i f d = d\<lparr>ld_lists := update_where (\<lambda>l. ls_id l = i) f (ld_lists d)\<rparr>"

definition update_account_where :: "int \<Rightarrow> (account_row \<Rightarrow> account_row) \<Rightarrow> list_db \<Rightarrow> list_db" where
  "update_account_where i f d = d\<lparr>ld_accounts := update_where (\<lambda>r. la_id r = i) f (ld_accounts d)\<rparr>"

definition update_list_status :: "time \<Rightarrow> int \<Rightarrow> batch_status \<Rightarrow> list_db \<Rightarrow> list_db" where
  "update_list_status now i status d =
     update_list_where i (\<lambda>l. l\<lparr>ls_status := status, ls_updated := now\<rparr>) d"

definition update_list_credits :: "time \<Rightarrow> int \<Rightarrow> int \<Rightarrow> list_db \<Rightarrow> list_db" where
  "update_list_credits now i credits d =
     update_list_where i (\<lambda>l. l\<lparr>ls_credits := credits, ls_updated := now\<rparr>) d"

definition get_list_source :: "int \<Rightarrow> list_db \<Rightarrow> (string \<times> json) list option" where
  "get_list_source i d = (case list_of d i of
     None \<Rightarrow> None | Some l \<Rightarrow> if ls_source l = [] then None else Some (ls_source l))"

definition set_list_source :: "time \<Rightarrow> int \<Rightarrow> (string \<times> json) list \<Rightarrow> list_db \<Rightarrow> list_db" where
  "set_list_source now i source d =
     update_list_where i (\<lambda>l. l\<lparr>ls_source := source, ls_updated := now\<rparr>) d"

text \<open>
  The conditional update that lets one caller start the analysis; \<open>RETURNING id\<close> says whether
  a row was changed.
\<close>

definition try_start_list_analysis :: "time \<Rightarrow> int \<Rightarrow> list_db \<Rightarrow> list_db \<times> bool" where
  "try_start_list_analysis now i d =
     (let P = (\<lambda>l. ls_id l = i \<and> ls_status l \<noteq> BatchAnalyzing) in
      (d\<lparr>ld_lists := update_where P (\<lambda>l. l\<lparr>ls_status := BatchAnalyzing, ls_updated := now\<rparr>)
            (ld_lists d)\<rparr>, \<exists>l \<in> set (ld_lists d). P l))"

section \<open>Accounts of a list\<close>

definition new_account :: "time \<Rightarrow> int \<Rightarrow> int \<Rightarrow> string \<Rightarrow> string option \<Rightarrow> account_row" where
  "new_account now i lid url source = \<lparr>la_id = i, la_list = lid, la_url = url, la_source = source,
     la_status = ChildPending, la_document = None, la_research = None, la_pain = None, la_fit = None,
     la_timing = None, la_composite = None, la_company = None, la_error = None, la_created = now,
     la_analyzed_at = None, la_enrichment = ''none'', la_outreach = ''none'', la_pushed = []\<rparr>"

fun insert_accounts ::
    "time \<Rightarrow> int \<Rightarrow> (string \<Rightarrow> string option) \<Rightarrow> string list \<Rightarrow> list_db \<Rightarrow> list_db" where
  "insert_accounts now lid source [] d = d"
| "insert_accounts now lid source (url # urls) d = insert_accounts now lid source urls
     (d\<lparr>ld_accounts := ld_accounts d @ [new_account now (ld_next_account d) lid url (source url)],
       ld_next_account := ld_next_account d + 1\<rparr>)"

definition add_list_accounts ::
    "time \<Rightarrow> int \<Rightarrow> string list \<Rightarrow> (string \<Rightarrow> string option) \<Rightarrow> list_db \<Rightarrow> list_db \<times> account_row list" where
  "add_list_accounts now lid urls source d =
     (let d' = update_list_where lid (\<lambda>l. l\<lparr>ls_total := int (length urls), ls_updated := now\<rparr>)
            (insert_accounts now lid source urls d)
      in (d', sort_key la_id (filter (\<lambda>r. la_list r = lid) (ld_accounts d'))))"

definition get_list_account :: "int \<Rightarrow> int \<Rightarrow> list_db \<Rightarrow> account_row option" where
  "get_list_account i lid d = find (\<lambda>r. la_id r = i \<and> la_list r = lid) (ld_accounts d)"

record pipeline_counts =
  pc_total :: int
  pc_scored :: int
  pc_enriched :: int
  pc_sequences :: int
  pc_pushed :: int
  pc_failed :: int

definition get_pipeline_counts :: "int \<Rightarrow> list_db \<Rightarrow> pipeline_counts" where
  "get_pipeline_counts lid d = (let rows = filter (\<lambda>r. la_list r = lid) (ld_accounts d) in
     \<lparr>pc_total = int (length rows),
      pc_scored = count_where (\<lambda>r. la_status r = ChildCompleted) rows,
      pc_enriched = count_where (\<lambda>r. la_enrichment r = ''completed'') rows,
      pc_sequences = count_where (\<lambda>r. la_outreach r = ''completed'') rows,
      pc_pushed = count_where (\<lambda>r. la_pushed r \<noteq> []) rows,
      pc_failed = count_where (\<lambda>r. la_status r = ChildFailed) rows\<rparr>)"

text \<open>An empty list of identifiers is falsy in Python and so selects every account.\<close>

definition count_ready_accounts :: "int \<Rightarrow> int list option \<Rightarrow> list_db \<Rightarrow> int" where
  "count_ready_accounts lid ids d = count_where (\<lambda>r. la_list r = lid \<and> la_status r = ChildCompleted \<and>
     la_document r \<noteq> None \<and> (case ids of None \<Rightarrow> True | Some is \<Rightarrow> is = [] \<or> la_id r \<in> set is))
     (ld_accounts d)"

record scores =
  sc_pain :: "int option"
  sc_fit :: "int option"
  sc_timing :: "int option"
  sc_composite :: "int option"

definition no_scores :: scores where
  "no_scores = \<lparr>sc_pain = None, sc_fit = None, sc_timing = None, sc_composite = None\<rparr>"

definition set_account ::
    "time \<Rightarrow> child_status \<Rightarrow> int option \<Rightarrow> int option \<Rightarrow> scores \<Rightarrow> string option \<Rightarrow> string option \<Rightarrow>
     account_row \<Rightarrow> account_row" where
  "set_account now status document research sc company error r = r\<lparr>la_status := status,
     la_document := document, la_research := research, la_pain := sc_pain sc, la_fit := sc_fit sc,
     la_timing := sc_timing sc, la_composite := sc_composite sc, la_company := company,
     la_error := error,
     la_analyzed_at := (if settled_child status then Some now else la_analyzed_at r)\<rparr>"

definition account_owner :: "list_db \<Rightarrow> int \<Rightarrow> int option" where
  "account_owner d i = map_option la_list (account_of d i)"

definition update_owner :: "int \<Rightarrow> (list_row \<Rightarrow> list_row) \<Rightarrow> list_db \<Rightarrow> list_db" where
  "update_owner i f d =
     d\<lparr>ld_lists := update_where (\<lambda>l. account_owner d i = Some (ls_id l)) f (ld_lists d)\<rparr>"

definition update_list_account ::
    "time \<Rightarrow> int \<Rightarrow> child_status \<Rightarrow> int option \<Rightarrow> int option \<Rightarrow> scores \<Rightarrow> string option \<Rightarrow>
     string option \<Rightarrow> list_db \<Rightarrow> list_db" where
  "update_list_account now i status document research sc company error d =
     (let d1 = update_account_where i (set_account now status document research sc company error) d
      in if status = ChildCompleted
         then update_owner i (\<lambda>l. l\<lparr>ls_analyzed := ls_analyzed l + 1, ls_updated := now\<rparr>) d1
         else if status = ChildFailed
         then update_owner i (\<lambda>l. l\<lparr>ls_failed := ls_failed l + 1, ls_updated := now\<rparr>) d1
         else d1)"

definition finalize_list :: "time \<Rightarrow> int \<Rightarrow> list_db \<Rightarrow> db_error + (list_db \<times> list_row)" where
  "finalize_list now i d = (case list_of d i of
     None \<Rightarrow> Inl MissingRow
   | Some r \<Rightarrow>
       let f = (\<lambda>l. l\<lparr>ls_status := batch_verdict (ls_total r) (ls_failed r), ls_updated := now\<rparr>)
       in Inr (update_list_where i f d, f r))"

definition reset_list_account :: "time \<Rightarrow> int \<Rightarrow> list_db \<Rightarrow> list_db" where
  "reset_list_account now i d = update_owner i
     (\<lambda>l. l\<lparr>ls_failed := max (ls_failed l - 1) 0, ls_updated := now\<rparr>)
     (update_account_where i
        (\<lambda>r. r\<lparr>la_status := ChildPending, la_error := None, la_research := None\<rparr>) d)"

definition iter_pending_list_accounts :: "int \<Rightarrow> nat \<Rightarrow> list_db \<Rightarrow> account_row list option" where
  "iter_pending_list_accounts lid page_size d =
     scan_pages (scan_fetch la_id (\<lambda>r. la_list r = lid \<and> la_status r = ChildPending) page_size
       (ld_accounts d)) la_id 0"

definition get_pending_list_accounts :: "int \<Rightarrow> list_db \<Rightarrow> account_row list option" where
  "get_pending_list_accounts lid d = iter_pending_list_accounts lid 500 d"

definition update_list_account_enrichment :: "int \<Rightarrow> string \<Rightarrow> string option \<Rightarrow> list_db \<Rightarrow> list_db" where
  "update_list_account_enrichment i status error d = update_account_where i
     (\<lambda>r. r\<lparr>la_enrichment := status,
        la_error := (case error of None \<Rightarrow> la_error r | Some e \<Rightarrow> Some e)\<rparr>) d"

definition update_list_account_outreach :: "int \<Rightarrow> string \<Rightarrow> list_db \<Rightarrow> list_db" where
  "update_list_account_outreach i status d = update_account_where i (\<lambda>r. r\<lparr>la_outreach := status\<rparr>) d"

definition update_list_account_pushed :: "int \<Rightarrow> string \<Rightarrow> json \<Rightarrow> list_db \<Rightarrow> list_db" where
  "update_list_account_pushed i provider data d =
     update_account_where i (\<lambda>r. r\<lparr>la_pushed := AList.update provider data (la_pushed r)\<rparr>) d"

section \<open>Sorted pages of accounts\<close>

datatype page_error = BadCursor | BadQuery

definition allowed_sorts :: "string list" where
  "allowed_sorts = [''pain_score'', ''composite_score'', ''fit_score'', ''timing_score'', ''company_name'']"

definition score_of :: "string \<Rightarrow> account_row \<Rightarrow> int option" where
  "score_of field r = (if field = ''pain_score'' then la_pain r
     else if field = ''fit_score'' then la_fit r
     else if field = ''timing_score'' then la_timing r else la_composite r)"

text \<open>
  \<open>ORDER BY field order NULLS LAST, id order\<close>; \<open>rank\<close> is the collation of the database, as
  the position it gives a text.
\<close>

definition sort_rank :: "(string \<Rightarrow> int) \<Rightarrow> string \<Rightarrow> bool \<Rightarrow> account_row \<Rightarrow> int \<times> int \<times> int" where
  "sort_rank rank field desc r =
     (let v = (if field = ''company_name'' then map_option rank (la_company r) else score_of field r);
          sgn = (if desc then - 1 else 1)
      in (case v of None \<Rightarrow> (1, 0, sgn * la_id r) | Some x \<Rightarrow> (0, sgn * x, sgn * la_id r)))"

text \<open>
  The row comparison of the cursor: \<open>(COALESCE(field, -1), id) < (COALESCE(cursor, -1), cursor_id)\<close>
  when descending, \<open>>\<close> with 999 when ascending.
\<close>

definition past_cursor :: "string \<Rightarrow> bool \<Rightarrow> int option \<Rightarrow> int \<Rightarrow> account_row \<Rightarrow> bool" where
  "past_cursor field desc cv cid r =
     (if desc then (coalesce (score_of field r) (- 1), la_id r) < (coalesce cv (- 1), cid)
      else (coalesce cv 999, cid) < (coalesce (score_of field r) 999, la_id r))"

text \<open>
  The condition a cursor adds. The query built for \<open>company_name\<close> splices an empty or a bare
  word as the default of \<open>COALESCE\<close>, which the database rejects.
\<close>

definition cursor_condition ::
    "string \<Rightarrow> bool \<Rightarrow> string option \<Rightarrow> page_error + (account_row \<Rightarrow> bool)" where
  "cursor_condition field desc starting_after = (case starting_after of
     None \<Rightarrow> Inr (\<lambda>r. True)
   | Some c \<Rightarrow> (case decode_composite_cursor c of
       None \<Rightarrow> Inl BadCursor
     | Some (v, cid) \<Rightarrow>
         if field = ''company_name'' then Inl BadQuery
         else (case v of
           None \<Rightarrow> Inr (past_cursor field desc None cid)
         | Some t \<Rightarrow> (case py_int t of
             None \<Rightarrow> Inl BadCursor
           | Some x \<Rightarrow> Inr (past_cursor field desc (Some x) cid)))))"

definition at_least :: "int option \<Rightarrow> int option \<Rightarrow> bool" where
  "at_least bound v = (case bound of None \<Rightarrow> True
     | Some b \<Rightarrow> (case v of None \<Rightarrow> False | Some x \<Rightarrow> b \<le> x))"

record account_filter =
  fl_min_pain :: "int option"
  fl_min_composite :: "int option"
  fl_status :: "child_status option"
  fl_ids :: "int list option"

definition passes :: "int \<Rightarrow> account_filter \<Rightarrow> account_row \<Rightarrow> bool" where
  "passes lid fl r \<longleftrightarrow> la_list r = lid \<and> at_least (fl_min_pain fl) (la_pain r) \<and>
     at_least (fl_min_composite fl) (la_composite r) \<and>
     (case fl_status fl of None \<Rightarrow> True | Some s \<Rightarrow> la_status r = s) \<and>
     (case fl_ids fl of None \<Rightarrow> True | Some is \<Rightarrow> la_id r \<in> set is)"

definition sort_column :: "string \<Rightarrow> string" where
  "sort_column sort_by = (if sort_by \<in> set allowed_sorts then sort_by else ''composite_score'')"

definition get_list_accounts ::
    "(string \<Rightarrow> int) \<Rightarrow> int \<Rightarrow> account_filter \<Rightarrow> string \<Rightarrow> string \<Rightarrow> nat \<Rightarrow> string option \<Rightarrow> list_db \<Rightarrow>
     page_error + (account_row list \<times> bool)" where
  "get_list_accounts rank lid fl sort_by order limit starting_after d =
     (let field = sort_column sort_by; desc = (order \<noteq> ''asc'')
      in case cursor_condition field desc starting_after of
           Inl e \<Rightarrow> Inl e
         | Inr past \<Rightarrow> Inr (page_of limit (sort_key (sort_rank rank field desc)
             (filter (\<lambda>r. passes lid fl r \<and> past r) (ld_accounts d)))))"

text \<open>
  The page part of \<open>get_list_endpoint\<close>: \<open>last.get(sort_by)\<close> becomes the next cursor.
  \<open>show_time\<close> prints a timestamp, the value of \<open>sort_by=created_at\<close>.
\<close>

definition cursor_value_of :: "(time \<Rightarrow> string) \<Rightarrow> string \<Rightarrow> account_row \<Rightarrow> cursor_value" where
  "cursor_value_of show_time sort_by r =
     (if sort_by = ''created_at'' then TextValue (show_time (la_created r))
      else (case score_of sort_by r of None \<Rightarrow> NoValue | Some x \<Rightarrow> IntValue x))"

definition next_cursor :: "(time \<Rightarrow> string) \<Rightarrow> string \<Rightarrow> account_row \<Rightarrow> string" where
  "next_cursor show_time sort_by r =
     encode_composite_cursor (cursor_value_of show_time sort_by r) (la_id r)"

definition list_accounts_page ::
    "(string \<Rightarrow> int) \<Rightarrow> int \<Rightarrow> account_filter \<Rightarrow> string \<Rightarrow> string \<Rightarrow> nat \<Rightarrow> list_db \<Rightarrow> string option \<Rightarrow>
     (account_row list \<times> bool) option" where
  "list_accounts_page rank lid fl sort_by order limit d starting_after =
     (case get_list_accounts rank lid fl sort_by order limit starting_after d of
        Inl e \<Rightarrow> None | Inr p \<Rightarrow> Some p)"

text \<open>The SDK iterator follows the \<open>next_cursor\<close> of each page.\<close>

definition iter_list_accounts ::
    "(string \<Rightarrow> int) \<Rightarrow> (time \<Rightarrow> string) \<Rightarrow> int \<Rightarrow> account_filter \<Rightarrow> string \<Rightarrow> string \<Rightarrow> nat \<Rightarrow> list_db \<Rightarrow>
     account_row list option" where
  "iter_list_accounts rank show_time lid fl sort_by order limit d =
     (if valid_limit limit then iter_pages (list_accounts_page rank lid fl sort_by order limit d)
        (next_cursor show_time sort_by) None else None)"

definition no_lists :: list_db where
  "no_lists = \<lparr>ld_lists = [], ld_accounts = [], ld_next_list = 1, ld_next_account = 1\<rparr>"

end
