(* ===== verification/List_Properties.thy ===== *)
theory List_Properties
  imports Account_Lists
begin

text \<open>
  Properties of account lists: the counters and the verdict, the exclusive start of an
  analysis, the enumeration of a list through its pages, and where the pages break.
\<close>

section \<open>Well-formed tables\<close>

definition score_ok :: "int option \<Rightarrow> bool" where
  "score_ok v = (case v of None \<Rightarrow> True | Some x \<Rightarrow> 0 \<le> x \<and> x \<le> 100)"

definition scores_ok :: "account_row \<Rightarrow> bool" where
  "scores_ok r \<longleftrightarrow> score_ok (la_pain r) \<and> score_ok (la_fit r) \<and> score_ok (la_timing r) \<and>
     score_ok (la_composite r)"

definition lists_wf :: "list_db \<Rightarrow> bool" where
  "lists_wf d \<longleftrightarrow> serial ls_id (ld_next_list d) (ld_lists d) \<and>
     serial la_id (ld_next_account d) (ld_accounts d) \<and> 0 < ld_next_account d \<and>
     (\<forall>r \<in> set (ld_accounts d). 0 < la_id r \<and> scores_ok r)"

lemma lists_wf_distinct:
  "lists_wf d \<Longrightarrow> distinct (map ls_id (ld_lists d))"
  "lists_wf d \<Longrightarrow> distinct (map la_id (ld_accounts d))"
  by (auto simp: lists_wf_def dest: serial_distinct)

lemma lists_wf_empty [simp]: "lists_wf no_lists"
  by (simp add: lists_wf_def no_lists_def)

lemma lists_wf_create: "lists_wf d \<Longrightarrow> create_list now uid key name org a d = (d', l) \<Longrightarrow> lists_wf d'"
  by (auto simp: lists_wf_def create_list_def Let_def new_list_def serial_snoc)

lemma new_account_simps [simp]:
  "la_id (new_account now i lid url s) = i" "la_list (new_account now i lid url s) = lid"
  "scores_ok (new_account now i lid url s)" "la_status (new_account now i lid url s) = ChildPending"
  by (simp_all add: new_account_def scores_ok_def score_ok_def)

lemma lists_wf_insert: "lists_wf d \<Longrightarrow> lists_wf (insert_accounts now lid s urls d)"
proof (induction now lid s urls d rule: insert_accounts.induct)
  case (2 now lid s url urls d)
  have "lists_wf (d\<lparr>ld_accounts := ld_accounts d @ [new_account now (ld_next_account d) lid url (s url)],
      ld_next_account := ld_next_account d + 1\<rparr>)"
    using 2(2) by (auto simp: lists_wf_def serial_snoc)
  from 2(1) [OF this] show ?case by simp
qed simp

lemma lists_wf_update_list:
  "lists_wf d \<Longrightarrow> (\<And>l. ls_id (f l) = ls_id l) \<Longrightarrow> lists_wf (update_list_where i f d)"
  by (auto simp: lists_wf_def update_list_where_def serial_update)

lemma lists_wf_update_owner:
  "lists_wf d \<Longrightarrow> (\<And>l. ls_id (f l) = ls_id l) \<Longrightarrow> lists_wf (update_owner i f d)"
  by (auto simp: lists_wf_def update_owner_def serial_update)

lemma lists_wf_update_account:
  "lists_wf d \<Longrightarrow> (\<And>r. la_id (f r) = la_id r) \<Longrightarrow> (\<And>r. scores_ok r \<Longrightarrow> scores_ok (f r)) \<Longrightarrow>
    lists_wf (update_account_where i f d)"
  by (auto simp: lists_wf_def update_account_where_def serial_update set_update_where)

lemma set_account_simps [simp]:
  "la_id (set_account now st doc rj sc co e r) = la_id r"
  "la_list (set_account now st doc rj sc co e r) = la_list r"
  by (simp_all add: set_account_def)

lemma lists_wf_update_list_account:
  assumes "lists_wf d" "score_ok (sc_pain sc)" "score_ok (sc_fit sc)" "score_ok (sc_timing sc)"
    "score_ok (sc_composite sc)"
  shows "lists_wf (update_list_account now i st doc rj sc co e d)"
proof -
  have "lists_wf (update_account_where i (set_account now st doc rj sc co e) d)"
    using assms by (intro lists_wf_update_account) (simp_all add: scores_ok_def set_account_def)
  then show ?thesis
    by (cases st) (simp_all add: update_list_account_def Let_def lists_wf_update_owner)
qed

section \<open>The counters\<close>

definition list_counts :: "list_db \<Rightarrow> int \<Rightarrow> (int \<times> int \<times> int) option" where
  "list_counts d p = map_option (\<lambda>l. (ls_total l, ls_analyzed l, ls_failed l)) (list_of d p)"

definition settle_account ::
    "time \<Rightarrow> (int \<Rightarrow> int) \<Rightarrow> (int \<Rightarrow> int) \<Rightarrow> (int \<Rightarrow> scores) \<Rightarrow> (int \<Rightarrow> string) \<Rightarrow> (int \<Rightarrow> string) \<Rightarrow>
     int \<Rightarrow> bool \<Rightarrow> list_db \<Rightarrow> list_db" where
  "settle_account now rj doc sc co err i ok d =
     (if ok then update_list_account now i ChildCompleted (Some (doc i)) (Some (rj i)) (sc i)
        (Some (co i)) None d
      else update_list_account now i ChildFailed None (Some (rj i)) no_scores None (Some (err i)) d)"

lemma account_owner_update_account:
  assumes "\<And>r. la_id (f r) = la_id r" "\<And>r. la_list (f r) = la_list r"
  shows "account_owner (update_account_where i f d) = account_owner d"
proof
  fix k
  have "account_of (update_account_where i f d) k =
      map_option (\<lambda>r. if la_id r = i then f r else r) (account_of d k)"
    using assms(1) by (simp add: account_of_def update_account_where_def find_update_where)
  then show "account_owner (update_account_where i f d) k = account_owner d k"
    using assms(2) by (cases "account_of d k") (simp_all add: account_owner_def)
qed

lemma account_owner_update_owner [simp]: "account_owner (update_owner i f d) = account_owner d"
  by (simp add: account_owner_def account_of_def update_owner_def fun_eq_iff)

lemma list_of_update_owner:
  assumes "\<And>l. ls_id (f l) = ls_id l"
  shows "list_of (update_owner i f d) p =
    map_option (\<lambda>l. if account_owner d i = Some p then f l else l) (list_of d p)"
proof -
  have "find (\<lambda>j. ls_id j = p) (update_where (\<lambda>j. q = Some (ls_id j)) f t) =
      map_option (\<lambda>j. if q = Some p then f j else j) (find (\<lambda>j. ls_id j = p) t)" for q t
    using assms by (induction t) auto
  then show ?thesis by (simp add: list_of_def update_owner_def)
qed

lemma list_of_update_account [simp]: "list_of (update_account_where i f d) = list_of d"
  by (simp add: list_of_def update_account_where_def fun_eq_iff)

lemma account_owner_update_list_account [simp]:
  "account_owner (update_list_account now i st doc rj sc co e d) = account_owner d"
  by (simp add: update_list_account_def Let_def account_owner_update_account)

lemma list_counts_update:
  "list_counts (update_list_account now i st doc rj sc co e d) p =
    (if account_owner d i = Some p \<and> settled_child st
     then map_option (bump (st = ChildCompleted)) (list_counts d p) else list_counts d p)"
  by (cases st; cases "list_of d p")
    (simp_all add: list_counts_def update_list_account_def Let_def list_of_update_owner
      account_owner_update_account settled_child_def bump_def)

interpretation lists: batch_counter account_owner list_counts "settle_account now rj doc sc co err"
  by unfold_locales (auto simp: settle_account_def list_counts_update settled_child_def)

text \<open>
  Once every account of a list has been settled exactly once, the counters add up to
  the size of the list and finalizing sets the status failed exactly when every account failed and
  completed exactly when none did.
\<close>

theorem list_verdict_correct:
  assumes "list_counts d p = Some (int (length os), 0, 0)"
    and "\<And>c b. (c, b) \<in> set os \<Longrightarrow> account_owner d c = Some p"
  shows "\<exists>d' r. finalize_list fin p (settle_all (settle_account now rj doc sc co err) os d) = Inr (d', r) \<and>
    ls_analyzed r + ls_failed r = int (length os) \<and>
    (ls_status r = BatchFailed \<longleftrightarrow> (\<forall>(c, b) \<in> set os. \<not> b)) \<and>
    (ls_status r = BatchCompleted \<longleftrightarrow> os \<noteq> [] \<and> (\<forall>(c, b) \<in> set os. b)) \<and>
    ls_status r \<in> {BatchCompleted, BatchPartialFailure, BatchFailed}"
proof -
  let ?d = "settle_all (settle_account now rj doc sc co err) os d"
  obtain dn f where c: "list_counts ?d p = Some (int (length os), dn, f)"
    "dn + f = int (length os)"
    "batch_verdict (int (length os)) f = BatchFailed \<longleftrightarrow> (\<forall>(c, b) \<in> set os. \<not> b)"
    "batch_verdict (int (length os)) f = BatchCompleted \<longleftrightarrow> os \<noteq> [] \<and> (\<forall>(c, b) \<in> set os. b)"
    using lists.all_settled_verdict [OF assms(1), where now = now and rj = rj and doc = doc
        and sc = sc and co = co and err = err] assms(2) by metis
  from c(1) obtain l where l: "list_of ?d p = Some l" "ls_total l = int (length os)"
    "ls_analyzed l = dn" "ls_failed l = f" by (auto simp: list_counts_def)
  have "batch_verdict (int (length os)) f \<in> {BatchCompleted, BatchPartialFailure, BatchFailed}"
    by (simp add: batch_verdict_def)
  with c l show ?thesis by (simp add: finalize_list_def Let_def)
qed

section \<open>Starting an analysis\<close>

text \<open>
  Only one caller starts the analysis of a list: the call that answers True found the
  list in another status and left it analyzing; every later call answers False and changes nothing,
  until some other operation moves the status on.
\<close>

theorem start_analysis_exclusive:
  assumes "lists_wf d" "try_start_list_analysis now i d = (d', True)"
  shows "(\<exists>l. list_of d i = Some l \<and> ls_status l \<noteq> BatchAnalyzing) \<and>
    (\<exists>l'. list_of d' i = Some l' \<and> ls_status l' = BatchAnalyzing) \<and>
    try_start_list_analysis later i d' = (d', False)"
proof -
  let ?P = "\<lambda>l. ls_id l = i \<and> ls_status l \<noteq> BatchAnalyzing"
  let ?f = "\<lambda>l. l\<lparr>ls_status := BatchAnalyzing, ls_updated := now\<rparr>"
  have "fst (try_start_list_analysis now i d) = d\<lparr>ld_lists := update_where ?P ?f (ld_lists d)\<rparr>"
    "snd (try_start_list_analysis now i d) = (\<exists>l \<in> set (ld_lists d). ?P l)"
    by (simp_all only: try_start_list_analysis_def Let_def fst_conv snd_conv)
  then have d': "d' = d\<lparr>ld_lists := update_where ?P ?f (ld_lists d)\<rparr>"
    and ex: "\<exists>l \<in> set (ld_lists d). ?P l"
    unfolding assms(2) by (simp_all only: fst_conv snd_conv)
  from ex obtain l where l: "l \<in> set (ld_lists d)" "ls_id l = i" "ls_status l \<noteq> BatchAnalyzing"
    by blast
  have found: "list_of d i = Some l"
    using find_distinct [OF lists_wf_distinct(1) [OF assms(1)] l(1)] l(2) by (simp add: list_of_def)
  have rows: "ld_lists d' = update_where ?P ?f (ld_lists d)" by (simp add: d')
  have "list_of d' i = map_option (\<lambda>r. if ?P r then ?f r else r) (list_of d i)"
    unfolding list_of_def rows by (rule find_update_where) simp
  then have found': "list_of d' i = Some (?f l)" using l found by simp
  have none: "\<not> ?P x" if "x \<in> set (ld_lists d')" for x
    using that unfolding rows by (rule update_where_all) simp_all
  then have "update_where ?P g (ld_lists d') = ld_lists d'" for g
    by (intro update_where_id)
  moreover have "\<not> (\<exists>x \<in> set (ld_lists d'). ?P x)" using none by blast
  ultimately have "try_start_list_analysis later i d' = (d', False)"
    by (simp only: try_start_list_analysis_def Let_def) simp
  with found found' l(3) show ?thesis by simp
qed

section \<open>Enumerating a list\<close>

text \<open>
  The generator over the pending accounts of a list terminates and yields each of them
  once, whatever the size of the list.
\<close>

theorem pending_accounts_complete:
  assumes "lists_wf d"
  shows "get_pending_list_accounts lid d =
    Some (sort_key la_id (filter (\<lambda>r. la_list r = lid \<and> la_status r = ChildPending) (ld_accounts d)))"
proof -
  have "filter (\<lambda>r. (la_list r = lid \<and> la_status r = ChildPending) \<and> 0 < la_id r) (ld_accounts d) =
      filter (\<lambda>r. la_list r = lid \<and> la_status r = ChildPending) (ld_accounts d)"
    using assms by (auto simp: lists_wf_def intro!: filter_cong)
  then show ?thesis
    using scan_pages_all [OF lists_wf_distinct(2) [OF assms], of 500
        "\<lambda>r. la_list r = lid \<and> la_status r = ChildPending" 0]
    by (simp add: get_pending_list_accounts_def iter_pending_list_accounts_def)
qed

definition score_fields :: "string list" where
  "score_fields = [''pain_score'', ''composite_score'', ''fit_score'', ''timing_score'']"

lemma score_field_facts:
  assumes "field \<in> set score_fields"
  shows "field \<noteq> ''company_name''" "field \<noteq> ''created_at''" "sort_column field = field"
  using assms by (auto simp: score_fields_def sort_column_def allowed_sorts_def)

lemma score_of_range:
  assumes "lists_wf d" "r \<in> set (ld_accounts d)" "score_of field r = Some x"
  shows "0 \<le> x \<and> x \<le> 100"
proof -
  have "scores_ok r" using assms by (simp add: lists_wf_def)
  then show ?thesis using assms(3)
    by (auto simp: scores_ok_def score_ok_def score_of_def split: if_splits option.splits)
qed

text \<open>On well-formed rows the sentinels of the cursor comparison agree with NULLS LAST.\<close>

lemma past_cursor_rank:
  assumes "lists_wf d" "r \<in> set (ld_accounts d)" "x \<in> set (ld_accounts d)"
    and "field \<noteq> ''company_name''"
  shows "past_cursor field desc (score_of field r) (la_id r) x \<longleftrightarrow>
    sort_rank rank field desc r < sort_rank rank field desc x"
  using score_of_range [OF assms(1,2), of field] score_of_range [OF assms(1,3), of field] assms(4)
  by (cases desc; cases "score_of field r"; cases "score_of field x")
    (auto simp: past_cursor_def sort_rank_def Let_def)

definition sorted_accounts ::
    "(string \<Rightarrow> int) \<Rightarrow> int \<Rightarrow> account_filter \<Rightarrow> string \<Rightarrow> string \<Rightarrow> list_db \<Rightarrow> account_row list" where
  "sorted_accounts rank lid fl sort_by order d =
     sort_key (sort_rank rank (sort_column sort_by) (order \<noteq> ''asc'')) (filter (passes lid fl) (ld_accounts d))"

lemma sort_rank_inj: "sort_rank rank field desc r = sort_rank rank field desc x \<Longrightarrow> la_id r = la_id x"
  by (auto simp: sort_rank_def Let_def split: option.splits if_splits)

lemma sorted_accounts_strict:
  assumes "lists_wf d"
  shows "sorted_wrt (\<lambda>x y. sort_rank rank (sort_column sort_by) (order \<noteq> ''asc'') x <
    sort_rank rank (sort_column sort_by) (order \<noteq> ''asc'') y) (sorted_accounts rank lid fl sort_by order d)"
  unfolding sorted_accounts_def
proof (rule strict_sort_key)
  show "distinct (map (sort_rank rank (sort_column sort_by) (order \<noteq> ''asc'')) (filter (passes lid fl) (ld_accounts d)))"
    unfolding distinct_map
  proof (intro conjI inj_onI)
    show "distinct (filter (passes lid fl) (ld_accounts d))"
      using lists_wf_distinct(2) [OF assms] by (simp add: distinct_map)
    fix x y assume "x \<in> set (filter (passes lid fl) (ld_accounts d))"
      "y \<in> set (filter (passes lid fl) (ld_accounts d))"
      "sort_rank rank (sort_column sort_by) (order \<noteq> ''asc'') x =
       sort_rank rank (sort_column sort_by) (order \<noteq> ''asc'') y"
    then show "x = y"
      using lists_wf_distinct(2) [OF assms] sort_rank_inj distinct_key_eq by (metis filter_is_subset subsetD)
  qed
qed

lemma strict_asc_above:
  fixes key :: "'r \<Rightarrow> 'k::linorder"
  assumes "sorted_wrt (\<lambda>x y. key x < key y) (xs @ r # ys)"
  shows "filter (\<lambda>x. key r < key x) (xs @ r # ys) = ys"
proof -
  have "filter (\<lambda>x. key r < key x) xs = []"
    using assms by (auto simp: filter_empty_conv sorted_wrt_append not_less dest: less_imp_le)
  moreover have "filter (\<lambda>x. key r < key x) ys = ys"
    using assms by (auto simp: filter_id_conv sorted_wrt_append)
  ultimately show ?thesis by simp
qed

lemma next_cursor_decodes:
  assumes "field \<in> set score_fields"
  shows "cursor_condition field desc (Some (next_cursor show_time field r)) =
    Inr (past_cursor field desc (score_of field r) (la_id r))"
proof -
  note facts = score_field_facts [OF assms]
  show ?thesis
  proof (cases "score_of field r")
    case None
    have "decode_composite_cursor (next_cursor show_time field r) = Some (None, la_id r)"
      using cursor_decodes [of NoValue "la_id r"] None facts
      by (simp add: next_cursor_def cursor_value_of_def is_ascii_def byte_def)
    then show ?thesis using facts None by (simp add: cursor_condition_def)
  next
    case (Some x)
    have "decode_composite_cursor (next_cursor show_time field r) = Some (Some (str_int x), la_id r)"
      using cursor_decodes [of "IntValue x" "la_id r"] Some facts
      by (simp add: next_cursor_def cursor_value_of_def str_int_ascii)
    then show ?thesis using facts Some by (simp add: cursor_condition_def)
  qed
qed

interpretation account_pages: paged_store "\<lambda>d. lists_wf d \<and> field \<in> set score_fields"
  "\<lambda>d limit. list_accounts_page rank lid fl field order limit d"
  "sorted_accounts rank lid fl field order" "next_cursor show_time field"
proof unfold_locales
  fix d n assume ok: "lists_wf d \<and> field \<in> set score_fields"
  then show "list_accounts_page rank lid fl field order n d None =
      Some (page_of n (sorted_accounts rank lid fl field order d))"
    by (simp add: list_accounts_page_def get_list_accounts_def cursor_condition_def sorted_accounts_def)
  fix xs r ys assume split: "sorted_accounts rank lid fl field order d = xs @ r # ys"
  let ?rank = "sort_rank rank (sort_column field) (order \<noteq> ''asc'')"
  let ?past = "past_cursor field (order \<noteq> ''asc'') (score_of field r) (la_id r)"
  have f: "sort_column field = field" "field \<noteq> ''company_name''"
    using ok score_field_facts by auto
  have "r \<in> set (sorted_accounts rank lid fl field order d)" using split by simp
  then have r: "r \<in> set (ld_accounts d)" by (simp add: sorted_accounts_def)
  have "filter (\<lambda>x. passes lid fl x \<and> ?past x) (ld_accounts d) =
      filter (\<lambda>x. ?rank r < ?rank x) (filter (passes lid fl) (ld_accounts d))"
    using past_cursor_rank [OF conjunct1 [OF ok] r _ f(2), of _ "order \<noteq> ''asc''" rank] f
    by (auto intro!: filter_cong)
  then have "sort_key ?rank (filter (\<lambda>x. passes lid fl x \<and> ?past x) (ld_accounts d)) =
      filter (\<lambda>x. ?rank r < ?rank x) (sorted_accounts rank lid fl field order d)"
    by (simp only: filter_sort sorted_accounts_def)
  also have "\<dots> = ys"
    using strict_asc_above [OF sorted_accounts_strict [OF conjunct1 [OF ok], of rank field order lid fl,
        unfolded split]] by (simp add: split)
  finally show "list_accounts_page rank lid fl field order n d (Some (next_cursor show_time field r)) =
      Some (page_of n ys)"
    using ok f next_cursor_decodes [of field "order \<noteq> ''asc''" show_time r]
    by (simp add: list_accounts_page_def get_list_accounts_def)
qed

text \<open>
  Asking for a list sorted by any score, in either order and with any filter, the SDK
  iterator terminates and yields exactly the accounts that pass the filter, each once, in the order
  of the sort with unscored accounts last.
\<close>

theorem iter_list_accounts_complete:
  assumes "lists_wf d" "field \<in> set score_fields" "valid_limit limit"
  shows "\<exists>rs. iter_list_accounts rank show_time lid fl field order limit d = Some rs \<and>
    distinct (map la_id rs) \<and> set rs = {r \<in> set (ld_accounts d). passes lid fl r} \<and>
    sorted (map (sort_rank rank field (order \<noteq> ''asc'')) rs)"
proof (intro exI conjI)
  let ?rs = "sorted_accounts rank lid fl field order d"
  show "iter_list_accounts rank show_time lid fl field order limit d = Some ?rs"
    using assms account_pages.iter_all by (simp add: iter_list_accounts_def valid_limit_def)
  show "set ?rs = {r \<in> set (ld_accounts d). passes lid fl r}"
    by (auto simp: sorted_accounts_def)
  show "sorted (map (sort_rank rank field (order \<noteq> ''asc'')) ?rs)"
    using score_field_facts(3) [OF assms(2)] by (simp add: sorted_accounts_def)
  have "distinct (map la_id (filter (passes lid fl) (ld_accounts d)))"
    using lists_wf_distinct(2) [OF assms(1)] by (rule distinct_map_filter)
  then show "distinct (map la_id ?rs)"
    by (simp add: sorted_accounts_def distinct_map)
qed

text \<open>
  A list sorted by company name cannot be paged: every request that carries a cursor
  the server itself may have issued is rejected by the database.
\<close>

theorem company_name_cursor_rejected:
  assumes "is_ascii (value_text v)"
  shows "get_list_accounts rank lid fl ''company_name'' order limit
      (Some (encode_composite_cursor v i)) d = Inl BadQuery"
  using cursor_decodes [OF assms, of i]
  by (simp add: get_list_accounts_def sort_column_def allowed_sorts_def cursor_condition_def)

lemma colon_no_digit: "digit_value CHR '':'' = None"
  by (simp add: digit_value_def)

lemma parse_digits_Some:
  "parse_digits acc t = Some n \<Longrightarrow> c \<in> set t \<Longrightarrow> digit_value c \<noteq> None \<or> c = CHR ''_''"
proof (induction acc t rule: parse_digits.induct)
  case (2 acc c' s)
  show ?case
  proof (cases "digit_value c'")
    case None
    then have c': "c' = CHR ''_''" using "2.prems" by (simp split: if_splits)
    show ?thesis
    proof (cases s)
      case Nil
      with None c' "2.prems" show ?thesis by simp
    next
      case (Cons c'' s')
      with None c' "2.prems" "2.IH"(1) [OF None c' Cons] show ?thesis
        by (cases "digit_value c''") auto
    qed
  next
    case (Some d)
    with "2.prems" "2.IH"(2) [OF Some] show ?thesis by auto
  qed
qed simp

lemma parse_nat_colon: "CHR '':'' \<in> set t \<Longrightarrow> parse_nat t = None"
proof (cases t)
  case (Cons c s)
  assume colon: "CHR '':'' \<in> set t"
  show ?thesis
  proof (cases "digit_value c")
    case (Some d)
    then have "c \<noteq> CHR '':''" using colon_no_digit by auto
    then have "CHR '':'' \<in> set s" using colon Cons by auto
    then have "parse_digits d s = None"
      using parse_digits_Some [of d s _ "CHR '':''"] colon_no_digit by (cases "parse_digits d s") auto
    with Some Cons show ?thesis by (simp add: parse_nat_def)
  qed (simp add: Cons parse_nat_def)
qed (simp add: parse_nat_def)

lemma colon_not_int:
  assumes "CHR '':'' \<in> set s"
  shows "py_int s = None"
proof -
  have colon: "\<not> is_space CHR '':''" by (simp add: is_space_def)
  have drop: "CHR '':'' \<in> set (dropWhile is_space t)" if "CHR '':'' \<in> set t" for t
    using that colon by (induction t) auto
  have "CHR '':'' \<in> set (py_strip s)"
    using drop [of "rev (dropWhile is_space s)"] drop [OF assms] by (simp add: py_strip_def)
  then obtain c t where ct: "py_strip s = c # t" "CHR '':'' \<in> set (c # t)"
    by (cases "py_strip s") simp_all
  have "CHR '':'' \<in> set t" if "c = CHR ''-'' \<or> c = CHR ''+''" using that ct(2) by auto
  with ct parse_nat_colon show ?thesis by (simp add: py_int_def)
qed

text \<open>
  Sorting by creation time, which the endpoint offers, breaks on the second page: the
  query falls back to the composite score, the cursor carries the printed timestamp, and its
  conversion to an integer raises. (A printed timestamp contains a colon.)
\<close>

theorem created_at_second_page_fails:
  assumes "is_ascii (show_time (la_created r))" "CHR '':'' \<in> set (show_time (la_created r))"
  shows "get_list_accounts rank lid fl ''created_at'' order limit
      (Some (next_cursor show_time ''created_at'' r)) d = Inl BadCursor"
proof -
  have "show_time (la_created r) \<noteq> ''null''" using assms(2) by auto
  then have "decode_composite_cursor (next_cursor show_time ''created_at'' r) =
      Some (Some (show_time (la_created r)), la_id r)"
    using cursor_decodes [of "TextValue (show_time (la_created r))" "la_id r"] assms(1)
    by (simp add: next_cursor_def cursor_value_of_def)
  then show ?thesis using colon_not_int [OF assms(2)]
    by (simp add: get_list_accounts_def sort_column_def allowed_sorts_def cursor_condition_def)
qed

section \<open>A concrete list\<close>

definition trio :: list_db where
  "trio = fst (add_list_accounts 0 1 [''a.com'', ''b.com'', ''c.com''] (\<lambda>_. None)
     (fst (create_list 0 1 None ''L'' None office no_lists)))"

definition no_filter :: account_filter where
  "no_filter = \<lparr>fl_min_pain = None, fl_min_composite = None, fl_status = None, fl_ids = None\<rparr>"

lemma trio_wf: "lists_wf trio"
proof -
  obtain d l where "create_list 0 1 None ''L'' None office no_lists = (d, l)" by fastforce
  with lists_wf_create [OF lists_wf_empty this] show ?thesis
    by (simp add: trio_def add_list_accounts_def Let_def lists_wf_update_list lists_wf_insert
        del: insert_accounts.simps)
qed

lemma trio_rows:
  "ld_accounts trio = [new_account 0 1 1 ''a.com'' None, new_account 0 2 1 ''b.com'' None,
     new_account 0 3 1 ''c.com'' None]"
  "ld_lists trio = [(new_list 0 1 1 None ''L'' (Some 1))\<lparr>ls_total := 3, ls_updated := 0\<rparr>]"
  by (simp_all add: trio_def add_list_accounts_def Let_def create_list_def no_lists_def
      update_list_where_def new_list_def)

lemma trio_facts:
  "list_counts trio 1 = Some (3, 0, 0)"
  "account_owner trio 1 = Some 1" "account_owner trio 2 = Some 1" "account_owner trio 3 = Some 1"
  by (simp_all add: list_counts_def list_of_def account_owner_def account_of_def trio_rows new_list_def)

theorem list_verdict_correct_witness:
  "\<exists>d' r. finalize_list 50 1 (settle_all (settle_account 40 (\<lambda>i. i) (\<lambda>i. i) (\<lambda>i. no_scores)
      (\<lambda>i. ''co'') (\<lambda>i. ''x'')) [(1, False), (2, False), (3, False)] trio) = Inr (d', r) \<and>
    ls_analyzed r + ls_failed r = 3 \<and> ls_status r = BatchFailed"
  using list_verdict_correct [of trio 1 "[(1, False), (2, False), (3, False)]" 50 40 "\<lambda>i. i" "\<lambda>i. i"
      "\<lambda>i. no_scores" "\<lambda>i. ''co''" "\<lambda>i. ''x''"] trio_facts by fastforce

theorem start_analysis_exclusive_witness:
  "\<exists>d'. try_start_list_analysis 5 1 trio = (d', True) \<and> try_start_list_analysis 6 1 d' = (d', False)"
proof -
  have "snd (try_start_list_analysis 5 1 trio)"
    by (simp add: try_start_list_analysis_def trio_rows new_list_def)
  then have "try_start_list_analysis 5 1 trio = (fst (try_start_list_analysis 5 1 trio), True)"
    by (metis prod.collapse)
  from start_analysis_exclusive [OF trio_wf this] this show ?thesis by blast
qed

theorem pending_accounts_complete_witness:
  "get_pending_list_accounts 1 trio = Some (sort_key la_id
     (filter (\<lambda>r. la_list r = 1 \<and> la_status r = ChildPending) (ld_accounts trio)))"
  by (rule pending_accounts_complete [OF trio_wf])

theorem iter_list_accounts_complete_witness:
  "\<exists>rs. iter_list_accounts (\<lambda>_. 0) (\<lambda>_. ''10:00'') 1 no_filter ''pain_score'' ''asc'' 2 trio = Some rs \<and>
    distinct (map la_id rs) \<and> set rs = {r \<in> set (ld_accounts trio). passes 1 no_filter r}"
  using iter_list_accounts_complete [OF trio_wf, of "''pain_score''" 2 "\<lambda>_. 0" "\<lambda>_. ''10:00''" 1
      no_filter "''asc''"] by (auto simp: score_fields_def valid_limit_def)

theorem company_name_cursor_rejected_witness:
  "get_list_accounts (\<lambda>_. 0) 1 no_filter ''company_name'' ''asc'' 2
      (Some (encode_composite_cursor (TextValue ''Acme'') 2)) trio = Inl BadQuery"
  by (rule company_name_cursor_rejected) (simp add: is_ascii_def byte_def)

theorem created_at_second_page_fails_witness:
  "get_list_accounts (\<lambda>_. 0) 1 no_filter ''created_at'' ''desc'' 2
      (Some (next_cursor (\<lambda>_. ''10:00'') ''created_at'' (new_account 0 2 1 ''b.com'' None))) trio =
    Inl BadCursor"
  by (rule created_at_second_page_fails) (simp_all add: is_ascii_def byte_def)

end
