(* ===== verification/Watchlist.thy ===== *)
theory Watchlist
  imports Research_Jobs
begin

text \<open>
  The watchlist (\<open>db/watchlist.py\<close>, tables \<open>watchlist_items\<close> and
  \<open>watchlist_score_changes\<close>): companies that are researched again on a schedule, the claiming
  of due items and the history of score changes.
\<close>

section \<open>The tables\<close>

datatype watch_status = WatchActive | WatchPaused | WatchSkipped

record watch_row =
  wl_id :: int
  wl_user :: int
  wl_url :: string
  wl_name :: "string option"
  wl_schedule :: string
  wl_status :: watch_status
  wl_last_doc :: "int option"
  wl_last_run :: "time option"
  wl_next_run :: time
  wl_created :: time
  wl_updated :: time

record doc_scores =
  ds_opportunity :: "int option"
  ds_pain :: "int option"
  ds_fit :: "int option"
  ds_timing :: "int option"

record change_row =
  wc_id :: int
  wc_item :: int
  wc_old_doc :: "int option"
  wc_new_doc :: int
  wc_old :: doc_scores
  wc_new :: doc_scores
  wc_significant :: bool
  wc_created :: time
  wc_seen :: "time option"

record watch_db =
  wd_items :: "watch_row list"
  wd_changes :: "change_row list"
  wd_next_item :: int
  wd_next_change :: int

datatype watch_error = CheckViolation

definition watch_of :: "watch_db \<Rightarrow> int \<Rightarrow> watch_row option" where
  "watch_of d i = find (\<lambda>w. wl_id w = i) (wd_items d)"

text \<open>The CHECK constraint of the table\<close>

definition valid_schedule :: "string \<Rightarrow> bool" where
  "valid_schedule s \<longleftrightarrow> s \<in> {''weekly'', ''biweekly'', ''monthly''}"

section \<open>Schedules\<close>

definition schedule_interval :: "string \<Rightarrow> time \<Rightarrow> time" where
  "schedule_interval s other = (if s = ''weekly'' then days 7 else if s = ''biweekly'' then days 14
     else if s = ''monthly'' then days 30 else other)"

definition next_run :: "string \<Rightarrow> time \<Rightarrow> time" where
  "next_run s from = from + schedule_interval s (days 7)"

section \<open>Operations\<close>

definition same_watch :: "int \<Rightarrow> string \<Rightarrow> watch_row \<Rightarrow> bool" where
  "same_watch uid url w \<longleftrightarrow> wl_user w = uid \<and> wl_url w = url"

text \<open>
  \<open>INSERT ... ON CONFLICT (user_id, company_url) DO UPDATE\<close>
\<close>

definition create_watchlist_item ::
    "time \<Rightarrow> int \<Rightarrow> string \<Rightarrow> string option \<Rightarrow> string \<Rightarrow> watch_db \<Rightarrow> watch_error + (watch_db \<times> watch_row)" where
  "create_watchlist_item now uid url name schedule d =
     (if \<not> valid_schedule schedule then Inl CheckViolation
      else (case find (same_watch uid url) (wd_items d) of
        Some w \<Rightarrow>
          let f = (\<lambda>w. w\<lparr>wl_status := WatchActive, wl_schedule := schedule,
                     wl_next_run := next_run schedule now, wl_updated := now\<rparr>)
          in Inr (d\<lparr>wd_items := update_where (same_watch uid url) f (wd_items d)\<rparr>, f w)
      | None \<Rightarrow>
          let w = \<lparr>wl_id = wd_next_item d, wl_user = uid, wl_url = url, wl_name = name,
                wl_schedule = schedule, wl_status = WatchActive, wl_last_doc = None,
                wl_last_run = None, wl_next_run = next_run schedule now, wl_created = now,
                wl_updated = now\<rparr>
          in Inr (d\<lparr>wd_items := wd_items d @ [w], wd_next_item := wd_next_item d + 1\<rparr>, w)))"

definition get_watchlist_item :: "int \<Rightarrow> int \<Rightarrow> watch_db \<Rightarrow> watch_row option" where
  "get_watchlist_item i uid d = find (\<lambda>w. wl_id w = i \<and> wl_user w = uid) (wd_items d)"

definition get_watchlist_item_by_url :: "int \<Rightarrow> string \<Rightarrow> watch_db \<Rightarrow> watch_row option" where
  "get_watchlist_item_by_url uid url d = find (same_watch uid url) (wd_items d)"

text \<open>The correlated subquery \<open>MAX(is_significant::int)\<close> over the last seven days\<close>

definition recent_significant :: "time \<Rightarrow> watch_db \<Rightarrow> watch_row \<Rightarrow> int option" where
  "recent_significant now d w =
     (let cs = filter (\<lambda>c. wc_item c = wl_id w \<and> now - days 7 < wc_created c) (wd_changes d)
      in if cs = [] then None else Some (if \<exists>c \<in> set cs. wc_significant c then 1 else 0))"

definition list_watchlist_items ::
    "time \<Rightarrow> int \<Rightarrow> nat \<Rightarrow> int option \<Rightarrow> watch_db \<Rightarrow> (watch_row \<times> int option) list \<times> bool" where
  "list_watchlist_items now uid limit starting_after d =
     newest_page (\<lambda>(w, _). wl_id w) (\<lambda>(w, _). wl_user w = uid) limit starting_after
       (map (\<lambda>w. (w, recent_significant now d w)) (wd_items d))"

definition iter_watchlist :: "time \<Rightarrow> int \<Rightarrow> nat \<Rightarrow> watch_db \<Rightarrow> (watch_row \<times> int option) list option" where
  "iter_watchlist now uid limit d = iter_by_id limit (\<lambda>c. list_watchlist_items now uid limit c d) (\<lambda>(w, _). wl_id w)"

definition update_watch :: "time \<Rightarrow> string option \<Rightarrow> watch_status option \<Rightarrow> watch_row \<Rightarrow> watch_row" where
  "update_watch now schedule status w = w\<lparr>wl_schedule := coalesce schedule (wl_schedule w),
     wl_status := coalesce status (wl_status w),
     wl_next_run := (if status = Some WatchActive \<and> wl_status w \<noteq> WatchActive
        then now + schedule_interval (coalesce schedule (wl_schedule w)) (days 14)
        else wl_next_run w),
     wl_updated := now\<rparr>"

definition update_watchlist_item ::
    "time \<Rightarrow> int \<Rightarrow> int \<Rightarrow> string option \<Rightarrow> watch_status option \<Rightarrow> watch_db \<Rightarrow>
     watch_error + (watch_db \<times> watch_row option)" where
  "update_watchlist_item now i uid schedule status d =
     (case get_watchlist_item i uid d of
        None \<Rightarrow> Inr (d, None)
      | Some w \<Rightarrow>
          if \<not> valid_schedule (wl_schedule (update_watch now schedule status w)) then Inl CheckViolation
          else Inr (d\<lparr>wd_items := update_where (\<lambda>w. wl_id w = i \<and> wl_user w = uid)
                 (update_watch now schedule status) (wd_items d)\<rparr>,
               Some (update_watch now schedule status w)))"

text \<open>The score changes of a deleted item go with it (\<open>ON DELETE CASCADE\<close>).\<close>

definition delete_watchlist_item :: "int \<Rightarrow> int \<Rightarrow> watch_db \<Rightarrow> watch_db \<times> bool" where
  "delete_watchlist_item i uid d = (case get_watchlist_item i uid d of
     None \<Rightarrow> (d, False)
   | Some w \<Rightarrow> (d\<lparr>wd_items := filter (\<lambda>w. \<not> (wl_id w = i \<and> wl_user w = uid)) (wd_items d),
        wd_changes := filter (\<lambda>c. wc_item c \<noteq> i) (wd_changes d)\<rparr>, True))"

definition get_score_history :: "int \<Rightarrow> int \<Rightarrow> nat \<Rightarrow> watch_db \<Rightarrow> change_row list" where
  "get_score_history i uid limit d =
     (if get_watchlist_item i uid d = None then []
      else take limit (sort_key (\<lambda>c. - wc_created c) (filter (\<lambda>c. wc_item c = i) (wd_changes d))))"

text \<open>
  Claiming the due items: the oldest \<open>batch\<close> of them are moved thirty days ahead in the same
  statement. (\<open>RETURNING\<close> yields the rows after the update.)
\<close>

definition due :: "time \<Rightarrow> watch_row \<Rightarrow> bool" where
  "due now w \<longleftrightarrow> wl_status w = WatchActive \<and> wl_next_run w \<le> now"

definition due_ids :: "time \<Rightarrow> nat \<Rightarrow> watch_db \<Rightarrow> int list" where
  "due_ids now batch d = map wl_id (take batch (sort_key wl_next_run (filter (due now) (wd_items d))))"

definition push_ahead :: "time \<Rightarrow> watch_row \<Rightarrow> watch_row" where
  "push_ahead now w = w\<lparr>wl_next_run := now + days 30\<rparr>"

definition claim_due_items :: "time \<Rightarrow> nat \<Rightarrow> watch_db \<Rightarrow> watch_db \<times> watch_row list" where
  "claim_due_items now batch d =
     (let P = (\<lambda>w. wl_id w \<in> set (due_ids now batch d)) in
      (d\<lparr>wd_items := update_where P (push_ahead now) (wd_items d)\<rparr>,
       map (push_ahead now) (filter P (wd_items d))))"

definition score_delta :: "int option \<Rightarrow> int option \<Rightarrow> int" where
  "score_delta old new = \<bar>coalesce new 0 - coalesce old 0\<bar>"

definition significant_change :: "doc_scores \<Rightarrow> doc_scores \<Rightarrow> bool" where
  "significant_change old new \<longleftrightarrow> list_ex (\<lambda>d. 10 \<le> d)
     [score_delta (ds_opportunity old) (ds_opportunity new), score_delta (ds_pain old) (ds_pain new),
      score_delta (ds_fit old) (ds_fit new), score_delta (ds_timing old) (ds_timing new)]"

definition record_score_change ::
    "time \<Rightarrow> int \<Rightarrow> int option \<Rightarrow> int \<Rightarrow> doc_scores \<Rightarrow> doc_scores \<Rightarrow> watch_db \<Rightarrow>
     db_error + (watch_db \<times> change_row)" where
  "record_score_change now i old_doc new_doc old new d =
     (if watch_of d i = None then Inl ForeignKeyViolation
      else let c = \<lparr>wc_id = wd_next_change d, wc_item = i, wc_old_doc = old_doc, wc_new_doc = new_doc,
              wc_old = old, wc_new = new, wc_significant = significant_change old new,
              wc_created = now, wc_seen = None\<rparr>
        in Inr (d\<lparr>wd_changes := wd_changes d @ [c], wd_next_change := wd_next_change d + 1\<rparr>, c))"

definition finish_run :: "time \<Rightarrow> int option \<Rightarrow> string \<Rightarrow> watch_row \<Rightarrow> watch_row" where
  "finish_run now doc schedule w = w\<lparr>wl_last_doc := doc, wl_last_run := Some now,
     wl_next_run := next_run schedule now, wl_status := WatchActive, wl_updated := now\<rparr>"

definition complete_watchlist_run :: "time \<Rightarrow> int \<Rightarrow> int option \<Rightarrow> string \<Rightarrow> watch_db \<Rightarrow> watch_db" where
  "complete_watchlist_run now i doc schedule d =
     d\<lparr>wd_items := update_where (\<lambda>w. wl_id w = i) (finish_run now doc schedule) (wd_items d)\<rparr>"

definition mark_skipped_no_credits :: "time \<Rightarrow> int \<Rightarrow> watch_db \<Rightarrow> watch_db" where
  "mark_skipped_no_credits now i d = d\<lparr>wd_items := update_where (\<lambda>w. wl_id w = i)
     (\<lambda>w. w\<lparr>wl_status := WatchSkipped, wl_updated := now\<rparr>) (wd_items d)\<rparr>"

definition unseen_significant :: "int \<Rightarrow> watch_db \<Rightarrow> change_row \<Rightarrow> bool" where
  "unseen_significant uid d c \<longleftrightarrow> wc_significant c \<and> wc_seen c = None \<and>
     (\<exists>w \<in> set (wd_items d). wl_id w = wc_item c \<and> wl_user w = uid)"

definition count_significant_changes :: "time \<Rightarrow> int \<Rightarrow> int \<Rightarrow> watch_db \<Rightarrow> int" where
  "count_significant_changes now uid ndays d = int (length (dedup (map wc_item
     (filter (\<lambda>c. unseen_significant uid d c \<and> now - days ndays < wc_created c) (wd_changes d)))))"

definition mark_changes_seen :: "time \<Rightarrow> int \<Rightarrow> watch_db \<Rightarrow> watch_db" where
  "mark_changes_seen now uid d = d\<lparr>wd_changes :=
     update_where (unseen_significant uid d) (\<lambda>c. c\<lparr>wc_seen := Some now\<rparr>) (wd_changes d)\<rparr>"

section \<open>Well-formed tables\<close>

definition watch_wf :: "watch_db \<Rightarrow> bool" where
  "watch_wf d \<longleftrightarrow> serial wl_id (wd_next_item d) (wd_items d) \<and>
     distinct (map (\<lambda>w. (wl_user w, wl_url w)) (wd_items d)) \<and>
     serial wc_id (wd_next_change d) (wd_changes d) \<and>
     (\<forall>w \<in> set (wd_items d). valid_schedule (wl_schedule w))"

definition no_watches :: watch_db where
  "no_watches = \<lparr>wd_items = [], wd_changes = [], wd_next_item = 1, wd_next_change = 1\<rparr>"

lemma watch_wf_empty [simp]: "watch_wf no_watches"
  by (simp add: watch_wf_def no_watches_def)

lemma watch_wf_distinct: "watch_wf d \<Longrightarrow> distinct (map wl_id (wd_items d))"
  by (auto simp: watch_wf_def dest: serial_distinct)

lemma watch_wf_update:
  assumes "watch_wf d" "\<And>w. wl_id (f w) = wl_id w" "\<And>w. wl_user (f w) = wl_user w"
    "\<And>w. wl_url (f w) = wl_url w"
    "\<And>w. w \<in> set (wd_items d) \<Longrightarrow> P w \<Longrightarrow> valid_schedule (wl_schedule w) \<Longrightarrow> valid_schedule (wl_schedule (f w))"
  shows "watch_wf (d\<lparr>wd_items := update_where P f (wd_items d)\<rparr>)"
  unfolding watch_wf_def
proof (intro conjI ballI)
  show "serial wl_id (wd_next_item (d\<lparr>wd_items := update_where P f (wd_items d)\<rparr>))
      (wd_items (d\<lparr>wd_items := update_where P f (wd_items d)\<rparr>))"
    using assms(1,2) by (simp add: watch_wf_def serial_update)
  show "distinct (map (\<lambda>w. (wl_user w, wl_url w)) (wd_items (d\<lparr>wd_items := update_where P f (wd_items d)\<rparr>)))"
    using assms(1,3,4) by (simp add: watch_wf_def map_update_where)
  show "serial wc_id (wd_next_change (d\<lparr>wd_items := update_where P f (wd_items d)\<rparr>))
      (wd_changes (d\<lparr>wd_items := update_where P f (wd_items d)\<rparr>))"
    using assms(1) by (simp add: watch_wf_def)
  fix w assume "w \<in> set (wd_items (d\<lparr>wd_items := update_where P f (wd_items d)\<rparr>))"
  then have w: "w \<in> set (update_where P f (wd_items d))" by simp
  show "valid_schedule (wl_schedule w)"
    by (rule ball_update_where [OF _ _ w, where Q = "\<lambda>w. valid_schedule (wl_schedule w)"])
      (use assms(1,5) in \<open>auto simp: watch_wf_def\<close>)
qed

lemma watch_wf_create:
  assumes "watch_wf d" "create_watchlist_item now uid url name schedule d = Inr (d', w)"
  shows "watch_wf d' \<and> wl_status w = WatchActive \<and> get_watchlist_item_by_url uid url d' = Some w"
proof -
  have valid: "valid_schedule schedule"
    using assms(2) by (auto simp: create_watchlist_item_def split: if_splits)
  show ?thesis
  proof (cases "find (same_watch uid url) (wd_items d)")
    case (Some v)
    let ?f = "\<lambda>w. w\<lparr>wl_status := WatchActive, wl_schedule := schedule,
        wl_next_run := next_run schedule now, wl_updated := now\<rparr>"
    have d': "d' = d\<lparr>wd_items := update_where (same_watch uid url) ?f (wd_items d)\<rparr>" and w: "w = ?f v"
      using assms(2) valid Some by (simp_all add: create_watchlist_item_def Let_def)
    have "watch_wf d'"
      unfolding d' by (rule watch_wf_update [OF assms(1)]) (simp_all add: valid)
    moreover have "find (same_watch uid url) (update_where (same_watch uid url) ?f t) =
        map_option ?f (find (same_watch uid url) t)" for t
      by (rule find_update_same) (simp add: same_watch_def)
    ultimately show ?thesis using Some by (simp add: get_watchlist_item_by_url_def d' w)
  next
    case None
    have fresh: "(uid, url) \<notin> (\<lambda>w. (wl_user w, wl_url w)) ` set (wd_items d)"
      using None by (auto simp: find_None_iff same_watch_def)
    have "d' = d\<lparr>wd_items := wd_items d @ [w], wd_next_item := wd_next_item d + 1\<rparr>"
      "wl_id w = wd_next_item d" "wl_user w = uid" "wl_url w = url" "wl_schedule w = schedule"
      "wl_status w = WatchActive"
      using assms(2) valid None by (auto simp: create_watchlist_item_def Let_def)
    with assms(1) None fresh valid show ?thesis
      by (simp add: watch_wf_def serial_snoc get_watchlist_item_by_url_def find_append same_watch_def)
  qed
qed

lemma find_watch:
  assumes "watch_wf d" "w \<in> set (wd_items d)"
  shows "watch_of d (wl_id w) = Some w"
  unfolding watch_of_def using watch_wf_distinct [OF assms(1)] assms(2) by (rule find_distinct)

section \<open>The listing\<close>

definition watches_of_user :: "time \<Rightarrow> int \<Rightarrow> watch_db \<Rightarrow> (watch_row \<times> int option) list" where
  "watches_of_user now uid d = newest_first (\<lambda>(w, _). wl_id w) (filter (\<lambda>(w, _). wl_user w = uid)
     (map (\<lambda>w. (w, recent_significant now d w)) (wd_items d)))"

interpretation watch_listing: paged_store watch_wf
  "\<lambda>d limit. query_int (\<lambda>c. list_watchlist_items now uid limit c d)" "watches_of_user now uid"
  "\<lambda>p. str_int (case p of (w, _) \<Rightarrow> wl_id w)"
proof unfold_locales
  fix d n assume wf: "watch_wf d"
  have dist: "distinct (map (\<lambda>(w, _). wl_id w) (map (\<lambda>w. (w, recent_significant now d w)) (wd_items d)))"
    using watch_wf_distinct [OF wf] by (simp add: comp_def)
  show "query_int (\<lambda>c. list_watchlist_items now uid n c d) None = Some (page_of n (watches_of_user now uid d))"
    by (simp add: list_watchlist_items_def watches_of_user_def newest_page_query(1) [OF dist])
  fix xs r ys assume "watches_of_user now uid d = xs @ r # ys"
  from newest_page_query(2) [OF dist this [unfolded watches_of_user_def], of n]
  show "query_int (\<lambda>c. list_watchlist_items now uid n c d) (Some (str_int (case r of (w, _) \<Rightarrow> wl_id w))) =
      Some (page_of n ys)"
    by (simp add: list_watchlist_items_def)
qed

section \<open>Properties\<close>

text \<open>
  Claiming hands out only active items that are due, at most as many as asked for, and
  moves each of them thirty days ahead, so that no claim before that time returns the item
  again: a due company is not enqueued twice.
\<close>

theorem claim_due_items_once:
  assumes "watch_wf d" "claim_due_items now batch d = (d', ws)"
    and "now \<le> later" "later < now + days 30"
  shows "length ws \<le> batch \<and> watch_wf d' \<and>
    (\<forall>w \<in> set ws. (\<exists>v. watch_of d (wl_id w) = Some v \<and> due now v \<and> w = push_ahead now v) \<and>
       wl_id w \<notin> wl_id ` set (snd (claim_due_items later n d')))"
proof -
  let ?ids = "set (due_ids now batch d)"
  let ?P = "\<lambda>w. wl_id w \<in> ?ids"
  have d': "d' = d\<lparr>wd_items := update_where ?P (push_ahead now) (wd_items d)\<rparr>"
    and ws: "ws = map (push_ahead now) (filter ?P (wd_items d))"
    using assms(2) by (simp_all add: claim_due_items_def Let_def)
  have push: "wl_id (push_ahead now w) = wl_id w" "wl_user (push_ahead now w) = wl_user w"
    "wl_url (push_ahead now w) = wl_url w" "wl_schedule (push_ahead now w) = wl_schedule w" for w
    by (simp_all add: push_ahead_def)
  have wf': "watch_wf d'" unfolding d' by (rule watch_wf_update [OF assms(1)]) (simp_all add: push)
  have ids: "x \<in> ?ids \<Longrightarrow> \<exists>v \<in> set (wd_items d). wl_id v = x \<and> due now v" for x
    unfolding due_ids_def by (auto dest!: in_set_takeD)
  have "distinct (map wl_id (filter ?P (wd_items d)))"
    using watch_wf_distinct [OF assms(1)] by (rule distinct_map_filter)
  then have "length (filter ?P (wd_items d)) = card (wl_id ` set (filter ?P (wd_items d)))"
    by (metis distinct_card length_map set_map)
  also have "\<dots> \<le> card ?ids" by (rule card_mono) auto
  also have "\<dots> \<le> batch" using card_length [of "due_ids now batch d"] by (simp add: due_ids_def)
  finally have len: "length ws \<le> batch" by (simp add: ws)
  have "(\<exists>v. watch_of d (wl_id w) = Some v \<and> due now v \<and> w = push_ahead now v) \<and>
      wl_id w \<notin> wl_id ` set (snd (claim_due_items later n d'))" if w: "w \<in> set ws" for w
  proof
    from w obtain v where v: "v \<in> set (wd_items d)" "wl_id v \<in> ?ids" "w = push_ahead now v"
      by (auto simp: ws)
    from ids [OF v(2)] obtain u where "u \<in> set (wd_items d)" "wl_id u = wl_id v" "due now u" by blast
    then have "due now v"
      using distinct_key_eq [OF watch_wf_distinct [OF assms(1)] _ v(1)] by blast
    then show "\<exists>v. watch_of d (wl_id w) = Some v \<and> due now v \<and> w = push_ahead now v"
      using find_watch [OF assms(1) v(1)] v(3) push by auto
    have w': "w \<in> set (wd_items d')"
      using v by (auto simp: d' set_update_where)
    show "wl_id w \<notin> wl_id ` set (snd (claim_due_items later n d'))"
    proof
      assume "wl_id w \<in> wl_id ` set (snd (claim_due_items later n d'))"
      then have "wl_id w \<in> set (due_ids later n d')"
        by (auto simp: claim_due_items_def Let_def push_ahead_def)
      then obtain x where "x \<in> set (wd_items d')" "wl_id x = wl_id w" "due later x"
        unfolding due_ids_def by (auto dest!: in_set_takeD)
      then have "due later w"
        using distinct_key_eq [OF watch_wf_distinct [OF wf'] _ w'] by blast
      then show False using assms(4) by (simp add: v(3) due_def push_ahead_def)
    qed
  qed
  with len wf' show ?thesis by blast
qed

text \<open>
  Finishing a run makes the item active again whatever happened meanwhile: a user who
  pauses a company while its research is running finds it active and scheduled afterwards.
\<close>

theorem pause_is_lost_at_completion:
  assumes "watch_wf d" "get_watchlist_item i uid d = Some w"
    and "update_watchlist_item t1 i uid None (Some WatchPaused) d = Inr (d1, r)"
  shows "map_option wl_status (watch_of d1 i) = Some WatchPaused \<and>
    map_option (\<lambda>v. (wl_status v, wl_next_run v)) (watch_of (complete_watchlist_run t2 i doc s d1) i) =
      Some (WatchActive, next_run s t2)"
proof -
  let ?P = "\<lambda>w. wl_id w = i \<and> wl_user w = uid"
  let ?f = "update_watch t1 None (Some WatchPaused)"
  have w: "w \<in> set (wd_items d)" "wl_id w = i" "wl_user w = uid"
    using assms(2) unfolding get_watchlist_item_def by (auto dest: find_Some_mem)
  have d1: "d1 = d\<lparr>wd_items := update_where ?P ?f (wd_items d)\<rparr>"
    using assms(2,3) by (auto simp: update_watchlist_item_def split: if_splits)
  have "watch_of d1 i = map_option (\<lambda>w. if ?P w then ?f w else w) (watch_of d i)"
    unfolding watch_of_def d1 by (simp add: find_update_where update_watch_def)
  also have "\<dots> = Some (?f w)" using find_watch [OF assms(1) w(1)] w(2,3) by simp
  finally have one: "watch_of d1 i = Some (?f w)" .
  have "watch_of (complete_watchlist_run t2 i doc s d1) i =
      map_option (\<lambda>w. if wl_id w = i then finish_run t2 doc s w else w) (watch_of d1 i)"
    unfolding watch_of_def complete_watchlist_run_def by (simp add: find_update_where finish_run_def)
  then show ?thesis using one w(2) by (simp add: update_watch_def finish_run_def)
qed

text \<open>
  Adding a company that is already watched does not duplicate it: user and address stay
  unique, and the item is active and due after one interval of the new schedule.
\<close>

theorem create_watchlist_item_upserts:
  assumes "watch_wf d" "valid_schedule schedule"
  shows "\<exists>d' w. create_watchlist_item now uid url name schedule d = Inr (d', w) \<and> watch_wf d' \<and>
    get_watchlist_item_by_url uid url d' = Some w \<and> wl_status w = WatchActive \<and>
    wl_next_run w = next_run schedule now \<and>
    length (wd_items d') = length (wd_items d) + (if get_watchlist_item_by_url uid url d = None then 1 else 0)"
proof -
  obtain d' w where cr: "create_watchlist_item now uid url name schedule d = Inr (d', w)"
    using assms(2) by (cases "find (same_watch uid url) (wd_items d)")
      (simp_all add: create_watchlist_item_def Let_def)
  moreover have "wl_next_run w = next_run schedule now \<and> length (wd_items d') =
      length (wd_items d) + (if get_watchlist_item_by_url uid url d = None then 1 else 0)"
    using cr assms(2) by (cases "find (same_watch uid url) (wd_items d)")
      (auto simp: create_watchlist_item_def get_watchlist_item_by_url_def Let_def)
  ultimately show ?thesis using watch_wf_create [OF assms(1) cr] by blast
qed

section \<open>A concrete watchlist\<close>

definition one_watch :: watch_db where
  "one_watch = \<lparr>wd_items = [\<lparr>wl_id = 1, wl_user = 7, wl_url = ''a.com'', wl_name = None,
     wl_schedule = ''weekly'', wl_status = WatchActive, wl_last_doc = None, wl_last_run = None,
     wl_next_run = 0, wl_created = 0, wl_updated = 0\<rparr>], wd_changes = [], wd_next_item = 2,
     wd_next_change = 1\<rparr>"

lemma one_watch_wf: "watch_wf one_watch"
  by (simp add: watch_wf_def one_watch_def serial_def valid_schedule_def)

theorem claim_due_items_once_witness:
  "length (snd (claim_due_items 5 50 one_watch)) \<le> 50 \<and>
   1 \<notin> wl_id ` set (snd (claim_due_items 9 50 (fst (claim_due_items 5 50 one_watch))))"
proof -
  obtain d' ws where c: "claim_due_items 5 50 one_watch = (d', ws)" by fastforce
  have "push_ahead 5 (hd (wd_items one_watch)) \<in> set ws"
    using c by (auto simp: claim_due_items_def Let_def one_watch_def due_ids_def due_def push_ahead_def)
  moreover have "wl_id (push_ahead 5 (hd (wd_items one_watch))) = 1"
    by (simp add: push_ahead_def one_watch_def)
  ultimately show ?thesis
    using claim_due_items_once [OF one_watch_wf c, of 9 50] c by (force simp: time_defs)
qed

theorem pause_is_lost_at_completion_witness:
  "\<exists>d1 r. update_watchlist_item 3 1 7 None (Some WatchPaused) one_watch = Inr (d1, r) \<and>
    map_option (\<lambda>v. (wl_status v, wl_next_run v)) (watch_of (complete_watchlist_run 9 1 None ''weekly'' d1) 1) =
      Some (WatchActive, next_run ''weekly'' 9)"
proof -
  have g: "get_watchlist_item 1 7 one_watch = Some (hd (wd_items one_watch))"
    by (simp add: get_watchlist_item_def one_watch_def)
  then obtain d1 r where u: "update_watchlist_item 3 1 7 None (Some WatchPaused) one_watch = Inr (d1, r)"
    by (simp add: update_watchlist_item_def update_watch_def valid_schedule_def) (simp add: one_watch_def)
  from pause_is_lost_at_completion [OF one_watch_wf g u] u show ?thesis by blast
qed

theorem create_watchlist_item_upserts_witness:
  "\<exists>d' w. create_watchlist_item 100 7 ''a.com'' None ''monthly'' one_watch = Inr (d', w) \<and>
    wl_status w = WatchActive \<and> wl_next_run w = next_run ''monthly'' 100 \<and> length (wd_items d') = 1"
  using create_watchlist_item_upserts [OF one_watch_wf, of "''monthly''" 100 7 "''a.com''" None]
  by (auto simp: valid_schedule_def get_watchlist_item_by_url_def one_watch_def same_watch_def)

end
