(* ===== verification/Rate_Limit.thy ===== *)
theory Rate_Limit
  imports Auggie_Prelude
begin

text \<open>
  The sliding-window rate limiter of \<open>api/ratelimit.py\<close>. The dictionary of hits is an
  association list in insertion order; monotonic and wall-clock time are in microseconds and
  seconds, and are arguments. A read of a missing key of the \<open>defaultdict\<close> inserts it.
\<close>

section \<open>State and configuration\<close>

record limiter =
  rl_requests :: nat
  rl_window :: time
  rl_enforce :: bool

record rate_info =
  ri_limit :: nat
  ri_remaining :: int
  ri_reset :: int

type_synonym 'k hits = "('k \<times> time list) list"

text \<open>
  \<open>RateLimited\<close> carries the \<open>Retry-After\<close> seconds and the snapshot left in the context
  variable; \<open>LimiterCrash\<close> is the \<open>IndexError\<close> of a limiter that allows no request at all.
\<close>

datatype limit_error = RateLimited int rate_info | LimiterCrash

definition max_keys :: nat where
  "max_keys = 10000"

definition hits_of :: "'k hits \<Rightarrow> 'k \<Rightarrow> time list" where
  "hits_of h k = (case map_of h k of None \<Rightarrow> [] | Some ts \<Rightarrow> ts)"

section \<open>Operations\<close>

text \<open>\<open>_evict_oldest\<close>: drop the keys whose latest hit is oldest.\<close>

definition latest_hit :: "time list \<Rightarrow> time" where
  "latest_hit ts = (if ts = [] then 0 else Max (set ts))"

definition evict_oldest :: "'k hits \<Rightarrow> 'k hits" where
  "evict_oldest h = (let by_latest = sort_key (\<lambda>(k, ts). latest_hit ts) h;
       gone = map fst (take (length h - max_keys) by_latest)
     in filter (\<lambda>(k, ts). k \<notin> set gone) h)"

definition recent :: "limiter \<Rightarrow> time \<Rightarrow> time list \<Rightarrow> time list" where
  "recent cfg now ts = filter (\<lambda>t. now - rl_window cfg < t) ts"

text \<open>Whole seconds until a hit leaves the window, rounded down, plus one\<close>

definition seconds_left :: "limiter \<Rightarrow> time \<Rightarrow> time \<Rightarrow> int" where
  "seconds_left cfg now hit = (hit + rl_window cfg - now) div 1000000 + 1"

definition limiter_check ::
    "limiter \<Rightarrow> time \<Rightarrow> int \<Rightarrow> 'k \<Rightarrow> 'k hits \<Rightarrow> 'k hits \<times> (limit_error + rate_info)" where
  "limiter_check cfg now wall k h =
     (let ts = recent cfg now (hits_of h k);
          h0 = (if map_of h k = None then h @ [(k, [])] else h);
          n = rl_requests cfg
      in if n \<le> length ts \<and> ts = [] then (h0, Inl LimiterCrash)
         else if n \<le> length ts \<and> rl_enforce cfg then
           (h0, Inl (RateLimited (seconds_left cfg now (hd ts))
              \<lparr>ri_limit = n, ri_remaining = 0, ri_reset = wall + seconds_left cfg now (hd ts)\<rparr>))
         else
           let ts' = ts @ [now]; h1 = AList.update k ts' h0
           in (if max_keys < length h1 then evict_oldest h1 else h1,
               Inr \<lparr>ri_limit = n, ri_remaining = int n - int (length ts'),
                    ri_reset = wall + seconds_left cfg now (hd ts')\<rparr>))"

definition limiter_cleanup :: "limiter \<Rightarrow> time \<Rightarrow> 'k hits \<Rightarrow> 'k hits" where
  "limiter_cleanup cfg now h = filter (\<lambda>(k, ts). \<exists>t \<in> set ts. now - rl_window cfg < t) h"

section \<open>Histories\<close>

text \<open>Checks and sweeps of the cleanup thread, in the order of the lock\<close>

datatype 'k limiter_event = Check time 'k | Sweep time

fun event_time :: "'k limiter_event \<Rightarrow> time" where
  "event_time (Check t k) = t"
| "event_time (Sweep t) = t"

fun event_keys :: "'k limiter_event \<Rightarrow> 'k list" where
  "event_keys (Check t k) = [k]"
| "event_keys (Sweep t) = []"

fun accepted :: "limiter \<Rightarrow> 'k limiter_event list \<Rightarrow> 'k hits \<Rightarrow> 'k \<Rightarrow> time list" where
  "accepted cfg [] h k = []"
| "accepted cfg (Check t j # es) h k = (case limiter_check cfg t 0 j h of
     (h', r) \<Rightarrow> (if j = k \<and> \<not> isl r then [t] else []) @ accepted cfg es h' k)"
| "accepted cfg (Sweep t # es) h k = accepted cfg es (limiter_cleanup cfg t h) k"

definition in_window :: "limiter \<Rightarrow> time \<Rightarrow> time list \<Rightarrow> nat" where
  "in_window cfg t ts = length (filter (\<lambda>s. t - rl_window cfg < s \<and> s \<le> t) ts)"

section \<open>Laws\<close>

lemma hits_of_update: "hits_of (AList.update k ts h) j = (if j = k then ts else hits_of h j)"
  by (simp add: hits_of_def update_conv')

lemma hits_of_touch [simp]: "hits_of (if map_of h k = None then h @ [(k, [])] else h) = hits_of h"
  by (auto simp: hits_of_def fun_eq_iff map_add_def split: option.split)

lemma map_of_filter_entries:
  "distinct (map fst h) \<Longrightarrow> map_of (filter (\<lambda>(k, v). P k v) h) j =
    (case map_of h j of None \<Rightarrow> None | Some v \<Rightarrow> if P j v then Some v else None)"
proof (induction h)
  case (Cons e h)
  obtain k v where e: "e = (k, v)" by fastforce
  have "map_of h k = None" using Cons.prems by (simp add: e map_of_eq_None_iff)
  with Cons show ?case by (auto simp: e split: option.splits)
qed simp

lemma recent_mono:
  assumes "s \<le> t"
  shows "recent cfg t (recent cfg s ts) = recent cfg t ts"
  using assms by (auto simp: recent_def intro: filter_cong)

lemma hits_of_cleanup:
  assumes "distinct (map fst h)"
  shows "recent cfg t (hits_of (limiter_cleanup cfg t h) k) = recent cfg t (hits_of h k)"
  using assms by (cases "map_of h k")
    (auto simp: hits_of_def limiter_cleanup_def recent_def map_of_filter_entries filter_empty_conv)

definition keys_within :: "'k set \<Rightarrow> 'k hits \<Rightarrow> bool" where
  "keys_within K h \<longleftrightarrow> distinct (map fst h) \<and> fst ` set h \<subseteq> K"

lemma keys_within_length:
  assumes "keys_within K h" "finite K"
  shows "length h \<le> card K"
proof -
  have "length h = card (fst ` set h)"
    using assms(1) distinct_card [of "map fst h"] by (simp add: keys_within_def)
  also have "\<dots> \<le> card K" using assms by (auto simp: keys_within_def intro: card_mono)
  finally show ?thesis .
qed

lemma keys_within_touch:
  "keys_within K h \<Longrightarrow> k \<in> K \<Longrightarrow> keys_within K (if map_of h k = None then h @ [(k, [])] else h)"
  by (auto simp: keys_within_def map_of_eq_None_iff)

lemma keys_within_update: "keys_within K h \<Longrightarrow> k \<in> K \<Longrightarrow> keys_within K (AList.update k ts h)"
  by (auto simp: keys_within_def distinct_update dom_update)

lemma keys_within_cleanup: "keys_within K h \<Longrightarrow> keys_within K (limiter_cleanup cfg t h)"
  by (auto simp: keys_within_def limiter_cleanup_def distinct_map_filter)

lemma check_cases:
  assumes "keys_within K h" "finite K" "card K \<le> max_keys" "k \<in> K"
    and "0 < rl_requests cfg" "rl_enforce cfg"
  obtains (refused) h' e where "limiter_check cfg now wall k h = (h', Inl e)" "hits_of h' = hits_of h"
      "keys_within K h'" "rl_requests cfg \<le> length (recent cfg now (hits_of h k))"
      "e = RateLimited (seconds_left cfg now (hd (recent cfg now (hits_of h k))))
        \<lparr>ri_limit = rl_requests cfg, ri_remaining = 0,
         ri_reset = wall + seconds_left cfg now (hd (recent cfg now (hits_of h k)))\<rparr>"
  | (allowed) h' i where "limiter_check cfg now wall k h = (h', Inr i)" "keys_within K h'"
      "hits_of h' = (hits_of h)(k := recent cfg now (hits_of h k) @ [now])"
      "length (recent cfg now (hits_of h k)) < rl_requests cfg"
proof (cases "rl_requests cfg \<le> length (recent cfg now (hits_of h k))")
  case True
  let ?h0 = "if map_of h k = None then h @ [(k, [])] else h"
  have "recent cfg now (hits_of h k) \<noteq> []" using True assms(5) by auto
  with True assms(6) show thesis
    by (intro refused [of ?h0] keys_within_touch [OF assms(1,4)] hits_of_touch)
      (simp_all add: limiter_check_def Let_def del: hits_of_touch)
next
  case False
  let ?h0 = "if map_of h k = None then h @ [(k, [])] else h"
  let ?h1 = "AList.update k (recent cfg now (hits_of h k) @ [now]) ?h0"
  have k1: "keys_within K ?h1"
    using assms(1,4) by (intro keys_within_update keys_within_touch)
  then have "length ?h1 \<le> max_keys" using keys_within_length assms(2,3) le_trans by blast
  then have "fst (limiter_check cfg now wall k h) = ?h1" "\<not> isl (snd (limiter_check cfg now wall k h))"
    using False by (simp_all add: limiter_check_def Let_def)
  then obtain i where "limiter_check cfg now wall k h = (?h1, Inr i)"
    by (cases "limiter_check cfg now wall k h") (auto simp: isl_def split: sum.splits, metis sum.exhaust)
  moreover have "hits_of ?h1 = (hits_of h)(k := recent cfg now (hits_of h k) @ [now])"
    unfolding fun_eq_iff hits_of_update hits_of_touch by simp
  ultimately show thesis using False k1 by (intro allowed) simp_all
qed

lemma filter_length_mono:
  assumes "\<And>x. P x \<Longrightarrow> Q x"
  shows "length (filter P xs) \<le> length (filter Q xs)"
  using assms by (induction xs) (auto simp: le_SucI)

lemma in_window_snoc:
  assumes "\<And>s. s \<in> set ts \<Longrightarrow> s \<le> t"
  shows "in_window cfg u (ts @ [t]) \<le> (if t \<le> u then length (recent cfg t ts) + 1 else in_window cfg u ts)"
proof (cases "t \<le> u")
  case True
  have "in_window cfg u (ts @ [t]) \<le> length (filter (\<lambda>s. u - rl_window cfg < s \<and> s \<le> u) ts) + 1"
    by (simp add: in_window_def)
  also have "\<dots> \<le> length (recent cfg t ts) + 1"
    using True unfolding recent_def
    by (intro add_right_mono filter_length_mono) auto
  finally show ?thesis using True by simp
qed (simp add: in_window_def)

lemma accepted_window:
  assumes "sorted (map event_time es)" "set (concat (map event_keys es)) \<subseteq> K"
    and "keys_within K h" "finite K" "card K \<le> max_keys" "0 < rl_requests cfg" "rl_enforce cfg"
    and "\<And>e. e \<in> set es \<Longrightarrow> T \<le> event_time e" "\<And>s. s \<in> set past \<Longrightarrow> s \<le> T"
    and "recent cfg T (hits_of h k) = recent cfg T past"
    and "\<And>u. in_window cfg u past \<le> rl_requests cfg"
  shows "in_window cfg u (past @ accepted cfg es h k) \<le> rl_requests cfg"
  using assms
proof (induction es arbitrary: h past T)
  case (Cons e es)
  have le: "\<And>x. x \<in> set es \<Longrightarrow> event_time e \<le> event_time x" using Cons.prems(1) by simp
  have older: "recent cfg (event_time e) (hits_of h k) = recent cfg (event_time e) past"
  proof -
    have "T \<le> event_time e" using Cons.prems(8) by simp
    from recent_mono [OF this, of cfg] Cons.prems(10) show ?thesis by metis
  qed
  have before: "s \<le> event_time e" if "s \<in> set past" for s
    using Cons.prems(8) [of e] Cons.prems(9) [OF that] by simp
  show ?case
  proof (cases e)
    case (Sweep t)
    have "in_window cfg u (past @ accepted cfg es (limiter_cleanup cfg t h) k) \<le> rl_requests cfg"
    proof (rule Cons.IH)
      show "keys_within K (limiter_cleanup cfg t h)" by (rule keys_within_cleanup [OF Cons.prems(3)])
      show "recent cfg t (hits_of (limiter_cleanup cfg t h) k) = recent cfg t past"
        using hits_of_cleanup [of h cfg t k] Cons.prems(3) older Sweep by (simp add: keys_within_def)
      show "\<And>e. e \<in> set es \<Longrightarrow> t \<le> event_time e" using le Sweep by simp
      show "\<And>s. s \<in> set past \<Longrightarrow> s \<le> t" using before Sweep by simp
    qed (use Cons.prems in simp_all)
    with Sweep show ?thesis by simp
  next
    case (Check t j)
    have j: "j \<in> K" using Cons.prems(2) Check by simp
    show ?thesis
    proof (cases rule: check_cases [OF Cons.prems(3-5) j Cons.prems(6,7), of t 0,
          case_names refused allowed])
      case (refused h' err)
      have "in_window cfg u (past @ accepted cfg es h' k) \<le> rl_requests cfg"
      proof (rule Cons.IH)
        show "recent cfg t (hits_of h' k) = recent cfg t past"
          using older Check refused(2) by simp
        show "\<And>e. e \<in> set es \<Longrightarrow> t \<le> event_time e" using le Check by simp
        show "\<And>s. s \<in> set past \<Longrightarrow> s \<le> t" using before Check by simp
      qed (use Cons.prems refused in simp_all)
      with Check refused show ?thesis by simp
    next
      case (allowed h' i)
      let ?past = "past @ (if j = k then [t] else [])"
      have upd: "recent cfg t (hits_of h' k) = recent cfg t ?past"
        using older Check allowed(3) by (auto simp: recent_def)
      have win: "in_window cfg v ?past \<le> rl_requests cfg" for v
      proof (cases "j = k")
        case True
        have "in_window cfg v (past @ [t]) \<le>
            (if t \<le> v then length (recent cfg t past) + 1 else in_window cfg v past)"
          using before Check by (intro in_window_snoc) simp
        also have "\<dots> \<le> rl_requests cfg"
          using allowed(4) older Check True Cons.prems(11) [of v] by auto
        finally show ?thesis using True by simp
      qed (use Cons.prems(11) in simp)
      have "in_window cfg u (?past @ accepted cfg es h' k) \<le> rl_requests cfg"
      proof (rule Cons.IH)
        show "recent cfg t (hits_of h' k) = recent cfg t ?past" by (rule upd)
        show "\<And>e. e \<in> set es \<Longrightarrow> t \<le> event_time e" using le Check by simp
        show "\<And>s. s \<in> set ?past \<Longrightarrow> s \<le> t" using before Check by (auto split: if_splits)
      qed (use Cons.prems allowed win in simp_all)
      with Check allowed show ?thesis by simp
    qed
  qed
qed simp

section \<open>Properties\<close>

text \<open>
  C9: An enforcing limiter never lets more than its number of requests through in any
  window: whatever the interleaving of checks of all keys with sweeps of the cleanup thread, the
  requests accepted for a key in any interval of the window's length are at most the limit (as
  long as no more than ten thousand distinct keys are in use, so that nothing is evicted).
\<close>

theorem limiter_never_exceeds:
  assumes "rl_enforce cfg" "0 < rl_requests cfg" "sorted (map event_time es)"
    and "card (set (concat (map event_keys es))) \<le> max_keys"
  shows "in_window cfg u (accepted cfg es [] k) \<le> rl_requests cfg"
proof -
  let ?K = "set (concat (map event_keys es))"
  have "in_window cfg u ([] @ accepted cfg es [] k) \<le> rl_requests cfg"
  proof (rule accepted_window [where K = ?K and T = "if es = [] then 0 else event_time (hd es)"])
    show "\<And>e. e \<in> set es \<Longrightarrow> (if es = [] then 0 else event_time (hd es)) \<le> event_time e"
      using assms(3) by (cases es) auto
  qed (use assms in \<open>simp_all add: keys_within_def hits_of_def recent_def in_window_def\<close>)
  then show ?thesis by simp
qed

text \<open>
  A refusal is honest about when to come back: when a check is refused with
  Retry-After r and the key is not used in between, the check r seconds later is accepted.
\<close>

theorem retry_after_suffices:
  assumes "rl_enforce cfg" "0 < rl_requests cfg" "length (hits_of h k) \<le> rl_requests cfg"
    and "limiter_check cfg now wall k h = (h', Inl (RateLimited r info))"
  shows "0 < r \<and> (\<exists>h'' i. limiter_check cfg (now + seconds r) wall' k h' = (h'', Inr i))"
proof -
  let ?ts = "recent cfg now (hits_of h k)"
  have full: "rl_requests cfg \<le> length ?ts" and r: "r = seconds_left cfg now (hd ?ts)"
    and h': "h' = (if map_of h k = None then h @ [(k, [])] else h)"
    using assms(4) by (auto simp: limiter_check_def Let_def split: if_splits)
  then have ne: "?ts \<noteq> []" using assms(2) by auto
  have same: "hits_of h' = hits_of h" by (simp only: h' hits_of_touch)
  have all: "?ts = hits_of h k"
  proof -
    have "length ?ts = length (hits_of h k)"
      using full assms(3) by (metis recent_def length_filter_le le_antisym le_trans)
    then show ?thesis unfolding recent_def by (metis length_filter_less filter_True nat_neq_iff)
  qed
  let ?x = "hd ?ts"
  have x: "?x \<in> set ?ts" using ne by simp
  then have live: "now - rl_window cfg < ?x" by (simp add: recent_def)
  have pos: "0 < r" using live by (simp add: r seconds_left_def pos_imp_zdiv_nonneg_iff)
  have "?x + rl_window cfg - now < 1000000 * ((?x + rl_window cfg - now) div 1000000 + 1)"
    by (simp add: algebra_simps)
  then have "?x + rl_window cfg < now + seconds r" by (simp add: r seconds_left_def seconds_def)
  then have gone: "\<not> now + seconds r - rl_window cfg < ?x" by simp
  have "length (recent cfg (now + seconds r) (hits_of h' k)) < length (hits_of h k)"
    unfolding same recent_def using gone x all by (metis (no_types, lifting) length_filter_less)
  also have "\<dots> \<le> rl_requests cfg" by (rule assms(3))
  finally have lt: "length (recent cfg (now + seconds r) (hits_of h' k)) < rl_requests cfg" .
  then show ?thesis using pos by (simp add: limiter_check_def Let_def)
qed

section \<open>Concrete limiters\<close>

text \<open>\<open>bulk_limiter\<close>: two requests in sixty seconds.\<close>

definition bulk_limiter :: limiter where
  "bulk_limiter = \<lparr>rl_requests = 2, rl_window = seconds 60, rl_enforce = True\<rparr>"

theorem limiter_never_exceeds_witness:
  "in_window bulk_limiter (seconds 30) (accepted bulk_limiter
     [Check (seconds 1) (7::int), Check (seconds 2) 7, Sweep (seconds 3), Check (seconds 4) 7,
      Check (seconds 5) 8] [] 7) \<le> 2"
  using limiter_never_exceeds [of bulk_limiter "[Check (seconds 1) (7::int), Check (seconds 2) 7,
      Sweep (seconds 3), Check (seconds 4) 7, Check (seconds 5) 8]" "seconds 30" 7]
  by (simp add: bulk_limiter_def seconds_def max_keys_def)

theorem retry_after_suffices_witness:
  "\<exists>h r i. limiter_check bulk_limiter (seconds 10) 0 (7::int) [(7, [seconds 1, seconds 2])] =
      (h, Inl (RateLimited r i)) \<and>
    (\<exists>h'' j. limiter_check bulk_limiter (seconds 10 + seconds r) 0 7 h = (h'', Inr j))"
proof -
  let ?h = "[(7::int, [seconds 1, seconds 2])]"
  obtain h r i where c: "limiter_check bulk_limiter (seconds 10) 0 (7::int) ?h = (h, Inl (RateLimited r i))"
    by (simp add: limiter_check_def Let_def hits_of_def recent_def bulk_limiter_def seconds_def)
  have "rl_enforce bulk_limiter" "0 < rl_requests bulk_limiter"
    "length (hits_of ?h 7) \<le> rl_requests bulk_limiter"
    by (simp_all add: bulk_limiter_def hits_of_def)
  from retry_after_suffices [OF this c] c show ?thesis by blast
qed

end
