(* ===== verification/Idempotency.thy ===== *)
theory Idempotency
  imports Profiles
begin

text \<open>
  Idempotency keys: \<open>db/idempotency.py\<close> (table \<open>idempotency_keys\<close>, migration 018),
  \<open>api/idempotency.py\<close> and the frame every POST endpoint puts around its work
  (\<open>idempotent_post\<close>, the shape shared by \<open>create_research\<close>, \<open>create_bulk_research\<close>,
  \<open>create_list_endpoint\<close> and \<open>analyze_list_endpoint\<close> in \<open>api/routes.py\<close>).
\<close>

section \<open>The table\<close>

record idem_row =
  ik_api_key :: int
  ik_key :: string
  ik_status :: int
  ik_body :: json
  ik_created :: time

type_synonym idem_db = "idem_row list"

datatype claim_result = Claimed | Cached int json | InProgress

definition is_key :: "int \<Rightarrow> string \<Rightarrow> idem_row \<Rightarrow> bool" where
  "is_key ak key r \<longleftrightarrow> ik_api_key r = ak \<and> ik_key r = key"

text \<open>
  \<open>INSERT ... ON CONFLICT DO NOTHING RETURNING id\<close>, and the SELECT that follows when the key
  was taken. The statements are separate transactions: \<open>others\<close> is what other requests do to the
  table in between.
\<close>

definition insert_pending :: "time \<Rightarrow> int \<Rightarrow> string \<Rightarrow> idem_db \<Rightarrow> idem_db \<times> bool" where
  "insert_pending now ak key d = (if find (is_key ak key) d \<noteq> None then (d, False)
     else (d @ [\<lparr>ik_api_key = ak, ik_key = key, ik_status = 0, ik_body = JDict [], ik_created = now\<rparr>],
           True))"

definition claim_idempotency_key ::
    "(idem_db \<Rightarrow> idem_db) \<Rightarrow> time \<Rightarrow> int \<Rightarrow> string \<Rightarrow> idem_db \<Rightarrow> idem_db \<times> claim_result" where
  "claim_idempotency_key others now ak key d = (case insert_pending now ak key d of
     (d1, True) \<Rightarrow> (d1, Claimed)
   | (d1, False) \<Rightarrow> let d2 = others d1 in
       (d2, case find (is_key ak key) d2 of
          None \<Rightarrow> InProgress
        | Some r \<Rightarrow> if ik_status r \<noteq> 0 then Cached (ik_status r) (ik_body r) else InProgress))"

definition save_idempotency_result :: "int \<Rightarrow> string \<Rightarrow> int \<Rightarrow> json \<Rightarrow> idem_db \<Rightarrow> idem_db" where
  "save_idempotency_result ak key status body d =
     update_where (is_key ak key) (\<lambda>r. r\<lparr>ik_status := status, ik_body := body\<rparr>) d"

definition cleanup_expired_keys :: "time \<Rightarrow> idem_db \<Rightarrow> idem_db \<times> int" where
  "cleanup_expired_keys now d = (filter (\<lambda>r. \<not> ik_created r < now - hours 24) d,
     count_where (\<lambda>r. ik_created r < now - hours 24) d)"

section \<open>The helper of the routes\<close>

datatype idem_check = NoKey | Answer string int json | Proceed string

definition in_progress_body :: json where
  "in_progress_body = JDict [(''error'', JDict [(''code'', JStr ''conflict''),
     (''message'', JStr ''A request with this idempotency key is already in progress'')])]"

text \<open>A missing or empty header means no key.\<close>

definition check_idempotency ::
    "(idem_db \<Rightarrow> idem_db) \<Rightarrow> time \<Rightarrow> string option \<Rightarrow> int \<Rightarrow> idem_db \<Rightarrow> idem_db \<times> idem_check" where
  "check_idempotency others now header ak d = (case header of
     None \<Rightarrow> (d, NoKey)
   | Some key \<Rightarrow> if key = [] then (d, NoKey)
       else (case claim_idempotency_key others now ak key d of
           (d', Claimed) \<Rightarrow> (d', Proceed key)
         | (d', Cached status body) \<Rightarrow> (d', Answer key status body)
         | (d', InProgress) \<Rightarrow> (d', Answer key 409 in_progress_body)))"

text \<open>
  The work of an endpoint takes the state to a new state and an answer: \<open>Inr\<close> for a body that
  is returned (and saved), \<open>Inl\<close> for an \<open>APIError\<close>, which leaves the function before the
  result is saved. An error's body is rendered by the exception handler.
\<close>

type_synonym 's work = "'s \<Rightarrow> 's \<times> ((int \<times> json) + (int \<times> json))"

definition idempotent_post ::
    "(idem_db \<Rightarrow> idem_db) \<Rightarrow> time \<Rightarrow> string option \<Rightarrow> int \<Rightarrow> 's work \<Rightarrow> 's \<Rightarrow> idem_db \<Rightarrow>
     's \<times> idem_db \<times> int \<times> json" where
  "idempotent_post others now header ak run s d =
     (case check_idempotency others now header ak d of
        (d', Answer key status body) \<Rightarrow> (s, d', status, body)
      | (d', NoKey) \<Rightarrow> (case run s of
           (s', Inl (status, body)) \<Rightarrow> (s', d', status, body)
         | (s', Inr (status, body)) \<Rightarrow> (s', d', status, body))
      | (d', Proceed key) \<Rightarrow> (case run s of
           (s', Inl (status, body)) \<Rightarrow> (s', d', status, body)
         | (s', Inr (status, body)) \<Rightarrow> (s', save_idempotency_result ak key status body d', status, body)))"

section \<open>Laws\<close>

definition idem_wf :: "idem_db \<Rightarrow> bool" where
  "idem_wf d \<longleftrightarrow> distinct (map (\<lambda>r. (ik_api_key r, ik_key r)) d)"

lemma is_key_pair: "is_key ak key r \<longleftrightarrow> (ik_api_key r, ik_key r) = (ak, key)"
  by (simp add: is_key_def)

lemma find_saved:
  "find (is_key ak key) (save_idempotency_result ak key status body d) =
    map_option (\<lambda>r. r\<lparr>ik_status := status, ik_body := body\<rparr>) (find (is_key ak key) d)"
  unfolding save_idempotency_result_def by (rule find_update_same) (simp add: is_key_def)

lemma idem_wf_save: "idem_wf d \<Longrightarrow> idem_wf (save_idempotency_result ak key status body d)"
  by (simp add: idem_wf_def save_idempotency_result_def map_update_where is_key_def)

lemma insert_pending_cases:
  obtains (taken) r where "find (is_key ak key) d = Some r" "insert_pending now ak key d = (d, False)"
  | (fresh) d' where "find (is_key ak key) d = None" "insert_pending now ak key d = (d', True)"
      "d' = d @ [\<lparr>ik_api_key = ak, ik_key = key, ik_status = 0, ik_body = JDict [], ik_created = now\<rparr>]"
  by (cases "find (is_key ak key) d") (simp_all add: insert_pending_def)

lemma idem_wf_insert: "idem_wf d \<Longrightarrow> insert_pending now ak key d = (d', b) \<Longrightarrow> idem_wf d'"
  by (cases rule: insert_pending_cases [of ak key d now])
    (auto simp: idem_wf_def find_None_iff is_key_pair)

lemma claim_taken:
  assumes "find (is_key ak key) d = Some r"
  shows "claim_idempotency_key id now ak key d =
    (d, if ik_status r \<noteq> 0 then Cached (ik_status r) (ik_body r) else InProgress)"
  using assms by (simp add: claim_idempotency_key_def insert_pending_def)

text \<open>A key that no row of the table has yet is claimed, and the row becomes pending.\<close>

lemma claim_fresh:
  assumes "find (is_key ak key) d = None"
  shows "\<exists>d'. claim_idempotency_key others now ak key d = (d', Claimed) \<and>
    (\<exists>r. find (is_key ak key) d' = Some r \<and> ik_status r = 0)"
  using assms by (simp add: claim_idempotency_key_def insert_pending_def find_append is_key_def)

section \<open>Properties\<close>

text \<open>
  A POST that succeeded is executed once per key: repeating the request with the same
  key leaves the state as it is and answers with the status and the body of the first answer,
  whatever the repeated request asks for.
\<close>

theorem repeated_post_replays:
  assumes "key \<noteq> []" "find (is_key ak key) d = None" "run s = (s', Inr (status, body))" "status \<noteq> 0"
    and "idempotent_post others now (Some key) ak run s d = (s1, d1, status1, body1)"
  shows "s1 = s' \<and> status1 = status \<and> body1 = body \<and>
    idempotent_post id later (Some key) ak run' t d1 = (t, d1, status, body)"
proof -
  from claim_fresh [OF assms(2)] obtain d' r
    where cl: "claim_idempotency_key others now ak key d = (d', Claimed)"
      "find (is_key ak key) d' = Some r" by blast
  then have post: "s1 = s'" "d1 = save_idempotency_result ak key status body d'" "status1 = status"
    "body1 = body"
    using assms by (auto simp: idempotent_post_def check_idempotency_def)
  have "find (is_key ak key) d1 = Some (r\<lparr>ik_status := status, ik_body := body\<rparr>)"
    using cl(2) by (simp add: post find_saved)
  from claim_taken [OF this, of later] assms(1,4) post show ?thesis
    by (simp add: idempotent_post_def check_idempotency_def)
qed

text \<open>
  A POST that ended in an error poisons its key: the pending row is never resolved, so
  every repetition (the documented reason to send a key) is answered with 409 without running
  the request, until the cleanup deletes the row more than 24 hours after the first attempt.
\<close>

theorem failed_post_blocks_key:
  assumes "key \<noteq> []" "find (is_key ak key) d = None" "run s = (s', Inl (status, body))"
    and "idempotent_post others now (Some key) ak run s d = (s1, d1, status1, body1)"
    and "later \<le> now + hours 24"
  shows "status1 = status \<and> body1 = body \<and>
    idempotent_post id later (Some key) ak run' t (fst (cleanup_expired_keys later d1)) =
      (t, fst (cleanup_expired_keys later d1), 409, in_progress_body)"
proof -
  let ?new = "\<lparr>ik_api_key = ak, ik_key = key, ik_status = 0, ik_body = JDict [], ik_created = now\<rparr>"
  have cl: "claim_idempotency_key others now ak key d = (d @ [?new], Claimed)"
    using assms(2) by (simp add: claim_idempotency_key_def insert_pending_def)
  then have post: "status1 = status" "body1 = body" "d1 = d @ [?new]"
    using assms(1,3,4) by (simp_all add: idempotent_post_def check_idempotency_def)
  let ?old = "filter (\<lambda>r. \<not> ik_created r < later - hours 24) d"
  have cleaned: "fst (cleanup_expired_keys later d1) = ?old @ [?new]"
    using assms(5) by (simp add: cleanup_expired_keys_def post)
  have "find (is_key ak key) ?old = None"
    using assms(2) by (auto simp: find_None_iff)
  then have "find (is_key ak key) (fst (cleanup_expired_keys later d1)) = Some ?new"
    by (simp add: cleaned find_append is_key_def)
  from claim_taken [OF this, of later] assms(1) post show ?thesis
    by (simp add: idempotent_post_def check_idempotency_def)
qed

text \<open>
  Of two concurrent requests with one key only one proceeds: when a claim has succeeded,
  any later claim of the key is told that the request is in progress or gets its result, never
  that it may proceed, as long as the row is not deleted.
\<close>

theorem claim_is_exclusive:
  assumes "claim_idempotency_key others now ak key d = (d', Claimed)" "set d' \<subseteq> set d''"
  shows "snd (claim_idempotency_key others' later ak key d'') \<noteq> Claimed"
proof -
  have "find (is_key ak key) d' \<noteq> None"
  proof (cases rule: insert_pending_cases [of ak key d now])
    case (taken r)
    with assms(1) show ?thesis
      by (auto simp: claim_idempotency_key_def Let_def split: option.splits if_splits)
  next
    case (fresh d1)
    with assms(1) show ?thesis
      by (auto simp: claim_idempotency_key_def find_append is_key_def)
  qed
  then have "find (is_key ak key) d'' \<noteq> None"
    using assms(2) by (auto simp: find_None_iff)
  then show ?thesis
    by (auto simp: claim_idempotency_key_def insert_pending_def Let_def split: option.splits)
qed

theorem repeated_post_replays_witness:
  "\<exists>d1. idempotent_post id 5 (Some ''k1'') 3 (\<lambda>n. (n + 1, Inr (202, JInt n))) (0::int) [] =
      (1, d1, 202, JInt 0) \<and>
    idempotent_post id 9 (Some ''k1'') 3 (\<lambda>n. (n + 1, Inr (202, JInt n))) (1::int) d1 = (1, d1, 202, JInt 0)"
proof -
  let ?run = "\<lambda>n::int. (n + 1, Inr (202, JInt n) :: (int \<times> json) + (int \<times> json))"
  obtain s1 d1 st b where p: "idempotent_post id 5 (Some ''k1'') 3 ?run 0 [] = (s1, d1, st, b)"
    by (cases "idempotent_post id 5 (Some ''k1'') 3 ?run 0 []")
  have run: "?run 0 = (1, Inr (202, JInt 0))" by simp
  have "s1 = 1 \<and> st = 202 \<and> b = JInt 0 \<and> idempotent_post id 9 (Some ''k1'') 3 ?run 1 d1 = (1, d1, 202, JInt 0)"
    by (rule repeated_post_replays [OF _ _ run _ p]) simp_all
  with p show ?thesis by auto
qed

theorem failed_post_blocks_key_witness:
  "\<exists>d1. idempotent_post id 5 (Some ''k1'') 3 (\<lambda>n. (n, Inl (402, JNull))) (0::int) [] =
      (0, d1, 402, JNull) \<and>
    idempotent_post id (hours 23) (Some ''k1'') 3 (\<lambda>n. (n, Inr (202, JNull))) (0::int)
       (fst (cleanup_expired_keys (hours 23) d1)) =
      (0, fst (cleanup_expired_keys (hours 23) d1), 409, in_progress_body)"
proof -
  let ?run = "\<lambda>n::int. (n, Inl (402, JNull) :: (int \<times> json) + (int \<times> json))"
  obtain s1 d1 st b where p: "idempotent_post id 5 (Some ''k1'') 3 ?run 0 [] = (s1, d1, st, b)"
    by (cases "idempotent_post id 5 (Some ''k1'') 3 ?run 0 []")
  have run: "?run 0 = (0, Inl (402, JNull))" by simp
  have late: "hours 23 \<le> 5 + hours 24" by (simp add: time_defs)
  have "s1 = 0" using p by (simp add: idempotent_post_def check_idempotency_def
        claim_idempotency_key_def insert_pending_def)
  moreover have "st = 402 \<and> b = JNull \<and>
      idempotent_post id (hours 23) (Some ''k1'') 3 (\<lambda>n. (n, Inr (202, JNull))) (0::int)
        (fst (cleanup_expired_keys (hours 23) d1)) =
      (0, fst (cleanup_expired_keys (hours 23) d1), 409, in_progress_body)"
    by (rule failed_post_blocks_key [OF _ _ run p late]) simp_all
  ultimately show ?thesis using p by blast
qed

theorem claim_is_exclusive_witness:
  "snd (claim_idempotency_key id 9 3 ''k1'' (fst (claim_idempotency_key id 5 3 ''k1'' []))) \<noteq> Claimed"
proof -
  have c: "claim_idempotency_key id 5 3 ''k1'' [] =
      (fst (claim_idempotency_key id 5 3 ''k1'' []), Claimed)"
    by (simp add: claim_idempotency_key_def insert_pending_def)
  show ?thesis by (rule claim_is_exclusive [OF c]) simp
qed

end
