(* ===== verification/Team.thy ===== *)
theory Team
  imports Credits
begin

text \<open>
  Organizations: membership and invites (\<open>db/orgs.py\<close>), the acceptance of pending invites at
  login (\<open>auth.py\<close>) and the team endpoints of \<open>api/routes.py\<close>. The random invite token is an
  argument; \<open>tie\<close> is the choice \<open>get_user_by_id\<close> leaves to the database.
\<close>

section \<open>Errors of the API\<close>

text \<open>Machine-readable code and HTTP status; the prose of the message is left out.\<close>

datatype api_error = ApiError string int

section \<open>Organizations and members\<close>

definition get_org :: "int \<Rightarrow> accounts \<Rightarrow> org_row option" where
  "get_org oid a = org_row_of a oid"

definition update_org_name :: "int \<Rightarrow> string \<Rightarrow> accounts \<Rightarrow> db_error + (accounts \<times> org_row)" where
  "update_org_name oid name a =
     (let a' = a\<lparr>ac_orgs := update_where (\<lambda>g. og_id g = oid) (\<lambda>g. g\<lparr>og_name := name\<rparr>) (ac_orgs a)\<rparr>
      in case org_row_of a' oid of None \<Rightarrow> Inl MissingRow | Some g \<Rightarrow> Inr (a', g))"

text \<open>\<open>stripe_customer_id\<close> is unique.\<close>

definition update_org_stripe :: "int \<Rightarrow> string \<Rightarrow> accounts \<Rightarrow> db_error + accounts" where
  "update_org_stripe oid customer a =
     (if org_row_of a oid \<noteq> None \<and> (\<exists>g \<in> set (ac_orgs a). og_id g \<noteq> oid \<and> og_stripe g = Some customer)
      then Inl UniqueViolation
      else Inr (a\<lparr>ac_orgs := update_where (\<lambda>g. og_id g = oid) (\<lambda>g. g\<lparr>og_stripe := Some customer\<rparr>)
             (ac_orgs a)\<rparr>))"

definition get_org_members :: "int \<Rightarrow> accounts \<Rightarrow> (user_row \<times> role \<times> time) list" where
  "get_org_members oid a = concat (map (\<lambda>m. case user_of a (mb_user m) of
       None \<Rightarrow> [] | Some u \<Rightarrow> [(u, mb_role m, mb_joined m)])
     (sort_key mb_joined (filter (\<lambda>m. mb_org m = oid) (ac_members a))))"

definition is_member :: "int \<Rightarrow> int \<Rightarrow> member_row \<Rightarrow> bool" where
  "is_member oid uid m \<longleftrightarrow> mb_org m = oid \<and> mb_user m = uid"

definition update_member_role :: "int \<Rightarrow> int \<Rightarrow> role \<Rightarrow> accounts \<Rightarrow> accounts \<times> bool" where
  "update_member_role oid uid r a =
     (a\<lparr>ac_members := update_where (is_member oid uid) (\<lambda>m. m\<lparr>mb_role := r\<rparr>) (ac_members a)\<rparr>,
      count_where (is_member oid uid) (ac_members a) = 1)"

definition remove_org_member :: "int \<Rightarrow> int \<Rightarrow> accounts \<Rightarrow> accounts \<times> bool" where
  "remove_org_member oid uid a =
     (a\<lparr>ac_members := filter (\<lambda>m. \<not> is_member oid uid m) (ac_members a)\<rparr>,
      count_where (is_member oid uid) (ac_members a) = 1)"

section \<open>Invites\<close>

definition same_invite :: "int \<Rightarrow> string \<Rightarrow> invite_row \<Rightarrow> bool" where
  "same_invite oid email v \<longleftrightarrow> iv_org v = oid \<and> iv_email v = email"

text \<open>The token is unique in the table; inviting an address again replaces its invite.\<close>

definition create_org_invite ::
    "time \<Rightarrow> string \<Rightarrow> int \<Rightarrow> string \<Rightarrow> role \<Rightarrow> int \<Rightarrow> accounts \<Rightarrow> db_error + (accounts \<times> invite_row)" where
  "create_org_invite now token oid email r by_uid a =
     (if org_row_of a oid = None \<or> user_of a by_uid = None then Inl ForeignKeyViolation
      else if \<exists>v \<in> set (ac_invites a). iv_token v = token then Inl UniqueViolation
      else let f = (\<lambda>v. v\<lparr>iv_role := r, iv_token := token, iv_by := by_uid, iv_accepted := None,
                 iv_expires := now + days 7, iv_created := now\<rparr>)
        in case find (same_invite oid email) (ac_invites a) of
          Some v \<Rightarrow> Inr (a\<lparr>ac_invites := update_where (same_invite oid email) f (ac_invites a)\<rparr>, f v)
        | None \<Rightarrow> let v = f \<lparr>iv_id = ac_next_invite a, iv_org = oid, iv_email = email, iv_role = r,
                     iv_token = token, iv_by = by_uid, iv_accepted = None, iv_expires = now,
                     iv_created = now\<rparr>
            in Inr (a\<lparr>ac_invites := ac_invites a @ [v], ac_next_invite := ac_next_invite a + 1\<rparr>, v))"

definition pending_invite :: "time \<Rightarrow> invite_row \<Rightarrow> bool" where
  "pending_invite now v \<longleftrightarrow> iv_accepted v = None \<and> now < iv_expires v"

definition newest_invites :: "(invite_row \<Rightarrow> bool) \<Rightarrow> accounts \<Rightarrow> invite_row list" where
  "newest_invites P a = sort_key (\<lambda>v. - iv_created v) (filter P (ac_invites a))"

definition get_pending_invites :: "time \<Rightarrow> int \<Rightarrow> accounts \<Rightarrow> (invite_row \<times> string) list" where
  "get_pending_invites now oid a = concat (map (\<lambda>v. case user_of a (iv_by v) of
       None \<Rightarrow> [] | Some u \<Rightarrow> [(v, us_name u)])
     (newest_invites (\<lambda>v. iv_org v = oid \<and> pending_invite now v) a))"

definition get_pending_invites_for_email :: "time \<Rightarrow> string \<Rightarrow> accounts \<Rightarrow> (invite_row \<times> string) list" where
  "get_pending_invites_for_email now email a = concat (map (\<lambda>v. case org_row_of a (iv_org v) of
       None \<Rightarrow> [] | Some g \<Rightarrow> [(v, og_name g)])
     (newest_invites (\<lambda>v. iv_email v = email \<and> pending_invite now v) a))"

definition get_invite_by_token :: "string \<Rightarrow> accounts \<Rightarrow> (invite_row \<times> string) option" where
  "get_invite_by_token token a = (case find (\<lambda>v. iv_token v = token) (ac_invites a) of
     None \<Rightarrow> None
   | Some v \<Rightarrow> map_option (\<lambda>g. (v, og_name g)) (org_row_of a (iv_org v)))"

text \<open>\<open>INSERT INTO org_members ... ON CONFLICT DO UPDATE SET role\<close>\<close>

definition upsert_member :: "time \<Rightarrow> int \<Rightarrow> int \<Rightarrow> role \<Rightarrow> member_row list \<Rightarrow> member_row list" where
  "upsert_member now oid uid r ms = (if find (is_member oid uid) ms = None
     then ms @ [\<lparr>mb_org = oid, mb_user = uid, mb_role = r, mb_joined = now\<rparr>]
     else update_where (is_member oid uid) (\<lambda>m. m\<lparr>mb_role := r\<rparr>) ms)"

definition accept_invite ::
    "time \<Rightarrow> string \<Rightarrow> int \<Rightarrow> accounts \<Rightarrow> db_error + (accounts \<times> invite_row option)" where
  "accept_invite now token uid a =
     (case find (\<lambda>v. iv_token v = token \<and> pending_invite now v) (ac_invites a) of
        None \<Rightarrow> Inr (a, None)
      | Some v \<Rightarrow>
          if user_of a uid = None then Inl ForeignKeyViolation
          else Inr (update_user_where uid (\<lambda>u. u\<lparr>us_org := Some (iv_org v)\<rparr>)
              (a\<lparr>ac_invites := update_where (\<lambda>w. iv_id w = iv_id v) (\<lambda>w. w\<lparr>iv_accepted := Some now\<rparr>)
                   (ac_invites a),
                 ac_members := upsert_member now (iv_org v) uid (iv_role v) (ac_members a)\<rparr>),
              Some v))"

definition is_invite :: "int \<Rightarrow> int \<Rightarrow> invite_row \<Rightarrow> bool" where
  "is_invite i oid v \<longleftrightarrow> iv_id v = i \<and> iv_org v = oid \<and> iv_accepted v = None"

definition revoke_invite :: "int \<Rightarrow> int \<Rightarrow> accounts \<Rightarrow> accounts \<times> bool" where
  "revoke_invite i oid a = (a\<lparr>ac_invites := filter (\<lambda>v. \<not> is_invite i oid v) (ac_invites a)\<rparr>,
     count_where (is_invite i oid) (ac_invites a) = 1)"

text \<open>\<open>_auto_accept_invites\<close>: every exception is logged and dropped.\<close>

definition auto_accept_invites :: "time \<Rightarrow> user_row \<Rightarrow> accounts \<Rightarrow> accounts" where
  "auto_accept_invites now u a = (case get_pending_invites_for_email now (us_email u) a of
     [] \<Rightarrow> a
   | (v, _) # _ \<Rightarrow> (case accept_invite now (iv_token v) (us_id u) a of Inl e \<Rightarrow> a | Inr (a', _) \<Rightarrow> a'))"

text \<open>
  \<open>accept_invite_route\<close> for a logged-in user; \<open>has_data\<close> is \<open>user_has_data\<close>.
\<close>

definition accept_invite_route ::
    "time \<Rightarrow> bool \<Rightarrow> string \<Rightarrow> int \<Rightarrow> accounts \<Rightarrow> api_error + accounts" where
  "accept_invite_route now has_data token uid a =
     (if has_data \<and> org_of_user a uid \<noteq> None then Inl (ApiError ''error'' 400)
      else (case accept_invite now token uid a of
        Inl e \<Rightarrow> Inl (ApiError ''internal_error'' 500)
      | Inr (a', None) \<Rightarrow> Inl (ApiError ''error'' 400)
      | Inr (a', Some v) \<Rightarrow> Inr a'))"

section \<open>The team endpoints\<close>

definition role_of_string :: "string \<Rightarrow> role option" where
  "role_of_string s = (if s = ''admin'' then Some Admin else if s = ''member'' then Some Member
     else if s = ''viewer'' then Some Viewer else None)"

text \<open>The guard \<open>not user or user.get("org_role") != "admin"\<close>\<close>

definition acting_admin :: "nat \<Rightarrow> int \<Rightarrow> accounts \<Rightarrow> user_view option" where
  "acting_admin tie uid a = (case get_user_by_id tie uid a of
     None \<Rightarrow> None | Some v \<Rightarrow> if vw_role v = Some Admin then Some v else None)"

definition api_list_team ::
    "nat \<Rightarrow> int \<Rightarrow> accounts \<Rightarrow> api_error + (user_row \<times> role \<times> time) list" where
  "api_list_team tie uid a = (case get_user_by_id tie uid a of
     None \<Rightarrow> Inl (ApiError ''validation_error'' 400)
   | Some v \<Rightarrow> (case us_org (vw_user v) of
       None \<Rightarrow> Inl (ApiError ''validation_error'' 400) | Some oid \<Rightarrow> Inr (get_org_members oid a)))"

definition api_invite_member ::
    "time \<Rightarrow> string \<Rightarrow> nat \<Rightarrow> int \<Rightarrow> string \<Rightarrow> string \<Rightarrow> accounts \<Rightarrow> api_error + (accounts \<times> invite_row)" where
  "api_invite_member now token tie uid email r a = (case acting_admin tie uid a of
     None \<Rightarrow> Inl (ApiError ''forbidden'' 403)
   | Some v \<Rightarrow> (case role_of_string r of
       None \<Rightarrow> Inl (ApiError ''validation_error'' 400)
     | Some r' \<Rightarrow> (case us_org (vw_user v) of
         None \<Rightarrow> Inl (ApiError ''internal_error'' 500)
       | Some oid \<Rightarrow> (case create_org_invite now token oid email r' (us_id (vw_user v)) a of
           Inl e \<Rightarrow> Inl (ApiError ''internal_error'' 500) | Inr res \<Rightarrow> Inr res))))"

definition api_remove_member ::
    "nat \<Rightarrow> int \<Rightarrow> int \<Rightarrow> accounts \<Rightarrow> accounts \<times> (api_error + bool)" where
  "api_remove_member tie uid member a = (case acting_admin tie uid a of
     None \<Rightarrow> (a, Inl (ApiError ''forbidden'' 403))
   | Some v \<Rightarrow>
       if member = us_id (vw_user v) then (a, Inl (ApiError ''validation_error'' 400))
       else (case us_org (vw_user v) of
         None \<Rightarrow> (a, Inl (ApiError ''not_found'' 404))
       | Some oid \<Rightarrow> (case remove_org_member oid member a of
           (a', True) \<Rightarrow> (a', Inr True) | (a', False) \<Rightarrow> (a', Inl (ApiError ''not_found'' 404)))))"

definition api_change_role ::
    "nat \<Rightarrow> int \<Rightarrow> int \<Rightarrow> string \<Rightarrow> accounts \<Rightarrow> accounts \<times> (api_error + role)" where
  "api_change_role tie uid member r a = (case acting_admin tie uid a of
     None \<Rightarrow> (a, Inl (ApiError ''forbidden'' 403))
   | Some v \<Rightarrow>
       if member = us_id (vw_user v) then (a, Inl (ApiError ''validation_error'' 400))
       else (case role_of_string r of
         None \<Rightarrow> (a, Inl (ApiError ''validation_error'' 400))
       | Some r' \<Rightarrow> (case us_org (vw_user v) of
           None \<Rightarrow> (a, Inl (ApiError ''not_found'' 404))
         | Some oid \<Rightarrow> (case update_member_role oid member r' a of
             (a', True) \<Rightarrow> (a', Inr r') | (a', False) \<Rightarrow> (a', Inl (ApiError ''not_found'' 404))))))"

section \<open>Laws\<close>

lemma org_of_user_update_org:
  assumes "user_of a uid \<noteq> None"
  shows "org_of_user (update_user_where uid (\<lambda>u. u\<lparr>us_org := g\<rparr>) a) i =
    (if i = uid then g else org_of_user a i)"
  using assms by (cases "user_of a i") (auto simp: org_of_user_def user_of_update dest: user_of_mem)

lemma org_of_user_members [simp]:
  "org_of_user (a\<lparr>ac_members := ms\<rparr>) = org_of_user a"
  "org_of_user (a\<lparr>ac_invites := vs, ac_members := ms\<rparr>) = org_of_user a"
  "user_of (a\<lparr>ac_invites := vs, ac_members := ms\<rparr>) = user_of a"
  by (auto simp: org_of_user_def user_of_def)

lemma upsert_keeps_others:
  "m \<in> set ms \<Longrightarrow> \<not> is_member oid uid m \<Longrightarrow> m \<in> set (upsert_member now oid uid r ms)"
  by (auto simp: upsert_member_def set_update_where)

lemma upsert_has: "\<exists>m \<in> set (upsert_member now oid uid r ms). is_member oid uid m \<and> mb_role m = r"
proof (cases "find (is_member oid uid) ms")
  case None
  then show ?thesis by (simp add: upsert_member_def is_member_def)
next
  case (Some m)
  from find_Some_mem [OF Some] have "m\<lparr>mb_role := r\<rparr> \<in> set (upsert_member now oid uid r ms)"
    using Some by (auto simp: upsert_member_def set_update_where)
  moreover have "is_member oid uid (m\<lparr>mb_role := r\<rparr>)"
    using find_Some_mem [OF Some] by (simp add: is_member_def)
  ultimately show ?thesis by (metis member_row.select_convs(3) member_row.surjective member_row.update_convs(3))
qed

lemma accept_invite_cases:
  assumes "accept_invite now token uid a = Inr (a', Some v)"
  obtains "v \<in> set (ac_invites a)" "iv_token v = token" "pending_invite now v" "user_of a uid \<noteq> None"
    "ac_members a' = upsert_member now (iv_org v) uid (iv_role v) (ac_members a)"
    "ac_invites a' = update_where (\<lambda>w. iv_id w = iv_id v) (\<lambda>w. w\<lparr>iv_accepted := Some now\<rparr>) (ac_invites a)"
    "org_of_user a' uid = Some (iv_org v)"
proof -
  have f: "find (\<lambda>v. iv_token v = token \<and> pending_invite now v) (ac_invites a) = Some v"
    and u: "user_of a uid \<noteq> None"
    and a': "a' = update_user_where uid (\<lambda>u. u\<lparr>us_org := Some (iv_org v)\<rparr>)
      (a\<lparr>ac_invites := update_where (\<lambda>w. iv_id w = iv_id v) (\<lambda>w. w\<lparr>iv_accepted := Some now\<rparr>) (ac_invites a),
         ac_members := upsert_member now (iv_org v) uid (iv_role v) (ac_members a)\<rparr>)"
    using assms by (auto simp: accept_invite_def split: option.splits if_splits)
  from find_Some_mem [OF f] u show thesis
    by (intro that) (simp_all add: a' update_user_where_def [symmetric] org_of_user_update_org,
        simp_all add: update_user_where_def)
qed

lemma joined_role_possible:
  assumes "m \<in> set (ac_members a)" "mb_user m = uid" "user_of a uid = Some u"
  shows "\<exists>tie v. get_user_by_id tie uid a = Some v \<and> vw_user v = u \<and> vw_role v = Some (mb_role m)"
proof -
  let ?ms = "filter (\<lambda>m. mb_user m = uid) (ac_members a)"
  have m: "m \<in> set ?ms" using assms by simp
  then have roles: "joined_roles a uid = map (\<lambda>m. Some (mb_role m)) ?ms"
    by (cases ?ms) (simp_all add: joined_roles_def)
  from m obtain i where i: "i < length ?ms" "?ms ! i = m" unfolding in_set_conv_nth by blast
  then have "joined_roles a uid ! (i mod length (joined_roles a uid)) = Some (mb_role m)"
    by (simp add: roles)
  with assms(3) show ?thesis
    by (intro exI [of _ i]) (simp add: get_user_by_id_def Let_def)
qed

section \<open>Properties\<close>

text \<open>
  Accepting an invite works once and makes the user a member of the inviting
  organization with the invited role; a second acceptance of the same token finds nothing.
\<close>

theorem accept_invite_once:
  assumes "accept_invite now token uid a = Inr (a', Some v)" "distinct (map iv_token (ac_invites a))"
  shows "iv_token v = token \<and> now < iv_expires v \<and> org_of_user a' uid = Some (iv_org v) \<and>
    (\<exists>m \<in> set (ac_members a'). is_member (iv_org v) uid m \<and> mb_role m = iv_role v) \<and>
    accept_invite later token uid' a' = Inr (a', None)"
proof (rule accept_invite_cases [OF assms(1)])
  assume v: "v \<in> set (ac_invites a)" "iv_token v = token" "pending_invite now v"
    and ms: "ac_members a' = upsert_member now (iv_org v) uid (iv_role v) (ac_members a)"
    and vs: "ac_invites a' = update_where (\<lambda>w. iv_id w = iv_id v) (\<lambda>w. w\<lparr>iv_accepted := Some now\<rparr>) (ac_invites a)"
    and org: "org_of_user a' uid = Some (iv_org v)"
  have "\<not> (iv_token w = token \<and> pending_invite later w)" if w: "w \<in> set (ac_invites a')" for w
  proof -
    from w obtain x where x: "x \<in> set (ac_invites a)"
      "w = (if iv_id x = iv_id v then x\<lparr>iv_accepted := Some now\<rparr> else x)"
      by (auto simp: vs update_where_def)
    show ?thesis
    proof (cases "iv_id x = iv_id v")
      case True
      then show ?thesis using x by (simp add: pending_invite_def)
    next
      case False
      have "iv_token x \<noteq> token"
        using False v(1,2) x(1) distinct_key_eq [OF assms(2)] by blast
      with False x show ?thesis by simp
    qed
  qed
  then have "find (\<lambda>v. iv_token v = token \<and> pending_invite later v) (ac_invites a') = None"
    by (simp add: find_None_iff)
  then have "accept_invite later token uid' a' = Inr (a', None)" by (simp add: accept_invite_def)
  moreover have "\<exists>m \<in> set (ac_members a'). is_member (iv_org v) uid m \<and> mb_role m = iv_role v"
    unfolding ms by (rule upsert_has)
  ultimately show ?thesis using v org by (simp add: pending_invite_def)
qed

text \<open>
  Joining a team keeps the membership in the user's own organization, and the query
  behind the admin check does not restrict the role to the current organization: a user who was
  admin at home and joins another organization in any role may be taken for an admin there, and
  may then remove any other member of it.
\<close>

theorem joining_can_escalate:
  assumes "accept_invite now token uid a = Inr (a', Some v)"
    and "home \<in> set (ac_members a)" "mb_user home = uid" "mb_role home = Admin"
    and "mb_org home \<noteq> iv_org v"
    and "count_where (is_member (iv_org v) other) (ac_members a') = 1" "other \<noteq> uid"
  shows "\<exists>tie. api_remove_member tie uid other a' =
    (a'\<lparr>ac_members := filter (\<lambda>m. \<not> is_member (iv_org v) other m) (ac_members a')\<rparr>, Inr True)"
proof (rule accept_invite_cases [OF assms(1)])
  assume ms: "ac_members a' = upsert_member now (iv_org v) uid (iv_role v) (ac_members a)"
    and org: "org_of_user a' uid = Some (iv_org v)"
  have home: "home \<in> set (ac_members a')"
    unfolding ms using assms(2,5) by (intro upsert_keeps_others) (simp_all add: is_member_def)
  from org obtain u where u: "user_of a' uid = Some u" "us_org u = Some (iv_org v)"
    by (auto simp: org_of_user_def split: option.splits)
  from joined_role_possible [OF home assms(3) u(1)] obtain tie w
    where w: "get_user_by_id tie uid a' = Some w" "vw_user w = u" "vw_role w = Some Admin"
    using assms(4) by auto
  have "us_id u = uid" using user_of_mem [OF u(1)] by simp
  with w u assms(6,7) show ?thesis
    by (intro exI [of _ tie])
      (simp add: api_remove_member_def acting_admin_def remove_org_member_def)
qed

text \<open>
  Removing a member deletes the membership but not the user's pointer to the
  organization: the removed user goes on paying from its balance exactly as before.
\<close>

theorem removed_member_still_spends:
  assumes "remove_org_member oid uid a = (a', True)"
  shows "snd (use_credit ok uid cents a') = snd (use_credit ok uid cents a) \<and>
    balance_of (fst (use_credit ok uid cents a')) = balance_of (fst (use_credit ok uid cents a)) \<and>
    count_where (is_member oid uid) (ac_members a') = 0"
proof -
  have a': "a' = a\<lparr>ac_members := filter (\<lambda>m. \<not> is_member oid uid m) (ac_members a)\<rparr>"
    using assms by (simp add: remove_org_member_def)
  have same: "org_of_user a' = org_of_user a" "balance_of a' = balance_of a"
    by (auto simp: a' balance_of_def org_row_of_def fun_eq_iff)
  have "snd (use_credit ok uid cents a') = snd (use_credit ok uid cents a)"
    by (simp only: wallet.charge_iff_affordable same)
  moreover have "balance_of (fst (use_credit ok uid cents a')) = balance_of (fst (use_credit ok uid cents a))"
    by (cases rule: charge_org_cases [of uid cents a]; cases rule: charge_org_cases [of uid cents a'])
      (auto simp: same use_credit_def affordable_def balance_of_add_to_org fun_eq_iff)
  moreover have "count_where (is_member oid uid) (ac_members a') = 0"
    by (simp add: a' count_where_eq_0)
  ultimately show ?thesis by blast
qed

text \<open>
  The team endpoints act only for a user that the database reports as admin: for any
  other role nothing changes and the answer is 403, and an admin cannot remove or demote itself.
\<close>

theorem team_changes_need_admin:
  assumes "acting_admin tie uid a = None \<or> member = uid"
  shows "(\<exists>code status. api_remove_member tie uid member a = (a, Inl (ApiError code status))) \<and>
    (\<exists>code status. api_change_role tie uid member r a = (a, Inl (ApiError code status)))"
proof (cases "acting_admin tie uid a")
  case None
  then show ?thesis by (simp add: api_remove_member_def api_change_role_def)
next
  case (Some v)
  then have "us_id (vw_user v) = uid"
    by (auto simp: acting_admin_def get_user_by_id_def Let_def dest: user_of_mem
        split: option.splits if_splits)
  with Some assms show ?thesis by (simp add: api_remove_member_def api_change_role_def)
qed

section \<open>A concrete team\<close>

text \<open>User 9 of organization 5 is invited to organization 1 of \<open>office\<close> as a viewer.\<close>

definition bigger_office :: accounts where
  "bigger_office = office\<lparr>ac_users := ac_users office @ [(new_user 9 ''z@x'' ''Z'' [] None None)\<lparr>us_org := Some 5\<rparr>],
     ac_orgs := ac_orgs office @ [\<lparr>og_id = 5, og_name = ''Z'', og_slug = ''z'', og_bonus = 0, og_stripe = None\<rparr>],
     ac_members := \<lparr>mb_org = 5, mb_user = 9, mb_role = Admin, mb_joined = 1\<rparr> # ac_members office,
     ac_invites := [\<lparr>iv_id = 1, iv_org = 1, iv_email = ''z@x'', iv_role = Viewer, iv_token = ''tok'',
       iv_by = 1, iv_accepted = None, iv_expires = days 7, iv_created = 0\<rparr>]\<rparr>"

lemma bigger_office_accept:
  obtains a' v where "accept_invite 3 ''tok'' 9 bigger_office = Inr (a', Some v)" "iv_org v = 1"
    "iv_role v = Viewer" "ac_members a' = ac_members bigger_office @
      [\<lparr>mb_org = 1, mb_user = 9, mb_role = Viewer, mb_joined = 3\<rparr>]"
proof -
  let ?v = "hd (ac_invites bigger_office)"
  have "user_of bigger_office 9 \<noteq> None"
    by (simp add: bigger_office_def office_def user_of_def new_user_def)
  moreover have "find (\<lambda>v. iv_token v = ''tok'' \<and> pending_invite 3 v) (ac_invites bigger_office) = Some ?v"
    by (simp add: bigger_office_def pending_invite_def time_defs)
  ultimately obtain a' where acc: "accept_invite 3 ''tok'' 9 bigger_office = Inr (a', Some ?v)"
    by (auto simp: accept_invite_def)
  have v: "iv_org ?v = 1" "iv_role ?v = Viewer" by (simp_all add: bigger_office_def)
  have "find (is_member 1 9) (ac_members bigger_office) = None"
    by (simp add: bigger_office_def office_def is_member_def)
  then have "ac_members a' = ac_members bigger_office @
      [\<lparr>mb_org = 1, mb_user = 9, mb_role = Viewer, mb_joined = 3\<rparr>]"
    using v by (rule_tac accept_invite_cases [OF acc]) (simp add: upsert_member_def)
  with acc v show thesis by (rule_tac that)
qed

theorem accept_invite_once_witness:
  "\<exists>a' v. accept_invite 3 ''tok'' 9 bigger_office = Inr (a', Some v) \<and> org_of_user a' 9 = Some 1 \<and>
    accept_invite 4 ''tok'' 9 a' = Inr (a', None)"
proof (rule bigger_office_accept)
  fix a' v assume acc: "accept_invite 3 ''tok'' 9 bigger_office = Inr (a', Some v)" "iv_org v = 1"
  have "distinct (map iv_token (ac_invites bigger_office))" by (simp add: bigger_office_def)
  from accept_invite_once [OF acc(1) this, of 4 9] acc show ?thesis by auto
qed

theorem joining_can_escalate_witness:
  "\<exists>a' v tie. accept_invite 3 ''tok'' 9 bigger_office = Inr (a', Some v) \<and> iv_role v = Viewer \<and>
    snd (api_remove_member tie 9 2 a') = Inr True"
proof (rule bigger_office_accept)
  fix a' v assume acc: "accept_invite 3 ''tok'' 9 bigger_office = Inr (a', Some v)" "iv_org v = 1"
    "iv_role v = Viewer" and ms: "ac_members a' = ac_members bigger_office @
      [\<lparr>mb_org = 1, mb_user = 9, mb_role = Viewer, mb_joined = 3\<rparr>]"
  have "count_where (is_member (iv_org v) 2) (ac_members a') = 1"
    by (simp add: ms acc(2) bigger_office_def office_def is_member_def)
  with joining_can_escalate [OF acc(1), of "hd (ac_members bigger_office)" 2] acc
  have "\<exists>tie. api_remove_member tie 9 2 a' =
      (a'\<lparr>ac_members := filter (\<lambda>m. \<not> is_member (iv_org v) 2 m) (ac_members a')\<rparr>, Inr True)"
    by (simp add: bigger_office_def)
  with acc show ?thesis by (metis snd_conv)
qed

theorem removed_member_still_spends_witness:
  "\<exists>a'. remove_org_member 1 2 office = (a', True) \<and> count_where (is_member 1 2) (ac_members a') = 0 \<and>
    snd (use_credit True 2 200 a')"
proof -
  obtain a' where r: "remove_org_member 1 2 office = (a', True)"
    by (simp add: remove_org_member_def office_def is_member_def)
  have "snd (use_credit True 2 200 office)" by (simp add: wallet.charge_iff_affordable)
  with removed_member_still_spends [OF r, of True 200] r show ?thesis by blast
qed

theorem team_changes_need_admin_witness:
  "\<exists>code status. api_remove_member 0 1 1 office = (office, Inl (ApiError code status))"
  using team_changes_need_admin [of 0 1 office 1 "''viewer''"] by blast

end
