(* ===== verification/Sdk_Client.thy ===== *)
theory Sdk_Client
  imports Idempotency
begin

text \<open>
  The Python SDK (\<open>sdk/auggie/__init__.py\<close>): the retry loop of \<open>_request\<close>, the retry
  delay, the mapping of answers to exceptions, and the polling loops. The synchronous and the
  asynchronous client have the same code. The HTTP client is a parameter: a function from the state of the
  server to its next state and the answer.
\<close>

section \<open>Answers and errors\<close>

text \<open>
  \<open>rs_json\<close> is the parsed body (\<open>None\<close>: not JSON); \<open>rs_retry_after\<close> is the header as
  \<open>float\<close> reads it (\<open>None\<close>: absent, empty or not a number).
\<close>

record response =
  rs_status :: int
  rs_json :: "json option"
  rs_retry_after :: "time option"

datatype error_class = AuggieError | AuthenticationError | InsufficientCreditsError | NotFoundError
  | ConflictError | ValidationError | RateLimitError | InternalServerError | APITimeoutError

record sdk_error =
  er_class :: error_class
  er_status :: int
  er_code :: json
  er_retry_after :: "time option"

definition retry_status_codes :: "int list" where
  "retry_status_codes = [429, 500, 502, 503, 504]"

definition status_to_error :: "int \<Rightarrow> error_class" where
  "status_to_error c = (if c = 401 then AuthenticationError else if c = 402 then InsufficientCreditsError
     else if c = 404 then NotFoundError else if c = 409 then ConflictError
     else if c = 422 then ValidationError else if c = 429 then RateLimitError
     else if c \<in> {500, 502, 503} then InternalServerError else if c = 504 then APITimeoutError
     else AuggieError)"

definition error_code :: "json option \<Rightarrow> json" where
  "error_code body = (case body of
     Some (JDict d) \<Rightarrow> (case map_of d ''error'' of
        Some (JDict e) \<Rightarrow> dict_get e ''code'' | _ \<Rightarrow> JNull)
   | _ \<Rightarrow> JNull)"

definition parse_error :: "response \<Rightarrow> sdk_error" where
  "parse_error r = (let code = error_code (rs_json r);
       cls = (if rs_status r = 400 \<and> code = JStr ''validation_error'' then ValidationError
              else status_to_error (rs_status r))
     in \<lparr>er_class = cls, er_status = rs_status r, er_code = code,
         er_retry_after = (if cls = RateLimitError then rs_retry_after r else None)\<rparr>)"

section \<open>The retry loop\<close>

definition max_retry_delay :: time where
  "max_retry_delay = seconds 30"

text \<open>\<open>jitter\<close> is the draw of \<open>random.uniform(0, delay * 0.25)\<close>.\<close>

definition retry_delay :: "(time \<Rightarrow> time) \<Rightarrow> response \<Rightarrow> nat \<Rightarrow> time" where
  "retry_delay jitter r attempt = (case rs_retry_after r of
     Some t \<Rightarrow> min t max_retry_delay
   | None \<Rightarrow> (let delay = min (seconds 1 * 2 ^ attempt) max_retry_delay in delay + jitter delay))"

text \<open>
  What a call of \<open>_request\<close> gives: \<open>Raised\<close> are the exceptions of the SDK; an exception of the HTTP client
  (\<open>Unreachable\<close>: no connection, a timeout) and one of \<open>resp.json()\<close> (\<open>Undecodable\<close>) reach the caller as
  they are.
\<close>

datatype sdk_result = NoContent | Body json | Undecodable | Unreachable | Raised sdk_error

definition is_success :: "response \<Rightarrow> bool" where
  "is_success r \<longleftrightarrow> 200 \<le> rs_status r \<and> rs_status r < 300"

definition retryable :: "response \<Rightarrow> bool" where
  "retryable r \<longleftrightarrow> rs_status r \<in> set retry_status_codes"

text \<open>
  The loop over the attempts. The server answers with a response or not at all (\<open>None\<close>: the HTTP
  client raises). The result comes with the final state of the server, the pauses and what the server answered
  to each request. (The \<open>raise\<close> behind the loop is unreachable: the last attempt raises inside it.)
\<close>

record 's request_log =
  rq_state :: 's
  rq_result :: sdk_result
  rq_sleeps :: "time list"
  rq_answers :: "response option list"

fun request_loop ::
    "(time \<Rightarrow> time) \<Rightarrow> ('s \<Rightarrow> 's \<times> response option) \<Rightarrow> nat \<Rightarrow> nat \<Rightarrow> 's \<Rightarrow> time list \<Rightarrow> response option list \<Rightarrow>
     's request_log" where
  "request_loop jitter srv left attempt s sleeps answers = (case srv s of
     (s', None) \<Rightarrow>
       \<lparr>rq_state = s', rq_result = Unreachable, rq_sleeps = sleeps, rq_answers = answers @ [None]\<rparr>
   | (s', Some r) \<Rightarrow>
     (let stop = (\<lambda>x. \<lparr>rq_state = s', rq_result = x, rq_sleeps = sleeps, rq_answers = answers @ [Some r]\<rparr>) in
      if rs_status r = 204 then stop NoContent
      else if is_success r then stop (case rs_json r of None \<Rightarrow> Undecodable | Some j \<Rightarrow> Body j)
      else (case left of
        0 \<Rightarrow> stop (Raised (parse_error r))
      | Suc left' \<Rightarrow>
          if \<not> retryable r then stop (Raised (parse_error r))
          else request_loop jitter srv left' (Suc attempt) s' (sleeps @ [retry_delay jitter r attempt])
                 (answers @ [Some r]))))"

declare request_loop.simps [simp del]

definition sdk_request ::
    "(time \<Rightarrow> time) \<Rightarrow> ('s \<Rightarrow> 's \<times> response option) \<Rightarrow> nat \<Rightarrow> 's \<Rightarrow> 's request_log" where
  "sdk_request jitter srv max_retries s = request_loop jitter srv max_retries 0 s [] []"

section \<open>A POST over an unreliable path\<close>

text \<open>
  The server answers through \<open>idempotent_post\<close>, the frame of the endpoints that call \<open>check_idempotency\<close>. Before
  the k-th attempt other requests change the state of the server (\<open>other k\<close>); the path may replace the
  k-th answer by one of a gateway, or lose it (\<open>garble k\<close>), after the request has been processed. The key is chosen
  once per call of \<open>_request\<close>.
\<close>

definition post_attempt ::
    "(nat \<Rightarrow> 's \<times> idem_db \<Rightarrow> 's \<times> idem_db) \<Rightarrow> (nat \<Rightarrow> response option option) \<Rightarrow> time \<Rightarrow> string \<Rightarrow> int \<Rightarrow> 's work \<Rightarrow>
     's \<times> idem_db \<times> nat \<Rightarrow> ('s \<times> idem_db \<times> nat) \<times> response option" where
  "post_attempt other garble now key ak run = (\<lambda>(s0, d0, k). case other k (s0, d0) of (s, d) \<Rightarrow>
     case idempotent_post id now (Some key) ak run s d of (s', d', status, body) \<Rightarrow>
       ((s', d', Suc k), case garble k of Some r \<Rightarrow> r
          | None \<Rightarrow> Some \<lparr>rs_status = status, rs_json = Some body, rs_retry_after = None\<rparr>))"

section \<open>Polling\<close>

text \<open>
  \<open>research_and_poll\<close>: \<open>get n\<close> is the n-th poll, \<open>clock n\<close> the time read after it.
  \<open>None\<close> stands for a loop that never ends.
\<close>

datatype sdk_failure = ApiError sdk_error | TransportError | DecodeError

datatype poll_result = Polled json | PollTimeout | PollError sdk_failure

definition still_processing :: "json \<Rightarrow> bool" where
  "still_processing j = (case j of JDict d \<Rightarrow> dict_get d ''status'' = JStr ''processing'' | _ \<Rightarrow> False)"

partial_function (option) poll_loop ::
    "(nat \<Rightarrow> json + sdk_failure) \<Rightarrow> (nat \<Rightarrow> time) \<Rightarrow> time \<Rightarrow> nat \<Rightarrow> (poll_result \<times> nat) option" where
  "poll_loop get clock deadline n = (case get n of
     Inr e \<Rightarrow> Some (PollError e, Suc n)
   | Inl j \<Rightarrow> if \<not> still_processing j then Some (Polled j, Suc n)
       else if deadline < clock n then Some (PollTimeout, Suc n)
       else poll_loop get clock deadline (Suc n))"

text \<open>The path segment \<open>{job_id}\<close> of the poll: Python prints a missing id as \<open>None\<close>.\<close>

definition job_segment :: "json \<Rightarrow> string" where
  "job_segment j = (case j of JInt i \<Rightarrow> str_int i | JStr s \<Rightarrow> s | _ \<Rightarrow> ''None'')"

definition body_result :: "sdk_result \<Rightarrow> json + sdk_failure" where
  "body_result r = (case r of Raised e \<Rightarrow> Inr (ApiError e) | Unreachable \<Rightarrow> Inr TransportError
     | Undecodable \<Rightarrow> Inr DecodeError | NoContent \<Rightarrow> Inl (JDict []) | Body j \<Rightarrow> Inl j)"

text \<open>
  \<open>start\<close> is the answer to the POST; \<open>get seg n\<close> the n-th poll of the job named by the path
  segment.
\<close>

definition research_and_poll ::
    "json + sdk_failure \<Rightarrow> (string \<Rightarrow> nat \<Rightarrow> json + sdk_failure) \<Rightarrow> (nat \<Rightarrow> time) \<Rightarrow> time \<Rightarrow> time \<Rightarrow>
     (poll_result \<times> nat) option" where
  "research_and_poll start get clock start_time timeout = (case start of
     Inr e \<Rightarrow> Some (PollError e, 0)
   | Inl (JDict d) \<Rightarrow> poll_loop (get (job_segment (dict_get d ''job_id''))) clock (start_time + timeout) 0
   | Inl _ \<Rightarrow> None)"

section \<open>Laws\<close>

text \<open>After which answers the loop goes on, and what it returns after the last one\<close>

definition asks_again :: "response option \<Rightarrow> bool" where
  "asks_again x = (case x of None \<Rightarrow> False
     | Some r \<Rightarrow> rs_status r \<noteq> 204 \<and> \<not> is_success r \<and> retryable r)"

definition outcome :: "response option \<Rightarrow> sdk_result" where
  "outcome x = (case x of None \<Rightarrow> Unreachable
     | Some r \<Rightarrow> if rs_status r = 204 then NoContent
         else if is_success r then (case rs_json r of None \<Rightarrow> Undecodable | Some j \<Rightarrow> Body j)
         else Raised (parse_error r))"

lemma request_loop_stops:
  assumes "srv s = (s', x)" "left = 0 \<or> \<not> asks_again x"
  shows "request_loop jitter srv left attempt s sl as =
    \<lparr>rq_state = s', rq_result = outcome x, rq_sleeps = sl, rq_answers = as @ [x]\<rparr>"
  using assms by (subst request_loop.simps)
    (auto simp: asks_again_def outcome_def Let_def split: option.splits nat.splits)

lemma request_loop_goes_on:
  assumes "srv s = (s', Some r)" "asks_again (Some r)"
  shows "request_loop jitter srv (Suc left) attempt s sl as =
    request_loop jitter srv left (Suc attempt) s' (sl @ [retry_delay jitter r attempt]) (as @ [Some r])"
  using assms by (subst request_loop.simps) (simp add: asks_again_def Let_def)

lemma request_loop_log:
  "\<exists>xs x. rq_answers (request_loop jitter srv left attempt s sl as) = as @ xs @ [x] \<and> list_all asks_again xs \<and>
     length xs \<le> left \<and> (if asks_again x then length xs = left else True) \<and>
     length (rq_sleeps (request_loop jitter srv left attempt s sl as)) = length sl + length xs \<and>
     rq_result (request_loop jitter srv left attempt s sl as) = outcome x"
proof (induction left arbitrary: attempt s sl as)
  case 0
  obtain s' x where sr: "srv s = (s', x)" by fastforce
  from request_loop_stops [where srv = srv, OF sr] show ?case by (intro exI [of _ "[]"] exI [of _ x]) simp
next
  case (Suc left)
  obtain s' x where sr: "srv s = (s', x)" by fastforce
  show ?case
  proof (cases "asks_again x")
    case False
    with request_loop_stops [where srv = srv, OF sr] show ?thesis by (intro exI [of _ "[]"] exI [of _ x]) simp
  next
    case True
    then obtain r where r: "x = Some r" by (auto simp: asks_again_def split: option.splits)
    note on = request_loop_goes_on [where srv = srv, OF sr [unfolded r] True [unfolded r], of jitter left attempt sl as]
    from Suc.IH [of "Suc attempt" s' "sl @ [retry_delay jitter r attempt]" "as @ [Some r]"]
    obtain xs y where "rq_answers (request_loop jitter srv (Suc left) attempt s sl as) = (as @ [Some r]) @ xs @ [y]"
      "list_all asks_again xs" "length xs \<le> left" "if asks_again y then length xs = left else True"
      "length (rq_sleeps (request_loop jitter srv (Suc left) attempt s sl as)) = Suc (length sl) + length xs"
      "rq_result (request_loop jitter srv (Suc left) attempt s sl as) = outcome y"
      unfolding on by auto
    with True r show ?thesis by (intro exI [of _ "Some r # xs"] exI [of _ y]) auto
  qed
qed

text \<open>An invariant of the server that every request keeps holds at the end of the loop.\<close>

lemma request_loop_invariant:
  assumes "\<And>s s' r. I s \<Longrightarrow> srv s = (s', r) \<Longrightarrow> I s'" "I s"
  shows "I (rq_state (request_loop jitter srv left attempt s sl as))"
  using assms(2)
proof (induction left arbitrary: attempt s sl as)
  case 0
  obtain s' x where sr: "srv s = (s', x)" by fastforce
  have "I s'" by (rule assms(1) [OF 0 sr])
  then show ?case by (simp add: request_loop_stops [where srv = srv, OF sr])
next
  case (Suc left)
  obtain s' x where sr: "srv s = (s', x)" by fastforce
  have I: "I s'" by (rule assms(1) [OF Suc.prems sr])
  show ?case
  proof (cases "asks_again x")
    case False
    with I show ?thesis by (simp add: request_loop_stops [where srv = srv, OF sr])
  next
    case True
    then obtain r where "x = Some r" by (auto simp: asks_again_def split: option.splits)
    with Suc.IH [OF I] True sr show ?thesis by (simp add: request_loop_goes_on)
  qed
qed

lemma retry_delay_bound:
  assumes "\<And>x. 0 \<le> x \<Longrightarrow> 0 \<le> jitter x \<and> 4 * jitter x \<le> x" "\<And>t. rs_retry_after r = Some t \<Longrightarrow> 0 \<le> t"
  shows "0 \<le> retry_delay jitter r attempt \<and> 4 * retry_delay jitter r attempt \<le> 5 * max_retry_delay"
proof (cases "rs_retry_after r")
  case None
  let ?d = "min (seconds 1 * 2 ^ attempt) max_retry_delay"
  have d: "0 \<le> ?d" "?d \<le> max_retry_delay" by (simp_all add: max_retry_delay_def seconds_def)
  have "retry_delay jitter r attempt = ?d + jitter ?d" using None by (simp add: retry_delay_def Let_def)
  with assms(1) [OF d(1)] d show ?thesis by linarith
next
  case (Some t)
  with assms(2) [of t] show ?thesis
    by (simp add: retry_delay_def max_retry_delay_def seconds_def min_def)
qed

section \<open>Properties\<close>

text \<open>
  C10: A call of the SDK asks again exactly after answers with a status of its retry list, at most
  the configured number of times, pausing once between any two requests, and ends with what the last answer says: the
  parsed body of a success, nothing for 204, the exception for the status of an error, the exception of the HTTP client
  when there is no answer, the one of the decoder when a success does not carry JSON.
\<close>

theorem sdk_request_bounded:
  "\<exists>xs x. rq_answers (sdk_request jitter srv max_retries s) = xs @ [x] \<and> list_all asks_again xs \<and>
     length xs \<le> max_retries \<and> (if asks_again x then length xs = max_retries else True) \<and>
     length (rq_sleeps (sdk_request jitter srv max_retries s)) = length xs \<and>
     rq_result (sdk_request jitter srv max_retries s) = outcome x"
  using request_loop_log [of jitter srv max_retries 0 s "[]" "[]"] by (simp add: sdk_request_def)

text \<open>
  C11: A POST to an endpoint behind the idempotency guard takes effect at most once, however often the SDK
  retries it: \<open>count\<close> counts the executions of the request in the state of the server. The path may spoil or
  lose any answer, and other requests may run between the attempts as long as they leave the count and the row of the
  key alone.
\<close>

theorem retried_post_runs_once:
  assumes "key \<noteq> []" "find (is_key ak key) d = None"
    and "\<And>s. count (fst (run s)) = Suc (count s)"
    and "\<And>k s d. count (fst (other k (s, d))) = count s \<and>
      find (is_key ak key) (snd (other k (s, d))) = find (is_key ak key) d"
  shows "count (fst (rq_state (sdk_request jitter (post_attempt other garble now key ak run) max_retries (s, d, k))))
    \<in> {count s, Suc (count s)}"
proof -
  let ?I = "\<lambda>(t, e, n :: nat). (count t = count s \<and> find (is_key ak key) e = None) \<or>
      (count t \<in> {count s, Suc (count s)} \<and> find (is_key ak key) e \<noteq> None)"
  have "?I (rq_state (request_loop jitter (post_attempt other garble now key ak run) max_retries 0 (s, d, k) [] []))"
  proof (rule request_loop_invariant [where I = ?I])
    show "?I (s, d, k)" using assms(2) by simp
    fix x x' r assume I: "?I x" and step: "post_attempt other garble now key ak run x = (x', r)"
    obtain t0 e0 n where x: "x = (t0, e0, n)" by (cases x) auto
    obtain t e where o: "other n (t0, e0) = (t, e)" by fastforce
    have c: "count t = count t0" "find (is_key ak key) e = find (is_key ak key) e0"
      using assms(4) [of n t0 e0] o by simp_all
    show "?I x'"
    proof (cases "find (is_key ak key) e")
      case None
      then have t: "count t = count s" using I x c by simp
      from claim_fresh [OF None, of id now] obtain e' q where
        cl: "claim_idempotency_key id now ak key e = (e', Claimed)" "find (is_key ak key) e' = Some q"
        by blast
      obtain s' ans where run: "run t = (s', ans)" by fastforce
      have s': "count s' = Suc (count s)" using assms(3) [of t] run t by simp
      show ?thesis
      proof (cases ans)
        case (Inl a)
        obtain st b where "a = (st, b)" by fastforce
        with Inl run cl x o step assms(1) s' show ?thesis
          by (auto simp: post_attempt_def idempotent_post_def check_idempotency_def)
      next
        case (Inr a)
        obtain st b where "a = (st, b)" by fastforce
        with Inr run cl x o step assms(1) s' show ?thesis
          by (auto simp: post_attempt_def idempotent_post_def check_idempotency_def find_saved)
      qed
    next
      case (Some q)
      from claim_taken [OF Some, of now] have "x' = (t, e, Suc n)"
        using step x o assms(1) by (auto simp: post_attempt_def idempotent_post_def check_idempotency_def
            split: if_splits)
      with I x c Some show ?thesis by auto
    qed
  qed
  then show ?thesis unfolding sdk_request_def by (auto split: prod.splits)
qed

text \<open>
  When the request itself fails with a server error, the retry meets its own pending
  key: with any retries left, the caller sees a conflict (409) instead of the error that
  happened, and the request is not tried again.
\<close>

theorem server_error_becomes_conflict:
  assumes "key \<noteq> []" "find (is_key ak key) d = None" "run s = (s', Inl (500, body))" "0 < max_retries"
  shows "\<exists>d'. sdk_request jitter (post_attempt (\<lambda>n. id) (\<lambda>n. None) now key ak run) max_retries (s, d, 0) =
    \<lparr>rq_state = (s', d', 2), rq_result = Raised \<lparr>er_class = ConflictError, er_status = 409,
       er_code = JStr ''conflict'', er_retry_after = None\<rparr>,
     rq_sleeps = [retry_delay jitter \<lparr>rs_status = 500, rs_json = Some body, rs_retry_after = None\<rparr> 0],
     rq_answers = [Some \<lparr>rs_status = 500, rs_json = Some body, rs_retry_after = None\<rparr>,
       Some \<lparr>rs_status = 409, rs_json = Some in_progress_body, rs_retry_after = None\<rparr>]\<rparr>"
proof -
  from claim_fresh [OF assms(2), of id now] obtain d' q where
    cl: "claim_idempotency_key id now ak key d = (d', Claimed)" "find (is_key ak key) d' = Some q"
    "ik_status q = 0" by blast
  let ?srv = "post_attempt (\<lambda>n. id) (\<lambda>n. None) now key ak run"
  have one: "?srv (s, d, 0) = ((s', d', Suc 0), Some \<lparr>rs_status = 500, rs_json = Some body, rs_retry_after = None\<rparr>)"
    using assms cl by (simp add: post_attempt_def idempotent_post_def check_idempotency_def)
  have two: "?srv (s', d', Suc 0) = ((s', d', 2),
      Some \<lparr>rs_status = 409, rs_json = Some in_progress_body, rs_retry_after = None\<rparr>)"
    using assms claim_taken [OF cl(2), of now] cl(3)
    by (simp add: post_attempt_def idempotent_post_def check_idempotency_def)
  obtain m where m: "max_retries = Suc m" using assms(4) by (cases max_retries) simp_all
  have "asks_again (Some \<lparr>rs_status = 500, rs_json = Some body, rs_retry_after = None\<rparr>)"
    by (simp add: asks_again_def is_success_def retryable_def retry_status_codes_def)
  note on = request_loop_goes_on [where srv = ?srv, OF one this, of jitter m 0 "[]" "[]"]
  have "\<not> asks_again (Some \<lparr>rs_status = 409, rs_json = Some in_progress_body, rs_retry_after = None\<rparr>)"
    by (simp add: asks_again_def retryable_def retry_status_codes_def)
  then show ?thesis
    unfolding sdk_request_def m on
    by (subst request_loop_stops [where srv = ?srv, OF two]) (simp_all add: outcome_def is_success_def parse_error_def Let_def
        status_to_error_def error_code_def in_progress_body_def dict_get_def)
qed

text \<open>
  Polling ends: if each poll and pause together take at least one interval, a call
  stops after at most the number of intervals in the timeout plus two polls, with a settled
  job, an error or the timeout exception.
\<close>

theorem poll_terminates:
  assumes "0 < interval" "0 \<le> timeout" "\<And>n. start + int n * interval \<le> clock n"
  shows "\<exists>r m. poll_loop get clock (start + timeout) 0 = Some (r, m) \<and>
    m \<le> nat (timeout div interval) + 2"
proof -
  let ?N = "nat (timeout div interval) + 1"
  have late: "start + timeout < clock ?N"
  proof -
    have "timeout < (timeout div interval + 1) * interval"
      using assms(1) by (simp add: algebra_simps)
        (metis add.commute add_less_cancel_right minus_mult_div_eq_mod mult.commute pos_mod_bound
          diff_less_eq)
    also have "timeout div interval + 1 = int ?N"
      using assms(1,2) by (simp add: pos_imp_zdiv_nonneg_iff)
    finally show ?thesis using assms(3) [of ?N] by linarith
  qed
  have "\<exists>r m. poll_loop get clock (start + timeout) n = Some (r, m) \<and> m \<le> ?N + 1" if "n \<le> ?N" for n
    using that
  proof (induction "?N - n" arbitrary: n)
    case 0
    then have n: "n = ?N" by simp
    show ?case unfolding n by (subst poll_loop.simps) (use late in \<open>auto split: sum.split\<close>)
  next
    case (Suc k)
    then have n: "n < ?N" by simp
    have "k = ?N - Suc n" "Suc n \<le> ?N" using Suc.hyps(2) n by simp_all
    from Suc.hyps(1) [OF this] obtain r m where
      r: "poll_loop get clock (start + timeout) (Suc n) = Some (r, m)" "m \<le> ?N + 1" by blast
    show ?case
      by (subst poll_loop.simps) (use r n in \<open>auto split: sum.split\<close>)
  qed
  from this [of 0] show ?thesis by simp
qed

text \<open>
  Waiting for a company that was researched in the last day fails: the answer to the
  POST carries no job identifier, the SDK asks for the job "None", and the call ends in a validation error
  although the result exists. (The path parameter of the endpoint is an integer: other segments
  are answered with 422.)
\<close>

theorem poll_of_cached_result_fails:
  assumes "\<And>seg n. py_int seg = None \<Longrightarrow>
      get seg n = Inr (ApiError (parse_error \<lparr>rs_status = 422, rs_json = Some detail, rs_retry_after = None\<rparr>))"
    and "dict_get d ''job_id'' = JNull"
  shows "\<exists>e. research_and_poll (Inl (JDict d)) get clock t timeout = Some (PollError (ApiError e), 1) \<and>
    er_class e = ValidationError \<and> er_status e = 422"
proof -
  have "py_int ''None'' = None"
    by (simp add: py_int_def py_strip_def is_space_def parse_nat_def digit_value_def)
  from assms(1) [OF this] show ?thesis
    by (simp add: research_and_poll_def assms(2) job_segment_def)
      (subst poll_loop.simps, simp add: parse_error_def Let_def status_to_error_def)
qed

section \<open>Concrete calls\<close>

text \<open>Two answers are lost to a gateway while other requests extend a log beside the counter.\<close>

theorem retried_post_runs_once_witness:
  "fst (fst (rq_state (sdk_request (\<lambda>x. 0) (post_attempt (\<lambda>n ((c, l), d). ((c, n # l), d))
      (\<lambda>n. if n < 2 then Some (Some \<lparr>rs_status = 502, rs_json = None, rs_retry_after = None\<rparr>) else None)
      5 ''k'' 3 (\<lambda>(c, l). ((Suc c, l), Inr (202, JNull)))) 3 ((7, []), [], 0)))) \<in> {7, 8}"
  using retried_post_runs_once [of "''k''" 3 "[]" fst "\<lambda>(c, l). ((Suc c, l), Inr (202, JNull))"
      "\<lambda>n ((c, l), d). ((c, n # l), d)" "\<lambda>x. 0"
      "\<lambda>n. if n < 2 then Some (Some \<lparr>rs_status = 502, rs_json = None, rs_retry_after = None\<rparr>) else None"
      5 3 "(7, [])" 0] by (simp add: split_def)

theorem server_error_becomes_conflict_witness:
  "\<exists>d' sl as. sdk_request (\<lambda>x. 0) (post_attempt (\<lambda>n. id) (\<lambda>n. None) 5 ''k'' 3
      (\<lambda>n. (n, Inl (500, JNull)))) 3 (7::int, [], 0) =
    \<lparr>rq_state = (7, d', 2), rq_result = Raised \<lparr>er_class = ConflictError, er_status = 409,
       er_code = JStr ''conflict'', er_retry_after = None\<rparr>, rq_sleeps = sl, rq_answers = as\<rparr>"
  using server_error_becomes_conflict [of "''k''" 3 "[]" "\<lambda>n::int. (n, Inl (500, JNull))" 7 7 JNull
      3 "\<lambda>x. 0" 5] by auto

theorem poll_terminates_witness:
  "\<exists>r m. poll_loop (\<lambda>n. Inl (JDict [(''status'', JStr ''processing'')])) (\<lambda>n. int n * 5) (0 + 300) 0 =
     Some (r, m) \<and> m \<le> nat (300 div 5) + 2"
  by (rule poll_terminates) simp_all

theorem poll_of_cached_result_fails_witness:
  "\<exists>e. research_and_poll (Inl (JDict [(''job_id'', JNull), (''status'', JStr ''completed'')]))
      (\<lambda>seg n. if py_int seg = None
         then Inr (ApiError (parse_error \<lparr>rs_status = 422, rs_json = Some JNull, rs_retry_after = None\<rparr>))
         else Inl JNull) (\<lambda>n. 0) 0 300 = Some (PollError (ApiError e), 1) \<and>
    er_class e = ValidationError \<and> er_status e = 422"
  by (rule poll_of_cached_result_fails [where detail = JNull]) (simp_all add: dict_get_def)

end
