(* ===== verification/Pain_Rules.thy ===== *)
theory Pain_Rules
  imports Py_Strings "HOL-Library.List_Lexorder" "HOL-Library.Char_ord"
begin

text \<open>
  The keyword tables of \<open>services/pain_inference.py\<close>. Dictionaries are association lists in
  source order, sets are lists.
\<close>

section \<open>Seller categories\<close>

definition seller_keywords :: "(string \<times> string list) list" where
  "seller_keywords = [
     (''database'', [
       ''database'', ''db '', ''data warehouse'', ''data lake'', ''sql'', ''nosql'',
       ''mongodb'', ''postgres'', ''postgresql'', ''mysql'', ''redis'', ''dynamodb'',
       ''cassandra'', ''cockroachdb'', ''data platform'', ''data infrastructure'',
       ''vector database'', ''graph database'', ''time-series'', ''olap'', ''oltp'']),
     (''fintech'', [
       ''payments'', ''banking'', ''lending'', ''kyc'', ''aml'', ''billing platform'',
       ''payment processing'', ''financial services'', ''neobank'', ''fintech'',
       ''transaction'', ''pci'', ''card issuing'', ''underwriting'', ''regtech'']),
     (''healthtech'', [
       ''healthcare'', ''ehr'', ''telehealth'', ''hipaa'', ''clinical'', ''patient'',
       ''health tech'', ''healthtech'', ''medical device'', ''digital health'',
       ''electronic health record'', ''health information'', ''care coordination'']),
     (''martech'', [
       ''marketing automation'', ''cdp'', ''attribution'', ''personalization'',
       ''customer data platform'', ''campaign management'', ''martech'',
       ''marketing platform'', ''email marketing'', ''lead scoring'', ''marketing analytics'',
       ''demand generation'']),
     (''devtools'', [
       ''developer tools'', ''ci/cd'', ''observability'', ''apm'', ''kubernetes'',
       ''devtools'', ''developer experience'', ''build system'', ''deployment'',
       ''infrastructure as code'', ''monitoring'', ''logging'', ''container'',
       ''developer platform'']),
     (''cloud'', [
       ''cloud migration'', ''cloud modernization'', ''aws'', ''amazon web services'',
       ''azure'', ''gcp'', ''google cloud'', ''landing zone'', ''well-architected'',
       ''finops'', ''platform engineering'', ''multi-account'', ''eks'']),
     (''security'', [
       ''cybersecurity'', ''security'', ''siem'', ''soar'', ''zero trust'', ''identity'',
       ''access management'', ''threat detection'', ''vulnerability'', ''penetration'',
       ''endpoint protection'', ''soc '', ''security operations'', ''encryption'']),
     (''hrtech'', [
       ''hris'', ''human resources'', ''payroll'', ''talent management'', ''recruiting'',
       ''applicant tracking'', ''workforce'', ''employee engagement'', ''hr tech'',
       ''people analytics'', ''benefits administration'', ''onboarding platform'']),
     (''legaltech'', [
       ''legal tech'', ''contract management'', ''clm'', ''ediscovery'', ''legal ops'',
       ''compliance management'', ''legal automation'', ''case management'',
       ''document review'', ''legal workflow'']),
     (''ecommerce'', [
       ''ecommerce'', ''e-commerce'', ''shopping cart'', ''checkout'', ''product catalog'',
       ''order management'', ''inventory management'', ''marketplace'', ''storefront'',
       ''commerce platform'', ''fulfillment'', ''dropship'']),
     (''constructiontech'', [
       ''construction'', ''building information'', ''bim'', ''project management'',
       ''field service'', ''jobsite'', ''subcontractor'', ''estimating'',
       ''construction management'', ''blueprints'', ''takeoff'']),
     (''edtech'', [
       ''education'', ''lms'', ''learning management'', ''edtech'', ''courseware'',
       ''student'', ''curriculum'', ''e-learning'', ''training platform'',
       ''instructional design'', ''classroom'']),
     (''proptech'', [
       ''real estate'', ''property management'', ''proptech'', ''lease'', ''tenant'',
       ''building management'', ''smart building'', ''real estate technology'', ''mls'',
       ''property listing'']),
     (''insurtech'', [
       ''insurance'', ''insurtech'', ''underwriting'', ''claims management'', ''actuarial'',
       ''policy management'', ''insurance platform'', ''risk assessment'',
       ''insurance automation'']),
     (''supplychain'', [
       ''supply chain'', ''logistics'', ''freight'', ''warehouse management'',
       ''transportation management'', ''fleet'', ''last mile'', ''procurement'',
       ''supply chain visibility'', ''inventory optimization'']),
     (''govtech'', [
       ''government'', ''govtech'', ''civic tech'', ''public sector'', ''fedramp'',
       ''government contracting'', ''municipal'', ''citizen services'',
       ''government procurement'', ''public safety''])]"

definition frontend_denylist :: "string list" where
  "frontend_denylist = [
     ''frontend_frameworks'', ''cdn_delivery'', ''css_tooling'', ''marketing_tags'']"

definition linkage_terms :: "(string \<times> string list) list" where
  "linkage_terms = [
     (''database'', [
       ''database bottleneck'', ''db bottleneck'', ''query performance'', ''api latency'',
       ''data pipeline'', ''backend performance'', ''read replica'', ''write throughput'',
       ''connection pool'', ''slow queries'', ''index'', ''migration'', ''data-intensive'']),
     (''fintech'', [
       ''payment flow'', ''transaction'', ''pci'', ''financial data'', ''billing integration'',
       ''payment processing'', ''ledger'']),
     (''healthtech'', [
       ''patient data'', ''ehr integration'', ''clinical workflow'', ''hipaa'',
       ''health record'', ''care coordination'', ''telehealth'']),
     (''martech'', [
       ''customer data'', ''campaign performance'', ''lead scoring'', ''marketing analytics'',
       ''attribution'', ''conversion'']),
     (''devtools'', [
       ''developer experience'', ''build time'', ''pipeline'', ''infrastructure'',
       ''deployment velocity'', ''developer productivity'']),
     (''cloud'', [
       ''cloud migration'', ''landing zone'', ''well-architected'', ''multi-account'',
       ''cost optimization'', ''finops'', ''platform engineering'', ''eks'', ''kubernetes'',
       ''observability'', ''infrastructure modernization''])]"

definition rule_families :: "(string \<times> string list) list" where
  "rule_families = [
     (''frontend_performance_debt'', [
       ''frontend_frameworks'']),
     (''identity_fragmentation'', [
       ''marketing_tags'']),
     (''tag_bloat'', [
       ''marketing_tags'']),
     (''marketing_product_mismatch'', [
       ''frontend_frameworks'']),
     (''marketing_infra_debt'', [
       ''marketing_tags'']),
     (''data_infra_pain'', [
       ''data_infra'']),
     (''database_scaling_pressure'', [
       ''data_infra''])]"

definition category_denylists :: "(string \<times> string list) list" where
  "category_denylists = [
     (''database'', [
       ''frontend_frameworks'', ''cdn_delivery'', ''css_tooling'', ''marketing_tags'']),
     (''cloud'', [
       ''frontend_frameworks'', ''marketing_tags'']),
     (''fintech'', [
       ''frontend_frameworks'', ''cdn_delivery'', ''marketing_tags'']),
     (''healthtech'', [
       ''frontend_frameworks'', ''cdn_delivery'', ''marketing_tags'']),
     (''martech'', [
       ''devops_infra'', ''security_scanning'']),
     (''devtools'', [
       ''marketing_tags'', ''crm_sales'']),
     (''security'', [
       ''frontend_frameworks'', ''cdn_delivery'', ''marketing_tags'', ''data_infra''])]"

section \<open>Engine tables\<close>

definition meta_framework_pairs :: "string list list" where
  "meta_framework_pairs = [[''Next.js'', ''React''], [''Nuxt.js'', ''Vue.js''], [''Nuxt'', ''Vue''], [''Next.js'', ''React.js''], [''SvelteKit'', ''Svelte'']]"

definition apm_names :: "string list" where
  "apm_names = [
     ''datadog'', ''new relic'', ''sentry'', ''pagerduty'', ''grafana'', ''prometheus'',
     ''splunk'', ''dynatrace'', ''appdynamics'', ''honeycomb'', ''lightstep'', ''elastic apm'',
     ''chronosphere'', ''signalfx'', ''opentelemetry'', ''jaeger'', ''zipkin'', ''elk'',
     ''kibana'', ''logstash'', ''fluentd'', ''loki'', ''tempo'']"

definition database_names :: "string list" where
  "database_names = [
     ''postgresql'', ''mysql'', ''mongodb'', ''mariadb'', ''cockroachdb'', ''sqlite'',
     ''dynamodb'', ''cassandra'']"

definition cache_names :: "string list" where
  "cache_names = [
     ''redis'', ''memcached'', ''varnish'', ''hazelcast'']"

definition pain_keywords :: "(string \<times> string list) list" where
  "pain_keywords = [
     (''security'', [
       ''security'', ''compliance'', ''soc2'', ''gdpr'', ''vulnerability'', ''firewall'',
       ''identity'', ''auth'', ''zero trust'', ''siem'', ''threat'', ''encryption'',
       ''pentest'']),
     (''engineering'', [
       ''developer'', ''engineering'', ''devops'', ''ci/cd'', ''deployment'', ''code'',
       ''api'', ''platform'', ''infrastructure'', ''scaling'', ''performance'', ''database'',
       ''backend'', ''frontend'', ''sdk'']),
     (''operations'', [
       ''operations'', ''cloud'', ''monitoring'', ''observability'', ''itsm'', ''helpdesk'',
       ''ticketing'', ''asset'', ''network'', ''incident'', ''uptime'']),
     (''marketing'', [
       ''marketing'', ''analytics'', ''cdp'', ''attribution'', ''tracking'', ''advertising'',
       ''seo'', ''crm'', ''customer data'', ''personalization'', ''campaign'']),
     (''data'', [
       ''data'', ''warehouse'', ''etl'', ''pipeline'', ''bi'', ''machine learning'', ''ml'',
       ''lakehouse'', ''dbt'', ''snowflake'', ''databricks'', ''ai''])]"

definition auth_provider_names :: "string list" where
  "auth_provider_names = [
     ''auth0'', ''okta'', ''firebase auth'', ''cognito'', ''clerk'', ''onelogin'',
     ''ping identity'', ''azure ad'', ''keycloak'']"

definition seller_boosts :: "(string \<times> string list) list" where
  "seller_boosts = [
     (''database'', [
       ''database_scaling_pressure'', ''data_infra_pain'', ''scaling_pressure'', ''tech_debt'']),
     (''cloud'', [
       ''multi_cloud'', ''vendor_lock_in'', ''scaling_pressure'',
       ''cloud_program_capacity_gap'', ''transformation_hiring_cluster'',
       ''partner_delivery_motion'', ''observability_gap'', ''observability_stack_detected'']),
     (''fintech'', [
       ''compliance_gap'', ''security_gap'', ''cert_gap'']),
     (''healthtech'', [
       ''compliance_gap'', ''security_gap'']),
     (''martech'', [
       ''identity_fragmentation'', ''tag_bloat'', ''marketing_product_mismatch'']),
     (''devtools'', [
       ''observability_gap'', ''observability_stack_detected'', ''tool_sprawl'',
       ''scaling_pressure'', ''tech_debt''])]"

text \<open>
  The rules of the pain inference engine (\<open>PainInferenceEngine\<close> in
  \<open>services/pain_inference.py\<close>): the collected signals (\<open>SignalBundle\<close> and its parts in
  \<open>models.py\<close>) and one definition per rule. Dictionaries are association lists in insertion order.
  \<open>sorted(set)\<close> is \<open>sort_set\<close>.
\<close>

section \<open>Signals\<close>

record tech =
  tc_name :: string
  tc_category :: "string option"
  tc_version :: "string option"
  tc_confidence :: "int option"

text \<open>A \<open>TechStack\<close> object, or the plain dictionary older callers pass\<close>

datatype stack = ModelStack "tech list" | DictStack "tech list"

record infra =
  in_ns :: "string option"
  in_mx :: "string option"
  in_clouds :: "string list"
  in_ssl_issuer :: "string option"
  in_ssl_days :: "int option"
  in_ssl_auto :: bool
  in_score :: int
  in_missing :: "string list"
  in_grade :: string

record jobs =
  js_mentions :: "(string \<times> string) list"
  js_roles :: "string list"
  js_seniority :: "(string \<times> int) list"
  js_initiatives :: "string list"
  js_delivery :: "string list"
  js_capacity :: "string list"
  js_gaps :: "string list"
  js_total :: int

record signals =
  bd_techs :: "(string \<times> stack) list"
  bd_infra :: "infra option"
  bd_jobs :: "jobs option"

record pain =
  pn_rule :: string
  pn_title :: string
  pn_description :: string
  pn_severity :: string
  pn_evidence :: "string list"
  pn_confidence :: int
  pn_category :: string

definition PainInference ::
    "string \<Rightarrow> string \<Rightarrow> string \<Rightarrow> string \<Rightarrow> string list \<Rightarrow> int \<Rightarrow> string \<Rightarrow> pain" where
  "PainInference rule title description severity evidence confidence category = \<lparr>pn_rule = rule,
     pn_title = title, pn_description = description, pn_severity = severity, pn_evidence = evidence,
     pn_confidence = confidence, pn_category = category\<rparr>"

section \<open>Helpers\<close>

definition stack_techs :: "stack \<Rightarrow> tech list" where
  "stack_techs s = (case s of ModelStack ts \<Rightarrow> ts | DictStack ts \<Rightarrow> ts)"

definition model_techs :: "stack \<Rightarrow> tech list" where
  "model_techs s = (case s of ModelStack ts \<Rightarrow> ts | DictStack ts \<Rightarrow> [])"

definition category_lower :: "tech \<Rightarrow> string" where
  "category_lower t = py_lower (coalesce (tc_category t) [])"

definition name_cat :: "tech \<Rightarrow> string \<times> string" where
  "name_cat t = (tc_name t, category_lower t)"

definition all_techs :: "signals \<Rightarrow> (string \<times> string) list" where
  "all_techs b = concat (map (\<lambda>(d, s). map name_cat (stack_techs s)) (bd_techs b))"

definition tech_names_by_domain :: "signals \<Rightarrow> (string \<times> string list) list" where
  "tech_names_by_domain b = map (\<lambda>(d, s). (d, map tc_name (stack_techs s))) (bd_techs b)"

definition any_in :: "string list \<Rightarrow> string \<Rightarrow> bool" where
  "any_in ks s \<longleftrightarrow> list_ex (\<lambda>k. py_in k s) ks"

definition sort_set :: "string list \<Rightarrow> string list" where
  "sort_set xs = sort (dedup xs)"

abbreviation comma :: "string list \<Rightarrow> string" where
  "comma xs \<equiv> py_join '', '' xs"

definition names_lower :: "signals \<Rightarrow> string list" where
  "names_lower b = map (\<lambda>(n, c). py_lower n) (all_techs b)"

definition app_prefixes :: "string list" where
  "app_prefixes = [''app.'', ''dashboard.'', ''portal.'', ''console.'', ''platform.'', ''my.'', ''admin.'', ''web.'']"

definition product_domain :: "string \<Rightarrow> bool" where
  "product_domain d \<longleftrightarrow> list_ex (startswith d) app_prefixes"

section \<open>The rules\<close>

definition identity_fragmentation :: "signals \<Rightarrow> pain option" where
  "identity_fragmentation b =
     (let techs = all_techs b;
          analytics = map fst (filter (\<lambda>(n, c). any_in [''analytics'', ''tag manager'', ''advertising''] c) techs);
          cdps = filter (\<lambda>(n, c). any_in [''cdp'', ''customer data''] c) techs
      in if 3 \<le> length analytics \<and> cdps = [] then Some (PainInference ''identity_fragmentation''
           ''Identity Fragmentation''
           ''Multiple analytics/tracking tools detected without a CDP, suggesting fragmented customer identity.''
           ''high''
           [''Detected '' @ str_nat (length analytics) @ '' analytics/tracking tools: '' @ comma (take 5 analytics),
            ''No CDP detected''] 75 ''marketing'')
         else None)"

text \<open>\<open>int(t.version.split(".")[0]) < 8\<close>, with errors ignored\<close>

definition old_php :: "tech \<Rightarrow> bool" where
  "old_php t \<longleftrightarrow> py_lower (tc_name t) = ''php'' \<and> (case tc_version t of
     None \<Rightarrow> False
   | Some v \<Rightarrow> v \<noteq> [] \<and> (case py_int (hd (py_split v ''.'')) of None \<Rightarrow> False | Some m \<Rightarrow> m < 8))"

definition tech_debt :: "signals \<Rightarrow> pain option" where
  "tech_debt b =
     (let techs = all_techs b;
          names = names_lower b;
          eol = (if ''angularjs'' \<in> set names then [''AngularJS''] else []) @
            (if ''jquery ui'' \<in> set names then [''jQuery UI''] else []) @
            concat (map (\<lambda>(d, s). map (\<lambda>t. ''PHP '' @ coalesce (tc_version t) [])
              (filter old_php (model_techs s))) (bd_techs b));
          modern = list_ex (\<lambda>(n, c). py_lower n \<in> {''react'', ''vue'', ''angular'', ''svelte'', ''next.js''}) techs
      in if eol \<noteq> [] \<and> modern then Some (PainInference ''tech_debt'' ''Tech Debt Tension''
           ''End-of-life technology coexists with modern frontend, indicating migration pressure.'' ''medium''
           [''EOL tech: '' @ comma eol, ''Modern frontend also detected''] 65 ''engineering'')
         else None)"

definition security_gap :: "signals \<Rightarrow> pain option" where
  "security_gap b = (case bd_infra b of
     None \<Rightarrow> None
   | Some i \<Rightarrow> if in_score i \<le> 2 then Some (PainInference ''security_gap'' ''Security Posture Gap''
         ''Weak security headers signal broad security underinvestment.'' ''high''
         [''Security header score: '' @ str_int (in_score i) @ ''/6 (grade '' @ in_grade i @ '')'',
          ''Missing headers: '' @ comma (take 3 (in_missing i))] 75 ''security'')
       else None)"

definition cloud_hints :: "signals \<Rightarrow> string list" where
  "cloud_hints b = (case bd_infra b of None \<Rightarrow> [] | Some i \<Rightarrow> in_clouds i)"

definition scaling_pressure :: "signals \<Rightarrow> pain option" where
  "scaling_pressure b = (case bd_jobs b of
     None \<Rightarrow> None
   | Some js \<Rightarrow>
       let roles = filter (\<lambda>r. r \<in> {''devops'', ''security''}) (js_roles js); hints = cloud_hints b
       in if roles \<noteq> [] \<and> length (dedup hints) \<le> 1 then Some (PainInference ''scaling_pressure'' ''Scaling Pressure''
            ''DevOps/SRE hiring signals combined with single cloud provider suggest scaling challenges.'' ''medium''
            [''DevOps-related roles detected: '' @ comma roles,
             ''Cloud hints: '' @ (if comma hints \<noteq> [] then comma hints else ''single/unknown'')] 55 ''engineering'')
          else None)"

definition cloud_of_name :: "string \<Rightarrow> string list" where
  "cloud_of_name nl = (if any_in [''aws'', ''amazon''] nl then [''AWS'']
     else if py_in ''azure'' nl then [''Azure'']
     else if any_in [''gcp'', ''google cloud''] nl then [''GCP''] else [])"

definition multi_cloud :: "signals \<Rightarrow> pain option" where
  "multi_cloud b =
     (let clouds = sort_set (cloud_hints b @ concat (map cloud_of_name (names_lower b)))
      in if 2 \<le> length clouds then Some (PainInference ''multi_cloud'' ''Multi-Cloud Complexity''
           ''Multiple cloud providers detected, indicating potential complexity and cost management challenges.''
           ''medium'' [''Cloud providers: '' @ comma clouds] 60 ''operations'')
         else None)"

definition cert_gap :: "signals \<Rightarrow> pain option" where
  "cert_gap b = (case bd_infra b of
     None \<Rightarrow> None
   | Some i \<Rightarrow> (case in_ssl_days i of
       None \<Rightarrow> None
     | Some n \<Rightarrow> if n < 30 \<and> \<not> in_ssl_auto i then Some (PainInference ''cert_gap'' ''Certificate Expiry Risk''
           ''SSL certificate expiring soon without automated renewal detected.'' ''high''
           [''Certificate expires in '' @ str_int n @ '' days'',
            ''Issuer: '' @ (case in_ssl_issuer i of None \<Rightarrow> ''unknown'' | Some s \<Rightarrow> if s = [] then ''unknown'' else s),
            ''No automation (e.g. Let's Encrypt) detected''] 85 ''security'')
         else None))"

definition frameworks_of :: "(string \<times> string) list \<Rightarrow> string list" where
  "frameworks_of techs = map fst (filter (\<lambda>(n, c). any_in [''framework'', ''javascript''] c) techs)"

definition domain_frameworks :: "(string \<Rightarrow> bool) \<Rightarrow> signals \<Rightarrow> string list" where
  "domain_frameworks P b = concat (map (\<lambda>(d, s). frameworks_of (map name_cat (stack_techs s)))
     (filter (\<lambda>(d, s). P d) (bd_techs b)))"

definition marketing_product_mismatch :: "signals \<Rightarrow> pain option" where
  "marketing_product_mismatch b =
     (let app = sort_set (domain_frameworks product_domain b);
          main = sort_set (domain_frameworks (\<lambda>d. \<not> product_domain d) b)
      in if app \<noteq> [] \<and> main \<noteq> [] \<and> set app \<inter> set main = {} then Some (PainInference ''marketing_product_mismatch''
           ''Marketing/Product Tech Mismatch''
           ''Different frameworks on marketing site vs product app, suggesting separate teams or tech debt.''
           ''low'' [''Product frameworks: '' @ comma app, ''Marketing frameworks: '' @ comma main] 45 ''marketing'')
         else None)"

definition data_infra_pain :: "signals \<Rightarrow> pain option" where
  "data_infra_pain b = (case bd_jobs b of
     None \<Rightarrow> None
   | Some js \<Rightarrow> if 1 \<le> length (filter (\<lambda>r. r = ''data'') (js_roles js)) then Some (PainInference ''data_infra_pain''
         ''Data Infrastructure Growth Pain''
         ''Multiple data-related roles signal growing data infrastructure needs.'' ''medium''
         [''Data role types: '' @ comma (js_roles js), ''Total roles parsed: '' @ str_int (js_total js)] 50 ''data'')
       else None)"

definition partner_delivery_motion :: "signals \<Rightarrow> pain option" where
  "partner_delivery_motion b = (case bd_jobs b of
     None \<Rightarrow> None
   | Some js \<Rightarrow> if js_delivery js = [] then None else Some (PainInference ''partner_delivery_motion''
       ''Partner-Friendly Delivery Motion''
       ''Job language references partners, consultants, or external delivery models, which usually makes outside services easier to attach.''
       ''medium'' (take 3 (js_delivery js)) 60 ''operations''))"

definition gap_evidence :: "jobs \<Rightarrow> string list \<Rightarrow> string list \<Rightarrow> string list" where
  "gap_evidence js gaps marks = take 2 gaps @ (if js_initiatives js = [] then []
     else [''Initiatives: '' @ comma (filter (any_in marks) (js_initiatives js))])"

definition cloud_program_capacity_gap :: "signals \<Rightarrow> pain option" where
  "cloud_program_capacity_gap b = (case bd_jobs b of
     None \<Rightarrow> None
   | Some js \<Rightarrow>
       let gaps = filter (any_in [''Cloud migration / modernization'', ''Platform engineering buildout'']) (js_gaps js)
       in if gaps = [] then None else Some (PainInference ''cloud_program_capacity_gap'' ''Cloud Program Capacity Gap''
            ''Cloud or platform transformation language appears without a matching internal delivery bench, suggesting a strong opening for external implementation help.''
            ''high'' (gap_evidence js gaps [''Cloud'', ''Platform'']) 70 ''operations''))"

definition data_program_capacity_gap :: "signals \<Rightarrow> pain option" where
  "data_program_capacity_gap b = (case bd_jobs b of
     None \<Rightarrow> None
   | Some js \<Rightarrow>
       let gaps = filter (any_in [''Data platform / analytics buildout'', ''AI / ML rollout'']) (js_gaps js)
       in if gaps = [] then None else Some (PainInference ''data_program_capacity_gap'' ''Data Program Capacity Gap''
            ''Data or AI initiative language appears without dedicated in-house hiring, suggesting execution capacity is thin.''
            ''high'' (gap_evidence js gaps [''Data platform'', ''AI / ML'']) 70 ''data''))"

definition target_initiatives :: "string list" where
  "target_initiatives = [''Cloud migration / modernization'', ''Platform engineering buildout'',
     ''Data platform / analytics buildout'', ''AI / ML rollout'', ''Quality engineering / test automation'']"

definition initiative_category :: "string list \<Rightarrow> string" where
  "initiative_category targets =
     (if list_ex (\<lambda>i. i \<in> {''Data platform / analytics buildout'', ''AI / ML rollout''}) targets then ''data''
      else if list_ex (\<lambda>i. i \<in> {''Cloud migration / modernization'', ''Platform engineering buildout''}) targets
      then ''operations'' else ''engineering'')"

definition transformation_hiring_cluster :: "signals \<Rightarrow> pain option" where
  "transformation_hiring_cluster b = (case bd_jobs b of
     None \<Rightarrow> None
   | Some js \<Rightarrow>
       if js_initiatives js = [] then None
       else (case find (\<lambda>s. startswith s ''Coordinated specialist hiring'') (js_capacity js) of
         None \<Rightarrow> None
       | Some cluster \<Rightarrow>
           let targets = filter (\<lambda>i. i \<in> set target_initiatives) (js_initiatives js)
           in if cluster = [] \<or> targets = [] then None else Some (PainInference ''transformation_hiring_cluster''
                ''Transformation Hiring Cluster''
                ''The hiring pattern points to an active transformation program that is likely to strain internal delivery bandwidth.''
                ''medium'' [cluster, ''Initiatives: '' @ comma targets] 60 (initiative_category targets))))"

definition tag_bloat :: "signals \<Rightarrow> pain option" where
  "tag_bloat b =
     (let tags = map fst (filter (\<lambda>(n, c). any_in [''analytics'', ''advertising'', ''tag manager''] c) (all_techs b))
      in if 6 \<le> length tags then Some (PainInference ''tag_bloat'' ''Tag/Analytics Bloat''
           ''High number of analytics/advertising/tag-manager tools detected, indicating potential performance and governance issues.''
           ''medium''
           [''Detected '' @ str_nat (length tags) @ '' analytics/ad/tag tools: '' @ comma (take 8 tags)] 60 ''marketing'')
         else None)"

text \<open>
  \<open>vendor_sources.setdefault(vendor, set()).add(source)\<close>: the sightings of vendors in the order
  they are made
\<close>

definition infra_vendors :: "(string \<times> string list) list" where
  "infra_vendors = [(''AWS'', [''aws'', ''amazon'']), (''Azure'', [''azure'', ''microsoft'']), (''GCP'', [''gcp'', ''google''])]"

definition tech_vendors :: "(string \<times> string list) list" where
  "tech_vendors = [(''AWS'', [''aws'', ''amazon'']), (''Azure'', [''azure'']), (''GCP'', [''gcp'', ''google cloud''])]"

definition provider_hit :: "string option \<Rightarrow> string list \<Rightarrow> bool" where
  "provider_hit p ks = (case p of None \<Rightarrow> False | Some s \<Rightarrow> s \<noteq> [] \<and> any_in ks (py_lower s))"

definition vendor_sightings :: "signals \<Rightarrow> (string \<times> string) list" where
  "vendor_sightings b =
     (case bd_infra b of None \<Rightarrow> [] | Some i \<Rightarrow> concat (map (\<lambda>(v, ks).
        (if provider_hit (in_ns i) ks then [(v, ''DNS NS'')] else []) @
        (if provider_hit (in_mx i) ks then [(v, ''Email'')] else [])) infra_vendors)) @
     concat (map (\<lambda>(n, c). concat (map (\<lambda>(v, ks). if any_in ks (py_lower n)
        then [(v, if py_in ''cdn'' c then ''CDN'' else ''Tech stack'')] else []) tech_vendors)) (all_techs b))"

definition sources_of :: "(string \<times> string) list \<Rightarrow> string \<Rightarrow> string list" where
  "sources_of sightings v = sort_set (map snd (filter (\<lambda>(v', s). v' = v) sightings))"

definition vendor_lock_in :: "signals \<Rightarrow> pain option" where
  "vendor_lock_in b =
     (let seen = vendor_sightings b
      in case find (\<lambda>v. 3 \<le> length (sources_of seen v)) (dedup (map fst seen)) of
           None \<Rightarrow> None
         | Some v \<Rightarrow> Some (PainInference ''vendor_lock_in'' ''Vendor Lock-In Risk''
             (''Single cloud vendor ('' @ v @ '') appears across multiple signal sources, suggesting deep lock-in.'')
             ''medium'' [v @ '' detected in: '' @ comma (sources_of seen v)] 55 ''operations''))"

definition security_signal :: "jobs \<Rightarrow> bool" where
  "security_signal js \<longleftrightarrow> ''security'' \<in> set (js_roles js) \<or>
     list_ex (\<lambda>(n, c). py_lower n \<in> {''hipaa'', ''soc2'', ''soc 2'', ''pci'', ''gdpr'', ''compliance'', ''fedramp''} \<or>
       c = ''security'') (js_mentions js)"

definition compliance_gap :: "signals \<Rightarrow> pain option" where
  "compliance_gap b = (case bd_infra b of
     None \<Rightarrow> None
   | Some i \<Rightarrow> if in_score i > 2 then None else (case bd_jobs b of
       None \<Rightarrow> None
     | Some js \<Rightarrow> if \<not> security_signal js then None else Some (PainInference ''compliance_gap'' ''Compliance Gap''
           ''Weak security posture combined with security hiring signals suggests compliance exposure.'' ''high''
           [''Security header grade: '' @ in_grade i @ '' ('' @ str_int (in_score i) @ ''/6)'',
            ''Security-related hiring signals detected''] 70 ''security'')))"

definition frontend_performance_debt :: "signals \<Rightarrow> pain option" where
  "frontend_performance_debt b =
     (let frameworks = sort_set (frameworks_of (all_techs b));
          has_cdn = list_ex (\<lambda>(n, c). py_in ''cdn'' c) (all_techs b)
      in if 2 \<le> length frameworks \<and> \<not> has_cdn then
           (if length frameworks = 2 \<and> list_ex (\<lambda>p. set frameworks = set p) meta_framework_pairs then None
            else Some (PainInference ''frontend_performance_debt'' ''Frontend Performance Debt''
              ''Multiple JS frameworks without a CDN suggests frontend performance and bundle size issues.''
              ''medium'' [''Frameworks: '' @ comma frameworks, ''No CDN detected''] 50 ''engineering''))
         else None)"

text \<open>The \<open>repr\<close> of a dictionary with plain keys\<close>

definition show_counts :: "(string \<times> int) list \<Rightarrow> string" where
  "show_counts d = ''{'' @ comma (map (\<lambda>(k, v). [CHR 0x27] @ k @ [CHR 0x27] @ '': '' @ str_int v) d) @ ''}''"

definition count_levels :: "string list \<Rightarrow> (string \<times> int) list \<Rightarrow> int" where
  "count_levels ks d = sum_list (map snd (filter (\<lambda>(k, v). k \<in> set ks) d))"

definition hiring_velocity_anomaly :: "signals \<Rightarrow> pain option" where
  "hiring_velocity_anomaly b = (case bd_jobs b of
     None \<Rightarrow> None
   | Some js \<Rightarrow>
       let d = js_seniority js; senior = count_levels [''senior'', ''staff'', ''principal''] d;
           junior = count_levels [''junior'', ''mid''] d
       in if d = [] then None
          else if 3 \<le> senior \<and> junior = 0 then Some (PainInference ''hiring_velocity_anomaly'' ''Execution Bottleneck''
            ''Heavily top-heavy hiring (senior/staff/principal with no junior/mid) suggests execution bottleneck or overly complex problems.''
            ''medium'' [''Senior+Staff+Principal: '' @ str_int senior, ''Junior+Mid: '' @ str_int junior,
              ''Distribution: '' @ show_counts d] 50 ''engineering'')
          else if 3 \<le> junior \<and> senior = 0 then Some (PainInference ''hiring_velocity_anomaly'' ''Leadership Gap''
            ''Heavily bottom-heavy hiring (junior/mid with no senior/staff) suggests leadership gap or inability to attract senior talent.''
            ''medium'' [''Junior+Mid: '' @ str_int junior, ''Senior+Staff+Principal: '' @ str_int senior,
              ''Distribution: '' @ show_counts d] 50 ''engineering'')
          else None)"

text \<open>\<open>Counter(...).most_common(5)\<close>: by falling count, ties in order of first appearance\<close>

definition most_common :: "nat \<Rightarrow> string list \<Rightarrow> (string \<times> int) list" where
  "most_common n xs = take n (sort_key (\<lambda>(x, k). - k) (map (\<lambda>x. (x, count_where ((=) x) xs)) (dedup xs)))"

definition tool_sprawl :: "signals \<Rightarrow> pain option" where
  "tool_sprawl b =
     (let techs = all_techs b; n = length (dedup (map fst techs));
          cats = filter (\<lambda>c. c \<noteq> []) (map snd techs)
      in if 40 \<le> n then Some (PainInference ''tool_sprawl'' ''Tool Sprawl''
           ''Excessive number of distinct technologies detected, suggesting tool sprawl and governance challenges.''
           ''medium'' [''Total unique technologies: '' @ str_nat n,
             ''Top categories: '' @ comma (map (\<lambda>(c, k). c @ '' ('' @ str_int k @ '')'') (most_common 5 cats))]
           55 ''operations'')
         else None)"

text \<open>Observability tools named by the detection, or in a job posting (with its own casing)\<close>

definition observability_tools :: "signals \<Rightarrow> string list" where
  "observability_tools b = filter (\<lambda>a. a \<in> set (names_lower b)) apm_names @
     (case bd_jobs b of None \<Rightarrow> []
      | Some js \<Rightarrow> map fst (filter (\<lambda>(n, c). any_in apm_names (py_lower n)) (js_mentions js)))"

definition observability_gap :: "signals \<Rightarrow> pain option" where
  "observability_gap b =
     (let products = filter product_domain (map fst (bd_techs b)); tools = sort_set (observability_tools b)
      in if products = [] then None
         else if tools \<noteq> [] then Some (PainInference ''observability_stack_detected'' ''Observability Stack Detected''
           ''Specific observability/APM tools identified via tech detection or job postings.'' ''info''
           [''Tools found: '' @ comma tools] 70 ''operations'')
         else if (case bd_jobs b of None \<Rightarrow> False | Some js \<Rightarrow> ''devops'' \<in> set (js_roles js)) then None
         else Some (PainInference ''observability_gap'' ''Observability Gap''
           ''Product subdomains detected but no APM/monitoring tools found, suggesting limited observability.''
           ''low'' [''Product subdomains: '' @ comma products, ''No APM/monitoring tools detected''] 25 ''operations''))"

definition database_scaling_pressure :: "signals \<Rightarrow> pain option" where
  "database_scaling_pressure b =
     (let names = names_lower b; dbs = dedup (filter (\<lambda>n. n \<in> set database_names) names)
      in if length dbs \<noteq> 1 then None
         else if list_ex (\<lambda>n. n \<in> set names) cache_names then None
         else (case bd_jobs b of
           None \<Rightarrow> None
         | Some js \<Rightarrow> if \<not> list_ex (\<lambda>r. r \<in> {''data'', ''backend''}) (js_roles js) then None
             else Some (PainInference ''database_scaling_pressure'' ''Database Scaling Pressure''
               ''Single database with data/backend hiring and no caching layer suggests database scaling challenges.''
               ''medium'' [''Single database: '' @ hd dbs, ''Hiring signals: '' @ comma (js_roles js),
                 ''No caching layer detected''] 55 ''engineering'')))"

text \<open>
  The map from provider to domains: the first pass appends a domain for every known provider
  name, the second adds domains of security products named after auth or SSO that are not
  there yet.
\<close>

definition add_domain :: "string \<Rightarrow> string \<Rightarrow> (string \<times> string list) list \<Rightarrow> (string \<times> string list) list" where
  "add_domain name d m = AList.update name (coalesce (map_of m name) [] @ [d]) m"

definition add_new_domain :: "string \<Rightarrow> string \<Rightarrow> (string \<times> string list) list \<Rightarrow> (string \<times> string list) list" where
  "add_new_domain name d m = (if d \<in> set (coalesce (map_of m name) []) then m else add_domain name d m)"

definition provider_domains :: "signals \<Rightarrow> (string \<times> string list) list" where
  "provider_domains b =
     (let named = concat (map (\<lambda>(d, ns). map (\<lambda>n. (n, d)) (filter (\<lambda>n. any_in auth_provider_names (py_lower n)) ns))
            (tech_names_by_domain b));
          by_cat = concat (map (\<lambda>(d, s). map (\<lambda>(n, c). (n, d)) (filter (\<lambda>(n, c). py_in ''security'' c \<and>
            any_in [''auth'', ''sso''] (py_lower n)) (map name_cat (stack_techs s)))) (bd_techs b))
      in fold (\<lambda>(n, d). add_new_domain n d) by_cat (fold (\<lambda>(n, d). add_domain n d) named []))"

definition auth_fragmentation :: "signals \<Rightarrow> pain option" where
  "auth_fragmentation b =
     (let m = provider_domains b
      in if 2 \<le> length m then Some (PainInference ''auth_fragmentation'' ''Auth Fragmentation''
           ''Multiple distinct auth/identity providers detected, suggesting fragmented identity management.''
           ''medium'' (map (\<lambda>(p, ds). p @ '' on '' @ comma ds) m) 50 ''operations'')
         else None)"

text \<open>The rule list of \<open>evaluate\<close>; the last one is behind a setting.\<close>

definition pain_rules :: "bool \<Rightarrow> (signals \<Rightarrow> pain option) list" where
  "pain_rules frontend = [identity_fragmentation, tech_debt, security_gap, scaling_pressure, multi_cloud,
     cert_gap, marketing_product_mismatch, data_infra_pain, partner_delivery_motion,
     cloud_program_capacity_gap, data_program_capacity_gap, transformation_hiring_cluster, tag_bloat,
     vendor_lock_in, compliance_gap, hiring_velocity_anomaly, tool_sprawl, observability_gap,
     database_scaling_pressure, auth_fragmentation] @ (if frontend then [frontend_performance_debt] else [])"

definition fired :: "bool \<Rightarrow> signals \<Rightarrow> pain list" where
  "fired frontend b = concat (map (\<lambda>rule. case rule b of None \<Rightarrow> [] | Some p \<Rightarrow> [p]) (pain_rules frontend))"

end
