(* ===== verification/Pain_Engine.thy ===== *)
theory Pain_Engine
  imports Pain_Rules
begin

text \<open>
  \<open>PainInferenceEngine.evaluate\<close>: compounds, dampeners, the adjustment by detection confidence,
  the weighting for a seller and the Action Tier gate. The Python code mutates the inferences in
  place; each pass is a function on the list.
\<close>

section \<open>Seller category and the Action Tier\<close>

definition count_hits :: "string list \<Rightarrow> string \<Rightarrow> nat" where
  "count_hits ks text = length (filter (\<lambda>k. py_in k text) ks)"

definition detect_seller_category :: "string \<Rightarrow> string" where
  "detect_seller_category context =
     (if context = [] then []
      else (case find (\<lambda>(c, ks). 2 \<le> count_hits ks (py_lower context)) seller_keywords of
        None \<Rightarrow> [] | Some (c, ks) \<Rightarrow> c))"

definition is_action_tier_relevant :: "pain \<Rightarrow> string \<Rightarrow> bool" where
  "is_action_tier_relevant p category = (case map_of category_denylists category of
     None \<Rightarrow> True
   | Some denied \<Rightarrow>
       let families = coalesce (map_of rule_families (pn_rule p)) [];
           terms = coalesce (map_of linkage_terms category) [];
           combined = py_lower (py_join '' '' (pn_evidence p)) @ '' '' @ py_lower (pn_description p)
       in set families \<inter> set denied = {} \<or> any_in terms combined)"

section \<open>Compounds\<close>

record compound =
  cp_rule :: string
  cp_title :: string
  cp_description :: string
  cp_severity :: string
  cp_category :: string
  cp_constituents :: "string list"
  cp_min :: nat

definition compounds :: "compound list" where
  "compounds = [
     \<lparr>cp_rule = ''systemic_security_underinvestment'', cp_title = ''Systemic Security Underinvestment'',
      cp_description = ''Multiple independent security signals compound into evidence of systemic security underinvestment.'',
      cp_severity = ''high'', cp_category = ''security'',
      cp_constituents = [''security_gap'', ''cert_gap''], cp_min = 2\<rparr>,
     \<lparr>cp_rule = ''engineering_capacity_crisis'', cp_title = ''Engineering Capacity Crisis'',
      cp_description = ''Multiple engineering stress signals compound into evidence of an engineering capacity crisis.'',
      cp_severity = ''high'', cp_category = ''engineering'',
      cp_constituents = [''tech_debt'', ''scaling_pressure'', ''hiring_velocity_anomaly''], cp_min = 2\<rparr>,
     \<lparr>cp_rule = ''marketing_infra_debt'', cp_title = ''Marketing Infrastructure Debt'',
      cp_description = ''Multiple marketing/analytics signals compound into evidence of marketing infrastructure debt.'',
      cp_severity = ''medium'', cp_category = ''marketing'',
      cp_constituents = [''identity_fragmentation'', ''tag_bloat'', ''marketing_product_mismatch''], cp_min = 2\<rparr>]"

text \<open>The comprehension \<open>{r.rule_id: r.confidence for r in results}\<close>: the last one wins.\<close>

definition confidence_of :: "pain list \<Rightarrow> string \<Rightarrow> int" where
  "confidence_of ps rule = coalesce (map_of (rev (map (\<lambda>p. (pn_rule p, pn_confidence p)) ps)) rule) 0"

definition compound_of :: "pain list \<Rightarrow> compound \<Rightarrow> pain list" where
  "compound_of ps c =
     (let matched = filter (\<lambda>r. r \<in> pn_rule ` set ps) (cp_constituents c)
      in if cp_min c \<le> length matched then
           [PainInference (cp_rule c) (cp_title c) (cp_description c) (cp_severity c)
              [''Triggered by: '' @ comma matched]
              (min (Max (set (map (confidence_of ps) matched)) + 10) 95) (cp_category c)]
         else [])"

definition evaluate_compounds :: "pain list \<Rightarrow> pain list" where
  "evaluate_compounds ps = ps @ concat (map (compound_of ps) compounds)"

section \<open>Dampeners\<close>

definition lower_confidence :: "int \<Rightarrow> pain \<Rightarrow> pain" where
  "lower_confidence n p = p\<lparr>pn_confidence := pn_confidence p - n\<rparr>"

text \<open>Rule identifiers are distinct in the lists the engine builds (proved below).\<close>

definition dampen :: "bool \<Rightarrow> string \<Rightarrow> (pain \<Rightarrow> pain) \<Rightarrow> pain list \<Rightarrow> pain list" where
  "dampen cond rule f ps = (if cond then update_where (\<lambda>p. pn_rule p = rule) f ps else ps)"

definition ssl_automated :: "signals \<Rightarrow> bool" where
  "ssl_automated b = (case bd_infra b of None \<Rightarrow> False | Some i \<Rightarrow> in_ssl_auto i)"

definition hires_devops :: "signals \<Rightarrow> bool" where
  "hires_devops b = (case bd_jobs b of None \<Rightarrow> False | Some js \<Rightarrow> ''devops'' \<in> set (js_roles js))"

definition mentions_data_platform :: "signals \<Rightarrow> bool" where
  "mentions_data_platform b = (case bd_jobs b of None \<Rightarrow> False
     | Some js \<Rightarrow> list_ex (\<lambda>(n, c). py_lower n \<in> {''spark'', ''kafka'', ''airflow''}) (js_mentions js))"

definition dampen_sprawl :: "nat \<Rightarrow> pain \<Rightarrow> pain" where
  "dampen_sprawl n p = p\<lparr>pn_confidence := max (pn_confidence p - 10 * (int n - 3)) 30\<rparr>"

definition floor_at :: "int \<Rightarrow> pain \<Rightarrow> pain" where
  "floor_at n p = (if pn_confidence p < n then p\<lparr>pn_confidence := n\<rparr> else p)"

definition apply_dampeners :: "signals \<Rightarrow> pain list \<Rightarrow> pain list" where
  "apply_dampeners b ps =
     (let ids = pn_rule ` set ps; n = length (bd_techs b);
          p1 = dampen (''cert_gap'' \<in> ids \<and> ssl_automated b) ''systemic_security_underinvestment''
                 (lower_confidence 15) ps;
          p2 = dampen (hires_devops b) ''observability_gap'' (lower_confidence 10) p1;
          p3 = dampen (mentions_data_platform b) ''database_scaling_pressure'' (lower_confidence 10) p2;
          p4 = dampen (3 < n) ''tool_sprawl'' (dampen_sprawl n) p3
      in map (floor_at 10) p4)"

section \<open>Detection confidence\<close>

definition entry_confidence :: "tech \<Rightarrow> int" where
  "entry_confidence t = (case tc_confidence t of None \<Rightarrow> 100 | Some c \<Rightarrow> if c = 0 then 100 else c)"

definition stack_confidences :: "stack \<Rightarrow> (string \<times> int) list" where
  "stack_confidences s = (case s of
     ModelStack ts \<Rightarrow> map (\<lambda>t. (py_lower (tc_name t), entry_confidence t)) ts
   | DictStack ts \<Rightarrow> map (\<lambda>t. (py_lower (tc_name t), entry_confidence t)) (filter (\<lambda>t. tc_name t \<noteq> []) ts))"

definition all_confidences :: "signals \<Rightarrow> (string \<times> int) list" where
  "all_confidences b = fold (\<lambda>(n, c). AList.update n c)
     (concat (map (\<lambda>(d, s). stack_confidences s) (bd_techs b))) []"

definition clamp :: "int \<Rightarrow> int" where
  "clamp c = max 10 (min 95 c)"

text \<open>The average is compared without division.\<close>

definition detection_adjust :: "(string \<times> int) list \<Rightarrow> pain \<Rightarrow> pain" where
  "detection_adjust confs p =
     (let rel = map snd (filter (\<lambda>(n, c). list_ex (\<lambda>ev. py_in n (py_lower ev)) (pn_evidence p)) confs);
          len = int (length rel); total' = sum_list rel
      in if rel = [] then p
         else p\<lparr>pn_confidence := clamp (if total' < 40 * len then pn_confidence p - 20
                else if total' < 60 * len then pn_confidence p - 10 else pn_confidence p)\<rparr>)"

definition apply_detection_confidence :: "signals \<Rightarrow> pain list \<Rightarrow> pain list" where
  "apply_detection_confidence b ps = map (detection_adjust (all_confidences b)) ps"

section \<open>Weighting for the seller\<close>

record seller =
  sl_product_type :: string
  sl_problems :: string

definition category_relevance :: "seller \<Rightarrow> (string \<times> nat) list" where
  "category_relevance s = map (\<lambda>(c, ks). (c, count_hits ks (py_lower (sl_problems s)))) pain_keywords"

definition hits_for :: "seller \<Rightarrow> string \<Rightarrow> nat" where
  "hits_for s c = coalesce (map_of (category_relevance s) c) 0"

definition max_hits :: "seller \<Rightarrow> nat" where
  "max_hits s = Max (set (map snd (category_relevance s)))"

definition suppress_security :: "seller \<Rightarrow> pain \<Rightarrow> pain" where
  "suppress_security s p = (if \<not> 1 \<le> hits_for s ''security'' \<and> pn_category p = ''security''
     then p\<lparr>pn_confidence := 0\<rparr> else p)"

definition weigh_category :: "seller \<Rightarrow> pain \<Rightarrow> pain" where
  "weigh_category s p = (if pn_category p = [] \<or> pn_confidence p = 0 then p
     else if 1 \<le> hits_for s (pn_category p) then p\<lparr>pn_confidence := pn_confidence p + 15\<rparr>
     else if 2 \<le> max_hits s then p\<lparr>pn_confidence := pn_confidence p - 10\<rparr> else p)"

definition boost_rule :: "string \<Rightarrow> pain \<Rightarrow> pain" where
  "boost_rule category p = (if category \<noteq> [] \<and> pn_rule p \<in> set (coalesce (map_of seller_boosts category) [])
     \<and> pn_confidence p > 0 then p\<lparr>pn_confidence := pn_confidence p + 15\<rparr> else p)"

definition msp_bonus :: "seller \<Rightarrow> pain \<Rightarrow> pain" where
  "msp_bonus s p = (if sl_product_type s = ''msp'' \<and> pn_category p \<in> {''operations'', ''data''}
     then p\<lparr>pn_confidence := pn_confidence p + 5\<rparr> else p)"

definition clamp_live :: "pain \<Rightarrow> pain" where
  "clamp_live p = (if pn_confidence p > 0 then p\<lparr>pn_confidence := clamp (pn_confidence p)\<rparr> else p)"

definition apply_seller_weighting :: "seller \<Rightarrow> string \<Rightarrow> pain list \<Rightarrow> pain list" where
  "apply_seller_weighting s category ps =
     (let p1 = map (suppress_security s) ps
      in if max_hits s = 0 \<and> category = [] then p1
         else map (clamp_live \<circ> msp_bonus s \<circ> boost_rule category \<circ> weigh_category s) p1)"

section \<open>The engine\<close>

definition demote :: "string \<Rightarrow> pain \<Rightarrow> pain" where
  "demote category p = (if is_action_tier_relevant p category then p
     else p\<lparr>pn_category := ''_background_'' @ pn_category p\<rparr>)"

definition scored :: "bool \<Rightarrow> signals \<Rightarrow> pain list" where
  "scored frontend b = apply_detection_confidence b (apply_dampeners b (evaluate_compounds (fired frontend b)))"

definition weighted :: "seller option \<Rightarrow> string \<Rightarrow> pain list \<Rightarrow> pain list" where
  "weighted s category ps = (case s of None \<Rightarrow> ps
     | Some s' \<Rightarrow> filter (\<lambda>p. pn_confidence p > 0) (apply_seller_weighting s' category ps))"

definition evaluate :: "bool \<Rightarrow> signals \<Rightarrow> seller option \<Rightarrow> string \<Rightarrow> pain list" where
  "evaluate frontend b s context =
     (let category = detect_seller_category context;
          ps = weighted s category (scored frontend b);
          gated = (if category \<noteq> [] then map (demote category) ps else ps)
      in sort_key (\<lambda>p. - pn_confidence p) gated)"

section \<open>What the rules yield\<close>

lemmas rule_defs = identity_fragmentation_def tech_debt_def security_gap_def scaling_pressure_def
  multi_cloud_def cert_gap_def marketing_product_mismatch_def data_infra_pain_def
  partner_delivery_motion_def cloud_program_capacity_gap_def data_program_capacity_gap_def
  transformation_hiring_cluster_def tag_bloat_def vendor_lock_in_def compliance_gap_def
  hiring_velocity_anomaly_def tool_sprawl_def observability_gap_def database_scaling_pressure_def
  auth_fragmentation_def frontend_performance_debt_def

lemma pain_simps [simp]:
  "pn_rule (PainInference r t d s e c k) = r" "pn_confidence (PainInference r t d s e c k) = c"
  "pn_category (PainInference r t d s e c k) = k" "pn_evidence (PainInference r t d s e c k) = e"
  by (simp_all add: PainInference_def)

definition rule_yields :: "(signals \<Rightarrow> pain option) \<Rightarrow> string list \<Rightarrow> bool" where
  "rule_yields rule ids \<longleftrightarrow> (\<forall>b p. rule b = Some p \<longrightarrow> pn_rule p \<in> set ids \<and>
     25 \<le> pn_confidence p \<and> pn_confidence p \<le> 85 \<and> pn_category p \<noteq> ''_background_security'')"

lemma initiative_not_background: "initiative_category ts \<noteq> ''_background_security''"
  by (simp add: initiative_category_def)

lemma yields:
  "rule_yields identity_fragmentation [''identity_fragmentation'']"
  "rule_yields tech_debt [''tech_debt'']"
  "rule_yields security_gap [''security_gap'']"
  "rule_yields scaling_pressure [''scaling_pressure'']"
  "rule_yields multi_cloud [''multi_cloud'']"
  "rule_yields cert_gap [''cert_gap'']"
  "rule_yields marketing_product_mismatch [''marketing_product_mismatch'']"
  "rule_yields data_infra_pain [''data_infra_pain'']"
  "rule_yields partner_delivery_motion [''partner_delivery_motion'']"
  "rule_yields cloud_program_capacity_gap [''cloud_program_capacity_gap'']"
  "rule_yields data_program_capacity_gap [''data_program_capacity_gap'']"
  "rule_yields transformation_hiring_cluster [''transformation_hiring_cluster'']"
  "rule_yields tag_bloat [''tag_bloat'']"
  "rule_yields vendor_lock_in [''vendor_lock_in'']"
  "rule_yields compliance_gap [''compliance_gap'']"
  "rule_yields hiring_velocity_anomaly [''hiring_velocity_anomaly'']"
  "rule_yields tool_sprawl [''tool_sprawl'']"
  "rule_yields observability_gap [''observability_stack_detected'', ''observability_gap'']"
  "rule_yields database_scaling_pressure [''database_scaling_pressure'']"
  "rule_yields auth_fragmentation [''auth_fragmentation'']"
  "rule_yields frontend_performance_debt [''frontend_performance_debt'']"
  unfolding rule_yields_def rule_defs Let_def
  by (auto simp: initiative_not_background simp del: list.set_map split: option.splits if_splits)

end
