(* ===== verification/Pain_Properties.thy ===== *)
theory Pain_Properties
  imports Pain_Engine
begin

text \<open>
  What the pain inference engine guarantees: the shape of its result, the rule identifiers, the
  suppression of security signals, and which dampeners can apply at all.
\<close>

section \<open>The rules that fire\<close>

definition rule_ids :: "bool \<Rightarrow> string list list" where
  "rule_ids frontend = [[''identity_fragmentation''], [''tech_debt''], [''security_gap''], [''scaling_pressure''],
     [''multi_cloud''], [''cert_gap''], [''marketing_product_mismatch''], [''data_infra_pain''],
     [''partner_delivery_motion''], [''cloud_program_capacity_gap''], [''data_program_capacity_gap''],
     [''transformation_hiring_cluster''], [''tag_bloat''], [''vendor_lock_in''], [''compliance_gap''],
     [''hiring_velocity_anomaly''], [''tool_sprawl''], [''observability_stack_detected'', ''observability_gap''],
     [''database_scaling_pressure''], [''auth_fragmentation'']] @
     (if frontend then [[''frontend_performance_debt'']] else [])"

lemma rules_yield_ids: "list_all2 rule_yields (pain_rules frontend) (rule_ids frontend)"
  by (simp add: pain_rules_def rule_ids_def yields)

lemma rule_ids_distinct: "distinct (concat (rule_ids frontend))"
  by (simp add: rule_ids_def)

definition run_rules :: "signals \<Rightarrow> (signals \<Rightarrow> pain option) list \<Rightarrow> pain list" where
  "run_rules b rules = concat (map (\<lambda>rule. case rule b of None \<Rightarrow> [] | Some p \<Rightarrow> [p]) rules)"

lemma run_rules_simps [simp]:
  "run_rules b [] = []"
  "run_rules b (r # rs) = (case r b of None \<Rightarrow> [] | Some p \<Rightarrow> [p]) @ run_rules b rs"
  by (simp_all add: run_rules_def)

lemma fired_run: "fired frontend b = run_rules b (pain_rules frontend)"
  by (simp add: fired_def run_rules_def)

lemma yieldsD:
  assumes "rule_yields rule ids" "rule b = Some p"
  shows "pn_rule p \<in> set ids" "25 \<le> pn_confidence p" "pn_confidence p \<le> 85"
    "pn_category p \<noteq> ''_background_security''"
  using assms unfolding rule_yields_def by blast+

lemma run_rules_ids:
  "list_all2 rule_yields rules ids \<Longrightarrow> pn_rule ` set (run_rules b rules) \<subseteq> set (concat ids)"
proof (induction rules ids rule: list_all2_induct)
  case (Cons r rs i ks)
  then show ?case by (cases "r b") (auto dest: yieldsD)
qed simp

lemma run_rules_distinct:
  "list_all2 rule_yields rules ids \<Longrightarrow> distinct (concat ids) \<Longrightarrow> distinct (map pn_rule (run_rules b rules))"
proof (induction rules ids rule: list_all2_induct)
  case (Cons r rs i ks)
  have sub: "pn_rule ` set (run_rules b rs) \<subseteq> set (concat ks)"
    using Cons(2) by (rule run_rules_ids)
  show ?case
  proof (cases "r b")
    case None
    then show ?thesis using Cons by simp
  next
    case (Some p)
    then have "pn_rule p \<in> set i" using yieldsD(1) [OF Cons(1)] by blast
    then have "pn_rule p \<notin> pn_rule ` set (run_rules b rs)" using sub Cons.prems by auto
    then show ?thesis using Some Cons by simp
  qed
qed simp

lemma run_rules_bounds:
  "list_all2 rule_yields rules ids \<Longrightarrow> p \<in> set (run_rules b rules) \<Longrightarrow>
    25 \<le> pn_confidence p \<and> pn_confidence p \<le> 85 \<and> pn_category p \<noteq> ''_background_security''"
proof (induction rules ids rule: list_all2_induct)
  case (Cons r rs i ks)
  then show ?case by (cases "r b") (auto dest: yieldsD)
qed simp

lemma fired_bounds:
  assumes "p \<in> set (fired frontend b)"
  shows "25 \<le> pn_confidence p" "pn_confidence p \<le> 85"
    "pn_category p \<noteq> ''_background_security''"
  using run_rules_bounds [OF rules_yield_ids] assms unfolding fired_run by blast+

lemma fired_distinct: "distinct (map pn_rule (fired frontend b))"
  unfolding fired_run by (rule run_rules_distinct [OF rules_yield_ids rule_ids_distinct])

lemma fired_ids: "pn_rule ` set (fired frontend b) \<subseteq> set (concat (rule_ids frontend))"
  unfolding fired_run by (rule run_rules_ids [OF rules_yield_ids])

lemma run_rules_from:
  "p \<in> set (run_rules b rules) \<Longrightarrow> \<exists>r \<in> set rules. r b = Some p"
  by (induction rules) (auto split: option.splits)

section \<open>Compounds\<close>

lemma confidence_of_mem:
  assumes "r \<in> pn_rule ` set ps"
  shows "\<exists>p \<in> set ps. confidence_of ps r = pn_confidence p"
proof -
  let ?m = "rev (map (\<lambda>p. (pn_rule p, pn_confidence p)) ps)"
  have "r \<in> fst ` set ?m" using assms by (auto simp: image_iff)
  then obtain c where c: "map_of ?m r = Some c" by (metis map_of_eq_None_iff not_Some_eq)
  then have "(r, c) \<in> set ?m" by (rule map_of_SomeD)
  then show ?thesis using c by (auto simp: confidence_of_def coalesce_def)
qed

definition matched :: "pain list \<Rightarrow> compound \<Rightarrow> string list" where
  "matched ps c = filter (\<lambda>r. r \<in> pn_rule ` set ps) (cp_constituents c)"

definition top_confidence :: "pain list \<Rightarrow> string list \<Rightarrow> int" where
  "top_confidence ps rs = Max (set (map (confidence_of ps) rs))"

lemma compound_of_matched:
  "compound_of ps c = (if cp_min c \<le> length (matched ps c) then
     [PainInference (cp_rule c) (cp_title c) (cp_description c) (cp_severity c)
        [''Triggered by: '' @ comma (matched ps c)] (min (top_confidence ps (matched ps c) + 10) 95) (cp_category c)]
   else [])"
  by (simp only: compound_of_def Let_def matched_def top_confidence_def)

lemma top_confidence_bound:
  assumes "matched ps c \<noteq> []" "\<And>p. p \<in> set ps \<Longrightarrow> 25 \<le> pn_confidence p"
  shows "25 \<le> top_confidence ps (matched ps c)"
proof -
  have "top_confidence ps (matched ps c) \<in> set (map (confidence_of ps) (matched ps c))"
    unfolding top_confidence_def using assms(1) by (intro Max_in) simp_all
  then obtain r where r: "r \<in> set (matched ps c)" "top_confidence ps (matched ps c) = confidence_of ps r"
    by auto
  then have "r \<in> pn_rule ` set ps" by (simp add: matched_def)
  then obtain p where "p \<in> set ps" "confidence_of ps r = pn_confidence p"
    using confidence_of_mem by blast
  then show ?thesis using assms(2) r(2) by simp
qed

lemma compound_bounds:
  assumes "q \<in> set (compound_of ps c)" "\<And>p. p \<in> set ps \<Longrightarrow> 25 \<le> pn_confidence p" "0 < cp_min c"
  shows "25 \<le> pn_confidence q" "pn_confidence q \<le> 95"
proof -
  have q: "cp_min c \<le> length (matched ps c)"
    "pn_confidence q = min (top_confidence ps (matched ps c) + 10) 95"
    using assms(1) unfolding compound_of_matched by (simp_all split: if_split_asm)
  then have "matched ps c \<noteq> []" using assms(3) by (cases "matched ps c") simp_all
  then have "25 \<le> top_confidence ps (matched ps c)" using assms(2) by (rule top_confidence_bound)
  then show "25 \<le> pn_confidence q" "pn_confidence q \<le> 95" using q(2) by simp_all
qed

lemma compound_of_rule: "q \<in> set (compound_of ps c) \<Longrightarrow> pn_rule q = cp_rule c"
  by (simp add: compound_of_matched split: if_split_asm)

lemma compounds_distinct:
  "distinct (map cp_rule cs) \<Longrightarrow> distinct (map pn_rule (concat (map (compound_of ps) cs)))"
proof (induction cs)
  case (Cons c cs)
  have "pn_rule ` set (concat (map (compound_of ps) cs)) \<subseteq> cp_rule ` set cs"
    by (auto dest: compound_of_rule)
  then have "pn_rule ` set (compound_of ps c) \<inter> pn_rule ` set (concat (map (compound_of ps) cs)) = {}"
    using Cons.prems compound_of_rule by (fastforce simp: image_iff)
  moreover have "distinct (map pn_rule (compound_of ps c))" by (simp add: compound_of_matched)
  ultimately show ?case using Cons by simp
qed simp

definition compound_ids :: "string list" where
  "compound_ids = map cp_rule compounds"

lemma compounds_ids:
  "pn_rule ` set (concat (map (compound_of ps) compounds)) \<subseteq> set compound_ids"
  by (auto simp: compound_ids_def dest: compound_of_rule)

lemma ids_apart: "list_all (\<lambda>r. r \<notin> set (concat (rule_ids frontend))) compound_ids"
  by (simp add: rule_ids_def compound_ids_def compounds_def)

lemma with_compounds_distinct: "distinct (map pn_rule (evaluate_compounds (fired frontend b)))"
proof -
  let ?f = "fired frontend b"
  let ?c = "concat (map (compound_of ?f) compounds)"
  have "distinct (map cp_rule compounds)" by (simp add: compounds_def)
  then have c: "distinct (map pn_rule ?c)" by (rule compounds_distinct)
  have "r \<notin> set (map pn_rule ?c)" if "r \<in> set (map pn_rule ?f)" for r
  proof
    assume "r \<in> set (map pn_rule ?c)"
    then have "r \<in> set compound_ids" using compounds_ids [of ?f] unfolding set_map by blast
    then have "r \<notin> set (concat (rule_ids frontend))" using ids_apart [of frontend] unfolding list_all_iff by blast
    then show False using that fired_ids [of frontend b] unfolding set_map by blast
  qed
  then have "set (map pn_rule ?f) \<inter> set (map pn_rule ?c) = {}" by blast
  then show ?thesis using c fired_distinct [of frontend b]
    unfolding evaluate_compounds_def map_append distinct_append by blast
qed

lemma with_compounds_bounds:
  assumes "p \<in> set (evaluate_compounds (fired frontend b))"
  shows "10 \<le> pn_confidence p" "pn_confidence p \<le> 95"
proof -
  have "25 \<le> pn_confidence p \<and> pn_confidence p \<le> 95"
  proof (cases "p \<in> set (fired frontend b)")
    case True
    then show ?thesis using fired_bounds [OF True] by simp
  next
    case False
    then obtain c where c: "c \<in> set compounds" "p \<in> set (compound_of (fired frontend b) c)"
      using assms unfolding evaluate_compounds_def by auto
    then have "0 < cp_min c" by (auto simp: compounds_def)
    then show ?thesis using compound_bounds [OF c(2)] fired_bounds by blast
  qed
  then show "10 \<le> pn_confidence p" "pn_confidence p \<le> 95" by simp_all
qed
section \<open>The later passes\<close>

definition in_range :: "pain \<Rightarrow> bool" where
  "in_range p \<longleftrightarrow> 10 \<le> pn_confidence p \<and> pn_confidence p \<le> 95"

lemma with_compounds_in_range: "list_all in_range (evaluate_compounds (fired frontend b))"
  unfolding list_all_iff in_range_def using with_compounds_bounds by blast

definition keeps_rule :: "(pain \<Rightarrow> pain) \<Rightarrow> bool" where
  "keeps_rule f \<longleftrightarrow> (\<forall>p. pn_rule (f p) = pn_rule p \<and> pn_category (f p) = pn_category p)"

lemma keeps_rule:
  "keeps_rule (lower_confidence n)" "keeps_rule (dampen_sprawl k)" "keeps_rule (floor_at n)"
  "keeps_rule (detection_adjust cs)" "keeps_rule (suppress_security s)" "keeps_rule (weigh_category s)"
  "keeps_rule (boost_rule category)" "keeps_rule (msp_bonus s)" "keeps_rule clamp_live"
  by (simp_all add: keeps_rule_def lower_confidence_def dampen_sprawl_def floor_at_def detection_adjust_def
      suppress_security_def weigh_category_def boost_rule_def msp_bonus_def clamp_live_def Let_def)

lemma keeps_ruleD:
  "keeps_rule f \<Longrightarrow> pn_rule (f p) = pn_rule p" "keeps_rule f \<Longrightarrow> pn_category (f p) = pn_category p"
  by (simp_all add: keeps_rule_def)

lemmas keeps_simps [simp] = keeps_rule [THEN keeps_ruleD(1)] keeps_rule [THEN keeps_ruleD(2)]

lemma map_keeps: "keeps_rule f \<Longrightarrow> map pn_rule (map f ps) = map pn_rule ps"
  by (simp add: keeps_rule_def)

lemma dampen_keeps: "keeps_rule f \<Longrightarrow> map pn_rule (dampen c r f ps) = map pn_rule ps"
  by (simp add: dampen_def update_where_def keeps_rule_def)

lemma dampeners_keep: "map pn_rule (apply_dampeners b ps) = map pn_rule ps"
  unfolding apply_dampeners_def Let_def
  by (simp only: map_keeps dampen_keeps keeps_rule)

lemma scored_rules: "map pn_rule (scored frontend b) = map pn_rule (evaluate_compounds (fired frontend b))"
  unfolding scored_def apply_detection_confidence_def
  by (simp only: map_keeps keeps_rule dampeners_keep)

lemma dampen_upper:
  assumes "list_all (\<lambda>p. pn_confidence p \<le> 95) ps"
    and "\<And>p. pn_confidence p \<le> 95 \<Longrightarrow> pn_confidence (f p) \<le> 95"
  shows "list_all (\<lambda>p. pn_confidence p \<le> 95) (dampen c r f ps)"
  using assms by (auto simp: dampen_def update_where_def list_all_iff)

lemma floor_in_range:
  assumes "list_all (\<lambda>p. pn_confidence p \<le> 95) ps"
  shows "list_all in_range (map (floor_at 10) ps)"
proof -
  have "in_range (floor_at 10 p)" if "pn_confidence p \<le> 95" for p
    using that by (simp add: in_range_def floor_at_def)
  then show ?thesis using assms by (simp add: list_all_iff)
qed

lemma dampeners_in_range:
  assumes "list_all in_range ps"
  shows "list_all in_range (apply_dampeners b ps)"
proof -
  have up: "list_all (\<lambda>p. pn_confidence p \<le> 95) ps"
    using assms by (auto simp: list_all_iff in_range_def)
  have low: "pn_confidence (lower_confidence n p) \<le> 95" if "pn_confidence p \<le> 95" "0 \<le> n" for n p
    using that by (simp add: lower_confidence_def)
  have sprawl: "pn_confidence (dampen_sprawl (length (bd_techs b)) p) \<le> 95"
    if "pn_confidence p \<le> 95" "3 < length (bd_techs b)" for p
    using that by (simp add: dampen_sprawl_def)
  let ?u = "list_all (\<lambda>p. pn_confidence p \<le> 95)"
  let ?p3 = "dampen (mentions_data_platform b) ''database_scaling_pressure'' (lower_confidence 10)
     (dampen (hires_devops b) ''observability_gap'' (lower_confidence 10)
     (dampen (''cert_gap'' \<in> pn_rule ` set ps \<and> ssl_automated b) ''systemic_security_underinvestment''
                 (lower_confidence 15) ps))"
  have p3: "?u ?p3" by (intro dampen_upper up low) simp_all
  have "?u (dampen (3 < length (bd_techs b)) ''tool_sprawl'' (dampen_sprawl (length (bd_techs b))) ?p3)"
  proof (cases "3 < length (bd_techs b)")
    case True
    then show ?thesis by (intro dampen_upper [OF p3] sprawl)
  next
    case False
    then show ?thesis using p3 by (simp only: dampen_def if_False)
  qed
  then show ?thesis
    unfolding apply_dampeners_def Let_def by (rule floor_in_range)
qed

lemma clamp_range: "10 \<le> clamp c" "clamp c \<le> 95"
  by (simp_all add: clamp_def)

lemma scored_in_range: "list_all in_range (scored frontend b)"
proof -
  have "in_range (detection_adjust cs p)" if "in_range p" for cs p
    using that by (simp add: detection_adjust_def in_range_def Let_def clamp_range)
  then show ?thesis
    using dampeners_in_range [OF with_compounds_in_range [of frontend b], of b]
    by (simp add: scored_def apply_detection_confidence_def list_all_iff)
qed

definition weigh :: "seller \<Rightarrow> string \<Rightarrow> pain \<Rightarrow> pain" where
  "weigh s category p = (if max_hits s = 0 \<and> category = [] then suppress_security s p
     else clamp_live (msp_bonus s (boost_rule category (weigh_category s (suppress_security s p)))))"

lemma weighting_map: "apply_seller_weighting s category ps = map (weigh s category) ps"
  by (simp add: apply_seller_weighting_def weigh_def Let_def)

lemma weigh_keeps: "keeps_rule (weigh s category)"
proof -
  have "pn_rule (weigh s category p) = pn_rule p \<and> pn_category (weigh s category p) = pn_category p" for p
    unfolding weigh_def by (cases "max_hits s = 0 \<and> category = []") simp_all
  then show ?thesis by (simp add: keeps_rule_def)
qed

lemma weigh_in_range:
  assumes "in_range p" "0 < pn_confidence (weigh s category p)"
  shows "in_range (weigh s category p)"
proof (cases "max_hits s = 0 \<and> category = []")
  case True
  then have "weigh s category p = suppress_security s p" by (simp add: weigh_def)
  moreover have "suppress_security s p = p" if "0 < pn_confidence (suppress_security s p)"
    using that by (auto simp: suppress_security_def split: if_split_asm)
  ultimately show ?thesis using assms by simp
next
  case False
  define q where "q = msp_bonus s (boost_rule category (weigh_category s (suppress_security s p)))"
  have w: "weigh s category p = clamp_live q" using False by (simp only: weigh_def if_False q_def)
  then have "0 < pn_confidence q" using assms(2) by (simp add: clamp_live_def split: if_split_asm)
  then show ?thesis unfolding w by (simp add: clamp_live_def in_range_def clamp_range)
qed

lemma weighted_in_range: "list_all in_range ps \<Longrightarrow> list_all in_range (weighted s category ps)"
  by (auto simp: weighted_def weighting_map list_all_iff weigh_in_range split: option.splits)

lemma distinct_map_filter_map:
  "keeps_rule f \<Longrightarrow> distinct (map pn_rule ps) \<Longrightarrow> distinct (map pn_rule (filter P (map f ps)))"
  by (induction ps) (auto simp: keeps_rule_def)

lemma weighted_distinct: "distinct (map pn_rule ps) \<Longrightarrow> distinct (map pn_rule (weighted s category ps))"
  by (simp add: weighted_def weighting_map distinct_map_filter_map weigh_keeps split: option.split)

lemma demote_simps [simp]:
  "pn_rule (demote c p) = pn_rule p" "pn_confidence (demote c p) = pn_confidence p"
  by (simp_all add: demote_def)

definition gate :: "string \<Rightarrow> pain list \<Rightarrow> pain list" where
  "gate category ps = (if category \<noteq> [] then map (demote category) ps else ps)"

lemma evaluate_gate: "evaluate frontend b s descr =
   sort_key (\<lambda>p. - pn_confidence p) (gate (detect_seller_category descr)
     (weighted s (detect_seller_category descr) (scored frontend b)))"
  by (simp only: evaluate_def gate_def Let_def)

lemma gate_in_range: "list_all in_range (gate c ps) = list_all in_range ps"
  by (simp add: gate_def list_all_iff in_range_def)

lemma gate_rules: "map pn_rule (gate c ps) = map pn_rule ps"
  by (simp add: gate_def)

section \<open>The result\<close>

text \<open>
  C12: Whatever the signals, the seller and the context, the engine returns every rule at most
  once, with a confidence between 10 and 95, the most confident inference first.
\<close>

theorem pain_results_ranked:
  "distinct (map pn_rule (evaluate frontend b s descr)) \<and>
   list_all (\<lambda>p. 10 \<le> pn_confidence p \<and> pn_confidence p \<le> 95) (evaluate frontend b s descr) \<and>
   sorted_wrt (\<lambda>p q. pn_confidence q \<le> pn_confidence p) (evaluate frontend b s descr)"
proof -
  let ?c = "detect_seller_category descr"
  let ?g = "gate ?c (weighted s ?c (scored frontend b))"
  have "distinct (map pn_rule (scored frontend b))"
    unfolding scored_rules by (rule with_compounds_distinct)
  then have "distinct (map pn_rule ?g)" unfolding gate_rules by (rule weighted_distinct)
  then have d: "distinct (map pn_rule (evaluate frontend b s descr))"
    unfolding evaluate_gate by (simp add: distinct_map)
  have "list_all in_range ?g" unfolding gate_in_range by (rule weighted_in_range [OF scored_in_range])
  then have r: "list_all (\<lambda>p. 10 \<le> pn_confidence p \<and> pn_confidence p \<le> 95) (evaluate frontend b s descr)"
    unfolding evaluate_gate by (simp add: list_all_iff in_range_def)
  have "sorted (map (\<lambda>p. - pn_confidence p) (evaluate frontend b s descr))"
    unfolding evaluate_gate by simp
  then have "sorted_wrt (\<lambda>p q. pn_confidence q \<le> pn_confidence p) (evaluate frontend b s descr)"
    by (simp add: sorted_map)
  then show ?thesis using d r by simp
qed

section \<open>Security signals and sellers of other things\<close>

lemma suppressed_stays_zero:
  assumes "pn_category p = ''security''" "\<not> 1 \<le> hits_for s ''security''"
  shows "pn_confidence (weigh s c p) = 0"
proof -
  define q where "q = suppress_security s p"
  have q: "pn_confidence q = 0" "pn_category q = ''security''"
    unfolding q_def suppress_security_def using assms by simp_all
  have "weigh_category s q = q" "boost_rule c q = q" "msp_bonus s q = q" "clamp_live q = q"
    using q by (simp_all add: weigh_category_def boost_rule_def msp_bonus_def clamp_live_def)
  then have "weigh s c p = q" by (simp add: weigh_def q_def [symmetric])
  then show ?thesis using q(1) by simp
qed

lemma weighted_no_security:
  assumes "\<not> 1 \<le> hits_for s ''security''"
  shows "list_all (\<lambda>p. pn_category p \<noteq> ''security'') (weighted (Some s) c ps)"
  using suppressed_stays_zero [OF _ assms]
  by (auto simp: weighted_def weighting_map list_all_iff keeps_ruleD(2) [OF weigh_keeps])

lemma not_background:
  "list_all (\<lambda>p. pn_category p \<noteq> ''_background_security'') (evaluate_compounds (fired frontend b))"
proof -
  have "list_all (\<lambda>c. cp_category c \<noteq> ''_background_security'') compounds" by (simp add: compounds_def)
  then have "pn_category p \<noteq> ''_background_security''" if "p \<in> set (compound_of ps c)" "c \<in> set compounds" for p ps c
    using that by (auto simp: compound_of_matched list_all_iff PainInference_def split: if_split_asm)
  then show ?thesis by (auto simp: list_all_iff evaluate_compounds_def fired_bounds(3))
qed

lemma category_transfer:
  "map pn_category ps = map pn_category qs \<Longrightarrow>
    list_all (\<lambda>p. Q (pn_category p)) ps \<Longrightarrow> list_all (\<lambda>p. Q (pn_category p)) qs"
  by (drule arg_cong [where f = "list_all Q"]) (simp add: list.pred_map comp_def)

lemma map_categories: "keeps_rule f \<Longrightarrow> map pn_category (map f ps) = map pn_category ps"
  by (simp add: keeps_rule_def)

lemma dampen_categories: "keeps_rule f \<Longrightarrow> map pn_category (dampen c r f ps) = map pn_category ps"
  by (simp add: dampen_def update_where_def keeps_rule_def)

lemma scored_categories: "map pn_category (scored frontend b) = map pn_category (evaluate_compounds (fired frontend b))"
  unfolding scored_def apply_detection_confidence_def apply_dampeners_def Let_def
  by (simp only: map_categories dampen_categories keeps_rule)

lemma weighted_not_background:
  "list_all (\<lambda>p. pn_category p \<noteq> ''_background_security'') (weighted s c (scored frontend b))"
proof -
  have "list_all (\<lambda>p. pn_category p \<noteq> ''_background_security'') (scored frontend b)"
    by (rule category_transfer [OF scored_categories [symmetric] not_background])
  then show ?thesis
    by (auto simp: weighted_def weighting_map list_all_iff keeps_ruleD(2) [OF weigh_keeps] split: option.splits)
qed

text \<open>
  C35: A seller whose problem description has no security keyword is never shown a
  security pain: neither as a result nor demoted to the background.
\<close>

theorem security_hidden_from_other_sellers:
  assumes "\<not> 1 \<le> hits_for s ''security''"
  shows "list_all (\<lambda>p. pn_category p \<noteq> ''security'' \<and> pn_category p \<noteq> ''_background_security'')
    (evaluate frontend b (Some s) descr)"
proof -
  let ?c = "detect_seller_category descr"
  have w: "list_all (\<lambda>p. pn_category p \<noteq> ''security'' \<and> pn_category p \<noteq> ''_background_security'')
      (weighted (Some s) ?c (scored frontend b))"
    using weighted_no_security [OF assms] weighted_not_background unfolding list_all_iff by blast
  have "pn_category (demote ?c p) \<noteq> ''security'' \<and> pn_category (demote ?c p) \<noteq> ''_background_security''"
    if "pn_category p \<noteq> ''security'' \<and> pn_category p \<noteq> ''_background_security''" for p
    using that by (simp add: demote_def)
  then have "list_all (\<lambda>p. pn_category p \<noteq> ''security'' \<and> pn_category p \<noteq> ''_background_security'')
      (gate ?c (weighted (Some s) ?c (scored frontend b)))"
    using w unfolding gate_def by (simp add: list_all_iff)
  then show ?thesis unfolding evaluate_gate by (simp add: list_all_iff)
qed

definition expiring :: signals where
  "expiring = \<lparr>bd_techs = [], bd_infra = Some \<lparr>in_ns = None, in_mx = None, in_clouds = [], in_ssl_issuer = None,
     in_ssl_days = Some 5, in_ssl_auto = False, in_score = 80, in_missing = [], in_grade = ''B''\<rparr>, bd_jobs = None\<rparr>"

definition churn_seller :: seller where
  "churn_seller = \<lparr>sl_product_type = ''saas'', sl_problems = ''churn''\<rparr>"

lemma security_hidden_from_other_sellers_witness:
  "cert_gap expiring \<noteq> None \<and> hits_for churn_seller ''security'' = 0 \<and>
   list_all (\<lambda>p. pn_category p \<noteq> ''security'' \<and> pn_category p \<noteq> ''_background_security'')
    (evaluate True expiring (Some churn_seller) ''Product: retention'')"
proof -
  have l: "py_lower (sl_problems churn_seller) = ''churn''"
    by (simp add: churn_seller_def py_lower_def lower_char_def upper_char_def)
  have h: "hits_for churn_seller ''security'' = 0"
    unfolding hits_for_def category_relevance_def l pain_keywords_def
    by (simp add: coalesce_def) (simp add: count_hits_def py_in_def sublist_Cons_right)
  have c: "cert_gap expiring \<noteq> None" by (simp add: cert_gap_def expiring_def)
  show ?thesis using h c security_hidden_from_other_sellers
      [where s = churn_seller and descr = "''Product: retention''" and frontend = True and b = expiring]
    by simp
qed

section \<open>Dampeners that never apply\<close>

lemma run_rules_append: "run_rules b (xs @ ys) = run_rules b xs @ run_rules b ys"
  by (simp add: run_rules_def)

lemma only_rule:
  assumes "list_all2 rule_yields pre ids" "list_all2 rule_yields post ids'"
    and "x \<notin> set (concat ids)" "x \<notin> set (concat ids')" "\<And>p. r b = Some p \<Longrightarrow> pn_rule p \<noteq> x"
  shows "x \<notin> pn_rule ` set (run_rules b (pre @ r # post))"
proof -
  have "x \<notin> pn_rule ` set (run_rules b pre)" "x \<notin> pn_rule ` set (run_rules b post)"
    using run_rules_ids [OF assms(1), of b] run_rules_ids [OF assms(2), of b] assms(3,4) by blast+
  then show ?thesis using assms(5) by (cases "r b") (auto simp: run_rules_append)
qed

lemma rules_split:
  "list_all2 rule_yields (take n (pain_rules frontend)) (take n (rule_ids frontend))"
  "list_all2 rule_yields (drop n (pain_rules frontend)) (drop n (rule_ids frontend))"
  using rules_yield_ids by (rule list_all2_takeI list_all2_dropI)+

lemma rule_at:
  "pain_rules frontend = take 5 (pain_rules frontend) @ cert_gap # drop 6 (pain_rules frontend)"
  "pain_rules frontend = take 17 (pain_rules frontend) @ observability_gap # drop 18 (pain_rules frontend)"
  by (simp_all add: pain_rules_def)

lemma no_cert_gap:
  assumes "ssl_automated b"
  shows "''cert_gap'' \<notin> pn_rule ` set (fired frontend b)"
proof -
  have "cert_gap b = None"
    using assms by (auto simp: cert_gap_def ssl_automated_def split: option.splits)
  then have "pn_rule p \<noteq> ''cert_gap''" if "cert_gap b = Some p" for p using that by simp
  moreover have "''cert_gap'' \<notin> set (concat (take 5 (rule_ids frontend)))"
    "''cert_gap'' \<notin> set (concat (drop 6 (rule_ids frontend)))" by (simp_all add: rule_ids_def)
  ultimately show ?thesis
    unfolding fired_run by (subst rule_at(1)) (rule only_rule [OF rules_split])
qed

lemma no_observability_gap:
  assumes "hires_devops b"
  shows "''observability_gap'' \<notin> pn_rule ` set (fired frontend b)"
proof -
  have "pn_rule p \<noteq> ''observability_gap''" if "observability_gap b = Some p" for p
    using that assms unfolding observability_gap_def hires_devops_def Let_def
    by (auto split: if_split_asm)
  moreover have "''observability_gap'' \<notin> set (concat (take 17 (rule_ids frontend)))"
    "''observability_gap'' \<notin> set (concat (drop 18 (rule_ids frontend)))" by (simp_all add: rule_ids_def)
  ultimately show ?thesis
    unfolding fired_run by (subst rule_at(2)) (rule only_rule [OF rules_split])
qed

lemma not_compound: "r \<notin> pn_rule ` set (fired frontend b) \<Longrightarrow> r \<notin> set compound_ids \<Longrightarrow>
    r \<notin> pn_rule ` set (evaluate_compounds (fired frontend b))"
  using compounds_ids [of "fired frontend b"] unfolding evaluate_compounds_def by auto

lemma dampen_absent: "r \<notin> pn_rule ` set ps \<Longrightarrow> dampen c r f ps = ps"
  by (auto simp: dampen_def update_where_def intro!: map_idI)

text \<open>
  Two of the four dampeners have no effect on what the engine feeds them: the certificate
  rule fires only without automated renewal, and the observability gap only when no
  DevOps role is open, so the conditions that would dampen the two never meet them. Only the
  dampeners for database pressure and tool sprawl are live.
\<close>

theorem two_dampeners_are_dead:
  "apply_dampeners b (evaluate_compounds (fired frontend b)) =
    (let n = length (bd_techs b)
     in map (floor_at 10) (dampen (3 < n) ''tool_sprawl'' (dampen_sprawl n)
       (dampen (mentions_data_platform b) ''database_scaling_pressure'' (lower_confidence 10)
         (evaluate_compounds (fired frontend b)))))"
proof -
  let ?ps = "evaluate_compounds (fired frontend b)"
  have out: "''cert_gap'' \<notin> set compound_ids" "''observability_gap'' \<notin> set compound_ids"
    by (simp_all add: compound_ids_def compounds_def)
  have "''cert_gap'' \<notin> pn_rule ` set ?ps" if "ssl_automated b"
    using not_compound [OF no_cert_gap [OF that] out(1)] .
  then have 1: "dampen (''cert_gap'' \<in> pn_rule ` set ?ps \<and> ssl_automated b) ''systemic_security_underinvestment''
      (lower_confidence 15) ?ps = ?ps"
    unfolding dampen_def by argo
  have "''observability_gap'' \<notin> pn_rule ` set ?ps" if "hires_devops b"
    using not_compound [OF no_observability_gap [OF that] out(2)] .
  then have 2: "dampen (hires_devops b) ''observability_gap'' (lower_confidence 10) ?ps = ?ps"
    by (cases "hires_devops b") (rule dampen_absent, simp, simp add: dampen_def)
  show ?thesis unfolding apply_dampeners_def Let_def 1 2 ..
qed

end
