(* ===== verification/Documents.thy ===== *)
theory Documents
  imports Accounts
begin

text \<open>
  Research documents: the vanity slug of a company name (\<open>slugify\<close> in \<open>utils/slugs.py\<close>)
  and the table \<open>research_documents\<close> with \<open>save_document\<close> and the lookups of
  \<open>db/documents.py\<close>. The text sections of a document are not part of the rows; no operation
  modelled here reads them.
\<close>

section \<open>Slugs\<close>

definition slug_char :: "char \<Rightarrow> bool" where
  "slug_char c \<longleftrightarrow> (let n = (of_char c :: nat) in 97 \<le> n \<and> n \<le> 122 \<or> 48 \<le> n \<and> n \<le> 57)"

abbreviation hyphen :: char where
  "hyphen \<equiv> CHR ''-''"

definition to_ascii :: "string \<Rightarrow> string" where
  "to_ascii s = filter (\<lambda>c. (of_char c :: nat) < 128) s"

definition tlds :: "string list" where
  "tlds = [''com'', ''io'', ''co'', ''org'', ''net'', ''ai'', ''app'', ''dev'', ''xyz'', ''tech'', ''cloud'',
     ''inc'', ''ltd'']"

text \<open>
  The pattern is anchored at the end, or before a final line break; a suffix has no dot, so only
  the last dot can start a match.
\<close>

definition strip_suffix :: "string \<Rightarrow> string" where
  "strip_suffix s =
     (let ext = rev (takeWhile (\<lambda>c. c \<noteq> CHR ''.'') (rev s))
      in if CHR ''.'' \<in> set s \<and> py_lower ext \<in> set tlds then take (length s - length ext - 1) s else s)"

definition strip_tld :: "string \<Rightarrow> string" where
  "strip_tld s = (if s \<noteq> [] \<and> last s = CHR 0x0A then strip_suffix (butlast s) @ [CHR 0x0A]
     else strip_suffix s)"

function hyphenate :: "string \<Rightarrow> string" where
  "hyphenate [] = []"
| "hyphenate (c # s) = (if slug_char c then c # hyphenate s
     else hyphen # hyphenate (dropWhile (\<lambda>c. \<not> slug_char c) s))"
  by pat_completeness auto
termination by (relation "measure length") (auto simp: less_Suc_eq_le length_dropWhile_le)

function collapse :: "string \<Rightarrow> string" where
  "collapse [] = []"
| "collapse (c # s) = c # collapse (if c = hyphen then dropWhile (\<lambda>c. c = hyphen) s else s)"
  by pat_completeness auto
termination by (relation "measure length") (auto simp: less_Suc_eq_le length_dropWhile_le)

definition strip_hyphens :: "string \<Rightarrow> string" where
  "strip_hyphens s = rev (dropWhile (\<lambda>c. c = hyphen) (rev (dropWhile (\<lambda>c. c = hyphen) s)))"

text \<open>\<open>text[:last_hyphen]\<close>; empty when there is no hyphen or only a leading one\<close>

definition before_last_hyphen :: "string \<Rightarrow> string" where
  "before_last_hyphen s = rev (drop 1 (dropWhile (\<lambda>c. c \<noteq> hyphen) (rev s)))"

definition truncate_slug :: "nat \<Rightarrow> string \<Rightarrow> string" where
  "truncate_slug n s = (if n < length s then
       (let t = take n s in if before_last_hyphen t \<noteq> [] then before_last_hyphen t else t)
     else s)"

text \<open>\<open>nfkd\<close> is the Unicode normalization of the standard library.\<close>

definition slugify :: "(string \<Rightarrow> string) \<Rightarrow> string \<Rightarrow> string" where
  "slugify nfkd name =
     (let s = truncate_slug 80 (strip_hyphens (collapse (hyphenate (py_lower (strip_tld (to_ascii (nfkd name)))))))
      in if s = [] then ''untitled'' else s)"

section \<open>The table\<close>

text \<open>
  The nineteen text columns (overview, sections, evidence, markdown, model) are a map from the
  column's name to its value.
\<close>

record draft =
  dr_text :: "string \<Rightarrow> string option"
  dr_url :: string
  dr_name :: string
  dr_created :: time
  dr_opportunity :: "int option"
  dr_pain :: "int option"
  dr_fit :: "int option"
  dr_timing :: "int option"

record document = draft +
  dc_id :: int
  dc_user :: int
  dc_slug :: string

record doc_db =
  dt_rows :: "document list"
  dt_next :: int

definition slug_taken :: "int \<Rightarrow> string \<Rightarrow> doc_db \<Rightarrow> bool" where
  "slug_taken uid slug d \<longleftrightarrow> list_ex (\<lambda>r. dc_user r = uid \<and> dc_slug r = slug) (dt_rows d)"

definition slug_candidate :: "string \<Rightarrow> nat \<Rightarrow> string" where
  "slug_candidate base attempt = (if attempt = 1 then base else base @ ''-'' @ str_nat attempt)"

definition insert_document :: "int \<Rightarrow> draft \<Rightarrow> string \<Rightarrow> doc_db \<Rightarrow> doc_db" where
  "insert_document uid doc slug d = d\<lparr>dt_rows := dt_rows d @ [\<lparr>dr_text = dr_text doc, dr_url = dr_url doc, dr_name = dr_name doc,
       dr_created = dr_created doc, dr_opportunity = dr_opportunity doc, dr_pain = dr_pain doc,
       dr_fit = dr_fit doc, dr_timing = dr_timing doc, dc_id = dt_next d, dc_user = uid, dc_slug = slug\<rparr>],
     dt_next := dt_next d + 1\<rparr>"

text \<open>
  The loop over the attempts: a violation of the slug index goes to the next suffix. After the
  last attempt the code raises.
\<close>

fun try_slugs :: "int \<Rightarrow> draft \<Rightarrow> string \<Rightarrow> nat list \<Rightarrow> doc_db \<Rightarrow> (doc_db \<times> int) option" where
  "try_slugs uid doc base [] d = None"
| "try_slugs uid doc base (k # ks) d =
     (if slug_taken uid (slug_candidate base k) d then try_slugs uid doc base ks d
      else Some (insert_document uid doc (slug_candidate base k) d, dt_next d))"

definition save_document :: "(string \<Rightarrow> string) \<Rightarrow> int \<Rightarrow> draft \<Rightarrow> doc_db \<Rightarrow> string + (doc_db \<times> int)" where
  "save_document nfkd uid doc d =
     (case try_slugs uid doc (slugify nfkd (dr_name doc)) [1..<20] d of
        Some r \<Rightarrow> Inr r
      | None \<Rightarrow> Inl (''Could not generate unique slug for '' @ [CHR 0x27] @ dr_name doc @ [CHR 0x27] @
         '' after 19 attempts''))"

definition get_document :: "int \<Rightarrow> int \<Rightarrow> doc_db \<Rightarrow> document option" where
  "get_document i uid d = find (\<lambda>r. dc_id r = i \<and> dc_user r = uid) (dt_rows d)"

text \<open>\<open>ORDER BY created_at DESC LIMIT n\<close>\<close>

definition newest_documents :: "(document \<Rightarrow> bool) \<Rightarrow> nat \<Rightarrow> doc_db \<Rightarrow> document list" where
  "newest_documents P limit d = take limit (sort_key (\<lambda>r. - dr_created r) (filter P (dt_rows d)))"

definition get_all_documents :: "int \<Rightarrow> nat \<Rightarrow> doc_db \<Rightarrow> document list" where
  "get_all_documents uid limit d = newest_documents (\<lambda>r. dc_user r = uid) limit d"

definition recent_document :: "time \<Rightarrow> int \<Rightarrow> string \<Rightarrow> time \<Rightarrow> document \<Rightarrow> bool" where
  "recent_document now uid url span r \<longleftrightarrow> dc_user r = uid \<and> dr_url r = url \<and> now - span < dr_created r"

definition get_recent_document_by_url :: "time \<Rightarrow> int \<Rightarrow> string \<Rightarrow> int \<Rightarrow> doc_db \<Rightarrow> int option" where
  "get_recent_document_by_url now uid url h d =
     (case newest_documents (recent_document now uid url (hours h)) 1 d of [] \<Rightarrow> None | r # _ \<Rightarrow> Some (dc_id r))"

definition check_duplicate_research ::
    "time \<Rightarrow> int \<Rightarrow> string \<Rightarrow> int \<Rightarrow> doc_db \<Rightarrow> (int \<times> string \<times> time) option" where
  "check_duplicate_research now uid url n d =
     (case newest_documents (recent_document now uid url (days n)) 1 d of
        [] \<Rightarrow> None | r # _ \<Rightarrow> Some (dc_id r, dr_name r, dr_created r))"

text \<open>
  The path joins the document with every membership of its owner; without an order the database
  picks one (\<open>tie\<close>).
\<close>

definition get_document_slug_path :: "nat \<Rightarrow> int \<Rightarrow> int \<Rightarrow> accounts \<Rightarrow> doc_db \<Rightarrow> string option" where
  "get_document_slug_path tie i uid a d = (case get_document i uid d of
     None \<Rightarrow> None
   | Some r \<Rightarrow>
       (let slugs = concat (map (\<lambda>m. case org_row_of a (mb_org m) of None \<Rightarrow> [] | Some g \<Rightarrow> [og_slug g])
              (filter (\<lambda>m. mb_user m = dc_user r) (ac_members a)))
        in if slugs = [] then None
           else Some (''/@'' @ slugs ! (tie mod length slugs) @ ''/'' @ dc_slug r)))"

definition documents_by_slug :: "string \<Rightarrow> string \<Rightarrow> accounts \<Rightarrow> doc_db \<Rightarrow> document list" where
  "documents_by_slug org_slug doc_slug a d = filter (\<lambda>r. dc_slug r = doc_slug \<and>
     user_of a (dc_user r) \<noteq> None \<and> list_ex (\<lambda>m. mb_user m = dc_user r \<and>
       (case org_row_of a (mb_org m) of None \<Rightarrow> False | Some g \<Rightarrow> og_slug g = org_slug)) (ac_members a)) (dt_rows d)"

definition get_document_by_slug :: "nat \<Rightarrow> string \<Rightarrow> string \<Rightarrow> accounts \<Rightarrow> doc_db \<Rightarrow> document option" where
  "get_document_by_slug tie org_slug doc_slug a d = (let rs = documents_by_slug org_slug doc_slug a d in
     if rs = [] then None else Some (rs ! (tie mod length rs)))"

section \<open>Well-formed tables\<close>

definition docs_wf :: "doc_db \<Rightarrow> bool" where
  "docs_wf d \<longleftrightarrow> serial dc_id (dt_next d) (dt_rows d) \<and>
     distinct (map (\<lambda>r. (dc_user r, dc_slug r)) (dt_rows d))"

definition no_docs :: doc_db where
  "no_docs = \<lparr>dt_rows = [], dt_next = 1\<rparr>"

lemma insert_document_simps [simp]:
  "dt_next (insert_document uid doc slug d) = dt_next d + 1"
  "slug_taken u s (insert_document uid doc slug d) \<longleftrightarrow> slug_taken u s d \<or> (u = uid \<and> s = slug)"
  by (auto simp: insert_document_def slug_taken_def)

lemma docs_wf_insert:
  "docs_wf d \<Longrightarrow> \<not> slug_taken uid slug d \<Longrightarrow> docs_wf (insert_document uid doc slug d)"
  by (auto simp: docs_wf_def insert_document_def slug_taken_def serial_snoc list_ex_iff)

lemma try_slugs_Some:
  "try_slugs uid doc base ks d = Some (d', i) \<Longrightarrow> i = dt_next d \<and> (\<exists>k \<in> set ks.
     \<not> slug_taken uid (slug_candidate base k) d \<and> d' = insert_document uid doc (slug_candidate base k) d)"
  by (induction ks) (auto split: if_splits)

lemma try_slugs_None:
  "try_slugs uid doc base ks d = None \<longleftrightarrow> (\<forall>k \<in> set ks. slug_taken uid (slug_candidate base k) d)"
  by (induction ks) auto

lemma save_document_wf:
  assumes "docs_wf d" "save_document nfkd uid doc d = Inr (d', i)"
  shows "docs_wf d'"
  using assms docs_wf_insert by (auto simp: save_document_def split: option.splits dest!: try_slugs_Some)

lemma get_saved_document:
  assumes "docs_wf d" "save_document nfkd uid doc d = Inr (d', i)"
  shows "\<exists>r. get_document i uid d' = Some r \<and> dr_pain r = dr_pain doc \<and> dr_fit r = dr_fit doc \<and>
    dr_timing r = dr_timing doc \<and> dr_opportunity r = dr_opportunity doc \<and> dr_name r = dr_name doc \<and>
    dr_url r = dr_url doc \<and> dr_created r = dr_created doc \<and> dc_user r = uid \<and> dc_id r = i"
proof -
  obtain slug where s: "d' = insert_document uid doc slug d" "i = dt_next d"
    using assms(2) by (auto simp: save_document_def split: option.splits dest!: try_slugs_Some)
  have "find (\<lambda>r. dc_id r = dt_next d \<and> dc_user r = uid) (dt_rows d) = None"
    using assms(1) by (auto simp: docs_wf_def serial_def find_None_iff)
  then show ?thesis by (simp add: s get_document_def insert_document_def find_append)
qed
section \<open>The shape of a slug\<close>

definition single_hyphens :: "string \<Rightarrow> bool" where
  "single_hyphens s \<longleftrightarrow> successively (\<lambda>a b. \<not> (a = hyphen \<and> b = hyphen)) s"

definition slug_alphabet :: "string \<Rightarrow> bool" where
  "slug_alphabet s \<longleftrightarrow> (\<forall>c \<in> set s. slug_char c \<or> c = hyphen)"

definition slug_wf :: "string \<Rightarrow> bool" where
  "slug_wf s \<longleftrightarrow> s \<noteq> [] \<and> length s \<le> 80 \<and> slug_alphabet s \<and> single_hyphens s \<and>
     hd s \<noteq> hyphen \<and> last s \<noteq> hyphen"

lemma hyphenate_alphabet: "slug_alphabet (hyphenate s)"
  by (induction s rule: hyphenate.induct) (auto simp: slug_alphabet_def)

lemma dropWhile_hyphens: "set (dropWhile P s) \<subseteq> set s" "dropWhile P s \<noteq> [] \<Longrightarrow> \<not> P (hd (dropWhile P s))"
  by (auto dest: set_dropWhileD) (metis dropWhile_eq_Nil_conv hd_dropWhile)

lemma collapse_set: "set (collapse s) \<subseteq> set s"
proof (induction s rule: collapse.induct)
  case (2 c s)
  then show ?case using dropWhile_hyphens(1) [of "\<lambda>c. c = hyphen" s]
    by (cases "c = hyphen") (simp_all, blast+)
qed simp

lemma collapse_Cons: "s \<noteq> [] \<Longrightarrow> collapse s \<noteq> [] \<and> hd (collapse s) = hd s"
  by (cases s) auto

lemma single_hyphens_Cons:
  "single_hyphens (c # s) \<longleftrightarrow> s = [] \<or> \<not> (c = hyphen \<and> hd s = hyphen) \<and> single_hyphens s"
  by (cases s) (auto simp: single_hyphens_def)

lemma collapse_single: "single_hyphens (collapse s)"
proof (induction s rule: collapse.induct)
  case 1
  then show ?case by (simp add: single_hyphens_def)
next
  case (2 c s)
  define u where "u = (if c = hyphen then dropWhile (\<lambda>c. c = hyphen) s else s)"
  have n: "\<not> (c = hyphen \<and> hd u = hyphen)" if "u \<noteq> []"
    using that dropWhile_hyphens(2) [of "\<lambda>c. c = hyphen" s] unfolding u_def by (cases "c = hyphen") simp_all
  have e: "collapse (c # s) = c # collapse u" unfolding u_def by (rule collapse.simps(2))
  have i: "single_hyphens (collapse u)" using 2 unfolding u_def .
  show ?case
  proof (cases "u = []")
    case True
    then show ?thesis unfolding e by (simp add: single_hyphens_def)
  next
    case False
    then show ?thesis unfolding e single_hyphens_Cons using n i collapse_Cons [OF False] by simp
  qed
qed

lemma rev_strip: "\<exists>q. s = rev (dropWhile P (rev s)) @ q"
proof -
  have "rev s = takeWhile P (rev s) @ dropWhile P (rev s)" by simp
  then have "s = rev (dropWhile P (rev s)) @ rev (takeWhile P (rev s))" by (metis rev_append rev_rev_ident)
  then show ?thesis ..
qed

lemma strip_hyphens_split: "\<exists>p q. s = p @ strip_hyphens s @ q"
proof -
  have "s = takeWhile (\<lambda>c. c = hyphen) s @ dropWhile (\<lambda>c. c = hyphen) s" by simp
  then show ?thesis
    using rev_strip [of "dropWhile (\<lambda>c. c = hyphen) s" "\<lambda>c. c = hyphen"] unfolding strip_hyphens_def by metis
qed

lemma strip_hyphens_ends:
  assumes "strip_hyphens s \<noteq> []"
  shows "hd (strip_hyphens s) \<noteq> hyphen" "last (strip_hyphens s) \<noteq> hyphen"
proof -
  define u where "u = dropWhile (\<lambda>c. c = hyphen) s"
  have e: "strip_hyphens s = rev (dropWhile (\<lambda>c. c = hyphen) (rev u))" by (simp add: strip_hyphens_def u_def)
  then have l: "dropWhile (\<lambda>c. c = hyphen) (rev u) \<noteq> []" using assms by simp
  then have "hd (dropWhile (\<lambda>c. c = hyphen) (rev u)) \<noteq> hyphen" by (rule hd_dropWhile)
  then show "last (strip_hyphens s) \<noteq> hyphen" using l unfolding e by (simp add: last_rev)
  have "u \<noteq> []" using l by auto
  then have h: "hd u \<noteq> hyphen" unfolding u_def by (rule hd_dropWhile)
  obtain q where "u = strip_hyphens s @ q" using rev_strip [of u] unfolding e by blast
  then have "hd (strip_hyphens s) = hd u" using assms by simp
  then show "hd (strip_hyphens s) \<noteq> hyphen" using h by simp
qed

lemma before_last_hyphen_split:
  "before_last_hyphen t \<noteq> [] \<Longrightarrow> \<exists>q. t = before_last_hyphen t @ hyphen # q"
  "before_last_hyphen t = [] \<Longrightarrow> hyphen \<in> set t \<Longrightarrow> hd t = hyphen"
proof -
  define d where "d = dropWhile (\<lambda>c. c \<noteq> hyphen) (rev t)"
  define w where "w = takeWhile (\<lambda>c. c \<noteq> hyphen) (rev t)"
  have "rev t = w @ d" by (simp add: d_def w_def)
  then have t: "t = rev d @ rev w" by (metis rev_append rev_rev_ident)
  have b: "before_last_hyphen t = rev (drop 1 d)" by (simp add: before_last_hyphen_def d_def)
  have h: "\<exists>d'. d = hyphen # d'" if "d \<noteq> []"
    using that hd_dropWhile [of "\<lambda>c. c \<noteq> hyphen" "rev t"] unfolding d_def by (cases "dropWhile (\<lambda>c. c \<noteq> hyphen) (rev t)") auto
  {
    assume "before_last_hyphen t \<noteq> []"
    then have "d \<noteq> []" unfolding b by auto
    then obtain d' where "d = hyphen # d'" using h by blast
    then show "\<exists>q. t = before_last_hyphen t @ hyphen # q" using t unfolding b by simp
  next
    assume e: "before_last_hyphen t = []" and m: "hyphen \<in> set t"
    have "d \<noteq> []" using m by (auto simp: d_def dropWhile_eq_Nil_conv)
    then obtain d' where "d = hyphen # d'" using h by blast
    then show "hd t = hyphen" using t e unfolding b by simp
  }
qed

lemma slug_parts:
  assumes "slug_alphabet (p @ s @ q)" "single_hyphens (p @ s @ q)"
  shows "slug_alphabet s" "single_hyphens s"
  using assms by (auto simp: slug_alphabet_def single_hyphens_def successively_append_iff)

lemma truncate_wf:
  assumes "slug_alphabet s" "single_hyphens s" "s \<noteq> []" "hd s \<noteq> hyphen" "last s \<noteq> hyphen"
  shows "slug_wf (truncate_slug 80 s)"
proof (cases "80 < length s")
  case False
  then show ?thesis using assms by (simp add: truncate_slug_def slug_wf_def)
next
  case long: True
  let ?t = "take 80 s"
  have t: "?t \<noteq> []" "hd ?t \<noteq> hyphen" "length ?t \<le> 80" using assms(3,4) long by (simp_all add: hd_take)
  have p: "slug_alphabet ?t" "single_hyphens ?t"
    using slug_parts [of "[]" ?t "drop 80 s"] assms(1,2) by simp_all
  show ?thesis
  proof (cases "before_last_hyphen ?t = []")
    case True
    then have "hyphen \<notin> set ?t" using before_last_hyphen_split(2) t(2) by blast
    then have "last ?t \<noteq> hyphen" using t(1) last_in_set by metis
    then show ?thesis using True long t p by (simp add: truncate_slug_def slug_wf_def)
  next
    case False
    let ?b = "before_last_hyphen ?t"
    obtain q where q: "?t = ?b @ hyphen # q" using before_last_hyphen_split(1) [OF False] by blast
    have "slug_alphabet ?b" "single_hyphens ?b"
      using slug_parts [of "[]" ?b "hyphen # q"] p q by simp_all
    moreover have "last ?b \<noteq> hyphen"
    proof -
      have "single_hyphens (?b @ hyphen # q)" using p(2) q by simp
      then show ?thesis using False by (simp add: single_hyphens_def successively_append_iff)
    qed
    moreover have "hd ?b \<noteq> hyphen" using t(2) q False by (metis hd_append2)
    moreover have "length ?b \<le> 80" using t(3) q by (metis append_is_Nil_conv le_trans length_append le_add1)
    ultimately show ?thesis using False long by (simp add: truncate_slug_def slug_wf_def)
  qed
qed

text \<open>
  The vanity slug of any company name is usable as a path segment: between 1 and 80
  characters, lower-case letters, digits and single inner hyphens only.
\<close>

theorem slugify_shape: "slug_wf (slugify nfkd name)"
proof -
  define c where "c = collapse (hyphenate (py_lower (strip_tld (to_ascii (nfkd name)))))"
  have "set c \<subseteq> set (hyphenate (py_lower (strip_tld (to_ascii (nfkd name)))))"
    unfolding c_def by (rule collapse_set)
  then have a: "slug_alphabet c"
    using hyphenate_alphabet [of "py_lower (strip_tld (to_ascii (nfkd name)))"] by (auto simp: slug_alphabet_def)
  have s: "single_hyphens c" unfolding c_def by (rule collapse_single)
  have e: "slugify nfkd name = (if truncate_slug 80 (strip_hyphens c) = [] then ''untitled''
      else truncate_slug 80 (strip_hyphens c))"
    by (simp only: slugify_def c_def Let_def)
  obtain p q where pq: "c = p @ strip_hyphens c @ q" using strip_hyphens_split by blast
  show ?thesis
  proof (cases "strip_hyphens c = []")
    case True
    then have "slugify nfkd name = ''untitled''" unfolding e by (simp add: truncate_slug_def)
    then show ?thesis
      by (simp add: slug_wf_def slug_alphabet_def single_hyphens_def slug_char_def)
  next
    case False
    have "slug_alphabet (strip_hyphens c)" "single_hyphens (strip_hyphens c)"
      using slug_parts [of p "strip_hyphens c" q] a s pq by simp_all
    then have w: "slug_wf (truncate_slug 80 (strip_hyphens c))"
      using False strip_hyphens_ends [OF False] by (intro truncate_wf)
    then have "truncate_slug 80 (strip_hyphens c) \<noteq> []" by (simp add: slug_wf_def)
    then show ?thesis using w unfolding e by simp
  qed
qed

lemma single_hyphens_rest: "single_hyphens (c # s) \<Longrightarrow> single_hyphens s"
  by (cases s) (auto simp: single_hyphens_def)

lemma hyphenate_fixed: "slug_alphabet s \<Longrightarrow> single_hyphens s \<Longrightarrow> hyphenate s = s"
proof (induction s rule: hyphenate.induct)
  case (2 c s)
  show ?case
  proof (cases "slug_char c")
    case True
    with 2 single_hyphens_rest show ?thesis by (auto simp: slug_alphabet_def)
  next
    case False
    then have c: "c = hyphen" using 2(3) by (auto simp: slug_alphabet_def)
    have "dropWhile (\<lambda>c. \<not> slug_char c) s = s"
    proof (cases s)
      case (Cons d t)
      then have "slug_char d" using 2(3,4) c by (auto simp: slug_alphabet_def single_hyphens_def)
      with Cons show ?thesis by simp
    qed simp
    with 2 False c single_hyphens_rest show ?thesis by (auto simp: slug_alphabet_def)
  qed
qed simp

lemma collapse_fixed: "single_hyphens s \<Longrightarrow> collapse s = s"
proof (induction s rule: collapse.induct)
  case (2 c s)
  have "dropWhile (\<lambda>c. c = hyphen) s = s" if "c = hyphen"
    using that 2(2) by (cases s) (auto simp: single_hyphens_def)
  with 2 single_hyphens_rest show ?case by auto
qed simp

lemma slug_char_lower: "slug_char c \<or> c = hyphen \<Longrightarrow> lower_char c = c \<and> (of_char c :: nat) < 128 \<and> c \<noteq> CHR ''.'' \<and> c \<noteq> CHR 0x0A"
  by (auto simp: slug_char_def lower_char_def upper_char_def Let_def)

text \<open>A name that is a slug already is its own slug.\<close>

lemma slugify_fixed:
  assumes "slug_wf s" "nfkd s = s"
  shows "slugify nfkd s = s"
proof -
  have a: "slug_alphabet s" "single_hyphens s" "s \<noteq> []" "length s \<le> 80" "hd s \<noteq> hyphen" "last s \<noteq> hyphen"
    using assms(1) by (simp_all add: slug_wf_def)
  have c: "lower_char c = c \<and> (of_char c :: nat) < 128 \<and> c \<noteq> CHR ''.'' \<and> c \<noteq> CHR 0x0A" if "c \<in> set s" for c
    using a(1) that slug_char_lower unfolding slug_alphabet_def by blast
  have "to_ascii s = s" using c by (simp add: to_ascii_def)
  moreover have "strip_tld s = s" using c [OF last_in_set [OF a(3)]] c by (auto simp: strip_tld_def strip_suffix_def Let_def)
  moreover have "py_lower s = s" using c by (simp add: py_lower_def map_idI)
  moreover have "strip_hyphens s = s"
  proof -
    have "dropWhile (\<lambda>c. c = hyphen) s = s" using a(3,5) by (cases s) auto
    moreover have "dropWhile (\<lambda>c. c = hyphen) (rev s) = rev s" using a(3,6) by (cases s rule: rev_cases) auto
    ultimately show ?thesis by (simp add: strip_hyphens_def)
  qed
  ultimately show ?thesis
    using a assms(2) by (simp add: slugify_def hyphenate_fixed collapse_fixed truncate_slug_def)
qed
section \<open>Saving\<close>

text \<open>
  Saving keeps the slugs of a user distinct, hands out a fresh identifier, and the document
  can be read back by its owner with the scores and the name it was saved with.
\<close>

theorem save_document_unique:
  assumes "docs_wf d" "save_document nfkd uid doc d = Inr (d', i)"
  shows "docs_wf d' \<and> get_document i uid d = None \<and>
    (\<exists>r. get_document i uid d' = Some r \<and> dr_name r = dr_name doc \<and> dr_pain r = dr_pain doc \<and>
       dr_opportunity r = dr_opportunity doc \<and> \<not> slug_taken uid (dc_slug r) d)"
proof -
  obtain slug where s: "d' = insert_document uid doc slug d" "i = dt_next d" "\<not> slug_taken uid slug d"
    using assms(2) by (auto simp: save_document_def split: option.splits dest!: try_slugs_Some)
  have f: "find (\<lambda>r. dc_id r = dt_next d \<and> dc_user r = uid) (dt_rows d) = None"
    using assms(1) by (auto simp: docs_wf_def serial_def find_None_iff)
  have "docs_wf d'" using docs_wf_insert [OF assms(1) s(3)] by (simp add: s(1))
  then show ?thesis using f s by (simp add: get_document_def insert_document_def find_append)
qed

lemma slug_candidate_inj: "slug_candidate base j = slug_candidate base k \<Longrightarrow> 1 \<le> j \<Longrightarrow> 1 \<le> k \<Longrightarrow> j = k"
  using str_nat_inj by (auto simp: slug_candidate_def split: if_splits)

lemma try_slugs_first:
  assumes "\<And>k. k \<in> set ks \<Longrightarrow> slug_taken uid (slug_candidate base k) d"
    and "\<not> slug_taken uid (slug_candidate base k) d"
  shows "try_slugs uid doc base (ks @ k # ms) d = Some (insert_document uid doc (slug_candidate base k) d, dt_next d)"
  using assms by (induction ks) auto

text \<open>The same company researched again and again by one user\<close>

fun save_times :: "nat \<Rightarrow> (string \<Rightarrow> string) \<Rightarrow> int \<Rightarrow> draft \<Rightarrow> doc_db \<Rightarrow> string + doc_db" where
  "save_times 0 nfkd uid doc d = Inr d"
| "save_times (Suc n) nfkd uid doc d = (case save_times n nfkd uid doc d of
     Inl e \<Rightarrow> Inl e
   | Inr d1 \<Rightarrow> (case save_document nfkd uid doc d1 of Inl e \<Rightarrow> Inl e | Inr (d2, i) \<Rightarrow> Inr d2))"

lemma save_times_fills:
  assumes "\<And>k. 1 \<le> k \<Longrightarrow> k < 20 \<Longrightarrow> \<not> slug_taken uid (slug_candidate (slugify nfkd (dr_name doc)) k) d"
    and "n \<le> 19"
  shows "\<exists>d'. save_times n nfkd uid doc d = Inr d' \<and> (\<forall>k. 1 \<le> k \<longrightarrow> k < 20 \<longrightarrow>
    (slug_taken uid (slug_candidate (slugify nfkd (dr_name doc)) k) d' \<longleftrightarrow> k \<le> n)) \<and>
    map dc_slug (dt_rows d') = map dc_slug (dt_rows d) @ map (slug_candidate (slugify nfkd (dr_name doc))) [1..<Suc n]"
  using assms(2)
proof (induction n)
  case 0
  then show ?case using assms(1) by simp
next
  case (Suc n)
  let ?b = "slugify nfkd (dr_name doc)"
  obtain d1 where d1: "save_times n nfkd uid doc d = Inr d1"
    "\<And>k. 1 \<le> k \<Longrightarrow> k < 20 \<Longrightarrow> slug_taken uid (slug_candidate ?b k) d1 \<longleftrightarrow> k \<le> n"
    "map dc_slug (dt_rows d1) = map dc_slug (dt_rows d) @ map (slug_candidate ?b) [1..<Suc n]"
    using Suc by auto
  have u: "[1..<20] = [1..<Suc n] @ Suc n # [Suc (Suc n)..<20]"
    using Suc.prems upt_add_eq_append [of 1 "Suc n" "19 - n"] upt_conv_Cons [of "Suc n" 20] by simp
  have "try_slugs uid doc ?b [1..<20] d1 = Some (insert_document uid doc (slug_candidate ?b (Suc n)) d1, dt_next d1)"
    unfolding u
  proof (rule try_slugs_first)
    show "slug_taken uid (slug_candidate ?b k) d1" if "k \<in> set [1..<Suc n]" for k
      using d1(2) [of k] that Suc.prems by auto
    show "\<not> slug_taken uid (slug_candidate ?b (Suc n)) d1" using d1(2) [of "Suc n"] Suc.prems by simp
  qed
  then have s: "save_times (Suc n) nfkd uid doc d = Inr (insert_document uid doc (slug_candidate ?b (Suc n)) d1)"
    using d1(1) by (simp add: save_document_def)
  have "slug_taken uid (slug_candidate ?b k) (insert_document uid doc (slug_candidate ?b (Suc n)) d1) \<longleftrightarrow> k \<le> Suc n"
    if k: "1 \<le> k" "k < 20" for k
  proof (cases "k = Suc n")
    case False
    then have "slug_candidate ?b k \<noteq> slug_candidate ?b (Suc n)" using slug_candidate_inj k by auto
    then show ?thesis using d1(2) [OF k] False by (simp add: le_Suc_eq)
  qed simp
  moreover have "map dc_slug (dt_rows (insert_document uid doc (slug_candidate ?b (Suc n)) d1)) =
      map dc_slug (dt_rows d) @ map (slug_candidate ?b) [1..<Suc (Suc n)]"
    using d1(3) by (simp add: insert_document_def)
  ultimately show ?case using s by blast
qed

text \<open>
  The suffixes run out: a user can research a company nineteen times, the twentieth time the
  document cannot be saved and the whole research fails, on every later attempt too.
\<close>

lemma twentieth_document_fails:
  assumes "\<not> list_ex (\<lambda>k. slug_taken uid (slug_candidate (slugify nfkd (dr_name doc)) k) d) [1..<20]"
  shows "(\<exists>d'. save_times 19 nfkd uid doc d = Inr d') \<and> (\<exists>e. save_times 20 nfkd uid doc d = Inl e)"
proof -
  have free: "\<not> slug_taken uid (slug_candidate (slugify nfkd (dr_name doc)) k) d" if "1 \<le> k" "k < 20" for k
    using assms that by (auto simp: list_ex_iff)
  obtain d' where d': "save_times 19 nfkd uid doc d = Inr d'"
    "\<And>k. 1 \<le> k \<Longrightarrow> k < 20 \<Longrightarrow> slug_taken uid (slug_candidate (slugify nfkd (dr_name doc)) k) d'"
    using save_times_fills [OF free, of 19] by auto
  have "try_slugs uid doc (slugify nfkd (dr_name doc)) [1..<20] d' = None"
    using d'(2) unfolding try_slugs_None by simp
  then obtain e where e: "save_document nfkd uid doc d' = Inl e" by (simp add: save_document_def)
  have "save_times (Suc 19) nfkd uid doc d = Inl e"
    by (simp only: save_times.simps(2) d'(1) e sum.case)
  moreover have "Suc 19 = 20" by simp
  ultimately show ?thesis using d'(1) by metis
qed

text \<open>
  C17: a company that a user researches again and again gets the slug made of its name, then the same
  with the suffixes 2 to 19, in this order; the twentieth document cannot be saved. The slug is safe in a URL: 1 to 80
  characters, lower case letters and digits in groups separated by single hyphens; a name of this form is its own slug.
\<close>

theorem repeated_research_slugs:
  assumes "list_all (\<lambda>s. \<not> slug_taken uid s d)
      (slugify nfkd (dr_name doc) # map (\<lambda>k. slugify nfkd (dr_name doc) @ ''-'' @ str_nat k) [2..<20])"
  shows "(\<exists>d'. save_times 19 nfkd uid doc d = Inr d' \<and> map dc_slug (dt_rows d') = map dc_slug (dt_rows d) @
      slugify nfkd (dr_name doc) # map (\<lambda>k. slugify nfkd (dr_name doc) @ ''-'' @ str_nat k) [2..<20]) \<and>
    (\<exists>e. save_times 20 nfkd uid doc d = Inl e) \<and> slug_wf (slugify nfkd (dr_name doc)) \<and>
    (if slug_wf (dr_name doc) \<and> nfkd (dr_name doc) = dr_name doc then slugify nfkd (dr_name doc) = dr_name doc else True)"
proof -
  let ?b = "slugify nfkd (dr_name doc)"
  have c: "map (slug_candidate ?b) [1..<20] = ?b # map (\<lambda>k. ?b @ ''-'' @ str_nat k) [2..<20]"
  proof -
    have "[1..<20 :: nat] = 1 # [2..<20]" by (simp add: upt_rec)
    then show ?thesis by (simp add: slug_candidate_def)
  qed
  then have l: "list_all (\<lambda>s. \<not> slug_taken uid s d) (map (slug_candidate ?b) [1..<20])" using assms by metis
  then have free: "\<not> slug_taken uid (slug_candidate ?b k) d" if "1 \<le> k" "k < 20" for k
    using that by (auto simp: list_all_iff)
  obtain d' where d': "save_times 19 nfkd uid doc d = Inr d'"
    "map dc_slug (dt_rows d') = map dc_slug (dt_rows d) @ map (slug_candidate ?b) [1..<Suc 19]"
    using save_times_fills [OF free, of 19] by auto
  have "Suc 19 = 20" by simp
  with d'(2) c have "map dc_slug (dt_rows d') = map dc_slug (dt_rows d) @ ?b # map (\<lambda>k. ?b @ ''-'' @ str_nat k) [2..<20]"
    by metis
  moreover have "\<not> list_ex (\<lambda>k. slug_taken uid (slug_candidate ?b k) d) [1..<20]" using free by (auto simp: list_ex_iff)
  ultimately show ?thesis using d'(1) twentieth_document_fails [of uid nfkd doc d] slugify_shape slugify_fixed by auto
qed

definition acme_draft :: draft where
  "acme_draft = \<lparr>dr_text = (\<lambda>c. None), dr_url = ''https://acme.com'', dr_name = ''Acme'', dr_created = 0, dr_opportunity = Some 70,
     dr_pain = Some 80, dr_fit = Some 60, dr_timing = None\<rparr>"

lemma twentieth_document_fails_witness:
  "dt_rows no_docs = [] \<and> (\<exists>d'. save_times 19 id 1 acme_draft no_docs = Inr d') \<and>
   (\<exists>e. save_times 20 id 1 acme_draft no_docs = Inl e)"
proof -
  have "\<not> list_ex (\<lambda>k. slug_taken 1 (slug_candidate (slugify id (dr_name acme_draft)) k) no_docs) [1..<20]"
    by (simp add: list_ex_iff slug_taken_def no_docs_def)
  then show ?thesis using twentieth_document_fails by (simp add: no_docs_def)
qed

lemma save_document_unique_witness:
  "\<exists>d' i. save_document id 1 acme_draft no_docs = Inr (d', i) \<and> docs_wf no_docs \<and> docs_wf d' \<and>
    get_document i 1 no_docs = None \<and> (\<exists>r. get_document i 1 d' = Some r \<and> dr_name r = ''Acme'')"
proof -
  have w: "docs_wf no_docs" by (simp add: docs_wf_def no_docs_def)
  have "[1..<20] = 1 # [2..<20]" by (simp add: upt_rec)
  then obtain d' i where s: "save_document id 1 acme_draft no_docs = Inr (d', i)"
    by (simp add: save_document_def slug_taken_def no_docs_def)
  show ?thesis using save_document_unique [OF w s] s w by (auto simp: acme_draft_def)
qed

theorem repeated_research_slugs_witness:
  "\<exists>d'. save_times 19 id 1 acme_draft no_docs = Inr d' \<and> length (dt_rows d') = 19 \<and>
     dc_slug (hd (dt_rows d')) = slugify id ''Acme''"
proof -
  have "list_all (\<lambda>s. \<not> slug_taken 1 s no_docs)
      (slugify id (dr_name acme_draft) # map (\<lambda>k. slugify id (dr_name acme_draft) @ ''-'' @ str_nat k) [2..<20])"
    by (simp add: slug_taken_def no_docs_def list_all_iff)
  from repeated_research_slugs [OF this] obtain d' where d': "save_times 19 id 1 acme_draft no_docs = Inr d'"
    "map dc_slug (dt_rows d') = slugify id ''Acme'' # map (\<lambda>k. slugify id ''Acme'' @ ''-'' @ str_nat k) [2..<20]"
    by (auto simp: no_docs_def acme_draft_def)
  from arg_cong [OF d'(2), of length] arg_cong [OF d'(2), of hd] d'(1) show ?thesis by (cases "dt_rows d'") auto
qed

end
