(* ===== verification/Automation.thy ===== *)
theory Automation
  imports Account_Lists Documents Task_Queue
begin

text \<open>
  Automation rules: the tables of \<open>db/automation.py\<close>, the rule engine of
  \<open>services/automation.py\<close>, and the two batch actions of \<open>api/jobs.py\<close> it can start. The
  services the actions call are parameters: the contacts found per account, the
  sequences written per account, the notification channel. The contacts and drafts themselves
  are not kept in the model.
\<close>

section \<open>Rules and runs\<close>

record rule_row =
  ar_id :: int
  ar_user :: int
  ar_name :: string
  ar_trigger :: string
  ar_conditions :: "(string \<times> json) list"
  ar_action :: string
  ar_config :: "(string \<times> json) list"
  ar_enabled :: bool
  ar_created :: time

record run_row =
  rn_id :: int
  rn_rule :: int
  rn_user :: int
  rn_list :: int
  rn_matched :: int
  rn_status :: string
  rn_error :: "string option"
  rn_created :: time
  rn_completed :: "time option"

record rule_db =
  rd_rules :: "rule_row list"
  rd_runs :: "run_row list"
  rd_next_rule :: int
  rd_next_run :: int

definition create_automation_rule ::
    "time \<Rightarrow> int \<Rightarrow> string \<Rightarrow> string \<Rightarrow> (string \<times> json) list \<Rightarrow> string \<Rightarrow> (string \<times> json) list \<Rightarrow> rule_db \<Rightarrow>
     rule_db \<times> rule_row" where
  "create_automation_rule now uid name trigger conditions action config d =
     (let r = \<lparr>ar_id = rd_next_rule d, ar_user = uid, ar_name = name, ar_trigger = trigger,
            ar_conditions = conditions, ar_action = action, ar_config = config, ar_enabled = True,
            ar_created = now\<rparr>
      in (d\<lparr>rd_rules := rd_rules d @ [r], rd_next_rule := rd_next_rule d + 1\<rparr>, r))"

definition get_automation_rules :: "int \<Rightarrow> rule_db \<Rightarrow> rule_row list" where
  "get_automation_rules uid d = sort_key (\<lambda>r. - ar_created r) (filter (\<lambda>r. ar_user r = uid) (rd_rules d))"

text \<open>The fields of an update; \<open>None\<close> is a field that is missing or null.\<close>

record rule_fields =
  rf_name :: "string option"
  rf_trigger :: "string option"
  rf_conditions :: "(string \<times> json) list option"
  rf_action :: "string option"
  rf_config :: "(string \<times> json) list option"
  rf_enabled :: "bool option"

definition set_fields :: "rule_fields \<Rightarrow> rule_row \<Rightarrow> rule_row" where
  "set_fields f r = r\<lparr>ar_name := coalesce (rf_name f) (ar_name r), ar_trigger := coalesce (rf_trigger f) (ar_trigger r),
     ar_conditions := coalesce (rf_conditions f) (ar_conditions r), ar_action := coalesce (rf_action f) (ar_action r),
     ar_config := coalesce (rf_config f) (ar_config r), ar_enabled := coalesce (rf_enabled f) (ar_enabled r)\<rparr>"

definition no_fields :: "rule_fields \<Rightarrow> bool" where
  "no_fields f \<longleftrightarrow> rf_name f = None \<and> rf_trigger f = None \<and> rf_conditions f = None \<and> rf_action f = None \<and>
     rf_config f = None \<and> rf_enabled f = None"

definition update_automation_rule :: "int \<Rightarrow> int \<Rightarrow> rule_fields \<Rightarrow> rule_db \<Rightarrow> rule_db \<times> rule_row option" where
  "update_automation_rule i uid f d = (if no_fields f then (d, None)
     else (let P = (\<lambda>r. ar_id r = i \<and> ar_user r = uid) in
       (d\<lparr>rd_rules := update_where P (set_fields f) (rd_rules d)\<rparr>,
        map_option (set_fields f) (find P (rd_rules d)))))"

definition delete_automation_rule :: "int \<Rightarrow> int \<Rightarrow> rule_db \<Rightarrow> rule_db \<times> bool" where
  "delete_automation_rule i uid d = (let P = (\<lambda>r. ar_id r = i \<and> ar_user r = uid) in
     (d\<lparr>rd_rules := filter (\<lambda>r. \<not> P r) (rd_rules d),
        rd_runs := filter (\<lambda>n. \<not> (rn_rule n = i \<and> list_ex P (rd_rules d))) (rd_runs d)\<rparr>,
      count_where P (rd_rules d) = 1))"

definition get_enabled_rules :: "int \<Rightarrow> string \<Rightarrow> rule_db \<Rightarrow> rule_row list" where
  "get_enabled_rules uid trigger d = sort_key ar_id
     (filter (\<lambda>r. ar_user r = uid \<and> ar_trigger r = trigger \<and> ar_enabled r) (rd_rules d))"

definition create_automation_run :: "time \<Rightarrow> int \<Rightarrow> int \<Rightarrow> int \<Rightarrow> int \<Rightarrow> rule_db \<Rightarrow> rule_db \<times> run_row" where
  "create_automation_run now rule uid lid n d =
     (let r = \<lparr>rn_id = rd_next_run d, rn_rule = rule, rn_user = uid, rn_list = lid, rn_matched = n,
            rn_status = ''running'', rn_error = None, rn_created = now, rn_completed = None\<rparr>
      in (d\<lparr>rd_runs := rd_runs d @ [r], rd_next_run := rd_next_run d + 1\<rparr>, r))"

definition complete_automation_run :: "time \<Rightarrow> int \<Rightarrow> string \<Rightarrow> string option \<Rightarrow> rule_db \<Rightarrow> rule_db" where
  "complete_automation_run now i status error d = d\<lparr>rd_runs := update_where (\<lambda>r. rn_id r = i)
     (\<lambda>r. r\<lparr>rn_status := status, rn_error := error, rn_completed := Some now\<rparr>) (rd_runs d)\<rparr>"

definition get_automation_runs :: "int \<Rightarrow> int option \<Rightarrow> nat \<Rightarrow> rule_db \<Rightarrow> run_row list" where
  "get_automation_runs uid rule limit d = take limit (sort_key (\<lambda>r. - rn_created r)
     (filter (\<lambda>r. rn_user r = uid \<and> (case rule of None \<Rightarrow> True | Some i \<Rightarrow> i = 0 \<or> rn_rule r = i) \<and>
        list_ex (\<lambda>u. ar_id u = rn_rule r) (rd_rules d)) (rd_runs d)))"

section \<open>Conditions\<close>

definition threshold_score :: "string \<Rightarrow> scored_account \<Rightarrow> int option option" where
  "threshold_score key a = (if key = ''composite_score_gte'' then Some (sa_composite a)
     else if key = ''pain_score_gte'' then Some (sa_pain a)
     else if key = ''fit_score_gte'' then Some (sa_fit a)
     else if key = ''timing_score_gte'' then Some (sa_timing a) else None)"

text \<open>One condition on one account; \<open>None\<close>: comparing with something that is not a number raises.\<close>

definition meets :: "scored_account \<Rightarrow> string \<times> json \<Rightarrow> bool option" where
  "meets a c = (case threshold_score (fst c) a of
     None \<Rightarrow> Some True
   | Some s \<Rightarrow> (case snd c of
       JInt v \<Rightarrow> Some (v \<le> coalesce s 0)
     | JBool b \<Rightarrow> Some ((if b then 1 else 0) \<le> coalesce s 0)
     | _ \<Rightarrow> None))"

fun meets_all :: "scored_account \<Rightarrow> (string \<times> json) list \<Rightarrow> bool option" where
  "meets_all a [] = Some True"
| "meets_all a (c # cs) = (case meets a c of None \<Rightarrow> None
     | Some b \<Rightarrow> map_option (\<lambda>b'. b \<and> b') (meets_all a cs))"

fun filter_by_conditions :: "scored_account list \<Rightarrow> (string \<times> json) list \<Rightarrow> scored_account list option" where
  "filter_by_conditions [] cs = Some []"
| "filter_by_conditions (a # as) cs =
     (if sa_status a \<noteq> ''completed'' then filter_by_conditions as cs
      else (case meets_all a cs of None \<Rightarrow> None
        | Some b \<Rightarrow> map_option (\<lambda>r. if b then a # r else r) (filter_by_conditions as cs)))"

section \<open>Batch actions\<close>

text \<open>
  What the outside answers: the number of contacts found for an account, whether its sequence
  was written, whether the notification went out (\<open>Some e\<close>: no channel or an error).
\<close>

record action_world =
  aw_rank :: "string \<Rightarrow> int"
  aw_enrich :: "int \<Rightarrow> string + nat"
  aw_write :: "int \<Rightarrow> bool"
  aw_notify :: "string option"

definition any_filter :: account_filter where
  "any_filter = \<lparr>fl_min_pain = None, fl_min_composite = None, fl_status = None, fl_ids = None\<rparr>"

definition batch_accounts :: "(string \<Rightarrow> int) \<Rightarrow> int \<Rightarrow> int list option \<Rightarrow> list_db \<Rightarrow> account_row list" where
  "batch_accounts rank lid ids d =
     (case get_list_accounts rank lid any_filter ''composite_score'' ''desc'' 10000 None d of
        Inl e \<Rightarrow> []
      | Inr (rows, has_more) \<Rightarrow> filter (\<lambda>r. la_status r = ChildCompleted \<and>
          (case ids of None \<Rightarrow> True | Some is \<Rightarrow> is = [] \<or> la_id r \<in> set is)) rows)"

definition enrich_account :: "action_world \<Rightarrow> account_row \<Rightarrow> list_db \<Rightarrow> list_db" where
  "enrich_account w r d =
     (let d1 = update_list_account_enrichment (la_id r) ''pending'' None d
      in if la_url r = [] then update_list_account_enrichment (la_id r) ''failed'' (Some ''No company URL'') d1
         else (case aw_enrich w (la_id r) of
           Inl e \<Rightarrow> update_list_account_enrichment (la_id r) ''failed'' (Some (take 500 e)) d1
         | Inr n \<Rightarrow> update_list_account_enrichment (la_id r) ''completed'' None d1))"

definition run_batch_enrich :: "action_world \<Rightarrow> int \<Rightarrow> int list option \<Rightarrow> list_db \<Rightarrow> list_db" where
  "run_batch_enrich w lid ids d = fold (enrich_account w) (batch_accounts (aw_rank w) lid ids d) d"

definition write_account :: "action_world \<Rightarrow> int \<Rightarrow> doc_db \<Rightarrow> account_row \<Rightarrow> list_db \<Rightarrow> list_db" where
  "write_account w uid docs r d =
     (let d1 = update_list_account_outreach (la_id r) ''pending'' d
      in case la_document r of
           None \<Rightarrow> d1
         | Some doc \<Rightarrow> (case get_document doc uid docs of
             None \<Rightarrow> update_list_account_outreach (la_id r) ''failed'' d1
           | Some x \<Rightarrow> update_list_account_outreach (la_id r)
               (if aw_write w (la_id r) then ''completed'' else ''failed'') d1))"

definition run_batch_write_sequences ::
    "action_world \<Rightarrow> int \<Rightarrow> int \<Rightarrow> int list option \<Rightarrow> accounts \<Rightarrow> doc_db \<Rightarrow> list_db \<Rightarrow> list_db" where
  "run_batch_write_sequences w lid uid ids a docs d = (if user_of a uid = None then d
     else fold (write_account w uid docs)
       (filter (\<lambda>r. la_document r \<noteq> None) (batch_accounts (aw_rank w) lid ids d)) d)"

section \<open>The engine\<close>

definition deprecated :: "(string \<times> string) list" where
  "deprecated = [(''push_instantly'', ''Instantly integration has been deprecated''),
     (''push_smartlead'', ''Smartlead integration has been deprecated''),
     (''push_outreach'', ''Outreach integration has been deprecated''),
     (''push_salesloft'', ''SalesLoft integration has been deprecated'')]"

text \<open>The lists after the action, and how the run ends.\<close>

definition perform ::
    "action_world \<Rightarrow> rule_row \<Rightarrow> int \<Rightarrow> int \<Rightarrow> scored_account list \<Rightarrow> accounts \<Rightarrow> doc_db \<Rightarrow> list_db \<Rightarrow>
     list_db \<times> string \<times> string option" where
  "perform w rule uid lid matching a docs d =
     (case map_of deprecated (ar_action rule) of
        Some e \<Rightarrow> (d, ''failed'', Some e)
      | None \<Rightarrow>
          if ar_action rule = ''enrich_contacts'' then
            (run_batch_enrich w lid (Some (map sa_id matching)) d, ''completed'', None)
          else if ar_action rule = ''write_sequences'' then
            (run_batch_write_sequences w lid uid (Some (map sa_id matching)) a docs d, ''completed'', None)
          else if ar_action rule = ''notify_slack'' then
            (d, case aw_notify w of None \<Rightarrow> (''completed'', None) | Some e \<Rightarrow> (''failed'', Some (take 500 e)))
          else (d, ''failed'', Some (''Unknown action: '' @ ar_action rule)))"

definition execute_action ::
    "action_world \<Rightarrow> time \<Rightarrow> rule_row \<Rightarrow> int \<Rightarrow> int \<Rightarrow> scored_account list \<Rightarrow> accounts \<Rightarrow> doc_db \<Rightarrow>
     rule_db \<times> list_db \<Rightarrow> rule_db \<times> list_db" where
  "execute_action w now rule uid lid matching a docs s =
     (case create_automation_run now (ar_id rule) uid lid (int (length matching)) (fst s) of
        (d1, run) \<Rightarrow> (case perform w rule uid lid matching a docs (snd s) of
          (l, status, error) \<Rightarrow> (complete_automation_run now (rn_id run) status error d1, l)))"

text \<open>An exception ends the loop; what earlier rules did stays.\<close>

fun apply_rules ::
    "action_world \<Rightarrow> time \<Rightarrow> int \<Rightarrow> int \<Rightarrow> scored_account list \<Rightarrow> accounts \<Rightarrow> doc_db \<Rightarrow> rule_row list \<Rightarrow>
     rule_db \<times> list_db \<Rightarrow> rule_db \<times> list_db" where
  "apply_rules w now uid lid as a docs [] s = s"
| "apply_rules w now uid lid as a docs (r # rs) s =
     (case filter_by_conditions as (ar_conditions r) of
        None \<Rightarrow> s
      | Some m \<Rightarrow> apply_rules w now uid lid as a docs rs
          (if m = [] then s else execute_action w now r uid lid m a docs s))"

definition evaluate_rules ::
    "action_world \<Rightarrow> time \<Rightarrow> int \<Rightarrow> string \<Rightarrow> int \<Rightarrow> scored_account list \<Rightarrow> accounts \<Rightarrow> doc_db \<Rightarrow>
     rule_db \<times> list_db \<Rightarrow> rule_db \<times> list_db" where
  "evaluate_rules w now uid trigger lid as a docs s =
     apply_rules w now uid lid as a docs (get_enabled_rules uid trigger (fst s)) s"

section \<open>What rules select\<close>

definition numeric :: "(string \<times> json) list \<Rightarrow> bool" where
  "numeric cs = list_all (\<lambda>c. case snd c of JInt v \<Rightarrow> True | _ \<Rightarrow> False) cs"

definition passes_threshold :: "scored_account \<Rightarrow> string \<times> json \<Rightarrow> bool" where
  "passes_threshold a c = (case threshold_score (fst c) a of None \<Rightarrow> True
     | Some s \<Rightarrow> (case snd c of JInt v \<Rightarrow> v \<le> coalesce s 0 | _ \<Rightarrow> False))"

lemma meets_all_numeric: "numeric cs \<Longrightarrow> meets_all a cs = Some (list_all (passes_threshold a) cs)"
proof (induction cs)
  case (Cons c cs)
  obtain k v where c: "c = (k, JInt v)" using Cons.prems by (cases c) (auto simp: numeric_def split: json.splits)
  have "meets a c = Some (passes_threshold a c)"
    unfolding c by (simp add: meets_def passes_threshold_def split: option.split)
  moreover have "numeric cs" using Cons.prems by (simp add: numeric_def)
  ultimately show ?case using Cons.IH by simp
qed simp

text \<open>
  A rule with numeric thresholds acts on exactly the completed accounts whose scores reach
  all of them, an account without a score counting as zero; conditions the engine does not know
  are ignored.
\<close>

theorem rule_selects_thresholds:
  assumes "numeric cs"
  shows "filter_by_conditions as cs =
    Some (filter (\<lambda>a. sa_status a = ''completed'' \<and> list_all (passes_threshold a) cs) as)"
  by (induction as) (simp_all add: meets_all_numeric [OF assms])

section \<open>What runs record\<close>

definition rules_wf :: "rule_db \<Rightarrow> bool" where
  "rules_wf d \<longleftrightarrow> serial ar_id (rd_next_rule d) (rd_rules d) \<and> serial rn_id (rd_next_run d) (rd_runs d)"

definition settled_run :: "time \<Rightarrow> rule_row \<Rightarrow> run_row \<Rightarrow> bool" where
  "settled_run now r n \<longleftrightarrow> rn_rule n = ar_id r \<and> rn_status n \<in> {''completed'', ''failed''} \<and>
     rn_completed n = Some now \<and> 0 < rn_matched n \<and>
     (map_of deprecated (ar_action r) \<noteq> None \<longrightarrow> rn_status n = ''failed'')"

lemma perform_status:
  assumes "perform w r uid lid m a docs l = (l', st, e)"
  shows "st \<in> {''completed'', ''failed''} \<and> (map_of deprecated (ar_action r) \<noteq> None \<longrightarrow> st = ''failed'')"
  using assms by (auto simp: perform_def split: option.splits if_splits)

lemma execute_action_run:
  assumes "rules_wf (fst s)" "m \<noteq> []" "execute_action w now r uid lid m a docs s = s'"
  shows "rules_wf (fst s') \<and> rd_rules (fst s') = rd_rules (fst s) \<and>
    (\<exists>n. rd_runs (fst s') = rd_runs (fst s) @ [n] \<and> settled_run now r n \<and> rn_user n = uid)"
proof -
  obtain d l where s: "s = (d, l)" by (cases s)
  obtain l' st e where p: "perform w r uid lid m a docs l = (l', st, e)" by (cases "perform w r uid lid m a docs l")
  let ?n = "\<lparr>rn_id = rd_next_run d, rn_rule = ar_id r, rn_user = uid, rn_list = lid,
      rn_matched = int (length m), rn_status = st, rn_error = e, rn_created = now, rn_completed = Some now\<rparr>"
  have old: "update_where (\<lambda>r. rn_id r = rd_next_run d) f (rd_runs d) = rd_runs d" for f
    using assms(1) s by (intro update_where_id) (auto simp: rules_wf_def serial_def)
  have s': "s' = (d\<lparr>rd_runs := rd_runs d @ [?n], rd_next_run := rd_next_run d + 1\<rparr>, l')"
    using assms(3) [symmetric] by (simp add: s p execute_action_def create_automation_run_def complete_automation_run_def Let_def old)
  have "settled_run now r ?n" using perform_status [OF p] assms(2) by (simp add: settled_run_def)
  then show ?thesis using assms(1) unfolding s' s by (simp add: rules_wf_def serial_snoc)
qed

lemma apply_rules_runs:
  assumes "rules_wf (fst s)"
  shows "rules_wf (fst (apply_rules w now uid lid as a docs rs s)) \<and>
    (\<exists>new rs'. rd_runs (fst (apply_rules w now uid lid as a docs rs s)) = rd_runs (fst s) @ new \<and>
       subseq rs' rs \<and> list_all2 (settled_run now) rs' new \<and> list_all (\<lambda>n. rn_user n = uid) new)"
  using assms
proof (induction rs arbitrary: s)
  case Nil
  have "list_all2 (settled_run now) [] []" by simp
  then show ?case using Nil by fastforce
next
  case (Cons r rs)
  show ?case
  proof (cases "filter_by_conditions as (ar_conditions r)")
    case None
    have "subseq [] (r # rs)" "list_all2 (settled_run now) [] []" by simp_all
    then show ?thesis using None Cons.prems by fastforce
  next
    case (Some m)
    define s1 where "s1 = (if m = [] then s else execute_action w now r uid lid m a docs s)"
    have e: "apply_rules w now uid lid as a docs (r # rs) s = apply_rules w now uid lid as a docs rs s1"
      by (simp add: Some s1_def)
    have s1: "rules_wf (fst s1)" "\<exists>n. rd_runs (fst s1) = rd_runs (fst s) @ n \<and>
        (n = [] \<or> (\<exists>x. n = [x] \<and> settled_run now r x \<and> rn_user x = uid))"
      using execute_action_run [OF Cons.prems, of m] Cons.prems unfolding s1_def by (cases "m = []"; fastforce)+
    then obtain n where n: "rd_runs (fst s1) = rd_runs (fst s) @ n"
      "n = [] \<or> (\<exists>x. n = [x] \<and> settled_run now r x \<and> rn_user x = uid)" by blast
    obtain new rs' where ih: "rules_wf (fst (apply_rules w now uid lid as a docs rs s1))"
      "rd_runs (fst (apply_rules w now uid lid as a docs rs s1)) = rd_runs (fst s1) @ new"
      "subseq rs' rs" "list_all2 (settled_run now) rs' new" "list_all (\<lambda>n. rn_user n = uid) new"
      using Cons.IH [OF s1(1)] by blast
    let ?rs = "(if n = [] then [] else [r]) @ rs'"
    have "subseq ?rs (r # rs)" using ih(3) by auto
    moreover have "list_all2 (settled_run now) ?rs (n @ new)" "list_all (\<lambda>n. rn_user n = uid) (n @ new)"
      using n(2) ih(4,5) by auto
    ultimately show ?thesis unfolding e using ih(1,2) n(1) by (metis append.assoc)
  qed
qed

text \<open>
  Evaluating the rules of an event appends one audit run per rule that acted, in the order
  of the rules, each rule at most once and only enabled rules of that user and event; no run
  is left unfinished, and a deprecated push always ends as failed.
\<close>

theorem automation_runs_settle:
  assumes "rules_wf (fst s)"
  shows "rules_wf (fst (evaluate_rules w now uid trigger lid as a docs s)) \<and>
    (\<exists>new rs. rd_runs (fst (evaluate_rules w now uid trigger lid as a docs s)) = rd_runs (fst s) @ new \<and>
       subseq rs (get_enabled_rules uid trigger (fst s)) \<and> list_all2 (settled_run now) rs new \<and>
       list_all (\<lambda>n. rn_user n = uid) new)"
  unfolding evaluate_rules_def using assms by (rule apply_rules_runs)

definition two_rules :: rule_db where
  "two_rules = \<lparr>rd_rules = [
     \<lparr>ar_id = 1, ar_user = 1, ar_name = ''Push'', ar_trigger = ''account_scored'',
      ar_conditions = [(''pain_score_gte'', JInt 70)], ar_action = ''push_outreach'', ar_config = [],
      ar_enabled = True, ar_created = 0\<rparr>,
     \<lparr>ar_id = 2, ar_user = 1, ar_name = ''Enrich'', ar_trigger = ''account_scored'',
      ar_conditions = [], ar_action = ''enrich_contacts'', ar_config = [],
      ar_enabled = True, ar_created = 0\<rparr>],
     rd_runs = [], rd_next_rule = 3, rd_next_run = 1\<rparr>"

definition scored_acme :: scored_account where
  "scored_acme = \<lparr>sa_id = 4, sa_status = ''completed'', sa_document = Some 9, sa_pain = Some 80,
     sa_fit = None, sa_timing = None, sa_composite = Some 60, sa_name = Some ''Acme''\<rparr>"

lemma rule_selects_thresholds_witness:
  "numeric [(''pain_score_gte'', JInt 70), (''fit_score_gte'', JInt 1)] \<and>
   filter_by_conditions [scored_acme] [(''pain_score_gte'', JInt 70), (''fit_score_gte'', JInt 1)] = Some [] \<and>
   filter_by_conditions [scored_acme] [(''pain_score_gte'', JInt 70)] = Some [scored_acme]"
  using rule_selects_thresholds [of "[(''pain_score_gte'', JInt 70), (''fit_score_gte'', JInt 1)]" "[scored_acme]"]
    rule_selects_thresholds [of "[(''pain_score_gte'', JInt 70)]" "[scored_acme]"]
  by (simp add: numeric_def passes_threshold_def threshold_score_def scored_acme_def)

lemma automation_runs_settle_witness:
  "rules_wf two_rules \<and> (\<exists>new rs. list_all2 (settled_run 5) rs new \<and> rd_runs (fst (evaluate_rules
     \<lparr>aw_rank = (\<lambda>s. 0), aw_enrich = (\<lambda>i. Inr 2), aw_write = (\<lambda>i. True), aw_notify = None\<rparr> 5 1
     ''account_scored'' 3 [scored_acme] office no_docs (two_rules, no_lists))) = new)"
proof -
  have w: "rules_wf (fst (two_rules, no_lists))"
    by (simp add: rules_wf_def two_rules_def serial_def)
  have "rd_runs two_rules = []" by (simp add: two_rules_def)
  then show ?thesis using automation_runs_settle [OF w, where now = 5 and uid = 1] w by (simp, blast)
qed

end
