(* ===== verification/Webhooks.thy ===== *)
theory Webhooks
  imports Accounts Py_Strings
begin

text \<open>
  Webhooks: the tables of \<open>db/webhooks.py\<close>, the registration endpoint of \<open>api/webhooks.py\<close> and
  the delivery with retries of \<open>api/jobs.py\<close> (\<open>_deliver_webhook\<close>). The HTTP client is a
  parameter: what it gives for each attempt. Secrets and event identifiers are arguments.
\<close>

section \<open>The tables\<close>

record hook_row =
  hk_id :: int
  hk_user :: int
  hk_url :: string
  hk_secret :: string
  hk_active :: bool
  hk_org :: "int option"
  hk_events :: "string list option"

record event_row =
  ev_id :: string
  ev_hook :: int
  ev_type :: string
  ev_payload :: json
  ev_created :: time

datatype delivery_status = DeliveryPending | DeliverySuccess | DeliveryFailed

record delivery_row =
  dl_id :: int
  dl_hook :: int
  dl_job :: "int option"
  dl_status :: delivery_status
  dl_http :: "int option"
  dl_error :: "string option"
  dl_attempts :: int

record hook_db =
  hd_hooks :: "hook_row list"
  hd_events :: "event_row list"
  hd_deliveries :: "delivery_row list"
  hd_next_hook :: int
  hd_next_delivery :: int

section \<open>Operations on the tables\<close>

definition upsert_webhook ::
    "int \<Rightarrow> string \<Rightarrow> string \<Rightarrow> int option \<Rightarrow> string list option \<Rightarrow> accounts \<Rightarrow> hook_db \<Rightarrow> hook_db \<times> hook_row" where
  "upsert_webhook uid url secret org events a d =
     (let org' = (case org of None \<Rightarrow> org_of_user a uid | Some g \<Rightarrow> Some g);
          f = (\<lambda>w. w\<lparr>hk_url := url, hk_secret := secret, hk_active := True, hk_org := org',
                 hk_events := events\<rparr>)
      in case find (\<lambda>w. hk_user w = uid) (hd_hooks d) of
           Some w \<Rightarrow> (d\<lparr>hd_hooks := update_where (\<lambda>w. hk_user w = uid) f (hd_hooks d)\<rparr>, f w)
         | None \<Rightarrow> let w = \<lparr>hk_id = hd_next_hook d, hk_user = uid, hk_url = url, hk_secret = secret,
                hk_active = True, hk_org = org', hk_events = events\<rparr>
             in (d\<lparr>hd_hooks := hd_hooks d @ [w], hd_next_hook := hd_next_hook d + 1\<rparr>, w))"

definition get_user_webhook :: "int \<Rightarrow> hook_db \<Rightarrow> hook_row option" where
  "get_user_webhook uid d = find (\<lambda>w. hk_user w = uid \<and> hk_active w) (hd_hooks d)"

definition delete_user_webhook :: "int \<Rightarrow> hook_db \<Rightarrow> hook_db \<times> bool" where
  "delete_user_webhook uid d = (let P = (\<lambda>w. hk_user w = uid \<and> hk_active w) in
     (d\<lparr>hd_hooks := update_where P (\<lambda>w. w\<lparr>hk_active := False\<rparr>) (hd_hooks d)\<rparr>,
      count_where P (hd_hooks d) = 1))"

definition create_webhook_event ::
    "time \<Rightarrow> string \<Rightarrow> int \<Rightarrow> string \<Rightarrow> json \<Rightarrow> hook_db \<Rightarrow> hook_db \<times> event_row" where
  "create_webhook_event now token hook event_type payload d =
     (let e = \<lparr>ev_id = ''evt_'' @ token, ev_hook = hook, ev_type = event_type, ev_payload = payload,
            ev_created = now\<rparr>
      in (d\<lparr>hd_events := hd_events d @ [e]\<rparr>, e))"

definition create_webhook_delivery :: "int \<Rightarrow> int option \<Rightarrow> hook_db \<Rightarrow> hook_db \<times> delivery_row" where
  "create_webhook_delivery hook job d =
     (let r = \<lparr>dl_id = hd_next_delivery d, dl_hook = hook, dl_job = job, dl_status = DeliveryPending,
            dl_http = None, dl_error = None, dl_attempts = 0\<rparr>
      in (d\<lparr>hd_deliveries := hd_deliveries d @ [r], hd_next_delivery := hd_next_delivery d + 1\<rparr>, r))"

definition update_delivery_status ::
    "int \<Rightarrow> delivery_status \<Rightarrow> int option \<Rightarrow> string option \<Rightarrow> int option \<Rightarrow> hook_db \<Rightarrow> hook_db" where
  "update_delivery_status i status http error attempts d = d\<lparr>hd_deliveries :=
     update_where (\<lambda>r. dl_id r = i)
       (\<lambda>r. r\<lparr>dl_status := status, dl_http := http, dl_error := error,
          dl_attempts := (case attempts of None \<Rightarrow> dl_attempts r + 1 | Some n \<Rightarrow> n)\<rparr>)
       (hd_deliveries d)\<rparr>"

section \<open>Registration\<close>

definition valid_event_types :: "string list" where
  "valid_event_types = [''research.completed'', ''research.failed'', ''bulk.completed'', ''bulk.failed'',
     ''list.analyzed'', ''list.failed'', ''watchlist.change_detected'']"

text \<open>\<open>None\<close> is the 422 answer for unknown event types.\<close>

definition register_webhook ::
    "int \<Rightarrow> string \<Rightarrow> string \<Rightarrow> int option \<Rightarrow> string list option \<Rightarrow> accounts \<Rightarrow> hook_db \<Rightarrow>
     (hook_db \<times> hook_row) option" where
  "register_webhook uid url secret org events a d =
     (if \<exists>es. events = Some es \<and> \<not> set es \<subseteq> set valid_event_types then None
      else Some (upsert_webhook uid url secret org events a d))"

section \<open>Delivery\<close>

datatype http_result = HttpStatus int | HttpException string

definition webhook_max_retries :: nat where
  "webhook_max_retries = 5"

text \<open>\<open>min(WEBHOOK_BACKOFF_BASE ** attempt, 125)\<close> seconds\<close>

definition webhook_backoff :: "nat \<Rightarrow> int" where
  "webhook_backoff attempt = min (5 ^ attempt) 125"

text \<open>What the loop reports to \<open>update_delivery_status\<close>, and the pauses it made\<close>

record attempt_log =
  lo_status :: delivery_status
  lo_http :: "int option"
  lo_error :: "string option"
  lo_attempts :: nat
  lo_sleeps :: "int list"

text \<open>
  The loop \<open>for attempt in range(1, MAX + 1)\<close>: \<open>left\<close> attempts remain, \<open>attempt\<close> is the next
  one; \<open>last_http\<close> and \<open>last_error\<close> are the variables carried round the loop.
\<close>

fun delivery_loop ::
    "(nat \<Rightarrow> http_result) \<Rightarrow> nat \<Rightarrow> nat \<Rightarrow> int option \<Rightarrow> string option \<Rightarrow> int list \<Rightarrow> attempt_log" where
  "delivery_loop post 0 attempt last_http last_error sleeps =
     \<lparr>lo_status = DeliveryFailed, lo_http = last_http, lo_error = last_error,
      lo_attempts = webhook_max_retries, lo_sleeps = sleeps\<rparr>"
| "delivery_loop post (Suc left) attempt last_http last_error sleeps =
     (let sleeps' = (if attempt < webhook_max_retries then sleeps @ [webhook_backoff attempt] else sleeps)
      in case post attempt of
        HttpStatus c \<Rightarrow>
          if c < 400 then \<lparr>lo_status = DeliverySuccess, lo_http = Some c, lo_error = None,
            lo_attempts = attempt, lo_sleeps = sleeps\<rparr>
          else if 400 \<le> c \<and> c < 500 \<and> c \<noteq> 429 then \<lparr>lo_status = DeliveryFailed, lo_http = Some c,
            lo_error = None, lo_attempts = attempt, lo_sleeps = sleeps\<rparr>
          else delivery_loop post left (Suc attempt) (Some c) (Some (''HTTP '' @ str_int c)) sleeps'
      | HttpException e \<Rightarrow>
          delivery_loop post left (Suc attempt) last_http (Some (take 500 e)) sleeps')"

definition subscribed :: "hook_row \<Rightarrow> string \<Rightarrow> bool" where
  "subscribed w event_type = (case hk_events w of None \<Rightarrow> True | Some es \<Rightarrow> event_type \<in> set es)"

definition deliver_webhook ::
    "time \<Rightarrow> string \<Rightarrow> (nat \<Rightarrow> http_result) \<Rightarrow> int \<Rightarrow> string \<Rightarrow> int option \<Rightarrow> json \<Rightarrow> hook_db \<Rightarrow>
     hook_db \<times> attempt_log option" where
  "deliver_webhook now token post uid event_type job data d =
     (case get_user_webhook uid d of
        None \<Rightarrow> (d, None)
      | Some w \<Rightarrow>
          if \<not> subscribed w event_type then (d, None)
          else (case create_webhook_event now token (hk_id w) event_type data d of
            (d1, e) \<Rightarrow> (case create_webhook_delivery (hk_id w) job d1 of
              (d2, r) \<Rightarrow> let l = delivery_loop post webhook_max_retries 1 None None [] in
                (update_delivery_status (dl_id r) (lo_status l) (lo_http l) (lo_error l)
                   (Some (int (lo_attempts l))) d2, Some l))))"

section \<open>Laws\<close>

definition final_answer :: "http_result \<Rightarrow> bool" where
  "final_answer r = (case r of HttpException e \<Rightarrow> False
     | HttpStatus c \<Rightarrow> c < 400 \<or> (400 \<le> c \<and> c < 500 \<and> c \<noteq> 429))"

lemma delivery_loop_first_final:
  assumes "\<And>k. k < n \<Longrightarrow> \<not> final_answer (post (attempt + k))" "final_answer (post (attempt + n))"
    and "n < left" "attempt + left \<le> Suc webhook_max_retries"
  shows "\<exists>c. post (attempt + n) = HttpStatus c \<and>
    delivery_loop post left attempt h e sl = \<lparr>lo_status = (if c < 400 then DeliverySuccess else DeliveryFailed),
      lo_http = Some c, lo_error = None, lo_attempts = attempt + n,
      lo_sleeps = sl @ map (\<lambda>k. webhook_backoff (attempt + k)) [0..<n]\<rparr>"
  using assms
proof (induction n arbitrary: left attempt h e sl)
  case 0
  then obtain left' c where "left = Suc left'" "post attempt = HttpStatus c"
    by (cases left; cases "post attempt") (simp_all add: final_answer_def)
  with 0 show ?case by (auto simp: final_answer_def Let_def)
next
  case (Suc n)
  obtain left' where left: "left = Suc left'" using Suc.prems(3) by (cases left) simp_all
  have nf: "\<not> final_answer (post attempt)" using Suc.prems(1) [of 0] by simp
  have rest: "\<And>k. k < n \<Longrightarrow> \<not> final_answer (post (Suc attempt + k))"
    "final_answer (post (Suc attempt + n))" "n < left'" "Suc attempt + left' \<le> Suc webhook_max_retries"
    using Suc.prems(1) [of "Suc k" for k] Suc.prems(2-4) left by simp_all
  have att: "attempt < webhook_max_retries" using Suc.prems(3,4) left by simp
  have sl: "map (\<lambda>k. webhook_backoff (attempt + k)) [0..<Suc n] =
      webhook_backoff attempt # map (\<lambda>k. webhook_backoff (Suc attempt + k)) [0..<n]"
    by (simp add: upt_conv_Cons map_Suc_upt [symmetric] comp_def del: upt_Suc)
  show ?case
  proof (cases "post attempt")
    case (HttpStatus c)
    with nf Suc.IH [OF rest, of "Some c" "Some (''HTTP '' @ str_int c)" "sl @ [webhook_backoff attempt]"] att
    show ?thesis unfolding sl left by (auto simp: final_answer_def Let_def)
  next
    case (HttpException x)
    with Suc.IH [OF rest, of h "Some (take 500 x)" "sl @ [webhook_backoff attempt]"] att
    show ?thesis unfolding sl left by (auto simp: Let_def)
  qed
qed

lemma delivery_loop_exhausted:
  assumes "\<And>k. k < left \<Longrightarrow> \<not> final_answer (post (attempt + k))"
    and "attempt + left = Suc webhook_max_retries"
  shows "lo_status (delivery_loop post left attempt h e sl) = DeliveryFailed \<and>
    lo_attempts (delivery_loop post left attempt h e sl) = webhook_max_retries \<and>
    lo_sleeps (delivery_loop post left attempt h e sl) =
      sl @ map (\<lambda>k. webhook_backoff (attempt + k)) [0..<left - 1]"
  using assms
proof (induction left arbitrary: attempt h e sl)
  case (Suc left)
  have nf: "\<not> final_answer (post attempt)" using Suc.prems(1) [of 0] by simp
  have rest: "\<And>k. k < left \<Longrightarrow> \<not> final_answer (post (Suc attempt + k))"
    "Suc attempt + left = Suc webhook_max_retries"
    using Suc.prems(1) [of "Suc k" for k] Suc.prems(2) by simp_all
  let ?sl = "if attempt < webhook_max_retries then sl @ [webhook_backoff attempt] else sl"
  have sl: "?sl @ map (\<lambda>k. webhook_backoff (Suc attempt + k)) [0..<left - 1] =
      sl @ map (\<lambda>k. webhook_backoff (attempt + k)) [0..<Suc left - 1]"
  proof (cases left)
    case (Suc m)
    then have "attempt < webhook_max_retries" using rest(2) by simp
    with Suc show ?thesis
      by (simp add: upt_conv_Cons map_Suc_upt [symmetric] comp_def del: upt_Suc)
  qed (use rest(2) in simp)
  obtain h' e' where "delivery_loop post (Suc left) attempt h e sl =
      delivery_loop post left (Suc attempt) h' e' ?sl"
    using nf by (cases "post attempt") (auto simp: final_answer_def Let_def)
  with Suc.IH [OF rest, of h' e' ?sl] sl show ?case by simp
qed simp

section \<open>Properties\<close>

text \<open>
  A delivery makes at most five attempts. If the first n attempts failed in a retryable
  way (an exception, 429 or a server error) and the next one was answered below 400 or with another
  client error, the loop stops there with that status after pauses of 5, 25, 125 and 125
  seconds; if no attempt gets such an answer, the delivery has failed after five attempts.
\<close>

theorem delivery_loop_outcome:
  "(\<exists>n < webhook_max_retries. \<exists>c. (\<forall>k < n. \<not> final_answer (post (Suc k))) \<and> post (Suc n) = HttpStatus c \<and>
      delivery_loop post webhook_max_retries 1 None None [] =
        \<lparr>lo_status = (if c < 400 then DeliverySuccess else DeliveryFailed), lo_http = Some c,
         lo_error = None, lo_attempts = Suc n, lo_sleeps = take n [5, 25, 125, 125]\<rparr>) \<or>
   ((\<forall>k < webhook_max_retries. \<not> final_answer (post (Suc k))) \<and>
      lo_status (delivery_loop post webhook_max_retries 1 None None []) = DeliveryFailed \<and>
      lo_attempts (delivery_loop post webhook_max_retries 1 None None []) = webhook_max_retries \<and>
      lo_sleeps (delivery_loop post webhook_max_retries 1 None None []) = [5, 25, 125, 125])"
proof (cases "\<exists>n < webhook_max_retries. final_answer (post (Suc n))")
  case True
  then have ex: "\<exists>n. n < webhook_max_retries \<and> final_answer (post (Suc n))" by blast
  define n where "n = (LEAST n. n < webhook_max_retries \<and> final_answer (post (Suc n)))"
  have n: "n < webhook_max_retries" "final_answer (post (Suc n))"
    using LeastI_ex [OF ex] by (simp_all add: n_def)
  have before: "\<not> final_answer (post (Suc k))" if "k < n" for k
    using not_less_Least [of k "\<lambda>n. n < webhook_max_retries \<and> final_answer (post (Suc n))"] that n(1)
    by (simp add: n_def [symmetric])
  have pauses: "map (\<lambda>k. webhook_backoff (1 + k)) [0..<n] = take n [5, 25, 125, 125]"
  proof -
    have "n \<in> {0, 1, 2, 3, 4}" using n(1) by (auto simp: webhook_max_retries_def)
    then show ?thesis by (auto simp: webhook_backoff_def upt_rec)
  qed
  have "\<exists>c. post (1 + n) = HttpStatus c \<and> delivery_loop post webhook_max_retries 1 None None [] =
      \<lparr>lo_status = (if c < 400 then DeliverySuccess else DeliveryFailed), lo_http = Some c,
       lo_error = None, lo_attempts = 1 + n, lo_sleeps = [] @ map (\<lambda>k. webhook_backoff (1 + k)) [0..<n]\<rparr>"
    by (rule delivery_loop_first_final) (use n before in simp_all)
  then obtain c where c: "post (Suc n) = HttpStatus c"
    "delivery_loop post webhook_max_retries 1 None None [] =
      \<lparr>lo_status = (if c < 400 then DeliverySuccess else DeliveryFailed), lo_http = Some c,
       lo_error = None, lo_attempts = Suc n, lo_sleeps = take n [5, 25, 125, 125]\<rparr>"
    unfolding pauses by auto
  have "\<forall>k < n. \<not> final_answer (post (Suc k))" using before by blast
  with c n(1) show ?thesis by (intro disjI1 exI [of _ n] exI [of _ c] conjI)
next
  case False
  then have "\<And>k. k < webhook_max_retries \<Longrightarrow> \<not> final_answer (post (1 + k))" by simp
  from delivery_loop_exhausted [where left = webhook_max_retries and attempt = 1 and post = post
      and h = None and e = None and sl = "[]", OF this]
  have "lo_status (delivery_loop post webhook_max_retries 1 None None []) = DeliveryFailed \<and>
      lo_attempts (delivery_loop post webhook_max_retries 1 None None []) = webhook_max_retries \<and>
      lo_sleeps (delivery_loop post webhook_max_retries 1 None None []) =
        map (\<lambda>k. webhook_backoff (1 + k)) [0..<webhook_max_retries - 1]"
    by simp
  moreover have "map (\<lambda>k. webhook_backoff (1 + k)) [0..<webhook_max_retries - 1] = [5, 25, 125, 125]"
    by (simp add: webhook_max_retries_def webhook_backoff_def upt_rec)
  ultimately show ?thesis using False by auto
qed

text \<open>
  Nothing is recorded or sent for a user without an active webhook or for an event type
  outside the subscription; otherwise exactly one event and one delivery are added, and the
  delivery row ends up settled with the outcome of the loop.
\<close>

theorem deliver_webhook_records:
  assumes "serial dl_id (hd_next_delivery d) (hd_deliveries d)"
  shows "(case get_user_webhook uid d of
      None \<Rightarrow> deliver_webhook now token post uid et job data d = (d, None)
    | Some w \<Rightarrow> if \<not> subscribed w et then deliver_webhook now token post uid et job data d = (d, None)
        else let d' = fst (deliver_webhook now token post uid et job data d);
                 l = delivery_loop post webhook_max_retries 1 None None []
          in length (hd_events d') = Suc (length (hd_events d)) \<and>
             hd_deliveries d' = hd_deliveries d @ [\<lparr>dl_id = hd_next_delivery d, dl_hook = hk_id w, dl_job = job,
                dl_status = lo_status l, dl_http = lo_http l, dl_error = lo_error l,
                dl_attempts = int (lo_attempts l)\<rparr>] \<and>
             hd_hooks d' = hd_hooks d)"
proof (cases "get_user_webhook uid d")
  case (Some w)
  have "update_where (\<lambda>r. dl_id r = hd_next_delivery d) f (hd_deliveries d) = hd_deliveries d" for f
    using assms by (intro update_where_id) (auto simp: serial_def)
  with Some show ?thesis
    by (simp add: deliver_webhook_def create_webhook_event_def create_webhook_delivery_def Let_def
        update_delivery_status_def)
qed (simp add: deliver_webhook_def)

definition one_hook :: hook_db where
  "one_hook = \<lparr>hd_hooks = [\<lparr>hk_id = 1, hk_user = 7, hk_url = ''u'', hk_secret = ''s'', hk_active = True,
     hk_org = None, hk_events = Some [''research.completed'']\<rparr>], hd_events = [], hd_deliveries = [],
     hd_next_hook = 2, hd_next_delivery = 1\<rparr>"

theorem delivery_loop_outcome_witness:
  "lo_sleeps (delivery_loop (\<lambda>k. if k < 3 then HttpStatus 503 else HttpStatus 200)
     webhook_max_retries 1 None None []) = [5, 25]"
  using delivery_loop_outcome [of "\<lambda>k. if k < 3 then HttpStatus 503 else HttpStatus 200"]
  by (simp add: webhook_max_retries_def webhook_backoff_def Let_def numeral_eq_Suc)

theorem deliver_webhook_records_witness:
  "length (hd_events (fst (deliver_webhook 0 ''t'' (\<lambda>k. HttpStatus 200) 7 ''research.completed''
     (Some 4) JNull one_hook))) = 1"
  using deliver_webhook_records [where d = one_hook and uid = 7 and now = 0 and token = "''t''"
      and post = "\<lambda>k. HttpStatus 200" and et = "''research.completed''" and job = "Some 4" and data = JNull]
  by (simp add: one_hook_def get_user_webhook_def subscribed_def Let_def)

text \<open>
  The signature of a webhook, from the request that \<open>_deliver_webhook\<close> (\<open>api/jobs.py\<close>) sends to its
  verification by the receiver (\<open>Webhook\<close> in \<open>sdk/auggie/__init__.py\<close>). JSON texts and HMAC come from
  libraries and are arguments: \<open>ct_compact\<close> is \<open>json.dumps\<close> with sorted keys and no spaces, \<open>ct_wire\<close> the body
  the HTTP client sends, \<open>ct_loads\<close> is \<open>json.loads\<close> (nothing when it raises), \<open>ct_hmac\<close> the hexadecimal digest.
\<close>

record codec =
  ct_compact :: "json \<Rightarrow> string"
  ct_wire :: "json \<Rightarrow> string"
  ct_loads :: "string \<Rightarrow> json option"
  ct_hmac :: "string \<Rightarrow> string \<Rightarrow> string"

section \<open>Sending\<close>

definition sign_payload :: "codec \<Rightarrow> json \<Rightarrow> string \<Rightarrow> string" where
  "sign_payload cd payload secret = ct_hmac cd secret (ct_compact cd payload)"

definition event_envelope :: "(time \<Rightarrow> string) \<Rightarrow> event_row \<Rightarrow> json" where
  "event_envelope show_time e = JDict [(''id'', JStr (ev_id e)), (''type'', JStr (ev_type e)),
     (''created_at'', JStr (show_time (ev_created e))), (''data'', ev_payload e)]"

text \<open>Body and signature header of a delivery\<close>

definition delivery_request :: "codec \<Rightarrow> json \<Rightarrow> string \<Rightarrow> string \<times> string" where
  "delivery_request cd payload secret = (ct_wire cd payload, ''sha256='' @ sign_payload cd payload secret)"

section \<open>Receiving\<close>

text \<open>A body comes parsed, or as bytes; a text is represented by its bytes.\<close>

datatype webhook_body = Parsed json | Raw string

definition normalize_payload :: "codec \<Rightarrow> webhook_body \<Rightarrow> string" where
  "normalize_payload cd b = (case b of
     Parsed j \<Rightarrow> ct_compact cd j
   | Raw s \<Rightarrow> (case ct_loads cd s of Some j \<Rightarrow> ct_compact cd j | None \<Rightarrow> s))"

definition extract_signature :: "string \<Rightarrow> string" where
  "extract_signature header = (let h = py_strip header in if startswith h ''sha256='' then drop 7 h else h)"

definition verify :: "codec \<Rightarrow> webhook_body \<Rightarrow> string \<Rightarrow> string \<Rightarrow> bool" where
  "verify cd b header secret \<longleftrightarrow> ct_hmac cd secret (normalize_payload cd b) = extract_signature header"

datatype event_result = Event json | SignatureError | InvalidJson

definition construct_event :: "codec \<Rightarrow> webhook_body \<Rightarrow> string \<Rightarrow> string \<Rightarrow> event_result" where
  "construct_event cd b header secret = (if \<not> verify cd b header secret then SignatureError
     else (case b of Parsed j \<Rightarrow> Event j
       | Raw s \<Rightarrow> (case ct_loads cd s of Some j \<Rightarrow> Event j | None \<Rightarrow> InvalidJson)))"

section \<open>Properties\<close>

lemma strip_no_space: "\<forall>c \<in> set s. \<not> is_space c \<Longrightarrow> py_strip s = s"
proof -
  assume s: "\<forall>c \<in> set s. \<not> is_space c"
  have d: "dropWhile is_space xs = xs" if "\<forall>c \<in> set xs. \<not> is_space c" for xs
    using that by (cases xs) simp_all
  show ?thesis using s by (simp add: py_strip_def d)
qed

text \<open>The header of a delivery holds exactly the signature.\<close>

lemma extract_delivered: "\<forall>c \<in> set x. \<not> is_space c \<Longrightarrow> extract_signature (''sha256='' @ x) = x"
proof -
  assume "\<forall>c \<in> set x. \<not> is_space c"
  then have "py_strip (''sha256='' @ x) = ''sha256='' @ x" by (intro strip_no_space) (simp add: is_space_def)
  then show ?thesis by (simp add: extract_signature_def startswith_def)
qed

text \<open>
  a delivered webhook is accepted by the receiver who has the secret, and gives back the envelope that
  was sent; and with the header of that delivery only bodies are accepted whose canonical form has the
  same HMAC under that secret.
\<close>

theorem delivered_webhook_verifies:
  assumes "delivery_request cd payload secret = (body, header)" "ct_loads cd (ct_wire cd payload) = Some payload"
    "\<And>key s. \<forall>c \<in> set (ct_hmac cd key s). \<not> is_space c"
  shows "construct_event cd (Raw body) header secret = Event payload \<and>
    (\<forall>b e. construct_event cd b header secret = Event e \<longrightarrow>
       ct_hmac cd secret (normalize_payload cd b) = ct_hmac cd secret (ct_compact cd payload))"
proof -
  have h: "extract_signature header = ct_hmac cd secret (ct_compact cd payload)" and b: "body = ct_wire cd payload"
    using assms(1) extract_delivered [OF assms(3)] by (auto simp: delivery_request_def sign_payload_def)
  show ?thesis
    using assms(2) by (auto simp: construct_event_def verify_def normalize_payload_def h b split: if_splits)
qed

definition toy_codec :: codec where
  "toy_codec = \<lparr>ct_compact = (\<lambda>j. ''{}''), ct_wire = (\<lambda>j. ''{ }''),
     ct_loads = (\<lambda>s. if s = ''{ }'' then Some (JDict []) else None), ct_hmac = (\<lambda>k s. if s = ''{}'' then ''ab'' else ''cd'')\<rparr>"

theorem delivered_webhook_verifies_witness:
  "construct_event toy_codec (Raw ''{ }'') ''sha256=ab'' ''k'' = Event (JDict []) \<and>
   construct_event toy_codec (Raw ''x'') ''sha256=ab'' ''k'' = SignatureError"
  using delivered_webhook_verifies [of toy_codec "JDict []" "''k''" "''{ }''" "''sha256=ab''"]
  by (simp add: toy_codec_def delivery_request_def sign_payload_def is_space_def construct_event_def verify_def
      normalize_payload_def extract_signature_def py_strip_def startswith_def)

end
