(* ===== verification/Server.thy ===== *)
theory Server
  imports Automation Bulk_Jobs Watchlist Webhooks
begin

text \<open>
  The background jobs of \<open>api/jobs.py\<close> over the whole database. A job is a function from
  the database to the database and, when it raises, the text of its exception. Everything the
  code asks of the outside (scraping, the language model, HTTP answers, DNS) comes from a
  \<open>world\<close>: one answer per execution. Log messages and Slack or Teams notifications, which
  change no state and whose exceptions the code swallows, are left out.
\<close>

section \<open>The database and the world\<close>

record server =
  sv_accounts :: accounts
  sv_jobs :: job_db
  sv_bulk :: bulk_db
  sv_lists :: list_db
  sv_watch :: watch_db
  sv_queue :: task_db
  sv_hooks :: hook_db
  sv_docs :: doc_db
  sv_rules :: rule_db
  sv_api_usage :: "(int \<times> string \<times> int) list"

text \<open>
  \<open>wo_pipeline\<close> is the generated document, or the exception of the stage at which the external
  services failed; \<open>wo_stages\<close> is the number of stages reported before that.
\<close>

record world =
  wo_start :: time
  wo_end :: time
  wo_pipeline :: "string + draft"
  wo_stages :: nat
  wo_token :: string
  wo_post :: "nat \<Rightarrow> http_result"
  wo_ledger :: bool
  wo_actions :: action_world
  wo_nfkd :: "string \<Rightarrow> string"
  wo_loads :: "string \<Rightarrow> json option"
  wo_validate :: "string \<Rightarrow> string option"
  wo_profile :: "string + (string \<times> json) list"

definition record_api_usage :: "int \<Rightarrow> string \<Rightarrow> int \<Rightarrow> server \<Rightarrow> server" where
  "record_api_usage key endpoint credits s =
     s\<lparr>sv_api_usage := sv_api_usage s @ [(key, endpoint, credits)]\<rparr>"

definition charge_usage :: "int option \<Rightarrow> server \<Rightarrow> server" where
  "charge_usage key s = (case key of None \<Rightarrow> s | Some k \<Rightarrow> record_api_usage k ''/v1/research'' 1 s)"

definition notify :: "world \<Rightarrow> int \<Rightarrow> string \<Rightarrow> int option \<Rightarrow> json \<Rightarrow> server \<Rightarrow> server" where
  "notify w uid event job data s = s\<lparr>sv_hooks :=
     fst (deliver_webhook (wo_end w) (wo_token w) (wo_post w) uid event job data (sv_hooks s))\<rparr>"

definition set_job :: "world \<Rightarrow> int \<Rightarrow> job_status \<Rightarrow> int option \<Rightarrow> string option \<Rightarrow> server \<Rightarrow> server" where
  "set_job w i status document error s =
     s\<lparr>sv_jobs := update_job_status (wo_end w) i status document error (sv_jobs s)\<rparr>"

definition refund :: "world \<Rightarrow> int \<Rightarrow> int \<Rightarrow> server \<Rightarrow> server" where
  "refund w uid cents s = s\<lparr>sv_accounts := refund_credit (wo_ledger w) uid cents (sv_accounts s)\<rparr>"

text \<open>\<open>str(e)[:500]\<close>\<close>

definition error_text :: "string \<Rightarrow> string" where
  "error_text e = take 500 e"

section \<open>The research pipeline\<close>

definition pipeline_stages :: "string list" where
  "pipeline_stages = [''scraping'', ''analyzing'', ''enriching'', ''generating'']"

definition report_progress :: "int option \<Rightarrow> string list \<Rightarrow> server \<Rightarrow> server" where
  "report_progress job stages s = (case job of
     None \<Rightarrow> s
   | Some j \<Rightarrow> s\<lparr>sv_jobs := fold (update_job_progress j) stages (sv_jobs s)\<rparr>)"

text \<open>
  Reading the seller's context raises on a malformed website profile (a value where the code
  expects a string or a list).
\<close>

definition context_ok :: "world \<Rightarrow> user_row \<Rightarrow> bool" where
  "context_ok w u \<longleftrightarrow>
     get_effective_product_context (wo_loads w) (us_context u) (us_seller u) \<noteq> None \<and>
     get_effective_problems_solved (wo_loads w) (pf_problems_solved (us_profile u)) (us_seller u) \<noteq> None"

definition run_research_pipeline ::
    "world \<Rightarrow> int \<Rightarrow> int option \<Rightarrow> server \<Rightarrow> server \<times> (string + int)" where
  "run_research_pipeline w uid job s = (case user_of (sv_accounts s) uid of
     None \<Rightarrow> (s, Inl ''User not found'')
   | Some u \<Rightarrow>
       if \<not> context_ok w u then (s, Inl ''malformed seller profile'')
       else (case wo_pipeline w of
         Inl e \<Rightarrow> (report_progress job (take (wo_stages w) pipeline_stages) s, Inl e)
       | Inr doc \<Rightarrow>
           (let s1 = report_progress job pipeline_stages s
            in case save_document (wo_nfkd w) uid doc (sv_docs s1) of
                 Inl e \<Rightarrow> (s1, Inl e)
               | Inr (d, i) \<Rightarrow> (s1\<lparr>sv_docs := d\<rparr>, Inr i))))"

section \<open>Single research jobs\<close>

definition job_data :: "int \<Rightarrow> string \<Rightarrow> (string \<times> json) list \<Rightarrow> json" where
  "job_data job url entries = JDict ((''job_id'', JInt job) # entries @ [(''company_url'', JStr url)])"

definition run_research_job ::
    "world \<Rightarrow> int \<Rightarrow> int \<Rightarrow> int option \<Rightarrow> string \<Rightarrow> server \<Rightarrow> server \<times> string option" where
  "run_research_job w job uid key url s = (case run_research_pipeline w uid (Some job) s of
     (s1, Inr doc) \<Rightarrow>
       (notify w uid ''research.completed'' (Some job) (job_data job url [(''document_id'', JInt doc)])
          (set_job w job JobCompleted (Some doc) None (charge_usage key s1)), None)
   | (s1, Inl e) \<Rightarrow>
       (notify w uid ''research.failed'' (Some job) (job_data job url [(''error'', JStr (error_text e))])
          (set_job w job JobFailed None (Some (error_text e)) s1), Some e))"

text \<open>The scores of a saved document, as the account rows of a list take them.\<close>

definition scores_of :: "document \<Rightarrow> scores" where
  "scores_of r = \<lparr>sc_pain = dr_pain r, sc_fit = dr_fit r, sc_timing = dr_timing r,
     sc_composite = dr_opportunity r\<rparr>"

definition fail_account :: "world \<Rightarrow> int \<Rightarrow> int \<Rightarrow> string \<Rightarrow> server \<Rightarrow> server" where
  "fail_account w account job e s = s\<lparr>sv_lists :=
     update_list_account (wo_end w) account ChildFailed None (Some job) no_scores None (Some (error_text e))
       (sv_lists s)\<rparr>"

definition complete_account :: "world \<Rightarrow> int \<Rightarrow> int \<Rightarrow> document \<Rightarrow> server \<Rightarrow> server" where
  "complete_account w account job r s = s\<lparr>sv_lists :=
     update_list_account (wo_end w) account ChildCompleted (Some (dc_id r)) (Some job) (scores_of r)
       (Some (dr_name r)) None (sv_lists s)\<rparr>"

text \<open>
  The pipeline and the updates of \<open>run_retry_account\<close>; every exception ends in the failure
  branch, with a refund.
\<close>

definition retry_failed :: "world \<Rightarrow> int \<Rightarrow> int \<Rightarrow> int \<Rightarrow> bool \<Rightarrow> string \<Rightarrow> server \<Rightarrow> server" where
  "retry_failed w uid account job is_admin e s = fail_account w account job e
     (set_job w job JobFailed None (Some (error_text e)) (if is_admin then s else refund w uid 100 s))"

definition missing_document :: string where
  "missing_document = ''NoneType object has no attribute pain_score''"

definition run_retry_account ::
    "world \<Rightarrow> int \<Rightarrow> int \<Rightarrow> string \<Rightarrow> int \<Rightarrow> bool \<Rightarrow> server \<Rightarrow> server \<times> string option" where
  "run_retry_account w uid account url job is_admin s = (case run_research_pipeline w uid (Some job) s of
     (s1, Inl e) \<Rightarrow> (retry_failed w uid account job is_admin e s1, None)
   | (s1, Inr doc) \<Rightarrow>
       (let s2 = set_job w job JobCompleted (Some doc) None s1
        in case get_document doc uid (sv_docs s2) of
             None \<Rightarrow> (retry_failed w uid account job is_admin missing_document s2, None)
           | Some r \<Rightarrow> (complete_account w account job r s2, None)))"

section \<open>Fanning out\<close>

definition child_payload :: "payload \<Rightarrow> payload \<Rightarrow> nat \<Rightarrow> payload" where
  "child_payload shared item i = shared @ item @ [(''account_index'', PInt (int i))]"

definition chunk_size :: nat where
  "chunk_size = 500"

text \<open>The loop over \<open>range(0, len(items), CHUNK)\<close> from \<open>start\<close>; \<open>items\<close> are the ones left.\<close>

function fan_out_from :: "time \<Rightarrow> string \<Rightarrow> payload \<Rightarrow> nat \<Rightarrow> payload list \<Rightarrow> task_db \<Rightarrow> task_db" where
  "fan_out_from now ty shared start items q =
     (if items = [] then q
      else fan_out_from now ty shared (start + chunk_size) (drop chunk_size items)
        (fst (enqueue_many now ty
          (map (\<lambda>(i, item). child_payload shared item i) (enumerate start (take chunk_size items))) q)))"
  by pat_completeness auto
termination by (relation "measure (\<lambda>(now, ty, shared, start, items, q). length items)") (auto simp: chunk_size_def)

declare fan_out_from.simps [simp del]

definition fan_out :: "time \<Rightarrow> string \<Rightarrow> payload list \<Rightarrow> payload \<Rightarrow> task_db \<Rightarrow> task_db" where
  "fan_out now ty items shared q = fan_out_from now ty shared 0 items q"

definition owner_payload :: "int \<Rightarrow> int option \<Rightarrow> bool \<Rightarrow> payload" where
  "owner_payload uid key is_admin = [(''user_id'', PInt uid),
     (''api_key_id'', case key of None \<Rightarrow> PNull | Some k \<Rightarrow> PInt k), (''is_admin'', PBool is_admin)]"

definition bulk_child :: "int \<Rightarrow> item_row \<Rightarrow> payload" where
  "bulk_child bulk r = [(''bulk_job_id'', PInt bulk), (''item_id'', PInt (bi_id r)), (''company_url'', PStr (bi_url r))]"

definition run_bulk_job :: "world \<Rightarrow> int \<Rightarrow> int \<Rightarrow> int option \<Rightarrow> bool \<Rightarrow> server \<Rightarrow> server \<times> string option" where
  "run_bulk_job w bulk uid key is_admin s = (case get_bulk_job_items bulk (sv_bulk s) of
     None \<Rightarrow> (s, None)
   | Some items \<Rightarrow> (s\<lparr>sv_queue := fan_out (wo_end w) ''bulk_item'' (map (bulk_child bulk) items)
       (owner_payload uid key is_admin) (sv_queue s)\<rparr>, None))"

definition list_child :: "int \<Rightarrow> account_row \<Rightarrow> payload" where
  "list_child lid r = [(''list_id'', PInt lid), (''account_id'', PInt (la_id r)), (''company_url'', PStr (la_url r))]"

definition run_list_analysis :: "world \<Rightarrow> int \<Rightarrow> int \<Rightarrow> int option \<Rightarrow> bool \<Rightarrow> server \<Rightarrow> server \<times> string option" where
  "run_list_analysis w lid uid key is_admin s = (case get_pending_list_accounts lid (sv_lists s) of
     None \<Rightarrow> (s, None)
   | Some rows \<Rightarrow> (s\<lparr>sv_queue := fan_out (wo_end w) ''list_item'' (map (list_child lid) rows)
       (owner_payload uid key is_admin) (sv_queue s)\<rparr>, None))"

section \<open>Children of a bulk job\<close>

definition final_event :: "string \<Rightarrow> string \<Rightarrow> batch_status \<Rightarrow> string" where
  "final_event good bad status = (if status \<in> {BatchCompleted, BatchPartialFailure} then good else bad)"

definition show_status :: "batch_status \<Rightarrow> string" where
  "show_status st = (case st of BatchCreated \<Rightarrow> ''created'' | BatchProcessing \<Rightarrow> ''processing''
     | BatchAnalyzing \<Rightarrow> ''analyzing'' | BatchCompleted \<Rightarrow> ''completed''
     | BatchPartialFailure \<Rightarrow> ''partial_failure'' | BatchFailed \<Rightarrow> ''failed'')"

definition bulk_data :: "int \<Rightarrow> bulk_row \<Rightarrow> json" where
  "bulk_data bulk r = JDict [(''bulk_job_id'', JInt bulk), (''status'', JStr (show_status (bj_status r))),
     (''completed_items'', JInt (bj_completed r)), (''failed_items'', JInt (bj_failed r))]"

text \<open>
  The last lines of \<open>run_bulk_item\<close>: the child that finds no unfinished sibling finalizes the
  job, refunds the failed items and sends the event. A vanished job raises.
\<close>

definition finish_bulk :: "world \<Rightarrow> int \<Rightarrow> int \<Rightarrow> bool \<Rightarrow> server \<Rightarrow> server \<times> string option" where
  "finish_bulk w bulk uid is_admin s =
     (case check_no_pending_siblings (wo_end w) ''bulk_job_id'' (str_int bulk) (sv_queue s) of
        (q, all_done) \<Rightarrow>
          (let s1 = s\<lparr>sv_queue := q\<rparr>
           in if \<not> all_done then (s1, None)
              else (case finalize_bulk_job (wo_end w) bulk (sv_bulk s1) of
                Inl e \<Rightarrow> (s1, Some ''NoneType object is not subscriptable'')
              | Inr (b, r) \<Rightarrow>
                  (let s2 = s1\<lparr>sv_bulk := b\<rparr>;
                       s3 = (if 0 < bj_failed r \<and> \<not> is_admin then refund w uid (bj_failed r * 100) s2 else s2)
                   in (notify w uid (final_event ''bulk.completed'' ''bulk.failed'' (bj_status r)) None
                         (bulk_data bulk r) s3, None)))))"

definition set_bulk_item ::
    "time \<Rightarrow> int \<Rightarrow> child_status \<Rightarrow> int \<Rightarrow> int option \<Rightarrow> string option \<Rightarrow> server \<Rightarrow> server" where
  "set_bulk_item now item status job document error s =
     s\<lparr>sv_bulk := update_bulk_job_item now item status (Some job) document error (sv_bulk s)\<rparr>"

text \<open>The child row of \<open>research_jobs\<close>; its foreign key on the user can fail.\<close>

definition start_child :: "world \<Rightarrow> int \<Rightarrow> int option \<Rightarrow> string \<Rightarrow> server \<Rightarrow> string + (server \<times> int)" where
  "start_child w uid key url s =
     (case create_research_job (wo_start w) uid key url (sv_accounts s) (sv_jobs s) of
        Inl e \<Rightarrow> Inl ''violates foreign key constraint''
      | Inr (d, j) \<Rightarrow> Inr (s\<lparr>sv_jobs := d\<rparr>, jb_id j))"

text \<open>The usage row of a child needs a key: without one the insert raises inside the \<open>try\<close>.\<close>

definition bulk_item_failed :: "world \<Rightarrow> int \<Rightarrow> int \<Rightarrow> string \<Rightarrow> server \<Rightarrow> server" where
  "bulk_item_failed w item job e s = set_bulk_item (wo_end w) item ChildFailed job None (Some (error_text e))
     (set_job w job JobFailed None (Some (error_text e)) s)"

definition bulk_item_result :: "world \<Rightarrow> int \<Rightarrow> int \<Rightarrow> int option \<Rightarrow> string + int \<Rightarrow> server \<Rightarrow> server" where
  "bulk_item_result w item job key res s = (case res of
     Inl e \<Rightarrow> bulk_item_failed w item job e s
   | Inr doc \<Rightarrow> (case key of
       None \<Rightarrow> bulk_item_failed w item job ''null value in column api_key_id violates not-null constraint'' s
     | Some k \<Rightarrow> set_bulk_item (wo_end w) item ChildCompleted job (Some doc) None
         (set_job w job JobCompleted (Some doc) None (record_api_usage k ''/v1/research'' 1 s))))"

definition run_bulk_item ::
    "world \<Rightarrow> int \<Rightarrow> int \<Rightarrow> string \<Rightarrow> int \<Rightarrow> int option \<Rightarrow> bool \<Rightarrow> server \<Rightarrow> server \<times> string option" where
  "run_bulk_item w bulk item url uid key is_admin s = (case start_child w uid key url s of
     Inl e \<Rightarrow> (s, Some e)
   | Inr (s1, job) \<Rightarrow>
       (case run_research_pipeline w uid None (set_bulk_item (wo_start w) item ChildProcessing job None None s1) of
          (s2, res) \<Rightarrow> finish_bulk w bulk uid is_admin (bulk_item_result w item job key res s2)))"

section \<open>Children of a list\<close>

text \<open>
  \<open>json.dumps\<close> of the account rows of a list: every row carries the timestamp
  \<open>created_at\<close>, a \<open>datetime\<close>, which the encoder rejects.
\<close>

definition dumps_rows :: "int \<Rightarrow> account_row list \<Rightarrow> pval option" where
  "dumps_rows lid rows = (if rows = [] then Some (PCtx lid []) else None)"

definition automation_payload :: "int \<Rightarrow> string \<Rightarrow> pval \<Rightarrow> payload" where
  "automation_payload uid trigger ctx = [(''user_id'', PInt uid), (''trigger_event'', PStr trigger), (''context'', ctx)]"

text \<open>The automation step of the finalization; its exceptions are logged and dropped.\<close>

definition list_complete_automation :: "world \<Rightarrow> int \<Rightarrow> int \<Rightarrow> server \<Rightarrow> server" where
  "list_complete_automation w lid uid s =
     (case get_list_accounts (aw_rank (wo_actions w)) lid any_filter ''composite_score'' ''desc'' 100 None (sv_lists s) of
        Inl e \<Rightarrow> s
      | Inr (rows, has_more) \<Rightarrow>
          (let done = filter (\<lambda>r. la_status r = ChildCompleted) rows
           in if done = [] then s
              else (case dumps_rows lid done of
                None \<Rightarrow> s
              | Some ctx \<Rightarrow> s\<lparr>sv_queue := fst (enqueue (wo_end w) ''automation''
                  (automation_payload uid ''list_complete'' ctx) (sv_queue s))\<rparr>)))"

definition list_data :: "int \<Rightarrow> list_row \<Rightarrow> json" where
  "list_data lid r = JDict [(''list_id'', JInt lid), (''status'', JStr (show_status (ls_status r))),
     (''total_accounts'', JInt (ls_total r)), (''analyzed_accounts'', JInt (ls_analyzed r)),
     (''failed_accounts'', JInt (ls_failed r))]"

definition finalize_list_parent :: "world \<Rightarrow> int \<Rightarrow> int \<Rightarrow> bool \<Rightarrow> server \<Rightarrow> server \<times> string option" where
  "finalize_list_parent w lid uid is_admin s = (case finalize_list (wo_end w) lid (sv_lists s) of
     Inl e \<Rightarrow> (s, Some ''NoneType object is not subscriptable'')
   | Inr (d, r) \<Rightarrow>
       (let s1 = s\<lparr>sv_lists := d\<rparr>;
            s2 = (if 0 < ls_failed r \<and> \<not> is_admin then refund w uid (ls_failed r * 100) s1 else s1);
            s3 = list_complete_automation w lid uid s2
        in (notify w uid (final_event ''list.analyzed'' ''list.failed'' (ls_status r)) None (list_data lid r) s3,
            None)))"

definition finish_list :: "world \<Rightarrow> int \<Rightarrow> int \<Rightarrow> bool \<Rightarrow> server \<Rightarrow> server \<times> string option" where
  "finish_list w lid uid is_admin s =
     (case check_no_pending_siblings (wo_end w) ''list_id'' (str_int lid) (sv_queue s) of
        (q, all_done) \<Rightarrow> if all_done then finalize_list_parent w lid uid is_admin (s\<lparr>sv_queue := q\<rparr>)
          else (s\<lparr>sv_queue := q\<rparr>, None))"

definition scored_row :: "int \<Rightarrow> document \<Rightarrow> scored_account" where
  "scored_row account r = \<lparr>sa_id = account, sa_status = ''completed'', sa_document = Some (dc_id r),
     sa_pain = dr_pain r, sa_fit = dr_fit r, sa_timing = dr_timing r, sa_composite = dr_opportunity r,
     sa_name = Some (dr_name r)\<rparr>"

text \<open>
  What follows the pipeline of a list account; a document that cannot be read back raises inside
  the \<open>try\<close> and fails the account.
\<close>

definition list_item_failed :: "world \<Rightarrow> int \<Rightarrow> int \<Rightarrow> string \<Rightarrow> server \<Rightarrow> server" where
  "list_item_failed w account job e s =
     fail_account w account job e (set_job w job JobFailed None (Some (error_text e)) s)"

definition list_item_result ::
    "world \<Rightarrow> int \<Rightarrow> int \<Rightarrow> int \<Rightarrow> int \<Rightarrow> int option \<Rightarrow> string + int \<Rightarrow> server \<Rightarrow> server" where
  "list_item_result w lid account uid job key res s = (case res of
     Inl e \<Rightarrow> list_item_failed w account job e s
   | Inr doc \<Rightarrow>
       (let s1 = set_job w job JobCompleted (Some doc) None (charge_usage key s)
        in case get_document doc uid (sv_docs s1) of
             None \<Rightarrow> list_item_failed w account job missing_document s1
           | Some r \<Rightarrow>
               (let s2 = complete_account w account job r s1
                in s2\<lparr>sv_queue := fst (enqueue (wo_end w) ''automation''
                     (automation_payload uid ''account_scored'' (PCtx lid [scored_row account r])) (sv_queue s2))\<rparr>)))"

definition run_list_item ::
    "world \<Rightarrow> int \<Rightarrow> int \<Rightarrow> string \<Rightarrow> int \<Rightarrow> int option \<Rightarrow> bool \<Rightarrow> server \<Rightarrow> server \<times> string option" where
  "run_list_item w lid account url uid key is_admin s = (case start_child w uid key url s of
     Inl e \<Rightarrow> (s, Some e)
   | Inr (s1, job) \<Rightarrow>
       (case run_research_pipeline w uid None (s1\<lparr>sv_lists := update_list_account (wo_start w) account
               ChildProcessing None (Some job) no_scores None None (sv_lists s1)\<rparr>) of
          (s2, res) \<Rightarrow> finish_list w lid uid is_admin (list_item_result w lid account uid job key res s2)))"

section \<open>Watchlist items and seller profiles\<close>

definition no_doc_scores :: doc_scores where
  "no_doc_scores = \<lparr>ds_opportunity = None, ds_pain = None, ds_fit = None, ds_timing = None\<rparr>"

definition document_scores :: "int option \<Rightarrow> int \<Rightarrow> doc_db \<Rightarrow> doc_scores" where
  "document_scores i uid d = (case i of None \<Rightarrow> no_doc_scores
     | Some doc \<Rightarrow> (case get_document doc uid d of None \<Rightarrow> no_doc_scores
         | Some r \<Rightarrow> \<lparr>ds_opportunity = dr_opportunity r, ds_pain = dr_pain r, ds_fit = dr_fit r,
             ds_timing = dr_timing r\<rparr>))"

definition watch_failed ::
    "world \<Rightarrow> int \<Rightarrow> int \<Rightarrow> string \<Rightarrow> int option \<Rightarrow> string \<Rightarrow> server \<Rightarrow> server \<times> string option" where
  "watch_failed w item job schedule last_doc e s =
     (let s1 = set_job w job JobFailed None (Some (error_text e)) s
      in (s1\<lparr>sv_watch := complete_watchlist_run (wo_end w) item last_doc schedule (sv_watch s1)\<rparr>, Some e))"

definition run_watchlist_item ::
    "world \<Rightarrow> int \<Rightarrow> int \<Rightarrow> string \<Rightarrow> string \<Rightarrow> int option \<Rightarrow> server \<Rightarrow> server \<times> string option" where
  "run_watchlist_item w item uid url schedule last_doc s =
     (case create_job_with_credit (wo_start w) uid None url 100 (sv_accounts s) (sv_jobs s) of
        Inl InsufficientCredits \<Rightarrow> (s\<lparr>sv_watch := mark_skipped_no_credits (wo_start w) item (sv_watch s)\<rparr>, None)
      | Inl (JobDb e) \<Rightarrow> (s, Some ''violates foreign key constraint'')
      | Inr (a, d, j) \<Rightarrow>
          (let s0 = s\<lparr>sv_accounts := a, sv_jobs := d\<rparr>;
               old = document_scores last_doc uid (sv_docs s0)
           in case run_research_pipeline w uid (Some (jb_id j)) s0 of
                (s1, Inl e) \<Rightarrow> watch_failed w item (jb_id j) schedule last_doc e s1
              | (s1, Inr doc) \<Rightarrow>
                  (let s2 = set_job w (jb_id j) JobCompleted (Some doc) None s1;
                       new = document_scores (Some doc) uid (sv_docs s2)
                   in case record_score_change (wo_end w) item last_doc doc old new (sv_watch s2) of
                        Inl e \<Rightarrow> watch_failed w item (jb_id j) schedule last_doc
                          ''violates foreign key constraint'' s2
                      | Inr (wd, c) \<Rightarrow> (s2\<lparr>sv_watch := complete_watchlist_run (wo_end w) item (Some doc) schedule wd\<rparr>,
                          None))))"

definition run_seller_profile_enrichment :: "world \<Rightarrow> int \<Rightarrow> string \<Rightarrow> server \<Rightarrow> server \<times> string option" where
  "run_seller_profile_enrichment w uid website s = (case user_of (sv_accounts s) uid of
     None \<Rightarrow> (s, Some ''User not found'')
   | Some u \<Rightarrow>
       (let current = py_strip (pf_company_website (us_profile u))
        in if current = [] then (s, None)
           else if py_strip website \<noteq> [] \<and> current \<noteq> py_strip website then (s, None)
           else (case wo_validate w current of
             None \<Rightarrow> (s, None)
           | Some url \<Rightarrow> (case wo_profile w of
               Inl e \<Rightarrow> (s, Some e)
             | Inr p \<Rightarrow> (case update_seller_profile (wo_end w) uid url p (sv_accounts s) of
                 Inl e \<Rightarrow> (s, Some ''NoneType object is not iterable'')
               | Inr (a, r) \<Rightarrow> (s\<lparr>sv_accounts := a\<rparr>, None))))))"

end
