(* ===== verification/Worker.thy ===== *)
theory Worker
  imports Server Queue_Steps Idempotency
begin

text \<open>
  The worker process (\<open>worker.py\<close>): the dispatch of a claimed task to its job function, the
  scheduler of the watchlist, and the poll loop as a step relation.
\<close>

section \<open>Arguments\<close>

text \<open>
  \<open>f(**payload)\<close>: a missing or an unknown keyword is a \<open>TypeError\<close>. The job functions read
  their arguments at the types the code enqueues; a payload with another type stands for the
  exception it leads to.
\<close>

definition arg_int :: "payload \<Rightarrow> string \<Rightarrow> int option" where
  "arg_int p k = (case map_of p k of Some (PInt i) \<Rightarrow> Some i | _ \<Rightarrow> None)"

definition arg_str :: "payload \<Rightarrow> string \<Rightarrow> string option" where
  "arg_str p k = (case map_of p k of Some (PStr s) \<Rightarrow> Some s | _ \<Rightarrow> None)"

definition arg_bool :: "bool \<Rightarrow> payload \<Rightarrow> string \<Rightarrow> bool option" where
  "arg_bool dflt p k = (case map_of p k of None \<Rightarrow> Some dflt | Some (PBool b) \<Rightarrow> Some b | _ \<Rightarrow> None)"

text \<open>A parameter without a default (\<open>required\<close>) or with the default \<open>None\<close>\<close>

definition arg_opt_int :: "bool \<Rightarrow> payload \<Rightarrow> string \<Rightarrow> int option option" where
  "arg_opt_int required p k = (case map_of p k of
     None \<Rightarrow> if required then None else Some None
   | Some PNull \<Rightarrow> Some None
   | Some (PInt i) \<Rightarrow> Some (Some i)
   | _ \<Rightarrow> None)"

definition arg_opt_ids :: "payload \<Rightarrow> string \<Rightarrow> int list option option" where
  "arg_opt_ids p k = (case map_of p k of
     None \<Rightarrow> Some None | Some PNull \<Rightarrow> Some None | Some (PIds is) \<Rightarrow> Some (Some is) | _ \<Rightarrow> None)"

definition only_keys :: "string list \<Rightarrow> payload \<Rightarrow> bool" where
  "only_keys ks p = list_all (\<lambda>e. fst e \<in> set ks) p"

section \<open>Dispatch\<close>

datatype call =
    CallResearch int int "int option" string
  | CallProfile int string
  | CallRetry int int string int bool
  | CallListAnalysis int int "int option" bool
  | CallBulk int int "int option" bool
  | CallBulkItem int int string int "int option" bool
  | CallListItem int int string int "int option" bool
  | CallEnrich int int "int list option"
  | CallWrite int int "int list option"
  | CallWatchlist int int string string "int option"
  | CallAutomation int string int "scored_account list"

definition owner_keys :: "string list" where
  "owner_keys = [''user_id'', ''api_key_id'', ''is_admin'']"

definition parse_call :: "string \<Rightarrow> payload \<Rightarrow> call option" where
  "parse_call ty p =
     (if ty = ''research'' then
        (case (arg_int p ''job_id'', arg_int p ''user_id'', arg_opt_int True p ''api_key_id'',
            arg_str p ''company_url'', arg_bool False p ''is_admin'') of
           (Some j, Some u, Some k, Some url, Some adm) \<Rightarrow>
             if only_keys (owner_keys @ [''job_id'', ''company_url'']) p then Some (CallResearch j u k url) else None
         | _ \<Rightarrow> None)
      else if ty = ''seller_profile_enrichment'' then
        (case (arg_int p ''user_id'', arg_str p ''company_website'') of
           (Some u, Some web) \<Rightarrow> if only_keys [''user_id'', ''company_website''] p then Some (CallProfile u web) else None
         | _ \<Rightarrow> None)
      else if ty = ''retry'' then
        (case (arg_int p ''user_id'', arg_int p ''account_id'', arg_str p ''company_url'', arg_int p ''job_id'',
            arg_bool False p ''is_admin'') of
           (Some u, Some a, Some url, Some j, Some adm) \<Rightarrow>
             if only_keys [''user_id'', ''account_id'', ''company_url'', ''job_id'', ''is_admin''] p
             then Some (CallRetry u a url j adm) else None
         | _ \<Rightarrow> None)
      else if ty = ''list_analysis'' then
        (case (arg_int p ''list_id'', arg_int p ''user_id'', arg_opt_int False p ''api_key_id'', arg_bool False p ''is_admin'') of
           (Some l, Some u, Some k, Some adm) \<Rightarrow>
             if only_keys (''list_id'' # owner_keys) p then Some (CallListAnalysis l u k adm) else None
         | _ \<Rightarrow> None)
      else if ty = ''bulk'' then
        (case (arg_int p ''bulk_job_id'', arg_int p ''user_id'', arg_opt_int True p ''api_key_id'', arg_bool False p ''is_admin'') of
           (Some b, Some u, Some k, Some adm) \<Rightarrow>
             if only_keys (''bulk_job_id'' # owner_keys) p then Some (CallBulk b u k adm) else None
         | _ \<Rightarrow> None)
      else if ty = ''bulk_item'' then
        (case (arg_int p ''bulk_job_id'', arg_int p ''item_id'', arg_str p ''company_url'', arg_int p ''user_id'',
            arg_opt_int True p ''api_key_id'', arg_bool False p ''is_admin'') of
           (Some b, Some i, Some url, Some u, Some k, Some adm) \<Rightarrow>
             if only_keys (owner_keys @ [''bulk_job_id'', ''item_id'', ''company_url'', ''account_index'']) p
             then Some (CallBulkItem b i url u k adm) else None
         | _ \<Rightarrow> None)
      else if ty = ''list_item'' then
        (case (arg_int p ''list_id'', arg_int p ''account_id'', arg_str p ''company_url'', arg_int p ''user_id'',
            arg_opt_int False p ''api_key_id'', arg_bool False p ''is_admin'') of
           (Some l, Some a, Some url, Some u, Some k, Some adm) \<Rightarrow>
             if only_keys (owner_keys @ [''list_id'', ''account_id'', ''company_url'', ''account_index'']) p
             then Some (CallListItem l a url u k adm) else None
         | _ \<Rightarrow> None)
      else if ty = ''batch_enrich'' \<or> ty = ''batch_write'' then
        (case (arg_int p ''list_id'', arg_int p ''user_id'', arg_opt_ids p ''account_ids'') of
           (Some l, Some u, Some ids) \<Rightarrow> if only_keys [''list_id'', ''user_id'', ''account_ids''] p
             then Some (if ty = ''batch_enrich'' then CallEnrich l u ids else CallWrite l u ids) else None
         | _ \<Rightarrow> None)
      else if ty = ''watchlist_item'' then
        (case (arg_int p ''watchlist_item_id'', arg_int p ''user_id'', arg_str p ''company_url'', arg_str p ''schedule'',
            arg_opt_int False p ''last_document_id'') of
           (Some i, Some u, Some url, Some sch, Some doc) \<Rightarrow>
             if only_keys [''watchlist_item_id'', ''user_id'', ''company_url'', ''schedule'', ''last_document_id''] p
             then Some (CallWatchlist i u url sch doc) else None
         | _ \<Rightarrow> None)
      else if ty = ''automation'' then
        (case (arg_int p ''user_id'', arg_str p ''trigger_event'', map_of p ''context'') of
           (Some u, Some tr, Some (PCtx l as)) \<Rightarrow> Some (CallAutomation u tr l as)
         | _ \<Rightarrow> None)
      else None)"

definition run_call :: "world \<Rightarrow> call \<Rightarrow> server \<Rightarrow> server \<times> string option" where
  "run_call w c s = (case c of
     CallResearch j u k url \<Rightarrow> run_research_job w j u k url s
   | CallProfile u web \<Rightarrow> run_seller_profile_enrichment w u web s
   | CallRetry u a url j adm \<Rightarrow> run_retry_account w u a url j adm s
   | CallListAnalysis l u k adm \<Rightarrow> run_list_analysis w l u k adm s
   | CallBulk b u k adm \<Rightarrow> run_bulk_job w b u k adm s
   | CallBulkItem b i url u k adm \<Rightarrow> run_bulk_item w b i url u k adm s
   | CallListItem l a url u k adm \<Rightarrow> run_list_item w l a url u k adm s
   | CallEnrich l u ids \<Rightarrow> (s\<lparr>sv_lists := run_batch_enrich (wo_actions w) l ids (sv_lists s)\<rparr>, None)
   | CallWrite l u ids \<Rightarrow> (s\<lparr>sv_lists := run_batch_write_sequences (wo_actions w) l u ids (sv_accounts s)
       (sv_docs s) (sv_lists s)\<rparr>, None)
   | CallWatchlist i u url sch doc \<Rightarrow> run_watchlist_item w i u url sch doc s
   | CallAutomation u tr l as \<Rightarrow>
       (case evaluate_rules (wo_actions w) (wo_end w) u tr l as (sv_accounts s) (sv_docs s) (sv_rules s, sv_lists s) of
          (r, d) \<Rightarrow> (s\<lparr>sv_rules := r, sv_lists := d\<rparr>, None)))"

text \<open>The job function of a task, or the exception of the call itself\<close>

definition run_task :: "world \<Rightarrow> task \<Rightarrow> server \<Rightarrow> server \<times> string option" where
  "run_task w t s = (case parse_call (tk_type t) (tk_payload t) of
     None \<Rightarrow> (s, Some (''Unknown task type or arguments: '' @ tk_type t))
   | Some c \<Rightarrow> run_call w c s)"

text \<open>\<open>not payload.get("is_admin")\<close>\<close>

definition payload_admin :: "payload \<Rightarrow> bool" where
  "payload_admin p = (map_of p ''is_admin'' = Some (PBool True))"

definition settle_failure :: "world \<Rightarrow> task \<Rightarrow> string \<Rightarrow> server \<Rightarrow> server" where
  "settle_failure w t e s = (case fail (wo_end w) (tk_id t) (take 2000 e) (sv_queue s) of
     (q, exhausted) \<Rightarrow>
       (let s1 = s\<lparr>sv_queue := q\<rparr>
        in if exhausted \<and> tk_type t = ''research'' \<and> \<not> payload_admin (tk_payload t) then
             (case arg_int (tk_payload t) ''user_id'' of None \<Rightarrow> s1 | Some u \<Rightarrow> refund w u 100 s1)
           else s1))"

definition dispatch :: "world \<Rightarrow> task \<Rightarrow> server \<Rightarrow> server" where
  "dispatch w t s = (case run_task w t s of
     (s1, None) \<Rightarrow> s1\<lparr>sv_queue := complete (wo_end w) (tk_id t) (sv_queue s1)\<rparr>
   | (s1, Some e) \<Rightarrow> settle_failure w t e s1)"

section \<open>Scheduling and polling\<close>

definition watch_payload :: "watch_row \<Rightarrow> payload" where
  "watch_payload r = [(''watchlist_item_id'', PInt (wl_id r)), (''user_id'', PInt (wl_user r)),
     (''company_url'', PStr (wl_url r)), (''schedule'', PStr (wl_schedule r)),
     (''last_document_id'', case wl_last_doc r of None \<Rightarrow> PNull | Some d \<Rightarrow> PInt d)]"

definition enqueue_due_watchlist_items :: "time \<Rightarrow> server \<Rightarrow> server" where
  "enqueue_due_watchlist_items now s = (case claim_due_items now 50 (sv_watch s) of
     (d, items) \<Rightarrow> s\<lparr>sv_watch := d,
       sv_queue := enqueue_all now ''watchlist_item'' (map watch_payload items) (sv_queue s)\<rparr>)"

definition claim_task :: "string \<Rightarrow> time \<Rightarrow> int list \<Rightarrow> nat \<Rightarrow> server \<Rightarrow> server \<times> task option" where
  "claim_task worker now locked tie s = (case claim_next worker now locked tie (sv_queue s) of
     (q, t) \<Rightarrow> (s\<lparr>sv_queue := q\<rparr>, t))"

text \<open>
  The poll loop, on the database and the tasks that are in flight. Stale tasks, old tasks and due watchlist
  items are each looked after on a counter of their own; claiming starts a background dispatch, so the loop
  goes on while a claimed task is in flight: other tasks are claimed, and a task that is in flight for long
  may be requeued as stale and claimed again. The work of a dispatch itself is one step, at any later
  time. The number of tasks in flight has no bound here: the semaphore of \<open>MAX_CONCURRENT\<close> slots is one
  of each worker process, and any number of processes share the queue. The expiry of idempotency keys is
  a table of the API.
\<close>

inductive worker_step :: "server \<times> task list \<Rightarrow> server \<times> task list \<Rightarrow> bool" where
  step_requeue: "worker_step (s, ts) (s\<lparr>sv_queue := fst (requeue_stale now 15 (sv_queue s))\<rparr>, ts)"
| step_cleanup: "worker_step (s, ts) (s\<lparr>sv_queue := fst (cleanup_completed_tasks now 7 (sv_queue s))\<rparr>, ts)"
| step_watchlist: "worker_step (s, ts) (enqueue_due_watchlist_items now s, ts)"
| step_idle: "claim_task worker now locked tie s = (s1, None) \<Longrightarrow> worker_step (s, ts) (s1, ts)"
| step_claim: "claim_task worker now locked tie s = (s1, Some t) \<Longrightarrow> worker_step (s, ts) (s1, t # ts)"
| step_dispatch: "t \<in> set ts \<Longrightarrow> worker_step (s, ts) (dispatch w t s, remove1 t ts)"

inductive_cases worker_stepE: "worker_step s s'"

end
