(* ===== verification/Server_Properties.thy ===== *)
theory Server_Properties
  imports Worker List_Properties Credits
begin

text \<open>
  What the worker does to the database as a whole: which tables each job leaves alone, what a
  failed attempt costs, and why bulk jobs and lists are never finalized.
\<close>

section \<open>Frames\<close>

lemma charge_usage_frame [simp]:
  "sv_queue (charge_usage k s) = sv_queue s" "sv_bulk (charge_usage k s) = sv_bulk s"
  "sv_lists (charge_usage k s) = sv_lists s" "sv_accounts (charge_usage k s) = sv_accounts s"
  "sv_jobs (charge_usage k s) = sv_jobs s" "sv_docs (charge_usage k s) = sv_docs s"
  "sv_watch (charge_usage k s) = sv_watch s"
  by (simp_all add: charge_usage_def record_api_usage_def split: option.split)

lemma record_api_usage_frame [simp]:
  fixes k :: int
  shows "sv_queue (record_api_usage k e c s) = sv_queue s" "sv_bulk (record_api_usage k e c s) = sv_bulk s"
  "sv_lists (record_api_usage k e c s) = sv_lists s" "sv_accounts (record_api_usage k e c s) = sv_accounts s"
  by (simp_all add: record_api_usage_def)

lemma notify_frame [simp]:
  "sv_queue (notify w u e j x s) = sv_queue s" "sv_bulk (notify w u e j x s) = sv_bulk s"
  "sv_lists (notify w u e j x s) = sv_lists s" "sv_accounts (notify w u e j x s) = sv_accounts s"
  "sv_jobs (notify w u e j x s) = sv_jobs s" "sv_docs (notify w u e j x s) = sv_docs s"
  "sv_watch (notify w u e j x s) = sv_watch s"
  by (simp_all add: notify_def)

lemma set_job_frame [simp]:
  "sv_queue (set_job w i st doc e s) = sv_queue s" "sv_bulk (set_job w i st doc e s) = sv_bulk s"
  "sv_lists (set_job w i st doc e s) = sv_lists s" "sv_accounts (set_job w i st doc e s) = sv_accounts s"
  "sv_docs (set_job w i st doc e s) = sv_docs s" "sv_watch (set_job w i st doc e s) = sv_watch s"
  by (simp_all add: set_job_def)

lemma refund_frame [simp]:
  "sv_queue (refund w u c s) = sv_queue s" "sv_bulk (refund w u c s) = sv_bulk s"
  "sv_lists (refund w u c s) = sv_lists s" "sv_jobs (refund w u c s) = sv_jobs s"
  "sv_docs (refund w u c s) = sv_docs s" "sv_watch (refund w u c s) = sv_watch s"
  by (simp_all add: refund_def)

lemma report_progress_frame [simp]:
  "sv_queue (report_progress j st s) = sv_queue s" "sv_bulk (report_progress j st s) = sv_bulk s"
  "sv_lists (report_progress j st s) = sv_lists s" "sv_accounts (report_progress j st s) = sv_accounts s"
  "sv_docs (report_progress j st s) = sv_docs s" "sv_watch (report_progress j st s) = sv_watch s"
  by (simp_all add: report_progress_def split: option.split)

lemma pipeline_frame:
  assumes "run_research_pipeline w uid job s = (s', res)"
  shows "sv_queue s' = sv_queue s" "sv_bulk s' = sv_bulk s" "sv_lists s' = sv_lists s"
    "sv_accounts s' = sv_accounts s" "sv_watch s' = sv_watch s"
  using assms unfolding run_research_pipeline_def Let_def
  by (auto split: option.splits if_splits sum.splits prod.splits)

lemma set_bulk_item_frame [simp]:
  "sv_queue (set_bulk_item t i st j doc e s) = sv_queue s" "sv_lists (set_bulk_item t i st j doc e s) = sv_lists s"
  "sv_accounts (set_bulk_item t i st j doc e s) = sv_accounts s"
  by (simp_all add: set_bulk_item_def)

lemma bulk_item_result_frame [simp]:
  "sv_queue (bulk_item_result w i j k res s) = sv_queue s"
  "sv_lists (bulk_item_result w i j k res s) = sv_lists s"
  "sv_accounts (bulk_item_result w i j k res s) = sv_accounts s"
  by (simp_all add: bulk_item_result_def bulk_item_failed_def split: sum.split option.split)

lemma start_child_frame:
  assumes "start_child w uid key url s = Inr (s', j)"
  shows "sv_queue s' = sv_queue s" "sv_bulk s' = sv_bulk s" "sv_lists s' = sv_lists s"
    "sv_accounts s' = sv_accounts s" "sv_docs s' = sv_docs s"
  using assms unfolding start_child_def by (auto split: sum.splits prod.splits)

lemma account_update_frame [simp]:
  "sv_queue (fail_account w a j e s) = sv_queue s" "sv_bulk (fail_account w a j e s) = sv_bulk s"
  "sv_accounts (fail_account w a j e s) = sv_accounts s"
  "sv_queue (complete_account w a j r s) = sv_queue s" "sv_bulk (complete_account w a j r s) = sv_bulk s"
  "sv_accounts (complete_account w a j r s) = sv_accounts s"
  by (simp_all add: fail_account_def complete_account_def)

section \<open>Final states of parents\<close>

text \<open>The status column of the parents: what finalization would change.\<close>

definition bulk_statuses :: "server \<Rightarrow> (int \<times> batch_status) list" where
  "bulk_statuses s = map (\<lambda>j. (bj_id j, bj_status j)) (bk_jobs (sv_bulk s))"

definition list_statuses :: "server \<Rightarrow> (int \<times> batch_status) list" where
  "list_statuses s = map (\<lambda>l. (ls_id l, ls_status l)) (ld_lists (sv_lists s))"

lemma bulk_statuses_cong: "sv_bulk s' = sv_bulk s \<Longrightarrow> bulk_statuses s' = bulk_statuses s"
  by (simp add: bulk_statuses_def)

lemma list_statuses_cong: "sv_lists s' = sv_lists s \<Longrightarrow> list_statuses s' = list_statuses s"
  by (simp add: list_statuses_def)

lemma bulk_statuses_simps [simp]:
  "bulk_statuses (s\<lparr>sv_queue := q\<rparr>) = bulk_statuses s" "bulk_statuses (s\<lparr>sv_lists := d\<rparr>) = bulk_statuses s"
  "bulk_statuses (s\<lparr>sv_watch := wd\<rparr>) = bulk_statuses s"
  "bulk_statuses (set_job w i st doc e s) = bulk_statuses s" "bulk_statuses (refund w u c s) = bulk_statuses s"
  "bulk_statuses (charge_usage k s) = bulk_statuses s"
  "bulk_statuses (record_api_usage api ep n s) = bulk_statuses s"
  "bulk_statuses (fail_account w a j x s) = bulk_statuses s"
  "bulk_statuses (complete_account w a j r s) = bulk_statuses s"
  by (simp_all add: bulk_statuses_def)

lemma list_statuses_simps [simp]:
  "list_statuses (s\<lparr>sv_queue := q\<rparr>) = list_statuses s" "list_statuses (s\<lparr>sv_bulk := b\<rparr>) = list_statuses s"
  "list_statuses (s\<lparr>sv_watch := x\<rparr>) = list_statuses s"
  "list_statuses (set_job w i st doc e s) = list_statuses s" "list_statuses (refund w u c s) = list_statuses s"
  "list_statuses (charge_usage k s) = list_statuses s"
  by (simp_all add: list_statuses_def)

lemma update_item_statuses:
  "map (\<lambda>j. (bj_id j, bj_status j)) (bk_jobs (update_bulk_job_item now i st r doc e d)) =
   map (\<lambda>j. (bj_id j, bj_status j)) (bk_jobs d)"
  by (simp add: update_bulk_job_item_def Let_def map_update_where)

lemma set_bulk_item_statuses [simp]: "bulk_statuses (set_bulk_item t i st j doc e s) = bulk_statuses s"
  by (simp add: bulk_statuses_def set_bulk_item_def update_item_statuses)

lemma bulk_item_result_statuses [simp]: "bulk_statuses (bulk_item_result w i j k res s) = bulk_statuses s"
  by (simp add: bulk_item_result_def bulk_item_failed_def split: sum.split option.split)

lemma update_account_statuses:
  "map (\<lambda>l. (ls_id l, ls_status l)) (ld_lists (update_list_account now i st doc r sc n e d)) =
   map (\<lambda>l. (ls_id l, ls_status l)) (ld_lists d)"
  by (simp add: update_list_account_def update_account_where_def update_owner_def Let_def map_update_where)

lemma account_statuses [simp]:
  "list_statuses (fail_account w a j e s) = list_statuses s"
  "list_statuses (complete_account w a j r s) = list_statuses s"
  by (simp_all add: list_statuses_def fail_account_def complete_account_def update_account_statuses)

text \<open>A task that is running counts as an unfinished sibling, the caller's own task included.\<close>

definition holds_open :: "string \<Rightarrow> int \<Rightarrow> task_db \<Rightarrow> bool" where
  "holds_open key i q \<longleftrightarrow> list_ex (\<lambda>t. tk_status t = Running \<and> arg_int (tk_payload t) key = Some i) (tq_rows q)"

lemma holds_open_blocks:
  assumes "holds_open key i q"
  shows "check_no_pending_siblings now key (str_int i) q = (q, False)"
proof -
  obtain t where t: "t \<in> set (tq_rows q)" "tk_status t = Running" "arg_int (tk_payload t) key = Some i"
    using assms by (auto simp: holds_open_def list_ex_iff)
  have "map_of (tk_payload t) key = Some (PInt i)"
    using t(3) by (simp add: arg_int_def split: option.splits pval.splits)
  then have "unfinished key (str_int i) t" using t(2) by (simp add: unfinished_def payload_matches_def)
  then have "count_where (unfinished key (str_int i)) (tq_rows q) \<noteq> 0"
    using t(1) by (auto simp: count_where_eq_0)
  then show ?thesis by (simp add: check_no_pending_siblings_def)
qed

lemma finish_bulk_blocked:
  "holds_open ''bulk_job_id'' b (sv_queue s) \<Longrightarrow> finish_bulk w b uid adm s = (s, None)"
  by (simp add: finish_bulk_def holds_open_blocks)

lemma finish_list_blocked:
  "holds_open ''list_id'' l (sv_queue s) \<Longrightarrow> finish_list w l uid adm s = (s, None)"
  by (simp add: finish_list_def holds_open_blocks)

lemma list_item_result_frame:
  "bulk_statuses (list_item_result w l a uid j k res s) = bulk_statuses s \<and>
   list_statuses (list_item_result w l a uid j k res s) = list_statuses s \<and>
   sv_accounts (list_item_result w l a uid j k res s) = sv_accounts s"
proof (cases res)
  case (Inl e)
  then show ?thesis
    by (simp add: list_item_result_def list_item_failed_def)
next
  case (Inr doc)
  define s1 where "s1 = set_job w j JobCompleted (Some doc) None (charge_usage k s)"
  have f: "bulk_statuses s1 = bulk_statuses s" "list_statuses s1 = list_statuses s"
    "sv_accounts s1 = sv_accounts s" "sv_queue s1 = sv_queue s"
    by (simp_all add: s1_def)
  show ?thesis
  proof (cases "get_document doc uid (sv_docs s1)")
    case None
    then have "list_item_result w l a uid j k res s = list_item_failed w a j missing_document s1"
      by (simp add: list_item_result_def Inr s1_def [symmetric])
    then show ?thesis using f by (simp add: list_item_failed_def)
  next
    case (Some r)
    define s2 where "s2 = complete_account w a j r s1"
    have g: "bulk_statuses s2 = bulk_statuses s" "list_statuses s2 = list_statuses s"
      "sv_accounts s2 = sv_accounts s" "sv_queue s2 = sv_queue s"
      using f by (simp_all add: s2_def)
    have "list_item_result w l a uid j k res s = s2\<lparr>sv_queue := fst (enqueue (wo_end w) ''automation''
        (automation_payload uid ''account_scored'' (PCtx l [scored_row a r])) (sv_queue s2))\<rparr>"
      by (simp add: list_item_result_def Inr s1_def [symmetric] Some s2_def)
    then show ?thesis using g by simp
  qed
qed

section \<open>Calls\<close>

lemma enrich_statuses [simp]:
  "map (\<lambda>l. (ls_id l, ls_status l)) (ld_lists (run_batch_enrich w l ids d)) =
   map (\<lambda>l. (ls_id l, ls_status l)) (ld_lists d)"
proof -
  have "ld_lists (enrich_account w r d) = ld_lists d" for r d
    by (simp add: enrich_account_def update_list_account_enrichment_def update_account_where_def Let_def split: sum.split)
  then have "ld_lists (fold (enrich_account w) rs d) = ld_lists d" for rs d
    by (induction rs arbitrary: d) simp_all
  then show ?thesis by (simp add: run_batch_enrich_def)
qed

lemma write_statuses [simp]:
  "map (\<lambda>l. (ls_id l, ls_status l)) (ld_lists (run_batch_write_sequences w l u ids a docs d)) =
   map (\<lambda>l. (ls_id l, ls_status l)) (ld_lists d)"
proof -
  have "ld_lists (write_account w u docs r d) = ld_lists d" for r d
    by (simp add: write_account_def update_list_account_outreach_def update_account_where_def Let_def split: option.split)
  then have "ld_lists (fold (write_account w u docs) rs d) = ld_lists d" for rs d
    by (induction rs arbitrary: d) simp_all
  then show ?thesis by (simp add: run_batch_write_sequences_def)
qed

lemma execute_statuses:
  "map (\<lambda>l. (ls_id l, ls_status l)) (ld_lists (snd (execute_action w now r u l m a docs s))) =
   map (\<lambda>l. (ls_id l, ls_status l)) (ld_lists (snd s))"
proof -
  obtain d st e where p: "perform w r u l m a docs (snd s) = (d, st, e)" by (cases "perform w r u l m a docs (snd s)")
  have "map (\<lambda>l. (ls_id l, ls_status l)) (ld_lists d) = map (\<lambda>l. (ls_id l, ls_status l)) (ld_lists (snd s))"
    using p unfolding perform_def by (auto split: option.splits if_splits)
  then show ?thesis by (simp add: execute_action_def p split: prod.split)
qed

lemma apply_rules_statuses:
  "map (\<lambda>l. (ls_id l, ls_status l)) (ld_lists (snd (apply_rules w now u l as a docs rs s))) =
   map (\<lambda>l. (ls_id l, ls_status l)) (ld_lists (snd s))"
proof (induction rs arbitrary: s)
  case (Cons r rs)
  then show ?case by (cases "filter_by_conditions as (ar_conditions r)") (simp_all add: execute_statuses)
qed simp

text \<open>
  The jobs of single accounts: one account row may change, never the status of a parent.
\<close>

lemma retry_statuses:
  assumes "run_retry_account w u a url j adm s = (s', r)"
  shows "bulk_statuses s' = bulk_statuses s \<and> list_statuses s' = list_statuses s"
proof -
  obtain s1 res where p: "run_research_pipeline w u (Some j) s = (s1, res)"
    by (cases "run_research_pipeline w u (Some j) s")
  note f = pipeline_frame [OF p]
  have rf: "bulk_statuses (retry_failed w u a j adm e x) = bulk_statuses x \<and>
      list_statuses (retry_failed w u a j adm e x) = list_statuses x" for e x
    by (simp add: retry_failed_def)
  have s1: "bulk_statuses s1 = bulk_statuses s" "list_statuses s1 = list_statuses s"
    using f by (simp_all add: bulk_statuses_def list_statuses_def)
  show ?thesis
    using assms unfolding run_retry_account_def p Let_def
    by (auto simp: rf s1 split: sum.splits option.splits)
qed

lemma watchlist_statuses:
  assumes "run_watchlist_item w i u url sch doc s = (s', r)"
  shows "sv_bulk s' = sv_bulk s \<and> sv_lists s' = sv_lists s"
proof (cases "create_job_with_credit (wo_start w) u None url 100 (sv_accounts s) (sv_jobs s)")
  case (Inl e)
  then show ?thesis using assms by (cases e) (auto simp: run_watchlist_item_def)
next
  case (Inr x)
  obtain a d j where x: "x = (a, d, j)" by (cases x)
  define s0 where "s0 = s\<lparr>sv_accounts := a, sv_jobs := d\<rparr>"
  obtain s1 res where p: "run_research_pipeline w u (Some (jb_id j)) s0 = (s1, res)"
    by (cases "run_research_pipeline w u (Some (jb_id j)) s0")
  have f: "sv_bulk s1 = sv_bulk s" "sv_lists s1 = sv_lists s"
    using pipeline_frame [OF p] by (simp_all add: s0_def)
  have wf: "sv_bulk (fst (watch_failed w i jj sch doc e y)) = sv_bulk y \<and>
      sv_lists (fst (watch_failed w i jj sch doc e y)) = sv_lists y" for jj e y
    by (simp add: watch_failed_def Let_def)
  show ?thesis
    using assms wf [of "jb_id j" _ s1] wf [of "jb_id j" _ "set_job w (jb_id j) JobCompleted _ None s1"] f
    unfolding run_watchlist_item_def Inr x s0_def [symmetric] Let_def
    by (auto simp: p s0_def [symmetric] watch_failed_def Let_def split: sum.splits prod.splits)
qed

lemma research_statuses:
  assumes "run_research_job w j u k url s = (s', r)"
  shows "sv_bulk s' = sv_bulk s \<and> sv_lists s' = sv_lists s"
proof -
  obtain s1 res where p: "run_research_pipeline w u (Some j) s = (s1, res)"
    by (cases "run_research_pipeline w u (Some j) s")
  show ?thesis
    using assms pipeline_frame [OF p] unfolding run_research_job_def p by (auto split: sum.splits)
qed

end
