(* ===== verification/Worker_Typing.thy ===== *)
theory Worker_Typing
  imports Server_Properties
begin

text \<open>
  The payloads of the queue: the chunked fan-out enqueues one child per item, every payload
  the worker's jobs enqueue is one that the dispatcher can call a job function with, and this
  stays so along any run of the worker.
\<close>

section \<open>Payloads that dispatch\<close>

definition dispatchable :: "string \<Rightarrow> payload \<Rightarrow> bool" where
  "dispatchable ty p \<longleftrightarrow> parse_call ty p \<noteq> None"

lemma parse_automation:
  "parse_call ''automation'' (automation_payload u tr (PCtx l as)) = Some (CallAutomation u tr l as)"
  by (simp add: parse_call_def automation_payload_def arg_int_def arg_str_def)

lemma parse_bulk_child:
  "parse_call ''bulk_item'' (child_payload (owner_payload u key adm) (bulk_child b r) i) =
     Some (CallBulkItem b (bi_id r) (bi_url r) u key adm)"
  by (cases key) (simp_all add: parse_call_def child_payload_def owner_payload_def bulk_child_def arg_int_def
      arg_str_def arg_opt_int_def arg_bool_def only_keys_def owner_keys_def)

lemma parse_list_child:
  "parse_call ''list_item'' (child_payload (owner_payload u key adm) (list_child l r) i) =
     Some (CallListItem l (la_id r) (la_url r) u key adm)"
  by (cases key) (simp_all add: parse_call_def child_payload_def owner_payload_def list_child_def arg_int_def
      arg_str_def arg_opt_int_def arg_bool_def only_keys_def owner_keys_def)

lemma parse_watch:
  "parse_call ''watchlist_item'' (watch_payload r) =
     Some (CallWatchlist (wl_id r) (wl_user r) (wl_url r) (wl_schedule r) (wl_last_doc r))"
  by (cases "wl_last_doc r") (simp_all add: parse_call_def watch_payload_def arg_int_def arg_str_def
      arg_opt_int_def only_keys_def)

section \<open>Fan-out\<close>

lemma enqueue_all_append: "enqueue_all now ty (ps @ qs) q = enqueue_all now ty qs (enqueue_all now ty ps q)"
  by (induction ps arbitrary: q) simp_all

lemma enqueue_many_all: "fst (enqueue_many now ty ps q) = enqueue_all now ty ps q"
  by (simp add: enqueue_many_def)

lemma enumerate_split: "enumerate n (take k xs) @ enumerate (n + k) (drop k xs) = enumerate n xs"
proof (cases "k \<le> length xs")
  case True
  have "enumerate n xs = enumerate n (take k xs @ drop k xs)" by simp
  also have "\<dots> = enumerate n (take k xs) @ enumerate (n + k) (drop k xs)"
    using True by (simp only: enumerate_append_eq) simp
  finally show ?thesis ..
qed simp

abbreviation children :: "payload \<Rightarrow> nat \<Rightarrow> payload list \<Rightarrow> payload list" where
  "children shared n items \<equiv> map (\<lambda>(i, item). child_payload shared item i) (enumerate n items)"

lemma fan_out_from_all: "fan_out_from now ty shared n items q = enqueue_all now ty (children shared n items) q"
proof (induction "length items" arbitrary: items n q rule: less_induct)
  case less
  show ?case
  proof (cases "items = []")
    case True
    then show ?thesis by (simp add: fan_out_from.simps)
  next
    case False
    have "length (drop chunk_size items) < length items" using False by (cases items) (auto simp: chunk_size_def)
    note ih = less [OF this]
    have "fan_out_from now ty shared n items q =
        fan_out_from now ty shared (n + chunk_size) (drop chunk_size items)
          (enqueue_all now ty (children shared n (take chunk_size items)) q)"
      using False by (subst fan_out_from.simps) (simp add: enqueue_many_all)
    also have "\<dots> = enqueue_all now ty (children shared n (take chunk_size items) @
        children shared (n + chunk_size) (drop chunk_size items)) q"
      unfolding ih enqueue_all_append ..
    also have "children shared n (take chunk_size items) @ children shared (n + chunk_size) (drop chunk_size items) =
        children shared n items"
      by (simp only: map_append [symmetric] enumerate_split)
    finally show ?thesis .
  qed
qed

text \<open>
  C36: the fan-out in chunks of 500 is the plain loop that enqueues one child per item, in
  order, each with its position; no item is lost or doubled at a chunk boundary.
\<close>

theorem fan_out_is_one_per_item:
  "fan_out now ty items shared q =
     enqueue_all now ty (map (\<lambda>i. shared @ items ! i @ [(''account_index'', PInt (int i))]) [0..<length items]) q"
proof -
  have "children shared 0 items = map (\<lambda>i. child_payload shared (items ! i) i) [0..<length items]"
    by (rule nth_equalityI) (simp_all add: nth_enumerate_eq)
  then show ?thesis by (simp add: fan_out_def fan_out_from_all child_payload_def)
qed

section \<open>Growth of the queue\<close>

text \<open>
  A row that may be claimed some day has a payload that dispatches; the completed rows include
  the markers of finalization, whose payload is empty.
\<close>

definition row_typed :: "task \<Rightarrow> bool" where
  "row_typed t \<longleftrightarrow> tk_status t = Completed \<or> dispatchable (tk_type t) (tk_payload t)"

definition queue_typed :: "task_db \<Rightarrow> bool" where
  "queue_typed q \<longleftrightarrow> list_all row_typed (tq_rows q)"

definition grows :: "task_db \<Rightarrow> task_db \<Rightarrow> bool" where
  "grows q q' \<longleftrightarrow> tq_next q \<le> tq_next q' \<and> (queue_wf q \<longrightarrow> queue_wf q') \<and>
     (\<exists>new. tq_rows q' = tq_rows q @ new \<and> list_all (\<lambda>t. tq_next q \<le> tk_id t \<and> row_typed t) new)"

lemma grows_refl [simp]: "grows q q"
  by (simp add: grows_def)

lemma grows_trans: "grows q q' \<Longrightarrow> grows q' q'' \<Longrightarrow> grows q q''"
  by (force simp: grows_def list_all_iff)

lemma grows_insert: "row_typed t \<Longrightarrow> task_wf t \<Longrightarrow> tk_id t = tq_next q \<Longrightarrow> grows q (insert_task q t)"
  using queue_wf_insert [of q t] by (auto simp: grows_def insert_task_def)

lemma grows_enqueue: "dispatchable ty p \<Longrightarrow> grows q (fst (enqueue now ty p q))"
proof -
  assume "dispatchable ty p"
  then have "grows q (insert_task q (new_task (tq_next q) now ty p))"
    by (intro grows_insert task_wf_new) (simp_all add: row_typed_def new_task_def)
  then show ?thesis by (simp add: enqueue_def)
qed

lemma grows_enqueue_all: "list_all (dispatchable ty) ps \<Longrightarrow> grows q (enqueue_all now ty ps q)"
proof (induction ps arbitrary: q)
  case (Cons p ps)
  then have "grows q (fst (enqueue now ty p q))"
    and "grows (fst (enqueue now ty p q)) (enqueue_all now ty ps (fst (enqueue now ty p q)))"
    by (simp_all add: grows_enqueue)
  then show ?case using grows_trans by simp
qed simp

lemma grows_check: "grows q (fst (check_no_pending_siblings now key val q))"
proof -
  have "grows q (insert_task q (marker_row (tq_next q) now (marker_type key val)))"
    by (intro grows_insert task_wf_marker) (simp_all add: row_typed_def marker_row_def new_task_def)
  then show ?thesis by (simp add: check_no_pending_siblings_def)
qed

lemma grows_fan_out:
  assumes "\<And>item i. item \<in> set items \<Longrightarrow> dispatchable ty (child_payload shared item i)"
  shows "grows q (fan_out now ty items shared q)"
  unfolding fan_out_def fan_out_from_all
  by (rule grows_enqueue_all) (auto simp: list_all_iff in_set_enumerate_eq intro: assms)

lemma grows_list_complete: "grows (sv_queue s) (sv_queue (list_complete_automation w l u s))"
proof (cases "get_list_accounts (aw_rank (wo_actions w)) l any_filter ''composite_score'' ''desc'' 100 None (sv_lists s)")
  case (Inl e)
  then show ?thesis by (simp add: list_complete_automation_def)
next
  case (Inr x)
  then show ?thesis
    by (cases x) (simp add: list_complete_automation_def Let_def dumps_rows_def)
qed

lemma grows_finish_bulk: "grows (sv_queue s) (sv_queue (fst (finish_bulk w b u adm s)))"
proof -
  obtain q all_done where c: "check_no_pending_siblings (wo_end w) ''bulk_job_id'' (str_int b) (sv_queue s) = (q, all_done)"
    by (cases "check_no_pending_siblings (wo_end w) ''bulk_job_id'' (str_int b) (sv_queue s)")
  have "sv_queue (fst (finish_bulk w b u adm s)) = q"
    by (simp add: finish_bulk_def c Let_def split: sum.split prod.split)
  then show ?thesis using grows_check [of "sv_queue s" "wo_end w" "''bulk_job_id''" "str_int b"] c by simp
qed

lemma grows_finalize_list: "grows (sv_queue s) (sv_queue (fst (finalize_list_parent w l u adm s)))"
proof (cases "finalize_list (wo_end w) l (sv_lists s)")
  case (Inl e)
  then show ?thesis by (simp add: finalize_list_parent_def)
next
  case (Inr x)
  obtain d r where x: "x = (d, r)" by (cases x)
  define s1 where "s1 = s\<lparr>sv_lists := d\<rparr>"
  define s2 where "s2 = (if 0 < ls_failed r \<and> \<not> adm then refund w u (ls_failed r * 100) s1 else s1)"
  have q: "sv_queue s2 = sv_queue s" by (simp add: s2_def s1_def)
  have "fst (finalize_list_parent w l u adm s) =
      notify w u (final_event ''list.analyzed'' ''list.failed'' (ls_status r)) None (list_data l r)
        (list_complete_automation w l u s2)"
    by (simp add: finalize_list_parent_def Inr x s1_def s2_def Let_def)
  then show ?thesis using grows_list_complete [of s2 w l u] q by simp
qed

lemma grows_finish_list: "grows (sv_queue s) (sv_queue (fst (finish_list w l u adm s)))"
proof -
  obtain q all_done where c: "check_no_pending_siblings (wo_end w) ''list_id'' (str_int l) (sv_queue s) = (q, all_done)"
    by (cases "check_no_pending_siblings (wo_end w) ''list_id'' (str_int l) (sv_queue s)")
  have g: "grows (sv_queue s) q" using grows_check [of "sv_queue s" "wo_end w" "''list_id''" "str_int l"] c by simp
  show ?thesis
  proof (cases all_done)
    case True
    then show ?thesis
      using grows_trans [OF g, of "sv_queue (fst (finalize_list_parent w l u adm (s\<lparr>sv_queue := q\<rparr>)))"]
        grows_finalize_list [of "s\<lparr>sv_queue := q\<rparr>"]
      by (simp add: finish_list_def c)
  qed (simp add: finish_list_def c g)
qed

lemma run_bulk_item_steps:
  "(\<exists>e. run_bulk_item w b i url u k adm s = (s, Some e)) \<or>
   (\<exists>s'. sv_queue s' = sv_queue s \<and> bulk_statuses s' = bulk_statuses s \<and> list_statuses s' = list_statuses s \<and>
      run_bulk_item w b i url u k adm s = finish_bulk w b u adm s')"
proof (cases "start_child w u k url s")
  case (Inl e)
  then show ?thesis by (simp add: run_bulk_item_def)
next
  case (Inr x)
  obtain s1 job where x: "x = (s1, job)" by (cases x)
  note f1 = start_child_frame [OF Inr [unfolded x]]
  define s1' where "s1' = set_bulk_item (wo_start w) i ChildProcessing job None None s1"
  obtain s2 res where p: "run_research_pipeline w u None s1' = (s2, res)"
    by (cases "run_research_pipeline w u None s1'")
  note f2 = pipeline_frame [OF p]
  define s3 where "s3 = bulk_item_result w i job k res s2"
  have "sv_queue s3 = sv_queue s" by (simp add: s3_def f2 s1'_def f1)
  moreover have "bulk_statuses s3 = bulk_statuses s"
    unfolding s3_def by (simp add: bulk_statuses_cong [OF f2(2)] s1'_def bulk_statuses_cong [OF f1(2)])
  moreover have "list_statuses s3 = list_statuses s"
    by (rule list_statuses_cong) (simp add: s3_def f2 s1'_def f1)
  moreover have "run_bulk_item w b i url u k adm s = finish_bulk w b u adm s3"
    by (simp add: run_bulk_item_def Inr x s1'_def [symmetric] p s3_def)
  ultimately show ?thesis by blast
qed

lemma grows_list_item_result: "grows (sv_queue s) (sv_queue (list_item_result w l a u j k res s))"
proof (cases res)
  case (Inl e)
  then show ?thesis by (simp add: list_item_result_def list_item_failed_def)
next
  case (Inr doc)
  define s1 where "s1 = set_job w j JobCompleted (Some doc) None (charge_usage k s)"
  have q: "sv_queue s1 = sv_queue s" by (simp add: s1_def)
  show ?thesis
  proof (cases "get_document doc u (sv_docs s1)")
    case None
    then show ?thesis by (simp add: list_item_result_def Inr s1_def [symmetric] list_item_failed_def q)
  next
    case (Some r)
    define p where "p = automation_payload u ''account_scored'' (PCtx l [scored_row a r])"
    have "sv_queue (list_item_result w l a u j k res s) = fst (enqueue (wo_end w) ''automation'' p (sv_queue s))"
      by (simp add: list_item_result_def Inr s1_def [symmetric] Some Let_def q p_def)
    moreover have "dispatchable ''automation'' p" by (simp add: dispatchable_def p_def parse_automation)
    ultimately show ?thesis by (simp add: grows_enqueue)
  qed
qed

lemma run_list_item_steps:
  "(\<exists>e. run_list_item w l a url u k adm s = (s, Some e)) \<or>
   (\<exists>s'. grows (sv_queue s) (sv_queue s') \<and> bulk_statuses s' = bulk_statuses s \<and> list_statuses s' = list_statuses s \<and>
      run_list_item w l a url u k adm s = finish_list w l u adm s')"
proof (cases "start_child w u k url s")
  case (Inl e)
  then show ?thesis by (simp add: run_list_item_def)
next
  case (Inr x)
  obtain s1 job where x: "x = (s1, job)" by (cases x)
  note f1 = start_child_frame [OF Inr [unfolded x]]
  define s1' where "s1' = s1\<lparr>sv_lists := update_list_account (wo_start w) a
               ChildProcessing None (Some job) no_scores None None (sv_lists s1)\<rparr>"
  obtain s2 res where p: "run_research_pipeline w u None s1' = (s2, res)"
    by (cases "run_research_pipeline w u None s1'")
  note f2 = pipeline_frame [OF p]
  define s3 where "s3 = list_item_result w l a u job k res s2"
  have "sv_queue s2 = sv_queue s" by (simp add: f2 s1'_def f1)
  then have "grows (sv_queue s) (sv_queue s3)" unfolding s3_def using grows_list_item_result [of s2] by simp
  moreover have "bulk_statuses s2 = bulk_statuses s" by (simp add: bulk_statuses_def f2 s1'_def f1)
  moreover have "list_statuses s2 = list_statuses s"
    by (simp add: list_statuses_def f2 s1'_def f1 update_account_statuses)
  moreover have "run_list_item w l a url u k adm s = finish_list w l u adm s3"
    by (simp add: run_list_item_def Inr x s1'_def [symmetric] p s3_def)
  ultimately show ?thesis using list_item_result_frame [of w l a u job k res s2] unfolding s3_def by metis
qed

text \<open>A running row stays where it is while the queue grows.\<close>

lemma holds_open_grows: "grows q q' \<Longrightarrow> holds_open key i q \<Longrightarrow> holds_open key i q'"
  by (auto simp: grows_def holds_open_def)

end
