(* ===== verification/Worker_Properties.thy ===== *)
theory Worker_Properties
  imports Worker_Typing Queue_Properties
begin

text \<open>
  The worker as a whole: along any run of the poll loop, with any tasks in flight, every claimed task can be
  dispatched; the status of a bulk job or of a list is not changed by children that still own their task;
  and what a failing research task and a failing watchlist item cost.
\<close>

section \<open>Calls\<close>

lemma research_queue: "sv_queue (fst (run_research_job w j u k url s)) = sv_queue s"
proof -
  obtain s1 res where p: "run_research_pipeline w u (Some j) s = (s1, res)"
    by (cases "run_research_pipeline w u (Some j) s")
  show ?thesis using pipeline_frame(1) [OF p] by (cases res) (simp_all add: run_research_job_def p)
qed

lemma retry_queue: "sv_queue (fst (run_retry_account w u a url j adm s)) = sv_queue s"
proof -
  obtain s1 res where p: "run_research_pipeline w u (Some j) s = (s1, res)"
    by (cases "run_research_pipeline w u (Some j) s")
  have "sv_queue (retry_failed w u a j adm e x) = sv_queue x" for e x by (simp add: retry_failed_def)
  then show ?thesis using pipeline_frame(1) [OF p]
    by (cases res) (simp_all add: run_retry_account_def p Let_def split: option.split)
qed

lemma profile_frame:
  "sv_queue (fst (run_seller_profile_enrichment w u web s)) = sv_queue s \<and>
   sv_bulk (fst (run_seller_profile_enrichment w u web s)) = sv_bulk s \<and>
   sv_lists (fst (run_seller_profile_enrichment w u web s)) = sv_lists s"
  by (simp add: run_seller_profile_enrichment_def Let_def split: option.split sum.split prod.split)

lemma watchlist_queue: "sv_queue (fst (run_watchlist_item w i u url sch doc s)) = sv_queue s"
proof (cases "create_job_with_credit (wo_start w) u None url 100 (sv_accounts s) (sv_jobs s)")
  case (Inl e)
  then show ?thesis by (cases e) (simp_all add: run_watchlist_item_def)
next
  case (Inr x)
  obtain a d j where x: "x = (a, d, j)" by (cases x)
  define s0 where "s0 = s\<lparr>sv_accounts := a, sv_jobs := d\<rparr>"
  obtain s1 res where p: "run_research_pipeline w u (Some (jb_id j)) s0 = (s1, res)"
    by (cases "run_research_pipeline w u (Some (jb_id j)) s0")
  have f: "sv_queue s1 = sv_queue s" using pipeline_frame(1) [OF p] by (simp add: s0_def)
  have wf: "sv_queue (fst (watch_failed w i jj sch doc e y)) = sv_queue y" for jj e y
    by (simp add: watch_failed_def Let_def)
  show ?thesis
    unfolding run_watchlist_item_def Inr x s0_def [symmetric] Let_def
    by (cases res) (simp_all add: x s0_def [symmetric] p wf f split: sum.split prod.split)
qed

lemma bulk_job_frame:
  "grows (sv_queue s) (sv_queue (fst (run_bulk_job w b u k adm s))) \<and>
   sv_bulk (fst (run_bulk_job w b u k adm s)) = sv_bulk s \<and>
   sv_lists (fst (run_bulk_job w b u k adm s)) = sv_lists s"
proof (cases "get_bulk_job_items b (sv_bulk s)")
  case (Some items)
  have "grows (sv_queue s) (fan_out (wo_end w) ''bulk_item'' (map (bulk_child b) items)
      (owner_payload u k adm) (sv_queue s))"
    by (rule grows_fan_out) (auto simp: dispatchable_def parse_bulk_child)
  then show ?thesis by (simp add: run_bulk_job_def Some)
qed (simp add: run_bulk_job_def)

lemma list_analysis_frame:
  "grows (sv_queue s) (sv_queue (fst (run_list_analysis w l u k adm s))) \<and>
   sv_bulk (fst (run_list_analysis w l u k adm s)) = sv_bulk s \<and>
   sv_lists (fst (run_list_analysis w l u k adm s)) = sv_lists s"
proof (cases "get_pending_list_accounts l (sv_lists s)")
  case (Some rows)
  have "grows (sv_queue s) (fan_out (wo_end w) ''list_item'' (map (list_child l) rows)
      (owner_payload u k adm) (sv_queue s))"
    by (rule grows_fan_out) (auto simp: dispatchable_def parse_list_child)
  then show ?thesis by (simp add: run_list_analysis_def Some)
qed (simp add: run_list_analysis_def)

text \<open>The parent of a child call is held open by the child's own task, which is running.\<close>

definition child_open :: "call \<Rightarrow> task_db \<Rightarrow> bool" where
  "child_open c q = (case c of
     CallBulkItem b i url u k adm \<Rightarrow> holds_open ''bulk_job_id'' b q
   | CallListItem l a url u k adm \<Rightarrow> holds_open ''list_id'' l q
   | _ \<Rightarrow> True)"

lemma run_call_grows: "grows (sv_queue s) (sv_queue (fst (run_call w c s)))"
proof (cases c)
  case (CallBulkItem b i url u k adm)
  then show ?thesis
    using run_bulk_item_steps [of w b i url u k adm s] grows_finish_bulk
    by (auto simp: run_call_def) (metis fst_conv)+
next
  case (CallListItem l a url u k adm)
  then show ?thesis
    using run_list_item_steps [of w l a url u k adm s] grows_finish_list grows_trans
    by (auto simp: run_call_def)
next
  case (CallAutomation u tr l as)
  then show ?thesis by (simp add: run_call_def split: prod.split)
qed (simp_all add: run_call_def research_queue retry_queue profile_frame watchlist_queue
    bulk_job_frame list_analysis_frame)

lemma run_call_statuses:
  assumes "child_open c (sv_queue s)"
  shows "bulk_statuses (fst (run_call w c s)) = bulk_statuses s \<and>
    list_statuses (fst (run_call w c s)) = list_statuses s"
proof (cases c)
  case (CallBulkItem b i url u k adm)
  then have "holds_open ''bulk_job_id'' b (sv_queue s)" using assms by (simp add: child_open_def)
  then show ?thesis
    using run_bulk_item_steps [of w b i url u k adm s] finish_bulk_blocked [of b]
    by (auto simp: CallBulkItem run_call_def)
next
  case (CallListItem l a url u k adm)
  then have "holds_open ''list_id'' l (sv_queue s)" using assms by (simp add: child_open_def)
  then show ?thesis
    using run_list_item_steps [of w l a url u k adm s] finish_list_blocked [of l] holds_open_grows
    by (auto simp: CallListItem run_call_def)
next
  case (CallResearch j u k url)
  then show ?thesis using research_statuses [of w j u k url s]
    by (cases "run_research_job w j u k url s") (simp add: run_call_def bulk_statuses_def list_statuses_def)
next
  case (CallRetry u a url j adm)
  then show ?thesis using retry_statuses [of w u a url j adm s]
    by (cases "run_retry_account w u a url j adm s") (simp add: run_call_def)
next
  case (CallWatchlist i u url sch doc)
  then show ?thesis using watchlist_statuses [of w i u url sch doc s]
    by (cases "run_watchlist_item w i u url sch doc s") (simp add: run_call_def bulk_statuses_def list_statuses_def)
next
  case (CallAutomation u tr l as)
  obtain r d where e: "apply_rules (wo_actions w) (wo_end w) u l as (sv_accounts s) (sv_docs s)
      (get_enabled_rules u tr (sv_rules s)) (sv_rules s, sv_lists s) = (r, d)" by fastforce
  then show ?thesis
    using apply_rules_statuses [of "wo_actions w" "wo_end w" u l as "sv_accounts s" "sv_docs s"
        "get_enabled_rules u tr (sv_rules s)" "(sv_rules s, sv_lists s)"]
    by (simp add: CallAutomation run_call_def evaluate_rules_def bulk_statuses_def list_statuses_def)
qed (simp_all add: run_call_def bulk_statuses_def list_statuses_def profile_frame bulk_job_frame list_analysis_frame)

section \<open>The poll loop\<close>

text \<open>The row a worker has claimed, as the queue holds it during the dispatch.\<close>

lemma claimed_row:
  assumes wf: "queue_wf q" and ty: "queue_typed q" and c: "claim_next wk now locked tie q = (q', Some t)"
  shows "t \<in> set (tq_rows q')" "tk_status t = Running" "dispatchable (tk_type t) (tk_payload t)"
    "queue_typed q'" "queue_wf q'"
proof -
  from claim_next_Some [OF wf c] obtain r where r: "task_of q (tk_id r) = Some r" "claimable now locked r"
      "t = claim_row wk now r"
      "\<And>i. task_of q' i = (if i = tk_id r then Some (claim_row wk now r) else task_of q i)"
    by metis
  have rq: "r \<in> set (tq_rows q)" using r(1) task_of_SomeD by blast
  show "t \<in> set (tq_rows q')" using r(3) r(4) [of "tk_id r"] task_of_SomeD by auto
  show "tk_status t = Running" using r(3) by (simp add: claim_row_def)
  have "tk_status r = Pending" using r(2) by (simp add: claimable_def)
  moreover have "row_typed r" using ty rq by (simp add: queue_typed_def list_all_iff)
  ultimately have d: "dispatchable (tk_type r) (tk_payload r)" by (simp add: row_typed_def)
  then show "dispatchable (tk_type t) (tk_payload t)" using r(3) by (simp add: claim_row_def)
  show "queue_wf q'" using queue_wf_claim [OF wf, of wk now locked tie] c by simp
  show "queue_typed q'"
    unfolding queue_typed_def list_all_iff
  proof
    fix x assume x: "x \<in> set (tq_rows q')"
    have "task_of q' (tk_id x) = Some x" using task_of_mem [OF \<open>queue_wf q'\<close> x] .
    then show "row_typed x"
      using r(4) [of "tk_id x"] d ty
      by (auto simp: queue_typed_def list_all_iff row_typed_def claim_row_def split: if_splits dest!: task_of_SomeD)
  qed
qed

lemma queue_typed_grows: "queue_typed q \<Longrightarrow> grows q q' \<Longrightarrow> queue_typed q'"
  by (auto simp: queue_typed_def grows_def list_all_iff)

lemma grows_row:
  assumes "queue_wf q" "grows q q'" "t \<in> set (tq_rows q)" "x \<in> set (tq_rows q')" "tk_id x = tk_id t"
  shows "x = t"
proof -
  from assms(2) obtain new where n: "tq_rows q' = tq_rows q @ new" "list_all (\<lambda>t. tq_next q \<le> tk_id t \<and> row_typed t) new"
    by (auto simp: grows_def)
  have "tk_id t < tq_next q" using queue_wfD(2) [OF assms(1,3)] .
  then have "x \<in> set (tq_rows q)" using assms(4,5) n by (auto simp: list_all_iff)
  then show ?thesis using distinct_key_eq [OF queue_wfD(3) [OF assms(1)] _ assms(3,5)] by blast
qed

lemma queue_typed_settle:
  assumes "queue_typed q'" "\<And>x. x \<in> set (tq_rows q') \<Longrightarrow> tk_id x = i \<Longrightarrow> dispatchable (tk_type x) (tk_payload x)"
    and "\<And>x. tk_type (f x) = tk_type x" "\<And>x. tk_payload (f x) = tk_payload x"
  shows "queue_typed (q'\<lparr>tq_rows := update_where (\<lambda>t. tk_id t = i) f (tq_rows q')\<rparr>)"
  using assms by (auto simp: queue_typed_def list_all_iff set_update_where row_typed_def)

text \<open>What a parsed call says of the task it was read from\<close>

fun read_from :: "call \<Rightarrow> string \<Rightarrow> payload \<Rightarrow> bool" where
  "read_from (CallResearch j u k url) ty p \<longleftrightarrow> ty = ''research'' \<and> arg_int p ''user_id'' = Some u"
| "read_from (CallBulkItem b i url u k adm) ty p \<longleftrightarrow> arg_int p ''bulk_job_id'' = Some b"
| "read_from (CallListItem l a url u k adm) ty p \<longleftrightarrow> arg_int p ''list_id'' = Some l"
| "read_from (CallWatchlist i u url sch doc) ty p \<longleftrightarrow> ty = ''watchlist_item''"
| "read_from c ty p \<longleftrightarrow> True"

lemma parse_call_reads: "parse_call ty p = Some c \<Longrightarrow> read_from c ty p"
  unfolding parse_call_def by (auto split: if_splits option.splits pval.splits prod.splits)

lemma holds_open_claimed:
  assumes "t \<in> set (tq_rows q)" "tk_status t = Running" "parse_call (tk_type t) (tk_payload t) = Some c"
  shows "child_open c q"
proof (cases c)
  case (CallBulkItem b i url u k adm)
  have "arg_int (tk_payload t) ''bulk_job_id'' = Some b"
    using parse_call_reads [OF assms(3)] CallBulkItem by simp
  then show ?thesis using assms(1,2) by (auto simp: CallBulkItem child_open_def holds_open_def list_ex_iff)
next
  case (CallListItem l a url u k adm)
  have "arg_int (tk_payload t) ''list_id'' = Some l"
    using parse_call_reads [OF assms(3)] CallListItem by simp
  then show ?thesis using assms(1,2) by (auto simp: CallListItem child_open_def holds_open_def list_ex_iff)
qed (simp_all add: child_open_def)

definition server_ok :: "server \<Rightarrow> bool" where
  "server_ok s \<longleftrightarrow> queue_wf (sv_queue s) \<and> queue_typed (sv_queue s)"

text \<open>
  Where the rows of a queue come from: each is an old one, with its type and payload, or has a number of
  its own. Every step of the service changes the queue in this way.
\<close>

definition derived :: "task_db \<Rightarrow> task_db \<Rightarrow> bool" where
  "derived q q' \<longleftrightarrow> tq_next q \<le> tq_next q' \<and> list_all (\<lambda>x. tq_next q \<le> tk_id x \<or>
     list_ex (\<lambda>y. tk_id y = tk_id x \<and> tk_type y = tk_type x \<and> tk_payload y = tk_payload x) (tq_rows q)) (tq_rows q')"

lemma derivedI:
  assumes "tq_next q \<le> tq_next q'"
    and "\<And>x. x \<in> set (tq_rows q') \<Longrightarrow> tq_next q \<le> tk_id x \<or>
      (\<exists>y \<in> set (tq_rows q). tk_id y = tk_id x \<and> tk_type y = tk_type x \<and> tk_payload y = tk_payload x)"
  shows "derived q q'"
  using assms by (auto simp: derived_def list_all_iff list_ex_iff)

lemma derivedD:
  assumes "derived q q'" "x \<in> set (tq_rows q')" "tk_id x < tq_next q"
  obtains y where "y \<in> set (tq_rows q)" "tk_id y = tk_id x" "tk_type y = tk_type x" "tk_payload y = tk_payload x"
  using assms by (force simp: derived_def list_all_iff list_ex_iff)

lemma derived_refl [simp]: "derived q q"
  by (rule derivedI) auto

lemma derived_trans:
  assumes "derived q q'" "derived q' q''"
  shows "derived q q''"
proof (rule derivedI)
  show n: "tq_next q \<le> tq_next q''" using assms by (simp add: derived_def)
  fix x assume x: "x \<in> set (tq_rows q'')"
  show "tq_next q \<le> tk_id x \<or>
      (\<exists>y \<in> set (tq_rows q). tk_id y = tk_id x \<and> tk_type y = tk_type x \<and> tk_payload y = tk_payload x)"
  proof (cases "tk_id x < tq_next q")
    case True
    then have "tk_id x < tq_next q'" using assms(1) by (simp add: derived_def)
    from derivedD [OF assms(2) x this] obtain y where y: "y \<in> set (tq_rows q')" "tk_id y = tk_id x"
      "tk_type y = tk_type x" "tk_payload y = tk_payload x" .
    show ?thesis by (rule derivedD [OF assms(1) y(1)]) (use True y in auto)
  qed simp
qed

lemma derived_grows: "grows q q' \<Longrightarrow> derived q q'"
  by (rule derivedI) (auto simp: grows_def list_all_iff)

lemma derived_update:
  assumes "\<And>x. tk_id (f x) = tk_id x" "\<And>x. tk_type (f x) = tk_type x" "\<And>x. tk_payload (f x) = tk_payload x"
  shows "derived q (q\<lparr>tq_rows := update_where P f (tq_rows q)\<rparr>)"
  by (rule derivedI) (auto simp: set_update_where assms)

lemma derived_filter: "derived q (q\<lparr>tq_rows := filter P (tq_rows q)\<rparr>)"
  by (rule derivedI) auto

text \<open>
  The tasks in flight: each was claimed and carries the arguments of a job function, and so does the row
  of its number, if the queue still has one.
\<close>

definition flight_ok :: "task_db \<Rightarrow> task list \<Rightarrow> bool" where
  "flight_ok q ts \<longleftrightarrow> list_all (\<lambda>t. tk_status t = Running \<and> dispatchable (tk_type t) (tk_payload t) \<and>
     tk_id t < tq_next q \<and>
     list_all (\<lambda>x. tk_id x = tk_id t \<longrightarrow> dispatchable (tk_type x) (tk_payload x)) (tq_rows q)) ts"

lemma flight_okD:
  assumes "flight_ok q ts" "t \<in> set ts"
  shows "tk_status t = Running" "dispatchable (tk_type t) (tk_payload t)" "tk_id t < tq_next q"
    "x \<in> set (tq_rows q) \<Longrightarrow> tk_id x = tk_id t \<Longrightarrow> dispatchable (tk_type x) (tk_payload x)"
  using assms by (auto simp: flight_ok_def list_all_iff)

lemma flight_ok_derived:
  assumes "flight_ok q ts" "derived q q'"
  shows "flight_ok q' ts"
  unfolding flight_ok_def list_all_iff
proof (intro ballI conjI impI)
  fix t assume t: "t \<in> set ts"
  note f = flight_okD [OF assms(1) t]
  show "tk_status t = Running" "dispatchable (tk_type t) (tk_payload t)" using f by simp_all
  show "tk_id t < tq_next q'" using f(3) assms(2) by (simp add: derived_def)
  fix x assume x: "x \<in> set (tq_rows q')" "tk_id x = tk_id t"
  then have "tk_id x < tq_next q" using f(3) by simp
  from derivedD [OF assms(2) x(1) this] obtain y where y: "y \<in> set (tq_rows q)" "tk_id y = tk_id x"
    "tk_type y = tk_type x" "tk_payload y = tk_payload x" .
  show "dispatchable (tk_type x) (tk_payload x)" using f(4) [OF y(1)] y(2-4) x(2) by simp
qed

lemma flight_ok_subset: "flight_ok q ts \<Longrightarrow> set ts' \<subseteq> set ts \<Longrightarrow> flight_ok q ts'"
  by (auto simp: flight_ok_def list_all_iff)

text \<open>No task in flight was taken away from its worker: the queue still has its row as it was claimed.\<close>

definition still_owned :: "task_db \<Rightarrow> task list \<Rightarrow> bool" where
  "still_owned q ts \<longleftrightarrow> list_all (\<lambda>t. t \<in> set (tq_rows q)) ts"

text \<open>What a dispatch leaves of the queue: the rows of the call, with the claimed one settled.\<close>

lemma dispatch_queue:
  obtains q f where "q = sv_queue (fst (run_task w t s))"
    "sv_queue (dispatch w t s) = q\<lparr>tq_rows := update_where (\<lambda>x. tk_id x = tk_id t) f (tq_rows q)\<rparr>"
    "\<And>x. tk_type (f x) = tk_type x" "\<And>x. tk_payload (f x) = tk_payload x" "\<And>x. tk_id (f x) = tk_id x"
    "\<And>q'. queue_wf q' \<Longrightarrow> queue_wf (q'\<lparr>tq_rows := update_where (\<lambda>x. tk_id x = tk_id t) f (tq_rows q')\<rparr>)"
proof -
  obtain s1 r where r: "run_task w t s = (s1, r)" by (cases "run_task w t s")
  show thesis
  proof (cases r)
    case None
    show thesis
      by (rule that [of "sv_queue s1" "complete_row (wo_end w)"])
        (use None r queue_wf_exec [of _ "Complete (wo_end w) (tk_id t)"] in
          \<open>simp_all add: dispatch_def complete_def complete_row_def\<close>)
  next
    case (Some e)
    have q: "sv_queue (settle_failure w t e s1) = fst (fail (wo_end w) (tk_id t) (take 2000 e) (sv_queue s1))"
      by (simp add: settle_failure_def Let_def split: prod.split option.split)
    show thesis
      by (rule that [of "sv_queue s1" "fail_row (wo_end w) (take 2000 e)"])
        (use Some r q queue_wf_exec [of _ "FailTask (wo_end w) (tk_id t) (take 2000 e)"] in
          \<open>simp_all add: dispatch_def fail_def fail_row_def\<close>)
  qed
qed

lemma run_task_grows: "grows (sv_queue s) (sv_queue (fst (run_task w t s)))"
  by (simp add: run_task_def run_call_grows split: option.split)

lemma dispatch_ok:
  assumes ok: "server_ok s" and fl: "flight_ok (sv_queue s) ts" and t: "t \<in> set ts"
  shows "server_ok (dispatch w t s)" "derived (sv_queue s) (sv_queue (dispatch w t s))"
proof -
  have wf: "queue_wf (sv_queue s)" and ty: "queue_typed (sv_queue s)" using ok by (simp_all add: server_ok_def)
  obtain q f where q: "q = sv_queue (fst (run_task w t s))"
    "sv_queue (dispatch w t s) = q\<lparr>tq_rows := update_where (\<lambda>x. tk_id x = tk_id t) f (tq_rows q)\<rparr>"
    "\<And>x. tk_type (f x) = tk_type x" "\<And>x. tk_payload (f x) = tk_payload x" "\<And>x. tk_id (f x) = tk_id x"
    "\<And>q'. queue_wf q' \<Longrightarrow> queue_wf (q'\<lparr>tq_rows := update_where (\<lambda>x. tk_id x = tk_id t) f (tq_rows q')\<rparr>)"
    using dispatch_queue [of w t s] by blast
  have g: "grows (sv_queue s) q" unfolding q(1) by (rule run_task_grows)
  then have "queue_wf q" using wf by (simp add: grows_def)
  then have "queue_wf (sv_queue (dispatch w t s))" unfolding q(2) by (rule q(6))
  moreover have "queue_typed (sv_queue (dispatch w t s))"
    unfolding q(2)
    by (rule queue_typed_settle [OF queue_typed_grows [OF ty g] _ q(3,4)])
      (rule flight_okD(4) [OF flight_ok_derived [OF fl derived_grows [OF g]] t])
  ultimately show "server_ok (dispatch w t s)" by (simp add: server_ok_def)
  show "derived (sv_queue s) (sv_queue (dispatch w t s))"
    unfolding q(2) using derived_trans [OF derived_grows [OF g] derived_update [OF q(5,3,4)]] .
qed

lemma settle_failure_statuses [simp]:
  "bulk_statuses (settle_failure w t e s) = bulk_statuses s"
  "list_statuses (settle_failure w t e s) = list_statuses s"
  by (simp_all add: settle_failure_def Let_def split: prod.split option.split)

lemma dispatch_statuses:
  assumes "t \<in> set (tq_rows (sv_queue s))" "tk_status t = Running"
  shows "bulk_statuses (dispatch w t s) = bulk_statuses s \<and> list_statuses (dispatch w t s) = list_statuses s"
proof -
  obtain s1 r where r: "run_task w t s = (s1, r)" by (cases "run_task w t s")
  have "bulk_statuses s1 = bulk_statuses s \<and> list_statuses s1 = list_statuses s"
  proof (cases "parse_call (tk_type t) (tk_payload t)")
    case None
    then show ?thesis using r by (simp add: run_task_def)
  next
    case (Some c)
    then show ?thesis using run_call_statuses [OF holds_open_claimed [OF assms Some], of w] r
      by (simp add: run_task_def)
  qed
  then show ?thesis using r by (cases r) (simp_all add: dispatch_def)
qed

lemma queue_typed_requeue: "queue_typed q \<Longrightarrow> queue_typed (fst (requeue_stale now mins q))"
  by (auto simp: requeue_stale_def Let_def queue_typed_def list_all_iff set_update_where row_typed_def
      requeue_row_def stale_def)

lemma queue_typed_cleanup: "queue_typed q \<Longrightarrow> queue_typed (fst (cleanup_completed_tasks now n q))"
  by (simp add: cleanup_completed_tasks_def queue_typed_def list_all_iff)

lemma claim_task_frame:
  assumes "claim_task wk now locked tie s = (s1, r)"
  shows "bulk_statuses s1 = bulk_statuses s" "list_statuses s1 = list_statuses s"
    "claim_next wk now locked tie (sv_queue s) = (sv_queue s1, r)"
  using assms by (auto simp: claim_task_def split: prod.splits)

lemma claim_derived: "claim_next wk now locked tie q = (q', r) \<Longrightarrow> derived q q'"
  by (auto simp: claim_next_def Let_def claim_row_def intro!: derived_update split: list.splits)

lemma derived_requeue: "derived q (fst (requeue_stale now mins q))"
  using derived_trans [OF derived_update derived_filter]
  by (simp add: requeue_stale_def Let_def requeue_row_def)

lemma worker_step_ok:
  assumes "worker_step (s, ts) (s', ts')" "server_ok s" "flight_ok (sv_queue s) ts"
  shows "server_ok s' \<and> flight_ok (sv_queue s') ts'"
    and "still_owned (sv_queue s) ts \<longrightarrow> bulk_statuses s' = bulk_statuses s \<and> list_statuses s' = list_statuses s"
proof -
  have wf: "queue_wf (sv_queue s)" and ty: "queue_typed (sv_queue s)"
    using assms(2) by (simp_all add: server_ok_def)
  have "(server_ok s' \<and> flight_ok (sv_queue s') ts') \<and>
      (still_owned (sv_queue s) ts \<longrightarrow> bulk_statuses s' = bulk_statuses s \<and> list_statuses s' = list_statuses s)"
    using assms(1)
  proof (cases rule: worker_step.cases)
    case (step_requeue now)
    then show ?thesis
      by (simp add: server_ok_def queue_wf_requeue [OF wf] queue_typed_requeue [OF ty]
          flight_ok_derived [OF assms(3) derived_requeue])
  next
    case (step_cleanup now)
    then show ?thesis using queue_wf_exec [OF wf, of "Cleanup now 7"] flight_ok_derived [OF assms(3) derived_filter]
      by (simp add: server_ok_def queue_typed_cleanup [OF ty]) (simp add: cleanup_completed_tasks_def)
  next
    case (step_watchlist now)
    obtain d items where c: "claim_due_items now 50 (sv_watch s) = (d, items)"
      by (cases "claim_due_items now 50 (sv_watch s)")
    have "grows (sv_queue s) (enqueue_all now ''watchlist_item'' (map watch_payload items) (sv_queue s))"
      by (rule grows_enqueue_all) (simp add: list_all_iff dispatchable_def parse_watch)
    then show ?thesis
      using step_watchlist wf queue_typed_grows [OF ty] flight_ok_derived [OF assms(3) derived_grows]
      by (simp add: enqueue_due_watchlist_items_def c server_ok_def bulk_statuses_def list_statuses_def)
        (simp add: grows_def)
  next
    case (step_idle wk now locked tie)
    note f = claim_task_frame [OF step_idle(2)]
    have "sv_queue s' = sv_queue s"
      using queue.claim_none [of "(wk, now, locked, tie)" "sv_queue s" "sv_queue s'"] f(3) by (simp add: claim_id_def)
    then show ?thesis using f(1,2) wf ty assms(3) step_idle(1) by (simp add: server_ok_def)
  next
    case (step_claim wk now locked tie t)
    note f = claim_task_frame [OF step_claim(2)]
    note r = claimed_row [OF wf ty f(3)]
    have "derived (sv_queue s) (sv_queue s')" by (rule claim_derived [OF f(3)])
    then have "flight_ok (sv_queue s') ts" using flight_ok_derived [OF assms(3)] by blast
    moreover have "dispatchable (tk_type x) (tk_payload x)"
      if "x \<in> set (tq_rows (sv_queue s'))" "tk_id x = tk_id t" for x
      using distinct_key_eq [OF queue_wfD(3) [OF r(5)] that(1) r(1) that(2)] r(3) by simp
    ultimately have "flight_ok (sv_queue s') ts'"
      using r(2,3) queue_wfD(2) [OF r(5,1)] step_claim(1) by (simp add: flight_ok_def list_all_iff)
    then show ?thesis using r(4,5) f(1,2) by (simp add: server_ok_def)
  next
    case (step_dispatch t w)
    note d = dispatch_ok [OF assms(2,3) step_dispatch(3), of w]
    have "flight_ok (sv_queue s') ts'"
      using flight_ok_subset [OF flight_ok_derived [OF assms(3) d(2)] set_remove1_subset] step_dispatch(1,2) by simp
    moreover have "bulk_statuses s' = bulk_statuses s \<and> list_statuses s' = list_statuses s"
      if "still_owned (sv_queue s) ts"
      using dispatch_statuses [OF _ flight_okD(1) [OF assms(3) step_dispatch(3)], of s w] that step_dispatch(1,3)
      by (simp add: still_owned_def list_all_iff)
    ultimately show ?thesis using d(1) step_dispatch(1) by simp
  qed
  then show "server_ok s' \<and> flight_ok (sv_queue s') ts'"
    and "still_owned (sv_queue s) ts \<longrightarrow> bulk_statuses s' = bulk_statuses s \<and> list_statuses s' = list_statuses s"
    by simp_all
qed

lemma worker_run_ok:
  assumes "worker_step\<^sup>*\<^sup>* x y" "server_ok (fst x)" "flight_ok (sv_queue (fst x)) (snd x)"
  shows "server_ok (fst y) \<and> flight_ok (sv_queue (fst y)) (snd y)"
  using assms
proof (induction rule: rtranclp_induct)
  case (step y z)
  then show ?case using worker_step_ok(1) [of "fst y" "snd y" "fst z" "snd z"] by simp
qed simp

section \<open>Failing tasks\<close>

lemma parse_research:
  assumes "parse_call ty p = Some (CallResearch j u k url)"
  shows "ty = ''research''" "arg_int p ''user_id'' = Some u"
  using parse_call_reads [OF assms] by simp_all

lemma parse_watchlist:
  assumes "parse_call ty p = Some (CallWatchlist i u url sch doc)"
  shows "ty = ''watchlist_item''"
  using parse_call_reads [OF assms] by simp_all

lemma dispatch_error:
  assumes wf: "queue_wf (sv_queue s)" and t: "task_of (sv_queue s) (tk_id t) = Some t" "tk_status t = Running"
    and r: "run_task w t s = (s1, Some e)" and q: "sv_queue s1 = sv_queue s"
  shows "status_of (sv_queue (dispatch w t s)) (tk_id t) = Some (if tk_attempts t = tk_max t then Failed else Pending)"
    and "dispatch w t s = (let s2 = s1\<lparr>sv_queue := fst (fail (wo_end w) (tk_id t) (take 2000 e) (sv_queue s))\<rparr>
      in if tk_attempts t = tk_max t \<and> tk_type t = ''research'' \<and> \<not> payload_admin (tk_payload t) then
           (case arg_int (tk_payload t) ''user_id'' of None \<Rightarrow> s2 | Some u \<Rightarrow> refund w u 100 s2)
         else s2)"
proof -
  obtain q' ex where f: "fail (wo_end w) (tk_id t) (take 2000 e) (sv_queue s) = (q', ex)" by fastforce
  note fc = fail_cases [OF wf t f]
  show d: "dispatch w t s = (let s2 = s1\<lparr>sv_queue := fst (fail (wo_end w) (tk_id t) (take 2000 e) (sv_queue s))\<rparr>
      in if tk_attempts t = tk_max t \<and> tk_type t = ''research'' \<and> \<not> payload_admin (tk_payload t) then
           (case arg_int (tk_payload t) ''user_id'' of None \<Rightarrow> s2 | Some u \<Rightarrow> refund w u 100 s2)
         else s2)"
    by (simp add: dispatch_def r settle_failure_def q f fc(1))
  have "sv_queue (dispatch w t s) = q'" unfolding d by (simp add: Let_def f split: option.split)
  then show "status_of (sv_queue (dispatch w t s)) (tk_id t) = Some (if tk_attempts t = tk_max t then Failed else Pending)"
    using fc by (auto simp: status_of_def)
qed

lemma research_failure:
  assumes "queue_wf (sv_queue s)" "task_of (sv_queue s) (tk_id t) = Some t" "tk_status t = Running"
    and "parse_call (tk_type t) (tk_payload t) = Some (CallResearch j u k url)"
    and "run_research_pipeline w u (Some j) s = (s1, Inl e)"
  shows "status_of (sv_queue (dispatch w t s)) (tk_id t) =
      Some (if tk_attempts t = tk_max t then Failed else Pending) \<and>
    sv_accounts (dispatch w t s) = (if tk_attempts t = tk_max t \<and> \<not> payload_admin (tk_payload t)
      then refund_credit (wo_ledger w) u 100 (sv_accounts s) else sv_accounts s)"
proof -
  define s2 where "s2 = fst (run_research_job w j u k url s)"
  have r: "run_task w t s = (s2, Some e)"
    using assms(5) by (simp add: run_task_def assms(4) run_call_def run_research_job_def s2_def)
  have q: "sv_queue s2 = sv_queue s" unfolding s2_def by (rule research_queue)
  have a: "sv_accounts s2 = sv_accounts s"
    using assms(5) pipeline_frame(4) [OF assms(5)] by (simp add: s2_def run_research_job_def)
  note d = dispatch_error [OF assms(1-3) r q]
  show ?thesis unfolding d(1) unfolding d(2)
    by (simp add: Let_def parse_research [OF assms(4)] a refund_def)
qed

section \<open>Properties\<close>

text \<open>
  every task the worker claims, at any point of any run, carries the arguments of a job
  function: the payloads that fan-out, scoring and the watchlist scheduler enqueue are well
  typed, and no step spoils a payload.
\<close>

theorem claimed_tasks_dispatch:
  assumes "queue_wf (sv_queue s)" "queue_typed (sv_queue s)" "worker_step\<^sup>*\<^sup>* (s, []) (s', ts)"
    and "claim_task wk now locked tie s' = (s'', Some t)"
  shows "parse_call (tk_type t) (tk_payload t) \<noteq> None"
proof -
  have "server_ok s'" using worker_run_ok [OF assms(3)] assms(1,2) by (simp add: server_ok_def flight_ok_def)
  then show ?thesis
    using claimed_row(3) [OF _ _ claim_task_frame(3) [OF assms(4)]] by (simp add: server_ok_def dispatchable_def)
qed

text \<open>
  as long as no task in flight is requeued as stale, no run of the worker changes the status of a bulk
  job or of a list: the child that could finalize its parent still counts its own running task as
  an unfinished sibling. The parent stays processing, its failed items are not refunded and its
  event is not sent.
\<close>

definition owned_step :: "server \<times> task list \<Rightarrow> server \<times> task list \<Rightarrow> bool" where
  "owned_step x y \<longleftrightarrow> worker_step x y \<and> still_owned (sv_queue (fst y)) (snd y)"

theorem parents_never_finalized:
  assumes "queue_wf (sv_queue s)" "queue_typed (sv_queue s)" "owned_step\<^sup>*\<^sup>* (s, []) (s', ts)"
  shows "bulk_statuses s' = bulk_statuses s \<and> list_statuses s' = list_statuses s"
proof -
  have "server_ok (fst y) \<and> flight_ok (sv_queue (fst y)) (snd y) \<and> still_owned (sv_queue (fst y)) (snd y) \<and>
      bulk_statuses (fst y) = bulk_statuses s \<and> list_statuses (fst y) = list_statuses s"
    if "owned_step\<^sup>*\<^sup>* (s, []) y" for y
    using that
  proof (induction rule: rtranclp_induct)
    case base
    then show ?case using assms(1,2) by (simp add: server_ok_def flight_ok_def still_owned_def)
  next
    case (step y z)
    then show ?case using worker_step_ok [of "fst y" "snd y" "fst z" "snd z"] by (simp add: owned_step_def)
  qed
  from this [OF assms(3)] show ?thesis by simp
qed

text \<open>
  C15: a research task whose pipeline fails goes back to pending and keeps its charge while it
  has attempts left; on its last attempt it is failed and the user gets back exactly one
  price, unless the payload says administrator.
\<close>

theorem research_failure_refunds_once:
  assumes "queue_wf (sv_queue s)" "task_of (sv_queue s) (tk_id t) = Some t" "tk_status t = Running"
    and "parse_call (tk_type t) (tk_payload t) = Some (CallResearch j u k url)"
    and "run_research_pipeline w u (Some j) s = (s1, Inl e)"
  shows "status_of (sv_queue (dispatch w t s)) (tk_id t) =
      Some (if tk_attempts t = tk_max t then Failed else Pending) \<and>
    sv_accounts (dispatch w t s) = (if tk_attempts t = tk_max t \<and> \<not> payload_admin (tk_payload t)
      then refund_credit (wo_ledger w) u 100 (sv_accounts s) else sv_accounts s)"
  using assms by (rule research_failure)

text \<open>
  every failing attempt of a watchlist item keeps the price it was charged, the last one
  included; the task is tried again, and charged again, until its attempts are used up.
\<close>

theorem watchlist_failure_keeps_charge:
  assumes "queue_wf (sv_queue s)" "task_of (sv_queue s) (tk_id t) = Some t" "tk_status t = Running"
    and "parse_call (tk_type t) (tk_payload t) = Some (CallWatchlist i u url sch doc)"
    and "create_job_with_credit (wo_start w) u None url 100 (sv_accounts s) (sv_jobs s) = Inr (a, d, j)"
    and "run_research_pipeline w u (Some (jb_id j)) (s\<lparr>sv_accounts := a, sv_jobs := d\<rparr>) = (s1, Inl e)"
  shows "sv_accounts (dispatch w t s) = a \<and>
    status_of (sv_queue (dispatch w t s)) (tk_id t) = Some (if tk_attempts t = tk_max t then Failed else Pending)"
proof -
  define s2 where "s2 = fst (run_watchlist_item w i u url sch doc s)"
  have r: "run_task w t s = (s2, Some e)"
    by (simp add: run_task_def assms(4-6) run_call_def run_watchlist_item_def s2_def Let_def watch_failed_def)
  have q: "sv_queue s2 = sv_queue s" unfolding s2_def by (rule watchlist_queue)
  have a: "sv_accounts s2 = a"
    using pipeline_frame(4) [OF assms(6)]
    by (simp add: s2_def run_watchlist_item_def assms(5,6) Let_def watch_failed_def)
  note d = dispatch_error [OF assms(1-3) r q]
  show ?thesis unfolding d(1) unfolding d(2) by (simp add: Let_def parse_watchlist [OF assms(4)] a)
qed

section \<open>A concrete server\<close>

definition quiet_world :: world where
  "quiet_world = \<lparr>wo_start = 10, wo_end = 20, wo_pipeline = Inl ''timeout'', wo_stages = 1, wo_token = ''tok'',
     wo_post = (\<lambda>n. HttpStatus 200), wo_ledger = True,
     wo_actions = \<lparr>aw_rank = (\<lambda>s. 0), aw_enrich = (\<lambda>i. Inr 0), aw_write = (\<lambda>i. True), aw_notify = None\<rparr>,
     wo_nfkd = (\<lambda>s. s), wo_loads = (\<lambda>s. None), wo_validate = (\<lambda>s. Some s), wo_profile = Inl ''timeout''\<rparr>"

definition research_payload :: payload where
  "research_payload = [(''job_id'', PInt 1), (''user_id'', PInt 1), (''api_key_id'', PInt 5),
     (''company_url'', PStr ''https://a.com''), (''is_admin'', PBool False)]"

text \<open>One research task on its last attempt, claimed by a worker.\<close>

definition last_attempt :: task where
  "last_attempt = (claim_row ''w'' 5 (new_task 1 0 ''research'' research_payload))\<lparr>tk_attempts := 3\<rparr>"

definition watch_task :: task where
  "watch_task = claim_row ''w'' 5 (new_task 1 0 ''watchlist_item'' [(''watchlist_item_id'', PInt 1), (''user_id'', PInt 1),
     (''company_url'', PStr ''https://a.com''), (''schedule'', PStr ''weekly''), (''last_document_id'', PNull)])"

definition server_with :: "task list \<Rightarrow> server" where
  "server_with ts = \<lparr>sv_accounts = office, sv_jobs = no_jobs, sv_bulk = no_bulk, sv_lists = no_lists,
     sv_watch = no_watches, sv_queue = \<lparr>tq_rows = ts, tq_next = 2\<rparr>,
     sv_hooks = \<lparr>hd_hooks = [], hd_events = [], hd_deliveries = [], hd_next_hook = 1, hd_next_delivery = 1\<rparr>,
     sv_docs = no_docs, sv_rules = \<lparr>rd_rules = [], rd_runs = [], rd_next_rule = 1, rd_next_run = 1\<rparr>,
     sv_api_usage = []\<rparr>"

lemma server_with_wf: "task_wf t \<Longrightarrow> tk_id t = 1 \<Longrightarrow> queue_wf (sv_queue (server_with [t]))"
  by (simp add: server_with_def queue_wf_def)

lemma server_with_task: "tk_id t = 1 \<Longrightarrow> task_of (sv_queue (server_with [t])) 1 = Some t"
  by (simp add: server_with_def task_of_def)

lemma context_ok_office: "context_ok quiet_world (new_user 1 ''a@x'' ''A'' [] (Some ''g1'') None\<lparr>us_org := Some 1\<rparr>)"
  by (simp add: context_ok_def quiet_world_def new_user_def get_effective_product_context_def
      build_seller_profile_context_def get_effective_problems_solved_def list_field_def dict_get_def or_else_def)

lemma last_attempt_facts:
  "task_wf last_attempt" "tk_id last_attempt = 1" "tk_status last_attempt = Running"
  "tk_attempts last_attempt = 3" "tk_max last_attempt = 3" "\<not> payload_admin (tk_payload last_attempt)"
  "parse_call (tk_type last_attempt) (tk_payload last_attempt) = Some (CallResearch 1 1 (Some 5) ''https://a.com'')"
  by (simp_all add: last_attempt_def claim_row_def new_task_def task_wf_def research_payload_def payload_admin_def
      parse_call_def arg_int_def arg_str_def arg_opt_int_def arg_bool_def only_keys_def owner_keys_def)

theorem research_failure_refunds_once_witness:
  "balance_of (sv_accounts (dispatch quiet_world last_attempt (server_with [last_attempt]))) 1 = Some 350"
proof -
  define s where "s = server_with [last_attempt]"
  have u: "user_of (sv_accounts s) 1 = Some (new_user 1 ''a@x'' ''A'' [] (Some ''g1'') None\<lparr>us_org := Some 1\<rparr>)"
    by (simp add: s_def server_with_def user_of_def office_def new_user_def)
  obtain s1 where p: "run_research_pipeline quiet_world 1 (Some 1) s = (s1, Inl ''timeout'')"
    by (simp add: run_research_pipeline_def u context_ok_office) (simp add: quiet_world_def)
  have t: "task_of (sv_queue s) (tk_id last_attempt) = Some last_attempt"
    using server_with_task [OF last_attempt_facts(2)] by (simp add: s_def last_attempt_facts(2))
  have "sv_accounts (dispatch quiet_world last_attempt s) = refund_credit True 1 100 office"
    using research_failure_refunds_once [OF server_with_wf [OF last_attempt_facts(1,2), folded s_def] t
        last_attempt_facts(3,7) p] last_attempt_facts(4-6)
    by (simp add: s_def server_with_def quiet_world_def)
  moreover have "balance_of (refund_credit True 1 100 office) 1 = Some 350"
    by (simp add: refund_credit_balance)
  ultimately show ?thesis by (simp add: s_def)
qed

lemma watch_task_facts:
  "task_wf watch_task" "tk_id watch_task = 1" "tk_status watch_task = Running"
  "tk_attempts watch_task = 1" "tk_max watch_task = 3"
  "parse_call (tk_type watch_task) (tk_payload watch_task) =
     Some (CallWatchlist 1 1 ''https://a.com'' ''weekly'' None)"
  by (simp_all add: watch_task_def claim_row_def new_task_def task_wf_def
      parse_call_def arg_int_def arg_str_def arg_opt_int_def arg_bool_def only_keys_def)

theorem watchlist_failure_keeps_charge_witness:
  "\<exists>a d j. create_job_with_credit 10 1 None ''https://a.com'' 100 office no_jobs = Inr (a, d, j) \<and>
     sv_accounts (dispatch quiet_world watch_task (server_with [watch_task])) = a"
proof -
  define s where "s = server_with [watch_task]"
  have sv: "sv_accounts s = office" "sv_jobs s = no_jobs" by (simp_all add: s_def server_with_def)
  obtain a d j where c: "create_job_with_credit 10 1 None ''https://a.com'' 100 office no_jobs = Inr (a, d, j)"
    and u: "user_of a 1 = Some (new_user 1 ''a@x'' ''A'' [] (Some ''g1'') None\<lparr>us_org := Some 1\<rparr>)"
    by (simp add: create_job_with_credit_def use_credit_conn_def charge_org_def office_def org_of_user_def user_of_def
        new_user_def org_row_of_def add_to_org_def balance_of_def create_research_job_def insert_job_def no_jobs_def
        invalidate_usage_cache_def Let_def)
  have c': "create_job_with_credit (wo_start quiet_world) 1 None ''https://a.com'' 100 (sv_accounts s) (sv_jobs s) =
      Inr (a, d, j)"
    using c by (simp add: sv quiet_world_def)
  obtain s1 where p: "run_research_pipeline quiet_world 1 (Some (jb_id j)) (s\<lparr>sv_accounts := a, sv_jobs := d\<rparr>) =
      (s1, Inl ''timeout'')"
    by (simp add: run_research_pipeline_def u context_ok_office) (simp add: quiet_world_def)
  have t: "task_of (sv_queue s) (tk_id watch_task) = Some watch_task"
    using server_with_task [OF watch_task_facts(2)] by (simp add: s_def watch_task_facts(2))
  show ?thesis
    using watchlist_failure_keeps_charge [OF server_with_wf [OF watch_task_facts(1,2), folded s_def] t
        watch_task_facts(3,6) c' p] c by (auto simp: s_def)
qed

text \<open>A server with one pending child of a bulk job of two items.\<close>

definition bulk_payload :: payload where
  "bulk_payload = [(''user_id'', PInt 1), (''api_key_id'', PInt 5), (''is_admin'', PBool False),
     (''bulk_job_id'', PInt 1), (''item_id'', PInt 1), (''company_url'', PStr ''a.com''), (''account_index'', PInt 0)]"

definition bulk_server :: server where
  "bulk_server = (server_with [new_task 1 0 ''bulk_item'' bulk_payload])\<lparr>sv_bulk := pair_job\<rparr>"

lemma bulk_server_ok: "queue_wf (sv_queue bulk_server)" "queue_typed (sv_queue bulk_server)"
proof -
  show "queue_wf (sv_queue bulk_server)"
    using server_with_wf [OF task_wf_new, of 1 0 "''bulk_item''" bulk_payload]
    by (simp add: bulk_server_def new_task_def)
  show "queue_typed (sv_queue bulk_server)"
    by (simp add: bulk_server_def server_with_def queue_typed_def row_typed_def dispatchable_def new_task_def
        bulk_payload_def parse_call_def arg_int_def arg_str_def arg_opt_int_def arg_bool_def only_keys_def owner_keys_def)
qed

lemma bulk_server_claim:
  "\<exists>s1. claim_task ''w'' 5 [] 0 bulk_server = (s1, Some (claim_row ''w'' 5 (new_task 1 0 ''bulk_item'' bulk_payload)))"
  by (simp add: claim_task_def bulk_server_def server_with_def claim_next_def oldest_claimable_def
      claimable_def new_task_def claim_row_def)

theorem claimed_tasks_dispatch_witness:
  "parse_call ''bulk_item'' bulk_payload \<noteq> None"
proof -
  obtain s1 where "claim_task ''w'' 5 [] 0 bulk_server =
      (s1, Some (claim_row ''w'' 5 (new_task 1 0 ''bulk_item'' bulk_payload)))"
    using bulk_server_claim by blast
  from claimed_tasks_dispatch [OF bulk_server_ok rtranclp.rtrancl_refl this] show ?thesis
    by (simp add: claim_row_def new_task_def)
qed

text \<open>The child is claimed, and then dispatched.\<close>

definition claimed_child :: task where
  "claimed_child = claim_row ''w'' 5 (new_task 1 0 ''bulk_item'' bulk_payload)"

lemma bulk_run:
  "\<exists>s1 v. worker_step (bulk_server, []) (s1, [claimed_child]) \<and> still_owned (sv_queue s1) [claimed_child] \<and>
     worker_step (s1, [claimed_child]) (v, [])"
proof -
  obtain s1 where c: "claim_task ''w'' 5 [] 0 bulk_server = (s1, Some claimed_child)"
    using bulk_server_claim by (auto simp: claimed_child_def)
  have "worker_step (bulk_server, []) (s1, [claimed_child])" using c by (rule step_claim)
  moreover have "worker_step (s1, [claimed_child]) (dispatch quiet_world claimed_child s1, [])"
    using step_dispatch [of claimed_child "[claimed_child]" s1 quiet_world] by simp
  moreover have "still_owned (sv_queue s1) [claimed_child]"
    using claimed_row(1) [OF bulk_server_ok claim_task_frame(3) [OF c]] by (simp add: still_owned_def)
  ultimately show ?thesis by blast
qed

theorem parents_never_finalized_witness:
  "\<exists>s1 v. worker_step (bulk_server, []) (s1, [claimed_child]) \<and> worker_step (s1, [claimed_child]) (v, []) \<and>
     bulk_statuses v = bulk_statuses bulk_server"
proof -
  obtain s1 v where r: "worker_step (bulk_server, []) (s1, [claimed_child])" "still_owned (sv_queue s1) [claimed_child]"
    "worker_step (s1, [claimed_child]) (v, [])" using bulk_run by blast
  then have "owned_step\<^sup>*\<^sup>* (bulk_server, []) (v, [])"
    by (intro rtranclp.rtrancl_into_rtrancl [OF r_into_rtranclp]) (auto simp: owned_step_def still_owned_def)
  from parents_never_finalized [OF bulk_server_ok this] r show ?thesis by blast
qed

end
