(* ===== verification/Queue_Refinement.thy ===== *)
theory Queue_Refinement
  imports Queue_Properties
begin

text \<open>
  The life of a single task as an abstract automaton, the proof that every operation of the
  queue refines it, and the liveness of claiming: a due task is claimed after at most as many
  claims as there are due tasks that are not younger.
\<close>

section \<open>The life of a task\<close>

text \<open>
  A task that does not exist (\<open>None\<close>) or its status and the number of attempts. A worker that
  reports late may settle a task in any status.
\<close>

type_synonym life = "(task_status \<times> int) option"

inductive life_step :: "life \<Rightarrow> life \<Rightarrow> bool" where
  life_born: "life_step None (Some (Pending, 0))"
| life_marker: "life_step None (Some (Completed, 0))"
| life_claim: "a < 3 \<Longrightarrow> life_step (Some (Pending, a)) (Some (Running, a + 1))"
| life_complete: "life_step (Some (st, a)) (Some (Completed, a))"
| life_again: "a < 3 \<Longrightarrow> life_step (Some (st, a)) (Some (Pending, a))"
| life_dead: "3 \<le> a \<Longrightarrow> life_step (Some (st, a)) (Some (Failed, a))"
| life_stale: "a + 1 < 3 \<Longrightarrow> life_step (Some (Running, a)) (Some (Pending, a + 1))"
| life_lost: "3 \<le> a + 1 \<Longrightarrow> life_step (Some (Running, a)) (Some (Failed, a + 1))"
| life_revived: "life_step (Some (Failed, a)) (Some (Pending, 0))"
| life_purged: "st \<in> {Completed, Failed} \<Longrightarrow> life_step (Some (st, a)) None"

definition life_of :: "task \<Rightarrow> task_status \<times> int" where
  "life_of t = (tk_status t, tk_attempts t)"

definition task_life :: "task_db \<Rightarrow> int \<Rightarrow> life" where
  "task_life d i = map_option life_of (task_of d i)"

text \<open>Every task the code inserts has three attempts.\<close>

lemma reachable_three_attempts: "queue_reachable d \<Longrightarrow> three_attempts d"
proof (induction rule: queue_reachable.induct)
  case init
  show ?case by (simp add: three_attempts_def empty_queue_def)
qed (rule three_attempts_exec)

section \<open>Refinement\<close>

lemma life_update:
  assumes "\<And>t. tk_id (f t) = tk_id t"
    and "\<And>t. task_of d i = Some t \<Longrightarrow> P t \<Longrightarrow> life_step\<^sup>=\<^sup>= (Some (life_of t)) (Some (life_of (f t)))"
  shows "life_step\<^sup>=\<^sup>= (task_life d i) (task_life (d\<lparr>tq_rows := update_where P f (tq_rows d)\<rparr>) i)"
  using assms by (cases "task_of d i") (auto simp: task_life_def task_of_update_where)

lemma life_filter:
  assumes "queue_wf d"
    and "\<And>t. task_of d i = Some t \<Longrightarrow> \<not> P t \<Longrightarrow> tk_status t \<in> {Completed, Failed}"
  shows "life_step\<^sup>=\<^sup>= (task_life d i) (task_life (d\<lparr>tq_rows := filter P (tq_rows d)\<rparr>) i)"
proof (cases "task_of d i")
  case (Some t)
  then show ?thesis using assms(2) [OF Some] life_purged [of "tk_status t" "tk_attempts t"]
    by (auto simp: task_life_def task_of_filter queue_wfD(3) [OF assms(1)] life_of_def)
qed (simp add: task_life_def task_of_filter queue_wfD(3) [OF assms(1)])

lemma task_of_beyond: "queue_wf d \<Longrightarrow> tq_next d \<le> i \<Longrightarrow> task_of d i = None"
  by (cases "task_of d i") (use queue_wfD(2) task_of_SomeD in fastforce)+

lemma life_insert:
  assumes "queue_wf d" "tk_id t = tq_next d" "life_step None (Some (life_of t))"
  shows "life_step\<^sup>=\<^sup>= (task_life d i) (task_life (insert_task d t) i)"
  using assms by (simp add: task_life_def task_of_insert task_of_beyond)

lemma task_of_enqueue_all:
  assumes "queue_wf d"
  shows "task_of (enqueue_all now ty ps d) i = task_of d i \<or>
    task_of d i = None \<and> map_option life_of (task_of (enqueue_all now ty ps d) i) = Some (Pending, 0)"
  using assms
proof (induction ps arbitrary: d)
  case (Cons p ps)
  let ?d = "fst (enqueue now ty p d)"
  have wf: "queue_wf ?d" using Cons.prems queue_wf_exec [of d "Enqueue now ty p"] by simp
  have "task_of ?d i = (if i = tq_next d then Some (new_task (tq_next d) now ty p) else task_of d i)"
    by (simp add: enqueue_def task_of_insert [OF Cons.prems] new_task_def)
  moreover have "life_of (new_task (tq_next d) now ty p) = (Pending, 0)"
    by (simp add: life_of_def new_task_def)
  ultimately show ?case
    using Cons.IH [OF wf] task_of_beyond [OF Cons.prems, of i] by (auto split: if_splits)
qed simp

lemma life_claimed:
  assumes "queue_wf d" "three_attempts d"
  shows "life_step\<^sup>=\<^sup>= (task_life d i) (task_life (fst (claim_next w now locked tie d)) i)"
proof (cases "snd (claim_next w now locked tie d)")
  case None
  then have "fst (claim_next w now locked tie d) = d"
    using queue.claim_none [of "(w, now, locked, tie)" d] by (simp add: claim_id_def)
  then show ?thesis by simp
next
  case (Some t')
  then have c: "claim_next w now locked tie d = (fst (claim_next w now locked tie d), Some t')"
    by (simp add: prod_eq_iff)
  from claim_next_Some [OF assms(1) c] obtain t where t: "task_of d (tk_id t) = Some t"
      "claimable now locked t"
      "\<And>i. task_of (fst (claim_next w now locked tie d)) i =
         (if i = tk_id t then Some (claim_row w now t) else task_of d i)"
    by metis
  have "tk_max t = 3" using assms(2) t(1) by (auto simp: three_attempts_def dest: task_of_SomeD)
  then show ?thesis using t life_claim [of "tk_attempts t"]
    by (auto simp: task_life_def life_of_def claimable_def claim_row_def)
qed

lemma life_requeued:
  assumes "queue_wf d" "three_attempts d"
  shows "life_step\<^sup>=\<^sup>= (task_life d i) (task_life (fst (requeue_stale now mins d)) i)"
proof -
  let ?d = "d\<lparr>tq_rows := update_where (stale now mins) (requeue_row now) (tq_rows d)\<rparr>"
  have id: "tk_id (requeue_row now t) = tk_id t" for t by (simp add: requeue_row_def)
  have d3: "distinct (map tk_id (tq_rows ?d))"
    using queue_wfD(3) [OF assms(1)] by (simp add: map_update_where id)
  have q: "task_of (fst (requeue_stale now mins d)) i =
      (case map_option (\<lambda>t. if stale now mins t then requeue_row now t else t) (task_of d i) of
         None \<Rightarrow> None | Some u \<Rightarrow> if expired_marker now u then None else Some u)"
    using task_of_filter [OF d3, of "\<lambda>t. \<not> expired_marker now t" i]
    by (simp add: requeue_stale_def Let_def task_of_update_where id split: option.splits)
  show ?thesis
  proof (cases "task_of d i")
    case None
    then show ?thesis by (simp add: task_life_def q)
  next
    case (Some t)
    have wf: "task_wf t" "tk_max t = 3"
      using assms Some by (auto simp: queue_wf_def three_attempts_def dest!: task_of_SomeD)
    show ?thesis
    proof (cases "stale now mins t")
      case True
      then have r: "tk_status t = Running" by (simp add: stale_def)
      have "\<not> expired_marker now (requeue_row now t)"
        by (simp add: expired_marker_def requeue_row_def hours_def minutes_def seconds_def)
      then show ?thesis using True r q Some wf(2) life_stale [of "tk_attempts t"] life_lost [of "tk_attempts t"]
        by (auto simp: task_life_def life_of_def requeue_row_def)
    next
      case False
      have "tk_status t \<in> {Completed, Failed}" if "expired_marker now t"
        using wf(1) that by (cases "tk_status t") (auto simp: task_wf_def expired_marker_def)
      then show ?thesis using False q Some life_purged [of "tk_status t" "tk_attempts t"]
        by (auto simp: task_life_def life_of_def)
    qed
  qed
qed

text \<open>
  C13: every operation of the queue refines the automaton: whatever the operation does to the whole
  table, each single task makes at most one step of its life, in any queue the code can produce.
\<close>

theorem queue_refines_life:
  assumes "queue_reachable d"
  shows "life_step\<^sup>=\<^sup>= (task_life d i) (task_life (exec_op op d) i)"
proof -
  note wf = reachable_queue_wf [OF assms] and three = reachable_three_attempts [OF assms]
  have m: "tk_max t = 3" "task_wf t" if "task_of d i = Some t" for t
    using wf three that by (auto simp: queue_wf_def three_attempts_def dest!: task_of_SomeD)
  show ?thesis
  proof (cases op)
    case (Enqueue now ty p)
    then show ?thesis using life_insert [OF wf, of "new_task (tq_next d) now ty p" i] life_born
      by (simp add: enqueue_def life_of_def new_task_def)
  next
    case (EnqueueMany now ty ps)
    then show ?thesis using task_of_enqueue_all [OF wf, of now ty ps i] life_born
      by (auto simp: enqueue_many_def task_life_def)
  next
    case (Claim w now locked tie)
    then show ?thesis using life_claimed [OF wf three] by simp
  next
    case (Complete now j)
    show ?thesis unfolding Complete exec_op.simps complete_def
      by (rule life_update) (auto simp: complete_row_def life_of_def intro: life_complete)
  next
    case (FailTask now j err)
    show ?thesis unfolding FailTask exec_op.simps fail_def fst_conv
      by (rule life_update) (auto simp: fail_row_def life_of_def m(1) intro: life_again life_dead)
  next
    case (RequeueStale now mins)
    then show ?thesis using life_requeued [OF wf three] by simp
  next
    case (CheckSiblings now key val)
    then show ?thesis using life_insert [OF wf, of "marker_row (tq_next d) now (marker_type key val)" i] life_marker
      by (auto simp: check_no_pending_siblings_def life_of_def marker_row_def new_task_def)
  next
    case (RetryFailed j)
    show ?thesis unfolding RetryFailed exec_op.simps retry_failed_task_def fst_conv
      by (rule life_update) (auto simp: retry_row_def life_of_def intro: life_revived)
  next
    case (Cleanup now n)
    show ?thesis unfolding Cleanup exec_op.simps cleanup_completed_tasks_def fst_conv
      by (rule life_filter [OF wf]) (auto simp: cleanable_def)
  qed
qed

theorem queue_refines_life_witness:
  "life_step\<^sup>=\<^sup>= (task_life empty_queue 1) (task_life (exec_op (Enqueue 0 ''bulk'' []) empty_queue) 1) \<and>
    task_life (exec_op (Enqueue 0 ''bulk'' []) empty_queue) 1 = Some (Pending, 0)"
  using queue_refines_life [OF queue_reachable.init, of 1 "Enqueue 0 ''bulk'' []"]
  by (simp add: task_life_def task_of_def enqueue_def insert_task_def empty_queue_def new_task_def life_of_def)

section \<open>Liveness of claiming\<close>

text \<open>The identifiers that \<open>n\<close> claims in a row return; \<open>tie\<close> resolves the order of equal ages.\<close>

fun claim_times :: "nat \<Rightarrow> string \<Rightarrow> time \<Rightarrow> (nat \<Rightarrow> nat) \<Rightarrow> task_db \<Rightarrow> int list" where
  "claim_times 0 w now tie d = []"
| "claim_times (Suc n) w now tie d = (case claim_next w now [] (tie n) d of
     (d', None) \<Rightarrow> []
   | (d', Some t) \<Rightarrow> tk_id t # claim_times n w now tie d')"

text \<open>The due tasks that are as old as \<open>t\<close> or older.\<close>

definition due_before :: "time \<Rightarrow> task \<Rightarrow> task_db \<Rightarrow> task list" where
  "due_before now t d = filter (\<lambda>u. claimable now [] u \<and> tk_created u \<le> tk_created t) (tq_rows d)"

lemma filter_update_shorter:
  assumes "\<And>r. \<not> P (f r)"
  shows "length (filter P (update_where Q f rs)) \<le> length (filter P rs)"
    and "u \<in> set rs \<Longrightarrow> P u \<Longrightarrow> Q u \<Longrightarrow> length (filter P (update_where Q f rs)) < length (filter P rs)"
proof (induction rs)
  case (Cons r rs)
  case 1
  show ?case using assms Cons(1) by simp
  case 2
  show ?case
  proof (cases "u = r")
    case True
    with 2 assms Cons(1) show ?thesis by simp
  next
    case False
    with 2 assms Cons(2) show ?thesis by simp
  qed
qed simp_all

lemma due_before_claimed:
  assumes "u \<in> set (tq_rows d)" "claimable now [] u" "tk_created u \<le> tk_created t"
  shows "length (due_before now t (d\<lparr>tq_rows := update_where (\<lambda>r. tk_id r = tk_id u) (claim_row w now) (tq_rows d)\<rparr>))
    < length (due_before now t d)"
proof -
  have "\<not> (claimable now [] (claim_row w now r) \<and> tk_created (claim_row w now r) \<le> tk_created t)" for r
    by (simp add: claimable_def claim_row_def)
  from filter_update_shorter(2) [of "\<lambda>u. claimable now [] u \<and> tk_created u \<le> tk_created t", OF this assms(1)]
  show ?thesis using assms(2,3) by (simp add: due_before_def)
qed

lemma claim_times_reach:
  "queue_wf d \<Longrightarrow> t \<in> set (tq_rows d) \<Longrightarrow> claimable now [] t \<Longrightarrow> length (due_before now t d) \<le> n \<Longrightarrow>
   tk_id t \<in> set (claim_times n w now tie d)"
proof (induction n arbitrary: d)
  case 0
  have "t \<in> set (due_before now t d)" using 0(2,3) by (simp add: due_before_def)
  moreover have "due_before now t d = []" using 0(4) by simp
  ultimately show ?case by simp
next
  case (Suc n)
  show ?case
  proof (cases rule: claim_next_cases [of w now "[]" "tie n" d])
    case none
    with Suc.prems show ?thesis by auto
  next
    case (some u)
    let ?d = "d\<lparr>tq_rows := update_where (\<lambda>r. tk_id r = tk_id u) (claim_row w now) (tq_rows d)\<rparr>"
    have id: "tk_id (claim_row w now u) = tk_id u" by (simp add: claim_row_def)
    show ?thesis
    proof (cases "tk_id t = tk_id u")
      case True
      with some(4) id show ?thesis by simp
    next
      case False
      have wf: "queue_wf ?d" using queue_wf_claim [OF Suc.prems(1), of w now "[]" "tie n"] some(4) by simp
      have mem: "t \<in> set (tq_rows ?d)" using Suc.prems(2) False by (auto simp: set_update_where)
      have "tk_created u \<le> tk_created t" using some(3) Suc.prems(2,3) by blast
      from due_before_claimed [OF some(1,2) this, of w] Suc.prems(4)
      have "length (due_before now t ?d) \<le> n" by (meson less_Suc_eq_le order_less_le_trans)
      from Suc.IH [OF wf mem Suc.prems(3) this] some(4) show ?thesis by simp
    qed
  qed
qed

text \<open>
  C14: no starvation: in any queue the code can produce, a pending task that is due is claimed after
  at most as many claims as there are due tasks of the same age or older, whatever younger
  tasks wait behind it.
\<close>

theorem due_task_is_claimed:
  assumes "queue_reachable d" "t \<in> set (tq_rows d)" "tk_status t = Pending"
    and "tk_run_at t = None \<or> tk_run_at t = Some r \<and> r \<le> now"
  shows "tk_id t \<in> set (claim_times (length (due_before now t d)) w now tie d)"
proof -
  have wf: "queue_wf d" using reachable_queue_wf [OF assms(1)] .
  then have "task_wf t" using assms(2) by (simp add: queue_wf_def)
  then have "claimable now [] t" using assms(3,4) by (auto simp: claimable_def task_wf_def)
  then show ?thesis using claim_times_reach [OF wf assms(2)] by blast
qed

theorem due_task_is_claimed_witness:
  "1 \<in> set (claim_times 1 ''w'' 5 (\<lambda>n. 0) (exec_op (Enqueue 5 ''bulk'' []) empty_queue))"
  using due_task_is_claimed [of "exec_op (Enqueue 5 ''bulk'' []) empty_queue" "new_task 1 5 ''bulk'' []" 5 5 "''w''" "\<lambda>n. 0"]
    queue_reachable.step [OF queue_reachable.init, of "Enqueue 5 ''bulk'' []"]
  by (simp add: enqueue_def insert_task_def empty_queue_def new_task_def due_before_def claimable_def)

end
