(* ===== verification/Tech_Signals.thy ===== *)
theory Tech_Signals
  imports Pain_Engine Profiles Documents
begin

text \<open>
  What the pipeline stores of its signals (\<open>db/tech_signals.py\<close>) and how the API builds the pain
  part of an answer from it (\<open>synthesize_pain\<close> and \<open>_parse_evidence\<close> in \<open>api/routes.py\<close>).
\<close>

section \<open>The tables\<close>

record signal_row =
  sr_document :: int
  sr_domain :: string
  sr_source :: string
  sr_name :: string
  sr_category :: "string option"
  sr_confidence :: int
  sr_version :: "string option"
  sr_meta :: json

record inference_row =
  ir_document :: int
  ir_rule :: string
  ir_title :: string
  ir_description :: string
  ir_severity :: string
  ir_confidence :: int
  ir_evidence :: "string list"

record signal_db =
  sd_signals :: "signal_row list"
  sd_inferences :: "inference_row list"

definition signal_row_of ::
    "int \<Rightarrow> string \<Rightarrow> string \<Rightarrow> string \<Rightarrow> string option \<Rightarrow> int \<Rightarrow> string option \<Rightarrow> json \<Rightarrow> signal_row" where
  "signal_row_of doc host source name category confidence version meta =
     \<lparr>sr_document = doc, sr_domain = host, sr_source = source, sr_name = name, sr_category = category,
      sr_confidence = confidence, sr_version = version, sr_meta = meta\<rparr>"

section \<open>Writing\<close>

text \<open>Only a \<open>TechStack\<close> object is flattened; a confidence of nothing or zero is stored as 100.\<close>

definition tech_rows :: "int \<Rightarrow> (string \<times> stack) list \<Rightarrow> signal_row list" where
  "tech_rows doc techs = concat (map (\<lambda>(host, s). map (\<lambda>t.
       signal_row_of doc host ''wappalyzer'' (tc_name t) (tc_category t)
         (if coalesce (tc_confidence t) 0 = 0 then 100 else coalesce (tc_confidence t) 0) (tc_version t) (JDict []))
     (model_techs s)) techs)"

text \<open>A value the code tests for truth: no row for nothing or the empty string\<close>

definition present :: "string option \<Rightarrow> string list" where
  "present x = (case x of None \<Rightarrow> [] | Some s \<Rightarrow> if s = [] then [] else [s])"

definition infra_rows :: "int \<Rightarrow> string \<Rightarrow> infra \<Rightarrow> signal_row list" where
  "infra_rows doc host i =
     map (\<lambda>p. signal_row_of doc host ''dns'' p (Some ''dns-ns'') 100 None (JDict [])) (present (in_ns i)) @
     map (\<lambda>p. signal_row_of doc host ''dns'' p (Some ''dns-mx'') 100 None (JDict [])) (present (in_mx i)) @
     map (\<lambda>h. signal_row_of doc host ''dns'' h (Some ''cloud-hint'') 80 None (JDict [])) (in_clouds i) @
     map (\<lambda>p. signal_row_of doc host ''ssl'' p (Some ''ssl-issuer'') 100 None
        (JDict [(''expiry_days'', case in_ssl_days i of None \<Rightarrow> JNull | Some n \<Rightarrow> JInt n),
                (''automation'', JBool (in_ssl_auto i))])) (present (in_ssl_issuer i))"

text \<open>The mentions of the job postings: name, category and count\<close>

definition mention_rows :: "int \<Rightarrow> (string \<times> string \<times> int) list \<Rightarrow> signal_row list" where
  "mention_rows doc ms = map (\<lambda>(n, c, k). signal_row_of doc [] ''job_posting'' n (Some c) 80 None
     (JDict [(''count'', JInt k)])) ms"

definition save_tech_signals ::
    "int \<Rightarrow> (string \<times> stack) list \<Rightarrow> (string \<times> infra) option \<Rightarrow> (string \<times> string \<times> int) list option \<Rightarrow>
     signal_db \<Rightarrow> signal_db \<times> nat" where
  "save_tech_signals doc techs infra mentions d =
     (let rows = tech_rows doc techs @ (case infra of None \<Rightarrow> [] | Some (host, i) \<Rightarrow> infra_rows doc host i) @
            (case mentions of None \<Rightarrow> [] | Some ms \<Rightarrow> mention_rows doc ms)
      in (d\<lparr>sd_signals := sd_signals d @ rows\<rparr>, length rows))"

definition inference_row_of :: "int \<Rightarrow> pain \<Rightarrow> inference_row" where
  "inference_row_of doc p = \<lparr>ir_document = doc, ir_rule = pn_rule p, ir_title = pn_title p,
     ir_description = pn_description p, ir_severity = pn_severity p, ir_confidence = pn_confidence p,
     ir_evidence = pn_evidence p\<rparr>"

definition save_pain_inferences :: "int \<Rightarrow> pain list \<Rightarrow> signal_db \<Rightarrow> signal_db \<times> nat" where
  "save_pain_inferences doc ps d =
     (d\<lparr>sd_inferences := sd_inferences d @ map (inference_row_of doc) ps\<rparr>, length ps)"

section \<open>Reading\<close>

definition rule_categories :: "(string \<times> string) list" where
  "rule_categories = [(''identity_fragmentation'', ''marketing''), (''tech_debt'', ''engineering''),
     (''security_gap'', ''security''), (''scaling_pressure'', ''engineering''), (''multi_cloud'', ''operations''),
     (''email_risk'', ''security''), (''cert_gap'', ''security''), (''marketing_product_mismatch'', ''marketing''),
     (''data_infra_pain'', ''data''), (''tag_bloat'', ''marketing''), (''vendor_lock_in'', ''operations''),
     (''compliance_gap'', ''security''), (''frontend_performance_debt'', ''engineering''),
     (''hiring_velocity_anomaly'', ''operations''), (''tool_sprawl'', ''operations''),
     (''observability_gap'', ''operations''), (''database_scaling_pressure'', ''engineering''),
     (''auth_fragmentation'', ''security'')]"

definition stored_category :: "string \<Rightarrow> string" where
  "stored_category rule = (case map_of rule_categories rule of None \<Rightarrow> ''engineering'' | Some c \<Rightarrow> c)"

definition inference_of_row :: "inference_row \<Rightarrow> pain" where
  "inference_of_row r = PainInference (ir_rule r) (ir_title r) (ir_description r) (ir_severity r) (ir_evidence r)
     (ir_confidence r) (stored_category (ir_rule r))"

text \<open>\<open>ORDER BY confidence DESC\<close>; rows of equal confidence in the order of their insertion\<close>

definition get_pain_inferences :: "int \<Rightarrow> signal_db \<Rightarrow> pain list" where
  "get_pain_inferences doc d = map inference_of_row
     (sort_key (\<lambda>r. - ir_confidence r) (filter (\<lambda>r. ir_document r = doc) (sd_inferences d)))"

text \<open>
  The rows of a host, joined with their documents: a row whose document is gone is left out. The
  later inserted rows come first; rows of one insertion share their time, so that SQL leaves their
  order open, and it is reversed here.
\<close>

definition get_signals_for_domain :: "string \<Rightarrow> nat \<Rightarrow> doc_db \<Rightarrow> signal_db \<Rightarrow> (signal_row \<times> string \<times> string) list" where
  "get_signals_for_domain host limit ds d = take limit (concat (map (\<lambda>r.
     (case find (\<lambda>rd. dc_id rd = sr_document r) (dt_rows ds) of
        None \<Rightarrow> []
      | Some rd \<Rightarrow> [(r, dr_url rd, dr_name rd)])) (rev (filter (\<lambda>r. sr_domain r = host) (sd_signals d)))))"

lemma found_signals:
  assumes "(r, url, name) \<in> set (get_signals_for_domain host limit ds d)"
  shows "sr_domain r = host \<and> r \<in> set (sd_signals d) \<and>
    (\<exists>rd \<in> set (dt_rows ds). dc_id rd = sr_document r \<and> dr_url rd = url \<and> dr_name rd = name)"
  using assms by (auto simp: get_signals_for_domain_def dest!: in_set_takeD find_Some_mem [OF sym] split: option.splits)

text \<open>The names a save stores for a host are the first answers, when no document is missing.\<close>

lemma stored_signals_found:
  assumes "find (\<lambda>rd. dc_id rd = doc) (dt_rows ds) = Some rd"
  shows "\<exists>older. get_signals_for_domain host limit ds (fst (save_tech_signals doc techs None None d)) =
    take limit (rev (map (\<lambda>r. (r, dr_url rd, dr_name rd)) (filter (\<lambda>r. sr_domain r = host) (tech_rows doc techs))) @ older)"
proof -
  let ?join = "\<lambda>r. case find (\<lambda>rd. dc_id rd = sr_document r) (dt_rows ds) of None \<Rightarrow> []
      | Some rd \<Rightarrow> [(r, dr_url rd, dr_name rd)]"
  let ?new = "filter (\<lambda>r. sr_domain r = host) (tech_rows doc techs)"
  have "\<forall>r \<in> set ?new. ?join r = [(r, dr_url rd, dr_name rd)]"
    using assms by (auto simp: tech_rows_def signal_row_of_def)
  then have j: "concat (map ?join rs) = map (\<lambda>r. (r, dr_url rd, dr_name rd)) rs" if "set rs \<subseteq> set ?new" for rs
    using that by (induction rs) auto
  have "concat (map ?join (rev ?new)) = rev (map (\<lambda>r. (r, dr_url rd, dr_name rd)) ?new)"
    by (subst j) (simp_all add: rev_map)
  then show ?thesis
    by (auto simp: get_signals_for_domain_def save_tech_signals_def Let_def)
qed

section \<open>The pain part of an answer\<close>

text \<open>
  \<open>splitlines\<close>: a line ends at a line break or another vertical separator; \<open>\\r\\n\<close> is one. A
  final separator does not open an empty line.
\<close>

definition line_break :: "char \<Rightarrow> bool" where
  "line_break c \<longleftrightarrow> (let n = (of_char c :: nat) in 10 \<le> n \<and> n \<le> 13 \<or> 28 \<le> n \<and> n \<le> 30 \<or> n = 133)"

function splitlines :: "string \<Rightarrow> string list" where
  "splitlines s = (if s = [] then [] else
     let line = takeWhile (\<lambda>c. \<not> line_break c) s; rest = dropWhile (\<lambda>c. \<not> line_break c) s
     in line # (if rest = [] then [] else
          splitlines (if take 2 rest = [CHR 0x0D, CHR 0x0A] then drop 2 rest else drop 1 rest)))"
  by pat_completeness auto
termination
proof (relation "measure length", goal_cases)
  case (2 s line rest)
  have "length rest \<le> length s" using 2(2,3) by (simp add: length_dropWhile_le)
  then show ?case using 2(4) by (cases rest) auto
qed simp

declare splitlines.simps [simp del]

definition bullet :: "char \<Rightarrow> bool" where
  "bullet c \<longleftrightarrow> c = CHR ''-'' \<or> c = CHR ''*''"

definition parse_evidence :: "string option \<Rightarrow> string list" where
  "parse_evidence e = (case e of None \<Rightarrow> []
     | Some s \<Rightarrow> filter (\<lambda>l. l \<noteq> []) (map (\<lambda>l. py_strip (dropWhile bullet (py_strip l))) (splitlines (py_strip s))))"

text \<open>The highest confidence per category, categories in the order of their first signal\<close>

fun raise_category :: "string \<Rightarrow> int \<Rightarrow> (string \<times> int) list \<Rightarrow> (string \<times> int) list" where
  "raise_category c n [] = [(c, n)]"
| "raise_category c n ((d, m) # cs) = (if c = d then (d, if m < n then n else m) # cs
     else (d, m) # raise_category c n cs)"

definition pain_categories :: "pain list \<Rightarrow> (string \<times> int) list" where
  "pain_categories ps = fold (\<lambda>p. raise_category (pn_category p) (pn_confidence p)) ps []"

record pain_summary =
  ps_categories :: "(string \<times> int) list"
  ps_signals :: "(string \<times> string \<times> int \<times> string) list"
  ps_evidence :: "string list"

text \<open>The code renders an empty part as \<open>null\<close>; the summary is the first line of the evidence.\<close>

definition synthesize_pain :: "pain list \<Rightarrow> string option \<Rightarrow> pain_summary" where
  "synthesize_pain ps evidence = \<lparr>ps_categories = pain_categories ps,
     ps_signals = map (\<lambda>p. (pn_title p, pn_severity p, pn_confidence p, pn_category p)) ps,
     ps_evidence = parse_evidence evidence\<rparr>"

section \<open>Properties\<close>

lemma map_insort_key:
  assumes "\<And>x. h (f x) = g x"
  shows "map f (insort_key g x xs) = insort_key h (f x) (map f xs)"
  by (induction xs) (simp_all add: assms)

lemma map_sort_key:
  assumes "\<And>x. h (f x) = g x"
  shows "map f (sort_key g xs) = sort_key h (map f xs)"
  by (induction xs) (simp_all add: map_insort_key [of h f g, OF assms])

lemma map_of_raise:
  "map_of (raise_category c n cs) d =
     (if d = c then Some (case map_of cs c of None \<Rightarrow> n | Some m \<Rightarrow> max m n) else map_of cs d)"
  by (induction cs) auto

fun highest :: "int option \<Rightarrow> int list \<Rightarrow> int option" where
  "highest m [] = m"
| "highest m (n # ns) = highest (Some (case m of None \<Rightarrow> n | Some k \<Rightarrow> max k n)) ns"

lemma Max_insert_max: "finite S \<Longrightarrow> Max (insert (max m n) S) = Max (insert m (insert (n :: int) S))"
  by (cases "S = {}") (simp_all add: max.assoc)

lemma highest_Some: "highest (Some m) ns = Some (Max (insert m (set ns)))"
  by (induction ns arbitrary: m) (simp_all add: Max_insert_max)

lemma highest_None: "highest None ns = (if ns = [] then None else Some (Max (set ns)))"
  by (cases ns) (simp_all add: highest_Some)

lemma map_of_raise_all:
  "map_of (fold (\<lambda>p. raise_category (pn_category p) (pn_confidence p)) ps cs) c =
     highest (map_of cs c) (map pn_confidence (filter (\<lambda>p. pn_category p = c) ps))"
  by (induction ps arbitrary: cs) (simp_all add: map_of_raise)

text \<open>
  the pain categories of an answer are exactly the categories of the stored signals, each
  with the highest confidence among its signals.
\<close>

theorem pain_categories_maximal:
  "map_of (ps_categories (synthesize_pain ps evidence)) c =
     (if list_ex (\<lambda>p. pn_category p = c) ps
      then Some (Max (set (map pn_confidence (filter (\<lambda>p. pn_category p = c) ps)))) else None)"
  unfolding synthesize_pain_def pain_categories_def pain_summary.simps map_of_raise_all
  by (simp add: highest_None list_ex_iff filter_empty_conv)

text \<open>
  reading back what the pipeline stored keeps every inference of the document but not its
  category: that is looked up by rule, so an inference the engine demoted is reported at full
  rank again, and a rule the table does not know counts as engineering.
\<close>

theorem stored_inferences_lose_category:
  assumes "list_all (\<lambda>r. ir_document r \<noteq> doc) (sd_inferences d)"
  shows "get_pain_inferences doc (fst (save_pain_inferences doc ps d)) =
    sort_key (\<lambda>p. - pn_confidence p) (map (\<lambda>p. p\<lparr>pn_category := stored_category (pn_rule p)\<rparr>) ps)"
proof -
  have e: "filter (\<lambda>r. ir_document r = doc) (sd_inferences d) = []"
    using assms by (auto simp: filter_empty_conv list_all_iff)
  have "filter (\<lambda>r. ir_document r = doc) (map (inference_row_of doc) ps) = map (inference_row_of doc) ps"
    by (simp add: filter_True inference_row_of_def)
  moreover have "map inference_of_row (sort_key (\<lambda>r. - ir_confidence r) rs) =
      sort_key (\<lambda>p. - pn_confidence p) (map inference_of_row rs)" for rs
    by (rule map_sort_key) (simp add: inference_of_row_def PainInference_def)
  moreover have "map inference_of_row (map (inference_row_of doc) ps) =
      map (\<lambda>p. p\<lparr>pn_category := stored_category (pn_rule p)\<rparr>) ps"
    by (simp add: inference_of_row_def inference_row_of_def PainInference_def)
  ultimately show ?thesis
    by (simp add: get_pain_inferences_def save_pain_inferences_def e del: map_map)
qed

theorem stored_inferences_lose_category_witness:
  "map pn_category (get_pain_inferences 1 (fst (save_pain_inferences 1
     [PainInference ''systemic_security_underinvestment'' ''T'' ''D'' ''high'' [] 80 ''_background_security'']
     \<lparr>sd_signals = [], sd_inferences = []\<rparr>))) = [''engineering'']"
  using stored_inferences_lose_category [of 1 "\<lparr>sd_signals = [], sd_inferences = []\<rparr>"
    "[PainInference ''systemic_security_underinvestment'' ''T'' ''D'' ''high'' [] 80 ''_background_security'']"]
  by (simp add: PainInference_def stored_category_def rule_categories_def)

end
