(* ===== verification/Api_Auth.thy ===== *)
theory Api_Auth
  imports Credits
begin

text \<open>
  Who may call the API and with which URLs: the keys (\<open>db/api_keys.py\<close>, \<open>api/keys.py\<close>), the
  authentication dependency (\<open>api/auth.py\<close>) and the validation of company URLs
  (\<open>api/validation.py\<close>). The hash function of bcrypt, the random part of a key and the
  resolver of host names are arguments.
\<close>

section \<open>Keys\<close>

record key_row =
  kr_id :: int
  kr_user :: int
  kr_hash :: string
  kr_prefix :: string
  kr_name :: string
  kr_created :: time
  kr_used :: "time option"
  kr_revoked :: bool

record key_db =
  kd_rows :: "key_row list"
  kd_next :: int

text \<open>\<open>generate_api_key\<close>: the raw key, its hash and the prefix it is found by\<close>

definition generate_api_key :: "(string \<Rightarrow> string) \<Rightarrow> string \<Rightarrow> string \<times> string \<times> string" where
  "generate_api_key hash random = (let raw = ''sk_live_'' @ random in (raw, hash raw, take 16 raw))"

definition create_api_key_record ::
    "time \<Rightarrow> int \<Rightarrow> string \<Rightarrow> string \<Rightarrow> string \<Rightarrow> accounts \<Rightarrow> key_db \<Rightarrow> db_error + (key_db \<times> int)" where
  "create_api_key_record now uid h p name a d =
     (if user_of a uid = None then Inl ForeignKeyViolation
      else Inr (d\<lparr>kd_rows := kd_rows d @ [\<lparr>kr_id = kd_next d, kr_user = uid, kr_hash = h, kr_prefix = p,
          kr_name = name, kr_created = now, kr_used = None, kr_revoked = False\<rparr>], kd_next := kd_next d + 1\<rparr>,
        kd_next d))"

definition usable :: "(string \<Rightarrow> string \<Rightarrow> bool) \<Rightarrow> string \<Rightarrow> key_row \<Rightarrow> bool" where
  "usable check raw r \<longleftrightarrow> kr_prefix r = take 16 raw \<and> \<not> kr_revoked r \<and> check raw (kr_hash r)"

definition validate_api_key ::
    "(string \<Rightarrow> string \<Rightarrow> bool) \<Rightarrow> time \<Rightarrow> string \<Rightarrow> key_db \<Rightarrow> key_db \<times> (int \<times> int) option" where
  "validate_api_key check now raw d = (case find (usable check raw) (kd_rows d) of
     None \<Rightarrow> (d, None)
   | Some r \<Rightarrow> (d\<lparr>kd_rows := update_where (\<lambda>x. kr_id x = kr_id r) (\<lambda>x. x\<lparr>kr_used := Some now\<rparr>) (kd_rows d)\<rparr>,
       Some (kr_user r, kr_id r)))"

definition list_api_keys :: "int \<Rightarrow> key_db \<Rightarrow> key_row list" where
  "list_api_keys uid d = sort_key (\<lambda>r. - kr_created r) (filter (\<lambda>r. kr_user r = uid \<and> \<not> kr_revoked r) (kd_rows d))"

definition own_live_key :: "int \<Rightarrow> int \<Rightarrow> key_row \<Rightarrow> bool" where
  "own_live_key i uid r \<longleftrightarrow> kr_id r = i \<and> kr_user r = uid \<and> \<not> kr_revoked r"

definition revoke_api_key :: "int \<Rightarrow> int \<Rightarrow> key_db \<Rightarrow> key_db \<times> bool" where
  "revoke_api_key i uid d =
     (d\<lparr>kd_rows := update_where (own_live_key i uid) (\<lambda>r. r\<lparr>kr_revoked := True\<rparr>) (kd_rows d)\<rparr>,
      count_where (own_live_key i uid) (kd_rows d) = 1)"

text \<open>Requests and credits per live key; a usage row is a key, an endpoint and its credits.\<close>

definition get_api_key_usage_stats ::
    "int \<Rightarrow> (int \<times> string \<times> int) list \<Rightarrow> key_db \<Rightarrow> (int \<times> int \<times> int) list" where
  "get_api_key_usage_stats uid log d = map (\<lambda>r.
       (let rows = filter (\<lambda>(k, e, c). k = kr_id r) log
        in (kr_id r, int (length rows), sum_list (map (\<lambda>(k, e, c). c) rows))))
     (filter (\<lambda>r. kr_user r = uid \<and> \<not> kr_revoked r) (kd_rows d))"

section \<open>Authentication\<close>

text \<open>The user row with the key, or the detail of the 401.\<close>

definition require_api_key ::
    "(string \<Rightarrow> string \<Rightarrow> bool) \<Rightarrow> time \<Rightarrow> nat \<Rightarrow> string \<Rightarrow> accounts \<Rightarrow> key_db \<Rightarrow>
     key_db \<times> (string + (user_view \<times> int))" where
  "require_api_key check now tie authorization a d =
     (if \<not> startswith authorization ''Bearer '' then
        (d, Inl ''Invalid authorization header. Use: Bearer sk_live_...'')
      else let raw = drop 7 authorization in
        if \<not> startswith raw ''sk_live_'' then (d, Inl ''Invalid API key format'')
        else (case validate_api_key check now raw d of
          (d', None) \<Rightarrow> (d', Inl ''Invalid or revoked API key'')
        | (d', Some (uid, key)) \<Rightarrow> (case get_user_by_id tie uid a of
            None \<Rightarrow> (d', Inl ''User not found'')
          | Some u \<Rightarrow> (d', Inr (u, key)))))"

section \<open>Company URLs\<close>

definition normalize_url :: "string \<Rightarrow> string" where
  "normalize_url url = (let u = py_strip url in
     if startswith u ''http://'' \<or> startswith u ''https://'' then u else ''https://'' @ u)"

text \<open>
  \<open>urlparse(url).hostname\<close> of a URL that starts with one of the two schemes: the authority ends
  at the first of \<open>/?#\<close>; user information ends at its last \<open>@\<close>; the host is lower-cased up to a
  zone. Line breaks and tabs are removed first. Unbalanced brackets raise; the check of
  the text between brackets that recent versions of Python add is left out.
\<close>

definition unsafe_removed :: "string \<Rightarrow> string" where
  "unsafe_removed s = filter (\<lambda>c. c \<notin> {CHR 0x09, CHR 0x0A, CHR 0x0D}) s"

definition authority :: "string \<Rightarrow> string" where
  "authority url = takeWhile (\<lambda>c. c \<notin> {CHR ''/'', CHR ''?'', CHR 0x23})
     (drop (if startswith url ''https://'' then 8 else 7) url)"

definition after_last_at :: "string \<Rightarrow> string" where
  "after_last_at s = rev (takeWhile (\<lambda>c. c \<noteq> CHR ''@'') (rev s))"

definition lower_host :: "string \<Rightarrow> string" where
  "lower_host h = py_lower (takeWhile (\<lambda>c. c \<noteq> CHR 0x25) h) @ dropWhile (\<lambda>c. c \<noteq> CHR 0x25) h"

definition url_hostname :: "string \<Rightarrow> string option" where
  "url_hostname url =
     (let info = after_last_at (authority (unsafe_removed url));
          host = (if CHR ''['' \<in> set info
            then takeWhile (\<lambda>c. c \<noteq> CHR '']'') (tl (dropWhile (\<lambda>c. c \<noteq> CHR ''['') info))
            else takeWhile (\<lambda>c. c \<noteq> CHR '':'') info)
      in if host = [] then None else Some (lower_host host))"

definition balanced_brackets :: "string \<Rightarrow> bool" where
  "balanced_brackets url \<longleftrightarrow> (let a = authority (unsafe_removed url) in
     (CHR ''['' \<in> set a) = (CHR '']'' \<in> set a))"

definition blocked_hosts :: "string list" where
  "blocked_hosts = [''localhost'', ''127.0.0.1'', ''0.0.0.0'', ''[::1]'']"

text \<open>
  A resolved address as \<open>ipaddress\<close> reads it (\<open>None\<close>: it cannot), and the networks of its four predicates as
  in the tables of that module (Python 3.10): an address and the length of its prefix.
\<close>

datatype address = V4 nat | V6 nat

definition ipv4 :: "nat \<Rightarrow> nat \<Rightarrow> nat \<Rightarrow> nat \<Rightarrow> nat" where
  "ipv4 a b c d = a * 2 ^ 24 + b * 2 ^ 16 + c * 2 ^ 8 + d"

text \<open>The IPv6 address with the given leading 32 bits, and the given trailing 48 bits\<close>

definition ipv6 :: "nat \<Rightarrow> nat \<Rightarrow> nat" where
  "ipv6 high low = high * 2 ^ 96 + low"

definition in_network :: "nat \<Rightarrow> nat \<Rightarrow> nat \<times> nat \<Rightarrow> bool" where
  "in_network width n net = (case net of (base, bits) \<Rightarrow>
     n div 2 ^ (width - bits) = base div 2 ^ (width - bits))"

definition private_v4 :: "(nat \<times> nat) list" where
  "private_v4 = [(ipv4 0 0 0 0, 8), (ipv4 10 0 0 0, 8), (ipv4 127 0 0 0, 8), (ipv4 169 254 0 0, 16),
     (ipv4 172 16 0 0, 12), (ipv4 192 0 0 0, 29), (ipv4 192 0 0 170, 31), (ipv4 192 0 2 0, 24),
     (ipv4 192 168 0 0, 16), (ipv4 198 18 0 0, 15), (ipv4 198 51 100 0, 24), (ipv4 203 0 113 0, 24),
     (ipv4 240 0 0 0, 4), (ipv4 255 255 255 255, 32)]"

definition private_v6 :: "(nat \<times> nat) list" where
  "private_v6 = [(ipv6 0 1, 128), (ipv6 0 0, 128), (ipv6 0 0xFFFF00000000, 96), (ipv6 0x1000000 0, 64),
     (ipv6 0x20010000 0, 23), (ipv6 0x20010002 0, 48), (ipv6 0x20010DB8 0, 32), (ipv6 0x20010010 0, 28),
     (ipv6 0xFC000000 0, 7), (ipv6 0xFE800000 0, 10)]"

definition reserved_v6 :: "(nat \<times> nat) list" where
  "reserved_v6 = [(ipv6 0 0, 8), (ipv6 0x1000000 0, 8), (ipv6 0x2000000 0, 7), (ipv6 0x4000000 0, 6),
     (ipv6 0x8000000 0, 5), (ipv6 0x10000000 0, 4), (ipv6 0x40000000 0, 3), (ipv6 0x60000000 0, 3),
     (ipv6 0x80000000 0, 3), (ipv6 0xA0000000 0, 3), (ipv6 0xC0000000 0, 3), (ipv6 0xE0000000 0, 4),
     (ipv6 0xF0000000 0, 5), (ipv6 0xF8000000 0, 6), (ipv6 0xFE000000 0, 9)]"

fun is_private :: "address \<Rightarrow> bool" where
  "is_private (V4 n) = list_ex (in_network 32 n) private_v4"
| "is_private (V6 n) = list_ex (in_network 128 n) private_v6"

fun is_loopback :: "address \<Rightarrow> bool" where
  "is_loopback (V4 n) = in_network 32 n (ipv4 127 0 0 0, 8)"
| "is_loopback (V6 n) = (n = 1)"

fun is_reserved :: "address \<Rightarrow> bool" where
  "is_reserved (V4 n) = in_network 32 n (ipv4 240 0 0 0, 4)"
| "is_reserved (V6 n) = list_ex (in_network 128 n) reserved_v6"

fun is_link_local :: "address \<Rightarrow> bool" where
  "is_link_local (V4 n) = in_network 32 n (ipv4 169 254 0 0, 16)"
| "is_link_local (V6 n) = in_network 128 n (ipv6 0xFE800000 0, 10)"

definition internal :: "address option \<Rightarrow> bool" where
  "internal x = (case x of None \<Rightarrow> False
     | Some ad \<Rightarrow> is_private ad \<or> is_loopback ad \<or> is_reserved ad \<or> is_link_local ad)"

definition validate_company_url :: "(string \<Rightarrow> address option list option) \<Rightarrow> string \<Rightarrow> string + string" where
  "validate_company_url resolve raw =
     (let url = normalize_url raw
      in if \<not> balanced_brackets url then Inl ''Invalid IPv6 URL''
         else (case url_hostname url of
           None \<Rightarrow> Inl ''Invalid URL: no hostname''
         | Some host \<Rightarrow>
             if host \<in> set blocked_hosts then Inl ''Internal URLs are not allowed''
             else (case resolve host of
               None \<Rightarrow> Inl (''Cannot resolve hostname: '' @ host)
             | Some addrs \<Rightarrow> if list_ex internal addrs then Inl ''URL resolves to a private/internal address''
                 else Inr url)))"

section \<open>Laws\<close>

definition keys_wf :: "key_db \<Rightarrow> bool" where
  "keys_wf d \<longleftrightarrow> serial kr_id (kd_next d) (kd_rows d)"

lemma usable_used [simp]: "usable check raw (r\<lparr>kr_used := x\<rparr>) = usable check raw r"
  by (simp add: usable_def)

lemma keys_wf_create: "keys_wf d \<Longrightarrow> create_api_key_record now uid h p n a d = Inr (d', i) \<Longrightarrow> keys_wf d'"
  by (auto simp: keys_wf_def create_api_key_record_def serial_snoc split: if_splits)

lemma revoked_unusable:
  assumes "keys_wf d" "revoke_api_key i uid d = (d', True)" "r \<in> set (kd_rows d')" "kr_id r = i"
  shows "kr_revoked r"
proof -
  have d': "kd_rows d' = update_where (own_live_key i uid) (\<lambda>r. r\<lparr>kr_revoked := True\<rparr>) (kd_rows d)"
    and one: "count_where (own_live_key i uid) (kd_rows d) = 1"
    using assms(2) by (auto simp: revoke_api_key_def)
  from one obtain k where k: "k \<in> set (kd_rows d)" "own_live_key i uid k"
    using count_where_eq_0 [of "own_live_key i uid" "kd_rows d"] by auto
  from assms(3) obtain x where x: "x \<in> set (kd_rows d)"
      "r = (if own_live_key i uid x then x\<lparr>kr_revoked := True\<rparr> else x)"
    by (auto simp: d' update_where_def)
  have "kr_id x = kr_id k" using x(2) assms(4) k(2) by (auto simp: own_live_key_def split: if_splits)
  then have "x = k" using distinct_key_eq [OF serial_distinct x(1) k(1)] assms(1) by (auto simp: keys_wf_def)
  then show ?thesis using x(2) k(2) by simp
qed

lemma startswith_append [simp]: "startswith (p @ s) p"
  by (simp add: startswith_def)

lemma py_strip_fix: "s \<noteq> [] \<Longrightarrow> \<not> is_space (hd s) \<Longrightarrow> \<not> is_space (last s) \<Longrightarrow> py_strip s = s"
proof -
  assume s: "s \<noteq> []" "\<not> is_space (hd s)" "\<not> is_space (last s)"
  have "dropWhile is_space s = s" using s(1,2) by (cases s) simp_all
  moreover have "dropWhile is_space (rev s) = rev s" using s(1,3) by (cases "rev s") (auto simp: hd_rev [symmetric])
  ultimately show ?thesis by (simp add: py_strip_def)
qed

lemma normalize_url_idem [simp]: "normalize_url (normalize_url raw) = normalize_url raw"
proof -
  let ?u = "py_strip raw"
  have l: "\<not> is_space (last (''https://'' @ ?u))"
    using py_strip_ends(2) [of raw] by (cases "?u = []") (simp_all add: is_space_def)
  have "py_strip (''https://'' @ ?u) = ''https://'' @ ?u"
    by (rule py_strip_fix) (use l in \<open>simp_all add: is_space_def\<close>)
  moreover have "startswith (''https://'' @ ?u) ''https://''" by (rule startswith_append)
  ultimately show ?thesis by (simp add: normalize_url_def Let_def del: append.simps)
qed

text \<open>
  a key authenticates its owner, and nobody else, right after its creation: presented as a
  bearer token it is accepted as the user and the row it was created for, provided bcrypt accepts
  the hash of the key and accepts the key for no other stored hash.
\<close>

theorem issued_key_authenticates:
  assumes "generate_api_key hash random = (raw, h, p)"
    and "create_api_key_record now uid h p name a d = Inr (d', i)"
    and "check raw (hash raw)" "list_all (\<lambda>r. \<not> check raw (kr_hash r)) (kd_rows d)"
  shows "snd (require_api_key check later tie (''Bearer '' @ raw) a d') =
    (case get_user_by_id tie uid a of None \<Rightarrow> Inl ''User not found'' | Some u \<Rightarrow> Inr (u, i))"
proof -
  have raw: "raw = ''sk_live_'' @ random" "h = hash raw" "p = take 16 raw"
    using assms(1) by (auto simp: generate_api_key_def Let_def)
  have d': "kd_rows d' = kd_rows d @ [\<lparr>kr_id = i, kr_user = uid, kr_hash = h, kr_prefix = p,
      kr_name = name, kr_created = now, kr_used = None, kr_revoked = False\<rparr>]"
    using assms(2) by (auto simp: create_api_key_record_def split: if_splits)
  have "find (usable check raw) (kd_rows d) = None"
    using assms(4) by (auto simp: find_None_iff list_all_iff usable_def)
  then have "find (usable check raw) (kd_rows d') = Some \<lparr>kr_id = i, kr_user = uid, kr_hash = h, kr_prefix = p,
      kr_name = name, kr_created = now, kr_used = None, kr_revoked = False\<rparr>"
    using assms(3) by (simp add: d' find_append usable_def raw(2,3))
  then have "snd (validate_api_key check later raw d') = Some (uid, i)"
    by (simp add: validate_api_key_def)
  then obtain d'' where v: "validate_api_key check later raw d' = (d'', Some (uid, i))"
    by (cases "validate_api_key check later raw d'") simp
  have b: "startswith (''Bearer '' @ raw) ''Bearer ''" by (rule startswith_append)
  have s: "startswith raw ''sk_live_''" unfolding raw(1) by (rule startswith_append)
  have dr: "drop 7 (''Bearer '' @ raw) = raw" by simp
  show ?thesis
    unfolding require_api_key_def Let_def dr using b s by (simp add: v split: option.split)
qed

text \<open>
  a revoked key never authenticates again: after its revocation no bearer token is accepted
  as that key, whatever hashes are stored.
\<close>

theorem revoked_key_is_refused:
  assumes "keys_wf d" "revoke_api_key i uid d = (d', True)"
    and "require_api_key check now tie authorization a d' = (d'', Inr (u, key))"
  shows "key \<noteq> i"
proof
  assume "key = i"
  define raw where "raw = drop 7 authorization"
  from assms(3) \<open>key = i\<close> obtain v where v: "validate_api_key check now raw d' = (d'', Some (v, i))"
    by (auto simp: require_api_key_def Let_def raw_def [symmetric] split: if_splits prod.splits option.splits)
  then obtain r where r: "find (usable check raw) (kd_rows d') = Some r" "kr_id r = i"
    by (auto simp: validate_api_key_def split: option.splits)
  then have "r \<in> set (kd_rows d')" "usable check raw r" using find_Some_mem by fastforce+
  then show False using revoked_unusable [OF assms(1,2) _ r(2)] by (simp add: usable_def)
qed

text \<open>Addresses between the first and the last of a network are in it.\<close>

lemma in_networkI:
  assumes "base = b * 2 ^ (width - bits)" "b * 2 ^ (width - bits) \<le> n" "n < (b + 1) * 2 ^ (width - bits)"
  shows "in_network width n (base, bits)"
  using div_nat_eqI [of "2 ^ (width - bits)" b n] assms by (simp add: in_network_def mult.commute)

lemma private_v4I: "(base, bits) \<in> set private_v4 \<Longrightarrow> in_network 32 n (base, bits) \<Longrightarrow> internal (Some (V4 n))"
  by (auto simp: internal_def list_ex_iff)

lemma private_v6I: "(base, bits) \<in> set private_v6 \<Longrightarrow> in_network 128 n (base, bits) \<Longrightarrow> internal (Some (V6 n))"
  by (auto simp: internal_def list_ex_iff)

lemma internal_v4:
  assumes "n \<in> {ipv4 0 0 0 0..ipv4 0 255 255 255} \<union> {ipv4 10 0 0 0..ipv4 10 255 255 255} \<union>
    {ipv4 127 0 0 0..ipv4 127 255 255 255} \<union> {ipv4 169 254 0 0..ipv4 169 254 255 255} \<union>
    {ipv4 172 16 0 0..ipv4 172 31 255 255} \<union> {ipv4 192 168 0 0..ipv4 192 168 255 255} \<union>
    {ipv4 240 0 0 0..ipv4 255 255 255 255}"
  shows "internal (Some (V4 n))"
proof -
  have "in_network 32 n (ipv4 0 0 0 0, 8) \<or> in_network 32 n (ipv4 10 0 0 0, 8) \<or> in_network 32 n (ipv4 127 0 0 0, 8) \<or>
      in_network 32 n (ipv4 169 254 0 0, 16) \<or> in_network 32 n (ipv4 172 16 0 0, 12) \<or>
      in_network 32 n (ipv4 192 168 0 0, 16) \<or> in_network 32 n (ipv4 240 0 0 0, 4)"
    using assms
      in_networkI [of "ipv4 0 0 0 0" 0 32 8 n] in_networkI [of "ipv4 10 0 0 0" 10 32 8 n]
      in_networkI [of "ipv4 127 0 0 0" 127 32 8 n] in_networkI [of "ipv4 169 254 0 0" "0xA9FE" 32 16 n]
      in_networkI [of "ipv4 172 16 0 0" "0xAC1" 32 12 n] in_networkI [of "ipv4 192 168 0 0" "0xC0A8" 32 16 n]
      in_networkI [of "ipv4 240 0 0 0" "0xF" 32 4 n]
    unfolding ipv4_def by auto
  then show ?thesis by (elim disjE) (erule private_v4I [rotated]; simp add: private_v4_def)+
qed

lemma internal_v6:
  assumes "n \<in> {0..<2 ^ 120} \<union> {ipv6 0xFC000000 0..<ipv6 0xFE000000 0} \<union> {ipv6 0xFE800000 0..<ipv6 0xFEC00000 0}"
  shows "internal (Some (V6 n))"
proof -
  have "in_network 128 n (ipv6 0 0, 8) \<or> in_network 128 n (ipv6 0xFC000000 0, 7) \<or>
      in_network 128 n (ipv6 0xFE800000 0, 10)"
    using assms in_networkI [of "ipv6 0 0" 0 128 8 n] in_networkI [of "ipv6 0xFC000000 0" "0x7E" 128 7 n]
      in_networkI [of "ipv6 0xFE800000 0" "0x3FA" 128 10 n]
    unfolding ipv6_def by auto
  then show ?thesis
  proof (elim disjE)
    assume "in_network 128 n (ipv6 0 0, 8)"
    then show ?thesis by (simp add: internal_def reserved_v6_def)
  qed (erule private_v6I [rotated]; simp add: private_v6_def)+
qed

text \<open>
  C20: a company URL is accepted only when its host is public: it has a host, the host is not a
  blocked name and no IPv4 address it resolves to is in 0/8, 10/8, 127/8, 169.254/16, 172.16/12, 192.168/16 or
  240/4, and no IPv6 address in ::/8 (the loopback, the unspecified and the addresses that embed an IPv4 address),
  fc00::/7 or fe80::/10. What is returned has a scheme and is not changed by normalizing it again.
\<close>

theorem accepted_url_is_public:
  assumes "validate_company_url resolve raw = Inr url"
  shows "url = normalize_url raw \<and> normalize_url url = url \<and>
    (\<exists>host addrs. url_hostname url = Some host \<and> host \<notin> {''localhost'', ''127.0.0.1'', ''0.0.0.0''} \<and>
      resolve host = Some addrs \<and>
      (\<forall>n. Some (V4 n) \<in> set addrs \<longrightarrow> n \<notin> {ipv4 0 0 0 0..ipv4 0 255 255 255} \<union>
        {ipv4 10 0 0 0..ipv4 10 255 255 255} \<union> {ipv4 127 0 0 0..ipv4 127 255 255 255} \<union>
        {ipv4 169 254 0 0..ipv4 169 254 255 255} \<union> {ipv4 172 16 0 0..ipv4 172 31 255 255} \<union>
        {ipv4 192 168 0 0..ipv4 192 168 255 255} \<union> {ipv4 240 0 0 0..ipv4 255 255 255 255}) \<and>
      (\<forall>n. Some (V6 n) \<in> set addrs \<longrightarrow> n \<notin> {0..<2 ^ 120} \<union>
        {ipv6 0xFC000000 0..<ipv6 0xFE000000 0} \<union> {ipv6 0xFE800000 0..<ipv6 0xFEC00000 0}))"
proof -
  have u: "url = normalize_url raw"
    using assms by (auto simp: validate_company_url_def Let_def split: if_splits option.splits)
  obtain host addrs where h: "url_hostname url = Some host" "host \<notin> set blocked_hosts" "resolve host = Some addrs"
    "\<not> list_ex internal addrs"
    using assms by (auto simp: validate_company_url_def Let_def split: if_splits option.splits)
  have p: "\<not> internal (Some x)" if "Some x \<in> set addrs" for x using h(4) that by (auto simp: list_ex_iff)
  have "normalize_url url = url" by (simp add: u)
  moreover have "host \<notin> {''localhost'', ''127.0.0.1'', ''0.0.0.0''}" using h(2) by (auto simp: blocked_hosts_def)
  ultimately show ?thesis using u h(1,3) p internal_v4 internal_v6 by blast
qed

text \<open>The shared address space of carriers, 100.64/10, is none of the four: such an address is accepted.\<close>

lemma shared_address_accepted: "\<not> internal (Some (V4 (ipv4 100 64 0 1)))"
  by (simp add: internal_def private_v4_def in_network_def ipv4_def)

section \<open>Concrete keys\<close>

definition no_keys :: key_db where
  "no_keys = \<lparr>kd_rows = [], kd_next = 1\<rparr>"

definition one_key :: key_db where
  "one_key = \<lparr>kd_rows = [\<lparr>kr_id = 1, kr_user = 3, kr_hash = ''sk_live_abcdefghij'', kr_prefix = ''sk_live_abcdefgh'',
     kr_name = ''Default'', kr_created = 0, kr_used = None, kr_revoked = False\<rparr>], kd_next = 2\<rparr>"

theorem issued_key_authenticates_witness:
  "\<exists>u. snd (require_api_key (=) 5 0 ''Bearer sk_live_abcdefghij'' office one_key) = Inr (u, 1)"
proof -
  have g: "generate_api_key (\<lambda>s. s) ''abcdefghij'' = (''sk_live_abcdefghij'', ''sk_live_abcdefghij'', ''sk_live_abcdefgh'')"
    by (simp add: generate_api_key_def Let_def)
  have c: "create_api_key_record 0 3 ''sk_live_abcdefghij'' ''sk_live_abcdefgh'' ''Default'' office no_keys = Inr (one_key, 1)"
    by (simp add: create_api_key_record_def no_keys_def one_key_def)
  have "snd (require_api_key (=) 5 0 (''Bearer '' @ ''sk_live_abcdefghij'') office one_key) =
      (case get_user_by_id 0 3 office of None \<Rightarrow> Inl ''User not found'' | Some u \<Rightarrow> Inr (u, 1))"
    by (rule issued_key_authenticates [OF g c]) (simp_all add: no_keys_def)
  then show ?thesis by (simp add: get_user_by_id_def Let_def)
qed

theorem revoked_key_is_refused_witness:
  "snd (revoke_api_key 1 3 one_key) \<and>
   (\<forall>u. snd (require_api_key (=) 5 0 ''Bearer sk_live_abcdefghij'' office (fst (revoke_api_key 1 3 one_key))) \<noteq> Inr (u, 1))"
proof -
  have wf: "keys_wf one_key" by (simp add: keys_wf_def one_key_def serial_def)
  have ok: "snd (revoke_api_key 1 3 one_key)" by (simp add: revoke_api_key_def one_key_def own_live_key_def)
  then have r: "revoke_api_key 1 3 one_key = (fst (revoke_api_key 1 3 one_key), True)" by (simp add: prod_eq_iff)
  have "snd (require_api_key (=) 5 0 ''Bearer sk_live_abcdefghij'' office (fst (revoke_api_key 1 3 one_key))) \<noteq> Inr (u, 1)" for u
  proof
    assume "snd (require_api_key (=) 5 0 ''Bearer sk_live_abcdefghij'' office (fst (revoke_api_key 1 3 one_key))) = Inr (u, 1)"
    then show False using revoked_key_is_refused [OF wf r] by (metis prod.collapse)
  qed
  with ok show ?thesis by blast
qed

definition public_address :: "address option" where
  "public_address = Some (V4 (ipv4 93 184 216 34))"

lemma public_address_ok [simp]: "\<not> internal public_address"
  by (simp add: internal_def public_address_def private_v4_def in_network_def ipv4_def)

theorem accepted_url_is_public_witness:
  "validate_company_url (\<lambda>h. Some [public_address]) '' acme.com/x '' = Inr ''https://acme.com/x'' \<and>
   normalize_url ''https://acme.com/x'' = ''https://acme.com/x''"
proof -
  have "validate_company_url (\<lambda>h. Some [public_address]) '' acme.com/x '' = Inr ''https://acme.com/x''"
    by (simp add: validate_company_url_def normalize_url_def py_strip_def is_space_def startswith_def
        balanced_brackets_def url_hostname_def authority_def unsafe_removed_def after_last_at_def lower_host_def
        py_lower_def lower_char_def upper_char_def blocked_hosts_def)
  from this accepted_url_is_public [OF this] show ?thesis by blast
qed

text \<open>
  The scheme is recognised in lower case only: a URL written with an upper-case scheme gets a
  second one, and its scheme is taken for the host.
\<close>

lemma upper_case_scheme_is_a_host: "url_hostname (normalize_url ''HTTPS://acme.com'') = Some ''https''"
  by (simp add: normalize_url_def py_strip_def is_space_def startswith_def url_hostname_def authority_def
      unsafe_removed_def after_last_at_def lower_host_def py_lower_def lower_char_def upper_char_def Let_def char_of_def bit_0)

end
