(* ===== verification/Api_Base.thy ===== *)
theory Api_Base
  imports Server Tech_Signals Api_Auth Idempotency Rate_Limit Team
begin

text \<open>
  The state of the API process and the frame that the endpoints of \<open>api/routes.py\<close> share: the rate
  limiters (\<open>api/ratelimit.py\<close>), the idempotency guard, the form of errors (\<open>api/errors.py\<close> and the
  exception handlers of \<open>main.py\<close>), and the small helpers of answers. A handler takes the state to
  a new state and an answer, a status with a body. Clients that accept HTML get a page with
  the same status instead of an error body; headers of answers are left out.
\<close>

section \<open>State and request\<close>

datatype limiter_name = ResearchLimiter | SequenceLimiter | DefaultLimiter | BulkLimiter | ClayLimiter

record contact =
  ct_name :: "string option"
  ct_first :: "string option"
  ct_last :: "string option"
  ct_title :: "string option"
  ct_email :: "string option"
  ct_email_status :: "string option"
  ct_profile :: "string option"
  ct_company :: "string option"

record api =
  ap_server :: server
  ap_keys :: key_db
  ap_idem :: idem_db
  ap_hits :: "limiter_name \<Rightarrow> int hits"
  ap_signals :: signal_db
  ap_contacts :: "(int \<times> int \<times> contact) list"

text \<open>
  An authenticated request: the user row and the key that \<open>require_api_key\<close> returned, the clocks,
  the \<open>Idempotency-Key\<close> header, and what the outside answers while it is handled. \<open>rq_live\<close> says
  whether the usage cache still holds its entry.
\<close>

record request =
  rq_world :: world
  rq_user :: user_view
  rq_key :: int
  rq_mono :: time
  rq_wall :: int
  rq_header :: "string option"
  rq_others :: "idem_db \<Rightarrow> idem_db"
  rq_live :: bool
  rq_enforce :: bool
  rq_resolve :: "string \<Rightarrow> address option list option"
  rq_iso :: "time \<Rightarrow> string"
  rq_id :: "string option"
  rq_tie :: nat

type_synonym http = "int \<times> json"

definition caller :: "request \<Rightarrow> int" where
  "caller q = us_id (vw_user (rq_user q))"

definition request_time :: "request \<Rightarrow> time" where
  "request_time q = wo_start (rq_world q)"

definition on_server :: "(server \<Rightarrow> server) \<Rightarrow> api \<Rightarrow> api" where
  "on_server f s = s\<lparr>ap_server := f (ap_server s)\<rparr>"

section \<open>Answers\<close>

text \<open>The request identifier is appended when the middleware set one.\<close>

definition error_body :: "request \<Rightarrow> string \<Rightarrow> string \<Rightarrow> json" where
  "error_body q code msg = JDict [(''error'', JDict ([(''code'', JStr code), (''message'', JStr msg)] @
     map (\<lambda>r. (''request_id'', JStr r)) (present (rq_id q))))]"

definition api_failure :: "request \<Rightarrow> string \<Rightarrow> string \<Rightarrow> int \<Rightarrow> http" where
  "api_failure q code msg status = (status, error_body q code msg)"

definition server_error :: "request \<Rightarrow> http" where
  "server_error q = api_failure q ''internal_error'' ''Internal server error'' 500"

definition jopt :: "('a \<Rightarrow> json) \<Rightarrow> 'a option \<Rightarrow> json" where
  "jopt f x = (case x of None \<Rightarrow> JNull | Some v \<Rightarrow> f v)"

definition jtime :: "request \<Rightarrow> time \<Rightarrow> json" where
  "jtime q t = JStr (rq_iso q t)"

text \<open>The envelope of every listing\<close>

definition list_body :: "json list \<Rightarrow> bool \<Rightarrow> json" where
  "list_body xs has_more = JDict [(''object'', JStr ''list''), (''data'', JList xs), (''has_more'', JBool has_more)]"

section \<open>Rate limits\<close>

definition limiter_size :: "limiter_name \<Rightarrow> nat" where
  "limiter_size n = (case n of ResearchLimiter \<Rightarrow> 10 | SequenceLimiter \<Rightarrow> 20 | DefaultLimiter \<Rightarrow> 60
     | BulkLimiter \<Rightarrow> 2 | ClayLimiter \<Rightarrow> 5)"

definition api_limiter :: "bool \<Rightarrow> limiter_name \<Rightarrow> limiter" where
  "api_limiter enforce n = \<lparr>rl_requests = limiter_size n, rl_window = seconds 60, rl_enforce = enforce\<rparr>"

definition limited :: "request \<Rightarrow> limiter_name \<Rightarrow> (api \<Rightarrow> api \<times> http) \<Rightarrow> api \<Rightarrow> api \<times> http" where
  "limited q n h s =
     (case limiter_check (api_limiter (rq_enforce q) n) (rq_mono q) (rq_wall q) (rq_key q) (ap_hits s n) of
        (hits, r) \<Rightarrow>
          (let s1 = s\<lparr>ap_hits := (ap_hits s)(n := hits)\<rparr>
           in case r of
                Inr info \<Rightarrow> h s1
              | Inl LimiterCrash \<Rightarrow> (s1, server_error q)
              | Inl (RateLimited retry info) \<Rightarrow> (s1, api_failure q ''rate_limit_exceeded''
                  (''Rate limit exceeded. Max '' @ str_nat (limiter_size n) @ '' requests per 60s.'') 429)))"

section \<open>Idempotency\<close>

text \<open>
  \<open>check_idempotency\<close>, the work of the endpoint, and \<open>save_idempotency\<close> before a regular return.
  The work itself does not use the table of keys.
\<close>

definition posted :: "request \<Rightarrow> api work \<Rightarrow> api \<Rightarrow> api \<times> http" where
  "posted q run s =
     (case idempotent_post (rq_others q) (request_time q) (rq_header q) (rq_key q) run s (ap_idem s) of
        (s1, d, status, body) \<Rightarrow> (s1\<lparr>ap_idem := d\<rparr>, (status, body)))"

section \<open>Credits and tasks\<close>

text \<open>\<open>get_user_usage\<close>: \<open>None\<close> when the user row is gone, which every caller fails on\<close>

definition caller_usage :: "request \<Rightarrow> api \<Rightarrow> api \<times> usage option" where
  "caller_usage q s = (case get_user_usage (rq_live q) (caller q) (sv_accounts (ap_server s)) of
     (a, u) \<Rightarrow> (on_server (\<lambda>v. v\<lparr>sv_accounts := a\<rparr>) s, u))"

definition charge_caller :: "request \<Rightarrow> int \<Rightarrow> api \<Rightarrow> api \<times> bool" where
  "charge_caller q cents s =
     (case use_credit (wo_ledger (rq_world q)) (caller q) cents (sv_accounts (ap_server s)) of
        (a, ok) \<Rightarrow> (on_server (\<lambda>v. v\<lparr>sv_accounts := a\<rparr>) s, ok))"

definition refund_caller :: "request \<Rightarrow> int \<Rightarrow> api \<Rightarrow> api" where
  "refund_caller q cents = on_server (refund (rq_world q) (caller q) cents)"

definition create_tracked_task :: "request \<Rightarrow> string \<Rightarrow> payload \<Rightarrow> api \<Rightarrow> api" where
  "create_tracked_task q ty p = on_server (\<lambda>v. v\<lparr>sv_queue := fst (enqueue (request_time q) ty p (sv_queue v))\<rparr>)"

text \<open>
  The task of a job, a bulk job or a list: its own arguments, then the caller, the key and whether
  the caller is an administrator.
\<close>

definition caller_fields :: "request \<Rightarrow> bool \<Rightarrow> payload" where
  "caller_fields q is_admin = [(''user_id'', PInt (caller q)), (''api_key_id'', PInt (rq_key q)), (''is_admin'', PBool is_admin)]"

definition usage_record :: "request \<Rightarrow> string \<Rightarrow> int \<Rightarrow> api \<Rightarrow> api" where
  "usage_record q endpoint n = on_server (record_api_usage (rq_key q) endpoint n)"

text \<open>All URLs of a request, or the detail of the first that is refused\<close>

fun validate_urls :: "request \<Rightarrow> string list \<Rightarrow> string + string list" where
  "validate_urls q [] = Inr []"
| "validate_urls q (raw # raws) = (case validate_company_url (rq_resolve q) raw of
     Inl e \<Rightarrow> Inl (''Invalid URL '' @ [CHR 0x27] @ raw @ [CHR 0x27] @ '': '' @ e)
   | Inr url \<Rightarrow> (case validate_urls q raws of Inl e \<Rightarrow> Inl e | Inr urls \<Rightarrow> Inr (url # urls)))"

definition no_credits_left :: "request \<Rightarrow> int \<Rightarrow> usage \<Rightarrow> http" where
  "no_credits_left q n u = api_failure q ''insufficient_credits''
     (''Insufficient credits. Need '' @ str_int n @ '', have '' @ str_int (ug_credits u div 100)) 402"

section \<open>Stored pains\<close>

definition pain_of_document :: "document \<Rightarrow> api \<Rightarrow> pain_summary" where
  "pain_of_document r s = synthesize_pain (get_pain_inferences (dc_id r) (ap_signals s)) (dr_text r ''pain_evidence'')"

text \<open>\<open>x or None\<close>\<close>

definition jlist :: "('a \<Rightarrow> json) \<Rightarrow> 'a list \<Rightarrow> json" where
  "jlist f xs = (if xs = [] then JNull else JList (map f xs))"

definition categories_json :: "pain_summary \<Rightarrow> json" where
  "categories_json p = (if ps_categories p = [] then JNull
     else JDict (map (\<lambda>(c, n). (c, JInt n)) (ps_categories p)))"

definition signals_json :: "pain_summary \<Rightarrow> json" where
  "signals_json p = jlist (\<lambda>(title, severity, n, c). JDict [(''title'', JStr title), (''severity'', JStr severity),
     (''confidence'', JInt n), (''category'', JStr c)]) (ps_signals p)"

section \<open>Contacts\<close>

definition save_enriched_contacts :: "int \<Rightarrow> int \<Rightarrow> contact list \<Rightarrow> api \<Rightarrow> api" where
  "save_enriched_contacts doc uid cs s = s\<lparr>ap_contacts := ap_contacts s @ map (\<lambda>c. (doc, uid, c)) cs\<rparr>"

definition get_enriched_contacts :: "int \<Rightarrow> int \<Rightarrow> api \<Rightarrow> contact list" where
  "get_enriched_contacts doc uid s =
     map (\<lambda>(d, u, c). c) (filter (\<lambda>(d, u, c). d = doc \<and> u = uid) (ap_contacts s))"

text \<open>One entry per document of the list that has a contact\<close>

definition get_contact_counts_for_list :: "int \<Rightarrow> int \<Rightarrow> api \<Rightarrow> (int \<times> int) list" where
  "get_contact_counts_for_list lid uid s =
     (let docs = concat (map (\<lambda>r. case la_document r of None \<Rightarrow> [] | Some d \<Rightarrow> [d])
            (filter (\<lambda>r. la_list r = lid) (ld_accounts (sv_lists (ap_server s)))));
          joined = concat (map (\<lambda>d. map (\<lambda>c. d) (get_enriched_contacts d uid s)) docs)
      in map (\<lambda>d. (d, count_where ((=) d) joined)) (dedup joined))"

definition contact_json :: "contact \<Rightarrow> json" where
  "contact_json c = JDict [(''name'', jopt JStr (ct_name c)), (''first_name'', jopt JStr (ct_first c)),
     (''last_name'', jopt JStr (ct_last c)), (''title'', jopt JStr (ct_title c)),
     (''email'', jopt JStr (ct_email c)), (''email_status'', jopt JStr (ct_email_status c)),
     (''profile_url'', jopt JStr (ct_profile c)), (''company_name'', jopt JStr (ct_company c))]"

definition enrich_response :: "contact list \<Rightarrow> bool \<Rightarrow> json" where
  "enrich_response cs cached = JDict [(''object'', JStr ''enrichment''),
     (''contacts'', JList (map contact_json cs)), (''cached'', JBool cached)]"

end
