(* ===== verification/Api_Research.thy ===== *)
theory Api_Research
  imports Api_Base
begin

text \<open>
  The endpoints of \<open>api/routes.py\<close> on the account, research jobs, enrichment, sequences and bulk
  jobs.
\<close>

section \<open>Account\<close>

definition ping :: "request \<Rightarrow> api \<Rightarrow> api \<times> http" where
  "ping q = limited q DefaultLimiter (\<lambda>s. (s, (200, JDict [(''object'', JStr ''ping''), (''status'', JStr ''ok''),
     (''user_id'', JInt (caller q))])))"

definition key_json :: "request \<Rightarrow> (int \<times> int \<times> int) list \<Rightarrow> key_row \<Rightarrow> json" where
  "key_json q stats k = (let (n, c) = (case map_of stats (kr_id k) of None \<Rightarrow> (0, 0) | Some x \<Rightarrow> x) in
     JDict [(''id'', JInt (kr_id k)), (''prefix'', JStr (kr_prefix k)), (''name'', JStr (kr_name k)),
       (''created_at'', jtime q (kr_created k)), (''last_used_at'', jopt (jtime q) (kr_used k)),
       (''usage'', JDict [(''requests'', JInt n), (''credits'', JInt c)])])"

text \<open>The start of the billing period comes from the usage row, which does not hold it here.\<close>

definition account_body :: "request \<Rightarrow> time option \<Rightarrow> user_view \<Rightarrow> usage \<Rightarrow> api \<Rightarrow> json" where
  "account_body q period v u s = JDict [(''object'', JStr ''account''), (''user_id'', JInt (us_id (vw_user v))),
     (''email'', JStr (us_email (vw_user v))),
     (''organization'', JDict [(''name'', jopt JStr (vw_org_name v)), (''slug'', jopt JStr (vw_org_slug v))]),
     (''credits'', JDict [(''balance'', JInt (ug_credits u div 100)), (''unit'', JStr ''credits'')]),
     (''subscription'', JDict [(''status'', JStr (ug_status u)), (''billing_period_start'', jopt (jtime q) period)]),
     (''api_keys'', JList (map (key_json q
        (get_api_key_usage_stats (caller q) (sv_api_usage (ap_server s)) (ap_keys s)))
        (list_api_keys (caller q) (ap_keys s))))]"

definition get_account :: "request \<Rightarrow> time option \<Rightarrow> api \<Rightarrow> api \<times> http" where
  "get_account q period = limited q DefaultLimiter (\<lambda>s.
     case get_user_by_id (rq_tie q) (caller q) (sv_accounts (ap_server s)) of
       None \<Rightarrow> (s, api_failure q ''not_found'' ''User not found'' 404)
     | Some v \<Rightarrow> (case caller_usage q s of
         (s1, None) \<Rightarrow> (s1, server_error q)
       | (s1, Some u) \<Rightarrow> (s1, (200, account_body q period v u s1))))"

section \<open>Research jobs\<close>

text \<open>
  Reserving a credit and creating the job, in one transaction; an administrator gets the job
  for free. The answer is the job and whether the caller is an administrator.
\<close>

definition reserve_job :: "request \<Rightarrow> string \<Rightarrow> api \<Rightarrow> api \<times> (http + (job \<times> bool))" where
  "reserve_job q url s = (case caller_usage q s of
     (s1, None) \<Rightarrow> (s1, Inl (server_error q))
   | (s1, Some u) \<Rightarrow>
       (let v = ap_server s1 in
        if ug_is_admin u then
          (case create_research_job (request_time q) (caller q) (Some (rq_key q)) url (sv_accounts v) (sv_jobs v) of
             Inl e \<Rightarrow> (s1, Inl (server_error q))
           | Inr (d, j) \<Rightarrow> (s1\<lparr>ap_server := v\<lparr>sv_jobs := d\<rparr>\<rparr>, Inr (j, True)))
        else
          (case create_job_with_credit (request_time q) (caller q) (Some (rq_key q)) url 100 (sv_accounts v) (sv_jobs v) of
             Inl InsufficientCredits \<Rightarrow> (s1, Inl (api_failure q ''insufficient_credits'' ''No credits remaining'' 402))
           | Inl (JobDb e) \<Rightarrow> (s1, Inl (server_error q))
           | Inr (a, d, j) \<Rightarrow> (s1\<lparr>ap_server := v\<lparr>sv_accounts := a, sv_jobs := d\<rparr>\<rparr>, Inr (j, False)))))"

definition research_task :: "request \<Rightarrow> job \<Rightarrow> string \<Rightarrow> bool \<Rightarrow> payload" where
  "research_task q j url is_admin =
     (''job_id'', PInt (jb_id j)) # (''company_url'', PStr url) # caller_fields q is_admin"

definition cached_research :: "int \<Rightarrow> json" where
  "cached_research doc = JDict [(''object'', JStr ''research_job''), (''job_id'', JNull),
     (''status'', JStr ''completed''), (''document_id'', JInt doc), (''cached'', JBool True)]"

definition started_research :: "job \<Rightarrow> json" where
  "started_research j = JDict [(''object'', JStr ''research_job''), (''job_id'', JInt (jb_id j)),
     (''status'', JStr ''processing'')]"

definition start_research :: "request \<Rightarrow> string \<Rightarrow> api work" where
  "start_research q raw s = (case validate_company_url (rq_resolve q) raw of
     Inl e \<Rightarrow> (s, Inl (api_failure q ''validation_error'' e 422))
   | Inr url \<Rightarrow>
       (case get_recent_document_by_url (request_time q) (caller q) url 24 (sv_docs (ap_server s)) of
          Some doc \<Rightarrow> (s, Inr (202, cached_research doc))
        | None \<Rightarrow> (case reserve_job q url s of
            (s1, Inl e) \<Rightarrow> (s1, Inl e)
          | (s1, Inr (j, is_admin)) \<Rightarrow>
              (create_tracked_task q ''research'' (research_task q j url is_admin) s1,
               Inr (202, started_research j)))))"

definition create_research :: "request \<Rightarrow> string \<Rightarrow> api \<Rightarrow> api \<times> http" where
  "create_research q raw = limited q ResearchLimiter (posted q (start_research q raw))"

text \<open>
  The time-out of the read path: a job in processing for more than ten minutes is marked as
  failed and refunded, then read again.
\<close>

definition timed_out :: "request \<Rightarrow> time \<Rightarrow> bool" where
  "timed_out q created \<longleftrightarrow> seconds 600 < request_time q - created"

definition expire_job :: "request \<Rightarrow> job \<Rightarrow> api \<Rightarrow> api \<times> (http + job)" where
  "expire_job q j s =
     (if jb_status j = Processing \<and> timed_out q (jb_created j) then
        let s1 = on_server (\<lambda>v. v\<lparr>sv_jobs := update_job_status (request_time q) (jb_id j) JobFailed None
              (Some ''Job timed out after 10 minutes'') (sv_jobs v)\<rparr>) s
        in (case caller_usage q s1 of
             (s2, None) \<Rightarrow> (s2, Inl (server_error q))
           | (s2, Some u) \<Rightarrow>
               (let s3 = (if ug_is_admin u then s2 else refund_caller q 100 s2)
                in (s3, case get_research_job (jb_id j) (caller q) (sv_jobs (ap_server s3)) of
                     None \<Rightarrow> Inl (server_error q) | Some j' \<Rightarrow> Inr j')))
      else (s, Inr j))"

definition job_status_text :: "job_status \<Rightarrow> string" where
  "job_status_text st = (case st of Processing \<Rightarrow> ''processing'' | JobCompleted \<Rightarrow> ''completed'' | JobFailed \<Rightarrow> ''failed'')"

definition section_names :: "string list" where
  "section_names = [''company_overview'', ''projects_initiatives'', ''confirmed_tech_stack'', ''hiring_signals'',
     ''business_problems'', ''existential_data_points'', ''before_scenario'', ''pvp_seed'', ''required_capabilities'',
     ''product_fit'', ''talking_points'', ''recent_news'', ''key_contacts'', ''recommended_contacts'',
     ''information_gaps'']"

definition document_fields :: "document \<Rightarrow> pain_summary \<Rightarrow> (string \<times> json) list" where
  "document_fields r p = [(''document_id'', JInt (dc_id r)), (''company_name'', JStr (dr_name r)),
     (''scores'', JDict [(''composite'', jopt JInt (dr_opportunity r)), (''pain'', jopt JInt (dr_pain r)),
        (''fit'', jopt JInt (dr_fit r)), (''timing'', jopt JInt (dr_timing r)),
        (''summary'', jopt JStr (dr_text r ''score_summary'')), (''pain_evidence'', jlist JStr (ps_evidence p)),
        (''pain_categories'', categories_json p), (''pain_signals'', signals_json p)]),
     (''sections'', JDict (map (\<lambda>n. (n, jopt JStr (dr_text r n))) section_names))]"

definition result_fields :: "request \<Rightarrow> job \<Rightarrow> api \<Rightarrow> (string \<times> json) list" where
  "result_fields q j s = (case jb_document j of
     None \<Rightarrow> []
   | Some doc \<Rightarrow> (case get_document doc (caller q) (sv_docs (ap_server s)) of
       None \<Rightarrow> [] | Some r \<Rightarrow> document_fields r (pain_of_document r s)))"

definition job_body :: "request \<Rightarrow> job \<Rightarrow> api \<Rightarrow> json" where
  "job_body q j s = JDict ([(''object'', JStr ''research_job''), (''job_id'', JInt (jb_id j)),
       (''status'', JStr (job_status_text (jb_status j))), (''progress'', jopt JStr (jb_progress j)),
       (''company_url'', JStr (jb_url j)), (''created_at'', jtime q (jb_created j)),
       (''completed_at'', jopt (jtime q) (jb_completed j))] @
     (if jb_status j = JobFailed then [(''error'', jopt JStr (jb_error j))] else []) @
     (if jb_status j = JobCompleted then result_fields q j s else []))"

definition get_job_status :: "request \<Rightarrow> int \<Rightarrow> api \<Rightarrow> api \<times> http" where
  "get_job_status q i = limited q DefaultLimiter (\<lambda>s.
     case get_research_job i (caller q) (sv_jobs (ap_server s)) of
       None \<Rightarrow> (s, api_failure q ''not_found'' ''Job not found'' 404)
     | Some j \<Rightarrow> (case expire_job q j s of
         (s1, Inl e) \<Rightarrow> (s1, e)
       | (s1, Inr j') \<Rightarrow> (s1, (200, job_body q j' s1))))"

definition job_summary :: "request \<Rightarrow> job \<Rightarrow> json" where
  "job_summary q j = JDict [(''object'', JStr ''research_job''), (''job_id'', JInt (jb_id j)),
     (''company_url'', JStr (jb_url j)), (''status'', JStr (job_status_text (jb_status j))),
     (''document_id'', jopt JInt (jb_document j)), (''error'', jopt JStr (jb_error j)),
     (''created_at'', jtime q (jb_created j)), (''completed_at'', jopt (jtime q) (jb_completed j))]"

text \<open>The bounds 1 to 500 of a page size are checked by the framework before the handler runs.\<close>

definition list_jobs :: "request \<Rightarrow> nat \<Rightarrow> int option \<Rightarrow> api \<Rightarrow> api \<times> http" where
  "list_jobs q limit starting_after = limited q DefaultLimiter (\<lambda>s.
     case list_user_jobs (caller q) limit starting_after (sv_jobs (ap_server s)) of
       (js, has_more) \<Rightarrow> (s, (200, list_body (map (job_summary q) js) has_more)))"

section \<open>Contacts of a document\<close>

definition py_remove :: "string \<Rightarrow> string \<Rightarrow> string" where
  "py_remove sub s = py_join [] (py_split s sub)"

definition company_domain :: "string \<Rightarrow> string" where
  "company_domain url =
     py_remove ''www.'' (hd (py_split (py_remove ''http://'' (py_remove ''https://'' url)) ''/''))"

definition build_default_titles :: "string list" where
  "build_default_titles = [''CTO'', ''VP Engineering'', ''VP Sales'', ''CEO'', ''Director of Engineering'']"

text \<open>
  \<open>lead\<close> is the contact service: nothing when it is not configured; otherwise what it answers for
  a host, a company and titles. A key claimed for a request that finds stored contacts stays
  pending, because that answer is returned without being saved.
\<close>

type_synonym lead_service = "(string \<Rightarrow> string \<Rightarrow> string list \<Rightarrow> string + contact list) option"

definition save_idempotency :: "request \<Rightarrow> string option \<Rightarrow> int \<Rightarrow> json \<Rightarrow> api \<Rightarrow> api" where
  "save_idempotency q key status body s = (case key of None \<Rightarrow> s
     | Some k \<Rightarrow> s\<lparr>ap_idem := save_idempotency_result (rq_key q) k status body (ap_idem s)\<rparr>)"

definition buy_contacts ::
    "request \<Rightarrow> string option \<Rightarrow> (string \<Rightarrow> string \<Rightarrow> string list \<Rightarrow> string + contact list) \<Rightarrow> document \<Rightarrow>
     string list option \<Rightarrow> bool \<Rightarrow> api \<Rightarrow> api \<times> http" where
  "buy_contacts q key lead r titles is_admin s =
     (case lead (company_domain (dr_url r)) (dr_name r)
         (case titles of None \<Rightarrow> build_default_titles | Some ts \<Rightarrow> if ts = [] then build_default_titles else ts) of
        Inl e \<Rightarrow> (s, api_failure q ''internal_error'' ''Internal error'' 500)
      | Inr cs \<Rightarrow>
          (let s1 = (if cs = [] then s else
                 let s0 = save_enriched_contacts (dc_id r) (caller q) cs s
                 in if is_admin then s0 else fst (charge_caller q 50 s0));
               body = enrich_response cs False
           in (save_idempotency q key 200 body (usage_record q ''/v1/enrich'' 1 s1), (200, body))))"

definition enrich_document ::
    "request \<Rightarrow> lead_service \<Rightarrow> int \<Rightarrow> string list option \<Rightarrow> string option \<Rightarrow> api \<Rightarrow> api \<times> http" where
  "enrich_document q lead doc titles key s = (case lead of
     None \<Rightarrow> (s, api_failure q ''validation_error'' ''Contact enrichment is not yet configured.'' 422)
   | Some find_leads \<Rightarrow> (case get_document doc (caller q) (sv_docs (ap_server s)) of
       None \<Rightarrow> (s, api_failure q ''not_found'' ''Document not found'' 404)
     | Some r \<Rightarrow>
         (let existing = get_enriched_contacts doc (caller q) s in
          if existing \<noteq> [] then (s, (200, enrich_response existing True))
          else (case caller_usage q s of
            (s1, None) \<Rightarrow> (s1, server_error q)
          | (s1, Some u) \<Rightarrow>
              if \<not> ug_is_admin u \<and> ug_credits u < 50 then (s1, api_failure q ''insufficient_credits''
                 ''Insufficient credits (enrichment costs 0.5 credits)'' 402)
              else buy_contacts q key find_leads r titles (ug_is_admin u) s1))))"

definition enrich_contacts ::
    "request \<Rightarrow> lead_service \<Rightarrow> int \<Rightarrow> string list option \<Rightarrow> api \<Rightarrow> api \<times> http" where
  "enrich_contacts q lead doc titles = limited q ResearchLimiter (\<lambda>s.
     case check_idempotency (rq_others q) (request_time q) (rq_header q) (rq_key q) (ap_idem s) of
       (d, Answer key status body) \<Rightarrow> (s\<lparr>ap_idem := d\<rparr>, (status, body))
     | (d, NoKey) \<Rightarrow> enrich_document q lead doc titles None (s\<lparr>ap_idem := d\<rparr>)
     | (d, Proceed key) \<Rightarrow> enrich_document q lead doc titles (Some key) (s\<lparr>ap_idem := d\<rparr>))"

text \<open>
  The synchronous enrichment for Clay, the generation of sequences and the endpoints of bulk jobs
  of \<open>api/routes.py\<close>.
\<close>

section \<open>Synchronous enrichment\<close>

definition truncate_text :: "string option \<Rightarrow> string" where
  "truncate_text x = (case x of None \<Rightarrow> []
     | Some s \<Rightarrow> take 500 s @ (if 500 < length s then ''...'' else []))"

definition category_json :: "pain_summary \<Rightarrow> string \<Rightarrow> json" where
  "category_json p c = jopt JInt (map_of (ps_categories p) c)"

definition or_text :: "string option \<Rightarrow> string option \<Rightarrow> string option" where
  "or_text x y = (case x of None \<Rightarrow> y | Some s \<Rightarrow> if s = [] then y else x)"

text \<open>\<open>duration\<close> is the rounded run time, nothing for a cached answer\<close>

definition build_clay_response :: "document \<Rightarrow> bool \<Rightarrow> json \<Rightarrow> pain_summary \<Rightarrow> json" where
  "build_clay_response r cached duration p =
     (let short = (\<lambda>c. JStr (truncate_text (dr_text r c))) in
      JDict [(''object'', JStr ''clay_enrichment''), (''company_name'', JStr (dr_name r)), (''company_url'', JStr (dr_url r)),
        (''pain_score'', jopt JInt (dr_pain r)), (''fit_score'', jopt JInt (dr_fit r)),
        (''timing_score'', jopt JInt (dr_timing r)), (''composite_score'', jopt JInt (dr_opportunity r)),
        (''score_summary'', short ''score_summary''),
        (''pain_reasons'', JStr (truncate_text (or_text (dr_text r ''pain_evidence'') (dr_text r ''business_problems'')))),
        (''business_problems'', short ''business_problems''), (''product_fit'', short ''product_fit''),
        (''talking_points'', short ''talking_points''), (''existential_data_points'', short ''existential_data_points''),
        (''pvp_seed'', short ''pvp_seed''), (''required_capabilities'', short ''required_capabilities''),
        (''pain_category_security'', category_json p ''security''),
        (''pain_category_engineering'', category_json p ''engineering''),
        (''pain_category_operations'', category_json p ''operations''),
        (''pain_category_marketing'', category_json p ''marketing''), (''pain_category_data'', category_json p ''data''),
        (''top_pain_signal'', case ps_signals p of [] \<Rightarrow> JNull | (title, _) # _ \<Rightarrow> JStr title),
        (''document_id'', JInt (dc_id r)), (''cached'', JBool cached), (''research_duration_seconds'', duration)])"

definition fail_clay_job :: "request \<Rightarrow> job \<Rightarrow> bool \<Rightarrow> string \<Rightarrow> api \<Rightarrow> api" where
  "fail_clay_job q j is_admin msg s =
     on_server (\<lambda>v. v\<lparr>sv_jobs := update_job_status (wo_end (rq_world q)) (jb_id j) JobFailed None (Some msg) (sv_jobs v)\<rparr>)
       (if is_admin then s else refund_caller q 100 s)"

text \<open>
  \<open>slow\<close>: the 120 seconds are over before the pipeline returns. It is cancelled then; what it
  changes it changes at its end, so the state is the one it started in.
\<close>

definition run_clay_job :: "request \<Rightarrow> bool \<Rightarrow> json \<Rightarrow> job \<Rightarrow> bool \<Rightarrow> api work" where
  "run_clay_job q slow duration j is_admin s =
     (if slow then (fail_clay_job q j is_admin ''Research timed out after 120 seconds'' s,
        Inl (api_failure q ''timeout'' ''Research timed out after 120 seconds'' 504))
      else (case run_research_pipeline (rq_world q) (caller q) None (ap_server s) of
        (v, Inl e) \<Rightarrow> (fail_clay_job q j is_admin ''Internal error'' (s\<lparr>ap_server := v\<rparr>),
           Inl (api_failure q ''internal_error'' ''Internal error'' 500))
      | (v, Inr doc) \<Rightarrow>
          (let s1 = usage_record q ''/v1/clay/enrich'' 1 (s\<lparr>ap_server := v\<rparr>);
               s2 = on_server (\<lambda>v. v\<lparr>sv_jobs := update_job_status (wo_end (rq_world q)) (jb_id j) JobCompleted (Some doc)
                      None (sv_jobs v)\<rparr>) s1
           in case get_document doc (caller q) (sv_docs (ap_server s2)) of
                None \<Rightarrow> (fail_clay_job q j is_admin ''Internal error'' s2,
                   Inl (api_failure q ''internal_error'' ''Internal error'' 500))
              | Some r \<Rightarrow> (s2, Inr (200, build_clay_response r False duration (pain_of_document r s2))))))"

definition cached_document :: "request \<Rightarrow> string \<Rightarrow> api \<Rightarrow> document option" where
  "cached_document q url s =
     (case get_recent_document_by_url (request_time q) (caller q) url 24 (sv_docs (ap_server s)) of
        None \<Rightarrow> None | Some doc \<Rightarrow> get_document doc (caller q) (sv_docs (ap_server s)))"

definition clay_work :: "request \<Rightarrow> bool \<Rightarrow> json \<Rightarrow> string \<Rightarrow> api work" where
  "clay_work q slow duration raw s = (case validate_company_url (rq_resolve q) raw of
     Inl e \<Rightarrow> (s, Inl (api_failure q ''validation_error'' e 422))
   | Inr url \<Rightarrow> (case cached_document q url s of
       Some r \<Rightarrow> (usage_record q ''/v1/clay/enrich'' 0 s,
          Inr (200, build_clay_response r True JNull (pain_of_document r s)))
     | None \<Rightarrow> (case reserve_job q url s of
         (s1, Inl e) \<Rightarrow> (s1, Inl e)
       | (s1, Inr (j, is_admin)) \<Rightarrow> run_clay_job q slow duration j is_admin s1)))"

definition clay_enrich :: "request \<Rightarrow> bool \<Rightarrow> json \<Rightarrow> string \<Rightarrow> api \<Rightarrow> api \<times> http" where
  "clay_enrich q slow duration raw = limited q ClayLimiter (posted q (clay_work q slow duration raw))"

section \<open>Sequences\<close>

text \<open>
  \<open>write\<close> is the writing service on a document: numbered e-mails, or the exception of the
  model. The retrieval of materials, whose failures are swallowed, is part of it.
\<close>

definition generate_sequence ::
    "request \<Rightarrow> (document \<Rightarrow> string + (int \<times> string \<times> string) list) \<Rightarrow> int \<Rightarrow> api \<Rightarrow> api \<times> http" where
  "generate_sequence q write doc = limited q SequenceLimiter (\<lambda>s.
     case get_document doc (caller q) (sv_docs (ap_server s)) of
       None \<Rightarrow> (s, api_failure q ''not_found'' ''Document not found'' 404)
     | Some r \<Rightarrow> (case write r of
         Inl e \<Rightarrow> (s, api_failure q ''internal_error'' ''Internal error'' 500)
       | Inr emails \<Rightarrow> (usage_record q ''/v1/research/sequence'' 0 s,
           (200, JDict [(''object'', JStr ''sequence''), (''document_id'', JInt doc),
             (''emails'', JList (map (\<lambda>(n, subject, body). JDict [(''email_number'', JInt n),
                (''subject'', JStr subject), (''body'', JStr body)]) emails))]))))"

section \<open>Bulk jobs\<close>

definition reserve_bulk ::
    "request \<Rightarrow> string option \<Rightarrow> int \<Rightarrow> api \<Rightarrow> api \<times> (http + (bulk_row \<times> bool))" where
  "reserve_bulk q name n s = (case caller_usage q s of
     (s1, None) \<Rightarrow> (s1, Inl (server_error q))
   | (s1, Some u) \<Rightarrow>
       (let v = ap_server s1 in
        if ug_is_admin u then
          (case create_bulk_job (request_time q) (caller q) (rq_key q) name n (n * 100) (sv_bulk v) of
             (d, j) \<Rightarrow> (s1\<lparr>ap_server := v\<lparr>sv_bulk := d\<rparr>\<rparr>, Inr (j, True)))
        else
          (case create_bulk_job_with_credit (request_time q) (caller q) (rq_key q) name n (n * 100) (sv_accounts v) (sv_bulk v) of
             Inl InsufficientCredits \<Rightarrow> (s1, Inl (no_credits_left q n u))
           | Inl (JobDb e) \<Rightarrow> (s1, Inl (server_error q))
           | Inr (a, d, j) \<Rightarrow> (s1\<lparr>ap_server := v\<lparr>sv_accounts := a, sv_bulk := d\<rparr>\<rparr>, Inr (j, False)))))"

definition bulk_task :: "request \<Rightarrow> int \<Rightarrow> bool \<Rightarrow> payload" where
  "bulk_task q bulk is_admin = (''bulk_job_id'', PInt bulk) # caller_fields q is_admin"

definition start_bulk :: "request \<Rightarrow> string option \<Rightarrow> string list \<Rightarrow> api work" where
  "start_bulk q name raws s =
     (if raws = [] then (s, Inl (api_failure q ''validation_error'' ''company_urls must not be empty'' 422))
      else if 100 < length raws then (s, Inl (api_failure q ''validation_error'' ''Maximum 100 URLs per bulk job'' 422))
      else (case validate_urls q raws of
        Inl e \<Rightarrow> (s, Inl (api_failure q ''validation_error'' e 422))
      | Inr urls \<Rightarrow> (case reserve_bulk q name (int (length urls)) s of
          (s1, Inl e) \<Rightarrow> (s1, Inl e)
        | (s1, Inr (j, is_admin)) \<Rightarrow>
            (create_tracked_task q ''bulk'' (bulk_task q (bj_id j) is_admin)
               (on_server (\<lambda>v. v\<lparr>sv_bulk := fst (create_bulk_job_items (request_time q) (bj_id j) urls (sv_bulk v))\<rparr>) s1),
             Inr (202, JDict [(''object'', JStr ''bulk_job''), (''bulk_job_id'', JInt (bj_id j)),
               (''status'', JStr ''processing''), (''total_items'', JInt (int (length urls)))])))))"

definition create_bulk_research :: "request \<Rightarrow> string option \<Rightarrow> string list \<Rightarrow> api \<Rightarrow> api \<times> http" where
  "create_bulk_research q name raws = limited q BulkLimiter (posted q (start_bulk q name raws))"

definition item_timeout :: string where
  "item_timeout = ''Item timed out after 10 minutes''"

definition stale_item :: "request \<Rightarrow> item_row \<Rightarrow> bool" where
  "stale_item q r \<longleftrightarrow> bi_status r = ChildProcessing \<and> timed_out q (bi_created r)"

definition expire_items :: "request \<Rightarrow> item_row list \<Rightarrow> bulk_db \<Rightarrow> bulk_db" where
  "expire_items q rs = fold (\<lambda>r. update_bulk_job_item (request_time q) (bi_id r) ChildFailed None None (Some item_timeout))
     (filter (stale_item q) rs)"

definition shown_item :: "request \<Rightarrow> item_row \<Rightarrow> item_row" where
  "shown_item q r = (if stale_item q r then r\<lparr>bi_status := ChildFailed, bi_error := Some item_timeout\<rparr> else r)"

definition child_status_text :: "child_status \<Rightarrow> string" where
  "child_status_text st = (case st of ChildPending \<Rightarrow> ''pending'' | ChildProcessing \<Rightarrow> ''processing''
     | ChildCompleted \<Rightarrow> ''completed'' | ChildFailed \<Rightarrow> ''failed'')"

definition item_json :: "request \<Rightarrow> item_row \<Rightarrow> json" where
  "item_json q r = JDict [(''id'', JInt (bi_id r)), (''company_url'', JStr (bi_url r)),
     (''status'', JStr (child_status_text (bi_status r))), (''research_job_id'', jopt JInt (bi_research r)),
     (''document_id'', jopt JInt (bi_document r)), (''error'', jopt JStr (bi_error r)),
     (''created_at'', jtime q (bi_created r)), (''completed_at'', jopt (jtime q) (bi_completed_at r))]"

definition bulk_fields :: "request \<Rightarrow> bulk_row \<Rightarrow> (string \<times> json) list" where
  "bulk_fields q j = [(''object'', JStr ''bulk_job''), (''bulk_job_id'', JInt (bj_id j)), (''name'', jopt JStr (bj_name j)),
     (''status'', JStr (show_status (bj_status j))), (''total_items'', JInt (bj_total j)),
     (''completed_items'', JInt (bj_completed j)), (''failed_items'', JInt (bj_failed j))]"

definition bulk_times :: "request \<Rightarrow> bulk_row \<Rightarrow> (string \<times> json) list" where
  "bulk_times q j = [(''created_at'', jtime q (bj_created j)), (''completed_at'', jopt (jtime q) (bj_completed_at j))]"

text \<open>
  The counters of the answer are those read before the time-outs are recorded. The generator of
  the items ends on every table (the branch \<open>None\<close> stands for a loop that does not).
\<close>

definition get_bulk_job_status :: "request \<Rightarrow> int \<Rightarrow> api \<Rightarrow> api \<times> http" where
  "get_bulk_job_status q i = limited q DefaultLimiter (\<lambda>s.
     case get_bulk_job i (caller q) (sv_bulk (ap_server s)) of
       None \<Rightarrow> (s, api_failure q ''not_found'' ''Bulk job not found'' 404)
     | Some j \<Rightarrow> (case get_bulk_job_items i (sv_bulk (ap_server s)) of
         None \<Rightarrow> (s, server_error q)
       | Some rs \<Rightarrow> (on_server (\<lambda>v. v\<lparr>sv_bulk := expire_items q rs (sv_bulk v)\<rparr>) s,
           (200, JDict (bulk_fields q j @ [(''credits_reserved'', JInt (bj_credits j))] @ bulk_times q j @
             [(''items'', JList (map (\<lambda>r. item_json q (shown_item q r)) rs))])))))"

definition list_bulk_jobs_endpoint :: "request \<Rightarrow> nat \<Rightarrow> int option \<Rightarrow> api \<Rightarrow> api \<times> http" where
  "list_bulk_jobs_endpoint q limit starting_after = limited q DefaultLimiter (\<lambda>s.
     case list_bulk_jobs (caller q) limit starting_after (sv_bulk (ap_server s)) of
       (js, has_more) \<Rightarrow> (s, (200, list_body (map (\<lambda>j. JDict (bulk_fields q j @ bulk_times q j)) js) has_more)))"

end
