(* ===== verification/Api_Lists.thy ===== *)
theory Api_Lists
  imports Api_Research
begin

text \<open>The endpoints of \<open>api/routes.py\<close> on account lists and on the watchlist.\<close>

section \<open>Creating and analyzing lists\<close>

definition list_task :: "request \<Rightarrow> int \<Rightarrow> bool \<Rightarrow> payload" where
  "list_task q lid is_admin = (''list_id'', PInt lid) # caller_fields q is_admin"

definition on_lists :: "(list_db \<Rightarrow> list_db) \<Rightarrow> api \<Rightarrow> api" where
  "on_lists f = on_server (\<lambda>v. v\<lparr>sv_lists := f (sv_lists v)\<rparr>)"

text \<open>
  The list is created for the organization in the row of the authenticated user; its accounts have
  no source identifiers.
\<close>

definition add_list :: "request \<Rightarrow> string \<Rightarrow> string list \<Rightarrow> api \<Rightarrow> api \<times> list_row" where
  "add_list q name urls s = (let v = ap_server s in
     case create_list (request_time q) (caller q) (Some (rq_key q)) name (us_org (vw_user (rq_user q)))
         (sv_accounts v) (sv_lists v) of
       (d, l) \<Rightarrow> (s\<lparr>ap_server := v\<lparr>sv_lists :=
           fst (add_list_accounts (request_time q) (ls_id l) urls (\<lambda>url. None) d)\<rparr>\<rparr>, l))"

definition start_analysis :: "request \<Rightarrow> int \<Rightarrow> int \<Rightarrow> bool \<Rightarrow> api \<Rightarrow> api" where
  "start_analysis q lid n is_admin s =
     create_tracked_task q ''list_analysis'' (list_task q lid is_admin)
       (on_lists (\<lambda>d. update_list_status (request_time q) lid BatchAnalyzing
          (update_list_credits (request_time q) lid (n * 100) d)) s)"

definition list_created :: "list_row \<Rightarrow> bool \<Rightarrow> int \<Rightarrow> json" where
  "list_created l analyze n = JDict [(''object'', JStr ''account_list''), (''list_id'', JInt (ls_id l)),
     (''name'', JStr (ls_name l)), (''status'', JStr (if analyze then ''analyzing'' else ''created'')),
     (''total_accounts'', JInt n)]"

text \<open>The charge comes first, the list after it: nothing is created for a caller without credits.\<close>

definition fill_list :: "request \<Rightarrow> string \<Rightarrow> bool \<Rightarrow> string list \<Rightarrow> api work" where
  "fill_list q name analyze urls s = (let n = int (length urls) in
     case caller_usage q s of
       (s1, None) \<Rightarrow> (s1, Inl (server_error q))
     | (s1, Some u) \<Rightarrow>
         (case (if analyze \<and> \<not> ug_is_admin u then charge_caller q (n * 100) s1 else (s1, True)) of
            (s2, False) \<Rightarrow> (s2, Inl (no_credits_left q n u))
          | (s2, True) \<Rightarrow> (case add_list q name urls s2 of
              (s3, l) \<Rightarrow> (if analyze then start_analysis q (ls_id l) n (ug_is_admin u) s3 else s3,
                 Inr (201, list_created l analyze n)))))"

definition new_list_work :: "request \<Rightarrow> string \<Rightarrow> bool \<Rightarrow> string list \<Rightarrow> api work" where
  "new_list_work q name analyze raws s =
     (if raws = [] then (s, Inl (api_failure q ''validation_error'' ''company_urls must not be empty'' 422))
      else if 100 < length raws then (s, Inl (api_failure q ''validation_error'' ''Maximum 100 URLs per list'' 422))
      else if py_strip name = [] then (s, Inl (api_failure q ''validation_error'' ''name is required'' 422))
      else (case validate_urls q raws of
        Inl e \<Rightarrow> (s, Inl (api_failure q ''validation_error'' e 422))
      | Inr urls \<Rightarrow> fill_list q (py_strip name) analyze (dedup urls) s))"

definition create_list_endpoint :: "request \<Rightarrow> string \<Rightarrow> bool \<Rightarrow> string list \<Rightarrow> api \<Rightarrow> api \<times> http" where
  "create_list_endpoint q name analyze raws = limited q BulkLimiter (posted q (new_list_work q name analyze raws))"

text \<open>
  The list is set to analyzing before the pending accounts and the credits are looked at; an
  error after that leaves it there.
\<close>

definition charge_analysis :: "request \<Rightarrow> list_row \<Rightarrow> int \<Rightarrow> api work" where
  "charge_analysis q l n s = (case caller_usage q s of
     (s1, None) \<Rightarrow> (s1, Inl (server_error q))
   | (s1, Some u) \<Rightarrow>
       (case (if ug_is_admin u then (s1, True) else charge_caller q (n * 100) s1) of
          (s2, False) \<Rightarrow> (s2, Inl (no_credits_left q n u))
        | (s2, True) \<Rightarrow>
            (create_tracked_task q ''list_analysis'' (list_task q (ls_id l) (ug_is_admin u))
               (on_lists (update_list_credits (request_time q) (ls_id l) (ls_credits l + n * 100)) s2),
             Inr (202, JDict [(''object'', JStr ''account_list''), (''list_id'', JInt (ls_id l)),
               (''status'', JStr ''analyzing''), (''pending_accounts'', JInt n)]))))"

definition analyze_work :: "request \<Rightarrow> int \<Rightarrow> api work" where
  "analyze_work q lid s = (let v = ap_server s in
     case get_list lid (caller q) (sv_accounts v) (sv_lists v) of
       None \<Rightarrow> (s, Inl (api_failure q ''not_found'' ''List not found'' 404))
     | Some l \<Rightarrow> (case try_start_list_analysis (request_time q) lid (sv_lists v) of
         (d, False) \<Rightarrow> (s, Inl (api_failure q ''conflict'' ''List is already being analyzed'' 409))
       | (d, True) \<Rightarrow>
           (let s1 = s\<lparr>ap_server := v\<lparr>sv_lists := d\<rparr>\<rparr>
            in case get_pending_list_accounts lid d of
                 None \<Rightarrow> (s1, Inl (server_error q))
               | Some pending \<Rightarrow>
                   if pending = [] then (s1, Inl (api_failure q ''validation_error'' ''No pending accounts to analyze'' 422))
                   else charge_analysis q l (int (length pending)) s1)))"

definition analyze_list_endpoint :: "request \<Rightarrow> int \<Rightarrow> api \<Rightarrow> api \<times> http" where
  "analyze_list_endpoint q lid = limited q BulkLimiter (posted q (analyze_work q lid))"

section \<open>Reading and deleting lists\<close>

definition account_json :: "request \<Rightarrow> account_row \<Rightarrow> json" where
  "account_json q r = JDict [(''id'', JInt (la_id r)), (''company_url'', JStr (la_url r)),
     (''company_name'', jopt JStr (la_company r)), (''status'', JStr (child_status_text (la_status r))),
     (''document_id'', jopt JInt (la_document r)), (''pain_score'', jopt JInt (la_pain r)),
     (''fit_score'', jopt JInt (la_fit r)), (''timing_score'', jopt JInt (la_timing r)),
     (''composite_score'', jopt JInt (la_composite r)), (''analyzed_at'', jopt (jtime q) (la_analyzed_at r))]"

definition list_fields :: "list_row \<Rightarrow> (string \<times> json) list" where
  "list_fields l = [(''object'', JStr ''account_list''), (''list_id'', JInt (ls_id l)), (''name'', JStr (ls_name l)),
     (''status'', JStr (show_status (ls_status l))), (''total_accounts'', JInt (ls_total l)),
     (''analyzed_accounts'', JInt (ls_analyzed l)), (''failed_accounts'', JInt (ls_failed l))]"

definition accounts_json :: "request \<Rightarrow> string \<Rightarrow> account_row list \<Rightarrow> bool \<Rightarrow> json" where
  "accounts_json q sort_by rs has_more = JDict [(''object'', JStr ''list''), (''data'', JList (map (account_json q) rs)),
     (''has_more'', JBool has_more),
     (''next_cursor'', if has_more \<and> rs \<noteq> [] then JStr (next_cursor (rq_iso q) sort_by (last rs)) else JNull)]"

text \<open>
  A cursor is decoded first, so that a malformed one is a 422; what the query then makes of its
  sort value is not checked and ends as a 500. The sort fields and orders are those of the enums.
\<close>

definition get_list_endpoint ::
    "request \<Rightarrow> (string \<Rightarrow> int) \<Rightarrow> int \<Rightarrow> account_filter \<Rightarrow> string \<Rightarrow> string \<Rightarrow> nat \<Rightarrow> string option \<Rightarrow>
     api \<Rightarrow> api \<times> http" where
  "get_list_endpoint q rank lid fl sort_by order limit starting_after = limited q DefaultLimiter (\<lambda>s.
     let v = ap_server s in
     case get_list lid (caller q) (sv_accounts v) (sv_lists v) of
       None \<Rightarrow> (s, api_failure q ''not_found'' ''List not found'' 404)
     | Some l \<Rightarrow>
         if (case starting_after of None \<Rightarrow> False | Some c \<Rightarrow> decode_composite_cursor c = None)
         then (s, api_failure q ''validation_error'' ''Invalid cursor'' 422)
         else (case get_list_accounts rank lid fl sort_by order limit starting_after (sv_lists v) of
           Inl e \<Rightarrow> (s, server_error q)
         | Inr (rs, has_more) \<Rightarrow> (s, (200, JDict (list_fields l @
             [(''accounts'', accounts_json q sort_by rs has_more)])))))"

definition list_lists_endpoint :: "request \<Rightarrow> nat \<Rightarrow> int option \<Rightarrow> api \<Rightarrow> api \<times> http" where
  "list_lists_endpoint q limit starting_after = limited q DefaultLimiter (\<lambda>s.
     case list_lists (caller q) limit starting_after (sv_accounts (ap_server s)) (sv_lists (ap_server s)) of
       (ls, has_more) \<Rightarrow> (s, (200, list_body (map (\<lambda>l. JDict (list_fields l @
          [(''created_at'', jtime q (ls_created l)), (''updated_at'', jtime q (ls_updated l))])) ls) has_more)))"

definition delete_list_endpoint :: "request \<Rightarrow> int \<Rightarrow> api \<Rightarrow> api \<times> http" where
  "delete_list_endpoint q lid = limited q DefaultLimiter (\<lambda>s. let v = ap_server s in
     case delete_list lid (caller q) (sv_accounts v) (sv_lists v) of
       (d, True) \<Rightarrow> (s\<lparr>ap_server := v\<lparr>sv_lists := d\<rparr>\<rparr>, (204, JNull))
     | (d, False) \<Rightarrow> (s, api_failure q ''not_found'' ''List not found'' 404))"

definition push_list_to_instantly :: "request \<Rightarrow> int \<Rightarrow> api \<Rightarrow> api \<times> http" where
  "push_list_to_instantly q lid s =
     (s, api_failure q ''provider_deprecated'' ''Instantly push has been deprecated.'' 410)"

section \<open>The watchlist\<close>

definition on_watch :: "watch_db \<Rightarrow> api \<Rightarrow> api" where
  "on_watch d = on_server (\<lambda>v. v\<lparr>sv_watch := d\<rparr>)"

definition watch_status_text :: "watch_status \<Rightarrow> string" where
  "watch_status_text st = (case st of WatchActive \<Rightarrow> ''active'' | WatchPaused \<Rightarrow> ''paused''
     | WatchSkipped \<Rightarrow> ''skipped_no_credits'')"

definition watch_fields :: "request \<Rightarrow> watch_row \<Rightarrow> (string \<times> json) list" where
  "watch_fields q w = [(''object'', JStr ''watchlist_item''), (''id'', JInt (wl_id w)), (''company_url'', JStr (wl_url w)),
     (''schedule'', JStr (wl_schedule w)), (''status'', JStr (watch_status_text (wl_status w))),
     (''next_run_at'', jtime q (wl_next_run w))]"

definition bad_schedule :: "request \<Rightarrow> http" where
  "bad_schedule q = api_failure q ''validation_error'' ''schedule must be weekly, biweekly, or monthly'' 422"

definition add_to_watchlist :: "request \<Rightarrow> string \<Rightarrow> string option \<Rightarrow> string \<Rightarrow> api \<Rightarrow> api \<times> http" where
  "add_to_watchlist q raw name schedule = limited q DefaultLimiter (\<lambda>s.
     if \<not> valid_schedule schedule then (s, bad_schedule q)
     else (case validate_company_url (rq_resolve q) raw of
       Inl e \<Rightarrow> (s, api_failure q ''validation_error'' e 422)
     | Inr url \<Rightarrow> (case create_watchlist_item (request_time q) (caller q) url name schedule (sv_watch (ap_server s)) of
         Inl e \<Rightarrow> (s, server_error q)
       | Inr (d, w) \<Rightarrow> (on_watch d s, (201, JDict (watch_fields q w @ [(''company_name'', jopt JStr (wl_name w))]))))))"

definition list_watchlist :: "request \<Rightarrow> nat \<Rightarrow> int option \<Rightarrow> api \<Rightarrow> api \<times> http" where
  "list_watchlist q limit starting_after = limited q DefaultLimiter (\<lambda>s.
     case list_watchlist_items (request_time q) (caller q) limit starting_after (sv_watch (ap_server s)) of
       (ws, has_more) \<Rightarrow> (s, (200, list_body (map (\<lambda>(w, _). JDict (watch_fields q w @
          [(''company_name'', jopt JStr (wl_name w)), (''last_document_id'', jopt JInt (wl_last_doc w)),
           (''last_run_at'', jopt (jtime q) (wl_last_run w)), (''created_at'', jtime q (wl_created w))])) ws) has_more)))"

text \<open>
  Empty strings are not checked, as the code tests for truth first; the database refuses them
  for a row that exists.
\<close>

definition parse_watch_status :: "string option \<Rightarrow> watch_status option option" where
  "parse_watch_status st = (case st of None \<Rightarrow> Some None
     | Some t \<Rightarrow> if t = ''active'' then Some (Some WatchActive) else if t = ''paused'' then Some (Some WatchPaused) else None)"

definition patch_item :: "request \<Rightarrow> int \<Rightarrow> string option \<Rightarrow> watch_status option \<Rightarrow> api \<Rightarrow> api \<times> http" where
  "patch_item q i schedule st s =
     (case update_watchlist_item (request_time q) i (caller q) schedule st (sv_watch (ap_server s)) of
        Inl e \<Rightarrow> (s, server_error q)
      | Inr (d, None) \<Rightarrow> (s, api_failure q ''not_found'' ''Watchlist item not found'' 404)
      | Inr (d, Some w) \<Rightarrow> (on_watch d s, (200, JDict (watch_fields q w))))"

definition bad_text :: "(string \<Rightarrow> bool) \<Rightarrow> string option \<Rightarrow> bool" where
  "bad_text ok x \<longleftrightarrow> (case x of None \<Rightarrow> False | Some t \<Rightarrow> t \<noteq> [] \<and> \<not> ok t)"

definition update_watchlist :: "request \<Rightarrow> int \<Rightarrow> string option \<Rightarrow> string option \<Rightarrow> api \<Rightarrow> api \<times> http" where
  "update_watchlist q i schedule status = limited q DefaultLimiter (\<lambda>s.
     if bad_text valid_schedule schedule then (s, bad_schedule q)
     else if bad_text (\<lambda>t. t \<in> {''active'', ''paused''}) status then
       (s, api_failure q ''validation_error'' ''status must be active or paused'' 422)
     else (case parse_watch_status status of
       Some st \<Rightarrow> patch_item q i schedule st s
     | None \<Rightarrow> if get_watchlist_item i (caller q) (sv_watch (ap_server s)) = None
         then (s, api_failure q ''not_found'' ''Watchlist item not found'' 404) else (s, server_error q)))"

definition remove_from_watchlist :: "request \<Rightarrow> int \<Rightarrow> api \<Rightarrow> api \<times> http" where
  "remove_from_watchlist q i = limited q DefaultLimiter (\<lambda>s.
     case delete_watchlist_item i (caller q) (sv_watch (ap_server s)) of
       (d, True) \<Rightarrow> (on_watch d s, (204, JNull))
     | (d, False) \<Rightarrow> (s, api_failure q ''not_found'' ''Watchlist item not found'' 404))"

definition scores_json :: "doc_scores \<Rightarrow> json" where
  "scores_json c = JDict [(''opportunity'', jopt JInt (ds_opportunity c)), (''pain'', jopt JInt (ds_pain c)),
     (''fit'', jopt JInt (ds_fit c)), (''timing'', jopt JInt (ds_timing c))]"

definition change_json :: "request \<Rightarrow> change_row \<Rightarrow> json" where
  "change_json q c = JDict [(''old_document_id'', jopt JInt (wc_old_doc c)), (''new_document_id'', JInt (wc_new_doc c)),
     (''old_scores'', scores_json (wc_old c)), (''new_scores'', scores_json (wc_new c)),
     (''is_significant'', JBool (wc_significant c)), (''created_at'', jtime q (wc_created c))]"

definition watchlist_history :: "request \<Rightarrow> int \<Rightarrow> api \<Rightarrow> api \<times> http" where
  "watchlist_history q i = limited q DefaultLimiter (\<lambda>s.
     case get_watchlist_item i (caller q) (sv_watch (ap_server s)) of
       None \<Rightarrow> (s, api_failure q ''not_found'' ''Watchlist item not found'' 404)
     | Some w \<Rightarrow> (s, (200, JDict [(''object'', JStr ''watchlist_history''), (''item_id'', JInt i),
         (''company_url'', JStr (wl_url w)),
         (''changes'', JList (map (change_json q) (get_score_history i (caller q) 20 (sv_watch (ap_server s)))))])))"

end
