(* ===== verification/Api_Router.thy ===== *)
theory Api_Router
  imports Api_Lists Worker_Properties
begin

text \<open>
  The table of routes of \<open>api/routes.py\<close>, the handling of one HTTP request from its bearer token to
  its answer. The interface
  \<open>server_relation\<close> lifts a relation between databases from the work of the endpoints over rate limits
  and the idempotency guard.
\<close>

section \<open>Routes\<close>

datatype endpoint =
    GetPing
  | GetAccount "time option"
  | PostResearch string
  | GetResearch int
  | ListResearch nat "int option"
  | PostEnrich lead_service int "string list option"
  | PostClay bool json string
  | PostSequence "document \<Rightarrow> string + (int \<times> string \<times> string) list" int
  | PostBulk "string option" "string list"
  | GetBulk int
  | ListBulk nat "int option"
  | PostList string bool "string list"
  | PostAnalyze int
  | GetList "string \<Rightarrow> int" int account_filter string string nat "string option"
  | ListLists nat "int option"
  | DeleteList int
  | PostPush int
  | PostWatch string "string option" string
  | ListWatch nat "int option"
  | PatchWatch int "string option" "string option"
  | DeleteWatch int
  | GetHistory int

fun route :: "endpoint \<Rightarrow> request \<Rightarrow> api \<Rightarrow> api \<times> http" where
  "route GetPing q = ping q"
| "route (GetAccount period) q = get_account q period"
| "route (PostResearch raw) q = create_research q raw"
| "route (GetResearch i) q = get_job_status q i"
| "route (ListResearch n c) q = list_jobs q n c"
| "route (PostEnrich lead doc titles) q = enrich_contacts q lead doc titles"
| "route (PostClay slow duration raw) q = clay_enrich q slow duration raw"
| "route (PostSequence write doc) q = generate_sequence q write doc"
| "route (PostBulk name raws) q = create_bulk_research q name raws"
| "route (GetBulk i) q = get_bulk_job_status q i"
| "route (ListBulk n c) q = list_bulk_jobs_endpoint q n c"
| "route (PostList name analyze raws) q = create_list_endpoint q name analyze raws"
| "route (PostAnalyze i) q = analyze_list_endpoint q i"
| "route (GetList rank i fl sort_by order n c) q = get_list_endpoint q rank i fl sort_by order n c"
| "route (ListLists n c) q = list_lists_endpoint q n c"
| "route (DeleteList i) q = delete_list_endpoint q i"
| "route (PostPush i) q = push_list_to_instantly q i"
| "route (PostWatch raw name schedule) q = add_to_watchlist q raw name schedule"
| "route (ListWatch n c) q = list_watchlist q n c"
| "route (PatchWatch i schedule status) q = update_watchlist q i schedule status"
| "route (DeleteWatch i) q = remove_from_watchlist q i"
| "route (GetHistory i) q = watchlist_history q i"

text \<open>
  A request with its \<open>Authorization\<close> header: the dependency \<open>require_api_key\<close> first, then the
  endpoint as the user and the key it found. The detail of a 401 is a string, so its code is looked
  up by status.
\<close>

definition serve ::
    "(string \<Rightarrow> string \<Rightarrow> bool) \<Rightarrow> string \<Rightarrow> endpoint \<Rightarrow> request \<Rightarrow> api \<Rightarrow> api \<times> http" where
  "serve check authorization ep q s =
     (case require_api_key check (request_time q) (rq_tie q) authorization (sv_accounts (ap_server s)) (ap_keys s) of
        (d, Inl detail) \<Rightarrow> (s\<lparr>ap_keys := d\<rparr>, api_failure q ''unauthorized'' detail 401)
      | (d, Inr (v, key)) \<Rightarrow> route ep (q\<lparr>rq_user := v, rq_key := key\<rparr>) (s\<lparr>ap_keys := d\<rparr>))"

section \<open>The frame of an endpoint\<close>

lemma limited_cases:
  obtains (refused) "ap_server (fst (limited q n h s)) = ap_server s"
      "fst (snd (limited q n h s)) = 429"
  | (passed) hits where "limited q n h s = h (s\<lparr>ap_hits := hits\<rparr>)"
proof -
  obtain hits r where c: "limiter_check (api_limiter (rq_enforce q) n) (rq_mono q) (rq_wall q) (rq_key q) (ap_hits s n) =
      (hits, r)" by (cases "limiter_check (api_limiter (rq_enforce q) n) (rq_mono q) (rq_wall q) (rq_key q) (ap_hits s n)")
  show thesis
  proof (cases r)
    case (Inr info)
    then show thesis using passed by (simp add: limited_def c Let_def)
  next
    case (Inl e)
    have "e \<noteq> LimiterCrash"
      using c Inl by (auto simp: limiter_check_def Let_def api_limiter_def limiter_size_def
          split: if_splits limiter_name.splits)
    then show thesis using refused Inl by (cases e) (simp_all add: limited_def c Let_def api_failure_def)
  qed
qed

lemma posted_cases:
  obtains (answered) d where "fst (posted q run s) = s\<lparr>ap_idem := d\<rparr>"
  | (ran) d where "fst (posted q run s) = (fst (run s))\<lparr>ap_idem := d\<rparr>"
      "snd (posted q run s) = (case snd (run s) of Inl x \<Rightarrow> x | Inr x \<Rightarrow> x)"
proof -
  obtain d c where c: "check_idempotency (rq_others q) (request_time q) (rq_header q) (rq_key q) (ap_idem s) = (d, c)"
    by (cases "check_idempotency (rq_others q) (request_time q) (rq_header q) (rq_key q) (ap_idem s)")
  obtain s1 x where r: "run s = (s1, x)" by (cases "run s")
  show thesis
  proof (cases c)
    case (Answer key status body)
    then show thesis using answered by (simp add: posted_def idempotent_post_def c)
  next
    case NoKey
    then show thesis using ran by (cases x) (auto simp: posted_def idempotent_post_def c r split: prod.splits)
  next
    case (Proceed key)
    then show thesis using ran by (cases x) (auto simp: posted_def idempotent_post_def c r split: prod.splits)
  qed
qed

locale server_relation =
  fixes R :: "server \<Rightarrow> server \<Rightarrow> bool"
  assumes refl: "R v v"
    and trans: "R u v \<Longrightarrow> R v w \<Longrightarrow> R u w"
begin

lemma limited:
  assumes "\<And>hits. R (ap_server s) (ap_server (fst (h (s\<lparr>ap_hits := hits\<rparr>))))"
  shows "R (ap_server s) (ap_server (fst (limited q n h s)))"
  by (cases rule: limited_cases [of q n h s]) (simp_all add: assms refl)

lemma posted:
  assumes "R (ap_server s) (ap_server (fst (run s)))"
  shows "R (ap_server s) (ap_server (fst (posted q run s)))"
  by (cases rule: posted_cases [of q run s]) (simp_all add: assms refl)

lemma limited_posted:
  assumes "\<And>hits. R (ap_server s) (ap_server (fst (run (s\<lparr>ap_hits := hits\<rparr>))))"
  shows "R (ap_server s) (ap_server (fst (limited q n (posted q run) s)))"
proof (rule limited)
  fix hits
  show "R (ap_server s) (ap_server (fst (posted q run (s\<lparr>ap_hits := hits\<rparr>))))"
    using posted [of "s\<lparr>ap_hits := hits\<rparr>" run] assms by simp
qed

end

section \<open>What the shared parts change\<close>

lemma on_server_simps [simp]:
  "ap_server (on_server f s) = f (ap_server s)" "ap_idem (on_server f s) = ap_idem s"
  "ap_keys (on_server f s) = ap_keys s" "ap_signals (on_server f s) = ap_signals s"
  by (simp_all add: on_server_def)

text \<open>Reading the usage of a user can only fill the usage cache.\<close>

lemma usage_balances: "balance_of (fst (get_user_usage live uid a)) = balance_of a"
  by (auto simp: get_user_usage_def balance_of_def org_row_of_def fun_eq_iff split: option.split)

lemma usage_users: "user_of (fst (get_user_usage live uid a)) = user_of a"
  by (auto simp: get_user_usage_def user_of_def fun_eq_iff split: option.split)

lemma usage_org: "org_of_user (fst (get_user_usage live uid a)) = org_of_user a"
  by (simp add: org_of_user_def usage_users fun_eq_iff)

text \<open>
  Whether a user counts as an administrator: the flag of the row, or of the cached usage while that is alive.
  This is what \<open>get_user_usage\<close> answers.
\<close>

definition admin_flag :: "bool \<Rightarrow> int \<Rightarrow> accounts \<Rightarrow> bool option" where
  "admin_flag live uid a = (case (if live then ac_usage_cache a uid else None) of
     Some g \<Rightarrow> Some (ug_is_admin g)
   | None \<Rightarrow> map_option us_is_admin (user_of a uid))"

lemma usage_admin: "get_user_usage live uid a = (a', Some g) \<Longrightarrow> admin_flag live uid a = Some (ug_is_admin g)"
  by (auto simp: get_user_usage_def admin_flag_def usage_of_def split: option.splits if_splits)

lemma caller_usage_admin:
  "snd (caller_usage q s) = Some g \<Longrightarrow> admin_flag (rq_live q) (caller q) (sv_accounts (ap_server s)) = Some (ug_is_admin g)"
  by (cases "get_user_usage (rq_live q) (caller q) (sv_accounts (ap_server s))")
    (simp add: caller_usage_def usage_admin)

lemma caller_usage_cases:
  obtains a where "caller_usage q s = (s\<lparr>ap_server := (ap_server s)\<lparr>sv_accounts := a\<rparr>\<rparr>, snd (caller_usage q s))"
    "balance_of a = balance_of (sv_accounts (ap_server s))"
    "org_of_user a = org_of_user (sv_accounts (ap_server s))"
    "user_of a = user_of (sv_accounts (ap_server s))"
proof -
  obtain a u where g: "get_user_usage (rq_live q) (caller q) (sv_accounts (ap_server s)) = (a, u)"
    by (cases "get_user_usage (rq_live q) (caller q) (sv_accounts (ap_server s))")
  show thesis
    using that [of a] g usage_balances [of "rq_live q" "caller q" "sv_accounts (ap_server s)"]
      usage_org [of "rq_live q" "caller q" "sv_accounts (ap_server s)"]
      usage_users [of "rq_live q" "caller q" "sv_accounts (ap_server s)"]
    by (simp add: caller_usage_def on_server_def)
qed

lemma charge_caller_cases:
  obtains a where "charge_caller q cents s = (s\<lparr>ap_server := (ap_server s)\<lparr>sv_accounts := a\<rparr>\<rparr>, snd (charge_caller q cents s))"
  by (cases "use_credit (wo_ledger (rq_world q)) (caller q) cents (sv_accounts (ap_server s))")
    (auto simp: charge_caller_def on_server_def)

text \<open>
  Reserving a job: refused, and at most the usage cache changed; or a new job was appended, for free
  or for one price that the balance covered.
\<close>

lemma reserve_job_cases:
  obtains (refused) a e where "reserve_job q url s = (s\<lparr>ap_server := (ap_server s)\<lparr>sv_accounts := a\<rparr>\<rparr>, Inl e)"
      "balance_of a = balance_of (sv_accounts (ap_server s))"
  | (free) a d j where
      "reserve_job q url s = (s\<lparr>ap_server := (ap_server s)\<lparr>sv_accounts := a, sv_jobs := d\<rparr>\<rparr>, Inr (j, True))"
      "insert_job (request_time q) (caller q) (Some (rq_key q)) url (sv_jobs (ap_server s)) = (d, j)"
      "balance_of a = balance_of (sv_accounts (ap_server s))"
      "admin_flag (rq_live q) (caller q) (sv_accounts (ap_server s)) = Some True"
  | (paid) a d j oid b where
      "reserve_job q url s = (s\<lparr>ap_server := (ap_server s)\<lparr>sv_accounts := a, sv_jobs := d\<rparr>\<rparr>, Inr (j, False))"
      "insert_job (request_time q) (caller q) (Some (rq_key q)) url (sv_jobs (ap_server s)) = (d, j)"
      "org_of_user (sv_accounts (ap_server s)) (caller q) = Some oid"
      "balance_of (sv_accounts (ap_server s)) oid = Some b" "100 \<le> b"
      "balance_of a = (balance_of (sv_accounts (ap_server s)))(oid \<mapsto> b - 100)"
      "admin_flag (rq_live q) (caller q) (sv_accounts (ap_server s)) = Some False"
proof (cases rule: caller_usage_cases [of q s])
  case (1 a)
  note cu = 1
  show thesis
  proof (cases "snd (caller_usage q s)")
    case None
    show thesis
      using refused [where a = a] cu None by (simp add: reserve_job_def)
  next
    case (Some u)
    define v where "v = (ap_server s)\<lparr>sv_accounts := a\<rparr>"
    have v: "sv_accounts v = a" "sv_jobs v = sv_jobs (ap_server s)" by (simp_all add: v_def)
    have us: "caller_usage q s = (s\<lparr>ap_server := v\<rparr>, Some u)" using cu(1) Some by (simp add: v_def)
    have flag: "admin_flag (rq_live q) (caller q) (sv_accounts (ap_server s)) = Some (ug_is_admin u)"
      using caller_usage_admin [OF Some] .
    show thesis
    proof (cases "ug_is_admin u")
      case True
      show thesis
      proof (cases "create_research_job (request_time q) (caller q) (Some (rq_key q)) url a (sv_jobs (ap_server s))")
        case (Inl e)
        have "reserve_job q url s = (s\<lparr>ap_server := v\<rparr>, Inl (server_error q))"
          using True Inl by (simp add: reserve_job_def us v)
        then show thesis using refused [where a = a] cu(2) by (simp add: v_def)
      next
        case (Inr x)
        obtain d j where x: "x = (d, j)" by (cases x)
        have "reserve_job q url s = (s\<lparr>ap_server := v\<lparr>sv_jobs := d\<rparr>\<rparr>, Inr (j, True))"
          using True Inr by (simp add: reserve_job_def us v x)
        moreover have "insert_job (request_time q) (caller q) (Some (rq_key q)) url (sv_jobs (ap_server s)) = (d, j)"
          using Inr by (simp add: create_research_job_def x split: if_splits)
        ultimately show thesis using free [where a = a and d = d and j = j] cu(2) flag True by (simp add: v_def)
      qed
    next
      case False
      show thesis
      proof (cases rule: create_job_with_credit_cases [of "request_time q" "caller q" "Some (rq_key q)" url 100 a
            "sv_jobs (ap_server s)"])
        case refused': refused
        have "reserve_job q url s = (s\<lparr>ap_server := v\<rparr>, Inl (api_failure q ''insufficient_credits'' ''No credits remaining'' 402))"
          using False refused'(1) by (simp add: reserve_job_def us v)
        then show thesis using refused [where a = a] cu(2) by (simp add: v_def)
      next
        case (created oid b d j)
        let ?a = "invalidate_usage_cache (caller q) (add_to_org oid (- 100) a)"
        have "reserve_job q url s = (s\<lparr>ap_server := v\<lparr>sv_accounts := ?a, sv_jobs := d\<rparr>\<rparr>, Inr (j, False))"
          using False created(5) by (simp add: reserve_job_def us v)
        moreover have "balance_of ?a = (balance_of (sv_accounts (ap_server s)))(oid \<mapsto> b - 100)"
          using created(2) cu(2) by (simp add: balance_of_add_to_org fun_eq_iff)
        ultimately show thesis using paid [where a = ?a and d = d and j = j and oid = oid and b = b] created cu(2,3) flag False by (simp add: v_def)
      qed
    qed
  qed
qed

lemma start_research_cases:
  obtains (nothing) "fst (start_research q raw s) = s"
  | (refused) url s1 e where "reserve_job q url s = (s1, Inl e)" "fst (start_research q raw s) = s1"
  | (started) url s1 j adm where "reserve_job q url s = (s1, Inr (j, adm))" "start_research q raw s =
      (create_tracked_task q ''research'' (research_task q j url adm) s1, Inr (202, started_research j))"
proof (cases "validate_company_url (rq_resolve q) raw")
  case (Inl e)
  then have "fst (start_research q raw s) = s" by (simp add: start_research_def)
  then show thesis by (rule nothing)
next
  case (Inr url)
  note url = this
  show thesis
  proof (cases "get_recent_document_by_url (request_time q) (caller q) url 24 (sv_docs (ap_server s))")
    case (Some doc)
    then have "fst (start_research q raw s) = s" using url by (simp add: start_research_def)
    then show thesis by (rule nothing)
  next
    case None
    obtain s1 r where r: "reserve_job q url s = (s1, r)" by (cases "reserve_job q url s")
    show thesis
    proof (cases r)
      case (Inl e)
      then show thesis using r url None by (intro refused [of url s1 e]) (auto simp: start_research_def)
    next
      case (Inr x)
      obtain j adm where "x = (j, adm)" by (cases x)
      then show thesis using r url None Inr by (intro started [of url s1 j adm]) (auto simp: start_research_def)
    qed
  qed
qed

end
