(* ===== verification/Api_Frames.thy ===== *)
theory Api_Frames
  imports Api_Router
begin

text \<open>
  What an endpoint may do to the database, one relation at a time through the interface
  \<open>server_relation\<close>: enqueue only payloads that dispatch and leave bulk jobs processing
  (\<open>keeps\<close>), and leave alone what belongs to other users (\<open>isolated\<close>).
\<close>

section \<open>Payloads of requests\<close>

lemma parse_research_task:
  "parse_call ''research'' (research_task q j url adm) = Some (CallResearch (jb_id j) (caller q) (Some (rq_key q)) url)"
  by (simp add: parse_call_def research_task_def caller_fields_def arg_int_def arg_str_def arg_opt_int_def
      arg_bool_def only_keys_def owner_keys_def)

lemma parse_bulk_task:
  "parse_call ''bulk'' (bulk_task q b adm) = Some (CallBulk b (caller q) (Some (rq_key q)) adm)"
  by (simp add: parse_call_def bulk_task_def caller_fields_def arg_int_def arg_str_def arg_opt_int_def
      arg_bool_def only_keys_def owner_keys_def)

lemma parse_list_task:
  "parse_call ''list_analysis'' (list_task q l adm) = Some (CallListAnalysis l (caller q) (Some (rq_key q)) adm)"
  by (simp add: parse_call_def list_task_def caller_fields_def arg_int_def arg_str_def arg_opt_int_def
      arg_bool_def only_keys_def owner_keys_def)

section \<open>Queue and bulk jobs\<close>

text \<open>No bulk job was finalized as completed or as a partial failure.\<close>

definition none_completed :: "server \<Rightarrow> bool" where
  "none_completed v \<longleftrightarrow> list_all (\<lambda>j. bj_status j = BatchProcessing \<or> bj_status j = BatchFailed) (bk_jobs (sv_bulk v))"

definition keeps :: "server \<Rightarrow> server \<Rightarrow> bool" where
  "keeps v v' \<longleftrightarrow> grows (sv_queue v) (sv_queue v') \<and> (none_completed v \<longrightarrow> none_completed v')"

interpretation keeping: server_relation keeps
  by unfold_locales (auto simp: keeps_def intro: grows_trans)

lemma keeps_same: "sv_queue v' = sv_queue v \<Longrightarrow> sv_bulk v' = sv_bulk v \<Longrightarrow> keeps v v'"
  by (simp add: keeps_def none_completed_def)

lemma keeps_task:
  assumes "dispatchable ty p" "sv_queue (ap_server s) = sv_queue v" "sv_bulk (ap_server s) = sv_bulk v"
  shows "keeps v (ap_server (create_tracked_task q ty p s))"
  using grows_enqueue [OF assms(1), of "sv_queue v" "request_time q"] assms(2,3)
  by (simp add: keeps_def none_completed_def create_tracked_task_def)

lemma refund_caller_frame [simp]:
  "sv_queue (ap_server (refund_caller q c s)) = sv_queue (ap_server s)"
  "sv_bulk (ap_server (refund_caller q c s)) = sv_bulk (ap_server s)"
  "sv_jobs (ap_server (refund_caller q c s)) = sv_jobs (ap_server s)"
  "sv_docs (ap_server (refund_caller q c s)) = sv_docs (ap_server s)"
  "sv_watch (ap_server (refund_caller q c s)) = sv_watch (ap_server s)"
  by (simp_all add: refund_caller_def)

lemma usage_record_frame [simp]:
  "sv_queue (ap_server (usage_record q e n s)) = sv_queue (ap_server s)"
  "sv_bulk (ap_server (usage_record q e n s)) = sv_bulk (ap_server s)"
  "sv_jobs (ap_server (usage_record q e n s)) = sv_jobs (ap_server s)"
  "sv_docs (ap_server (usage_record q e n s)) = sv_docs (ap_server s)"
  "sv_watch (ap_server (usage_record q e n s)) = sv_watch (ap_server s)"
  by (simp_all add: usage_record_def record_api_usage_def)

lemma fail_clay_frame [simp]:
  "sv_queue (ap_server (fail_clay_job q j adm m s)) = sv_queue (ap_server s)"
  "sv_bulk (ap_server (fail_clay_job q j adm m s)) = sv_bulk (ap_server s)"
  "sv_docs (ap_server (fail_clay_job q j adm m s)) = sv_docs (ap_server s)"
  "sv_watch (ap_server (fail_clay_job q j adm m s)) = sv_watch (ap_server s)"
  by (simp_all add: fail_clay_job_def)

lemma save_idempotency_frame [simp]: "ap_server (save_idempotency q k st b s) = ap_server s"
  by (simp add: save_idempotency_def split: option.split)

lemma save_contacts_frame [simp]: "ap_server (save_enriched_contacts d u cs s) = ap_server s"
  by (simp add: save_enriched_contacts_def)

lemma charge_caller_frame:
  assumes "charge_caller q c s = (s', ok)"
  shows "sv_queue (ap_server s') = sv_queue (ap_server s) \<and> sv_bulk (ap_server s') = sv_bulk (ap_server s) \<and>
    sv_jobs (ap_server s') = sv_jobs (ap_server s) \<and> sv_docs (ap_server s') = sv_docs (ap_server s) \<and>
    sv_watch (ap_server s') = sv_watch (ap_server s) \<and> sv_lists (ap_server s') = sv_lists (ap_server s)"
  by (cases rule: charge_caller_cases [of q c s]; use assms in \<open>auto\<close>)

lemma caller_usage_frame:
  assumes "caller_usage q s = (s', u)"
  shows "sv_queue (ap_server s') = sv_queue (ap_server s) \<and> sv_bulk (ap_server s') = sv_bulk (ap_server s) \<and>
    sv_jobs (ap_server s') = sv_jobs (ap_server s) \<and> sv_docs (ap_server s') = sv_docs (ap_server s) \<and>
    sv_watch (ap_server s') = sv_watch (ap_server s) \<and> sv_lists (ap_server s') = sv_lists (ap_server s)"
  by (cases rule: caller_usage_cases [of q s]; use assms in \<open>auto\<close>)

lemma reserve_job_frame:
  assumes "reserve_job q url s = (s', r)"
  shows "sv_queue (ap_server s') = sv_queue (ap_server s) \<and> sv_bulk (ap_server s') = sv_bulk (ap_server s) \<and>
    sv_docs (ap_server s') = sv_docs (ap_server s) \<and> sv_watch (ap_server s') = sv_watch (ap_server s)"
  by (cases rule: reserve_job_cases [of q url s]; use assms in \<open>auto\<close>)

text \<open>One lemma per endpoint that writes; the others return the state they were given.\<close>

lemma keeps_start_research: "keeps (ap_server s) (ap_server (fst (start_research q raw s)))"
proof -
  have "keeps (ap_server s) (ap_server (create_tracked_task q ''research'' (research_task q j url adm) s1))"
    if "reserve_job q url s = (s1, Inr (j, adm))" for url s1 j adm
    by (rule keeps_task) (simp_all add: dispatchable_def parse_research_task reserve_job_frame [OF that])
  moreover have "keeps (ap_server s) (ap_server s1)" if "reserve_job q url s = (s1, r)" for url s1 r
    by (rule keeps_same) (simp_all add: reserve_job_frame [OF that])
  ultimately show ?thesis
    by (auto simp: start_research_def keeping.refl split: sum.split option.split prod.split)
qed

lemma keeps_expire_job: "expire_job q j s = (s', r) \<Longrightarrow> keeps (ap_server s) (ap_server s')"
  by (rule keeps_same) (auto simp: expire_job_def Let_def dest!: caller_usage_frame split: if_splits prod.splits option.splits)

lemma keeps_enrich: "keeps (ap_server s) (ap_server (fst (enrich_document q lead doc titles key s)))"
proof (rule keeps_same)
  have b: "sv_queue (ap_server (fst (buy_contacts q key f r titles adm s1))) = sv_queue (ap_server s1) \<and>
      sv_bulk (ap_server (fst (buy_contacts q key f r titles adm s1))) = sv_bulk (ap_server s1)" for f r adm s1
    using charge_caller_frame [OF surjective_pairing, of q 50]
    by (simp add: buy_contacts_def Let_def split: sum.split)
  show "sv_queue (ap_server (fst (enrich_document q lead doc titles key s))) = sv_queue (ap_server s)"
    and "sv_bulk (ap_server (fst (enrich_document q lead doc titles key s))) = sv_bulk (ap_server s)"
    by (auto simp: enrich_document_def Let_def b dest!: caller_usage_frame split: option.split prod.split)
qed

lemma pipeline_core:
  assumes "run_research_pipeline w uid job s = (s', res)"
  shows "sv_queue s' = sv_queue s \<and> sv_bulk s' = sv_bulk s \<and> sv_lists s' = sv_lists s \<and> sv_watch s' = sv_watch s"
  using pipeline_frame [OF assms] by simp

lemma run_clay_frame:
  "sv_queue (ap_server (fst (run_clay_job q slow dur j adm s))) = sv_queue (ap_server s)"
  "sv_bulk (ap_server (fst (run_clay_job q slow dur j adm s))) = sv_bulk (ap_server s)"
  by (auto simp: run_clay_job_def Let_def dest!: pipeline_core split: prod.split sum.split option.split)

lemma keeps_clay: "keeps (ap_server s) (ap_server (fst (clay_work q slow dur raw s)))"
  by (rule keeps_same)
    (auto simp: clay_work_def run_clay_frame dest!: reserve_job_frame split: sum.split option.split prod.split)

lemma keeps_enrich_contacts: "keeps (ap_server s) (ap_server (fst (enrich_contacts q lead doc titles s)))"
  unfolding enrich_contacts_def
proof (rule keeping.limited)
  fix hits
  have e: "keeps (ap_server s) (ap_server (fst (enrich_document q lead doc titles key (s\<lparr>ap_hits := hits, ap_idem := d\<rparr>))))"
    for key d using keeps_enrich [of "s\<lparr>ap_hits := hits, ap_idem := d\<rparr>" q lead doc titles key] by simp
  show "keeps (ap_server s) (ap_server (fst (case check_idempotency (rq_others q) (request_time q) (rq_header q)
      (rq_key q) (ap_idem (s\<lparr>ap_hits := hits\<rparr>)) of
       (d, Answer key status body) \<Rightarrow> ((s\<lparr>ap_hits := hits\<rparr>)\<lparr>ap_idem := d\<rparr>, (status, body))
     | (d, NoKey) \<Rightarrow> enrich_document q lead doc titles None ((s\<lparr>ap_hits := hits\<rparr>)\<lparr>ap_idem := d\<rparr>)
     | (d, Proceed key) \<Rightarrow> enrich_document q lead doc titles (Some key) ((s\<lparr>ap_hits := hits\<rparr>)\<lparr>ap_idem := d\<rparr>))))"
    by (simp add: e keeping.refl split: prod.split idem_check.split)
qed

section \<open>Every route keeps the queue typed and completes no bulk job\<close>

lemma reserve_bulk_frame:
  assumes "reserve_bulk q name n s = (s', r)"
  shows "sv_queue (ap_server s') = sv_queue (ap_server s) \<and>
    (none_completed (ap_server s) \<longrightarrow> none_completed (ap_server s'))"
proof -
  obtain s1 u where c: "caller_usage q s = (s1, u)" by (cases "caller_usage q s")
  note f = caller_usage_frame [OF c]
  have charged: "bk_jobs b = bk_jobs d @ [j] \<and> bj_status j = BatchProcessing"
    if "create_bulk_job_with_credit now uid key name n cents a d = Inr (a', b, j)" for now uid key cents a a' b d j
    using that by (auto simp: create_bulk_job_with_credit_def create_bulk_job_def new_bulk_def Let_def split: prod.splits if_splits)
  show ?thesis
  proof (cases u)
    case None
    then show ?thesis using assms f by (simp add: reserve_bulk_def c none_completed_def)
  next
    case (Some v)
    show ?thesis
    proof (cases "ug_is_admin v")
      case True
      then show ?thesis using assms f
        by (auto simp: reserve_bulk_def c Some Let_def create_bulk_job_def new_bulk_def none_completed_def)
    next
      case False
      then show ?thesis using assms f
        by (auto simp: reserve_bulk_def c Some Let_def none_completed_def
            dest!: charged split: sum.splits job_error.splits)
    qed
  qed
qed

lemma create_items_jobs [simp]: "bk_jobs (fst (create_bulk_job_items now b urls d)) = bk_jobs d"
proof -
  have "bk_jobs (insert_items now b urls d) = bk_jobs d"
    by (induction now b urls d rule: insert_items.induct) simp_all
  then show ?thesis by (simp add: create_bulk_job_items_def Let_def)
qed

lemma keeps_start_bulk: "keeps (ap_server s) (ap_server (fst (start_bulk q name raws s)))"
proof -
  have "keeps (ap_server s) (ap_server s1)" if "reserve_bulk q name n s = (s1, r)" for n s1 r
    using reserve_bulk_frame [OF that] by (simp add: keeps_def)
  moreover have "keeps (ap_server s) (ap_server (create_tracked_task q ''bulk'' (bulk_task q b adm)
      (on_server (\<lambda>v. v\<lparr>sv_bulk := fst (create_bulk_job_items now b urls (sv_bulk v))\<rparr>) s1)))"
    if "reserve_bulk q name n s = (s1, Inr (j, adm))" for n s1 j adm b now urls
  proof (rule keeping.trans)
    show "keeps (ap_server s) ((ap_server s1)\<lparr>sv_bulk := fst (create_bulk_job_items now b urls (sv_bulk (ap_server s1)))\<rparr>)"
      using reserve_bulk_frame [OF that] by (simp add: keeps_def none_completed_def)
    show "keeps ((ap_server s1)\<lparr>sv_bulk := fst (create_bulk_job_items now b urls (sv_bulk (ap_server s1)))\<rparr>)
        (ap_server (create_tracked_task q ''bulk'' (bulk_task q b adm)
           (on_server (\<lambda>v. v\<lparr>sv_bulk := fst (create_bulk_job_items now b urls (sv_bulk v))\<rparr>) s1)))"
      by (rule keeps_task) (simp_all add: dispatchable_def parse_bulk_task)
  qed
  ultimately show ?thesis
    by (auto simp: start_bulk_def keeping.refl split: sum.split prod.split)
qed

lemma expire_items_statuses:
  "map (\<lambda>j. (bj_id j, bj_status j)) (bk_jobs (expire_items q rs d)) = map (\<lambda>j. (bj_id j, bj_status j)) (bk_jobs d)"
proof -
  have "map (\<lambda>j. (bj_id j, bj_status j)) (bk_jobs (fold (\<lambda>r. update_bulk_job_item t (bi_id r) ChildFailed None None e) xs d)) =
      map (\<lambda>j. (bj_id j, bj_status j)) (bk_jobs d)" for t e xs
    by (induction xs arbitrary: d) (simp_all add: update_item_statuses)
  then show ?thesis by (simp add: expire_items_def)
qed

lemma processing_statuses:
  "none_completed v \<longleftrightarrow> list_all (\<lambda>(i, st). st = BatchProcessing \<or> st = BatchFailed) (bulk_statuses v)"
  by (simp add: none_completed_def bulk_statuses_def list_all_iff case_prod_beta)

lemma processing_expire: "none_completed (v\<lparr>sv_bulk := expire_items q rs (sv_bulk v)\<rparr>) = none_completed v"
  by (simp add: processing_statuses bulk_statuses_def expire_items_statuses)

lemma add_list_frame:
  assumes "add_list q name urls s = (s', l)"
  shows "sv_queue (ap_server s') = sv_queue (ap_server s) \<and> sv_bulk (ap_server s') = sv_bulk (ap_server s) \<and>
    sv_jobs (ap_server s') = sv_jobs (ap_server s) \<and> sv_docs (ap_server s') = sv_docs (ap_server s) \<and>
    sv_watch (ap_server s') = sv_watch (ap_server s)"
  using assms by (auto simp: add_list_def Let_def split: prod.splits)

lemma on_lists_frame [simp]:
  "sv_queue (ap_server (on_lists f s)) = sv_queue (ap_server s)" "sv_bulk (ap_server (on_lists f s)) = sv_bulk (ap_server s)"
  "sv_jobs (ap_server (on_lists f s)) = sv_jobs (ap_server s)" "sv_docs (ap_server (on_lists f s)) = sv_docs (ap_server s)"
  "sv_watch (ap_server (on_lists f s)) = sv_watch (ap_server s)"
  by (simp_all add: on_lists_def)

lemma keeps_fill_list: "keeps (ap_server s) (ap_server (fst (fill_list q name analyze urls s)))"
proof -
  obtain s1 u where c: "caller_usage q s = (s1, u)" by (cases "caller_usage q s")
  note f1 = caller_usage_frame [OF c]
  show ?thesis
  proof (cases u)
    case None
    then show ?thesis by (simp add: fill_list_def c) (rule keeps_same; simp add: f1)
  next
    case (Some v)
    obtain s2 ok where p: "(if analyze \<and> \<not> ug_is_admin v then charge_caller q (int (length urls) * 100) s1 else (s1, True)) = (s2, ok)"
      by fastforce
    have f2: "sv_queue (ap_server s2) = sv_queue (ap_server s) \<and> sv_bulk (ap_server s2) = sv_bulk (ap_server s)"
      using p f1 charge_caller_frame [of q "int (length urls) * 100" s1] by (auto split: if_splits)
    obtain s3 l where a: "add_list q name urls s2 = (s3, l)" by (cases "add_list q name urls s2")
    note f3 = add_list_frame [OF a]
    have "keeps (ap_server s) (ap_server (start_analysis q (ls_id l) n adm s3))" for n adm
      unfolding start_analysis_def by (rule keeps_task) (simp_all add: dispatchable_def parse_list_task f2 f3)
    moreover have "keeps (ap_server s) (ap_server s3)" "keeps (ap_server s) (ap_server s2)"
      by (rule keeps_same; simp add: f2 f3)+
    ultimately show ?thesis by (cases ok) (simp_all add: fill_list_def Let_def c Some p a)
  qed
qed

lemma keeps_charge_analysis: "keeps (ap_server s) (ap_server (fst (charge_analysis q l n s)))"
proof -
  obtain s1 u where c: "caller_usage q s = (s1, u)" by (cases "caller_usage q s")
  note f1 = caller_usage_frame [OF c]
  show ?thesis
  proof (cases u)
    case None
    then show ?thesis by (simp add: charge_analysis_def c) (rule keeps_same; simp add: f1)
  next
    case (Some v)
    obtain s2 ok where p: "(if ug_is_admin v then (s1, True) else charge_caller q (n * 100) s1) = (s2, ok)"
      by fastforce
    have f2: "sv_queue (ap_server s2) = sv_queue (ap_server s) \<and> sv_bulk (ap_server s2) = sv_bulk (ap_server s)"
      using p f1 charge_caller_frame [of q "n * 100" s1] by (auto split: if_splits)
    have "keeps (ap_server s) (ap_server (create_tracked_task q ''list_analysis'' (list_task q i adm) (on_lists f s2)))" for i adm f
      by (rule keeps_task) (simp_all add: dispatchable_def parse_list_task f2)
    moreover have "keeps (ap_server s) (ap_server s2)" by (rule keeps_same; simp add: f2)
    ultimately show ?thesis by (cases ok) (simp_all add: charge_analysis_def c Some p)
  qed
qed

lemma keeps_analyze: "keeps (ap_server s) (ap_server (fst (analyze_work q lid s)))"
proof -
  have "keeps (ap_server s) (ap_server (s\<lparr>ap_server := (ap_server s)\<lparr>sv_lists := d\<rparr>\<rparr>))" for d
    by (rule keeps_same) simp_all
  then show ?thesis
    using keeping.trans [OF _ keeps_charge_analysis]
    by (auto simp: analyze_work_def Let_def keeping.refl split: option.split prod.split bool.split)
qed

lemma route_keeps: "keeps (ap_server s) (ap_server (fst (route ep q s)))"
proof (cases ep)
  case (PostResearch raw)
  have "keeps (ap_server s) (ap_server (fst (start_research q raw (s\<lparr>ap_hits := h\<rparr>))))" for h
    using keeps_start_research [of "s\<lparr>ap_hits := h\<rparr>"] by simp
  then show ?thesis by (simp add: PostResearch create_research_def keeping.limited_posted)
next
  case (PostClay slow dur raw)
  have "keeps (ap_server s) (ap_server (fst (clay_work q slow dur raw (s\<lparr>ap_hits := h\<rparr>))))" for h
    using keeps_clay [of "s\<lparr>ap_hits := h\<rparr>"] by simp
  then show ?thesis by (simp add: PostClay clay_enrich_def keeping.limited_posted)
next
  case (PostBulk name raws)
  have "keeps (ap_server s) (ap_server (fst (start_bulk q name raws (s\<lparr>ap_hits := h\<rparr>))))" for h
    using keeps_start_bulk [of "s\<lparr>ap_hits := h\<rparr>"] by simp
  then show ?thesis by (simp add: PostBulk create_bulk_research_def keeping.limited_posted)
next
  case (PostList name analyze raws)
  have "keeps (ap_server s) (ap_server (fst (new_list_work q name analyze raws (s\<lparr>ap_hits := h\<rparr>))))" for h
    using keeps_fill_list [of "s\<lparr>ap_hits := h\<rparr>"] by (simp add: new_list_work_def keeping.refl split: sum.split)
  then show ?thesis by (simp add: PostList create_list_endpoint_def keeping.limited_posted)
next
  case (PostAnalyze i)
  have "keeps (ap_server s) (ap_server (fst (analyze_work q i (s\<lparr>ap_hits := h\<rparr>))))" for h
    using keeps_analyze [of "s\<lparr>ap_hits := h\<rparr>"] by simp
  then show ?thesis by (simp add: PostAnalyze analyze_list_endpoint_def keeping.limited_posted)
next
  case (GetResearch i)
  have "keeps (ap_server s) (ap_server s1)" if "expire_job q j (s\<lparr>ap_hits := h\<rparr>) = (s1, r)" for h j s1 r
    using keeps_expire_job [OF that] by simp
  then show ?thesis unfolding GetResearch route.simps get_job_status_def
    by (intro keeping.limited) (auto simp: keeping.refl split: option.split prod.split sum.split)
next
  case (GetBulk i)
  have "keeps v (v\<lparr>sv_bulk := expire_items q rs (sv_bulk v)\<rparr>)" for rs v
    by (simp add: keeps_def processing_expire)
  then show ?thesis unfolding GetBulk route.simps get_bulk_job_status_def
    by (intro keeping.limited) (auto simp: keeping.refl split: option.split)
next
  case (GetAccount period)
  show ?thesis unfolding GetAccount route.simps get_account_def
    by (intro keeping.limited keeps_same) (auto dest!: caller_usage_frame split: option.split prod.split)
next
  case (PostEnrich lead doc titles)
  then show ?thesis by (simp add: keeps_enrich_contacts)
next
  case (GetList rank i fl sort_by order n c)
  show ?thesis unfolding GetList route.simps get_list_endpoint_def
    by (intro keeping.limited) (auto simp: Let_def keeping.refl split: option.split sum.split)
next
  case (PatchWatch i schedule status)
  have "keeps (ap_server s) (ap_server (fst (patch_item q i schedule st (s\<lparr>ap_hits := h\<rparr>))))" for st h
    by (rule keeps_same) (simp_all add: patch_item_def on_watch_def split: option.split sum.split prod.split)
  then show ?thesis unfolding PatchWatch route.simps update_watchlist_def
    by (intro keeping.limited) (simp add: keeping.refl split: option.split)
next
  case (DeleteList i)
  show ?thesis unfolding DeleteList route.simps delete_list_endpoint_def
    by (intro keeping.limited keeps_same) (auto simp: Let_def split: prod.split bool.split)
next
  case (PostWatch raw name schedule)
  show ?thesis unfolding PostWatch route.simps add_to_watchlist_def
    by (intro keeping.limited keeps_same) (auto simp: on_watch_def split: sum.split)
next
  case (DeleteWatch i)
  show ?thesis unfolding DeleteWatch route.simps remove_from_watchlist_def
    by (intro keeping.limited keeps_same) (auto simp: on_watch_def split: prod.split bool.split)
next
  case (PostSequence f doc)
  show ?thesis unfolding PostSequence route.simps generate_sequence_def
    by (intro keeping.limited keeps_same) (auto split: option.split sum.split)
next
  case GetPing
  show ?thesis unfolding GetPing route.simps ping_def by (intro keeping.limited) (simp add: keeping.refl)
next
  case (ListResearch n c)
  show ?thesis unfolding ListResearch route.simps list_jobs_def
    by (intro keeping.limited) (simp add: keeping.refl split: prod.split)
next
  case (ListBulk n c)
  show ?thesis unfolding ListBulk route.simps list_bulk_jobs_endpoint_def
    by (intro keeping.limited) (simp add: keeping.refl split: prod.split)
next
  case (ListLists n c)
  show ?thesis unfolding ListLists route.simps list_lists_endpoint_def
    by (intro keeping.limited) (simp add: keeping.refl split: prod.split)
next
  case (ListWatch n c)
  show ?thesis unfolding ListWatch route.simps list_watchlist_def
    by (intro keeping.limited) (simp add: keeping.refl split: prod.split)
next
  case (GetHistory i)
  show ?thesis unfolding GetHistory route.simps watchlist_history_def
    by (intro keeping.limited) (simp add: keeping.refl split: option.split)
next
  case (PostPush i)
  show ?thesis by (simp add: PostPush push_list_to_instantly_def keeping.refl)
qed

text \<open>A small service on which the properties of the API are exercised: one organization with 250
  cents, its user 1 with an open job that is overdue, and the task of that job on its last attempt.\<close>

definition office_user :: user_row where
  "office_user = (new_user 1 ''a@x'' ''A'' [] (Some ''g1'') None)\<lparr>us_org := Some 1\<rparr>"

definition overdue_job :: job where
  "overdue_job = new_job 0 1 1 (Some 5) ''https://a.com''"

definition office_view :: user_view where
  "office_view = \<lparr>vw_user = office_user, vw_role = Some Admin, vw_org_name = None, vw_org_slug = None,
     vw_org_credits = Some 250, vw_org_stripe = None\<rparr>"

definition sample_request :: request where
  "sample_request = \<lparr>rq_world = quiet_world\<lparr>wo_start := seconds 700\<rparr>, rq_user = office_view, rq_key = 5, rq_mono = 0,
     rq_wall = 0, rq_header = None, rq_others = (\<lambda>d. d), rq_live = False, rq_enforce = True,
     rq_resolve = (\<lambda>h. Some [public_address]), rq_iso = str_int, rq_id = None, rq_tie = 0\<rparr>"

definition sample_api :: "server \<Rightarrow> api" where
  "sample_api v = \<lparr>ap_server = v, ap_keys = no_keys, ap_idem = [], ap_hits = (\<lambda>n. []),
     ap_signals = \<lparr>sd_signals = [], sd_inferences = []\<rparr>, ap_contacts = []\<rparr>"

definition overdue_server :: server where
  "overdue_server = (server_with [last_attempt])\<lparr>sv_jobs := \<lparr>jt_rows = [overdue_job], jt_next = 2\<rparr>\<rparr>"

lemma sample_limiter:
  "limiter_check (api_limiter True n) 0 0 5 [] = ([(5, [0])], Inr \<lparr>ri_limit = limiter_size n,
     ri_remaining = int (limiter_size n) - 1, ri_reset = 61\<rparr>)"
  by (cases n) (simp_all add: limiter_check_def hits_of_def recent_def api_limiter_def limiter_size_def max_keys_def
      seconds_left_def seconds_def Let_def)

lemma sample_limited:
  "limited sample_request n h (sample_api v) = h ((sample_api v)\<lparr>ap_hits := (\<lambda>_. [])(n := [(5, [0])])\<rparr>)"
  by (simp add: limited_def sample_request_def sample_api_def sample_limiter)

lemma sample_fields [simp]:
  "caller sample_request = 1" "rq_live sample_request = False" "request_time sample_request = seconds 700"
  "rq_key sample_request = 5" "rq_header sample_request = None" "rq_world sample_request = quiet_world\<lparr>wo_start := seconds 700\<rparr>"
  by (simp_all add: sample_request_def caller_def office_view_def office_user_def new_user_def request_time_def)

lemma office_usage:
  "get_user_usage False 1 office = (office\<lparr>ac_usage_cache := [1 \<mapsto> usage_of office office_user]\<rparr>,
     Some (usage_of office office_user))"
  "\<not> ug_is_admin (usage_of office office_user)" "ug_credits (usage_of office office_user) = 250"
proof -
  have u: "user_of office 1 = Some office_user"
    by (simp add: user_of_def office_def office_user_def new_user_def)
  show "get_user_usage False 1 office = (office\<lparr>ac_usage_cache := [1 \<mapsto> usage_of office office_user]\<rparr>,
     Some (usage_of office office_user))"
    by (simp add: get_user_usage_def u) (simp add: office_def)
  show "\<not> ug_is_admin (usage_of office office_user)" "ug_credits (usage_of office office_user) = 250"
    by (simp_all add: usage_of_def office_user_def new_user_def)
qed

lemma sample_poll:
  "\<exists>s' body. get_job_status sample_request 1 (sample_api overdue_server) = (s', (200, body)) \<and>
     run_research_pipeline quiet_world 1 (Some 1) (ap_server s') =
       (report_progress (Some 1) [''scraping''] (ap_server s'), Inl ''timeout'')"
proof -
  define h where "h = (sample_api overdue_server)\<lparr>ap_hits := (\<lambda>_. [])(DefaultLimiter := [(5, [0])])\<rparr>"
  define s1 where "s1 = on_server (\<lambda>v. v\<lparr>sv_jobs := update_job_status (seconds 700) 1 JobFailed None
      (Some ''Job timed out after 10 minutes'') (sv_jobs v)\<rparr>) h"
  define s2 where "s2 = on_server (\<lambda>v. v\<lparr>sv_accounts := office\<lparr>ac_usage_cache := [1 \<mapsto> usage_of office office_user]\<rparr>\<rparr>) s1"
  define s3 where "s3 = refund_caller sample_request 100 s2"
  have h: "sv_accounts (ap_server h) = office" "sv_jobs (ap_server h) = \<lparr>jt_rows = [overdue_job], jt_next = 2\<rparr>"
    by (simp_all add: h_def sample_api_def overdue_server_def server_with_def)
  have c: "caller_usage sample_request s1 = (s2, Some (usage_of office office_user))"
    by (simp add: caller_usage_def s1_def h office_usage(1) s2_def)
  have j: "get_research_job 1 1 (sv_jobs (ap_server h)) = Some overdue_job"
    by (simp add: h get_research_job_def overdue_job_def new_job_def)
  have j3: "get_research_job 1 1 (sv_jobs (ap_server s3)) \<noteq> None"
    by (simp add: s3_def s2_def s1_def h update_job_status_def get_research_job_def overdue_job_def new_job_def)
  have o: "jb_status overdue_job = Processing" "timed_out sample_request (jb_created overdue_job)" "jb_id overdue_job = 1"
    by (simp_all add: overdue_job_def new_job_def timed_out_def seconds_def)
  obtain j' where e: "expire_job sample_request overdue_job h = (s3, Inr j')"
    using j3 by (auto simp: expire_job_def o s1_def [symmetric] c Let_def office_usage(2) s3_def)
  have p: "get_job_status sample_request 1 (sample_api overdue_server) = (s3, (200, job_body sample_request j' s3))"
    unfolding get_job_status_def sample_limited h_def [symmetric] by (simp add: j e)
  have "user_of (sv_accounts (ap_server s3)) 1 = Some office_user"
    by (simp add: s3_def s2_def refund_caller_def refund_def refund_credit_def credit_org_def org_of_user_def user_of_def
        office_def office_user_def new_user_def balance_of_def org_row_of_def add_to_org_def record_credit_event_def
        invalidate_usage_cache_def quiet_world_def)
  then have "run_research_pipeline quiet_world 1 (Some 1) (ap_server s3) =
      (report_progress (Some 1) [''scraping''] (ap_server s3), Inl ''timeout'')"
    using context_ok_office
    by (simp add: run_research_pipeline_def office_user_def) (simp add: quiet_world_def pipeline_stages_def)
  then show ?thesis using p by blast
qed

end
