(* ===== verification/Api_Isolation.thy ===== *)
theory Api_Isolation
  imports Api_Frames
begin

text \<open>
  No request touches the research jobs, the documents or the watchlist items of another user.
\<close>

section \<open>What belongs to others\<close>

definition foreign :: "int \<Rightarrow> server \<Rightarrow> job list \<times> document list \<times> watch_row list" where
  "foreign uid v = (filter (\<lambda>j. jb_user j \<noteq> uid) (jt_rows (sv_jobs v)),
     filter (\<lambda>r. dc_user r \<noteq> uid) (dt_rows (sv_docs v)), filter (\<lambda>w. wl_user w \<noteq> uid) (wd_items (sv_watch v)))"

definition isolated :: "int \<Rightarrow> server \<Rightarrow> server \<Rightarrow> bool" where
  "isolated uid v v' \<longleftrightarrow> (jobs_wf (sv_jobs v) \<longrightarrow> jobs_wf (sv_jobs v') \<and> foreign uid v' = foreign uid v)"

interpretation isolation: server_relation "isolated uid"
  by unfold_locales (auto simp: isolated_def)

lemma isolated_same:
  "sv_jobs v' = sv_jobs v \<Longrightarrow> sv_docs v' = sv_docs v \<Longrightarrow> sv_watch v' = sv_watch v \<Longrightarrow> isolated uid v v'"
  by (simp add: isolated_def foreign_def)

lemma filter_update_other:
  "(\<And>x. x \<in> set xs \<Longrightarrow> P x \<Longrightarrow> \<not> Q x \<and> \<not> Q (f x)) \<Longrightarrow> filter Q (update_where P f xs) = filter Q xs"
  by (induction xs) auto

section \<open>Jobs\<close>

lemma isolated_insert:
  assumes "insert_job now uid key url (sv_jobs v) = (d, j)"
  shows "isolated uid v (v\<lparr>sv_jobs := d\<rparr>)"
proof -
  have "jt_rows d = jt_rows (sv_jobs v) @ [j] \<and> jb_user j = uid"
    using assms by (auto simp: insert_job_def Let_def)
  then show ?thesis using jobs_wf_insert [OF _ assms] by (simp add: isolated_def foreign_def)
qed

lemma isolated_reserve:
  assumes "reserve_job q url s = (s', r)"
  shows "isolated (caller q) (ap_server s) (ap_server s')"
proof (cases rule: reserve_job_cases [of q url s])
  case (refused a e)
  then show ?thesis using assms by (auto intro: isolated_same)
next
  case (free a d j)
  then have "ap_server s' = (ap_server s)\<lparr>sv_accounts := a, sv_jobs := d\<rparr>" using assms by auto
  then show ?thesis using isolated_insert [OF free(2)] by (simp add: isolated_def foreign_def)
next
  case (paid a d j oid b)
  then have "ap_server s' = (ap_server s)\<lparr>sv_accounts := a, sv_jobs := d\<rparr>" using assms by auto
  then show ?thesis using isolated_insert [OF paid(2)] by (simp add: isolated_def foreign_def)
qed

text \<open>The job a reservation answers is in the table and the caller's.\<close>

definition owns :: "int \<Rightarrow> int \<Rightarrow> server \<Rightarrow> bool" where
  "owns uid i v \<longleftrightarrow> list_all (\<lambda>j. jb_id j = i \<longrightarrow> jb_user j = uid) (jt_rows (sv_jobs v))"

lemma owns_reserved:
  assumes "reserve_job q url s = (s', Inr (j, adm))" "jobs_wf (sv_jobs (ap_server s))"
  shows "owns (caller q) (jb_id j) (ap_server s')"
proof -
  have new: "owns (caller q) (jb_id j) (v\<lparr>sv_jobs := d\<rparr>)"
    if "insert_job now (caller q) key url (sv_jobs (ap_server s)) = (d, j)" for now key url d v
  proof -
    have "jb_id x < jt_next (sv_jobs (ap_server s))" if "x \<in> set (jt_rows (sv_jobs (ap_server s)))" for x
      using assms(2) that by (auto simp: jobs_wf_def serial_def)
    then show ?thesis using that by (fastforce simp: insert_job_def Let_def owns_def list_all_iff new_job_def)
  qed
  show ?thesis
    by (cases rule: reserve_job_cases [of q url s]) (use assms(1) new in \<open>auto simp: owns_def\<close>)
qed

lemma owns_found:
  assumes "get_research_job i uid d = Some j" "jobs_wf d"
  shows "jb_id j = i" "list_all (\<lambda>x. jb_id x = i \<longrightarrow> jb_user x = uid) (jt_rows d)"
proof -
  have j: "j \<in> set (jt_rows d)" "jb_id j = i" "jb_user j = uid"
    using find_Some_mem [OF assms(1) [unfolded get_research_job_def]] by auto
  then show "jb_id j = i" by simp
  have "x = j" if "x \<in> set (jt_rows d)" "jb_id x = i" for x
    using distinct_key_eq [OF jobs_wf_distinct [OF assms(2)] that(1) j(1)] that(2) j(2) by simp
  then show "list_all (\<lambda>x. jb_id x = i \<longrightarrow> jb_user x = uid) (jt_rows d)" using j(3) by (auto simp: list_all_iff)
qed

lemma isolated_update:
  assumes "owns uid i v" "sv_docs v' = sv_docs v" "sv_watch v' = sv_watch v"
    and "sv_jobs v' = update_job_status now i st doc e (sv_jobs v)"
  shows "isolated uid v v'"
proof -
  have "filter (\<lambda>j. jb_user j \<noteq> uid) (jt_rows (update_job_status now i st doc e (sv_jobs v))) =
      filter (\<lambda>j. jb_user j \<noteq> uid) (jt_rows (sv_jobs v))"
    unfolding update_job_status_def using assms(1)
    by (simp add: owns_def list_all_iff) (rule filter_update_other; auto)
  then show ?thesis using assms(2-4) by (simp add: isolated_def foreign_def)
qed

lemma isolated_expire:
  assumes "get_research_job i (caller q) (sv_jobs (ap_server s)) = Some j" "expire_job q j s = (s', r)"
  shows "isolated (caller q) (ap_server s) (ap_server s')"
proof (cases "jobs_wf (sv_jobs (ap_server s))")
  case False
  then show ?thesis by (simp add: isolated_def)
next
  case True
  note o = owns_found [OF assms(1) True]
  have ow: "owns (caller q) (jb_id j) (ap_server s)" using o by (simp add: owns_def)
  show ?thesis
  proof (cases "jb_status j = Processing \<and> timed_out q (jb_created j)")
    case False
    then show ?thesis using assms(2) by (auto simp: expire_job_def isolation.refl)
  next
    case True
    have "sv_jobs (ap_server s') = update_job_status (request_time q) (jb_id j) JobFailed None
          (Some ''Job timed out after 10 minutes'') (sv_jobs (ap_server s)) \<and>
        sv_docs (ap_server s') = sv_docs (ap_server s) \<and> sv_watch (ap_server s') = sv_watch (ap_server s)"
      using assms(2) True
      by (auto simp: expire_job_def Let_def dest!: caller_usage_frame split: if_splits prod.splits option.splits)
    then show ?thesis using isolated_update [OF ow] by simp
  qed
qed

section \<open>Documents\<close>

lemma isolated_pipeline:
  assumes "run_research_pipeline w uid None v = (v', r)"
  shows "isolated uid v v' \<and> sv_jobs v' = sv_jobs v"
proof -
  have d: "filter (\<lambda>r. dc_user r \<noteq> uid) (dt_rows d) = filter (\<lambda>r. dc_user r \<noteq> uid) (dt_rows (sv_docs v))"
    if "save_document nfkd uid doc (sv_docs v) = Inr (d, i)" for nfkd doc d i
    using that by (auto simp: save_document_def insert_document_def split: option.splits dest!: try_slugs_Some)
  have "sv_jobs v' = sv_jobs v \<and> sv_watch v' = sv_watch v \<and>
      filter (\<lambda>r. dc_user r \<noteq> uid) (dt_rows (sv_docs v')) = filter (\<lambda>r. dc_user r \<noteq> uid) (dt_rows (sv_docs v))"
    using assms d
    by (auto simp: run_research_pipeline_def report_progress_def Let_def split: option.splits if_splits sum.splits prod.splits)
  then show ?thesis by (simp add: isolated_def foreign_def)
qed

lemma fail_clay_jobs:
  "sv_jobs (ap_server (fail_clay_job q j adm m s)) =
     update_job_status (wo_end (rq_world q)) (jb_id j) JobFailed None (Some m) (sv_jobs (ap_server s))"
  by (simp add: fail_clay_job_def)

lemma isolated_run_clay:
  assumes "owns (caller q) (jb_id j) (ap_server s)"
  shows "isolated (caller q) (ap_server s) (ap_server (fst (run_clay_job q slow dur j adm s)))"
proof -
  have fail: "isolated (caller q) (ap_server x) (ap_server (fail_clay_job q j adm m x))"
    if "owns (caller q) (jb_id j) (ap_server x)" for x m
    by (rule isolated_update [OF that _ _ fail_clay_jobs]) simp_all
  obtain v r where p: "run_research_pipeline (rq_world q) (caller q) None (ap_server s) = (v, r)" by fastforce
  note iv = isolated_pipeline [OF p]
  have ov: "owns (caller q) (jb_id j) v" using assms iv by (simp add: owns_def)
  show ?thesis
  proof (cases r)
    case (Inl e)
    then show ?thesis
      using fail [OF assms] isolation.trans [OF conjunct1 [OF iv] fail [of "s\<lparr>ap_server := v\<rparr>", simplified, OF ov]]
      by (simp add: run_clay_job_def p)
  next
    case (Inr doc)
    define s2 where "s2 = on_server (\<lambda>v. v\<lparr>sv_jobs := update_job_status (wo_end (rq_world q)) (jb_id j) JobCompleted (Some doc)
        None (sv_jobs v)\<rparr>) (usage_record q ''/v1/clay/enrich'' 1 (s\<lparr>ap_server := v\<rparr>))"
    have i2: "isolated (caller q) v (ap_server s2)"
      by (rule isolated_update [OF ov]) (simp_all add: s2_def)
    have "owns (caller q) (jb_id j) (ap_server s2)"
      using ov by (auto simp: s2_def owns_def update_job_status_def list_all_iff set_update_where)
    then show ?thesis
      using fail [OF assms] isolation.trans [OF conjunct1 [OF iv] i2]
        isolation.trans [OF isolation.trans [OF conjunct1 [OF iv] i2] fail [of s2]]
      by (simp add: run_clay_job_def p Inr s2_def [symmetric] Let_def split: option.split)
  qed
qed

lemma isolated_clay: "isolated (caller q) (ap_server s) (ap_server (fst (clay_work q slow dur raw s)))"
proof -
  have "isolated (caller q) (ap_server s) (ap_server (fst (run_clay_job q slow dur j adm s1)))"
    if "reserve_job q url s = (s1, Inr (j, adm))" for url s1 j adm
    using isolation.trans [OF isolated_reserve [OF that] isolated_run_clay] owns_reserved [OF that]
    by (cases "jobs_wf (sv_jobs (ap_server s))") (auto simp: isolated_def)
  moreover have "isolated (caller q) (ap_server s) (ap_server (usage_record q e n s))" for e n
    by (rule isolated_same) simp_all
  ultimately show ?thesis
    using isolated_reserve by (auto simp: clay_work_def isolation.refl split: sum.split option.split prod.split)
qed

section \<open>The other endpoints\<close>

lemma task_frame [simp]:
  "sv_jobs (ap_server (create_tracked_task q ty p s)) = sv_jobs (ap_server s)"
  "sv_docs (ap_server (create_tracked_task q ty p s)) = sv_docs (ap_server s)"
  "sv_watch (ap_server (create_tracked_task q ty p s)) = sv_watch (ap_server s)"
  by (simp_all add: create_tracked_task_def)

lemma isolated_start_research: "isolated (caller q) (ap_server s) (ap_server (fst (start_research q raw s)))"
proof (cases rule: start_research_cases [of q raw s])
  case nothing
  then show ?thesis by (simp add: isolation.refl)
next
  case (refused url s1 e)
  then show ?thesis using isolated_reserve by auto
next
  case (started url s1 j adm)
  have "isolated (caller q) (ap_server s1) (ap_server (fst (start_research q raw s)))"
    by (rule isolated_same) (simp_all add: started(2))
  then show ?thesis using isolation.trans [OF isolated_reserve [OF started(1)]] by blast
qed

text \<open>The three tables, and what leaves them alone: bulk jobs, lists and the purchase of contacts.\<close>

definition core :: "api \<Rightarrow> job_db \<times> doc_db \<times> watch_db" where
  "core s = (sv_jobs (ap_server s), sv_docs (ap_server s), sv_watch (ap_server s))"

lemma isolated_core: "core s' = core s \<Longrightarrow> isolated uid (ap_server s) (ap_server s')"
  by (rule isolated_same) (simp_all add: core_def)

lemma core_simps [simp]:
  "core (s\<lparr>ap_idem := i\<rparr>) = core s" "core (save_idempotency q k st b s) = core s"
  "core (save_enriched_contacts doc uid cs s) = core s" "core (usage_record q e n s) = core s"
  "core (s\<lparr>ap_hits := h, ap_server := (ap_server s)\<lparr>sv_lists := d\<rparr>\<rparr>) = core s"
  "core (s\<lparr>ap_hits := h\<rparr>) = core s" "core (create_tracked_task q ty p s) = core s" "core (on_lists f s) = core s"
  "core (on_server (\<lambda>v. v\<lparr>sv_bulk := g v\<rparr>) s) = core s" "core (s\<lparr>ap_server := (ap_server s)\<lparr>sv_lists := d\<rparr>\<rparr>) = core s"
  by (simp_all add: core_def)

lemma core_usage: "caller_usage q s = (s', u) \<Longrightarrow> core s' = core s"
  by (auto simp: core_def dest!: caller_usage_frame)

lemma core_charge: "charge_caller q c s = (s', ok) \<Longrightarrow> core s' = core s"
  by (auto simp: core_def dest!: charge_caller_frame)

lemma core_buy: "core (fst (buy_contacts q key f r titles adm s)) = core s"
proof -
  have "core (fst (charge_caller q 50 x)) = core x" for x
    using core_charge [of q 50 x] by (cases "charge_caller q 50 x") simp
  then show ?thesis by (simp add: buy_contacts_def Let_def split: sum.split)
qed

lemma isolated_enrich: "isolated uid (ap_server s) (ap_server (fst (enrich_document q lead doc titles key s)))"
  by (rule isolated_core)
    (auto simp: enrich_document_def Let_def core_buy dest!: core_usage split: option.split prod.split)

lemma isolated_enrich_contacts: "isolated uid (ap_server s) (ap_server (fst (enrich_contacts q lead doc titles s)))"
  unfolding enrich_contacts_def
proof (rule isolation.limited)
  fix hits
  have e: "isolated uid (ap_server s) (ap_server (fst (enrich_document q lead doc titles key (s\<lparr>ap_hits := hits, ap_idem := d\<rparr>))))"
    for key d using isolated_enrich [of uid "s\<lparr>ap_hits := hits, ap_idem := d\<rparr>" q lead doc titles key] by simp
  show "isolated uid (ap_server s) (ap_server (fst (case check_idempotency (rq_others q) (request_time q) (rq_header q)
      (rq_key q) (ap_idem (s\<lparr>ap_hits := hits\<rparr>)) of
       (d, Answer key status body) \<Rightarrow> ((s\<lparr>ap_hits := hits\<rparr>)\<lparr>ap_idem := d\<rparr>, (status, body))
     | (d, NoKey) \<Rightarrow> enrich_document q lead doc titles None ((s\<lparr>ap_hits := hits\<rparr>)\<lparr>ap_idem := d\<rparr>)
     | (d, Proceed key) \<Rightarrow> enrich_document q lead doc titles (Some key) ((s\<lparr>ap_hits := hits\<rparr>)\<lparr>ap_idem := d\<rparr>))))"
    by (simp add: e isolation.refl split: prod.split idem_check.split)
qed

lemma core_add_list: "add_list q name urls s = (s', l) \<Longrightarrow> core s' = core s"
  by (auto simp: core_def dest!: add_list_frame)

lemma core_reserve_bulk: "reserve_bulk q name n s = (s', r) \<Longrightarrow> core s' = core s"
proof -
  assume r: "reserve_bulk q name n s = (s', r)"
  obtain s1 u where c: "caller_usage q s = (s1, u)" by (cases "caller_usage q s")
  have "core s' = core s1"
    using r by (auto simp: reserve_bulk_def c core_def Let_def split: option.splits if_splits prod.splits sum.splits job_error.splits)
  then show ?thesis using core_usage [OF c] by simp
qed

lemma core_start_bulk: "core (fst (start_bulk q name raws s)) = core s"
  by (auto simp: start_bulk_def dest!: core_reserve_bulk split: sum.split prod.split)

lemma core_fill_list: "core (fst (fill_list q name analyze urls s)) = core s"
  unfolding fill_list_def Let_def start_analysis_def
  by (auto dest!: core_usage core_charge core_add_list split: prod.split option.split bool.split if_splits)

lemma core_new_list: "core (fst (new_list_work q name analyze raws s)) = core s"
  by (simp add: new_list_work_def core_fill_list split: sum.split)

lemma core_charge_analysis: "core (fst (charge_analysis q l n s)) = core s"
  unfolding charge_analysis_def
  by (auto dest!: core_usage core_charge split: prod.split option.split bool.split if_splits)

lemma core_analyze: "core (fst (analyze_work q lid s)) = core s"
  by (auto simp: analyze_work_def Let_def core_charge_analysis split: option.split prod.split bool.split)

section \<open>The watchlist\<close>

lemma isolated_watch:
  assumes "filter (\<lambda>w. wl_user w \<noteq> uid) (wd_items d) = filter (\<lambda>w. wl_user w \<noteq> uid) (wd_items (sv_watch (ap_server s)))"
  shows "isolated uid (ap_server s) (ap_server (on_watch d s))"
  using assms by (simp add: isolated_def foreign_def on_watch_def)

lemma watch_create_others:
  assumes "create_watchlist_item now uid url name sch d = Inr (d', w)"
  shows "filter (\<lambda>w. wl_user w \<noteq> uid) (wd_items d') = filter (\<lambda>w. wl_user w \<noteq> uid) (wd_items d)"
proof (cases "find (same_watch uid url) (wd_items d)")
  case None
  then show ?thesis using assms by (auto simp: create_watchlist_item_def Let_def split: if_splits)
next
  case (Some x)
  then have "\<exists>f. (\<forall>w. wl_user (f w) = wl_user w) \<and> wd_items d' = update_where (same_watch uid url) f (wd_items d)"
    using assms by (intro exI [of _ "\<lambda>w. w\<lparr>wl_status := WatchActive, wl_schedule := sch,
        wl_next_run := next_run sch now, wl_updated := now\<rparr>"])
      (auto simp: create_watchlist_item_def Let_def split: if_splits)
  then show ?thesis by (auto intro!: filter_update_other simp: same_watch_def)
qed

lemma watch_update_others:
  "update_watchlist_item now i uid sch st d = Inr (d', w) \<Longrightarrow>
    filter (\<lambda>w. wl_user w \<noteq> uid) (wd_items d') = filter (\<lambda>w. wl_user w \<noteq> uid) (wd_items d)"
  by (auto simp: update_watchlist_item_def update_watch_def split: option.splits if_splits intro!: filter_update_other)

lemma watch_delete_others:
  "delete_watchlist_item i uid d = (d', ok) \<Longrightarrow>
    filter (\<lambda>w. wl_user w \<noteq> uid) (wd_items d') = filter (\<lambda>w. wl_user w \<noteq> uid) (wd_items d)"
  by (auto simp: delete_watchlist_item_def split: option.splits) (rule filter_cong; auto)

section \<open>All endpoints\<close>

lemma route_isolated: "isolated (caller q) (ap_server s) (ap_server (fst (route ep q s)))"
proof (cases ep)
  case (PostResearch raw)
  have "isolated (caller q) (ap_server s) (ap_server (fst (start_research q raw (s\<lparr>ap_hits := h\<rparr>))))" for h
    using isolated_start_research [of q "s\<lparr>ap_hits := h\<rparr>"] by simp
  then show ?thesis by (simp add: PostResearch create_research_def isolation.limited_posted)
next
  case (PostClay slow dur raw)
  have "isolated (caller q) (ap_server s) (ap_server (fst (clay_work q slow dur raw (s\<lparr>ap_hits := h\<rparr>))))" for h
    using isolated_clay [of q "s\<lparr>ap_hits := h\<rparr>"] by simp
  then show ?thesis by (simp add: PostClay clay_enrich_def isolation.limited_posted)
next
  case (PostBulk name raws)
  then show ?thesis
    by (simp add: create_bulk_research_def isolation.limited_posted isolated_core core_start_bulk)
next
  case (PostList name analyze raws)
  then show ?thesis
    by (simp add: create_list_endpoint_def isolation.limited_posted isolated_core core_new_list)
next
  case (PostAnalyze i)
  then show ?thesis
    by (simp add: analyze_list_endpoint_def isolation.limited_posted isolated_core core_analyze)
next
  case (GetResearch i)
  have "isolated (caller q) (ap_server s) (ap_server s1)"
    if "get_research_job i (caller q) (sv_jobs (ap_server s)) = Some j" "expire_job q j (s\<lparr>ap_hits := h\<rparr>) = (s1, r)" for h j s1 r
    using isolated_expire [of i q "s\<lparr>ap_hits := h\<rparr>" j s1 r] that by simp
  then show ?thesis unfolding GetResearch route.simps get_job_status_def
    by (intro isolation.limited) (auto simp: isolation.refl split: option.split prod.split sum.split)
next
  case (GetBulk i)
  show ?thesis unfolding GetBulk route.simps get_bulk_job_status_def
    by (intro isolation.limited isolated_core) (auto split: option.split)
next
  case (GetAccount period)
  show ?thesis unfolding GetAccount route.simps get_account_def
    by (intro isolation.limited isolated_core) (auto dest!: core_usage split: option.split prod.split)
next
  case (PostEnrich lead doc titles)
  then show ?thesis by (simp add: isolated_enrich_contacts)
next
  case (GetList rank i fl sort_by order n c)
  show ?thesis unfolding GetList route.simps get_list_endpoint_def
    by (intro isolation.limited) (auto simp: Let_def isolation.refl split: option.split sum.split)
next
  case (PatchWatch i schedule status)
  have "isolated (caller q) (ap_server s) (ap_server (fst (patch_item q i schedule st (s\<lparr>ap_hits := h\<rparr>))))" for st h
    using isolated_watch [of "caller q" _ "s\<lparr>ap_hits := h\<rparr>"]
    by (auto simp: patch_item_def isolation.refl dest!: watch_update_others split: option.split sum.split)
  then show ?thesis unfolding PatchWatch route.simps update_watchlist_def
    by (intro isolation.limited) (simp add: isolation.refl split: option.split)
next
  case (DeleteList i)
  show ?thesis unfolding DeleteList route.simps delete_list_endpoint_def
    by (intro isolation.limited isolated_core) (auto simp: Let_def split: prod.split bool.split)
next
  case (PostWatch raw name schedule)
  show ?thesis unfolding PostWatch route.simps add_to_watchlist_def
    using isolated_watch [of "caller q" _ "s\<lparr>ap_hits := h\<rparr>" for h]
    by (intro isolation.limited) (auto simp: isolation.refl dest!: watch_create_others split: sum.split)
next
  case (DeleteWatch i)
  show ?thesis unfolding DeleteWatch route.simps remove_from_watchlist_def
    using isolated_watch [of "caller q" _ "s\<lparr>ap_hits := h\<rparr>" for h]
    by (intro isolation.limited) (auto simp: isolation.refl dest!: watch_delete_others split: prod.split bool.split)
next
  case (PostSequence f doc)
  show ?thesis unfolding PostSequence route.simps generate_sequence_def
    by (intro isolation.limited isolated_same) (auto split: option.split sum.split)
next
  case GetPing
  show ?thesis unfolding GetPing route.simps ping_def by (intro isolation.limited) (simp add: isolation.refl)
next
  case (ListResearch n c)
  show ?thesis unfolding ListResearch route.simps list_jobs_def
    by (intro isolation.limited) (simp add: isolation.refl split: prod.split)
next
  case (ListBulk n c)
  show ?thesis unfolding ListBulk route.simps list_bulk_jobs_endpoint_def
    by (intro isolation.limited) (simp add: isolation.refl split: prod.split)
next
  case (ListLists n c)
  show ?thesis unfolding ListLists route.simps list_lists_endpoint_def
    by (intro isolation.limited) (simp add: isolation.refl split: prod.split)
next
  case (ListWatch n c)
  show ?thesis unfolding ListWatch route.simps list_watchlist_def
    by (intro isolation.limited) (simp add: isolation.refl split: prod.split)
next
  case (GetHistory i)
  show ?thesis unfolding GetHistory route.simps watchlist_history_def
    by (intro isolation.limited) (simp add: isolation.refl split: option.split)
next
  case (PostPush i)
  show ?thesis by (simp add: PostPush push_list_to_instantly_def isolation.refl)
qed

text \<open>
  C26: no request reaches across accounts: whatever endpoint is called with whatever arguments, the
  research jobs, documents and watchlist items of every user but the owner of the key stay exactly
  as they were; a request whose token is refused changes none at all.
\<close>

theorem requests_isolated:
  assumes "jobs_wf (sv_jobs (ap_server s))" "serve check authorization ep q s = (s', answer)"
    and "\<And>d v key. require_api_key check (request_time q) (rq_tie q) authorization (sv_accounts (ap_server s))
      (ap_keys s) = (d, Inr (v, key)) \<Longrightarrow> us_id (vw_user v) \<noteq> u"
  shows "filter (\<lambda>j. jb_user j = u) (jt_rows (sv_jobs (ap_server s'))) =
      filter (\<lambda>j. jb_user j = u) (jt_rows (sv_jobs (ap_server s))) \<and>
    filter (\<lambda>r. dc_user r = u) (dt_rows (sv_docs (ap_server s'))) =
      filter (\<lambda>r. dc_user r = u) (dt_rows (sv_docs (ap_server s))) \<and>
    filter (\<lambda>w. wl_user w = u) (wd_items (sv_watch (ap_server s'))) =
      filter (\<lambda>w. wl_user w = u) (wd_items (sv_watch (ap_server s)))"
proof -
  obtain d r where a: "require_api_key check (request_time q) (rq_tie q) authorization (sv_accounts (ap_server s)) (ap_keys s) =
      (d, r)" by fastforce
  show ?thesis
  proof (cases r)
    case (Inl detail)
    then show ?thesis using assms(2) by (auto simp: serve_def a)
  next
    case (Inr x)
    obtain v key where x: "x = (v, key)" by (cases x)
    define q' where "q' = q\<lparr>rq_user := v, rq_key := key\<rparr>"
    have c: "caller q' \<noteq> u" using assms(3) a Inr x by (simp add: q'_def caller_def)
    have "fst (route ep q' (s\<lparr>ap_keys := d\<rparr>)) = s'"
      using assms(2) by (simp add: serve_def a Inr x q'_def)
    then have "foreign (caller q') (ap_server s') = foreign (caller q') (ap_server s)"
      using route_isolated [of q' "s\<lparr>ap_keys := d\<rparr>" ep] assms(1) by (simp add: isolated_def)
    then have f: "filter (\<lambda>j. jb_user j \<noteq> caller q') (jt_rows (sv_jobs (ap_server s'))) =
        filter (\<lambda>j. jb_user j \<noteq> caller q') (jt_rows (sv_jobs (ap_server s)))"
      "filter (\<lambda>r. dc_user r \<noteq> caller q') (dt_rows (sv_docs (ap_server s'))) =
        filter (\<lambda>r. dc_user r \<noteq> caller q') (dt_rows (sv_docs (ap_server s)))"
      "filter (\<lambda>w. wl_user w \<noteq> caller q') (wd_items (sv_watch (ap_server s'))) =
        filter (\<lambda>w. wl_user w \<noteq> caller q') (wd_items (sv_watch (ap_server s)))"
      by (simp_all add: foreign_def)
    have narrow: "filter (\<lambda>x. g x = u) xs = filter (\<lambda>x. g x = u) ys"
      if "filter (\<lambda>x. g x \<noteq> caller q') xs = filter (\<lambda>x. g x \<noteq> caller q') ys" for g and xs ys :: "'x list"
    proof -
      have "filter (\<lambda>x. g x = u) zs = filter (\<lambda>x. g x = u) (filter (\<lambda>x. g x \<noteq> caller q') zs)" for zs :: "'x list"
        using c by (induction zs) auto
      then show ?thesis using that by metis
    qed
    show ?thesis using f by (intro conjI narrow)
  qed
qed

end
