(* ===== verification/Chunking.thy ===== *)
theory Chunking
  imports Py_Strings
begin

text \<open>
  Splitting a document into chunks for embedding (\<open>services/chunking.py\<close>). The regular
  expressions are written out as functions on character lists; each comment names the pattern.
\<close>

section \<open>Cleaning\<close>

definition newline :: char where
  "newline = CHR 0x0A"

lemma length_dropWhile_le: "length (dropWhile P xs) \<le> length xs"
  by (induction xs) auto

text \<open>
  \<open>re.sub\<close> of \<open>[class]{n,}\<close> by a fixed text: every maximal run of at least \<open>n\<close> characters of
  the class is replaced, shorter runs stay.
\<close>

function squeeze :: "(char \<Rightarrow> bool) \<Rightarrow> nat \<Rightarrow> string \<Rightarrow> string \<Rightarrow> string" where
  "squeeze P n r [] = []"
| "squeeze P n r (c # cs) =
     (if P c then
        (let run = c # takeWhile P cs
         in (if n \<le> length run then r else run) @ squeeze P n r (dropWhile P cs))
      else c # squeeze P n r cs)"
  by pat_completeness auto
termination
  by (relation "measure (\<lambda>(P, n, r, s). length s)") (auto simp: length_dropWhile_le le_imp_less_Suc)

definition artifact_char :: "char \<Rightarrow> bool" where
  "artifact_char c \<longleftrightarrow> c \<in> {CHR ''_'', CHR ''-'', CHR ''=''}"

definition clean_text :: "string \<Rightarrow> string" where
  "clean_text s = py_strip (squeeze artifact_char 10 []
     (squeeze (\<lambda>c. c = CHR '' '') 2 '' '' (squeeze (\<lambda>c. c = newline) 3 [newline, newline] s)))"

section \<open>Section headers\<close>

definition digit_at :: "char \<Rightarrow> bool" where
  "digit_at c \<longleftrightarrow> digit_value c \<noteq> None"

text \<open>\<open>#{1,3}\s\<close>\<close>

definition hashes :: "string \<Rightarrow> nat" where
  "hashes s = length (takeWhile (\<lambda>c. c = CHR ''#'') s)"

definition hash_header :: "string \<Rightarrow> bool" where
  "hash_header s \<longleftrightarrow> hashes s \<in> {1, 2, 3} \<and>
     (case drop (hashes s) s of [] \<Rightarrow> False | c # _ \<Rightarrow> is_space c)"

text \<open>\<open>\[(?:Slide|Page)\s+\d+\]\<close>; the result is the length of the match.\<close>

definition marker_from :: "string \<Rightarrow> string \<Rightarrow> nat option" where
  "marker_from word s =
     (let w = ''['' @ word; r1 = drop (length w) s; sp = takeWhile is_space r1;
          r2 = dropWhile is_space r1; ds = takeWhile digit_at r2; r3 = dropWhile digit_at r2
      in if prefix w s \<and> sp \<noteq> [] \<and> ds \<noteq> [] \<and> prefix '']'' r3
         then Some (length w + length sp + length ds + 1) else None)"

definition marker_length :: "string \<Rightarrow> nat option" where
  "marker_length s = (case marker_from ''Slide'' s of
     None \<Rightarrow> marker_from ''Page'' s | Some n \<Rightarrow> Some n)"

text \<open>\<open>[A-Z][A-Z\s]{5,}:\<close>; the result is the text before the colon and the text after it.\<close>

definition caps_title :: "string \<Rightarrow> (string \<times> string) option" where
  "caps_title s = (case s of [] \<Rightarrow> None | c # cs \<Rightarrow>
     (let run = takeWhile (\<lambda>x. upper_char x \<or> is_space x) cs;
          rest = dropWhile (\<lambda>x. upper_char x \<or> is_space x) cs
      in if upper_char c \<and> 5 \<le> length run \<and> prefix '':'' rest then Some (c # run, tl rest)
         else None))"

text \<open>\<open>[A-Z][A-Z\s]{5,}:\s*\n\<close>\<close>

definition caps_header :: "string \<Rightarrow> bool" where
  "caps_header s = (case caps_title s of
     None \<Rightarrow> False | Some (_, rest) \<Rightarrow> newline \<in> set (takeWhile is_space rest))"

definition header_ahead :: "string \<Rightarrow> bool" where
  "header_ahead s \<longleftrightarrow> hash_header s \<or> marker_length s \<noteq> None \<or> caps_header s"

text \<open>\<open>re.split(section_pattern, text)\<close>: a newline before a header separates two sections.\<close>

definition attach :: "char \<Rightarrow> string list \<Rightarrow> string list" where
  "attach c ss = (case ss of [] \<Rightarrow> [[c]] | s # rest \<Rightarrow> (c # s) # rest)"

fun split_sections :: "string \<Rightarrow> string list" where
  "split_sections [] = [[]]"
| "split_sections (c # cs) =
     (if c = newline \<and> header_ahead cs then [] # split_sections cs else attach c (split_sections cs))"

text \<open>
  The title of a stripped section: \<open>group(2) or group(1) or group(3)\<close>. The first alternative
  backtracks to one hash less when nothing follows the hashes. The group around the capitals is
  never reached, because the first group, which includes the colon, is not empty.
\<close>

definition hash_title :: "string \<Rightarrow> string option" where
  "hash_title s =
     (let k = min 3 (hashes s); rest = dropWhile is_space (drop k s)
      in if k = 0 then None
         else if rest \<noteq> [] then Some (takeWhile (\<lambda>c. c \<noteq> newline) rest)
         else if 2 \<le> k then Some ''#'' else None)"

definition section_title :: "string \<Rightarrow> string option" where
  "section_title s = map_option py_strip
     (case hash_title s of
        Some t \<Rightarrow> Some t
      | None \<Rightarrow> (case marker_length s of
          Some n \<Rightarrow> Some (take n s)
        | None \<Rightarrow> map_option (\<lambda>(t, _). t @ '':'') (caps_title s)))"

section \<open>Sentences\<close>

definition ends_sentence :: "char \<Rightarrow> bool" where
  "ends_sentence c \<longleftrightarrow> c \<in> {CHR ''.'', CHR ''!'', CHR ''?''}"

text \<open>\<open>re.split(r'(?<=[.!?])\s+', text)\<close>; the flag is the look-behind.\<close>

function split_sentences :: "bool \<Rightarrow> string \<Rightarrow> string list" where
  "split_sentences p [] = [[]]"
| "split_sentences p (c # cs) =
     (if p \<and> is_space c then [] # split_sentences False (dropWhile is_space cs)
      else attach c (split_sentences (ends_sentence c) cs))"
  by pat_completeness auto
termination
  by (relation "measure (\<lambda>(p, s). length s)") (auto simp: length_dropWhile_le le_imp_less_Suc)

definition sentences_of :: "string \<Rightarrow> string list" where
  "sentences_of s = filter (\<lambda>x. x \<noteq> []) (map py_strip (split_sentences False s))"

section \<open>The sliding window\<close>

record chunk =
  ck_index :: int
  ck_content :: string
  ck_title :: "string option"

definition py_len :: "string \<Rightarrow> int" where
  "py_len s = int (length s)"

text \<open>
  The sentences kept as overlap, walking back through the current chunk: the list is the
  reversed chunk, \<open>kept\<close> what has been inserted so far.
\<close>

fun keep_overlap :: "int \<Rightarrow> string list \<Rightarrow> string list \<Rightarrow> int \<Rightarrow> string list \<times> int" where
  "keep_overlap overlap [] kept n = (kept, n)"
| "keep_overlap overlap (s # ss) kept n =
     (if n + py_len s > overlap then (kept, n)
      else keep_overlap overlap ss (s # kept) (n + py_len s + 1))"

record window =
  wn_chunks :: "chunk list"
  wn_current :: "string list"
  wn_length :: int

definition emit :: "string list \<Rightarrow> chunk list \<Rightarrow> chunk list" where
  "emit current chunks = chunks @
     [\<lparr>ck_index = int (length chunks), ck_content = py_join '' '' current, ck_title = None\<rparr>]"

definition flush :: "int \<Rightarrow> window \<Rightarrow> window" where
  "flush overlap w = (case keep_overlap overlap (rev (wn_current w)) [] 0 of (kept, n) \<Rightarrow>
     \<lparr>wn_chunks = emit (wn_current w) (wn_chunks w), wn_current = kept, wn_length = n\<rparr>)"

definition add_sentence :: "int \<Rightarrow> int \<Rightarrow> string \<Rightarrow> window \<Rightarrow> window" where
  "add_sentence limit overlap s w =
     (let w' = (if wn_length w + py_len s > limit \<and> wn_current w \<noteq> [] then flush overlap w else w)
      in w'\<lparr>wn_current := wn_current w' @ [s], wn_length := wn_length w' + py_len s + 1\<rparr>)"

definition empty_window :: window where
  "empty_window = \<lparr>wn_chunks = [], wn_current = [], wn_length = 0\<rparr>"

definition finish :: "window \<Rightarrow> chunk list" where
  "finish w = (if wn_current w \<noteq> [] then emit (wn_current w) (wn_chunks w) else wn_chunks w)"

definition chunk_sliding_window :: "string \<Rightarrow> int \<Rightarrow> int \<Rightarrow> chunk list" where
  "chunk_sliding_window s limit overlap =
     finish (fold (add_sentence limit overlap) (sentences_of s) empty_window)"

section \<open>Chunks by section\<close>

definition default_size :: int where "default_size = 2000"
definition default_overlap :: int where "default_overlap = 200"
definition min_chunk_size :: nat where "min_chunk_size = 100"

fun section_chunks :: "int \<Rightarrow> string option \<Rightarrow> chunk list \<Rightarrow> string list \<Rightarrow> chunk list" where
  "section_chunks limit title chunks [] = chunks"
| "section_chunks limit title chunks (raw # rest) =
     (let s = py_strip raw in
      if s = [] then section_chunks limit title chunks rest
      else
        (let title' = (case section_title s of None \<Rightarrow> title | Some t \<Rightarrow> Some t);
             new = (if py_len s > limit
                    then map (\<lambda>c. c\<lparr>ck_title := title'\<rparr>) (chunk_sliding_window s limit default_overlap)
                    else [\<lparr>ck_index = int (length chunks), ck_content = s, ck_title = title'\<rparr>])
         in section_chunks limit title' (chunks @ new) rest))"

definition chunk_by_sections :: "string \<Rightarrow> int \<Rightarrow> chunk list" where
  "chunk_by_sections s limit = section_chunks limit None [] (split_sections s)"

definition big_enough :: "chunk \<Rightarrow> bool" where
  "big_enough c \<longleftrightarrow> min_chunk_size \<le> length (py_strip (ck_content c))"

fun reindex :: "int \<Rightarrow> chunk list \<Rightarrow> chunk list" where
  "reindex i [] = []"
| "reindex i (c # cs) = c\<lparr>ck_index := i\<rparr> # reindex (i + 1) cs"

definition chunk_document :: "string \<Rightarrow> int \<Rightarrow> int \<Rightarrow> chunk list" where
  "chunk_document raw limit overlap =
     (if py_strip raw = [] then []
      else
        (let s = clean_text raw; by_section = chunk_by_sections s limit;
             chunks = (if length by_section \<le> 1 \<and> py_len s > limit
                       then chunk_sliding_window s limit overlap else by_section)
         in reindex 0 (filter big_enough chunks)))"


section \<open>Every sentence is in a chunk\<close>

text \<open>
  The groups of sentences behind the chunks: each is an overlap, a suffix of the group before,
  followed by new sentences, at least one.
\<close>

fun overlapping :: "string list \<Rightarrow> (string list \<times> string list) list \<Rightarrow> bool" where
  "overlapping before [] \<longleftrightarrow> True"
| "overlapping before ((old, new) # rest) \<longleftrightarrow>
     suffix old before \<and> new \<noteq> [] \<and> overlapping (old @ new) rest"

fun last_group :: "string list \<Rightarrow> (string list \<times> string list) list \<Rightarrow> string list" where
  "last_group before [] = before"
| "last_group before ((old, new) # rest) = last_group (old @ new) rest"

lemma overlapping_snoc [simp]:
  "overlapping before (ps @ [(old, new)]) \<longleftrightarrow>
     overlapping before ps \<and> suffix old (last_group before ps) \<and> new \<noteq> []"
  by (induction before ps rule: overlapping.induct) auto

lemma last_group_snoc [simp]: "last_group before (ps @ [(old, new)]) = old @ new"
  by (induction before ps rule: last_group.induct) auto

definition group_texts :: "(string list \<times> string list) list \<Rightarrow> string list" where
  "group_texts ps = map (\<lambda>(old, new). py_join '' '' (old @ new)) ps"

lemma keep_overlap_suffix: "suffix (fst (keep_overlap overlap rs kept n)) (rev rs @ kept)"
proof (induction overlap rs kept n rule: keep_overlap.induct)
  case (2 overlap s ss kept n)
  then show ?case by (auto simp: suffix_def)
qed (simp add: suffix_def)

lemma contents_emit [simp]:
  "map ck_content (emit current chunks) = map ck_content chunks @ [py_join '' '' current]"
  by (simp add: emit_def)

definition covers :: "window \<Rightarrow> string list \<Rightarrow> bool" where
  "covers w done_sentences \<longleftrightarrow> w = empty_window \<and> done_sentences = [] \<or>
     (\<exists>ps old new. map ck_content (wn_chunks w) = group_texts ps \<and>
        overlapping [] (ps @ [(old, new)]) \<and> wn_current w = old @ new \<and>
        concat (map snd ps) @ new = done_sentences)"

lemma coversI:
  assumes "map ck_content (wn_chunks w) = group_texts ps" "overlapping [] (ps @ [(old, new)])"
    "wn_current w = old @ new" "concat (map snd ps) @ new = ds"
  shows "covers w ds"
  using assms unfolding covers_def by blast

lemma covers_flush:
  assumes "covers w ds" "wn_current w \<noteq> []"
  shows "covers ((flush overlap w)\<lparr>wn_current := wn_current (flush overlap w) @ [s], wn_length := n\<rparr>) (ds @ [s])"
proof -
  obtain ps old new where w: "map ck_content (wn_chunks w) = group_texts ps"
      "overlapping [] (ps @ [(old, new)])" "wn_current w = old @ new"
      "concat (map snd ps) @ new = ds"
    using assms by (auto simp: covers_def empty_window_def)
  obtain kept m where k: "keep_overlap overlap (rev (wn_current w)) [] 0 = (kept, m)"
    by (metis surj_pair)
  have "suffix kept (old @ new)"
    using keep_overlap_suffix [of overlap "rev (wn_current w)" "[]" 0] k w(3) by simp
  then show ?thesis
    using w k by (intro coversI [of _ "ps @ [(old, new)]" kept "[s]"])
      (simp_all add: flush_def group_texts_def del: append_assoc)
qed

lemma covers_append:
  assumes "covers w ds"
  shows "covers (w\<lparr>wn_current := wn_current w @ [s], wn_length := n\<rparr>) (ds @ [s])"
proof (cases "w = empty_window \<and> ds = []")
  case True
  then show ?thesis
    by (intro coversI [of _ "[]" "[]" "[s]"]) (simp_all add: empty_window_def group_texts_def)
next
  case False
  then obtain ps old new where w: "map ck_content (wn_chunks w) = group_texts ps"
      "overlapping [] (ps @ [(old, new)])" "wn_current w = old @ new" "concat (map snd ps) @ new = ds"
    using assms unfolding covers_def by blast
  then show ?thesis by (intro coversI [of _ ps old "new @ [s]"]) simp_all
qed

lemma covers_fold:
  assumes "covers w ds"
  shows "covers (fold (add_sentence limit overlap) ss w) (ds @ ss)"
  using assms
proof (induction ss arbitrary: w ds)
  case (Cons s ss)
  have "covers (add_sentence limit overlap s w) (ds @ [s])"
    using covers_flush [OF Cons.prems] covers_append [OF Cons.prems]
    by (simp add: add_sentence_def Let_def)
  from Cons.IH [OF this] show ?case by simp
qed simp

text \<open>
  C31: No sentence is lost and none is out of order: the chunks of the sliding window are groups of
  consecutive sentences whose new parts, put together, are the sentences of the text, and each
  group starts with the end of the group before as overlap.
\<close>

theorem window_covers_text:
  "\<exists>ps. overlapping [] ps \<and>
     map ck_content (chunk_sliding_window text_in limit overlap) = group_texts ps \<and>
     concat (map snd ps) = sentences_of text_in"
proof -
  let ?w = "fold (add_sentence limit overlap) (sentences_of text_in) empty_window"
  have "covers ?w (sentences_of text_in)"
    using covers_fold [of empty_window "[]"] by (simp add: covers_def)
  then consider "?w = empty_window" "sentences_of text_in = []"
    | ps old new where "map ck_content (wn_chunks ?w) = group_texts ps"
        "overlapping [] (ps @ [(old, new)])" "wn_current ?w = old @ new"
        "concat (map snd ps) @ new = sentences_of text_in"
    unfolding covers_def by blast
  then show ?thesis
  proof cases
    case 1
    then show ?thesis
      by (intro exI [of _ "[]"])
        (simp add: chunk_sliding_window_def finish_def empty_window_def group_texts_def)
  next
    case 2
    then show ?thesis
      by (intro exI [of _ "ps @ [(old, new)]"])
        (auto simp: chunk_sliding_window_def finish_def group_texts_def)
  qed
qed


section \<open>How long a chunk gets\<close>

fun width :: "string list \<Rightarrow> int" where
  "width [] = 0"
| "width (s # ss) = py_len s + 1 + width ss"

lemma width_append [simp]: "width (ss @ rs) = width ss + width rs"
  by (induction ss) auto

lemma width_rev [simp]: "width (rev ss) = width ss"
  by (induction ss) auto

lemma py_len_join: "py_len (py_join '' '' ss) = (if ss = [] then 0 else width ss - 1)"
  by (induction "'' ''" ss rule: py_join.induct) (auto simp: py_len_def)

lemma keep_overlap_width:
  "n = width kept \<Longrightarrow> keep_overlap overlap rs kept n = (kept', m) \<Longrightarrow>
     m = width kept' \<and> m \<le> max n (overlap + 1)"
  by (induction overlap rs kept n rule: keep_overlap.induct) (auto split: if_splits)

definition within :: "int \<Rightarrow> int \<Rightarrow> window \<Rightarrow> bool" where
  "within limit bound w \<longleftrightarrow> (\<forall>c \<in> set (wn_chunks w). py_len (ck_content c) \<le> bound) \<and>
     wn_length w = width (wn_current w) \<and> (wn_current w \<noteq> [] \<longrightarrow> wn_length w - 1 \<le> bound)"

lemma within_flush:
  assumes "within limit bound w" "wn_current w \<noteq> []"
  shows "(\<forall>c \<in> set (wn_chunks (flush overlap w)). py_len (ck_content c) \<le> bound) \<and>
    wn_length (flush overlap w) = width (wn_current (flush overlap w)) \<and>
    wn_length (flush overlap w) \<le> max 0 (overlap + 1)"
  using assms keep_overlap_width [of 0 "[]" overlap "rev (wn_current w)"]
  by (auto simp: within_def flush_def emit_def py_len_join split: prod.split)

lemma within_add:
  assumes w: "within limit bound w" and s: "py_len s \<le> longest"
    and b: "limit \<le> bound" "max 0 (overlap + 1) + longest \<le> bound"
  shows "within limit bound (add_sentence limit overlap s w)"
proof (cases "wn_length w + py_len s > limit \<and> wn_current w \<noteq> []")
  case True
  then show ?thesis
    using within_flush [OF w, of overlap] s b by (auto simp: add_sentence_def Let_def within_def)
next
  case False
  then show ?thesis
    using w s b by (auto simp: add_sentence_def Let_def within_def)
qed

lemma within_fold:
  assumes "within limit bound w" "\<forall>s \<in> set ss. py_len s \<le> longest"
    and "limit \<le> bound" "max 0 (overlap + 1) + longest \<le> bound"
  shows "within limit bound (fold (add_sentence limit overlap) ss w)"
  using assms by (induction ss arbitrary: w) (auto simp: within_add)

text \<open>
  A chunk is never longer than the chunk size, unless an overlap and one sentence after it are:
  the sentence that opens a chunk is added without looking at its length.
\<close>

theorem window_chunks_bounded:
  assumes "\<forall>s \<in> set (sentences_of text_in). py_len s \<le> longest"
    and "c \<in> set (chunk_sliding_window text_in limit overlap)"
  shows "py_len (ck_content c) \<le> max limit (max 0 (overlap + 1) + longest)"
proof -
  let ?b = "max limit (max 0 (overlap + 1) + longest)"
  have "within limit ?b (fold (add_sentence limit overlap) (sentences_of text_in) empty_window)"
    by (rule within_fold [OF _ assms(1)]) (auto simp: within_def empty_window_def)
  then show ?thesis
    using assms(2) by (auto simp: chunk_sliding_window_def finish_def emit_def within_def py_len_join
        split: if_splits)
qed

section \<open>Whole documents\<close>

lemma reindex_indices: "map ck_index (reindex i cs) = map (\<lambda>k. i + int k) [0..<length cs]"
proof (induction cs arbitrary: i)
  case (Cons c cs)
  have "map (\<lambda>k. i + 1 + int k) [0..<length cs] = map (\<lambda>k. i + int k) (map Suc [0..<length cs])"
    by simp
  then show ?case using Cons [of "i + 1"] by (simp add: map_Suc_upt upt_conv_Cons del: upt_Suc)
qed simp

lemma reindex_contents: "map ck_content (reindex i cs) = map ck_content cs"
  by (induction cs arbitrary: i) auto

lemma length_reindex [simp]: "length (reindex i cs) = length cs"
  using arg_cong [OF reindex_contents, of length] by simp

text \<open>The chunks of a document are numbered from 0 and none is shorter than the minimum.\<close>

lemma document_chunks_numbered:
  "map ck_index (chunk_document raw limit overlap) =
     map int [0..<length (chunk_document raw limit overlap)]"
  by (simp add: chunk_document_def Let_def reindex_indices)

lemma big_enough_kept:
  "x \<in> set (map ck_content (filter big_enough cs)) \<Longrightarrow> min_chunk_size \<le> length (py_strip x)"
  by (auto simp: big_enough_def)

lemma document_chunks_big:
  assumes "x \<in> set (map ck_content (chunk_document raw limit overlap))"
  shows "min_chunk_size \<le> length (py_strip x)"
  using assms big_enough_kept
  by (auto simp: chunk_document_def Let_def reindex_contents simp del: set_map split: if_splits)

lemma section_chunks_contents:
  assumes "\<forall>raw \<in> set raws. py_len (py_strip raw) \<le> limit"
  shows "map ck_content (section_chunks limit title chunks raws) =
    map ck_content chunks @ filter (\<lambda>s. s \<noteq> []) (map py_strip raws)"
  using assms by (induction limit title chunks raws rule: section_chunks.induct) (auto simp: Let_def)

lemma big_enough_contents:
  "map ck_content (filter big_enough cs) = filter (\<lambda>s. min_chunk_size \<le> length (py_strip s)) (map ck_content cs)"
  by (induction cs) (auto simp: big_enough_def)

lemma filter_sections_empty:
  assumes "\<forall>raw \<in> set raws. length (py_strip raw) < min_chunk_size"
  shows "filter (\<lambda>s. min_chunk_size \<le> length (py_strip s)) (filter (\<lambda>s. s \<noteq> []) (map py_strip raws)) = []"
  using assms by (auto simp: filter_empty_conv)

text \<open>
  A document of many short sections is dropped as a whole: if it has at least two sections and
  each is shorter than the minimum, nothing is left, however long the document is.
\<close>

theorem short_sections_are_lost:
  assumes "length (chunk_by_sections (clean_text raw) limit) > 1"
    and "\<forall>s \<in> set (split_sections (clean_text raw)). length (py_strip s) < min_chunk_size"
    and "int min_chunk_size \<le> limit"
  shows "chunk_document raw limit overlap = []"
proof -
  have le: "\<forall>s \<in> set (split_sections (clean_text raw)). py_len (py_strip s) \<le> limit"
    using assms(2,3) by (fastforce simp: py_len_def)
  have "map ck_content (filter big_enough (chunk_by_sections (clean_text raw) limit)) = []"
    unfolding chunk_by_sections_def big_enough_contents section_chunks_contents [OF le]
    using filter_sections_empty [OF assms(2)] by simp
  then have "filter big_enough (chunk_by_sections (clean_text raw) limit) = []" by simp
  then show ?thesis using assms(1) by (simp add: chunk_document_def Let_def)
qed


text \<open>Both witnesses evaluate the functions on short texts.\<close>

definition two_headers :: string where
  "two_headers = ''# A'' @ [newline] @ ''# B''"

lemma two_headers_run:
  "split_sections (clean_text two_headers) = [''# A'', ''# B'']"
  "length (chunk_by_sections (clean_text two_headers) 2000) = 2"
  by code_simp+

theorem short_sections_are_lost_witness: "chunk_document two_headers 2000 200 = []"
  by (rule short_sections_are_lost)
    (simp_all add: two_headers_run min_chunk_size_def py_strip_def is_space_def)

lemma three_sentences:
  "sentences_of ''Aa a. Bb b. Cc.'' = [''Aa a.'', ''Bb b.'', ''Cc.'']"
  "map ck_content (chunk_sliding_window ''Aa a. Bb b. Cc.'' 11 5) = [''Aa a. Bb b.'', ''Bb b. Cc.'']"
  by code_simp+

theorem window_chunks_bounded_witness:
  "\<exists>c \<in> set (chunk_sliding_window ''Aa a. Bb b. Cc.'' 11 5). 9 \<le> py_len (ck_content c) \<and>
     py_len (ck_content c) \<le> 11"
proof -
  have "''Bb b. Cc.'' \<in> set (map ck_content (chunk_sliding_window ''Aa a. Bb b. Cc.'' 11 5))"
    by (simp only: three_sentences list.set insert_iff simp_thms)
  then obtain c where c: "c \<in> set (chunk_sliding_window ''Aa a. Bb b. Cc.'' 11 5)" "''Bb b. Cc.'' = ck_content c"
    unfolding set_map by (rule imageE)
  have "\<forall>s \<in> set (sentences_of ''Aa a. Bb b. Cc.''). py_len s \<le> 5"
    by (simp add: three_sentences py_len_def)
  note bound = window_chunks_bounded [OF this c(1)]
  show ?thesis by (rule bexI [OF _ c(1)]) (use bound in \<open>simp add: c(2) [symmetric] py_len_def\<close>)
qed

end
