(* ===== verification/Materials.thy ===== *)
theory Materials
  imports Complex_Main Accounts Chunking "HOL-Library.Multiset"
begin

text \<open>
  Uploaded sales materials: text extraction (\<open>services/parser.py\<close>), embedding
  (\<open>services/embeddings.py\<close>), object storage (\<open>services/storage.py\<close>), the tables \<open>materials\<close> and
  \<open>material_chunks\<close> (\<open>db/materials.py\<close>), the processing of a material
  (\<open>services/materials.py\<close>) and its page handlers (\<open>routes/settings.py\<close>). The readers of PDF,
  DOCX and PPTX files, the UTF-8 decoder, the embedding model and the distance of two
  embeddings belong to libraries and are arguments.
\<close>

section \<open>Extracting text\<close>

text \<open>What the document libraries give for a file: an exception, or its parts.\<close>

record docx_par =
  pg_text :: string
  pg_style :: "string option"

record docx =
  dx_paragraphs :: "docx_par list"
  dx_tables :: "string list list list"

record shape =
  sh_text :: "string option"
  sh_table :: "string list list option"

record readers =
  rd_pdf :: "string \<Rightarrow> string + string option list"
  rd_docx :: "string \<Rightarrow> string + docx"
  rd_pptx :: "string \<Rightarrow> string + shape list list"
  rd_utf8 :: "string \<Rightarrow> string"

definition blank :: "string \<Rightarrow> bool" where
  "blank s \<longleftrightarrow> py_strip s = []"

text \<open>\<open>enumerate(xs, 1)\<close>\<close>

definition numbered :: "'a list \<Rightarrow> (int \<times> 'a) list" where
  "numbered xs = zip (map (\<lambda>k. int k + 1) [0..<length xs]) xs"

definition nl :: string where
  "nl = [newline]"

definition parse_pdf :: "string option list \<Rightarrow> string" where
  "parse_pdf pages = py_join (nl @ nl)
     (concat (map (\<lambda>(n, page). case page of
        None \<Rightarrow> []
      | Some s \<Rightarrow> if blank s then [] else [''[Page '' @ str_int n @ '']'' @ nl @ s]) (numbered pages)))"

definition row_text :: "string list \<Rightarrow> string" where
  "row_text cells = py_join '' | '' (filter (\<lambda>s. s \<noteq> []) (map py_strip cells))"

definition row_texts :: "string list list \<Rightarrow> string list" where
  "row_texts rows = filter (\<lambda>s. s \<noteq> []) (map row_text rows)"

definition paragraph_text :: "docx_par \<Rightarrow> string" where
  "paragraph_text p = (case pg_style p of
     Some style \<Rightarrow> if startswith style ''Heading'' then nl @ ''## '' @ pg_text p @ nl else pg_text p
   | None \<Rightarrow> pg_text p)"

definition parse_docx :: "docx \<Rightarrow> string" where
  "parse_docx d = py_join nl
     (map paragraph_text (filter (\<lambda>p. \<not> blank (pg_text p)) (dx_paragraphs d)) @
      map (\<lambda>rows. nl @ py_join nl rows @ nl) (filter (\<lambda>rows. rows \<noteq> []) (map row_texts (dx_tables d))))"

definition shape_texts :: "shape \<Rightarrow> string list" where
  "shape_texts s =
     (case sh_text s of None \<Rightarrow> [] | Some x \<Rightarrow> if blank x then [] else [x]) @
     (case sh_table s of None \<Rightarrow> [] | Some rows \<Rightarrow> row_texts rows)"

definition parse_pptx :: "shape list list \<Rightarrow> string" where
  "parse_pptx slides = py_join (nl @ nl)
     (concat (map (\<lambda>(n, shapes). let texts = concat (map shape_texts shapes) in
        if texts = [] then [] else [py_join nl ((''[Slide '' @ str_int n @ '']'') # texts)])
        (numbered slides)))"

definition supported_types :: "string list" where
  "supported_types = [''docx'', ''md'', ''pdf'', ''pptx'', ''txt'']"

definition unsupported :: "string \<Rightarrow> string" where
  "unsupported ftype = ''Unsupported file type: '' @ ftype @ ''. Supported: '' @ py_join '', '' supported_types"

definition normal_type :: "string \<Rightarrow> string" where
  "normal_type ftype = dropWhile (\<lambda>c. c = CHR ''.'') (py_lower ftype)"

definition parse_document :: "readers \<Rightarrow> string \<Rightarrow> string \<Rightarrow> string + string" where
  "parse_document rd bytes ftype0 =
     (let ftype = normal_type ftype0 in
      if ftype \<notin> set supported_types then Inl (unsupported ftype)
      else if ftype = ''pdf'' then map_sum id parse_pdf (rd_pdf rd bytes)
      else if ftype = ''docx'' then map_sum id parse_docx (rd_docx rd bytes)
      else if ftype = ''pptx'' then map_sum id parse_pptx (rd_pptx rd bytes)
      else Inr (rd_utf8 rd bytes))"

text \<open>
  \<open>Path(filename).suffix\<close>: the last path component from its last dot, unless the dot is its
  first or its last character.
\<close>

definition path_name :: "string \<Rightarrow> string" where
  "path_name f = (case rev (filter (\<lambda>x. x \<noteq> [] \<and> x \<noteq> ''.'') (py_split f ''/'')) of
     [] \<Rightarrow> [] | x # _ \<Rightarrow> x)"

definition path_suffix :: "string \<Rightarrow> string" where
  "path_suffix f = (let n = path_name f; ext = rev (takeWhile (\<lambda>c. c \<noteq> CHR ''.'') (rev n)) in
     if ext \<noteq> [] \<and> length ext + 1 < length n then CHR ''.'' # ext else [])"

definition get_file_type :: "string \<Rightarrow> string" where
  "get_file_type f = normal_type (path_suffix f)"

section \<open>Embeddings\<close>

text \<open>
  The model answers one call with an exception or with vectors, each with the index of its input.
\<close>

type_synonym 'e embedder = "string list \<Rightarrow> string + (int \<times> 'e) list"

definition max_chars :: nat where "max_chars = 32000"
definition embed_batch_size :: nat where "embed_batch_size = 100"

definition embedding_failed :: string where
  "embedding_failed = ''Embedding generation failed''"

text \<open>A single text is sent as a string, not as a list; the first vector is the answer.\<close>

definition embed_text :: "(string \<Rightarrow> string + (int \<times> 'e) list) \<Rightarrow> string \<Rightarrow> string + 'e" where
  "embed_text model s = (case model (take max_chars s) of
     Inl e \<Rightarrow> Inl embedding_failed
   | Inr [] \<Rightarrow> Inl embedding_failed
   | Inr ((i, v) # rest) \<Rightarrow> Inr v)"

function embed_from :: "'e embedder \<Rightarrow> nat \<Rightarrow> string list \<Rightarrow> 'e list \<Rightarrow> string + 'e list" where
  "embed_from model n texts acc =
     (if texts = [] \<or> n = 0 then Inr acc
      else (case model (take n texts) of
        Inl e \<Rightarrow> Inl embedding_failed
      | Inr data \<Rightarrow> embed_from model n (drop n texts) (acc @ map snd (sort_key fst data))))"
  by pat_completeness auto
termination
  by (relation "measure (\<lambda>(model, n, texts, acc). length texts)") auto

declare embed_from.simps [simp del]

definition embed_batch :: "'e embedder \<Rightarrow> string list \<Rightarrow> string + 'e list" where
  "embed_batch model texts = embed_from model embed_batch_size (map (take max_chars) texts) []"

section \<open>Object storage\<close>

definition safe_filename :: "string \<Rightarrow> string" where
  "safe_filename f = filter (\<lambda>c. upper_char c \<or> digit_at c \<or>
     (97 \<le> (of_char c :: nat) \<and> (of_char c :: nat) \<le> 122) \<or> c \<in> {CHR ''.'', CHR ''_'', CHR ''-''}) f"

definition storage_key :: "int \<Rightarrow> string \<Rightarrow> string \<Rightarrow> string" where
  "storage_key uid uuid f = ''materials/'' @ str_int uid @ ''/'' @ take 8 uuid @ ''_'' @ safe_filename f"

section \<open>The tables\<close>

datatype material_status = MatPending | MatProcessing | MatReady | MatFailed

record material =
  ma_id :: int
  ma_user :: int
  ma_org :: "int option"
  ma_filename :: string
  ma_ftype :: string
  ma_bytes :: int
  ma_key :: string
  ma_kind :: string
  ma_status :: material_status
  ma_chunks :: int
  ma_error :: "string option"
  ma_created :: time
  ma_updated :: time

record 'e chunk_row =
  ch_material :: int
  ch_user :: int
  ch_org :: "int option"
  ch_index :: int
  ch_content :: string
  ch_embedding :: 'e
  ch_title :: "string option"
  ch_kind :: string

record 'e material_db =
  mt_rows :: "material list"
  mt_chunks :: "'e chunk_row list"
  mt_next :: int
  mt_files :: "(string \<times> string) list"

definition material_of :: "'e material_db \<Rightarrow> int \<Rightarrow> material option" where
  "material_of d i = find (\<lambda>m. ma_id m = i) (mt_rows d)"

definition create_material ::
    "time \<Rightarrow> int \<Rightarrow> string \<Rightarrow> string \<Rightarrow> int \<Rightarrow> string \<Rightarrow> string \<Rightarrow> accounts \<Rightarrow> 'e material_db \<Rightarrow>
     db_error + 'e material_db \<times> material" where
  "create_material now uid f ftype bytes key kind a d =
     (if user_of a uid = None then Inl ForeignKeyViolation
      else let m = \<lparr>ma_id = mt_next d, ma_user = uid, ma_org = org_of_user a uid, ma_filename = f,
                    ma_ftype = ftype, ma_bytes = bytes, ma_key = key, ma_kind = kind,
                    ma_status = MatPending, ma_chunks = 0, ma_error = None, ma_created = now,
                    ma_updated = now\<rparr>
           in Inr (d\<lparr>mt_rows := mt_rows d @ [m], mt_next := mt_next d + 1\<rparr>, m))"

definition update_material_status ::
    "time \<Rightarrow> int \<Rightarrow> material_status \<Rightarrow> int \<Rightarrow> string option \<Rightarrow> 'e material_db \<Rightarrow> 'e material_db" where
  "update_material_status now i status n e d = d\<lparr>mt_rows := update_where (\<lambda>m. ma_id m = i)
     (\<lambda>m. m\<lparr>ma_status := status, ma_chunks := n, ma_error := e, ma_updated := now\<rparr>) (mt_rows d)\<rparr>"

text \<open>\<open>org_id = (SELECT org_id FROM users WHERE id = $1)\<close>: a null on either side matches nothing.\<close>

definition same_org :: "accounts \<Rightarrow> int \<Rightarrow> int option \<Rightarrow> bool" where
  "same_org a uid org \<longleftrightarrow> org \<noteq> None \<and> org = org_of_user a uid"

definition get_user_materials :: "int \<Rightarrow> accounts \<Rightarrow> 'e material_db \<Rightarrow> material list" where
  "get_user_materials uid a d =
     sort_key (\<lambda>m. - ma_created m) (filter (\<lambda>m. same_org a uid (ma_org m)) (mt_rows d))"

definition get_material :: "int \<Rightarrow> int \<Rightarrow> accounts \<Rightarrow> 'e material_db \<Rightarrow> material option" where
  "get_material i uid a d = find (\<lambda>m. ma_id m = i \<and> same_org a uid (ma_org m)) (mt_rows d)"

text \<open>Deleting a material cascades to its chunks.\<close>

definition delete_row :: "int \<Rightarrow> int \<Rightarrow> accounts \<Rightarrow> 'e material_db \<Rightarrow> 'e material_db \<times> string option" where
  "delete_row i uid a d = (case get_material i uid a d of
     None \<Rightarrow> (d, None)
   | Some m \<Rightarrow> (d\<lparr>mt_rows := filter (\<lambda>r. \<not> (ma_id r = i \<and> same_org a uid (ma_org r))) (mt_rows d),
                  mt_chunks := filter (\<lambda>c. ch_material c \<noteq> i) (mt_chunks d)\<rparr>, Some (ma_key m)))"

text \<open>
  One insert per chunk, each committed on its own: an insert that the database refuses (the
  material is gone, or the vector has the wrong dimension, as \<open>fits\<close> says) leaves the chunks
  before it.
\<close>

fun save_chunks ::
    "('e \<Rightarrow> bool) \<Rightarrow> int \<Rightarrow> int \<Rightarrow> int option \<Rightarrow> string \<Rightarrow> int \<Rightarrow> (chunk \<times> 'e) list \<Rightarrow> 'e material_db \<Rightarrow>
     'e material_db \<times> string option" where
  "save_chunks fits i uid org kind k [] d = (d, None)"
| "save_chunks fits i uid org kind k ((c, e) # rest) d =
     (if material_of d i = None then (d, Some ''foreign key violation'')
      else if \<not> fits e then (d, Some ''expected 1536 dimensions'')
      else save_chunks fits i uid org kind (k + 1) rest
        (d\<lparr>mt_chunks := mt_chunks d @ [\<lparr>ch_material = i, ch_user = uid, ch_org = org, ch_index = k,
             ch_content = ck_content c, ch_embedding = e, ch_title = ck_title c, ch_kind = kind\<rparr>]\<rparr>))"

definition delete_chunks :: "int \<Rightarrow> 'e material_db \<Rightarrow> 'e material_db" where
  "delete_chunks i d = d\<lparr>mt_chunks := filter (\<lambda>c. ch_material c \<noteq> i) (mt_chunks d)\<rparr>"

definition get_material_preview :: "int \<Rightarrow> int \<Rightarrow> nat \<Rightarrow> 'e material_db \<Rightarrow> string" where
  "get_material_preview i uid limit d = py_join (nl @ nl) (map ch_content (take limit
     (sort_key ch_index (filter (\<lambda>c. ch_material c = i \<and> ch_user c = uid) (mt_chunks d)))))"


section \<open>Processing a material\<close>

record 'e material_world =
  mw_now :: time
  mw_readers :: readers
  mw_embedder :: "'e embedder"
  mw_fits :: "'e \<Rightarrow> bool"

definition no_text :: string where
  "no_text = ''Could not extract text from document''"

definition too_short :: string where
  "too_short = ''Document too short to process''"

text \<open>
  \<open>process_material\<close>; the second component is the exception it raises. The chunks and their
  vectors are zipped, so that a short answer of the model silently drops the last chunks.
\<close>

definition store_chunks ::
    "'e material_world \<Rightarrow> int \<Rightarrow> int \<Rightarrow> string \<Rightarrow> chunk list \<Rightarrow> accounts \<Rightarrow> 'e material_db \<Rightarrow>
     'e material_db \<times> string option" where
  "store_chunks w i uid kind chunks a d =
     (case embed_batch (mw_embedder w) (map ck_content chunks) of
        Inl e \<Rightarrow> (d, Some e)
      | Inr vectors \<Rightarrow>
          (let records = zip chunks vectors in
           case save_chunks (mw_fits w) i uid (org_of_user a uid) kind 0 records d of
             (d', Some e) \<Rightarrow> (d', Some e)
           | (d', None) \<Rightarrow>
               (update_material_status (mw_now w) i MatReady (int (length records)) None d', None)))"

definition process_material ::
    "'e material_world \<Rightarrow> int \<Rightarrow> int \<Rightarrow> string \<Rightarrow> string \<Rightarrow> string \<Rightarrow> accounts \<Rightarrow> 'e material_db \<Rightarrow>
     'e material_db \<times> string option" where
  "process_material w i uid bytes ftype kind a d0 =
     (let d = update_material_status (mw_now w) i MatProcessing 0 None d0;
          failed = (\<lambda>e. (update_material_status (mw_now w) i MatFailed 0 (Some e) d, None))
      in case parse_document (mw_readers w) bytes ftype of
           Inl e \<Rightarrow> (d, Some e)
         | Inr content \<Rightarrow>
             if blank content then failed no_text
             else
               (let chunks = chunk_document content default_size default_overlap in
                if chunks = [] then failed too_short else store_chunks w i uid kind chunks a d))"

definition process_material_safe ::
    "'e material_world \<Rightarrow> int \<Rightarrow> int \<Rightarrow> string \<Rightarrow> string \<Rightarrow> string \<Rightarrow> accounts \<Rightarrow> 'e material_db \<Rightarrow> 'e material_db" where
  "process_material_safe w i uid bytes ftype kind a d =
     (case process_material w i uid bytes ftype kind a d of
        (d', None) \<Rightarrow> d'
      | (d', Some e) \<Rightarrow> update_material_status (mw_now w) i MatFailed 0 (Some (take 500 e)) d')"

section \<open>The service\<close>

datatype upload_error = InvalidFile string | Crashed

definition max_file_size :: nat where
  "max_file_size = 20 * 1024 * 1024"

text \<open>
  \<open>upload_material\<close>: \<open>stored\<close> says whether the object store accepted the file. The result
  carries the call that is left to run in the background.
\<close>

definition upload_material ::
    "time \<Rightarrow> string \<Rightarrow> bool \<Rightarrow> int \<Rightarrow> string \<Rightarrow> string \<Rightarrow> string \<Rightarrow> accounts \<Rightarrow> 'e material_db \<Rightarrow>
     'e material_db \<times> (upload_error + material)" where
  "upload_material now uuid stored uid bytes f kind a d =
     (let ftype = get_file_type f in
      if ftype \<notin> set supported_types then (d, Inl (InvalidFile (unsupported ftype)))
      else if length bytes > max_file_size then (d, Inl (InvalidFile ''File too large. Maximum size is 20MB''))
      else if bytes = [] then (d, Inl (InvalidFile ''File is empty''))
      else if \<not> stored then (d, Inl Crashed)
      else (let key = storage_key uid uuid f; d1 = d\<lparr>mt_files := (key, bytes) # mt_files d\<rparr> in
        case create_material now uid f ftype (int (length bytes)) key kind a d1 of
          Inl e \<Rightarrow> (d1, Inl Crashed)
        | Inr (d2, m) \<Rightarrow> (d2, Inr m)))"

definition delete_material :: "bool \<Rightarrow> int \<Rightarrow> int \<Rightarrow> accounts \<Rightarrow> 'e material_db \<Rightarrow> 'e material_db \<times> bool" where
  "delete_material stored i uid a d = (case delete_row i uid a d of
     (d', None) \<Rightarrow> (d', False)
   | (d', Some key) \<Rightarrow>
       (if stored \<and> key \<noteq> [] then d'\<lparr>mt_files := filter (\<lambda>(k, _). k \<noteq> key) (mt_files d')\<rparr> else d',
        key \<noteq> []))"

datatype reprocess_result = NoMaterial | DownloadFailed | Started material string

text \<open>\<open>reprocess_material\<close>: the chunks are deleted before the file is fetched.\<close>

definition reprocess_material ::
    "bool \<Rightarrow> int \<Rightarrow> int \<Rightarrow> accounts \<Rightarrow> 'e material_db \<Rightarrow> 'e material_db \<times> reprocess_result" where
  "reprocess_material reachable i uid a d = (case get_material i uid a d of
     None \<Rightarrow> (d, NoMaterial)
   | Some m \<Rightarrow>
       (case (if reachable then map_of (mt_files d) (ma_key m) else None) of
          None \<Rightarrow> (delete_chunks i d, DownloadFailed)
        | Some bytes \<Rightarrow> (delete_chunks i d, Started m bytes)))"

text \<open>The preview page: 404, a notice, or the first five chunks of the user's own.\<close>

definition preview_material :: "int \<Rightarrow> int \<Rightarrow> accounts \<Rightarrow> 'e material_db \<Rightarrow> string option" where
  "preview_material i uid a d = (case get_material i uid a d of
     None \<Rightarrow> None
   | Some m \<Rightarrow> Some (if ma_status m \<noteq> MatReady then ''Material is not ready for preview.''
       else get_material_preview i uid 5 d))"

section \<open>A material always settles\<close>

lemma material_of_status:
  "material_of (update_material_status now i st n e d) i =
     map_option (\<lambda>m. m\<lparr>ma_status := st, ma_chunks := n, ma_error := e, ma_updated := now\<rparr>) (material_of d i)"
  by (simp add: material_of_def update_material_status_def find_update_same)

lemma chunks_of_status [simp]: "mt_chunks (update_material_status now i st n e d) = mt_chunks d"
  by (simp add: update_material_status_def)

lemma material_of_chunks [simp]: "material_of (d\<lparr>mt_chunks := cs\<rparr>) i = material_of d i"
  by (simp add: material_of_def)

definition chunk_rows :: "'e material_db \<Rightarrow> int \<Rightarrow> 'e chunk_row list" where
  "chunk_rows d i = filter (\<lambda>c. ch_material c = i) (mt_chunks d)"

lemma chunk_rows_status [simp]: "chunk_rows (update_material_status now i st n e d) j = chunk_rows d j"
  by (simp add: chunk_rows_def)

lemma save_chunks_material:
  "save_chunks fits i uid org kind k rs d = (d', e) \<Longrightarrow> material_of d' j = material_of d j"
  by (induction fits i uid org kind k rs d rule: save_chunks.induct) (auto split: if_splits)

lemma save_chunks_rows:
  "save_chunks fits i uid org kind k rs d = (d', e) \<Longrightarrow> \<exists>n \<le> length rs.
     map ch_content (chunk_rows d' i) =
       map ch_content (chunk_rows d i) @ map (\<lambda>r. ck_content (fst r)) (take n rs) \<and>
     (e = None \<longrightarrow> n = length rs)"
proof (induction fits i uid org kind k rs d rule: save_chunks.induct)
  case (2 fits i uid org kind k c v rest d)
  show ?case
  proof (cases "material_of d i = None \<or> \<not> fits v")
    case True
    then show ?thesis using 2 by (intro exI [of _ 0]) (auto split: if_splits)
  next
    case False
    let ?d = "d\<lparr>mt_chunks := mt_chunks d @ [\<lparr>ch_material = i, ch_user = uid, ch_org = org,
      ch_index = k, ch_content = ck_content c, ch_embedding = v, ch_title = ck_title c, ch_kind = kind\<rparr>]\<rparr>"
    have "save_chunks fits i uid org kind (k + 1) rest ?d = (d', e)"
      using 2(2) False by auto
    with 2(1) False have "\<exists>n \<le> length rest. map ch_content (chunk_rows d' i) =
        map ch_content (chunk_rows ?d i) @ map (\<lambda>r. ck_content (fst r)) (take n rest) \<and>
        (e = None \<longrightarrow> n = length rest)" by (simp only: de_Morgan_disj not_not simp_thms)
    then obtain n where n: "n \<le> length rest" "map ch_content (chunk_rows d' i) =
        map ch_content (chunk_rows ?d i) @ map (\<lambda>r. ck_content (fst r)) (take n rest)"
        "e = None \<longrightarrow> n = length rest"
      by (elim exE conjE)
    then show ?thesis by (intro exI [of _ "Suc n"]) (auto simp: chunk_rows_def)
  qed
qed (auto simp: chunk_rows_def)

text \<open>What the processing leaves: ready with the number of stored chunks, or failed.\<close>

definition settled_as :: "'e material_db \<Rightarrow> int \<Rightarrow> int \<Rightarrow> bool" where
  "settled_as d i before = (case material_of d i of
     None \<Rightarrow> True
   | Some m \<Rightarrow> (ma_status m = MatReady \<and> ma_error m = None \<and>
         int (length (chunk_rows d i)) = before + ma_chunks m) \<or>
       (ma_status m = MatFailed \<and> ma_error m \<noteq> None \<and> ma_chunks m = 0))"

lemma settled_failed: "settled_as (update_material_status now i MatFailed 0 (Some e) d) i b"
  by (simp add: settled_as_def material_of_status split: option.split)

lemma store_chunks_settles:
  assumes "store_chunks w i uid kind chunks a d = (d', None)"
  shows "settled_as d' i (int (length (chunk_rows d i)))"
proof -
  obtain vs where vs: "embed_batch (mw_embedder w) (map ck_content chunks) = Inr vs"
    using assms by (auto simp: store_chunks_def split: sum.splits)
  obtain d1 where d1: "save_chunks (mw_fits w) i uid (org_of_user a uid) kind 0 (zip chunks vs) d = (d1, None)"
      "d' = update_material_status (mw_now w) i MatReady (int (length (zip chunks vs))) None d1"
    using assms vs by (auto simp: store_chunks_def Let_def split: prod.splits option.splits)
  have "length (map ch_content (chunk_rows d1 i)) =
      length (map ch_content (chunk_rows d i)) + length (zip chunks vs)"
    using save_chunks_rows [OF d1(1)] by auto
  then show ?thesis
    by (simp add: d1(2) settled_as_def material_of_status split: option.split)
qed

lemma material_settles:
  "settled_as (process_material_safe w i uid bytes ftype kind a d) i (int (length (chunk_rows d i)))"
proof -
  obtain d' e where r: "process_material w i uid bytes ftype kind a d = (d', e)"
    by (metis surj_pair)
  show ?thesis
  proof (cases e)
    case (Some m)
    then show ?thesis using r by (simp add: process_material_safe_def settled_failed)
  next
    case None
    let ?d = "update_material_status (mw_now w) i MatProcessing 0 None d"
    obtain content where c: "parse_document (mw_readers w) bytes ftype = Inr content"
      using r None by (auto simp: process_material_def Let_def split: sum.splits)
    show ?thesis
    proof (cases "blank content \<or> chunk_document content default_size default_overlap = []")
      case True
      then have "d' = update_material_status (mw_now w) i MatFailed 0 (Some no_text) ?d \<or>
          d' = update_material_status (mw_now w) i MatFailed 0 (Some too_short) ?d"
        using r None c by (auto simp: process_material_def Let_def split: if_splits)
      then show ?thesis using r None by (auto simp: process_material_safe_def settled_failed)
    next
      case False
      then have "store_chunks w i uid kind (chunk_document content default_size default_overlap) a ?d = (d', None)"
        using r None c by (auto simp: process_material_def Let_def)
      from store_chunks_settles [OF this] show ?thesis
        using r None by (simp add: process_material_safe_def)
    qed
  qed
qed

text \<open>
  C40: Whatever the reader, the model and the database do, the background processing of a material
  leaves it ready or failed: ready without an error and with a chunk count that is the number
  of chunk rows it added, or failed with a reason.
\<close>

theorem processing_settles:
  "settled_as (process_material_safe w i uid bytes ftype kind a d) i (int (length (chunk_rows d i)))"
  by (rule material_settles)


section \<open>Embedding in order\<close>

text \<open>
  The model behaves as documented when, for a list of inputs, it answers one vector per input,
  in any order, each with the position of its input.
\<close>

definition faithful_model :: "'e embedder \<Rightarrow> (string \<Rightarrow> 'e) \<Rightarrow> bool" where
  "faithful_model model f \<longleftrightarrow> (\<forall>texts. \<exists>data. model texts = Inr data \<and>
     distinct (map fst data) \<and> set data = set (zip (map int [0..<length texts]) (map f texts)))"

lemma sorted_zip_upt: "sorted (map fst (zip (map int [0..<length xs]) xs))"
  by (simp add: sorted_iff_nth_mono)

lemma sort_key_unique:
  assumes "distinct (map fst xs)" "set xs = set ys" "sorted (map fst ys)" "distinct (map fst ys)"
  shows "sort_key fst xs = ys"
proof (rule map_sorted_distinct_set_unique [of fst])
  show "inj_on fst (set (sort_key fst xs) \<union> set ys)"
    using assms by (simp add: distinct_map)
  show "sorted (map fst (sort_key fst xs))" by simp
  have "mset (map fst (sort_key fst xs)) = mset (map fst xs)" by simp
  then show "distinct (map fst (sort_key fst xs))"
    using assms(1) by (metis mset_eq_imp_distinct_iff)
qed (use assms in auto)

lemma faithful_answer:
  assumes "faithful_model model f"
  obtains data where "model texts = Inr data" "map snd (sort_key fst data) = map f texts"
proof -
  obtain data where d: "model texts = Inr data" "distinct (map fst data)"
      "set data = set (zip (map int [0..<length texts]) (map f texts))"
    using assms by (auto simp: faithful_model_def)
  have "sort_key fst data = zip (map int [0..<length texts]) (map f texts)"
    by (rule sort_key_unique [OF d(2,3)])
      (use sorted_zip_upt [of "map f texts"] in \<open>simp_all add: distinct_map\<close>)
  then show thesis using that d(1) by simp
qed

lemma embedded_in_order:
  assumes "faithful_model model f"
  shows "embed_batch model texts = Inr (map (\<lambda>s. f (take max_chars s)) texts)"
proof -
  have "embed_from model n ts acc = Inr (acc @ map f ts)" if "0 < n" for n ts acc
    using that
  proof (induction "length ts" arbitrary: ts acc rule: less_induct)
    case less
    show ?case
    proof (cases "ts = []")
      case False
      obtain data where d: "model (take n ts) = Inr data" "map snd (sort_key fst data) = map f (take n ts)"
        using faithful_answer [OF assms] .
      have "embed_from model n (drop n ts) (acc @ map f (take n ts)) =
          Inr ((acc @ map f (take n ts)) @ map f (drop n ts))"
        using less False by (intro less.hyps) auto
      also have "\<dots> = Inr (acc @ map f ts)"
        by (simp flip: map_append)
      finally show ?thesis
        using d False less.prems by (subst embed_from.simps) simp
    qed (simp add: embed_from.simps)
  qed
  then show ?thesis by (simp add: embed_batch_def embed_batch_size_def)
qed

text \<open>
  Batches of a hundred, answered out of order, give the vector of every text at its place.
\<close>

theorem embeddings_in_order:
  assumes "faithful_model model f"
  shows "embed_batch model texts = Inr (map (\<lambda>s. f (take max_chars s)) texts)"
  using assms by (rule embedded_in_order)

section \<open>Reprocessing\<close>

lemma material_of_delete [simp]: "material_of (delete_chunks i d) j = material_of d j"
  by (simp add: delete_chunks_def)

lemma chunk_rows_delete [simp]: "chunk_rows (delete_chunks i d) i = []"
  by (simp add: delete_chunks_def chunk_rows_def)

text \<open>
  Reprocessing a material whose file cannot be fetched deletes its chunks and leaves the row as
  it was: a ready material stays ready, with a chunk count, but has no chunk.
\<close>

theorem failed_reprocess_empties:
  assumes "get_material i uid a d = Some m" "distinct (map ma_id (mt_rows d))"
  shows "\<exists>d'. reprocess_material False i uid a d = (d', DownloadFailed) \<and>
    material_of d' i = Some m \<and> chunk_rows d' i = []"
proof -
  have m: "m \<in> set (mt_rows d)" "ma_id m = i"
    using assms(1) by (auto simp: get_material_def dest: find_Some_mem)
  then have "material_of d i = Some m"
    using find_distinct [OF assms(2) m(1)] by (simp add: material_of_def)
  then show ?thesis using assms(1) by (simp add: reprocess_material_def)
qed

text \<open>
  Two requests to reprocess one material before the first has stored its chunks: both delete
  first and store afterwards, so the chunks of both runs are there while the row counts those of
  the second alone.
\<close>

theorem double_reprocess_duplicates:
  assumes "chunk_rows d i = []"
    and "d1 = process_material_safe w i uid bytes ftype kind a d"
    and "d2 = process_material_safe w i uid bytes ftype kind a d1"
    and "material_of d1 i = Some m1" "ma_status m1 = MatReady"
    and "material_of d2 i = Some m2" "ma_status m2 = MatReady"
  shows "int (length (chunk_rows d2 i)) = ma_chunks m1 + ma_chunks m2"
  using material_settles [of w i uid bytes ftype kind a d]
    material_settles [of w i uid bytes ftype kind a d1] assms
  by (simp add: settled_as_def)

section \<open>Retrieval\<close>

text \<open>
  \<open>vector_search\<close> and \<open>get_relevant_context\<close> (\<open>services/retrieval.py\<close>); \<open>gap\<close> is the operator
  \<open><=>\<close> of the vector extension. Rows at the same distance come in the order of the table.
\<close>

record hit =
  ht_content :: string
  ht_title :: "string option"
  ht_kind :: string
  ht_similarity :: rat

definition vector_search ::
    "('e \<Rightarrow> 'e \<Rightarrow> rat) \<Rightarrow> int \<Rightarrow> 'e \<Rightarrow> nat \<Rightarrow> accounts \<Rightarrow> 'e material_db \<Rightarrow> hit list" where
  "vector_search gap uid q limit a d =
     map (\<lambda>c. \<lparr>ht_content = ch_content c, ht_title = ch_title c, ht_kind = ch_kind c,
            ht_similarity = 1 - gap (ch_embedding c) q\<rparr>)
       (take limit (sort_key (\<lambda>c. gap (ch_embedding c) q)
          (filter (\<lambda>c. same_org a uid (ch_org c)) (mt_chunks d))))"

definition upper_of :: "char \<Rightarrow> char" where
  "upper_of c = (let n = (of_char c :: nat) in if 97 \<le> n \<and> n \<le> 122 then char_of (n - 32) else c)"

definition letter :: "char \<Rightarrow> bool" where
  "letter c \<longleftrightarrow> upper_char (upper_of c)"

text \<open>\<open>str.title\<close>: a letter after a non-letter in upper case, the others in lower case.\<close>

fun py_title :: "bool \<Rightarrow> string \<Rightarrow> string" where
  "py_title inside [] = []"
| "py_title inside (c # cs) = (if inside then lower_char c else upper_of c) # py_title (letter c) cs"

definition kind_label :: "string \<Rightarrow> string" where
  "kind_label kind = py_title False (map (\<lambda>c. if c = CHR ''_'' then CHR '' '' else c) kind)"

definition hit_header :: "hit \<Rightarrow> string" where
  "hit_header h =
     (let parts = (if ht_kind h \<noteq> [] then [kind_label (ht_kind h)] else []) @
                  (case ht_title h of None \<Rightarrow> [] | Some t \<Rightarrow> if t = [] then [] else [t])
      in if parts = [] then ''Company Material'' else py_join '' - '' parts)"

definition format_for_prompt :: "hit list \<Rightarrow> string" where
  "format_for_prompt hits = py_join (nl @ nl @ ''---'' @ nl @ nl)
     (map (\<lambda>h. ''[From: '' @ hit_header h @ '']'' @ nl @ py_strip (ht_content h)) hits)"

definition search_query :: "string \<Rightarrow> string \<Rightarrow> string \<Rightarrow> string" where
  "search_query company description industry = py_join '' ''
     ([company] @ (if description \<noteq> [] then [take 500 description] else []) @
      (if industry \<noteq> [] then [industry] else []))"

definition get_relevant_context ::
    "(string \<Rightarrow> string + (int \<times> 'e) list) \<Rightarrow> ('e \<Rightarrow> 'e \<Rightarrow> rat) \<Rightarrow> int \<Rightarrow> string \<Rightarrow> string \<Rightarrow> string \<Rightarrow>
     nat \<Rightarrow> rat \<Rightarrow> accounts \<Rightarrow> 'e material_db \<Rightarrow> string + string" where
  "get_relevant_context model gap uid company description industry limit least a d =
     (case embed_text model (search_query company description industry) of
        Inl e \<Rightarrow> Inl e
      | Inr q \<Rightarrow> Inr (format_for_prompt
          (filter (\<lambda>h. ht_similarity h \<ge> least) (vector_search gap uid q limit a d))))"

text \<open>Only chunks of the user's own organization reach the prompt.\<close>

lemma search_within_org:
  assumes "h \<in> set (vector_search gap uid q limit a d)"
  shows "\<exists>c \<in> set (mt_chunks d). ht_content h = ch_content c \<and> same_org a uid (ch_org c)"
  using assms by (auto simp: vector_search_def dest!: in_set_takeD)


section \<open>A material at work\<close>

definition length_model :: "nat embedder" where
  "length_model texts = Inr (rev (zip (map int [0..<length texts]) (map length texts)))"

definition plain_readers :: readers where
  "plain_readers = \<lparr>rd_pdf = (\<lambda>_. Inl ''not a PDF''), rd_docx = (\<lambda>_. Inl ''not a DOCX''),
     rd_pptx = (\<lambda>_. Inl ''not a PPTX''), rd_utf8 = id\<rparr>"

definition plain_world :: "nat material_world" where
  "plain_world = \<lparr>mw_now = 5, mw_readers = plain_readers, mw_embedder = length_model, mw_fits = (\<lambda>_. True)\<rparr>"

definition long_word :: string where
  "long_word = replicate 100 (CHR ''a'')"

definition sheet :: material where
  "sheet = \<lparr>ma_id = 1, ma_user = 1, ma_org = Some 1, ma_filename = ''a.txt'', ma_ftype = ''txt'',
     ma_bytes = 100, ma_key = ''k'', ma_kind = ''other'', ma_status = MatReady, ma_chunks = 1,
     ma_error = None, ma_created = 1, ma_updated = 2\<rparr>"

definition one_material :: "nat material_db" where
  "one_material = \<lparr>mt_rows = [sheet], mt_chunks = [], mt_next = 2, mt_files = [(''k'', long_word)]\<rparr>"

definition office_orgs :: accounts where
  "office_orgs = \<lparr>ac_users = [(new_user 1 ''a@x'' ''A'' [] (Some ''g1'') None)\<lparr>us_org := Some 1\<rparr>],
     ac_orgs = [\<lparr>og_id = 1, og_name = ''A'', og_slug = ''a'', og_bonus = 0, og_stripe = None\<rparr>],
     ac_members = [], ac_invites = [], ac_ledger = [], ac_sessions = [], ac_usage_cache = (\<lambda>_. None),
     ac_auth_cache = [], ac_next_user = 2, ac_next_org = 2, ac_next_invite = 1\<rparr>"

lemma office_orgs_org [simp]: "org_of_user office_orgs 1 = Some 1"
  by (simp add: office_orgs_def org_of_user_def user_of_def new_user_def)

lemma distinct_positions: "distinct (map int [0..<n])"
  by (simp add: distinct_map)

lemma length_model_faithful: "faithful_model length_model length"
  by (simp add: faithful_model_def length_model_def distinct_positions flip: rev_map)

theorem embeddings_in_order_witness:
  "embed_batch length_model [''ab'', ''c''] = Inr [2, 1]"
  using embeddings_in_order [OF length_model_faithful, of "[''ab'', ''c'']"]
  by (simp add: max_chars_def)

theorem failed_reprocess_empties_witness:
  "\<exists>d'. reprocess_material False 1 1 office_orgs one_material = (d', DownloadFailed) \<and>
     material_of d' 1 = Some sheet \<and> ma_status sheet = MatReady \<and> chunk_rows d' 1 = []"
proof -
  have "get_material 1 1 office_orgs one_material = Some sheet"
    by (simp add: get_material_def one_material_def sheet_def same_org_def)
  from failed_reprocess_empties [OF this] show ?thesis
    by (simp add: one_material_def) (simp add: sheet_def)
qed

lemma long_word_chunk:
  "\<not> blank long_word" "map ck_content (chunk_document long_word default_size default_overlap) = [long_word]"
  by code_simp+


lemma long_word_parsed: "parse_document plain_readers long_word ''txt'' = Inr long_word"
proof -
  have "normal_type ''txt'' = ''txt''" by code_simp
  then show ?thesis by (simp add: parse_document_def supported_types_def plain_readers_def)
qed

lemma plain_run:
  assumes "material_of d 1 = Some m"
  shows "\<exists>m'. material_of (process_material_safe plain_world 1 1 long_word ''txt'' ''other'' office_orgs d) 1 =
    Some m' \<and> ma_status m' = MatReady \<and> ma_chunks m' = 1"
proof -
  obtain c where c: "chunk_document long_word default_size default_overlap = [c]" "ck_content c = long_word"
    using long_word_chunk(2) by (auto simp: map_eq_Cons_conv)
  show ?thesis
    using assms by (simp add: process_material_safe_def process_material_def long_word_parsed plain_world_def
        long_word_chunk(1) c store_chunks_def embedded_in_order [OF length_model_faithful] Let_def
        material_of_status)
qed

theorem double_reprocess_duplicates_witness:
  "\<exists>d1 d2 m2. d1 = process_material_safe plain_world 1 1 long_word ''txt'' ''other'' office_orgs one_material \<and>
     d2 = process_material_safe plain_world 1 1 long_word ''txt'' ''other'' office_orgs d1 \<and>
     material_of d2 1 = Some m2 \<and> ma_chunks m2 = 1 \<and> length (chunk_rows d2 1) = 2"
proof -
  have "material_of one_material 1 = Some sheet" by (simp add: material_of_def one_material_def sheet_def)
  from plain_run [OF this] obtain d1 m1 where
    d1: "d1 = process_material_safe plain_world 1 1 long_word ''txt'' ''other'' office_orgs one_material"
      "material_of d1 1 = Some m1" "ma_status m1 = MatReady" "ma_chunks m1 = 1" by blast
  from plain_run [OF this(2)] obtain d2 m2 where
    d2: "d2 = process_material_safe plain_world 1 1 long_word ''txt'' ''other'' office_orgs d1"
      "material_of d2 1 = Some m2" "ma_status m2 = MatReady" "ma_chunks m2 = 1" by blast
  have "int (length (chunk_rows d2 1)) = ma_chunks m1 + ma_chunks m2"
    by (rule double_reprocess_duplicates [OF _ d1(1) d2(1) d1(2,3) d2(2,3)])
      (simp add: chunk_rows_def one_material_def)
  then show ?thesis using d1 d2 by auto
qed

end
