(* ===== verification/Startup.thy ===== *)
theory Startup
  imports Worker_Properties Materials "HOL-Library.List_Lexorder" "HOL-Library.Char_ord"
begin

text \<open>
  Starting the service: the migration runner of \<open>db/_migrate.py\<close> and \<open>init_database\<close> of
  \<open>db/_pool.py\<close>, with its sweeps of stale work and the migration of users without an
  organization. Opening the pool and the advisory lock, under which one start-up runs at a time,
  are not modelled.
\<close>

section \<open>The migration runner\<close>

text \<open>
  A migration file is a name and its text. \<open>exec\<close> is the effect of a script on the database;
  a failing script is rolled back as a whole (one simple query), but the scripts before it stay
  applied and recorded. The applied names are the table \<open>_migrations\<close>. A script and the insert that
  records it are two transactions: \<open>recorded\<close> says whether the insert is reached and succeeds; when it is not, the
  script has taken effect and is not remembered.
\<close>

type_synonym script = "string \<times> string"
type_synonym 'd executor = "string \<Rightarrow> 'd \<Rightarrow> string + 'd"

record 'd migrated =
  mg_applied :: "string list"
  mg_data :: 'd

definition not_recorded :: string where
  "not_recorded = ''connection was closed''"

fun apply_scripts ::
    "'d executor \<Rightarrow> (string \<Rightarrow> bool) \<Rightarrow> script list \<Rightarrow> 'd migrated \<Rightarrow> 'd migrated \<times> string option" where
  "apply_scripts exec recorded [] s = (s, None)"
| "apply_scripts exec recorded ((name, sql) # rest) s =
     (if name \<in> set (mg_applied s) then apply_scripts exec recorded rest s
      else (case exec sql (mg_data s) of
        Inl e \<Rightarrow> (s, Some e)
      | Inr d \<Rightarrow> if recorded name
          then apply_scripts exec recorded rest (s\<lparr>mg_data := d, mg_applied := mg_applied s @ [name]\<rparr>)
          else (s\<lparr>mg_data := d\<rparr>, Some not_recorded)))"

definition run_migrations ::
    "'d executor \<Rightarrow> (string \<Rightarrow> bool) \<Rightarrow> script list option \<Rightarrow> 'd migrated \<Rightarrow> 'd migrated \<times> string option" where
  "run_migrations exec recorded directory s = (case directory of
     None \<Rightarrow> (s, None)
   | Some files \<Rightarrow> apply_scripts exec recorded (sort_key fst files) s)"

section \<open>Sweeps of stale work\<close>

definition restart_message :: string where
  "restart_message = ''Server restarted during processing''"

definition sweep_jobs :: "time \<Rightarrow> job_db \<Rightarrow> job_db" where
  "sweep_jobs now d = d\<lparr>jt_rows := update_where
     (\<lambda>j. jb_status j = Processing \<and> jb_created j < now - minutes 10)
     (\<lambda>j. j\<lparr>jb_status := JobFailed, jb_error := Some restart_message, jb_completed := Some now\<rparr>)
     (jt_rows d)\<rparr>"

definition sweep_bulk :: "time \<Rightarrow> bulk_db \<Rightarrow> bulk_db" where
  "sweep_bulk now d = d\<lparr>bk_jobs := update_where
     (\<lambda>j. bj_status j = BatchProcessing \<and> bj_created j < now - minutes 30)
     (\<lambda>j. j\<lparr>bj_status := BatchFailed, bj_completed_at := Some now\<rparr>) (bk_jobs d)\<rparr>"

definition sweep_lists :: "time \<Rightarrow> list_db \<Rightarrow> list_db" where
  "sweep_lists now d = d\<lparr>ld_lists := update_where
     (\<lambda>l. ls_status l = BatchAnalyzing \<and> ls_created l < now - minutes 30)
     (\<lambda>l. l\<lparr>ls_status := BatchFailed, ls_updated := now\<rparr>) (ld_lists d)\<rparr>"

definition sweep_stale :: "time \<Rightarrow> server \<Rightarrow> server" where
  "sweep_stale now s = s\<lparr>sv_jobs := sweep_jobs now (sv_jobs s),
     sv_bulk := sweep_bulk now (sv_bulk s), sv_lists := sweep_lists now (sv_lists s)\<rparr>"

section \<open>Users without an organization\<close>

definition org_name_for :: "user_row \<Rightarrow> string" where
  "org_name_for u = (if pf_company_name (us_profile u) \<noteq> [] then pf_company_name (us_profile u)
     else if us_name u \<noteq> [] then us_name u else us_email u)"

text \<open>The unique columns of \<open>organizations\<close>: the slug, and the Stripe customer unless null.\<close>

definition org_conflict :: "user_row \<Rightarrow> org_row \<Rightarrow> bool" where
  "org_conflict u g \<longleftrightarrow> og_slug g = slug_for (us_id u) \<or> same_identity (og_stripe g) (us_stripe u)"

definition org_for :: "int \<Rightarrow> user_row \<Rightarrow> org_row" where
  "org_for i u = \<lparr>og_id = i, og_name = org_name_for u, og_slug = slug_for (us_id u),
     og_bonus = us_bonus u, og_stripe = us_stripe u\<rparr>"

text \<open>\<open>INSERT INTO org_members ... ON CONFLICT (org_id, user_id) DO NOTHING\<close>\<close>

definition add_admin :: "time \<Rightarrow> int \<Rightarrow> int \<Rightarrow> member_row list \<Rightarrow> member_row list" where
  "add_admin now oid uid ms =
     (if \<exists>m \<in> set ms. mb_org m = oid \<and> mb_user m = uid then ms
      else ms @ [\<lparr>mb_org = oid, mb_user = uid, mb_role = Admin, mb_joined = now\<rparr>])"

definition adopt_org :: "time \<Rightarrow> user_row \<Rightarrow> accounts \<Rightarrow> accounts" where
  "adopt_org now u a = (let oid = ac_next_org a in
     a\<lparr>ac_orgs := ac_orgs a @ [org_for oid u], ac_next_org := oid + 1,
       ac_users := update_where (\<lambda>x. us_id x = us_id u)
         (\<lambda>x. x\<lparr>us_org := Some oid, us_bonus := 0\<rparr>) (ac_users a),
       ac_members := add_admin now oid (us_id u) (ac_members a)\<rparr>)"

definition backfill_lists :: "int \<Rightarrow> int \<Rightarrow> list_db \<Rightarrow> list_db" where
  "backfill_lists uid oid d = d\<lparr>ld_lists := update_where
     (\<lambda>l. ls_user l = uid \<and> ls_org l = None) (\<lambda>l. l\<lparr>ls_org := Some oid\<rparr>) (ld_lists d)\<rparr>"

definition backfill_hooks :: "int \<Rightarrow> int \<Rightarrow> hook_db \<Rightarrow> hook_db" where
  "backfill_hooks uid oid d = d\<lparr>hd_hooks := update_where
     (\<lambda>h. hk_user h = uid \<and> hk_org h = None) (\<lambda>h. h\<lparr>hk_org := Some oid\<rparr>) (hd_hooks d)\<rparr>"

definition backfill_materials :: "int \<Rightarrow> int \<Rightarrow> 'e material_db \<Rightarrow> 'e material_db" where
  "backfill_materials uid oid d = d\<lparr>
     mt_rows := update_where (\<lambda>m. ma_user m = uid \<and> ma_org m = None) (\<lambda>m. m\<lparr>ma_org := Some oid\<rparr>) (mt_rows d),
     mt_chunks := update_where (\<lambda>c. ch_user c = uid \<and> ch_org c = None) (\<lambda>c. c\<lparr>ch_org := Some oid\<rparr>) (mt_chunks d)\<rparr>"

record 'e database =
  db_server :: server
  db_materials :: "'e material_db"

text \<open>The tables whose rows get the organization; \<open>works\<close> says which of the updates succeed.\<close>

definition shared_tables :: "string list" where
  "shared_tables = [''materials'', ''material_chunks'', ''lists'', ''webhooks'']"

definition backfills :: "(int \<Rightarrow> string \<Rightarrow> bool) \<Rightarrow> int \<Rightarrow> bool" where
  "backfills works uid \<longleftrightarrow> list_all (works uid) shared_tables"

text \<open>
  The transaction of one user. A unique violation aborts it, so that the query of the handler,
  which looks the existing organization up, raises as well and the transaction is rolled back. The exception of a
  failing backfill is swallowed, but the transaction is aborted all the same and its commit is a silent rollback.
\<close>

definition aborted_transaction :: string where
  "aborted_transaction = ''current transaction is aborted''"

definition migrate_user ::
    "(int \<Rightarrow> string \<Rightarrow> bool) \<Rightarrow> time \<Rightarrow> int \<Rightarrow> 'e database \<Rightarrow> string + 'e database" where
  "migrate_user works now uid b = (let s = db_server b in
     case find (\<lambda>u. us_id u = uid \<and> us_org u = None) (ac_users (sv_accounts s)) of
        None \<Rightarrow> Inr b
      | Some u \<Rightarrow>
          if \<exists>g \<in> set (ac_orgs (sv_accounts s)). org_conflict u g then Inl aborted_transaction
          else if \<not> backfills works uid then Inr b
          else let oid = ac_next_org (sv_accounts s) in
            Inr (b\<lparr>db_server := s\<lparr>sv_accounts := adopt_org now u (sv_accounts s),
                     sv_lists := backfill_lists uid oid (sv_lists s),
                     sv_hooks := backfill_hooks uid oid (sv_hooks s)\<rparr>,
                   db_materials := backfill_materials uid oid (db_materials b)\<rparr>))"

fun migrate_users ::
    "(int \<Rightarrow> string \<Rightarrow> bool) \<Rightarrow> time \<Rightarrow> int list \<Rightarrow> 'e database \<Rightarrow> 'e database \<times> string option" where
  "migrate_users works now [] b = (b, None)"
| "migrate_users works now (uid # rest) b = (case migrate_user works now uid b of
     Inl e \<Rightarrow> (b, Some e)
   | Inr b' \<Rightarrow> migrate_users works now rest b')"

definition accounts_of :: "'e database \<Rightarrow> accounts" where
  "accounts_of b = sv_accounts (db_server b)"

definition without_org :: "accounts \<Rightarrow> int list" where
  "without_org a = map us_id (filter (\<lambda>u. us_org u = None) (ac_users a))"

definition init_database ::
    "'e database executor \<Rightarrow> (string \<Rightarrow> bool) \<Rightarrow> script list option \<Rightarrow> (int \<Rightarrow> string \<Rightarrow> bool) \<Rightarrow> time \<Rightarrow>
     'e database migrated \<Rightarrow> 'e database migrated \<times> string option" where
  "init_database exec recorded directory works now m = (case run_migrations exec recorded directory m of
     (m', Some e) \<Rightarrow> (m', Some e)
   | (m', None) \<Rightarrow>
       (let b = (mg_data m')\<lparr>db_server := sweep_stale now (db_server (mg_data m'))\<rparr>;
            (b', e) = migrate_users works now (without_org (accounts_of b)) b
        in (m'\<lparr>mg_data := b'\<rparr>, e)))"

section \<open>Migrations resume where they stopped\<close>

definition extends_exec :: "'d executor \<Rightarrow> 'd executor \<Rightarrow> bool" where
  "extends_exec exec' exec \<longleftrightarrow> (\<forall>sql d d'. exec sql d = Inr d' \<longrightarrow> exec' sql d = Inr d')"

text \<open>A script that was not recorded runs again: that must not change anything.\<close>

definition rerunnable :: "'d executor \<Rightarrow> 'd executor \<Rightarrow> (string \<Rightarrow> bool) \<Rightarrow> script list \<Rightarrow> bool" where
  "rerunnable exec exec' recorded files \<longleftrightarrow> (\<forall>(name, sql) \<in> set files. recorded name \<or>
     (\<forall>d d'. exec sql d = Inr d' \<longrightarrow> exec' sql d' = Inr d'))"

lemma apply_scripts_keeps: "set (mg_applied s) \<subseteq> set (mg_applied (fst (apply_scripts exec recorded fs s)))"
proof (induction exec recorded fs s rule: apply_scripts.induct)
  case (2 exec recorded name sql rest s)
  then show ?case
    by (cases "exec sql (mg_data s)") (auto simp: subset_iff)
qed simp

lemma apply_scripts_resume:
  assumes "extends_exec exec' exec" "rerunnable exec exec' recorded fs"
  shows "apply_scripts exec' recorded' fs (fst (apply_scripts exec recorded fs s)) =
    apply_scripts exec' recorded' fs s \<or> (\<exists>f \<in> set fs. \<not> recorded' (fst f))"
  using assms
proof (induction exec recorded fs s rule: apply_scripts.induct)
  case (2 exec recorded name sql rest s)
  have rest: "rerunnable exec exec' recorded rest" using 2(4) by (simp add: rerunnable_def)
  show ?case
  proof (cases "name \<in> set (mg_applied s)")
    case True
    then have "name \<in> set (mg_applied (fst (apply_scripts exec recorded rest s)))"
      using apply_scripts_keeps [of s exec recorded rest] by auto
    then show ?thesis using 2 rest True by auto
  next
    case False
    show ?thesis
    proof (cases "exec sql (mg_data s)")
      case (Inr d)
      have again: "exec' sql (mg_data s) = Inr d"
        using 2(3) Inr by (auto simp: extends_exec_def)
      let ?s = "s\<lparr>mg_data := d, mg_applied := mg_applied s @ [name]\<rparr>"
      show ?thesis
      proof (cases "recorded name")
        case True
        have "name \<in> set (mg_applied (fst (apply_scripts exec recorded rest ?s)))"
          using apply_scripts_keeps [of ?s exec recorded rest] by auto
        then show ?thesis using 2 rest False Inr True again by auto
      next
        case no: False
        then have "exec' sql d = Inr d" using 2(4) Inr by (auto simp: rerunnable_def)
        then show ?thesis using False Inr no again by simp
      qed
    qed (use False in simp)
  qed
qed simp

text \<open>
  C29: A start-up that fails in the middle of the migrations, in a script or between a script and the
  insert that records it, leaves a state from which the next one reaches exactly what it would have reached from the
  original state, with the failing script repaired (every script that ran still running the same) and provided that a
  script that was not recorded changes nothing when it runs again.
\<close>

theorem migrations_resume:
  assumes "extends_exec exec' exec" "rerunnable exec exec' recorded files" "list_all (\<lambda>f. recorded' (fst f)) files"
  shows "run_migrations exec' recorded' (Some files) (fst (run_migrations exec recorded (Some files) s)) =
    run_migrations exec' recorded' (Some files) s"
proof -
  have "rerunnable exec exec' recorded (sort_key fst files)" using assms(2) by (simp add: rerunnable_def)
  from apply_scripts_resume [OF assms(1) this, of recorded' s] show ?thesis
    using assms(3) by (auto simp: run_migrations_def list_all_iff)
qed

section \<open>The migration of users\<close>

text \<open>The credits held in the database: those of the organizations and those still with users.\<close>

definition all_credits :: "accounts \<Rightarrow> int" where
  "all_credits a = sum_list (map og_bonus (ac_orgs a)) + sum_list (map us_bonus (ac_users a))"

lemma sum_zeroed:
  assumes "distinct (map us_id us)" "u \<in> set us"
  shows "sum_list (map us_bonus (update_where (\<lambda>x. us_id x = us_id u)
      (\<lambda>x. x\<lparr>us_org := oid, us_bonus := 0\<rparr>) us)) = sum_list (map us_bonus us) - us_bonus u"
  using assms
proof (induction us)
  case (Cons x us)
  then show ?case
  proof (cases "x = u")
    case True
    then have "update_where (\<lambda>x. us_id x = us_id u) (\<lambda>x. x\<lparr>us_org := oid, us_bonus := 0\<rparr>) us = us"
      using Cons.prems by (intro update_where_id) (force simp: image_iff)
    then show ?thesis using True by simp
  qed auto
qed simp

lemma adopt_org_credits:
  assumes "distinct (map us_id (ac_users a))" "u \<in> set (ac_users a)"
  shows "all_credits (adopt_org now u a) = all_credits a"
  using sum_zeroed [OF assms] by (simp add: all_credits_def adopt_org_def org_for_def Let_def)

text \<open>One transaction: the user found has an organization afterwards, the others are as before.\<close>

lemma migrate_user_step:
  assumes "migrate_user works now uid b = Inr b'" "distinct (map us_id (ac_users (accounts_of b)))"
  shows "all_credits (accounts_of b') = all_credits (accounts_of b)"
    and "map us_id (ac_users (accounts_of b')) = map us_id (ac_users (accounts_of b))"
    and "set (without_org (accounts_of b')) = set (without_org (accounts_of b)) - (if backfills works uid then {uid} else {})"
proof -
  let ?a = "accounts_of b"
  show "all_credits (accounts_of b') = all_credits ?a"
    using assms by (auto simp: migrate_user_def accounts_of_def Let_def adopt_org_credits dest!: find_Some_mem
        split: option.splits if_splits)
  show "map us_id (ac_users (accounts_of b')) = map us_id (ac_users ?a)"
    using assms by (auto simp: migrate_user_def accounts_of_def Let_def adopt_org_def map_update_where
        split: option.splits if_splits)
  show "set (without_org (accounts_of b')) = set (without_org ?a) - (if backfills works uid then {uid} else {})"
  proof (cases "find (\<lambda>u. us_id u = uid \<and> us_org u = None) (ac_users ?a)")
    case None
    then have "b' = b" using assms by (simp add: migrate_user_def accounts_of_def)
    then show ?thesis using None by (auto simp: without_org_def find_None_iff)
  next
    case (Some u)
    then have "us_id u = uid" by (auto dest: find_Some_mem)
    then show ?thesis using assms Some
      by (auto simp: migrate_user_def accounts_of_def Let_def adopt_org_def without_org_def set_update_where
          split: if_splits)
  qed
qed

lemma migrate_users_all:
  assumes "migrate_users works now ids b = (b', None)" "distinct (map us_id (ac_users (accounts_of b)))"
  shows "all_credits (accounts_of b') = all_credits (accounts_of b) \<and>
    map us_id (ac_users (accounts_of b')) = map us_id (ac_users (accounts_of b)) \<and>
    set (without_org (accounts_of b')) = set (without_org (accounts_of b)) - {uid \<in> set ids. backfills works uid}"
  using assms
proof (induction works now ids b rule: migrate_users.induct)
  case (2 works now uid rest b)
  then obtain b1 where b1: "migrate_user works now uid b = Inr b1" "migrate_users works now rest b1 = (b', None)"
    by (auto split: sum.splits)
  then show ?case using 2 migrate_user_step [OF b1(1)] by (auto split: if_splits)
qed simp

lemma sweep_stale_accounts [simp]: "sv_accounts (sweep_stale now s) = sv_accounts s"
  by (simp add: sweep_stale_def)

lemma accounts_of_sweep [simp]: "accounts_of (b\<lparr>db_server := sweep_stale now (db_server b)\<rparr>) = accounts_of b"
  by (simp add: accounts_of_def sweep_stale_def)

text \<open>
  C30: A start-up that ends without an exception gives every user an organization, except those whose
  backfill failed (their transaction is rolled back without a word), keeps the users that the migration scripts left
  and neither makes nor loses a credit: what the users held themselves is now with their organizations.
\<close>

theorem startup_moves_all_credits:
  assumes "init_database exec recorded directory works now m = (m', None)"
    and "distinct (map us_id (ac_users (accounts_of (mg_data (fst (run_migrations exec recorded directory m))))))"
  shows "set (without_org (accounts_of (mg_data m'))) =
      {uid \<in> set (without_org (accounts_of (mg_data (fst (run_migrations exec recorded directory m))))).
        \<not> backfills works uid} \<and>
    all_credits (accounts_of (mg_data m')) =
      all_credits (accounts_of (mg_data (fst (run_migrations exec recorded directory m)))) \<and>
    map us_id (ac_users (accounts_of (mg_data m'))) =
      map us_id (ac_users (accounts_of (mg_data (fst (run_migrations exec recorded directory m)))))"
proof -
  obtain m1 where m1: "run_migrations exec recorded directory m = (m1, None)"
    using assms(1) by (cases "run_migrations exec recorded directory m")
      (auto simp: init_database_def split: option.splits)
  let ?b = "(mg_data m1)\<lparr>db_server := sweep_stale now (db_server (mg_data m1))\<rparr>"
  obtain b' where b': "migrate_users works now (without_org (accounts_of ?b)) ?b = (b', None)" "mg_data m' = b'"
    using assms(1) m1 by (auto simp: init_database_def Let_def split: prod.splits)
  then show ?thesis using migrate_users_all [OF b'(1)] assms(2) m1 by auto
qed

section \<open>What a start-up changes\<close>

text \<open>
  With all scripts applied, a start-up leaves the queue alone; of the bulk jobs it only fails those that
  were processing for half an hour.
\<close>

lemma apply_scripts_applied:
  "fst ` set fs \<subseteq> set (mg_applied m) \<Longrightarrow> apply_scripts exec recorded fs m = (m, None)"
  by (induction exec recorded fs m rule: apply_scripts.induct) auto

lemma migrate_users_server:
  "sv_queue (db_server (fst (migrate_users works now ids b))) = sv_queue (db_server b) \<and>
   sv_bulk (db_server (fst (migrate_users works now ids b))) = sv_bulk (db_server b)"
proof (induction works now ids b rule: migrate_users.induct)
  case (2 works now uid rest b)
  have "sv_queue (db_server b') = sv_queue (db_server b) \<and> sv_bulk (db_server b') = sv_bulk (db_server b)"
    if "migrate_user works now uid b = Inr b'" for b'
    using that by (auto simp: migrate_user_def Let_def split: option.splits if_splits)
  then show ?case using 2 by (auto split: sum.splits)
qed simp

lemma startup_server:
  assumes "init_database exec recorded (Some files) works now m = (m', e)" "fst ` set files \<subseteq> set (mg_applied m)"
  shows "sv_queue (db_server (mg_data m')) = sv_queue (db_server (mg_data m))"
    and "sv_bulk (db_server (mg_data m')) = sweep_bulk now (sv_bulk (db_server (mg_data m)))"
proof -
  have "run_migrations exec recorded (Some files) m = (m, None)"
    using assms(2) by (simp add: run_migrations_def apply_scripts_applied [of "sort_key fst files"])
  moreover define b where "b = (mg_data m)\<lparr>db_server := sweep_stale now (db_server (mg_data m))\<rparr>"
  ultimately have "mg_data m' = fst (migrate_users works now (without_org (accounts_of b)) b)"
    using assms(1) by (cases "migrate_users works now (without_org (accounts_of b)) b")
      (auto simp: init_database_def Let_def simp flip: b_def)
  then show "sv_queue (db_server (mg_data m')) = sv_queue (db_server (mg_data m))"
    and "sv_bulk (db_server (mg_data m')) = sweep_bulk now (sv_bulk (db_server (mg_data m)))"
    using migrate_users_server [of works now "without_org (accounts_of b)" b] by (simp_all add: b_def sweep_stale_def)
qed

section \<open>A conflicting organization\<close>

lemma migrate_user_no_conflict:
  assumes "migrate_user works now (us_id u) b = Inr b'" "distinct (map us_id (ac_users (accounts_of b)))"
    and "u \<in> set (ac_users (accounts_of b))" "us_org u = None"
  shows "\<not> (\<exists>g \<in> set (ac_orgs (accounts_of b)). org_conflict u g)"
proof -
  obtain x where x: "find (\<lambda>v. us_id v = us_id u \<and> us_org v = None) (ac_users (accounts_of b)) = Some x"
    using assms(3,4) by (cases "find (\<lambda>v. us_id v = us_id u \<and> us_org v = None) (ac_users (accounts_of b))")
      (auto simp: find_None_iff)
  then have "x = u" using find_Some_mem [OF x] distinct_key_eq [OF assms(2) _ assms(3)] by blast
  then show ?thesis using x assms(1) by (auto simp: migrate_user_def accounts_of_def Let_def split: if_splits)
qed

lemma migrate_user_others:
  assumes "migrate_user works now uid b = Inr b'" "us_id u \<noteq> uid" "u \<in> set (ac_users (accounts_of b))"
  shows "u \<in> set (ac_users (accounts_of b'))"
    and "set (ac_orgs (accounts_of b)) \<subseteq> set (ac_orgs (accounts_of b'))"
  using assms
  by (auto simp: migrate_user_def accounts_of_def Let_def adopt_org_def set_update_where dest!: find_Some_mem
      split: option.splits if_splits)

lemma migrate_users_no_conflict:
  assumes "migrate_users works now ids b = (b', None)" "distinct (map us_id (ac_users (accounts_of b)))"
    and "u \<in> set (ac_users (accounts_of b))" "us_org u = None" "us_id u \<in> set ids"
  shows "\<not> (\<exists>g \<in> set (ac_orgs (accounts_of b)). org_conflict u g)"
  using assms
proof (induction works now ids b rule: migrate_users.induct)
  case (2 works now uid rest b)
  then obtain b1 where b1: "migrate_user works now uid b = Inr b1" "migrate_users works now rest b1 = (b', None)"
    by (auto split: sum.splits)
  show ?case
  proof (cases "uid = us_id u")
    case True
    then show ?thesis using migrate_user_no_conflict b1(1) 2 by blast
  next
    case False
    then show ?thesis
      using 2 b1 migrate_user_step(2) [OF b1(1)] migrate_user_others [OF b1(1)] by fastforce
  qed
qed simp

text \<open>
  A user without an organization whose slug or Stripe customer some organization already has:
  start-up raises. The handler meant to adopt the existing organization never gets to, its query
  running in the aborted transaction.
\<close>

theorem conflict_stops_startup:
  assumes "run_migrations exec recorded directory m = (m1, None)"
    and "distinct (map us_id (ac_users (accounts_of (mg_data m1))))"
    and "u \<in> set (ac_users (accounts_of (mg_data m1)))" "us_org u = None"
    and "g \<in> set (ac_orgs (accounts_of (mg_data m1)))" "org_conflict u g"
  shows "\<exists>m' e. init_database exec recorded directory works now m = (m', Some e)"
proof -
  let ?b = "(mg_data m1)\<lparr>db_server := sweep_stale now (db_server (mg_data m1))\<rparr>"
  have "migrate_users works now (without_org (accounts_of ?b)) ?b \<noteq> (b', None)" for b'
    using migrate_users_no_conflict [of works now _ ?b b' u] assms by (auto simp: without_org_def)
  then obtain b' e where "migrate_users works now (without_org (accounts_of ?b)) ?b = (b', Some e)"
    by (metis option.exhaust surj_pair)
  then show ?thesis using assms(1) by (simp add: init_database_def Let_def)
qed

text \<open>
  A script that creates a table without \<open>IF NOT EXISTS\<close>: when its record is lost, every later start-up
  fails on it.
\<close>

theorem lost_record_stops_startup:
  assumes "sort_key fst files = (name, sql) # rest" "name \<notin> set (mg_applied m)" "exec sql (mg_data m) = Inr d"
    "\<not> recorded name" "exec sql d = Inl e"
  shows "run_migrations exec recorded' (Some files) (fst (run_migrations exec recorded (Some files) m)) =
    (fst (run_migrations exec recorded (Some files) m), Some e)"
  using assms by (simp add: run_migrations_def)

section \<open>A start-up at work\<close>

text \<open>
  An executor that knows two scripts, before and after the repair of the second. The office of
  \<open>Credits\<close> has a user without an organization, the clash a user whose slug is taken.
\<close>

definition broken_exec :: "nat database executor" where
  "broken_exec sql s = (if sql = ''CREATE'' then Inr s else Inl ''syntax error'')"

definition repaired_exec :: "nat database executor" where
  "repaired_exec sql s = (if sql \<in> {''CREATE'', ''ALTER''} then Inr s else Inl ''syntax error'')"

definition two_scripts :: "script list" where
  "two_scripts = [(''2.sql'', ''ALTER''), (''1.sql'', ''CREATE'')]"

definition no_materials :: "nat material_db" where
  "no_materials = \<lparr>mt_rows = [], mt_chunks = [], mt_next = 1, mt_files = []\<rparr>"

definition started_with :: "server \<Rightarrow> nat database migrated" where
  "started_with s = \<lparr>mg_applied = [], mg_data = \<lparr>db_server = s, db_materials = no_materials\<rparr>\<rparr>"

definition fresh_start :: "nat database migrated" where
  "fresh_start = started_with (server_with [])"

definition clash_start :: "nat database migrated" where
  "clash_start = started_with ((server_with [])\<lparr>sv_accounts := office\<lparr>ac_orgs :=
     ac_orgs office @ [\<lparr>og_id = 9, og_name = ''C'', og_slug = slug_for 3, og_bonus = 0, og_stripe = None\<rparr>]\<rparr>\<rparr>)"

lemma repaired_extends: "extends_exec repaired_exec broken_exec"
  by (simp add: extends_exec_def repaired_exec_def broken_exec_def)

lemma repaired_rerunnable: "rerunnable broken_exec repaired_exec recorded files"
  by (auto simp: rerunnable_def repaired_exec_def broken_exec_def)

lemma scripts_sorted: "sort_key fst two_scripts = [(''1.sql'', ''CREATE''), (''2.sql'', ''ALTER'')]"
  by (simp add: two_scripts_def less_eq_char_simp)

lemma repaired_run:
  "run_migrations repaired_exec (\<lambda>n. True) (Some two_scripts) \<lparr>mg_applied = [], mg_data = s\<rparr> =
     (\<lparr>mg_applied = [''1.sql'', ''2.sql''], mg_data = s\<rparr>, None)"
  by (simp add: run_migrations_def scripts_sorted repaired_exec_def)

text \<open>The first start-up loses the record of the first script.\<close>

lemma broken_run:
  "run_migrations broken_exec (\<lambda>n. False) (Some two_scripts) fresh_start = (fresh_start, Some not_recorded)"
  by (simp add: run_migrations_def scripts_sorted broken_exec_def fresh_start_def started_with_def)

theorem migrations_resume_witness:
  "run_migrations broken_exec (\<lambda>n. False) (Some two_scripts) fresh_start = (fresh_start, Some not_recorded) \<and>
   run_migrations repaired_exec (\<lambda>n. True) (Some two_scripts)
     (fst (run_migrations broken_exec (\<lambda>n. False) (Some two_scripts) fresh_start)) =
     (fresh_start\<lparr>mg_applied := [''1.sql'', ''2.sql'']\<rparr>, None)"
proof -
  have "list_all (\<lambda>f. (\<lambda>n. True) (fst f)) two_scripts" by (simp add: list_all_iff)
  from migrations_resume [OF repaired_extends repaired_rerunnable this, of "\<lambda>n. False" fresh_start]
  show ?thesis
    using repaired_run [of "mg_data fresh_start"] broken_run by (simp add: fresh_start_def started_with_def)
qed

lemma fresh_migrates:
  "\<exists>m'. init_database repaired_exec (\<lambda>n. True) (Some two_scripts) (\<lambda>u t. True) 5 fresh_start = (m', None)"
  by (simp add: init_database_def fresh_start_def started_with_def repaired_run Let_def split: prod.split)
    (simp add: server_with_def without_org_def office_def new_user_def migrate_user_def accounts_of_def org_conflict_def
      same_identity_def slug_for_def str_int_def adopt_org_def str_nat.simps digit_char_def backfills_def
      shared_tables_def Let_def)

theorem startup_moves_all_credits_witness:
  "\<exists>m'. init_database repaired_exec (\<lambda>n. True) (Some two_scripts) (\<lambda>u t. True) 5 fresh_start = (m', None) \<and>
     without_org (accounts_of (mg_data fresh_start)) = [3] \<and>
     without_org (accounts_of (mg_data m')) = [] \<and>
     all_credits (accounts_of (mg_data m')) = 250"
proof -
  obtain m' where m': "init_database repaired_exec (\<lambda>n. True) (Some two_scripts) (\<lambda>u t. True) 5 fresh_start = (m', None)"
    using fresh_migrates by blast
  have "distinct (map us_id (ac_users (accounts_of (mg_data (fst (run_migrations repaired_exec (\<lambda>n. True)
      (Some two_scripts) fresh_start))))))"
    by (simp add: fresh_start_def started_with_def repaired_run server_with_def office_def new_user_def accounts_of_def)
  from startup_moves_all_credits [OF m' this] m' show ?thesis
    by (simp add: fresh_start_def started_with_def repaired_run server_with_def office_def new_user_def
        all_credits_def without_org_def accounts_of_def backfills_def shared_tables_def)
qed

theorem conflict_stops_startup_witness:
  "\<exists>m' e. init_database repaired_exec (\<lambda>n. True) (Some two_scripts) (\<lambda>u t. True) 5 clash_start = (m', Some e)"
proof -
  let ?u = "new_user 3 ''c@x'' ''C'' [] (Some ''g3'') None"
  let ?m = "clash_start\<lparr>mg_applied := [''1.sql'', ''2.sql'']\<rparr>"
  have r: "run_migrations repaired_exec (\<lambda>n. True) (Some two_scripts) clash_start = (?m, None)"
    using repaired_run [of "mg_data clash_start"] by (simp add: clash_start_def started_with_def)
  have d: "distinct (map us_id (ac_users (accounts_of (mg_data ?m))))"
    "?u \<in> set (ac_users (accounts_of (mg_data ?m)))" "us_org ?u = None"
    by (simp_all add: clash_start_def started_with_def server_with_def office_def new_user_def accounts_of_def)
  have g: "\<lparr>og_id = 9, og_name = ''C'', og_slug = slug_for 3, og_bonus = 0, og_stripe = None\<rparr>
      \<in> set (ac_orgs (accounts_of (mg_data ?m)))"
    by (simp add: clash_start_def started_with_def accounts_of_def)
  show ?thesis
    by (rule conflict_stops_startup [OF r d g]) (simp add: org_conflict_def new_user_def)
qed

end
