(* ===== verification/Api_Properties.thy ===== *)
theory Api_Properties
  imports Api_Isolation Api_Frames Startup
begin

text \<open>
  The whole service, requests, the worker and start-ups on one database: what no run of the service does, what requests cost, and what
  becomes of credits and lists when errors meet.
\<close>

section \<open>The service\<close>

text \<open>
  Requests, steps of the worker and start-ups interleave on the database and the tasks in flight. The
  worker also purges expired idempotency keys. A start-up of the API or of a worker runs \<open>init_database\<close>, here
  with all its migration scripts applied before; it may raise half way, and the tasks in flight of the
  processes that died are gone, their rows still running. The vectors of the stored chunks are strings here.
\<close>

inductive service_step :: "api \<times> task list \<Rightarrow> api \<times> task list \<Rightarrow> bool" where
  step_request: "serve check authorization ep q s = (s', answer) \<Longrightarrow> service_step (s, ts) (s', ts)"
| step_worker: "worker_step (ap_server s, ts) (v, ts') \<Longrightarrow> service_step (s, ts) (s\<lparr>ap_server := v\<rparr>, ts')"
| step_purge: "service_step (s, ts) (s\<lparr>ap_idem := fst (cleanup_expired_keys now (ap_idem s))\<rparr>, ts)"
| step_startup: "db_server (mg_data (m :: string database migrated)) = ap_server s \<Longrightarrow> fst ` set files \<subseteq> set (mg_applied m) \<Longrightarrow>
    init_database exec recorded (Some files) works now m = (m', e) \<Longrightarrow> set ts' \<subseteq> set ts \<Longrightarrow>
    service_step (s, ts) (s\<lparr>ap_server := db_server (mg_data m')\<rparr>, ts')"

inductive_cases service_stepE: "service_step s s'"

section \<open>Runs of the service\<close>

lemma serve_keeps: "keeps (ap_server s) (ap_server (fst (serve check authorization ep q s)))"
proof -
  have "keeps (ap_server s) (ap_server (fst (route ep q' (s\<lparr>ap_keys := d\<rparr>))))" for q' d
    using route_keeps [of "s\<lparr>ap_keys := d\<rparr>" ep q'] by simp
  then show ?thesis by (simp add: serve_def keeping.refl split: prod.split sum.split)
qed

lemma none_completed_statuses:
  "bulk_statuses v' = bulk_statuses v \<Longrightarrow> none_completed v' = none_completed v"
  by (simp add: processing_statuses)

lemma none_completed_sweep: "none_completed v \<Longrightarrow> sv_bulk v' = sweep_bulk now (sv_bulk v) \<Longrightarrow> none_completed v'"
  by (auto simp: none_completed_def sweep_bulk_def list_all_iff set_update_where)

text \<open>What every step of the service keeps, and what it keeps while the tasks in flight own their rows\<close>

lemma service_step_ok:
  assumes "service_step (s, ts) (s', ts')" "server_ok (ap_server s)" "flight_ok (sv_queue (ap_server s)) ts"
  shows "server_ok (ap_server s') \<and> flight_ok (sv_queue (ap_server s')) ts'"
    and "still_owned (sv_queue (ap_server s)) ts \<longrightarrow> none_completed (ap_server s) \<longrightarrow> none_completed (ap_server s')"
proof -
  have "(server_ok (ap_server s') \<and> flight_ok (sv_queue (ap_server s')) ts') \<and>
      (still_owned (sv_queue (ap_server s)) ts \<longrightarrow> none_completed (ap_server s) \<longrightarrow> none_completed (ap_server s'))"
    using assms(1)
  proof (cases rule: service_step.cases)
    case (step_request check authorization ep q answer)
    then have k: "keeps (ap_server s) (ap_server s')"
      using serve_keeps [of s check authorization ep q] by simp
    then have "flight_ok (sv_queue (ap_server s')) ts"
      using flight_ok_derived [OF assms(3) derived_grows] by (simp add: keeps_def)
    then show ?thesis using k assms(2) queue_typed_grows step_request(1) by (auto simp: keeps_def server_ok_def grows_def)
  next
    case (step_worker v)
    then show ?thesis using worker_step_ok [OF step_worker(2) assms(2,3)] none_completed_statuses [of v "ap_server s"]
      by simp
  next
    case (step_purge now)
    then show ?thesis using assms(2,3) by simp
  next
    case (step_startup m files exec recorded works now m' e)
    note st = startup_server [OF step_startup(4,3)]
    have "flight_ok (sv_queue (ap_server s')) ts'"
      using flight_ok_subset [OF assms(3) step_startup(5)] st(1) step_startup(1,2) by simp
    moreover have "none_completed (ap_server s')" if "none_completed (ap_server s)"
      using none_completed_sweep [OF that, of "db_server (mg_data m')" now] st(2) step_startup(1,2) by simp
    ultimately show ?thesis using assms(2) st(1) step_startup(1,2) by (simp add: server_ok_def)
  qed
  then show "server_ok (ap_server s') \<and> flight_ok (sv_queue (ap_server s')) ts'"
    and "still_owned (sv_queue (ap_server s)) ts \<longrightarrow> none_completed (ap_server s) \<longrightarrow> none_completed (ap_server s')"
    by simp_all
qed

lemma service_run_ok:
  assumes "service_step\<^sup>*\<^sup>* x y" "server_ok (ap_server (fst x))" "flight_ok (sv_queue (ap_server (fst x))) (snd x)"
  shows "server_ok (ap_server (fst y)) \<and> flight_ok (sv_queue (ap_server (fst y))) (snd y)"
  using assms
proof (induction rule: rtranclp_induct)
  case (step y z)
  then show ?case using service_step_ok(1) [of "fst y" "snd y" "fst z" "snd z"] by simp
qed simp

text \<open>A step after which every task in flight still belongs to the worker that claimed it\<close>

definition owned_service_step :: "api \<times> task list \<Rightarrow> api \<times> task list \<Rightarrow> bool" where
  "owned_service_step x y \<longleftrightarrow> service_step x y \<and> still_owned (sv_queue (ap_server (fst y))) (snd y)"

lemma owned_run_ok:
  assumes "owned_service_step\<^sup>*\<^sup>* (s, []) y" "server_ok (ap_server s)" "none_completed (ap_server s)"
  shows "(server_ok (ap_server (fst y)) \<and> flight_ok (sv_queue (ap_server (fst y))) (snd y)) \<and>
    still_owned (sv_queue (ap_server (fst y))) (snd y) \<and> none_completed (ap_server (fst y))"
  using assms
proof (induction rule: rtranclp_induct)
  case base
  then show ?case by (simp add: flight_ok_def still_owned_def)
next
  case (step y z)
  then show ?case using service_step_ok [of "fst y" "snd y" "fst z" "snd z"] by (simp add: owned_service_step_def)
qed

text \<open>
  C21: in any run of the whole service, requests of any kind, start-ups and steps of the worker in any
  order, with any tasks in flight, every task a worker claims carries the arguments of a job
  function: what the endpoints enqueue is what the dispatcher reads.
\<close>

theorem service_tasks_dispatch:
  assumes "queue_wf (sv_queue (ap_server s))" "queue_typed (sv_queue (ap_server s))" "service_step\<^sup>*\<^sup>* (s, []) (s', ts)"
    and "claim_task wk now locked tie (ap_server s') = (v, Some t)"
  shows "parse_call (tk_type t) (tk_payload t) \<noteq> None"
proof -
  have "server_ok (ap_server s')" using service_run_ok [OF assms(3)] assms(1,2) by (simp add: server_ok_def flight_ok_def)
  then show ?thesis
    using claimed_row(3) [OF _ _ claim_task_frame(3) [OF assms(4)]] by (simp add: server_ok_def dispatchable_def)
qed

text \<open>
  C22: no bulk job is ever completed while the tasks in flight keep their rows (none is requeued as stale):
  in any such run of requests, start-ups and worker steps, whatever the items did, a bulk job is
  processing, or failed by a start-up.
\<close>

theorem bulk_jobs_never_complete:
  assumes "queue_wf (sv_queue (ap_server s))" "queue_typed (sv_queue (ap_server s))"
    and "owned_service_step\<^sup>*\<^sup>* (s, []) (s', ts)"
    and "list_all (\<lambda>j. bj_status j = BatchProcessing \<or> bj_status j = BatchFailed) (bk_jobs (sv_bulk (ap_server s)))"
  shows "list_all (\<lambda>j. bj_status j = BatchProcessing \<or> bj_status j = BatchFailed) (bk_jobs (sv_bulk (ap_server s')))"
  using owned_run_ok [OF assms(3)] assms(1,2,4) by (simp add: server_ok_def none_completed_def)

section \<open>What a research request costs\<close>

text \<open>
  C23: a research request charges if and only if it enqueues, unless the caller is an administrator: either
  neither the queue, nor the jobs, nor any balance changed (it was limited, replayed, refused or answered
  from the cache), or it was accepted with a fresh job, exactly one task for that job, and a price of
  100 cents that the balance of the organization covered; only a caller whose flag says administrator
  pays nothing.
\<close>

theorem research_charged_iff_enqueued:
  assumes "create_research q raw s = (s', answer)" "ap_server s = v" "ap_server s' = v'"
  shows "(sv_queue v' = sv_queue v \<and> sv_jobs v' = sv_jobs v \<and>
      balance_of (sv_accounts v') = balance_of (sv_accounts v)) \<or>
    (\<exists>j url adm. admin_flag (rq_live q) (caller q) (sv_accounts v) = Some adm \<and>
      answer = (202, started_research j) \<and>
      insert_job (request_time q) (caller q) (Some (rq_key q)) url (sv_jobs v) = (sv_jobs v', j) \<and>
      sv_queue v' = fst (enqueue (request_time q) ''research'' (research_task q j url adm) (sv_queue v)) \<and>
      balance_of (sv_accounts v') = (if adm then balance_of (sv_accounts v)
        else (case org_of_user (sv_accounts v) (caller q) of
          None \<Rightarrow> \<lambda>_. None
        | Some oid \<Rightarrow> (balance_of (sv_accounts v))(oid \<mapsto> the (balance_of (sv_accounts v) oid) - 100))) \<and>
      (adm \<or> affordable (sv_accounts v) (caller q) 100))"
    (is "?same v v' \<or> ?new v v' answer")
proof (cases rule: limited_cases [of q ResearchLimiter "posted q (start_research q raw)" s])
  case refused
  then show ?thesis using assms by (simp add: create_research_def)
next
  case (passed hits)
  define s0 where "s0 = s\<lparr>ap_hits := hits\<rparr>"
  have v: "ap_server s0 = v" using assms(2) by (simp add: s0_def)
  have p: "posted q (start_research q raw) s0 = (s', answer)"
    using assms(1) passed by (simp add: create_research_def s0_def)
  show ?thesis
  proof (cases rule: posted_cases [of q "start_research q raw" s0])
    case (answered d)
    then show ?thesis using p v assms(3) by auto
  next
    case (ran d)
    have s': "ap_server (fst (start_research q raw s0)) = v'" using ran(1) p assms(3) by auto
    have a: "answer = (case snd (start_research q raw s0) of Inl x \<Rightarrow> x | Inr x \<Rightarrow> x)" using ran(2) p by simp
    show ?thesis
    proof (cases rule: start_research_cases [of q raw s0])
      case nothing
      then show ?thesis using s' v by simp
    next
      case (refused url s1 e)
      have "?same v (ap_server s1)"
        by (cases rule: reserve_job_cases [of q url s0]) (use refused(1) v in auto)
      then show ?thesis using refused(2) s' by simp
    next
      case (started url s1 j adm)
      have "?new v v' answer"
        by (cases rule: reserve_job_cases [of q url s0])
          (use started(1) s' a v in \<open>auto simp: started(2) create_tracked_task_def affordable_def
             intro!: exI [of _ j] exI [of _ url] exI [of _ adm]\<close>)
      then show ?thesis ..
    qed
  qed
qed

section \<open>Time-outs on the read path\<close>

text \<open>
  A poll that is not limited and finds a job of its caller overdue: the job is failed, the charge
  given back unless the caller is an administrator, and nothing else happens to the accounts.
\<close>

lemma expire_overdue:
  assumes "jb_status r = Processing" "timed_out q (jb_created r)"
    and "snd (get_user_usage (rq_live q) (caller q) (sv_accounts (ap_server s))) = Some g" "\<not> ug_is_admin g"
    and "expire_job q r s = (s', x)"
  shows "balance_of (sv_accounts (ap_server s')) = balance_of (refund_credit (wo_ledger (rq_world q)) (caller q) 100
      (sv_accounts (ap_server s)))"
    and "org_of_user (sv_accounts (ap_server s')) = org_of_user (sv_accounts (ap_server s))"
    and "sv_queue (ap_server s') = sv_queue (ap_server s)"
    and "sv_jobs (ap_server s') = update_job_status (request_time q) (jb_id r) JobFailed None
      (Some ''Job timed out after 10 minutes'') (sv_jobs (ap_server s))"
proof -
  define s1 where "s1 = on_server (\<lambda>v. v\<lparr>sv_jobs := update_job_status (request_time q) (jb_id r) JobFailed None
      (Some ''Job timed out after 10 minutes'') (sv_jobs v)\<rparr>) s"
  obtain a where a: "get_user_usage (rq_live q) (caller q) (sv_accounts (ap_server s)) = (a, Some g)"
    using assms(3) by (cases "get_user_usage (rq_live q) (caller q) (sv_accounts (ap_server s))") simp
  have b: "balance_of a = balance_of (sv_accounts (ap_server s))" "org_of_user a = org_of_user (sv_accounts (ap_server s))"
    using usage_balances [of "rq_live q" "caller q"] usage_org [of "rq_live q" "caller q"] a by (metis fst_conv)+
  have c: "caller_usage q s1 = (on_server (\<lambda>v. v\<lparr>sv_accounts := a\<rparr>) s1, Some g)"
    using a by (simp add: caller_usage_def s1_def)
  have s': "s' = refund_caller q 100 (on_server (\<lambda>v. v\<lparr>sv_accounts := a\<rparr>) s1)"
    using assms(5) by (simp add: expire_job_def assms(1,2,4) s1_def [symmetric] c Let_def)
  have acc: "sv_accounts (ap_server s') = refund_credit (wo_ledger (rq_world q)) (caller q) 100 a"
    by (simp add: s' refund_caller_def refund_def)
  show "balance_of (sv_accounts (ap_server s')) = balance_of (refund_credit (wo_ledger (rq_world q)) (caller q) 100
      (sv_accounts (ap_server s)))"
    by (simp add: acc refund_credit_balance b split: option.split)
  show "org_of_user (sv_accounts (ap_server s')) = org_of_user (sv_accounts (ap_server s))"
    by (simp add: acc refund_credit_pool b)
  show "sv_queue (ap_server s') = sv_queue (ap_server s)" by (simp add: s' s1_def)
  show "sv_jobs (ap_server s') = update_job_status (request_time q) (jb_id r) JobFailed None
      (Some ''Job timed out after 10 minutes'') (sv_jobs (ap_server s))"
    by (simp add: s' s1_def)
qed

lemma get_job_status_passed:
  assumes "get_job_status q i s = (s', (200, body))"
    and "get_research_job i (caller q) (sv_jobs (ap_server s)) = Some r"
  obtains hits r' where "expire_job q r (s\<lparr>ap_hits := hits\<rparr>) = (s', Inr r')" "body = job_body q r' s'"
proof (cases rule: limited_cases [of q DefaultLimiter "\<lambda>s. case get_research_job i (caller q) (sv_jobs (ap_server s)) of
       None \<Rightarrow> (s, api_failure q ''not_found'' ''Job not found'' 404)
     | Some j \<Rightarrow> (case expire_job q j s of (s1, Inl e) \<Rightarrow> (s1, e) | (s1, Inr j') \<Rightarrow> (s1, (200, job_body q j' s1)))" s])
  case refused
  then show thesis using assms(1) by (simp add: get_job_status_def server_error_def api_failure_def)
next
  case (passed hits)
  obtain s1 x where e: "expire_job q r (s\<lparr>ap_hits := hits\<rparr>) = (s1, x)" by (cases "expire_job q r (s\<lparr>ap_hits := hits\<rparr>)")
  have err: "x \<noteq> Inl (200, body)"
    using e by (auto simp: expire_job_def Let_def server_error_def api_failure_def split: if_splits prod.splits option.splits)
  show thesis
    using assms passed e err by (intro that [of hits "case x of Inr y \<Rightarrow> y"])
      (auto simp: get_job_status_def split: sum.splits)
qed

text \<open>
  C28: one charge, two refunds: while a research task runs on its last attempt, a poll of its
  overdue job fails and refunds it; when the pipeline then fails, the worker refunds it again, and
  the organization ends with two prices more than before the poll.
\<close>

theorem overdue_job_refunded_twice:
  assumes "queue_wf (sv_queue (ap_server s))" "task_of (sv_queue (ap_server s)) (tk_id t) = Some t"
    and "tk_status t = Running" "tk_attempts t = tk_max t" "\<not> payload_admin (tk_payload t)"
    and "parse_call (tk_type t) (tk_payload t) = Some (CallResearch j (caller q) k url)"
    and "get_research_job j (caller q) (sv_jobs (ap_server s)) = Some r"
    and "jb_status r = Processing" "timed_out q (jb_created r)"
    and "snd (get_user_usage (rq_live q) (caller q) (sv_accounts (ap_server s))) = Some g" "\<not> ug_is_admin g"
    and "get_job_status q j s = (s', (200, body))"
    and "run_research_pipeline w (caller q) (Some j) (ap_server s') = (v, Inl e)"
    and "org_of_user (sv_accounts (ap_server s)) (caller q) = Some oid"
    and "balance_of (sv_accounts (ap_server s)) oid = Some b"
  shows "balance_of (sv_accounts (dispatch w t (ap_server s'))) oid = Some (b + 200)"
proof -
  obtain hits r' where x: "expire_job q r (s\<lparr>ap_hits := hits\<rparr>) = (s', Inr r')"
    using get_job_status_passed [OF assms(12,7)] by blast
  have "snd (get_user_usage (rq_live q) (caller q) (sv_accounts (ap_server (s\<lparr>ap_hits := hits\<rparr>)))) = Some g"
    using assms(10) by simp
  note o = expire_overdue [OF assms(8,9) this assms(11) x]
  have q: "queue_wf (sv_queue (ap_server s'))" "task_of (sv_queue (ap_server s')) (tk_id t) = Some t"
    using assms(1,2) o(3) by simp_all
  have "sv_accounts (dispatch w t (ap_server s')) =
      refund_credit (wo_ledger w) (caller q) 100 (sv_accounts (ap_server s'))"
    using research_failure [OF q assms(3,6,13)] assms(4,5) by simp
  then show ?thesis using o(1,2) assms(14,15) by (simp add: refund_credit_balance)
qed

section \<open>Starting the analysis of a list\<close>

lemma analyze_failed:
  assumes "analyze_work q lid s = (s1, Inl (code, body))" "code \<in> {402, 422}"
  shows "sv_lists (ap_server s1) = fst (try_start_list_analysis (request_time q) lid (sv_lists (ap_server s)))"
proof (cases "get_list lid (caller q) (sv_accounts (ap_server s)) (sv_lists (ap_server s))")
  case None
  then show ?thesis using assms by (simp add: analyze_work_def api_failure_def)
next
  case (Some l)
  obtain d ok where t: "try_start_list_analysis (request_time q) lid (sv_lists (ap_server s)) = (d, ok)" by fastforce
  define s0 where "s0 = s\<lparr>ap_server := (ap_server s)\<lparr>sv_lists := d\<rparr>\<rparr>"
  have c: "sv_lists (ap_server s') = d" if r: "charge_analysis q l n s0 = (s', Inl e)" for n s' e
  proof -
    obtain s2 u where u: "caller_usage q s0 = (s2, u)" by (cases "caller_usage q s0")
    have l2: "sv_lists (ap_server s2) = d" using caller_usage_frame [OF u] by (simp add: s0_def)
    show ?thesis
      using r l2 charge_caller_frame [of q "n * 100" s2]
      by (auto simp: charge_analysis_def u split: option.splits if_splits prod.splits bool.splits)
  qed
  have "ok" using assms t by (cases ok) (simp_all add: analyze_work_def Some api_failure_def)
  moreover have "sv_lists (ap_server s1) = d"
    using assms(1) \<open>ok\<close> c by (auto simp: analyze_work_def Some t s0_def Let_def split: option.splits if_splits)
  ultimately show ?thesis using t by simp
qed

lemma analyze_started_again:
  shows "snd (try_start_list_analysis now' lid (fst (try_start_list_analysis now lid d))) = False"
proof -
  define P :: "list_row \<Rightarrow> bool" where "P = (\<lambda>l. ls_id l = lid \<and> ls_status l \<noteq> BatchAnalyzing)"
  have "\<not> P x" if "x \<in> set (update_where P (\<lambda>l. l\<lparr>ls_status := BatchAnalyzing, ls_updated := now\<rparr>) ls)" for x ls
    using that by (induction ls) (auto simp: P_def split: if_splits)
  then show ?thesis by (auto simp: try_start_list_analysis_def Let_def P_def [symmetric])
qed

lemma unkeyed_endpoint:
  assumes "rq_header p = None" "limited p n (posted p run) x = (y, answer)"
  obtains (limited) "fst answer = 429" "ap_server y = ap_server x"
  | (ran) hits z r where "run (x\<lparr>ap_hits := hits\<rparr>) = (z, r)" "ap_server y = ap_server z"
      "answer = (case r of Inl a \<Rightarrow> a | Inr a \<Rightarrow> a)"
proof (cases rule: limited_cases [of p n "posted p run" x])
  case refused
  then show thesis using limited assms(2) by simp
next
  case (passed hits)
  obtain z r where r: "run (x\<lparr>ap_hits := hits\<rparr>) = (z, r)" by fastforce
  then show thesis
    using ran [OF r] assms passed
    by (cases r) (auto simp: posted_def idempotent_post_def check_idempotency_def)
qed

text \<open>
  a failed start blocks the list: after a request to analyze a list was answered with 402 or 422
  (no credits, nothing pending), every further request to analyze it is refused, whoever sends it,
  and nothing is enqueued or charged; the list was set to analyzing before the checks.
\<close>

theorem failed_analysis_blocks_list:
  assumes "rq_header q = None" "rq_header q' = None"
    and "analyze_list_endpoint q lid s = (s1, (code, body))" "code \<in> {402, 422}"
    and "analyze_list_endpoint q' lid s1 = (s2, (code', body'))"
  shows "code' \<in> {404, 409, 429} \<and> ap_server s2 = ap_server s1"
proof -
  have "\<not> snd (try_start_list_analysis now lid (sv_lists (ap_server s1)))" for now
    using assms(1) assms(3) [unfolded analyze_list_endpoint_def]
  proof (cases rule: unkeyed_endpoint)
    case limited
    then show ?thesis using assms(4) by simp
  next
    case (ran hits z r)
    obtain e where e: "r = Inl e" using ran(1,3) assms(4)
      by (cases r) (auto simp: analyze_work_def Let_def charge_analysis_def split: option.splits prod.splits if_splits bool.splits)
    show ?thesis
      using analyze_failed [of q lid "s\<lparr>ap_hits := hits\<rparr>" z code body] ran e assms(4)
      by (simp add: analyze_started_again)
  qed
  note blocked = this
  show ?thesis
    using assms(2) assms(5) [unfolded analyze_list_endpoint_def]
  proof (cases rule: unkeyed_endpoint)
    case limited
    then show ?thesis by simp
  next
    case (ran hits z r)
    obtain d where t: "try_start_list_analysis (request_time q') lid (sv_lists (ap_server s1)) = (d, False)"
      using blocked [of "request_time q'"] by (cases "try_start_list_analysis (request_time q') lid (sv_lists (ap_server s1))") simp
    then show ?thesis using ran
      by (auto simp: analyze_work_def Let_def api_failure_def split: option.splits)
  qed
qed

section \<open>Witnesses\<close>

theorem service_tasks_dispatch_witness: "parse_call ''bulk_item'' bulk_payload \<noteq> None"
proof -
  define s where "s = sample_api bulk_server"
  have v: "ap_server s = bulk_server" by (simp add: s_def sample_api_def)
  obtain s1 where "claim_task ''w'' 5 [] 0 (ap_server s) =
      (s1, Some (claim_row ''w'' 5 (new_task 1 0 ''bulk_item'' bulk_payload)))"
    using bulk_server_claim by (auto simp: v)
  from service_tasks_dispatch [OF bulk_server_ok [folded v] rtranclp.rtrancl_refl this] show ?thesis
    by (simp add: claim_row_def new_task_def)
qed

lemma bulk_service_run:
  assumes "ap_server s = bulk_server"
  shows "\<exists>s1 v. service_step (s, []) (s\<lparr>ap_server := s1\<rparr>, [claimed_child]) \<and>
    service_step (s\<lparr>ap_server := s1\<rparr>, [claimed_child]) (s\<lparr>ap_server := v\<rparr>, []) \<and>
    owned_service_step\<^sup>*\<^sup>* (s, []) (s\<lparr>ap_server := v\<rparr>, [])"
proof -
  obtain s1 v where r: "worker_step (bulk_server, []) (s1, [claimed_child])" "still_owned (sv_queue s1) [claimed_child]"
    "worker_step (s1, [claimed_child]) (v, [])" using bulk_run by blast
  have a: "service_step (s, []) (s\<lparr>ap_server := s1\<rparr>, [claimed_child])"
    using step_worker [of s "[]" s1 "[claimed_child]"] r(1) assms by simp
  have b: "service_step (s\<lparr>ap_server := s1\<rparr>, [claimed_child]) (s\<lparr>ap_server := v\<rparr>, [])"
    using step_worker [of "s\<lparr>ap_server := s1\<rparr>" "[claimed_child]" v "[]"] r(3) by simp
  have "owned_service_step\<^sup>*\<^sup>* (s, []) (s\<lparr>ap_server := v\<rparr>, [])"
    by (rule rtranclp.rtrancl_into_rtrancl [OF r_into_rtranclp])
      (use a b r(2) in \<open>auto simp: owned_service_step_def still_owned_def\<close>)
  then show ?thesis using a b by blast
qed

theorem bulk_jobs_never_complete_witness:
  "\<exists>s1 v. service_step (sample_api bulk_server, []) (s1, [claimed_child]) \<and> service_step (s1, [claimed_child]) (v, []) \<and>
     list_all (\<lambda>j. bj_status j = BatchProcessing \<or> bj_status j = BatchFailed) (bk_jobs (sv_bulk (ap_server v)))"
proof -
  define s where "s = sample_api bulk_server"
  have v: "ap_server s = bulk_server" by (simp add: s_def sample_api_def)
  obtain s1 v2 where r: "service_step (s, []) (s\<lparr>ap_server := s1\<rparr>, [claimed_child])"
    "service_step (s\<lparr>ap_server := s1\<rparr>, [claimed_child]) (s\<lparr>ap_server := v2\<rparr>, [])"
    "owned_service_step\<^sup>*\<^sup>* (s, []) (s\<lparr>ap_server := v2\<rparr>, [])" using bulk_service_run [OF v] by blast
  have "list_all (\<lambda>j. bj_status j = BatchProcessing \<or> bj_status j = BatchFailed) (bk_jobs (sv_bulk (ap_server s)))"
    by (simp add: v bulk_server_def pair_job_def create_bulk_job_def no_bulk_def Let_def new_bulk_def)
  from bulk_jobs_never_complete [OF bulk_server_ok [folded v] r(3) this] r(1,2) show ?thesis
    unfolding s_def by blast
qed

theorem overdue_job_refunded_twice_witness:
  "\<exists>s' body. get_job_status sample_request 1 (sample_api overdue_server) = (s', (200, body)) \<and>
     balance_of office 1 = Some 250 \<and>
     balance_of (sv_accounts (dispatch quiet_world last_attempt (ap_server s'))) 1 = Some 450"
proof -
  define s where "s = sample_api overdue_server"
  have v: "ap_server s = overdue_server" by (simp add: s_def sample_api_def)
  obtain s' body where p: "get_job_status sample_request 1 s = (s', (200, body))"
    and r: "run_research_pipeline quiet_world 1 (Some 1) (ap_server s') =
       (report_progress (Some 1) [''scraping''] (ap_server s'), Inl ''timeout'')"
    using sample_poll by (auto simp: s_def)
  have q: "sv_queue (ap_server s) = sv_queue (server_with [last_attempt])" by (simp add: v overdue_server_def)
  have t: "task_of (sv_queue (ap_server s)) (tk_id last_attempt) = Some last_attempt"
    using server_with_task [OF last_attempt_facts(2)] by (simp add: q last_attempt_facts(2))
  have a: "sv_accounts (ap_server s) = office" by (simp add: v overdue_server_def server_with_def)
  have j: "get_research_job 1 (caller sample_request) (sv_jobs (ap_server s)) = Some overdue_job"
    by (simp add: v overdue_server_def get_research_job_def overdue_job_def new_job_def)
  have o: "jb_status overdue_job = Processing" "timed_out sample_request (jb_created overdue_job)"
    by (simp_all add: overdue_job_def new_job_def timed_out_def seconds_def)
  have u: "snd (get_user_usage (rq_live sample_request) (caller sample_request) (sv_accounts (ap_server s))) =
      Some (usage_of office office_user)" by (simp add: a office_usage(1))
  have "balance_of (sv_accounts (dispatch quiet_world last_attempt (ap_server s'))) 1 = Some (250 + 200)"
    using overdue_job_refunded_twice [OF server_with_wf [OF last_attempt_facts(1,2), folded q] t last_attempt_facts(3)
        _ last_attempt_facts(6) _ j o u office_usage(2) p]
      last_attempt_facts(4,5,7) r by (simp add: a)
  then show ?thesis using p by (auto simp: s_def)
qed

lemma sample_research:
  "\<exists>s' j. create_research sample_request ''b.com'' (sample_api (server_with [])) = (s', (202, started_research j)) \<and>
     sv_jobs (ap_server s') \<noteq> no_jobs \<and>
     list_all (\<lambda>t. \<not> payload_admin (tk_payload t)) (tq_rows (sv_queue (ap_server s')))"
proof -
  define h where "h = (sample_api (server_with []))\<lparr>ap_hits := (\<lambda>_. [])(ResearchLimiter := [(5, [0])])\<rparr>"
  define s2 where "s2 = on_server (\<lambda>v. v\<lparr>sv_accounts := office\<lparr>ac_usage_cache := [1 \<mapsto> usage_of office office_user]\<rparr>\<rparr>) h"
  have h: "sv_accounts (ap_server h) = office" "sv_jobs (ap_server h) = no_jobs" "sv_docs (ap_server h) = no_docs"
    "ap_idem h = []"
    by (simp_all add: h_def sample_api_def server_with_def)
  have url: "validate_company_url (rq_resolve sample_request) ''b.com'' = Inr ''https://b.com''"
    by (simp add: validate_company_url_def normalize_url_def py_strip_def is_space_def startswith_def
        balanced_brackets_def url_hostname_def authority_def unsafe_removed_def after_last_at_def lower_host_def
        py_lower_def lower_char_def upper_char_def blocked_hosts_def sample_request_def)
  have cache: "get_recent_document_by_url (seconds 700) 1 ''https://b.com'' 24 no_docs = None"
    by (simp add: get_recent_document_by_url_def newest_documents_def no_docs_def)
  have c: "caller_usage sample_request h = (s2, Some (usage_of office office_user))"
    by (simp add: caller_usage_def h office_usage(1) s2_def)
  have "\<exists>a d j. create_job_with_credit (seconds 700) 1 (Some 5) ''https://b.com'' 100
      (office\<lparr>ac_usage_cache := [1 \<mapsto> usage_of office office_user]\<rparr>) no_jobs = Inr (a, d, j) \<and> d \<noteq> no_jobs"
    by (simp add: create_job_with_credit_def use_credit_conn_def charge_org_def office_def org_of_user_def user_of_def
        new_user_def org_row_of_def add_to_org_def balance_of_def create_research_job_def insert_job_def no_jobs_def
        invalidate_usage_cache_def Let_def)
  then obtain a d j where j: "create_job_with_credit (seconds 700) 1 (Some 5) ''https://b.com'' 100
      (office\<lparr>ac_usage_cache := [1 \<mapsto> usage_of office office_user]\<rparr>) no_jobs = Inr (a, d, j)" "d \<noteq> no_jobs"
    by blast
  define s3 where "s3 = s2\<lparr>ap_server := (ap_server s2)\<lparr>sv_accounts := a, sv_jobs := d\<rparr>\<rparr>"
  have "sv_jobs (ap_server s2) = no_jobs" by (simp add: s2_def h)
  then have "reserve_job sample_request ''https://b.com'' h = (s3, Inr (j, False))"
    using j by (simp add: reserve_job_def c office_usage(2) s3_def s2_def Let_def)
  then have w: "start_research sample_request ''b.com'' h = (create_tracked_task sample_request ''research''
      (research_task sample_request j ''https://b.com'' False) s3, Inr (202, started_research j))"
    by (simp add: start_research_def url h cache)
  have "create_research sample_request ''b.com'' (sample_api (server_with [])) =
      posted sample_request (start_research sample_request ''b.com'') h"
    by (simp only: create_research_def sample_limited h_def)
  then obtain s' where s': "create_research sample_request ''b.com'' (sample_api (server_with [])) =
      (s', (202, started_research j))" "ap_server s' = ap_server (create_tracked_task sample_request ''research''
      (research_task sample_request j ''https://b.com'' False) s3)"
    using w by (simp add: posted_def idempotent_post_def check_idempotency_def h(4))
  have q: "tq_rows (sv_queue (ap_server s3)) = []"
    by (simp add: s3_def s2_def h_def sample_api_def server_with_def)
  have "list_all (\<lambda>t. \<not> payload_admin (tk_payload t)) (tq_rows (sv_queue (ap_server s')))"
    by (simp add: s'(2) create_tracked_task_def enqueue_def insert_task_def q new_task_def payload_admin_def
        research_task_def caller_fields_def)
  moreover have "sv_jobs (ap_server s') \<noteq> no_jobs"
    using j(2) by (simp add: s'(2) create_tracked_task_def s3_def)
  ultimately show ?thesis using s'(1) by blast
qed

theorem research_charged_iff_enqueued_witness:
  "\<exists>s' j. create_research sample_request ''b.com'' (sample_api (server_with [])) = (s', (202, started_research j)) \<and>
     balance_of (sv_accounts (ap_server s')) 1 = Some 150 \<and> length (tq_rows (sv_queue (ap_server s'))) = 1"
proof -
  obtain s' j where c: "create_research sample_request ''b.com'' (sample_api (server_with [])) = (s', (202, started_research j))"
    and n: "sv_jobs (ap_server s') \<noteq> no_jobs"
      "list_all (\<lambda>t. \<not> payload_admin (tk_payload t)) (tq_rows (sv_queue (ap_server s')))"
    using sample_research by blast
  have v: "ap_server (sample_api (server_with [])) = server_with []" by (simp add: sample_api_def)
  have sv: "sv_jobs (server_with []) = no_jobs" "sv_accounts (server_with []) = office"
    "tq_rows (sv_queue (server_with [])) = []" by (simp_all add: server_with_def)
  from research_charged_iff_enqueued [OF c v refl] n(1) obtain k url adm
    where q: "sv_queue (ap_server s') = fst (enqueue (seconds 700) ''research'' (research_task sample_request k url adm)
        (sv_queue (server_with [])))"
      and b: "balance_of (sv_accounts (ap_server s')) = (if adm then balance_of office
        else (balance_of office)(1 \<mapsto> the (balance_of office 1) - 100))"
    by (auto simp: sv)
  have rows: "tq_rows (sv_queue (ap_server s')) =
      [new_task (tq_next (sv_queue (server_with []))) (seconds 700) ''research'' (research_task sample_request k url adm)]"
    by (simp add: q enqueue_def insert_task_def sv(3))
  have "\<not> adm" using n(2) unfolding rows
    by (simp add: new_task_def payload_admin_def research_task_def caller_fields_def)
  then show ?thesis using c b rows by auto
qed

theorem requests_isolated_witness:
  "\<exists>s' answer. serve (=) ''Bearer sk_live_abcdefghij'' (DeleteWatch 1) sample_request
       ((sample_api overdue_server)\<lparr>ap_keys := one_key\<rparr>) = (s', answer) \<and>
     filter (\<lambda>j. jb_user j = 1) (jt_rows (sv_jobs (ap_server s'))) = [overdue_job]"
proof -
  define s where "s = (sample_api overdue_server)\<lparr>ap_keys := one_key\<rparr>"
  obtain s' answer where r: "serve (=) ''Bearer sk_live_abcdefghij'' (DeleteWatch 1) sample_request s = (s', answer)"
    by (metis surj_pair)
  have s: "sv_accounts (ap_server s) = office" "sv_jobs (ap_server s) = \<lparr>jt_rows = [overdue_job], jt_next = 2\<rparr>"
    "ap_keys s = one_key"
    by (simp_all add: s_def sample_api_def overdue_server_def server_with_def)
  have wf: "jobs_wf (sv_jobs (ap_server s))"
    by (simp add: s jobs_wf_def serial_def overdue_job_def)
  have "us_id (vw_user v) \<noteq> 1"
    if "require_api_key (=) (request_time sample_request) (rq_tie sample_request) ''Bearer sk_live_abcdefghij''
      (sv_accounts (ap_server s)) (ap_keys s) = (d, Inr (v, key))" for d v key
    using that by (auto simp: s require_api_key_def startswith_def validate_api_key_def one_key_def usable_def
        get_user_by_id_def Let_def new_user_def split: option.splits)
  from requests_isolated [OF wf r this] have "filter (\<lambda>j. jb_user j = 1) (jt_rows (sv_jobs (ap_server s'))) = [overdue_job]"
    by (simp add: s overdue_job_def)
  then show ?thesis using r by (auto simp: s_def)
qed

definition empty_list :: list_row where
  "empty_list = new_list 0 1 1 (Some 5) ''L'' (Some 1)"

definition list_api :: api where
  "list_api = sample_api ((server_with [])\<lparr>sv_lists := \<lparr>ld_lists = [empty_list], ld_accounts = [],
     ld_next_list = 2, ld_next_account = 1\<rparr>\<rparr>)"

lemma sample_analyze: "\<exists>s1 body. analyze_list_endpoint sample_request 1 list_api = (s1, (422, body))"
proof -
  define h where "h = list_api\<lparr>ap_hits := (\<lambda>_. [])(BulkLimiter := [(5, [0])])\<rparr>"
  have l: "sv_lists (ap_server h) = \<lparr>ld_lists = [empty_list], ld_accounts = [], ld_next_list = 2, ld_next_account = 1\<rparr>"
    "sv_accounts (ap_server h) = office" by (simp_all add: h_def list_api_def sample_api_def server_with_def)
  have e: "ls_id empty_list = 1" "ls_org empty_list = Some 1" "ls_status empty_list = BatchCreated"
    by (simp_all add: empty_list_def new_list_def)
  have g: "get_list 1 1 office (sv_lists (ap_server h)) = Some empty_list"
    by (simp add: l get_list_def in_org_of_def e)
  have t: "try_start_list_analysis (seconds 700) 1 (sv_lists (ap_server h)) =
      (\<lparr>ld_lists = [empty_list\<lparr>ls_status := BatchAnalyzing, ls_updated := seconds 700\<rparr>], ld_accounts = [],
        ld_next_list = 2, ld_next_account = 1\<rparr>, True)"
    by (simp add: l try_start_list_analysis_def e)
  have p: "get_pending_list_accounts 1 \<lparr>ld_lists = ls, ld_accounts = [], ld_next_list = 2, ld_next_account = 1\<rparr> = Some []" for ls
    by (simp add: get_pending_list_accounts_def iter_pending_list_accounts_def scan_pages.simps scan_fetch_def)
  have "analyze_list_endpoint sample_request 1 list_api = posted sample_request (analyze_work sample_request 1) h"
    by (simp only: analyze_list_endpoint_def list_api_def sample_limited h_def)
  then show ?thesis
    by (simp add: posted_def idempotent_post_def check_idempotency_def analyze_work_def l(2) g t p Let_def api_failure_def)
qed

theorem failed_analysis_blocks_list_witness:
  "\<exists>s1 s2 body body' code'. analyze_list_endpoint sample_request 1 list_api = (s1, (422, body)) \<and>
     analyze_list_endpoint sample_request 1 s1 = (s2, (code', body')) \<and> code' \<in> {404, 409, 429}"
proof -
  obtain s1 body where a: "analyze_list_endpoint sample_request 1 list_api = (s1, (422, body))" using sample_analyze by blast
  obtain s2 code' body' where b: "analyze_list_endpoint sample_request 1 s1 = (s2, (code', body'))"
    by (metis surj_pair)
  show ?thesis
    using failed_analysis_blocks_list [OF _ _ a _ b] a b by auto
qed

end
