(* ===== verification/Web_Auth.thy ===== *)
theory Web_Auth
  imports Team Rate_Limit
begin

text \<open>
  Signing in to the web pages: \<open>auth.py\<close> with its cache of users (\<open>auth_cache.py\<close>) and the
  IP-based limiter of the sign-in pages. The session is the content of the signed cookie that
  the session middleware keeps; OAuth exchanges, the JWT library and random tokens are
  arguments. An exception that no handler catches is answered 500.
\<close>

section \<open>State and answers\<close>

record session =
  ss_user :: "int option"
  ss_next :: "string option"
  ss_state :: "string option"

record web =
  wb_accounts :: accounts
  wb_views :: "int \<Rightarrow> user_view option"
  wb_hits :: "string hits"

datatype page = Redirect string | Failure int string

definition internal_failure :: page where
  "internal_failure = Failure 500 ''Internal server error''"

section \<open>Redirects after sign-in\<close>

text \<open>\<open>^/[a-zA-Z0-9][a-zA-Z0-9/_\-\.]*$\<close>; the dollar sign also matches before a final newline.\<close>

definition alnum :: "char \<Rightarrow> bool" where
  "alnum c \<longleftrightarrow> upper_char c \<or> digit_value c \<noteq> None \<or> (97 \<le> (of_char c :: nat) \<and> (of_char c :: nat) \<le> 122)"

definition path_char :: "char \<Rightarrow> bool" where
  "path_char c \<longleftrightarrow> alnum c \<or> c \<in> {CHR ''/'', CHR ''_'', CHR ''-'', CHR ''.''}"

definition is_safe_next_url :: "string \<Rightarrow> bool" where
  "is_safe_next_url url = (case url of
     slash # first # rest \<Rightarrow> slash = CHR ''/'' \<and> alnum first \<and>
       dropWhile path_char rest \<in> {[], [CHR 0x0A]}
   | _ \<Rightarrow> False)"

definition remember_next :: "string option \<Rightarrow> session \<Rightarrow> session" where
  "remember_next next_url ss = (case next_url of
     Some url \<Rightarrow> if url \<noteq> [] \<and> is_safe_next_url url then ss\<lparr>ss_next := Some url\<rparr> else ss
   | None \<Rightarrow> ss)"

definition redirect_target :: "user_row \<Rightarrow> session \<Rightarrow> string" where
  "redirect_target u ss =
     (if us_context u = [] then ''/onboarding''
      else (case ss_next ss of
        Some url \<Rightarrow> if url \<noteq> [] \<and> is_safe_next_url url then url else ''/''
      | None \<Rightarrow> ''/''))"

section \<open>Tokens\<close>

record claims =
  cl_sub :: string
  cl_exp :: time
  cl_iat :: time

record jwt =
  jw_encode :: "claims \<Rightarrow> string"
  jw_decode :: "time \<Rightarrow> string \<Rightarrow> string option option"

text \<open>\<open>jw_decode\<close> gives nothing for an invalid or expired token, else the subject, if any.\<close>

definition create_access_token :: "jwt \<Rightarrow> time \<Rightarrow> int \<Rightarrow> string" where
  "create_access_token jw now uid =
     jw_encode jw \<lparr>cl_sub = str_int uid, cl_exp = now + days 7, cl_iat = now\<rparr>"

definition decode_access_token :: "jwt \<Rightarrow> time \<Rightarrow> string \<Rightarrow> int option" where
  "decode_access_token jw now token = (case jw_decode jw now token of
     Some (Some s) \<Rightarrow> py_int s | _ \<Rightarrow> None)"

section \<open>The current user\<close>

text \<open>
  A cached record is used if it was not invalidated and, as \<open>held\<close> says, not dropped by age or
  size. An identifier 0 counts as none.
\<close>

definition get_cached_user :: "bool \<Rightarrow> int \<Rightarrow> web \<Rightarrow> user_view option" where
  "get_cached_user held uid w =
     (if held \<and> uid \<in> set (ac_auth_cache (wb_accounts w)) then wb_views w uid else None)"

definition set_cached_user :: "int \<Rightarrow> user_view \<Rightarrow> web \<Rightarrow> web" where
  "set_cached_user uid v w = w\<lparr>wb_views := (wb_views w)(uid := Some v),
     wb_accounts := (wb_accounts w)\<lparr>ac_auth_cache := uid # removeAll uid (ac_auth_cache (wb_accounts w))\<rparr>\<rparr>"

definition session_user :: "jwt \<Rightarrow> time \<Rightarrow> string option \<Rightarrow> session \<Rightarrow> int option" where
  "session_user jw now cookie ss =
     (let uid = (case ss_user ss of
            Some i \<Rightarrow> if i \<noteq> 0 then Some i else None | None \<Rightarrow> None)
      in case uid of
           Some i \<Rightarrow> Some i
         | None \<Rightarrow> (case cookie of
             Some token \<Rightarrow> if token = [] then None
               else (case decode_access_token jw now token of
                 Some i \<Rightarrow> if i \<noteq> 0 then Some i else None | None \<Rightarrow> None)
           | None \<Rightarrow> None))"

record visit =
  vs_jwt :: jwt
  vs_now :: time
  vs_cookie :: "string option"
  vs_held :: bool
  vs_tie :: nat

definition get_current_user :: "visit \<Rightarrow> session \<Rightarrow> web \<Rightarrow> web \<times> user_view option" where
  "get_current_user vs ss w =
     (case session_user (vs_jwt vs) (vs_now vs) (vs_cookie vs) ss of
        None \<Rightarrow> (w, None)
      | Some uid \<Rightarrow> (case get_cached_user (vs_held vs) uid w of
          Some v \<Rightarrow> (w, Some v)
        | None \<Rightarrow> (case get_user_by_id (vs_tie vs) uid (wb_accounts w) of
            Some v \<Rightarrow> (set_cached_user uid v w, Some v)
          | None \<Rightarrow> (w, None))))"

definition require_auth :: "visit \<Rightarrow> session \<Rightarrow> web \<Rightarrow> web \<times> (page + user_view)" where
  "require_auth vs ss w = (case get_current_user vs ss w of
     (w', Some v) \<Rightarrow> (w', Inr v)
   | (w', None) \<Rightarrow> (w', Inl (Failure 401 ''Not authenticated'')))"

definition require_onboarding :: "visit \<Rightarrow> session \<Rightarrow> web \<Rightarrow> web \<times> (page + user_view)" where
  "require_onboarding vs ss w = (case require_auth vs ss w of
     (w', Inr v) \<Rightarrow> (w', if us_context (vw_user v) = [] then Inl (Failure 403 ''Onboarding not completed'') else Inr v)
   | r \<Rightarrow> r)"

text \<open>\<open>live\<close> is the state of the usage cache; the super administrator flag is read through it.\<close>

definition require_super_admin ::
    "(bool \<Rightarrow> int \<Rightarrow> accounts \<Rightarrow> accounts \<times> usage option) \<Rightarrow> bool \<Rightarrow> visit \<Rightarrow> session \<Rightarrow> web \<Rightarrow>
     web \<times> (page + user_view)" where
  "require_super_admin usage_query live vs ss w = (case require_auth vs ss w of
     (w', Inr v) \<Rightarrow> (case usage_query live (us_id (vw_user v)) (wb_accounts w') of
        (a, Some u) \<Rightarrow> (w'\<lparr>wb_accounts := a\<rparr>, if ug_is_admin u then Inr v else Inl (Failure 404 ''Not found''))
      | (a, None) \<Rightarrow> (w'\<lparr>wb_accounts := a\<rparr>, Inl (Failure 404 ''Not found'')))
   | r \<Rightarrow> r)"

definition require_org_admin :: "visit \<Rightarrow> session \<Rightarrow> web \<Rightarrow> web \<times> (page + user_view)" where
  "require_org_admin vs ss w = (case require_auth vs ss w of
     (w', Inr v) \<Rightarrow> (w', if vw_role v = Some Admin then Inr v else Inl (Failure 403 ''Admin access required''))
   | r \<Rightarrow> r)"

section \<open>The sign-in limiter\<close>

definition get_client_ip :: "string option \<Rightarrow> string option \<Rightarrow> string" where
  "get_client_ip forwarded peer = (case forwarded of
     Some f \<Rightarrow> if f \<noteq> [] then py_strip (hd (py_split f '','')) else coalesce peer ''unknown''
   | None \<Rightarrow> coalesce peer ''unknown'')"

definition auth_limiter :: "bool \<Rightarrow> limiter" where
  "auth_limiter enforce = \<lparr>rl_requests = 10, rl_window = seconds 60, rl_enforce = enforce\<rparr>"

definition auth_limited :: "bool \<Rightarrow> time \<Rightarrow> string \<Rightarrow> (web \<Rightarrow> web \<times> session \<times> page) \<Rightarrow> session \<Rightarrow> web \<Rightarrow>
     web \<times> session \<times> page" where
  "auth_limited enforce clock ip h ss w =
     (case limiter_check (auth_limiter enforce) clock 0 ip (wb_hits w) of
        (hits, Inr info) \<Rightarrow> h (w\<lparr>wb_hits := hits\<rparr>)
      | (hits, Inl LimiterCrash) \<Rightarrow> (w\<lparr>wb_hits := hits\<rparr>, ss, internal_failure)
      | (hits, Inl (RateLimited retry info)) \<Rightarrow>
          (w\<lparr>wb_hits := hits\<rparr>, ss, Failure 429 ''Rate limit exceeded''))"

section \<open>Signing in with Google\<close>

definition login :: "bool \<Rightarrow> time \<Rightarrow> string \<Rightarrow> string \<Rightarrow> string option \<Rightarrow> session \<Rightarrow> web \<Rightarrow> web \<times> session \<times> page" where
  "login enforce clock ip google_url next_url ss =
     auth_limited enforce clock ip (\<lambda>w. (w, remember_next next_url ss, Redirect google_url)) ss"

record identity =
  id_subject :: "string option"
  id_oid :: "string option"
  id_email :: "string option"
  id_preferred :: "string option"
  id_name :: "string option"
  id_picture :: "string option"

text \<open>The common end of both callbacks; \<open>found\<close> is the lookup by the provider's identifier.\<close>

definition sign_in ::
    "time \<Rightarrow> user_row option \<Rightarrow> (accounts \<Rightarrow> db_error + (accounts \<times> user_view)) \<Rightarrow> session \<Rightarrow> web \<Rightarrow>
     web \<times> session \<times> page" where
  "sign_in now found create ss w =
     (case (case found of Some u \<Rightarrow> Inr (wb_accounts w, u)
            | None \<Rightarrow> (case create (wb_accounts w) of Inl e \<Rightarrow> Inl e | Inr (a, v) \<Rightarrow> Inr (a, vw_user v))) of
        Inl e \<Rightarrow> (w, ss, internal_failure)
      | Inr (a, u) \<Rightarrow>
          (w\<lparr>wb_accounts := auto_accept_invites now u a\<rparr>,
           ss\<lparr>ss_user := Some (us_id u), ss_next := None\<rparr>,
           Redirect (redirect_target u ss)))"

datatype exchange = ExchangeFailed | NoUserInfo | UserInfo identity

definition callback :: "time \<Rightarrow> exchange \<Rightarrow> session \<Rightarrow> web \<Rightarrow> web \<times> session \<times> page" where
  "callback now x ss w = (case x of
     ExchangeFailed \<Rightarrow> (w, ss, Failure 400 ''OAuth authentication failed'')
   | NoUserInfo \<Rightarrow> (w, ss, Failure 400 ''Failed to get user info'')
   | UserInfo i \<Rightarrow> (case (id_subject i, id_email i) of
       (Some g, Some email) \<Rightarrow>
         sign_in now (get_user_by_google_id g (wb_accounts w))
           (create_user now email (coalesce (id_name i) []) (coalesce (id_picture i) []) g) ss w
     | _ \<Rightarrow> (w, ss, internal_failure)))"

section \<open>Signing in with Microsoft\<close>

definition microsoft_url :: "string \<Rightarrow> string \<Rightarrow> string \<Rightarrow> string" where
  "microsoft_url client_id redirect_uri state =
     ''https://login.microsoftonline.com/common/oauth2/v2.0/authorize?client_id='' @ client_id @
     ''&response_type=code&redirect_uri='' @ redirect_uri @
     ''&scope=openid%20email%20profile&state='' @ state @ ''&response_mode=query''"

definition login_microsoft ::
    "bool \<Rightarrow> time \<Rightarrow> string \<Rightarrow> string \<Rightarrow> string \<Rightarrow> string \<Rightarrow> string option \<Rightarrow> session \<Rightarrow> web \<Rightarrow> web \<times> session \<times> page" where
  "login_microsoft enforce clock ip client_id app_url state next_url ss =
     auth_limited enforce clock ip (\<lambda>w.
       if client_id = [] then (w, ss, Failure 404 ''Microsoft sign-in not available'')
       else (w, (remember_next next_url ss)\<lparr>ss_state := Some state\<rparr>,
             Redirect (microsoft_url client_id (app_url @ ''/auth/microsoft/callback'') state))) ss"

text \<open>
  The two HTTP calls: an exception, a status other than 200, or a body.
\<close>

datatype 'b call_result = CallRaises | CallStatus int | CallBody 'b

definition first_text :: "string option \<Rightarrow> string option \<Rightarrow> string option" where
  "first_text x y = (case x of Some s \<Rightarrow> if s \<noteq> [] then x else y | None \<Rightarrow> y)"

definition given :: "string option \<Rightarrow> bool" where
  "given x \<longleftrightarrow> x \<noteq> None \<and> x \<noteq> Some []"

definition microsoft_identity :: "time \<Rightarrow> identity \<Rightarrow> session \<Rightarrow> web \<Rightarrow> web \<times> session \<times> page" where
  "microsoft_identity now i ss w =
     (let subject = first_text (id_subject i) (id_oid i); email = first_text (id_email i) (id_preferred i)
      in if \<not> given subject then (w, ss, Failure 400 ''Microsoft ID not provided'')
         else if \<not> given email then (w, ss, Failure 400 ''Email not provided by Microsoft'')
         else sign_in now (get_user_by_microsoft_id (the subject) (wb_accounts w))
           (create_user_microsoft now (the email) (coalesce (id_name i) []) (coalesce (id_picture i) [])
              (the subject)) ss w)"

definition microsoft_callback ::
    "time \<Rightarrow> string \<Rightarrow> string option \<Rightarrow> string option \<Rightarrow> string option call_result \<Rightarrow> identity call_result \<Rightarrow>
     session \<Rightarrow> web \<Rightarrow> web \<times> session \<times> page" where
  "microsoft_callback now client_id code state token info ss w =
     (if client_id = [] then (w, ss, Failure 404 ''Microsoft sign-in not available'')
      else if \<not> given code then (w, ss, Failure 400 ''No authorization code received'')
      else if state \<noteq> ss_state ss then (w, ss, Failure 400 ''Invalid state parameter'')
      else (case token of
        CallRaises \<Rightarrow> (w, ss, internal_failure)
      | CallStatus st \<Rightarrow> (w, ss, Failure 400 ''Failed to exchange code for token'')
      | CallBody access \<Rightarrow>
          if \<not> given access then (w, ss, Failure 400 ''No access token received'')
          else (case info of
            CallRaises \<Rightarrow> (w, ss, internal_failure)
          | CallStatus st \<Rightarrow> (w, ss, Failure 502 ''Failed to get user info from Microsoft'')
          | CallBody i \<Rightarrow> microsoft_identity now i ss w)))"

definition logout :: "session \<Rightarrow> session \<times> page" where
  "logout ss = (\<lparr>ss_user = None, ss_next = None, ss_state = None\<rparr>, Redirect ''/'')"


section \<open>Redirects stay on the site\<close>

definition internal_path :: "string \<Rightarrow> bool" where
  "internal_path url \<longleftrightarrow> url = ''/'' \<or> (\<exists>c rest. url = CHR ''/'' # c # rest \<and> alnum c)"

lemma safe_internal: "is_safe_next_url url \<Longrightarrow> internal_path url"
  by (auto simp: is_safe_next_url_def internal_path_def split: list.splits)

lemma alnum_o: "alnum (CHR ''o'')"
  by (simp add: alnum_def)

lemma redirect_internal: "internal_path (redirect_target u ss)"
  using safe_internal alnum_o
  by (auto simp: redirect_target_def internal_path_def split: option.split)

lemma sign_in_redirect:
  "sign_in now found create ss w = (w', ss', Redirect url) \<Longrightarrow> internal_path url"
  by (auto simp: sign_in_def internal_failure_def redirect_internal split: sum.splits prod.splits)

lemma callback_redirect:
  assumes "callback now x ss w = (w', ss', Redirect url)"
  shows "internal_path url"
proof (cases x)
  case (UserInfo i)
  then show ?thesis using assms sign_in_redirect
    by (cases "id_subject i"; cases "id_email i"; fastforce simp: callback_def internal_failure_def)
qed (use assms in \<open>simp_all add: callback_def\<close>)

lemma microsoft_identity_redirect:
  "microsoft_identity now i ss w = (w', ss', Redirect url) \<Longrightarrow> internal_path url"
  using sign_in_redirect by (auto simp: microsoft_identity_def Let_def split: if_splits)

lemma microsoft_callback_redirect:
  assumes "microsoft_callback now client_id code state token info ss w = (w', ss', Redirect url)"
  shows "internal_path url"
proof -
  have ok: "client_id \<noteq> []" "given code" "state = ss_state ss"
    using assms by (auto simp: microsoft_callback_def split: if_splits)
  obtain access where t: "token = CallBody access" "given access"
    using assms ok by (cases token) (auto simp: microsoft_callback_def internal_failure_def split: if_splits)
  obtain i where "info = CallBody i"
    using assms ok t by (cases info) (auto simp: microsoft_callback_def internal_failure_def)
  then have "microsoft_identity now i ss w = (w', ss', Redirect url)"
    using assms ok t by (simp add: microsoft_callback_def)
  then show ?thesis by (rule microsoft_identity_redirect)
qed

text \<open>
  C32: Wherever the \<open>next\<close> parameter of a sign-in link points, the redirect after the sign-in goes to a
  path of this site: the root, or a slash followed by a letter or digit, which no browser takes
  for another host.
\<close>

theorem sign_in_redirects_stay_on_site:
  assumes "callback now x ss w = (w', ss', Redirect url) \<or>
    microsoft_callback now client_id code state token info ss w = (w', ss', Redirect url)"
  shows "internal_path url"
  using assms callback_redirect microsoft_callback_redirect by metis

section \<open>One address, one provider\<close>

text \<open>
  A user who signed up with one provider cannot sign in with the other under the same address:
  the lookup by the provider's identifier finds nobody, the insert violates the uniqueness of
  the address, and the sign-in ends as an internal error without any change.
\<close>

theorem other_provider_locked_out:
  assumes "id_subject i = Some g" "id_email i = Some e"
    and "get_user_by_google_id g (wb_accounts w) = None"
    and "u \<in> set (ac_users (wb_accounts w))" "us_email u = e"
  shows "callback now (UserInfo i) ss w = (w, ss, internal_failure)"
proof -
  have "create_user now e n p g (wb_accounts w) = Inl UniqueViolation" for n p
    using assms(4,5) by (auto simp: create_user_def create_user_with_def)
  then show ?thesis using assms(1-3) by (simp add: callback_def sign_in_def)
qed

section \<open>A callback without state\<close>

text \<open>
  The check of the state parameter compares two values that may both be missing: a callback link
  without a state, opened in a session that started no sign-in, passes and signs that session
  in as the user whose code the link carries.
\<close>

theorem stateless_callback_signs_in:
  assumes "client_id \<noteq> []" "code \<noteq> []" "access \<noteq> []" "ss_state ss = None"
    and "id_subject i = Some m" "m \<noteq> []" "id_email i = Some e" "e \<noteq> []"
    and "get_user_by_microsoft_id m (wb_accounts w) = Some u"
  shows "\<exists>w' page. microsoft_callback now client_id (Some code) None (CallBody (Some access)) (CallBody i) ss w =
    (w', ss\<lparr>ss_user := Some (us_id u), ss_next := None\<rparr>, page)"
proof -
  have "given (first_text (id_subject i) (id_oid i))" "given (first_text (id_email i) (id_preferred i))"
    and m: "first_text (id_subject i) (id_oid i) = Some m"
    using assms(5-8) by (simp_all add: given_def first_text_def)
  then have "microsoft_identity now i ss w =
      (w\<lparr>wb_accounts := auto_accept_invites now u (wb_accounts w)\<rparr>,
       ss\<lparr>ss_user := Some (us_id u), ss_next := None\<rparr>, Redirect (redirect_target u ss))"
    using assms(9) by (simp add: microsoft_identity_def Let_def sign_in_def)
  then show ?thesis using assms(1-4) by (simp add: microsoft_callback_def given_def)
qed

section \<open>Cached roles\<close>

text \<open>
  Changing a role or removing a member does not invalidate the cached record of the member, so
  that a demoted administrator still passes as one while the record is held.
\<close>

theorem demoted_admin_still_passes:
  assumes "session_user (vs_jwt vs) (vs_now vs) (vs_cookie vs) ss = Some uid" "vs_held vs"
    and "uid \<in> set (ac_auth_cache (wb_accounts w))" "wb_views w uid = Some v" "vw_role v = Some Admin"
    and "w' = w\<lparr>wb_accounts := fst (update_member_role oid uid Viewer (wb_accounts w))\<rparr>"
  shows "require_org_admin vs ss w' = (w', Inr v) \<and>
    (\<forall>m \<in> set (ac_members (wb_accounts w')). is_member oid uid m \<longrightarrow> mb_role m = Viewer)"
proof
  have "get_cached_user (vs_held vs) uid w' = Some v"
    using assms(2-4,6) by (simp add: get_cached_user_def update_member_role_def)
  then show "require_org_admin vs ss w' = (w', Inr v)"
    using assms(1,5) by (simp add: require_org_admin_def require_auth_def get_current_user_def)
  show "\<forall>m \<in> set (ac_members (wb_accounts w')). is_member oid uid m \<longrightarrow> mb_role m = Viewer"
    using assms(6) by (auto simp: update_member_role_def set_update_where)
qed

section \<open>Signing in changes the organization\<close>

lemma newest_invites_first:
  assumes "get_pending_invites_for_email now e a = (v, n) # rest"
  shows "v \<in> set (ac_invites a) \<and> iv_email v = e \<and> pending_invite now v"
proof -
  have "(v, n) \<in> set (get_pending_invites_for_email now e a)" by (simp add: assms)
  then show ?thesis
    by (auto simp: get_pending_invites_for_email_def newest_invites_def split: option.splits)
qed

lemma accept_pending:
  assumes "v \<in> set (ac_invites a)" "pending_invite now v" "user_of a uid \<noteq> None"
    and "distinct (map iv_token (ac_invites a))"
  shows "\<exists>a'. accept_invite now (iv_token v) uid a = Inr (a', Some v)"
proof -
  have "find (\<lambda>x. iv_token x = iv_token v \<and> pending_invite now x) (ac_invites a) \<noteq> None"
    using assms(1,2) by (auto simp: find_None_iff)
  then obtain x where x: "find (\<lambda>x. iv_token x = iv_token v \<and> pending_invite now x) (ac_invites a) = Some x"
    by blast
  then have "x = v" using find_Some_mem [OF x] distinct_key_eq [OF assms(4) _ assms(1)] by blast
  then show ?thesis using x assms(3) by (simp add: accept_invite_def)
qed

text \<open>
  Signing in accepts the newest pending invite to the user's address without asking: whatever
  organization the user belonged to, the credits it holds are out of reach afterwards. The page
  that accepts an invite on request refuses exactly that for users with data.
\<close>

theorem sign_in_joins_inviter:
  assumes "id_subject i = Some g" "id_email i = Some e"
    and "get_user_by_google_id g (wb_accounts w) = Some u" "user_of (wb_accounts w) (us_id u) = Some u"
    and "get_pending_invites_for_email now (us_email u) (wb_accounts w) = (v, n) # rest"
    and "distinct (map iv_token (ac_invites (wb_accounts w)))"
  shows "\<exists>w' ss' page. callback now (UserInfo i) ss w = (w', ss', page) \<and>
    org_of_user (wb_accounts w') (us_id u) = Some (iv_org v)"
proof -
  have v: "v \<in> set (ac_invites (wb_accounts w))" "pending_invite now v"
    using newest_invites_first [OF assms(5)] by auto
  obtain a' where a': "accept_invite now (iv_token v) (us_id u) (wb_accounts w) = Inr (a', Some v)"
    using accept_pending [OF v _ assms(6)] assms(4) by fastforce
  have "org_of_user a' (us_id u) = Some (iv_org v)"
    by (rule accept_invite_cases [OF a'])
  then show ?thesis
    using assms(1-3,5) a' by (simp add: callback_def sign_in_def auto_accept_invites_def)
qed

section \<open>Spoofed addresses\<close>

text \<open>
  The limiter of the sign-in pages counts by the first entry of a header that the client sends:
  a value not seen before is never limited.
\<close>

theorem fresh_header_is_not_limited:
  assumes "map_of (wb_hits w) (get_client_ip (Some forwarded) peer) = None"
  shows "\<exists>w'. login enforce clock (get_client_ip (Some forwarded) peer) url next_url ss w =
    (w', remember_next next_url ss, Redirect url)"
  using assms
  by (simp add: login_def auth_limited_def limiter_check_def auth_limiter_def recent_def hits_of_def Let_def
      split: prod.split)

section \<open>Tokens\<close>

text \<open>The documented behaviour of the JWT library: a token decodes to its claims until it expires.\<close>

definition honest_jwt :: "jwt \<Rightarrow> bool" where
  "honest_jwt jw \<longleftrightarrow> (\<forall>c now. jw_decode jw now (jw_encode jw c) =
     (if now < cl_exp c then Some (Some (cl_sub c)) else None))"

lemma token_round_trip:
  assumes "honest_jwt jw"
  shows "decode_access_token jw later (create_access_token jw now uid) =
    (if later < now + days 7 then Some uid else None)"
  using assms by (simp add: honest_jwt_def decode_access_token_def create_access_token_def)


section \<open>A sign-in at work\<close>

text \<open>
  User 9, an administrator of organization 5 who is invited to organization 1, with a Google and
  a Microsoft account; the cached record of user 1 says administrator.
\<close>

definition user_nine :: user_row where
  "user_nine = (new_user 9 ''z@x'' ''Z'' [] (Some ''g9'') (Some ''m9''))\<lparr>us_org := Some 5\<rparr>"

definition user_one :: user_row where
  "user_one = (new_user 1 ''a@x'' ''A'' [] (Some ''g1'') None)\<lparr>us_org := Some 1\<rparr>"

definition view_one :: user_view where
  "view_one = \<lparr>vw_user = user_one, vw_role = Some Admin, vw_org_name = Some ''A'',
     vw_org_slug = Some ''user-1'', vw_org_credits = Some 250, vw_org_stripe = None\<rparr>"

definition web_office :: web where
  "web_office = \<lparr>wb_accounts = bigger_office\<lparr>ac_users := [user_one, user_nine], ac_auth_cache := [1]\<rparr>,
     wb_views = (\<lambda>i. if i = 1 then Some view_one else None), wb_hits = []\<rparr>"

definition fresh_session :: session where
  "fresh_session = \<lparr>ss_user = None, ss_next = None, ss_state = None\<rparr>"

definition identity_nine :: identity where
  "identity_nine = \<lparr>id_subject = Some ''g9'', id_oid = None, id_email = Some ''z@x'', id_preferred = None,
     id_name = None, id_picture = None\<rparr>"

definition plain_jwt :: jwt where
  "plain_jwt = \<lparr>jw_encode = cl_sub, jw_decode = (\<lambda>now s. Some (Some s))\<rparr>"

lemma web_office_users:
  "get_user_by_google_id ''g9'' (wb_accounts web_office) = Some user_nine"
  "get_user_by_microsoft_id ''m9'' (wb_accounts web_office) = Some user_nine"
  "user_of (wb_accounts web_office) 9 = Some user_nine" "us_id user_nine = 9" "us_email user_nine = ''z@x''"
  by (simp_all add: web_office_def user_one_def user_nine_def new_user_def get_user_by_google_id_def
      get_user_by_microsoft_id_def user_of_def)

theorem sign_in_redirects_stay_on_site_witness:
  "\<exists>w' ss' url. callback 5 (UserInfo identity_nine) (fresh_session\<lparr>ss_next := Some ''/lists''\<rparr>) web_office =
     (w', ss', Redirect url) \<and> internal_path url"
proof -
  obtain w' ss' url where c: "callback 5 (UserInfo identity_nine) (fresh_session\<lparr>ss_next := Some ''/lists''\<rparr>)
      web_office = (w', ss', Redirect url)"
    using web_office_users(1) by (simp add: callback_def identity_nine_def sign_in_def)
  from c sign_in_redirects_stay_on_site [OF disjI1 [OF c]] show ?thesis by blast
qed

theorem stateless_callback_signs_in_witness:
  "\<exists>w' ss' page. microsoft_callback 5 ''id'' (Some ''code'') None (CallBody (Some ''tok''))
     (CallBody (identity_nine\<lparr>id_subject := Some ''m9''\<rparr>)) fresh_session web_office = (w', ss', page) \<and>
     ss_user ss' = Some 9"
  using stateless_callback_signs_in [of "''id''" "''code''" "''tok''" fresh_session
      "identity_nine\<lparr>id_subject := Some ''m9''\<rparr>" "''m9''" "''z@x''" web_office user_nine 5]
    web_office_users by (auto simp: fresh_session_def identity_nine_def)

theorem demoted_admin_still_passes_witness:
  "\<exists>w'. require_org_admin \<lparr>vs_jwt = plain_jwt, vs_now = 5, vs_cookie = None, vs_held = True, vs_tie = 0\<rparr>
     (fresh_session\<lparr>ss_user := Some 1\<rparr>) w' = (w', Inr view_one) \<and>
     wb_accounts w' = fst (update_member_role 1 1 Viewer (wb_accounts web_office)) \<and>
     (\<exists>m \<in> set (ac_members (wb_accounts w')). is_member 1 1 m \<and> mb_role m = Viewer)"
proof -
  let ?vs = "\<lparr>vs_jwt = plain_jwt, vs_now = 5, vs_cookie = None, vs_held = True, vs_tie = 0\<rparr>"
  let ?w = "web_office\<lparr>wb_accounts := fst (update_member_role 1 1 Viewer (wb_accounts web_office))\<rparr>"
  have "require_org_admin ?vs (fresh_session\<lparr>ss_user := Some 1\<rparr>) ?w = (?w, Inr view_one)"
    using demoted_admin_still_passes [of ?vs "fresh_session\<lparr>ss_user := Some 1\<rparr>" 1 web_office view_one ?w 1]
    by (simp add: session_user_def web_office_def view_one_def)
  moreover have "\<exists>m \<in> set (ac_members (wb_accounts ?w)). is_member 1 1 m \<and> mb_role m = Viewer"
    by (simp add: web_office_def update_member_role_def bigger_office_def office_def is_member_def)
  ultimately show ?thesis by (intro exI [of _ ?w]) simp
qed

theorem sign_in_joins_inviter_witness:
  "\<exists>w' ss' page. callback 5 (UserInfo identity_nine) fresh_session web_office = (w', ss', page) \<and>
     org_of_user (wb_accounts web_office) 9 = Some 5 \<and> org_of_user (wb_accounts w') 9 = Some 1"
proof -
  let ?v = "hd (ac_invites bigger_office)"
  have p: "get_pending_invites_for_email 5 (us_email user_nine) (wb_accounts web_office) = (?v, ''A'') # []"
    by (simp add: web_office_users get_pending_invites_for_email_def newest_invites_def web_office_def
        bigger_office_def office_def pending_invite_def org_row_of_def time_defs)
  have "distinct (map iv_token (ac_invites (wb_accounts web_office)))" "iv_org ?v = 1"
    by (simp_all add: web_office_def bigger_office_def)
  then show ?thesis
    using sign_in_joins_inviter [of identity_nine "''g9''" "''z@x''" web_office user_nine 5 ?v "''A''" "[]" fresh_session] p
    by (simp add: web_office_users identity_nine_def org_of_user_def)
      (simp add: user_nine_def)
qed

theorem other_provider_locked_out_witness:
  "callback 5 (UserInfo (identity_nine\<lparr>id_subject := Some ''new''\<rparr>)) fresh_session web_office =
     (web_office, fresh_session, internal_failure)"
proof (rule other_provider_locked_out)
  show "id_subject (identity_nine\<lparr>id_subject := Some ''new''\<rparr>) = Some ''new''"
    "id_email (identity_nine\<lparr>id_subject := Some ''new''\<rparr>) = Some ''z@x''"
    by (simp_all add: identity_nine_def)
  show "get_user_by_google_id ''new'' (wb_accounts web_office) = None"
    "user_nine \<in> set (ac_users (wb_accounts web_office))"
    by (simp_all add: get_user_by_google_id_def web_office_def user_one_def user_nine_def new_user_def)
qed (rule web_office_users)

end
