(* ===== verification/Csv.thy ===== *)
theory Csv
  imports Chunking
begin

text \<open>
  Reading and writing comma-separated files as the list pages do (\<open>routes/lists.py\<close>), with the
  default dialect of Python's \<open>csv\<close> module: the reader is its automaton over the lines of a text,
  the writer quotes a field only where it has to.
\<close>

section \<open>The reader\<close>

datatype csv_state = StartRecord | StartField | InField | InQuoted | QuoteInQuoted | EatNewline

record csv_parser =
  cp_state :: csv_state
  cp_field :: string
  cp_row :: "string list"

definition carriage_return :: char where
  "carriage_return = CHR 0x0D"

definition quote_char :: char where
  "quote_char = CHR 0x22"

definition comma :: char where
  "comma = CHR '',''"

definition line_char :: "char \<Rightarrow> bool" where
  "line_char c \<longleftrightarrow> c = newline \<or> c = carriage_return"

definition field_limit :: nat where
  "field_limit = 131072"

definition goto :: "csv_state \<Rightarrow> csv_parser \<Rightarrow> csv_parser" where
  "goto st p = p\<lparr>cp_state := st\<rparr>"

definition save_field :: "csv_parser \<Rightarrow> csv_parser" where
  "save_field p = p\<lparr>cp_row := cp_row p @ [cp_field p], cp_field := []\<rparr>"

text \<open>A field that exceeds the limit is an error, here \<open>None\<close>.\<close>

definition add_char :: "char \<Rightarrow> csv_parser \<Rightarrow> csv_parser option" where
  "add_char c p = (if length (cp_field p) \<ge> field_limit then None
     else Some (p\<lparr>cp_field := cp_field p @ [c]\<rparr>))"

definition start_field :: "char \<Rightarrow> csv_parser \<Rightarrow> csv_parser option" where
  "start_field c p =
     (if line_char c then Some (goto EatNewline (save_field p))
      else if c = quote_char then Some (goto InQuoted p)
      else if c = comma then Some (goto StartField (save_field p))
      else map_option (goto InField) (add_char c p))"

fun csv_step :: "csv_state \<Rightarrow> char \<Rightarrow> csv_parser \<Rightarrow> csv_parser option" where
  "csv_step StartRecord c p = (if line_char c then Some (goto EatNewline p) else start_field c p)"
| "csv_step StartField c p = start_field c p"
| "csv_step InField c p =
     (if line_char c then Some (goto EatNewline (save_field p))
      else if c = comma then Some (goto StartField (save_field p))
      else add_char c p)"
| "csv_step InQuoted c p = (if c = quote_char then Some (goto QuoteInQuoted p) else add_char c p)"
| "csv_step QuoteInQuoted c p =
     (if c = quote_char then map_option (goto InQuoted) (add_char c p)
      else if c = comma then Some (goto StartField (save_field p))
      else if line_char c then Some (goto EatNewline (save_field p))
      else map_option (goto InField) (add_char c p))"
| "csv_step EatNewline c p = (if line_char c then Some p else None)"

text \<open>The end of a line, after its last character\<close>

fun csv_eol :: "csv_state \<Rightarrow> csv_parser \<Rightarrow> csv_parser" where
  "csv_eol StartRecord p = p"
| "csv_eol InQuoted p = p"
| "csv_eol EatNewline p = goto StartRecord p"
| "csv_eol st p = goto StartRecord (save_field p)"

definition fresh_row :: csv_parser where
  "fresh_row = \<lparr>cp_state = StartRecord, cp_field = [], cp_row = []\<rparr>"

text \<open>
  All rows of a text; \<open>mid\<close> says that the current line has characters already. A text that ends
  inside quotes yields the row as far as it got.
\<close>

fun csv_rows :: "bool \<Rightarrow> csv_parser \<Rightarrow> string \<Rightarrow> string list list option" where
  "csv_rows mid p [] =
     (let q = (if mid then csv_eol (cp_state p) p else p) in
      if cp_state q = StartRecord then Some (if mid then [cp_row q] else [])
      else Some [cp_row (save_field q)])"
| "csv_rows mid p (c # cs) = (case csv_step (cp_state p) c p of
     None \<Rightarrow> None
   | Some p' \<Rightarrow>
       if c \<noteq> newline then csv_rows True p' cs
       else (let q = csv_eol (cp_state p') p' in
         if cp_state q = StartRecord then map_option ((#) (cp_row q)) (csv_rows False fresh_row cs)
         else csv_rows False q cs))"

definition read_csv :: "string \<Rightarrow> string list list option" where
  "read_csv s = csv_rows False fresh_row s"

section \<open>The writer\<close>

definition special :: "char \<Rightarrow> bool" where
  "special c \<longleftrightarrow> c = comma \<or> c = quote_char \<or> line_char c"

fun double_quotes :: "string \<Rightarrow> string" where
  "double_quotes [] = []"
| "double_quotes (c # cs) = (if c = quote_char then [c, c] else [c]) @ double_quotes cs"

definition write_field :: "bool \<Rightarrow> string \<Rightarrow> string" where
  "write_field alone f = (if list_ex special f \<or> (alone \<and> f = [])
     then quote_char # double_quotes f @ [quote_char] else f)"

definition write_row :: "string list \<Rightarrow> string" where
  "write_row fs = py_join [comma] (map (write_field (length fs = 1)) fs) @ [carriage_return, newline]"

definition write_csv :: "string list list \<Rightarrow> string" where
  "write_csv rows = concat (map write_row rows)"

section \<open>Round trip\<close>

definition at :: "csv_state \<Rightarrow> string \<Rightarrow> string list \<Rightarrow> csv_parser" where
  "at st f row = \<lparr>cp_state = st, cp_field = f, cp_row = row\<rparr>"

lemma at_simps [simp]:
  "cp_state (at st f row) = st" "cp_field (at st f row) = f" "cp_row (at st f row) = row"
  "goto st' (at st f row) = at st' f row" "save_field (at st f row) = at st [] (row @ [f])"
  "fresh_row = at StartRecord [] []"
  by (simp_all add: at_def goto_def save_field_def fresh_row_def)

lemma add_char_at [simp]:
  "length f < field_limit \<Longrightarrow> add_char c (at st f row) = Some (at st (f @ [c]) row)"
  by (simp add: add_char_def at_def)

lemma special_chars [simp]:
  "comma \<noteq> newline" "comma \<noteq> carriage_return" "comma \<noteq> quote_char" "quote_char \<noteq> newline"
  "quote_char \<noteq> carriage_return" "carriage_return \<noteq> newline" "line_char carriage_return" "line_char newline"
  "\<not> line_char comma" "\<not> line_char quote_char" "quote_char \<noteq> comma"
  "carriage_return \<noteq> comma" "carriage_return \<noteq> quote_char" "newline \<noteq> comma" "newline \<noteq> quote_char"
  "newline \<noteq> carriage_return"
  by (simp_all add: comma_def newline_def carriage_return_def quote_char_def line_char_def)

lemma mid_irrelevant: "rest \<noteq> [] \<Longrightarrow> csv_rows mid p rest = csv_rows True p rest"
  by (cases rest) auto

lemma not_special: "\<not> special c \<Longrightarrow> \<not> line_char c \<and> c \<noteq> comma \<and> c \<noteq> quote_char \<and> c \<noteq> newline"
  by (auto simp: special_def line_char_def)

lemma plain_field:
  assumes "\<not> list_ex special s" "length f + length s \<le> field_limit" "rest \<noteq> []"
  shows "csv_rows mid (at InField f row) (s @ rest) = csv_rows True (at InField (f @ s) row) rest"
  using assms
proof (induction s arbitrary: f mid)
  case Nil
  then show ?case by (simp add: mid_irrelevant [of rest mid])
next
  case (Cons c s)
  then show ?case using not_special [of c] by simp
qed

lemma quoted_field:
  assumes "length f + length s \<le> field_limit" "rest \<noteq> []"
  shows "csv_rows mid (at InQuoted f row) (double_quotes s @ rest) = csv_rows True (at InQuoted (f @ s) row) rest"
  using assms
proof (induction s arbitrary: f mid)
  case Nil
  then show ?case by (simp add: mid_irrelevant [of rest mid])
next
  case (Cons c s)
  then show ?case by (simp add: Let_def)
qed

lemma read_field:
  assumes st: "st = StartRecord \<and> (alone \<or> f \<noteq> [] \<or> sep = comma) \<or> st = StartField"
    and f: "length f \<le> field_limit" and sep: "sep = comma \<or> sep = carriage_return"
  shows "csv_rows mid (at st [] row) (write_field alone f @ sep # rest) =
    csv_rows True (at (if sep = comma then StartField else EatNewline) [] (row @ [f])) rest"
proof (cases "list_ex special f \<or> (alone \<and> f = [])")
  case True
  have "csv_rows mid (at st [] row) (write_field alone f @ sep # rest) =
      csv_rows True (at InQuoted [] row) (double_quotes f @ quote_char # sep # rest)"
    using st True by (auto simp: write_field_def start_field_def)
  also have "\<dots> = csv_rows True (at InQuoted f row) (quote_char # sep # rest)"
    using quoted_field [of "[]" f "quote_char # sep # rest" True row] f by simp
  also have "\<dots> = csv_rows True (at (if sep = comma then StartField else EatNewline) [] (row @ [f])) rest"
    using sep by auto
  finally show ?thesis .
next
  case False
  show ?thesis
  proof (cases f)
    case Nil
    then show ?thesis using st sep False by (auto simp: write_field_def start_field_def)
  next
    case (Cons c s)
    then have c: "\<not> special c" "\<not> list_ex special s" using False by auto
    have "csv_rows mid (at st [] row) (write_field alone f @ sep # rest) =
        csv_rows True (at InField [c] row) (s @ sep # rest)"
      using st c Cons not_special [OF c(1)] by (auto simp: write_field_def start_field_def field_limit_def)
    also have "\<dots> = csv_rows True (at InField f row) (sep # rest)"
      using plain_field [OF c(2), of "[c]" "sep # rest" True row] f Cons by simp
    also have "\<dots> = csv_rows True (at (if sep = comma then StartField else EatNewline) [] (row @ [f])) rest"
      using sep by auto
    finally show ?thesis .
  qed
qed


definition row_fits :: "string list \<Rightarrow> bool" where
  "row_fits fs \<longleftrightarrow> (\<forall>f \<in> set fs. length f \<le> field_limit)"

lemma read_line_end:
  "csv_rows mid (at EatNewline [] row) (newline # rest) = map_option ((#) row) (csv_rows False fresh_row rest)"
  by simp

lemma read_fields:
  assumes "fs \<noteq> []" "row_fits fs"
  shows "csv_rows mid (at StartField [] row)
      (py_join [comma] (map (write_field alone) fs) @ carriage_return # newline # rest) =
    map_option ((#) (row @ fs)) (csv_rows False fresh_row rest)"
  using assms
proof (induction fs arbitrary: row mid)
  case (Cons f fs)
  have f: "length f \<le> field_limit" "row_fits fs" using Cons.prems(2) by (auto simp: row_fits_def)
  show ?case
  proof (cases fs)
    case Nil
    then show ?thesis
      using read_field [of StartField alone f carriage_return mid row "newline # rest"] f(1)
      by (simp add: read_line_end del: csv_rows.simps at_simps(6))
  next
    case (Cons g gs)
    then show ?thesis
      using read_field [of StartField alone f comma mid row] f Cons.IH [of True "row @ [f]"]
      by (simp del: csv_rows.simps)
  qed
qed simp

lemma read_row:
  assumes "row_fits fs"
  shows "csv_rows False fresh_row (write_row fs @ rest) = map_option ((#) fs) (csv_rows False fresh_row rest)"
proof (cases fs)
  case Nil
  then show ?thesis by (simp add: write_row_def)
next
  case (Cons f gs)
  have f: "length f \<le> field_limit" "row_fits gs" using assms Cons by (auto simp: row_fits_def)
  show ?thesis
  proof (cases gs)
    case Nil
    then show ?thesis
      using read_field [of StartRecord True f carriage_return False "[]" "newline # rest"] f(1) Cons
      by (simp add: read_line_end write_row_def del: csv_rows.simps)
  next
    case (Cons g hs)
    then show ?thesis
      using read_field [of StartRecord False f comma False "[]"] f \<open>fs = f # gs\<close>
        read_fields [of gs True "[f]" False rest]
      by (simp add: write_row_def del: csv_rows.simps)
  qed
qed

text \<open>
  What the export writes the upload reads back: any table of fields within the size limit of the
  reader, with commas, quotes, line breaks and empty fields or rows in it.
\<close>

theorem csv_round_trip:
  assumes "\<forall>fs \<in> set rows. \<forall>f \<in> set fs. length f \<le> field_limit"
  shows "read_csv (write_csv rows) = Some rows"
  using assms
proof (induction rows)
  case Nil
  then show ?case by (simp add: read_csv_def write_csv_def)
next
  case (Cons fs rows)
  then have "row_fits fs" "read_csv (write_csv rows) = Some rows" by (simp_all add: row_fits_def)
  then show ?case using read_row [of fs "write_csv rows"] by (simp add: read_csv_def write_csv_def del: at_simps(6))
qed

theorem csv_round_trip_witness:
  "read_csv (write_csv [[''a,b'', []], [], [[]]]) = Some [[''a,b'', []], [], [[]]]"
  by (rule csv_round_trip) (simp add: field_limit_def)

end
