(* ===== verification/Web_Base.thy ===== *)
theory Web_Base
  imports Api_Router Web_Auth
begin

text \<open>
  The common part of the page handlers under \<open>routes/\<close>: the state of the web process, answers, the
  IP-based limiters and the tables that only pages use, \<open>outreach_drafts\<close> (\<open>db/outreach.py\<close>) and
  \<open>research_feedback\<close> (\<open>db/feedback.py\<close>). A handler runs for the user that \<open>require_auth\<close> or
  \<open>require_onboarding\<close> returned; that user, the clocks and what the outside answers come in a
  \<open>request\<close>, whose API key no handler here uses. HTML pages are the data given to the template.
\<close>

section \<open>State and answers\<close>

record mail =
  ml_subject :: string
  ml_body :: string

record outreach =
  or_subject :: string
  or_mails :: "mail list"

record site =
  si_api :: api
  si_research_hits :: "string hits"
  si_upload_hits :: "string hits"
  si_drafts :: "(int \<times> int \<times> outreach) list"
  si_feedback :: "((int \<times> int) \<times> bool \<times> string option) list"

datatype answer = Refused int string | Json int json | Moved int string | Page string "(string \<times> json) list"
  | Download string string

type_synonym handler = "site \<Rightarrow> site \<times> answer"

definition crashed :: answer where
  "crashed = Refused 500 ''Internal server error''"

definition succeeded :: "(string \<times> json) list \<Rightarrow> answer" where
  "succeeded entries = Json 200 (JDict ((''success'', JBool True) # entries))"

definition declined :: "int \<Rightarrow> string \<Rightarrow> answer" where
  "declined status msg = Json status (JDict [(''success'', JBool False), (''error'', JStr msg)])"

definition on_api :: "(api \<Rightarrow> api) \<Rightarrow> site \<Rightarrow> site" where
  "on_api f s = s\<lparr>si_api := f (si_api s)\<rparr>"

definition tables :: "site \<Rightarrow> server" where
  "tables s = ap_server (si_api s)"

definition on_tables :: "(server \<Rightarrow> server) \<Rightarrow> site \<Rightarrow> site" where
  "on_tables f = on_api (on_server f)"

text \<open>\<open>require_onboarding\<close>, for the user that was found\<close>

definition onboarded :: "request \<Rightarrow> handler \<Rightarrow> handler" where
  "onboarded q h s = (if us_context (vw_user (rq_user q)) = []
     then (s, Refused 403 ''Onboarding not completed'') else h s)"

section \<open>Limits by address\<close>

definition ip_limiter :: "bool \<Rightarrow> nat \<Rightarrow> limiter" where
  "ip_limiter enforce n = \<lparr>rl_requests = n, rl_window = seconds 60, rl_enforce = enforce\<rparr>"

definition ip_check :: "request \<Rightarrow> nat \<Rightarrow> string \<Rightarrow> string hits \<Rightarrow> string hits \<times> answer option" where
  "ip_check q n ip hits = (case limiter_check (ip_limiter (rq_enforce q) n) (rq_mono q) (rq_wall q) ip hits of
     (h, Inr info) \<Rightarrow> (h, None)
   | (h, Inl LimiterCrash) \<Rightarrow> (h, Some crashed)
   | (h, Inl (RateLimited retry info)) \<Rightarrow> (h, Some (Refused 429 ''Rate limit exceeded'')))"

definition research_limited :: "request \<Rightarrow> string \<Rightarrow> handler \<Rightarrow> handler" where
  "research_limited q ip h s = (case ip_check q 5 ip (si_research_hits s) of
     (hits, Some e) \<Rightarrow> (s\<lparr>si_research_hits := hits\<rparr>, e)
   | (hits, None) \<Rightarrow> h (s\<lparr>si_research_hits := hits\<rparr>))"

definition upload_limited :: "request \<Rightarrow> string \<Rightarrow> handler \<Rightarrow> handler" where
  "upload_limited q ip h s = (case ip_check q 3 ip (si_upload_hits s) of
     (hits, Some e) \<Rightarrow> (s\<lparr>si_upload_hits := hits\<rparr>, e)
   | (hits, None) \<Rightarrow> h (s\<lparr>si_upload_hits := hits\<rparr>))"

section \<open>Credits, jobs and tasks\<close>

definition page_usage :: "request \<Rightarrow> site \<Rightarrow> site \<times> usage option" where
  "page_usage q s = (case caller_usage q (si_api s) of (a, u) \<Rightarrow> (s\<lparr>si_api := a\<rparr>, u))"

definition page_charge :: "request \<Rightarrow> int \<Rightarrow> site \<Rightarrow> site \<times> bool" where
  "page_charge q cents s = (case charge_caller q cents (si_api s) of (a, ok) \<Rightarrow> (s\<lparr>si_api := a\<rparr>, ok))"

definition page_refund :: "request \<Rightarrow> int \<Rightarrow> site \<Rightarrow> site" where
  "page_refund q cents = on_api (refund_caller q cents)"

definition page_task :: "request \<Rightarrow> string \<Rightarrow> payload \<Rightarrow> site \<Rightarrow> site" where
  "page_task q ty p = on_api (create_tracked_task q ty p)"

text \<open>
  The job of a page: charged and created in one transaction, or free for an administrator;
  \<open>no_credits\<close> is the answer of the page without credits.
\<close>

definition page_job :: "request \<Rightarrow> answer \<Rightarrow> string \<Rightarrow> site \<Rightarrow> site \<times> (answer + (job \<times> bool))" where
  "page_job q no_credits url s = (case page_usage q s of
     (s1, None) \<Rightarrow> (s1, Inl crashed)
   | (s1, Some u) \<Rightarrow>
       (let v = tables s1 in
        if ug_is_admin u then
          (case create_research_job (request_time q) (caller q) None url (sv_accounts v) (sv_jobs v) of
             Inl e \<Rightarrow> (s1, Inl crashed)
           | Inr (d, j) \<Rightarrow> (on_tables (\<lambda>v. v\<lparr>sv_jobs := d\<rparr>) s1, Inr (j, True)))
        else
          (case create_job_with_credit (request_time q) (caller q) None url 100 (sv_accounts v) (sv_jobs v) of
             Inl InsufficientCredits \<Rightarrow> (s1, Inl no_credits)
           | Inl (JobDb e) \<Rightarrow> (s1, Inl crashed)
           | Inr (a, d, j) \<Rightarrow> (on_tables (\<lambda>v. v\<lparr>sv_accounts := a, sv_jobs := d\<rparr>) s1, Inr (j, False)))))"

section \<open>Drafts and feedback\<close>

text \<open>One draft per document and one feedback per document and user\<close>

definition save_outreach_draft :: "int \<Rightarrow> int \<Rightarrow> outreach \<Rightarrow> site \<Rightarrow> site" where
  "save_outreach_draft doc uid x s = s\<lparr>si_drafts :=
     (if map_of (si_drafts s) doc = None then si_drafts s @ [(doc, uid, x)]
      else map (\<lambda>(d, u, y). (d, u, if d = doc then x else y)) (si_drafts s))\<rparr>"

definition get_outreach_drafts_batch :: "int list \<Rightarrow> site \<Rightarrow> int \<Rightarrow> outreach option" where
  "get_outreach_drafts_batch docs s doc =
     (if doc \<in> set docs then map_option snd (map_of (si_drafts s) doc) else None)"

definition save_feedback :: "int \<Rightarrow> int \<Rightarrow> bool \<Rightarrow> string option \<Rightarrow> site \<Rightarrow> site" where
  "save_feedback doc uid positive comment s =
     s\<lparr>si_feedback := AList.update (doc, uid) (positive, comment) (si_feedback s)\<rparr>"

definition get_feedback :: "int \<Rightarrow> int \<Rightarrow> site \<Rightarrow> (bool \<times> string option) option" where
  "get_feedback doc uid s = map_of (si_feedback s) (doc, uid)"

text \<open>The characters that stay in the name of a downloaded file\<close>

definition safe_name_char :: "char \<Rightarrow> bool" where
  "safe_name_char c \<longleftrightarrow> alnum c \<or> is_space c \<or> c \<in> {CHR ''_'', CHR ''-'', CHR ''.''}"

definition safe_name :: "string \<Rightarrow> string" where
  "safe_name s = filter safe_name_char s"

section \<open>Laws\<close>

lemma on_api_simps [simp]:
  "si_api (on_api f s) = f (si_api s)" "tables (on_tables g s) = g (tables s)"
  "tables (s\<lparr>si_research_hits := h\<rparr>) = tables s" "tables (s\<lparr>si_upload_hits := h\<rparr>) = tables s"
  "tables (s\<lparr>si_api := a\<rparr>) = ap_server a"
  by (simp_all add: on_api_def tables_def on_tables_def on_server_def)

lemma tables_on_tables_accounts [simp]:
  "tables (s\<lparr>si_api := (si_api s)\<lparr>ap_server := v\<rparr>\<rparr>) = v"
  by (simp add: tables_def)

lemma tables_page_task [simp]:
  "tables (page_task q ty p s) = (tables s)\<lparr>sv_queue := fst (enqueue (request_time q) ty p (sv_queue (tables s)))\<rparr>"
  by (simp add: page_task_def on_api_def create_tracked_task_def on_server_def tables_def)

lemma page_usage_admin:
  "snd (page_usage q s) = Some g \<Longrightarrow> admin_flag (rq_live q) (caller q) (sv_accounts (tables s)) = Some (ug_is_admin g)"
  using caller_usage_admin [of q "si_api s" g] by (simp add: page_usage_def tables_def split: prod.splits)

lemma page_usage_cases:
  obtains a u where "page_usage q s = (on_tables (\<lambda>v. v\<lparr>sv_accounts := a\<rparr>) s, u)"
    "balance_of a = balance_of (sv_accounts (tables s))"
    "org_of_user a = org_of_user (sv_accounts (tables s))"
proof -
  obtain a where a: "caller_usage q (si_api s) = ((si_api s)\<lparr>ap_server := (ap_server (si_api s))\<lparr>sv_accounts := a\<rparr>\<rparr>,
      snd (caller_usage q (si_api s)))"
    "balance_of a = balance_of (sv_accounts (tables s))" "org_of_user a = org_of_user (sv_accounts (tables s))"
    by (cases rule: caller_usage_cases [of q "si_api s"]) (simp add: tables_def)
  moreover have "page_usage q s = (on_tables (\<lambda>v. v\<lparr>sv_accounts := a\<rparr>) s, snd (caller_usage q (si_api s)))"
    unfolding page_usage_def by (subst a(1)) (simp add: on_tables_def on_api_def on_server_def)
  ultimately show thesis using that by simp
qed

lemma page_charge_cases:
  obtains (refused) a where "page_charge q c s = (on_tables (\<lambda>v. v\<lparr>sv_accounts := a\<rparr>) s, False)"
      "balance_of a = balance_of (sv_accounts (tables s))" "org_of_user a = org_of_user (sv_accounts (tables s))"
      "\<not> affordable (sv_accounts (tables s)) (caller q) c"
  | (paid) a oid b where "page_charge q c s = (on_tables (\<lambda>v. v\<lparr>sv_accounts := a\<rparr>) s, True)"
      "org_of_user (sv_accounts (tables s)) (caller q) = Some oid" "balance_of (sv_accounts (tables s)) oid = Some b"
      "c \<le> b" "balance_of a = (balance_of (sv_accounts (tables s)))(oid \<mapsto> b - c)"
      "org_of_user a = org_of_user (sv_accounts (tables s))"
proof -
  define r where "r = use_credit (wo_ledger (rq_world q)) (caller q) c (sv_accounts (tables s))"
  have p: "page_charge q c s = (on_tables (\<lambda>v. v\<lparr>sv_accounts := fst r\<rparr>) s, snd r)"
    by (simp add: page_charge_def charge_caller_def r_def tables_def on_tables_def on_api_def on_server_def split: prod.split)
  show thesis
  proof (cases rule: charge_org_cases [of "caller q" c "sv_accounts (tables s)"])
    case refused
    then show thesis using that(1) [of "fst r"] p by (simp add: r_def use_credit_def)
  next
    case (paid oid b)
    then have "balance_of (fst r) = (balance_of (sv_accounts (tables s)))(oid \<mapsto> b - c)" "snd r"
        "org_of_user (fst r) = org_of_user (sv_accounts (tables s))"
      by (simp_all add: r_def use_credit_def fun_eq_iff balance_of_add_to_org)
    then show thesis using that(2) [of "fst r" oid b] paid p by simp
  qed
qed

lemma tables_page_refund [simp]:
  "tables (page_refund q c s) = (tables s)\<lparr>sv_accounts := refund_credit (wo_ledger (rq_world q)) (caller q) c (sv_accounts (tables s))\<rparr>"
  by (simp add: page_refund_def on_api_def refund_caller_def on_server_def refund_def tables_def)

text \<open>A charge and its refund cancel.\<close>

lemma site_charge_then_refund:
  assumes "page_charge q c s = (s2, True)"
  shows "balance_of (sv_accounts (tables (page_refund q c s2))) = balance_of (sv_accounts (tables s))"
  by (cases rule: page_charge_cases [of q c s])
    (use assms in \<open>auto simp: refund_credit_balance\<close>)

lemma onboarded_simp [simp]:
  "us_context (vw_user (rq_user q)) \<noteq> [] \<Longrightarrow> onboarded q h s = h s"
  by (simp add: onboarded_def)

lemma feedback_last_wins:
  "get_feedback doc uid (save_feedback doc uid positive comment s) = Some (positive, comment)"
  by (simp add: get_feedback_def save_feedback_def update_conv')

end
