(* ===== verification/Leads.thy ===== *)
theory Leads
  imports Api_Base
begin

text \<open>
  Contacts of a company: the client of the contact service (\<open>services/leadmagic.py\<close>) and the waterfall
  over a user's own providers (\<open>services/enrichment.py\<close>). \<open>post\<close> is the network: for an endpoint and the
  JSON texts sent to it, the status and the object received, or nothing when the call or the decoding
  raised. The values of the objects are texts or null.
\<close>

section \<open>The contact service\<close>

type_synonym reply = "(int \<times> (string \<times> string option) list) option"
type_synonym network = "string \<Rightarrow> (string \<times> string option) list \<Rightarrow> reply"

text \<open>\<open>data.get(key, "")\<close> and the truth of \<open>data.get(key)\<close>\<close>

definition text_of :: "(string \<times> string option) list \<Rightarrow> string \<Rightarrow> string option" where
  "text_of data k = (case map_of data k of None \<Rightarrow> Some [] | Some v \<Rightarrow> v)"

definition has_text :: "(string \<times> string option) list \<Rightarrow> string \<Rightarrow> bool" where
  "has_text data k \<longleftrightarrow> (case text_of data k of None \<Rightarrow> False | Some t \<Rightarrow> t \<noteq> [])"

definition found_person :: "string \<Rightarrow> (string \<times> string option) list \<Rightarrow> contact" where
  "found_person title data = \<lparr>ct_name = text_of data ''name'', ct_first = text_of data ''first_name'',
     ct_last = text_of data ''last_name'', ct_title = Some title, ct_email = None, ct_email_status = None,
     ct_profile = text_of data ''profile_url'', ct_company = text_of data ''company_name''\<rparr>"

definition find_role :: "network \<Rightarrow> string \<Rightarrow> string \<Rightarrow> string \<Rightarrow> contact option" where
  "find_role post host title name =
     (case post ''role-finder'' [(''company_domain'', Some host), (''company_name'', Some name), (''job_title'', Some title)] of
        None \<Rightarrow> None
      | Some (status, data) \<Rightarrow>
          if status = 200 \<and> map_of data ''message'' = Some (Some ''Role Found'') \<and> has_text data ''name''
          then Some (found_person title data) else None)"

definition find_email :: "network \<Rightarrow> string option \<Rightarrow> string option \<Rightarrow> string \<Rightarrow> (string \<times> string) option" where
  "find_email post given_name family_name host =
     (case post ''email-finder'' [(''first_name'', given_name), (''last_name'', family_name), (''domain'', Some host)] of
        None \<Rightarrow> None
      | Some (status, data) \<Rightarrow> (case (map_of data ''email'', map_of data ''status'') of
          (Some (Some email), Some (Some st)) \<Rightarrow>
            if status = 200 \<and> email \<noteq> [] \<and> st \<in> {''valid'', ''valid_catch_all''} then Some (email, st) else None
        | _ \<Rightarrow> None))"

definition with_email :: "network \<Rightarrow> string \<Rightarrow> contact \<Rightarrow> contact" where
  "with_email post host c = (case find_email post (ct_first c) (ct_last c) host of
     None \<Rightarrow> c | Some (email, st) \<Rightarrow> c\<lparr>ct_email := Some email, ct_email_status := Some st\<rparr>)"

text \<open>The loop over the titles; without an API key there are no contacts.\<close>

fun enrich_titles :: "network \<Rightarrow> string \<Rightarrow> string \<Rightarrow> string list \<Rightarrow> contact list" where
  "enrich_titles post host name [] = []"
| "enrich_titles post host name (t # ts) = (case find_role post host t name of
     None \<Rightarrow> enrich_titles post host name ts
   | Some c \<Rightarrow> with_email post host c # enrich_titles post host name ts)"

definition leadmagic_contacts :: "bool \<Rightarrow> network \<Rightarrow> string \<Rightarrow> string \<Rightarrow> string list \<Rightarrow> contact list" where
  "leadmagic_contacts configured post host name titles =
     (if configured then enrich_titles post host name titles else [])"

section \<open>The waterfall\<close>

text \<open>
  The order of priority and the registry of providers are both empty. A provider takes the host,
  the user's key, the company and the titles, and may raise. \<open>keys\<close> are the user's integrations.
\<close>

type_synonym provider = "string \<Rightarrow> string \<Rightarrow> string \<Rightarrow> string list \<Rightarrow> contact list option"

definition priority_order :: "string list" where
  "priority_order = []"

definition providers :: "string \<Rightarrow> provider option" where
  "providers = Map.empty"

definition get_provider_priority :: "(string \<Rightarrow> bool) \<Rightarrow> string list" where
  "get_provider_priority connected = filter connected priority_order"

fun waterfall ::
    "(string \<Rightarrow> provider option) \<Rightarrow> (string \<Rightarrow> string option) \<Rightarrow> string \<Rightarrow> string \<Rightarrow> string list \<Rightarrow>
     string list \<Rightarrow> contact list" where
  "waterfall registry keys host name titles [] = []"
| "waterfall registry keys host name titles (p # ps) = (case (registry p, keys p) of
     (Some enrich, Some key) \<Rightarrow> (case enrich host key name titles of
        Some cs \<Rightarrow> if cs \<noteq> [] then cs else waterfall registry keys host name titles ps
      | None \<Rightarrow> waterfall registry keys host name titles ps)
   | _ \<Rightarrow> waterfall registry keys host name titles ps)"

definition enrich_company_contacts ::
    "(string \<Rightarrow> string option) \<Rightarrow> string \<Rightarrow> string \<Rightarrow> string list \<Rightarrow> contact list" where
  "enrich_company_contacts keys host name titles =
     waterfall providers keys host name titles (get_provider_priority (\<lambda>p. keys p \<noteq> None))"

section \<open>What is found\<close>

lemma find_role_title: "find_role post host t name = Some c \<Longrightarrow> ct_title c = Some t \<and> ct_email c = None"
  by (auto simp: find_role_def found_person_def split: option.splits if_splits)

lemma find_email_valid:
  "find_email post a b host = Some (email, st) \<Longrightarrow> email \<noteq> [] \<and> st \<in> {''valid'', ''valid_catch_all''}"
  by (auto simp: find_email_def split: option.splits if_splits)

lemma with_email_title [simp]: "ct_title (with_email post host c) = ct_title c"
  by (simp add: with_email_def split: option.split prod.split)

lemma with_email_valid:
  "ct_email c = None \<Longrightarrow> ct_email (with_email post host c) = Some e \<Longrightarrow>
     e \<noteq> [] \<and> ct_email_status (with_email post host c) \<in> {Some ''valid'', Some ''valid_catch_all''}"
  by (auto simp: with_email_def split: option.splits dest: find_email_valid)

lemma enrich_titles_subseq: "subseq (map ct_title (enrich_titles post host name titles)) (map Some titles)"
  by (induction titles) (auto split: option.split dest: find_role_title)

text \<open>
  the contact search returns at most one person per title, in the order of the titles, and every
  address in it is one the service called valid.
\<close>

theorem contacts_follow_titles:
  "subseq (map ct_title (leadmagic_contacts configured post host name titles)) (map Some titles) \<and>
   list_all (\<lambda>c. ct_email c = None \<or> ct_email_status c = Some ''valid'' \<or> ct_email_status c = Some ''valid_catch_all'')
     (leadmagic_contacts configured post host name titles)"
proof -
  have "list_all (\<lambda>c. ct_email c = None \<or> ct_email_status c = Some ''valid'' \<or> ct_email_status c = Some ''valid_catch_all'')
      (enrich_titles post host name titles)"
  proof (induction titles)
    case (Cons t ts)
    have "ct_email (with_email post host c) = None \<or> ct_email_status (with_email post host c) = Some ''valid'' \<or>
        ct_email_status (with_email post host c) = Some ''valid_catch_all''" if "find_role post host t name = Some c" for c
      using with_email_valid [of c post host] find_role_title [OF that]
      by (cases "ct_email (with_email post host c)") auto
    then show ?case using Cons by (simp split: option.split)
  qed simp
  then show ?thesis using enrich_titles_subseq by (simp add: leadmagic_contacts_def)
qed

text \<open>
  The waterfall stops at the first provider with contacts: what it returns is the answer of one
  connected provider, or nothing.
\<close>

lemma waterfall_one_provider:
  "waterfall registry keys host name titles ps = cs \<Longrightarrow> cs = [] \<or>
     (\<exists>p \<in> set ps. \<exists>enrich key. registry p = Some enrich \<and> keys p = Some key \<and> enrich host key name titles = Some cs)"
proof (induction ps)
  case (Cons p ps)
  show ?case
  proof (cases "registry p = None \<or> keys p = None")
    case True
    then have "waterfall registry keys host name titles (p # ps) = waterfall registry keys host name titles ps"
      by (auto split: option.split)
    then show ?thesis using Cons by auto
  next
    case False
    then obtain enrich key where "registry p = Some enrich" "keys p = Some key" by auto
    then show ?thesis using Cons by (cases "enrich host key name titles") auto
  qed
qed simp

lemma no_provider_yet: "enrich_company_contacts keys host name titles = []"
  by (simp add: enrich_company_contacts_def get_provider_priority_def priority_order_def)

end
