(* ===== verification/Web_Lists.thy ===== *)
theory Web_Lists
  imports Web_Base Api_Lists Csv Leads
begin

text \<open>
  The list pages (\<open>routes/lists.py\<close>): import from a file or a Google sheet, the list page, exports,
  bulk actions, retries and the pipeline status. \<open>get_list_accounts\<close> returns a pair of the rows and
  a flag; these handlers treat it as the list of rows, and the model keeps that.
\<close>

section \<open>Rows of an uploaded table\<close>

definition recognized_columns :: "string list" where
  "recognized_columns = [''domain'', ''url'', ''website'', ''company_url'', ''company'']"

fun domain_column :: "nat \<Rightarrow> string list \<Rightarrow> nat option" where
  "domain_column i [] = None"
| "domain_column i (c # cs) = (if py_lower (py_strip c) \<in> set recognized_columns then Some i
     else domain_column (i + 1) cs)"

text \<open>Without a recognized header the first row is data and the first column the domain.\<close>

definition raw_urls :: "string list list \<Rightarrow> string list" where
  "raw_urls rows = (case rows of [] \<Rightarrow> [] | header # rest \<Rightarrow>
     (let (col, data) = (case domain_column 0 header of Some i \<Rightarrow> (i, rest) | None \<Rightarrow> (0, rows))
      in concat (map (\<lambda>r. if col < length r \<and> py_strip (r ! col) \<noteq> [] then [py_strip (r ! col)] else []) data)))"

text \<open>The first hundred distinct valid URLs; the others are skipped.\<close>

fun valid_urls :: "request \<Rightarrow> string list \<Rightarrow> string list \<Rightarrow> string list" where
  "valid_urls q acc [] = acc"
| "valid_urls q acc (raw # raws) = (case validate_company_url (rq_resolve q) (normalize_url raw) of
     Inl e \<Rightarrow> valid_urls q acc raws
   | Inr url \<Rightarrow> (let acc' = (if url \<in> set acc then acc else acc @ [url]) in
       if 100 \<le> length acc' then acc' else valid_urls q acc' raws))"

section \<open>Importing a table\<close>

definition list_fields_payload :: "request \<Rightarrow> int \<Rightarrow> bool \<Rightarrow> payload" where
  "list_fields_payload q lid is_admin = [(''list_id'', PInt lid), (''user_id'', PInt (caller q)),
     (''api_key_id'', PNull), (''is_admin'', PBool is_admin)]"

definition page_create_list :: "request \<Rightarrow> string \<Rightarrow> string list \<Rightarrow> int \<Rightarrow> site \<Rightarrow> site \<times> int" where
  "page_create_list q name urls cents s = (let v = tables s in
     case create_list (request_time q) (caller q) None name (us_org (vw_user (rq_user q)))
         (sv_accounts v) (sv_lists v) of
       (d, l) \<Rightarrow> (on_tables (\<lambda>v. v\<lparr>sv_lists := update_list_credits (request_time q) (ls_id l) cents
          (fst (add_list_accounts (request_time q) (ls_id l) urls (\<lambda>url. None) d))\<rparr>) s, ls_id l))"

definition not_enough :: "usage \<Rightarrow> nat \<Rightarrow> answer" where
  "not_enough u n = Refused 402 (''Not enough credits. Need '' @ str_nat n @ '', have '' @
     str_int (ug_credits u div 100) @ ''.'')"

text \<open>
  The common part of both imports, from the rows on: the credits are looked at, then charged,
  then the list is made and its analysis enqueued. \<open>finish\<close> is the answer for the new list.
\<close>

definition import_rows ::
    "request \<Rightarrow> string \<Rightarrow> string \<Rightarrow> (int \<Rightarrow> answer) \<Rightarrow> string list list \<Rightarrow> handler" where
  "import_rows q nothing name reply rows s =
     (let urls = valid_urls q [] (raw_urls rows); n = length urls; needed = int n * 100 in
      if urls = [] then (s, Refused 400 nothing)
      else (case page_usage q s of
        (s1, None) \<Rightarrow> (s1, crashed)
      | (s1, Some u) \<Rightarrow>
          if \<not> ug_is_admin u \<and> ug_credits u < needed then (s1, not_enough u n)
          else (case (if ug_is_admin u then (s1, True) else page_charge q needed s1) of
            (s2, False) \<Rightarrow> (s2, Refused 402 ''Not enough credits.'')
          | (s2, True) \<Rightarrow> (case page_create_list q name urls needed s2 of
              (s3, lid) \<Rightarrow> (page_task q ''list_analysis'' (list_fields_payload q lid (ug_is_admin u)) s3,
                 reply lid)))))"

text \<open>The e-table of a Google sheet: rows, an error of the service with its status, or another failure.\<close>

datatype sheet = SheetRows "string list list" | SheetError int string | SheetFails

definition or_default :: "string \<Rightarrow> string \<Rightarrow> string" where
  "or_default s d = (if s = [] then d else s)"

definition import_google_sheet ::
    "request \<Rightarrow> string \<Rightarrow> (string \<Rightarrow> string option) \<Rightarrow> (string \<Rightarrow> sheet) \<Rightarrow> string \<Rightarrow> string \<Rightarrow> handler" where
  "import_google_sheet q ip sheet_id fetch url name = onboarded q (upload_limited q ip (\<lambda>s.
     case sheet_id url of
       None \<Rightarrow> (s, Refused 400 ''Invalid Google Sheets URL.'')
     | Some i \<Rightarrow> if i = [] then (s, Refused 400 ''Invalid Google Sheets URL.'') else
         (case fetch i of
            SheetError status msg \<Rightarrow> (s, Refused status msg)
          | SheetFails \<Rightarrow> (s, Refused 502 ''Google Sheets API error. Please try again.'')
          | SheetRows rows \<Rightarrow>
              if rows = [] then (s, Refused 400 ''Sheet is empty.'')
              else import_rows q ''No valid domains found in the sheet.''
                (or_default (py_strip name) ''Google Sheets Import'')
                (\<lambda>lid. succeeded [(''list_id'', JInt lid)]) rows s)))"

text \<open>\<open>rsplit('.', 1)\<close>\<close>

definition extension :: "string \<Rightarrow> string" where
  "extension f = (if CHR ''.'' \<in> set f then rev (takeWhile (\<lambda>c. c \<noteq> CHR ''.'') (rev (py_lower f))) else [])"

definition before_extension :: "string \<Rightarrow> string" where
  "before_extension f = (if CHR ''.'' \<in> set f then rev (tl (dropWhile (\<lambda>c. c \<noteq> CHR ''.'') (rev f))) else f)"

text \<open>
  \<open>decode\<close> is \<open>bytes.decode('utf-8', errors='replace')\<close>; \<open>workbook\<close> gives the rows of a spreadsheet or
  nothing when the library raises.
\<close>

definition upload_rows ::
    "(string \<Rightarrow> string) \<Rightarrow> (string \<Rightarrow> string list list option) \<Rightarrow> string \<Rightarrow> string \<Rightarrow> string list list option" where
  "upload_rows decode workbook ext contents =
     (if ext = ''csv'' then read_csv (decode contents) else workbook contents)"

definition upload_list_csv ::
    "request \<Rightarrow> string \<Rightarrow> (string \<Rightarrow> string) \<Rightarrow> (string \<Rightarrow> string list list option) \<Rightarrow> string \<Rightarrow> string \<Rightarrow>
     string \<Rightarrow> handler" where
  "upload_list_csv q ip decode workbook filename contents list_name = onboarded q (upload_limited q ip (\<lambda>s.
     let ext = extension filename in
     if filename = [] \<or> ext \<notin> {''csv'', ''xlsx'', ''xls''}
     then (s, Refused 400 ''Please upload a .csv, .xlsx, or .xls file.'')
     else if length contents > 1048576 then (s, Refused 400 ''File too large (max 1MB).'')
     else (case upload_rows decode workbook ext contents of
       None \<Rightarrow> (s, crashed)
     | Some rows \<Rightarrow>
         if rows = [] then (s, Refused 400 ''CSV file is empty.'')
         else import_rows q ''No valid domains found in CSV.''
           (or_default (py_strip list_name) (before_extension filename))
           (\<lambda>lid. Moved 303 (''/lists/'' @ str_int lid)) rows s)))"

section \<open>The pair of rows and flag\<close>

text \<open>
  What iterating over the pair yields: the list of rows, then the flag. Neither is a dictionary,
  so that \<open>get\<close> and subscripts by name raise.
\<close>

datatype item = DictItem account_row | RowsItem "account_row list" | FlagItem bool

definition items_of :: "account_row list \<times> bool \<Rightarrow> item list" where
  "items_of p = [RowsItem (fst p), FlagItem (snd p)]"

fun as_row :: "item \<Rightarrow> account_row option" where
  "as_row (DictItem r) = Some r"
| "as_row _ = None"

fun as_rows :: "item list \<Rightarrow> account_row list option" where
  "as_rows [] = Some []"
| "as_rows (x # xs) = (case (as_row x, as_rows xs) of (Some r, Some rs) \<Rightarrow> Some (r # rs) | _ \<Rightarrow> None)"

definition accounts_of_page ::
    "request \<Rightarrow> int \<Rightarrow> account_filter \<Rightarrow> string \<Rightarrow> nat \<Rightarrow> site \<Rightarrow> item list option" where
  "accounts_of_page q lid fl sort_by limit s =
     (case get_list_accounts (\<lambda>_. 0) lid fl sort_by ''desc'' limit None (sv_lists (tables s)) of
        Inl e \<Rightarrow> None | Inr p \<Rightarrow> Some (items_of p))"

definition any_account :: account_filter where
  "any_account = \<lparr>fl_min_pain = None, fl_min_composite = None, fl_status = None, fl_ids = None\<rparr>"

definition visible_list :: "request \<Rightarrow> int \<Rightarrow> site \<Rightarrow> list_row option" where
  "visible_list q lid s = get_list lid (caller q) (sv_accounts (tables s)) (sv_lists (tables s))"

definition no_list :: answer where
  "no_list = Refused 404 ''List not found''"


section \<open>Pages\<close>

definition credits_entry :: "usage \<Rightarrow> string \<times> json" where
  "credits_entry u = (''credits_cents'', JInt (ug_credits u))"

definition admin_entry :: "usage \<Rightarrow> string \<times> json" where
  "admin_entry u = (''is_admin'', JBool (ug_is_admin u))"

definition lists_page :: "request \<Rightarrow> bool \<Rightarrow> handler" where
  "lists_page q sheets = onboarded q (\<lambda>s. case page_usage q s of
     (s1, None) \<Rightarrow> (s1, crashed)
   | (s1, Some u) \<Rightarrow> (s1, Page ''lists.html'' [
       (''lists'', JList (map (\<lambda>l. JDict (list_fields l))
          (fst (list_lists (caller q) 100 None (sv_accounts (tables s)) (sv_lists (tables s)))))),
       credits_entry u, admin_entry u, (''google_sheets_connected'', JBool sheets)]))"

definition item_value :: "request \<Rightarrow> item \<Rightarrow> json" where
  "item_value q x = (case x of DictItem r \<Rightarrow> account_json q r
     | RowsItem rs \<Rightarrow> JList (map (account_json q) rs) | FlagItem b \<Rightarrow> JBool b)"

definition score_filter :: "int \<Rightarrow> account_filter" where
  "score_filter least = any_account\<lparr>fl_min_composite := if least > 0 then Some least else None\<rparr>"

definition counts_entries :: "pipeline_counts \<Rightarrow> (string \<times> json) list" where
  "counts_entries c = [(''scored_count'', JInt (pc_scored c)), (''enriched_count'', JInt (pc_enriched c)),
     (''written_count'', JInt (pc_sequences c)), (''pushed_count'', JInt (pc_pushed c))]"

text \<open>The template gets the pair as its accounts.\<close>

definition view_list :: "request \<Rightarrow> bool \<Rightarrow> int \<Rightarrow> int \<Rightarrow> string \<Rightarrow> handler" where
  "view_list q sheets lid least sort_by = onboarded q (\<lambda>s. case visible_list q lid s of
     None \<Rightarrow> (s, no_list)
   | Some l \<Rightarrow> (case accounts_of_page q lid (score_filter least) sort_by 100 s of
       None \<Rightarrow> (s, crashed)
     | Some items \<Rightarrow> (case page_usage q s of
         (s1, None) \<Rightarrow> (s1, crashed)
       | (s1, Some u) \<Rightarrow> (s1, Page ''list_view.html'' ([(''list'', JDict (list_fields l)),
           (''accounts'', JList (map (item_value q) items)), (''min_score'', JInt least), (''sort'', JStr sort_by),
           credits_entry u, admin_entry u, (''google_sheets_connected'', JBool sheets)] @
           counts_entries (get_pipeline_counts lid (sv_lists (tables s))) @
           [(''contact_counts'', JDict (map (\<lambda>(d, n). (str_int d, JInt n))
              (get_contact_counts_for_list lid (caller q) (si_api s))))])))))"

section \<open>Exports\<close>

definition export_header :: "string list" where
  "export_header = [''Company Name'', ''Website'', ''Pain Score'', ''Fit Score'', ''Timing Score'',
     ''Composite Score'', ''Status'', ''Email Subject'', ''Email 1 Body'', ''Email 2 Body'', ''Email 3 Body'']"

definition score_text :: "int option \<Rightarrow> string" where
  "score_text x = (case x of None \<Rightarrow> [] | Some n \<Rightarrow> str_int n)"

definition mail_at :: "(mail \<Rightarrow> string) \<Rightarrow> outreach option \<Rightarrow> nat \<Rightarrow> string" where
  "mail_at f x i = (case x of None \<Rightarrow> []
     | Some o' \<Rightarrow> if i < length (or_mails o') then f (or_mails o' ! i) else [])"

definition draft_cells :: "outreach option \<Rightarrow> string list" where
  "draft_cells x = (case x of None \<Rightarrow> [] | Some o' \<Rightarrow> or_subject o') #
     [mail_at ml_body x 0, mail_at ml_body x 1, mail_at ml_body x 2]"

definition export_row :: "(int option \<Rightarrow> string) \<Rightarrow> (int \<Rightarrow> outreach option) \<Rightarrow> account_row \<Rightarrow> string list" where
  "export_row score drafts r = [coalesce (la_company r) [], la_url r, score (la_pain r), score (la_fit r),
      score (la_timing r), score (la_composite r), child_status_text (la_status r)] @
     draft_cells (case la_document r of None \<Rightarrow> None | Some d \<Rightarrow> drafts d)"

definition documents_of :: "account_row list \<Rightarrow> int list" where
  "documents_of rs = concat (map (\<lambda>r. case la_document r of None \<Rightarrow> [] | Some d \<Rightarrow> [d]) rs)"

text \<open>The rows of an export, or nothing when an item is no dictionary\<close>

definition export_rows :: "(int option \<Rightarrow> string) \<Rightarrow> item list \<Rightarrow> site \<Rightarrow> string list list option" where
  "export_rows score items s = (case as_rows items of
     None \<Rightarrow> None
   | Some rs \<Rightarrow> Some (map (export_row score (get_outreach_drafts_batch (documents_of rs) s)) rs))"

definition export_file ::
    "request \<Rightarrow> int \<Rightarrow> account_filter \<Rightarrow> (list_row \<Rightarrow> string) \<Rightarrow> handler" where
  "export_file q lid fl filename s = (case visible_list q lid s of
     None \<Rightarrow> (s, no_list)
   | Some l \<Rightarrow> (case accounts_of_page q lid fl ''composite_score'' 10000 s of
       None \<Rightarrow> (s, crashed)
     | Some items \<Rightarrow> (case export_rows score_text items s of
         None \<Rightarrow> (s, crashed)
       | Some rows \<Rightarrow> (s, Download (filename l) (write_csv (export_header # rows))))))"

definition export_list_csv :: "request \<Rightarrow> int \<Rightarrow> handler" where
  "export_list_csv q lid = onboarded q (export_file q lid any_account (\<lambda>l. safe_name (ls_name l) @ ''.csv''))"

definition export_selected_csv :: "request \<Rightarrow> int \<Rightarrow> int list \<Rightarrow> handler" where
  "export_selected_csv q lid ids = onboarded q (\<lambda>s.
     if ids = [] then (s, Refused 400 ''No accounts selected'')
     else export_file q lid (any_account\<lparr>fl_ids := Some ids\<rparr>) (\<lambda>l. ''selected_accounts.csv'') s)"

definition contacts_header :: "string list" where
  "contacts_header = [''first_name'', ''last_name'', ''email'', ''title'', ''linkedin_url'', ''company_name'',
     ''company_url'', ''auggie_composite_score'', ''auggie_pain_score'', ''auggie_fit_score'',
     ''auggie_timing_score'', ''auggie_email_1_subject'', ''auggie_email_1_body'', ''auggie_email_2_subject'',
     ''auggie_email_2_body'', ''auggie_email_3_subject'', ''auggie_email_3_body'']"

definition contact_row :: "account_row \<Rightarrow> outreach option \<Rightarrow> contact \<Rightarrow> string list" where
  "contact_row r x c = [coalesce (ct_first c) [], coalesce (ct_last c) [], coalesce (ct_email c) [],
     coalesce (ct_title c) [], coalesce (ct_profile c) [], coalesce (la_company r) [], la_url r,
     score_text (la_composite r), score_text (la_pain r), score_text (la_fit r), score_text (la_timing r),
     mail_at ml_subject x 0, mail_at ml_body x 0, mail_at ml_subject x 1, mail_at ml_body x 1,
     mail_at ml_subject x 2, mail_at ml_body x 2]"

definition contact_rows :: "request \<Rightarrow> account_row list \<Rightarrow> site \<Rightarrow> string list list" where
  "contact_rows q rs s = concat (map (\<lambda>r. case la_document r of
     None \<Rightarrow> []
   | Some d \<Rightarrow> map (contact_row r (get_outreach_drafts_batch (documents_of rs) s d))
       (filter (\<lambda>c. given (ct_email c)) (get_enriched_contacts d (caller q) (si_api s)))) rs)"

definition export_contacts_csv :: "request \<Rightarrow> int \<Rightarrow> handler" where
  "export_contacts_csv q lid = onboarded q (\<lambda>s. case visible_list q lid s of
     None \<Rightarrow> (s, no_list)
   | Some l \<Rightarrow> (case accounts_of_page q lid any_account ''composite_score'' 10000 s of
       None \<Rightarrow> (s, crashed)
     | Some items \<Rightarrow> (case as_rows items of
         None \<Rightarrow> (s, crashed)
       | Some rs \<Rightarrow> (s, Download (safe_name (ls_name l) @ ''_contacts.csv'')
           (write_csv (contacts_header # contact_rows q rs s))))))"

text \<open>The sheet shows a missing score as the text of Python's null value.\<close>

definition python_score :: "int option \<Rightarrow> string" where
  "python_score x = (case x of None \<Rightarrow> ''None'' | Some n \<Rightarrow> str_int n)"

datatype sheet_write = Written string | WriteError int string | WriteFails

definition push_to_sheets ::
    "request \<Rightarrow> bool \<Rightarrow> (string \<Rightarrow> string list \<Rightarrow> string list list \<Rightarrow> sheet_write) \<Rightarrow> int \<Rightarrow> int list option \<Rightarrow> handler" where
  "push_to_sheets q connected write_sheet lid ids = onboarded q (\<lambda>s. case visible_list q lid s of
     None \<Rightarrow> (s, no_list)
   | Some l \<Rightarrow>
       if \<not> connected then (s, Refused 400 ''Google Sheets is not connected. Connect it in Integrations.'')
       else (case accounts_of_page q lid (any_account\<lparr>fl_ids := ids\<rparr>) ''composite_score'' 10000 s of
         None \<Rightarrow> (s, crashed)
       | Some items \<Rightarrow> (case export_rows python_score items s of
           None \<Rightarrow> (s, crashed)
         | Some rows \<Rightarrow> (case write_sheet (''Auggie - '' @ ls_name l) export_header rows of
             Written url \<Rightarrow> (s, succeeded [(''spreadsheet_url'', JStr url)])
           | WriteError status msg \<Rightarrow> (s, Refused status msg)
           | WriteFails \<Rightarrow> (s, Refused 502 ''Google Sheets API error. Please try again.'')))))"

section \<open>Bulk actions\<close>

definition batch_payload :: "request \<Rightarrow> int \<Rightarrow> int list option \<Rightarrow> payload" where
  "batch_payload q lid ids = [(''list_id'', PInt lid), (''user_id'', PInt (caller q)),
     (''account_ids'', case ids of None \<Rightarrow> PNull | Some is \<Rightarrow> PIds is)]"

definition queue_batch :: "request \<Rightarrow> string \<Rightarrow> int \<Rightarrow> int list option \<Rightarrow> handler" where
  "queue_batch q ty lid ids s =
     (page_task q ty (batch_payload q lid ids) s,
      succeeded [(''queued_count'', JInt (count_ready_accounts lid ids (sv_lists (tables s))))])"

definition batch_write_sequences :: "request \<Rightarrow> int \<Rightarrow> int list option \<Rightarrow> handler" where
  "batch_write_sequences q lid ids = onboarded q (\<lambda>s. case visible_list q lid s of
     None \<Rightarrow> (s, no_list) | Some l \<Rightarrow> queue_batch q ''batch_write'' lid ids s)"

definition batch_enrich :: "request \<Rightarrow> (string \<Rightarrow> bool) \<Rightarrow> int \<Rightarrow> int list option \<Rightarrow> handler" where
  "batch_enrich q connected lid ids = onboarded q (\<lambda>s. case visible_list q lid s of
     None \<Rightarrow> (s, no_list)
   | Some l \<Rightarrow>
       if get_provider_priority connected = []
       then (s, declined 422 ''No enrichment provider connected. Connect a provider in Integrations.'')
       else queue_batch q ''batch_enrich'' lid ids s)"

section \<open>Status, deletion and contacts\<close>

definition status_body :: "pipeline_counts \<Rightarrow> list_row \<Rightarrow> json" where
  "status_body c l = JDict [(''scored'', JInt (pc_scored c)), (''enriched'', JInt (pc_enriched c)),
     (''sequences_written'', JInt (pc_sequences c)), (''pushed'', JInt (pc_pushed c)),
     (''total'', JInt (pc_total c)), (''list_status'', JStr (show_status (ls_status l))),
     (''processed'', JInt (ls_analyzed l + ls_failed l)), (''failed'', JInt (ls_failed l))]"

definition all_done :: "pipeline_counts \<Rightarrow> list_row \<Rightarrow> bool" where
  "all_done c l \<longleftrightarrow> ls_status l \<in> {BatchCreated, BatchAnalyzing} \<and> 0 < pc_total c \<and>
     pc_total c \<le> pc_scored c + pc_failed c"

definition pipeline_status :: "request \<Rightarrow> int \<Rightarrow> handler" where
  "pipeline_status q lid s = (case visible_list q lid s of
     None \<Rightarrow> (s, no_list)
   | Some l \<Rightarrow>
       (let c = get_pipeline_counts lid (sv_lists (tables s)) in
        if all_done c l then
          (case finalize_list (request_time q) lid (sv_lists (tables s)) of
             Inl e \<Rightarrow> (s, crashed)
           | Inr (d, l') \<Rightarrow> (on_tables (\<lambda>v. v\<lparr>sv_lists := d\<rparr>) s, Json 200 (status_body c l')))
        else (s, Json 200 (status_body c l))))"

definition delete_list_route :: "request \<Rightarrow> int \<Rightarrow> handler" where
  "delete_list_route q lid = onboarded q (\<lambda>s.
     case delete_list lid (caller q) (sv_accounts (tables s)) (sv_lists (tables s)) of
       (d, False) \<Rightarrow> (s, no_list)
     | (d, True) \<Rightarrow> (on_tables (\<lambda>v. v\<lparr>sv_lists := d\<rparr>) s, Moved 303 ''/lists''))"

definition page_contact :: "contact \<Rightarrow> json" where
  "page_contact c = JDict [(''first_name'', jopt JStr (ct_first c)), (''last_name'', jopt JStr (ct_last c)),
     (''title'', jopt JStr (ct_title c)), (''email'', jopt JStr (ct_email c)), (''profile_url'', jopt JStr (ct_profile c))]"

definition get_account_contacts :: "request \<Rightarrow> int \<Rightarrow> int \<Rightarrow> handler" where
  "get_account_contacts q lid i s = (case visible_list q lid s of
     None \<Rightarrow> (s, no_list)
   | Some l \<Rightarrow> (s, Json 200 (JDict [(''contacts'', JList (map page_contact
       (case get_list_account i lid (sv_lists (tables s)) of
          None \<Rightarrow> []
        | Some r \<Rightarrow> (case la_document r of
            None \<Rightarrow> [] | Some d \<Rightarrow> get_enriched_contacts d (caller q) (si_api s)))))])))"

section \<open>Retries\<close>

definition retry_payload :: "request \<Rightarrow> account_row \<Rightarrow> job \<Rightarrow> bool \<Rightarrow> payload" where
  "retry_payload q r j is_admin = [(''user_id'', PInt (caller q)), (''account_id'', PInt (la_id r)),
     (''company_url'', PStr (la_url r)), (''job_id'', PInt (jb_id j)), (''is_admin'', PBool is_admin)]"

definition reset_account :: "request \<Rightarrow> account_row \<Rightarrow> site \<Rightarrow> site" where
  "reset_account q r = on_tables (\<lambda>v. v\<lparr>sv_lists := reset_list_account (request_time q) (la_id r) (sv_lists v)\<rparr>)"

definition start_retry :: "request \<Rightarrow> account_row \<Rightarrow> job \<Rightarrow> bool \<Rightarrow> site \<Rightarrow> site" where
  "start_retry q r j is_admin s = page_task q ''retry'' (retry_payload q r j is_admin)
     (on_tables (\<lambda>v. v\<lparr>sv_lists := update_list_account (request_time q) (la_id r) ChildProcessing None
        (Some (jb_id j)) no_scores None None (sv_lists v)\<rparr>) s)"

text \<open>The loop over the selected accounts; it raises at the first item that is no dictionary.\<close>

fun retry_all :: "request \<Rightarrow> bool \<Rightarrow> item list \<Rightarrow> site \<Rightarrow> site \<times> bool" where
  "retry_all q is_admin [] s = (s, True)"
| "retry_all q is_admin (x # xs) s = (case as_row x of
     None \<Rightarrow> (s, False)
   | Some r \<Rightarrow>
       (let s1 = reset_account q r s; v = tables s1 in
        case create_research_job (request_time q) (caller q) None (la_url r) (sv_accounts v) (sv_jobs v) of
          Inl e \<Rightarrow> (s1, False)
        | Inr (d, j) \<Rightarrow> retry_all q is_admin xs
            (start_retry q r j is_admin (on_tables (\<lambda>v. v\<lparr>sv_jobs := d\<rparr>) s1))))"

definition retry_items :: "request \<Rightarrow> item list \<Rightarrow> handler" where
  "retry_items q items s = (let needed = int (length items) * 100 in
     if items = [] then (s, declined 400 ''No failed accounts in selection'')
     else (case page_usage q s of
       (s1, None) \<Rightarrow> (s1, crashed)
     | (s1, Some u) \<Rightarrow>
         (case (if ug_is_admin u then (s1, True) else page_charge q needed s1) of
            (s2, False) \<Rightarrow> (s2, declined 402 ''Not enough credits'')
          | (s2, True) \<Rightarrow> (case retry_all q (ug_is_admin u) items s2 of
              (s3, False) \<Rightarrow> (s3, crashed)
            | (s3, True) \<Rightarrow> (s3, succeeded [(''retried'', JInt (int (length items)))])))))"

definition retry_selected_accounts :: "request \<Rightarrow> int \<Rightarrow> int list \<Rightarrow> handler" where
  "retry_selected_accounts q lid ids = onboarded q (\<lambda>s.
     if ids = [] then (s, declined 400 ''No accounts selected'')
     else (case visible_list q lid s of
       None \<Rightarrow> (s, no_list)
     | Some l \<Rightarrow> (case accounts_of_page q lid (any_account\<lparr>fl_status := Some ChildFailed, fl_ids := Some ids\<rparr>)
           ''composite_score'' 10000 s of
         None \<Rightarrow> (s, crashed)
       | Some items \<Rightarrow> retry_items q items s)))"

definition retry_one_account :: "request \<Rightarrow> account_row \<Rightarrow> handler" where
  "retry_one_account q r s = (case page_job q (declined 402 ''No credits remaining.'') (la_url r) s of
     (s1, Inl e) \<Rightarrow> (s1, e)
   | (s1, Inr (j, is_admin)) \<Rightarrow> (start_retry q r j is_admin (reset_account q r s1), succeeded []))"

definition page_retry_account :: "request \<Rightarrow> int \<Rightarrow> int \<Rightarrow> handler" where
  "page_retry_account q lid i = onboarded q (\<lambda>s. case visible_list q lid s of
     None \<Rightarrow> (s, no_list)
   | Some l \<Rightarrow> (case get_list_account i lid (sv_lists (tables s)) of
       None \<Rightarrow> (s, declined 404 ''Account not found'')
     | Some r \<Rightarrow> if la_status r \<noteq> ChildFailed then (s, declined 400 ''Account is not in failed state'')
         else retry_one_account q r s))"

end
