(* ===== verification/Web_List_Properties.thy ===== *)
theory Web_List_Properties
  imports Web_Lists Api_Frames
begin

text \<open>
  What the list pages guarantee: an import is paid for exactly when its analysis is enqueued; and what the
  pair returned by \<open>get_list_accounts\<close> and the empty order of providers do to exports, retries and
  bulk enrichment.
\<close>

section \<open>Imported URLs\<close>

lemma valid_urls_bounded:
  "distinct acc \<Longrightarrow> length acc \<le> 99 \<Longrightarrow>
     distinct (valid_urls q acc raws) \<and> length (valid_urls q acc raws) \<le> 100"
  by (induction q acc raws rule: valid_urls.induct) (auto simp: Let_def split: sum.split)

lemma valid_urls_validated:
  "\<forall>u \<in> set (valid_urls q acc raws). u \<in> set acc \<or>
     (\<exists>raw \<in> set raws. validate_company_url (rq_resolve q) (normalize_url raw) = Inr u)"
proof (induction q acc raws rule: valid_urls.induct)
  case (2 q acc raw raws)
  show ?case
  proof (cases "validate_company_url (rq_resolve q) (normalize_url raw)")
    case (Inl e)
    then show ?thesis using 2 by auto
  next
    case (Inr url)
    define acc' where "acc' = (if url \<in> set acc then acc else acc @ [url])"
    have s: "u \<in> set acc \<or> u = url" if "u \<in> set acc'" for u
      using that by (auto simp: acc'_def split: if_splits)
    show ?thesis
      using 2(2) [OF Inr acc'_def] s Inr by (auto simp: Let_def acc'_def [symmetric])
  qed
qed simp

definition sites_of :: "int \<Rightarrow> list_db \<Rightarrow> string list" where
  "sites_of lid d = map la_url (filter (\<lambda>r. la_list r = lid) (ld_accounts d))"

lemma page_create_list_accounts:
  assumes "page_create_list q name urls cents s = (s', lid)"
  obtains d where "s' = on_tables (\<lambda>v. v\<lparr>sv_lists := d\<rparr>) s" "lid = ld_next_list (sv_lists (tables s))"
    "sites_of lid d = sites_of lid (sv_lists (tables s)) @ urls"
proof -
  have i: "map la_url (filter (\<lambda>r. la_list r = lid) (ld_accounts (insert_accounts now lid src us d))) =
      map la_url (filter (\<lambda>r. la_list r = lid) (ld_accounts d)) @ us" for now src us d
    by (induction us arbitrary: d) (simp_all add: Let_def new_account_def)
  show thesis
    by (rule that) (use assms i in \<open>auto simp: page_create_list_def sites_of_def create_list_def new_list_def
      Let_def update_list_credits_def add_list_accounts_def update_list_where_def\<close>)
qed

text \<open>
  C25: an import charges if and only if it enqueues, unless the caller is an administrator. Either no list,
  task or balance changed, or the table held valid sites: of these the first hundred distinct ones (the
  import stops there) are the accounts of a new list, its analysis is the one new task, and the
  organization paid 100 cents for each out of a balance that covered them; only a caller whose flag says
  administrator pays nothing.
\<close>

theorem import_charged_iff_enqueued:
  assumes "import_rows q nothing name reply rows s = (s', answer)"
  shows "(sv_queue (tables s') = sv_queue (tables s) \<and> sv_lists (tables s') = sv_lists (tables s) \<and>
      balance_of (sv_accounts (tables s')) = balance_of (sv_accounts (tables s))) \<or>
    (\<exists>lid urls adm. admin_flag (rq_live q) (caller q) (sv_accounts (tables s)) = Some adm \<and>
      urls = valid_urls q [] (raw_urls rows) \<and> urls \<noteq> [] \<and> distinct urls \<and> length urls \<le> 100 \<and>
      answer = reply lid \<and>
      sites_of lid (sv_lists (tables s')) = sites_of lid (sv_lists (tables s)) @ urls \<and>
      sv_queue (tables s') = fst (enqueue (request_time q) ''list_analysis'' (list_fields_payload q lid adm) (sv_queue (tables s))) \<and>
      (if adm then balance_of (sv_accounts (tables s')) = balance_of (sv_accounts (tables s))
       else affordable (sv_accounts (tables s)) (caller q) (100 * int (length urls)) \<and>
        (\<exists>oid. org_of_user (sv_accounts (tables s)) (caller q) = Some oid \<and>
          balance_of (sv_accounts (tables s')) = (balance_of (sv_accounts (tables s)))
            (oid \<mapsto> the (balance_of (sv_accounts (tables s)) oid) - 100 * int (length urls)))))"
    (is "?same s' \<or> ?new s' answer")
proof -
  define urls where "urls = valid_urls q [] (raw_urls rows)"
  define needed where "needed = int (length urls) * 100"
  obtain a o' where a: "page_usage q s = (on_tables (\<lambda>v. v\<lparr>sv_accounts := a\<rparr>) s, o')"
      "balance_of a = balance_of (sv_accounts (tables s))" "org_of_user a = org_of_user (sv_accounts (tables s))"
    by (rule page_usage_cases)
  define s1 where "s1 = on_tables (\<lambda>v. v\<lparr>sv_accounts := a\<rparr>) s"
  have usage: "page_usage q s = (s1, o')" using a(1) by (simp add: s1_def)
  have s1: "?same s1" by (simp add: s1_def a)
  have u: "distinct urls" "length urls \<le> 100" using valid_urls_bounded [of "[]" q "raw_urls rows"] by (simp_all add: urls_def)
  show ?thesis
  proof (cases "urls = [] \<or> o' = None")
    case True
    then have "s' = s \<or> s' = s1"
      using assms by (auto simp: import_rows_def Let_def urls_def [symmetric] usage split: if_splits)
    then show ?thesis using s1 by auto
  next
    case False
    then obtain g where g: "page_usage q s = (s1, Some g)" using usage by auto
    have flag: "admin_flag (rq_live q) (caller q) (sv_accounts (tables s)) = Some (ug_is_admin g)"
      by (rule page_usage_admin) (simp add: g)
    obtain s2 ok where p: "(if ug_is_admin g then (s1, True) else page_charge q needed s1) = (s2, ok)" by fastforce
    show ?thesis
    proof (cases "ok \<and> \<not> (\<not> ug_is_admin g \<and> ug_credits g < needed)")
      case False
      have "?same s2" if "\<not> ok"
        using that p s1 by (cases rule: page_charge_cases [of q needed s1]) (auto split: if_splits)
      moreover have "s' = s1 \<or> (\<not> ok \<and> s' = s2)"
        using assms False g p [unfolded needed_def] \<open>\<not> (urls = [] \<or> o' = None)\<close>
        by (auto simp: import_rows_def Let_def urls_def [symmetric] needed_def split: if_splits bool.splits)
      ultimately show ?thesis using s1 by auto
    next
      case True
      obtain s3 lid where l: "page_create_list q name urls needed s2 = (s3, lid)" by fastforce
      obtain d where d: "s3 = on_tables (\<lambda>v. v\<lparr>sv_lists := d\<rparr>) s2" "sites_of lid d = sites_of lid (sv_lists (tables s2)) @ urls"
        using page_create_list_accounts [OF l] by metis
      have r: "s' = page_task q ''list_analysis'' (list_fields_payload q lid (ug_is_admin g)) s3" "answer = reply lid"
        using assms True g p [unfolded needed_def] l [unfolded needed_def] \<open>\<not> (urls = [] \<or> o' = None)\<close>
        by (auto simp: import_rows_def Let_def urls_def [symmetric] needed_def split: if_splits)
      have m: "if ug_is_admin g then balance_of (sv_accounts (tables s2)) = balance_of (sv_accounts (tables s))
       else affordable (sv_accounts (tables s)) (caller q) (100 * int (length urls)) \<and>
        (\<exists>oid. org_of_user (sv_accounts (tables s)) (caller q) = Some oid \<and>
          balance_of (sv_accounts (tables s2)) = (balance_of (sv_accounts (tables s)))
            (oid \<mapsto> the (balance_of (sv_accounts (tables s)) oid) - 100 * int (length urls)))"
        using p True s1 a
        by (cases rule: page_charge_cases [of q needed s1])
          (auto simp: s1_def needed_def affordable_def mult.commute)
      have q: "sv_queue (tables s2) = sv_queue (tables s)" "sv_lists (tables s2) = sv_lists (tables s)"
        using p s1 by (cases rule: page_charge_cases [of q needed s1]; auto simp: s1_def split: if_splits)+
      have "?new s' answer"
        by (intro exI [of _ lid] exI [of _ urls] exI [of _ "ug_is_admin g"])
          (use u r d q m False flag in \<open>simp add: urls_def [symmetric]\<close>)
      then show ?thesis by simp
    qed
  qed
qed

section \<open>The pair of rows and flag\<close>

lemma pair_is_no_list: "as_rows (items_of p) = None"
  by (simp add: items_of_def)

lemma accounts_of_page_pair:
  obtains p where "accounts_of_page q lid fl sort_by n s = Some (items_of p)"
  by (simp add: accounts_of_page_def get_list_accounts_def cursor_condition_def Let_def)

text \<open>
  every export of a visible list crashes: the handlers iterate over the pair of rows and flag.
\<close>

theorem exports_always_crash:
  assumes "us_context (vw_user (rq_user q)) \<noteq> []" "visible_list q lid s \<noteq> None" "ids \<noteq> []"
  shows "export_list_csv q lid s = (s, crashed) \<and> export_selected_csv q lid ids s = (s, crashed) \<and>
    export_contacts_csv q lid s = (s, crashed) \<and> push_to_sheets q True write_sheet lid picked s = (s, crashed)"
proof -
  obtain l where l: "visible_list q lid s = Some l" using assms(2) by blast
  have f: "export_file q lid fl name s = (s, crashed)" for fl name
    by (rule accounts_of_page_pair [of q lid fl "''composite_score''" 10000 s]) (auto simp: export_file_def l export_rows_def pair_is_no_list)
  have c: "export_contacts_csv q lid s = (s, crashed)"
    using assms(1)
    by (cases rule: accounts_of_page_pair [of q lid any_account "''composite_score''" 10000 s]) (auto simp: export_contacts_csv_def l pair_is_no_list)
  have p: "push_to_sheets q True write_sheet lid picked s = (s, crashed)"
    using assms(1)
    by (cases rule: accounts_of_page_pair [of q lid "any_account\<lparr>fl_ids := picked\<rparr>" "''composite_score''" 10000 s]) (auto simp: push_to_sheets_def l export_rows_def pair_is_no_list)
  show ?thesis using assms(1,3) f c p by (simp add: export_list_csv_def export_selected_csv_def)
qed

text \<open>
  C39: retrying a selection takes 200 cents from the organization of a member, whatever is selected, then
  crashes: no job is made, no account reset, nothing enqueued.
\<close>

theorem retry_selected_charges_and_crashes:
  assumes "us_context (vw_user (rq_user q)) \<noteq> []" "visible_list q lid s \<noteq> None" "ids \<noteq> []"
    "page_usage q s = (s1, Some u)" "\<not> ug_is_admin u"
    "org_of_user (sv_accounts (tables s)) (caller q) = Some oid"
    "balance_of (sv_accounts (tables s)) oid = Some b" "200 \<le> b"
    "retry_selected_accounts q lid ids s = (s', answer)"
  shows "answer = crashed \<and> balance_of (sv_accounts (tables s')) oid = Some (b - 200) \<and>
    sv_queue (tables s') = sv_queue (tables s) \<and> sv_jobs (tables s') = sv_jobs (tables s) \<and>
    sv_lists (tables s') = sv_lists (tables s)"
proof -
  obtain l where l: "visible_list q lid s = Some l" using assms(2) by blast
  obtain p where p: "accounts_of_page q lid (any_account\<lparr>fl_status := Some ChildFailed, fl_ids := Some ids\<rparr>)
      ''composite_score'' 10000 s = Some (items_of p)"
    by (rule accounts_of_page_pair)
  have r: "retry_items q (items_of p) s = (s', answer)"
    using assms(1,3,9) by (simp add: retry_selected_accounts_def l p)
  obtain a o' where a: "page_usage q s = (on_tables (\<lambda>v. v\<lparr>sv_accounts := a\<rparr>) s, o')"
      "balance_of a = balance_of (sv_accounts (tables s))" "org_of_user a = org_of_user (sv_accounts (tables s))"
    by (rule page_usage_cases)
  have s1: "s1 = on_tables (\<lambda>v. v\<lparr>sv_accounts := a\<rparr>) s" using a(1) assms(4) by simp
  show ?thesis
  proof (cases rule: page_charge_cases [of q 200 s1])
    case (refused a')
    then show ?thesis using assms(6-8) a by (simp add: affordable_def s1)
  next
    case (paid a' g c)
    have "retry_all q (ug_is_admin u) (items_of p) s2 = (s2, False)" for s2 by (simp add: items_of_def)
    then have "answer = crashed \<and> s' = on_tables (\<lambda>v. v\<lparr>sv_accounts := a'\<rparr>) s1"
      using r assms(4,5) paid(1) by (simp add: retry_items_def Let_def items_of_def)
    then show ?thesis using paid(2-5) a assms(6,7) by (simp add: s1)
  qed
qed

text \<open>
  bulk enrichment never enqueues anything, whatever integrations are connected: the order in which
  providers are tried is empty, so the page always answers that none is connected.
\<close>

theorem batch_enrich_never_enqueues:
  "fst (batch_enrich q connected lid ids s) = s \<and>
   snd (batch_enrich q connected lid ids s) \<in> {Refused 403 ''Onboarding not completed'', no_list,
     declined 422 ''No enrichment provider connected. Connect a provider in Integrations.''}"
  by (simp add: batch_enrich_def onboarded_def get_provider_priority_def priority_order_def split: option.split)

lemma find_update_other:
  assumes "\<And>r. Q (f r) = Q r"
  shows "find Q (update_where P f t) = map_option (\<lambda>r. if P r then f r else r) (find Q t)"
  using assms by (induction t) auto

text \<open>
  the status page settles a list whose accounts have all ended: afterwards its status is terminal,
  and the status in the answer is the one stored.
\<close>

theorem status_page_settles:
  assumes "visible_list q lid s = Some l" "ls_status l \<in> {BatchCreated, BatchAnalyzing}"
    "0 < pc_total c" "pc_total c \<le> pc_scored c + pc_failed c" "c = get_pipeline_counts lid (sv_lists (tables s))"
    "lists_wf (sv_lists (tables s))"
  shows "\<exists>s' l'. pipeline_status q lid s = (s', Json 200 (status_body c l')) \<and>
    visible_list q lid s' = Some l' \<and> ls_status l' = batch_verdict (ls_total l) (ls_failed l)"
proof -
  define d where "d = sv_lists (tables s)"
  have fd: "find (\<lambda>l. ls_id l = lid \<and> in_org_of (sv_accounts (tables s)) (caller q) l) (ld_lists d) = Some l"
    using assms(1) by (simp add: visible_list_def get_list_def d_def)
  have m: "l \<in> set (ld_lists d)" "ls_id l = lid" "in_org_of (sv_accounts (tables s)) (caller q) l"
    using fd by (auto simp: find_Some_iff)
  have o: "list_of d lid = Some l"
    using find_distinct [OF lists_wf_distinct(1) [OF assms(6), folded d_def] m(1)] m(2) by (simp add: list_of_def)
  define f :: "list_row \<Rightarrow> list_row \<Rightarrow> list_row" where "f r = (\<lambda>l. l\<lparr>ls_status := batch_verdict (ls_total r) (ls_failed r), ls_updated := request_time q\<rparr>)" for r
  define s' where "s' = on_tables (\<lambda>v. v\<lparr>sv_lists := update_list_where lid (f l) d\<rparr>) s"
  have p: "pipeline_status q lid s = (s', Json 200 (status_body c (f l l)))"
    using assms(1-4) o by (simp add: pipeline_status_def Let_def assms(5) [folded d_def, symmetric] all_done_def finalize_list_def
      d_def [symmetric] f_def s'_def)
  have "visible_list q lid s' = Some (f l l)"
    using fd find_update_other [of "\<lambda>l. ls_id l = lid \<and> in_org_of (sv_accounts (tables s)) (caller q) l" "f l"
      "\<lambda>l. ls_id l = lid" "ld_lists d"] m(2)
    by (simp add: visible_list_def get_list_def s'_def update_list_where_def f_def in_org_of_def)
  then show ?thesis using p by (auto simp: f_def)
qed

section \<open>A small site\<close>

definition page_request :: request where
  "page_request = sample_request\<lparr>rq_user := office_view\<lparr>vw_user := office_user\<lparr>us_context := ''We sell forklifts''\<rparr>\<rparr>\<rparr>"

definition site_with :: "list_db \<Rightarrow> site" where
  "site_with d = \<lparr>si_api = sample_api ((server_with [])\<lparr>sv_lists := d\<rparr>), si_research_hits = [], si_upload_hits = [],
     si_drafts = [], si_feedback = []\<rparr>"

lemma page_request_fields [simp]:
  "us_context (vw_user (rq_user page_request)) = ''We sell forklifts''" "caller page_request = 1"
  "request_time page_request = seconds 700" "rq_live page_request = False"
  "rq_resolve page_request = rq_resolve sample_request"
  by (simp_all add: page_request_def caller_def office_user_def new_user_def request_time_def sample_request_def)

lemma site_with_tables [simp]:
  "tables (site_with d) = (server_with [])\<lparr>sv_lists := d\<rparr>" "sv_accounts (server_with []) = office"
  by (simp_all add: site_with_def sample_api_def tables_def server_with_def)

lemma trio_visible: "visible_list page_request 1 (site_with trio) \<noteq> None"
  by (simp add: visible_list_def get_list_def trio_rows new_list_def in_org_of_def)

lemma office_site_usage:
  assumes "sv_accounts (tables s) = office"
  obtains s1 where "page_usage page_request s = (s1, Some (usage_of office office_user))"
  using assms by (simp add: page_usage_def caller_usage_def tables_def office_usage)

lemma site_usage:
  obtains s1 where "page_usage page_request (site_with d) = (s1, Some (usage_of office office_user))"
  by (rule office_site_usage [of "site_with d"]) simp_all

theorem exports_always_crash_witness:
  "export_list_csv page_request 1 (site_with trio) = (site_with trio, crashed)"
  using exports_always_crash [of page_request 1 "site_with trio" "[1]"] trio_visible by simp

theorem retry_selected_charges_and_crashes_witness:
  "\<exists>s'. retry_selected_accounts page_request 1 [2] (site_with trio) = (s', crashed) \<and>
     balance_of (sv_accounts (tables s')) 1 = Some 50"
proof -
  obtain s' answer where r: "retry_selected_accounts page_request 1 [2] (site_with trio) = (s', answer)" by fastforce
  obtain s1 where u: "page_usage page_request (site_with trio) = (s1, Some (usage_of office office_user))"
    by (rule site_usage)
  show ?thesis
    using retry_selected_charges_and_crashes [OF _ trio_visible _ u office_usage(2) _ _ _ r, of 1 250] r by simp
qed

lemma valid_url: "validate_company_url (rq_resolve sample_request) ''https://b.com'' = Inr ''https://b.com''"
  by (simp add: validate_company_url_def normalize_url_def py_strip_def is_space_def startswith_def
      balanced_brackets_def url_hostname_def authority_def unsafe_removed_def after_last_at_def lower_host_def
      py_lower_def lower_char_def upper_char_def blocked_hosts_def sample_request_def)

lemma sample_urls: "valid_urls page_request [] (raw_urls [[''domain''], [''b.com''], [''b.com'']]) = [''https://b.com'']"
proof -
  have n: "normalize_url ''b.com'' = ''https://b.com''"
    by (simp add: normalize_url_def py_strip_def is_space_def startswith_def)
  note valid_url
  moreover have "raw_urls [[''domain''], [''b.com''], [''b.com'']] = [''b.com'', ''b.com'']"
    by (simp add: raw_urls_def py_strip_def is_space_def recognized_columns_def py_lower_def lower_char_def upper_char_def)
  ultimately show ?thesis by (simp add: n Let_def)
qed

theorem import_charged_iff_enqueued_witness:
  "\<exists>s'. import_rows page_request ''none'' ''L'' (\<lambda>lid. succeeded [(''list_id'', JInt lid)])
      [[''domain''], [''b.com''], [''b.com'']] (site_with no_lists) = (s', succeeded [(''list_id'', JInt 1)]) \<and>
    balance_of (sv_accounts (tables s')) 1 = Some 150 \<and> sites_of 1 (sv_lists (tables s')) = [''https://b.com'']"
proof -
  let ?rows = "[[''domain''], [''b.com''], [''b.com'']]" and ?reply = "\<lambda>lid. succeeded [(''list_id'', JInt lid)]"
  obtain s' answer where r: "import_rows page_request ''none'' ''L'' ?reply ?rows (site_with no_lists) = (s', answer)"
    by fastforce
  obtain a where a: "page_usage page_request (site_with no_lists) = (on_tables (\<lambda>v. v\<lparr>sv_accounts := a\<rparr>) (site_with no_lists),
      Some (usage_of office office_user))" "balance_of a = balance_of office" "org_of_user a = org_of_user office"
  proof -
    obtain s1 where u: "page_usage page_request (site_with no_lists) = (s1, Some (usage_of office office_user))"
      by (rule site_usage)
    obtain a o' where "page_usage page_request (site_with no_lists) =
        (on_tables (\<lambda>v. v\<lparr>sv_accounts := a\<rparr>) (site_with no_lists), o')" "balance_of a = balance_of office"
        "org_of_user a = org_of_user office"
      by (cases rule: page_usage_cases [of page_request "site_with no_lists"]) simp
    then show ?thesis using that u by simp
  qed
  define s1 where "s1 = on_tables (\<lambda>v. v\<lparr>sv_accounts := a\<rparr>) (site_with no_lists)"
  obtain s2 where s2: "page_charge page_request 100 s1 = (s2, True)" "sv_queue (tables s2) = sv_queue (server_with [])"
      "sv_lists (tables s2) = no_lists"
  proof (cases rule: page_charge_cases [of page_request 100 s1])
    case (refused a')
    then show ?thesis using a by (simp add: s1_def affordable_def)
  next
    case (paid a' oid b)
    then show ?thesis using that by (simp add: s1_def)
  qed
  obtain s3 lid where l: "page_create_list page_request ''L'' [''https://b.com''] 100 s2 = (s3, lid)" by fastforce
  obtain d where d: "s3 = on_tables (\<lambda>v. v\<lparr>sv_lists := d\<rparr>) s2" by (rule page_create_list_accounts [OF l])
  have s': "s' = page_task page_request ''list_analysis'' (list_fields_payload page_request lid False) s3"
    using r a(1) s2(1) l office_usage(2,3) unfolding import_rows_def sample_urls by (simp add: s1_def)
  have rows: "tq_rows (sv_queue (tables s')) =
      [new_task 2 (seconds 700) ''list_analysis'' (list_fields_payload page_request lid False)]"
    by (simp add: s' d s2(2) enqueue_def insert_task_def server_with_def)
  then have "sv_queue (tables s') \<noteq> sv_queue (tables (site_with no_lists))" by (auto simp: server_with_def)
  then obtain k adm where k: "answer = ?reply k"
      "sites_of k (sv_lists (tables s')) = sites_of k no_lists @ [''https://b.com'']"
      "sv_queue (tables s') = fst (enqueue (seconds 700) ''list_analysis'' (list_fields_payload page_request k adm)
        (sv_queue (server_with [])))"
      "adm \<or> balance_of (sv_accounts (tables s')) 1 = Some 150"
    using import_charged_iff_enqueued [OF r] by (fastforce simp: sample_urls split: if_splits)
  have "\<not> adm \<and> k = lid"
    using rows unfolding k(3)
    by (simp add: enqueue_def insert_task_def server_with_def new_task_def list_fields_payload_def)
  moreover have "lid = 1"
    using page_create_list_accounts [OF l] s2(3) by (auto simp: no_lists_def)
  ultimately show ?thesis using r k by (simp add: sites_of_def no_lists_def)
qed

definition failed_list :: list_db where
  "failed_list = \<lparr>ld_lists = [(new_list 0 1 1 None ''L'' (Some 1))\<lparr>ls_total := 1, ls_failed := 1\<rparr>],
     ld_accounts = [(new_account 0 1 1 ''a.com'' None)\<lparr>la_status := ChildFailed\<rparr>], ld_next_list = 2, ld_next_account = 2\<rparr>"

theorem status_page_settles_witness:
  "\<exists>s' l'. pipeline_status page_request 1 (site_with failed_list) =
      (s', Json 200 (status_body (get_pipeline_counts 1 failed_list) l')) \<and> ls_status l' = BatchFailed"
proof -
  have v: "visible_list page_request 1 (site_with failed_list) =
      Some ((new_list 0 1 1 None ''L'' (Some 1))\<lparr>ls_total := 1, ls_failed := 1\<rparr>)"
    by (simp add: visible_list_def get_list_def failed_list_def new_list_def in_org_of_def)
  have w: "lists_wf failed_list"
    by (simp add: lists_wf_def failed_list_def serial_def new_list_def new_account_def scores_ok_def score_ok_def)
  show ?thesis
    using status_page_settles [OF v _ _ _ refl] w by (auto simp: get_pipeline_counts_def failed_list_def
      new_list_def new_account_def batch_verdict_def)
qed

end
