(* ===== verification/Personas.thy ===== *)
theory Personas
  imports Py_Strings Profiles
begin

text \<open>
  The buyer settings: levels and functions packed into one string and read back
  (\<open>routes/settings.py\<close>, \<open>utils/personas.py\<close>), the job titles they stand for, and the normalization of
  stored verticals (\<open>utils/icp.py\<close>).
\<close>

section \<open>The personas string\<close>

definition kept_parts :: "string \<Rightarrow> string \<Rightarrow> string list" where
  "kept_parts sep s = filter (\<lambda>x. x \<noteq> []) (map py_strip (py_split s sep))"

definition read_part :: "string \<Rightarrow> string list \<times> string list \<Rightarrow> string list \<times> string list" where
  "read_part part r = (if startswith part ''Levels: '' then (kept_parts '', '' (drop 8 part), snd r)
     else if startswith part ''Functions: '' then (fst r, kept_parts '', '' (drop 11 part)) else r)"

definition parse_personas_string :: "string \<Rightarrow> string list \<times> string list" where
  "parse_personas_string s = (if s = [] then ([], []) else fold read_part (py_split s '' | '') ([], []))"

definition personas_parts :: "string list \<Rightarrow> string list \<Rightarrow> string list" where
  "personas_parts levels jobs =
     (if levels = [] then [] else [''Levels: '' @ py_join '', '' levels]) @
     (if jobs = [] then [] else [''Functions: '' @ py_join '', '' jobs])"

definition personas_string :: "string \<Rightarrow> string list \<Rightarrow> string list \<Rightarrow> string" where
  "personas_string text levels jobs =
     (if py_strip text \<noteq> [] then py_strip text else py_join '' | '' (personas_parts levels jobs))"

section \<open>Titles\<close>

definition executive_titles :: "(string \<times> string) list" where
  "executive_titles = [(''Sales / Revenue'', ''CRO''), (''Marketing'', ''CMO''), (''Engineering / Product'', ''CTO''),
     (''Finance / Accounting'', ''CFO''), (''Operations'', ''COO''), (''IT / Security'', ''CISO''),
     (''HR / People'', ''CHRO''), (''Customer Success'', ''CCO''), (''Data Science / BI'', ''Chief Data Officer''),
     (''Legal'', ''General Counsel'')]"

definition vp_titles :: "(string \<times> string) list" where
  "vp_titles = [(''Sales / Revenue'', ''VP Sales''), (''Marketing'', ''VP Marketing''),
     (''Engineering / Product'', ''VP Engineering''), (''Finance / Accounting'', ''VP Finance''),
     (''Operations'', ''VP Operations''), (''IT / Security'', ''VP IT''), (''HR / People'', ''VP People''),
     (''Customer Success'', ''VP Customer Success''), (''Data Science / BI'', ''VP Data''), (''Legal'', ''VP Legal'')]"

definition director_titles :: "(string \<times> string) list" where
  "director_titles = [(''Sales / Revenue'', ''Director of Sales''), (''Marketing'', ''Director of Marketing''),
     (''Engineering / Product'', ''Director of Engineering''), (''Finance / Accounting'', ''Director of Finance''),
     (''Operations'', ''Director of Operations''), (''IT / Security'', ''Director of IT''),
     (''HR / People'', ''Director of HR''), (''Customer Success'', ''Director of Customer Success''),
     (''Data Science / BI'', ''Director of Analytics'')]"

definition title_map :: "(string \<times> (string \<times> string) list) list" where
  "title_map = [(''C-Suite'', executive_titles), (''VP'', vp_titles), (''Director'', director_titles)]"

definition mapped_titles :: "string list \<Rightarrow> string list \<Rightarrow> string list" where
  "mapped_titles levels jobs = concat (map (\<lambda>l. case map_of title_map l of
     None \<Rightarrow> []
   | Some mapping \<Rightarrow> concat (map (\<lambda>f. case map_of mapping f of None \<Rightarrow> [] | Some t \<Rightarrow> [t]) jobs)) levels)"

definition fallback_titles :: "string list" where
  "fallback_titles = [''CTO'', ''VP Engineering'', ''VP Sales'', ''CEO'']"

definition typed_titles :: "string \<Rightarrow> string list" where
  "typed_titles raw = (if kept_parts '','' raw = [] then [raw] else kept_parts '','' raw)"

definition build_target_titles :: "string \<Rightarrow> nat \<Rightarrow> string list" where
  "build_target_titles personas n = (let raw = py_strip personas in
     if raw = [] then take n fallback_titles
     else (let titles = (case parse_personas_string raw of (levels, jobs) \<Rightarrow> mapped_titles levels jobs);
               typed = (if titles = [] \<and> \<not> py_in ''Levels:'' raw \<and> \<not> py_in ''Functions:'' raw
                 then typed_titles raw else titles)
           in take n (dedup (if typed = [] then fallback_titles else typed))))"

section \<open>Verticals\<close>

definition buyer_verticals :: "string list" where
  "buyer_verticals = [''Financial Services'', ''Healthcare'', ''Construction'', ''Education'', ''Real Estate'',
     ''Insurance'', ''Legal'', ''Technology'', ''Retail / E-commerce'', ''Manufacturing'', ''Professional Services'',
     ''Media / Entertainment'', ''Logistics / Supply Chain'', ''Energy / Utilities'', ''Telecommunications'',
     ''Government / Public Sector'', ''Travel / Hospitality'']"

definition legacy_vertical_map :: "(string \<times> string) list" where
  "legacy_vertical_map = [
     (''SaaS / Software'', ''Technology''), (''Fintech / Financial Services'', ''Financial Services''),
     (''Healthcare / Life Sciences'', ''Healthcare''), (''E-commerce / Retail'', ''Retail / E-commerce''),
     (''Education / EdTech'', ''Education''), (''Real Estate / PropTech'', ''Real Estate''),
     (''Logistics / Supply Chain'', ''Logistics / Supply Chain''), (''Energy / Utilities'', ''Energy / Utilities''),
     (''Media / Entertainment'', ''Media / Entertainment''), (''Cybersecurity'', ''Technology''),
     (''Cybersecurity / IT'', ''Technology''), (''Travel / Hospitality'', ''Travel / Hospitality''),
     (''Government / Public Sector'', ''Government / Public Sector''), (''Fintech'', ''Financial Services''),
     (''HealthTech'', ''Healthcare''), (''MarTech'', ''Technology''), (''ConstructionTech'', ''Construction''),
     (''EdTech'', ''Education''), (''PropTech'', ''Real Estate''), (''InsurTech'', ''Insurance''),
     (''LegalTech'', ''Legal''), (''HRTech'', ''Professional Services''), (''DevTools / Infra'', ''Technology''),
     (''E-commerce Tech'', ''Retail / E-commerce''), (''Supply Chain / Logistics Tech'', ''Logistics / Supply Chain''),
     (''GovTech'', ''Government / Public Sector''), (''TravelTech'', ''Travel / Hospitality''),
     (''MediaTech'', ''Media / Entertainment''), (''Horizontal / Cross-industry'', ''Technology'')]"

definition map_vertical :: "string \<Rightarrow> string" where
  "map_vertical label = (if label \<in> set buyer_verticals then label
     else coalesce (map_of legacy_vertical_map label) label)"

definition normalize_verticals :: "string list \<Rightarrow> string list" where
  "normalize_verticals stored = dedup (map map_vertical (filter (\<lambda>x. x \<noteq> []) (map py_strip stored)))"

section \<open>Reading back what was stored\<close>

text \<open>A label as the forms offer it: trimmed, not empty, without the two separators' own characters.\<close>

definition plain_label :: "string \<Rightarrow> bool" where
  "plain_label x \<longleftrightarrow> x \<noteq> [] \<and> py_strip x = x \<and> CHR '','' \<notin> set x \<and> CHR ''|'' \<notin> set x"

lemma comma_free: "CHR '','' \<notin> set x \<Longrightarrow> sep_free '', '' x"
proof (induction x)
  case (Cons a x)
  then show ?case by (simp add: sep_free_Cons)
qed (simp add: sep_free_def)

lemma bar_free: "CHR ''|'' \<notin> set x \<Longrightarrow> sep_free '' | '' x"
proof (induction x)
  case (Cons a x)
  then show ?case by (cases x) (auto simp: sep_free_Cons)
qed (simp add: sep_free_def)

lemma kept_parts_join:
  assumes "\<forall>x \<in> set xs. plain_label x" "xs \<noteq> []"
  shows "kept_parts '', '' (py_join '', '' xs) = xs"
proof -
  have "py_split (py_join '', '' xs) '', '' = xs"
    using assms by (intro split_join) (auto simp: plain_label_def intro: comma_free)
  moreover have "map py_strip xs = xs" using assms(1) by (auto simp: plain_label_def intro: map_idI)
  moreover have "filter (\<lambda>x. x \<noteq> []) xs = xs" using assms(1) by (auto simp: plain_label_def intro: filter_True)
  ultimately show ?thesis by (simp add: kept_parts_def)
qed

lemma join_chars: "c \<in> set (py_join sep xs) \<Longrightarrow> c \<in> set sep \<or> (\<exists>x \<in> set xs. c \<in> set x)"
  by (induction sep xs rule: py_join.induct) auto

lemma personas_back:
  assumes "\<forall>x \<in> set levels. plain_label x" "\<forall>x \<in> set jobs. plain_label x"
    "py_strip typed = []"
  shows "parse_personas_string (personas_string typed levels jobs) = (levels, jobs)"
proof -
  let ?l = "''Levels: '' @ py_join '', '' levels" and ?f = "''Functions: '' @ py_join '', '' jobs"
  have bars: "CHR ''|'' \<notin> set ?l" "CHR ''|'' \<notin> set ?f"
    using assms join_chars [of "CHR ''|''" "'', ''" levels] join_chars [of "CHR ''|''" "'', ''" jobs]
    by (auto simp: plain_label_def)
  have s: "py_split (py_join '' | '' (personas_parts levels jobs)) '' | '' = personas_parts levels jobs"
    if "personas_parts levels jobs \<noteq> []"
    using that bars by (intro split_join) (auto simp: personas_parts_def intro: bar_free split: if_splits)
  have l: "read_part ?l r = (levels, snd r)" if "levels \<noteq> []" for r
    using that assms(1) by (simp add: read_part_def startswith_def kept_parts_join)
  have f: "read_part ?f r = (fst r, jobs)" if "jobs \<noteq> []" for r
    using that assms(2) by (simp add: read_part_def startswith_def kept_parts_join)
  note e = assms(3)
  show ?thesis
  proof (cases "levels = [] \<and> jobs = []")
    case True
    then show ?thesis by (simp add: personas_string_def e personas_parts_def parse_personas_string_def)
  next
    case False
    have n: "py_join '' | '' (personas_parts levels jobs) \<noteq> []"
      using False by (auto simp: personas_parts_def)
    have p: "personas_parts levels jobs \<noteq> []" using False by (auto simp: personas_parts_def)
    have "fold read_part (personas_parts levels jobs) ([], []) = (levels, jobs)"
      using l f by (cases "levels = []"; cases "jobs = []") (simp_all only: personas_parts_def if_True if_False
        fold.simps append_Nil append_Cons comp_apply id_apply fst_conv snd_conv simp_thms list.distinct)
    then show ?thesis
      unfolding personas_string_def e parse_personas_string_def using n s [OF p] by simp
  qed
qed

text \<open>
  the settings page shows the levels and functions that were stored: the string that the form
  packs them into reads back as the same two lists.
\<close>

theorem personas_round_trip:
  assumes "\<forall>x \<in> set levels. plain_label x" "\<forall>x \<in> set jobs. plain_label x"
  shows "parse_personas_string (personas_string [] levels jobs) = (levels, jobs)"
  using personas_back [OF assms] by (simp add: py_strip_def)

theorem personas_round_trip_witness:
  "parse_personas_string (personas_string [] [''VP'', ''Director''] [''Sales / Revenue'']) =
     ([''VP'', ''Director''], [''Sales / Revenue''])"
  by (rule personas_round_trip) (simp_all add: plain_label_def py_strip_def is_space_def)

text \<open>
  every legacy label is mapped to a vertical that is still offered, so that normalizing twice is
  normalizing once.
\<close>

lemma legacy_targets: "list_all (\<lambda>(l, v). v \<in> set buyer_verticals) legacy_vertical_map"
  by (simp add: legacy_vertical_map_def buyer_verticals_def)

lemma verticals_trimmed: "list_all (\<lambda>v. v \<noteq> [] \<and> py_strip v = v) buyer_verticals"
  by (simp add: buyer_verticals_def py_strip_def is_space_def)

lemma map_vertical_cases: "map_vertical x \<in> set buyer_verticals \<or> map_vertical x = x \<and> map_of legacy_vertical_map x = None"
  using legacy_targets
  by (cases "map_of legacy_vertical_map x") (auto simp: map_vertical_def list_all_iff dest!: map_of_SomeD)

theorem normalize_verticals_idempotent:
  "normalize_verticals (normalize_verticals stored) = normalize_verticals stored"
proof -
  define ys where "ys = filter (\<lambda>x. x \<noteq> []) (map py_strip stored)"
  have y: "py_strip y = y \<and> y \<noteq> []" if "y \<in> set ys" for y using that by (auto simp: ys_def)
  have m: "map_vertical (map_vertical x) = map_vertical x" for x
    using map_vertical_cases [of x] by (auto simp: map_vertical_def)
  have t: "py_strip (map_vertical x) = map_vertical x \<and> map_vertical x \<noteq> []" if "x \<in> set ys" for x
  proof (cases "map_vertical x \<in> set buyer_verticals")
    case True
    then show ?thesis using verticals_trimmed unfolding list_all_iff by blast
  next
    case False
    then have "map_vertical x = x" using map_vertical_cases [of x] by blast
    then show ?thesis using y [OF that] by (simp only:) simp
  qed
  let ?zs = "dedup (map map_vertical ys)"
  have "map py_strip ?zs = ?zs" "filter (\<lambda>x. x \<noteq> []) ?zs = ?zs" "map map_vertical ?zs = ?zs"
    using t m by (auto intro!: map_idI filter_True)
  then show ?thesis by (simp add: normalize_verticals_def ys_def [symmetric] dedup_id)
qed

text \<open>
  whatever was stored, contacts are searched for one to \<open>n\<close> distinct titles.
\<close>

theorem target_titles_bounded:
  "distinct (build_target_titles personas (Suc n)) \<and> length (build_target_titles personas (Suc n)) \<le> Suc n \<and>
   build_target_titles personas (Suc n) \<noteq> []"
proof -
  have d: "distinct fallback_titles" "fallback_titles \<noteq> []" by (simp_all add: fallback_titles_def)
  have t: "distinct (take (Suc n) (dedup ts)) \<and> length (take (Suc n) (dedup ts)) \<le> Suc n \<and> take (Suc n) (dedup ts) \<noteq> []"
    if "ts \<noteq> []" for ts :: "string list"
    using that set_dedup [of ts] by (auto intro: distinct_take simp del: set_dedup)
  show ?thesis
    using d t by (auto simp: build_target_titles_def Let_def simp del: take_Suc_Cons)
qed

end
