(* ===== verification/Web_Research.thy ===== *)
theory Web_Research
  imports Web_Base Personas Leads
begin

text \<open>
  The research pages (\<open>routes/research.py\<close>): starting research, its progress, the document pages with
  their access rules, feedback, contacts, outreach and the synchronous endpoint. A document's
  \<open>share_token\<close> is a value the database draws; it comes as a function of the document. Images,
  text generation, the screenshot reader and the retrieval of materials are arguments.
\<close>

section \<open>Starting research\<close>

definition page_watch :: "request \<Rightarrow> bool \<Rightarrow> string \<Rightarrow> site \<Rightarrow> site \<times> bool" where
  "page_watch q watch url s = (if \<not> watch then (s, True)
     else (case create_watchlist_item (request_time q) (caller q) url None ''biweekly'' (sv_watch (tables s)) of
       Inl e \<Rightarrow> (s, False)
     | Inr (d, w) \<Rightarrow> (on_tables (\<lambda>v. v\<lparr>sv_watch := d\<rparr>) s, True)))"

definition document_path :: "request \<Rightarrow> int \<Rightarrow> site \<Rightarrow> string" where
  "document_path q i s = coalesce
     (get_document_slug_path (rq_tie q) i (caller q) (sv_accounts (tables s)) (sv_docs (tables s)))
     (''/document/'' @ str_int i)"

definition web_research_task :: "request \<Rightarrow> job \<Rightarrow> string \<Rightarrow> bool \<Rightarrow> payload" where
  "web_research_task q j url is_admin = [(''job_id'', PInt (jb_id j)), (''user_id'', PInt (caller q)),
     (''api_key_id'', PNull), (''company_url'', PStr url), (''is_admin'', PBool is_admin)]"

definition fresh_research :: "request \<Rightarrow> string \<Rightarrow> bool \<Rightarrow> handler" where
  "fresh_research q url watch s = (case page_job q (declined 402 ''No credits remaining.'') url s of
     (s1, Inl e) \<Rightarrow> (s1, e)
   | (s1, Inr (j, is_admin)) \<Rightarrow> (case page_watch q watch url s1 of
       (s2, False) \<Rightarrow> (s2, crashed)
     | (s2, True) \<Rightarrow> (page_task q ''research'' (web_research_task q j url is_admin) s2,
         succeeded [(''job_id'', JInt (jb_id j))])))"

definition start_research_page :: "request \<Rightarrow> string \<Rightarrow> string \<Rightarrow> bool \<Rightarrow> handler" where
  "start_research_page q ip raw watch = onboarded q (research_limited q ip (\<lambda>s.
     case validate_company_url (rq_resolve q) raw of
       Inl e \<Rightarrow> (s, declined 400 e)
     | Inr url \<Rightarrow> (case get_recent_document_by_url (request_time q) (caller q) url 24 (sv_docs (tables s)) of
         Some doc \<Rightarrow> (case page_watch q watch url s of
             (s1, False) \<Rightarrow> (s1, crashed)
           | (s1, True) \<Rightarrow> (s1, succeeded [(''job_id'', JNull), (''redirect'', JStr (document_path q doc s1)),
               (''cached'', JBool True)]))
       | None \<Rightarrow> fresh_research q url watch s)))"

section \<open>Progress\<close>

definition missing_job :: answer where
  "missing_job = Refused 404 ''Job not found''"

text \<open>\<open>_row_to_document\<close> and \<open>_row_to_document_summary\<close>: the latter without the columns of the full report\<close>

definition text_columns :: "string list" where
  "text_columns = [''company_overview'', ''projects_initiatives'', ''confirmed_tech_stack'', ''hiring_signals'',
     ''business_problems'', ''existential_data_points'', ''before_scenario'', ''pvp_seed'',
     ''required_capabilities'', ''product_fit'', ''talking_points'', ''recent_news'', ''key_contacts'',
     ''recommended_contacts'', ''information_gaps'']"

definition scored_columns :: "string list" where
  "scored_columns = [''score_summary'', ''pain_evidence'', ''fit_evidence'', ''timing_evidence'']"

definition row_to_document_with ::
    "request \<Rightarrow> (document \<Rightarrow> string \<Rightarrow> json) \<Rightarrow> document \<Rightarrow> (string \<times> json) list" where
  "row_to_document_with q full r = [(''id'', JInt (dc_id r)), (''company_url'', JStr (dr_url r)),
      (''company_name'', JStr (dr_name r)), (''slug'', JStr (dc_slug r)), (''created_at'', jtime q (dr_created r))] @
     map (\<lambda>c. (c, JStr (coalesce (dr_text r c) []))) text_columns @
     [(''opportunity_score'', jopt JInt (dr_opportunity r)), (''pain_score'', jopt JInt (dr_pain r)),
      (''fit_score'', jopt JInt (dr_fit r)), (''timing_score'', jopt JInt (dr_timing r))] @
     map (\<lambda>c. (c, jopt JStr (dr_text r c))) scored_columns @
     map (\<lambda>c. (c, full r c)) [''thinking_content'', ''model_used'', ''full_markdown'']"

definition row_to_document :: "request \<Rightarrow> document \<Rightarrow> json" where
  "row_to_document q r = JDict (row_to_document_with q (\<lambda>r c. if c = ''full_markdown''
     then JStr (coalesce (dr_text r c) []) else jopt JStr (dr_text r c)) r)"

definition row_to_document_summary :: "request \<Rightarrow> document \<Rightarrow> json" where
  "row_to_document_summary q r = JDict (row_to_document_with q (\<lambda>r c. if c = ''full_markdown''
     then JStr [] else JNull) r)"

definition recent_docs :: "request \<Rightarrow> site \<Rightarrow> json" where
  "recent_docs q s = JList (map (row_to_document_summary q) (get_all_documents (caller q) 10 (sv_docs (tables s))))"

definition job_entries :: "job \<Rightarrow> (string \<times> json) list" where
  "job_entries j = [(''status'', JStr (job_status_text (jb_status j))), (''progress'', jopt JStr (jb_progress j)),
     (''document_id'', jopt JInt (jb_document j)), (''error_message'', jopt JStr (jb_error j))]"

definition research_progress_page :: "request \<Rightarrow> int \<Rightarrow> handler" where
  "research_progress_page q i = onboarded q (\<lambda>s. case get_research_job i (caller q) (sv_jobs (tables s)) of
     None \<Rightarrow> (s, missing_job)
   | Some j \<Rightarrow>
       if jb_status j = JobCompleted \<and> jb_document j \<notin> {None, Some 0}
       then (s, Moved 302 (document_path q (the (jb_document j)) s))
       else (case page_usage q s of
         (s1, None) \<Rightarrow> (s1, crashed)
       | (s1, Some u) \<Rightarrow> (s1, Page ''research_progress.html'' [(''job'', JDict ((''id'', JInt (jb_id j)) # job_entries j)),
           (''recent_docs'', recent_docs q s), (''credits_cents'', JInt (ug_credits u)),
           (''is_admin'', JBool (ug_is_admin u))])))"

definition research_job_status :: "request \<Rightarrow> int \<Rightarrow> handler" where
  "research_job_status q i s = (s, case get_research_job i (caller q) (sv_jobs (tables s)) of
     None \<Rightarrow> missing_job | Some j \<Rightarrow> Json 200 (JDict (job_entries j)))"

definition check_duplicate :: "request \<Rightarrow> string \<Rightarrow> handler" where
  "check_duplicate q raw s = (s, Json 200 (JDict (case validate_company_url (rq_resolve q) raw of
     Inl e \<Rightarrow> [(''exists'', JBool False)]
   | Inr url \<Rightarrow> (case check_duplicate_research (request_time q) (caller q) url 7 (sv_docs (tables s)) of
       None \<Rightarrow> [(''exists'', JBool False)]
     | Some (i, name, created) \<Rightarrow> [(''exists'', JBool True), (''document_id'', JInt i), (''company_name'', JStr name),
         (''created_at'', jtime q created)]))))"

section \<open>Documents\<close>

definition missing_document :: answer where
  "missing_document = Refused 404 ''Document not found''"

text \<open>\<open>share\<close> is the column \<open>share_token\<close>; an empty token finds nothing in \<open>get_document_og_meta\<close>.\<close>

definition get_document_by_share_token :: "(int \<Rightarrow> string) \<Rightarrow> int \<Rightarrow> string \<Rightarrow> doc_db \<Rightarrow> document option" where
  "get_document_by_share_token share i token d = find (\<lambda>r. dc_id r = i \<and> share (dc_id r) = token) (dt_rows d)"

definition get_document_og_meta :: "(int \<Rightarrow> string) \<Rightarrow> int \<Rightarrow> string option \<Rightarrow> doc_db \<Rightarrow> document option" where
  "get_document_og_meta share i token d = (case token of None \<Rightarrow> None
     | Some t \<Rightarrow> if t = [] then None else get_document_by_share_token share i t d)"

definition get_share_token :: "(int \<Rightarrow> string) \<Rightarrow> int \<Rightarrow> int \<Rightarrow> doc_db \<Rightarrow> string option" where
  "get_share_token share i uid d = map_option (\<lambda>r. share (dc_id r)) (get_document i uid d)"

definition meta_entries :: "document \<Rightarrow> (string \<times> json) list" where
  "meta_entries r = [(''company_name'', JStr (dr_name r)), (''opportunity_score'', jopt JInt (dr_opportunity r)),
     (''pain_score'', jopt JInt (dr_pain r)), (''fit_score'', jopt JInt (dr_fit r)),
     (''timing_score'', jopt JInt (dr_timing r)), (''score_summary'', jopt JStr (dr_text r ''score_summary''))]"

definition preview_page :: "document \<Rightarrow> answer" where
  "preview_page r = Page ''document_preview.html'' [(''meta'', JDict (meta_entries r)), (''doc_id'', JInt (dc_id r))]"

text \<open>The page of a document for a signed-in user\<close>

definition document_page :: "request \<Rightarrow> bool \<Rightarrow> string option \<Rightarrow> document \<Rightarrow> handler" where
  "document_page q is_owner token r s = (case page_usage q s of
     (s1, None) \<Rightarrow> (s1, crashed)
   | (s1, Some u) \<Rightarrow> (s1, Page ''document.html'' [(''document'', row_to_document q r), (''recent_docs'', recent_docs q s),
       (''credits_cents'', JInt (ug_credits u)), (''is_admin'', JBool (ug_is_admin u)),
       (''enriched_contacts'', JList (if is_owner then map contact_json (get_enriched_contacts (dc_id r) (caller q) (si_api s)) else [])),
       (''feedback'', if is_owner then jopt (\<lambda>(p, c). JDict [(''is_positive'', JBool p), (''comment'', jopt JStr c)])
          (get_feedback (dc_id r) (caller q) s) else JNull),
       (''is_owner'', JBool is_owner), (''share_token'', jopt JStr token)]))"

text \<open>\<open>viewer\<close> is the request of the signed-in user, if any.\<close>

definition view_document :: "(int \<Rightarrow> string) \<Rightarrow> request option \<Rightarrow> int \<Rightarrow> string option \<Rightarrow> handler" where
  "view_document share viewer i token s = (let d = sv_docs (tables s) in case viewer of
     None \<Rightarrow> (s, case get_document_og_meta share i token d of None \<Rightarrow> missing_document | Some r \<Rightarrow> preview_page r)
   | Some q \<Rightarrow> (case get_document i (caller q) d of
       Some r \<Rightarrow> (case get_document_slug_path (rq_tie q) i (caller q) (sv_accounts (tables s)) d of
           Some path \<Rightarrow> (s, Moved 301 path)
         | None \<Rightarrow> document_page q True (get_share_token share i (caller q) d) r s)
     | None \<Rightarrow> (case token of
         None \<Rightarrow> (s, missing_document)
       | Some t \<Rightarrow> if t = [] then (s, missing_document)
           else (case get_document_by_share_token share i t d of
             None \<Rightarrow> (s, missing_document)
           | Some r \<Rightarrow> document_page q False (Some t) r s))))"

definition view_document_by_slug ::
    "(int \<Rightarrow> string) \<Rightarrow> nat \<Rightarrow> request option \<Rightarrow> string \<Rightarrow> string \<Rightarrow> handler" where
  "view_document_by_slug share tie viewer org_slug doc_slug s = (let d = sv_docs (tables s) in
     case get_document_by_slug tie org_slug doc_slug (sv_accounts (tables s)) d of
       None \<Rightarrow> (s, missing_document)
     | Some r \<Rightarrow> (case viewer of
         None \<Rightarrow> (s, preview_page r)
       | Some q \<Rightarrow> if dc_user r = caller q
           then document_page q True (get_share_token share (dc_id r) (caller q) d) r s
           else document_page q False None r s))"

definition og_image :: "((string \<times> json) list \<Rightarrow> string) \<Rightarrow> document option \<Rightarrow> answer" where
  "og_image draw m = (case m of None \<Rightarrow> missing_document | Some r \<Rightarrow> Download ''og-image.png'' (draw (meta_entries r)))"

definition document_og_image ::
    "((string \<times> json) list \<Rightarrow> string) \<Rightarrow> (int \<Rightarrow> string) \<Rightarrow> int \<Rightarrow> string option \<Rightarrow> handler" where
  "document_og_image draw share i token s =
     (s, og_image draw (get_document_og_meta share i token (sv_docs (tables s))))"

definition document_og_image_by_slug ::
    "((string \<times> json) list \<Rightarrow> string) \<Rightarrow> nat \<Rightarrow> string \<Rightarrow> string \<Rightarrow> handler" where
  "document_og_image_by_slug draw tie org_slug doc_slug s =
     (s, og_image draw (get_document_by_slug tie org_slug doc_slug (sv_accounts (tables s)) (sv_docs (tables s))))"

definition submit_feedback :: "request \<Rightarrow> int \<Rightarrow> bool \<Rightarrow> string option \<Rightarrow> handler" where
  "submit_feedback q i positive comment s = (case get_document i (caller q) (sv_docs (tables s)) of
     None \<Rightarrow> (s, missing_document)
   | Some r \<Rightarrow> (save_feedback i (caller q) positive comment s, succeeded []))"

definition get_markdown :: "request \<Rightarrow> int \<Rightarrow> handler" where
  "get_markdown q i s = (s, case get_document i (caller q) (sv_docs (tables s)) of
     None \<Rightarrow> missing_document
   | Some r \<Rightarrow> Download (safe_name (dr_name r) @ ''_research.md'') (coalesce (dr_text r ''full_markdown'') []))"

definition api_list_documents :: "request \<Rightarrow> handler" where
  "api_list_documents q s =
     (s, Json 200 (JList (map (row_to_document_summary q) (get_all_documents (caller q) 50 (sv_docs (tables s))))))"

text \<open>
  The rest of \<open>routes/research.py\<close>: contacts of a document, e-mail sequences and LinkedIn messages with
  an optional screenshot, and the endpoint that researches within the request. The reader of
  screenshots (\<open>services/vision.py\<close>) and the writer (\<open>services/writing\<close>) call language models and are
  arguments; the formatting around them is modelled.
\<close>

section \<open>Contacts\<close>

text \<open>
  A row of \<open>enriched_contacts\<close> as the driver returns it: the last column is a datetime, which
  \<open>JSONResponse\<close> cannot serialize and raises on.
\<close>

datatype cell = Text "string option" | Number int | Timestamp

fun cell_json :: "cell \<Rightarrow> json option" where
  "cell_json (Text x) = Some (jopt JStr x)"
| "cell_json (Number i) = Some (JInt i)"
| "cell_json Timestamp = None"

definition contact_cells :: "int \<Rightarrow> int \<Rightarrow> contact \<Rightarrow> (string \<times> cell) list" where
  "contact_cells doc uid c = [(''document_id'', Number doc), (''user_id'', Number uid), (''name'', Text (ct_name c)),
     (''first_name'', Text (ct_first c)), (''last_name'', Text (ct_last c)), (''title'', Text (ct_title c)),
     (''email'', Text (ct_email c)), (''email_status'', Text (ct_email_status c)),
     (''profile_url'', Text (ct_profile c)), (''company_name'', Text (ct_company c)), (''created_at'', Timestamp)]"

fun row_json :: "(string \<times> cell) list \<Rightarrow> (string \<times> json) list option" where
  "row_json [] = Some []"
| "row_json ((k, x) # xs) = (case (cell_json x, row_json xs) of
     (Some v, Some r) \<Rightarrow> Some ((k, v) # r) | _ \<Rightarrow> None)"

fun rows_json :: "(string \<times> cell) list list \<Rightarrow> json list option" where
  "rows_json [] = Some []"
| "rows_json (r # rs) = (case (row_json r, rows_json rs) of
     (Some v, Some vs) \<Rightarrow> Some (JDict v # vs) | _ \<Rightarrow> None)"

text \<open>The dictionaries of the service\<close>

definition lead_json :: "contact \<Rightarrow> json" where
  "lead_json c = JDict ([(''name'', jopt JStr (ct_name c)), (''first_name'', jopt JStr (ct_first c)),
     (''last_name'', jopt JStr (ct_last c)), (''title'', jopt JStr (ct_title c)),
     (''profile_url'', jopt JStr (ct_profile c)), (''company_name'', jopt JStr (ct_company c))] @
     (if ct_email c = None then [] else [(''email'', jopt JStr (ct_email c)),
        (''email_status'', jopt JStr (ct_email_status c))]))"

definition unsuccessful :: "string \<Rightarrow> answer" where
  "unsuccessful msg = declined 200 msg"

definition target_titles :: "request \<Rightarrow> string list" where
  "target_titles q = build_target_titles (pf_target_personas (us_profile (vw_user (rq_user q)))) 5"

definition buy_leads :: "request \<Rightarrow> bool \<Rightarrow> network \<Rightarrow> document \<Rightarrow> handler" where
  "buy_leads q is_admin post r s =
     (let cs = leadmagic_contacts True post (company_domain (dr_url r)) (dr_name r) (target_titles q)
      in (if cs = [] then s else on_api (save_enriched_contacts (dc_id r) (caller q) cs) s,
          succeeded [(''contacts'', JList (map lead_json cs)), (''cached'', JBool False)]))"

definition enrich_document_contacts :: "request \<Rightarrow> bool \<Rightarrow> network \<Rightarrow> int \<Rightarrow> handler" where
  "enrich_document_contacts q configured post i = onboarded q (\<lambda>s.
     if \<not> configured then (s, unsuccessful ''Contact enrichment is not yet configured.'')
     else (case get_document i (caller q) (sv_docs (tables s)) of
       None \<Rightarrow> (s, missing_document)
     | Some r \<Rightarrow>
         (let existing = get_enriched_contacts i (caller q) (si_api s) in
          if existing \<noteq> [] then (s, case rows_json (map (contact_cells i (caller q)) existing) of
            None \<Rightarrow> crashed
          | Some rows \<Rightarrow> succeeded [(''contacts'', JList rows), (''cached'', JBool True)])
          else (case page_usage q s of
            (s1, None) \<Rightarrow> (s1, crashed)
          | (s1, Some u) \<Rightarrow> (case (if ug_is_admin u then (s1, True) else page_charge q 50 s1) of
              (s2, False) \<Rightarrow> (s2, unsuccessful ''No credits remaining'')
            | (s2, True) \<Rightarrow> buy_leads q (ug_is_admin u) post r s2)))))"

section \<open>The synchronous endpoint\<close>

definition api_create_research :: "request \<Rightarrow> string \<Rightarrow> handler" where
  "api_create_research q raw = onboarded q (\<lambda>s. case validate_company_url (rq_resolve q) raw of
     Inl e \<Rightarrow> (s, declined 200 e)
   | Inr url \<Rightarrow> (case page_usage q s of
       (s1, None) \<Rightarrow> (s1, crashed)
     | (s1, Some u) \<Rightarrow> (case (if ug_is_admin u then (s1, True) else page_charge q 100 s1) of
         (s2, False) \<Rightarrow> (s2, unsuccessful ''No credits remaining'')
       | (s2, True) \<Rightarrow>
           (let failed = (if ug_is_admin u then s2 else page_refund q 100 s2,
                  unsuccessful ''Research failed. Please try again.'')
            in case wo_pipeline (rq_world q) of
                 Inl e \<Rightarrow> failed
               | Inr dr \<Rightarrow> (case save_document (wo_nfkd (rq_world q)) (caller q) dr (sv_docs (tables s2)) of
                   Inl e \<Rightarrow> failed
                 | Inr (d, i) \<Rightarrow> (on_tables (\<lambda>v. v\<lparr>sv_docs := d\<rparr>) s2,
                     succeeded [(''document_id'', JInt i)]))))))"

section \<open>Outreach\<close>

record upload =
  up_name :: string
  up_type :: string
  up_bytes :: string

text \<open>\<open>format_persona_for_prompt\<close>\<close>

definition persona_labels :: "(string \<times> string) list" where
  "persona_labels = [(''name'', ''**Name:** ''), (''title'', ''**Title:** ''), (''company'', ''**Company:** ''),
     (''headline'', ''**Headline:** ''), (''about'', ''**About:** ''), (''experience'', ''**Experience:** ''),
     (''skills'', ''**Skills:** '')]"

definition present_lines :: "(string \<times> string) list \<Rightarrow> (string \<times> string) list \<Rightarrow> string list" where
  "present_lines labels p = concat (map (\<lambda>(k, l). case map_of p k of
     None \<Rightarrow> [] | Some v \<Rightarrow> if v = [] then [] else [l @ v]) labels)"

definition format_persona_for_prompt :: "(string \<times> string) list \<Rightarrow> string" where
  "format_persona_for_prompt p = py_join newline (present_lines persona_labels p)"

type_synonym reader = "string \<Rightarrow> string \<Rightarrow> (string \<times> string) list option"

definition screenshot_limit :: nat where
  "screenshot_limit = 10485760"

definition is_image :: "upload \<Rightarrow> bool" where
  "is_image f \<longleftrightarrow> startswith (up_type f) ''image/''"

text \<open>Failures of the reader are ignored here.\<close>

definition screenshot_persona :: "reader \<Rightarrow> upload option \<Rightarrow> string" where
  "screenshot_persona read f = (case f of None \<Rightarrow> []
     | Some f \<Rightarrow> if up_name f = [] \<or> screenshot_limit < length (up_bytes f) \<or> \<not> is_image f then []
         else (case read (up_bytes f) (up_type f) of None \<Rightarrow> [] | Some p \<Rightarrow> format_persona_for_prompt p))"

text \<open>What the writer is given about the seller, with \<open>loads\<close> as \<open>json.loads\<close>\<close>

record brief =
  br_context :: string
  br_product_type :: string
  br_materials :: string
  br_company :: string
  br_problems :: string
  br_persona :: string
  br_signals :: string

definition seller_brief :: "request \<Rightarrow> string \<Rightarrow> string \<Rightarrow> brief option" where
  "seller_brief q materials persona = (let u = vw_user (rq_user q); p = us_profile u; loads = wo_loads (rq_world q) in
     case (get_effective_product_context loads (us_context u) (us_seller u),
       get_effective_problems_solved loads (pf_problems_solved p) (us_seller u)) of
       (Some ctx, Some problems) \<Rightarrow> Some \<lparr>br_context = ctx, br_product_type = pf_product_type p,
         br_materials = materials, br_company = pf_company_name p, br_problems = problems, br_persona = persona,
         br_signals = pf_custom_signals p\<rparr>
     | _ \<Rightarrow> None)"

datatype 'a written = Composed 'a | Rejected string string | WriterFails

record email =
  em_number :: int
  em_subject :: string
  em_body :: string

definition email_json :: "email \<Rightarrow> json" where
  "email_json e = JDict [(''email_number'', JInt (em_number e)), (''subject'', JStr (em_subject e)), (''body'', JStr (em_body e))]"

definition format_emails_markdown :: "email list \<Rightarrow> string" where
  "format_emails_markdown es = py_join newline ((''# Email Sequence'' @ newline) # concat (map (\<lambda>e.
     [''## Email '' @ str_int (em_number e), ''**Subject:** '' @ em_subject e @ newline, em_body e,
      newline @ ''---'' @ newline]) es))"

definition coded :: "int \<Rightarrow> string \<Rightarrow> string \<Rightarrow> answer" where
  "coded status code msg = Json status (JDict [(''success'', JBool False),
     (''error'', JDict [(''code'', JStr code), (''message'', JStr msg)])])"

definition generate_outreach ::
    "request \<Rightarrow> reader \<Rightarrow> (string \<Rightarrow> string \<Rightarrow> string) \<Rightarrow> (document \<Rightarrow> brief \<Rightarrow> (email list \<times> string list) written) \<Rightarrow>
     int \<Rightarrow> upload option \<Rightarrow> handler" where
  "generate_outreach q read retrieve compose i f = onboarded q (\<lambda>s. (s,
     case get_document i (caller q) (sv_docs (tables s)) of
       None \<Rightarrow> missing_document
     | Some r \<Rightarrow>
         (case seller_brief q (retrieve (dr_name r) (take 500 (coalesce (dr_text r ''company_overview'') [])))
             (screenshot_persona read f) of
            None \<Rightarrow> coded 500 ''outreach_generation_failed'' ''Failed to generate outreach. Please try again.''
          | Some b \<Rightarrow> (case compose r b of
              Composed (es, subjects) \<Rightarrow> succeeded [(''emails'', JList (map email_json es)),
                (''subject_options'', JList (map JStr subjects)), (''markdown'', JStr (format_emails_markdown es))]
            | Rejected code msg \<Rightarrow> coded 422 code msg
            | WriterFails \<Rightarrow> coded 500 ''outreach_generation_failed'' ''Failed to generate outreach. Please try again.''))))"

section \<open>LinkedIn messages\<close>

text \<open>What the reader says about a screenshot: its kind, its texts, and whether it is unsure\<close>

record linkedin =
  li_type :: string
  li_texts :: "(string \<times> string) list"
  li_unsure :: bool

definition no_linkedin :: linkedin where
  "no_linkedin = \<lparr>li_type = ''none'', li_texts = [], li_unsure = True\<rparr>"

definition author_labels :: "(string \<times> string) list" where
  "author_labels = [(''author_name'', ''**Name:** ''), (''author_title'', ''**Title:** ''),
     (''author_company'', ''**Company:** '')]"

definition linkedin_persona :: "linkedin \<Rightarrow> string" where
  "linkedin_persona l = (if li_type l = ''profile'' \<and> \<not> li_unsure l
     then py_join newline (present_lines author_labels (li_texts l)) else [])"

definition linkedin_context ::
    "(string \<Rightarrow> string \<Rightarrow> linkedin option) \<Rightarrow> upload option \<Rightarrow> answer + linkedin" where
  "linkedin_context read f = (case f of None \<Rightarrow> Inr no_linkedin
     | Some f \<Rightarrow>
         if up_name f = [] then Inr no_linkedin
         else if screenshot_limit < length (up_bytes f) then
           Inl (coded 422 ''file_too_large'' ''Screenshot must be under 10MB'')
         else if \<not> is_image f then Inl (coded 422 ''invalid_file'' ''Please upload an image file'')
         else (case read (up_bytes f) (up_type f) of
           None \<Rightarrow> Inr no_linkedin
         | Some l \<Rightarrow> if li_type l = ''other''
             then Inl (coded 422 ''not_linkedin'' ''Screenshot does not appear to be from LinkedIn. Upload a LinkedIn profile or post screenshot, or use 'Generate from research only'.'')
             else Inr l))"

definition linkedin_failed :: answer where
  "linkedin_failed = coded 500 ''linkedin_generation_failed'' ''Failed to generate LinkedIn message. Please try again.''"

definition generate_linkedin_message ::
    "request \<Rightarrow> bool \<Rightarrow> bool \<Rightarrow> (string \<Rightarrow> string \<Rightarrow> linkedin option) \<Rightarrow> (string \<Rightarrow> string \<Rightarrow> string) \<Rightarrow>
     (document \<Rightarrow> brief \<Rightarrow> linkedin \<Rightarrow> string \<Rightarrow> ((string \<times> json) list) written) \<Rightarrow> int \<Rightarrow> string \<Rightarrow> upload option \<Rightarrow> handler" where
  "generate_linkedin_message q enabled notes read retrieve compose i mode f = onboarded q (\<lambda>s. (s,
     if \<not> enabled then Refused 404 ''Feature not enabled''
     else if mode = ''connection_request'' \<and> \<not> notes then
       coded 422 ''connection_note_disabled'' ''Connection notes are not enabled. Use DM mode instead.''
     else if mode \<notin> {''dm'', ''connection_request''} then
       coded 422 ''invalid_mode'' (''Mode must be 'dm' or 'connection_request'' @ [CHR 0x27])
     else (case get_document i (caller q) (sv_docs (tables s)) of
       None \<Rightarrow> missing_document
     | Some r \<Rightarrow> (case linkedin_context read f of
         Inl e \<Rightarrow> e
       | Inr l \<Rightarrow>
           (case seller_brief q (retrieve (dr_name r) (take 500 (coalesce (dr_text r ''company_overview'') [])))
               (linkedin_persona l) of
              None \<Rightarrow> linkedin_failed
            | Some b \<Rightarrow> (case compose r b l mode of
                Composed fs \<Rightarrow> succeeded fs
              | Rejected code msg \<Rightarrow> coded 422 code msg
              | WriterFails \<Rightarrow> linkedin_failed))))))"

section \<open>What a contact costs\<close>

lemma stored_contacts_unserializable: "rows_json (map (contact_cells d u) (c # cs)) = None"
  by (simp add: contact_cells_def)

text \<open>
  asking again for the contacts of a document that has some always answers 500: the stored rows
  carry a datetime that the answer cannot serialize. Nothing changes.
\<close>

theorem stored_contacts_crash:
  assumes "us_context (vw_user (rq_user q)) \<noteq> []" "get_document i (caller q) (sv_docs (tables s)) \<noteq> None"
    "get_enriched_contacts i (caller q) (si_api s) \<noteq> []"
  shows "enrich_document_contacts q True post i s = (s, crashed)"
proof -
  obtain r where "get_document i (caller q) (sv_docs (tables s)) = Some r" using assms(2) by blast
  moreover obtain c cs where "get_enriched_contacts i (caller q) (si_api s) = c # cs"
    using assms(3) by (cases "get_enriched_contacts i (caller q) (si_api s)") auto
  ultimately show ?thesis
    using assms(1) stored_contacts_unserializable [of i "caller q" c cs]
    by (simp add: enrich_document_contacts_def Let_def)
qed

text \<open>
  C38: the synchronous research endpoint charges if and only if it stores a document, unless the caller is an
  administrator: either no document was stored and every balance is what it was, or exactly one was, of the
  caller, and the organization paid 100 cents; only a caller whose flag says administrator pays nothing.
\<close>

theorem api_research_charged_iff_stored:
  assumes "api_create_research q raw s = (s', answer)"
  shows "(sv_docs (tables s') = sv_docs (tables s) \<and> balance_of (sv_accounts (tables s')) = balance_of (sv_accounts (tables s))) \<or>
    (\<exists>dr i adm. admin_flag (rq_live q) (caller q) (sv_accounts (tables s)) = Some adm \<and>
      save_document (wo_nfkd (rq_world q)) (caller q) dr (sv_docs (tables s)) = Inr (sv_docs (tables s'), i) \<and>
      answer = succeeded [(''document_id'', JInt i)] \<and>
      (if adm then balance_of (sv_accounts (tables s')) = balance_of (sv_accounts (tables s))
       else \<exists>oid b. org_of_user (sv_accounts (tables s)) (caller q) = Some oid \<and>
         balance_of (sv_accounts (tables s)) oid = Some b \<and> 100 \<le> b \<and>
         balance_of (sv_accounts (tables s')) = (balance_of (sv_accounts (tables s)))(oid \<mapsto> b - 100)))"
    (is "?same s' \<or> ?stored s' answer")
proof (cases "us_context (vw_user (rq_user q)) = [] \<or> (\<exists>e. validate_company_url (rq_resolve q) raw = Inl e)")
  case True
  then have "s' = s" using assms by (auto simp: api_create_research_def onboarded_def split: if_splits)
  then show ?thesis by simp
next
  case False
  then obtain url where url: "validate_company_url (rq_resolve q) raw = Inr url" "us_context (vw_user (rq_user q)) \<noteq> []"
    by (cases "validate_company_url (rq_resolve q) raw") auto
  obtain a o' where a: "page_usage q s = (on_tables (\<lambda>v. v\<lparr>sv_accounts := a\<rparr>) s, o')"
      "balance_of a = balance_of (sv_accounts (tables s))" "org_of_user a = org_of_user (sv_accounts (tables s))"
    by (rule page_usage_cases)
  define s1 where "s1 = on_tables (\<lambda>v. v\<lparr>sv_accounts := a\<rparr>) s"
  have s1: "balance_of (sv_accounts (tables s1)) = balance_of (sv_accounts (tables s))" "sv_docs (tables s1) = sv_docs (tables s)"
      "org_of_user (sv_accounts (tables s1)) = org_of_user (sv_accounts (tables s))"
    by (simp_all add: s1_def a)
  show ?thesis
  proof (cases o')
    case None
    then have "s' = s1" using assms a(1) url by (simp add: api_create_research_def s1_def)
    then show ?thesis using s1 by simp
  next
    case (Some g)
    have flag: "admin_flag (rq_live q) (caller q) (sv_accounts (tables s)) = Some (ug_is_admin g)"
      by (rule page_usage_admin) (simp add: a(1) Some)
    obtain s2 ok where p: "(if ug_is_admin g then (s1, True) else page_charge q 100 s1) = (s2, ok)" by fastforce
    have d: "sv_docs (tables s2) = sv_docs (tables s)"
      using p s1 by (cases rule: page_charge_cases [of q 100 s1]) (auto split: if_splits)
    show ?thesis
    proof (cases ok)
      case False
      then have "s' = s2"
        using assms a(1) [folded s1_def] url Some p by (auto simp: api_create_research_def split: if_splits)
      moreover have "?same s2"
        using p False s1 d by (cases rule: page_charge_cases [of q 100 s1]) (auto split: if_splits)
      ultimately show ?thesis by simp
    next
      case True
      define failed where "failed = (if ug_is_admin g then s2 else page_refund q 100 s2)"
      have f: "?same failed"
        using p True s1 d site_charge_then_refund [of q 100 s1 s2] by (auto simp: failed_def split: if_splits)
      have r: "(s', answer) = (case wo_pipeline (rq_world q) of Inl e \<Rightarrow> (failed, unsuccessful ''Research failed. Please try again.'')
          | Inr dr \<Rightarrow> (case save_document (wo_nfkd (rq_world q)) (caller q) dr (sv_docs (tables s2)) of
              Inl e \<Rightarrow> (failed, unsuccessful ''Research failed. Please try again.'')
            | Inr (d, i) \<Rightarrow> (on_tables (\<lambda>v. v\<lparr>sv_docs := d\<rparr>) s2, succeeded [(''document_id'', JInt i)])))"
        unfolding failed_def
        using assms a(1) [folded s1_def] url Some p True by (simp add: api_create_research_def Let_def)
      have paid: "if ug_is_admin g then balance_of (sv_accounts (tables s2)) = balance_of (sv_accounts (tables s))
       else \<exists>oid b. org_of_user (sv_accounts (tables s)) (caller q) = Some oid \<and>
         balance_of (sv_accounts (tables s)) oid = Some b \<and> 100 \<le> b \<and>
         balance_of (sv_accounts (tables s2)) = (balance_of (sv_accounts (tables s)))(oid \<mapsto> b - 100)"
        using p True s1 by (cases rule: page_charge_cases [of q 100 s1]) (auto split: if_splits)
      show ?thesis
      proof (cases "\<exists>dr d' i. wo_pipeline (rq_world q) = Inr dr \<and>
          save_document (wo_nfkd (rq_world q)) (caller q) dr (sv_docs (tables s2)) = Inr (d', i)")
        case True
        then obtain dr d' i where t: "wo_pipeline (rq_world q) = Inr dr"
          "save_document (wo_nfkd (rq_world q)) (caller q) dr (sv_docs (tables s2)) = Inr (d', i)" by blast
        then have s': "s' = on_tables (\<lambda>v. v\<lparr>sv_docs := d'\<rparr>) s2" "answer = succeeded [(''document_id'', JInt i)]"
          using r by simp_all
        show ?thesis
          by (intro disjI2 exI [of _ dr] exI [of _ i] exI [of _ "ug_is_admin g"]) (use t d s' paid flag in \<open>simp split: if_splits\<close>)
      next
        case False
        then have "s' = failed" using r by (auto split: sum.splits)
        then show ?thesis using f by simp
      qed
    qed
  qed
qed

end
