(* ===== verification/Web_Research_Properties.thy ===== *)
theory Web_Research_Properties
  imports Web_Research Web_List_Properties
begin

text \<open>
  What the research pages guarantee: research is paid for exactly when it is enqueued, a document is shown to
  its owner or to the holder of its token, and contacts are charged for even when none is found.
\<close>

section \<open>Jobs of pages\<close>

lemma page_job_cases:
  obtains (refused) a e where "page_job q none url s = (on_tables (\<lambda>v. v\<lparr>sv_accounts := a\<rparr>) s, Inl e)"
      "balance_of a = balance_of (sv_accounts (tables s))"
  | (free) a d j where
      "page_job q none url s = (on_tables (\<lambda>v. v\<lparr>sv_accounts := a, sv_jobs := d\<rparr>) s, Inr (j, True))"
      "insert_job (request_time q) (caller q) None url (sv_jobs (tables s)) = (d, j)"
      "balance_of a = balance_of (sv_accounts (tables s))"
      "admin_flag (rq_live q) (caller q) (sv_accounts (tables s)) = Some True"
  | (paid) a d j oid b where
      "page_job q none url s = (on_tables (\<lambda>v. v\<lparr>sv_accounts := a, sv_jobs := d\<rparr>) s, Inr (j, False))"
      "insert_job (request_time q) (caller q) None url (sv_jobs (tables s)) = (d, j)"
      "org_of_user (sv_accounts (tables s)) (caller q) = Some oid"
      "balance_of (sv_accounts (tables s)) oid = Some b" "100 \<le> b"
      "balance_of a = (balance_of (sv_accounts (tables s)))(oid \<mapsto> b - 100)"
      "admin_flag (rq_live q) (caller q) (sv_accounts (tables s)) = Some False"
proof -
  obtain a o' where cu: "page_usage q s = (on_tables (\<lambda>v. v\<lparr>sv_accounts := a\<rparr>) s, o')"
      "balance_of a = balance_of (sv_accounts (tables s))" "org_of_user a = org_of_user (sv_accounts (tables s))"
    by (rule page_usage_cases)
  have tt: "on_tables f (on_tables g s) = on_tables (f \<circ> g) s" for f g
    by (simp add: on_tables_def on_api_def on_server_def)
  show thesis
  proof (cases o')
    case None
    show thesis by (rule refused [where a = a]) (use cu None in \<open>simp_all add: page_job_def\<close>)
  next
    case (Some u)
    have flag: "admin_flag (rq_live q) (caller q) (sv_accounts (tables s)) = Some (ug_is_admin u)"
      by (rule page_usage_admin) (simp add: cu(1) Some)
    show thesis
    proof (cases "ug_is_admin u")
      case True
      show thesis
      proof (cases "create_research_job (request_time q) (caller q) None url a (sv_jobs (tables s))")
        case (Inl e)
        show thesis by (rule refused [where a = a]) (use cu Some True Inl in \<open>simp_all add: page_job_def\<close>)
      next
        case (Inr x)
        obtain d j where x: "x = (d, j)" by (cases x)
        show thesis
          by (rule free [where a = a and d = d and j = j]) (use cu Some True Inr x flag in
            \<open>auto simp: page_job_def tt comp_def create_research_job_def split: if_splits\<close>)
      qed
    next
      case False
      show thesis
      proof (cases rule: create_job_with_credit_cases [of "request_time q" "caller q" None url 100 a "sv_jobs (tables s)"])
        case refused': refused
        show thesis by (rule refused [where a = a]) (use cu Some False refused' in \<open>simp_all add: page_job_def\<close>)
      next
        case (created oid b d j)
        let ?a = "invalidate_usage_cache (caller q) (add_to_org oid (- 100) a)"
        have "balance_of ?a = (balance_of (sv_accounts (tables s)))(oid \<mapsto> b - 100)"
          using created(2) cu(2) by (simp add: balance_of_add_to_org fun_eq_iff)
        then show thesis
          by (rule paid [where a = ?a and d = d and j = j and oid = oid and b = b, rotated 5]) (use cu Some False created flag in \<open>simp_all add: page_job_def tt comp_def\<close>)
      qed
    qed
  qed
qed

lemma page_watch_frame:
  obtains d where "page_watch q watch url s = (on_tables (\<lambda>v. v\<lparr>sv_watch := d\<rparr>) s, True)"
proof (cases watch)
  case True
  have "\<exists>d w. create_watchlist_item (request_time q) (caller q) url None ''biweekly'' (sv_watch (tables s)) = Inr (d, w)"
    by (simp add: create_watchlist_item_def valid_schedule_def Let_def split: option.split)
  then show thesis using that True by (auto simp: page_watch_def)
next
  case False
  have "on_tables (\<lambda>v. v\<lparr>sv_watch := sv_watch (tables s)\<rparr>) s = s"
    by (simp add: on_tables_def on_api_def on_server_def tables_def)
  then show thesis using that [of "sv_watch (tables s)"] False by (simp add: page_watch_def)
qed

lemma research_limited_cases:
  obtains (refused) hits e where "research_limited q ip h s = (s\<lparr>si_research_hits := hits\<rparr>, e)"
  | (passed) hits where "research_limited q ip h s = h (s\<lparr>si_research_hits := hits\<rparr>)"
  by (cases "ip_check q 5 ip (si_research_hits s)"; cases "snd (ip_check q 5 ip (si_research_hits s))")
    (auto simp: research_limited_def)

text \<open>
  C24: the research form charges if and only if it enqueues, unless the caller is an administrator: either no
  job, task or balance changed, or the form was accepted with a fresh job, exactly one task for that job
  was enqueued, and the organization paid 100 cents that its balance covered; only a caller whose flag
  says administrator pays nothing.
\<close>

theorem research_form_charged_iff_enqueued:
  assumes "start_research_page q ip raw watch s = (s', answer)"
  shows "(sv_queue (tables s') = sv_queue (tables s) \<and> sv_jobs (tables s') = sv_jobs (tables s) \<and>
      balance_of (sv_accounts (tables s')) = balance_of (sv_accounts (tables s))) \<or>
    (\<exists>j url adm. admin_flag (rq_live q) (caller q) (sv_accounts (tables s)) = Some adm \<and>
      answer = succeeded [(''job_id'', JInt (jb_id j))] \<and>
      insert_job (request_time q) (caller q) None url (sv_jobs (tables s)) = (sv_jobs (tables s'), j) \<and>
      sv_queue (tables s') = fst (enqueue (request_time q) ''research'' (web_research_task q j url adm) (sv_queue (tables s))) \<and>
      (if adm then balance_of (sv_accounts (tables s')) = balance_of (sv_accounts (tables s))
       else \<exists>oid b. org_of_user (sv_accounts (tables s)) (caller q) = Some oid \<and>
         balance_of (sv_accounts (tables s)) oid = Some b \<and> 100 \<le> b \<and>
         balance_of (sv_accounts (tables s')) = (balance_of (sv_accounts (tables s)))(oid \<mapsto> b - 100)))"
    (is "?same s' \<or> ?new s' answer")
proof (cases "us_context (vw_user (rq_user q)) = []")
  case True
  then show ?thesis using assms by (auto simp: start_research_page_def onboarded_def)
next
  case False
  define body where "body = (\<lambda>s. case validate_company_url (rq_resolve q) raw of
       Inl e \<Rightarrow> (s, declined 400 e)
     | Inr url \<Rightarrow> (case get_recent_document_by_url (request_time q) (caller q) url 24 (sv_docs (tables s)) of
         Some doc \<Rightarrow> (case page_watch q watch url s of
             (s1, False) \<Rightarrow> (s1, crashed)
           | (s1, True) \<Rightarrow> (s1, succeeded [(''job_id'', JNull), (''redirect'', JStr (document_path q doc s1)),
               (''cached'', JBool True)]))
       | None \<Rightarrow> fresh_research q url watch s))"
  have r: "research_limited q ip body s = (s', answer)"
    using assms False by (simp add: start_research_page_def body_def)
  show ?thesis
  proof (cases rule: research_limited_cases [of q ip body s])
    case (refused hits e)
    then show ?thesis using r by auto
  next
    case (passed hits)
    define s0 where "s0 = s\<lparr>si_research_hits := hits\<rparr>"
    have s0: "tables s0 = tables s" by (simp add: s0_def)
    have b: "body s0 = (s', answer)" using r passed by (simp add: s0_def)
    show ?thesis
    proof (cases "\<exists>url. validate_company_url (rq_resolve q) raw = Inr url \<and>
        get_recent_document_by_url (request_time q) (caller q) url 24 (sv_docs (tables s)) = None")
      case False
      show ?thesis
      proof (cases "validate_company_url (rq_resolve q) raw")
        case (Inl e)
        then show ?thesis using b s0 by (auto simp: body_def)
      next
        case (Inr url)
        obtain doc where "get_recent_document_by_url (request_time q) (caller q) url 24 (sv_docs (tables s)) = Some doc"
          using False Inr by auto
        moreover obtain d where "page_watch q watch url s0 = (on_tables (\<lambda>v. v\<lparr>sv_watch := d\<rparr>) s0, True)"
          by (rule page_watch_frame)
        ultimately show ?thesis using b Inr s0 by (auto simp: body_def)
      qed
    next
      case True
      then obtain url where "validate_company_url (rq_resolve q) raw = Inr url"
        "get_recent_document_by_url (request_time q) (caller q) url 24 (sv_docs (tables s)) = None" by blast
      then have f: "fresh_research q url watch s0 = (s', answer)" using b s0 by (simp add: body_def)
      show ?thesis
      proof (cases rule: page_job_cases [of q "declined 402 ''No credits remaining.''" url s0])
        case (refused a e)
        then show ?thesis using f s0 by (auto simp: fresh_research_def)
      next
        case (free a d j)
        obtain w where "page_watch q watch url (on_tables (\<lambda>v. v\<lparr>sv_accounts := a, sv_jobs := d\<rparr>) s0) =
            (on_tables (\<lambda>v. v\<lparr>sv_watch := w\<rparr>) (on_tables (\<lambda>v. v\<lparr>sv_accounts := a, sv_jobs := d\<rparr>) s0), True)"
          by (rule page_watch_frame)
        then have "?new s' answer"
          by (intro exI [of _ j] exI [of _ url] exI [of _ True]) (use f free s0 in \<open>auto simp: fresh_research_def\<close>)
        then show ?thesis ..
      next
        case (paid a d j oid b')
        obtain w where "page_watch q watch url (on_tables (\<lambda>v. v\<lparr>sv_accounts := a, sv_jobs := d\<rparr>) s0) =
            (on_tables (\<lambda>v. v\<lparr>sv_watch := w\<rparr>) (on_tables (\<lambda>v. v\<lparr>sv_accounts := a, sv_jobs := d\<rparr>) s0), True)"
          by (rule page_watch_frame)
        then have "?new s' answer"
          by (intro exI [of _ j] exI [of _ url] exI [of _ False]) (use f paid s0 in \<open>auto simp: fresh_research_def\<close>)
        then show ?thesis ..
      qed
    qed
  qed
qed

text \<open>
  searching the contacts of a document costs a member's organization 50 cents even when the
  service finds nobody.
\<close>

theorem no_contacts_still_charged:
  assumes "us_context (vw_user (rq_user q)) \<noteq> []" "get_document i (caller q) (sv_docs (tables s)) = Some r"
    "get_enriched_contacts i (caller q) (si_api s) = []" "page_usage q s = (s1, Some u)" "\<not> ug_is_admin u"
    "org_of_user (sv_accounts (tables s)) (caller q) = Some oid" "balance_of (sv_accounts (tables s)) oid = Some b" "50 \<le> b"
    "leadmagic_contacts True post (company_domain (dr_url r)) (dr_name r) (target_titles q) = []"
    "enrich_document_contacts q True post i s = (s', answer)"
  shows "answer = succeeded [(''contacts'', JList []), (''cached'', JBool False)] \<and>
    balance_of (sv_accounts (tables s')) oid = Some (b - 50)"
proof -
  obtain a o' where a: "page_usage q s = (on_tables (\<lambda>v. v\<lparr>sv_accounts := a\<rparr>) s, o')"
      "balance_of a = balance_of (sv_accounts (tables s))" "org_of_user a = org_of_user (sv_accounts (tables s))"
    by (rule page_usage_cases)
  have s1: "s1 = on_tables (\<lambda>v. v\<lparr>sv_accounts := a\<rparr>) s" using a(1) assms(4) by simp
  show ?thesis
  proof (cases rule: page_charge_cases [of q 50 s1])
    case (refused a')
    then show ?thesis using assms(6-8) a by (simp add: affordable_def s1)
  next
    case (paid a' g c)
    then have "(s', answer) = (on_tables (\<lambda>v. v\<lparr>sv_accounts := a'\<rparr>) s1,
        succeeded [(''contacts'', JList []), (''cached'', JBool False)])"
      using assms by (simp add: enrich_document_contacts_def buy_leads_def Let_def)
    then show ?thesis using paid(2-5) a assms(6,7) by (simp add: s1)
  qed
qed

section \<open>Who sees a document\<close>

text \<open>
  C27: the page of a document by number is shown only to its owner, or to a signed-in user who gives the
  token of that very document; others get no page.
\<close>

theorem document_page_private:
  assumes "view_document share (Some q) i token s = (s', Page template entries)"
  shows "\<exists>r \<in> set (dt_rows (sv_docs (tables s))). dc_id r = i \<and>
    map_of entries ''document'' = Some (row_to_document q r) \<and>
    (dc_user r = caller q \<and> map_of entries ''is_owner'' = Some (JBool True) \<or>
     token = Some (share i) \<and> map_of entries ''is_owner'' = Some (JBool False) \<and>
       map_of entries ''enriched_contacts'' = Some (JList []) \<and> map_of entries ''feedback'' = Some JNull)"
proof -
  have page: "map_of es ''document'' = Some (row_to_document q r) \<and> map_of es ''is_owner'' = Some (JBool own) \<and>
      (\<not> own \<longrightarrow> map_of es ''enriched_contacts'' = Some (JList []) \<and> map_of es ''feedback'' = Some JNull)"
    if "document_page q own tok r s = (s'', Page tpl es)" for own tok r s'' tpl es
    using that by (auto simp: document_page_def crashed_def split: prod.splits option.splits)
  show ?thesis
  proof (cases "get_document i (caller q) (sv_docs (tables s))")
    case (Some r)
    then have m: "r \<in> set (dt_rows (sv_docs (tables s)))" "dc_id r = i" "dc_user r = caller q"
      by (auto simp: get_document_def find_Some_iff)
    have "document_page q True (get_share_token share i (caller q) (sv_docs (tables s))) r s = (s', Page template entries)"
      using assms Some by (simp add: view_document_def Let_def split: option.splits)
    from page [OF this] m show ?thesis by auto
  next
    case None
    obtain t r where t: "token = Some t" "get_document_by_share_token share i t (sv_docs (tables s)) = Some r"
        "document_page q False (Some t) r s = (s', Page template entries)"
      using assms None by (auto simp: view_document_def Let_def missing_document_def split: option.splits if_splits)
    then have m: "r \<in> set (dt_rows (sv_docs (tables s)))" "dc_id r = i" "share i = t"
      by (auto simp: get_document_by_share_token_def find_Some_iff)
    from page [OF t(3)] m t(1) show ?thesis by auto
  qed
qed

section \<open>Witnesses\<close>

definition researched_draft :: draft where
  "researched_draft = \<lparr>dr_text = (\<lambda>_. None), dr_url = ''https://b.com'', dr_name = ''B'', dr_created = 0,
     dr_opportunity = None, dr_pain = None, dr_fit = None, dr_timing = None\<rparr>"

text \<open>A document and its contacts\<close>

definition research_site :: "contact list \<Rightarrow> int \<Rightarrow> site" where
  "research_site cs uid = on_api (\<lambda>s. s\<lparr>ap_contacts := map (\<lambda>c. (1, uid, c)) cs\<rparr>)
     (on_tables (\<lambda>v. v\<lparr>sv_docs := insert_document uid researched_draft ''b'' no_docs\<rparr>) (site_with no_lists))"

lemma research_site_tables [simp]:
  "sv_accounts (tables (research_site cs uid)) = office"
  "sv_docs (tables (research_site cs uid)) = insert_document uid researched_draft ''b'' no_docs"
  by (simp_all add: research_site_def tables_def site_with_def sample_api_def server_with_def on_tables_def on_api_def
      on_server_def)

theorem document_page_private_witness:
  "\<exists>s' template entries. view_document (\<lambda>i. ''tok'') (Some page_request) 1 (Some ''tok'') (research_site [] 2) =
      (s', Page template entries) \<and> map_of entries ''is_owner'' = Some (JBool False)"
proof -
  let ?s = "research_site [] 2"
  obtain s1 where u: "page_usage page_request ?s = (s1, Some (usage_of office office_user))"
    by (rule office_site_usage [of ?s]) simp_all
  have g: "get_document 1 1 (sv_docs (tables ?s)) = None"
    by (simp add: get_document_def insert_document_def no_docs_def)
  have t: "\<exists>r. get_document_by_share_token (\<lambda>i. ''tok'') 1 ''tok'' (sv_docs (tables ?s)) = Some r"
    by (simp add: get_document_by_share_token_def insert_document_def no_docs_def)
  have "\<exists>s' template entries. view_document (\<lambda>i. ''tok'') (Some page_request) 1 (Some ''tok'') ?s = (s', Page template entries)"
    using g t u by (auto simp: view_document_def document_page_def Let_def)
  then obtain s' template entries where v: "view_document (\<lambda>i. ''tok'') (Some page_request) 1 (Some ''tok'') ?s =
      (s', Page template entries)" by blast
  have "\<not> (\<exists>r \<in> set (dt_rows (sv_docs (tables ?s))). dc_user r = caller page_request)"
    by (simp add: insert_document_def no_docs_def)
  then show ?thesis using document_page_private [OF v] v by blast
qed

definition found_lead :: contact where
  "found_lead = \<lparr>ct_name = Some ''Ann'', ct_first = Some ''Ann'', ct_last = Some ''A'', ct_title = Some ''CEO'',
     ct_email = None, ct_email_status = None, ct_profile = None, ct_company = None\<rparr>"

theorem stored_contacts_crash_witness:
  "enrich_document_contacts page_request True (\<lambda>e b. None) 1 (research_site [found_lead] 1) =
     (research_site [found_lead] 1, crashed)"
proof (rule stored_contacts_crash)
  show "get_document 1 (caller page_request) (sv_docs (tables (research_site [found_lead] 1))) \<noteq> None"
    by (simp add: get_document_def insert_document_def no_docs_def)
  show "get_enriched_contacts 1 (caller page_request) (si_api (research_site [found_lead] 1)) \<noteq> []"
    by (simp add: get_enriched_contacts_def research_site_def)
qed simp

theorem api_research_charged_iff_stored_witness:
  "\<exists>s' answer. api_create_research page_request ''https://b.com'' (site_with no_lists) = (s', answer) \<and>
     balance_of (sv_accounts (tables s')) 1 \<in> {Some 250, Some 150}"
proof -
  obtain s' answer where r: "api_create_research page_request ''https://b.com'' (site_with no_lists) = (s', answer)"
    by fastforce
  then show ?thesis using api_research_charged_iff_stored [OF r] by (auto split: if_splits)
qed

lemma first_hit: "ip_check page_request 5 ''ip'' [] = ([(''ip'', [0])], None)"
  by (simp add: ip_check_def ip_limiter_def limiter_check_def hits_of_def recent_def max_keys_def seconds_left_def
      seconds_def Let_def page_request_def sample_request_def)

lemma office_job:
  assumes "sv_accounts (tables s) = office" "sv_jobs (tables s) = no_jobs"
  shows "\<exists>s1 j. page_job page_request none url s = (s1, Inr (j, False)) \<and> sv_queue (tables s1) = sv_queue (tables s)"
proof -
  have u: "page_usage page_request s = (on_tables (\<lambda>v. v\<lparr>sv_accounts := office\<lparr>ac_usage_cache := [1 \<mapsto> usage_of office office_user]\<rparr>\<rparr>) s,
      Some (usage_of office office_user))"
    using assms by (simp add: page_usage_def caller_usage_def tables_def office_usage on_tables_def on_api_def on_server_def)
  have "\<exists>a d j. create_job_with_credit (seconds 700) 1 None url 100
      (office\<lparr>ac_usage_cache := [1 \<mapsto> usage_of office office_user]\<rparr>) no_jobs = Inr (a, d, j)"
    by (simp add: create_job_with_credit_def use_credit_conn_def charge_org_def office_def org_of_user_def user_of_def
        new_user_def org_row_of_def add_to_org_def balance_of_def create_research_job_def insert_job_def no_jobs_def
        invalidate_usage_cache_def Let_def)
  then show ?thesis using assms office_usage(2) by (auto simp: page_job_def u)
qed

theorem research_form_charged_iff_enqueued_witness:
  "\<exists>s' (j :: job). start_research_page page_request ''ip'' ''https://b.com'' True (site_with no_lists) =
      (s', succeeded [(''job_id'', JInt (jb_id j))]) \<and> balance_of (sv_accounts (tables s')) 1 = Some 150"
proof -
  let ?s = "site_with no_lists"
  define s0 where "s0 = ?s\<lparr>si_research_hits := [(''ip'', [0])]\<rparr>"
  obtain s' answer where r: "start_research_page page_request ''ip'' ''https://b.com'' True ?s = (s', answer)" by fastforce
  have s0: "sv_accounts (tables s0) = office" "sv_jobs (tables s0) = no_jobs" "sv_docs (tables s0) = no_docs"
      "tq_rows (sv_queue (tables s0)) = []"
    by (simp_all add: s0_def server_with_def)
  obtain s1 j where j: "page_job page_request (declined 402 ''No credits remaining.'') ''https://b.com'' s0 = (s1, Inr (j, False))"
      "sv_queue (tables s1) = sv_queue (tables s0)"
    using office_job [OF s0(1,2)] by blast
  obtain w where w: "page_watch page_request True ''https://b.com'' s1 = (on_tables (\<lambda>v. v\<lparr>sv_watch := w\<rparr>) s1, True)"
    by (rule page_watch_frame)
  have cache: "get_recent_document_by_url (seconds 700) 1 ''https://b.com'' 24 no_docs = None"
    by (simp add: get_recent_document_by_url_def newest_documents_def no_docs_def)
  have "start_research_page page_request ''ip'' ''https://b.com'' True ?s = fresh_research page_request ''https://b.com'' True s0"
    using first_hit valid_url s0(3) cache by (simp add: start_research_page_def research_limited_def site_with_def s0_def)
  also have "\<dots> = (page_task page_request ''research'' (web_research_task page_request j ''https://b.com'' False)
      (on_tables (\<lambda>v. v\<lparr>sv_watch := w\<rparr>) s1), succeeded [(''job_id'', JInt (jb_id j))])"
    using j w by (simp add: fresh_research_def)
  finally have s': "s' = page_task page_request ''research'' (web_research_task page_request j ''https://b.com'' False)
      (on_tables (\<lambda>v. v\<lparr>sv_watch := w\<rparr>) s1)" "answer = succeeded [(''job_id'', JInt (jb_id j))]"
    using r by simp_all
  have rows: "tq_rows (sv_queue (tables s')) = [new_task (tq_next (sv_queue (tables s0))) (seconds 700) ''research''
      (web_research_task page_request j ''https://b.com'' False)]"
    using s0(4) by (simp add: s'(1) j(2) enqueue_def insert_task_def)
  have same: "sv_queue (tables ?s) = sv_queue (tables s0)" by (simp add: s0_def)
  then have "sv_queue (tables s') \<noteq> sv_queue (tables ?s)" using rows s0(4) by auto
  then obtain k url adm where k: "sv_queue (tables s') = fst (enqueue (seconds 700) ''research''
        (web_research_task page_request k url adm) (sv_queue (tables ?s)))"
      "adm \<or> balance_of (sv_accounts (tables s')) 1 = Some 150"
    using research_form_charged_iff_enqueued [OF r] by (fastforce split: if_splits)
  have "\<not> adm" using rows same s0(4) unfolding k(1)
    by (simp add: enqueue_def insert_task_def new_task_def web_research_task_def)
  then have "balance_of (sv_accounts (tables s')) 1 = Some 150" using k(2) by simp
  then show ?thesis
    by (intro exI [of _ s'] exI [of _ j] conjI) (use r s'(2) in simp)
qed

theorem no_contacts_still_charged_witness:
  "\<exists>s' answer. enrich_document_contacts page_request True (\<lambda>e b. None) 1 (research_site [] 1) = (s', answer) \<and>
     balance_of (sv_accounts (tables s')) 1 = Some 200"
proof -
  let ?s = "research_site [] 1"
  obtain s1 where u: "page_usage page_request ?s = (s1, Some (usage_of office office_user))"
    by (rule office_site_usage [of ?s]) simp_all
  obtain r where d: "get_document 1 (caller page_request) (sv_docs (tables ?s)) = Some r"
    by (simp add: get_document_def insert_document_def no_docs_def)
  have e: "get_enriched_contacts 1 (caller page_request) (si_api ?s) = []"
    by (simp add: get_enriched_contacts_def research_site_def)
  have n: "leadmagic_contacts True (\<lambda>e b. None) h m ts = []" for h m ts
    by (induction ts) (simp_all add: leadmagic_contacts_def find_role_def)
  obtain s' answer where x: "enrich_document_contacts page_request True (\<lambda>e b. None) 1 ?s = (s', answer)" by fastforce
  show ?thesis
    using no_contacts_still_charged [OF _ d e u office_usage(2) _ _ _ n x, of 1 250] x by simp
qed

end
