(* ===== verification/Web_Settings.thy ===== *)
theory Web_Settings
  imports Web_List_Properties Personas Materials
begin

text \<open>
  Onboarding, settings, API keys and the webhook of a user (\<open>routes/settings.py\<close>), and the watchlist
  pages (\<open>routes/watchlist.py\<close>), on the tables of the site.
\<close>

section \<open>The settings form\<close>

record settings_form =
  fo_name :: string
  fo_website :: string
  fo_problems :: string
  fo_sizes :: "string list"
  fo_industries :: "string list"
  fo_personas :: string
  fo_levels :: "string list"
  fo_functions :: "string list"
  fo_signals :: string
  fo_type :: string
  fo_motion :: string
  fo_category :: string

text \<open>\<open>urlparse\<close> raises on unbalanced brackets.\<close>

definition derive_company_name :: "string \<Rightarrow> string option" where
  "derive_company_name website = (if \<not> balanced_brackets website then None
     else Some (py_title False (map (\<lambda>c. if c \<in> {CHR ''-'', CHR ''_''} then CHR '' '' else c)
       (hd (py_split (py_join [] (py_split (authority (unsafe_removed website)) ''www.'')) ''.'')))))"

definition resolved_name :: "settings_form \<Rightarrow> string option" where
  "resolved_name fo = (if py_strip (fo_name fo) \<noteq> [] then Some (py_strip (fo_name fo))
     else derive_company_name (normalize_url (fo_website fo)))"

definition form_profile :: "settings_form \<Rightarrow> string \<Rightarrow> profile \<Rightarrow> profile" where
  "form_profile fo name old = \<lparr>pf_company_name = name, pf_company_website = normalize_url (fo_website fo),
     pf_product_name = pf_product_name old, pf_product_description = pf_product_description old,
     pf_problems_solved = fo_problems fo, pf_differentiators = pf_differentiators old,
     pf_target_company_size = py_join '', '' (fo_sizes fo), pf_target_industries = py_join '', '' (fo_industries fo),
     pf_target_personas = personas_string (fo_personas fo) (fo_levels fo) (fo_functions fo), pf_competitors = [],
     pf_product_type = fo_type fo, pf_custom_signals = fo_signals fo, pf_solution_motion = fo_motion fo,
     pf_seller_product_category = fo_category fo\<rparr>"

definition profile_task :: "request \<Rightarrow> string \<Rightarrow> payload" where
  "profile_task q website = [(''user_id'', PInt (caller q)), (''company_website'', PStr website)]"

definition refresh_profile :: "request \<Rightarrow> string \<Rightarrow> site \<Rightarrow> site" where
  "refresh_profile q website s = page_task q ''seller_profile_enrichment'' (profile_task q website)
     (on_tables (\<lambda>v. v\<lparr>sv_accounts := clear_seller_profile (caller q) (sv_accounts v)\<rparr>) s)"

definition store_profile :: "request \<Rightarrow> settings_form \<Rightarrow> profile \<Rightarrow> site \<Rightarrow> site option" where
  "store_profile q fo old s = (case resolved_name fo of
     None \<Rightarrow> None
   | Some name \<Rightarrow> (case update_user_profile (caller q) (form_profile fo name old) (sv_accounts (tables s)) of
       Inl e \<Rightarrow> None
     | Inr (a, u) \<Rightarrow> Some (on_tables (\<lambda>v. v\<lparr>sv_accounts := a\<rparr>) s)))"

definition onboarding_page :: "request \<Rightarrow> answer" where
  "onboarding_page q = (if us_context (vw_user (rq_user q)) \<noteq> [] then Moved 302 ''/'' else Page ''onboarding.html'' [])"

text \<open>The onboarding form has no problems field, and nothing is kept of an earlier profile.\<close>

definition complete_onboarding :: "request \<Rightarrow> settings_form \<Rightarrow> handler" where
  "complete_onboarding q fo s = (case store_profile q (fo\<lparr>fo_problems := []\<rparr>) empty_profile s of
     None \<Rightarrow> (s, crashed)
   | Some s1 \<Rightarrow> (refresh_profile q (normalize_url (fo_website fo)) s1, Moved 302 ''/''))"

definition needs_profile_refresh :: "request \<Rightarrow> settings_form \<Rightarrow> bool" where
  "needs_profile_refresh q fo \<longleftrightarrow> (let u = vw_user (rq_user q) in
     normalize_url (fo_website fo) \<noteq> py_strip (pf_company_website (us_profile u)) \<or> \<not> truthy (us_seller u))"

definition save_settings :: "request \<Rightarrow> settings_form \<Rightarrow> handler" where
  "save_settings q fo = onboarded q (\<lambda>s. case store_profile q fo (us_profile (vw_user (rq_user q))) s of
     None \<Rightarrow> (s, crashed)
   | Some s1 \<Rightarrow> (if needs_profile_refresh q fo then refresh_profile q (normalize_url (fo_website fo)) s1 else s1,
       Moved 302 ''/settings?saved=true''))"

text \<open>What the settings page ticks: sizes, verticals, levels and functions\<close>

definition settings_selection :: "profile \<Rightarrow> string list \<times> string list \<times> string list \<times> string list" where
  "settings_selection p = (kept_parts '', '' (pf_target_company_size p),
     normalize_verticals (kept_parts '', '' (pf_target_industries p)), parse_personas_string (pf_target_personas p))"

definition settings_page :: "request \<Rightarrow> bool \<Rightarrow> handler" where
  "settings_page q saved = onboarded q (\<lambda>s. (s, case settings_selection (us_profile (vw_user (rq_user q))) of
     (sizes, verticals, levels, jobs) \<Rightarrow> Page ''settings.html'' [(''saved'', JBool saved),
       (''selected_sizes'', JList (map JStr sizes)), (''selected_industries'', JList (map JStr verticals)),
       (''selected_levels'', JList (map JStr levels)), (''selected_functions'', JList (map JStr jobs))]))"

section \<open>Keys and webhook\<close>

definition on_keys :: "(key_db \<Rightarrow> key_db) \<Rightarrow> site \<Rightarrow> site" where
  "on_keys f = on_api (\<lambda>a. a\<lparr>ap_keys := f (ap_keys a)\<rparr>)"

definition on_hooks :: "(hook_db \<Rightarrow> hook_db) \<Rightarrow> site \<Rightarrow> site" where
  "on_hooks f = on_tables (\<lambda>v. v\<lparr>sv_hooks := f (sv_hooks v)\<rparr>)"

definition api_keys_page :: "request \<Rightarrow> string option \<Rightarrow> string option \<Rightarrow> handler" where
  "api_keys_page q new_key secret s = (case page_usage q s of
     (s1, None) \<Rightarrow> (s1, crashed)
   | (s1, Some u) \<Rightarrow> (s1, Page ''api_keys.html'' [
       (''api_keys'', JList (map (\<lambda>k. JDict [(''id'', JInt (kr_id k)), (''name'', JStr (kr_name k)),
          (''key_prefix'', JStr (kr_prefix k))]) (list_api_keys (caller q) (ap_keys (si_api s))))),
       (''usage_stats'', JList (map (\<lambda>(k, n, c). JDict [(''id'', JInt k), (''requests'', JInt n), (''credits'', JInt c)])
          (get_api_key_usage_stats (caller q) (sv_api_usage (tables s)) (ap_keys (si_api s))))),
       (''credits_cents'', JInt (ug_credits u)), (''is_admin'', JBool (ug_is_admin u)), (''new_key'', jopt JStr new_key),
       (''webhook'', jopt (\<lambda>w. JStr (hk_url w)) (get_user_webhook (caller q) (sv_hooks (tables s)))),
       (''webhook_secret'', jopt JStr secret)]))"

definition create_api_key_route :: "request \<Rightarrow> (string \<Rightarrow> string) \<Rightarrow> string \<Rightarrow> string \<Rightarrow> handler" where
  "create_api_key_route q hash random name s = (case generate_api_key hash random of (raw, h, p) \<Rightarrow>
     (case create_api_key_record (request_time q) (caller q) h p name (sv_accounts (tables s)) (ap_keys (si_api s)) of
        Inl e \<Rightarrow> (s, crashed)
      | Inr (d, i) \<Rightarrow> (on_keys (\<lambda>_. d) s, Moved 303 (''/api-keys?new_key='' @ raw))))"

definition revoke_api_key_route :: "request \<Rightarrow> int \<Rightarrow> handler" where
  "revoke_api_key_route q i s = (on_keys (\<lambda>d. fst (revoke_api_key i (caller q) d)) s, Moved 303 ''/api-keys'')"

definition create_webhook_route :: "request \<Rightarrow> string \<Rightarrow> string \<Rightarrow> handler" where
  "create_webhook_route q secret url s =
     (on_hooks (\<lambda>d. fst (upsert_webhook (caller q) url secret (us_org (vw_user (rq_user q))) None
        (sv_accounts (tables s)) d)) s, Moved 303 (''/api-keys?webhook_secret='' @ secret))"

definition delete_webhook_route :: "request \<Rightarrow> handler" where
  "delete_webhook_route q s = (on_hooks (\<lambda>d. fst (delete_user_webhook (caller q) d)) s, Moved 303 ''/api-keys'')"

section \<open>The watchlist pages\<close>

definition with_watches :: "watch_db \<Rightarrow> site \<Rightarrow> site" where
  "with_watches d = on_tables (\<lambda>v. v\<lparr>sv_watch := d\<rparr>)"

definition page_schedules :: "string list" where
  "page_schedules = [''weekly'', ''biweekly'', ''monthly'']"

definition history_scores :: "doc_scores \<Rightarrow> json" where
  "history_scores x = JDict [(''opportunity'', jopt JInt (ds_opportunity x)), (''pain'', jopt JInt (ds_pain x)),
     (''fit'', jopt JInt (ds_fit x)), (''timing'', jopt JInt (ds_timing x))]"

definition page_change :: "request \<Rightarrow> change_row \<Rightarrow> json" where
  "page_change q c = JDict [(''old_document_id'', jopt JInt (wc_old_doc c)), (''new_document_id'', JInt (wc_new_doc c)),
     (''old_scores'', history_scores (wc_old c)), (''new_scores'', history_scores (wc_new c)),
     (''is_significant'', JBool (wc_significant c)), (''created_at'', jtime q (wc_created c))]"

text \<open>The page lists the items as they were, then marks the changes as seen.\<close>

definition watchlist_page :: "request \<Rightarrow> handler" where
  "watchlist_page q = onboarded q (\<lambda>s. case page_usage q s of
     (s1, None) \<Rightarrow> (s1, crashed)
   | (s1, Some u) \<Rightarrow>
       (let d = sv_watch (tables s); d1 = mark_changes_seen (request_time q) (caller q) d in
        (with_watches d1 s1, Page ''watchlist.html'' [
          (''items'', JList (map (\<lambda>(w, sig). JDict [(''id'', JInt (wl_id w)), (''company_url'', JStr (wl_url w)),
             (''schedule'', JStr (wl_schedule w)), (''has_recent_significant'', jopt JInt sig),
             (''history'', JList (map (page_change q) (get_score_history (wl_id w) (caller q) 5 d1)))])
             (fst (list_watchlist_items (request_time q) (caller q) 100 None d)))),
          (''credits_cents'', JInt (ug_credits u)), (''is_admin'', JBool (ug_is_admin u))])))"

definition watchlist_add :: "request \<Rightarrow> string \<Rightarrow> string option \<Rightarrow> string \<Rightarrow> handler" where
  "watchlist_add q raw name schedule = onboarded q (\<lambda>s. case validate_company_url (rq_resolve q) raw of
     Inl e \<Rightarrow> (s, Refused 422 ''Invalid company URL'')
   | Inr url \<Rightarrow> (case create_watchlist_item (request_time q) (caller q) url name
         (if schedule \<in> set page_schedules then schedule else ''biweekly'') (sv_watch (tables s)) of
       Inl e \<Rightarrow> (s, crashed)
     | Inr (d, w) \<Rightarrow> (with_watches d s, Moved 303 ''/watchlist'')))"

definition page_status :: "string option \<Rightarrow> watch_status option" where
  "page_status x = (if x = Some ''active'' then Some WatchActive else if x = Some ''paused'' then Some WatchPaused else None)"

text \<open>FastAPI gives an empty form field as its default, which is no value here.\<close>

definition page_schedule :: "string option \<Rightarrow> string option" where
  "page_schedule x = (case x of None \<Rightarrow> None | Some t \<Rightarrow> if t \<in> set page_schedules then Some t else None)"

definition watchlist_update :: "request \<Rightarrow> int \<Rightarrow> string option \<Rightarrow> string option \<Rightarrow> handler" where
  "watchlist_update q i schedule status = onboarded q (\<lambda>s.
     case update_watchlist_item (request_time q) i (caller q) (page_schedule schedule) (page_status status)
         (sv_watch (tables s)) of
       Inl e \<Rightarrow> (s, crashed)
     | Inr (d, None) \<Rightarrow> (s, Refused 404 ''Item not found'')
     | Inr (d, Some w) \<Rightarrow> (with_watches d s, Moved 303 ''/watchlist''))"

definition watchlist_delete :: "request \<Rightarrow> int \<Rightarrow> handler" where
  "watchlist_delete q i = onboarded q (\<lambda>s.
     (with_watches (fst (delete_watchlist_item i (caller q) (sv_watch (tables s)))) s, Moved 303 ''/watchlist''))"

definition watchlist_history_json :: "request \<Rightarrow> int \<Rightarrow> handler" where
  "watchlist_history_json q i = onboarded q (\<lambda>s. (s,
     if get_watchlist_item i (caller q) (sv_watch (tables s)) = None then Refused 404 ''Item not found''
     else Json 200 (JDict [(''changes'', JList (map (page_change q) (get_score_history i (caller q) 20 (sv_watch (tables s)))))])))"

definition watchlist_badge :: "request option \<Rightarrow> handler" where
  "watchlist_badge viewer s = (s, Json 200 (JDict [(''count'', JInt (case viewer of None \<Rightarrow> 0
     | Some q \<Rightarrow> count_significant_changes (request_time q) (caller q) 7 (sv_watch (tables s))))]))"

section \<open>The materials pages\<close>

text \<open>
  The files an organization uploads, on the tables of the materials service; \<open>enabled\<close> is the
  setting, with which the service always exists. Beside the answer stand the materials whose
  processing is left to run in the background, with the contents to process.
\<close>

type_synonym 'e material_route =
  "accounts \<Rightarrow> 'e material_db \<Rightarrow> 'e material_db \<times> answer \<times> (material \<times> string) list"

definition material_states :: "material_status \<Rightarrow> string" where
  "material_states st = (case st of MatPending \<Rightarrow> ''pending'' | MatProcessing \<Rightarrow> ''processing''
     | MatReady \<Rightarrow> ''ready'' | MatFailed \<Rightarrow> ''failed'')"

definition material_entries :: "request \<Rightarrow> material \<Rightarrow> (string \<times> json) list" where
  "material_entries q m = [(''id'', JInt (ma_id m)), (''filename'', JStr (ma_filename m)),
     (''file_type'', JStr (ma_ftype m)), (''file_size'', JInt (ma_bytes m)), (''material_type'', JStr (ma_kind m)),
     (''status'', JStr (material_states (ma_status m))), (''chunk_count'', JInt (ma_chunks m)),
     (''error_message'', jopt JStr (ma_error m)), (''created_at'', jtime q (ma_created m))]"

text \<open>The row that a new upload answers with is the whole row.\<close>

definition uploaded_entries :: "request \<Rightarrow> material \<Rightarrow> (string \<times> json) list" where
  "uploaded_entries q m = material_entries q m @ [(''user_id'', JInt (ma_user m)), (''org_id'', jopt JInt (ma_org m)),
     (''storage_key'', JStr (ma_key m)), (''updated_at'', jtime q (ma_updated m))]"

definition materials_page :: "request \<Rightarrow> bool \<Rightarrow> 'e material_db \<Rightarrow> handler" where
  "materials_page q enabled d s = (if \<not> enabled then (s, Refused 404 ''Materials feature not enabled'')
     else case page_usage q s of
       (s1, None) \<Rightarrow> (s1, crashed)
     | (s1, Some u) \<Rightarrow> (s1, Page ''materials.html'' [
         (''materials'', JList (map (\<lambda>m. JDict (material_entries q m))
            (get_user_materials (caller q) (sv_accounts (tables s)) d))),
         (''credits_cents'', JInt (ug_credits u)), (''is_admin'', JBool (ug_is_admin u))]))"

definition unavailable :: answer where
  "unavailable = declined 200 ''Materials feature not enabled''"

definition upload_material_route ::
    "request \<Rightarrow> bool \<Rightarrow> string \<Rightarrow> bool \<Rightarrow> string \<Rightarrow> string \<Rightarrow> string \<Rightarrow> 'e material_route" where
  "upload_material_route q enabled uuid stored bytes filename kind a d =
     (if \<not> enabled then (d, unavailable, [])
      else case upload_material (request_time q) uuid stored (caller q) bytes filename kind a d of
        (d', Inl (InvalidFile e)) \<Rightarrow> (d', declined 200 e, [])
      | (d', Inl Crashed) \<Rightarrow> (d', declined 200 ''Upload failed. Please try again.'', [])
      | (d', Inr m) \<Rightarrow> (d', succeeded [(''material'', JDict (uploaded_entries q m))], [(m, bytes)]))"

definition delete_material_route :: "request \<Rightarrow> bool \<Rightarrow> bool \<Rightarrow> int \<Rightarrow> 'e material_route" where
  "delete_material_route q enabled stored i a d =
     (if \<not> enabled then (d, unavailable, [])
      else case Materials.delete_material stored i (caller q) a d of
        (d', deleted) \<Rightarrow> (d', Json 200 (JDict [(''success'', JBool deleted)]), []))"

text \<open>The preview is the one route that does not ask whether materials are enabled.\<close>

definition preview_material_route :: "request \<Rightarrow> int \<Rightarrow> 'e material_route" where
  "preview_material_route q i a d = (d, case preview_material i (caller q) a d of
       None \<Rightarrow> Refused 404 ''Material not found''
     | Some content \<Rightarrow> Json 200 (JDict [(''content'', JStr content)]), [])"

text \<open>The exception of a download is not caught by the page: the chunks are gone by then.\<close>

definition reprocess_material_route :: "request \<Rightarrow> bool \<Rightarrow> bool \<Rightarrow> int \<Rightarrow> 'e material_route" where
  "reprocess_material_route q enabled reachable i a d =
     (if \<not> enabled then (d, unavailable, [])
      else case reprocess_material reachable i (caller q) a d of
        (d', NoMaterial) \<Rightarrow> (d', Json 200 (JDict [(''success'', JBool False)]), [])
      | (d', DownloadFailed) \<Rightarrow> (d', crashed, [])
      | (d', Started m bytes) \<Rightarrow> (d', Json 200 (JDict [(''success'', JBool True)]), [(m, bytes)]))"

definition api_list_materials :: "request \<Rightarrow> bool \<Rightarrow> 'e material_route" where
  "api_list_materials q enabled a d = (d, Json 200 (JDict (
     if \<not> enabled then [(''materials'', JList []), (''enabled'', JBool False)]
     else [(''materials'', JList (map (\<lambda>m. JDict (material_entries q m)) (get_user_materials (caller q) a d))),
           (''enabled'', JBool True)])), [])"

text \<open>
  No page changes the materials of another organization, nor the chunks of any other material than
  the one it names; and only a material of the organization of the caller is processed afterwards.
\<close>

definition others_materials :: "accounts \<Rightarrow> int \<Rightarrow> 'e material_db \<Rightarrow> material list" where
  "others_materials a uid d = filter (\<lambda>m. ma_org m \<noteq> org_of_user a uid) (mt_rows d)"

lemma get_material_of_org:
  "get_material i uid a d = Some m \<Longrightarrow> ma_id m = i \<and> same_org a uid (ma_org m) \<and> m \<in> set (mt_rows d)"
  by (auto simp: get_material_def dest: find_Some_mem)

lemma upload_keeps_others:
  assumes "upload_material_route q enabled uuid stored bytes filename kind a d = (d', ans, jobs)"
  shows "others_materials a (caller q) d' = others_materials a (caller q) d \<and> mt_chunks d' = mt_chunks d \<and>
    (\<forall>(m, b) \<in> set jobs. ma_org m = org_of_user a (caller q) \<and> m \<in> set (mt_rows d'))"
  using assms unfolding upload_material_route_def
  by (auto simp: upload_material_def create_material_def Let_def others_materials_def
    split: if_splits option.splits upload_error.splits)

lemma delete_keeps_others:
  assumes "delete_material_route q enabled stored i a d = (d', ans, jobs)"
  shows "others_materials a (caller q) d' = others_materials a (caller q) d \<and>
    filter (\<lambda>c. ch_material c \<noteq> i) (mt_chunks d') = filter (\<lambda>c. ch_material c \<noteq> i) (mt_chunks d) \<and> jobs = []"
proof -
  have "filter (\<lambda>m. ma_org m \<noteq> org_of_user a uid)
      (filter (\<lambda>r. \<not> (ma_id r = i \<and> same_org a uid (ma_org r))) rows) =
    filter (\<lambda>m. ma_org m \<noteq> org_of_user a uid) rows" for uid rows
    by (auto simp: same_org_def intro: filter_cong)
  then show ?thesis using assms
    by (auto simp: delete_material_route_def Materials.delete_material_def delete_row_def others_materials_def
      split: if_splits option.splits)
qed

lemma reprocess_keeps_others:
  assumes "reprocess_material_route q enabled reachable i a d = (d', ans, jobs)"
  shows "others_materials a (caller q) d' = others_materials a (caller q) d \<and>
    filter (\<lambda>c. ch_material c \<noteq> i) (mt_chunks d') = filter (\<lambda>c. ch_material c \<noteq> i) (mt_chunks d) \<and>
    (\<forall>(m, b) \<in> set jobs. same_org a (caller q) (ma_org m) \<and> m \<in> set (mt_rows d'))"
  using assms
  by (auto simp: reprocess_material_route_def reprocess_material_def delete_chunks_def others_materials_def
    dest: get_material_of_org split: if_splits option.splits reprocess_result.splits)

text \<open>When the store is out of reach, reprocessing a ready material empties it and answers with an error.\<close>

lemma failed_reprocess_page:
  assumes "get_material i (caller q) a d = Some m"
  shows "reprocess_material_route q True False i a d = (delete_chunks i d, crashed, []) \<and>
    get_material i (caller q) a (delete_chunks i d) = Some m \<and>
    get_material_preview i (caller q) 5 (delete_chunks i d) = []"
  using assms by (simp add: reprocess_material_route_def reprocess_material_def delete_chunks_def get_material_def
    get_material_preview_def conj_commute)

section \<open>What the forms keep\<close>

text \<open>
  C18: the settings page ticks what was saved: sizes, verticals that are still offered, levels and
  functions all read back from the stored strings.
\<close>

theorem settings_read_back:
  assumes "\<forall>x \<in> set (fo_sizes fo). plain_label x" "set (fo_industries fo) \<subseteq> set buyer_verticals"
    "distinct (fo_industries fo)" "\<forall>x \<in> set (fo_levels fo). plain_label x"
    "\<forall>x \<in> set (fo_functions fo). plain_label x" "py_strip (fo_personas fo) = []"
  shows "settings_selection (form_profile fo name old) = (fo_sizes fo, fo_industries fo, fo_levels fo, fo_functions fo)"
proof -
  have k: "kept_parts '', '' (py_join '', '' xs) = xs" if "\<forall>x \<in> set xs. plain_label x" for xs
    using kept_parts_join [OF that] by (cases "xs = []") (simp_all add: kept_parts_def py_split_def py_strip_def)
  have v: "\<forall>x \<in> set buyer_verticals. plain_label x"
    by (simp add: buyer_verticals_def plain_label_def py_strip_def is_space_def)
  then have i: "\<forall>x \<in> set (fo_industries fo). plain_label x" using assms(2) by blast
  have "map py_strip (fo_industries fo) = fo_industries fo" "filter (\<lambda>x. x \<noteq> []) (fo_industries fo) = fo_industries fo"
    using i by (auto simp: plain_label_def intro: map_idI filter_True)
  moreover have "map map_vertical (fo_industries fo) = fo_industries fo"
    using assms(2) by (intro map_idI) (auto simp: map_vertical_def)
  ultimately have "normalize_verticals (fo_industries fo) = fo_industries fo"
    using assms(3) by (simp add: normalize_verticals_def dedup_id)
  moreover have "parse_personas_string (personas_string (fo_personas fo) (fo_levels fo) (fo_functions fo)) =
      (fo_levels fo, fo_functions fo)"
    using personas_back [OF assms(4,5,6)] .
  ultimately show ?thesis by (simp add: settings_selection_def form_profile_def k assms(1) i)
qed

lemma user_of_update_user_where:
  assumes "\<And>u. us_id (f u) = us_id u"
  shows "user_of (update_user_where uid f a) i = map_option (\<lambda>u. if us_id u = uid then f u else u) (user_of a i)"
  using assms by (simp add: user_of_def update_user_where_def find_update_where)

lemma user_of_invalidate [simp]: "user_of (invalidate_user_cache uid a) i = user_of a i"
  by (simp add: user_of_def invalidate_user_cache_def)

lemma profile_task_dispatches:
  "parse_call ''seller_profile_enrichment'' (profile_task q website) = Some (CallProfile (caller q) website)"
  by (simp add: parse_call_def profile_task_def arg_int_def arg_str_def only_keys_def)

text \<open>
  C37: onboarding opens the site: when it succeeds, the stored user has a product context, so that
  \<open>require_onboarding\<close> lets the user pass from then on, and exactly one task was enqueued, one that
  the worker dispatches to the enrichment of this user's profile.
\<close>

theorem onboarding_opens_site:
  assumes "complete_onboarding q fo s = (s', Moved 302 ''/'')"
  shows "(\<exists>u. user_of (sv_accounts (tables s')) (caller q) = Some u \<and> us_context u \<noteq> []) \<and>
    (\<exists>p. sv_queue (tables s') = fst (enqueue (request_time q) ''seller_profile_enrichment'' p (sv_queue (tables s))) \<and>
      parse_call ''seller_profile_enrichment'' p = Some (CallProfile (caller q) (normalize_url (fo_website fo))))"
proof -
  obtain s1 where s1: "store_profile q (fo\<lparr>fo_problems := []\<rparr>) empty_profile s = Some s1"
      "s' = refresh_profile q (normalize_url (fo_website fo)) s1"
    using assms by (auto simp: complete_onboarding_def crashed_def split: option.splits)
  then obtain name a u where a: "update_user_profile (caller q) (form_profile (fo\<lparr>fo_problems := []\<rparr>) name empty_profile)
      (sv_accounts (tables s)) = Inr (a, u)" "s1 = on_tables (\<lambda>v. v\<lparr>sv_accounts := a\<rparr>) s"
    by (auto simp: store_profile_def split: option.splits sum.splits)
  have u: "user_of a (caller q) = Some u" "us_context u \<noteq> []"
    using a(1) build_product_context_nonempty
    by (auto simp: update_user_profile_def Let_def user_of_update_user_where split: option.splits if_splits)
      (auto simp: user_of_def dest: find_Some_mem)
  have "\<exists>u. user_of (sv_accounts (tables s')) (caller q) = Some u \<and> us_context u \<noteq> []"
    using u by (simp add: s1(2) refresh_profile_def a(2) clear_seller_profile_def user_of_update_user_where)
  moreover have "sv_queue (tables s') = fst (enqueue (request_time q) ''seller_profile_enrichment''
      (profile_task q (normalize_url (fo_website fo))) (sv_queue (tables s)))"
    by (simp add: s1(2) refresh_profile_def a(2))
  ultimately show ?thesis using profile_task_dispatches by blast
qed

section \<open>Witnesses\<close>

definition sample_form :: settings_form where
  "sample_form = \<lparr>fo_name = ''Lifts'', fo_website = ''lifts.com'', fo_problems = [], fo_sizes = [''51-200''],
     fo_industries = [''Construction'', ''Manufacturing''], fo_personas = [], fo_levels = [''VP''],
     fo_functions = [''Operations''], fo_signals = [], fo_type = ''saas'', fo_motion = ''horizontal'', fo_category = []\<rparr>"

theorem settings_read_back_witness:
  "settings_selection (form_profile sample_form ''Lifts'' empty_profile) =
     ([''51-200''], [''Construction'', ''Manufacturing''], [''VP''], [''Operations''])"
  using settings_read_back [of sample_form "''Lifts''" empty_profile]
  by (simp add: sample_form_def plain_label_def py_strip_def is_space_def buyer_verticals_def)

theorem onboarding_opens_site_witness:
  "\<exists>s' u. complete_onboarding page_request sample_form (site_with no_lists) = (s', Moved 302 ''/'') \<and>
     user_of (sv_accounts (tables s')) 1 = Some u \<and> us_context u \<noteq> []"
proof -
  let ?s = "site_with no_lists"
  have n: "resolved_name (sample_form\<lparr>fo_problems := []\<rparr>) = Some ''Lifts''"
    by (simp add: resolved_name_def sample_form_def py_strip_def is_space_def)
  have "user_of office 1 = Some office_user"
    by (simp add: user_of_def office_def office_user_def new_user_def)
  then have "\<exists>a u. update_user_profile 1 p office = Inr (a, u)" for p
    by (simp add: update_user_profile_def Let_def user_of_update_user_where)
  then obtain a u where "update_user_profile 1 (form_profile (sample_form\<lparr>fo_problems := []\<rparr>) ''Lifts'' empty_profile) office = Inr (a, u)"
    by blast
  then have "\<exists>s1. store_profile page_request (sample_form\<lparr>fo_problems := []\<rparr>) empty_profile ?s = Some s1"
    by (simp add: store_profile_def n)
  then obtain s' where c: "complete_onboarding page_request sample_form ?s = (s', Moved 302 ''/'')"
    by (auto simp: complete_onboarding_def)
  from onboarding_opens_site [OF this] this show ?thesis by auto
qed

end
