(* ===== verification/Billing.thy ===== *)
theory Billing
  imports Web_List_Properties Team Credits
begin

text \<open>
  Credit purchases (\<open>billing.py\<close>): the packs, the cached price of a pack, the checkout that carries the
  purchase in its metadata, and the webhook that fulfills it. Stripe is an argument: its products, the
  active price of a product, the prices and customers it creates, and the verdict on a signature.
\<close>

section \<open>Packs and prices\<close>

definition credit_tiers :: "(string \<times> int \<times> int) list" where
  "credit_tiers = [(''starter'', 10, 1000), (''growth'', 100, 5000), (''power'', 500, 10000)]"

text \<open>The product name contains a dash outside ASCII, here as its UTF-8 bytes.\<close>

definition product_name :: "int \<Rightarrow> string" where
  "product_name credits = ''Auggie Credits '' @ [CHR 0xE2, CHR 0x80, CHR 0x94] @ '' '' @ str_int credits @ '' pack''"

text \<open>
  \<open>sp_products\<close> are the identifiers and names of the first fifty products, \<open>sp_price\<close> the first active
  price of a product with its amount, \<open>sp_create\<close> the price of a newly created product.
\<close>

record stripe =
  sp_products :: "(string \<times> string) list"
  sp_price :: "string \<Rightarrow> (string \<times> int) option"
  sp_create :: "string \<Rightarrow> int \<Rightarrow> string"
  sp_customer :: string
  sp_checkout :: "string \<Rightarrow> string \<Rightarrow> (string \<times> string) list \<Rightarrow> string"

fun existing_price :: "stripe \<Rightarrow> string \<Rightarrow> (string \<times> string) list \<Rightarrow> string option" where
  "existing_price st name [] = None"
| "existing_price st name ((i, n) # ps) = (if n = name
     then (case sp_price st i of Some (p, amount) \<Rightarrow> Some p | None \<Rightarrow> existing_price st name ps)
     else existing_price st name ps)"

fun legacy_price :: "stripe \<Rightarrow> int \<Rightarrow> (string \<times> string) list \<Rightarrow> string option" where
  "legacy_price st cents [] = None"
| "legacy_price st cents ((i, n) # ps) = (if n = ''Auggie Credits''
     then (case sp_price st i of
         Some (p, amount) \<Rightarrow> if amount = cents then Some p else legacy_price st cents ps
       | None \<Rightarrow> legacy_price st cents ps)
     else legacy_price st cents ps)"

definition find_tier_price :: "stripe \<Rightarrow> string \<Rightarrow> int \<Rightarrow> int \<Rightarrow> string" where
  "find_tier_price st tier credits cents =
     (case existing_price st (product_name credits) (sp_products st) of
        Some p \<Rightarrow> p
      | None \<Rightarrow> (case (if tier = ''starter'' then legacy_price st cents (sp_products st) else None) of
          Some p \<Rightarrow> p | None \<Rightarrow> sp_create st (product_name credits) cents))"

text \<open>\<open>get_or_create_tier_price\<close> of a known tier, with the cache of the module\<close>

definition get_or_create_tier_price ::
    "stripe \<Rightarrow> string \<Rightarrow> int \<times> int \<Rightarrow> (string \<times> string) list \<Rightarrow> (string \<times> string) list \<times> string" where
  "get_or_create_tier_price st tier pack cache = (case map_of cache tier of
     Some p \<Rightarrow> (cache, p)
   | None \<Rightarrow> (let p = find_tier_price st tier (fst pack) (snd pack) in ((tier, p) # cache, p)))"

section \<open>Buying\<close>

definition org_id_text :: "int option \<Rightarrow> string" where
  "org_id_text x = (case x of None \<Rightarrow> ''None'' | Some i \<Rightarrow> str_int i)"

definition checkout_metadata :: "request \<Rightarrow> int \<Rightarrow> (string \<times> string) list" where
  "checkout_metadata q credits = [(''user_id'', str_int (caller q)),
     (''org_id'', org_id_text (us_org (vw_user (rq_user q)))), (''credits'', str_int credits)]"

text \<open>The customer of the organization, created when it has none; the updates raise on a violation.\<close>

definition stripe_customer :: "request \<Rightarrow> stripe \<Rightarrow> site \<Rightarrow> site \<times> string option" where
  "stripe_customer q st s = (case vw_org_stripe (rq_user q) of
     Some c \<Rightarrow> (s, Some c)
   | None \<Rightarrow>
       (let c = sp_customer st; org = us_org (vw_user (rq_user q)); a = sv_accounts (tables s) in
        case (case org of None \<Rightarrow> Inr a | Some i \<Rightarrow> update_org_stripe i c a) of
          Inl e \<Rightarrow> (s, None)
        | Inr a1 \<Rightarrow> (case update_user_stripe (caller q) c None ''none'' a1 of
            Inl e \<Rightarrow> (on_tables (\<lambda>v. v\<lparr>sv_accounts := a1\<rparr>) s, None)
          | Inr (a2, u) \<Rightarrow> (on_tables (\<lambda>v. v\<lparr>sv_accounts := a2\<rparr>) s, Some c))))"

definition buy_credits ::
    "request \<Rightarrow> stripe \<Rightarrow> string option \<Rightarrow> (string \<times> string) list \<Rightarrow> site \<Rightarrow> (string \<times> string) list \<times> site \<times> answer" where
  "buy_credits q st tier cache s =
     (if vw_role (rq_user q) \<noteq> Some Admin then (cache, s, Refused 403 ''Only team admins can purchase credits. Ask your admin to buy credits or change your role.'')
      else if tier \<in> {None, Some []} then
        (case page_usage q s of
           (s1, None) \<Rightarrow> (cache, s1, crashed)
         | (s1, Some u) \<Rightarrow> (cache, s1, Page ''buy_credits.html'' [(''credits_cents'', JInt (ug_credits u))]))
      else (case map_of credit_tiers (the tier) of
        None \<Rightarrow> (cache, s, Refused 400 ''Invalid tier. Choose from: starter, growth, power'')
      | Some pack \<Rightarrow> (case get_or_create_tier_price st (the tier) pack cache of
          (cache1, price) \<Rightarrow> (case stripe_customer q st s of
            (s1, None) \<Rightarrow> (cache1, s1, crashed)
          | (s1, Some c) \<Rightarrow> (cache1, s1, Moved 303 (sp_checkout st c price (checkout_metadata q (fst pack))))))))"

definition credits_success :: answer where
  "credits_success = Moved 302 ''/?payment=success''"

section \<open>The webhook\<close>

record checkout_session =
  cs_id :: string
  cs_mode :: string
  cs_paid :: string
  cs_metadata :: "(string \<times> string) list"

datatype stripe_event = StripeEvent string checkout_session

datatype verdict = Genuine stripe_event | BadPayload | BadSignature

text \<open>
  \<open>secret\<close> says that a real webhook secret is configured; on a developer's machine the payload is
  parsed without verification (\<open>parse\<close>, nothing when it raises).
\<close>

definition received_event :: "bool \<Rightarrow> bool \<Rightarrow> verdict \<Rightarrow> stripe_event option \<Rightarrow> answer + stripe_event" where
  "received_event secret local verified parse =
     (if secret then (case verified of
        Genuine e \<Rightarrow> Inr e
      | BadPayload \<Rightarrow> Inl (Refused 400 ''Invalid payload'')
      | BadSignature \<Rightarrow> Inl (Refused 400 ''Invalid signature''))
      else if local then (case parse of None \<Rightarrow> Inl crashed | Some e \<Rightarrow> Inr e)
      else Inl (Refused 500 ''Webhook secret not configured''))"

definition webhook_done :: answer where
  "webhook_done = Json 200 (JDict [(''status'', JStr ''success'')])"

definition fulfill_checkout :: "bool \<Rightarrow> checkout_session \<Rightarrow> handler" where
  "fulfill_checkout ledger_ok c s =
     (case (case map_of (cs_metadata c) ''credits'' of None \<Rightarrow> Some 10 | Some t \<Rightarrow> py_int t,
        case map_of (cs_metadata c) ''user_id'' of None \<Rightarrow> None | Some t \<Rightarrow> py_int t) of
        (Some credits, Some uid) \<Rightarrow>
          (case fulfill_session ledger_ok (cs_id c) uid credits (sv_accounts (tables s)) of
             Inl e \<Rightarrow> (s, crashed)
           | Inr (a, added) \<Rightarrow> (on_tables (\<lambda>v. v\<lparr>sv_accounts := a\<rparr>) s, webhook_done))
      | _ \<Rightarrow> (s, crashed))"

definition handle_event :: "bool \<Rightarrow> stripe_event \<Rightarrow> handler" where
  "handle_event ledger_ok e s = (case e of StripeEvent ty c \<Rightarrow>
     if ty = ''checkout.session.completed'' \<and> cs_mode c = ''payment'' \<and> cs_paid c = ''paid''
     then fulfill_checkout ledger_ok c s else (s, webhook_done))"

definition stripe_webhook ::
    "bool \<Rightarrow> bool \<Rightarrow> bool \<Rightarrow> verdict \<Rightarrow> stripe_event option \<Rightarrow> handler" where
  "stripe_webhook secret local ledger_ok verified parse s =
     (case received_event secret local verified parse of
        Inl e \<Rightarrow> (s, e) | Inr e \<Rightarrow> handle_event ledger_ok e s)"

section \<open>Revenue\<close>

text \<open>\<open>get_revenue_stats\<close> without the months: credits sold, and dollars at one dollar a credit\<close>

definition get_revenue_stats :: "accounts \<Rightarrow> int \<times> int" where
  "get_revenue_stats a = (let n = sum_list (map fs_credits (ac_sessions a)) in (n, n * 1))"

section \<open>What a purchase adds\<close>

text \<open>
  C6: a purchase adds its credits exactly once: the webhook for the session of a checkout reads back the
  buyer and the pack from the metadata, adds 100 cents a credit to the buyer's organization, and any
  later delivery for the session changes no balance.
\<close>

theorem purchase_fulfilled_once:
  assumes "map_of credit_tiers tier = Some (credits, cents)" "cs_metadata c = checkout_metadata q credits"
    "user_of (sv_accounts (tables s)) (caller q) \<noteq> None" "\<forall>f \<in> set (ac_sessions (sv_accounts (tables s))). fs_session f \<noteq> cs_id c"
    "org_of_user (sv_accounts (tables s)) (caller q) = Some oid" "balance_of (sv_accounts (tables s)) oid = Some b"
    "cs_mode c = ''payment''" "cs_paid c = ''paid''"
  shows "\<exists>s'. stripe_webhook True local ok (Genuine (StripeEvent ''checkout.session.completed'' c)) parse s = (s', webhook_done) \<and>
    balance_of (sv_accounts (tables s')) = (balance_of (sv_accounts (tables s)))(oid \<mapsto> b + credits * 100) \<and>
    (\<forall>ok' c'. cs_id c' = cs_id c \<longrightarrow>
      balance_of (sv_accounts (tables (fst (stripe_webhook True local ok' (Genuine (StripeEvent ''checkout.session.completed'' c')) parse s'))))
        = balance_of (sv_accounts (tables s')))"
proof -
  define a where "a = sv_accounts (tables s)"
  obtain a1 where a1: "fulfill_session ok (cs_id c) (caller q) credits a = Inr (a1, True)"
      "balance_of a1 = (balance_of a)(oid \<mapsto> b + credits * 100)"
      "fs_session ` set (ac_sessions a1) = insert (cs_id c) (fs_session ` set (ac_sessions a))"
    using fulfill_session_credits_org [of a "caller q" "cs_id c" ok credits] assms(3-6) by (auto simp: a_def [symmetric])
  then have "\<exists>f \<in> set (ac_sessions a1). fs_session f = cs_id c" by (metis imageE insertI1)
  note f = a1(1,2) this
  define s' where "s' = on_tables (\<lambda>v. v\<lparr>sv_accounts := a1\<rparr>) s"
  have m: "map_of (cs_metadata c) ''credits'' = Some (str_int credits)" "map_of (cs_metadata c) ''user_id'' = Some (str_int (caller q))"
    by (simp_all add: assms(2) checkout_metadata_def)
  have w: "stripe_webhook True local ok' (Genuine (StripeEvent ''checkout.session.completed'' c')) parse x =
      handle_event ok' (StripeEvent ''checkout.session.completed'' c') x" for ok' c' x
    by (simp add: stripe_webhook_def received_event_def)
  have first: "handle_event ok (StripeEvent ''checkout.session.completed'' c) s = (s', webhook_done)"
    using assms(7,8) f(1) by (simp add: handle_event_def fulfill_checkout_def m s'_def a_def)
  have again: "balance_of (sv_accounts (tables (fst (handle_event ok' (StripeEvent ''checkout.session.completed'' c') s')))) =
      balance_of a1" if "cs_id c' = cs_id c" for ok' c'
    using f(3) that by (auto simp: handle_event_def fulfill_checkout_def fulfill_session_def s'_def split: option.split)
  show ?thesis
    by (intro exI [of _ s'] conjI allI impI) (use first f(2) again in \<open>simp_all add: w s'_def a_def\<close>)
qed

text \<open>
  the revenue of the dashboard counts a dollar a credit: the largest pack, sold for 100 dollars,
  counts as 500.
\<close>

theorem revenue_overstated:
  assumes "fulfill_session ok session uid 500 a = Inr (a', True)"
  shows "map_of credit_tiers ''power'' = Some (500, 100 * 100) \<and>
    snd (get_revenue_stats a') = snd (get_revenue_stats a) + 500"
proof -
  have "map fs_credits (ac_sessions a') = map fs_credits (ac_sessions a) @ [500]"
    using assms by (auto simp: fulfill_session_def Let_def record_credit_event_def add_to_org_def
      split: if_splits option.splits)
  then show ?thesis by (simp add: get_revenue_stats_def Let_def credit_tiers_def)
qed

theorem revenue_overstated_witness:
  "\<exists>a'. fulfill_session True ''cs_1'' 1 500 office = Inr (a', True) \<and> snd (get_revenue_stats a') = 500"
proof -
  have "user_of office 1 \<noteq> None" by (simp add: office_def user_of_def new_user_def)
  then obtain a' where a': "fulfill_session True ''cs_1'' 1 500 office = Inr (a', True)"
    by (auto simp: fulfill_session_def Let_def)
  from revenue_overstated [OF this] this show ?thesis by (simp add: get_revenue_stats_def)
qed

definition sample_checkout :: checkout_session where
  "sample_checkout = \<lparr>cs_id = ''cs_7'', cs_mode = ''payment'', cs_paid = ''paid'', cs_metadata = checkout_metadata page_request 100\<rparr>"

theorem purchase_fulfilled_once_witness:
  "\<exists>s'. stripe_webhook True False True (Genuine (StripeEvent ''checkout.session.completed'' sample_checkout)) None (site_with no_lists) =
      (s', webhook_done) \<and> balance_of (sv_accounts (tables s')) 1 = Some 10250"
proof -
  have u: "user_of office 1 \<noteq> None" by (simp add: office_def user_of_def new_user_def)
  show ?thesis
    using purchase_fulfilled_once [of "''growth''" 100 5000 sample_checkout page_request "site_with no_lists" 1 250 False True None] u
    by (auto simp: credit_tiers_def sample_checkout_def)
qed

end
