(* ===== verification/Sdk_Methods.thy ===== *)
theory Sdk_Methods
  imports Api_Router Sdk_Client
begin

text \<open>
  The methods of both clients of the SDK (\<open>sdk/auggie/__init__.py\<close>) as the HTTP calls they make, the
  table of routes that the server registers (the decorators of \<open>api/routes.py\<close> and
  \<open>api/webhooks.py\<close>), and which endpoint, with which arguments, a call reaches.
\<close>

section \<open>Calls\<close>

text \<open>A query parameter is a number or a string; a call without parameters or body has \<open>None\<close>.\<close>

datatype param = ParInt int | ParStr string

record sdk_call =
  cl_method :: string
  cl_path :: string
  cl_params :: "(string \<times> param) list option"
  cl_body :: "json option"
  cl_timeout :: "time option"

definition plain_call :: "string \<Rightarrow> string \<Rightarrow> sdk_call" where
  "plain_call verb path = \<lparr>cl_method = verb, cl_path = path, cl_params = None, cl_body = None, cl_timeout = None\<rparr>"

definition query_call :: "string \<Rightarrow> (string \<times> param) list \<Rightarrow> sdk_call" where
  "query_call path ps = (plain_call ''GET'' path)\<lparr>cl_params := Some ps\<rparr>"

definition body_call :: "string \<Rightarrow> string \<Rightarrow> (string \<times> json) list \<Rightarrow> sdk_call" where
  "body_call verb path d = (plain_call verb path)\<lparr>cl_body := Some (JDict d)\<rparr>"

definition optional :: "string \<Rightarrow> ('a \<Rightarrow> 'b) \<Rightarrow> 'a option \<Rightarrow> (string \<times> 'b) list" where
  "optional k f x = (case x of None \<Rightarrow> [] | Some v \<Rightarrow> [(k, f v)])"

definition jstrings :: "string list \<Rightarrow> json" where
  "jstrings xs = JList (map JStr xs)"

definition page_params :: "int \<Rightarrow> string option \<Rightarrow> (string \<times> param) list" where
  "page_params limit cursor = (''limit'', ParInt limit) # optional ''starting_after'' ParStr cursor"

section \<open>The methods of the synchronous client\<close>

datatype account_method = Ping | GetAccountInfo

datatype research_method = Research string | GetResearchJob int | ListResearchJobs int "string option"
  | Enrich int "string list option" | ClayEnrich string | CreateSequence int

datatype bulk_method = BulkResearch "string list" "string option" | GetBulkJob int | ListBulkJobs int "string option"

datatype list_method = CreateList string "string list" bool | GetListDetails int "(string \<times> param) list"
  | ListAllLists int "string option" | AnalyzeList int | RemoveList int | PushList int string "int list option"

datatype hook_method = RegisterWebhook string "string list option" | GetWebhook | DeleteWebhook

datatype team_method = ListTeam | InviteMember string string | RemoveMember int | ChangeMemberRole int string

datatype watch_method = AddToWatchlist string "string option" string | ListWatchlist int "string option"
  | UpdateWatchlist int "string option" "string option" | RemoveFromWatchlist int | GetWatchlistHistory int

fun account_call :: "account_method \<Rightarrow> sdk_call" where
  "account_call Ping = plain_call ''GET'' ''/v1/ping''"
| "account_call GetAccountInfo = plain_call ''GET'' ''/v1/account''"

fun research_call :: "research_method \<Rightarrow> sdk_call" where
  "research_call (Research url) = body_call ''POST'' ''/v1/research'' [(''company_url'', JStr url)]"
| "research_call (GetResearchJob i) = plain_call ''GET'' (''/v1/research/'' @ str_int i)"
| "research_call (ListResearchJobs limit c) = query_call ''/v1/research'' (page_params limit c)"
| "research_call (Enrich doc titles) =
     body_call ''POST'' ''/v1/enrich'' ((''document_id'', JInt doc) # optional ''titles'' jstrings titles)"
| "research_call (ClayEnrich url) =
     (body_call ''POST'' ''/v1/clay/enrich'' [(''company_url'', JStr url)])\<lparr>cl_timeout := Some (seconds 130)\<rparr>"
| "research_call (CreateSequence doc) = plain_call ''POST'' (''/v1/research/'' @ str_int doc @ ''/sequence'')"

fun bulk_call :: "bulk_method \<Rightarrow> sdk_call" where
  "bulk_call (BulkResearch urls name) =
     body_call ''POST'' ''/v1/research/bulk'' ((''company_urls'', jstrings urls) # optional ''name'' JStr name)"
| "bulk_call (GetBulkJob i) = plain_call ''GET'' (''/v1/research/bulk/'' @ str_int i)"
| "bulk_call (ListBulkJobs limit c) = query_call ''/v1/research/bulk'' (page_params limit c)"

fun list_call :: "list_method \<Rightarrow> sdk_call" where
  "list_call (CreateList name urls analyze) = body_call ''POST'' ''/v1/lists''
     [(''name'', JStr name), (''company_urls'', jstrings urls), (''analyze'', JBool analyze)]"
| "list_call (GetListDetails i ps) = (plain_call ''GET'' (''/v1/lists/'' @ str_int i))
     \<lparr>cl_params := (if ps = [] then None else Some ps)\<rparr>"
| "list_call (ListAllLists limit c) = query_call ''/v1/lists'' (page_params limit c)"
| "list_call (AnalyzeList i) = plain_call ''POST'' (''/v1/lists/'' @ str_int i @ ''/analyze'')"
| "list_call (RemoveList i) = plain_call ''DELETE'' (''/v1/lists/'' @ str_int i)"
| "list_call (PushList i campaign accounts) = body_call ''POST'' (''/v1/lists/'' @ str_int i @ ''/push'')
     ((''campaign_id'', JStr campaign) # optional ''account_ids'' (\<lambda>is. JList (map JInt is)) accounts)"

fun hook_call :: "hook_method \<Rightarrow> sdk_call" where
  "hook_call (RegisterWebhook url events) =
     body_call ''POST'' ''/v1/webhooks/register'' ((''url'', JStr url) # optional ''event_types'' jstrings events)"
| "hook_call GetWebhook = plain_call ''GET'' ''/v1/webhooks''"
| "hook_call DeleteWebhook = plain_call ''DELETE'' ''/v1/webhooks''"

fun team_call :: "team_method \<Rightarrow> sdk_call" where
  "team_call ListTeam = plain_call ''GET'' ''/v1/team''"
| "team_call (InviteMember email r) = body_call ''POST'' ''/v1/team/invite'' [(''email'', JStr email), (''role'', JStr r)]"
| "team_call (RemoveMember i) = plain_call ''DELETE'' (''/v1/team/members/'' @ str_int i)"
| "team_call (ChangeMemberRole i r) = body_call ''PATCH'' (''/v1/team/members/'' @ str_int i) [(''role'', JStr r)]"

fun watch_call :: "watch_method \<Rightarrow> sdk_call" where
  "watch_call (AddToWatchlist url name schedule) = body_call ''POST'' ''/v1/watchlist''
     ([(''company_url'', JStr url), (''schedule'', JStr schedule)] @ optional ''company_name'' JStr name)"
| "watch_call (ListWatchlist limit c) = query_call ''/v1/watchlist'' (page_params limit c)"
| "watch_call (UpdateWatchlist i schedule status) = body_call ''PATCH'' (''/v1/watchlist/'' @ str_int i)
     (optional ''schedule'' JStr schedule @ optional ''status'' JStr status)"
| "watch_call (RemoveFromWatchlist i) = plain_call ''DELETE'' (''/v1/watchlist/'' @ str_int i)"
| "watch_call (GetWatchlistHistory i) = plain_call ''GET'' (''/v1/watchlist/'' @ str_int i @ ''/history'')"

datatype sdk_method = OnAccount account_method | OnResearch research_method | OnBulk bulk_method
  | OnLists list_method | OnWebhook hook_method | OnTeam team_method | OnWatchlist watch_method

fun sync_call :: "sdk_method \<Rightarrow> sdk_call" where
  "sync_call (OnAccount m) = account_call m"
| "sync_call (OnResearch m) = research_call m"
| "sync_call (OnBulk m) = bulk_call m"
| "sync_call (OnLists m) = list_call m"
| "sync_call (OnWebhook m) = hook_call m"
| "sync_call (OnTeam m) = team_call m"
| "sync_call (OnWatchlist m) = watch_call m"

section \<open>The methods of the asynchronous client\<close>

text \<open>Its code is written out a second time, and so it is here.\<close>

fun async_account_call :: "account_method \<Rightarrow> sdk_call" where
  "async_account_call Ping = plain_call ''GET'' ''/v1/ping''"
| "async_account_call GetAccountInfo = plain_call ''GET'' ''/v1/account''"

fun async_research_call :: "research_method \<Rightarrow> sdk_call" where
  "async_research_call (Research url) = body_call ''POST'' ''/v1/research'' [(''company_url'', JStr url)]"
| "async_research_call (GetResearchJob i) = plain_call ''GET'' (''/v1/research/'' @ str_int i)"
| "async_research_call (ListResearchJobs limit c) = query_call ''/v1/research'' (page_params limit c)"
| "async_research_call (Enrich doc titles) =
     body_call ''POST'' ''/v1/enrich'' ((''document_id'', JInt doc) # optional ''titles'' jstrings titles)"
| "async_research_call (ClayEnrich url) =
     (body_call ''POST'' ''/v1/clay/enrich'' [(''company_url'', JStr url)])\<lparr>cl_timeout := Some (seconds 130)\<rparr>"
| "async_research_call (CreateSequence doc) = plain_call ''POST'' (''/v1/research/'' @ str_int doc @ ''/sequence'')"

fun async_bulk_call :: "bulk_method \<Rightarrow> sdk_call" where
  "async_bulk_call (BulkResearch urls name) =
     body_call ''POST'' ''/v1/research/bulk'' ((''company_urls'', jstrings urls) # optional ''name'' JStr name)"
| "async_bulk_call (GetBulkJob i) = plain_call ''GET'' (''/v1/research/bulk/'' @ str_int i)"
| "async_bulk_call (ListBulkJobs limit c) = query_call ''/v1/research/bulk'' (page_params limit c)"

fun async_list_call :: "list_method \<Rightarrow> sdk_call" where
  "async_list_call (CreateList name urls analyze) = body_call ''POST'' ''/v1/lists''
     [(''name'', JStr name), (''company_urls'', jstrings urls), (''analyze'', JBool analyze)]"
| "async_list_call (GetListDetails i ps) = (plain_call ''GET'' (''/v1/lists/'' @ str_int i))
     \<lparr>cl_params := (if ps = [] then None else Some ps)\<rparr>"
| "async_list_call (ListAllLists limit c) = query_call ''/v1/lists'' (page_params limit c)"
| "async_list_call (AnalyzeList i) = plain_call ''POST'' (''/v1/lists/'' @ str_int i @ ''/analyze'')"
| "async_list_call (RemoveList i) = plain_call ''DELETE'' (''/v1/lists/'' @ str_int i)"
| "async_list_call (PushList i campaign accounts) = body_call ''POST'' (''/v1/lists/'' @ str_int i @ ''/push'')
     ((''campaign_id'', JStr campaign) # optional ''account_ids'' (\<lambda>is. JList (map JInt is)) accounts)"

fun async_hook_call :: "hook_method \<Rightarrow> sdk_call" where
  "async_hook_call (RegisterWebhook url events) =
     body_call ''POST'' ''/v1/webhooks/register'' ((''url'', JStr url) # optional ''event_types'' jstrings events)"
| "async_hook_call GetWebhook = plain_call ''GET'' ''/v1/webhooks''"
| "async_hook_call DeleteWebhook = plain_call ''DELETE'' ''/v1/webhooks''"

fun async_team_call :: "team_method \<Rightarrow> sdk_call" where
  "async_team_call ListTeam = plain_call ''GET'' ''/v1/team''"
| "async_team_call (InviteMember email r) = body_call ''POST'' ''/v1/team/invite'' [(''email'', JStr email), (''role'', JStr r)]"
| "async_team_call (RemoveMember i) = plain_call ''DELETE'' (''/v1/team/members/'' @ str_int i)"
| "async_team_call (ChangeMemberRole i r) = body_call ''PATCH'' (''/v1/team/members/'' @ str_int i) [(''role'', JStr r)]"

fun async_watch_call :: "watch_method \<Rightarrow> sdk_call" where
  "async_watch_call (AddToWatchlist url name schedule) = body_call ''POST'' ''/v1/watchlist''
     ([(''company_url'', JStr url), (''schedule'', JStr schedule)] @ optional ''company_name'' JStr name)"
| "async_watch_call (ListWatchlist limit c) = query_call ''/v1/watchlist'' (page_params limit c)"
| "async_watch_call (UpdateWatchlist i schedule status) = body_call ''PATCH'' (''/v1/watchlist/'' @ str_int i)
     (optional ''schedule'' JStr schedule @ optional ''status'' JStr status)"
| "async_watch_call (RemoveFromWatchlist i) = plain_call ''DELETE'' (''/v1/watchlist/'' @ str_int i)"
| "async_watch_call (GetWatchlistHistory i) = plain_call ''GET'' (''/v1/watchlist/'' @ str_int i @ ''/history'')"

fun async_call :: "sdk_method \<Rightarrow> sdk_call" where
  "async_call (OnAccount m) = async_account_call m"
| "async_call (OnResearch m) = async_research_call m"
| "async_call (OnBulk m) = async_bulk_call m"
| "async_call (OnLists m) = async_list_call m"
| "async_call (OnWebhook m) = async_hook_call m"
| "async_call (OnTeam m) = async_team_call m"
| "async_call (OnWatchlist m) = async_watch_call m"

section \<open>Parameters of an endpoint\<close>

text \<open>
  What the framework reads of a call for an endpoint's signature: \<open>None\<close> is the answer 422. A number in
  the query arrives as its digits.
\<close>

fun query_text :: "param \<Rightarrow> string" where
  "query_text (ParInt i) = str_int i"
| "query_text (ParStr s) = s"

definition params_of :: "sdk_call \<Rightarrow> (string \<times> param) list" where
  "params_of c = (case cl_params c of None \<Rightarrow> [] | Some ps \<Rightarrow> ps)"

definition int_query :: "int \<Rightarrow> int \<Rightarrow> string \<Rightarrow> sdk_call \<Rightarrow> int option option" where
  "int_query low high k c = (case map_of (params_of c) k of
     None \<Rightarrow> Some None
   | Some a \<Rightarrow> (case py_int (query_text a) of
       None \<Rightarrow> None | Some i \<Rightarrow> if low \<le> i \<and> i \<le> high then Some (Some i) else None))"

definition cursor_query :: "sdk_call \<Rightarrow> int option option" where
  "cursor_query c = (case map_of (params_of c) ''starting_after'' of
     None \<Rightarrow> Some None | Some a \<Rightarrow> map_option Some (py_int (query_text a)))"

definition limit_query :: "sdk_call \<Rightarrow> nat option" where
  "limit_query c = map_option (\<lambda>x. case x of None \<Rightarrow> 100 | Some i \<Rightarrow> nat i) (int_query 1 500 ''limit'' c)"

definition enum_query :: "string list \<Rightarrow> string \<Rightarrow> string \<Rightarrow> sdk_call \<Rightarrow> string option" where
  "enum_query values dflt k c = (case map_of (params_of c) k of
     None \<Rightarrow> Some dflt | Some a \<Rightarrow> if query_text a \<in> set values then Some (query_text a) else None)"

fun all_strings :: "json list \<Rightarrow> string list option" where
  "all_strings [] = Some []"
| "all_strings (j # js) = (case (j, all_strings js) of (JStr s, Some ss) \<Rightarrow> Some (s # ss) | _ \<Rightarrow> None)"

fun all_ints :: "json list \<Rightarrow> int list option" where
  "all_ints [] = Some []"
| "all_ints (j # js) = (case (j, all_ints js) of (JInt i, Some is) \<Rightarrow> Some (i # is) | _ \<Rightarrow> None)"

definition body_fields :: "sdk_call \<Rightarrow> (string \<times> json) list option" where
  "body_fields c = (case cl_body c of Some (JDict d) \<Rightarrow> Some d | _ \<Rightarrow> None)"

definition str_field :: "string option \<Rightarrow> string \<Rightarrow> (string \<times> json) list \<Rightarrow> string option" where
  "str_field dflt k d = (case map_of d k of None \<Rightarrow> dflt | Some (JStr s) \<Rightarrow> Some s | _ \<Rightarrow> None)"

definition opt_field :: "(json \<Rightarrow> 'a option) \<Rightarrow> string \<Rightarrow> (string \<times> json) list \<Rightarrow> 'a option option" where
  "opt_field f k d = (case map_of d k of
     None \<Rightarrow> Some None | Some JNull \<Rightarrow> Some None | Some j \<Rightarrow> map_option Some (f j))"

definition as_str :: "json \<Rightarrow> string option" where
  "as_str j = (case j of JStr s \<Rightarrow> Some s | _ \<Rightarrow> None)"

definition as_strs :: "json \<Rightarrow> string list option" where
  "as_strs j = (case j of JList js \<Rightarrow> all_strings js | _ \<Rightarrow> None)"

definition as_ints :: "json \<Rightarrow> int list option" where
  "as_ints j = (case j of JList js \<Rightarrow> all_ints js | _ \<Rightarrow> None)"

section \<open>The routes of the server\<close>

text \<open>
  What an endpoint needs beside the request: the configured services, the stored period of the usage
  and the URL type of the framework, which normalizes or rejects an address.
\<close>

record surroundings =
  sr_lead :: lead_service
  sr_slow :: bool
  sr_duration :: json
  sr_write :: "document \<Rightarrow> string + (int \<times> string \<times> string) list"
  sr_rank :: "string \<Rightarrow> int"
  sr_period :: "time option"
  sr_http_url :: "string \<Rightarrow> string option"

datatype target = Endpoint endpoint | TeamMembers | TeamInvite string string | TeamRemove int | TeamRole int string
  | HookRegister string "string list option" | HookInfo | HookRemove

text \<open>A path is matched segment by segment; a parameter matches any segment that is not empty.\<close>

datatype segment = Lit string | Par

fun match_pattern :: "segment list \<Rightarrow> string list \<Rightarrow> string list option" where
  "match_pattern [] [] = Some []"
| "match_pattern (Lit l # ps) (s # ss) = (if s = l then match_pattern ps ss else None)"
| "match_pattern (Par # ps) (s # ss) = (if s = [] then None else map_option ((#) s) (match_pattern ps ss))"
| "match_pattern _ _ = None"

type_synonym endpoint_signature = "string list \<Rightarrow> sdk_call \<Rightarrow> target option"

definition with_id :: "(int \<Rightarrow> sdk_call \<Rightarrow> target option) \<Rightarrow> endpoint_signature" where
  "with_id f xs c = (case xs of [x] \<Rightarrow> (case py_int x of None \<Rightarrow> None | Some i \<Rightarrow> f i c) | _ \<Rightarrow> None)"

definition with_page :: "(nat \<Rightarrow> int option \<Rightarrow> endpoint) \<Rightarrow> endpoint_signature" where
  "with_page f xs c = (case (limit_query c, cursor_query c) of
     (Some n, Some cursor) \<Rightarrow> Some (Endpoint (f n cursor)) | _ \<Rightarrow> None)"

definition with_body :: "((string \<times> json) list \<Rightarrow> target option) \<Rightarrow> sdk_call \<Rightarrow> target option" where
  "with_body f c = Option.bind (body_fields c) f"

definition sort_fields :: "string list" where
  "sort_fields = [''composite_score'', ''pain_score'', ''fit_score'', ''timing_score'', ''created_at'']"

definition bind_list :: "surroundings \<Rightarrow> int \<Rightarrow> sdk_call \<Rightarrow> target option" where
  "bind_list sr i c = (case (int_query 0 100 ''min_pain_score'' c, int_query 0 100 ''min_composite_score'' c) of
     (Some pain, Some composite) \<Rightarrow> (case (enum_query sort_fields ''composite_score'' ''sort_by'' c,
         enum_query [''asc'', ''desc''] ''desc'' ''order'' c, limit_query c) of
       (Some sort_by, Some order, Some n) \<Rightarrow> Some (Endpoint (GetList (sr_rank sr) i
         \<lparr>fl_min_pain = pain, fl_min_composite = composite, fl_status = None, fl_ids = None\<rparr> sort_by order n
         (map_option query_text (map_of (params_of c) ''starting_after''))))
     | _ \<Rightarrow> None)
   | _ \<Rightarrow> None)"

definition bind_url :: "(string \<Rightarrow> endpoint) \<Rightarrow> endpoint_signature" where
  "bind_url f xs = with_body (\<lambda>d. map_option (\<lambda>u. Endpoint (f u)) (str_field None ''company_url'' d))"

definition bind_enrich :: "surroundings \<Rightarrow> endpoint_signature" where
  "bind_enrich sr xs = with_body (\<lambda>d. case (map_of d ''document_id'', opt_field as_strs ''titles'' d) of
     (Some (JInt i), Some titles) \<Rightarrow> Some (Endpoint (PostEnrich (sr_lead sr) i titles)) | _ \<Rightarrow> None)"

definition bind_bulk :: endpoint_signature where
  "bind_bulk xs = with_body (\<lambda>d. case (Option.bind (map_of d ''company_urls'') as_strs, opt_field as_str ''name'' d) of
     (Some urls, Some name) \<Rightarrow> Some (Endpoint (PostBulk name urls)) | _ \<Rightarrow> None)"

definition bind_new_list :: endpoint_signature where
  "bind_new_list xs = with_body (\<lambda>d. case (str_field None ''name'' d, Option.bind (map_of d ''company_urls'') as_strs,
       map_of d ''analyze'') of
     (Some name, Some urls, None) \<Rightarrow> Some (Endpoint (PostList name False urls))
   | (Some name, Some urls, Some (JBool b)) \<Rightarrow> Some (Endpoint (PostList name b urls))
   | _ \<Rightarrow> None)"

definition bind_push :: "int \<Rightarrow> sdk_call \<Rightarrow> target option" where
  "bind_push i = with_body (\<lambda>d. case (str_field None ''campaign_id'' d, opt_field as_ints ''account_ids'' d) of
     (Some campaign, Some accounts) \<Rightarrow> Some (Endpoint (PostPush i)) | _ \<Rightarrow> None)"

definition bind_invite :: endpoint_signature where
  "bind_invite xs = with_body (\<lambda>d. case (str_field None ''email'' d, str_field (Some ''member'') ''role'' d) of
     (Some email, Some r) \<Rightarrow> Some (TeamInvite email r) | _ \<Rightarrow> None)"

definition bind_role :: "int \<Rightarrow> sdk_call \<Rightarrow> target option" where
  "bind_role i = with_body (\<lambda>d. map_option (TeamRole i) (str_field None ''role'' d))"

definition bind_watch :: endpoint_signature where
  "bind_watch xs = with_body (\<lambda>d. case (str_field None ''company_url'' d, opt_field as_str ''company_name'' d,
       str_field (Some ''biweekly'') ''schedule'' d) of
     (Some url, Some name, Some schedule) \<Rightarrow> Some (Endpoint (PostWatch url name schedule)) | _ \<Rightarrow> None)"

definition bind_watch_update :: "int \<Rightarrow> sdk_call \<Rightarrow> target option" where
  "bind_watch_update i = with_body (\<lambda>d. case (opt_field as_str ''schedule'' d, opt_field as_str ''status'' d) of
     (Some schedule, Some status) \<Rightarrow> Some (Endpoint (PatchWatch i schedule status)) | _ \<Rightarrow> None)"

definition bind_hook :: "surroundings \<Rightarrow> endpoint_signature" where
  "bind_hook sr xs = with_body (\<lambda>d. case (Option.bind (str_field None ''url'' d) (sr_http_url sr),
       opt_field as_strs ''event_types'' d) of
     (Some url, Some events) \<Rightarrow> Some (HookRegister url events) | _ \<Rightarrow> None)"

definition v1 :: "segment list \<Rightarrow> segment list" where
  "v1 ps = Lit [] # Lit ''v1'' # ps"

text \<open>The table, in the order of the declarations: \<open>/research/{job_id}\<close> precedes \<open>/research/bulk\<close>.\<close>

definition api_table :: "surroundings \<Rightarrow> (string \<times> segment list \<times> endpoint_signature) list" where
  "api_table sr = [
     (''GET'', v1 [Lit ''ping''], \<lambda>xs c. Some (Endpoint GetPing)),
     (''GET'', v1 [Lit ''account''], \<lambda>xs c. Some (Endpoint (GetAccount (sr_period sr)))),
     (''POST'', v1 [Lit ''research''], bind_url PostResearch),
     (''GET'', v1 [Lit ''research'', Par], with_id (\<lambda>i c. Some (Endpoint (GetResearch i)))),
     (''GET'', v1 [Lit ''research''], with_page ListResearch),
     (''POST'', v1 [Lit ''enrich''], bind_enrich sr),
     (''POST'', v1 [Lit ''clay'', Lit ''enrich''], bind_url (PostClay (sr_slow sr) (sr_duration sr))),
     (''POST'', v1 [Lit ''research'', Par, Lit ''sequence''], with_id (\<lambda>i c. Some (Endpoint (PostSequence (sr_write sr) i)))),
     (''POST'', v1 [Lit ''research'', Lit ''bulk''], bind_bulk),
     (''GET'', v1 [Lit ''research'', Lit ''bulk'', Par], with_id (\<lambda>i c. Some (Endpoint (GetBulk i)))),
     (''GET'', v1 [Lit ''research'', Lit ''bulk''], with_page ListBulk),
     (''POST'', v1 [Lit ''lists''], bind_new_list),
     (''POST'', v1 [Lit ''lists'', Par, Lit ''analyze''], with_id (\<lambda>i c. Some (Endpoint (PostAnalyze i)))),
     (''GET'', v1 [Lit ''lists'', Par], with_id (bind_list sr)),
     (''GET'', v1 [Lit ''lists''], with_page ListLists),
     (''DELETE'', v1 [Lit ''lists'', Par], with_id (\<lambda>i c. Some (Endpoint (DeleteList i)))),
     (''POST'', v1 [Lit ''lists'', Par, Lit ''push''], with_id bind_push),
     (''GET'', v1 [Lit ''team''], \<lambda>xs c. Some TeamMembers),
     (''POST'', v1 [Lit ''team'', Lit ''invite''], bind_invite),
     (''DELETE'', v1 [Lit ''team'', Lit ''members'', Par], with_id (\<lambda>i c. Some (TeamRemove i))),
     (''PATCH'', v1 [Lit ''team'', Lit ''members'', Par], with_id bind_role),
     (''POST'', v1 [Lit ''watchlist''], bind_watch),
     (''GET'', v1 [Lit ''watchlist''], with_page ListWatch),
     (''PATCH'', v1 [Lit ''watchlist'', Par], with_id bind_watch_update),
     (''DELETE'', v1 [Lit ''watchlist'', Par], with_id (\<lambda>i c. Some (Endpoint (DeleteWatch i)))),
     (''GET'', v1 [Lit ''watchlist'', Par, Lit ''history''], with_id (\<lambda>i c. Some (Endpoint (GetHistory i)))),
     (''POST'', v1 [Lit ''webhooks'', Lit ''register''], bind_hook sr),
     (''GET'', v1 [Lit ''webhooks''], \<lambda>xs c. Some HookInfo),
     (''DELETE'', v1 [Lit ''webhooks''], \<lambda>xs c. Some HookRemove)]"

text \<open>The first route whose method and path match gets the call; its parameters may then be refused.\<close>

datatype reached = Reached target | Unprocessable | NoRoute

fun first_route :: "(string \<times> segment list \<times> endpoint_signature) list \<Rightarrow> string \<Rightarrow> string list \<Rightarrow> sdk_call \<Rightarrow> reached" where
  "first_route [] verb path c = NoRoute"
| "first_route ((m, p, b) # rs) verb path c = (if m = verb
     then (case match_pattern p path of
         Some xs \<Rightarrow> (case b xs c of None \<Rightarrow> Unprocessable | Some t \<Rightarrow> Reached t)
       | None \<Rightarrow> first_route rs verb path c)
     else first_route rs verb path c)"

definition reach :: "surroundings \<Rightarrow> sdk_call \<Rightarrow> reached" where
  "reach sr c = first_route (api_table sr) (cl_method c) (py_split (cl_path c) ''/'') c"

section \<open>What a method means\<close>

definition int_of :: "string \<Rightarrow> (string \<times> param) list \<Rightarrow> int option" where
  "int_of k ps = (case map_of ps k of Some (ParInt i) \<Rightarrow> Some i | _ \<Rightarrow> None)"

definition str_of :: "string \<Rightarrow> (string \<times> param) list \<Rightarrow> string option" where
  "str_of k ps = (case map_of ps k of Some (ParStr s) \<Rightarrow> Some s | _ \<Rightarrow> None)"

fun meant :: "surroundings \<Rightarrow> sdk_method \<Rightarrow> target" where
  "meant sr (OnAccount Ping) = Endpoint GetPing"
| "meant sr (OnAccount GetAccountInfo) = Endpoint (GetAccount (sr_period sr))"
| "meant sr (OnResearch (Research url)) = Endpoint (PostResearch url)"
| "meant sr (OnResearch (GetResearchJob i)) = Endpoint (GetResearch i)"
| "meant sr (OnResearch (ListResearchJobs n c)) = Endpoint (ListResearch (nat n) (Option.bind c py_int))"
| "meant sr (OnResearch (Enrich i titles)) = Endpoint (PostEnrich (sr_lead sr) i titles)"
| "meant sr (OnResearch (ClayEnrich url)) = Endpoint (PostClay (sr_slow sr) (sr_duration sr) url)"
| "meant sr (OnResearch (CreateSequence i)) = Endpoint (PostSequence (sr_write sr) i)"
| "meant sr (OnBulk (BulkResearch urls name)) = Endpoint (PostBulk name urls)"
| "meant sr (OnBulk (GetBulkJob i)) = Endpoint (GetBulk i)"
| "meant sr (OnBulk (ListBulkJobs n c)) = Endpoint (ListBulk (nat n) (Option.bind c py_int))"
| "meant sr (OnLists (CreateList name urls analyze)) = Endpoint (PostList name analyze urls)"
| "meant sr (OnLists (GetListDetails i ps)) = Endpoint (GetList (sr_rank sr) i
     \<lparr>fl_min_pain = int_of ''min_pain_score'' ps, fl_min_composite = int_of ''min_composite_score'' ps,
      fl_status = None, fl_ids = None\<rparr> (coalesce (str_of ''sort_by'' ps) ''composite_score'')
     (coalesce (str_of ''order'' ps) ''desc'') (nat (coalesce (int_of ''limit'' ps) 100)) (str_of ''starting_after'' ps))"
| "meant sr (OnLists (ListAllLists n c)) = Endpoint (ListLists (nat n) (Option.bind c py_int))"
| "meant sr (OnLists (AnalyzeList i)) = Endpoint (PostAnalyze i)"
| "meant sr (OnLists (RemoveList i)) = Endpoint (DeleteList i)"
| "meant sr (OnLists (PushList i campaign accounts)) = Endpoint (PostPush i)"
| "meant sr (OnWebhook (RegisterWebhook url events)) = HookRegister (coalesce (sr_http_url sr url) url) events"
| "meant sr (OnWebhook GetWebhook) = HookInfo"
| "meant sr (OnWebhook DeleteWebhook) = HookRemove"
| "meant sr (OnTeam ListTeam) = TeamMembers"
| "meant sr (OnTeam (InviteMember email r)) = TeamInvite email r"
| "meant sr (OnTeam (RemoveMember i)) = TeamRemove i"
| "meant sr (OnTeam (ChangeMemberRole i r)) = TeamRole i r"
| "meant sr (OnWatchlist (AddToWatchlist url name schedule)) = Endpoint (PostWatch url name schedule)"
| "meant sr (OnWatchlist (ListWatchlist n c)) = Endpoint (ListWatch (nat n) (Option.bind c py_int))"
| "meant sr (OnWatchlist (UpdateWatchlist i schedule status)) = Endpoint (PatchWatch i schedule status)"
| "meant sr (OnWatchlist (RemoveFromWatchlist i)) = Endpoint (DeleteWatch i)"
| "meant sr (OnWatchlist (GetWatchlistHistory i)) = Endpoint (GetHistory i)"

text \<open>Arguments the endpoints accept: pages of 1 to 500, numeric cursors, the documented filters.\<close>

definition good_page :: "int \<Rightarrow> string option \<Rightarrow> bool" where
  "good_page n c \<longleftrightarrow> 1 \<le> n \<and> n \<le> 500 \<and> (case c of None \<Rightarrow> True | Some s \<Rightarrow> py_int s \<noteq> None)"

definition good_int :: "int \<Rightarrow> int \<Rightarrow> string \<Rightarrow> (string \<times> param) list \<Rightarrow> bool" where
  "good_int low high k ps \<longleftrightarrow> (case map_of ps k of
     None \<Rightarrow> True | Some (ParInt i) \<Rightarrow> low \<le> i \<and> i \<le> high | Some (ParStr s) \<Rightarrow> False)"

definition good_str :: "(string \<Rightarrow> bool) \<Rightarrow> string \<Rightarrow> (string \<times> param) list \<Rightarrow> bool" where
  "good_str P k ps \<longleftrightarrow> (case map_of ps k of None \<Rightarrow> True | Some (ParStr s) \<Rightarrow> P s | Some (ParInt i) \<Rightarrow> False)"

fun acceptable :: "surroundings \<Rightarrow> sdk_method \<Rightarrow> bool" where
  "acceptable sr (OnResearch (ListResearchJobs n c)) = good_page n c"
| "acceptable sr (OnBulk (ListBulkJobs n c)) = good_page n c"
| "acceptable sr (OnLists (ListAllLists n c)) = good_page n c"
| "acceptable sr (OnWatchlist (ListWatchlist n c)) = good_page n c"
| "acceptable sr (OnLists (GetListDetails i ps)) = (good_int 0 100 ''min_pain_score'' ps \<and>
     good_int 0 100 ''min_composite_score'' ps \<and> good_int 1 500 ''limit'' ps \<and>
     good_str (\<lambda>s. s \<in> set sort_fields) ''sort_by'' ps \<and> good_str (\<lambda>s. s = ''asc'' \<or> s = ''desc'') ''order'' ps \<and>
     good_str (\<lambda>s. True) ''starting_after'' ps)"
| "acceptable sr (OnWebhook (RegisterWebhook url events)) = (sr_http_url sr url \<noteq> None)"
| "acceptable sr m = True"

section \<open>Paths and parameters\<close>

lemma str_nat_no_slash: "CHR ''/'' \<notin> set (str_nat n)"
proof
  assume "CHR ''/'' \<in> set (str_nat n)"
  then obtain d where "d < 10" "CHR ''/'' = digit_char d" using str_nat_digits by blast
  then have "(of_char CHR ''/'' :: nat) = 48 + d" using digit_char_code by metis
  then show False by simp
qed

lemma str_int_no_slash: "CHR ''/'' \<notin> set (str_int i)"
  by (simp add: str_int_def str_nat_no_slash)

lemma split_go_rest: "CHR ''/'' \<notin> set x \<Longrightarrow> split_go ''/'' acc (x @ CHR ''/'' # rest) = (rev acc @ x) # split_go ''/'' [] rest"
  by (induction x arbitrary: acc) auto

lemma split_go_end: "CHR ''/'' \<notin> set x \<Longrightarrow> split_go ''/'' acc x = [rev acc @ x]"
  by (induction x arbitrary: acc) auto

lemma str_int_nonempty: "str_int i \<noteq> []"
  by (simp add: str_int_def)

lemmas split_simps = py_split_def split_go_rest [OF str_int_no_slash] split_go_end [OF str_int_no_slash]


declare first_route.simps [simp del]

lemma first_route_hit: "match_pattern p path = Some xs \<Longrightarrow> first_route ((m, p, b) # rs) m path c =
    (case b xs c of None \<Rightarrow> Unprocessable | Some t \<Rightarrow> Reached t)"
  by (simp add: first_route.simps)

lemma first_route_verb: "m \<noteq> verb \<Longrightarrow> first_route ((m, p, b) # rs) verb path c = first_route rs verb path c"
  by (simp add: first_route.simps)

lemma first_route_path: "match_pattern p path = None \<Longrightarrow> first_route ((m, p, b) # rs) verb path c = first_route rs verb path c"
  by (simp add: first_route.simps)

lemmas routing = reach_def api_table_def v1_def split_simps str_int_nonempty plain_call_def query_call_def body_call_def
  first_route.simps

lemma all_strings_jstrings [simp]: "all_strings (map JStr xs) = Some xs"
  by (induction xs) auto

lemma all_ints_map [simp]: "all_ints (map JInt xs) = Some xs"
  by (induction xs) auto

lemmas binding = with_id_def with_body_def body_fields_def str_field_def opt_field_def optional_def jstrings_def
  as_str_def as_strs_def as_ints_def

lemma page_bound: "good_page n c \<Longrightarrow> cl_params call = Some (page_params n c) \<Longrightarrow>
    with_page f xs call = Some (Endpoint (f (nat n) (Option.bind c py_int)))"
  by (auto simp: with_page_def limit_query_def int_query_def cursor_query_def params_of_def page_params_def optional_def
      good_page_def split: option.splits)

lemma account_reaches: "reach sr (account_call m) = Reached (meant sr (OnAccount m))"
  by (cases m) (simp_all add: routing)

lemma research_reaches:
  assumes "acceptable sr (OnResearch m)"
  shows "reach sr (research_call m) = Reached (meant sr (OnResearch m))"
  using assms
  by (cases m) (simp_all add: routing binding bind_url_def bind_enrich_def page_bound split: option.split)

lemma bulk_reaches:
  assumes "\<And>n c. m \<noteq> ListBulkJobs n c"
  shows "reach sr (bulk_call m) = Reached (meant sr (OnBulk m))"
proof (cases m)
  case (ListBulkJobs n c)
  with assms show ?thesis by blast
qed (simp_all add: routing binding bind_bulk_def split: option.split)

lemma int_query_good: "good_int low high k (params_of c) \<Longrightarrow> int_query low high k c = Some (int_of k (params_of c))"
  by (auto simp: int_query_def good_int_def int_of_def split: option.splits param.splits)

lemma enum_query_good: "good_str (\<lambda>s. s \<in> set vs) k (params_of c) \<Longrightarrow>
    enum_query vs d k c = Some (coalesce (str_of k (params_of c)) d)"
  by (auto simp: enum_query_def good_str_def str_of_def split: option.splits param.splits)

lemma limit_query_good: "good_int 1 500 ''limit'' (params_of c) \<Longrightarrow>
    limit_query c = Some (nat (coalesce (int_of ''limit'' (params_of c)) 100))"
  by (simp add: limit_query_def int_query_good split: option.split)

lemma text_query_good: "good_str (\<lambda>s. True) k (params_of c) \<Longrightarrow>
    map_option query_text (map_of (params_of c) k) = str_of k (params_of c)"
  by (auto simp: good_str_def str_of_def split: option.splits param.splits)

lemma list_bound:
  assumes "acceptable sr (OnLists (GetListDetails i (params_of c)))"
  shows "bind_list sr i c = Some (meant sr (OnLists (GetListDetails i (params_of c))))"
proof -
  have "good_str (\<lambda>s. s \<in> set [''asc'', ''desc'']) ''order'' (params_of c)" using assms by simp
  from enum_query_good [OF this] show ?thesis
    using assms by (simp add: bind_list_def int_query_good enum_query_good limit_query_good text_query_good)
qed

lemma lists_reach:
  assumes "acceptable sr (OnLists m)"
  shows "reach sr (list_call m) = Reached (meant sr (OnLists m))"
proof (cases m)
  case (GetListDetails i ps)
  have ps: "params_of (list_call m) = ps" using GetListDetails by (simp add: params_of_def plain_call_def)
  have "bind_list sr i (list_call m) = Some (meant sr (OnLists (GetListDetails i ps)))"
    using list_bound [of sr i "list_call m"] assms GetListDetails ps by (simp del: meant.simps)
  then show ?thesis using GetListDetails by (simp add: routing with_id_def del: meant.simps)
next
  case (PushList i campaign accounts)
  then show ?thesis by (cases accounts) (simp_all add: routing binding bind_push_def)
qed (use assms in \<open>simp_all add: routing binding bind_new_list_def page_bound\<close>)

lemma hooks_reach:
  assumes "acceptable sr (OnWebhook m)"
  shows "reach sr (hook_call m) = Reached (meant sr (OnWebhook m))"
  using assms by (cases m) (auto simp: routing binding bind_hook_def split: option.split)

lemma team_reaches: "reach sr (team_call m) = Reached (meant sr (OnTeam m))"
  by (cases m) (simp_all add: routing binding bind_invite_def bind_role_def)

lemma watches_reach:
  assumes "acceptable sr (OnWatchlist m)"
  shows "reach sr (watch_call m) = Reached (meant sr (OnWatchlist m))"
  using assms
  by (cases m) (simp_all add: routing binding bind_watch_def bind_watch_update_def page_bound split: option.split)

text \<open>Both clients make the same calls.\<close>

lemma clients_agree: "async_call m = sync_call m"
proof (cases m)
  case (OnAccount x) then show ?thesis by (cases x) simp_all
next
  case (OnResearch x) then show ?thesis by (cases x) simp_all
next
  case (OnBulk x) then show ?thesis by (cases x) simp_all
next
  case (OnLists x) then show ?thesis by (cases x) simp_all
next
  case (OnWebhook x) then show ?thesis by (cases x) simp_all
next
  case (OnTeam x) then show ?thesis by (cases x) simp_all
next
  case (OnWatchlist x) then show ?thesis by (cases x) simp_all
qed

section \<open>Properties\<close>

text \<open>
  client and server agree: every method of either client, called with arguments in the documented
  ranges, reaches the endpoint it is for with exactly these arguments, through the printing of
  numbers into paths and the parsing of paths, query and body; the listing of bulk jobs excepted.
\<close>

theorem sdk_reaches_endpoints:
  assumes "acceptable sr m" "\<And>n c. m \<noteq> OnBulk (ListBulkJobs n c)"
  shows "reach sr (sync_call m) = Reached (meant sr m) \<and> reach sr (async_call m) = Reached (meant sr m)"
proof -
  have "reach sr (sync_call m) = Reached (meant sr m)"
  proof (cases m)
    case (OnAccount x) then show ?thesis by (simp add: account_reaches)
  next
    case (OnResearch x) then show ?thesis using assms(1) research_reaches by simp
  next
    case (OnBulk x) then show ?thesis using assms(2) bulk_reaches [of x] by auto
  next
    case (OnLists x) then show ?thesis using assms(1) lists_reach by simp
  next
    case (OnWebhook x) then show ?thesis using assms(1) hooks_reach by simp
  next
    case (OnTeam x) then show ?thesis by (simp add: team_reaches)
  next
    case (OnWatchlist x) then show ?thesis using assms(1) watches_reach by simp
  qed
  then show ?thesis by (simp add: clients_agree)
qed

text \<open>
  the listing of bulk jobs cannot be reached: its path is taken by the route of a single job, declared
  before it, which refuses the word bulk as a number, whatever the page.
\<close>

theorem bulk_listing_unreachable: "reach sr (sync_call (OnBulk (ListBulkJobs n c))) = Unprocessable"
proof -
  have "py_int ''bulk'' = None"
    by (simp add: py_int_def py_strip_def is_space_def parse_nat_def digit_value_def)
  then show ?thesis by (simp add: routing with_id_def)
qed

definition sample_surroundings :: surroundings where
  "sample_surroundings = \<lparr>sr_lead = None, sr_slow = False, sr_duration = JNull, sr_write = (\<lambda>d. Inr []),
     sr_rank = (\<lambda>s. 0), sr_period = None, sr_http_url = Some\<rparr>"

theorem sdk_reaches_endpoints_witness:
  "reach sample_surroundings (async_call (OnLists (GetListDetails 7 [(''limit'', ParInt 20), (''order'', ParStr ''asc'')]))) =
   Reached (Endpoint (GetList (\<lambda>s. 0) 7
     \<lparr>fl_min_pain = None, fl_min_composite = None, fl_status = None, fl_ids = None\<rparr> ''composite_score'' ''asc'' 20 None))"
  using sdk_reaches_endpoints [of sample_surroundings
      "OnLists (GetListDetails 7 [(''limit'', ParInt 20), (''order'', ParStr ''asc'')])"]
  by (simp add: good_int_def good_str_def int_of_def str_of_def sample_surroundings_def)

end
