(* ===== verification/Sdk_Service.thy ===== *)
theory Sdk_Service
  imports Sdk_Methods Api_Properties
begin

text \<open>
  The polling of a bulk job by the SDK (\<open>bulk_research_and_poll\<close>) against the service: requests and
  worker on one database.
\<close>

definition bulk_research_and_poll ::
    "json + sdk_failure \<Rightarrow> (string \<Rightarrow> nat \<Rightarrow> json + sdk_failure) \<Rightarrow> (nat \<Rightarrow> time) \<Rightarrow> time \<Rightarrow> time \<Rightarrow>
     (poll_result \<times> nat) option" where
  "bulk_research_and_poll start get clock start_time timeout = (case start of
     Inr e \<Rightarrow> Some (PollError e, 0)
   | Inl (JDict d) \<Rightarrow> poll_loop (get (job_segment (dict_get d ''bulk_job_id''))) clock (start_time + timeout) 0
   | Inl _ \<Rightarrow> None)"

lemma poll_loop_result:
  assumes "poll_loop get clock deadline n = Some p" "\<forall>n j. get n = Inl j \<longrightarrow> R j" "fst p = Polled j"
  shows "R j \<and> \<not> still_processing j"
proof -
  have "(\<forall>n j. get n = Inl j \<longrightarrow> R j) \<longrightarrow> fst p = Polled j \<longrightarrow> R j \<and> \<not> still_processing j"
  proof (rule poll_loop.raw_induct [where P = "\<lambda>g c d n p. (\<forall>n j. g n = Inl j \<longrightarrow> R j) \<longrightarrow>
      fst p = Polled j \<longrightarrow> R j \<and> \<not> still_processing j", OF _ assms(1)])
    fix loop :: "(nat \<Rightarrow> json + sdk_failure) \<Rightarrow> (nat \<Rightarrow> time) \<Rightarrow> time \<Rightarrow> nat \<Rightarrow> (poll_result \<times> nat) option"
      and get clock deadline n y
    assume ih: "\<And>get clock deadline n y. loop get clock deadline n = Some y \<Longrightarrow>
        (\<forall>n j. get n = Inl j \<longrightarrow> R j) \<longrightarrow> fst y = Polled j \<longrightarrow> R j \<and> \<not> still_processing j"
      and b: "(case get n of Inl j \<Rightarrow> if \<not> still_processing j then Some (Polled j, Suc n)
          else if deadline < clock n then Some (PollTimeout, Suc n) else loop get clock deadline (Suc n)
        | Inr e \<Rightarrow> Some (PollError e, Suc n)) = Some y"
    from ih [of get clock deadline "Suc n" y] b
    show "(\<forall>n j. get n = Inl j \<longrightarrow> R j) \<longrightarrow> fst y = Polled j \<longrightarrow> R j \<and> \<not> still_processing j"
      by (auto split: sum.splits if_splits)
  qed
  with assms(2,3) show ?thesis by blast
qed

definition shows_failed :: "json \<Rightarrow> bool" where
  "shows_failed j = (case j of JDict d \<Rightarrow> dict_get d ''status'' = JStr ''failed'' | _ \<Rightarrow> False)"

lemma bulk_answer_status:
  assumes "none_completed (ap_server s)" "snd (route (GetBulk i) q s) = (200, j)"
  shows "still_processing j \<or> shows_failed j"
proof (cases rule: limited_cases [of q DefaultLimiter "\<lambda>s.
     case get_bulk_job i (caller q) (sv_bulk (ap_server s)) of
       None \<Rightarrow> (s, api_failure q ''not_found'' ''Bulk job not found'' 404)
     | Some j \<Rightarrow> (case get_bulk_job_items i (sv_bulk (ap_server s)) of
         None \<Rightarrow> (s, server_error q)
       | Some rs \<Rightarrow> (on_server (\<lambda>v. v\<lparr>sv_bulk := expire_items q rs (sv_bulk v)\<rparr>) s,
           (200, JDict (bulk_fields q j @ [(''credits_reserved'', JInt (bj_credits j))] @ bulk_times q j @
             [(''items'', JList (map (\<lambda>r. item_json q (shown_item q r)) rs))]))))" s])
  case refused
  then show ?thesis using assms(2) by (simp add: get_bulk_job_status_def)
next
  case (passed hits)
  have "bj_status b = BatchProcessing \<or> bj_status b = BatchFailed"
    if "get_bulk_job i (caller q) (sv_bulk (ap_server s)) = Some b" for b
    using that assms(1) by (auto simp: get_bulk_job_def find_Some_iff none_completed_def list_all_iff)
  then show ?thesis
    using assms(2) passed
    by (auto simp: get_bulk_job_status_def api_failure_def server_error_def still_processing_def shows_failed_def
        bulk_fields_def dict_get_def show_status_def split: option.splits)
qed

lemma served_bulk_status:
  assumes "none_completed (ap_server s)" "snd (serve check authorization (GetBulk i) q s) = (200, j)"
  shows "still_processing j \<or> shows_failed j"
proof (cases "require_api_key check (request_time q) (rq_tie q) authorization (sv_accounts (ap_server s)) (ap_keys s)")
  case (Pair d r)
  then obtain v k where "r = Inr (v, k)" using assms(2) by (cases r) (auto simp: serve_def api_failure_def)
  then show ?thesis
    using bulk_answer_status [of "s\<lparr>ap_keys := d\<rparr>" i "q\<lparr>rq_user := v, rq_key := k\<rparr>" j] assms Pair
    by (simp add: serve_def del: route.simps)
qed

text \<open>
  waiting for a bulk job with the SDK never gives a completed job: as long as every answer to a poll is the
  answer of the service in some state of a run in which no task in flight is requeued as stale, the call
  ends, with the timeout, with an error or with the status failed of a start-up.
\<close>

theorem bulk_polling_never_completes:
  assumes "server_ok (ap_server s)" "none_completed (ap_server s)"
    "\<And>seg n j. get seg n = Inl j \<Longrightarrow> \<exists>s' ts i q. owned_service_step\<^sup>*\<^sup>* (s, []) (s', ts) \<and>
       snd (serve check authorization (GetBulk i) q s') = (200, j)"
    "0 < interval" "0 \<le> timeout" "\<And>n. start_time + int n * interval \<le> clock n"
  shows "\<exists>r m. bulk_research_and_poll (Inl (JDict d)) get clock start_time timeout = Some (r, m) \<and>
    (\<forall>j. r = Polled j \<longrightarrow> shows_failed j)"
proof -
  define g where "g = get (job_segment (dict_get d ''bulk_job_id''))"
  obtain r m where r: "poll_loop g clock (start_time + timeout) 0 = Some (r, m)"
    using poll_terminates [where get = g, OF assms(4-6)] by blast
  have "still_processing j \<or> shows_failed j" if g: "g n = Inl j" for n j
  proof -
    obtain s' ts i q where s': "owned_service_step\<^sup>*\<^sup>* (s, []) (s', ts)"
      "snd (serve check authorization (GetBulk i) q s') = (200, j)"
      using assms(3) [OF g [unfolded g_def]] by (elim exE conjE)
    have "none_completed (ap_server s')" using owned_run_ok [OF s'(1) assms(1,2)] by simp
    from served_bulk_status [OF this s'(2)] show ?thesis .
  qed
  then have "shows_failed j" if "fst (r, m) = Polled j" for j
    using poll_loop_result [OF r _ that, of "\<lambda>j. still_processing j \<or> shows_failed j"] by blast
  with r show ?thesis by (simp add: bulk_research_and_poll_def g_def)
qed

text \<open>The polls of the witness are the answers of the service, in the state after the job was accepted.\<close>

definition sample_polls :: "string \<Rightarrow> nat \<Rightarrow> json + sdk_failure" where
  "sample_polls seg n = (case snd (serve (\<lambda>raw h. True) ''Bearer sk_live_x'' (GetBulk 1) sample_request (sample_api bulk_server)) of
     (status, body) \<Rightarrow> if status = 200 then Inl body
       else Inr (ApiError (parse_error \<lparr>rs_status = status, rs_json = Some body, rs_retry_after = None\<rparr>)))"

theorem bulk_polling_never_completes_witness:
  "\<exists>r m. bulk_research_and_poll (Inl (JDict [(''bulk_job_id'', JInt 1)])) sample_polls (\<lambda>n. int n * 5) 0 600 = Some (r, m) \<and>
     (\<forall>j. r = Polled j \<longrightarrow> shows_failed j)"
proof (rule bulk_polling_never_completes [where s = "sample_api bulk_server" and interval = 5])
  show "server_ok (ap_server (sample_api bulk_server))" using bulk_server_ok by (simp add: sample_api_def server_ok_def)
  show "none_completed (ap_server (sample_api bulk_server))"
    by (simp add: sample_api_def none_completed_def bulk_server_def pair_job_def create_bulk_job_def no_bulk_def Let_def new_bulk_def)
  fix seg n j assume "sample_polls seg n = Inl j"
  then have "snd (serve (\<lambda>raw h. True) ''Bearer sk_live_x'' (GetBulk 1) sample_request (sample_api bulk_server)) = (200, j)"
    by (auto simp: sample_polls_def split: prod.splits if_splits)
  then show "\<exists>s' ts i q. owned_service_step\<^sup>*\<^sup>* (sample_api bulk_server, []) (s', ts) \<and>
      snd (serve (\<lambda>raw h. True) ''Bearer sk_live_x'' (GetBulk i) q s') = (200, j)"
    by blast
qed simp_all

end
