(* ===== verification/Web_Main.thy ===== *)
theory Web_Main
  imports Web_Research Web_Settings Sdk_Client
begin

text \<open>
  The application around the handlers (\<open>main.py\<close>): its middleware, the exception handlers, the health
  and version endpoints, and the home and documentation pages. The clocks, the environment, the probe
  of the database and fresh request identifiers are arguments.
\<close>

section \<open>Exchanges\<close>

datatype content = JsonContent json | HtmlPage string "(string \<times> json) list"

record http_reply =
  hr_status :: int
  hr_headers :: "(string \<times> string) list"
  hr_content :: content

record exchange_info =
  xi_path :: string
  xi_accept :: string
  xi_request_id :: "string option"
  xi_fresh :: string
  xi_times :: "time \<times> time"
  xi_https :: bool

text \<open>A detail is a text, or an object as \<open>APIError\<close> makes it.\<close>

datatype detail = TextDetail string | ObjectDetail "(string \<times> json) list"

datatype error_raised =
    HttpError int detail "(string \<times> string) list"
  | InvalidRequest "(string list \<times> string) list"
  | InvalidModel string
  | OtherError

datatype outcome_of_app = Replied http_reply | Escaped

definition raise_api_error :: "string \<Rightarrow> string \<Rightarrow> int \<Rightarrow> (string \<times> string) list \<Rightarrow> error_raised" where
  "raise_api_error code msg status headers =
     HttpError status (ObjectDetail [(''code'', JStr code), (''message'', JStr msg)]) headers"

section \<open>Exception handlers\<close>

definition error_titles :: "(int \<times> string) list" where
  "error_titles = [(400, ''Invalid Request''), (402, ''Insufficient Credits''), (403, ''Forbidden''),
     (404, ''Not Found''), (500, ''Something Went Wrong'')]"

definition status_codes :: "(int \<times> string) list" where
  "status_codes = [(400, ''validation_error''), (401, ''unauthorized''), (402, ''insufficient_credits''),
     (403, ''forbidden''), (404, ''not_found''), (409, ''conflict''), (422, ''validation_error''),
     (429, ''rate_limit_exceeded''), (500, ''internal_error'')]"

definition wants_html :: "exchange_info \<Rightarrow> bool" where
  "wants_html x \<longleftrightarrow> py_in ''text/html'' (xi_accept x)"

definition error_page :: "int \<Rightarrow> string \<Rightarrow> json \<Rightarrow> http_reply" where
  "error_page status title text_shown = \<lparr>hr_status = status, hr_headers = [], hr_content = HtmlPage ''error.html''
     [(''status_code'', JInt status), (''title'', JStr title), (''detail'', text_shown)]\<rparr>"

definition with_request_id :: "string option \<Rightarrow> (string \<times> json) list \<Rightarrow> (string \<times> json) list" where
  "with_request_id rid d = (case rid of None \<Rightarrow> d | Some r \<Rightarrow> if r = [] then d
     else filter (\<lambda>(k, v). k \<noteq> ''request_id'') d @ [(''request_id'', JStr r)])"

definition json_error :: "int \<Rightarrow> (string \<times> string) list \<Rightarrow> (string \<times> json) list \<Rightarrow> http_reply" where
  "json_error status headers d = \<lparr>hr_status = status, hr_headers = headers,
     hr_content = JsonContent (JDict [(''error'', JDict d)])\<rparr>"

text \<open>\<open>py_str\<close> is Python's \<open>str\<close> of an object that has no code.\<close>

definition custom_http_exception_handler ::
    "((string \<times> json) list \<Rightarrow> string) \<Rightarrow> exchange_info \<Rightarrow> string option \<Rightarrow> int \<Rightarrow> detail \<Rightarrow> (string \<times> string) list \<Rightarrow> http_reply" where
  "custom_http_exception_handler py_str x rid status d headers =
     (if wants_html x then error_page status (coalesce (map_of error_titles status) ''Error'')
        (case d of TextDetail t \<Rightarrow> JStr t
         | ObjectDetail o1 \<Rightarrow> coalesce (map_of o1 ''message'') (JStr ''An unexpected error occurred.''))
      else (case d of
        ObjectDetail o1 \<Rightarrow> if map_of o1 ''code'' \<noteq> None then json_error status headers (with_request_id rid o1)
          else json_error status [] (with_request_id rid [(''code'', JStr (coalesce (map_of status_codes status) ''internal_error'')),
            (''message'', JStr (py_str o1))])
      | TextDetail t \<Rightarrow> json_error status [] (with_request_id rid
          [(''code'', JStr (coalesce (map_of status_codes status) ''internal_error'')), (''message'', JStr t)])))"

text \<open>The locations are joined by an arrow, here as its UTF-8 bytes.\<close>

definition request_validation_handler :: "string option \<Rightarrow> (string list \<times> string) list \<Rightarrow> http_reply" where
  "request_validation_handler rid errs = json_error 422 [] (with_request_id rid [(''code'', JStr ''validation_error''),
     (''message'', JStr (py_join ''; '' (map (\<lambda>(loc, msg).
        py_join ('' '' @ [CHR 0xE2, CHR 0x86, CHR 0x92] @ '' '') loc @ '': '' @ msg) errs)))])"

definition pydantic_validation_handler :: "string option \<Rightarrow> string \<Rightarrow> http_reply" where
  "pydantic_validation_handler rid msg =
     json_error 400 [] (with_request_id rid [(''code'', JStr ''validation_error''), (''message'', JStr msg)])"

definition unhandled_exception_handler :: "exchange_info \<Rightarrow> string option \<Rightarrow> http_reply" where
  "unhandled_exception_handler x rid = (if wants_html x
     then error_page 500 ''Something Went Wrong'' (JStr ''Internal server error'')
     else json_error 500 [] (with_request_id rid [(''code'', JStr ''internal_error''), (''message'', JStr ''Internal server error'')]))"

text \<open>
  The framework catches the typed errors next to the endpoint; any other error passes through the
  middleware and is answered outside of it.
\<close>

definition answer_errors :: "((string \<times> json) list \<Rightarrow> string) \<Rightarrow> exchange_info \<Rightarrow> string option \<Rightarrow>
    error_raised + http_reply \<Rightarrow> outcome_of_app" where
  "answer_errors py_str x rid r = (case r of
     Inr reply \<Rightarrow> Replied reply
   | Inl (HttpError status d headers) \<Rightarrow> Replied (custom_http_exception_handler py_str x rid status d headers)
   | Inl (InvalidRequest errs) \<Rightarrow> Replied (request_validation_handler rid errs)
   | Inl (InvalidModel msg) \<Rightarrow> Replied (pydantic_validation_handler rid msg)
   | Inl OtherError \<Rightarrow> Escaped)"

section \<open>Middleware\<close>

definition on_reply :: "(http_reply \<Rightarrow> http_reply) \<Rightarrow> outcome_of_app \<Rightarrow> outcome_of_app" where
  "on_reply f r = (case r of Replied h \<Rightarrow> Replied (f h) | Escaped \<Rightarrow> Escaped)"

definition set_header :: "string \<Rightarrow> string \<Rightarrow> http_reply \<Rightarrow> http_reply" where
  "set_header k v h = h\<lparr>hr_headers := filter (\<lambda>(j, w). j \<noteq> k) (hr_headers h) @ [(k, v)]\<rparr>"

definition request_id_of :: "exchange_info \<Rightarrow> string" where
  "request_id_of x = (if xi_request_id x \<in> {None, Some []} then xi_fresh x else the (xi_request_id x))"

definition request_id_middleware :: "exchange_info \<Rightarrow> outcome_of_app \<Rightarrow> outcome_of_app" where
  "request_id_middleware x = on_reply (set_header ''X-Request-ID'' (request_id_of x))"

text \<open>A line of the access log: whether it is a warning, the path, the status and the milliseconds.\<close>

definition access_log :: "exchange_info \<Rightarrow> outcome_of_app \<Rightarrow> (bool \<times> string \<times> int \<times> int) list" where
  "access_log x r = (case r of Escaped \<Rightarrow> [] | Replied h \<Rightarrow>
     (let d = snd (xi_times x) - fst (xi_times x) in
      if xi_path x = ''/health'' then []
      else if startswith (xi_path x) ''/v1/'' \<or> startswith (xi_path x) ''/auth/'' \<or> d > seconds 1
        then [(d > seconds 1, xi_path x, hr_status h, d div 1000)] else []))"

definition keyword :: "string \<Rightarrow> string" where
  "keyword w = [CHR 0x27] @ w @ [CHR 0x27]"

definition security_policy :: string where
  "security_policy = ''default-src '' @ keyword ''self'' @ ''; script-src '' @ keyword ''self'' @ '' '' @
     keyword ''unsafe-inline'' @ '' https://cdn.tailwindcss.com https://cdn.jsdelivr.net; style-src '' @
     keyword ''self'' @ '' '' @ keyword ''unsafe-inline'' @ ''; img-src '' @ keyword ''self'' @
     '' https://*.googleusercontent.com data:; font-src '' @ keyword ''self'' @ ''; connect-src '' @
     keyword ''self'' @ ''; frame-ancestors '' @ keyword ''none''"

definition security_headers_middleware :: "exchange_info \<Rightarrow> outcome_of_app \<Rightarrow> outcome_of_app" where
  "security_headers_middleware x = on_reply (\<lambda>h.
     let h1 = set_header ''Content-Security-Policy'' security_policy
          (set_header ''Permissions-Policy'' ''camera=(), microphone=(), geolocation=()''
          (set_header ''Referrer-Policy'' ''strict-origin-when-cross-origin''
          (set_header ''X-Frame-Options'' ''DENY'' (set_header ''X-Content-Type-Options'' ''nosniff'' h))))
     in if xi_https x then set_header ''Strict-Transport-Security'' ''max-age=63072000; includeSubDomains'' h1 else h1)"

text \<open>Limit, remaining and reset of the limiter that the endpoint consulted, if any\<close>

definition rate_limit_header_middleware :: "(int \<times> int \<times> int) option \<Rightarrow> outcome_of_app \<Rightarrow> outcome_of_app" where
  "rate_limit_header_middleware info = on_reply (\<lambda>h. case info of None \<Rightarrow> h
     | Some (limit, remaining, reset) \<Rightarrow> h\<lparr>hr_headers := hr_headers h @ [(''x-ratelimit-limit'', str_int limit),
         (''x-ratelimit-remaining'', str_int remaining), (''x-ratelimit-reset'', str_int reset)]\<rparr>)"

text \<open>The deque keeps the last five hundred times.\<close>

definition push_error :: "time \<Rightarrow> time list \<Rightarrow> time list" where
  "push_error now ts = drop (length ts + 1 - 500) (ts @ [now])"

text \<open>An error that escapes the inner application ends the call before the count.\<close>

definition error_count_middleware :: "time \<Rightarrow> outcome_of_app \<Rightarrow> time list \<Rightarrow> time list" where
  "error_count_middleware now r ts = (case r of
     Escaped \<Rightarrow> ts | Replied h \<Rightarrow> if 500 \<le> hr_status h then push_error now ts else ts)"

text \<open>
  One exchange. The middleware added last is outermost, so the order from the inside is request
  identifier, access log, security headers, rate limit headers, error count; CORS and the session
  change no answer here.
\<close>

definition handle_exchange :: "((string \<times> json) list \<Rightarrow> string) \<Rightarrow> exchange_info \<Rightarrow> (int \<times> int \<times> int) option \<Rightarrow>
    error_raised + http_reply \<Rightarrow> time list \<Rightarrow> time list \<times> http_reply" where
  "handle_exchange py_str x info r ts =
     (let rid = Some (request_id_of x);
          out = rate_limit_header_middleware info (security_headers_middleware x
                  (request_id_middleware x (answer_errors py_str x rid r)))
      in (error_count_middleware (snd (xi_times x)) out ts,
          case out of Replied h \<Rightarrow> h | Escaped \<Rightarrow> unhandled_exception_handler x rid))"

section \<open>Health\<close>

fun count_errors :: "time \<Rightarrow> time list \<Rightarrow> int" where
  "count_errors cutoff [] = 0"
| "count_errors cutoff (t # ts) = (if t < cutoff then 0 else 1 + count_errors cutoff ts)"

definition count_errors_since :: "time list \<Rightarrow> time \<Rightarrow> int" where
  "count_errors_since ts cutoff = count_errors cutoff (rev ts)"

definition health_status :: "bool \<Rightarrow> time \<Rightarrow> time list \<Rightarrow> string" where
  "health_status db_ok now ts = (if \<not> db_ok then ''down''
     else if count_errors_since ts (now - seconds 300) > 5 then ''degraded'' else ''ok'')"

text \<open>The environment as name and value; an empty value counts as missing.\<close>

fun read_first_env :: "(string \<Rightarrow> string option) \<Rightarrow> string list \<Rightarrow> string option \<times> string option" where
  "read_first_env env [] = (None, None)"
| "read_first_env env (k # ks) = (if env k \<in> {None, Some []} then read_first_env env ks else (env k, Some k))"

definition deploy_commit_vars :: "string list" where
  "deploy_commit_vars = [''RAILWAY_GIT_COMMIT_SHA'', ''SOURCE_VERSION'', ''GITHUB_SHA'', ''VERCEL_GIT_COMMIT_SHA'',
     ''RENDER_GIT_COMMIT'']"

definition deploy_id_vars :: "string list" where
  "deploy_id_vars = [''RAILWAY_DEPLOYMENT_ID'', ''VERCEL_DEPLOYMENT_ID'', ''RENDER_SERVICE_ID'']"

definition uncached :: "int \<Rightarrow> (string \<times> json) list \<Rightarrow> http_reply" where
  "uncached status d = \<lparr>hr_status = status, hr_headers = [(''Cache-Control'', ''no-store'')], hr_content = JsonContent (JDict d)\<rparr>"

text \<open>\<open>probe\<close> is the latency of the database and the size and free connections of its pool.\<close>

definition health_check :: "(string \<Rightarrow> string option) \<Rightarrow> json \<Rightarrow> json \<Rightarrow> json \<Rightarrow> (json \<times> int \<times> int) option \<Rightarrow> time \<Rightarrow>
    time list \<Rightarrow> http_reply" where
  "health_check env uptime stamp memory probe now ts =
     (let status = health_status (probe \<noteq> None) now ts
      in uncached (if status = ''down'' then 503 else 200) [(''status'', JStr status), (''service'', JStr ''auggie''),
        (''version'', JStr ''1.0.0''), (''git_commit'', JStr (coalesce (fst (read_first_env env deploy_commit_vars)) ''unknown'')),
        (''uptime_seconds'', uptime), (''timestamp'', stamp),
        (''db'', (case probe of
           None \<Rightarrow> JDict [(''status'', JStr ''error''), (''latency_ms'', JNull), (''pool'', JDict [])]
         | Some (ms, conns, free) \<Rightarrow> JDict [(''status'', JStr ''ok''), (''latency_ms'', ms),
             (''pool'', JDict [(''size'', JInt conns), (''free'', JInt free), (''used'', JInt (conns - free))])])),
        (''memory'', JDict [(''rss_mb'', memory)]),
        (''error_counts'', JDict [(''last_5min'', JInt (count_errors_since ts (now - seconds 300))),
           (''last_1hr'', JInt (count_errors_since ts (now - seconds 3600)))])])"

definition version_check :: "(string \<Rightarrow> string option) \<Rightarrow> bool \<Rightarrow> http_reply" where
  "version_check env production = (case (read_first_env env deploy_commit_vars, read_first_env env deploy_id_vars) of
     ((commit, commit_var), (deploy, deploy_var)) \<Rightarrow> uncached 200 [(''app_version'', JStr ''1.0.0''),
       (''environment'', JStr (if production then ''production'' else ''development'')),
       (''git_commit'', JStr (coalesce commit ''unknown'')), (''git_commit_source'', jopt JStr commit_var),
       (''deployment_id'', jopt JStr deploy), (''deployment_id_source'', jopt JStr deploy_var)])"

section \<open>Pages\<close>

text \<open>\<open>q\<close> is the request of the signed-in user; the materials are asked for only when they are enabled.\<close>

definition home :: "request option \<Rightarrow> bool \<Rightarrow> 'e material_db \<Rightarrow> handler" where
  "home viewer materials_on mats s = (case viewer of
     None \<Rightarrow> (s, Page ''landing.html'' [])
   | Some q \<Rightarrow> if us_context (vw_user (rq_user q)) = [] then (s, Moved 302 ''/onboarding'')
       else (case page_usage q s of
         (s1, None) \<Rightarrow> (s1, crashed)
       | (s1, Some u) \<Rightarrow> (s1, Page ''index.html'' [(''recent_docs'', recent_docs q s),
           (''credits_cents'', JInt (ug_credits u)), (''is_admin'', JBool (ug_is_admin u)),
           (''show_materials_prompt'', JBool (materials_on \<and> get_user_materials (caller q) (sv_accounts (tables s1)) mats = [])),
           (''materials_enabled'', JBool materials_on)])))"

definition docs_pages :: "(string \<times> string) list" where
  "docs_pages = [(''index'', ''API Documentation''), (''authentication'', ''Authentication''), (''research'', ''Research''),
     (''enrichment'', ''Enrichment''), (''sequences'', ''Sequences''), (''bulk'', ''Bulk Research''), (''lists'', ''Lists''),
     (''webhooks'', ''Webhooks''), (''watchlist'', ''Watchlist''), (''team'', ''Team''), (''pagination'', ''Pagination''),
     (''errors'', ''Errors''), (''rate-limits'', ''Rate Limits''), (''changelog'', ''Changelog'')]"

definition docs_page :: "string \<Rightarrow> answer" where
  "docs_page name = (case map_of docs_pages name of
     None \<Rightarrow> Refused 404 ''Not Found''
   | Some title \<Rightarrow> Page (''docs/'' @ name @ ''.html'') [(''current_page'', JStr name), (''page_title'', JStr title)])"

definition static_page :: "string \<Rightarrow> answer" where
  "static_page path = (if path = ''/about'' then Page ''about.html'' [] else if path = ''/privacy'' then Page ''privacy.html'' []
     else if path = ''/terms'' then Page ''terms.html'' [] else if path = ''/automations'' then Moved 301 ''/platforms''
     else Refused 404 ''Not Found'')"

section \<open>Runs\<close>

type_synonym handled = "exchange_info \<times> (int \<times> int \<times> int) option \<times> (error_raised + http_reply)"

fun run_exchanges :: "((string \<times> json) list \<Rightarrow> string) \<Rightarrow> handled list \<Rightarrow> time list \<Rightarrow> time list \<times> http_reply list" where
  "run_exchanges py_str [] ts = (ts, [])"
| "run_exchanges py_str ((x, info, r) # es) ts = (case handle_exchange py_str x info r ts of (ts1, h) \<Rightarrow>
     (case run_exchanges py_str es ts1 of (ts2, hs) \<Rightarrow> (ts2, h # hs)))"

definition ended :: "handled \<Rightarrow> time" where
  "ended e = snd (xi_times (fst e))"

definition handled_failure :: "((string \<times> json) list \<Rightarrow> string) \<Rightarrow> handled \<Rightarrow> bool" where
  "handled_failure py_str e = (case e of (x, info, r) \<Rightarrow>
     (case answer_errors py_str x (Some (request_id_of x)) r of Escaped \<Rightarrow> False | Replied h \<Rightarrow> 500 \<le> hr_status h))"

lemma middleware_status [simp]:
  "on_reply f (Replied h) = Replied (f h)" "on_reply f Escaped = Escaped"
  "hr_status (set_header k v h) = hr_status h" "hr_content (set_header k v h) = hr_content h"
  by (simp_all add: on_reply_def set_header_def)

lemma exchange_errors: "fst (handle_exchange py_str x info r ts) =
    (if handled_failure py_str (x, info, r) then push_error (snd (xi_times x)) ts else ts)"
  by (auto simp: handle_exchange_def error_count_middleware_def rate_limit_header_middleware_def request_id_middleware_def
      security_headers_middleware_def handled_failure_def Let_def split: outcome_of_app.split option.split)

definition recent_of :: "time list \<Rightarrow> time list" where
  "recent_of ts = drop (length ts - 500) ts"

lemma push_recent: "push_error now (recent_of ts) = recent_of (ts @ [now])"
proof -
  have "length ts - (length ts - 500 + 499) + (length ts - 500) = length ts - 499" by arith
  then show ?thesis by (simp add: push_error_def recent_of_def)
qed

lemma run_errors: "fst (run_exchanges py_str es (recent_of ts)) =
    recent_of (ts @ map ended (filter (handled_failure py_str) es))"
proof (induction es arbitrary: ts)
  case (Cons e es)
  obtain x info r where e: "e = (x, info, r)" by (cases e) auto
  have "fst (handle_exchange py_str x info r (recent_of ts)) =
      recent_of (if handled_failure py_str e then ts @ [ended e] else ts)"
    by (simp add: exchange_errors push_recent e ended_def)
  then show ?case
    using Cons.IH [of "if handled_failure py_str e then ts @ [ended e] else ts"]
    by (auto simp: e split: prod.splits)
qed simp

lemma count_errors_nonneg: "0 \<le> count_errors cutoff ts"
  by (induction ts) auto

lemma count_errors_take: "count_errors cutoff (take k ts) = min (int k) (count_errors cutoff ts)"
proof (induction ts arbitrary: k)
  case (Cons t ts)
  then show ?case using count_errors_nonneg [of cutoff ts] by (cases k) auto
qed simp

lemma count_errors_sorted: "sorted ts \<Longrightarrow> count_errors cutoff (rev ts) = int (length (filter (\<lambda>t. cutoff \<le> t) ts))"
proof (induction ts rule: rev_induct)
  case (snoc t ts)
  then show ?case
    by (auto simp: sorted_append filter_empty_conv)
qed simp

lemma count_recent: "sorted ts \<Longrightarrow> count_errors_since (recent_of ts) cutoff = int (min 500 (length (filter (\<lambda>t. cutoff \<le> t) ts)))"
proof -
  assume "sorted ts"
  moreover have "length (filter (\<lambda>t. cutoff \<le> t) ts) \<le> length ts" by simp
  ultimately show ?thesis
    by (auto simp: count_errors_since_def recent_of_def rev_drop count_errors_take count_errors_sorted min_def simp del: length_filter_le)
qed

section \<open>Properties\<close>

text \<open>
  the health page counts exactly the failures that were answered inside the application, up to five
  hundred: not those whose exception escapes it.
\<close>

theorem error_counts_exact:
  assumes "sorted (map ended run)"
  shows "count_errors_since (fst (run_exchanges py_str run [])) cutoff =
    int (min 500 (length (filter (\<lambda>e. handled_failure py_str e \<and> cutoff \<le> ended e) run)))"
proof -
  have "sorted (map ended (filter (handled_failure py_str) run))" using assms by (rule sorted_filter)
  from count_recent [OF this] show ?thesis
    using run_errors [of py_str run "[]"]
    by (simp add: recent_of_def filter_map comp_def conj_commute)
qed

text \<open>
  a service that crashes on every request reports good health: all answers are 500, and no number of
  them degrades the status.
\<close>

theorem crashes_invisible:
  assumes "\<forall>(x, info, r) \<in> set run. r = Inl OtherError"
  shows "(\<forall>h \<in> set (snd (run_exchanges py_str run [])). hr_status h = 500) \<and>
    health_status True now (fst (run_exchanges py_str run [])) = ''ok''"
proof -
  have "\<not> handled_failure py_str e" if "e \<in> set run" for e
    using assms that by (cases e) (auto simp: handled_failure_def answer_errors_def)
  then have "filter (handled_failure py_str) run = []" by (simp add: filter_empty_conv)
  then have "fst (run_exchanges py_str run []) = []" using run_errors [of py_str run "[]"] by (simp add: recent_of_def)
  moreover have "\<forall>h \<in> set (snd (run_exchanges py_str es ts)). hr_status h = 500"
    if "\<forall>(x, info, r) \<in> set es. r = Inl OtherError" for es ts
    using that
    by (induction es arbitrary: ts)
      (auto simp: handle_exchange_def answer_errors_def unhandled_exception_handler_def error_page_def json_error_def
        rate_limit_header_middleware_def request_id_middleware_def security_headers_middleware_def Let_def case_prod_unfold)
  ultimately show ?thesis using assms by (simp add: health_status_def count_errors_since_def)
qed

text \<open>\<open>as_response\<close> is a JSON answer as the HTTP client shows it; \<open>number\<close> reads a float.\<close>

definition as_response :: "(string \<Rightarrow> time option) \<Rightarrow> http_reply \<Rightarrow> response" where
  "as_response number h = \<lparr>rs_status = hr_status h,
     rs_json = (case hr_content h of JsonContent j \<Rightarrow> Some j | HtmlPage n es \<Rightarrow> None),
     rs_retry_after = Option.bind (map_of (hr_headers h) ''Retry-After'') number\<rparr>"

lemma map_of_filter_key: "k \<noteq> j \<Longrightarrow> map_of (filter (\<lambda>(i, w). i \<noteq> j) xs) k = map_of xs k"
  by (induction xs) auto

lemma set_header_other [simp]: "k \<noteq> j \<Longrightarrow> map_of (hr_headers (set_header j v h)) k = map_of (hr_headers h) k"
  by (simp add: set_header_def map_add_def map_of_filter_key split: option.split)

lemma decorated:
  obtains g where "rate_limit_header_middleware info (security_headers_middleware x (request_id_middleware x (Replied h))) = Replied g"
    "hr_status g = hr_status h" "hr_content g = hr_content h"
    "map_of (hr_headers g) ''Retry-After'' = map_of (hr_headers h) ''Retry-After''"
proof -
  define g where "g = (case request_id_middleware x (Replied h) of Escaped \<Rightarrow> h | Replied g \<Rightarrow> g)"
  have g: "request_id_middleware x (Replied h) = Replied g" "hr_status g = hr_status h" "hr_content g = hr_content h"
      "map_of (hr_headers g) ''Retry-After'' = map_of (hr_headers h) ''Retry-After''"
    by (simp_all add: g_def request_id_middleware_def)
  define e where "e = (case security_headers_middleware x (Replied g) of Escaped \<Rightarrow> h | Replied e \<Rightarrow> e)"
  have e: "security_headers_middleware x (Replied g) = Replied e" "hr_status e = hr_status h" "hr_content e = hr_content h"
      "map_of (hr_headers e) ''Retry-After'' = map_of (hr_headers h) ''Retry-After''"
    using g(2-4) by (simp_all add: e_def security_headers_middleware_def Let_def)
  show thesis
  proof (cases info)
    case None
    then show ?thesis using that [of e] g e by (simp add: rate_limit_header_middleware_def)
  next
    case (Some i)
    obtain l m r where "i = (l, m, r)" by (cases i) auto
    then show ?thesis
      using Some g e
      by (intro that [of "e\<lparr>hr_headers := hr_headers e @ [(''x-ratelimit-limit'', str_int l),
         (''x-ratelimit-remaining'', str_int m), (''x-ratelimit-reset'', str_int r)]\<rparr>"])
        (simp_all add: rate_limit_header_middleware_def map_add_def split: option.split)
  qed
qed

text \<open>
  an error that the API raises arrives in the SDK as raised: the code, the status, the exception class
  of the status and the pause the server asks for.
\<close>

theorem api_errors_reach_sdk:
  assumes "\<not> wants_html x" "handle_exchange py_str x info (Inl (raise_api_error code msg status headers)) ts = (ts', h)"
  shows "parse_error (as_response number h) =
    \<lparr>er_class = (if status = 400 \<and> code = ''validation_error'' then ValidationError else status_to_error status),
     er_status = status, er_code = JStr code,
     er_retry_after = (if status = 429 then Option.bind (map_of headers ''Retry-After'') number else None)\<rparr>"
proof -
  define d where "d = with_request_id (Some (request_id_of x)) [(''code'', JStr code), (''message'', JStr msg)]"
  have a: "answer_errors py_str x (Some (request_id_of x)) (Inl (raise_api_error code msg status headers)) =
      Replied (json_error status headers d)"
    using assms(1) by (simp add: answer_errors_def raise_api_error_def custom_http_exception_handler_def d_def)
  have c: "dict_get d ''code'' = JStr code" by (simp add: d_def with_request_id_def dict_get_def)
  obtain g where g: "rate_limit_header_middleware info (security_headers_middleware x
        (request_id_middleware x (Replied (json_error status headers d)))) = Replied g"
      "hr_status g = status" "hr_content g = JsonContent (JDict [(''error'', JDict d)])"
      "map_of (hr_headers g) ''Retry-After'' = map_of headers ''Retry-After''"
    by (rule decorated [of info x "json_error status headers d"]) (auto simp: json_error_def)
  have "h = g" using assms(2) a g(1) by (simp add: handle_exchange_def Let_def)
  then show ?thesis
    using g(2-4) c by (simp add: parse_error_def as_response_def error_code_def Let_def status_to_error_def)
qed

definition sample_exchange :: exchange_info where
  "sample_exchange = \<lparr>xi_path = ''/v1/research'', xi_accept = ''*/*'', xi_request_id = None, xi_fresh = ''r1'',
     xi_times = (1, 2), xi_https = True\<rparr>"

theorem api_errors_reach_sdk_witness:
  "\<exists>ts h. handle_exchange (\<lambda>d. []) sample_exchange None
      (Inl (raise_api_error ''rate_limit_exceeded'' ''slow'' 429 [(''Retry-After'', ''7'')])) [] = (ts, h) \<and>
    parse_error (as_response py_int h) = \<lparr>er_class = RateLimitError, er_status = 429, er_code = JStr ''rate_limit_exceeded'',
      er_retry_after = py_int ''7''\<rparr>"
proof -
  obtain ts h where h: "handle_exchange (\<lambda>d. []) sample_exchange None
      (Inl (raise_api_error ''rate_limit_exceeded'' ''slow'' 429 [(''Retry-After'', ''7'')])) [] = (ts, h)" by fastforce
  have "\<not> wants_html sample_exchange" by (auto simp: wants_html_def sample_exchange_def py_in_def dest: sublist_length_le)
  from api_errors_reach_sdk [OF this h, of py_int] h show ?thesis by (simp add: status_to_error_def)
qed

theorem crashes_invisible_witness:
  "health_status True 10 (fst (run_exchanges (\<lambda>d. []) [(sample_exchange, None, Inl OtherError), (sample_exchange, None, Inl OtherError)] [])) = ''ok''"
  using crashes_invisible [of "[(sample_exchange, None, Inl OtherError), (sample_exchange, None, Inl OtherError)]" "\<lambda>d. []" 10] by simp

theorem error_counts_exact_witness:
  "count_errors_since (fst (run_exchanges (\<lambda>d. []) [(sample_exchange, None, Inl (HttpError 502 (TextDetail ''x'') [])),
     (sample_exchange, None, Inl OtherError)] [])) 0 = 1"
  using error_counts_exact [of "[(sample_exchange, None, Inl (HttpError 502 (TextDetail ''x'') [])), (sample_exchange, None, Inl OtherError)]"
      "\<lambda>d. []" 0]
  by (simp add: ended_def handled_failure_def answer_errors_def custom_http_exception_handler_def error_page_def json_error_def
      sample_exchange_def split: if_splits)

end
