(* ===== verification/Notifications.thy ===== *)
theory Notifications
  imports Profiles
begin

text \<open>
  The messages for Slack and Microsoft Teams (\<open>services/notifications.py\<close>) and their delivery.
  \<open>py_repr\<close> prints the values that are neither texts nor numbers; \<open>post\<close> is the HTTP client: the
  status of the answer, or nothing when it raises. Dashes outside ASCII are their UTF-8 bytes.
\<close>

section \<open>Texts\<close>

definition shown :: "(json \<Rightarrow> string) \<Rightarrow> json \<Rightarrow> string" where
  "shown py_repr j = (case j of JStr s \<Rightarrow> s | JInt i \<Rightarrow> str_int i | JNull \<Rightarrow> ''None''
     | JBool b \<Rightarrow> (if b then ''True'' else ''False'') | _ \<Rightarrow> py_repr j)"

definition get_or :: "(string \<times> json) list \<Rightarrow> string \<Rightarrow> json \<Rightarrow> json" where
  "get_or d k dflt = coalesce (map_of d k) dflt"

definition company_label :: "(string \<times> json) list \<Rightarrow> json" where
  "company_label d = get_or d ''company_name'' (get_or d ''company_url'' (JStr ''Unknown''))"

definition em_dash :: string where
  "em_dash = [CHR 0xE2, CHR 0x80, CHR 0x94]"

section \<open>Slack\<close>

definition mrkdwn :: "string \<Rightarrow> json" where
  "mrkdwn t = JDict [(''type'', JStr ''mrkdwn''), (''text'', JStr t)]"

definition slack_header :: "string \<Rightarrow> json" where
  "slack_header t = JDict [(''type'', JStr ''header''),
     (''text'', JDict [(''type'', JStr ''plain_text''), (''text'', JStr t)])]"

definition slack_fields :: "string list \<Rightarrow> json" where
  "slack_fields ts = JDict [(''type'', JStr ''section''), (''fields'', JList (map mrkdwn ts))]"

definition slack_section :: "string \<Rightarrow> json" where
  "slack_section t = JDict [(''type'', JStr ''section''), (''text'', mrkdwn t)]"

definition slack_blocks :: "json list \<Rightarrow> json" where
  "slack_blocks bs = JDict [(''blocks'', JList bs)]"

text \<open>A link is shown when its address is not empty.\<close>

definition slack_link :: "(json \<Rightarrow> string) \<Rightarrow> json \<Rightarrow> string \<Rightarrow> json list" where
  "slack_link py_repr url label = (if truthy url then [slack_section (''<'' @ shown py_repr url @ ''|'' @ label @ ''>'')] else [])"

definition slack_research :: "(json \<Rightarrow> string) \<Rightarrow> (string \<times> json) list \<Rightarrow> json" where
  "slack_research py_repr d = slack_blocks
     ([slack_header (''Research Complete: '' @ shown py_repr (company_label d)),
       slack_fields [''*Pain Score:* '' @ shown py_repr (get_or d ''pain_score'' (JStr ''N/A'')),
         ''*Composite Score:* '' @ shown py_repr (get_or d ''composite_score'' (JStr ''N/A''))]]
      @ slack_link py_repr (get_or d ''doc_url'' (JStr [])) ''View Report'')"

definition slack_list :: "(json \<Rightarrow> string) \<Rightarrow> (string \<times> json) list \<Rightarrow> json" where
  "slack_list py_repr d = slack_blocks
     ([slack_header (''List Analysis Complete: '' @ shown py_repr (get_or d ''list_name'' (JStr ''Unnamed List''))),
       slack_fields [''*Total:* '' @ shown py_repr (get_or d ''total_accounts'' (JInt 0)),
         ''*Completed:* '' @ shown py_repr (get_or d ''completed_accounts'' (JInt 0)),
         ''*Failed:* '' @ shown py_repr (get_or d ''failed_accounts'' (JInt 0))]]
      @ slack_link py_repr (get_or d ''list_url'' (JStr [])) ''View List'')"

definition slack_pain :: "(json \<Rightarrow> string) \<Rightarrow> (string \<times> json) list \<Rightarrow> json" where
  "slack_pain py_repr d = (let company = shown py_repr (company_label d); pain = shown py_repr (get_or d ''pain_score'' (JInt 0))
     in slack_blocks ([slack_header (''High Pain Alert: '' @ company @ '' ('' @ pain @ '')''),
       slack_section (''*'' @ company @ ''* has a pain score of *'' @ pain @ ''* '' @ em_dash @
         '' this account may need immediate attention.'')]
      @ slack_link py_repr (get_or d ''doc_url'' (JStr [])) ''View Report''))"

definition slack_change :: "(json \<Rightarrow> string) \<Rightarrow> (string \<times> json) list \<Rightarrow> json" where
  "slack_change py_repr d = (let na = JStr ''N/A''; v = (\<lambda>k. shown py_repr (get_or d k na)); url = get_or d ''doc_url'' (JStr [])
     in slack_blocks ([slack_header (''Watchlist Alert: '' @ shown py_repr (company_label d)),
       slack_fields [''*Pain Score:* '' @ v ''old_pain_score'' @ '' -> '' @ v ''pain_score'',
         ''*Composite Score:* '' @ v ''old_composite_score'' @ '' -> '' @ v ''composite_score'']]
      @ (if truthy url then [slack_section (''<'' @ shown py_repr url @ ''|View Report> | <'' @
            shown py_repr (get_or d ''watchlist_url'' (JStr [])) @ ''|View Watchlist>'')] else [])))"

definition format_slack_message :: "(json \<Rightarrow> string) \<Rightarrow> string \<Rightarrow> (string \<times> json) list \<Rightarrow> json" where
  "format_slack_message py_repr event d =
     (if event = ''research_complete'' then slack_research py_repr d
      else if event = ''list_complete'' then slack_list py_repr d
      else if event = ''high_pain_alert'' then slack_pain py_repr d
      else if event = ''watchlist_significant_change'' then slack_change py_repr d
      else slack_blocks [slack_section (''Auggie event: *'' @ event @ ''*'' @ [CHR 0x0A] @ ''```'' @ py_repr (JDict d) @ ''```'')])"

section \<open>Microsoft Teams\<close>

definition text_block :: "string \<Rightarrow> json" where
  "text_block t = JDict [(''type'', JStr ''TextBlock''), (''text'', JStr t), (''wrap'', JBool True)]"

definition card_title :: "string \<Rightarrow> json" where
  "card_title t = JDict [(''type'', JStr ''TextBlock''), (''size'', JStr ''Medium''), (''weight'', JStr ''Bolder''), (''text'', JStr t)]"

definition card_column :: "string \<Rightarrow> json" where
  "card_column t = JDict [(''type'', JStr ''Column''), (''width'', JStr ''auto''), (''items'', JList [text_block t])]"

definition fact_set :: "(string \<times> string) list \<Rightarrow> json" where
  "fact_set facts = JDict [(''type'', JStr ''FactSet''),
     (''facts'', JList (map (\<lambda>(t, v). JDict [(''title'', JStr t), (''value'', JStr v)]) facts))]"

definition open_url :: "string \<Rightarrow> json \<Rightarrow> json list" where
  "open_url title url = (if truthy url
     then [JDict [(''type'', JStr ''Action.OpenUrl''), (''title'', JStr title), (''url'', url)]] else [])"

definition wrap_adaptive_card :: "json list \<Rightarrow> json list \<Rightarrow> json" where
  "wrap_adaptive_card body actions = JDict [(''type'', JStr ''message''), (''attachments'', JList [JDict
     [(''contentType'', JStr ''application/vnd.microsoft.card.adaptive''),
      (''content'', JDict ([(''$schema'', JStr ''http://adaptivecards.io/schemas/adaptive-card.json''),
         (''type'', JStr ''AdaptiveCard''), (''version'', JStr ''1.4''), (''body'', JList body)]
         @ (if actions \<noteq> [] then [(''actions'', JList actions)] else [])))]])]"

definition format_teams_message :: "(json \<Rightarrow> string) \<Rightarrow> string \<Rightarrow> (string \<times> json) list \<Rightarrow> json" where
  "format_teams_message py_repr event d =
     (let v = (\<lambda>k. shown py_repr (get_or d k (JStr ''N/A''))); company = shown py_repr (company_label d);
          report = open_url ''View Report'' (get_or d ''doc_url'' (JStr []))
      in if event = ''research_complete'' then wrap_adaptive_card [card_title (''Research Complete: '' @ company),
           JDict [(''type'', JStr ''ColumnSet''), (''columns'', JList [card_column (''**Pain Score:** '' @ v ''pain_score''),
             card_column (''**Composite Score:** '' @ v ''composite_score'')])]] report
      else if event = ''list_complete'' then
        (let n = (\<lambda>k. shown py_repr (get_or d k (JInt 0))) in wrap_adaptive_card
          [card_title (''List Analysis Complete: '' @ shown py_repr (get_or d ''list_name'' (JStr ''Unnamed List''))),
           fact_set [(''Total'', n ''total_accounts''), (''Completed'', n ''completed_accounts''), (''Failed'', n ''failed_accounts'')]]
          (open_url ''View List'' (get_or d ''list_url'' (JStr []))))
      else if event = ''high_pain_alert'' then
        (let pain = shown py_repr (get_or d ''pain_score'' (JInt 0)) in wrap_adaptive_card
          [card_title (''High Pain Alert: '' @ company @ '' ('' @ pain @ '')''),
           text_block (''**'' @ company @ ''** has a pain score of **'' @ pain @ ''** '' @ em_dash @
             '' this account may need immediate attention.'')] report)
      else if event = ''watchlist_significant_change'' then wrap_adaptive_card
          [card_title (''Watchlist Alert: '' @ company),
           fact_set [(''Pain Score'', v ''old_pain_score'' @ '' -> '' @ v ''pain_score''),
             (''Composite Score'', v ''old_composite_score'' @ '' -> '' @ v ''composite_score'')]] report
      else wrap_adaptive_card [text_block (''Auggie event: **'' @ event @ ''**'')] [])"

section \<open>Delivery\<close>

type_synonym poster = "string \<Rightarrow> json \<Rightarrow> int option"

definition delivered :: "poster \<Rightarrow> string \<Rightarrow> json \<Rightarrow> bool" where
  "delivered post url message = (case post url message of None \<Rightarrow> False | Some status \<Rightarrow> status < 400)"

definition send_slack_notification :: "(json \<Rightarrow> string) \<Rightarrow> poster \<Rightarrow> string \<Rightarrow> string \<Rightarrow> (string \<times> json) list \<Rightarrow> bool" where
  "send_slack_notification py_repr post url event d = delivered post url (format_slack_message py_repr event d)"

definition send_teams_notification :: "(json \<Rightarrow> string) \<Rightarrow> poster \<Rightarrow> string \<Rightarrow> string \<Rightarrow> (string \<times> json) list \<Rightarrow> bool" where
  "send_teams_notification py_repr post url event d = delivered post url (format_teams_message py_repr event d)"

definition apostrophe :: string where
  "apostrophe = [CHR 0x27]"

definition greeting :: string where
  "greeting = ''Auggie connected successfully! You'' @ apostrophe @ ''ll receive notifications here.''"

definition validate_webhook_url :: "poster \<Rightarrow> string \<Rightarrow> bool" where
  "validate_webhook_url post url \<longleftrightarrow> post url (slack_blocks [slack_section greeting]) = Some 200"

definition validate_teams_webhook_url :: "poster \<Rightarrow> string \<Rightarrow> bool" where
  "validate_teams_webhook_url post url \<longleftrightarrow> post url (wrap_adaptive_card [text_block greeting] []) = Some 200"

text \<open>The message about a task that failed for good, when an internal webhook is configured\<close>

definition task_failure_message :: "int \<Rightarrow> string \<Rightarrow> string \<Rightarrow> json" where
  "task_failure_message i ty error = slack_blocks [slack_header ''Task Failed (retries exhausted)'',
     slack_fields [''*Task ID:* '' @ str_int i, ''*Type:* '' @ ty],
     slack_section (''*Error:*'' @ [CHR 0x0A] @ ''```'' @ take 1000 error @ ''```'')]"

definition send_task_failure_alert :: "string \<Rightarrow> int \<Rightarrow> string \<Rightarrow> string \<Rightarrow> (string \<times> json) option" where
  "send_task_failure_alert url i ty error = (if url = [] then None else Some (url, task_failure_message i ty error))"

section \<open>What a message shows\<close>

text \<open>All texts of a message, in order\<close>

fun texts_of :: "json \<Rightarrow> string list" where
  "texts_of (JStr s) = [s]"
| "texts_of (JList js) = concat (map texts_of js)"
| "texts_of (JDict d) = concat (map (\<lambda>(k, v). texts_of v) d)"
| "texts_of j = []"

definition contains :: "string \<Rightarrow> string \<Rightarrow> bool" where
  "contains s t \<longleftrightarrow> (\<exists>a b. t = a @ s @ b)"

lemma contains_simps [simp]: "contains s s" "contains s (s @ b)" "contains s t \<Longrightarrow> contains s (a @ t)"
  unfolding contains_def by (metis append_Nil append_Nil2, metis append_Nil, metis append.assoc)

definition mentions :: "string \<Rightarrow> json \<Rightarrow> bool" where
  "mentions s j \<longleftrightarrow> (\<exists>t \<in> set (texts_of j). contains s t)"

lemmas slack_shapes = slack_blocks_def slack_header_def slack_fields_def slack_section_def mrkdwn_def slack_link_def
lemmas card_shapes = wrap_adaptive_card_def card_title_def card_column_def text_block_def fact_set_def open_url_def

lemma mentions_simps [simp]:
  "mentions s (JStr t) \<longleftrightarrow> contains s t" "mentions s (JList js) \<longleftrightarrow> (\<exists>j \<in> set js. mentions s j)"
  "mentions s (JDict d) \<longleftrightarrow> (\<exists>(k, v) \<in> set d. mentions s v)"
  by (auto simp: mentions_def)

lemma shape_shows:
  "contains s t \<Longrightarrow> mentions s (slack_header t)" "contains s t \<Longrightarrow> mentions s (slack_section t)"
  "(\<exists>t \<in> set ts. contains s t) \<Longrightarrow> mentions s (slack_fields ts)"
  "(\<exists>b \<in> set bs. mentions s b) \<Longrightarrow> mentions s (slack_blocks bs)"
  "contains s t \<Longrightarrow> mentions s (card_title t)" "contains s t \<Longrightarrow> mentions s (text_block t)"
  "contains s t \<Longrightarrow> mentions s (card_column t)" "(\<exists>f \<in> set fs. contains s (snd f)) \<Longrightarrow> mentions s (fact_set fs)"
  "(\<exists>b \<in> set bs. mentions s b) \<Longrightarrow> mentions s (wrap_adaptive_card bs as)"
  by (auto simp: slack_shapes card_shapes split_def)

text \<open>
  both channels name the company and its pain score in every message about a company.
\<close>

theorem alerts_show_company_and_pain:
  assumes "event \<in> {''research_complete'', ''high_pain_alert'', ''watchlist_significant_change''}"
    "map_of d ''company_name'' = Some (JStr name)" "map_of d ''pain_score'' = Some (JInt pain)"
    "m = format_slack_message py_repr event d \<or> m = format_teams_message py_repr event d"
  shows "mentions name m \<and> mentions (str_int pain) m"
proof -
  have c: "company_label d = JStr name" "get_or d ''pain_score'' x = JInt pain" for x
    using assms(2,3) by (simp_all add: company_label_def get_or_def)
  note defs = format_slack_message_def format_teams_message_def slack_research_def slack_pain_def slack_change_def Let_def
    c shown_def shape_shows
  show ?thesis
    using assms(1,4) by (elim insertE emptyE disjE) (simp_all add: defs del: append.simps)
qed

theorem alerts_show_company_and_pain_witness:
  "mentions ''Acme'' (format_teams_message (\<lambda>j. []) ''high_pain_alert'' [(''company_name'', JStr ''Acme''), (''pain_score'', JInt 85)]) \<and>
   mentions (str_int 85) (format_slack_message (\<lambda>j. []) ''research_complete'' [(''company_name'', JStr ''Acme''), (''pain_score'', JInt 85)])"
proof -
  let ?d = "[(''company_name'', JStr ''Acme''), (''pain_score'', JInt 85)]"
  have d: "map_of ?d ''company_name'' = Some (JStr ''Acme'')" "map_of ?d ''pain_score'' = Some (JInt 85)" by simp_all
  show ?thesis
    using alerts_show_company_and_pain [OF _ d, of "''high_pain_alert''" "format_teams_message (\<lambda>j. []) ''high_pain_alert'' ?d" "\<lambda>j. []"]
      alerts_show_company_and_pain [OF _ d, of "''research_complete''" "format_slack_message (\<lambda>j. []) ''research_complete'' ?d" "\<lambda>j. []"]
    by (simp del: mentions_simps)
qed

end
