(* ===== verification/Web_Integrations.thy ===== *)
theory Web_Integrations
  imports Web_List_Properties Notifications Sdk_Methods
begin

text \<open>
  Connections to other services: the table of \<open>db/integrations.py\<close>, the pages of
  \<open>routes/integrations.py\<close> and the OAuth flow of \<open>routes/_helpers.py\<close>. The exchange of a code for
  tokens and the HTTP client are arguments; pending OAuth states are kept in the session.
\<close>

section \<open>The table\<close>

record integration =
  in_user :: int
  in_provider :: string
  in_access :: string
  in_refresh :: "string option"
  in_expires :: "time option"
  in_metadata :: json

definition is_integration :: "int \<Rightarrow> string \<Rightarrow> integration \<Rightarrow> bool" where
  "is_integration uid p i \<longleftrightarrow> in_user i = uid \<and> in_provider i = p"

text \<open>
  The metadata are serialized before they reach the query, \<open>None\<close> as an empty object: the
  \<open>COALESCE\<close> of the query never finds them missing.
\<close>

definition upsert_integration ::
    "int \<Rightarrow> string \<Rightarrow> string \<Rightarrow> string option \<Rightarrow> time option \<Rightarrow> (string \<times> json) list option \<Rightarrow> integration list \<Rightarrow> integration list" where
  "upsert_integration uid p access refresh expires metadata d =
     (let m = JDict (coalesce metadata []) in
      if find (is_integration uid p) d = None
      then d @ [\<lparr>in_user = uid, in_provider = p, in_access = access, in_refresh = refresh, in_expires = expires, in_metadata = m\<rparr>]
      else update_where (is_integration uid p) (\<lambda>i. i\<lparr>in_access := access,
        in_refresh := (case refresh of None \<Rightarrow> in_refresh i | Some r \<Rightarrow> Some r), in_expires := expires, in_metadata := m\<rparr>) d)"

definition get_integration :: "int \<Rightarrow> string \<Rightarrow> integration list \<Rightarrow> integration option" where
  "get_integration uid p d = find (is_integration uid p) d"

definition get_user_integrations :: "(string \<Rightarrow> int) \<Rightarrow> int \<Rightarrow> integration list \<Rightarrow> integration list" where
  "get_user_integrations rank uid d = sort_key (\<lambda>i. rank (in_provider i)) (filter (\<lambda>i. in_user i = uid) d)"

definition delete_integration :: "int \<Rightarrow> string \<Rightarrow> integration list \<Rightarrow> integration list \<times> bool" where
  "delete_integration uid p d = (filter (\<lambda>i. \<not> is_integration uid p i) d, count_where (is_integration uid p) d = 1)"

definition update_integration_tokens ::
    "int \<Rightarrow> string \<Rightarrow> string \<Rightarrow> string option \<Rightarrow> time option \<Rightarrow> integration list \<Rightarrow> integration list" where
  "update_integration_tokens uid p access refresh expires d = update_where (is_integration uid p)
     (\<lambda>i. i\<lparr>in_access := access, in_refresh := (case refresh of None \<Rightarrow> in_refresh i | Some r \<Rightarrow> Some r), in_expires := expires\<rparr>) d"

section \<open>The OAuth flow\<close>

text \<open>The states of started flows, by provider, as the session keeps them\<close>

type_synonym oauth_states = "(string \<times> string) list"

definition oauth_connect :: "string \<Rightarrow> string \<Rightarrow> (string \<Rightarrow> string) \<Rightarrow> oauth_states \<Rightarrow> oauth_states \<times> answer" where
  "oauth_connect p state authorize_url ss = (AList.update p state ss, Moved 307 (authorize_url state))"

definition coded_refusal :: "int \<Rightarrow> string \<Rightarrow> string \<Rightarrow> answer" where
  "coded_refusal status code msg = Json status (JDict [(''error'', JDict [(''code'', JStr code), (''message'', JStr msg)])])"

record tokens =
  tn_access :: string
  tn_refresh :: "string option"
  tn_lifetime :: "time option"

text \<open>
  \<open>exchange\<close> gives the tokens for a code; it raises (\<open>None\<close>), or gives tokens without an access token
  (\<open>Some None\<close>), which raises later, outside of the handler of the exchange.
\<close>

definition oauth_callback ::
    "time \<Rightarrow> int \<Rightarrow> string \<Rightarrow> (string \<Rightarrow> tokens option option) \<Rightarrow> time \<Rightarrow> string option \<Rightarrow> string option \<Rightarrow>
     oauth_states \<Rightarrow> integration list \<Rightarrow> oauth_states \<times> integration list \<times> answer" where
  "oauth_callback now uid p exchange default_lifetime code state ss d =
     (if code \<in> {None, Some []} then (ss, d, coded_refusal 400 ''oauth_callback_missing_code''
        ''Authorization was not granted. Please try again.'')
      else if map_of ss p \<in> {None, Some []} \<or> state \<noteq> map_of ss p then
        (ss, d, coded_refusal 400 ''oauth_state_invalid'' ''OAuth session expired. Please try connecting again.'')
      else (let ss1 = AList.delete p ss in case exchange (the code) of
        None \<Rightarrow> (ss1, d, coded_refusal 502 ''oauth_token_exchange_failed'' ''Failed to complete authentication. Please try again.'')
      | Some None \<Rightarrow> (ss1, d, crashed)
      | Some (Some tn) \<Rightarrow> (ss1, upsert_integration uid p (tn_access tn) (tn_refresh tn)
          (Some (now + coalesce (tn_lifetime tn) default_lifetime)) None d, Moved 302 ''/integrations'')))"

definition google_sheets_connect :: "string \<Rightarrow> (string \<Rightarrow> string) \<Rightarrow> oauth_states \<Rightarrow> oauth_states \<times> answer" where
  "google_sheets_connect = oauth_connect ''google_sheets''"

definition google_sheets_callback ::
    "time \<Rightarrow> int \<Rightarrow> (string \<Rightarrow> tokens option option) \<Rightarrow> string option \<Rightarrow> string option \<Rightarrow>
     oauth_states \<Rightarrow> integration list \<Rightarrow> oauth_states \<times> integration list \<times> answer" where
  "google_sheets_callback now uid exchange = oauth_callback now uid ''google_sheets'' exchange (seconds 3600)"

section \<open>Pages\<close>

definition integrations_page :: "request \<Rightarrow> (string \<Rightarrow> int) \<Rightarrow> integration list \<Rightarrow> handler" where
  "integrations_page q rank d = onboarded q (\<lambda>s. case page_usage q s of
     (s1, None) \<Rightarrow> (s1, crashed)
   | (s1, Some u) \<Rightarrow> (s1, Page ''integrations.html'' [(''integrations'', JDict (map (\<lambda>i. (in_provider i, in_metadata i))
        (get_user_integrations rank (caller q) d))), (''credits_cents'', JInt (ug_credits u)), (''is_admin'', JBool (ug_is_admin u))]))"

definition webhook_connect :: "string \<Rightarrow> string \<Rightarrow> (string \<Rightarrow> bool) \<Rightarrow> int \<Rightarrow> string \<Rightarrow> integration list \<Rightarrow> integration list \<times> answer" where
  "webhook_connect p name valid uid raw d = (let url = py_strip raw in
     if url = [] then (d, Refused 400 ''Webhook URL is required'')
     else if \<not> valid url then (d, Refused 400 (''Invalid '' @ name @ '' webhook URL '' @ em_dash @ '' test message failed''))
     else (upsert_integration uid p url None None None d, succeeded []))"

definition slack_connect :: "poster \<Rightarrow> int \<Rightarrow> string \<Rightarrow> integration list \<Rightarrow> integration list \<times> answer" where
  "slack_connect post = webhook_connect ''slack'' ''Slack'' (validate_webhook_url post)"

definition teams_connect :: "poster \<Rightarrow> int \<Rightarrow> string \<Rightarrow> integration list \<Rightarrow> integration list \<times> answer" where
  "teams_connect post = webhook_connect ''teams'' ''Teams'' (validate_teams_webhook_url post)"

definition test_data :: "string \<Rightarrow> (string \<times> json) list" where
  "test_data app_url = [(''company_name'', JStr ''Test Company''), (''pain_score'', JInt 85), (''composite_score'', JInt 78),
     (''doc_url'', JStr (app_url @ ''/''))]"

definition webhook_test :: "string \<Rightarrow> string \<Rightarrow> (string \<Rightarrow> bool) \<Rightarrow> int \<Rightarrow> integration list \<Rightarrow> answer" where
  "webhook_test p name send uid d = (case get_integration uid p d of
     None \<Rightarrow> Refused 400 (name @ '' not connected'')
   | Some i \<Rightarrow> if send (in_access i) then succeeded [] else Refused 502 ''Failed to send test message'')"

definition slack_test :: "(json \<Rightarrow> string) \<Rightarrow> poster \<Rightarrow> string \<Rightarrow> int \<Rightarrow> integration list \<Rightarrow> answer" where
  "slack_test py_repr post app_url = webhook_test ''slack'' ''Slack''
     (\<lambda>url. send_slack_notification py_repr post url ''research_complete'' (test_data app_url))"

definition teams_test :: "(json \<Rightarrow> string) \<Rightarrow> poster \<Rightarrow> string \<Rightarrow> int \<Rightarrow> integration list \<Rightarrow> answer" where
  "teams_test py_repr post app_url = webhook_test ''teams'' ''Teams''
     (\<lambda>url. send_teams_notification py_repr post url ''research_complete'' (test_data app_url))"

section \<open>Disconnecting\<close>

definition deprecated_providers :: "string list" where
  "deprecated_providers = [''hubspot'', ''salesforce'', ''outreach'', ''salesloft'', ''gong_engage'', ''zoominfo'',
     ''instantly'', ''smartlead'', ''pdl'', ''lusha'', ''cognism'']"

definition back_to_integrations :: answer where
  "back_to_integrations = Moved 303 ''/integrations''"

definition deprecated_disconnect :: "string \<Rightarrow> int \<Rightarrow> integration list \<Rightarrow> integration list \<times> answer" where
  "deprecated_disconnect p uid d = (if p \<notin> set deprecated_providers then (d, Refused 404 ''Not found'')
     else (fst (delete_integration uid p d), back_to_integrations))"

definition slack_disconnect :: "int \<Rightarrow> integration list \<Rightarrow> integration list \<times> answer" where
  "slack_disconnect uid d = (fst (delete_integration uid ''slack'' d), back_to_integrations)"

definition teams_disconnect :: "int \<Rightarrow> integration list \<Rightarrow> integration list \<times> answer" where
  "teams_disconnect uid d = (fst (delete_integration uid ''teams'' d), back_to_integrations)"

definition google_sheets_disconnect :: "int \<Rightarrow> integration list \<Rightarrow> integration list \<times> answer" where
  "google_sheets_disconnect uid d = (fst (delete_integration uid ''google_sheets'' d), back_to_integrations)"

text \<open>The POST routes for disconnecting, in the order of their declaration\<close>

definition disconnect_table :: "(segment list \<times> (string list \<Rightarrow> int \<Rightarrow> integration list \<Rightarrow> integration list \<times> answer)) list" where
  "disconnect_table = (let path = (\<lambda>x. [Lit [], Lit ''integrations'', x, Lit ''disconnect'']) in
     [(path Par, \<lambda>xs. deprecated_disconnect (hd xs)),
      (path (Lit ''slack''), \<lambda>xs. slack_disconnect),
      (path (Lit ''teams''), \<lambda>xs. teams_disconnect),
      (path (Lit ''google_sheets''), \<lambda>xs. google_sheets_disconnect)])"

fun first_disconnect :: "(segment list \<times> (string list \<Rightarrow> int \<Rightarrow> integration list \<Rightarrow> integration list \<times> answer)) list \<Rightarrow>
    string list \<Rightarrow> int \<Rightarrow> integration list \<Rightarrow> integration list \<times> answer" where
  "first_disconnect [] path uid d = (d, Refused 404 ''Not Found'')"
| "first_disconnect ((p, h) # rs) path uid d = (case match_pattern p path of
     Some xs \<Rightarrow> h xs uid d | None \<Rightarrow> first_disconnect rs path uid d)"

definition post_disconnect :: "string \<Rightarrow> int \<Rightarrow> integration list \<Rightarrow> integration list \<times> answer" where
  "post_disconnect path = first_disconnect disconnect_table (py_split path ''/'')"

section \<open>Laws\<close>

lemma find_upsert:
  "find (is_integration uid p) (upsert_integration uid p access refresh expires metadata d) =
     Some \<lparr>in_user = uid, in_provider = p, in_access = access,
       in_refresh = (case refresh of Some r \<Rightarrow> Some r | None \<Rightarrow> Option.bind (get_integration uid p d) in_refresh),
       in_expires = expires, in_metadata = JDict (coalesce metadata [])\<rparr>"
proof (cases "find (is_integration uid p) d")
  case None
  then have "\<not> is_integration uid p i" if "i \<in> set d" for i using that by (auto simp: find_None_iff)
  then have "find (is_integration uid p) (d @ [x]) = (if is_integration uid p x then Some x else None)" for x
    by (induction d) auto
  then show ?thesis using None
    by (simp add: upsert_integration_def Let_def get_integration_def is_integration_def split: option.split)
next
  case (Some i)
  define f :: "integration \<Rightarrow> integration" where "f = (\<lambda>i. i\<lparr>in_access := access,
        in_refresh := (case refresh of None \<Rightarrow> in_refresh i | Some r \<Rightarrow> Some r), in_expires := expires,
        in_metadata := JDict (coalesce metadata [])\<rparr>)"
  have "is_integration uid p (f j) = is_integration uid p j" for j by (simp add: f_def is_integration_def)
  from find_update_other [where Q = "is_integration uid p" and f = f, OF this, of "is_integration uid p" d] Some
  have u: "find (is_integration uid p) (update_where (is_integration uid p) f d) = Some (f i)"
    by (auto simp: find_Some_iff)
  have "is_integration uid p i" using Some by (auto simp: find_Some_iff)
  then have "in_user i = uid" "in_provider i = p" by (simp_all add: is_integration_def)
  then have "f i = \<lparr>in_user = uid, in_provider = p, in_access = access,
      in_refresh = (case refresh of Some r \<Rightarrow> Some r | None \<Rightarrow> in_refresh i),
      in_expires = expires, in_metadata = JDict (coalesce metadata [])\<rparr>"
    by (cases i) (simp add: f_def split: option.split)
  with u Some show ?thesis by (simp add: upsert_integration_def Let_def f_def get_integration_def split: option.split)
qed

section \<open>Properties\<close>

text \<open>
  tokens are stored only for a flow that this session started: the callback needs the state that
  \<open>connect\<close> put there, uses it up, and after a success the stored tokens are those of the exchange.
\<close>

theorem oauth_state_required_once:
  assumes "oauth_callback now uid p exchange lifetime code state ss d = (ss', d', answer)" "d' \<noteq> d"
  shows "map_of ss p = state \<and> state \<noteq> None \<and> map_of ss' p = None \<and>
    (\<exists>c tn i. code = Some c \<and> exchange c = Some (Some tn) \<and> get_integration uid p d' = Some i \<and> in_access i = tn_access tn) \<and>
    snd (snd (oauth_callback now uid p exchange lifetime code state ss' d')) =
      coded_refusal 400 ''oauth_state_invalid'' ''OAuth session expired. Please try connecting again.''"
proof -
  have c: "code \<notin> {None, Some []}" and st: "map_of ss p \<notin> {None, Some []}" "state = map_of ss p"
    using assms by (auto simp: oauth_callback_def split: if_splits)
  obtain tn where tn: "exchange (the code) = Some (Some tn)"
    using assms c st by (auto simp: oauth_callback_def Let_def split: if_splits option.splits)
  have r: "ss' = AList.delete p ss" "d' = upsert_integration uid p (tn_access tn) (tn_refresh tn)
      (Some (now + coalesce (tn_lifetime tn) lifetime)) None d"
    using assms(1) c st tn by (auto simp: oauth_callback_def Let_def)
  have n: "map_of ss' p = None" by (simp add: r(1) AList.delete_conv')
  have "snd (snd (oauth_callback now uid p exchange lifetime code state ss' d')) =
      coded_refusal 400 ''oauth_state_invalid'' ''OAuth session expired. Please try connecting again.''"
    using c n by (auto simp: oauth_callback_def)
  moreover have "\<exists>i. get_integration uid p d' = Some i \<and> in_access i = tn_access tn"
    by (simp add: get_integration_def r(2) find_upsert)
  moreover obtain x where "code = Some x" using c by auto
  ultimately show ?thesis using st n tn by auto
qed

text \<open>
  Slack, Teams and Google Sheets can never be disconnected: their pages are shadowed by the page for
  deprecated providers, declared before them, which knows none of the three and changes nothing.
\<close>

theorem disconnect_pages_shadowed:
  assumes "p \<in> {''slack'', ''teams'', ''google_sheets''}"
  shows "post_disconnect (''/integrations/'' @ p @ ''/disconnect'') uid d = (d, Refused 404 ''Not found'')"
  using assms
  by (elim insertE emptyE)
    (simp_all add: post_disconnect_def disconnect_table_def py_split_def deprecated_disconnect_def deprecated_providers_def)

theorem disconnect_pages_shadowed_witness:
  "post_disconnect (''/integrations/'' @ ''teams'' @ ''/disconnect'') 1 [] = ([], Refused 404 ''Not found'')"
  by (rule disconnect_pages_shadowed) simp

theorem oauth_state_required_once_witness:
  "\<exists>d. oauth_callback 0 1 ''google_sheets'' (\<lambda>c. Some (Some \<lparr>tn_access = ''a'', tn_refresh = None, tn_lifetime = None\<rparr>)) 9
      (Some ''c'') (Some ''st'') [(''google_sheets'', ''st'')] [] = ([], d, Moved 302 ''/integrations'') \<and> length d = 1 \<and>
    snd (snd (oauth_callback 0 1 ''google_sheets'' (\<lambda>c. Some (Some \<lparr>tn_access = ''a'', tn_refresh = None, tn_lifetime = None\<rparr>)) 9
      (Some ''c'') (Some ''st'') [] d)) =
    coded_refusal 400 ''oauth_state_invalid'' ''OAuth session expired. Please try connecting again.''"
proof -
  let ?ex = "\<lambda>c. Some (Some \<lparr>tn_access = ''a'', tn_refresh = None, tn_lifetime = None\<rparr>)"
  let ?d = "upsert_integration 1 ''google_sheets'' ''a'' None (Some 9) None []"
  have r: "oauth_callback 0 1 ''google_sheets'' ?ex 9 (Some ''c'') (Some ''st'') [(''google_sheets'', ''st'')] [] =
      ([], ?d, Moved 302 ''/integrations'')" by (simp add: oauth_callback_def)
  have "?d \<noteq> []" "length ?d = 1" by (simp_all add: upsert_integration_def)
  with oauth_state_required_once [OF r] r show ?thesis by blast
qed

end
