(* ===== verification/Web_Admin.thy ===== *)
theory Web_Admin
  imports Web_List_Properties Billing Api_Isolation
begin

text \<open>
  The administration pages (\<open>routes/admin.py\<close>), the team pages (\<open>routes/team.py\<close>) and the statistics
  of \<open>db/orgs.py\<close>, \<open>db/users.py\<close> and \<open>db/feedback.py\<close> they show. Times of creation that the tables of the model
  do not carry, of users and of feedback, are arguments.
\<close>

section \<open>Statistics\<close>

text \<open>\<open>LIKE\<close>: a percent sign matches any text, an underscore any character, a backslash quotes the next.\<close>

fun sql_like :: "string \<Rightarrow> string \<Rightarrow> bool" where
  "sql_like [] s = (s = [])"
| "sql_like (p # ps) [] = (p = CHR ''%'' \<and> sql_like ps [])"
| "sql_like (p # ps) (c # s) =
     (if p = CHR ''%'' then sql_like ps (c # s) \<or> sql_like (p # ps) s
      else if p = CHR ''_'' then sql_like ps s
      else if p = CHR 0x5C then (case ps of [] \<Rightarrow> False | q # qs \<Rightarrow> q = c \<and> sql_like qs s)
      else p = c \<and> sql_like ps s)"

definition ilike_contains :: "string \<Rightarrow> string \<Rightarrow> bool" where
  "ilike_contains text_value part = sql_like (py_lower (''%'' @ part @ ''%'')) (py_lower text_value)"

record user_stats =
  as_user :: user_row
  as_org :: "org_row option"
  as_docs :: nat
  as_lists :: nat

definition user_statistics :: "server \<Rightarrow> user_row \<Rightarrow> user_stats" where
  "user_statistics v u = \<lparr>as_user = u, as_org = Option.bind (us_org u) (org_row_of (sv_accounts v)),
     as_docs = length (filter (\<lambda>r. dc_user r = us_id u) (dt_rows (sv_docs v))),
     as_lists = length (filter (\<lambda>l. ls_user l = us_id u) (ld_lists (sv_lists v)))\<rparr>"

text \<open>A negative offset is an error of the database.\<close>

definition list_all_users_admin ::
    "(int \<Rightarrow> time) \<Rightarrow> nat \<Rightarrow> int \<Rightarrow> string \<Rightarrow> server \<Rightarrow> user_stats list option" where
  "list_all_users_admin created limit offset search v = (if offset < 0 then None
     else Some (map (user_statistics v) (take limit (drop (nat offset) (sort_key (\<lambda>u. - created (us_id u))
       (filter (\<lambda>u. search = [] \<or> ilike_contains (us_email u) search \<or> ilike_contains (us_name u) search)
         (ac_users (sv_accounts v))))))))"

definition get_all_orgs_stats :: "server \<Rightarrow> (org_row \<times> nat \<times> nat) list" where
  "get_all_orgs_stats v = (let a = sv_accounts v in map (\<lambda>g. (g,
       length (filter (\<lambda>m. mb_org m = og_id g) (ac_members a)),
       length (filter (\<lambda>r. org_of_user a (dc_user r) = Some (og_id g)) (dt_rows (sv_docs v)))))
     (sort_key (\<lambda>g. - og_bonus g) (ac_orgs a)))"

definition recent_docs_of :: "time \<Rightarrow> int \<Rightarrow> server \<Rightarrow> document list" where
  "recent_docs_of since uid v = filter (\<lambda>r. dc_user r = uid \<and> dr_created r > since) (dt_rows (sv_docs v))"

text \<open>A member with the number of recent documents and the time of the last\<close>

definition get_org_usage_breakdown :: "time \<Rightarrow> int \<Rightarrow> int \<Rightarrow> server \<Rightarrow> (user_row \<times> role \<times> nat \<times> time option) list" where
  "get_org_usage_breakdown now oid n v = sort_key (\<lambda>(u, r, k, t). - int k)
     (concat (map (\<lambda>m. case user_of (sv_accounts v) (mb_user m) of None \<Rightarrow> []
       | Some u \<Rightarrow> (let ds = recent_docs_of (now - days n) (us_id u) v
           in [(u, mb_role m, length ds, if ds = [] then None else Some (Max (set (map dr_created ds))))]))
       (filter (\<lambda>m. mb_org m = oid) (ac_members (sv_accounts v)))))"

definition get_org_documents :: "nat \<Rightarrow> int \<Rightarrow> server \<Rightarrow> (document \<times> user_row) list" where
  "get_org_documents limit oid v = take limit (sort_key (\<lambda>(r, u). - dr_created r)
     (concat (map (\<lambda>r. case user_of (sv_accounts v) (dc_user r) of None \<Rightarrow> []
        | Some u \<Rightarrow> if us_org u = Some oid then [(r, u)] else []) (dt_rows (sv_docs v)))))"

definition user_has_data :: "int \<Rightarrow> server \<Rightarrow> bool" where
  "user_has_data uid v = list_ex (\<lambda>r. dc_user r = uid) (dt_rows (sv_docs v))"

text \<open>All feedback, of every user, with the document it is about\<close>

definition get_all_feedback ::
    "(int \<times> int \<Rightarrow> time) \<Rightarrow> nat \<Rightarrow> site \<Rightarrow> (document \<times> int \<times> bool \<times> string option) list" where
  "get_all_feedback created limit s = take limit (concat (map (\<lambda>((i, u), (p, c)).
       case find (\<lambda>r. dc_id r = i) (dt_rows (sv_docs (tables s))) of None \<Rightarrow> [] | Some r \<Rightarrow> [(r, u, p, c)])
     (sort_key (\<lambda>(k, x). - created k) (si_feedback s))))"

section \<open>Administration\<close>

definition stats_json :: "user_stats \<Rightarrow> json" where
  "stats_json x = (let u = as_user x in JDict [(''id'', JInt (us_id u)), (''email'', JStr (us_email u)), (''name'', JStr (us_name u)),
     (''is_admin'', JBool (us_is_admin u)), (''org_name'', jopt (\<lambda>g. JStr (og_name g)) (as_org x)),
     (''bonus_credits'', jopt (\<lambda>g. JInt (og_bonus g)) (as_org x)), (''doc_count'', JInt (int (as_docs x))),
     (''list_count'', JInt (int (as_lists x)))])"

definition task_status_text :: "task_status \<Rightarrow> string" where
  "task_status_text st = (case st of Pending \<Rightarrow> ''pending'' | Running \<Rightarrow> ''running'' | Completed \<Rightarrow> ''completed'' | Failed \<Rightarrow> ''failed'')"

definition queue_json :: "task_db \<Rightarrow> json" where
  "queue_json d = JDict (concat (map (\<lambda>st. case get_queue_stats d st of None \<Rightarrow> [] | Some n \<Rightarrow> [(task_status_text st, JInt n)])
     [Pending, Running, Completed, Failed]))"

definition admin_dashboard :: "(int \<Rightarrow> time) \<Rightarrow> string \<Rightarrow> string \<Rightarrow> string option \<Rightarrow> handler" where
  "admin_dashboard created search page_text impersonating s = (s, case py_int page_text of
     None \<Rightarrow> crashed
   | Some page \<Rightarrow> (case list_all_users_admin created 50 ((page - 1) * 50) search (tables s) of
       None \<Rightarrow> crashed
     | Some us \<Rightarrow> Page ''admin_dashboard.html'' [(''users'', JList (map stats_json us)), (''search'', JStr search),
         (''page'', JInt page), (''queue_stats'', queue_json (sv_queue (tables s))),
         (''failed_tasks'', JList (map (\<lambda>t. JInt (tk_id t)) (get_failed_tasks 50 (sv_queue (tables s))))),
         (''orgs'', JList (map (\<lambda>(g, m, n). JDict [(''id'', JInt (og_id g)), (''name'', JStr (og_name g)), (''slug'', JStr (og_slug g)),
            (''bonus_credits'', JInt (og_bonus g)), (''member_count'', JInt (int m)), (''doc_count'', JInt (int n))])
            (get_all_orgs_stats (tables s)))),
         (''total_revenue_dollars'', JInt (snd (get_revenue_stats (sv_accounts (tables s))))),
         (''is_admin'', JBool True), (''impersonating_as'', jopt JStr impersonating)]))"

definition queue_depth :: handler where
  "queue_depth s = (s, Json 200 (queue_json (sv_queue (tables s))))"

definition toggle_user_admin :: "request \<Rightarrow> int \<Rightarrow> handler" where
  "toggle_user_admin q uid s = (if uid = caller q then (s, Refused 400 ''Cannot toggle your own admin status'')
     else (case toggle_admin uid (sv_accounts (tables s)) of (a, b) \<Rightarrow>
       (on_tables (\<lambda>v. v\<lparr>sv_accounts := a\<rparr>) s, Json 200 (JDict [(''is_admin'', JBool b)]))))"

definition add_user_credits :: "int \<Rightarrow> int \<Rightarrow> handler" where
  "add_user_credits uid amount s = (if amount \<le> 0 \<or> amount > 10000 then (s, Refused 400 ''Amount must be between 1 and 10000'')
     else (case add_credits uid amount (sv_accounts (tables s)) of
       Inl e \<Rightarrow> (s, crashed)
     | Inr (a, b) \<Rightarrow> (on_tables (\<lambda>v. v\<lparr>sv_accounts := a\<rparr>) s, Json 200 (JDict [(''new_balance_cents'', JInt b)]))))"

definition retry_task :: "int \<Rightarrow> handler" where
  "retry_task i s = (case retry_failed_task i (sv_queue (tables s)) of
     (d, True) \<Rightarrow> (on_tables (\<lambda>v. v\<lparr>sv_queue := d\<rparr>) s, Json 200 (JDict [(''status'', JStr ''requeued'')]))
   | (d, False) \<Rightarrow> (on_tables (\<lambda>v. v\<lparr>sv_queue := d\<rparr>) s, Refused 404 ''Task not found or not in failed state''))"

text \<open>The session of an administrator who acts as another user\<close>

record admin_session = session +
  ss_original :: "int option"
  ss_acting :: "string option"

definition impersonate_user :: "request \<Rightarrow> int \<Rightarrow> accounts \<Rightarrow> admin_session \<Rightarrow> admin_session \<times> answer" where
  "impersonate_user q uid a ss = (case get_user_by_id (rq_tie q) uid a of
     None \<Rightarrow> (ss, Refused 404 ''User not found'')
   | Some t \<Rightarrow> (ss\<lparr>ss_original := Some (caller q), ss_user := Some uid, ss_acting := Some (us_email (vw_user t))\<rparr>, Moved 303 ''/''))"

definition stop_impersonation :: "admin_session \<Rightarrow> admin_session \<times> answer" where
  "stop_impersonation ss = (if ss_original ss \<in> {None, Some 0} then (ss, Refused 400 ''Not impersonating'')
     else (ss\<lparr>ss_user := ss_original ss, ss_original := None, ss_acting := None\<rparr>, Moved 303 ''/admin''))"

section \<open>Team pages\<close>

definition role_text :: "role \<Rightarrow> string" where
  "role_text r = (case r of Admin \<Rightarrow> ''admin'' | Member \<Rightarrow> ''member'' | Viewer \<Rightarrow> ''viewer'')"

definition member_json :: "user_row \<times> role \<times> time \<Rightarrow> json" where
  "member_json x = (case x of (u, r, t) \<Rightarrow> JDict [(''id'', JInt (us_id u)), (''email'', JStr (us_email u)), (''name'', JStr (us_name u)),
     (''role'', JStr (role_text r))])"

definition team_settings :: "request \<Rightarrow> handler" where
  "team_settings q = onboarded q (\<lambda>s. case us_org (vw_user (rq_user q)) of
     None \<Rightarrow> (s, Refused 400 ''No organization found'')
   | Some oid \<Rightarrow> (let a = sv_accounts (tables s); admin = (vw_role (rq_user q) = Some Admin) in
       case page_usage q s of
         (s1, None) \<Rightarrow> (s1, crashed)
       | (s1, Some u) \<Rightarrow> (s1, Page ''team_settings.html'' [(''org'', jopt (\<lambda>g. JStr (og_name g)) (get_org oid a)),
           (''members'', JList (map member_json (get_org_members oid a))),
           (''invites'', JList (map (\<lambda>(v, by_name). JStr (iv_email v))
              (if admin then get_pending_invites (request_time q) oid a else []))),
           (''is_admin'', JBool admin), (''credits_cents'', JInt (ug_credits u))])))"

definition as_org_admin :: "request \<Rightarrow> handler \<Rightarrow> handler" where
  "as_org_admin q h s = (if vw_role (rq_user q) = Some Admin then h s else (s, Refused 403 ''Admin access required''))"

text \<open>An unknown role becomes a member; an administrator without organization violates the table.\<close>

definition team_invite :: "request \<Rightarrow> string \<Rightarrow> string \<Rightarrow> string \<Rightarrow> handler" where
  "team_invite q token email r = as_org_admin q (\<lambda>s. case us_org (vw_user (rq_user q)) of
     None \<Rightarrow> (s, crashed)
   | Some oid \<Rightarrow> (case create_org_invite (request_time q) token oid email (coalesce (role_of_string r) Member) (caller q)
         (sv_accounts (tables s)) of
       Inl e \<Rightarrow> (s, crashed)
     | Inr (a, v) \<Rightarrow> (on_tables (\<lambda>v. v\<lparr>sv_accounts := a\<rparr>) s, Moved 302 (''/settings/team?invited='' @ email))))"

definition on_own_org :: "request \<Rightarrow> (int \<Rightarrow> accounts \<Rightarrow> accounts) \<Rightarrow> site \<Rightarrow> site" where
  "on_own_org q f s = (case us_org (vw_user (rq_user q)) of None \<Rightarrow> s
     | Some oid \<Rightarrow> on_tables (\<lambda>v. v\<lparr>sv_accounts := f oid (sv_accounts v)\<rparr>) s)"

definition back_to_team :: answer where
  "back_to_team = Moved 302 ''/settings/team''"

definition team_remove :: "request \<Rightarrow> int \<Rightarrow> handler" where
  "team_remove q uid = as_org_admin q (\<lambda>s. if uid = caller q then (s, Refused 400 ''Cannot remove yourself'')
     else (on_own_org q (\<lambda>oid a. fst (remove_org_member oid uid a)) s, back_to_team))"

definition team_change_role :: "request \<Rightarrow> int \<Rightarrow> string \<Rightarrow> handler" where
  "team_change_role q uid r = as_org_admin q (\<lambda>s. if uid = caller q then (s, Refused 400 ''Cannot change your own role'')
     else (case role_of_string r of None \<Rightarrow> (s, Refused 400 ''Invalid role'')
       | Some role \<Rightarrow> (on_own_org q (\<lambda>oid a. fst (update_member_role oid uid role a)) s, back_to_team)))"

definition team_revoke_invite :: "request \<Rightarrow> int \<Rightarrow> handler" where
  "team_revoke_invite q i = as_org_admin q (\<lambda>s. (on_own_org q (\<lambda>oid a. fst (revoke_invite i oid a)) s, back_to_team))"

definition invite_landing :: "time \<Rightarrow> string \<Rightarrow> handler" where
  "invite_landing now token s = (s, case get_invite_by_token token (sv_accounts (tables s)) of
     None \<Rightarrow> Refused 404 ''Invite not found or expired''
   | Some (v, org_name) \<Rightarrow> if iv_accepted v \<noteq> None then Refused 400 ''Invite already accepted''
       else if iv_expires v < now then Refused 400 ''Invite has expired''
       else Page ''invite_accept.html'' [(''email'', JStr (iv_email v)), (''org_name'', JStr org_name), (''token'', JStr token)])"

text \<open>Without a signed-in user the token is put into the session, which no other code reads.\<close>

definition accept_invite_page :: "request option \<Rightarrow> string \<Rightarrow> site \<Rightarrow> site \<times> string option \<times> answer" where
  "accept_invite_page viewer token s = (case viewer of
     None \<Rightarrow> (s, Some token, Moved 302 ''/auth/login'')
   | Some q \<Rightarrow> (if user_has_data (caller q) (tables s) \<and> us_org (vw_user (rq_user q)) \<noteq> None
       then (s, None, Refused 400 ''You have existing research data. Please contact support to transfer your data before joining a team.'')
       else (case accept_invite (request_time q) token (caller q) (sv_accounts (tables s)) of
         Inl e \<Rightarrow> (s, None, crashed)
       | Inr (a, None) \<Rightarrow> (on_tables (\<lambda>v. v\<lparr>sv_accounts := a\<rparr>) s, None, Refused 400 ''Invite is invalid or expired'')
       | Inr (a, Some v) \<Rightarrow> (on_tables (\<lambda>v. v\<lparr>sv_accounts := a\<rparr>) s, None, Moved 302 ''/?joined_team=true''))))"

definition feedback_json :: "document \<times> int \<times> bool \<times> string option \<Rightarrow> json" where
  "feedback_json x = (case x of (r, u, p, c) \<Rightarrow> JDict [(''document_id'', JInt (dc_id r)), (''user_id'', JInt u),
     (''is_positive'', JBool p), (''comment'', jopt JStr c), (''company_name'', JStr (dr_name r))])"

definition team_usage_dashboard :: "request \<Rightarrow> (int \<times> int \<Rightarrow> time) \<Rightarrow> handler" where
  "team_usage_dashboard q created = as_org_admin q (\<lambda>s. case page_usage q s of
     (s1, None) \<Rightarrow> (s1, crashed)
   | (s1, Some u) \<Rightarrow> (s1, Page ''usage_dashboard.html''
       [(''breakdown'', JList (map (\<lambda>(m, r, k, t). JDict [(''id'', JInt (us_id m)), (''role'', JStr (role_text r)), (''research_count'', JInt (int k)),
           (''last_activity'', jopt (jtime q) t)]) (case us_org (vw_user (rq_user q)) of None \<Rightarrow> []
           | Some oid \<Rightarrow> get_org_usage_breakdown (request_time q) oid 30 (tables s)))),
        (''credits_cents'', JInt (ug_credits u)), (''is_admin'', JBool True),
        (''feedback_list'', JList (map feedback_json (get_all_feedback created 50 s)))]))"

section \<open>Properties\<close>

text \<open>
  an administrator who acts as another user gets the own session back; but one who acts through a
  second administrator returns only to that one.
\<close>

theorem impersonation_undone:
  assumes "impersonate_user q t a ss = (ss1, Moved 303 ''/'')" "caller q \<noteq> 0"
  shows "ss_user ss1 = Some t \<and>
    (\<exists>ss2. stop_impersonation ss1 = (ss2, Moved 303 ''/admin'') \<and> ss_user ss2 = Some (caller q) \<and>
       ss_original ss2 = None \<and> ss_acting ss2 = None) \<and>
    (\<forall>q' t' ss3. caller q' = t \<and> t \<noteq> 0 \<and> impersonate_user q' t' a ss1 = (ss3, Moved 303 ''/'') \<longrightarrow>
       ss_user (fst (stop_impersonation ss3)) = Some t)"
  using assms by (auto simp: impersonate_user_def stop_impersonation_def split: option.splits)

definition outside :: "int \<Rightarrow> accounts \<Rightarrow> member_row list \<times> invite_row list" where
  "outside oid a = (filter (\<lambda>m. mb_org m \<noteq> oid) (ac_members a), filter (\<lambda>v. iv_org v \<noteq> oid) (ac_invites a))"

lemma invite_outside:
  "create_org_invite now token oid email r u a = Inr (a', v) \<Longrightarrow> outside oid a' = outside oid a"
  by (auto simp: create_org_invite_def outside_def Let_def same_invite_def intro!: filter_update_other split: if_splits option.splits)

lemma members_outside:
  "outside oid (fst (remove_org_member oid uid a)) = outside oid a"
  "outside oid (fst (update_member_role oid uid role a)) = outside oid a"
  "outside oid (fst (revoke_invite i oid a)) = outside oid a"
  by (auto simp: outside_def remove_org_member_def update_member_role_def revoke_invite_def is_member_def is_invite_def
      intro!: filter_update_other filter_cong)

text \<open>
  the team pages of an organization change only its own members and invites, and nothing for a user
  who is no administrator.
\<close>

theorem team_pages_stay_in_org:
  assumes "us_org (vw_user (rq_user q)) = Some oid"
    "h \<in> {team_invite q token email r, team_remove q uid, team_change_role q uid r, team_revoke_invite q i}"
  shows "outside oid (sv_accounts (tables (fst (h s)))) = outside oid (sv_accounts (tables s)) \<and>
    (vw_role (rq_user q) \<noteq> Some Admin \<longrightarrow> h s = (s, Refused 403 ''Admin access required''))"
  using assms
  by (elim insertE emptyE)
    (auto simp: team_invite_def team_remove_def team_change_role_def team_revoke_invite_def as_org_admin_def on_own_org_def
      members_outside invite_outside split: option.split sum.split)

text \<open>
  the usage page of a team shows the feedback of everyone: with at most fifty entries in the system,
  each of them, of whatever organization, is on the page of every team administrator.
\<close>

theorem usage_page_shows_foreign_feedback:
  assumes "vw_role (rq_user q) = Some Admin" "page_usage q s = (s1, Some u)" "length (si_feedback s) \<le> 50"
    "((i, uid), (p, c)) \<in> set (si_feedback s)" "find (\<lambda>r. dc_id r = i) (dt_rows (sv_docs (tables s))) = Some r"
  shows "\<exists>entries es. snd (team_usage_dashboard q created s) = Page ''usage_dashboard.html'' entries \<and>
    map_of entries ''feedback_list'' = Some (JList es) \<and> feedback_json (r, uid, p, c) \<in> set es"
proof -
  define g where "g = (\<lambda>((i, u), (p, c)). case find (\<lambda>r. dc_id r = i) (dt_rows (sv_docs (tables s))) of
      None \<Rightarrow> [] | Some r \<Rightarrow> [(r, u :: int, p :: bool, c :: string option)])"
  define xs where "xs = sort_key (\<lambda>(k, x). - created k) (si_feedback s)"
  have l: "length (concat (map g ys)) \<le> length ys" for ys
    by (induction ys) (auto simp: g_def split: option.split)
  have "length (concat (map g xs)) \<le> 50" using l [of xs] assms(3) by (simp add: xs_def)
  then have f: "get_all_feedback created 50 s = concat (map g xs)"
    by (simp add: get_all_feedback_def g_def xs_def)
  have "(r, uid, p, c) \<in> set (concat (map g xs))"
    using assms(4,5) by (auto simp: xs_def g_def intro!: bexI [of _ "((i, uid), (p, c))"])
  then show ?thesis
    using assms(1,2) by (simp add: team_usage_dashboard_def as_org_admin_def f)
qed

text \<open>
  credits given by hand arrive in full at the organization of the user, and nowhere else.
\<close>

theorem hand_credits_exact:
  assumes "org_of_user (sv_accounts (tables s)) uid = Some oid" "balance_of (sv_accounts (tables s)) oid = Some b"
    "0 < amount" "amount \<le> 10000"
  shows "snd (add_user_credits uid amount s) = Json 200 (JDict [(''new_balance_cents'', JInt (b + amount * 100))]) \<and>
    balance_of (sv_accounts (tables (fst (add_user_credits uid amount s)))) =
      (balance_of (sv_accounts (tables s)))(oid \<mapsto> b + amount * 100)"
proof -
  have "credit_org uid (amount * 100) (sv_accounts (tables s)) =
      (add_to_org oid (amount * 100) (sv_accounts (tables s)), Some (oid, b + amount * 100))"
    using assms(1,2) by (simp add: credit_org_def)
  then show ?thesis
    using assms by (simp add: add_user_credits_def add_credits_def fun_eq_iff balance_of_add_to_org)
qed

section \<open>The properties on the sample site\<close>

definition blank_session :: admin_session where
  "blank_session = \<lparr>ss_user = Some 1, ss_next = None, ss_state = None, ss_original = None, ss_acting = None\<rparr>"

theorem impersonation_undone_witness:
  "\<exists>ss1 ss2. impersonate_user page_request 2 office blank_session = (ss1, Moved 303 ''/'') \<and> ss_user ss1 = Some 2 \<and>
     stop_impersonation ss1 = (ss2, Moved 303 ''/admin'') \<and> ss_user ss2 = Some 1"
proof -
  have "get_user_by_id (rq_tie page_request) 2 office \<noteq> None"
    by (simp add: get_user_by_id_def user_of_def office_def new_user_def Let_def split: option.splits)
  then obtain ss1 where r: "impersonate_user page_request 2 office blank_session = (ss1, Moved 303 ''/'')"
    by (auto simp: impersonate_user_def)
  from impersonation_undone [OF this] r show ?thesis by auto
qed

theorem team_pages_stay_in_org_witness:
  "outside 1 (sv_accounts (tables (fst (team_remove page_request 2 (site_with no_lists))))) = outside 1 office"
  using team_pages_stay_in_org [of page_request 1 "team_remove page_request 2" "[]" "[]" "[]" 2 0 "site_with no_lists"]
  by (simp add: page_request_def office_user_def)

theorem hand_credits_exact_witness:
  "balance_of (sv_accounts (tables (fst (add_user_credits 2 7 (site_with no_lists))))) 1 = Some 950"
  using hand_credits_exact [of "site_with no_lists" 2 1 250 7]
  by (simp add: org_of_user_def user_of_def balance_of_def org_row_of_def office_def new_user_def)

theorem usage_page_shows_foreign_feedback_witness:
  "\<exists>s entries es r. snd (team_usage_dashboard page_request (\<lambda>k. 0) s) = Page ''usage_dashboard.html'' entries \<and>
     map_of entries ''feedback_list'' = Some (JList es) \<and> feedback_json (r, 3, True, Some ''great'') \<in> set es \<and>
     org_of_user (sv_accounts (tables s)) 3 \<noteq> org_of_user (sv_accounts (tables s)) (caller page_request)"
proof -
  define s where "s = (on_tables (\<lambda>v. v\<lparr>sv_docs := insert_document 3 acme_draft ''a'' no_docs\<rparr>) (site_with no_lists))
      \<lparr>si_feedback := [((1, 3), (True, Some ''great''))]\<rparr>"
  have t: "tables s = (server_with [])\<lparr>sv_lists := no_lists, sv_docs := insert_document 3 acme_draft ''a'' no_docs\<rparr>"
      "si_feedback s = [((1, 3), (True, Some ''great''))]"
    by (simp_all add: s_def tables_def on_tables_def on_api_def on_server_def site_with_def sample_api_def)
  obtain s1 where u: "page_usage page_request s = (s1, Some (usage_of office office_user))"
    by (rule office_site_usage [of s]) (simp_all add: t)
  obtain r where r: "find (\<lambda>r. dc_id r = 1) (dt_rows (sv_docs (tables s))) = Some r"
    by (simp add: t insert_document_def no_docs_def)
  have "vw_role (rq_user page_request) = Some Admin" by (simp add: page_request_def office_view_def)
  moreover have "org_of_user office 3 = None" "org_of_user office 1 = Some 1"
    by (simp_all add: org_of_user_def user_of_def office_def new_user_def)
  ultimately show ?thesis
    using usage_page_shows_foreign_feedback [OF _ u _ _ r, of 3 True "Some ''great''" "\<lambda>k. 0"] t
    by (intro exI [of _ s]) auto
qed

end
