(* ===== verification/Py_Regex.thy ===== *)
theory Py_Regex
  imports Py_Strings
begin

text \<open>
  The part of Python's module \<open>re\<close> that the code uses. A pattern is a datatype; a matcher lists the
  ends of its matches at a position in the order in which backtracking tries them, so the first is
  the match Python takes. Repetition is of single characters, which is all the patterns need, and
  groups are not nested.
\<close>

section \<open>Patterns\<close>

datatype rx =
    Eps
  | One "char \<Rightarrow> bool"
  | Star "char \<Rightarrow> bool"
  | Lazy "char \<Rightarrow> bool"
  | Then rx rx
  | Or rx rx
  | Maybe rx
  | Group rx
  | Line_Start
  | Text_Start
  | Line_End
  | Text_End
  | Word_Edge
  | Peek rx
  | Not_After "char \<Rightarrow> bool"
  | Not_Before "char \<Rightarrow> bool"

text \<open>A position: the text before it, reversed, the text after it, and the groups captured so far\<close>

record place =
  pl_before :: string
  pl_after :: string
  pl_groups :: "string list"

definition rx_newline :: char where
  "rx_newline = CHR 0x0A"

definition word_char :: "char \<Rightarrow> bool" where
  "word_char c \<longleftrightarrow> (let n = (of_char c :: nat) in 48 \<le> n \<and> n \<le> 57 \<or> 65 \<le> n \<and> n \<le> 90 \<or> 97 \<le> n \<and> n \<le> 122 \<or> n = 95)"

definition starts_word :: "string \<Rightarrow> bool" where
  "starts_word s = (case s of [] \<Rightarrow> False | c # t \<Rightarrow> word_char c)"

definition next_is :: "(char \<Rightarrow> bool) \<Rightarrow> string \<Rightarrow> bool" where
  "next_is C s = (case s of [] \<Rightarrow> False | c # t \<Rightarrow> C c)"

text \<open>All ways to pass over characters of a class, the shortest first\<close>

fun passes :: "(char \<Rightarrow> bool) \<Rightarrow> string \<Rightarrow> string \<Rightarrow> (string \<times> string) list" where
  "passes C b [] = [(b, [])]"
| "passes C b (c # s) = (b, c # s) # (if C c then passes C (c # b) s else [])"

definition runs :: "(char \<Rightarrow> bool) \<Rightarrow> place \<Rightarrow> place list" where
  "runs C p = map (\<lambda>(b, s). p\<lparr>pl_before := b, pl_after := s\<rparr>) (passes C (pl_before p) (pl_after p))"

definition between :: "place \<Rightarrow> place \<Rightarrow> string" where
  "between p q = rev (take (length (pl_before q) - length (pl_before p)) (pl_before q))"

text \<open>\<open>$\<close> without a flag also stands before a final line break.\<close>

primrec matches :: "rx \<Rightarrow> place \<Rightarrow> place list" where
  "matches Eps p = [p]"
| "matches (One C) p = (case pl_after p of [] \<Rightarrow> []
     | c # s \<Rightarrow> if C c then [p\<lparr>pl_before := c # pl_before p, pl_after := s\<rparr>] else [])"
| "matches (Star C) p = rev (runs C p)"
| "matches (Lazy C) p = runs C p"
| "matches (Then r r') p = concat (map (matches r') (matches r p))"
| "matches (Or r r') p = matches r p @ matches r' p"
| "matches (Maybe r) p = matches r p @ [p]"
| "matches (Group r) p = map (\<lambda>q. q\<lparr>pl_groups := pl_groups q @ [between p q]\<rparr>) (matches r p)"
| "matches Line_Start p = (if pl_before p = [] \<or> hd (pl_before p) = rx_newline then [p] else [])"
| "matches Text_Start p = (if pl_before p = [] then [p] else [])"
| "matches Line_End p = (if pl_after p = [] \<or> hd (pl_after p) = rx_newline then [p] else [])"
| "matches Text_End p = (if pl_after p \<in> {[], [rx_newline]} then [p] else [])"
| "matches Word_Edge p = (if starts_word (pl_before p) \<noteq> starts_word (pl_after p) then [p] else [])"
| "matches (Peek r) p = (if matches r p = [] then [] else [p])"
| "matches (Not_After C) p = (if next_is C (pl_before p) then [] else [p])"
| "matches (Not_Before C) p = (if next_is C (pl_after p) then [] else [p])"

definition many1 :: "(char \<Rightarrow> bool) \<Rightarrow> rx" where
  "many1 C = Then (One C) (Star C)"

definition some_lazy :: "(char \<Rightarrow> bool) \<Rightarrow> rx" where
  "some_lazy C = Then (One C) (Lazy C)"

definition lit :: "string \<Rightarrow> rx" where
  "lit s = foldr (\<lambda>c r. Then (One (\<lambda>d. d = c)) r) s Eps"

text \<open>A literal in lower case, in any case\<close>

definition any_case :: "string \<Rightarrow> rx" where
  "any_case s = foldr (\<lambda>c r. Then (One (\<lambda>d. lower_char d = c)) r) s Eps"

definition in_order :: "rx list \<Rightarrow> rx" where
  "in_order rs = foldr Then rs Eps"

definition not_newline :: "char \<Rightarrow> bool" where
  "not_newline c \<longleftrightarrow> c \<noteq> rx_newline"

definition any_char :: "char \<Rightarrow> bool" where
  "any_char c \<longleftrightarrow> True"

definition decimal_digit :: "char \<Rightarrow> bool" where
  "decimal_digit c \<longleftrightarrow> digit_value c \<noteq> None"

section \<open>Searching\<close>

text \<open>\<open>re.search\<close>: the first position with a match; the result is where it starts and where it ends.\<close>

fun search_from :: "rx \<Rightarrow> string \<Rightarrow> string \<Rightarrow> (place \<times> place) option" where
  "search_from r b s = (let p = \<lparr>pl_before = b, pl_after = s, pl_groups = []\<rparr> in case matches r p of
     q # qs \<Rightarrow> Some (p, q)
   | [] \<Rightarrow> (case s of [] \<Rightarrow> None | c # t \<Rightarrow> search_from r (c # b) t))"

declare search_from.simps [simp del]

definition re_search :: "rx \<Rightarrow> string \<Rightarrow> (place \<times> place) option" where
  "re_search r s = search_from r [] s"

definition re_found :: "rx \<Rightarrow> string \<Rightarrow> bool" where
  "re_found r s = (re_search r s \<noteq> None)"

definition re_group :: "rx \<Rightarrow> string \<Rightarrow> string option" where
  "re_group r s = map_option (\<lambda>(p, q). hd (pl_groups q @ [between p q])) (re_search r s)"

text \<open>
  \<open>re.finditer\<close>: the search goes on at the end of a match, one character later when the match is empty. (A pattern
  that can match both the empty text and more at one place is not used.)
\<close>

definition resume_at :: "place \<Rightarrow> place \<Rightarrow> (string \<times> string) option" where
  "resume_at p q = (if length (pl_after q) < length (pl_after p) then Some (pl_before q, pl_after q)
     else (case pl_after q of [] \<Rightarrow> None | c # t \<Rightarrow> Some (c # pl_before q, t)))"

function finds_from :: "rx \<Rightarrow> string \<Rightarrow> string \<Rightarrow> (place \<times> place) list" where
  "finds_from r b s = (case search_from r b s of
     None \<Rightarrow> []
   | Some (p, q) \<Rightarrow> (p, q) # (case resume_at p q of None \<Rightarrow> []
       | Some (b', s') \<Rightarrow> if length s' < length s then finds_from r b' s' else []))"
  by pat_completeness auto
termination by (relation "measure (\<lambda>(r, b, s). length s)") auto

declare finds_from.simps [simp del]

definition re_finds :: "rx \<Rightarrow> string \<Rightarrow> (place \<times> place) list" where
  "re_finds r s = finds_from r [] s"

text \<open>\<open>re.findall\<close> with at most one group: the text of the group, or of the match\<close>

definition re_findall :: "rx \<Rightarrow> string \<Rightarrow> string list" where
  "re_findall r s = map (\<lambda>(p, q). hd (pl_groups q @ [between p q])) (re_finds r s)"

text \<open>\<open>re.split\<close>: the pieces between the matches, each followed by the groups of the match\<close>

fun split_at :: "place \<Rightarrow> (place \<times> place) list \<Rightarrow> string list" where
  "split_at from [] = [pl_after from]"
| "split_at from ((p, q) # ms) = between from p # pl_groups q @ split_at q ms"

definition re_split :: "rx \<Rightarrow> string \<Rightarrow> string list" where
  "re_split r s = split_at \<lparr>pl_before = [], pl_after = s, pl_groups = []\<rparr> (re_finds r s)"

text \<open>\<open>re.sub\<close>: \<open>f\<close> makes the replacement from the groups\<close>

fun sub_at :: "(string list \<Rightarrow> string) \<Rightarrow> place \<Rightarrow> (place \<times> place) list \<Rightarrow> string" where
  "sub_at f from [] = pl_after from"
| "sub_at f from ((p, q) # ms) = between from p @ f (pl_groups q) @ sub_at f q ms"

definition re_sub_with :: "(string list \<Rightarrow> string) \<Rightarrow> rx \<Rightarrow> string \<Rightarrow> string" where
  "re_sub_with f r s = sub_at f \<lparr>pl_before = [], pl_after = s, pl_groups = []\<rparr> (re_finds r s)"

text \<open>The first group, or nothing, in the place of each match\<close>

definition re_sub :: "rx \<Rightarrow> string \<Rightarrow> string" where
  "re_sub r s = re_sub_with (\<lambda>gs. concat (take 1 gs)) r s"

section \<open>What a match is\<close>

definition whole :: "place \<Rightarrow> string" where
  "whole p = rev (pl_before p) @ pl_after p"

text \<open>A later place in the same text\<close>

definition ahead :: "place \<Rightarrow> place \<Rightarrow> bool" where
  "ahead p q \<longleftrightarrow> (\<exists>t. pl_before q = rev t @ pl_before p \<and> pl_after p = t @ pl_after q)"

lemma ahead_refl [simp]: "ahead p p"
  by (auto simp: ahead_def)

lemma ahead_trans: "ahead p q \<Longrightarrow> ahead q r \<Longrightarrow> ahead p r"
  unfolding ahead_def by (metis append.assoc rev_append)

lemma ahead_whole: "ahead p q \<Longrightarrow> whole q = whole p"
  by (auto simp: ahead_def whole_def)

lemma ahead_groups [simp]: "ahead p (q\<lparr>pl_groups := g\<rparr>) = ahead p q"
  by (simp add: ahead_def)

lemma between_ahead: "ahead p q \<Longrightarrow> pl_after p = between p q @ pl_after q"
  by (auto simp: ahead_def between_def)

lemma passes_ahead:
  "(b', s') \<in> set (passes C b s) \<Longrightarrow> \<exists>t. b' = rev t @ b \<and> s = t @ s' \<and> list_all C t"
proof (induction C b s rule: passes.induct)
  case (2 C b c s)
  show ?case
  proof (cases "b' = b \<and> s' = c # s")
    case False
    with 2 obtain t where "b' = rev t @ c # b" "s = t @ s'" "list_all C t" "C c"
      by (auto split: if_splits)
    then show ?thesis by (intro exI [of _ "c # t"]) simp
  qed simp
qed simp

lemma runs_ahead: "q \<in> set (runs C p) \<Longrightarrow> ahead p q"
  by (fastforce simp: runs_def ahead_def dest: passes_ahead)

lemma matches_ahead: "q \<in> set (matches r p) \<Longrightarrow> ahead p q"
proof (induction r arbitrary: p q)
  case (One C)
  then show ?case by (auto simp: ahead_def split: list.splits if_splits)
next
  case (Star C)
  then show ?case using runs_ahead by simp
next
  case (Lazy C)
  then show ?case using runs_ahead by simp
next
  case (Then r r')
  then obtain m where "m \<in> set (matches r p)" "q \<in> set (matches r' m)" by auto
  with Then.IH show ?case by (meson ahead_trans)
qed (auto split: if_splits)

lemma search_from_ahead:
  "search_from r b s = Some (p, q) \<Longrightarrow>
   ahead \<lparr>pl_before = b, pl_after = s, pl_groups = []\<rparr> p \<and> ahead p q \<and> q \<in> set (matches r p) \<and> pl_groups p = []"
proof (induction r b s rule: search_from.induct)
  case (1 r b s)
  let ?p = "\<lparr>pl_before = b, pl_after = s, pl_groups = []\<rparr>"
  show ?case
  proof (cases "matches r ?p")
    case Nil
    with "1.prems" obtain c t where s: "s = c # t" "search_from r (c # b) t = Some (p, q)"
      by (auto simp: search_from.simps [of r b s] Let_def split: list.splits)
    have "ahead ?p \<lparr>pl_before = c # b, pl_after = t, pl_groups = []\<rparr>"
      by (auto simp: ahead_def s)
    with "1.IH" [of _ c t] Nil s show ?thesis by (auto intro: ahead_trans)
  next
    case (Cons m ms)
    with "1.prems" have "p = ?p" "q = m" by (auto simp: search_from.simps [of r b s] Let_def)
    with Cons show ?thesis using matches_ahead [of m r ?p] by simp
  qed
qed

end
