(* ===== verification/Writing_Text.thy ===== *)
theory Writing_Text
  imports Py_Regex Materials
begin

text \<open>
  The texts that come back from a language model (\<open>services/writing/postprocess.py\<close>): removal of
  markdown, the cut at a word limit, the name of a company in a message. Typographic dashes are not
  among the characters of the model, so of their replacement only the spacing rules remain.
\<close>

section \<open>Words\<close>

text \<open>\<open>s.split()\<close>; \<open>acc\<close> is the current word, reversed.\<close>

fun words_go :: "string \<Rightarrow> string \<Rightarrow> string list" where
  "words_go acc [] = (if acc = [] then [] else [rev acc])"
| "words_go acc (c # s) = (if is_space c then (if acc = [] then [] else [rev acc]) @ words_go [] s
     else words_go (c # acc) s)"

definition words :: "string \<Rightarrow> string list" where
  "words s = words_go [] s"

text \<open>\<open>s.replace(old, new)\<close> for a non-empty \<open>old\<close>\<close>

function py_replace :: "string \<Rightarrow> string \<Rightarrow> string \<Rightarrow> string" where
  "py_replace old new [] = []"
| "py_replace old new (c # s) = (if old \<noteq> [] \<and> prefix old (c # s)
     then new @ py_replace old new (drop (length old - 1) s) else c # py_replace old new s)"
  by pat_completeness auto
termination by (relation "measure (\<lambda>(old, new, s). length s)") auto

text \<open>\<open>s.rstrip(chars)\<close>\<close>

definition py_rstrip :: "char set \<Rightarrow> string \<Rightarrow> string" where
  "py_rstrip cs s = rev (dropWhile (\<lambda>c. c \<in> cs) (rev s))"

text \<open>\<open>s.strip(chars)\<close>\<close>

definition py_strip_of :: "char set \<Rightarrow> string \<Rightarrow> string" where
  "py_strip_of cs s = py_rstrip cs (dropWhile (\<lambda>c. c \<in> cs) s)"

section \<open>Clean-up\<close>

definition strip_emdashes :: "string \<Rightarrow> string" where
  "strip_emdashes s = py_replace ''  '' '' '' (py_replace '' ,'' '','' (py_replace '' , '' '', '' s))"

definition bold_rx :: rx where
  "bold_rx = in_order [many1 (\<lambda>c. c = CHR ''*''), Group (some_lazy not_newline), many1 (\<lambda>c. c = CHR ''*'')]"

definition strip_bold :: "string \<Rightarrow> string" where
  "strip_bold s = re_sub bold_rx s"

definition postprocess :: "string \<Rightarrow> string" where
  "postprocess s = strip_bold (strip_emdashes s)"

section \<open>The cut at a word limit\<close>

fun keep_sentences :: "nat \<Rightarrow> nat \<Rightarrow> string list \<Rightarrow> string list" where
  "keep_sentences limit n [] = []"
| "keep_sentences limit n (s # ss) =
     (if words s = [] then keep_sentences limit n ss
      else if limit < n + length (words s) then []
      else py_strip s # keep_sentences limit (n + length (words s)) ss)"

definition trim_to_word_limit :: "string \<Rightarrow> nat \<Rightarrow> string" where
  "trim_to_word_limit body limit = (let ws = words body in
     if length ws \<le> limit then py_strip body
     else (let kept = keep_sentences limit 0 (split_sentences False (py_strip body)) in
       py_strip (py_join '' '' (if kept \<noteq> [] then kept else take limit ws))))"

section \<open>The company in the message\<close>

definition corporate_suffixes :: "string list" where
  "corporate_suffixes = ['', inc.'', '', inc'', '' inc.'', '' inc'', '', corp.'', '', corp'', '' corp.'', '' corp'',
     '', llc'', '' llc'', '', ltd.'', '', ltd'', '' ltd.'', '' ltd'', '', co.'', '' co.'',
     ''.com'', ''.io'', ''.ai'', ''.co'', ''.org'', ''.net'']"

definition cut_suffix :: "string \<Rightarrow> string" where
  "cut_suffix name = (case find (endswith name) corporate_suffixes of None \<Rightarrow> name
     | Some x \<Rightarrow> py_strip (take (length name - length x) name))"

definition extract_company_core :: "string \<Rightarrow> string" where
  "extract_company_core company = (let name = py_strip (py_lower company);
       core = py_rstrip {CHR '','', CHR ''.'', CHR '' ''} (cut_suffix name)
     in if 3 \<le> length core then core else name)"

definition capitalize :: "string \<Rightarrow> string" where
  "capitalize s = (case s of [] \<Rightarrow> [] | c # t \<Rightarrow> upper_of c # py_lower t)"

definition lower_first :: "string \<Rightarrow> string" where
  "lower_first s = (case s of [] \<Rightarrow> [] | c # t \<Rightarrow> (if upper_char c then lower_char c # t else s))"

definition deterministic_anchor_insert :: "string \<Rightarrow> string \<Rightarrow> string" where
  "deterministic_anchor_insert message company = (let core = extract_company_core company in
     if core = [] then message else ''At '' @ capitalize core @ '', '' @ lower_first message)"

definition company_anchor_match :: "string \<Rightarrow> string \<Rightarrow> bool" where
  "company_anchor_match company msg_lower = (let name = py_strip (py_lower company); core = extract_company_core name in
     py_in name msg_lower \<or> core \<noteq> [] \<and> py_in core msg_lower \<or>
     py_in '' '' core \<and> list_ex (\<lambda>t. 4 \<le> length t \<and> py_in t msg_lower) (words core))"

section \<open>Words of cut and joined texts\<close>

lemma words_go_space: "is_space c \<Longrightarrow> words_go acc (s @ c # t) = words_go acc s @ words_go [] t"
  by (induction acc s rule: words_go.induct) auto

lemma words_Nil [simp]: "words [] = []"
  by (simp add: words_def)

lemma words_append_space: "is_space c \<Longrightarrow> words (s @ c # t) = words s @ words t"
  by (simp add: words_def words_go_space)

lemma words_space [simp]: "is_space c \<Longrightarrow> words (c # s) = words s"
  using words_append_space [of c "[]" s] by simp

lemma words_append_gap: "t = [] \<or> is_space (hd t) \<Longrightarrow> words (s @ t) = words s @ words t"
  by (cases t) (auto simp: words_append_space)

lemma words_dropWhile [simp]: "words (dropWhile is_space s) = words s"
  by (induction s) auto

lemma words_spaces: "list_all is_space s \<Longrightarrow> words s = []"
  by (induction s) auto

lemma words_py_strip [simp]: "words (py_strip s) = words s"
proof -
  let ?t = "dropWhile is_space s"
  obtain w where w: "?t = py_strip s @ w" "list_all is_space w"
  proof
    show "?t = py_strip s @ rev (takeWhile is_space (rev ?t))"
      unfolding py_strip_def by (metis rev_append rev_rev_ident takeWhile_dropWhile_id)
    show "list_all is_space (rev (takeWhile is_space (rev ?t)))"
      by (auto simp: list_all_iff dest: set_takeWhileD)
  qed
  have "words s = words ?t" by simp
  also have "\<dots> = words (py_strip s) @ words w"
    unfolding w(1) by (rule words_append_gap) (use w(2) in \<open>cases w; auto\<close>)
  finally show ?thesis using words_spaces [OF w(2)] by simp
qed

lemma is_space_blank [simp]: "is_space CHR '' ''"
  by (simp add: is_space_def)

lemma words_py_join: "words (py_join '' '' xs) = concat (map words xs)"
  by (induction "'' ''" xs rule: py_join.induct) (auto simp: words_append_space)

lemma words_go_word: "list_all (\<lambda>c. \<not> is_space c) w \<Longrightarrow> words_go acc w = (if rev acc @ w = [] then [] else [rev acc @ w])"
  by (induction w arbitrary: acc) auto

lemma word_of_word: "list_all (\<lambda>c. \<not> is_space c) w \<Longrightarrow> w \<noteq> [] \<Longrightarrow> words w = [w]"
  by (simp add: words_def words_go_word)

lemma words_go_words:
  "list_all (\<lambda>c. \<not> is_space c) acc \<Longrightarrow> list_all (\<lambda>w. list_all (\<lambda>c. \<not> is_space c) w \<and> w \<noteq> []) (words_go acc s)"
  by (induction acc s rule: words_go.induct) simp_all

lemma words_words: "w \<in> set (words s) \<Longrightarrow> words w = [w]"
  using words_go_words [of "[]" s] word_of_word [of w] by (auto simp: words_def list_all_iff)

lemma words_join_words: "set ws \<subseteq> set (words s) \<Longrightarrow> words (py_join '' '' ws) = ws"
  by (induction ws) (auto simp: words_py_join words_words)

lemma split_sentences_words:
  "\<exists>x xs rest. split_sentences p s = x # xs \<and> s = x @ rest \<and> (rest = [] \<or> is_space (hd rest)) \<and>
     words rest = concat (map words xs)"
proof (induction p s rule: split_sentences.induct)
  case (2 p c cs)
  show ?case
  proof (cases "p \<and> is_space c")
    case True
    with 2 obtain x xs rest where r: "split_sentences False (dropWhile is_space cs) = x # xs"
      "dropWhile is_space cs = x @ rest" "rest = [] \<or> is_space (hd rest)" "words rest = concat (map words xs)"
      by blast
    have "words cs = words x @ words rest"
      using words_append_gap [OF r(3), of x] words_dropWhile [of cs] r(2) by simp
    with True r show ?thesis by auto
  next
    case False
    with 2 obtain x xs rest where r: "split_sentences (ends_sentence c) cs = x # xs"
      "cs = x @ rest" "rest = [] \<or> is_space (hd rest)" "words rest = concat (map words xs)" by blast
    with False show ?thesis by (auto simp: attach_def)
  qed
qed simp

lemma words_sentences: "concat (map words (split_sentences p s)) = words s"
  using split_sentences_words [of p s] words_append_gap by force

lemma keep_sentences_words:
  "\<exists>k. concat (map words (keep_sentences limit n ss)) = take k (concat (map words ss)) \<and> (n \<le> limit \<longrightarrow> n + k \<le> limit)"
proof (induction limit n ss rule: keep_sentences.induct)
  case (2 limit n s ss)
  consider "words s = []" | "words s \<noteq> []" "limit < n + length (words s)"
    | "words s \<noteq> []" "n + length (words s) \<le> limit" by linarith
  then show ?case
  proof cases
    case 1
    with 2 show ?thesis by simp
  next
    case 2
    then show ?thesis by (intro exI [of _ 0]) simp
  next
    case 3
    with 2 obtain k where "concat (map words (keep_sentences limit (n + length (words s)) ss)) = take k (concat (map words ss))"
      "n + length (words s) + k \<le> limit" by auto
    with 3 show ?thesis by (intro exI [of _ "length (words s) + k"]) simp
  qed
qed (auto intro: exI [of _ 0])

lemma trim_keeps_beginning:
  "\<exists>k. words (trim_to_word_limit body limit) = take k (words body) \<and> length (take k (words body)) \<le> limit"
proof -
  let ?ss = "split_sentences False (py_strip body)"
  obtain k where k: "concat (map words (keep_sentences limit 0 ?ss)) = take k (words body)" "k \<le> limit"
    using keep_sentences_words [of limit 0 ?ss] by (auto simp: words_sentences)
  have t: "words (py_join '' '' (take limit (words body))) = take limit (words body)"
    by (rule words_join_words [of _ body]) (rule set_take_subset)
  show ?thesis
    using k t by (auto simp: trim_to_word_limit_def Let_def words_py_join intro: exI [of _ "length (words body)"] exI [of _ k] exI [of _ limit])
qed

lemma trim_length: "length (words (trim_to_word_limit body limit)) \<le> limit"
  using trim_keeps_beginning by metis

section \<open>The anchor\<close>

lemma py_in_middle: "py_in x (a @ x @ b)"
  by (simp add: py_in_def)

lemma lower_char_upper_of: "lower_char c = c \<Longrightarrow> lower_char (upper_of c) = c"
  by (auto simp: lower_char_def upper_of_def upper_char_def Let_def split: if_splits)

lemma py_lower_capitalize: "py_lower s = s \<Longrightarrow> py_lower (capitalize s) = s"
  by (cases s) (auto simp: capitalize_def py_lower_def lower_char_upper_of)

lemma py_lower_append [simp]: "py_lower (s @ t) = py_lower s @ py_lower t"
  by (simp add: py_lower_def)

lemma lower_list_iff: "py_lower s = s \<longleftrightarrow> (\<forall>c \<in> set s. lower_char c = c)"
  by (induction s) (auto simp: py_lower_def)

lemma set_dropWhile_subset: "set (dropWhile P xs) \<subseteq> set xs"
  by (auto dest: set_dropWhileD)

lemma set_py_strip: "set (py_strip s) \<subseteq> set s"
  unfolding py_strip_def using set_dropWhile_subset by (metis set_rev subset_trans)

lemma set_py_rstrip: "set (py_rstrip cs s) \<subseteq> set s"
  unfolding py_rstrip_def using set_dropWhile_subset by (metis set_rev)

lemma set_cut_suffix: "set (cut_suffix s) \<subseteq> set s"
  unfolding cut_suffix_def
  by (auto split: option.splits dest!: set_py_strip [THEN subsetD] set_take_subset [THEN subsetD])

lemma name_lower: "py_lower (py_strip (py_lower s)) = py_strip (py_lower s)"
  using set_py_strip [of "py_lower s"] py_lower_idem [of s] unfolding lower_list_iff by blast

lemma core_lower: "py_lower (extract_company_core s) = extract_company_core s"
proof -
  have "set (extract_company_core s) \<subseteq> set (py_strip (py_lower s))"
    by (auto simp: extract_company_core_def Let_def dest!: set_py_rstrip [THEN subsetD] set_cut_suffix [THEN subsetD] split: if_splits)
  then show ?thesis using name_lower [of s] unfolding lower_list_iff by blast
qed

lemma core_of_name: "extract_company_core (py_strip (py_lower s)) = extract_company_core s"
  by (simp add: extract_company_core_def name_lower)

lemma core_empty: "extract_company_core s = [] \<Longrightarrow> py_strip (py_lower s) = []"
  by (auto simp: extract_company_core_def Let_def split: if_splits)

lemma at_lower: "py_lower ''At '' = ''at ''"
  by code_simp

lemma comma_lower: "py_lower '', '' = '', ''"
  by code_simp

lemma inserted_anchor_matches: "company_anchor_match company (py_lower (deterministic_anchor_insert m company))"
proof (cases "extract_company_core company = []")
  case True
  then show ?thesis using core_empty [OF True] py_in_middle [of "[]" "[]"] by (simp add: company_anchor_match_def)
next
  case False
  let ?c = "extract_company_core company"
  have "py_lower (deterministic_anchor_insert m company) = ''at '' @ ?c @ '', '' @ py_lower (lower_first m)"
    using False py_lower_capitalize [OF core_lower [of company]] at_lower comma_lower
    by (simp add: deterministic_anchor_insert_def Let_def del: append.simps)
  then show ?thesis
    using False py_in_middle [of ?c "''at ''"] by (simp add: company_anchor_match_def core_of_name Let_def)
qed

end
