(* ===== verification/Writing_Rules.thy ===== *)
theory Writing_Rules
  imports Writing_Text Web_Research
begin

text \<open>
  What is relevant to a seller (\<open>services/writing/types.py\<close>, \<open>services/seller_relevance.py\<close>): the tables of
  categories, the filter of the research and the gate of the writer, and the report the writer
  reads (\<open>services/writing/service.py\<close>).
\<close>

section \<open>Tables\<close>

definition category_keywords :: "(string \<times> string list) list" where
  "category_keywords = [
     (''database'',
       [''database'', ''db '', ''data warehouse'', ''data lake'', ''sql'', ''nosql'',
        ''mongodb'', ''postgres'', ''postgresql'', ''mysql'', ''redis'', ''dynamodb'',
        ''cassandra'', ''cockroachdb'', ''data platform'', ''data infrastructure'',
        ''vector database'', ''graph database'', ''time-series'', ''olap'', ''oltp'']),
     (''fintech'',
       [''payments'', ''banking'', ''lending'', ''kyc'', ''aml'', ''billing platform'',
        ''payment processing'', ''financial services'', ''neobank'', ''fintech'',
        ''transaction'', ''pci'', ''card issuing'', ''underwriting'', ''regtech'']),
     (''healthtech'',
       [''healthcare'', ''ehr'', ''telehealth'', ''hipaa'', ''clinical'', ''patient'',
        ''health tech'', ''healthtech'', ''medical device'', ''digital health'',
        ''electronic health record'', ''health information'', ''care coordination'']),
     (''martech'',
       [''marketing automation'', ''cdp'', ''attribution'', ''personalization'',
        ''customer data platform'', ''campaign management'', ''martech'',
        ''marketing platform'', ''email marketing'', ''lead scoring'', ''marketing analytics'',
        ''demand generation'']),
     (''devtools'',
       [''developer tools'', ''ci/cd'', ''observability'', ''apm'', ''kubernetes'',
        ''devtools'', ''developer experience'', ''build system'', ''deployment'',
        ''infrastructure as code'', ''monitoring'', ''logging'', ''container'',
        ''developer platform''])]"

definition category_slugs :: "(string \<times> string) list" where
  "category_slugs = [
     (''MarTech'', ''martech''), (''Fintech'', ''fintech''), (''HealthTech'', ''healthtech''),
     (''ConstructionTech'', ''constructiontech''), (''EdTech'', ''edtech''),
     (''PropTech'', ''proptech''), (''InsurTech'', ''insurtech''),
     (''LegalTech'', ''legaltech''), (''HRTech'', ''hrtech''),
     (''Cybersecurity / IT'', ''cybersecurity''), (''DevTools / Infra'', ''devtools''),
     (''E-commerce Tech'', ''ecommerce''),
     (''Supply Chain / Logistics Tech'', ''supplychain''), (''GovTech'', ''govtech''),
     (''TravelTech'', ''traveltech''), (''MediaTech'', ''mediatech''),
     (''Other / Cross-industry'', [])]"

definition blocked_patterns :: "(string \<times> string list) list" where
  "blocked_patterns = [
     (''database'',
       [''cdn'', ''content delivery'', ''cloudflare'', ''fastly'', ''akamai'', ''frontend'',
        ''react'', ''vue'', ''angular'', ''svelte'', ''next.js'', ''nuxt'', ''jquery'',
        ''bootstrap'', ''tailwind'', ''css'', ''scss'', ''webpack'', ''vite'', ''bundler'',
        ''seo'', ''page speed'', ''tag manager'', ''google tag'', ''customer data platform'',
        ''cdp'', ''customer data'', ''attribution'', ''campaign'', ''dkim'', ''dmarc'',
        ''spf'', ''email authentication'', ''email spoofing'', ''phishing'']),
     (''fintech'',
       [''frontend'', ''react'', ''vue'', ''angular'', ''svelte'', ''cdn'',
        ''content delivery'', ''seo'', ''page speed'', ''marketing automation'',
        ''tag manager'', ''google tag'', ''customer data platform'', ''cdp'',
        ''customer data'', ''attribution'', ''campaign'', ''dkim'', ''dmarc'', ''spf'',
        ''email authentication'', ''email spoofing'', ''phishing'']),
     (''healthtech'',
       [''frontend'', ''react'', ''vue'', ''angular'', ''cdn'', ''content delivery'',
        ''e-commerce'', ''ecommerce'', ''marketing automation'', ''seo'', ''tag manager'',
        ''customer data platform'', ''cdp'', ''customer data'', ''attribution'', ''campaign'',
        ''dkim'', ''dmarc'', ''spf'', ''email authentication'', ''email spoofing'',
        ''phishing'']),
     (''martech'',
       [''db migration'', ''database migration'', ''kubernetes'', ''k8s'', ''ci/cd'',
        ''devops'', ''security scanning'', ''vulnerability'', ''infrastructure as code'',
        ''terraform'', ''dkim'', ''dmarc'', ''spf'', ''email authentication'',
        ''email spoofing'', ''phishing'']),
     (''devtools'',
       [''marketing automation'', ''seo'', ''e-commerce'', ''ecommerce'', ''crm'',
        ''salesforce'', ''hubspot'', ''customer data platform'', ''cdp'',
        ''campaign management'', ''dkim'', ''dmarc'', ''spf'', ''email authentication'',
        ''email spoofing'', ''phishing'']),
     (''cloud'',
       [''customer data platform'', ''cdp'', ''marketing automation'', ''tag manager'',
        ''google tag'', ''attribution'', ''campaign'', ''seo'', ''page speed'', ''frontend'',
        ''react'', ''vue'', ''angular'']),
     (''cybersecurity'',
       [''database scaling'', ''query performance'', ''read replica'', ''connection pool'',
        ''database migration'', ''data warehouse'', ''data lake'', ''dbt'', ''postgres'',
        ''postgresql'', ''mysql'', ''mongodb'', ''redis'', ''snowflake'', ''bigquery'',
        ''redshift'', ''customer data platform'', ''cdp'', ''marketing automation'',
        ''tag manager'', ''seo'', ''page speed''])]"

definition linkage_overrides :: "(string \<times> string list) list" where
  "linkage_overrides = [
     (''database'',
       [''database bottleneck'', ''db bottleneck'', ''query performance'', ''api latency'',
        ''data pipeline'', ''backend performance'', ''read replica'', ''write throughput'',
        ''connection pool'', ''slow queries'', ''index'', ''migration'', ''data-intensive'']),
     (''fintech'',
       [''payment flow'', ''transaction'', ''pci'', ''financial data'',
        ''billing integration'', ''payment processing'', ''ledger'']),
     (''healthtech'',
       [''patient data'', ''ehr integration'', ''clinical workflow'', ''hipaa'',
        ''health record'', ''care coordination'', ''telehealth'']),
     (''martech'',
       [''customer data'', ''campaign performance'', ''lead scoring'', ''marketing analytics'',
        ''attribution'', ''conversion'']),
     (''devtools'',
       [''developer experience'', ''build time'', ''pipeline'', ''infrastructure'',
        ''deployment velocity'', ''developer productivity'']),
     (''cloud'',
       [''cloud migration'', ''landing zone'', ''well-architected'', ''finops'',
        ''platform engineering'', ''kubernetes'', ''observability'',
        ''infrastructure modernization'']),
     (''cybersecurity'',
       [''identity'', ''access management'', ''iam'', ''sso'', ''auth'', ''zero trust'',
        ''threat'', ''vulnerability'', ''compliance'', ''siem'', ''soar'', ''security'',
        ''encryption'', ''endpoint''])]"

definition prompt_constraints :: "(string \<times> string) list" where
  "prompt_constraints = [
     (''database'', ''CDN, frontend, CSS tooling, marketing automation, and email infrastructure '' @
      ''(DKIM/DMARC/SPF) angles are INVALID for a database seller unless the talking point '' @
      ''explicitly ties them to a database bottleneck, query performance issue, or data '' @
      ''layer consequence.''),
     (''fintech'', ''Frontend, CDN, SEO, marketing automation, and email infrastructure (DKIM/DMARC/SPF) '' @
      ''angles are INVALID for a fintech seller unless the talking point explicitly ties '' @
      ''them to a payment flow, transaction processing, PCI compliance, or financial data '' @
      ''consequence.''),
     (''healthtech'', ''Frontend, CDN, e-commerce, marketing automation, and email infrastructure '' @
      ''(DKIM/DMARC/SPF) angles are INVALID for a healthtech seller unless the talking '' @
      ''point explicitly ties them to patient data, EHR integration, clinical workflow, or '' @
      ''HIPAA compliance.''),
     (''martech'', ''Database migration, Kubernetes, CI/CD, DevOps, security scanning, and email '' @
      ''infrastructure (DKIM/DMARC/SPF) angles are INVALID for a martech seller unless the '' @
      ''talking point explicitly ties them to customer data, campaign performance, lead '' @
      ''scoring, or marketing analytics.''),
     (''devtools'', ''Marketing automation, SEO, e-commerce, CRM, and email infrastructure '' @
      ''(DKIM/DMARC/SPF) angles are INVALID for a devtools seller unless the talking point '' @
      ''explicitly ties them to developer experience, build time, CI/CD pipeline, or '' @
      ''infrastructure concerns.''),
     (''cloud'', ''CDP, marketing automation, SEO, and generic frontend angles are INVALID for a cloud '' @
      ''seller unless the talking point explicitly ties them to cloud migration, platform '' @
      ''engineering, observability, or infrastructure modernization.''),
     (''cybersecurity'', ''Database/data-platform, CDP/martech, and generic website performance angles are '' @
      ''INVALID for a cybersecurity seller unless the talking point explicitly ties them to '' @
      ''identity, threat detection, security posture, or compliance exposure.'')]"

definition seller_relevant_roles :: "(string \<times> string list) list" where
  "seller_relevant_roles = [
     (''martech'',
       [''marketing'', ''sales'', ''product'', ''data'']),
     (''fintech'',
       [''finance'', ''legal_compliance'', ''operations'', ''security'', ''data'']),
     (''healthtech'',
       [''healthcare_clinical'', ''operations'', ''legal_compliance'', ''data'']),
     (''constructiontech'',
       [''construction'', ''operations'', ''project_management'']),
     (''edtech'',
       [''education'', ''product'']),
     (''proptech'',
       [''operations'', ''sales'']),
     (''insurtech'',
       [''finance'', ''operations'', ''legal_compliance'', ''data'']),
     (''legaltech'',
       [''legal_compliance'', ''operations'']),
     (''hrtech'',
       [''hr_people'', ''operations'', ''product'']),
     (''cybersecurity'',
       [''security'', ''devops'', ''legal_compliance'']),
     (''devtools'',
       [''devops'', ''backend'', ''fullstack'', ''data'', ''frontend'']),
     (''ecommerce'',
       [''marketing'', ''operations'', ''product'', ''data'']),
     (''supplychain'',
       [''operations'', ''data'']),
     (''govtech'',
       [''operations'', ''legal_compliance'', ''security'']),
     (''traveltech'',
       [''operations'', ''sales'', ''product'']),
     (''mediatech'',
       [''marketing'', ''product'', ''data''])]"

definition denied :: "string \<Rightarrow> bool" where
  "denied category \<longleftrightarrow> map_of blocked_patterns category \<noteq> None"

definition patterns_of :: "string \<Rightarrow> string list" where
  "patterns_of category = (case map_of blocked_patterns category of None \<Rightarrow> [] | Some ps \<Rightarrow> ps)"

definition overrides_of :: "string \<Rightarrow> string list" where
  "overrides_of category = (case map_of linkage_overrides category of None \<Rightarrow> [] | Some ps \<Rightarrow> ps)"

definition mentions :: "string list \<Rightarrow> string \<Rightarrow> bool" where
  "mentions ps text_lower = list_ex (\<lambda>p. py_in p text_lower) ps"

section \<open>Relevance of the research\<close>

definition normalize_seller_category :: "string \<Rightarrow> string" where
  "normalize_seller_category raw = (if raw = [] then []
     else (let raw = (if raw = ''Cybersecurity'' then ''Cybersecurity / IT'' else raw)
       in case map_of category_slugs raw of None \<Rightarrow> [] | Some s \<Rightarrow> s))"

definition resolve_seller_category :: "string \<Rightarrow> string" where
  "resolve_seller_category raw = (if raw = [] then []
     else (let n = normalize_seller_category raw in if n \<noteq> [] then n
       else (let l = py_lower (py_strip raw); a = (if l = ''security'' then ''cybersecurity'' else l)
         in if denied a then a else [])))"

definition is_text_relevant :: "string \<Rightarrow> string \<Rightarrow> bool" where
  "is_text_relevant s seller = (if s = [] then True
     else (let c = resolve_seller_category seller in if c = [] \<or> \<not> denied c then True
       else (let l = py_lower s in if \<not> mentions (patterns_of c) l then True else mentions (overrides_of c) l)))"

text \<open>\<open>str.splitlines\<close>: a carriage return and a line feed together are one end of line.\<close>

definition line_break :: "char \<Rightarrow> bool" where
  "line_break c \<longleftrightarrow> (of_char c :: nat) \<in> {10, 11, 12, 13, 28, 29, 30}"

fun splitlines_go :: "string \<Rightarrow> string \<Rightarrow> string list" where
  "splitlines_go acc [] = (if acc = [] then [] else [rev acc])"
| "splitlines_go acc (c # s) = (if \<not> line_break c then splitlines_go (c # acc) s
     else rev acc # (case s of d # t \<Rightarrow> if c = CHR 0x0D \<and> d = CHR 0x0A then splitlines_go [] t else splitlines_go [] s
       | [] \<Rightarrow> splitlines_go [] s))"

definition paragraph_gap :: rx where
  "paragraph_gap = in_order [lit nl, Star is_space, lit nl]"

definition nonblank :: "string list \<Rightarrow> string list" where
  "nonblank ss = filter (\<lambda>s. s \<noteq> []) (map py_strip ss)"

definition split_text_blocks :: "string \<Rightarrow> string list" where
  "split_text_blocks s = (let ps = nonblank (re_split paragraph_gap s) in
     if 1 < length ps then ps else nonblank (splitlines_go [] s))"

definition filter_text_blocks :: "string \<Rightarrow> string \<Rightarrow> string" where
  "filter_text_blocks s seller = (if s = [] then s
     else (let c = resolve_seller_category seller in if c = [] \<or> \<not> denied c then s
       else (let kept = filter (\<lambda>b. is_text_relevant b c) (split_text_blocks s)
         in py_join (if py_in (nl @ nl) s then nl @ nl else nl) kept)))"

definition filter_text_items :: "string list \<Rightarrow> string \<Rightarrow> string list" where
  "filter_text_items items seller = filter (\<lambda>i. is_text_relevant i seller) items"

section \<open>Relevance of a hook\<close>

definition count_hits :: "string list \<Rightarrow> string \<Rightarrow> nat" where
  "count_hits kws s = length (filter (\<lambda>k. py_in k s) kws)"

definition detect_product_category :: "string \<Rightarrow> string" where
  "detect_product_category product = (if product = [] then []
     else (case find (\<lambda>(c, kws). 2 \<le> count_hits kws (py_lower product)) category_keywords of
       None \<Rightarrow> [] | Some (c, kws) \<Rightarrow> c))"

definition score_hook_relevance :: "string \<Rightarrow> string \<Rightarrow> int" where
  "score_hook_relevance s category = (if \<not> denied category then 5
     else (let l = py_lower s in if \<not> mentions (patterns_of category) l then 5
       else if mentions (overrides_of category) l then 4 else 2))"

text \<open>\<open>filter_relevance\<close> of the LinkedIn messages: whether the message is clean, and the blocked terms\<close>

definition filter_relevance :: "string \<Rightarrow> string \<Rightarrow> bool \<times> string list" where
  "filter_relevance message category = (if category = [] \<or> \<not> denied category then (True, [])
     else (let l = py_lower message;
         blocked = filter (\<lambda>p. py_in p l \<and> \<not> mentions (overrides_of category) l) (patterns_of category)
       in (blocked = [], blocked)))"

section \<open>The gate on talking points\<close>

text \<open>\<open>s.find(needle)\<close>, as the text before and after the first occurrence\<close>

fun cut_at :: "string \<Rightarrow> string \<Rightarrow> (string \<times> string) option" where
  "cut_at needle s = (if prefix needle s then Some ([], drop (length needle) s)
     else (case s of [] \<Rightarrow> None | c # t \<Rightarrow> map_option (\<lambda>(a, b). (c # a, b)) (cut_at needle t)))"

declare cut_at.simps [simp del]

definition talking_points :: string where
  "talking_points = ''## Recommended Talking Points''"

definition bullet :: "string \<Rightarrow> bool" where
  "bullet l \<longleftrightarrow> startswith (py_strip l) ''- '' \<or> startswith (py_strip l) ''* ''"

definition keep_line :: "string \<Rightarrow> string \<Rightarrow> bool" where
  "keep_line category l \<longleftrightarrow> \<not> bullet l \<or> 4 \<le> score_hook_relevance (py_strip l) category"

definition gate_fallback :: string where
  "gate_fallback = ''**Fallback:** All recommended hooks were filtered as irrelevant '' @
     ''to this product category. Use signals from Business Problems, '' @
     ''Existential Data Points, or Before Scenario sections instead.''"

definition gate_lines :: "string \<Rightarrow> string list \<Rightarrow> string list" where
  "gate_lines category ls = (let kept = filter (keep_line category) ls in
     if filter bullet kept = [] then kept @ [[], gate_fallback] else kept)"

definition apply_relevance_gate :: "string \<Rightarrow> string \<Rightarrow> string" where
  "apply_relevance_gate report category = (if \<not> denied category then report
     else (case cut_at talking_points report of
       None \<Rightarrow> report
     | Some (before, after) \<Rightarrow>
         (let (section_text, rest) = (case cut_at (nl @ ''## '') after of None \<Rightarrow> (after, [])
              | Some (a, b) \<Rightarrow> (a, nl @ ''## '' @ b))
          in before @ talking_points @ py_join nl (gate_lines category (py_split section_text nl)) @ rest)))"

section \<open>The report\<close>

text \<open>The arrows in the title of the scenario are single characters in the code, outside the characters of the model.\<close>

definition column :: "'a draft_scheme \<Rightarrow> string \<Rightarrow> string" where
  "column d k = coalesce (dr_text d k) []"

definition report_columns :: "(string \<times> string) list" where
  "report_columns = [(''business_problems'', ''## Business Problems & Pain Points''),
     (''existential_data_points'', ''## Existential Data Points (Urgency Signals)''),
     (''before_scenario'', ''## Before Scenario (Problems -> Consequences -> Current Attempts)''),
     (''pvp_seed'', ''## PVP Seed (Key Insight for Outreach)''),
     (''projects_initiatives'', ''## Current Projects & Initiatives''),
     (''product_fit'', ''## Product Fit Analysis''), (''talking_points'', talking_points),
     (''key_contacts'', ''## Key Contacts''), (''recommended_contacts'', ''## Recommended Contacts'')]"

definition titled :: "string \<Rightarrow> string \<Rightarrow> string list" where
  "titled title s = (if s = [] then [] else [title, s, []])"

definition build_report :: "'a draft_scheme \<Rightarrow> brief \<Rightarrow> string" where
  "build_report d b = py_join nl (
     [''# Research Report: '' @ dr_name d, [], ''## Company Overview'', column d ''company_overview'', []] @
     concat (map (\<lambda>(k, title). titled title (column d k)) report_columns) @
     titled ''## Target Contact'' (br_persona b) @
     [''## Our Product (What We're Selling)''] @
     (if br_company b = [] then [] else [''**Company:** '' @ br_company b]) @ [br_context b] @
     (if br_problems b = [] then [] else [[], ''## Specific Problems We Solve'',
        ''Align email angles to these problems when the research shows a match: '' @ br_problems b]) @
     (if br_signals b = [] then [] else [[], ''## Custom Signals to Emphasize'',
        ''If the research mentions any of these, use them as email hooks: '' @ br_signals b]) @
     (if br_materials b = [] then [] else [[], ''## Sales Materials (Case Studies, Battle Cards, Proof Points)'',
        ''Use these to reference specific results, metrics, and customer stories in your emails.'', br_materials b]))"

end
