(* ===== verification/Writing_Email.thy ===== *)
theory Writing_Email
  imports Writing_Rules
begin

text \<open>
  The strategy for a sequence of three e-mails (\<open>services/writing/email.py\<close>) and the selection of the
  examples in its prompt (\<open>services/pea_selector.py\<close>). The prompt files and the text of the inline
  prompt are arguments.
\<close>

section \<open>Prompt files\<close>

type_synonym prompt_files = "string \<Rightarrow> string option"

definition load_prompt_file :: "prompt_files \<Rightarrow> string \<Rightarrow> string" where
  "load_prompt_file files name = coalesce (files name) []"

definition rule_line :: string where
  "rule_line = nl @ ''---'' @ nl"

definition extract_examples :: "string \<Rightarrow> string list" where
  "extract_examples content = take 3 (filter (\<lambda>b. b \<noteq> [] \<and> py_in ''Email 1'' b) (map py_strip (py_split content rule_line)))"

definition examples_mode :: "int option \<Rightarrow> string \<times> string" where
  "examples_mode score = (if coalesce score 50 < 50 then (''partial'', ''pea_examples_partial.md'')
     else (''full'', ''pea_examples_full.md''))"

definition msp_example :: "string \<Rightarrow> bool" where
  "msp_example ex \<longleftrightarrow> py_in ''MSP'' ex \<or> py_in ''managed IT'' (py_lower ex) \<or> py_in ''law firm'' (py_lower ex)"

definition on_category :: "string \<Rightarrow> string \<Rightarrow> bool" where
  "on_category category ex \<longleftrightarrow> py_in category (py_lower ex) \<or> list_ex (\<lambda>w. py_in w (py_lower ex)) (words category)"

text \<open>The loops stop as soon as they have two, or three.\<close>

fun pick_examples :: "nat \<Rightarrow> (string \<Rightarrow> bool) \<Rightarrow> string list \<Rightarrow> string list \<Rightarrow> string list" where
  "pick_examples n P [] chosen = chosen"
| "pick_examples n P (e # es) chosen = (if \<not> P e then pick_examples n P es chosen
     else (let chosen' = (if e \<in> set chosen then chosen else chosen @ [e])
       in if n \<le> length chosen' then chosen' else pick_examples n P es chosen'))"

fun fill_examples :: "string list \<Rightarrow> string list \<Rightarrow> string list" where
  "fill_examples [] chosen = chosen"
| "fill_examples (e # es) chosen = (let chosen' = (if e \<in> set chosen then chosen else chosen @ [e])
     in if 3 \<le> length chosen' then chosen' else fill_examples es chosen')"

definition select_examples :: "prompt_files \<Rightarrow> int option \<Rightarrow> string \<Rightarrow> string \<Rightarrow> string \<times> string list" where
  "select_examples files score product_type category = (let (mode, file) = examples_mode score;
       examples = extract_examples (load_prompt_file files file);
       msp = (if product_type = ''msp'' \<and> mode = ''full'' then (case find msp_example examples of None \<Rightarrow> [] | Some e \<Rightarrow> [e]) else []);
       c = py_lower category;
       chosen = (if c \<noteq> [] \<and> msp = [] then pick_examples 2 (on_category c) examples [] else msp)
     in (mode, fill_examples examples chosen))"

record prompt_sections =
  ps_rules :: string
  ps_subjects :: string
  ps_examples :: string
  ps_mode :: string
  ps_count :: nat

definition load_prompt_sections :: "prompt_files \<Rightarrow> int option \<Rightarrow> string \<Rightarrow> string \<Rightarrow> bool \<Rightarrow> prompt_sections" where
  "load_prompt_sections files score product_type category use_selector =
     (let rules = load_prompt_file files ''pea_rules_core.md''; subjects = load_prompt_file files ''pea_subject_rules.md'' in
      if use_selector then (let (mode, chosen) = select_examples files score product_type category in
        \<lparr>ps_rules = rules, ps_subjects = subjects, ps_examples = py_join (nl @ rule_line @ nl) chosen,
         ps_mode = mode, ps_count = length chosen\<rparr>)
      else (let (mode, file) = examples_mode score;
         examples = (if mode = ''partial'' then
             ''**PARTIAL-SIGNAL PVP EXAMPLES**'' @ nl @ nl @ ''The following examples show how to write valuable sequences '' @
             ''when data is incomplete.'' @ nl @ rule_line @ nl @ load_prompt_file files file
           else ''**ADDITIONAL PVP EXAMPLES**'' @ nl @ nl @ ''The following examples show the PEA framework in action.'' @ nl @ nl @
             ''**SECTION A: FULL-CONFIDENCE PVP EXAMPLES**'' @ nl @ nl @ load_prompt_file files file @
             nl @ rule_line @ nl @ load_prompt_file files ''pea_examples_partial.md'')
       in \<lparr>ps_rules = rules, ps_subjects = subjects, ps_examples = examples, ps_mode = mode,
           ps_count = length (extract_examples examples)\<rparr>))"

section \<open>Prompts\<close>

record generation =
  gn_report :: string
  gn_product :: string
  gn_product_type :: string
  gn_category :: string
  gn_score :: "int option"
  gn_persona :: bool
  gn_selector :: bool

definition low_score :: "generation \<Rightarrow> bool" where
  "low_score g \<longleftrightarrow> (case gn_score g of None \<Rightarrow> False | Some n \<Rightarrow> n < 50)"

definition section_a :: string where
  "section_a = ''**ADDITIONAL PVP EXAMPLES**''"

definition section_b :: string where
  "section_b = ''**SECTION B: PARTIAL-SIGNAL PVP EXAMPLES**''"

definition inline_system_prompt :: "string \<Rightarrow> generation \<Rightarrow> string" where
  "inline_system_prompt inline g = (if \<not> low_score g then inline
     else (case (cut_at section_a inline, cut_at section_b inline) of
       (Some (before, x), Some (y, after)) \<Rightarrow> before @
         ''**PARTIAL-SIGNAL PVP EXAMPLES**'' @ nl @ nl @ ''The following 7 examples show how to write valuable sequences '' @
         ''when data is incomplete.'' @ nl @ rule_line @ nl @ section_b @ after
     | _ \<Rightarrow> inline))"

definition build_system_prompt :: "prompt_files \<Rightarrow> string \<Rightarrow> generation \<Rightarrow> string" where
  "build_system_prompt files inline g =
     (let s = load_prompt_sections files (gn_score g) (gn_product_type g) (gn_product g) (gn_selector g)
      in if ps_rules s = [] then inline_system_prompt inline g
         else py_join (nl @ rule_line @ nl) (ps_rules s # filter (\<lambda>x. x \<noteq> []) [ps_subjects s, ps_examples s]))"

definition constraint_of :: "string \<Rightarrow> string" where
  "constraint_of category = coalesce (map_of prompt_constraints category) []"

definition low_confidence_block :: "int \<Rightarrow> string" where
  "low_confidence_block score =
     ''**LOW-CONFIDENCE RESEARCH -- PARTIAL-SIGNAL MODE**'' @ nl @ nl @
     ''The research score for this prospect is '' @ str_int score @
     ''/100. The data is thin, ambiguous, or unconfirmed.'' @ nl @ nl @
     ''You MUST use partial-signal patterns for this sequence:'' @ nl @
     ''- Do NOT use \"that combination usually means\" or similar confident framing'' @ nl @
     ''- Name what you observed and explicitly acknowledge what you don't know'' @ nl @
     ''- Offer value conditionally: \"If X is true, here's something useful\"'' @ nl @
     ''- Give permission to ignore: \"If this isn't relevant, no worries\"'' @ nl @
     ''- Position insights as benchmarks, not diagnoses'' @ nl @
     ''- Use \"a company in a similar situation\" framing in ENGAGE, not definitive case studies'' @ nl @
     ''- Frame the ASK as \"yours regardless\" or \"useful either way\"'' @ nl @
     ''- Lead with business initiatives, product launches, or market moves -- not tech stack '' @ ''details'' @
     nl @ ''- Never reference what your research did or didn't uncover. Talk about what the '' @
     ''prospect is DOING, not what your search turned up. Do not narrate the research process.'' @ nl @
     ''- If you only have partial signals, lead with the business activity and pivot to the '' @
     ''value question: \"You're expanding into X -- curious whether Y is on your radar.\"'' @ nl @
     ''- Never use condescending qualifiers about their stack: \"basic\", \"simple\", \"limited\", '' @
     ''\"rudimentary\", \"might work fine now\", \"works fine for now\". Describe what they have '' @
     ''neutrally without grading it.'' @ nl @
     ''- Do NOT use these phrases or similar: \"no obvious\", \"lacking\", \"without any\", '' @
     ''\"missing\", \"doesn't appear to have\", \"I couldn't find\", \"worth knowing the pattern\"'' @ nl @ nl @
     ''Use the partial-signal examples as your primary models for this sequence.''"

definition services_block :: string where
  "services_block =
     ''**PROFESSIONAL SERVICES / CONSULTANCY FRAMING -- APPLY TO ALL EMAILS:**'' @ nl @ nl @
     ''- Lead with operational complexity and the burden of managing specialist functions '' @
     ''alongside core business. The prospect runs a company where the seller's domain (IT, '' @
     ''data, analytics, compliance) is a distraction from their actual work.'' @ nl @
     ''- Frame around reliability, compliance, data-driven decisions, and freeing up '' @
     ''leadership attention -- not digital transformation or innovation.'' @ nl @
     ''- The prospect may not be a tech buyer -- avoid unnecessary jargon. Frame everything in '' @
     ''business terms: uptime, risk, cost predictability, reporting clarity, compliance peace '' @
     ''of mind.'' @ nl @ ''- Reference pain they feel daily: systems going down, reports that take days to '' @
     ''assemble, compliance audit anxiety, decisions made on gut feel instead of data, '' @
     ''implementation backlogs growing.'' @ nl @
     ''- Position professional services as removing a burden, not adding a capability. '' @
     ''Examples: managed IT handling infrastructure so the owner doesn't have to, data '' @
     ''consultancies turning messy spreadsheets into dashboards, implementation partners '' @
     ''clearing project backlogs.''"

definition persona_block :: string where
  "persona_block =
     ''**PERSONA-TARGETED OUTREACH:**'' @ nl @ nl @
     ''The report includes a Target Contact section with a specific person's LinkedIn profile '' @
     ''data. Personalize emails for this individual:'' @ nl @
     ''- Use their first name naturally in EVERY email body -- Email 1, Email 2, AND Email 3 '' @
     ''(not in subject lines)'' @ nl @
     ''- Email 2 (the proof email): bridge back to the prospect by name when connecting the '' @
     ''case study to their situation'' @ nl @
     ''- Reference their specific role and responsibilities when connecting to pain points'' @ nl @
     ''- Frame insights through the lens of what matters to someone in their position'' @ nl @
     ''- Do NOT mention that you saw their LinkedIn profile or researched them personally'' @ nl @
     ''- Do NOT reference their career history, skills section, or about section directly'' @ nl @
     ''- The personalization should feel like you understand their role, not like you stalked '' @
     ''their profile''"

definition constraint_block :: "string \<Rightarrow> string" where
  "constraint_block category =
     ''**PRODUCT-RELEVANCE CONSTRAINT ('' @ map upper_of category @ '' SELLER):**'' @ nl @ nl @
     ''Use ONLY signals causally connected to the seller's product category. Reject weak or '' @
     ''indirect signal connections even if technically interesting.'' @ nl @ nl @
     constraint_of category @ nl @ nl @
     ''Fallback when hooks feel tangential: [Business/operational signal] -> [Consequence] -> '' @
     ''[Why now]. Use business pain, growth pressure, and operational bottlenecks that the '' @
     ''seller's product directly resolves.''"

definition build_user_prompt :: "generation \<Rightarrow> string" where
  "build_user_prompt g = py_join (nl @ nl) (
     [''Generate a 3-email PVP sequence for the following prospect.''] @
     (if low_score g then [low_confidence_block (coalesce (gn_score g) 0)] else []) @
     (if gn_product_type g = ''msp'' then [services_block] else []) @
     (if gn_persona g then [persona_block] else []) @
     (if gn_category g \<noteq> [] \<and> denied (gn_category g) then [constraint_block (gn_category g)] else []) @
     [''<report>'' @ nl @ gn_report g @ nl @ ''</report>''])"

definition repair_prompt :: "string \<Rightarrow> string" where
  "repair_prompt raw = ''The following email sequence output is malformed. '' @
     ''Rewrite it into EXACTLY this format with no other text:'' @ nl @ nl @
     ''Subject 1: [subject line option 1]'' @ nl @ ''Subject 2: [subject line option 2]'' @ nl @
     ''Subject 3: [subject line option 3]'' @ nl @ nl @ ''Email 1:'' @ nl @ ''[body]'' @ nl @ nl @
     ''Email 2:'' @ nl @ ''[body]'' @ nl @ nl @ ''Email 3:'' @ nl @ ''[body]'' @ nl @ nl @
     ''Keep the same content, just fix the formatting. '' @ ''Each email must have a non-empty body. '' @
     ''Output ONLY the formatted sequence.'' @ nl @ nl @ ''--- MALFORMED OUTPUT ---'' @ nl @ raw"

definition word_limit :: "int \<Rightarrow> nat" where
  "word_limit n = (if n = 1 then 75 else if n = 2 then 100 else if n = 3 then 60 else 100)"

definition body_words :: "email \<Rightarrow> nat" where
  "body_words e = length (words (em_body e))"

definition shorten_prompt :: "email \<Rightarrow> string" where
  "shorten_prompt e = ''Rewrite this email to be UNDER '' @ str_nat (word_limit (em_number e)) @ '' words. '' @
     ''It is currently '' @ str_nat (body_words e) @ '' words.'' @ nl @
     ''Keep the same message, tone, and structure. Just cut it down.'' @ nl @
     ''Output ONLY the rewritten email body. No headers, labels, or commentary.'' @ nl @ nl @ em_body e"

fun number_lines :: "nat \<Rightarrow> string list \<Rightarrow> string list" where
  "number_lines i [] = []"
| "number_lines i (s # ss) = (''  Subject '' @ str_nat i @ '': '' @ s) # number_lines (i + 1) ss"

definition rewrite_subject_prompt :: "string list \<Rightarrow> string list \<Rightarrow> string" where
  "rewrite_subject_prompt subjects issues = ''The following subject lines have issues that must be fixed:'' @ nl @
     py_join nl (number_lines 1 subjects) @ nl @ nl @ ''Issues: '' @ py_join ''; '' issues @ nl @ nl @
     ''Rewrite ALL 3 subject lines following these rules:'' @ nl @ ''- MAX 4 words. Shorter is better.'' @ nl @
     ''- All lowercase. No title case.'' @ nl @ ''- No questions, no exclamation marks, no numbers/stats'' @ nl @
     ''- NEVER use the word 'AI' in a subject line'' @ nl @
     ''- Reference something specific from the prospect's world'' @ nl @ ''- Each must take a genuinely different angle'' @ nl @ nl @
     ''Output EXACTLY in this format:'' @ nl @ ''Subject 1: [text]'' @ nl @ ''Subject 2: [text]'' @ nl @ ''Subject 3: [text]''"

section \<open>Subject lines\<close>

definition is_letter :: "char \<Rightarrow> char \<Rightarrow> bool" where
  "is_letter c d \<longleftrightarrow> lower_char d = c"

definition standalone_ai :: rx where
  "standalone_ai = in_order [Word_Edge, One (is_letter CHR ''a''), One (is_letter CHR ''i''), Word_Edge]"

definition validate_subject_line :: "string \<Rightarrow> string \<times> string list" where
  "validate_subject_line subject = (let cleaned = py_strip (py_rstrip {CHR ''!'', CHR ''?''} (py_lower subject));
       n = length (words cleaned)
     in (cleaned,
       (if 6 < n then [''too long ('' @ str_nat n @ '' words, max 6)''] else []) @
       (if re_found standalone_ai cleaned then [''contains standalone \"ai\"''] else []) @
       (if re_found (One decimal_digit) cleaned then [''contains digits''] else [])))"

definition set_subject :: "string \<Rightarrow> email list \<Rightarrow> email list" where
  "set_subject s es = map (\<lambda>e. e\<lparr>em_subject := s\<rparr>) es"

definition fix_subject_lines :: "email list \<Rightarrow> string list \<Rightarrow> email list \<times> string list \<times> string list" where
  "fix_subject_lines es subjects = (let checked = map validate_subject_line subjects; cleaned = map fst checked
     in (if cleaned = [] then es else set_subject (hd cleaned) es, cleaned, concat (map snd checked)))"

section \<open>Parsing the answer\<close>

definition one_of :: "string \<Rightarrow> rx" where
  "one_of s = One (\<lambda>c. c \<in> set s)"

definition quotes :: string where
  "quotes = [CHR 0x60, CHR 0x22, CHR 0x27]"

definition unquote :: "string \<Rightarrow> string" where
  "unquote s = py_strip_of (set quotes) (py_strip s)"

definition subject_rx :: rx where
  "subject_rx = in_order [one_of ''Ss'', lit ''ubject'', Star is_space, One decimal_digit, Star is_space,
     lit '':'', Star is_space, Group (many1 not_newline)]"

definition tagged_rx :: "string \<Rightarrow> rx" where
  "tagged_rx tag = in_order [lit (''<'' @ tag @ ''>''), Group (Lazy any_char), lit (''</'' @ tag @ ''>'')]"

definition subject_block_rx :: rx where
  "subject_block_rx = in_order [one_of ''Ss'', lit ''ubject'', Lazy any_char, lit '':'', Group (Lazy any_char),
     Or (lit (nl @ nl)) (Or (lit ''---'') (Or (lit ''**Email'') (in_order [lit ''Email '', One decimal_digit])))]"

definition numbered_rx :: rx where
  "numbered_rx = in_order [Line_Start, Star is_space, many1 decimal_digit, lit ''.'', Star is_space, Maybe (one_of quotes),
     Group (many1 (\<lambda>c. c \<notin> set quotes \<and> c \<noteq> rx_newline)), Maybe (one_of quotes), Star is_space, Line_End]"

definition header_rx :: rx where
  "header_rx = in_order [Or Text_Start (lit nl), Star is_space,
     Maybe (Or (lit ''**'') (in_order [lit ''#'', Maybe (lit ''#''), Star is_space])), lit ''Email'', Star is_space,
     Group (One decimal_digit), Star not_newline, lit nl]"

definition body_label_rx :: rx where
  "body_label_rx = in_order [Text_Start, Star is_space, Maybe (lit ''*''), Maybe (lit ''*''), lit ''Body'', Maybe (lit '':''),
     Maybe (lit ''*''), Maybe (lit ''*''), Star is_space, Maybe (lit nl)]"

definition last_rule_rx :: rx where
  "last_rule_rx = in_order [Maybe (lit nl), lit ''---'', Star is_space, Text_End]"

definition tagged :: "string \<Rightarrow> string \<Rightarrow> nat \<Rightarrow> string option" where
  "tagged tag raw i = map_option py_strip (re_group (tagged_rx (tag @ str_nat i)) raw)"

definition somes :: "'a option list \<Rightarrow> 'a list" where
  "somes xs = map the (filter (\<lambda>x. x \<noteq> None) xs)"

definition parse_subjects :: "string \<Rightarrow> string list" where
  "parse_subjects raw = (let s1 = map unquote (take 3 (re_findall subject_rx raw)) in if s1 \<noteq> [] then s1
     else (let s2 = somes (map (tagged ''subject'' raw) [1, 2, 3]) in if s2 \<noteq> [] then s2
     else (let s3 = (case re_group subject_block_rx raw of None \<Rightarrow> []
           | Some block \<Rightarrow> map py_strip (take 3 (re_findall numbered_rx block)))
       in if s3 \<noteq> [] then s3 else [''Following up''])))"

text \<open>The numbers and bodies after the text before the first header\<close>

fun pair_up :: "string list \<Rightarrow> (string \<times> string) list" where
  "pair_up (n # b # r) = (n, b) # pair_up r"
| "pair_up r = []"

definition digit_number :: "string \<Rightarrow> int" where
  "digit_number s = (case s of [] \<Rightarrow> 0 | c # t \<Rightarrow> int (coalesce (digit_value c) 0))"

definition clean_body :: "string \<Rightarrow> string" where
  "clean_body s = py_replace ''**'' [] (py_strip (re_sub last_rule_rx (re_sub body_label_rx (py_strip s))))"

definition tagged_email :: "string \<Rightarrow> string \<Rightarrow> nat \<Rightarrow> email option" where
  "tagged_email subject raw i = map_option (\<lambda>b. \<lparr>em_number = int i, em_subject = subject, em_body = py_replace ''**'' [] b\<rparr>)
     (tagged ''email'' raw i)"

definition parse_output :: "string \<Rightarrow> email list \<times> string list" where
  "parse_output raw = (let subjects = parse_subjects raw; subject = hd subjects;
       es = map (\<lambda>(n, b). \<lparr>em_number = digit_number n, em_subject = subject, em_body = clean_body b\<rparr>)
         (pair_up (tl (re_split header_rx raw)))
     in (if es \<noteq> [] then es else somes (map (tagged_email subject raw) [1, 2, 3]), subjects))"

section \<open>Validation\<close>

definition ints_text :: "int list \<Rightarrow> string" where
  "ints_text is = ''['' @ py_join '', '' (map str_int is) @ '']''"

definition blank_text :: "string \<Rightarrow> bool" where
  "blank_text s \<longleftrightarrow> py_strip s = []"

text \<open>The first defect, if any; the loop looks at the subject and the body of each e-mail in turn.\<close>

fun empty_part :: "email list \<Rightarrow> string option" where
  "empty_part [] = None"
| "empty_part (e # es) = (if blank_text (em_subject e) then Some (''Email '' @ str_int (em_number e) @ '' has empty subject'')
     else if blank_text (em_body e) then Some (''Email '' @ str_int (em_number e) @ '' has empty body'') else empty_part es)"

definition validate_sequence :: "email list \<times> string list \<Rightarrow> string option" where
  "validate_sequence x = (case x of (es, subjects) \<Rightarrow>
     if length es \<noteq> 3 then Some (''Expected 3 emails, got '' @ str_nat (length es))
     else if em_number ` set es \<noteq> {1, 2, 3} then
       Some (''Email numbers must be 1,2,3 - got '' @ ints_text (sort (remdups (map em_number es))))
     else (case empty_part es of Some r \<Rightarrow> Some r
       | None \<Rightarrow> if subjects = [] then Some ''No subject options provided'' else None))"

definition over_limit_emails :: "email list \<Rightarrow> email list" where
  "over_limit_emails es = filter (\<lambda>e. word_limit (em_number e) < body_words e) es"

end
