(* ===== verification/Writing_Service.thy ===== *)
theory Writing_Service
  imports Writing_Email
begin

text \<open>
  The writer of outreach (\<open>services/writing/service.py\<close>): one call of the language model, repairs of what
  is malformed, shortening of what is too long, with telemetry. The model is an argument: a function
  from the number of the call and the request to the reply, so it may answer anything each time.
\<close>

section \<open>The language model\<close>

record llm_request =
  lr_model :: string
  lr_messages :: "(string \<times> string) list"
  lr_max :: nat

text \<open>No reply, a reply without choices, or the content of the first choice with the tokens used\<close>

datatype llm_reply = Unreachable | No_Choices | Choice "string option" "(int \<times> int) option"

type_synonym llm = "nat \<Rightarrow> llm_request \<Rightarrow> llm_reply"

record telemetry =
  tl_channel :: string
  tl_model :: string
  tl_retries :: nat
  tl_fail :: string
  tl_in :: int
  tl_out :: int
  tl_parsed :: bool
  tl_repair_attempted :: bool
  tl_repair_success :: bool
  tl_limit_pass :: bool
  tl_cta :: bool
  tl_reprompted :: bool

record run =
  rn_calls :: nat
  rn_tel :: telemetry
  rn_log :: "telemetry list"

definition new_telemetry :: "string \<Rightarrow> telemetry" where
  "new_telemetry channel = \<lparr>tl_channel = channel, tl_model = [], tl_retries = 0, tl_fail = [], tl_in = 0, tl_out = 0,
     tl_parsed = False, tl_repair_attempted = False, tl_repair_success = False, tl_limit_pass = False, tl_cta = False,
     tl_reprompted = False\<rparr>"

definition new_run :: "string \<Rightarrow> string \<Rightarrow> run" where
  "new_run channel model = \<lparr>rn_calls = 0, rn_tel = (new_telemetry channel)\<lparr>tl_model := model\<rparr>, rn_log = []\<rparr>"

definition tell :: "(telemetry \<Rightarrow> telemetry) \<Rightarrow> run \<Rightarrow> run" where
  "tell f r = r\<lparr>rn_tel := f (rn_tel r)\<rparr>"

definition retry_noted :: "run \<Rightarrow> run" where
  "retry_noted = tell (\<lambda>t. t\<lparr>tl_retries := tl_retries t + 1\<rparr>)"

definition emit_telemetry :: "run \<Rightarrow> run" where
  "emit_telemetry r = r\<lparr>rn_log := rn_log r @ [rn_tel r]\<rparr>"

definition llm_call :: "llm \<Rightarrow> string \<Rightarrow> (string \<times> string) list \<Rightarrow> nat \<Rightarrow> run \<Rightarrow> run \<times> (string \<times> int \<times> int) option" where
  "llm_call ai model messages max_tokens r = (r\<lparr>rn_calls := rn_calls r + 1\<rparr>,
     case ai (rn_calls r) \<lparr>lr_model = model, lr_messages = messages, lr_max = max_tokens\<rparr> of
       Unreachable \<Rightarrow> None | No_Choices \<Rightarrow> None
     | Choice content usage \<Rightarrow> Some (postprocess (coalesce content []), coalesce usage (0, 0)))"

text \<open>A call whose tokens are counted\<close>

definition counted_call :: "llm \<Rightarrow> string \<Rightarrow> (string \<times> string) list \<Rightarrow> nat \<Rightarrow> run \<Rightarrow> run \<times> string option" where
  "counted_call ai model messages max_tokens r = (case llm_call ai model messages max_tokens r of
     (r, None) \<Rightarrow> (r, None)
   | (r, Some (content, i, out)) \<Rightarrow> (tell (\<lambda>t. t\<lparr>tl_in := tl_in t + i, tl_out := tl_out t + out\<rparr>) r, Some content))"

record writer_config =
  wc_channel_model :: "string \<Rightarrow> string"
  wc_writing_model :: string
  wc_gate :: bool
  wc_selector :: bool
  wc_notes :: bool

definition get_model :: "writer_config \<Rightarrow> string \<Rightarrow> string" where
  "get_model cfg channel = (if wc_channel_model cfg channel \<noteq> [] then wc_channel_model cfg channel else wc_writing_model cfg)"

definition user_says :: "string \<Rightarrow> (string \<times> string) list" where
  "user_says prompt = [(''user'', prompt)]"

section \<open>Subjects and repair\<close>

type_synonym sequence = "email list \<times> string list"

text \<open>The rewrite of flagged subject lines; a failing call or an unreadable answer changes nothing.\<close>

definition rewrite_subjects :: "llm \<Rightarrow> string \<Rightarrow> sequence \<Rightarrow> string list \<Rightarrow> run \<Rightarrow> run \<times> sequence" where
  "rewrite_subjects ai model x issues r = (case x of (es, subjects) \<Rightarrow>
     if issues = [] then (r, x)
     else (case counted_call ai model (user_says (rewrite_subject_prompt subjects issues)) 200 (retry_noted r) of
       (r, None) \<Rightarrow> (r, x)
     | (r, Some raw) \<Rightarrow> (let fresh = map (\<lambda>s. fst (validate_subject_line (unquote s))) (take 3 (re_findall subject_rx raw))
         in (r, if fresh = [] then x else (set_subject (hd fresh) es, fresh)))))"

definition first_draft :: "llm \<Rightarrow> string \<Rightarrow> string \<Rightarrow> run \<Rightarrow> run \<times> sequence" where
  "first_draft ai model raw r = (case parse_output raw of (es, subjects) \<Rightarrow>
     (case fix_subject_lines es subjects of (es, subjects, issues) \<Rightarrow>
        rewrite_subjects ai model (es, subjects) issues (tell (\<lambda>t. t\<lparr>tl_parsed := (es \<noteq> [])\<rparr>) r)))"

definition repair_once :: "llm \<Rightarrow> string \<Rightarrow> string \<Rightarrow> sequence \<Rightarrow> run \<Rightarrow> run \<times> sequence \<times> string option" where
  "repair_once ai model raw x r = (case validate_sequence x of
     None \<Rightarrow> (r, x, None)
   | Some reason \<Rightarrow> (case counted_call ai model (user_says (repair_prompt raw)) 2000
         (tell (\<lambda>t. t\<lparr>tl_repair_attempted := True\<rparr>) (retry_noted r)) of
       (r, None) \<Rightarrow> (r, x, Some reason)
     | (r, Some repaired) \<Rightarrow> (let y = parse_output repaired; e = validate_sequence y
         in (tell (\<lambda>t. t\<lparr>tl_repair_success := (e = None)\<rparr>) r, y, e))))"

section \<open>Word limits\<close>

fun set_body :: "int \<Rightarrow> (string \<Rightarrow> string) \<Rightarrow> email list \<Rightarrow> email list" where
  "set_body n f [] = []"
| "set_body n f (e # es) = (if em_number e = n then e\<lparr>em_body := f (em_body e)\<rparr> # es else e # set_body n f es)"

text \<open>The calls of one pass; their tokens are not counted.\<close>

fun shorten_all :: "llm \<Rightarrow> string \<Rightarrow> email list \<Rightarrow> run \<Rightarrow> run \<times> (int \<times> string option) list" where
  "shorten_all ai model [] r = (r, [])"
| "shorten_all ai model (e # es) r = (case llm_call ai model (user_says (shorten_prompt e)) 500 r of (r1, answer) \<Rightarrow>
     (case shorten_all ai model es r1 of (r2, rest) \<Rightarrow> (r2, (em_number e, map_option fst answer) # rest)))"

definition apply_shortened :: "(int \<times> string option) list \<Rightarrow> email list \<Rightarrow> email list" where
  "apply_shortened results es = fold (\<lambda>(n, s) es. case s of None \<Rightarrow> es | Some b \<Rightarrow> set_body n (\<lambda>_. b) es) results es"

primrec shorten_passes :: "llm \<Rightarrow> string \<Rightarrow> nat \<Rightarrow> email list \<Rightarrow> run \<Rightarrow> run \<times> email list" where
  "shorten_passes ai model 0 es r = (r, es)"
| "shorten_passes ai model (Suc k) es r = (case shorten_all ai model (over_limit_emails es) (retry_noted r) of
     (r, results) \<Rightarrow> (let es = apply_shortened results es
       in if over_limit_emails es = [] then (r, es) else shorten_passes ai model k es r))"

definition hard_cap :: "email list \<Rightarrow> email list" where
  "hard_cap es = fold (\<lambda>e es. set_body (em_number e) (\<lambda>b. trim_to_word_limit b (word_limit (em_number e))) es) (over_limit_emails es) es"

definition enforce_limits :: "llm \<Rightarrow> string \<Rightarrow> email list \<Rightarrow> run \<Rightarrow> run \<times> email list" where
  "enforce_limits ai model es r = (if over_limit_emails es = [] then (r, es)
     else (case shorten_passes ai model 2 es r of (r, es) \<Rightarrow> (r, hard_cap es)))"

section \<open>The sequence\<close>

definition over_text :: "email \<Rightarrow> string" where
  "over_text e = ''Email '' @ str_int (em_number e) @ '': '' @ str_nat (body_words e) @ ''/'' @ str_nat (word_limit (em_number e))"

definition finish_sequence :: "llm \<Rightarrow> string \<Rightarrow> sequence \<Rightarrow> run \<Rightarrow> run \<times> sequence written" where
  "finish_sequence ai model x r = (case x of (es, subjects) \<Rightarrow>
     (case enforce_limits ai model es r of (r, es) \<Rightarrow>
        if over_limit_emails es \<noteq> [] then
          (emit_telemetry (tell (\<lambda>t. t\<lparr>tl_limit_pass := False\<rparr>) r), Rejected ''sequence_validation_failed''
             (''Emails still over word limit after shortening: '' @ py_join '', '' (map over_text (over_limit_emails es))))
        else (emit_telemetry (tell (\<lambda>t. t\<lparr>tl_limit_pass := True\<rparr>) r), Composed (es, subjects))))"

definition email_generation :: "writer_config \<Rightarrow> 'a draft_scheme \<Rightarrow> brief \<Rightarrow> generation" where
  "email_generation cfg d b = (let category = (if wc_gate cfg then detect_product_category (br_context b) else []);
       report = build_report d b
     in \<lparr>gn_report = (if category \<noteq> [] then apply_relevance_gate report category else report), gn_product = br_context b,
         gn_product_type = br_product_type b, gn_category = category, gn_score = dr_opportunity d,
         gn_persona = (br_persona b \<noteq> []), gn_selector = wc_selector cfg\<rparr>)"

definition opening_call ::
    "writer_config \<Rightarrow> prompt_files \<Rightarrow> string \<Rightarrow> llm \<Rightarrow> 'a draft_scheme \<Rightarrow> brief \<Rightarrow> run \<times> string option" where
  "opening_call cfg files inline ai d b = (let g = email_generation cfg d b; model = get_model cfg ''email''
     in counted_call ai model [(''system'', build_system_prompt files inline g), (''user'', build_user_prompt g)] 2000
          (new_run ''email'' model))"

definition generate_email_sequence ::
    "writer_config \<Rightarrow> prompt_files \<Rightarrow> string \<Rightarrow> llm \<Rightarrow> 'a draft_scheme \<Rightarrow> brief \<Rightarrow> run \<times> sequence written" where
  "generate_email_sequence cfg files inline ai d b =
     (let model = get_model cfg ''email'' in
      case opening_call cfg files inline ai d b of
        (r, None) \<Rightarrow> (r, WriterFails)
      | (r, Some raw) \<Rightarrow> (case first_draft ai model raw r of (r, x) \<Rightarrow>
          (case repair_once ai model raw x r of
             (r, x, Some reason) \<Rightarrow> (emit_telemetry (tell (\<lambda>t. t\<lparr>tl_fail := reason\<rparr>) r), Rejected ''sequence_repair_failed'' reason)
           | (r, x, None) \<Rightarrow> finish_sequence ai model x r)))"

section \<open>Calls are bounded\<close>

lemma tell_calls [simp]: "rn_calls (tell f r) = rn_calls r" "rn_log (tell f r) = rn_log r"
  by (simp_all add: tell_def)

lemma retry_noted_calls [simp]: "rn_calls (retry_noted r) = rn_calls r" "rn_log (retry_noted r) = rn_log r"
  by (simp_all add: retry_noted_def)

lemma emit_calls [simp]: "rn_calls (emit_telemetry r) = rn_calls r" "rn_log (emit_telemetry r) = rn_log r @ [rn_tel r]"
  by (simp_all add: emit_telemetry_def)

lemma llm_call_calls [simp]:
  "rn_calls (fst (llm_call ai m ms k r)) = Suc (rn_calls r)" "rn_log (fst (llm_call ai m ms k r)) = rn_log r"
  by (simp_all add: llm_call_def)

lemma counted_call_calls [simp]:
  "rn_calls (fst (counted_call ai m ms k r)) = Suc (rn_calls r)" "rn_log (fst (counted_call ai m ms k r)) = rn_log r"
  by (auto simp: counted_call_def llm_call_def split: llm_reply.splits option.splits prod.splits)

lemma counted_callD:
  "counted_call ai m ms k r = (r', x) \<Longrightarrow> rn_calls r' = Suc (rn_calls r) \<and> rn_log r' = rn_log r"
  using counted_call_calls [of ai m ms k r] by simp

lemma rewrite_subjects_calls:
  "rewrite_subjects ai model x issues r = (r', y) \<Longrightarrow> rn_calls r' \<le> Suc (rn_calls r) \<and> rn_log r' = rn_log r"
  by (auto simp: rewrite_subjects_def Let_def split: prod.splits option.splits if_splits dest!: counted_callD)

lemma first_draft_calls:
  "first_draft ai model raw r = (r', y) \<Longrightarrow> rn_calls r' \<le> Suc (rn_calls r) \<and> rn_log r' = rn_log r"
  by (auto simp: first_draft_def split: prod.splits dest!: rewrite_subjects_calls)

lemma repair_once_calls:
  "repair_once ai model raw x r = (r', y, e) \<Longrightarrow> rn_calls r' \<le> Suc (rn_calls r) \<and> rn_log r' = rn_log r"
  by (auto simp: repair_once_def Let_def split: prod.splits option.splits dest!: counted_callD)

lemma shorten_all_calls:
  "rn_calls (fst (shorten_all ai model es r)) = rn_calls r + length es \<and> rn_log (fst (shorten_all ai model es r)) = rn_log r"
proof (induction es arbitrary: r)
  case (Cons e es)
  obtain r1 x where c: "llm_call ai model (user_says (shorten_prompt e)) 500 r = (r1, x)" by fastforce
  obtain r2 xs where s: "shorten_all ai model es r1 = (r2, xs)" by fastforce
  have "rn_calls r1 = Suc (rn_calls r)" "rn_log r1 = rn_log r"
    using llm_call_calls [of ai model "user_says (shorten_prompt e)" 500 r] c by simp_all
  with Cons [of r1] c s show ?case by simp
qed simp

lemma length_set_body [simp]: "length (set_body n f es) = length es"
  by (induction es) auto

lemma length_apply_shortened [simp]: "length (apply_shortened results es) = length es"
  unfolding apply_shortened_def by (induction results arbitrary: es) (auto split: option.splits)

lemma length_over_limit: "length (over_limit_emails es) \<le> length es"
  by (simp add: over_limit_emails_def)

lemma shorten_passes_calls:
  "rn_calls (fst (shorten_passes ai model k es r)) \<le> rn_calls r + k * length es \<and>
   rn_log (fst (shorten_passes ai model k es r)) = rn_log r"
proof (induction k arbitrary: es r)
  case (Suc k)
  obtain r1 results where s: "shorten_all ai model (over_limit_emails es) (retry_noted r) = (r1, results)" by fastforce
  with shorten_all_calls [of ai model "over_limit_emails es" "retry_noted r"] length_over_limit [of es]
  have "rn_calls r1 \<le> rn_calls r + length es" "rn_log r1 = rn_log r" by simp_all
  with Suc [of "apply_shortened results es" r1] s show ?case by (auto simp: Let_def)
qed simp

lemma enforce_limits_calls:
  "enforce_limits ai model es r = (r', es') \<Longrightarrow> rn_calls r' \<le> rn_calls r + 2 * length es \<and> rn_log r' = rn_log r"
  using shorten_passes_calls [of ai model 2 es r]
  by (auto simp: enforce_limits_def split: if_splits prod.splits)

section \<open>Limits hold\<close>

lemma set_body_numbers [simp]: "map em_number (set_body n f es) = map em_number es"
  by (induction es) auto

lemma apply_shortened_numbers [simp]: "map em_number (apply_shortened results es) = map em_number es"
  unfolding apply_shortened_def by (induction results arbitrary: es) (auto split: option.splits)

lemma set_body_subjects [simp]: "map em_subject (set_body n f es) = map em_subject es"
  by (induction es) auto

lemma apply_shortened_subjects [simp]: "map em_subject (apply_shortened results es) = map em_subject es"
  unfolding apply_shortened_def by (induction results arbitrary: es) (auto split: option.splits)

definition heads :: "email list \<Rightarrow> (int list \<times> string list)" where
  "heads es = (map em_number es, map em_subject es)"

lemma heads_set_body [simp]: "heads (set_body n f es) = heads es"
  by (simp add: heads_def)

lemma heads_apply_shortened [simp]: "heads (apply_shortened results es) = heads es"
  by (simp add: heads_def)

lemma heads_passes: "heads (snd (shorten_passes ai model k es r)) = heads es"
  by (induction k arbitrary: es r) (auto simp: Let_def split: prod.splits)

lemma heads_fold_cap: "heads (fold (\<lambda>e es. set_body (em_number e) (F e) es) os es) = heads es"
  by (induction os arbitrary: es) auto

lemma heads_enforce: "heads (snd (enforce_limits ai model es r)) = heads es"
proof (cases "over_limit_emails es = []")
  case False
  obtain r1 es1 where "shorten_passes ai model 2 es r = (r1, es1)" by fastforce
  with False heads_passes [of ai model 2 es r] show ?thesis
    by (simp add: enforce_limits_def hard_cap_def heads_fold_cap)
qed (simp add: enforce_limits_def)

definition capped :: "email \<Rightarrow> bool" where
  "capped e \<longleftrightarrow> body_words e \<le> word_limit (em_number e)"

lemma over_limit_iff: "over_limit_emails es = [] \<longleftrightarrow> (\<forall>e \<in> set es. capped e)"
  by (auto simp: over_limit_emails_def filter_empty_conv capped_def)

lemma set_body_distinct:
  "distinct (map em_number es) \<Longrightarrow>
   set_body n f es = map (\<lambda>e. if em_number e = n then e\<lparr>em_body := f (em_body e)\<rparr> else e) es"
proof (induction es)
  case (Cons a es)
  then show ?case by (auto intro!: map_idI [symmetric]) (metis image_eqI)
qed simp

lemma fold_cap_capped:
  assumes "distinct (map em_number es)"
    and "\<forall>e \<in> set es. capped e \<or> em_number e \<in> em_number ` set os"
  shows "\<forall>e \<in> set (fold (\<lambda>a es. set_body (em_number a) (\<lambda>b. trim_to_word_limit b (word_limit (em_number a))) es) os es). capped e"
  using assms
proof (induction os arbitrary: es)
  case (Cons a os)
  let ?es = "set_body (em_number a) (\<lambda>b. trim_to_word_limit b (word_limit (em_number a))) es"
  have d: "distinct (map em_number ?es)" using Cons.prems(1) by simp
  have "\<forall>e \<in> set ?es. capped e \<or> em_number e \<in> em_number ` set os"
    using Cons.prems by (auto simp: set_body_distinct capped_def body_words_def trim_length)
  from Cons.IH [OF d this] show ?case by simp
qed simp

lemma hard_cap_capped: "distinct (map em_number es) \<Longrightarrow> over_limit_emails (hard_cap es) = []"
  unfolding over_limit_iff hard_cap_def
  by (rule fold_cap_capped) (auto simp: over_limit_emails_def capped_def)

lemma enforce_limits_capped:
  assumes "distinct (map em_number es)" "enforce_limits ai model es r = (r', es')"
  shows "over_limit_emails es' = []"
proof (cases "over_limit_emails es = []")
  case False
  obtain r1 es1 where p: "shorten_passes ai model 2 es r = (r1, es1)" by fastforce
  with heads_passes [of ai model 2 es r] assms(1) have "distinct (map em_number es1)" by (simp add: heads_def)
  with p False assms(2) show ?thesis using hard_cap_capped by (auto simp: enforce_limits_def)
qed (use assms in \<open>simp add: enforce_limits_def\<close>)

lemma valid_sequenceD:
  assumes "validate_sequence (es, subjects) = None"
  shows "length es = 3" "em_number ` set es = {1, 2, 3}" "\<forall>e \<in> set es. \<not> blank_text (em_subject e) \<and> \<not> blank_text (em_body e)" "subjects \<noteq> []"
    and "distinct (map em_number es)"
proof -
  have p: "empty_part es = None \<Longrightarrow> \<forall>e \<in> set es. \<not> blank_text (em_subject e) \<and> \<not> blank_text (em_body e)" for es
    by (induction es rule: empty_part.induct) (auto split: if_splits)
  show r: "length es = 3" "em_number ` set es = {1, 2, 3}" "\<forall>e \<in> set es. \<not> blank_text (em_subject e) \<and> \<not> blank_text (em_body e)" "subjects \<noteq> []"
    using assms p [of es] by (auto simp: validate_sequence_def split: if_splits option.splits)
  have "card (set (map em_number es)) = length (map em_number es)" using r(1, 2) by simp
  then show "distinct (map em_number es)" by (rule card_distinct)
qed

lemma repair_once_valid: "repair_once ai model raw x r = (r', y, None) \<Longrightarrow> validate_sequence y = None"
  by (auto simp: repair_once_def Let_def split: option.splits prod.splits)

lemma finish_composed:
  assumes "validate_sequence x = None" "finish_sequence ai model x r = (r', w)"
  shows "\<exists>es. w = Composed (es, snd x) \<and> heads es = heads (fst x) \<and> (\<forall>e \<in> set es. capped e)"
proof -
  obtain es subjects where x: "x = (es, subjects)" by fastforce
  obtain r1 es1 where e: "enforce_limits ai model es r = (r1, es1)" by fastforce
  have "over_limit_emails es1 = []"
    using enforce_limits_capped [OF _ e] valid_sequenceD(5) assms(1) x by simp
  with assms(2) x e heads_enforce [of ai model es r] show ?thesis
    by (auto simp: finish_sequence_def over_limit_iff)
qed

lemma sequence_shape:
  assumes "validate_sequence y = None" "heads es = heads (fst y)"
  shows "length es = 3 \<and> em_number ` set es = {1, 2, 3} \<and> snd y \<noteq> [] \<and> (\<forall>e \<in> set es. \<not> blank_text (em_subject e))"
proof -
  obtain es0 subjects where y: "y = (es0, subjects)" by fastforce
  have n: "map em_number es = map em_number es0" "map em_subject es = map em_subject es0"
    using assms(2) y by (simp_all add: heads_def)
  have "length es = length es0" using n(1) by (metis length_map)
  moreover have "em_number ` set es = em_number ` set es0" "em_subject ` set es = em_subject ` set es0"
    using n by (metis set_map)+
  moreover have "\<forall>s \<in> em_subject ` set es0. \<not> blank_text s" using valid_sequenceD(3) assms(1) y by blast
  then have "\<forall>e \<in> set es. \<not> blank_text (em_subject e)" using calculation(3) by blast
  ultimately show ?thesis using valid_sequenceD [of es0 subjects] assms(1) y by auto
qed

lemma sequence_outcome:
  assumes "snd (generate_email_sequence cfg files inline ai d b) = w"
  shows "case w of
      Composed (es, subjects) \<Rightarrow> length es = 3 \<and> em_number ` set es = {1, 2, 3} \<and> subjects \<noteq> [] \<and>
        (\<forall>e \<in> set es. length (words (em_body e)) \<le> word_limit (em_number e) \<and> \<not> blank_text (em_subject e))
    | Rejected code msg \<Rightarrow> code = ''sequence_repair_failed''
    | WriterFails \<Rightarrow> True"
proof -
  obtain r1 ans where c: "opening_call cfg files inline ai d b = (r1, ans)" by fastforce
  show ?thesis
  proof (cases ans)
    case None
    with assms c show ?thesis by (simp add: generate_email_sequence_def)
  next
    case (Some raw)
    let ?m = "get_model cfg ''email''"
    obtain r2 x where f: "first_draft ai ?m raw r1 = (r2, x)" by (rule prod.exhaust)
    obtain r3 y e where p: "repair_once ai ?m raw x r2 = (r3, y, e)" by (cases "repair_once ai ?m raw x r2") auto
    show ?thesis
    proof (cases e)
      case (Some reason)
      with \<open>ans = Some raw\<close> assms c f p show ?thesis by (auto simp: generate_email_sequence_def)
    next
      case None
      obtain r4 w' where w: "finish_sequence ai ?m y r3 = (r4, w')" by fastforce
      from None p have v: "validate_sequence y = None" using repair_once_valid by blast
      obtain es where es: "w' = Composed (es, snd y)" "heads es = heads (fst y)" "\<forall>e \<in> set es. capped e"
        using finish_composed [OF v w] by blast
      have "w = w'" using \<open>ans = Some raw\<close> None assms c f p w by (simp add: generate_email_sequence_def)
      with es sequence_shape [OF v es(2)] show ?thesis by (auto simp: capped_def body_words_def)
    qed
  qed
qed

text \<open>
  C33: whatever the language model answers, a sequence that is returned has exactly the e-mails 1, 2 and 3, each
  within its word limit and with a subject; the only refusal is a failed repair, never one for length.
\<close>

theorem email_sequence_within_limits:
  "case snd (generate_email_sequence cfg files inline ai d b) of
      Composed (es, subjects) \<Rightarrow> length es = 3 \<and> em_number ` set es = {1, 2, 3} \<and> subjects \<noteq> [] \<and>
        (\<forall>e \<in> set es. length (words (em_body e)) \<le> word_limit (em_number e) \<and> \<not> blank_text (em_subject e))
    | Rejected code msg \<Rightarrow> code = ''sequence_repair_failed''
    | WriterFails \<Rightarrow> True"
  by (rule sequence_outcome [OF refl])

text \<open>
  a generation ends after at most nine calls of the model, and logs its telemetry exactly once unless
  the first call fails.
\<close>

theorem email_generation_bounded:
  "case generate_email_sequence cfg files inline ai d b of (r, w) \<Rightarrow>
     rn_calls r \<le> 9 \<and> length (rn_log r) = (case w of WriterFails \<Rightarrow> 0 | _ \<Rightarrow> 1)"
proof -
  obtain r1 ans where c: "opening_call cfg files inline ai d b = (r1, ans)" by fastforce
  then have r1: "rn_calls r1 = 1" "rn_log r1 = []"
    using counted_call_calls by (auto simp: opening_call_def Let_def new_run_def dest!: counted_callD)
  show ?thesis
  proof (cases ans)
    case None
    with c r1 show ?thesis by (simp add: generate_email_sequence_def)
  next
    case (Some raw)
    let ?m = "get_model cfg ''email''"
    obtain r2 x where f: "first_draft ai ?m raw r1 = (r2, x)" by (rule prod.exhaust)
    obtain r3 y e where p: "repair_once ai ?m raw x r2 = (r3, y, e)" by (cases "repair_once ai ?m raw x r2") auto
    have r3: "rn_calls r3 \<le> 3" "rn_log r3 = []"
      using first_draft_calls [OF f] repair_once_calls [OF p] r1 by simp_all
    show ?thesis
    proof (cases e)
      case (Some reason)
      with \<open>ans = Some raw\<close> c f p r3 show ?thesis by (simp add: generate_email_sequence_def)
    next
      case None
      obtain r4 w where w: "finish_sequence ai ?m y r3 = (r4, w)" by fastforce
      obtain r5 es where l: "enforce_limits ai ?m (fst y) r3 = (r5, es)" by fastforce
      have "length (fst y) = 3"
        using repair_once_valid p None valid_sequenceD(1) [of "fst y" "snd y"] by simp
      with enforce_limits_calls [OF l] r3 have r5: "rn_calls r5 \<le> 9" "rn_log r5 = []" by simp_all
      have "rn_calls r4 = rn_calls r5 \<and> length (rn_log r4) = 1 \<and> w \<noteq> WriterFails"
        using w l r5 by (cases y) (auto simp: finish_sequence_def split: if_splits)
      with \<open>ans = Some raw\<close> None c f p w r5 show ?thesis
        by (auto simp: generate_email_sequence_def split: written.split)
    qed
  qed
qed

section \<open>A run\<close>

definition email_head :: "nat \<Rightarrow> string" where
  "email_head i = ''Email '' @ str_nat i @ '':'' @ nl"

definition sample_answer :: "string \<Rightarrow> string" where
  "sample_answer body = ''Subject 1: welders'' @ nl @ email_head 1 @ ''b'' @ nl @ email_head 2 @ ''c'' @ nl @ email_head 3 @ body"

definition sample_emails :: "string \<Rightarrow> email list" where
  "sample_emails body = map (\<lambda>(n, b). \<lparr>em_number = n, em_subject = ''welders'', em_body = b\<rparr>) [(1, ''b''), (2, ''c''), (3, body)]"

definition wordy :: string where
  "wordy = concat (replicate 61 ''w '')"

text \<open>A model that answers well once, and later with nothing\<close>

definition sample_ai :: "string \<Rightarrow> llm" where
  "sample_ai body = (\<lambda>n q. if n = 0 then Choice (Some (sample_answer body)) None else Choice None None)"

lemma short_parsed: "parse_output (postprocess (sample_answer ''d'')) = (sample_emails ''d'', [''welders''])"
  by code_simp

lemma welders_fine: "validate_subject_line ''welders'' = (''welders'', [])"
  by code_simp

lemma sample_valid: "\<not> blank_text body \<Longrightarrow> validate_sequence (sample_emails body, [''welders'']) = None"
  by (auto simp: validate_sequence_def sample_emails_def) (simp_all add: blank_text_def py_strip_def is_space_def)

lemma sample_draft:
  assumes "parse_output (postprocess (sample_answer body)) = (sample_emails body', [''welders''])" "\<not> blank_text body'"
  shows "snd (generate_email_sequence cfg files inline (sample_ai body) d b) =
    snd (finish_sequence (sample_ai body) (get_model cfg ''email'') (sample_emails body', [''welders''])
      (tell (\<lambda>t. t\<lparr>tl_parsed := True\<rparr>) (fst (opening_call cfg files inline (sample_ai body) d b))))"
proof -
  obtain r where c: "opening_call cfg files inline (sample_ai body) d b = (r, Some (postprocess (sample_answer body)))"
    by (simp add: opening_call_def counted_call_def llm_call_def sample_ai_def new_run_def Let_def)
  have s: "set_subject ''welders'' (sample_emails body') = sample_emails body'" "sample_emails body' \<noteq> []"
    by (simp_all add: set_subject_def sample_emails_def)
  have "first_draft (sample_ai body) (get_model cfg ''email'') (postprocess (sample_answer body)) r =
      (tell (\<lambda>t. t\<lparr>tl_parsed := True\<rparr>) r, (sample_emails body', [''welders'']))"
    using s by (simp add: first_draft_def assms(1) fix_subject_lines_def welders_fine rewrite_subjects_def Let_def)
  then show ?thesis
    using c sample_valid [OF assms(2)] by (simp add: generate_email_sequence_def repair_once_def split_def)
qed

lemma sample_emptied: "set_body 3 (\<lambda>_. []) (sample_emails x) = sample_emails []"
  by (simp add: sample_emails_def)

lemma short_run:
  "snd (generate_email_sequence cfg files inline (sample_ai ''d'') d b) = Composed (sample_emails ''d'', [''welders''])"
proof -
  have o: "over_limit_emails (sample_emails ''d'') = []" by code_simp
  have "\<not> blank_text ''d''" by code_simp
  from sample_draft [OF short_parsed this] o show ?thesis
    by (simp add: finish_sequence_def enforce_limits_def)
qed

theorem email_sequence_within_limits_witness:
  "\<forall>cfg files inline d b. \<exists>es subjects. snd (generate_email_sequence cfg files inline (sample_ai ''d'') d b) = Composed (es, subjects) \<and>
     length es = 3 \<and> em_number ` set es = {1, 2, 3}"
proof (intro allI)
  fix cfg files inline b and d :: "'a draft_scheme"
  show "\<exists>es subjects. snd (generate_email_sequence cfg files inline (sample_ai ''d'') d b) = Composed (es, subjects) \<and>
     length es = 3 \<and> em_number ` set es = {1, 2, 3}"
    using email_sequence_within_limits [of cfg files inline "sample_ai ''d''" d b] unfolding short_run by simp
qed

text \<open>
  a shortened e-mail may be empty: an answer without content counts as short enough, and the bodies are
  not checked again.
\<close>

theorem shortened_email_may_be_blank:
  "over_limit_emails (sample_emails (py_strip wordy)) \<noteq> [] \<and>
   snd (enforce_limits (\<lambda>n q. Choice None None) model (sample_emails (py_strip wordy)) r) = sample_emails []"
proof -
  have long: "over_limit_emails (sample_emails (py_strip wordy)) = [\<lparr>em_number = 3, em_subject = ''welders'', em_body = py_strip wordy\<rparr>]"
    by code_simp
  have short: "over_limit_emails (sample_emails []) = []" by code_simp
  have pp: "postprocess [] = []" by code_simp
  show ?thesis
    by (simp add: enforce_limits_def long numeral_2_eq_2 llm_call_def pp apply_shortened_def Let_def hard_cap_def
        sample_emptied short)
qed

end
