(* ===== verification/Writing_Linkedin.thy ===== *)
theory Writing_Linkedin
  imports Writing_Service
begin

text \<open>
  Single LinkedIn messages (\<open>services/writing/linkedin_shared.py\<close>, \<open>linkedin_dm.py\<close>,
  \<open>linkedin_connection.py\<close>, and their generation in \<open>services/writing/service.py\<close>). The text of the
  system prompts is an argument.
\<close>

section \<open>The prompt\<close>

datatype mode = Dm | Connection

definition mode_name :: "mode \<Rightarrow> string" where
  "mode_name m = (case m of Dm \<Rightarrow> ''dm'' | Connection \<Rightarrow> ''connection_request'')"

definition linkedin_limit :: "mode \<Rightarrow> nat" where
  "linkedin_limit m = (case m of Dm \<Rightarrow> 90 | Connection \<Rightarrow> 45)"

definition linkedin_floor :: "mode \<Rightarrow> nat" where
  "linkedin_floor m = (case m of Dm \<Rightarrow> 40 | Connection \<Rightarrow> 20)"

definition li_text :: "linkedin \<Rightarrow> string \<Rightarrow> string" where
  "li_text l k = coalesce (map_of (li_texts l) k) []"

definition screenshot_part :: "linkedin \<Rightarrow> string" where
  "screenshot_part l = (if \<not> li_unsure l \<and> li_type l \<in> {''profile'', ''post''}
     then (let author = filter (\<lambda>x. x \<noteq> []) (map (li_text l) [''author_name'', ''author_title'', ''author_company'']);
           ls = [''Content type: '' @ li_type l] @ (if author = [] then [] else [''Author: '' @ py_join '', '' author]) @
             (if li_text l ''focus_snippet'' = [] then [] else [''Key content: '' @ li_text l ''focus_snippet'']) @
             (if li_text l ''engagement'' = [] then [] else [''Engagement: '' @ li_text l ''engagement''])
         in ''<screenshot_context>'' @ nl @ py_join nl ls @ nl @ ''</screenshot_context>'')
     else ''Screenshot was unclear or not provided. Use research signals only -- do not reference specific LinkedIn content.'')"

definition build_linkedin_user_prompt :: "mode \<Rightarrow> string \<Rightarrow> string \<Rightarrow> string \<Rightarrow> linkedin \<Rightarrow> brief \<Rightarrow> string" where
  "build_linkedin_user_prompt m company category report l b = (let label = (if m = Dm then ''direct message'' else ''connection request note'') in
     py_join (nl @ nl) (
       (if company = [] then [''Write a LinkedIn '' @ label @ '' to this prospect.'']
        else [''Write a LinkedIn '' @ label @ '' to a prospect at **'' @ company @ ''**.'',
          ''You are NOT from '' @ company @ ''. You are a seller reaching out to someone who works there.'',
          ''The message MUST mention their company by name. Use this token: '' @ [CHR 0x22] @ extract_company_core company @ [CHR 0x22] @ ''.'']) @
       [screenshot_part l, ''<report>'' @ nl @ report @ nl @ ''</report>'',
        py_join nl ([''**SELLER CONTEXT (this is YOUR company, NOT the prospect):**''] @
          (if br_company b = [] then [] else [''Your company: '' @ br_company b]) @
          [''Product category: '' @ br_context b, ''Problems solved: '' @ br_problems b,
           ''Only reference pains that a buyer would connect to these capabilities.''])] @
       (if category \<noteq> [] \<and> denied category then [''**PRODUCT-RELEVANCE CONSTRAINT ('' @ map upper_of category @ '' SELLER):**'' @ nl @ nl @
          ''Use ONLY signals causally connected to the seller's product category. '' @
          ''Reject weak or indirect signal connections even if technically interesting.'' @ nl @ nl @ constraint_of category] else [])))"

section \<open>Parsing and validation\<close>

definition message_rx :: rx where
  "message_rx = in_order [Line_Start, lit ''Message:'', Star is_space]"

definition parse_linkedin_output :: "string \<Rightarrow> string" where
  "parse_linkedin_output raw = (let m = py_strip raw in case re_search message_rx m of
     None \<Rightarrow> m | Some (p, q) \<Rightarrow> py_strip (pl_after q))"

definition ends_question :: "string \<Rightarrow> bool" where
  "ends_question m = re_found (in_order [lit ''?'', Star is_space, Text_End]) m"

definition questions :: "string \<Rightarrow> nat" where
  "questions m = length (filter (\<lambda>c. c = CHR ''?'') m)"

definition banned_phrases :: "string list" where
  "banned_phrases = [''I noticed on your LinkedIn'', ''I noticed on your profile'', ''I noticed your LinkedIn'',
     ''I saw your post on LinkedIn'', ''I saw your LinkedIn'', ''I came across your profile'', ''I'd love 15 minutes'',
     ''I'd love to grab 15'', ''would love 15 minutes'', ''is impressive'', ''is exciting'', ''is fascinating'',
     ''is remarkable'', ''really impressive'', ''truly impressive'', ''really exciting'', ''truly exciting'']"

definition banned_in :: "string \<Rightarrow> string \<Rightarrow> bool" where
  "banned_in msg_lower p \<longleftrightarrow> py_in (py_lower p) msg_lower"

text \<open>The first defect of a message, in the order of the checks\<close>

definition validate_message :: "mode \<Rightarrow> string \<Rightarrow> string \<Rightarrow> string option" where
  "validate_message m company message = (let n = length (words message); l = py_lower message in
     if \<not> ends_question message \<or> questions message \<noteq> 1 then Some ''Message must end with exactly one question''
     else if n < linkedin_floor m then Some (''Message is '' @ str_nat n @ '' words, minimum is '' @ str_nat (linkedin_floor m))
     else if linkedin_limit m + 10 < n then Some (''Message is '' @ str_nat n @ '' words, limit is '' @ str_nat (linkedin_limit m))
     else if m = Connection \<and> 300 < length message then Some ''Connection request exceeds 300 character limit''
     else (case find (banned_in l) banned_phrases of
       Some p \<Rightarrow> Some (''Message contains banned phrase: '' @ p)
     | None \<Rightarrow> if \<not> company_anchor_match company l then Some ''Message lacks a prospect-specific anchor'' else None))"

definition anchor_missing :: "string option \<Rightarrow> bool" where
  "anchor_missing defect = (case defect of None \<Rightarrow> False | Some r \<Rightarrow> py_in ''anchor'' r)"

section \<open>Normalization\<close>

definition ask_rescue :: "llm \<Rightarrow> string \<Rightarrow> string \<Rightarrow> nat \<Rightarrow> (string \<Rightarrow> bool) \<Rightarrow> string \<Rightarrow> run \<Rightarrow> run \<times> string \<times> bool" where
  "ask_rescue ai model prompt max_tokens fits message r =
     (case counted_call ai model (user_says prompt) max_tokens (retry_noted r) of
        (r, None) \<Rightarrow> (r, message, False)
      | (r, Some raw) \<Rightarrow> (let m = py_strip raw in
          if m \<noteq> [] \<and> fits m \<and> ends_question m then (r, m, True) else (r, message, False)))"

definition word_rescue_prompt :: "nat \<Rightarrow> string \<Rightarrow> string" where
  "word_rescue_prompt limit message = ''Rewrite this LinkedIn message to be under '' @ str_nat limit @ '' words. '' @
     ''It MUST end with a question. Keep the same message and tone. '' @ ''Output ONLY the message text.'' @ nl @ nl @ message"

definition char_rescue_prompt :: "nat \<Rightarrow> string \<Rightarrow> string" where
  "char_rescue_prompt limit message = ''Rewrite this LinkedIn connection request note to be under 300 characters '' @
     ''and under '' @ str_nat limit @ '' words. It MUST end with a question. '' @
     ''Keep the same message and tone. Output ONLY the message text.'' @ nl @ nl @ message"

definition trim_words :: "llm \<Rightarrow> string \<Rightarrow> mode \<Rightarrow> string \<Rightarrow> run \<Rightarrow> run \<times> string \<times> bool" where
  "trim_words ai model m message r = (let limit = linkedin_limit m in
     if length (words message) \<le> limit then (r, message, False)
     else (let t = trim_to_word_limit message limit in
       if ends_question t then (r, t, False)
       else ask_rescue ai model (word_rescue_prompt limit t) 500 (\<lambda>x. length (words x) \<le> limit) t r))"

text \<open>\<open>max(s.rfind('.'), s.rfind('?'), s.rfind('!'))\<close>, as the length of what is kept, zero when there is none\<close>

definition last_stop :: "string \<Rightarrow> nat" where
  "last_stop s = length (dropWhile (\<lambda>c. \<not> ends_sentence c) (rev s))"

definition trim_chars :: "llm \<Rightarrow> string \<Rightarrow> mode \<Rightarrow> string \<Rightarrow> run \<Rightarrow> run \<times> string \<times> bool" where
  "trim_chars ai model m message r = (if m \<noteq> Connection \<or> length message \<le> 300 then (r, message, False)
     else (let cut = take 300 message; k = last_stop cut;
         t = py_strip (if 101 < k then take k message else cut)
       in if ends_question t then (r, t, False)
          else ask_rescue ai model (char_rescue_prompt (linkedin_limit m) t) 300 (\<lambda>x. length x \<le> 300) t r))"

definition normalize_linkedin :: "llm \<Rightarrow> string \<Rightarrow> mode \<Rightarrow> string \<Rightarrow> run \<Rightarrow> run \<times> string \<times> bool" where
  "normalize_linkedin ai model m message r = (case trim_words ai model m message r of
     (r, message, c1) \<Rightarrow> (case trim_chars ai model m message r of (r, message, c2) \<Rightarrow> (r, message, c1 \<or> c2)))"

section \<open>Generation\<close>

record setting =
  se_ai :: llm
  se_model :: string
  se_mode :: mode
  se_company :: string
  se_messages :: "(string \<times> string) list"
  se_category :: string
  se_problems :: string

text \<open>One more try when a blocked term occurs; the second message is not filtered again. A failing call is not caught.\<close>

definition relevance_retry :: "setting \<Rightarrow> string \<Rightarrow> run \<Rightarrow> run \<times> string option" where
  "relevance_retry e message r = (case filter_relevance message (se_category e) of
     (True, _) \<Rightarrow> (r, Some message)
   | (False, blocked) \<Rightarrow> (case counted_call (se_ai e) (se_model e) (se_messages e @ [(''assistant'', ''Message:'' @ nl @ message),
         (''user'', ''Your message references '' @ py_join '', '' blocked @ ''. This is not relevant to what the seller sells. '' @
            ''Rewrite using only signals from the research report that connect to: '' @ se_problems e @ nl @ nl @
            ''Output ONLY the message text. No headers or labels.'')]) 500
         (tell (\<lambda>t. t\<lparr>tl_reprompted := True\<rparr>) (retry_noted r)) of
       (r, None) \<Rightarrow> (r, None)
     | (r, Some raw) \<Rightarrow> (let again = parse_linkedin_output raw in (r, Some (if again = [] then message else again)))))"

definition anchor_prompt :: "string \<Rightarrow> string \<Rightarrow> string" where
  "anchor_prompt company message = ''Your message does not mention the prospect company. '' @
     ''Rewrite it to include '' @ [CHR 0x22] @ extract_company_core company @ [CHR 0x22] @ '' naturally. '' @
     ''Keep the same tone and structure. It MUST end with a question.'' @ nl @ nl @ ''Output ONLY the message text.'' @ nl @ nl @ message"

type_synonym state_of_message = "run \<times> string \<times> bool \<times> string option"

definition renormalize :: "setting \<Rightarrow> string \<Rightarrow> bool \<Rightarrow> run \<Rightarrow> state_of_message" where
  "renormalize e message c r = (case normalize_linkedin (se_ai e) (se_model e) (se_mode e) message r of
     (r, message, c') \<Rightarrow> (r, message, c \<or> c', validate_message (se_mode e) (se_company e) message))"

definition anchor_retry :: "setting \<Rightarrow> state_of_message \<Rightarrow> state_of_message" where
  "anchor_retry e x = (case x of (r, message, c, defect) \<Rightarrow> if \<not> anchor_missing defect then x
     else (case counted_call (se_ai e) (se_model e) (user_says (anchor_prompt (se_company e) message)) 500 (retry_noted r) of
       (r, None) \<Rightarrow> (r, message, c, defect)
     | (r, Some raw) \<Rightarrow> (let again = parse_linkedin_output raw in
         if again = [] then (r, message, c, defect) else renormalize e again c r)))"

definition anchor_fallback :: "setting \<Rightarrow> state_of_message \<Rightarrow> state_of_message" where
  "anchor_fallback e x = (case x of (r, message, c, defect) \<Rightarrow> if \<not> anchor_missing defect then x
     else renormalize e (deterministic_anchor_insert message (se_company e)) c r)"

definition refine_message :: "setting \<Rightarrow> string \<Rightarrow> run \<Rightarrow> state_of_message" where
  "refine_message e message r = anchor_fallback e (anchor_retry e (renormalize e message False r))"

definition message_fields :: "mode \<Rightarrow> linkedin \<Rightarrow> string \<Rightarrow> bool \<Rightarrow> (string \<times> json) list" where
  "message_fields m l message c = [(''message'', JStr message), (''word_count'', JInt (int (length (words message)))),
     (''char_count'', JInt (int (length message))), (''content_type'', JStr (li_type l)), (''mode'', JStr (mode_name m)),
     (''cta_rescued'', JBool c)]"

definition linkedin_setting ::
    "writer_config \<Rightarrow> (mode \<Rightarrow> string) \<Rightarrow> llm \<Rightarrow> 'a draft_scheme \<Rightarrow> brief \<Rightarrow> linkedin \<Rightarrow> mode \<Rightarrow> setting" where
  "linkedin_setting cfg rules ai d b l m = (let report = build_report d b; category = detect_product_category (br_context b);
       gated = (if wc_gate cfg \<and> category \<noteq> [] then apply_relevance_gate report category else report)
     in \<lparr>se_ai = ai, se_model = get_model cfg (case m of Dm \<Rightarrow> ''linkedin_dm'' | Connection \<Rightarrow> ''linkedin_connection''),
         se_mode = m, se_company = dr_name d,
         se_messages = [(''system'', rules m), (''user'', build_linkedin_user_prompt m (dr_name d) category gated l b)],
         se_category = category, se_problems = br_problems b\<rparr>)"

definition linkedin_run :: "setting \<Rightarrow> linkedin \<Rightarrow> run \<times> (string \<times> json) list written" where
  "linkedin_run e l = (case counted_call (se_ai e) (se_model e) (se_messages e) 500
       (new_run (''linkedin_'' @ mode_name (se_mode e)) (se_model e)) of
     (r, None) \<Rightarrow> (r, WriterFails)
   | (r, Some raw) \<Rightarrow> (let message = parse_linkedin_output raw in
       if message = [] then (emit_telemetry (tell (\<lambda>t. t\<lparr>tl_parsed := False\<rparr>) r),
         Rejected ''linkedin_generation_failed'' ''Generated LinkedIn message was empty'')
       else (case relevance_retry e message r of
         (r, None) \<Rightarrow> (r, WriterFails)
       | (r, Some message) \<Rightarrow> (case refine_message e message r of
           (r, message, c, Some reason) \<Rightarrow> (emit_telemetry (tell (\<lambda>t. t\<lparr>tl_fail := reason\<rparr>) r), Rejected ''linkedin_validation_failed'' reason)
         | (r, message, c, None) \<Rightarrow> (emit_telemetry (tell (\<lambda>t. t\<lparr>tl_cta := c, tl_limit_pass := True\<rparr>) r),
             Composed (message_fields (se_mode e) l message c))))))"

definition mode_of_string :: "string \<Rightarrow> mode option" where
  "mode_of_string s = (if s = ''dm'' then Some Dm else if s = ''connection_request'' then Some Connection else None)"

definition compose_linkedin_message ::
    "writer_config \<Rightarrow> (mode \<Rightarrow> string) \<Rightarrow> llm \<Rightarrow> 'a draft_scheme \<Rightarrow> brief \<Rightarrow> linkedin \<Rightarrow> string \<Rightarrow> run \<times> (string \<times> json) list written" where
  "compose_linkedin_message cfg rules ai d b l mode = (let idle = new_run [] [] in case mode_of_string mode of
     None \<Rightarrow> (idle, WriterFails)
   | Some m \<Rightarrow> if m = Connection \<and> \<not> wc_notes cfg then (idle, Rejected ''connection_note_disabled'' ''Connection notes are not enabled.'')
       else linkedin_run (linkedin_setting cfg rules ai d b l m) l)"

section \<open>Calls are bounded\<close>

lemma ask_rescue_calls:
  "ask_rescue ai model p k fits message r = (r', x) \<Longrightarrow> rn_calls r' = Suc (rn_calls r)"
  by (auto simp: ask_rescue_def Let_def split: prod.splits option.splits if_splits dest!: counted_callD)

lemma trim_words_calls: "trim_words ai model m message r = (r', x) \<Longrightarrow> rn_calls r' \<le> Suc (rn_calls r)"
  by (auto simp: trim_words_def Let_def split: if_splits dest!: ask_rescue_calls)

lemma trim_chars_calls: "trim_chars ai model m message r = (r', x) \<Longrightarrow> rn_calls r' \<le> Suc (rn_calls r)"
  by (auto simp: trim_chars_def Let_def split: if_splits dest!: ask_rescue_calls)

lemma normalize_calls: "normalize_linkedin ai model m message r = (r', x) \<Longrightarrow> rn_calls r' \<le> rn_calls r + 2"
  by (auto simp: normalize_linkedin_def split: prod.splits dest!: trim_words_calls trim_chars_calls)

lemma renormalize_calls: "renormalize e message c r = (r', x) \<Longrightarrow> rn_calls r' \<le> rn_calls r + 2"
  by (auto simp: renormalize_def split: prod.splits dest!: normalize_calls)

lemma anchor_retry_calls: "anchor_retry e (r, y) = (r', x) \<Longrightarrow> rn_calls r' \<le> rn_calls r + 3"
  by (auto simp: anchor_retry_def Let_def split: prod.splits option.splits if_splits dest!: renormalize_calls counted_callD)

lemma anchor_fallback_calls: "anchor_fallback e (r, y) = (r', x) \<Longrightarrow> rn_calls r' \<le> rn_calls r + 2"
  by (auto simp: anchor_fallback_def split: prod.splits if_splits dest!: renormalize_calls)

lemma refine_calls: "refine_message e message r = (r', x) \<Longrightarrow> rn_calls r' \<le> rn_calls r + 7"
proof -
  assume a: "refine_message e message r = (r', x)"
  obtain r1 y1 where 1: "renormalize e message False r = (r1, y1)" by (rule prod.exhaust)
  obtain r2 y2 where 2: "anchor_retry e (r1, y1) = (r2, y2)" by (rule prod.exhaust)
  from a 1 2 have "anchor_fallback e (r2, y2) = (r', x)" by (simp add: refine_message_def)
  with renormalize_calls [OF 1] anchor_retry_calls [OF 2] anchor_fallback_calls [of e r2 y2 r' x] show ?thesis by simp
qed

lemma relevance_retry_calls: "relevance_retry e message r = (r', x) \<Longrightarrow> rn_calls r' \<le> Suc (rn_calls r)"
  by (auto simp: relevance_retry_def Let_def split: prod.splits option.splits bool.splits dest!: counted_callD)

section \<open>What a message satisfies\<close>

lemma ask_rescue_words:
  "ask_rescue ai model p k (\<lambda>x. length (words x) \<le> n) t r = (r', t', c) \<Longrightarrow> length (words t) \<le> n \<Longrightarrow> length (words t') \<le> n"
  by (auto simp: ask_rescue_def Let_def split: prod.splits option.splits if_splits)

lemma trim_words_limit: "trim_words ai model m message r = (r', t, c) \<Longrightarrow> length (words t) \<le> linkedin_limit m"
  by (auto simp: trim_words_def Let_def trim_length split: if_splits dest!: ask_rescue_words)

lemma normalize_dm: "normalize_linkedin ai model Dm message r = (r', t, c) \<Longrightarrow> length (words t) \<le> 90"
  using trim_words_limit by (force simp: normalize_linkedin_def trim_chars_def linkedin_limit_def split: prod.splits)

text \<open>What every stage hands on: the defect is that of the message, and a direct message is within its limit\<close>

definition settled :: "setting \<Rightarrow> state_of_message \<Rightarrow> bool" where
  "settled e x \<longleftrightarrow> (case x of (r, message, c, defect) \<Rightarrow>
     defect = validate_message (se_mode e) (se_company e) message \<and> (se_mode e = Dm \<longrightarrow> length (words message) \<le> 90))"

lemma renormalize_settled: "settled e (renormalize e message c r)"
  using normalize_dm by (auto simp: settled_def renormalize_def split: prod.splits)

lemma settled_later: "settled e (r, message, c, defect) \<Longrightarrow> settled e (r', message, c', defect)"
  by (simp add: settled_def)

lemma anchor_retry_settled: "settled e x \<Longrightarrow> settled e (anchor_retry e x)"
  by (cases x) (auto simp: anchor_retry_def Let_def renormalize_settled intro: settled_later split: prod.split option.split)

lemma anchor_fallback_settled: "settled e x \<Longrightarrow> settled e (anchor_fallback e x)"
  by (cases x) (auto simp: anchor_fallback_def renormalize_settled)

lemma refine_settled: "settled e (refine_message e message r)"
  by (simp add: refine_message_def anchor_fallback_settled anchor_retry_settled renormalize_settled)

definition acceptable :: "mode \<Rightarrow> string \<Rightarrow> string \<Rightarrow> bool" where
  "acceptable m company message \<longleftrightarrow> ends_question message \<and> questions message = 1 \<and>
     linkedin_floor m \<le> length (words message) \<and>
     (case m of Dm \<Rightarrow> length (words message) \<le> 90 | Connection \<Rightarrow> length (words message) \<le> 55 \<and> length message \<le> 300) \<and>
     \<not> list_ex (banned_in (py_lower message)) banned_phrases \<and> company_anchor_match company (py_lower message)"

lemma valid_acceptable:
  assumes "validate_message m company message = None" "m = Dm \<longrightarrow> length (words message) \<le> 90"
  shows "acceptable m company message"
  using assms
  by (auto simp: validate_message_def acceptable_def Let_def linkedin_limit_def find_None_iff list_ex_iff split: if_splits option.splits mode.splits)

section \<open>Properties\<close>

lemma linkedin_run_composed:
  assumes "linkedin_run e l = (r, Composed fs)"
  shows "\<exists>message c. fs = message_fields (se_mode e) l message c \<and> acceptable (se_mode e) (se_company e) message"
proof -
  obtain r1 raw where c: "counted_call (se_ai e) (se_model e) (se_messages e) 500
      (new_run (''linkedin_'' @ mode_name (se_mode e)) (se_model e)) = (r1, Some raw)"
    using assms by (auto simp: linkedin_run_def split: prod.splits option.splits)
  obtain r2 m where q: "relevance_retry e (parse_linkedin_output raw) r1 = (r2, Some m)"
    using assms c by (auto simp: linkedin_run_def Let_def split: prod.splits option.splits if_splits)
  obtain r3 message cta defect where f: "refine_message e m r2 = (r3, message, cta, defect)"
    by (cases "refine_message e m r2") auto
  have d: "defect = None" "fs = message_fields (se_mode e) l message cta"
    using assms c q f by (auto simp: linkedin_run_def Let_def split: option.splits if_splits)
  with refine_settled [of e m r2] f have "acceptable (se_mode e) (se_company e) message"
    by (intro valid_acceptable) (auto simp: settled_def)
  with d show ?thesis by blast
qed

text \<open>
  whatever the language model answers, a LinkedIn message that is returned ends with its only question, is
  within the bounds of its kind, holds no banned phrase and mentions the company.
\<close>

theorem linkedin_message_acceptable:
  assumes "compose_linkedin_message cfg rules ai d b l mode = (r, Composed fs)"
  shows "\<exists>m message. mode_of_string mode = Some m \<and> map_of fs ''message'' = Some (JStr message) \<and>
    acceptable m (dr_name d) message \<and> (m = Connection \<longrightarrow> wc_notes cfg)"
proof -
  obtain m where m: "mode_of_string mode = Some m" "m = Connection \<longrightarrow> wc_notes cfg"
    and run: "linkedin_run (linkedin_setting cfg rules ai d b l m) l = (r, Composed fs)"
    using assms by (auto simp: compose_linkedin_message_def Let_def split: option.splits if_splits)
  have "se_mode (linkedin_setting cfg rules ai d b l m) = m" "se_company (linkedin_setting cfg rules ai d b l m) = dr_name d"
    by (simp_all add: linkedin_setting_def Let_def)
  with linkedin_run_composed [OF run] m show ?thesis by (auto simp: message_fields_def)
qed

text \<open>a message takes at most nine calls of the model.\<close>

theorem linkedin_calls_bounded:
  "rn_calls (fst (compose_linkedin_message cfg rules ai d b l mode)) \<le> 9"
proof -
  have "rn_calls (fst (linkedin_run e l)) \<le> 9" for e
  proof -
    obtain r1 x1 where c: "counted_call (se_ai e) (se_model e) (se_messages e) 500
        (new_run (''linkedin_'' @ mode_name (se_mode e)) (se_model e)) = (r1, x1)" by (rule prod.exhaust)
    have 1: "rn_calls r1 = 1" using counted_callD [OF c] by (simp add: new_run_def)
    show ?thesis
    proof (cases "\<exists>raw. x1 = Some raw \<and> parse_linkedin_output raw \<noteq> []")
      case True
      then obtain raw where raw: "x1 = Some raw" "parse_linkedin_output raw \<noteq> []" by blast
      obtain r2 x2 where q: "relevance_retry e (parse_linkedin_output raw) r1 = (r2, x2)" by (rule prod.exhaust)
      have 2: "rn_calls r2 \<le> 2" using relevance_retry_calls [OF q] 1 by simp
      show ?thesis
      proof (cases x2)
        case (Some m)
        obtain r3 y where f: "refine_message e m r2 = (r3, y)" by (rule prod.exhaust)
        with refine_calls [OF f] 2 c q raw Some show ?thesis
          by (cases y) (auto simp: linkedin_run_def Let_def split: option.split)
      qed (use c q raw 2 in \<open>simp add: linkedin_run_def Let_def\<close>)
    qed (use c 1 in \<open>auto simp: linkedin_run_def Let_def split: option.split\<close>)
  qed
  then show ?thesis
    by (auto simp: compose_linkedin_message_def Let_def new_run_def split: option.split)
qed

section \<open>A run\<close>

definition sample_message :: string where
  "sample_message = concat (replicate 19 ''a '') @ ''acme?''"

definition sample_draft :: draft where
  "sample_draft = \<lparr>dr_text = (\<lambda>k. None), dr_url = [], dr_name = ''Acme'', dr_created = 0, dr_opportunity = None,
     dr_pain = None, dr_fit = None, dr_timing = None\<rparr>"

definition sample_brief :: brief where
  "sample_brief = \<lparr>br_context = [], br_product_type = [], br_materials = [], br_company = [], br_problems = [],
     br_persona = [], br_signals = []\<rparr>"

definition sample_config :: writer_config where
  "sample_config = \<lparr>wc_channel_model = (\<lambda>k. []), wc_writing_model = ''m'', wc_gate = False, wc_selector = False, wc_notes = True\<rparr>"

definition steady_ai :: llm where
  "steady_ai = (\<lambda>n q. Choice (Some sample_message) None)"

lemma sample_message_clean: "postprocess sample_message = sample_message"
  by code_simp

lemma sample_message_parsed: "parse_linkedin_output sample_message = sample_message"
  by code_simp

lemma sample_message_valid: "validate_message Connection ''Acme'' sample_message = None"
  by code_simp

lemma sample_message_short: "length (words sample_message) = 20" "sample_message \<noteq> []" "length sample_message \<le> 300"
  by code_simp+

lemma sample_refined:
  assumes "se_mode e = Connection" "se_company e = ''Acme''"
  shows "refine_message e sample_message r = (r, sample_message, False, None)"
  using assms by (simp add: refine_message_def renormalize_def normalize_linkedin_def trim_words_def trim_chars_def
    sample_message_short sample_message_valid linkedin_limit_def anchor_retry_def anchor_fallback_def anchor_missing_def)

lemma sample_composed:
  "\<exists>r. compose_linkedin_message sample_config rules steady_ai sample_draft sample_brief no_linkedin ''connection_request'' =
     (r, Composed (message_fields Connection no_linkedin sample_message False))"
proof -
  let ?e = "linkedin_setting sample_config rules steady_ai sample_draft sample_brief no_linkedin Connection"
  have e: "se_mode ?e = Connection" "se_company ?e = ''Acme''" "se_category ?e = []" "se_ai ?e = steady_ai"
    by (simp_all add: linkedin_setting_def sample_draft_def sample_brief_def detect_product_category_def Let_def)
  obtain r1 where c: "counted_call (se_ai ?e) (se_model ?e) (se_messages ?e) 500
      (new_run (''linkedin_'' @ mode_name (se_mode ?e)) (se_model ?e)) = (r1, Some sample_message)"
    unfolding e by (simp add: counted_call_def llm_call_def steady_ai_def sample_message_clean)
  have "relevance_retry ?e sample_message r1 = (r1, Some sample_message)"
    by (simp add: relevance_retry_def e filter_relevance_def)
  with c show ?thesis
    using sample_refined [OF e(1, 2), of r1]
    by (simp add: compose_linkedin_message_def mode_of_string_def linkedin_run_def sample_message_parsed sample_message_short e
      sample_config_def [THEN arg_cong [of _ _ wc_notes]])
qed

theorem linkedin_message_acceptable_witness: "acceptable Connection ''Acme'' sample_message"
proof -
  obtain r where "compose_linkedin_message sample_config (\<lambda>m. []) steady_ai sample_draft sample_brief no_linkedin ''connection_request'' =
     (r, Composed (message_fields Connection no_linkedin sample_message False))" using sample_composed by blast
  from linkedin_message_acceptable [OF this] show ?thesis
    by (auto simp: mode_of_string_def message_fields_def sample_draft_def)
qed

end
