(* ===== verification/Writing_Properties.thy ===== *)
theory Writing_Properties
  imports Writing_Linkedin Web_Research_Properties
begin

text \<open>
  How the parts of the writer fit: the three checks of relevance agree, the selector of examples offers
  no more than the first three, and what the outreach pages answer when they call the writer.
\<close>

section \<open>Relevance\<close>

lemma denied_resolves: "denied c \<Longrightarrow> resolve_seller_category c = c"
proof -
  assume "denied c"
  then have "c \<in> set (map fst blocked_patterns)"
    by (force simp: denied_def dest: map_of_SomeD)
  moreover have "list_all (\<lambda>c. resolve_seller_category c = c) (map fst blocked_patterns)" by code_simp
  ultimately show ?thesis by (simp only: list_all_iff)
qed

lemma not_denied_empty: "\<not> denied []"
  by code_simp

text \<open>
  three parts of the program decide whether a text suits the category of the seller; on a category with a
  list of blocked terms they decide alike.
\<close>

theorem relevance_checks_agree:
  assumes "denied category" "s \<noteq> []"
  shows "is_text_relevant s category = (4 \<le> score_hook_relevance s category) \<and>
    is_text_relevant s category = fst (filter_relevance s category)"
  using assms denied_resolves [OF assms(1)] not_denied_empty
  by (auto simp: is_text_relevant_def score_hook_relevance_def filter_relevance_def Let_def mentions_def
      filter_empty_conv list_ex_iff)

theorem relevance_checks_agree_witness:
  "is_text_relevant ''seo'' ''cybersecurity'' = (4 \<le> score_hook_relevance ''seo'' ''cybersecurity'') \<and>
   is_text_relevant ''seo'' ''cybersecurity'' = fst (filter_relevance ''seo'' ''cybersecurity'')"
proof (rule relevance_checks_agree)
  show "denied ''cybersecurity''" by code_simp
qed simp

text \<open>the category detected for the gate is never one of two that have a list of blocked terms.\<close>

theorem some_denylists_unreachable:
  "detect_product_category product \<noteq> ''cybersecurity'' \<and> detect_product_category product \<noteq> ''cloud'' \<and>
   denied ''cybersecurity'' \<and> denied ''cloud''"
proof -
  have "detect_product_category product \<in> set ([] # map fst category_keywords)"
    by (auto simp: detect_product_category_def Let_def find_Some_iff split: option.split intro!: image_eqI dest!: nth_mem)
  moreover have "''cybersecurity'' \<notin> set ([] # map fst category_keywords) \<and> ''cloud'' \<notin> set ([] # map fst category_keywords)"
    by code_simp
  moreover have "denied ''cybersecurity'' \<and> denied ''cloud''" by code_simp
  ultimately show ?thesis by metis
qed

section \<open>The selector\<close>

lemma found_member: "find P xs = Some x \<Longrightarrow> x \<in> set xs"
  by (induction xs) (auto split: if_splits)

lemma pick_examples_set: "set (pick_examples n P es chosen) \<subseteq> set es \<union> set chosen"
  by (induction n P es chosen rule: pick_examples.induct) (auto simp: Let_def split: if_splits)

lemma pick_examples_distinct: "distinct chosen \<Longrightarrow> distinct (pick_examples n P es chosen)"
  by (induction n P es chosen rule: pick_examples.induct) (auto simp: Let_def)

lemma fill_examples_distinct: "distinct chosen \<Longrightarrow> distinct (fill_examples es chosen)"
  by (induction es chosen rule: fill_examples.induct) (auto simp: Let_def)

lemma fill_examples_set: "set (fill_examples es chosen) \<subseteq> set es \<union> set chosen"
  by (induction es chosen rule: fill_examples.induct) (auto simp: Let_def split: if_splits)

lemma fill_examples_full:
  "set (fill_examples es chosen) = set es \<union> set chosen \<or> 3 \<le> length (fill_examples es chosen)"
  by (induction es chosen rule: fill_examples.induct) (auto simp: Let_def)

text \<open>
  whatever the seller and the product, the selector offers the first three examples of the file: the
  category only changes their order.
\<close>

theorem selection_is_first_three:
  "case select_examples files score product_type category of (mode, chosen) \<Rightarrow>
     distinct chosen \<and> set chosen = set (extract_examples (load_prompt_file files (snd (examples_mode score))))"
proof -
  obtain mode path where m: "examples_mode score = (mode, path)" by fastforce
  define es where "es = extract_examples (load_prompt_file files path)"
  define msp where "msp = (if product_type = ''msp'' \<and> mode = ''full'' then (case find msp_example es of None \<Rightarrow> [] | Some e \<Rightarrow> [e]) else [])"
  define c where "c = (if py_lower category \<noteq> [] \<and> msp = [] then pick_examples 2 (on_category (py_lower category)) es [] else msp)"
  have s: "select_examples files score product_type category = (mode, fill_examples es c)"
    unfolding select_examples_def m c_def msp_def es_def by (simp only: Let_def prod.case)
  have msp: "distinct msp \<and> set msp \<subseteq> set es"
  proof (cases "msp = []")
    case False
    then obtain e where "find msp_example es = Some e" "msp = [e]"
      unfolding msp_def by (cases "find msp_example es") (simp_all only: option.case if_cancel if_True simp_thms option.inject split: if_split_asm)
    then show ?thesis using found_member [of msp_example es e] by simp
  qed simp
  have c: "distinct c" "set c \<subseteq> set es"
    using msp pick_examples_distinct [of "[]"] pick_examples_set [of 2 _ es "[]"] by (auto simp: c_def)
  have len: "card (set es) \<le> 3"
    by (rule order_trans [OF card_length]) (simp add: es_def extract_examples_def)
  have sub: "set (fill_examples es c) \<subseteq> set es" using fill_examples_set [of es c] c(2) by auto
  have "set (fill_examples es c) = set es"
  proof (cases "set (fill_examples es c) = set es \<union> set c")
    case True
    with c(2) show ?thesis by auto
  next
    case False
    then have "3 \<le> card (set (fill_examples es c))"
      using fill_examples_full [of es c] fill_examples_distinct [OF c(1), of es] by (simp add: distinct_card)
    with sub len show ?thesis by (meson List.finite_set card_seteq le_trans)
  qed
  with s m fill_examples_distinct [OF c(1), of es] show ?thesis by (simp add: es_def)
qed

section \<open>The outreach page\<close>

text \<open>
  the outreach page, when it answers with e-mails, lists three of them, each within its word limit, and
  changes nothing.
\<close>

theorem outreach_page_within_limits:
  assumes "generate_outreach q read retrieve (\<lambda>r b. snd (generate_email_sequence cfg files inline ai r b)) i f s =
      (s', succeeded ((''emails'', JList js) # rest))"
  shows "s' = s \<and> (\<exists>es. js = map email_json es \<and> length es = 3 \<and> em_number ` set es = {1, 2, 3} \<and>
    (\<forall>e \<in> set es. length (words (em_body e)) \<le> word_limit (em_number e)))"
proof -
  obtain r :: document and b x where same: "s' = s" and js: "js = map email_json (fst x)"
    and x: "snd (generate_email_sequence cfg files inline ai r b) = Composed x"
    using assms by (auto simp: generate_outreach_def onboarded_def succeeded_def coded_def missing_document_def
        split: if_splits option.splits written.splits)
  from sequence_outcome [OF x] same js show ?thesis by (cases x) auto
qed

lemma no_profile:
  "get_effective_product_context loads base JNull \<noteq> None" "get_effective_problems_solved loads manual JNull \<noteq> None"
  by (simp_all add: get_effective_product_context_def get_effective_problems_solved_def build_seller_profile_context_def
      normalize_seller_profile.simps list_field_def dict_get_def or_else_def truthy.simps)

lemma research_page_brief: "\<exists>b. seller_brief page_request m p = Some b"
proof -
  have "us_seller (vw_user (rq_user page_request)) = JNull"
    by (simp add: page_request_def office_user_def new_user_def)
  moreover obtain c where "get_effective_product_context (wo_loads (rq_world page_request)) (us_context (vw_user (rq_user page_request))) JNull = Some c"
    using no_profile(1) by blast
  moreover obtain k where "get_effective_problems_solved (wo_loads (rq_world page_request))
      (pf_problems_solved (us_profile (vw_user (rq_user page_request)))) JNull = Some k"
    using no_profile(2) by blast
  ultimately show ?thesis by (simp add: seller_brief_def Let_def)
qed

theorem outreach_page_within_limits_witness:
  "\<exists>js rest. generate_outreach page_request (\<lambda>b t. None) (\<lambda>n k. []) (\<lambda>r b. snd (generate_email_sequence sample_config (\<lambda>n. None) [] (sample_ai ''d'') r b))
     1 None (research_site [] 1) = (research_site [] 1, succeeded ((''emails'', JList js) # rest)) \<and> length js = 3"
proof -
  obtain r where g: "get_document 1 1 (sv_docs (tables (research_site [] 1))) = Some r"
    by (simp add: get_document_def insert_document_def no_docs_def)
  obtain b where b: "seller_brief page_request [] (screenshot_persona (\<lambda>b t. None) None) = Some b"
    using research_page_brief by blast
  obtain js rest where a: "generate_outreach page_request (\<lambda>b t. None) (\<lambda>n k. [])
      (\<lambda>r b. snd (generate_email_sequence sample_config (\<lambda>n. None) [] (sample_ai ''d'') r b)) 1 None (research_site [] 1) =
      (research_site [] 1, succeeded ((''emails'', JList js) # rest))"
    using g b by (simp add: generate_outreach_def onboarded_def short_run succeeded_def)
  with outreach_page_within_limits [OF a] show ?thesis by auto
qed

end
