(* ===== verification/Research_Sections.thy ===== *)
theory Research_Sections
  imports Writing_Rules
begin

text \<open>
  The document a language model writes (\<open>services/claude.py\<close>): its sections and scores read from
  markdown, the checks of its quality, and the formatter. Dashes and bullets outside ASCII are not among the
  characters of the model.
\<close>

section \<open>Sections\<close>

type_synonym sections = "string \<Rightarrow> string option"

definition header_mapping :: "(string \<times> string) list" where
  "header_mapping = [(''company overview'', ''company_overview''),
     (''specific projects & initiatives'', ''projects_initiatives''),
     (''specific projects and initiatives'', ''projects_initiatives''),
     (''projects & initiatives'', ''projects_initiatives''),
     (''confirmed technology stack'', ''confirmed_tech_stack''), (''technology stack'', ''confirmed_tech_stack''),
     (''technical hiring signals'', ''hiring_signals''), (''hiring signals'', ''hiring_signals''),
     (''stated business problems'', ''business_problems''), (''business problems'', ''business_problems''),
     (''existential data points'', ''existential_data_points''), (''product fit analysis'', ''product_fit''),
     (''fit analysis'', ''product_fit''), (''recommended talking points'', ''talking_points''),
     (''talking points'', ''talking_points''), (''key contacts'', ''key_contacts''), (''contacts'', ''key_contacts''),
     (''recommended contacts'', ''recommended_contacts''), (''information gaps'', ''information_gaps''),
     (''before scenario'', ''before_scenario''), (''pvp seed'', ''pvp_seed''),
     (''required capabilities'', ''required_capabilities''),
     (''required capabilities (seller: validate before using)'', ''required_capabilities'')]"

definition section_of_header :: "string \<Rightarrow> string option" where
  "section_of_header h = (case map_of header_mapping h of Some k \<Rightarrow> Some k
     | None \<Rightarrow> if py_in ''fit analysis'' h then Some ''product_fit''
         else if py_in ''talking points'' h then Some ''talking_points''
         else if py_in ''information gaps'' h then Some ''information_gaps'' else None)"

definition close_section :: "string option \<Rightarrow> string list \<Rightarrow> sections \<Rightarrow> sections" where
  "close_section current content secs = (case current of None \<Rightarrow> secs
     | Some k \<Rightarrow> secs(k \<mapsto> py_strip (py_join nl content)))"

fun scan_lines :: "string option \<Rightarrow> string list \<Rightarrow> sections \<Rightarrow> string list \<Rightarrow> sections" where
  "scan_lines current content secs [] = close_section current content secs"
| "scan_lines current content secs (l # ls) =
     (if startswith l ''## '' then
        scan_lines (section_of_header (py_lower (py_strip (drop 3 l)))) [] (close_section current content secs) ls
      else scan_lines current (if current = None then content else content @ [l]) secs ls)"

definition parse_sections :: "string \<Rightarrow> sections" where
  "parse_sections markdown = scan_lines None [] (\<lambda>k. None) (py_split markdown nl)"

definition part :: "sections \<Rightarrow> string \<Rightarrow> string" where
  "part secs k = coalesce (secs k) []"

section \<open>Scores\<close>

record scores =
  sc_pain :: "int option"
  sc_fit :: "int option"
  sc_timing :: "int option"
  sc_composite :: "int option"
  sc_summary :: "string option"
  sc_evidence :: "string \<Rightarrow> string option"

definition score_rx :: "string \<Rightarrow> rx" where
  "score_rx label = in_order [lit label, lit '':'', Star is_space, Group (many1 decimal_digit)]"

definition clamp_score :: "int \<Rightarrow> int" where
  "clamp_score v = max 0 (min 100 v)"

definition read_score :: "string \<Rightarrow> string \<Rightarrow> int option" where
  "read_score label markdown = (case re_group (score_rx label) markdown of None \<Rightarrow> None
     | Some ds \<Rightarrow> map_option clamp_score (py_int ds))"

definition summary_rx :: rx where
  "summary_rx = in_order [lit ''SCORE_SUMMARY:'', Star is_space, Group (some_lazy not_newline), Or (lit nl) Text_End]"

definition evidence_rx :: "string \<Rightarrow> string \<Rightarrow> rx" where
  "evidence_rx label stop = in_order [lit label, lit '':'', Star is_space, Group (Lazy any_char),
     Peek (Or (lit (nl @ stop @ '':'')) Text_End)]"

definition evidence_labels :: "(string \<times> string \<times> string) list" where
  "evidence_labels = [(''pain_evidence'', ''SCORE_PAIN_EVIDENCE'', ''SCORE_FIT''),
     (''fit_evidence'', ''SCORE_FIT_EVIDENCE'', ''SCORE_TIMING''),
     (''timing_evidence'', ''SCORE_TIMING_EVIDENCE'', ''SCORE_COMPOSITE'')]"

text \<open>
  \<open>round(pain * 0.4 + fit * 0.35 + timing * 0.25)\<close>. The sum is a multiple of a twentieth; where it is a
  half, the error of the binary product decides, and \<open>up\<close> says how.
\<close>

definition composite_score :: "(int \<Rightarrow> int \<Rightarrow> int \<Rightarrow> bool) \<Rightarrow> int \<Rightarrow> int \<Rightarrow> int \<Rightarrow> int" where
  "composite_score up p f t = (let n = 8 * p + 7 * f + 5 * t; q = n div 20; r = n mod 20
     in if r < 10 then q else if 10 < r then q + 1 else if up p f t then q + 1 else q)"

definition parse_scores :: "(int \<Rightarrow> int \<Rightarrow> int \<Rightarrow> bool) \<Rightarrow> string \<Rightarrow> scores" where
  "parse_scores up markdown = (let p = read_score ''SCORE_PAIN'' markdown; f = read_score ''SCORE_FIT'' markdown;
       t = read_score ''SCORE_TIMING'' markdown; c = read_score ''SCORE_COMPOSITE'' markdown
     in \<lparr>sc_pain = p, sc_fit = f, sc_timing = t,
         sc_composite = (case (p, f, t, c) of (Some p, Some f, Some t, None) \<Rightarrow> Some (composite_score up p f t) | _ \<Rightarrow> c),
         sc_summary = map_option py_strip (re_group summary_rx markdown),
         sc_evidence = (\<lambda>k. case map_of evidence_labels k of None \<Rightarrow> None
            | Some (label, stop) \<Rightarrow> map_option py_strip (re_group (evidence_rx label stop) markdown))\<rparr>)"

section \<open>Checks\<close>

definition signal_mark :: string where
  "signal_mark = ''**signal**:''"

definition source_rx :: rx where
  "source_rx = in_order [Or (lit ''**sources**'') (lit ''sources''), lit '':'', Star (\<lambda>c. c = CHR '' '' \<or> c = CHR 0x09), One (\<lambda>c. \<not> is_space c)]"

definition edp_units :: "string \<Rightarrow> string list" where
  "edp_units s = filter (\<lambda>u. u \<noteq> []) (map py_strip (re_split (Peek (any_case signal_mark)) s))"

definition unsourced :: "string \<Rightarrow> bool" where
  "unsourced u \<longleftrightarrow> py_in signal_mark (py_lower u) \<and> \<not> re_found source_rx (py_lower u)"

text \<open>\<open>s.count(sep)\<close>\<close>

definition py_count :: "string \<Rightarrow> string \<Rightarrow> nat" where
  "py_count sep s = length (py_split s sep) - 1"

definition check_edp_sources :: "string \<Rightarrow> string option" where
  "check_edp_sources edp = (if py_strip edp = [] then None
     else (let l = py_lower edp; signals = py_in signal_mark l; sources = py_in ''**sources**:'' l \<or> py_in ''sources:'' l in
       if py_in ''no existential'' l \<or> py_in ''no immediate urgency'' l then None
       else if 200 < length edp \<and> 2 \<le> py_count ''- '' edp \<and> \<not> signals \<and> \<not> sources then
         Some ''EDP format not followed - no Signal/Sources markers found in substantial EDP text''
       else if signals then (let n = length (filter unsourced (edp_units edp)) in
         if 0 < n then Some (str_nat n @ '' EDP unit(s) missing Sources attribution'') else None)
       else None))"

definition concrete_markers :: "string list" where
  "concrete_markers = [''sources:'', ''detected on'', ''from careers page'', ''from sec filing'', ''from job posting'', ''open for'', ''open since'']"

definition check_concrete_pain :: "sections \<Rightarrow> string option" where
  "check_concrete_pain secs = (let l = py_lower (py_join '' '' (map (part secs)
       [''existential_data_points'', ''business_problems'', ''hiring_signals'', ''confirmed_tech_stack''])) in
     if py_strip l = [] then None
     else if mentions concrete_markers l then None
     else Some (''No concrete source references found in pain-related sections '' @
       ''(EDP, Business Problems, Hiring Signals, Tech Stack)''))"

definition missing_evidence :: "scores \<Rightarrow> string \<Rightarrow> bool" where
  "missing_evidence sc k \<longleftrightarrow> (case sc_evidence sc k of None \<Rightarrow> True | Some s \<Rightarrow> py_strip s = [])"

definition check_score_calibration :: "scores \<Rightarrow> string option" where
  "check_score_calibration sc = (case (sc_pain sc, sc_fit sc, sc_timing sc) of
     (Some p, Some f, Some t) \<Rightarrow>
       (let spread = max p (max f t) - min p (min f t) in
        if p = f \<and> f = t then Some (''All three scores identical ('' @ str_int p @ '') - likely lazy output'')
        else if spread \<le> 8 \<and> (\<forall>v \<in> {p, f, t}. 55 \<le> v \<and> v \<le> 75) then
          Some (''All scores within '' @ str_int spread @ '' points in lazy-middle band (55-75): Pain='' @ str_int p @
            '', Fit='' @ str_int f @ '', Timing='' @ str_int t)
        else map_option (\<lambda>k. ''Empty evidence field: '' @ k)
          (find (missing_evidence sc) [''pain_evidence'', ''fit_evidence'', ''timing_evidence'']))
   | _ \<Rightarrow> None)"

definition filler_phrases :: "string list" where
  "filler_phrases = [''companies like yours'', ''organizations in this space'', ''businesses of this size'',
     ''organizations like yours'', ''businesses like yours'']"

definition check_generic_filler :: "string \<Rightarrow> string \<Rightarrow> string option" where
  "check_generic_filler edp bp = (let l = py_lower (edp @ '' '' @ bp); found = filter (\<lambda>p. py_in p l) filler_phrases in
     if found = [] then None
     else Some (''Generic filler detected: '' @ py_join '', '' (map (\<lambda>p. [CHR 0x27] @ p @ [CHR 0x27]) found)))"

text \<open>The checks that fail, with their details\<close>

definition validate_research :: "sections \<Rightarrow> scores \<Rightarrow> (string \<times> string) list" where
  "validate_research secs sc = (let edp = part secs ''existential_data_points''; bp = part secs ''business_problems'' in
     concat (map (\<lambda>(name, r). case r of None \<Rightarrow> [] | Some detail \<Rightarrow> [(name, detail)])
       [(''edp_sources'', check_edp_sources edp), (''concrete_pain'', check_concrete_pain secs),
        (''score_calibration'', check_score_calibration sc), (''generic_filler'', check_generic_filler edp bp)]))"

definition fix_instructions :: "(string \<times> string) list" where
  "fix_instructions = [
     (''edp_sources'', ''- Each Existential Data Point must use the **Signal**/**Sources**/**Threshold**/**Consequence** format. '' @
        ''Add **Sources**: lines citing where each claim came from.''),
     (''concrete_pain'', ''- Add concrete source references (e.g., 'Detected on app.example.com', 'From job posting', '' @
        [CHR 0x27] @ ''From SEC filing') to pain-related sections.''),
     (''score_calibration'', ''- Re-score each dimension independently. Companies almost always have uneven profiles. '' @
        ''Ensure each score reflects distinct evidence and provide non-empty evidence fields.''),
     (''generic_filler'', ''- Remove generic filler phrases. Replace with specific, company-level observations from the research data.'')]"

definition build_repair_instructions :: "(string \<times> string) list \<Rightarrow> string" where
  "build_repair_instructions failed = py_join nl (
     [''The following quality checks failed on your output:'' @ nl] @
     map (\<lambda>(name, detail). ''- **'' @ name @ ''**: '' @ detail) failed @ [[], ''Fix instructions:''] @
     map snd (filter (\<lambda>(name, i). name \<in> fst ` set failed) fix_instructions) @
     [[], ''Fix ONLY the failing sections + Opportunity Score.'',
      ''Do not invent sources. Cite where each claim came from.'',
      ''Do not remove sections; if missing evidence, add 'No X signals found' with a brief reason.'',
      ''Keep claims tied to the provided research data; if unsure, move to Information Gaps.'',
      ''Preserve all sections that passed.''])"

section \<open>The formatter\<close>

definition hedge_phrases :: "string list" where
  "hedge_phrases = [''it appears'', ''may indicate'', ''potentially'', ''it is possible that'', ''overall'', ''in summary'',
     ''in general'', ''it is worth noting'', ''it should be noted'', ''broadly speaking'', ''as mentioned above'']"

definition hedge_rx :: "string \<Rightarrow> rx" where
  "hedge_rx phrase = in_order [Group (Or Line_Start (Then (One ends_sentence) (many1 is_space))), Star is_space,
     Not_After word_char, any_case phrase, Not_Before word_char, Star is_space, Maybe (lit '',''), Star is_space]"

definition gap_char :: "char \<Rightarrow> bool" where
  "gap_char c \<longleftrightarrow> c = CHR '' '' \<or> c = CHR 0x09"

definition strip_hedge_phrases :: "string \<Rightarrow> string" where
  "strip_hedge_phrases s =
     (let s = fold (\<lambda>p s. re_sub (hedge_rx p) s) hedge_phrases s;
          s = re_sub_with (\<lambda>g. '' '') (in_order [One gap_char, many1 gap_char]) s;
          s = re_sub_with (\<lambda>g. []) (in_order [Line_Start, Star is_space, lit ''-'', Star is_space, Line_End]) s;
          s = re_sub_with (\<lambda>g. nl @ nl) (in_order [lit nl, lit nl, many1 (\<lambda>c. c = rx_newline)]) s
      in py_strip s)"

definition normalize_bullets :: "string \<Rightarrow> string" where
  "normalize_bullets s = re_sub_with (\<lambda>g. concat (take 1 g) @ ''- '')
     (in_order [Line_Start, Group (Star is_space), lit ''*'', many1 is_space]) s"

definition dedup_priority :: "string list" where
  "dedup_priority = [''existential_data_points'', ''before_scenario'', ''business_problems'', ''talking_points'']"

definition norm_line :: "string \<Rightarrow> string" where
  "norm_line l = py_lower (py_strip l)"

fun dedup_lines :: "string set \<Rightarrow> string list \<Rightarrow> string list \<times> string set" where
  "dedup_lines seen [] = ([], seen)"
| "dedup_lines seen (l # ls) =
     (if length (norm_line l) < 20 then (case dedup_lines seen ls of (kept, seen') \<Rightarrow> (l # kept, seen'))
      else if norm_line l \<in> seen then dedup_lines seen ls
      else (case dedup_lines (insert (norm_line l) seen) ls of (kept, seen') \<Rightarrow> (l # kept, seen')))"

definition dedup_section :: "string \<Rightarrow> sections \<times> string set \<Rightarrow> sections \<times> string set" where
  "dedup_section k x = (case x of (secs, seen) \<Rightarrow> if part secs k = [] then (secs, seen)
     else (case dedup_lines seen (py_split (part secs k) nl) of
       (kept, seen') \<Rightarrow> (secs(k \<mapsto> py_strip (py_join nl kept)), seen')))"

definition deduplicate_across_sections :: "sections \<Rightarrow> sections" where
  "deduplicate_across_sections secs = fst (fold dedup_section dedup_priority (secs, {}))"

definition format_sections :: "sections \<Rightarrow> sections" where
  "format_sections secs = deduplicate_across_sections (\<lambda>k. map_option (\<lambda>s. normalize_bullets (strip_hedge_phrases s)) (secs k))"

section \<open>Scores stay on the scale\<close>

definition on_scale :: "int option \<Rightarrow> bool" where
  "on_scale v \<longleftrightarrow> (case v of None \<Rightarrow> True | Some n \<Rightarrow> 0 \<le> n \<and> n \<le> 100)"

lemma read_score_scale: "on_scale (read_score label markdown)"
  by (auto simp: on_scale_def read_score_def clamp_score_def split: option.splits)

lemma composite_scale:
  assumes "on_scale (Some p)" "on_scale (Some f)" "on_scale (Some t)"
  shows "on_scale (Some (composite_score up p f t))"
proof -
  define n where "n = 8 * p + 7 * f + 5 * t"
  have n: "0 \<le> n" "n \<le> 2000" using assms by (simp_all add: on_scale_def n_def)
  define q r where "q = n div 20" and "r = n mod 20"
  have qr: "20 * q + r = n" "0 \<le> r" "r < 20" by (simp_all add: q_def r_def)
  have q: "0 \<le> q" "q \<le> 100" "r = 0 \<or> q \<le> 99" using n qr by linarith+
  show ?thesis
    unfolding on_scale_def composite_score_def Let_def n_def [symmetric] q_def [symmetric] r_def [symmetric]
    using q by auto
qed

lemma scores_scale:
  "on_scale (sc_pain (parse_scores up m))" "on_scale (sc_fit (parse_scores up m))"
  "on_scale (sc_timing (parse_scores up m))" "on_scale (sc_composite (parse_scores up m))"
proof -
  show "on_scale (sc_composite (parse_scores up m))"
    using read_score_scale [of "''SCORE_PAIN''" m] read_score_scale [of "''SCORE_FIT''" m]
      read_score_scale [of "''SCORE_TIMING''" m] read_score_scale [of "''SCORE_COMPOSITE''" m] composite_scale
    by (auto simp: parse_scores_def Let_def split: option.split)
qed (simp_all add: parse_scores_def Let_def read_score_scale)

section \<open>Long lines are kept once\<close>

definition long_lines :: "string list \<Rightarrow> string list" where
  "long_lines ls = filter (\<lambda>l. \<not> length l < 20) (map norm_line ls)"

definition statements :: "string \<Rightarrow> string list" where
  "statements s = long_lines (py_split s nl)"

lemma long_lines_simps [simp]:
  "long_lines [] = []" "long_lines (l # ls) = (if length (norm_line l) < 20 then [] else [norm_line l]) @ long_lines ls"
  "long_lines (ls @ ms) = long_lines ls @ long_lines ms"
  by (simp_all add: long_lines_def)

lemma dedup_lines_spec:
  "dedup_lines seen ls = (kept, seen') \<Longrightarrow>
   distinct (long_lines kept) \<and> set (long_lines kept) \<inter> seen = {} \<and> seen' = seen \<union> set (long_lines ls) \<and>
   seen \<union> set (long_lines kept) = seen' \<and> set kept \<subseteq> set ls"
  by (induction seen ls arbitrary: kept seen' rule: dedup_lines.induct)
    (auto split: if_splits prod.splits)

text \<open>Lines of a text\<close>

lemma newline_code: "nl = [rx_newline]"
  by (simp add: nl_def rx_newline_def newline_def)

lemma split_go_acc: "split_go sep acc s = (rev acc @ hd (split_go sep [] s)) # tl (split_go sep [] s)"
proof (induction s arbitrary: acc)
  case (Cons c s)
  show ?case
  proof (cases "sep \<noteq> [] \<and> prefix sep (c # s)")
    case False
    then show ?thesis using Cons [of "c # acc"] Cons [of "[c]"] by simp
  qed simp
qed simp

lemma lines_Nil [simp]: "py_split [] nl = [[]]"
  by (simp add: py_split_def)

lemma lines_newline: "py_split (rx_newline # s) nl = [] # py_split s nl"
  by (simp add: py_split_def newline_code)

lemma lines_other: "c \<noteq> rx_newline \<Longrightarrow> py_split (c # s) nl = (c # hd (py_split s nl)) # tl (py_split s nl)"
  using split_go_acc [of nl "[c]" s] by (simp add: py_split_def newline_code)

lemma lines_nonempty [simp]: "py_split s nl \<noteq> []"
  unfolding py_split_def by (metis list.distinct(1) split_go_acc)

lemma py_strip_space: "is_space c \<Longrightarrow> py_strip (c # s) = py_strip s"
  by (simp add: py_strip_def)

lemma py_strip_snoc: "is_space c \<Longrightarrow> py_strip (s @ [c]) = py_strip s"
proof (cases "\<forall>x \<in> set s. is_space x")
  case True
  moreover assume "is_space c"
  ultimately have "dropWhile is_space s = []" "dropWhile is_space (s @ [c]) = []" by (auto simp: dropWhile_append)
  then show ?thesis unfolding py_strip_def by (simp only:)
next
  case False
  assume "is_space c"
  with False show ?thesis by (auto simp: py_strip_def dropWhile_append)
qed

lemma norm_line_space: "is_space c \<Longrightarrow> norm_line (c # s) = norm_line s"
  by (simp add: norm_line_def py_strip_space)

lemma norm_line_snoc: "is_space c \<Longrightarrow> norm_line (s @ [c]) = norm_line s"
  by (simp add: norm_line_def py_strip_snoc)

lemma norm_line_Nil [simp]: "norm_line [] = []"
  by (simp add: norm_line_def py_strip_def)

lemma is_space_newline [simp]: "is_space rx_newline"
  by (simp add: is_space_def rx_newline_def)

lemma statements_space: "is_space c \<Longrightarrow> statements (c # s) = statements s"
proof (cases "c = rx_newline")
  case False
  assume c: "is_space c"
  obtain l ls where "py_split s nl = l # ls" using lines_nonempty [of s] by (cases "py_split s nl") auto
  with c False show ?thesis by (simp add: statements_def lines_other norm_line_space)
qed (simp add: statements_def lines_newline)

lemma lines_snoc:
  "py_split (s @ [c]) nl = (if c = rx_newline then py_split s nl @ [[]]
     else butlast (py_split s nl) @ [last (py_split s nl) @ [c]])"
proof (induction s)
  case Nil
  show ?case using lines_newline [of "[]"] lines_other [of c "[]"] by simp
next
  case (Cons d s)
  obtain l ls where l: "py_split s nl = l # ls" using lines_nonempty [of s] by (cases "py_split s nl") auto
  with Cons show ?case by (cases "d = rx_newline") (auto simp: lines_newline lines_other)
qed

lemma statements_snoc: "is_space c \<Longrightarrow> statements (s @ [c]) = statements s"
proof -
  assume c: "is_space c"
  have "py_split s nl = butlast (py_split s nl) @ [last (py_split s nl)]" by simp
  then have "statements s = long_lines (butlast (py_split s nl)) @ long_lines [last (py_split s nl)]"
    unfolding statements_def by (metis long_lines_simps(3))
  with c show ?thesis by (auto simp: statements_def lines_snoc norm_line_snoc)
qed

lemma statements_dropWhile: "statements (dropWhile is_space s) = statements s"
  by (induction s) (auto simp: statements_space)

lemma statements_rev_dropWhile: "statements (rev (dropWhile is_space u)) = statements (rev u)"
  by (induction u) (auto simp: statements_snoc)

lemma statements_strip: "statements (py_strip s) = statements s"
  unfolding py_strip_def by (simp add: statements_rev_dropWhile statements_dropWhile)

lemma line_free: "l \<in> set (py_split s nl) \<Longrightarrow> rx_newline \<notin> set l"
proof (induction s arbitrary: l)
  case (Cons c s)
  obtain k ks where "py_split s nl = k # ks" using lines_nonempty [of s] by (cases "py_split s nl") auto
  with Cons show ?case by (cases "c = rx_newline") (auto simp: lines_newline lines_other)
qed simp

lemma sep_free_nl: "rx_newline \<notin> set l \<Longrightarrow> sep_free nl l"
  unfolding sep_free_def newline_code
  by (auto simp: drop_append Cons_nth_drop_Suc [symmetric] in_set_conv_nth)

lemma statements_join:
  assumes "\<forall>l \<in> set ls. rx_newline \<notin> set l"
  shows "statements (py_join nl ls) = long_lines ls"
proof (cases "ls = []")
  case False
  with assms have "py_split (py_join nl ls) nl = ls"
    by (intro split_join) (simp_all add: sep_free_nl, simp add: newline_code)
  then show ?thesis by (simp add: statements_def)
qed (simp add: statements_def)

lemma dedup_section_statements:
  assumes "dedup_section k (secs, seen) = (secs', seen')"
  shows "distinct (statements (part secs' k))" "set (statements (part secs' k)) \<inter> seen = {}"
    "seen' = seen \<union> set (statements (part secs k))" "seen \<union> set (statements (part secs' k)) = seen'"
    "\<forall>j. j \<noteq> k \<longrightarrow> secs' j = secs j"
proof -
  show "\<forall>j. j \<noteq> k \<longrightarrow> secs' j = secs j"
    using assms by (auto simp: dedup_section_def split: if_splits prod.splits)
  have "distinct (statements (part secs' k)) \<and> set (statements (part secs' k)) \<inter> seen = {} \<and>
    seen' = seen \<union> set (statements (part secs k)) \<and> seen \<union> set (statements (part secs' k)) = seen'"
  proof (cases "part secs k = []")
    case True
    with assms show ?thesis by (auto simp: dedup_section_def statements_def)
  next
    case False
    obtain kept where kept: "dedup_lines seen (py_split (part secs k) nl) = (kept, seen')"
      and s: "secs' = secs(k \<mapsto> py_strip (py_join nl kept))"
      using assms False by (auto simp: dedup_section_def split: prod.splits)
    have "\<forall>l \<in> set kept. rx_newline \<notin> set l" using dedup_lines_spec [OF kept] line_free by blast
    then have "statements (part secs' k) = long_lines kept"
      by (simp add: s part_def statements_strip statements_join)
    with dedup_lines_spec [OF kept] show ?thesis by (simp add: statements_def)
  qed
  then show "distinct (statements (part secs' k))" "set (statements (part secs' k)) \<inter> seen = {}"
    "seen' = seen \<union> set (statements (part secs k))" "seen \<union> set (statements (part secs' k)) = seen'" by auto
qed

lemma dedup_fold:
  assumes "fold dedup_section ks (secs, seen) = (secs', seen')" "distinct ks"
  shows "distinct (concat (map (\<lambda>k. statements (part secs' k)) ks)) \<and>
    set (concat (map (\<lambda>k. statements (part secs' k)) ks)) \<inter> seen = {} \<and>
    seen \<union> set (concat (map (\<lambda>k. statements (part secs' k)) ks)) = seen \<union> set (concat (map (\<lambda>k. statements (part secs k)) ks)) \<and>
    (\<forall>j. j \<notin> set ks \<longrightarrow> secs' j = secs j)"
  using assms
proof (induction ks arbitrary: secs seen)
  case (Cons k ks)
  obtain secs1 seen1 where d: "dedup_section k (secs, seen) = (secs1, seen1)" by fastforce
  note s = dedup_section_statements [OF d]
  have "fold dedup_section ks (secs1, seen1) = (secs', seen')" using Cons.prems(1) d by simp
  note ih = Cons.IH [OF this]
  have k: "secs' k = secs1 k" "\<forall>j \<in> set ks. secs1 j = secs j"
    using ih Cons.prems(2) s(5) by auto
  have p: "part secs' k = part secs1 k" "map (\<lambda>j. statements (part secs1 j)) ks = map (\<lambda>j. statements (part secs j)) ks"
    using k by (auto simp: part_def)
  let ?rest = "concat (map (\<lambda>j. statements (part secs' j)) ks)"
  have r: "distinct ?rest" "set ?rest \<inter> seen1 = {}" "seen1 \<union> set ?rest = seen1 \<union> set (concat (map (\<lambda>j. statements (part secs j)) ks))"
    "\<forall>j. j \<notin> set ks \<longrightarrow> secs' j = secs1 j"
    using ih Cons.prems(2) unfolding p(2) by simp_all
  have own: "set (statements (part secs1 k)) \<subseteq> seen1" using s(4) by blast
  show ?case
  proof (intro conjI)
    show "distinct (concat (map (\<lambda>k. statements (part secs' k)) (k # ks)))"
      using s(1) r(1,2) own unfolding list.map concat.simps distinct_append p(1) by blast
    show "set (concat (map (\<lambda>k. statements (part secs' k)) (k # ks))) \<inter> seen = {}"
      using s(2,3) r(2) unfolding list.map concat.simps set_append p(1) by blast
    show "seen \<union> set (concat (map (\<lambda>k. statements (part secs' k)) (k # ks))) =
        seen \<union> set (concat (map (\<lambda>k. statements (part secs k)) (k # ks)))"
      using s(3,4) r(3) unfolding list.map concat.simps set_append p(1) by blast
    show "\<forall>j. j \<notin> set (k # ks) \<longrightarrow> secs' j = secs j" using r(4) s(5) by simp
  qed
qed simp

text \<open>
  after the formatter every line of twenty characters or more occurs once in the four sections it looks at, and
  none is lost; the other sections are as they were.
\<close>

theorem deduplicated_once:
  "distinct (concat (map (\<lambda>k. statements (part (deduplicate_across_sections secs) k)) dedup_priority)) \<and>
   set (concat (map (\<lambda>k. statements (part (deduplicate_across_sections secs) k)) dedup_priority)) =
     set (concat (map (\<lambda>k. statements (part secs k)) dedup_priority)) \<and>
   deduplicate_across_sections secs |` (- set dedup_priority) = secs |` (- set dedup_priority)"
proof -
  obtain secs' seen' where f: "fold dedup_section dedup_priority (secs, {}) = (secs', seen')" by fastforce
  have "distinct dedup_priority" by code_simp
  from dedup_fold [OF f this] f show ?thesis
    by (simp only: deduplicate_across_sections_def fst_conv Un_empty_left) (simp add: restrict_map_def fun_eq_iff)
qed

end
