(* ===== verification/Job_Parser.thy ===== *)
theory Job_Parser
  imports Research_Sections
begin

text \<open>
  The reader of job postings (\<open>services/job_parser.py\<close>): technologies, roles, seniority and initiatives found by
  regular expressions, and what their mix suggests. The patterns are those of the code, written in the datatype of
  \<open>Py_Regex\<close>; texts are lowered or matched in any case as there.
\<close>

section \<open>Patterns\<close>

definition tech_keywords :: "(string \<times> string list) list" where
  "tech_keywords = [
     (''language'', [
       ''Python'', ''Java'', ''JavaScript'', ''TypeScript'', ''Go'', ''Golang'', ''Rust'', ''Ruby'', ''C++'', ''C#'',
       ''PHP'', ''Scala'', ''Kotlin'', ''Swift'', ''Objective-C'', ''R'', ''Perl'', ''Elixir'', ''Clojure'',
       ''Haskell'', ''Lua'', ''Dart'']),
     (''framework'', [
       ''React'', ''Angular'', ''Vue'', ''Next.js'', ''Nuxt'', ''Django'', ''Flask'', ''FastAPI'', ''Spring'',
       ''Rails'', ''Express'', ''NestJS'', ''Laravel'', ''Svelte'', ''Remix'', ''ASP.NET'', ''Gin'', ''Echo'',
       ''Fiber'', ''Phoenix'']),
     (''database'', [
       ''PostgreSQL'', ''MySQL'', ''MongoDB'', ''Redis'', ''Elasticsearch'', ''DynamoDB'', ''Cassandra'', ''Neo4j'',
       ''SQLite'', ''MariaDB'', ''CockroachDB'', ''ClickHouse'', ''Snowflake'', ''BigQuery'', ''Redshift'',
       ''Supabase'', ''PlanetScale'']),
     (''cloud'', [
       ''AWS'', ''Azure'', ''GCP'', ''Google Cloud'', ''Heroku'', ''Vercel'', ''Netlify'', ''DigitalOcean'',
       ''Cloudflare'', ''Fly.io'']),
     (''data'', [
       ''Spark'', ''Kafka'', ''Airflow'', ''dbt'', ''Hadoop'', ''Flink'', ''Databricks'', ''Tableau'', ''Looker'',
       ''Power BI'', ''Segment'', ''Fivetran'', ''Snowplow'']),
     (''devops'', [
       ''Docker'', ''Kubernetes'', ''Terraform'', ''Ansible'', ''Jenkins'', ''CircleCI'', ''GitHub Actions'',
       ''GitLab CI'', ''ArgoCD'', ''Helm'', ''Pulumi'', ''Datadog'', ''Prometheus'', ''Grafana'', ''New Relic'',
       ''PagerDuty'', ''Chronosphere'', ''Honeycomb'', ''Lightstep'', ''Dynatrace'', ''AppDynamics'',
       ''Elastic APM'', ''SignalFx'', ''Splunk'', ''OpenTelemetry'', ''Jaeger'', ''Zipkin'', ''ELK'', ''Kibana'',
       ''Logstash'', ''Fluentd'', ''Loki'', ''Tempo'']),
     (''security'', [
       ''OAuth'', ''SAML'', ''SSO'', ''Vault'', ''Okta'', ''Auth0'', ''CrowdStrike'', ''SentinelOne'', ''Snyk'',
       ''SonarQube'', ''Splunk''])]"

definition role_patterns :: "(string \<times> rx) list" where
  "role_patterns = [
     (''backend'', in_order [Word_Edge, lit ''back'', Maybe (One (\<lambda>c. is_space c \<or> c = CHR ''-'')), lit ''end'', Word_Edge]),
     (''frontend'', in_order [Word_Edge, lit ''front'', Maybe (One (\<lambda>c. is_space c \<or> c = CHR ''-'')), lit ''end'', Word_Edge]),
     (''fullstack'', in_order [Word_Edge, lit ''full'', Maybe (One (\<lambda>c. is_space c \<or> c = CHR ''-'')), lit ''stack'', Word_Edge]),
     (''data'', in_order [Word_Edge, lit ''data'', many1 is_space, Or (lit ''engineer'') (Or (lit ''scientist'') (lit ''analyst'')), Word_Edge]),
     (''devops'', in_order [Word_Edge, Or (lit ''devops'') (Or (lit ''sre'') (Or (lit ''site reliability'') (lit ''platform engineer''))), Word_Edge]),
     (''security'', in_order [Word_Edge, Or (lit ''security engineer'') (Or (lit ''appsec'') (Or (lit ''infosec'') (lit ''cybersecurity''))), Word_Edge]),
     (''mobile'', in_order [Word_Edge, Or (lit ''mobile'') (Or (lit ''ios'') (lit ''android'')), many1 is_space, Or (lit ''engineer'') (lit ''developer''), Word_Edge]),
     (''marketing'', in_order [Word_Edge, Or (in_order [lit ''marketing'', many1 is_space, Or (lit ''manager'') (Or (lit ''director'') (Or (lit ''analyst'') (Or (lit ''coordinator'') (lit ''specialist''))))]) (Or (in_order [lit ''growth'', many1 is_space, lit ''marketing'']) (Or (in_order [lit ''content'', many1 is_space, lit ''strategist'']) (Or (in_order [lit ''seo'', many1 is_space, lit ''specialist'']) (in_order [lit ''demand'', many1 is_space, lit ''gen'', Maybe (lit ''eration''), Maybe (in_order [many1 is_space, lit ''manager''])])))), Word_Edge]),
     (''sales'', in_order [Word_Edge, Or (in_order [lit ''sales'', many1 is_space, Or (lit ''manager'') (Or (lit ''director'') (Or (lit ''representative'') (lit ''engineer'')))]) (Or (in_order [lit ''account'', many1 is_space, lit ''executive'']) (Or (in_order [lit ''revenue'', many1 is_space, lit ''operations'']) (Or (lit ''sdr'') (lit ''bdr'')))), Word_Edge]),
     (''finance'', in_order [Word_Edge, Or (in_order [lit ''finance'', many1 is_space, Or (lit ''manager'') (Or (lit ''director'') (lit ''analyst''))]) (Or (in_order [lit ''financial'', many1 is_space, lit ''analyst'']) (Or (lit ''controller'') (Or (in_order [lit ''actuari'', Or (lit ''al'') (lit ''y'')]) (in_order [lit ''underwriting'', Maybe (in_order [many1 is_space, lit ''manager''])])))), Word_Edge]),
     (''operations'', in_order [Word_Edge, Or (in_order [lit ''operations'', many1 is_space, Or (lit ''manager'') (Or (lit ''director'') (lit ''analyst''))]) (Or (in_order [lit ''supply'', many1 is_space, lit ''chain'', Maybe (in_order [many1 is_space, lit ''manager''])]) (Or (in_order [lit ''logistics'', Maybe (in_order [many1 is_space, lit ''manager''])]) (Or (in_order [lit ''warehouse'', many1 is_space, lit ''manager'']) (in_order [lit ''procurement'', Maybe (in_order [many1 is_space, lit ''manager''])])))), Word_Edge]),
     (''healthcare_clinical'', in_order [Word_Edge, Or (in_order [lit ''clinical'', many1 is_space, Or (lit ''director'') (Or (lit ''manager'') (lit ''coordinator''))]) (Or (in_order [lit ''nursing'', Maybe (in_order [many1 is_space, lit ''director''])]) (Or (lit ''physician'') (Or (in_order [lit ''patient'', many1 is_space, lit ''care'', Maybe (in_order [many1 is_space, lit ''manager''])]) (in_order [lit ''care'', many1 is_space, lit ''coordinator''])))), Word_Edge]),
     (''hr_people'', in_order [Word_Edge, Or (in_order [lit ''hr'', many1 is_space, Or (lit ''manager'') (Or (lit ''director'') (lit ''generalist''))]) (Or (lit ''recruiter'') (Or (in_order [lit ''talent'', many1 is_space, lit ''acquisition'']) (in_order [lit ''people'', many1 is_space, lit ''operations'']))), Word_Edge]),
     (''legal_compliance'', in_order [Word_Edge, Or (in_order [lit ''legal'', many1 is_space, lit ''counsel'']) (Or (in_order [lit ''compliance'', many1 is_space, Or (lit ''officer'') (Or (lit ''manager'') (lit ''director''))]) (Or (in_order [lit ''contract'', many1 is_space, lit ''manager'']) (in_order [lit ''regulatory'', many1 is_space, lit ''affairs'']))), Word_Edge]),
     (''product'', in_order [Word_Edge, Or (in_order [lit ''product'', many1 is_space, Or (lit ''manager'') (Or (lit ''director'') (lit ''owner''))]) (Or (in_order [lit ''product'', many1 is_space, lit ''designer'']) (in_order [lit ''ux'', many1 is_space, lit ''designer''])), Word_Edge]),
     (''project_management'', in_order [Word_Edge, lit ''project'', many1 is_space, lit ''manager'', Word_Edge]),
     (''construction'', in_order [Word_Edge, Or (lit ''estimator'') (Or (lit ''superintendent'') (Or (in_order [lit ''safety'', many1 is_space, lit ''manager'']) (in_order [lit ''field'', many1 is_space, lit ''operations'', Maybe (in_order [many1 is_space, lit ''manager''])]))), Word_Edge]),
     (''education'', in_order [Word_Edge, Or (in_order [lit ''curriculum'', many1 is_space, lit ''designer'']) (Or (in_order [lit ''instructional'', many1 is_space, lit ''design'', Maybe (lit ''er'')]) (Or (lit ''teacher'') (lit ''instructor''))), Word_Edge])]"

definition seniority_patterns :: "(string \<times> rx) list" where
  "seniority_patterns = [
     (''junior'', in_order [Word_Edge, Or (lit ''junior'') (Or (in_order [lit ''jr'', Maybe (lit ''.'')]) (in_order [lit ''entry'', One (\<lambda>c. is_space c \<or> c = CHR ''-''), lit ''level''])), Word_Edge]),
     (''mid'', in_order [Word_Edge, Or (in_order [lit ''mid'', One (\<lambda>c. is_space c \<or> c = CHR ''-''), lit ''level'']) (lit ''intermediate''), Word_Edge]),
     (''senior'', in_order [Word_Edge, lit ''senior'', Word_Edge]),
     (''staff'', in_order [Word_Edge, lit ''staff'', Word_Edge]),
     (''principal'', in_order [Word_Edge, lit ''principal'', Word_Edge]),
     (''lead'', in_order [Word_Edge, Or (lit ''lead'') (Or (lit ''tech lead'') (lit ''team lead'')), Word_Edge]),
     (''manager'', in_order [Word_Edge, Or (lit ''manager'') (lit ''engineering manager''), Word_Edge]),
     (''director'', in_order [Word_Edge, lit ''director'', Word_Edge])]"

definition initiative_patterns :: "(string \<times> rx list) list" where
  "initiative_patterns = [
     (''Cloud migration / modernization'', [
       in_order [Word_Edge, any_case ''cloud migration'', Word_Edge],
       in_order [Word_Edge, any_case ''migrate '', Or (any_case ''to'') (any_case ''into''), any_case '' '', Or (any_case ''aws'') (Or (any_case ''azure'') (Or (any_case ''gcp'') (any_case ''google cloud''))), Word_Edge],
       in_order [Word_Edge, any_case ''moderniz'', Or (any_case ''e'') (Or (any_case ''ation'') (any_case ''ing'')), Word_Edge],
       in_order [Word_Edge, any_case ''legacy '', Or (any_case ''system'') (Or (any_case ''application'') (any_case ''platform'')), Word_Edge],
       in_order [Word_Edge, any_case ''landing zone'', Word_Edge],
       in_order [Word_Edge, any_case ''well-architected'', Word_Edge],
       in_order [Word_Edge, any_case ''finops'', Word_Edge],
       in_order [Word_Edge, any_case ''multi-account'', Word_Edge]]),
     (''Platform engineering buildout'', [
       in_order [Word_Edge, any_case ''platform engineering'', Word_Edge],
       in_order [Word_Edge, any_case ''platform team'', Word_Edge],
       in_order [Word_Edge, any_case ''developer platform'', Word_Edge],
       in_order [Word_Edge, any_case ''internal developer platform'', Word_Edge],
       in_order [Word_Edge, any_case ''shared platform'', Word_Edge],
       in_order [Word_Edge, any_case ''platform modernization'', Word_Edge]]),
     (''Data platform / analytics buildout'', [
       in_order [Word_Edge, any_case ''data platform'', Word_Edge],
       in_order [Word_Edge, any_case ''data warehouse'', Word_Edge],
       in_order [Word_Edge, any_case ''data lake'', Maybe (any_case ''house''), Word_Edge],
       in_order [Word_Edge, any_case ''analytics platform'', Word_Edge],
       in_order [Word_Edge, any_case ''modern data stack'', Word_Edge],
       in_order [Word_Edge, any_case ''reporting platform'', Word_Edge],
       in_order [Word_Edge, any_case ''business intelligence'', Word_Edge]]),
     (''AI / ML rollout'', [
       in_order [Word_Edge, any_case ''generative ai'', Word_Edge],
       in_order [Word_Edge, any_case ''genai'', Word_Edge], in_order [Word_Edge, any_case ''llm'', Word_Edge],
       in_order [Word_Edge, any_case ''machine learning'', Word_Edge],
       in_order [Word_Edge, any_case ''mlops'', Word_Edge], in_order [Word_Edge, any_case ''ai product'', Word_Edge],
       in_order [Word_Edge, any_case ''ai initiative'', Word_Edge],
       in_order [Word_Edge, any_case ''ai/ml'', Word_Edge]]),
     (''Security / compliance program'', [
       in_order [Word_Edge, any_case ''zero trust'', Word_Edge],
       in_order [Word_Edge, any_case ''identity and access management'', Word_Edge],
       in_order [Word_Edge, any_case ''iam'', Word_Edge],
       in_order [Word_Edge, any_case ''soc'', Maybe (any_case '' ''), any_case ''2'', Word_Edge],
       in_order [Word_Edge, any_case ''iso'', Maybe (any_case '' ''), any_case ''27001'', Word_Edge],
       in_order [Word_Edge, any_case ''fedramp'', Word_Edge], in_order [Word_Edge, any_case ''pci'', Word_Edge],
       in_order [Word_Edge, any_case ''compliance program'', Word_Edge],
       in_order [Word_Edge, any_case ''security transformation'', Word_Edge]]),
     (''Quality engineering / test automation'', [
       in_order [Word_Edge, any_case ''qa automation'', Word_Edge],
       in_order [Word_Edge, any_case ''test automation'', Word_Edge],
       in_order [Word_Edge, any_case ''quality engineering'', Word_Edge],
       in_order [Word_Edge, any_case ''automated testing'', Word_Edge],
       in_order [Word_Edge, any_case ''test platform'', Word_Edge]])]"

definition delivery_model_patterns :: "(string \<times> rx list) list" where
  "delivery_model_patterns = [
     (''Professional services / consulting language'', [
       in_order [Word_Edge, any_case ''professional services'', Word_Edge],
       in_order [Word_Edge, any_case ''consult'', Or (any_case ''ant'') (any_case ''ing''), Word_Edge],
       in_order [Word_Edge, any_case ''implementation partner'', Word_Edge],
       in_order [Word_Edge, any_case ''services partner'', Word_Edge],
       in_order [Word_Edge, any_case ''systems integrator'', Word_Edge],
       in_order [Word_Edge, any_case ''managed service'', Maybe (any_case ''s''), Word_Edge]]),
     (''Partner / vendor coordination'', [
       in_order [Word_Edge, any_case ''external partner'', Word_Edge],
       in_order [Word_Edge, any_case ''third'', Maybe (any_case ''-''), any_case ''party vendor'', Word_Edge],
       in_order [Word_Edge, any_case ''vendor management'', Word_Edge],
       in_order [Word_Edge, any_case ''vendor relationship'', Maybe (any_case ''s''), Word_Edge],
       in_order [Word_Edge, any_case ''partner management'', Word_Edge],
       in_order [Word_Edge, any_case ''manage '', Maybe (any_case ''strategic ''), any_case ''partners'', Word_Edge],
       in_order [Word_Edge, any_case ''coordinate with vendors'', Word_Edge]]),
     (''Contractor / external team usage'', [
       in_order [Word_Edge, any_case ''contractor'', Word_Edge],
       in_order [Word_Edge, any_case ''outsourc'', Or (any_case ''e'') (Or (any_case ''ed'') (any_case ''ing'')), Word_Edge],
       in_order [Word_Edge, any_case ''augmented team'', Word_Edge],
       in_order [Word_Edge, any_case ''external team'', Word_Edge],
       in_order [Word_Edge, any_case ''consulting resources'', Word_Edge]])]"

definition initiative_expected_roles :: "(string \<times> string list) list" where
  "initiative_expected_roles = [
     (''Cloud migration / modernization'', [''backend'', ''devops'', ''fullstack'', ''security'']),
     (''Platform engineering buildout'', [''backend'', ''devops'', ''fullstack'', ''product'']),
     (''Data platform / analytics buildout'', [''backend'', ''data'', ''fullstack'']),
     (''AI / ML rollout'', [''backend'', ''data'', ''devops'', ''fullstack'']),
     (''Security / compliance program'', [''devops'', ''legal_compliance'', ''security'']),
     (''Quality engineering / test automation'', [''backend'', ''devops'', ''fullstack'', ''product''])]"

definition initiative_gap_labels :: "(string \<times> string) list" where
  "initiative_gap_labels = [
     (''Cloud migration / modernization'', ''DevOps/platform''),
     (''Platform engineering buildout'', ''platform/DevOps''),
     (''Data platform / analytics buildout'', ''data engineering/analytics''),
     (''AI / ML rollout'', ''AI/ML platform''),
     (''Security / compliance program'', ''security/compliance''),
     (''Quality engineering / test automation'', ''QA/automation'')]"

definition specialist_role_types :: "string list" where
  "specialist_role_types = [''backend'', ''frontend'', ''fullstack'', ''data'', ''devops'', ''security'', ''mobile'', ''product'', ''project_management'']"

definition role_line_rx :: rx where
  "role_line_rx = in_order [Or (Text_Start) (lit nl), Star is_space, Maybe (Or (lit ''senior'') (Or (lit ''junior'') (Or (lit ''staff'') (Or (lit ''lead'') (lit ''principal''))))), Star is_space, many1 word_char, many1 is_space, Or (lit ''engineer'') (Or (lit ''manager'') (Or (lit ''director'') (Or (lit ''analyst'') (Or (lit ''specialist'') (Or (lit ''coordinator'') (Or (lit ''designer'') (Or (lit ''recruiter'') (lit ''counsel''))))))))]"

section \<open>Parsing\<close>

record job_signals =
  jb_mentions :: "(string \<times> string \<times> nat) list"
  jb_role_types :: "string list"
  jb_role_counts :: "(string \<times> nat) list"
  jb_seniority :: "(string \<times> nat) list"
  jb_initiatives :: "string list"
  jb_delivery :: "string list"
  jb_capacity :: "string list"
  jb_gaps :: "string list"
  jb_total :: nat

definition no_job_signals :: job_signals where
  "no_job_signals = \<lparr>jb_mentions = [], jb_role_types = [], jb_role_counts = [], jb_seniority = [], jb_initiatives = [],
     jb_delivery = [], jb_capacity = [], jb_gaps = [], jb_total = 0\<rparr>"

definition keyword_rx :: "string \<Rightarrow> rx" where
  "keyword_rx kw = in_order [Word_Edge, any_case (py_lower kw), Word_Edge]"

text \<open>The non-zero counts, in the order of the table\<close>

definition counts :: "(string \<times> rx) list \<Rightarrow> string \<Rightarrow> (string \<times> nat) list" where
  "counts table s = filter (\<lambda>(k, n). 0 < n) (map (\<lambda>(k, r). (k, length (re_finds r s))) table)"

definition tech_mentions :: "string \<Rightarrow> (string \<times> string \<times> nat) list" where
  "tech_mentions s = concat (map (\<lambda>(category, kws). map (\<lambda>(kw, n). (kw, category, n))
     (counts (map (\<lambda>kw. (kw, keyword_rx kw)) kws) s)) tech_keywords)"

definition extract_label_signals :: "string \<Rightarrow> (string \<times> rx list) list \<Rightarrow> string list" where
  "extract_label_signals s table = map fst (filter (\<lambda>(label, rs). list_ex (\<lambda>r. re_found r s) rs) table)"

definition count_of :: "(string \<times> nat) list \<Rightarrow> string \<Rightarrow> nat" where
  "count_of cs k = coalesce (map_of cs k) 0"

definition specialists :: "(string \<times> nat) list \<Rightarrow> (string \<times> nat) list" where
  "specialists cs = filter (\<lambda>(k, n). k \<in> set specialist_role_types) cs"

definition total_of :: "(string \<times> nat) list \<Rightarrow> nat" where
  "total_of cs = sum_list (map snd cs)"

definition leadership :: "(string \<times> nat) list \<Rightarrow> nat" where
  "leadership seniority = count_of seniority ''manager'' + count_of seniority ''director''"

text \<open>\<open>sorted(counts, key=lambda role: (-counts[role], role))\<close>\<close>

definition by_count :: "(string \<times> nat) list \<Rightarrow> (string \<times> nat) list" where
  "by_count cs = sort_key (\<lambda>(k, n). - int n) (sort_key fst cs)"

definition leaders_first :: "(string \<times> nat) list \<Rightarrow> (string \<times> nat) list \<Rightarrow> string list \<Rightarrow> bool" where
  "leaders_first roles seniority initiatives \<longleftrightarrow>
     1 \<le> leadership seniority \<and> initiatives \<noteq> [] \<and> total_of (specialists roles) \<le> 2"

definition derive_capacity_signals :: "(string \<times> nat) list \<Rightarrow> (string \<times> nat) list \<Rightarrow> string list \<Rightarrow> string list" where
  "derive_capacity_signals roles seniority initiatives = (let sp = specialists roles;
       senior = count_of seniority ''senior'' + count_of seniority ''staff'' + count_of seniority ''principal'';
       junior = count_of seniority ''junior'' + count_of seniority ''mid''
     in (if 3 \<le> total_of sp \<and> 2 \<le> length sp
           then [''Coordinated specialist hiring across '' @ py_join '', '' (map fst (by_count sp))] else []) @
        (if leaders_first roles seniority initiatives then [''Leadership-first hiring mix for an active initiative''] else []) @
        (if 3 \<le> senior \<and> junior = 0 \<and> 2 \<le> total_of sp then [''Senior-heavy specialist hiring mix''] else []))"

definition unstaffed :: "(string \<times> nat) list \<Rightarrow> string \<Rightarrow> bool" where
  "unstaffed roles initiative \<longleftrightarrow>
     \<not> list_ex (\<lambda>r. 0 < count_of roles r) (coalesce (map_of initiative_expected_roles initiative) [])"

definition derive_capability_gap_signals :: "(string \<times> nat) list \<Rightarrow> (string \<times> nat) list \<Rightarrow> string list \<Rightarrow> string list" where
  "derive_capability_gap_signals roles seniority initiatives = dedup (
     map (\<lambda>i. i @ '' language without dedicated '' @ coalesce (map_of initiative_gap_labels i) ''specialist'' @ '' hiring'')
       (filter (unstaffed roles) initiatives) @
     (if leaders_first roles seniority initiatives
      then [''Manager/director hiring appears ahead of execution-team buildout''] else []))"

definition parse_jobs :: "string \<Rightarrow> job_signals" where
  "parse_jobs s = (if s = [] then no_job_signals
     else (let l = py_lower s; mentions = tech_mentions s; roles = counts role_patterns l;
         seniority = counts seniority_patterns l; initiatives = extract_label_signals s initiative_patterns
       in \<lparr>jb_mentions = mentions, jb_role_types = map fst roles, jb_role_counts = roles, jb_seniority = seniority,
           jb_initiatives = initiatives, jb_delivery = extract_label_signals s delivery_model_patterns,
           jb_capacity = derive_capacity_signals roles seniority initiatives,
           jb_gaps = derive_capability_gap_signals roles seniority initiatives,
           jb_total = (if mentions \<noteq> [] \<or> roles \<noteq> [] then max (length (re_finds role_line_rx l)) 1 else 0)\<rparr>))"

section \<open>What is found\<close>

lemma finds_search:
  assumes "re_finds r s \<noteq> []"
  shows "\<exists>p q. q \<in> set (matches r p) \<and> whole p = s"
proof -
  from assms obtain p q where "search_from r [] s = Some (p, q)"
    by (auto simp: re_finds_def finds_from.simps [of r "[]" s] split: option.splits)
  with search_from_ahead [OF this] ahead_whole show ?thesis by (fastforce simp: whole_def)
qed

lemma any_case_matches:
  "q \<in> set (matches (any_case w) p) \<Longrightarrow>
   \<exists>t. py_lower t = w \<and> pl_after p = t @ pl_after q \<and> pl_before q = rev t @ pl_before p"
proof (induction w arbitrary: p)
  case Nil
  then show ?case by (simp add: any_case_def)
next
  case (Cons c w)
  have u: "any_case (c # w) = Then (One (\<lambda>d. lower_char d = c)) (any_case w)" by (simp add: any_case_def)
  from Cons.prems obtain d s where d: "pl_after p = d # s" "lower_char d = c"
    and m: "q \<in> set (matches (any_case w) (p\<lparr>pl_before := d # pl_before p, pl_after := s\<rparr>))"
    unfolding u by (cases "pl_after p") (simp_all split: if_splits)
  from Cons.IH [OF m] obtain t where "py_lower t = w" "s = t @ pl_after q" "pl_before q = rev t @ d # pl_before p" by auto
  with d show ?case by (intro exI [of _ "d # t"]) (simp add: py_lower_def)
qed

lemma word_char_lower [simp]: "word_char (lower_char c) = word_char c"
  by (auto simp: word_char_def lower_char_def upper_char_def Let_def)

lemma last_lower: "py_lower t = u @ [c] \<Longrightarrow> \<exists>v d. t = v @ [d] \<and> lower_char d = c"
  by (cases t rule: rev_cases) (auto simp: py_lower_def)

text \<open>
  a keyword that does not end in a letter or digit is found only where one follows it directly: the boundary after
  it asks for a word character. So neither C++ nor C# is ever read from a posting that names them as words.
\<close>

lemma keyword_end:
  assumes "re_finds (keyword_rx kw) s \<noteq> []" "py_lower kw = u @ [c]" "\<not> word_char c"
  shows "\<exists>x t d y. s = x @ t @ d # y \<and> py_lower t = py_lower kw \<and> word_char d"
proof -
  from finds_search [OF assms(1)] obtain p q where q: "q \<in> set (matches (keyword_rx kw) p)" and p: "whole p = s"
    by blast
  from q obtain m where m: "m \<in> set (matches (any_case (py_lower kw)) p)"
    and e: "starts_word (pl_before m) \<noteq> starts_word (pl_after m)"
    by (auto simp: keyword_rx_def in_order_def split: if_splits)
  from any_case_matches [OF m] obtain t where t: "py_lower t = py_lower kw" "pl_after p = t @ pl_after m"
    "pl_before m = rev t @ pl_before p" by blast
  from last_lower [of t u c] t(1) assms(2) obtain v d where v: "t = v @ [d]" "lower_char d = c" by auto
  with word_char_lower [of d] assms(3) have "\<not> starts_word (pl_before m)" using t(3) by (simp add: starts_word_def)
  with e obtain c' y where "pl_after m = c' # y" "word_char c'"
    by (cases "pl_after m") (auto simp: starts_word_def)
  with p t show ?thesis by (auto simp: whole_def)
qed

theorem symbol_keywords_missed:
  assumes "(kw, category, n) \<in> set (jb_mentions (parse_jobs s))" "kw \<in> {''C++'', ''C#''}"
  shows "\<exists>x t c y. s = x @ t @ c # y \<and> py_lower t = py_lower kw \<and> word_char c"
proof -
  from assms(1) have "re_finds (keyword_rx kw) s \<noteq> []"
    by (auto simp: parse_jobs_def no_job_signals_def Let_def tech_mentions_def counts_def split: if_splits)
  moreover from assms(2) have "py_lower kw = butlast (py_lower kw) @ [last (py_lower kw)]"
    "\<not> word_char (last (py_lower kw))" by (auto simp: py_lower_def)
      (auto simp: word_char_def Let_def)
  ultimately show ?thesis by (rule keyword_end)
qed

lemma mentioned:
  assumes "s \<noteq> []" "(category, kws) \<in> set tech_keywords" "kw \<in> set kws" "length (re_finds (keyword_rx kw) s) = Suc n"
  shows "(kw, category, Suc n) \<in> set (jb_mentions (parse_jobs s))"
  using assms by (force simp: parse_jobs_def Let_def tech_mentions_def counts_def)

theorem symbol_keywords_missed_witness:
  "\<exists>x t c y. ''C#9'' = x @ t @ c # y \<and> py_lower t = py_lower ''C#'' \<and> word_char c"
proof (rule symbol_keywords_missed)
  show "(''C#'', ''language'', Suc 0) \<in> set (jb_mentions (parse_jobs ''C#9''))"
  proof (rule mentioned)
    show "(''language'', snd (hd tech_keywords)) \<in> set tech_keywords" by (simp add: tech_keywords_def)
    show "''C#'' \<in> set (snd (hd tech_keywords))" by (simp add: tech_keywords_def)
    show "length (re_finds (keyword_rx ''C#'') ''C#9'') = Suc 0" by code_simp
  qed simp
qed simp

end
