(* ===== verification/Research_Prompts.thy ===== *)
theory Research_Prompts
  imports Job_Parser Pain_Engine Personas Web_Settings
begin

text \<open>
  The prompts of the research (\<open>services/claude.py\<close>, the formatting functions of \<open>models.py\<close>): what was
  collected about a company, laid out flat or in tiers, and the system prompt around its fixed texts.
  A missing text is the empty text; characters outside ASCII are written in ASCII.
\<close>

section \<open>Technologies\<close>

text \<open>The confidence of an archetype is in hundredths.\<close>

record archetype =
  ar_name :: string
  ar_confidence :: int
  ar_matched :: "string list"
  ar_description :: string

record detected_stack =
  ds_techs :: "tech list"
  ds_archetypes :: "archetype list"

definition excluded_categories :: "string list" where
  "excluded_categories = [''Cryptominers'']"

definition excluded_category :: "string \<Rightarrow> bool" where
  "excluded_category category \<longleftrightarrow> list_ex (\<lambda>c. py_strip c \<in> set excluded_categories) (py_split category '','')"

definition shown_tech :: "tech \<Rightarrow> bool" where
  "shown_tech t \<longleftrightarrow> (case tc_confidence t of None \<Rightarrow> True | Some c \<Rightarrow> 75 \<le> c) \<and>
     \<not> (coalesce (tc_category t) [] \<noteq> [] \<and> excluded_category (coalesce (tc_category t) []))"

definition tech_entry :: "tech \<Rightarrow> string" where
  "tech_entry t = ''- '' @ tc_name t @
     (if coalesce (tc_version t) [] = [] then [] else '' '' @ coalesce (tc_version t) []) @
     (if coalesce (tc_category t) [] = [] then [] else '' ('' @ coalesce (tc_category t) [] @ '')'')"

definition archetype_entry :: "archetype \<Rightarrow> string" where
  "archetype_entry a = ''- '' @ ar_name a @ '' (confidence: '' @ str_int (ar_confidence a) @ ''%)'' @
     (if ar_description a = [] then [] else '' - '' @ ar_description a)"

definition to_prompt_text :: "detected_stack \<Rightarrow> string" where
  "to_prompt_text d = (if ds_techs d = [] then ''No technologies detected.''
     else (let high = filter (\<lambda>a. 50 \<le> ar_confidence a) (ds_archetypes d) in
       py_join nl (map tech_entry (filter shown_tech (ds_techs d)) @
         (if high = [] then [] else [[], ''Stack Archetypes:''] @ map archetype_entry high))))"

definition product_prefixes :: "string list" where
  "product_prefixes = [''app.'', ''dashboard.'', ''portal.'', ''console.'', ''platform.'', ''my.'', ''admin.'', ''web.'']"

definition classify_domain :: "string \<Rightarrow> string" where
  "classify_domain host = (let n = py_lower host; n = (if startswith n ''www.'' then drop 4 n else n) in
     if list_ex (startswith n) product_prefixes then ''Product/Application''
     else if startswith n ''api.'' then ''API'' else ''Marketing Site'')"

definition domain_section :: "string \<times> detected_stack \<Rightarrow> string" where
  "domain_section x = (case x of (host, d) \<Rightarrow>
     ''**'' @ host @ ''** ('' @ classify_domain host @ ''):'' @ nl @ to_prompt_text d)"

definition with_techs :: "(string \<times> detected_stack) list \<Rightarrow> (string \<times> detected_stack) list" where
  "with_techs by_host = filter (\<lambda>(host, d). ds_techs d \<noteq> []) by_host"

definition format_multi_domain_tech :: "(string \<times> detected_stack) list \<Rightarrow> string" where
  "format_multi_domain_tech by_host = (if by_host = [] then ''No technologies detected.''
     else py_join (nl @ nl) (map domain_section (with_techs by_host)))"

definition product_host :: "string \<times> detected_stack \<Rightarrow> bool" where
  "product_host x \<longleftrightarrow> classify_domain (fst x) \<in> {''Product/Application'', ''API''}"

definition format_tech_by_tier :: "(string \<times> detected_stack) list \<Rightarrow> string \<times> string" where
  "format_tech_by_tier by_host =
     (py_join (nl @ nl) (map domain_section (filter product_host (with_techs by_host))),
      py_join (nl @ nl) (map domain_section (filter (\<lambda>x. \<not> product_host x) (with_techs by_host))))"

section \<open>Hosts\<close>

record host_signals = infra +
  in_api_paths :: "string list"
  in_admin_paths :: "string list"

definition ssl_parts :: "host_signals \<Rightarrow> string list" where
  "ssl_parts i = [''Issuer: '' @ coalesce (in_ssl_issuer i) []] @
     (case in_ssl_days i of None \<Rightarrow> [] | Some n \<Rightarrow> [''expires in '' @ str_int n @ ''d'']) @
     (if in_ssl_auto i then [''auto-renewed''] else [])"

definition infrastructure_lines :: "host_signals \<Rightarrow> string list" where
  "infrastructure_lines i =
     (if coalesce (in_ns i) [] = [] then [] else [''- DNS: '' @ coalesce (in_ns i) []]) @
     (if in_clouds i = [] then [] else [''- Cloud: '' @ py_join '', '' (in_clouds i)]) @
     (if coalesce (in_ssl_issuer i) [] = [] then [] else [''- SSL: '' @ py_join '', '' (ssl_parts i)]) @
     (if in_grade i = [] then [] else [''- Security headers: '' @ in_grade i @ '' ('' @ str_int (in_score i) @ ''/6)'']) @
     (if in_api_paths i = [] then [] else [''- API paths: '' @ py_join '', '' (in_api_paths i)]) @
     (if in_admin_paths i = [] then [] else [''- Admin paths: '' @ py_join '', '' (in_admin_paths i)])"

text \<open>The title stands before the first line, if there is one.\<close>

definition format_infrastructure_section :: "host_signals option \<Rightarrow> string list" where
  "format_infrastructure_section infra = (case infra of None \<Rightarrow> []
     | Some i \<Rightarrow> if infrastructure_lines i = [] then [] else ''## Infrastructure Signals'' # infrastructure_lines i)"

section \<open>Job postings\<close>

text \<open>Groups in the order in which their keys are met\<close>

definition grouped :: "('a \<Rightarrow> string) \<Rightarrow> 'a list \<Rightarrow> (string \<times> 'a list) list" where
  "grouped key xs = map (\<lambda>k. (k, filter (\<lambda>x. key x = k) xs)) (dedup (map key xs))"

definition mention_lines :: "job_signals \<Rightarrow> string \<Rightarrow> string list" where
  "mention_lines j seller = map (\<lambda>(category, ms). ''- '' @ category @ '': '' @
       py_join '', '' (map (\<lambda>(name, c, n). name @ '' (x'' @ str_nat n @ '')'') ms))
     (grouped (\<lambda>(name, c, n). c)
       (filter (\<lambda>(name, c, n). is_text_relevant (c @ '' '' @ name) seller) (jb_mentions j)))"

definition relevant_roles :: "string \<Rightarrow> string list" where
  "relevant_roles seller = (let slug = normalize_seller_category seller in
     if slug = [] then [] else coalesce (map_of seller_relevant_roles slug) [])"

definition listed :: "string \<Rightarrow> string list \<Rightarrow> string list" where
  "listed label xs = (if xs = [] then [] else [''- '' @ label @ '': '' @ py_join '', '' xs])"

definition role_lines :: "job_signals \<Rightarrow> string \<Rightarrow> string list" where
  "role_lines j seller = (if jb_role_types j = [] then []
     else if relevant_roles seller = [] then listed ''Role types'' (jb_role_types j)
     else listed (''Relevant role types ('' @ seller @ '' seller)'') (filter (\<lambda>r. r \<in> set (relevant_roles seller)) (jb_role_types j)) @
       listed ''Other role types'' (filter (\<lambda>r. r \<notin> set (relevant_roles seller)) (jb_role_types j)))"

definition format_job_signals_section :: "job_signals \<Rightarrow> string \<Rightarrow> string list" where
  "format_job_signals_section j seller = (let body = mention_lines j seller @ role_lines j seller @
       listed ''Role counts'' (map (\<lambda>(r, n). r @ '' x'' @ str_nat n) (by_count (jb_role_counts j))) @
       listed ''Seniority'' (map (\<lambda>(k, n). k @ '': '' @ str_nat n) (jb_seniority j)) @
       listed ''Initiative signals'' (filter_text_items (jb_initiatives j) seller) @
       listed ''Delivery model signals'' (filter_text_items (jb_delivery j) seller) @
       listed ''Capacity signals'' (filter_text_items (jb_capacity j) seller) @
       listed ''Capability gaps'' (filter_text_items (jb_gaps j) seller)
     in if body = [] then [] else ''## Parsed Job Signals'' # body)"

section \<open>Pains\<close>

definition background :: "pain \<Rightarrow> bool" where
  "background p \<longleftrightarrow> startswith (pn_category p) ''_background_''"

definition removeprefix :: "string \<Rightarrow> string \<Rightarrow> string" where
  "removeprefix pre s = (if startswith s pre then drop (length pre) s else s)"

definition shown_category :: "bool \<Rightarrow> pain \<Rightarrow> string" where
  "shown_category is_background p = (if is_background then removeprefix ''_background_'' (pn_category p)
     else if pn_category p = [] then ''other'' else pn_category p)"

definition category_order :: "string list" where
  "category_order = [''security'', ''engineering'', ''operations'', ''marketing'', ''data'']"

definition by_confidence :: "pain list \<Rightarrow> pain list" where
  "by_confidence ps = sort_key (\<lambda>p. - pn_confidence p) ps"

definition pain_heading :: "pain \<Rightarrow> string" where
  "pain_heading p = '' (severity: '' @ pn_severity p @ '', confidence: '' @ str_int (pn_confidence p) @ '')''"

definition background_lines :: "pain \<Rightarrow> string list" where
  "background_lines p = [''**'' @ pn_title p @ ''** ['' @ removeprefix ''_background_'' (pn_category p) @ '']'' @ pain_heading p,
     ''  '' @ pn_description p, []]"

definition action_lines :: "pain \<Rightarrow> string list" where
  "action_lines p = [''**'' @ pn_title p @ ''**'' @ pain_heading p, ''  '' @ pn_description p] @
     map (\<lambda>e. ''  - '' @ e) (pn_evidence p) @ [[]]"

definition pain_lines :: "bool \<Rightarrow> pain \<Rightarrow> string list" where
  "pain_lines is_background p = (if is_background then background_lines p else action_lines p)"

definition group_lines :: "bool \<Rightarrow> string \<times> pain list \<Rightarrow> string list" where
  "group_lines is_background x = (case x of (category, ps) \<Rightarrow>
     (''### '' @ py_title False category @ '' ('' @ str_nat (length ps) @ '' signal'' @
       (if length ps \<noteq> 1 then ''s'' else []) @ '')'') # concat (map (pain_lines is_background) ps))"

text \<open>The five categories in their order, then the others as they are met\<close>

definition ordered_groups :: "bool \<Rightarrow> pain list \<Rightarrow> (string \<times> pain list) list" where
  "ordered_groups is_background ps = (let gs = map (\<lambda>(k, xs). (k, by_confidence xs)) (grouped (shown_category is_background) ps) in
     concat (map (\<lambda>k. filter (\<lambda>(k', xs). k' = k) gs) category_order) @ filter (\<lambda>(k', xs). k' \<notin> set category_order) gs)"

definition format_pain_group :: "pain list \<Rightarrow> bool \<Rightarrow> string list" where
  "format_pain_group ps is_background = concat (map (group_lines is_background) (ordered_groups is_background ps))"

record pain_tiers =
  pt_first :: "pain list"
  pt_second :: "pain list"
  pt_third :: "pain list"
  pt_background :: "pain list"

definition split_pain_by_tier :: "pain list \<Rightarrow> pain_tiers" where
  "split_pain_by_tier ps = \<lparr>
     pt_first = filter (\<lambda>p. \<not> background p \<and> 70 \<le> pn_confidence p) ps,
     pt_second = filter (\<lambda>p. \<not> background p \<and> pn_confidence p < 70 \<and> 40 \<le> pn_confidence p) ps,
     pt_third = filter (\<lambda>p. \<not> background p \<and> pn_confidence p < 40) ps,
     pt_background = filter background ps\<rparr>"

section \<open>The site\<close>

text \<open>
  \<open>urlparse(url).path\<close>: after the scheme and the authority, up to a query, a fragment or the parameters of
  the last segment. It raises on unbalanced brackets in the authority.
\<close>

definition scheme_char :: "char \<Rightarrow> bool" where
  "scheme_char c \<longleftrightarrow> (let n = (of_char c :: nat) in 48 \<le> n \<and> n \<le> 57 \<or> 65 \<le> n \<and> n \<le> 90 \<or> 97 \<le> n \<and> n \<le> 122) \<or>
     c \<in> set ''+-.''"

definition after_scheme :: "string \<Rightarrow> string" where
  "after_scheme url = (let s = takeWhile scheme_char url; rest = drop (length s) url in
     if s \<noteq> [] \<and> hd s \<notin> set ''+-.0123456789'' \<and> startswith rest '':'' then tl rest else url)"

definition until :: "string \<Rightarrow> string \<Rightarrow> string" where
  "until stops s = takeWhile (\<lambda>c. c \<notin> set stops) s"

definition drop_params :: "string \<Rightarrow> string" where
  "drop_params s = (let segment = rev (takeWhile (\<lambda>c. c \<noteq> CHR ''/'') (rev s)) in
     take (length s - length segment) s @ until '';'' segment)"

definition url_path :: "string \<Rightarrow> string option" where
  "url_path url = (let rest = after_scheme (unsafe_removed (dropWhile (\<lambda>c. (of_char c :: nat) \<le> 32) url)); hosted = startswith rest ''//'';
       netloc = (if hosted then until ''/?#'' (drop 2 rest) else []);
       path = (if hosted then drop (2 + length netloc) rest else rest)
     in if (CHR ''['' \<in> set netloc) \<noteq> (CHR '']'' \<in> set netloc) then None
        else Some (drop_params (until ''?'' (until ''#'' path))))"

definition site_path :: "string \<times> string \<Rightarrow> string option" where
  "site_path x = (case x of (category, url) \<Rightarrow> map_option (\<lambda>path.
     (let path = (if py_strip path = [] then ''/'' @ category else py_strip path);
          n = py_rstrip {CHR ''/''} path; n = (if n = [] then ''/'' else n)
      in if n = ''/'' then ''/'' @ category else n)) (url_path url))"

text \<open>The outer \<open>None\<close>: the parser raised\<close>

definition format_site_structure :: "(string \<times> string) list \<Rightarrow> string option option" where
  "format_site_structure pages = (if pages = [] then Some None
     else (let ps = map site_path pages in if None \<in> set ps then None
       else Some (Some (''Site structure: '' @ py_join '', '' (dedup (map the ps))))))"

section \<open>User prompts\<close>

record scraped =
  sp_homepage :: string
  sp_jobs :: string
  sp_mentions :: string
  sp_structure :: "(string \<times> string) list"
  sp_edgar :: string
  sp_federal :: string
  sp_firmographics :: string

record research_input =
  ri_url :: string
  ri_scraped :: scraped
  ri_techs :: "(string \<times> detected_stack) list"
  ri_infra :: "host_signals option"
  ri_jobs :: "job_signals option"
  ri_pains :: "pain list"
  ri_category :: string

definition noted :: "string \<Rightarrow> string list \<Rightarrow> string \<Rightarrow> string list" where
  "noted title notes s = (if s = [] then [] else (title # notes) @ [s, []])"

definition spaced :: "string list \<Rightarrow> string list" where
  "spaced ls = (if ls = [] then [] else ls @ [[]])"

definition job_part :: "research_input \<Rightarrow> string list" where
  "job_part x = (case ri_jobs x of None \<Rightarrow> [] | Some j \<Rightarrow> spaced (format_job_signals_section j (ri_category x)))"

definition postings_part :: "nat \<Rightarrow> research_input \<Rightarrow> string list" where
  "postings_part n x = noted ''## Detailed Job Postings'' [''(From job boards - these contain specific tech requirements)'']
     (take n (filter_text_blocks (sp_jobs (ri_scraped x)) (ri_category x)))"

definition mentions_part :: "nat \<Rightarrow> research_input \<Rightarrow> string list" where
  "mentions_part n x = noted ''## Third-Party Web Mentions''
     [''(From Perplexity and external web sources - recent news, market context, press coverage, and third-party references.)'']
     (take n (filter_text_blocks (sp_mentions (ri_scraped x)) (ri_category x)))"

definition edgar_part :: "nat \<Rightarrow> research_input \<Rightarrow> string list" where
  "edgar_part n x = noted ''## SEC EDGAR Filings (Public Company)''
     [''(From SEC.gov - official regulatory filings. 8-K = material events, Risk Factors = company-disclosed challenges)'']
     (take n (sp_edgar (ri_scraped x)))"

definition federal_part :: "research_input \<Rightarrow> string list" where
  "federal_part x = noted ''## Upcoming Federal Regulations''
     [''(From Federal Register - upcoming compliance deadlines relevant to this company's industry)'']
     (take 6000 (sp_federal (ri_scraped x)))"

definition firmographics_part :: "research_input \<Rightarrow> string list" where
  "firmographics_part x = noted ''## CONFIRMED Firmographic Data (from connected data provider)'' [] (sp_firmographics (ri_scraped x))"

definition homepage_part :: "research_input \<Rightarrow> string list" where
  "homepage_part x = noted ''## Homepage Content'' [] (take 5000 (sp_homepage (ri_scraped x)))"

definition site_part :: "string option \<Rightarrow> string list" where
  "site_part site = noted ''## Site Structure'' [] (coalesce site [])"

definition infra_part :: "research_input \<Rightarrow> string list" where
  "infra_part x = spaced (format_infrastructure_section (ri_infra x))"

definition background_note :: "string list" where
  "background_note = [''## Background-Only Signals (DO NOT use in Action Tier)'',
     ''These signals were flagged as irrelevant to the seller's product category. '' @
     ''Do NOT include them in Existential Data Points, PVP Seed, Talking Points, '' @
     ''or Before Scenario. They are provided for optional context only.'', []]"

definition validate_note :: string where
  "validate_note = ''Use these as STARTING POINTS. Validate against other data. Do not repeat verbatim.''"

definition prompt_end :: "string list" where
  "prompt_end = [''---'', ''Please generate the Account Research Document based on the above information.'']"

definition prompt_title :: "research_input \<Rightarrow> string list" where
  "prompt_title x = [''# Research Data for '' @ ri_url x @ nl]"

definition flat_pains :: "pain list \<Rightarrow> string list" where
  "flat_pains ps = (let action = filter (\<lambda>p. \<not> background p) ps; back = filter background ps in
     (if action = [] then [] else [''## Programmatic Pain Signals'', validate_note, []] @
        concat (map (group_lines False) (filter (\<lambda>(k, xs). k \<in> set category_order) (ordered_groups False action)))) @
     (if back = [] then [] else background_note @ concat (map background_lines back)))"

definition build_flat_user_prompt :: "research_input \<Rightarrow> string option" where
  "build_flat_user_prompt x = map_option (\<lambda>site. py_join nl (prompt_title x @
     (if ri_techs x = [] then [] else [''## VERIFIED Technologies (Detected by Scanning Website Code)'',
        ''The following technologies were detected by scanning their website and app subdomains:'', [],
        format_multi_domain_tech (ri_techs x), [], ''(These are confirmed facts - actually present in their code/headers)'', []]) @
     infra_part x @ job_part x @ flat_pains (ri_pains x) @ firmographics_part x @ homepage_part x @ site_part site @
     postings_part 15000 x @ edgar_part 10000 x @ federal_part x @ mentions_part 10000 x @ prompt_end))
     (format_site_structure (sp_structure (ri_scraped x)))"

definition tier :: "string \<Rightarrow> string \<Rightarrow> string list \<Rightarrow> string list" where
  "tier title advice parts = (if parts = [] then [] else [title, advice, []] @ parts)"

definition pain_part :: "string list \<Rightarrow> bool \<Rightarrow> pain list \<Rightarrow> string list" where
  "pain_part intro is_background ps = (if ps = [] then [] else intro @ format_pain_group ps is_background)"

definition first_tier :: "research_input \<Rightarrow> string list" where
  "first_tier x = noted ''## VERIFIED Technologies - Product/App Subdomains'' [] (fst (format_tech_by_tier (ri_techs x))) @
     job_part x @ postings_part 12000 x @ firmographics_part x @ edgar_part 8000 x @
     pain_part [''## High-Confidence Pain Signals (confidence >= 70)'', validate_note, []] False
       (pt_first (split_pain_by_tier (ri_pains x)))"

definition second_tier :: "research_input \<Rightarrow> string option \<Rightarrow> string list" where
  "second_tier x site = homepage_part x @ site_part site @ infra_part x @
     pain_part [''## Medium-Confidence Pain Signals (confidence 40-69)'',
       ''These are hypotheses - include only if corroborated by other evidence.'', []] False (pt_second (split_pain_by_tier (ri_pains x))) @
     federal_part x"

definition third_tier :: "research_input \<Rightarrow> string list" where
  "third_tier x = mentions_part 8000 x @
     pain_part [''## Low-Confidence Pain Signals (confidence < 40)'',
       ''Low confidence - include only with strong corroboration from higher tiers.'', []] False (pt_third (split_pain_by_tier (ri_pains x))) @
     pain_part background_note True (pt_background (split_pain_by_tier (ri_pains x)))"

definition build_tiered_user_prompt :: "research_input \<Rightarrow> string option" where
  "build_tiered_user_prompt x = map_option (\<lambda>site. py_join nl (prompt_title x @
     tier ''## TIER 1: HIGH-CONFIDENCE SIGNALS'' ''Treat as ground truth. Build Existential Data Points primarily from this tier.''
       (first_tier x) @
     tier ''## TIER 2: MEDIUM-CONFIDENCE SIGNALS''
       ''First-party content and corroborative data. Use to support Tier 1 signals or surface secondary patterns.'' (second_tier x site) @
     tier ''## TIER 3: LOWER-CONFIDENCE SIGNALS''
       ''Inferred or secondary data. Use only to corroborate higher-tier signals, not as primary evidence.'' (third_tier x) @
     prompt_end)) (format_site_structure (sp_structure (ri_scraped x)))"

section \<open>No pain is lost\<close>

lemma mset_by_keys:
  "distinct ks \<Longrightarrow> mset (concat (map (\<lambda>k. filter (\<lambda>x. key x = k) xs) ks)) = filter_mset (\<lambda>x. key x \<in> set ks) (mset xs)"
proof (induction ks)
  case (Cons k ks)
  then have "filter_mset (\<lambda>x. key x \<in> set (k # ks)) (mset xs) =
      filter_mset (\<lambda>x. key x = k) (mset xs) + filter_mset (\<lambda>x. key x \<in> set ks) (mset xs)"
    by (intro multiset_eqI) auto
  with Cons show ?case by simp
qed simp

lemma set_distinct_dedup: "set (dedup xs) = set xs" "distinct (dedup xs)"
  by (simp_all add: dedup_def dedup_go_props)

lemma mset_grouped: "mset (concat (map snd (grouped key xs))) = mset xs"
proof -
  have "filter (\<lambda>x. key x \<in> set (dedup (map key xs))) xs = xs" by (simp add: set_distinct_dedup)
  then have "filter_mset (\<lambda>x. key x \<in> set (dedup (map key xs))) (mset xs) = mset xs" by (metis mset_filter)
  with mset_by_keys [of "dedup (map key xs)" key xs] show ?thesis
    by (simp add: grouped_def comp_def set_distinct_dedup del: mset_concat)
qed

lemma mset_by_confidence [simp]: "mset (by_confidence ps) = mset ps"
  by (simp add: by_confidence_def)

lemma mset_concat_groups: "mset (concat (map snd gs)) = sum_mset (image_mset (\<lambda>x. mset (snd x)) (mset gs))"
  by (induction gs) auto

lemma mset_ordered_groups: "mset (concat (map snd (ordered_groups b ps))) = mset ps"
proof -
  define gs where "gs = map (\<lambda>(k, xs). (k, by_confidence xs)) (grouped (shown_category b) ps)"
  have "distinct category_order" by code_simp
  from mset_by_keys [OF this, of fst gs]
  have *: "mset (concat (map (\<lambda>k. filter (\<lambda>x. fst x = k) gs) category_order)) =
      filter_mset (\<lambda>x. fst x \<in> set category_order) (mset gs)" .
  have "ordered_groups b ps = concat (map (\<lambda>k. filter (\<lambda>x. fst x = k) gs) category_order) @
      filter (\<lambda>x. fst x \<notin> set category_order) gs"
    unfolding ordered_groups_def gs_def [symmetric] Let_def by (simp add: case_prod_beta')
  then have "mset (ordered_groups b ps) = mset gs"
    by (simp only: mset_append * mset_filter multiset_partition [symmetric])
  then have "mset (concat (map snd (ordered_groups b ps))) = mset (concat (map snd gs))"
    unfolding mset_concat_groups by simp
  also have "\<dots> = mset (concat (map snd (grouped (shown_category b) ps)))"
    unfolding mset_concat_groups by (simp add: gs_def multiset.map_comp comp_def case_prod_beta)
  finally show ?thesis unfolding mset_grouped .
qed

lemma mset_tiers:
  "mset (pt_first (split_pain_by_tier ps)) + mset (pt_second (split_pain_by_tier ps)) + mset (pt_third (split_pain_by_tier ps)) +
     mset (pt_background (split_pain_by_tier ps)) = mset ps"
  unfolding split_pain_by_tier_def by (induction ps) auto

text \<open>
  the tiers of the prompt hold every pain once: nothing that was demoted to the background is in the first
  three, and the headings below a tier list each of its pains once.
\<close>

theorem pain_tiers_partition:
  "mset (concat (map (\<lambda>part. concat (map snd (ordered_groups False (part (split_pain_by_tier ps))))) [pt_first, pt_second, pt_third])) +
     mset (concat (map snd (ordered_groups True (pt_background (split_pain_by_tier ps))))) = mset ps \<and>
   list_all (\<lambda>p. \<not> background p) (pt_first (split_pain_by_tier ps) @ pt_second (split_pain_by_tier ps) @ pt_third (split_pain_by_tier ps))"
proof -
  have "list_all (\<lambda>p. \<not> background p) (pt_first (split_pain_by_tier ps) @ pt_second (split_pain_by_tier ps) @ pt_third (split_pain_by_tier ps))"
    by (auto simp: split_pain_by_tier_def list_all_iff)
  with mset_tiers [of ps] show ?thesis
    by (simp only: list.map concat.simps append_Nil2 mset_append mset_ordered_groups add.assoc)
qed

end
