(* ===== verification/Research_Writer.thy ===== *)
theory Research_Writer
  imports Research_Prompts Writing_Service
begin

text \<open>
  The writing of a research document (\<open>ClaudeService.generate_research_document\<close> in
  \<open>services/claude.py\<close>): the system prompt, the call, the checks with one repair, the formatter and the
  document. The long fixed texts of the prompt are an argument; the language model answers what it likes.
\<close>

section \<open>The system prompt\<close>

text \<open>What the user said about the product, and the flags of the configuration\<close>

record research_brief =
  rb_product :: string
  rb_materials :: string
  rb_seller :: string
  rb_personas :: string
  rb_industries :: string
  rb_problems :: string
  rb_type :: string
  rb_signals :: string
  rb_motion :: string
  rb_category :: string

record research_config =
  rc_model :: string
  rc_tiered :: bool
  rc_tight :: bool
  rc_validation :: bool

record fixed_texts =
  ft_intro :: string
  ft_hierarchy :: string
  ft_materials_use :: string
  ft_no_materials :: string
  ft_services :: string
  ft_methods :: string
  ft_style :: string
  ft_output :: string

definition seller_text :: "research_brief \<Rightarrow> string" where
  "seller_text b = nl @ ''YOUR COMPANY: '' @ rb_seller b @ nl @ nl @
     ''YOUR PRODUCT CONTEXT (the product you are selling):'' @ nl @ nl @ rb_product b @ nl"

definition background_knowledge :: "string \<Rightarrow> string" where
  "background_knowledge seller = nl @ ''BACKGROUND KNOWLEDGE ABOUT '' @ map upper_of seller @ '':'' @ nl @ nl @
     ''You may use your background knowledge about '' @ seller @ '' ONLY for:'' @ nl @
     ''- Identifying competitors in the prospect's tech stack (flag technologies that compete with '' @ seller @ '')'' @ nl @
     ''- Understanding general product positioning and problem space'' @ nl @ nl @
     ''Do NOT use background knowledge for:'' @ nl @
     ''- Specific features or capabilities (use only what is stated in product context or materials)'' @ nl @
     ''- Case studies or customer names (use only what is in uploaded materials)'' @ nl @
     ''- Metrics, pricing, or ROI claims'' @ nl @ nl @
     ''When you identify a competitor in their stack, note it as: \"**Competitor detected:** [technology] - competes with '' @
     seller @ ''\"'' @ nl"

definition materials_text :: "fixed_texts \<Rightarrow> string \<Rightarrow> string" where
  "materials_text ft materials = (if materials = [] then ft_no_materials ft
     else nl @ ''YOUR SALES MATERIALS (PRIMARY SOURCE FOR PRODUCT DETAILS):'' @ nl @ nl @
       ''The following excerpts from your company's sales materials are highly relevant to this prospect.'' @ nl @
       ''These materials contain your product details, differentiators, competitor positioning, and proof points.'' @ nl @
       ''PRIORITIZE this information when crafting recommendations.'' @ nl @ nl @ materials @ nl @ ft_materials_use ft)"

definition verticals_text :: "string \<Rightarrow> string \<Rightarrow> string" where
  "verticals_text motion industries = (if motion = ''vertical''
     then ''- **Buyer company verticals (Vertical motion)**: The seller targets buyers in these verticals: '' @ industries @
       ''. Vertical match should be weighted heavily in Fit scoring and talking points. Prospects outside the selected '' @
       ''verticals should receive a meaningful Fit penalty. Emphasize vertical-specific pain signals such as regulatory '' @
       ''pressure, compliance deadlines, and industry-specific technology patterns.''
     else ''- **Buyer company verticals (Horizontal motion)**: The seller targets buyers in these verticals: '' @ industries @
       ''. A vertical match is a light Fit boost only - do not hard-penalize prospects outside the selected verticals '' @
       ''because the product can serve many industries. Avoid making strong vertical assumptions; focus on functional '' @
       ''pain signals over industry membership.'')"

definition customer_parts :: "research_brief \<Rightarrow> string list" where
  "customer_parts b =
     (if rb_category b = [] then [] else [''- **Seller product category**: The seller builds a '' @ rb_category b @
        '' product. Use this to calibrate persona framing and competitor awareness, but do NOT use it to filter or score '' @
        ''buyer accounts - that is the role of buyer company verticals below.'']) @
     (if rb_industries b = [] then [] else [verticals_text (rb_motion b) (rb_industries b)]) @
     (if rb_personas b = [] then [] else [''- **Persona emphasis**: The seller targets these personas: '' @ rb_personas b @
        ''. Focus existential data points and champion identification on those specific roles. Look for hiring and org '' @
        ''signals relevant to those functions.'']) @
     (if rb_problems b = [] then [] else [''- **Problem alignment**: The seller's product solves these problems: '' @ rb_problems b @
        ''. Cross-reference the prospect's observed pain against these specific problems rather than performing generic analysis.''])"

definition customer_text :: "research_brief \<Rightarrow> string" where
  "customer_text b = (if customer_parts b = [] then []
     else nl @ ''IDEAL CUSTOMER PROFILE:'' @ nl @ nl @ py_join nl (customer_parts b) @ nl)"

definition signals_text :: "string \<Rightarrow> string" where
  "signals_text signals = (if signals = [] then [] else nl @ ''CUSTOM SIGNAL TRACKING:'' @ nl @
     ''The seller has asked you to pay special attention to these signals: '' @ signals @ nl @
     ''When you find evidence of any of these in the scraped data, job postings, tech stack, or news - call them out '' @
     ''explicitly in the relevant sections. If a custom signal appears in job titles or descriptions, highlight it in '' @
     ''Hiring Signals. If it appears in tech stack, highlight it in Confirmed Tech Stack. Mention custom signal matches '' @
     ''in the score evidence when relevant.'' @ nl)"

definition personas_text :: "string \<Rightarrow> string" where
  "personas_text personas = (if personas = [] then [] else nl @ ''PERSONA-AWARE DIRECTIVES (target: '' @ personas @ ''):'' @ nl @
     ''- **Hooks**: Frame opening hooks through the lens of what matters to '' @ personas @
     ''. For example, for marketing leaders emphasize marketing tech, campaign infrastructure, and attribution signals; '' @
     ''for legal ops emphasize compliance, contract management, and regulatory exposure; for engineering leaders emphasize '' @
     ''tech stack, scaling, and developer productivity signals.'' @ nl @
     ''- **Trap-Setting Questions**: Both causes in each two-sided question should resonate with the daily concerns of '' @ personas @
     ''. Frame root causes in terms these personas would naturally think about.'' @ nl @
     ''- **Conversation Starters**: Reference challenges specific to '' @ personas @ [CHR 0x27] @
     ''s function, not just generic company observations. Connect observations to what these personas care about day-to-day.'' @ nl)"

definition tight_overrides :: "(string \<times> string) list" where
  "tight_overrides = [(''pvp seed'', ''(60-90 words total.)''), (''existential data points'', ''(80-120 words per data point.)''),
     (''before scenario'', ''(120-180 words total across all three sub-sections.)''),
     (''stated business problems'', ''(One line per problem.)''), (''business problems'', ''(One line per problem.)''),
     (''recommended talking points'', ''(Max 4 bullets per sub-section.)''), (''talking points'', ''(Max 4 bullets per sub-section.)'')]"

definition annotated :: "string \<Rightarrow> string list" where
  "annotated l = (if startswith l ''## '' then (case map_of tight_overrides (py_lower (py_strip (drop 3 l))) of
     None \<Rightarrow> [l] | Some limit \<Rightarrow> [l, limit]) else [l])"

definition apply_tight_writing_overrides :: "string \<Rightarrow> string" where
  "apply_tight_writing_overrides prompt = py_join nl (concat (map annotated (py_split prompt nl)))"

definition research_system_prompt :: "fixed_texts \<Rightarrow> research_config \<Rightarrow> research_brief \<Rightarrow> string" where
  "research_system_prompt ft cfg b = (let base = ft_intro ft @ (if rc_tiered cfg then ft_hierarchy ft else []) @ seller_text b @
       (if rb_seller b = [] then [] else background_knowledge (rb_seller b)) @ materials_text ft (rb_materials b) @
       customer_text b @ signals_text (rb_signals b) @ (if rb_type b = ''msp'' then ft_services ft else []) @
       ft_methods ft @ personas_text (rb_personas b) @ (if rc_tight cfg then ft_style ft else []) @ ft_output ft
     in if rc_tight cfg then apply_tight_writing_overrides base else base)"

text \<open>Industries and personas as they enter the prompt\<close>

definition prompt_brief :: "research_brief \<Rightarrow> research_brief" where
  "prompt_brief b = (let industries = (if py_strip (rb_industries b) = [] then []
         else py_join '', '' (normalize_verticals (filter (\<lambda>i. i \<noteq> []) (map py_strip (py_split (rb_industries b) '','')))));
       personas = (if py_strip (rb_personas b) = [] then [] else py_join '', '' (build_target_titles (rb_personas b) 5))
     in b\<lparr>rb_industries := (if industries = [] then rb_industries b else industries),
          rb_personas := (if personas = [] then rb_personas b else personas)\<rparr>)"

section \<open>The document\<close>

definition extract_domain :: "string \<Rightarrow> string" where
  "extract_domain url = py_replace ''www.'' [] (hd (py_split (py_replace ''http://'' [] (py_replace ''https://'' [] url)) ''/''))"

definition section_columns :: "string list" where
  "section_columns = [''company_overview'', ''projects_initiatives'', ''confirmed_tech_stack'', ''hiring_signals'', ''business_problems'',
     ''existential_data_points'', ''before_scenario'', ''pvp_seed'', ''required_capabilities'', ''product_fit'', ''talking_points'',
     ''key_contacts'', ''recommended_contacts'', ''information_gaps'']"

definition research_text :: "string \<Rightarrow> sections \<Rightarrow> scores \<Rightarrow> string \<Rightarrow> string \<Rightarrow> string option" where
  "research_text model secs sc markdown k =
     (if k \<in> set section_columns then Some (part secs k) else if k = ''recent_news'' then Some []
      else if k = ''score_summary'' then sc_summary sc else if k \<in> fst ` set evidence_labels then sc_evidence sc k
      else if k = ''model_used'' then Some model else if k = ''full_markdown'' then Some markdown else None)"

definition research_draft :: "time \<Rightarrow> string \<Rightarrow> string \<Rightarrow> sections \<Rightarrow> scores \<Rightarrow> string \<Rightarrow> draft" where
  "research_draft now url model secs sc markdown = \<lparr>dr_text = research_text model secs sc markdown, dr_url = url,
     dr_name = extract_domain url, dr_created = now, dr_opportunity = sc_composite sc, dr_pain = sc_pain sc,
     dr_fit = sc_fit sc, dr_timing = sc_timing sc\<rparr>"

section \<open>Calls\<close>

text \<open>The content of the first choice, or nothing where the call fails or brings none\<close>

definition ask_model :: "llm \<Rightarrow> nat \<Rightarrow> string \<Rightarrow> (string \<times> string) list \<Rightarrow> string option" where
  "ask_model ai n model messages = (case ai n \<lparr>lr_model = model, lr_messages = messages, lr_max = 16000\<rparr> of
     Unreachable \<Rightarrow> None | No_Choices \<Rightarrow> None | Choice content usage \<Rightarrow> Some (coalesce content []))"

definition defects :: "(int \<Rightarrow> int \<Rightarrow> int \<Rightarrow> bool) \<Rightarrow> string \<Rightarrow> (string \<times> string) list" where
  "defects up markdown = validate_research (parse_sections markdown) (parse_scores up markdown)"

text \<open>The markdown that is kept after at most one repair, with the number of calls; every failure keeps the first.\<close>

definition repaired :: "(int \<Rightarrow> int \<Rightarrow> int \<Rightarrow> bool) \<Rightarrow> llm \<Rightarrow> research_config \<Rightarrow> (string \<times> string) list \<Rightarrow> string \<Rightarrow> nat \<times> string" where
  "repaired up ai cfg messages markdown =
     (if \<not> rc_validation cfg \<or> defects up markdown = [] then (1, markdown)
      else (case ask_model ai 1 (rc_model cfg) (messages @ [(''assistant'', markdown),
          (''user'', build_repair_instructions (defects up markdown))]) of
        None \<Rightarrow> (2, markdown)
      | Some second \<Rightarrow> (2, if defects up second = [] then second else markdown)))"

definition research_user_prompt :: "research_config \<Rightarrow> research_input \<Rightarrow> string option" where
  "research_user_prompt cfg x = (if rc_tiered cfg then build_tiered_user_prompt x else build_flat_user_prompt x)"

definition document_of ::
    "(int \<Rightarrow> int \<Rightarrow> int \<Rightarrow> bool) \<Rightarrow> research_config \<Rightarrow> time \<Rightarrow> string \<Rightarrow> string \<Rightarrow> draft" where
  "document_of up cfg now url markdown = (let secs = parse_sections markdown in
     research_draft now url (rc_model cfg) (if rc_tight cfg then format_sections secs else secs) (parse_scores up markdown) markdown)"

text \<open>The number of calls, and the document unless the prompt cannot be built or the first call fails\<close>

definition generate_research_document ::
    "(int \<Rightarrow> int \<Rightarrow> int \<Rightarrow> bool) \<Rightarrow> fixed_texts \<Rightarrow> llm \<Rightarrow> research_config \<Rightarrow> time \<Rightarrow> research_brief \<Rightarrow> research_input \<Rightarrow> nat \<times> draft option" where
  "generate_research_document up ft ai cfg now b x = (case research_user_prompt cfg x of
     None \<Rightarrow> (0, None)
   | Some user \<Rightarrow> (let messages = [(''system'', research_system_prompt ft cfg (prompt_brief b)), (''user'', user)] in
       case ask_model ai 0 (rc_model cfg) messages of
         None \<Rightarrow> (1, None)
       | Some markdown \<Rightarrow> (case repaired up ai cfg messages markdown of
           (n, kept) \<Rightarrow> (n, Some (document_of up cfg now (ri_url x) kept)))))"

section \<open>What comes of it\<close>

lemma document_scores:
  "on_scale (dr_opportunity (document_of up cfg now url m))" "on_scale (dr_pain (document_of up cfg now url m))"
  "on_scale (dr_fit (document_of up cfg now url m))" "on_scale (dr_timing (document_of up cfg now url m))"
  by (simp_all add: document_of_def research_draft_def Let_def scores_scale)

lemma document_markdown: "dr_text (document_of up cfg now url m) ''full_markdown'' = Some m"
proof -
  have "''full_markdown'' \<notin> set section_columns \<and> ''full_markdown'' \<notin> fst ` set evidence_labels" by code_simp
  then show ?thesis by (simp add: document_of_def research_draft_def research_text_def Let_def)
qed

lemma repaired_cases:
  assumes "repaired up ai cfg messages first = (n, kept)"
  shows "n = 1 \<and> kept = first \<or> n = 2 \<and> kept = first \<or>
    n = 2 \<and> defects up kept = [] \<and> (\<exists>ms. ask_model ai 1 (rc_model cfg) ms = Some kept)"
  using assms by (auto simp: repaired_def split: if_splits option.splits)

text \<open>
  whatever the language model answers, a research takes at most two calls of it; its document carries the
  answer to one of them as it came, the second only if all checks pass on it, and scores from 0 to 100.
\<close>

theorem research_outcome:
  "case generate_research_document up ft ai cfg now b x of
      (n, None) \<Rightarrow> n \<le> 1
    | (n, Some d) \<Rightarrow> n \<le> 2 \<and> list_all on_scale [dr_opportunity d, dr_pain d, dr_fit d, dr_timing d] \<and>
        (\<exists>i messages m. ask_model ai i (rc_model cfg) messages = Some m \<and> dr_text d ''full_markdown'' = Some m \<and>
          (i = 0 \<or> i = 1 \<and> defects up m = []))"
proof (cases "research_user_prompt cfg x")
  case None
  then show ?thesis by (simp add: generate_research_document_def)
next
  case (Some user)
  define messages where "messages = [(''system'', research_system_prompt ft cfg (prompt_brief b)), (''user'', user)]"
  show ?thesis
  proof (cases "ask_model ai 0 (rc_model cfg) messages")
    case None
    with Some show ?thesis by (simp add: generate_research_document_def messages_def Let_def)
  next
    case first: (Some m)
    obtain n kept where r: "repaired up ai cfg messages m = (n, kept)" by fastforce
    have g: "generate_research_document up ft ai cfg now b x = (n, Some (document_of up cfg now (ri_url x) kept))"
      using Some first r by (simp add: generate_research_document_def messages_def Let_def)
    from repaired_cases [OF r] first
    have "n \<le> 2" "\<exists>i ms. ask_model ai i (rc_model cfg) ms = Some kept \<and> (i = 0 \<or> i = 1 \<and> defects up kept = [])"
      by auto
    with g show ?thesis by (simp add: document_scores document_markdown)
  qed
qed

text \<open>The checks pass on an empty answer.\<close>

lemma nothing_parsed: "parse_sections [] = (\<lambda>k. None)"
  by (simp add: parse_sections_def close_section_def startswith_def)

lemma nothing_scored:
  "sc_pain (parse_scores up []) = None" "sc_fit (parse_scores up []) = None" "sc_timing (parse_scores up []) = None"
  "sc_composite (parse_scores up []) = None"
proof -
  have "\<forall>l \<in> {''SCORE_PAIN'', ''SCORE_FIT'', ''SCORE_TIMING'', ''SCORE_COMPOSITE''}. read_score l [] = None" by code_simp
  then show "sc_pain (parse_scores up []) = None" "sc_fit (parse_scores up []) = None" "sc_timing (parse_scores up []) = None"
    "sc_composite (parse_scores up []) = None" by (simp_all add: parse_scores_def Let_def)
qed

lemma empty_passes: "defects up [] = []"
proof -
  have "check_edp_sources [] = None" "check_concrete_pain (\<lambda>k. None) = None" "check_generic_filler [] [] = None" by code_simp+
  moreover have "check_score_calibration (parse_scores up []) = None" by (simp add: check_score_calibration_def nothing_scored)
  ultimately show ?thesis by (simp add: defects_def nothing_parsed validate_research_def part_def Let_def)
qed

definition answers_once :: "string \<Rightarrow> llm" where
  "answers_once m n r = Choice (if n = 0 then Some m else None) None"

text \<open>
  a repair that brings no text passes every check and replaces a document that failed one: what is stored
  has no section and no score.
\<close>

theorem empty_repair_wins:
  assumes "defects up m \<noteq> []" "rc_validation cfg" "research_user_prompt cfg x = Some user"
  shows "generate_research_document up ft (answers_once m) cfg now b x = (2, Some (document_of up cfg now (ri_url x) [])) \<and>
    dr_text (document_of up cfg now (ri_url x) []) ''full_markdown'' = Some [] \<and>
    dr_opportunity (document_of up cfg now (ri_url x) []) = None"
proof -
  have "dr_opportunity (document_of up cfg now (ri_url x) []) = None"
    by (simp add: document_of_def research_draft_def Let_def nothing_scored)
  with assms show ?thesis
    by (simp add: generate_research_document_def repaired_def ask_model_def answers_once_def empty_passes document_markdown Let_def)
qed

end
