(* ===== verification/Infrastructure.thy ===== *)
theory Infrastructure
  imports Research_Prompts
begin

text \<open>
  What a host tells about its infrastructure (\<open>services/infrastructure_signals.py\<close>): name servers, mail,
  certificate, security headers and \<open>robots.txt\<close>; and the separate analyzers it replaces
  (\<open>services/dns_analyzer.py\<close>, \<open>services/ssl_analyzer.py\<close>, methods of \<open>services/tech_detection.py\<close>), whose
  profiles \<open>SignalBundle\<close> in \<open>models.py\<close> still folds together. The answers of the network are arguments, as
  are the days left to a date of a certificate and Python's \<open>float\<close>.
\<close>

section \<open>What the network answers\<close>

text \<open>Hosts and texts of the records; a query that fails has no record\<close>

record dns_answers =
  da_ns :: "string list"
  da_mx :: "string list"
  da_txt :: "string list"
  da_dmarc :: "string list"

record certificate =
  ce_issuer :: "(string \<times> string) list list"
  ce_not_after :: string
  ce_sans :: "(string \<times> string) list"

record infra_full = host_signals +
  nf_domain :: string
  nf_spf :: bool
  nf_dkim :: bool
  nf_dmarc :: bool
  nf_policy :: "string option"
  nf_sans :: int
  nf_wildcard :: bool
  nf_present :: "string list"
  nf_crawl :: "rat option"
  nf_disallows :: "string list"

definition InfrastructureSignals :: "string \<Rightarrow> infra_full" where
  "InfrastructureSignals host = \<lparr>in_ns = None, in_mx = None, in_clouds = [], in_ssl_issuer = None, in_ssl_days = None,
     in_ssl_auto = False, in_score = 0, in_missing = [], in_grade = ''F'', in_api_paths = [], in_admin_paths = [],
     nf_domain = host, nf_spf = False, nf_dkim = False, nf_dmarc = False, nf_policy = None, nf_sans = 0, nf_wildcard = False,
     nf_present = [], nf_crawl = None, nf_disallows = []\<rparr>"

definition ns_provider_map :: "(string \<times> string) list" where
  "ns_provider_map = [(''awsdns'', ''AWS''), (''cloudflare'', ''Cloudflare''), (''google'', ''GCP''), (''azure-dns'', ''Azure''),
     (''digitalocean'', ''DigitalOcean''), (''ns-cloud'', ''GCP'')]"

definition mx_provider_map :: "(string \<times> string) list" where
  "mx_provider_map = [(''google'', ''Google Workspace''), (''googlemail'', ''Google Workspace''), (''outlook'', ''Microsoft 365''),
     (''microsoft'', ''Microsoft 365''), (''protonmail'', ''ProtonMail''), (''mimecast'', ''Mimecast'')]"

definition security_headers :: "string list" where
  "security_headers = [''strict-transport-security'', ''content-security-policy'', ''x-frame-options'', ''x-content-type-options'',
     ''referrer-policy'', ''permissions-policy'']"

definition cloud_names :: "string list" where
  "cloud_names = [''AWS'', ''Cloudflare'', ''GCP'', ''Azure'']"

definition provider_of :: "(string \<times> string) list \<Rightarrow> string \<Rightarrow> string option" where
  "provider_of table host = map_option snd (find (\<lambda>(k, p). py_in k (py_lower host)) table)"

definition header_grade :: "nat \<Rightarrow> string" where
  "header_grade n = (if n = 6 then ''A'' else if 4 \<le> n then ''B'' else if n = 3 then ''C'' else if 1 \<le> n then ''D'' else ''F'')"

section \<open>The collapsed analysis\<close>

text \<open>The loop over the name servers stops at the first that a key matches.\<close>

fun ns_loop :: "string list \<Rightarrow> infra_full \<Rightarrow> infra_full" where
  "ns_loop [] r = r"
| "ns_loop (h # hs) r = (case provider_of ns_provider_map h of None \<Rightarrow> ns_loop hs r
     | Some p \<Rightarrow> r\<lparr>in_ns := Some p, in_clouds := in_clouds r @ (if p \<in> set cloud_names then [p] else [])\<rparr>)"

fun mx_loop :: "string list \<Rightarrow> infra_full \<Rightarrow> infra_full" where
  "mx_loop [] r = r"
| "mx_loop (h # hs) r = (case provider_of mx_provider_map h of None \<Rightarrow> mx_loop hs r | Some p \<Rightarrow> r\<lparr>in_mx := Some p\<rparr>)"

definition txt_step :: "string \<Rightarrow> infra_full \<Rightarrow> infra_full" where
  "txt_step s r = (let r = (if startswith s ''v=spf1'' then r\<lparr>nf_spf := True\<rparr> else r)
     in if py_in ''dkim'' (py_lower s) then r\<lparr>nf_dkim := True\<rparr> else r)"

definition policy_step :: "string \<Rightarrow> infra_full \<Rightarrow> infra_full" where
  "policy_step piece r = (let p = py_strip piece in if startswith p ''p='' then r\<lparr>nf_policy := Some (py_strip (drop 2 p))\<rparr> else r)"

definition dmarc_step :: "string \<Rightarrow> infra_full \<Rightarrow> infra_full" where
  "dmarc_step s r = (if startswith s ''v=DMARC1'' then fold policy_step (py_split s '';'') (r\<lparr>nf_dmarc := True\<rparr>) else r)"

definition analyze_dns :: "dns_answers \<Rightarrow> infra_full \<Rightarrow> infra_full" where
  "analyze_dns a r = fold dmarc_step (da_dmarc a) (fold txt_step (da_txt a) (mx_loop (da_mx a) (ns_loop (da_ns a) r)))"

definition organization :: "(string \<times> string) list list \<Rightarrow> string option" where
  "organization rdns = fold (\<lambda>(t, v) x. if t = ''organizationName'' then Some v else x) (concat rdns) None"

definition wildcard :: "(string \<times> string) list \<Rightarrow> bool" where
  "wildcard sans = list_ex (\<lambda>(t, v). startswith v ''*.'') sans"

definition automated :: "string option \<Rightarrow> bool" where
  "automated issuer = py_in ([CHR ''l'', CHR ''e'', CHR ''t'', CHR 0x27] @ ''s encrypt'') (py_lower (coalesce issuer []))"

definition parse_cert :: "(string \<Rightarrow> int option) \<Rightarrow> certificate \<Rightarrow> infra_full \<Rightarrow> infra_full" where
  "parse_cert days_left c r = (let issuer = organization (ce_issuer c) in
     r\<lparr>in_ssl_issuer := issuer, in_ssl_days := (if ce_not_after c = [] then None else days_left (ce_not_after c)),
       nf_sans := int (length (ce_sans c)), nf_wildcard := wildcard (ce_sans c), in_ssl_auto := automated issuer\<rparr>)"

definition score_headers_into :: "(string \<times> string) list \<Rightarrow> infra_full \<Rightarrow> infra_full" where
  "score_headers_into headers r = (let names = map (\<lambda>(k, v). py_lower k) headers; n = length (filter (\<lambda>h. h \<in> set names) security_headers)
     in r\<lparr>in_score := int n, nf_present := filter (\<lambda>h. h \<in> set names) security_headers,
          in_missing := filter (\<lambda>h. h \<notin> set names) security_headers, in_grade := header_grade n\<rparr>)"

definition after_colon :: "string \<Rightarrow> string" where
  "after_colon line = py_strip (tl (dropWhile (\<lambda>c. c \<noteq> CHR '':'') line))"

definition api_path :: "string \<Rightarrow> bool" where
  "api_path p \<longleftrightarrow> py_in ''/api'' (py_lower p) \<or> py_in ''/graphql'' (py_lower p)"

definition admin_path :: "string \<Rightarrow> bool" where
  "admin_path p \<longleftrightarrow> py_in ''/admin'' (py_lower p)"

definition robots_step :: "(string \<Rightarrow> rat option) \<Rightarrow> string \<Rightarrow> infra_full \<Rightarrow> infra_full" where
  "robots_step float raw r = (let line = py_strip raw; l = py_lower line; p = after_colon line in
     if startswith l ''disallow:'' then (if p = [] then r
       else r\<lparr>in_api_paths := in_api_paths r @ (if api_path p then [p] else []),
              in_admin_paths := in_admin_paths r @ (if admin_path p then [p] else []), nf_disallows := nf_disallows r @ [p]\<rparr>)
     else if startswith l ''crawl-delay:'' then (case float p of None \<Rightarrow> r | Some n \<Rightarrow> r\<lparr>nf_crawl := Some n\<rparr>)
     else r)"

definition extract_robots_into :: "(string \<Rightarrow> rat option) \<Rightarrow> string \<Rightarrow> infra_full \<Rightarrow> infra_full" where
  "extract_robots_into float robots r = fold (robots_step float) (splitlines_go [] robots) r"

text \<open>No certificate: the connection failed. Empty headers and an empty or missing \<open>robots.txt\<close> are passed over.\<close>

definition analyze :: "(string \<Rightarrow> int option) \<Rightarrow> (string \<Rightarrow> rat option) \<Rightarrow> string \<Rightarrow> dns_answers \<Rightarrow> certificate option \<Rightarrow>
    (string \<times> string) list \<Rightarrow> string \<Rightarrow> infra_full" where
  "analyze days_left float host dns cert headers robots =
     (let r = analyze_dns dns (InfrastructureSignals host);
          r = (case cert of None \<Rightarrow> r | Some c \<Rightarrow> parse_cert days_left c r);
          r = (if headers = [] then r else score_headers_into headers r)
      in if robots = [] then r else extract_robots_into float robots r)"

section \<open>The separate analyzers\<close>

record dns_profile =
  dp_domain :: string
  dp_ns :: "string option"
  dp_mx :: "string option"
  dp_spf :: bool
  dp_dkim :: bool
  dp_dmarc :: bool
  dp_policy :: "string option"
  dp_signals :: "string list"
  dp_clouds :: "string list"

definition infer_provider :: "(string \<times> string) list \<Rightarrow> string list \<Rightarrow> string option" where
  "infer_provider table hosts = (case concat (map (\<lambda>h. case provider_of table h of None \<Rightarrow> [] | Some p \<Rightarrow> [p]) hosts) of
     [] \<Rightarrow> None | p # ps \<Rightarrow> Some p)"

definition dmarc_records :: "string list \<Rightarrow> string list" where
  "dmarc_records = filter (\<lambda>s. startswith s ''v=DMARC1'')"

definition policies :: "string list \<Rightarrow> string list" where
  "policies recs = map (\<lambda>p. py_strip (drop 2 p)) (filter (\<lambda>p. startswith p ''p='')
     (map py_strip (concat (map (\<lambda>s. py_split s '';'') (dmarc_records recs)))))"

definition dns_analyzer :: "string \<Rightarrow> dns_answers \<Rightarrow> dns_profile" where
  "dns_analyzer host a = (let ns = infer_provider ns_provider_map (da_ns a) in
     \<lparr>dp_domain = host, dp_ns = ns, dp_mx = infer_provider mx_provider_map (da_mx a),
      dp_spf = list_ex (\<lambda>s. startswith s ''v=spf1'') (da_txt a), dp_dkim = list_ex (\<lambda>s. py_in ''dkim'' (py_lower s)) (da_txt a),
      dp_dmarc = (dmarc_records (da_dmarc a) \<noteq> []),
      dp_policy = (if policies (da_dmarc a) = [] then None else Some (last (policies (da_dmarc a)))),
      dp_signals = concat (map (\<lambda>s. (if startswith s ''v=spf1'' then [''SPF''] else []) @
          (if py_in ''dkim'' (py_lower s) then [''DKIM''] else [])) (da_txt a)) @ map (\<lambda>s. ''DMARC'') (dmarc_records (da_dmarc a)),
      dp_clouds = filter (\<lambda>p. p \<in> set cloud_names) (case ns of None \<Rightarrow> [] | Some p \<Rightarrow> [p])\<rparr>)"

record ssl_profile =
  sp_domain :: string
  sp_issuer :: "string option"
  sp_days :: "int option"
  sp_sans :: int
  sp_wildcard :: bool
  sp_automated :: bool

definition ssl_analyzer :: "(string \<Rightarrow> int option) \<Rightarrow> string \<Rightarrow> certificate option \<Rightarrow> ssl_profile" where
  "ssl_analyzer days_left host cert = (case cert of
     None \<Rightarrow> \<lparr>sp_domain = host, sp_issuer = None, sp_days = None, sp_sans = 0, sp_wildcard = False, sp_automated = False\<rparr>
   | Some c \<Rightarrow> \<lparr>sp_domain = host, sp_issuer = organization (ce_issuer c),
       sp_days = (if ce_not_after c = [] then None else days_left (ce_not_after c)), sp_sans = int (length (ce_sans c)),
       sp_wildcard = wildcard (ce_sans c), sp_automated = automated (organization (ce_issuer c))\<rparr>)"

record security_posture =
  po_score :: int
  po_present :: "string list"
  po_missing :: "string list"
  po_grade :: string

definition score_security_headers :: "(string \<times> string) list \<Rightarrow> security_posture" where
  "score_security_headers headers = (let names = py_lower ` fst ` set headers; present = filter (\<lambda>h. h \<in> names) security_headers in
     \<lparr>po_score = int (length present), po_present = present, po_missing = filter (\<lambda>h. h \<notin> names) security_headers,
      po_grade = header_grade (length present)\<rparr>)"

record robots_signals =
  ro_api :: "string list"
  ro_admin :: "string list"
  ro_crawl :: "rat option"
  ro_disallows :: "string list"

definition disallow_of :: "string \<Rightarrow> string list" where
  "disallow_of raw = (let line = py_strip raw; p = after_colon line in
     if startswith (py_lower line) ''disallow:'' \<and> p \<noteq> [] then [p] else [])"

definition delay_of :: "(string \<Rightarrow> rat option) \<Rightarrow> string \<Rightarrow> rat list" where
  "delay_of float raw = (let line = py_strip raw; l = py_lower line in
     if \<not> startswith l ''disallow:'' \<and> startswith l ''crawl-delay:'' then (case float (after_colon line) of None \<Rightarrow> [] | Some n \<Rightarrow> [n]) else [])"

definition disallowed :: "string list \<Rightarrow> string list" where
  "disallowed ls = concat (map disallow_of ls)"

definition crawl_delays :: "(string \<Rightarrow> rat option) \<Rightarrow> string list \<Rightarrow> rat list" where
  "crawl_delays float ls = concat (map (delay_of float) ls)"

definition extract_robots_signals :: "(string \<Rightarrow> rat option) \<Rightarrow> string \<Rightarrow> robots_signals" where
  "extract_robots_signals float robots = (let ls = splitlines_go [] robots; ds = disallowed ls; cs = crawl_delays float ls in
     \<lparr>ro_api = filter api_path ds, ro_admin = filter admin_path ds, ro_crawl = (if cs = [] then None else Some (last cs)),
      ro_disallows = ds\<rparr>)"

text \<open>\<open>SignalBundle.__init__\<close>: the profiles given are folded into one object\<close>

definition bundle_infra :: "string \<Rightarrow> dns_profile option \<Rightarrow> ssl_profile option \<Rightarrow> security_posture option \<Rightarrow> robots_signals option \<Rightarrow> infra_full option" where
  "bundle_infra host dns ssl sec rob = (if dns = None \<and> ssl = None \<and> sec = None \<and> rob = None then None
     else (let r = InfrastructureSignals host;
       r = (case dns of None \<Rightarrow> r | Some d \<Rightarrow> r\<lparr>in_ns := dp_ns d, in_mx := dp_mx d, nf_spf := dp_spf d, nf_dkim := dp_dkim d,
              nf_dmarc := dp_dmarc d, nf_policy := dp_policy d, in_clouds := dp_clouds d,
              nf_domain := (if host = [] \<and> dp_domain d \<noteq> [] then dp_domain d else host)\<rparr>);
       r = (case ssl of None \<Rightarrow> r | Some s \<Rightarrow> r\<lparr>in_ssl_issuer := sp_issuer s, in_ssl_days := sp_days s, nf_sans := sp_sans s,
              nf_wildcard := sp_wildcard s, in_ssl_auto := sp_automated s\<rparr>);
       r = (case sec of None \<Rightarrow> r | Some p \<Rightarrow> r\<lparr>in_score := po_score p, nf_present := po_present p, in_missing := po_missing p,
              in_grade := po_grade p\<rparr>)
     in Some (case rob of None \<Rightarrow> r | Some x \<Rightarrow> r\<lparr>in_api_paths := ro_api x, in_admin_paths := ro_admin x, nf_crawl := ro_crawl x,
          nf_disallows := ro_disallows x\<rparr>)))"

section \<open>The two agree\<close>

lemma infer_provider_simps:
  "infer_provider table [] = None"
  "infer_provider table (h # hs) = (if provider_of table h = None then infer_provider table hs else provider_of table h)"
  by (auto simp: infer_provider_def split: option.split)

lemma ns_loop_eq:
  "ns_loop hs r = r\<lparr>in_ns := (if infer_provider ns_provider_map hs = None then in_ns r else infer_provider ns_provider_map hs),
     in_clouds := in_clouds r @ filter (\<lambda>p. p \<in> set cloud_names) (case infer_provider ns_provider_map hs of None \<Rightarrow> [] | Some p \<Rightarrow> [p])\<rparr>"
  by (induction hs) (auto simp: infer_provider_simps split: option.splits)

lemma mx_loop_eq:
  "mx_loop hs r = r\<lparr>in_mx := (if infer_provider mx_provider_map hs = None then in_mx r else infer_provider mx_provider_map hs)\<rparr>"
  by (induction hs) (auto simp: infer_provider_simps split: option.splits)

lemma txt_fold:
  "fold txt_step ss r = r\<lparr>nf_spf := nf_spf r \<or> list_ex (\<lambda>s. startswith s ''v=spf1'') ss,
     nf_dkim := nf_dkim r \<or> list_ex (\<lambda>s. py_in ''dkim'' (py_lower s)) ss\<rparr>"
  by (induction ss arbitrary: r) (auto simp: txt_step_def Let_def)

lemma policy_fold:
  "fold policy_step parts r = (let ps = map (\<lambda>p. py_strip (drop 2 p)) (filter (\<lambda>p. startswith p ''p='') (map py_strip parts))
     in if ps = [] then r else r\<lparr>nf_policy := Some (last ps)\<rparr>)"
  by (induction parts arbitrary: r) (auto simp: policy_step_def Let_def)

lemma policies_simps:
  "policies [] = []" "dmarc_records [] = []"
  "policies (s # ss) = (if startswith s ''v=DMARC1'' then policies [s] else []) @ policies ss"
  "dmarc_records (s # ss) = (if startswith s ''v=DMARC1'' then [s] else []) @ dmarc_records ss"
  by (simp_all add: policies_def dmarc_records_def)

lemma dmarc_step_eq:
  "dmarc_step s r = (if startswith s ''v=DMARC1''
     then r\<lparr>nf_dmarc := True, nf_policy := (if policies [s] = [] then nf_policy r else Some (last (policies [s])))\<rparr> else r)"
  by (simp add: dmarc_step_def policy_fold Let_def policies_def dmarc_records_def)

lemma dmarc_fold:
  "fold dmarc_step ss r = r\<lparr>nf_dmarc := nf_dmarc r \<or> dmarc_records ss \<noteq> [],
     nf_policy := (if policies ss = [] then nf_policy r else Some (last (policies ss)))\<rparr>"
proof (induction ss arbitrary: r)
  case Nil
  show ?case by (simp add: policies_simps)
next
  case (Cons s ss)
  have "fold dmarc_step (s # ss) r = fold dmarc_step ss (dmarc_step s r)" by simp
  also note Cons.IH [of "dmarc_step s r"]
  finally show ?case
    unfolding policies_simps(3) [of s ss] policies_simps(4) [of s ss] dmarc_step_eq by simp
qed

lemma robots_step_eq:
  "robots_step float raw r = r\<lparr>in_api_paths := in_api_paths r @ filter api_path (disallow_of raw),
     in_admin_paths := in_admin_paths r @ filter admin_path (disallow_of raw), nf_disallows := nf_disallows r @ disallow_of raw,
     nf_crawl := (if delay_of float raw = [] then nf_crawl r else Some (last (delay_of float raw)))\<rparr>"
  by (cases "startswith (py_lower (py_strip raw)) ''disallow:''"; cases "after_colon (py_strip raw) = []")
    (simp_all add: robots_step_def disallow_of_def delay_of_def Let_def split: option.split)

lemma robots_fold:
  "fold (robots_step float) ls r = r\<lparr>in_api_paths := in_api_paths r @ filter api_path (disallowed ls),
     in_admin_paths := in_admin_paths r @ filter admin_path (disallowed ls), nf_disallows := nf_disallows r @ disallowed ls,
     nf_crawl := (if crawl_delays float ls = [] then nf_crawl r else Some (last (crawl_delays float ls)))\<rparr>"
proof (induction ls arbitrary: r)
  case Nil
  show ?case by (simp add: disallowed_def crawl_delays_def)
next
  case (Cons l ls)
  have d: "disallowed (l # ls) = disallow_of l @ disallowed ls" "crawl_delays float (l # ls) = delay_of float l @ crawl_delays float ls"
    by (simp_all add: disallowed_def crawl_delays_def)
  have "fold (robots_step float) (l # ls) r = fold (robots_step float) ls (robots_step float l r)" by simp
  also note Cons.IH [of "robots_step float l r"]
  finally show ?case unfolding d robots_step_eq by simp
qed

lemma lowered_names: "(\<lambda>(k, v). py_lower k) ` set headers = py_lower ` fst ` set headers"
  by force


end
