(* ===== verification/Tech_Detect.thy ===== *)
theory Tech_Detect
  imports Infrastructure
begin

text \<open>
  The detection of technologies (\<open>services/techdetect/\<close>, \<open>services/tech_detection.py\<close>): fingerprints read
  from JSON, their patterns tried on a page, technologies implied by others, archetypes, and the hosts and
  paths that are scanned. The compiler of regular expressions, the HTML parser and the network are arguments.
\<close>

section \<open>Patterns\<close>

text \<open>A compiled expression finds nothing, or the groups of its first match, the whole match where it has none.\<close>

type_synonym regex = "string \<Rightarrow> string list option"

record pattern =
  pp_regex :: regex
  pp_version :: string
  pp_confidence :: int

definition backslash :: string where
  "backslash = [CHR 0x5C]"

definition option_after :: "string \<Rightarrow> string \<Rightarrow> string option" where
  "option_after label piece = (if startswith piece label then Some (drop (length label) piece) else None)"

definition confidence_of :: "string list \<Rightarrow> int" where
  "confidence_of parts = fold (\<lambda>piece c. case option_after ''confidence:'' piece of None \<Rightarrow> c | Some s \<Rightarrow> coalesce (py_int s) c) parts 100"

text \<open>In a pattern a version hides a confidence in the same part.\<close>

definition version_of :: "string list \<Rightarrow> string" where
  "version_of parts = fold (\<lambda>piece v. case option_after ''version:'' piece of None \<Rightarrow> v | Some s \<Rightarrow> s) parts []"

definition prepare_pattern :: "(string \<Rightarrow> regex option) \<Rightarrow> string \<Rightarrow> pattern" where
  "prepare_pattern compile raw = (let parts = py_split raw (backslash @ '';'') in
     \<lparr>pp_regex = coalesce (compile (hd parts)) (\<lambda>s. None), pp_version = version_of (tl parts), pp_confidence = confidence_of (tl parts)\<rparr>)"

definition ternary_rx :: "nat \<Rightarrow> rx" where
  "ternary_rx i = in_order [lit (backslash @ str_nat i @ ''?''), Group (Lazy (\<lambda>c. c \<noteq> CHR '':'')), lit '':'', Group (Lazy not_newline),
     Peek (Or (lit backslash) Text_End)]"

definition fill_group :: "nat \<Rightarrow> string \<Rightarrow> string \<Rightarrow> string" where
  "fill_group i g version = (case re_search (ternary_rx i) version of
     Some (p, q) \<Rightarrow> rev (pl_before p) @ (if g \<noteq> [] then pl_groups q ! 0 else pl_groups q ! 1) @ pl_after q
   | None \<Rightarrow> py_replace (backslash @ str_nat i) g version)"

fun fill_groups :: "nat \<Rightarrow> string list \<Rightarrow> string \<Rightarrow> string" where
  "fill_groups i [] version = version"
| "fill_groups i (g # gs) version = fill_groups (i + 1) gs (fill_group i g version)"

definition extract_version :: "pattern \<Rightarrow> string \<Rightarrow> string option" where
  "extract_version p s = (if pp_version p = [] then None else (case pp_regex p s of None \<Rightarrow> None
     | Some groups \<Rightarrow> (let v = py_strip (re_sub_with (\<lambda>gs. []) (in_order [lit backslash, Group (One decimal_digit)])
           (fill_groups 1 groups (pp_version p)))
         in if v = [] then None else Some v)))"

section \<open>Fingerprints\<close>

text \<open>Values of the file that may be a text, a list of texts or an object\<close>

datatype pattern_texts = One_Text string | Text_List "string list" | Neither

definition coerce_to_list :: "pattern_texts \<Rightarrow> string list" where
  "coerce_to_list v = (case v of One_Text s \<Rightarrow> [s] | Text_List ss \<Rightarrow> ss | Neither \<Rightarrow> [])"

datatype named_texts = Object "(string \<times> pattern_texts) list" | Only_Name string | Nothing

definition coerce_dict :: "named_texts \<Rightarrow> (string \<times> pattern_texts) list" where
  "coerce_dict v = (case v of Object kvs \<Rightarrow> kvs | Only_Name s \<Rightarrow> [(s, One_Text [])] | Nothing \<Rightarrow> [])"

record raw_technology =
  rw_cats :: "int list"
  rw_url :: pattern_texts
  rw_headers :: named_texts
  rw_scripts :: pattern_texts
  rw_meta :: named_texts
  rw_html :: pattern_texts
  rw_cookies :: named_texts
  rw_js :: named_texts
  rw_implies :: pattern_texts

record technology =
  te_name :: string
  te_cats :: "int list"
  te_url :: "pattern list"
  te_headers :: "(string \<times> pattern) list"
  te_scripts :: "pattern list"
  te_meta :: "(string \<times> pattern) list"
  te_html :: "pattern list"
  te_cookies :: "(string \<times> pattern) list"
  te_inline :: "(string \<times> pattern) list"
  te_implies :: "string list"

definition named_patterns :: "(string \<Rightarrow> regex option) \<Rightarrow> (string \<Rightarrow> string) \<Rightarrow> (string \<Rightarrow> string \<Rightarrow> string) \<Rightarrow> named_texts \<Rightarrow> (string \<times> pattern) list" where
  "named_patterns compile rename body v = concat (map (\<lambda>(k, ps). map (\<lambda>p. (rename k, prepare_pattern compile (body k p))) (coerce_to_list ps))
     (coerce_dict v))"

text \<open>An empty pattern of a global is the presence of its name.\<close>

definition load_technology :: "(string \<Rightarrow> regex option) \<Rightarrow> (string \<Rightarrow> string) \<Rightarrow> string \<Rightarrow> raw_technology \<Rightarrow> technology" where
  "load_technology compile escape name x = \<lparr>te_name = name, te_cats = rw_cats x,
     te_url = map (prepare_pattern compile) (coerce_to_list (rw_url x)),
     te_headers = named_patterns compile py_lower (\<lambda>k p. p) (rw_headers x),
     te_scripts = map (prepare_pattern compile) (coerce_to_list (rw_scripts x)),
     te_meta = named_patterns compile py_lower (\<lambda>k p. p) (rw_meta x),
     te_html = map (prepare_pattern compile) (coerce_to_list (rw_html x)),
     te_cookies = named_patterns compile (\<lambda>k. k) (\<lambda>k p. p) (rw_cookies x),
     te_inline = named_patterns compile (\<lambda>k. k) (\<lambda>k p. if p \<noteq> [] then p else escape k) (rw_js x),
     te_implies = coerce_to_list (rw_implies x)\<rparr>"

type_synonym tech_table = "(string \<times> technology) list"

definition load_fingerprints :: "(string \<Rightarrow> regex option) \<Rightarrow> (string \<Rightarrow> string) \<Rightarrow> (string \<times> raw_technology) list \<Rightarrow> tech_table" where
  "load_fingerprints compile escape rows = map (\<lambda>(name, x). (name, load_technology compile escape name x)) rows"

section \<open>Pages\<close>

text \<open>What the HTML parser finds: sources of scripts, inline scripts, names and contents of meta tags\<close>

record parsed_html =
  ph_scripts :: "string list"
  ph_inline :: "string list"
  ph_meta :: "(string \<times> string) list"

record webpage =
  wp_url :: string
  wp_html :: string
  wp_headers :: "(string \<times> string) list"
  wp_scripts :: "string list"
  wp_meta :: "(string \<times> string) list"
  wp_inline :: string
  wp_cookies :: "(string \<times> string) list"

text \<open>A dictionary built from pairs: the last pair of a key counts.\<close>

definition dict_of :: "(string \<times> 'a) list \<Rightarrow> (string \<times> 'a) list" where
  "dict_of kvs = rev kvs"

definition cookie_of :: "string \<Rightarrow> (string \<times> string) list" where
  "cookie_of piece = (let p = py_strip piece in if CHR ''='' \<notin> set p then []
     else (let nv = py_strip (hd (py_split p '';'')); name = takeWhile (\<lambda>c. c \<noteq> CHR ''='') nv;
               value = tl (dropWhile (\<lambda>c. c \<noteq> CHR ''='') nv)
           in if name = [] then [] else [(py_strip name, py_strip value)]))"

definition web_page :: "(string \<Rightarrow> parsed_html) \<Rightarrow> string \<Rightarrow> string \<Rightarrow> (string \<times> string) list \<Rightarrow> webpage" where
  "web_page parse url html headers = (let hs = dict_of (map (\<lambda>(k, v). (py_lower k, v)) headers); x = parse html;
       raw = coalesce (map_of hs ''set-cookie'') []
     in \<lparr>wp_url = url, wp_html = html, wp_headers = hs, wp_scripts = ph_scripts x,
         wp_meta = dict_of (map (\<lambda>(k, v). (py_lower k, v)) (filter (\<lambda>(k, v). k \<noteq> []) (ph_meta x))),
         wp_inline = py_join nl (ph_inline x),
         wp_cookies = (if raw = [] then [] else dict_of (concat (map cookie_of (py_split raw '',''))))\<rparr>)"

section \<open>Detection\<close>

record detection =
  de_versions :: "string list"
  de_confidence :: int
  de_categories :: "string list"
  de_matched :: "(string \<times> int) list"

definition no_detection :: detection where
  "no_detection = \<lparr>de_versions = [], de_confidence = 0, de_categories = [], de_matched = []\<rparr>"

text \<open>What is tried, in the order of the code: the kind of the pattern, the pattern and the text\<close>

definition looked_up :: "string \<Rightarrow> (string \<times> pattern) list \<Rightarrow> (string \<times> string) list \<Rightarrow> (string \<times> pattern \<times> string) list" where
  "looked_up kind ps table = concat (map (\<lambda>(name, p). let v = coalesce (map_of table name) [] in if v = [] then [] else [(kind, p, v)]) ps)"

definition attempts :: "technology \<Rightarrow> webpage \<Rightarrow> (string \<times> pattern \<times> string) list" where
  "attempts t w = map (\<lambda>p. (''url'', p, wp_url w)) (te_url t) @ looked_up ''header'' (te_headers t) (wp_headers w) @
     looked_up ''cookie'' (te_cookies t) (wp_cookies w) @
     concat (map (\<lambda>p. map (\<lambda>s. (''script'', p, s)) (wp_scripts w)) (te_scripts t)) @
     map (\<lambda>(g, p). (''js'', p, wp_inline w)) (te_inline t) @ looked_up ''meta'' (te_meta t) (wp_meta w) @
     map (\<lambda>p. (''html'', p, wp_html w)) (te_html t)"

definition matched_in :: "(string \<times> pattern \<times> string) \<Rightarrow> bool" where
  "matched_in x = (case x of (kind, p, s) \<Rightarrow> pp_regex p s \<noteq> None)"

definition raise_to :: "string \<Rightarrow> int \<Rightarrow> (string \<times> int) list \<Rightarrow> (string \<times> int) list" where
  "raise_to k c m = (case map_of m k of None \<Rightarrow> m @ [(k, max 0 c)] | Some old \<Rightarrow> map (\<lambda>(k', v). (k', if k' = k then max old c else v)) m)"

definition observe :: "(string \<times> pattern \<times> string) \<Rightarrow> detection \<Rightarrow> detection" where
  "observe x d = (case x of (kind, p, s) \<Rightarrow>
     d\<lparr>de_confidence := max (de_confidence d) (pp_confidence p), de_matched := raise_to kind (pp_confidence p) (de_matched d),
       de_versions := (case extract_version p s of None \<Rightarrow> de_versions d | Some v \<Rightarrow> List.insert v (de_versions d))\<rparr>)"

definition category_names :: "(string \<times> string) list \<Rightarrow> int list \<Rightarrow> string list" where
  "category_names categories cats = map (\<lambda>c. coalesce (map_of categories (str_int c)) (''Category '' @ str_int c)) cats"

definition check_technology :: "(string \<times> string) list \<Rightarrow> technology \<Rightarrow> webpage \<Rightarrow> detection option" where
  "check_technology categories t w = (let found = filter matched_in (attempts t w) in if found = [] then None
     else Some ((fold observe found no_detection)\<lparr>de_categories := category_names categories (te_cats t)\<rparr>))"

type_synonym detections = "(string \<times> detection) list"

definition direct :: "tech_table \<Rightarrow> (string \<times> string) list \<Rightarrow> webpage \<Rightarrow> detections" where
  "direct table categories w = concat (map (\<lambda>(name, t). case check_technology categories t w of None \<Rightarrow> [] | Some d \<Rightarrow> [(name, d)]) table)"

section \<open>Implied technologies\<close>

definition implied_name :: "string \<Rightarrow> string" where
  "implied_name raw = hd (py_split raw (backslash @ '';''))"

definition implied_confidence :: "string \<Rightarrow> int" where
  "implied_confidence raw = confidence_of (tl (py_split raw (backslash @ '';'')))"

definition strength :: "detections \<Rightarrow> string \<Rightarrow> string \<Rightarrow> int" where
  "strength ds parent raw = min (implied_confidence raw) (case map_of ds parent of None \<Rightarrow> 100 | Some d \<Rightarrow> de_confidence d)"

definition raise_detection :: "string \<Rightarrow> int \<Rightarrow> detections \<Rightarrow> detections" where
  "raise_detection name c ds = map (\<lambda>(n, d). (n, if n = name then d\<lparr>de_confidence := max (de_confidence d) c\<rparr> else d)) ds"

definition add_implied :: "tech_table \<Rightarrow> (string \<times> string) list \<Rightarrow> string \<Rightarrow> int \<Rightarrow> detections \<Rightarrow> detections" where
  "add_implied table categories name c ds = (if map_of ds name \<noteq> None then raise_detection name c ds
     else (case map_of table name of None \<Rightarrow> ds
       | Some t \<Rightarrow> ds @ [(name, \<lparr>de_versions = [], de_confidence = c, de_categories = category_names categories (te_cats t),
           de_matched = [(''implied'', c)]\<rparr>)]))"

text \<open>The technologies found, the queue and the names seen\<close>

type_synonym expansion = "detections \<times> string list \<times> string list"

definition imply :: "tech_table \<Rightarrow> (string \<times> string) list \<Rightarrow> string \<Rightarrow> string \<Rightarrow> expansion \<Rightarrow> expansion" where
  "imply table categories parent raw x = (case x of (ds, queue, seen) \<Rightarrow>
     (let c = strength ds parent raw; name = implied_name raw in if c < 50 then (ds, queue, seen)
      else (add_implied table categories name c ds,
        (if name \<in> set seen then queue else queue @ [name]), (if name \<in> set seen then seen else name # seen))))"

definition implies_of :: "tech_table \<Rightarrow> string \<Rightarrow> string list" where
  "implies_of table name = (case map_of table name of None \<Rightarrow> [] | Some t \<Rightarrow> te_implies t)"

definition expand :: "tech_table \<Rightarrow> (string \<times> string) list \<Rightarrow> string \<Rightarrow> expansion \<Rightarrow> expansion" where
  "expand table categories name x = fold (imply table categories name) (implies_of table name) x"

text \<open>Names that may still enter the queue\<close>

definition names_left :: "tech_table \<Rightarrow> string list \<Rightarrow> string set" where
  "names_left table seen = (\<Union>(name, t) \<in> set table. implied_name ` set (te_implies t)) - set seen"

lemma finite_names_left [simp]: "finite (names_left table seen)"
  by (auto simp: names_left_def)

lemma implies_of_table: "raw \<in> set (implies_of table name) \<Longrightarrow> \<exists>n t. (n, t) \<in> set table \<and> raw \<in> set (te_implies t)"
  by (cases "map_of table name") (auto simp: implies_of_def dest: map_of_SomeD)

lemma imply_measure:
  assumes "imply table categories parent raw (ds, queue, seen) = (ds', queue', seen')"
    "\<exists>n t. (n, t) \<in> set table \<and> raw \<in> set (te_implies t)"
  shows "length queue' + card (names_left table seen') = length queue + card (names_left table seen)"
proof (cases "strength ds parent raw < 50 \<or> implied_name raw \<in> set seen")
  case True
  with assms(1) show ?thesis by (auto simp: imply_def Let_def split: if_splits)
next
  case False
  with assms(1) have q: "queue' = queue @ [implied_name raw]" "seen' = implied_name raw # seen" by (auto simp: imply_def Let_def)
  from assms(2) False have left: "implied_name raw \<in> names_left table seen" by (fastforce simp: names_left_def)
  have "names_left table seen' = names_left table seen - {implied_name raw}" by (auto simp: names_left_def q)
  then have "Suc (card (names_left table seen')) = card (names_left table seen)"
    using card_Suc_Diff1 [OF finite_names_left left] by simp
  with q show ?thesis by simp
qed

lemma expand_measure:
  assumes "fold (imply table categories parent) raws (ds, queue, seen) = (ds', queue', seen')"
    "\<forall>raw \<in> set raws. \<exists>n t. (n, t) \<in> set table \<and> raw \<in> set (te_implies t)"
  shows "length queue' + card (names_left table seen') = length queue + card (names_left table seen)"
  using assms
proof (induction raws arbitrary: ds queue seen)
  case (Cons raw raws)
  obtain d q s where i: "imply table categories parent raw (ds, queue, seen) = (d, q, s)" by (rule prod_cases3)
  with Cons imply_measure [OF i] show ?case by auto
qed simp

lemma expand_size:
  "expand table categories name (ds, queue, seen) = (ds', queue', seen') \<Longrightarrow>
   length queue' + card (names_left table seen') = length queue + card (names_left table seen)"
  unfolding expand_def by (rule expand_measure) (auto intro: implies_of_table)

text \<open>Breadth first; every name enters the queue at most once, so it ends.\<close>

function resolve_from :: "tech_table \<Rightarrow> (string \<times> string) list \<Rightarrow> detections \<Rightarrow> string list \<Rightarrow> string list \<Rightarrow> detections" where
  "resolve_from table categories ds [] seen = ds"
| "resolve_from table categories ds (name # queue) seen =
     (case expand table categories name (ds, queue, seen) of (ds', queue', seen') \<Rightarrow> resolve_from table categories ds' queue' seen')"
  by pat_completeness auto

termination
  by (relation "measure (\<lambda>(table, categories, ds, queue, seen). length queue + card (names_left table seen))")
    (auto split: prod.splits dest!: expand_size)

definition resolve_implies :: "tech_table \<Rightarrow> (string \<times> string) list \<Rightarrow> detections \<Rightarrow> detections" where
  "resolve_implies table categories ds = resolve_from table categories ds (map fst ds) (map fst ds)"

definition analyze_page :: "tech_table \<Rightarrow> (string \<times> string) list \<Rightarrow> webpage \<Rightarrow> detections" where
  "analyze_page table categories w = resolve_implies table categories (direct table categories w)"

section \<open>Quality\<close>

text \<open>In hundredths\<close>

definition pattern_weights :: "(string \<times> int) list" where
  "pattern_weights = [(''header'', 95), (''cookie'', 90), (''url'', 90), (''script'', 85), (''meta'', 80), (''js'', 75), (''html'', 60), (''implied'', 80)]"

definition compute_signal_quality :: "(string \<times> int) list \<Rightarrow> int" where
  "compute_signal_quality matched = (if matched = [] then 0
     else (let ws = map (\<lambda>(k, c). coalesce (map_of pattern_weights k) 50) matched in
       min (Max (set ws) + 3 * (int (length ws) - 1)) 100))"

section \<open>What implication adds\<close>

definition raised :: "string \<times> detection \<Rightarrow> string \<times> detection \<Rightarrow> bool" where
  "raised x y \<longleftrightarrow> fst x = fst y \<and> de_confidence (snd x) \<le> de_confidence (snd y) \<and>
     (snd y)\<lparr>de_confidence := de_confidence (snd x)\<rparr> = snd x"

definition implied_entry :: "tech_table \<Rightarrow> string \<times> detection \<Rightarrow> bool" where
  "implied_entry table x \<longleftrightarrow> fst x \<in> fst ` set table \<and> 50 \<le> de_confidence (snd x) \<and> map fst (de_matched (snd x)) = [''implied'']"

definition grown :: "tech_table \<Rightarrow> detections \<Rightarrow> detections \<Rightarrow> bool" where
  "grown table ds0 ds \<longleftrightarrow> (\<exists>xs ys. ds = xs @ ys \<and> list_all2 raised ds0 xs \<and> list_all (implied_entry table) ys \<and>
     distinct (map fst ys) \<and> fst ` set ds0 \<inter> fst ` set ys = {})"

lemma raised_refl: "raised x x"
  by (simp add: raised_def)

lemma raised_trans:
  assumes "raised x y" "raised y z"
  shows "raised x z"
proof -
  have "(snd z)\<lparr>de_confidence := de_confidence (snd x)\<rparr> =
      (snd z)\<lparr>de_confidence := de_confidence (snd y)\<rparr>\<lparr>de_confidence := de_confidence (snd x)\<rparr>" by simp
  also have "\<dots> = snd x" using assms by (simp only: raised_def)
  finally show ?thesis using assms by (simp add: raised_def)
qed

lemma grown_refl: "grown table ds ds"
  unfolding grown_def by (intro exI [of _ ds] exI [of _ "[]"]) (simp add: list_all2_refl raised_refl)

lemma raised_names: "list_all2 raised ds0 xs \<Longrightarrow> map fst xs = map fst ds0"
  by (induction rule: list_all2_induct) (simp_all add: raised_def)

lemma raise_detection_append [simp]: "raise_detection n c (xs @ ys) = raise_detection n c xs @ raise_detection n c ys"
  by (simp add: raise_detection_def)

lemma raise_detection_names [simp]: "map fst (raise_detection n c xs) = map fst xs"
  by (simp add: raise_detection_def comp_def case_prod_beta)

lemma raise_detection_raised: "list_all2 raised xs (raise_detection n c xs)"
  by (simp add: raise_detection_def list_all2_map2 list_all2_refl raised_def case_prod_beta)

lemma raise_detection_implied: "list_all (implied_entry table) ys \<Longrightarrow> list_all (implied_entry table) (raise_detection n c ys)"
  by (auto simp: raise_detection_def list_all_iff implied_entry_def case_prod_beta)

lemma grown_add:
  assumes "grown table ds0 ds" "50 \<le> c"
  shows "grown table ds0 (add_implied table categories n c ds)"
proof -
  from assms(1) obtain xs ys where g: "ds = xs @ ys" "list_all2 raised ds0 xs" "list_all (implied_entry table) ys"
    "distinct (map fst ys)" "fst ` set ds0 \<inter> fst ` set ys = {}" by (auto simp: grown_def)
  have names: "fst ` set zs = set (map fst zs)" for zs :: detections by simp
  show ?thesis
  proof (cases "map_of ds n")
    case (Some d)
    have "list_all2 raised ds0 (raise_detection n c xs)"
      by (rule list_all2_trans [OF _ g(2) raise_detection_raised]) (rule raised_trans)
    moreover have "fst ` set (raise_detection n c ys) = fst ` set ys" unfolding names by simp
    ultimately show ?thesis using Some g raise_detection_implied [OF g(3)]
      unfolding grown_def by (intro exI [of _ "raise_detection n c xs"] exI [of _ "raise_detection n c ys"]) (simp add: add_implied_def)
  next
    case None
    show ?thesis
    proof (cases "map_of table n")
      case table: (Some t)
      define d where "d = \<lparr>de_versions = [], de_confidence = c, de_categories = category_names categories (te_cats t),
        de_matched = [(''implied'', c)]\<rparr>"
      have "n \<notin> fst ` set ds" using None by (simp add: map_of_eq_None_iff)
      moreover have "fst ` set xs = fst ` set ds0" unfolding names raised_names [OF g(2)] ..
      ultimately have fresh: "n \<notin> fst ` set ds0" "n \<notin> fst ` set ys" using g(1) by auto
      have "n \<in> fst ` set table" using map_of_SomeD [OF table] by force
      then have "implied_entry table (n, d)" using assms(2) by (simp add: implied_entry_def d_def)
      with g fresh None table show ?thesis
        unfolding grown_def by (intro exI [of _ xs] exI [of _ "ys @ [(n, d)]"]) (auto simp: add_implied_def d_def)
    qed (use assms(1) None in \<open>simp add: add_implied_def\<close>)
  qed
qed

lemma grown_expand:
  "grown table ds0 ds \<Longrightarrow> fold (imply table categories parent) raws (ds, queue, seen) = (ds', queue', seen') \<Longrightarrow> grown table ds0 ds'"
proof (induction raws arbitrary: ds queue seen)
  case (Cons raw raws)
  obtain d q s where i: "imply table categories parent raw (ds, queue, seen) = (d, q, s)" by (rule prod_cases3)
  then have "grown table ds0 d" using grown_add [OF Cons.prems(1)] Cons.prems(1) by (auto simp: imply_def Let_def split: if_splits)
  from Cons.IH [OF this] Cons.prems(2) i show ?case by simp
qed simp

lemma grown_resolve: "grown table ds0 ds \<Longrightarrow> grown table ds0 (resolve_from table categories ds queue seen)"
proof (induction table categories ds queue seen rule: resolve_from.induct)
  case (2 table categories ds name queue seen)
  obtain d q s where e: "expand table categories name (ds, queue, seen) = (d, q, s)" by (rule prod_cases3)
  from grown_expand [OF "2.prems" e [unfolded expand_def]] "2.IH" [OF e [symmetric]] e show ?case by simp
qed simp

text \<open>
  implication ends and only adds: what was found on the page stays, in its order, at most with a higher
  confidence; behind it stand technologies of the table, each once, implied with a confidence of at least 50.
\<close>

theorem implied_sound:
  "\<exists>xs ys. resolve_implies table categories ds = xs @ ys \<and> list_all2 raised ds xs \<and> list_all (implied_entry table) ys \<and>
     distinct (map fst ys) \<and> fst ` set ds \<inter> fst ` set ys = {}"
  using grown_resolve [OF grown_refl] unfolding resolve_implies_def grown_def .

definition bare_technology :: "string \<Rightarrow> string list \<Rightarrow> technology" where
  "bare_technology name others = \<lparr>te_name = name, te_cats = [], te_url = [], te_headers = [], te_scripts = [], te_meta = [], te_html = [],
     te_cookies = [], te_inline = [], te_implies = others\<rparr>"

definition chain_table :: tech_table where
  "chain_table = map (\<lambda>(n, others). (n, bare_technology n others)) [(''A'', [''B'']), (''B'', []), (''C'', [''A''])]"

definition seen_on_page :: "string \<Rightarrow> int \<Rightarrow> string \<times> detection" where
  "seen_on_page n c = (n, no_detection\<lparr>de_confidence := c, de_matched := [(''html'', c)]\<rparr>)"

text \<open>
  what is implied depends on the order of the fingerprints: a technology expanded while it was doubtful is not
  expanded again when another raises it to certainty.
\<close>

theorem implication_order_matters:
  "map (\<lambda>(n, d). (n, de_confidence d)) (resolve_implies chain_table [] [seen_on_page ''A'' 20, seen_on_page ''C'' 100]) =
     [(''A'', 100), (''C'', 100)] \<and>
   map (\<lambda>(n, d). (n, de_confidence d)) (resolve_implies chain_table [] [seen_on_page ''C'' 100, seen_on_page ''A'' 20]) =
     [(''C'', 100), (''A'', 100), (''B'', 100)]"
  by code_simp

text \<open>
  The scan of a company's product hosts (\<open>services/tech_detection.py\<close>, \<open>services/techdetect/archetypes.py\<close>):
  archetypes of stacks, the hosts and paths that are probed, and the technologies found on them. The answers
  of the network, the HTML parser and the reader of \<open>robots.txt\<close> (\<open>RobotFileParser.can_fetch\<close>) are arguments.
  The service is one object of the process: its caches and the headers it saw last are a state.
\<close>

section \<open>Archetypes\<close>

record archetype_rule =
  au_name :: string
  au_required :: "string list list"
  au_supporting :: "string list list"
  au_description :: string

definition archetype_of :: "string \<Rightarrow> string list list \<Rightarrow> string list list \<Rightarrow> string \<Rightarrow> archetype_rule" where
  "archetype_of name required supporting description =
     \<lparr>au_name = name, au_required = required, au_supporting = supporting, au_description = description\<rparr>"

definition archetype_rules :: "archetype_rule list" where
  "archetype_rules = [
     archetype_of ''Modern SPA'' [[''react'', ''vue.js'', ''angular'', ''svelte'']]
       [[''webpack'', ''vite'', ''esbuild'', ''parcel''], [''redux'', ''mobx'', ''vuex'', ''pinia'', ''ngrx''], [''typescript''],
        [''next.js'', ''nuxt.js'', ''gatsby'', ''sveltekit'']]
       ''Single-page application with modern JS framework'',
     archetype_of ''JAMstack/SSR'' [[''next.js'', ''nuxt.js'', ''gatsby'', ''astro'', ''sveltekit'', ''remix'']]
       [[''vercel'', ''netlify'', ''cloudflare''], [''graphql'', ''apollo''], [''contentful'', ''sanity'', ''strapi'', ''prismic''],
        [''typescript'']]
       ''Server-rendered or static-generated JAMstack site'',
     archetype_of ''WordPress Stack'' [[''wordpress'']]
       [[''php''], [''mysql''], [''woocommerce''], [''yoast seo''], [''elementor'', ''wpbakery'']]
       ''WordPress-based content management'',
     archetype_of ''Enterprise CMS'' [[''adobe experience manager'', ''sitecore'', ''episerver'', ''optimizely'', ''kentico'', ''acquia'', ''drupal'']]
       [[''java''], [''.net'', ''asp.net''], [''akamai'', ''fastly'', ''cloudfront''], [''adobe analytics'', ''adobe target'']]
       ''Enterprise-grade content management system'',
     archetype_of ''E-commerce Platform'' [[''shopify'', ''magento'', ''woocommerce'', ''bigcommerce'', ''salesforce commerce cloud'', ''prestashop'', ''opencart'']]
       [[''stripe'', ''paypal'', ''braintree'', ''adyen''], [''google analytics'', ''google tag manager''], [''klaviyo'', ''mailchimp''],
        [''cloudflare'', ''fastly'', ''akamai'']]
       ''Dedicated e-commerce platform'',
     archetype_of ''LAMP/LEMP'' [[''php''], [''apache'', ''nginx'']]
       [[''mysql'', ''mariadb''], [''laravel'', ''symfony'', ''codeigniter'', ''cakephp''], [''linux''], [''redis'', ''memcached'']]
       ''Classic Linux/Apache(Nginx)/MySQL/PHP stack'',
     archetype_of ''Node.js Backend'' [[''node.js'', ''express'']]
       [[''mongodb'', ''postgresql''], [''redis''], [''typescript''], [''docker''], [''graphql'', ''apollo'']]
       ''Node.js/Express server-side application'',
     archetype_of ''Python Backend'' [[''python'', ''django'', ''flask'', ''fastapi'']]
       [[''postgresql'', ''mysql''], [''redis'', ''celery''], [''nginx'', ''gunicorn'', ''uwsgi''], [''docker'']]
       ''Python-based web application backend'',
     archetype_of ''Java Enterprise'' [[''java'']]
       [[''spring'', ''spring boot''], [''apache tomcat'', ''jboss'', ''wildfly'', ''weblogic'', ''websphere''],
        [''oracle'', ''postgresql''], [''docker'', ''kubernetes'']]
       ''Java-based enterprise application'',
     archetype_of ''.NET Stack'' [[''asp.net'', ''.net'', ''microsoft asp.net'']]
       [[''iis''], [''microsoft sql server'', ''azure''], [''angular'', ''react'', ''blazor''], [''docker'']]
       ''Microsoft .NET web application stack'',
     archetype_of ''Serverless/Edge'' [[''vercel'', ''netlify'', ''cloudflare workers'', ''aws lambda'', ''google cloud functions'', ''azure functions'']]
       [[''next.js'', ''nuxt.js'', ''remix'', ''astro''], [''dynamodb'', ''faunadb'', ''planetscale'', ''supabase''], [''stripe''],
        [''typescript'']]
       ''Serverless or edge-deployed application'']"

definition matched_group :: "string set \<Rightarrow> string list \<Rightarrow> string list" where
  "matched_group names g = filter (\<lambda>x. x \<in> names) g"

text \<open>In hundredths; the rules have four or five supporting groups, so the quotient is exact.\<close>

definition archetype_confidence :: "string set \<Rightarrow> archetype_rule \<Rightarrow> int" where
  "archetype_confidence names r = (let n = length (au_supporting r); m = length (filter (\<lambda>g. matched_group names g \<noteq> []) (au_supporting r))
     in if n = 0 then 60 else 60 + (40 * int m) div int n)"

definition matched_names :: "string set \<Rightarrow> archetype_rule \<Rightarrow> string set" where
  "matched_names names r = set (concat (map (matched_group names) (au_required r @ au_supporting r)))"

definition detect_archetypes :: "string list \<Rightarrow> archetype list" where
  "detect_archetypes names = (let low = py_lower ` set names in
     sort_key (\<lambda>a. - ar_confidence a) (map (\<lambda>r. \<lparr>ar_name = au_name r, ar_confidence = archetype_confidence low r,
         ar_matched = sort_set (filter (\<lambda>n. py_lower n \<in> matched_names low r) names), ar_description = au_description r\<rparr>)
       (filter (\<lambda>r. list_all (\<lambda>g. matched_group low g \<noteq> []) (au_required r)) archetype_rules)))"

section \<open>The stack of a page\<close>

record scanned_tech = tech +
  st_quality :: int
  st_matched :: "string list"

record scanned_stack =
  ss_techs :: "scanned_tech list"
  ss_archetypes :: "archetype list"

definition scanned :: "string \<times> detection \<Rightarrow> scanned_tech" where
  "scanned x = (case x of (name, d) \<Rightarrow> \<lparr>tc_name = name,
     tc_category = (if de_categories d = [] then None else Some (py_join '', '' (de_categories d))),
     tc_version = (case sort (de_versions d) of [] \<Rightarrow> None | v # vs \<Rightarrow> Some v), tc_confidence = Some (de_confidence d),
     st_quality = compute_signal_quality (de_matched d), st_matched = sort_set (map fst (de_matched d))\<rparr>)"

definition category_key :: "scanned_tech \<Rightarrow> string" where
  "category_key t = (if coalesce (tc_category t) [] = [] then ''zzz'' else coalesce (tc_category t) [])"

definition parse_technologies :: "detections \<Rightarrow> scanned_stack" where
  "parse_technologies ds = (let ts = sort_key category_key (sort_key tc_name (map scanned ds)) in
     \<lparr>ss_techs = ts, ss_archetypes = (if ts = [] then [] else detect_archetypes (map tc_name ts))\<rparr>)"

definition stack_of :: "scanned_stack \<Rightarrow> detected_stack" where
  "stack_of s = \<lparr>ds_techs = map tech.truncate (ss_techs s), ds_archetypes = ss_archetypes s\<rparr>"

section \<open>Probes\<close>

text \<open>
  A timeout or failed connection, another failure, or a status, the final address and the headers. The body of
  a text is its own argument, \<open>None\<close> for a request that raises.
\<close>

datatype probe = Timed_Out | Broken | Answered int string "(string \<times> string) list"

type_synonym probes = "string \<Rightarrow> probe"

record web =
  we_head :: probes
  we_get :: probes
  we_parse :: "string \<Rightarrow> parsed_html"
  we_text :: "string \<Rightarrow> (int \<times> string) option"
  we_rules :: "string \<Rightarrow> string \<Rightarrow> bool"

definition public_suffixes :: "string list" where
  "public_suffixes = [''.com'', ''.org'', ''.net'', ''.io'', ''.co'']"

text \<open>The outer \<open>None\<close>: an address without a host raises.\<close>

definition validate_redirect :: "string \<Rightarrow> string \<Rightarrow> string option option" where
  "validate_redirect original final = (let a = py_split original ''/''; b = py_split final ''/'' in
     if length a < 3 \<or> length b < 3 then None
     else if a ! 2 = b ! 2 then Some (Some original)
     else if \<not> list_ex (endswith (py_rstrip {CHR ''/''} final)) public_suffixes then Some (Some original) else Some None)"

definition get_phase :: "probes \<Rightarrow> string \<Rightarrow> (string \<times> (string \<times> string) list) option" where
  "get_phase get url = (case get url of
     Answered status final headers \<Rightarrow> if status < 400 then (case validate_redirect url final of
         Some (Some u) \<Rightarrow> Some (u, headers) | _ \<Rightarrow> None) else None
   | _ \<Rightarrow> None)"

text \<open>
  The refusal of every status from 400 comes before the test for 405, so only an unexpected failure leads to
  the second request.
\<close>

definition check_url_exists :: "web \<Rightarrow> string \<Rightarrow> (string \<times> (string \<times> string) list) option" where
  "check_url_exists w url = (case we_head w url of
     Timed_Out \<Rightarrow> None
   | Broken \<Rightarrow> get_phase (we_get w) url
   | Answered status final headers \<Rightarrow> if 400 \<le> status then None
       else (case validate_redirect url final of None \<Rightarrow> get_phase (we_get w) url
         | Some None \<Rightarrow> None | Some (Some u) \<Rightarrow> Some (u, headers)))"

definition fetch_headers :: "web \<Rightarrow> string \<Rightarrow> (string \<times> string) list" where
  "fetch_headers w url = (case we_head w url of Answered status final headers \<Rightarrow> headers | _ \<Rightarrow> [])"

section \<open>Hosts and paths\<close>

definition app_subdomains :: "string list" where
  "app_subdomains = [''app'', ''api'', ''dashboard'', ''portal'', ''admin'', ''login'']"

definition app_paths :: "string list" where
  "app_paths = [''/app'', ''/dashboard'', ''/portal'', ''/login'']"

definition final_key :: "string \<Rightarrow> string" where
  "final_key url = py_lower (py_rstrip {CHR ''/''} url)"

fun drop_seen :: "string list \<Rightarrow> (string \<times> 'a) list \<Rightarrow> (string \<times> 'a) list" where
  "drop_seen seen [] = []"
| "drop_seen seen ((u, h) # rest) = (if final_key u \<in> set seen then drop_seen seen rest
     else (u, h) # drop_seen (final_key u # seen) rest)"

definition found_urls :: "web \<Rightarrow> string list \<Rightarrow> (string \<times> (string \<times> string) list) list" where
  "found_urls w urls = drop_seen [] (concat (map (\<lambda>u. case check_url_exists w u of None \<Rightarrow> [] | Some x \<Rightarrow> [x]) urls))"

definition bare_domain :: "string \<Rightarrow> string" where
  "bare_domain s = py_replace ''www.'' [] (hd (py_split (py_replace ''http://'' [] (py_replace ''https://'' [] s)) ''/''))"

definition discover_subdomains :: "web \<Rightarrow> string \<Rightarrow> (string \<times> (string \<times> string) list) list" where
  "discover_subdomains w domain = found_urls w (map (\<lambda>sub. ''https://'' @ sub @ ''.'' @ bare_domain domain) app_subdomains)"

definition base_of :: "string \<Rightarrow> string" where
  "base_of url = py_rstrip {CHR ''/''} (if startswith url ''http'' then url else ''https://'' @ url)"

text \<open>The service: \<open>robots.txt\<close> by origin, read or refused, its text, and the headers of the main page seen last\<close>

record tech_service =
  ts_robots :: "(string \<times> (string \<Rightarrow> bool) option) list"
  ts_texts :: "(string \<times> string) list"
  ts_headers :: "(string \<times> string) list"

definition origin_of :: "string \<Rightarrow> string" where
  "origin_of url = (let u = unsafe_removed (dropWhile (\<lambda>c. (of_char c :: nat) \<le> 32) url); rest = after_scheme u;
       scheme = (if rest = u then [] else py_lower (take (length u - length rest - 1) u))
     in scheme @ ''://'' @ (if startswith rest ''//'' then until ''/?#'' (drop 2 rest) else []))"

definition remember_robots :: "string \<Rightarrow> (string \<Rightarrow> bool) option \<Rightarrow> tech_service \<Rightarrow> tech_service" where
  "remember_robots origin r s = s\<lparr>ts_robots := (origin, r) # ts_robots s\<rparr>"

definition fetch_robots :: "web \<Rightarrow> string \<Rightarrow> tech_service \<Rightarrow> (string \<Rightarrow> bool) option \<times> tech_service" where
  "fetch_robots w base s = (let origin = origin_of base in case map_of (ts_robots s) origin of
     Some r \<Rightarrow> (r, s)
   | None \<Rightarrow> (case we_text w (origin @ ''/robots.txt'') of
       Some (status, body) \<Rightarrow> if status < 400
         then (Some (we_rules w body), (remember_robots origin (Some (we_rules w body)) s)\<lparr>ts_texts := (origin, body) # ts_texts s\<rparr>)
         else (None, remember_robots origin None s)
     | None \<Rightarrow> (None, remember_robots origin None s)))"

definition get_robots_text :: "string \<Rightarrow> tech_service \<Rightarrow> string option" where
  "get_robots_text base s = map_of (ts_texts s) (origin_of base)"

definition get_last_main_headers :: "tech_service \<Rightarrow> (string \<times> string) list" where
  "get_last_main_headers s = ts_headers s"

definition allowed_paths :: "(string \<Rightarrow> bool) option \<Rightarrow> string list" where
  "allowed_paths robots = (case robots of None \<Rightarrow> app_paths | Some allowed \<Rightarrow> filter allowed app_paths)"

definition discover_app_paths :: "web \<Rightarrow> string \<Rightarrow> tech_service \<Rightarrow> (string \<times> (string \<times> string) list) list \<times> tech_service" where
  "discover_app_paths w url s = (let base = base_of url in case fetch_robots w base s of
     (robots, s) \<Rightarrow> (found_urls w (map (\<lambda>p. base @ p) (allowed_paths robots)), s))"

section \<open>The scan\<close>

definition analyze_html :: "tech_table \<Rightarrow> (string \<times> string) list \<Rightarrow> web \<Rightarrow> string \<Rightarrow> string \<Rightarrow> (string \<times> string) list \<Rightarrow> scanned_stack" where
  "analyze_html table categories w html url headers =
     parse_technologies (analyze_page table categories (web_page (we_parse w) url html (if headers = [] then fetch_headers w url else headers)))"

definition put :: "string \<Rightarrow> 'a \<Rightarrow> (string \<times> 'a) list \<Rightarrow> (string \<times> 'a) list" where
  "put k v d = (if map_of d k = None then d @ [(k, v)] else map (\<lambda>(k', v'). (k', if k' = k then v else v')) d)"

definition host_key :: "string \<Rightarrow> string" where
  "host_key url = authority (unsafe_removed url)"

definition path_key :: "string \<Rightarrow> string" where
  "path_key url = host_key url @ coalesce (url_path url) []"

definition scan_host :: "(string \<Rightarrow> (string \<times> string) list \<Rightarrow> scanned_stack) \<Rightarrow> string \<times> (string \<times> string) list \<Rightarrow>
    (string \<times> scanned_stack) list \<Rightarrow> (string \<times> scanned_stack) list" where
  "scan_host read x results = (case x of (url, headers) \<Rightarrow> let s = read url headers in
     if ss_techs s = [] then results else put (host_key url) s results)"

text \<open>A path adds the technologies that no product host showed.\<close>

definition scan_path :: "(string \<Rightarrow> (string \<times> string) list \<Rightarrow> scanned_stack) \<Rightarrow> string set \<Rightarrow> string \<times> (string \<times> string) list \<Rightarrow>
    (string \<times> scanned_stack) list \<Rightarrow> (string \<times> scanned_stack) list" where
  "scan_path read known x results = (case x of (url, headers) \<Rightarrow>
     let fresh = filter (\<lambda>t. tc_name t \<notin> known) (ss_techs (read url headers)) in
     if fresh = [] then results else put (path_key url) \<lparr>ss_techs = fresh, ss_archetypes = []\<rparr> results)"

definition names_in :: "(string \<times> scanned_stack) list \<Rightarrow> string set" where
  "names_in results = set (concat (map (\<lambda>(k, s). map tc_name (ss_techs s)) results))"

text \<open>The main page is asked only for its headers.\<close>

definition main_host :: "string \<Rightarrow> string" where
  "main_host main = (let rest = after_scheme (unsafe_removed (if startswith main ''http'' then main else ''https://'' @ main))
     in py_replace ''www.'' [] (if startswith rest ''//'' then until ''/?#'' (drop 2 rest) else []))"

definition capture_headers :: "web \<Rightarrow> string \<Rightarrow> tech_service \<Rightarrow> tech_service" where
  "capture_headers w main s = s\<lparr>ts_headers := fetch_headers w (''https://'' @ main_host main)\<rparr>"

text \<open>Without a detector nothing is done. \<open>None\<close>: the parser of addresses raised.\<close>

definition scan_found :: "tech_table \<Rightarrow> (string \<times> string) list \<Rightarrow> web \<Rightarrow> (string \<times> (string \<times> string) list) list \<Rightarrow>
    (string \<times> (string \<times> string) list) list \<Rightarrow> (string \<times> scanned_stack) list" where
  "scan_found table categories w hosts paths = (let read = analyze_html table categories w []; found = fold (scan_host read) hosts []
     in fold (scan_path read (names_in found)) paths found)"

definition analyze_multiple_domains :: "(tech_table \<times> (string \<times> string) list) option \<Rightarrow> web \<Rightarrow> string \<Rightarrow> tech_service \<Rightarrow>
    ((string \<times> scanned_stack) list \<times> tech_service) option" where
  "analyze_multiple_domains detector w main s = (case detector of None \<Rightarrow> Some ([], s)
   | Some (table, categories) \<Rightarrow>
       if url_path (if startswith main ''http'' then main else ''https://'' @ main) = None then None
       else (case discover_app_paths w (''https://'' @ main_host main) (capture_headers w main s) of
         (paths, s) \<Rightarrow> Some (scan_found table categories w (discover_subdomains w (main_host main)) paths, s)))"

section \<open>Bounds\<close>

lemma matched_count_le: "length (filter P xs) \<le> length xs" by (rule length_filter_le)

lemma archetype_confidence_bounds: "60 \<le> archetype_confidence names r \<and> archetype_confidence names r \<le> 100"
proof -
  define n m where "n = length (au_supporting r)" and "m = length (filter (\<lambda>g. matched_group names g \<noteq> []) (au_supporting r))"
  have "m \<le> n" unfolding n_def m_def by (rule length_filter_le)
  then have "(40 * int m) div int n \<le> (40 * int n) div int n" if "n \<noteq> 0"
    using that by (intro zdiv_mono1) auto
  moreover have "0 \<le> (40 * int m) div int n" if "n \<noteq> 0"
    using that by (simp add: pos_imp_zdiv_nonneg_iff)
  ultimately show ?thesis by (auto simp: archetype_confidence_def n_def [symmetric] m_def [symmetric] Let_def)
qed

section \<open>Discovery\<close>

lemma check_keeps_url: "check_url_exists w url = Some (u, h) \<Longrightarrow> u = url"
  by (auto simp: check_url_exists_def get_phase_def validate_redirect_def Let_def split: probe.splits if_splits option.splits)

lemma drop_seen_distinct:
  "distinct (map (final_key \<circ> fst) xs) \<Longrightarrow> (\<forall>x \<in> set xs. final_key (fst x) \<notin> set seen) \<Longrightarrow> drop_seen seen xs = xs"
  by (induction seen xs rule: drop_seen.induct) (fastforce simp: image_iff)+

definition answering :: "web \<Rightarrow> string list \<Rightarrow> (string \<times> (string \<times> string) list) list" where
  "answering w urls = concat (map (\<lambda>u. case check_url_exists w u of None \<Rightarrow> [] | Some x \<Rightarrow> [x]) urls)"

lemma answering_urls: "map fst (answering w urls) = filter (\<lambda>u. check_url_exists w u \<noteq> None) urls"
  unfolding answering_def by (induction urls) (auto split: option.split dest: check_keeps_url)

lemma found_urls_all:
  assumes "distinct (map final_key urls)"
  shows "found_urls w urls = answering w urls"
proof -
  have "distinct (map final_key (map fst (answering w urls)))"
    unfolding answering_urls by (simp add: assms distinct_map_filter)
  then show ?thesis unfolding found_urls_def answering_def [symmetric] by (simp add: drop_seen_distinct)
qed

lemma rstrip_keep:
  assumes "c \<notin> C"
  shows "py_rstrip C (x @ c # y) = x @ c # py_rstrip C y"
proof (cases "\<forall>z \<in> set y. z \<in> C")
  case True
  then have "dropWhile (\<lambda>c. c \<in> C) (rev y @ c # rev x) = c # rev x"
    using assms by (subst dropWhile_append2) auto
  moreover have "dropWhile (\<lambda>c. c \<in> C) (rev y) = []" using True by (simp add: dropWhile_eq_Nil_conv)
  ultimately show ?thesis by (simp add: py_rstrip_def)
next
  case False
  then obtain z where "z \<in> set (rev y)" "z \<notin> C" by auto
  then show ?thesis by (simp add: py_rstrip_def dropWhile_append1)
qed

lemma subdomain_keys: "distinct (map final_key (map (\<lambda>sub. ''https://'' @ sub @ ''.'' @ b) app_subdomains))"
proof -
  have k: "final_key (''https://'' @ sub @ ''.'' @ b) = ''https://'' @ py_lower sub @ ''.'' @ py_lower (py_rstrip {CHR ''/''} b)" for sub
    using rstrip_keep [of "CHR ''.''" "{CHR ''/''}" "''https://'' @ sub" b]
    by (simp add: final_key_def py_lower_append) (simp add: py_lower_def lower_char_def upper_char_def)
  have "distinct (map py_lower app_subdomains)" by code_simp
  then have "distinct (map (\<lambda>s. ''https://'' @ s @ ''.'' @ r) (map py_lower app_subdomains))" for r
    by (simp add: distinct_map inj_on_def)
  then show ?thesis by (simp only: map_map comp_def k)
qed

lemma path_keys:
  assumes "distinct ps" "set ps \<subseteq> set app_paths"
  shows "distinct (map final_key (map (\<lambda>p. b @ p) ps))"
proof -
  have r: "py_rstrip {CHR ''/''} p = p \<and> p \<noteq> [] \<and> last p \<noteq> CHR ''/'' \<and> py_lower p = p" if "p \<in> set app_paths" for p
  proof -
    have "list_all (\<lambda>p. py_rstrip {CHR ''/''} p = p \<and> p \<noteq> [] \<and> last p \<noteq> CHR ''/'' \<and> py_lower p = p) app_paths" by code_simp
    with that show ?thesis by (simp add: list_all_iff)
  qed
  have "final_key (b @ p) = py_lower b @ p" if "p \<in> set app_paths" for p
  proof -
    from r [OF that] have p: "p = butlast p @ last p # []" "last p \<noteq> CHR ''/''" by simp_all
    have "py_rstrip {CHR ''/''} (b @ p) = b @ p"
      using rstrip_keep [of "last p" "{CHR ''/''}" "b @ butlast p" "[]"] p by (simp add: py_rstrip_def)
    with r [OF that] show ?thesis by (simp add: final_key_def py_lower_append)
  qed
  then have "map final_key (map (\<lambda>p. b @ p) ps) = map (\<lambda>p. py_lower b @ p) ps"
    using assms(2) by (auto simp: subset_iff)
  with assms(1) show ?thesis by (simp add: distinct_map inj_on_def)
qed

text \<open>
  the removal of duplicates by final address removes nothing, because the addresses compared are those that
  were asked for: every host and every allowed path that answers is scanned, even where all lead to one page.
\<close>

theorem discovery_keeps_all:
  "discover_subdomains w domain = answering w (map (\<lambda>sub. ''https://'' @ sub @ ''.'' @ bare_domain domain) app_subdomains) \<and>
   fst (discover_app_paths w url s) = answering w (map (\<lambda>p. base_of url @ p) (allowed_paths (fst (fetch_robots w (base_of url) s))))"
proof
  show "discover_subdomains w domain = answering w (map (\<lambda>sub. ''https://'' @ sub @ ''.'' @ bare_domain domain) app_subdomains)"
    unfolding discover_subdomains_def by (rule found_urls_all [OF subdomain_keys])
  have d: "distinct app_paths" by code_simp
  have "distinct (map final_key (map (\<lambda>p. base_of url @ p) (allowed_paths r)))" for r
    by (rule path_keys) (auto simp: d allowed_paths_def split: option.split)
  then show "fst (discover_app_paths w url s) = answering w (map (\<lambda>p. base_of url @ p) (allowed_paths (fst (fetch_robots w (base_of url) s))))"
    by (simp add: discover_app_paths_def Let_def found_urls_all split: prod.split)
qed

section \<open>The state of the service\<close>

text \<open>What is remembered answers again without a request.\<close>

lemma fetch_robots_headers [simp]: "ts_headers (snd (fetch_robots w base s)) = ts_headers s"
  by (simp add: fetch_robots_def remember_robots_def Let_def split: option.split)

lemma fetch_robots_again: "fetch_robots w' base (snd (fetch_robots w base s)) = (fst (fetch_robots w base s), snd (fetch_robots w base s))"
  by (simp add: fetch_robots_def remember_robots_def Let_def split: option.split)

text \<open>A text is remembered for the origins whose \<open>robots.txt\<close> was read, and only for them.\<close>

definition texts_match :: "tech_service \<Rightarrow> bool" where
  "texts_match s \<longleftrightarrow> (\<forall>origin. (map_of (ts_texts s) origin \<noteq> None) = (\<exists>allowed. map_of (ts_robots s) origin = Some (Some allowed)))"

lemma texts_match_fetch: "texts_match s \<Longrightarrow> texts_match (snd (fetch_robots w base s))"
  unfolding texts_match_def by (auto simp: fetch_robots_def remember_robots_def Let_def split: option.split)

lemma scan_state:
  "analyze_multiple_domains (Some d) w main s = Some (results, s') \<Longrightarrow>
     s' = snd (fetch_robots w (base_of (''https://'' @ main_host main)) (capture_headers w main s))"
  by (auto simp: analyze_multiple_domains_def discover_app_paths_def Let_def split: prod.splits if_splits)

text \<open>
  after a scan the service holds the headers of the main page of that company, whatever it held before; a scan
  of another company that runs before they are read replaces them, so the first company is scored with the
  headers of the second.
\<close>

theorem headers_of_latest_scan:
  "case analyze_multiple_domains (Some d) w a s of None \<Rightarrow> True
   | Some (found, s1) \<Rightarrow> get_last_main_headers s1 = fetch_headers w (''https://'' @ main_host a) \<and>
       (case analyze_multiple_domains (Some d) w b s1 of None \<Rightarrow> True
        | Some (found', s2) \<Rightarrow> get_last_main_headers s2 = fetch_headers w (''https://'' @ main_host b))"
  by (auto simp: get_last_main_headers_def capture_headers_def dest!: scan_state split: option.split)

end
