(* ===== verification/Firecrawl.thy ===== *)
theory Firecrawl
  imports Tech_Detect Notifications
begin

text \<open>
  The reader of a company's site (\<open>services/firecrawl.py\<close>): pages, site maps, job boards, crawls and searches.
  The network and the XML parser are arguments; an answer of the service is a status and a JSON value.
\<close>

section \<open>Answers\<close>

text \<open>\<open>None\<close>: the request raised. The inner \<open>None\<close>: the body is not JSON.\<close>

type_synonym api_reply = "(int \<times> json option) option"

definition body_of :: "api_reply \<Rightarrow> (string \<times> json) list option" where
  "body_of r = (case r of Some (status, Some (JDict d)) \<Rightarrow> if status = 200 then Some d else None | _ \<Rightarrow> None)"

text \<open>Texts are documented to be texts or null.\<close>

definition json_text :: "json \<Rightarrow> string" where
  "json_text j = (case j of JStr s \<Rightarrow> s | _ \<Rightarrow> [])"

definition as_shown :: "json \<Rightarrow> string" where
  "as_shown j = (case j of JStr s \<Rightarrow> s | _ \<Rightarrow> ''None'')"

text \<open>Iteration over a JSON value; \<open>None\<close> raises.\<close>

definition json_items :: "json \<Rightarrow> json list option" where
  "json_items j = (case j of JList xs \<Rightarrow> Some xs | JStr s \<Rightarrow> Some (map (\<lambda>c. JStr [c]) s) | JDict d \<Rightarrow> Some (map (\<lambda>(k, v). JStr k) d)
     | _ \<Rightarrow> None)"

text \<open>Markdown and HTML of a page\<close>

definition scrape_url :: "api_reply \<Rightarrow> json \<times> json" where
  "scrape_url r = (case body_of r of None \<Rightarrow> (JNull, JNull)
     | Some d \<Rightarrow> (case get_or d ''data'' (JDict []) of JDict x \<Rightarrow> (dict_get x ''markdown'', dict_get x ''html'') | _ \<Rightarrow> (JNull, JNull)))"

definition link_of :: "json \<Rightarrow> string list" where
  "link_of item = (let s = (case item of JStr s \<Rightarrow> s | JDict x \<Rightarrow> json_text (or_else (dict_get x ''url'') (dict_get x ''link'')) | _ \<Rightarrow> [])
     in if s = [] then [] else [s])"

definition map_site :: "api_reply \<Rightarrow> string list" where
  "map_site r = (case body_of r of None \<Rightarrow> []
     | Some d \<Rightarrow> (let data = get_or d ''data'' (JList []);
           candidates = (case data of JDict x \<Rightarrow> or_else (or_else (dict_get x ''links'') (dict_get x ''urls'')) (JList []) | _ \<Rightarrow> data)
         in case json_items candidates of None \<Rightarrow> [] | Some xs \<Rightarrow> concat (map link_of xs)))"

section \<open>Crawls\<close>

definition crawled_page :: "json \<Rightarrow> string list option" where
  "crawled_page p = (case p of JDict x \<Rightarrow> Some (if truthy (dict_get x ''markdown'') then [json_text (dict_get x ''markdown'')] else []) | _ \<Rightarrow> None)"

definition pages_of :: "json \<Rightarrow> string list" where
  "pages_of data = (case json_items data of None \<Rightarrow> [] | Some ps \<Rightarrow> if None \<in> set (map crawled_page ps) then []
     else concat (map (\<lambda>p. coalesce (crawled_page p) []) ps))"

text \<open>Thirty polls, two seconds apart; a status other than 200 counts as a poll.\<close>

fun poll_crawl :: "(nat \<Rightarrow> api_reply) \<Rightarrow> nat \<Rightarrow> nat \<Rightarrow> string list" where
  "poll_crawl status i 0 = []"
| "poll_crawl status i (Suc n) = (case status i of
     None \<Rightarrow> []
   | Some (code, body) \<Rightarrow> if code \<noteq> 200 then poll_crawl status (i + 1) n
       else (case body of Some (JDict d) \<Rightarrow>
           if dict_get d ''status'' = JStr ''completed'' then pages_of (get_or d ''data'' (JList []))
           else if dict_get d ''status'' = JStr ''failed'' then []
           else poll_crawl status (i + 1) n
         | _ \<Rightarrow> []))"

definition crawl_site :: "api_reply \<Rightarrow> (json \<Rightarrow> nat \<Rightarrow> api_reply) \<Rightarrow> string list" where
  "crawl_site started status = (case body_of started of None \<Rightarrow> []
     | Some d \<Rightarrow> if truthy (dict_get d ''id'') then poll_crawl (status (dict_get d ''id'')) 0 30 else [])"

section \<open>Job boards\<close>

definition company_slug :: "string \<Rightarrow> string" where
  "company_slug name = py_replace ''_'' [] (py_replace ''-'' [] (py_replace '' '' [] (py_lower name)))"

definition job_board_urls :: "string \<Rightarrow> string list" where
  "job_board_urls name = map (\<lambda>host. host @ company_slug name)
     [''https://boards.greenhouse.io/'', ''https://jobs.lever.co/'', ''https://jobs.ashbyhq.com/'']"

definition block_rule :: string where
  "block_rule = nl @ nl @ ''---'' @ nl @ nl"

definition job_block :: "string \<Rightarrow> string \<Rightarrow> string" where
  "job_block url content = ''## Jobs from '' @ url @ nl @ nl @ take 8000 content"

text \<open>Boards with little text and boards that repeat the first 200 characters of another are passed over.\<close>

fun job_contents :: "string list \<Rightarrow> (string \<times> string) list \<Rightarrow> string list" where
  "job_contents seen [] = []"
| "job_contents seen ((url, content) # rest) =
     (if 500 < length content \<and> take 200 content \<notin> set seen
      then job_block url content # job_contents (take 200 content # seen) rest
      else job_contents seen rest)"

definition scrape_job_board :: "(string \<Rightarrow> api_reply) \<Rightarrow> string \<Rightarrow> string option" where
  "scrape_job_board scrape name = (let parts = take 3 (job_contents []
       (map (\<lambda>url. (url, json_text (fst (scrape_url (scrape url))))) (job_board_urls name)))
     in if parts = [] then None else Some (py_join block_rule parts))"

section \<open>Search\<close>

definition search_part :: "json \<Rightarrow> string list option" where
  "search_part result = (case result of JDict x \<Rightarrow>
       Some (let markdown = get_or x ''markdown'' (JStr []) in if truthy markdown
         then [''### '' @ as_shown (get_or x ''title'' (JStr [])) @ nl @ ''Source: '' @ as_shown (get_or x ''url'' (JStr [])) @ nl @ nl @
               take 3000 (json_text markdown)] else [])
     | _ \<Rightarrow> None)"

definition web_search :: "api_reply \<Rightarrow> string option" where
  "web_search r = (case body_of r of None \<Rightarrow> None
     | Some d \<Rightarrow> (let results = get_or d ''data'' (JList []) in if \<not> truthy results then None
         else (case json_items results of None \<Rightarrow> None | Some xs \<Rightarrow> if None \<in> set (map search_part xs) then None
           else (let parts = concat (map (\<lambda>x. coalesce (search_part x) []) xs)
             in if parts = [] then None else Some (py_join block_rule parts)))))"

section \<open>Site maps\<close>

text \<open>An element: its namespace, its name, its text and its children\<close>

datatype xml = Element string string "string option" "xml list"

fun below :: "xml \<Rightarrow> xml list" where
  "below (Element ns' tag txt kids) = concat (map (\<lambda>c. c # below c) kids)"

definition sitemap_space :: string where
  "sitemap_space = ''http://www.sitemaps.org/schemas/sitemap/0.9''"

fun loc_in :: "string \<Rightarrow> xml \<Rightarrow> bool" where
  "loc_in ns (Element ns' tag txt kids) \<longleftrightarrow> ns' = ns \<and> tag = ''loc''"

fun loc_anywhere :: "xml \<Rightarrow> bool" where
  "loc_anywhere (Element ns' tag txt kids) \<longleftrightarrow> tag = ''loc''"

fun xml_text :: "xml \<Rightarrow> string" where
  "xml_text (Element ns' tag txt kids) = coalesce txt []"

definition locations :: "xml \<Rightarrow> xml list" where
  "locations doc = (let a = filter (loc_in sitemap_space) (below doc); b = filter loc_anywhere (below doc);
       c = filter (loc_in []) (below doc) in if a \<noteq> [] then a else if b \<noteq> [] then b else c)"

definition path_rx :: "rx list \<Rightarrow> rx" where
  "path_rx parts = in_order ([Text_Start, lit ''/''] @ parts @ [Maybe (lit ''/''), Text_End])"

abbreviation dash :: rx where
  "dash \<equiv> Maybe (lit ''-'')"

definition sitemap_patterns :: "(string \<times> rx list) list" where
  "sitemap_patterns = [
     (''careers'', map path_rx [[any_case ''careers''], [any_case ''jobs''], [any_case ''join'', dash, any_case ''us''],
        [any_case ''work'', dash, any_case ''with'', dash, any_case ''us''], [any_case ''openings'']]),
     (''docs'', map path_rx [[any_case ''docs''], [any_case ''api/docs''], [any_case ''documentation''],
        [any_case ''developer'', Maybe (any_case ''s'')], [any_case ''developer'', dash, any_case ''docs'']]),
     (''status'', map path_rx [[any_case ''status''], [any_case ''status-page''], [any_case ''system'', dash, any_case ''status'']]),
     (''platform'', map path_rx [[any_case ''platform''], [any_case ''workspace''], [any_case ''console''], [any_case ''app'']]),
     (''products'', map path_rx [[any_case ''products''], [any_case ''solutions''], [any_case ''services''], [any_case ''features'']]),
     (''security'', map path_rx [[any_case ''security''], [any_case ''trust'']])]"

definition path_matches :: "string \<Rightarrow> string \<Rightarrow> bool" where
  "path_matches url category = (case url_path url of None \<Rightarrow> False
     | Some path \<Rightarrow> list_ex (\<lambda>r. re_found r path) (coalesce (map_of sitemap_patterns category) []))"

definition discover :: "string \<Rightarrow> (string \<times> string) list \<Rightarrow> (string \<times> string) list" where
  "discover url found = fold (\<lambda>category found. if map_of found category = None \<and> path_matches url category
       then found @ [(category, url)] else found) (map fst sitemap_patterns) found"

definition sitemap_urls :: "xml \<Rightarrow> string list" where
  "sitemap_urls doc = filter (\<lambda>u. u \<noteq> []) (map (\<lambda>x. py_strip (xml_text x)) (locations doc))"

text \<open>An address that the parser refuses ends the function with an empty dictionary.\<close>

definition discover_all :: "string list \<Rightarrow> (string \<times> string) list" where
  "discover_all urls = (if list_ex (\<lambda>u. url_path u = None) urls then [] else fold discover urls [])"

definition ok_text :: "(int \<times> string) option \<Rightarrow> string option" where
  "ok_text r = (case r of Some (status, body) \<Rightarrow> if status = 200 then Some body else None | None \<Rightarrow> None)"

text \<open>The index of several maps: its first map is read\<close>

definition sitemap_content :: "(string \<Rightarrow> (int \<times> string) option) \<Rightarrow> (string \<Rightarrow> xml option) \<Rightarrow> string \<Rightarrow> string option" where
  "sitemap_content get parse base = (case ok_text (get (base @ ''/sitemap.xml'')) of None \<Rightarrow> None
     | Some content \<Rightarrow> if \<not> py_in ''<sitemapindex'' content then Some content
         else (case parse content of None \<Rightarrow> None
           | Some doc \<Rightarrow> (case filter (loc_in sitemap_space) (below doc) of [] \<Rightarrow> None
               | x # xs \<Rightarrow> if xml_text x = [] then None else ok_text (get (py_strip (xml_text x))))))"

definition fetch_sitemap :: "(string \<Rightarrow> (int \<times> string) option) \<Rightarrow> (string \<Rightarrow> xml option) \<Rightarrow> string \<Rightarrow> (string \<times> string) list" where
  "fetch_sitemap get parse base = (case sitemap_content get parse base of None \<Rightarrow> []
     | Some content \<Rightarrow> (case parse content of None \<Rightarrow> [] | Some doc \<Rightarrow> discover_all (sitemap_urls doc)))"

section \<open>A company\<close>

record site_reader =
  sr_scrape :: "string \<Rightarrow> api_reply"
  sr_map :: "string \<Rightarrow> api_reply"
  sr_get :: "string \<Rightarrow> (int \<times> string) option"
  sr_xml :: "string \<Rightarrow> xml option"

definition netloc_of :: "string \<Rightarrow> string" where
  "netloc_of url = (let rest = after_scheme (unsafe_removed (dropWhile (\<lambda>c. (of_char c :: nat) \<le> 32) url))
     in if startswith rest ''//'' then until ''/?#'' (drop 2 rest) else [])"

definition with_scheme :: "string \<Rightarrow> string" where
  "with_scheme url = (if startswith url ''http://'' \<or> startswith url ''https://'' then url else ''https://'' @ url)"

text \<open>\<open>None\<close>: the parser of addresses raised. Fields that are not read yet are empty.\<close>

definition scrape_company :: "site_reader \<Rightarrow> string \<Rightarrow> scraped option" where
  "scrape_company r company = (let url = with_scheme company; base = origin_of url; host = py_replace ''www.'' [] (netloc_of url)
     in if url_path url = None then None
        else Some \<lparr>sp_homepage = json_text (fst (scrape_url (sr_scrape r base))),
          sp_jobs = coalesce (scrape_job_board (sr_scrape r) (hd (py_split host ''.''))) [], sp_mentions = [],
          sp_structure = fetch_sitemap (sr_get r) (sr_xml r) base, sp_edgar = [], sp_federal = [], sp_firmographics = []\<rparr>)"

section \<open>What is discovered\<close>

definition discovered :: "string list \<Rightarrow> string \<times> string \<Rightarrow> bool" where
  "discovered urls x \<longleftrightarrow> snd x \<in> set urls \<and> path_matches (snd x) (fst x)"

definition sitemap_ok :: "string list \<Rightarrow> (string \<times> string) list \<Rightarrow> bool" where
  "sitemap_ok urls found \<longleftrightarrow> list_all (discovered urls) found \<and> distinct (map fst found)"

lemma sitemap_ok_step:
  assumes "sitemap_ok urls found" "url \<in> set urls"
  shows "sitemap_ok urls (fold (\<lambda>category found. if map_of found category = None \<and> path_matches url category
       then found @ [(category, url)] else found) categories found)"
  using assms(1)
proof (induction categories arbitrary: found)
  case (Cons c cs)
  have "sitemap_ok urls (if map_of found c = None \<and> path_matches url c then found @ [(c, url)] else found)"
    using Cons.prems assms(2) by (auto simp: sitemap_ok_def discovered_def map_of_eq_None_iff)
  then show ?case using Cons.IH by simp
qed simp

lemma sitemap_ok_discover: "sitemap_ok urls found \<Longrightarrow> url \<in> set urls \<Longrightarrow> sitemap_ok urls (discover url found)"
  unfolding discover_def by (rule sitemap_ok_step)

lemma sitemap_ok_fold: "sitemap_ok urls found \<Longrightarrow> set us \<subseteq> set urls \<Longrightarrow> sitemap_ok urls (fold discover us found)"
  by (induction us arbitrary: found) (auto intro: sitemap_ok_discover)

text \<open>
  every page that the site map yields stands in it and has a path of its category, and a category has one page.
\<close>

theorem sitemap_sound: "sitemap_ok urls (discover_all urls)"
proof -
  have "sitemap_ok urls []" by (simp add: sitemap_ok_def)
  then show ?thesis using sitemap_ok_fold [of urls "[]" urls] by (simp add: discover_all_def)
qed

lemma no_namespace_fallback: "filter loc_anywhere (below doc) = [] \<Longrightarrow> filter (loc_in []) (below doc) = []"
  by (auto simp: filter_empty_conv) (metis loc_anywhere.simps loc_in.elims(2))

lemma job_block_bound: "length (job_block url content) \<le> length url + 8015"
  by (simp add: job_block_def nl_def)

end
