(* ===== verification/Seller_Site.thy ===== *)
theory Seller_Site
  imports Firecrawl Research_Sections
begin

text \<open>
  The profile of a seller from its own site (\<open>services/seller_profile.py\<close>): the pages that are read, the
  JSON cut out of the answer of a language model, and what is kept of it. The model, the template of the prompt
  and \<open>json.loads\<close> are arguments.
\<close>

section \<open>Addresses\<close>

fun single_slashes :: "string \<Rightarrow> string" where
  "single_slashes [] = []"
| "single_slashes (c # s) = (if c = CHR ''/'' \<and> next_is (\<lambda>d. d = CHR ''/'') s then single_slashes s else c # single_slashes s)"

definition clean_path :: "string \<Rightarrow> string" where
  "clean_path path = (let p = single_slashes (if path = [] then ''/'' else path);
       q = (if p \<noteq> ''/'' \<and> endswith p ''/'' then butlast p else p) in if q = ''/'' then [] else q)"

text \<open>\<open>None\<close>: the parser of addresses raised.\<close>

definition canonicalize_url :: "string \<Rightarrow> string option" where
  "canonicalize_url url = (if url = [] then Some [] else (let u = with_scheme url in case url_path u of
     None \<Rightarrow> None
   | Some path \<Rightarrow> if netloc_of u = [] then Some [] else Some (origin_of u @ clean_path path)))"

definition normalize_base_url :: "string \<Rightarrow> string option" where
  "normalize_base_url url = (let u = with_scheme url in if url_path u = None then None else canonicalize_url (origin_of u))"

definition default_company_name :: "string \<Rightarrow> string" where
  "default_company_name base = py_title False (py_replace ''_'' '' '' (py_replace ''-'' '' ''
     (hd (py_split (py_replace ''www.'' [] (netloc_of base)) ''.''))))"

section \<open>Pages\<close>

definition excluded_path_terms :: "string list" where
  "excluded_path_terms = [''/blog'', ''/news'', ''/press'', ''/careers'', ''/jobs'', ''/privacy'', ''/terms'', ''/legal'', ''/contact'',
     ''/login'', ''/signin'', ''/sign-in'', ''/signup'', ''/sign-up'', ''/register'', ''/webinar'', ''/events'', ''/podcast'']"

definition bucket_patterns :: "(string \<times> (string \<times> int) list) list" where
  "bucket_patterns = [
     (''product'', [(''/product'', 10), (''/platform'', 10), (''/features'', 9), (''/software'', 8), (''/service'', 7), (''/how-it-works'', 7),
        (''/overview'', 6), (''/integrations'', 5), (''/docs'', 3)]),
     (''audience'', [(''/solutions'', 10), (''/use-cases'', 10), (''/use-cases'', 10), (''/industries'', 9), (''/customers'', 8), (''/for-'', 7),
        (''/teams'', 7), (''/roles'', 7)]),
     (''proof'', [(''/customers'', 10), (''/case-studies'', 10), (''/testimonials'', 9), (''/pricing'', 8), (''/about'', 6), (''/why-'', 5),
        (''/compare'', 5)])]"

definition lower_path :: "string \<Rightarrow> string" where
  "lower_path url = (let p = coalesce (url_path url) [] in py_lower (if p = [] then ''/'' else p))"

definition is_excluded :: "string \<Rightarrow> bool" where
  "is_excluded url = list_ex (\<lambda>term. py_in term (lower_path url)) excluded_path_terms"

definition score_url :: "string \<Rightarrow> string \<Rightarrow> int" where
  "score_url url bucket = (if is_excluded url then - 1
     else (let path = lower_path url in
       fold (\<lambda>(token, weight) score. if py_in token path then max score weight else score) (coalesce (map_of bucket_patterns bucket) []) 0 +
       (if count_list path (CHR ''/'') \<le> 2 then 1 else 0) + (if length path \<le> 40 then 1 else 0)))"

text \<open>Canonical addresses of the host, each once\<close>

fun own_pages :: "string \<Rightarrow> string set \<Rightarrow> string list \<Rightarrow> string list option" where
  "own_pages host seen [] = Some []"
| "own_pages host seen (url # urls) = (case canonicalize_url url of None \<Rightarrow> None
     | Some c \<Rightarrow> if c = [] \<or> c \<in> seen then own_pages host seen urls
         else if url_path c = None then None
         else if netloc_of c \<noteq> host then own_pages host seen urls
         else map_option ((#) c) (own_pages host (insert c seen) urls))"

definition best_page :: "string list \<Rightarrow> string set \<Rightarrow> string \<Rightarrow> string \<times> int" where
  "best_page pages taken bucket = fold (\<lambda>url (best, top_score). if url \<notin> taken \<and> top_score < score_url url bucket
     then (url, score_url url bucket) else (best, top_score)) pages ([], - 1)"

fun fill_pages :: "string list \<Rightarrow> string set \<Rightarrow> string list \<Rightarrow> string list" where
  "fill_pages [] taken selected = selected"
| "fill_pages (url # pages) taken selected = (if url \<in> taken \<or> is_excluded url then fill_pages pages taken selected
     else if 3 \<le> length (selected @ [url]) then selected @ [url] else fill_pages pages taken (selected @ [url]))"

fun pick_pages :: "string list \<Rightarrow> string list \<Rightarrow> string list \<Rightarrow> string list" where
  "pick_pages pages [] selected = take 3 (fill_pages pages (set selected) selected)"
| "pick_pages pages (bucket # buckets) selected = (case best_page pages (set selected) bucket of (url, score) \<Rightarrow>
     let selected = (if url \<noteq> [] \<and> 0 < score then selected @ [url] else selected)
     in if 3 \<le> length selected then take 3 selected else pick_pages pages buckets selected)"

definition select_profile_urls :: "string \<Rightarrow> string list \<Rightarrow> string list option" where
  "select_profile_urls base urls = (case normalize_base_url base of None \<Rightarrow> None
     | Some home \<Rightarrow> (case own_pages (netloc_of home) {} urls of None \<Rightarrow> None
         | Some pages \<Rightarrow> Some (pick_pages pages [''product'', ''audience'', ''proof''] [home])))"

section \<open>The answer of the model\<close>

text \<open>The first balanced object: the depth, whether a string is open and whether the character before escapes\<close>

fun balanced_end :: "nat \<Rightarrow> bool \<Rightarrow> bool \<Rightarrow> string \<Rightarrow> string \<Rightarrow> string option" where
  "balanced_end depth quoted escaped acc [] = None"
| "balanced_end depth quoted escaped acc (c # s) =
     (if quoted then (if escaped then balanced_end depth True False (c # acc) s
        else if c = CHR 0x5C then balanced_end depth True True (c # acc) s
        else balanced_end depth (c \<noteq> CHR 0x22) False (c # acc) s)
      else if c = CHR 0x22 then balanced_end depth True False (c # acc) s
      else if c = CHR ''{'' then balanced_end (depth + 1) False False (c # acc) s
      else if c = CHR ''}'' then (if depth = 1 then Some (rev (c # acc)) else balanced_end (depth - 1) False False (c # acc) s)
      else balanced_end depth False False (c # acc) s)"

definition extract_json :: "string \<Rightarrow> string option" where
  "extract_json answer = (let s = py_strip answer in
     if startswith s ''{'' \<and> endswith s ''}'' then Some s
     else balanced_end 0 False False [] (dropWhile (\<lambda>c. c \<noteq> CHR ''{'') s))"

definition short_text :: "nat \<Rightarrow> json \<Rightarrow> string" where
  "short_text limit value = (case value of JStr s \<Rightarrow> take limit (py_join '' '' (words s)) | _ \<Rightarrow> [])"

fun clean_items :: "nat \<Rightarrow> string set \<Rightarrow> json list \<Rightarrow> string list" where
  "clean_items 0 seen items = []"
| "clean_items (Suc n) seen [] = []"
| "clean_items (Suc n) seen (item # items) = (let s = short_text 120 item in
     if s = [] \<or> py_lower s \<in> seen then clean_items (Suc n) seen items else s # clean_items n (insert (py_lower s) seen) items)"

definition clean_list :: "nat \<Rightarrow> json \<Rightarrow> string list" where
  "clean_list n value = (case value of JList items \<Rightarrow> clean_items n {} items | _ \<Rightarrow> [])"

record seller_profile =
  se_one_liner :: string
  se_problems :: "string list"
  se_personas :: "string list"
  se_industries :: "string list"
  se_sizes :: "string list"
  se_differentiators :: "string list"
  se_proofs :: "string list"
  se_keywords :: "string list"
  se_notes :: string
  se_pages :: "string list"

definition sanitize_profile :: "(string \<times> json) list \<Rightarrow> seller_profile" where
  "sanitize_profile d = \<lparr>se_one_liner = short_text 240 (dict_get d ''one_liner''),
     se_problems = clean_list 6 (dict_get d ''problems_solved''), se_personas = clean_list 6 (dict_get d ''target_personas''),
     se_industries = clean_list 6 (dict_get d ''target_industries''), se_sizes = clean_list 4 (dict_get d ''target_company_sizes''),
     se_differentiators = clean_list 6 (dict_get d ''differentiators''), se_proofs = clean_list 6 (dict_get d ''proof_points''),
     se_keywords = clean_list 8 (dict_get d ''keywords_to_seek''), se_notes = short_text 200 (dict_get d ''notes''), se_pages = []\<rparr>"

definition plain_text :: "string \<Rightarrow> string" where
  "plain_text s = (let tick = lit ''`''; ticks = in_order [tick, Maybe (in_order [tick, Maybe tick])];
       s = re_sub_with (\<lambda>gs. '' '') (in_order [ticks, Lazy any_char, ticks]) s;
       s = re_sub_with (\<lambda>gs. '' '') (in_order [lit ''!['', Star (\<lambda>c. c \<noteq> CHR '']''), lit ''](''
             , many1 (\<lambda>c. c \<noteq> CHR '')''), lit '')'']) s;
       s = re_sub_with (\<lambda>gs. '' '') (in_order [lit ''['', many1 (\<lambda>c. c \<noteq> CHR '']''), lit ''](''
             , many1 (\<lambda>c. c \<noteq> CHR '')''), lit '')'']) s;
       s = map (\<lambda>c. if c \<in> set ''#>*_'' then CHR '' '' else c) s
     in py_join '' '' (words s))"

definition fallback_profile :: "(string \<times> string) list \<Rightarrow> seller_profile" where
  "fallback_profile pages = \<lparr>se_one_liner = take 220 (plain_text (case pages of [] \<Rightarrow> [] | (url, content) # rest \<Rightarrow> content)),
     se_problems = [], se_personas = [], se_industries = [], se_sizes = [], se_differentiators = [], se_proofs = [], se_keywords = [],
     se_notes = [], se_pages = []\<rparr>"

text \<open>The model: \<open>None\<close> when the call raises or brings no choice. A api_reply without text is an empty content.\<close>

record profile_model =
  pm_key :: string
  pm_prompt :: "string \<Rightarrow> string \<Rightarrow> string \<Rightarrow> string"
  pm_answer :: "string \<Rightarrow> string option"
  pm_loads :: "string \<Rightarrow> json option"

definition page_block :: "string \<times> string \<Rightarrow> string" where
  "page_block x = (case x of (url, content) \<Rightarrow> ''URL: '' @ url @ nl @ nl @ content)"

definition synthesize_profile :: "profile_model \<Rightarrow> string \<Rightarrow> string \<Rightarrow> (string \<times> string) list \<Rightarrow> seller_profile" where
  "synthesize_profile m company website pages = (if pm_key m = [] then fallback_profile pages
     else (case pm_answer m (py_strip (pm_prompt m company website (py_join nl (map page_block pages)))) of
       None \<Rightarrow> fallback_profile pages
     | Some content \<Rightarrow> (case extract_json content of None \<Rightarrow> fallback_profile pages
         | Some s \<Rightarrow> (case pm_loads m s of Some (JDict d) \<Rightarrow> sanitize_profile d | _ \<Rightarrow> fallback_profile pages))))"

definition read_pages :: "site_reader \<Rightarrow> string list \<Rightarrow> (string \<times> string) list" where
  "read_pages r urls = concat (map (\<lambda>url. let s = json_text (fst (scrape_url (sr_scrape r url))) in if s = [] then [] else [(url, take 6000 s)]) urls)"

definition build_profile :: "site_reader \<Rightarrow> profile_model \<Rightarrow> string \<Rightarrow> string \<Rightarrow> seller_profile option" where
  "build_profile r m website company = (case normalize_base_url website of None \<Rightarrow> None
     | Some home \<Rightarrow> (case select_profile_urls home
           ([home] @ map_site (sr_map r home) @ filter (\<lambda>u. u \<noteq> []) (map snd (fetch_sitemap (sr_get r) (sr_xml r) home))) of
         None \<Rightarrow> None
       | Some urls \<Rightarrow> (let pages = read_pages r urls in
           Some (if pages = [] then (fallback_profile [])\<lparr>se_one_liner := [], se_pages := take 1 urls\<rparr>
             else (synthesize_profile m (if company = [] then default_company_name home else company) home pages)\<lparr>se_pages := map fst pages\<rparr>))))"

section \<open>What is stored\<close>

definition profile_json :: "seller_profile \<Rightarrow> (string \<times> json) list" where
  "profile_json p = (let texts = \<lambda>xs. JList (map JStr xs) in
     [(''one_liner'', JStr (se_one_liner p)), (''problems_solved'', texts (se_problems p)), (''target_personas'', texts (se_personas p)),
      (''target_industries'', texts (se_industries p)), (''target_company_sizes'', texts (se_sizes p)),
      (''differentiators'', texts (se_differentiators p)), (''proof_points'', texts (se_proofs p)), (''keywords_to_seek'', texts (se_keywords p)),
      (''notes'', JStr (se_notes p)), (''source_pages'', texts (se_pages p))])"

section \<open>Which pages are read\<close>

lemma own_pages_host:
  "own_pages host seen urls = Some pages \<Longrightarrow> distinct pages \<and> set pages \<inter> seen = {} \<and> [] \<notin> set pages \<and> (\<forall>u \<in> set pages. netloc_of u = host)"
proof (induction host seen urls arbitrary: pages rule: own_pages.induct)
  case (2 host seen url urls)
  show ?case
  proof (cases "canonicalize_url url")
    case None
    with "2.prems" show ?thesis by simp
  next
    case (Some c)
    consider (skip) "c = [] \<or> c \<in> seen" | (stop) "\<not> (c = [] \<or> c \<in> seen)" "url_path c = None"
      | (other) "\<not> (c = [] \<or> c \<in> seen)" "url_path c \<noteq> None" "netloc_of c \<noteq> host"
      | (own) "\<not> (c = [] \<or> c \<in> seen)" "url_path c \<noteq> None" "netloc_of c = host" by blast
    then show ?thesis
    proof cases
      case skip
      with "2.IH"(1) [OF Some skip] "2.prems" Some show ?thesis by simp
    next
      case stop
      with "2.prems" Some show ?thesis by simp
    next
      case other
      with "2.IH"(2) [OF Some other(1,2,3)] "2.prems" Some show ?thesis by simp
    next
      case own
      then obtain rest where "own_pages host (insert c seen) urls = Some rest" "pages = c # rest"
        using "2.prems" Some by auto
      with "2.IH"(3) [OF Some own(1,2)] own show ?thesis by auto
    qed
  qed
qed simp

lemma best_page_cases:
  assumes "best_page pages taken bucket = (url, score)" "0 < score"
  shows "url \<in> set pages \<and> url \<notin> taken \<and> \<not> is_excluded url"
proof -
  have "case fold (\<lambda>url (best, top_score). if url \<notin> taken \<and> top_score < score_url url bucket
       then (url, score_url url bucket) else (best, top_score)) us (b, t) of (url, score) \<Rightarrow>
     (url, score) = (b, t) \<or> url \<in> set us \<and> url \<notin> taken \<and> score = score_url url bucket" for us b t
  proof (induction us arbitrary: b t)
    case (Cons u us)
    show ?case using Cons.IH [of u "score_url u bucket"] Cons.IH [of b t] by (auto split: prod.splits)
  qed simp
  from this [where us = pages and b = "[]" and t = "- 1"] assms have "url \<in> set pages \<and> url \<notin> taken \<and> score = score_url url bucket"
    by (auto simp: best_page_def split: prod.splits)
  with assms(2) show ?thesis by (auto simp: score_url_def)
qed

text \<open>The pages chosen after the home page: of the host, not excluded, at most two, each once\<close>

definition chosen :: "string \<Rightarrow> string list \<Rightarrow> bool" where
  "chosen home urls \<longleftrightarrow> (\<exists>rest. urls = home # rest \<and> distinct urls \<and> length urls \<le> 3 \<and>
     list_all (\<lambda>u. netloc_of u = netloc_of home \<and> \<not> is_excluded u) rest)"

lemma chosen_append:
  "chosen home urls \<Longrightarrow> length urls < 3 \<Longrightarrow> u \<notin> set urls \<Longrightarrow> netloc_of u = netloc_of home \<Longrightarrow> \<not> is_excluded u \<Longrightarrow> chosen home (urls @ [u])"
  by (auto simp: chosen_def)

lemma chosen_take: "chosen home urls \<Longrightarrow> take 3 urls = urls"
  by (auto simp: chosen_def)

lemma fill_chosen:
  "chosen home selected \<Longrightarrow> length selected < 3 \<Longrightarrow> distinct pages \<Longrightarrow> set selected \<subseteq> taken \<union> - set pages \<Longrightarrow>
   (\<forall>u \<in> set pages. netloc_of u = netloc_of home) \<Longrightarrow> chosen home (fill_pages pages taken selected)"
proof (induction pages taken selected rule: fill_pages.induct)
  case (2 url pages taken selected)
  show ?case
  proof (cases "url \<in> taken \<or> is_excluded url")
    case True
    with 2 show ?thesis by auto
  next
    case False
    with "2.prems" have c: "chosen home (selected @ [url])" by (intro chosen_append) auto
    show ?thesis
    proof (cases "3 \<le> length (selected @ [url])")
      case True
      with c False show ?thesis by simp
    next
      case shorter: False
      have "chosen home (fill_pages pages taken (selected @ [url]))"
        by (rule "2.IH"(2)) (use "2.prems" False shorter c in auto)
      with False shorter show ?thesis by simp
    qed
  qed
qed simp

lemma pick_chosen:
  "chosen home selected \<Longrightarrow> length selected < 3 \<Longrightarrow> distinct pages \<Longrightarrow> [] \<notin> set pages \<Longrightarrow>
   (\<forall>u \<in> set pages. netloc_of u = netloc_of home) \<Longrightarrow> chosen home (pick_pages pages buckets selected)"
proof (induction buckets arbitrary: selected)
  case Nil
  then have "chosen home (fill_pages pages (set selected) selected)" by (intro fill_chosen) auto
  then show ?case by (simp add: chosen_take)
next
  case (Cons bucket buckets)
  obtain url score where b: "best_page pages (set selected) bucket = (url, score)" by (cases "best_page pages (set selected) bucket")
  let ?sel = "if url \<noteq> [] \<and> 0 < score then selected @ [url] else selected"
  have c: "chosen home ?sel" using Cons.prems best_page_cases [OF b] by (auto intro: chosen_append)
  show ?case
  proof (cases "3 \<le> length ?sel")
    case True
    then show ?thesis using chosen_take [OF c] c b by (simp add: Let_def)
  next
    case False
    then have "chosen home (pick_pages pages buckets ?sel)" using Cons.IH [OF c] Cons.prems by auto
    with False b show ?thesis by (simp add: Let_def)
  qed
qed

lemma select_chosen:
  assumes "normalize_base_url base = Some home" "select_profile_urls base urls = Some selected"
  shows "chosen home selected"
proof -
  obtain pages where p: "own_pages (netloc_of home) {} urls = Some pages"
    "selected = pick_pages pages [''product'', ''audience'', ''proof''] [home]"
    using assms by (auto simp: select_profile_urls_def split: option.splits)
  show ?thesis unfolding p(2)
    by (rule pick_chosen) (use own_pages_host [OF p(1)] in \<open>auto simp: chosen_def\<close>)
qed

text \<open>
  whatever the map and the site map of the seller hold, the pages that are read are the home page and at most
  two others of its host, none twice and none excluded.
\<close>

theorem profile_pages_chosen:
  "case normalize_base_url base of None \<Rightarrow> select_profile_urls base urls = None
   | Some home \<Rightarrow> (case select_profile_urls base urls of None \<Rightarrow> True | Some selected \<Rightarrow> chosen home selected)"
proof (cases "normalize_base_url base")
  case None
  then show ?thesis by (simp add: select_profile_urls_def)
next
  case (Some home)
  then show ?thesis using select_chosen by (auto split: option.split)
qed

section \<open>What is kept of the answer\<close>

lemma balanced_end_ends: "balanced_end depth quoted escaped acc s = Some r \<Longrightarrow> \<exists>mid rest. r = rev acc @ mid @ ''}'' \<and> s = mid @ ''}'' @ rest"
proof (induction depth quoted escaped acc s rule: balanced_end.induct)
  case (2 depth quoted escaped acc c s)
  then have "r = rev (c # acc) \<and> c = CHR ''}'' \<or> (\<exists>mid rest. r = rev (c # acc) @ mid @ ''}'' \<and> s = mid @ ''}'' @ rest)"
    by (auto split: if_splits)
  then show ?case
  proof
    assume "r = rev (c # acc) \<and> c = CHR ''}''"
    then show ?thesis by (intro exI [of _ "[]"] exI [of _ s]) simp
  next
    assume "\<exists>mid rest. r = rev (c # acc) @ mid @ ''}'' \<and> s = mid @ ''}'' @ rest"
    then obtain mid rest where "r = rev (c # acc) @ mid @ ''}''" "s = mid @ ''}'' @ rest" by blast
    then show ?thesis by (intro exI [of _ "c # mid"] exI [of _ rest]) simp
  qed
qed simp

lemma short_text_length: "length (short_text n v) \<le> n"
  by (simp add: short_text_def split: json.split)

definition texts_within :: "nat \<Rightarrow> string list \<Rightarrow> bool" where
  "texts_within n xs \<longleftrightarrow> length xs \<le> n \<and> distinct (map py_lower xs) \<and> list_all (\<lambda>s. s \<noteq> [] \<and> length s \<le> 120) xs"

lemma clean_items_within: "texts_within n (clean_items n seen items) \<and> py_lower ` set (clean_items n seen items) \<inter> seen = {}"
proof (induction n seen items rule: clean_items.induct)
  case (3 n seen item items)
  let ?s = "short_text 120 item"
  show ?case
  proof (cases "?s = [] \<or> py_lower ?s \<in> seen")
    case True
    then show ?thesis using 3(1) by auto
  next
    case False
    then show ?thesis using 3(2) short_text_length [of 120 item] by (auto simp: texts_within_def Let_def)
  qed
qed (auto simp: texts_within_def)

lemma clean_list_within [simp]: "texts_within n (clean_list n v)"
  using clean_items_within by (simp add: clean_list_def texts_within_def split: json.split)

lemma texts_within_Nil [simp]: "texts_within n []"
  by (simp add: texts_within_def)

definition profile_within :: "seller_profile \<Rightarrow> bool" where
  "profile_within p \<longleftrightarrow> length (se_one_liner p) \<le> 240 \<and> texts_within 6 (se_problems p) \<and> texts_within 6 (se_personas p) \<and>
     texts_within 6 (se_industries p) \<and> texts_within 4 (se_sizes p) \<and> texts_within 6 (se_differentiators p) \<and> texts_within 6 (se_proofs p) \<and>
     texts_within 8 (se_keywords p) \<and> length (se_notes p) \<le> 200"

lemma fallback_within [simp]: "profile_within (fallback_profile pages)"
  by (simp add: profile_within_def fallback_profile_def)

lemma sanitize_within [simp]: "profile_within (sanitize_profile d)"
  by (simp add: profile_within_def sanitize_profile_def short_text_length)

lemma synthesize_within: "profile_within (synthesize_profile m company website pages)"
  by (simp add: synthesize_profile_def split: option.split json.split)

lemma within_pages [simp]: "profile_within (p\<lparr>se_pages := xs\<rparr>) = profile_within p"
  by (simp add: profile_within_def)

lemma within_no_text: "profile_within p \<Longrightarrow> profile_within (p\<lparr>se_one_liner := []\<rparr>)"
  by (simp add: profile_within_def)

lemma read_pages_urls: "map fst (read_pages r urls) = filter (\<lambda>u. json_text (fst (scrape_url (sr_scrape r u))) \<noteq> []) urls"
  unfolding read_pages_def by (induction urls) (auto simp: Let_def)

lemma field_line_texts: "map_of d k = Some (JList (map JStr xs)) \<Longrightarrow> field_line d k label n \<noteq> None"
  by (simp add: field_line_def list_field_def dict_get_def or_else_def)

lemma text_line_text: "map_of d k = Some (JStr s) \<Longrightarrow> text_line d k label \<noteq> None"
  by (simp add: text_line_def strip_field_def dict_get_def or_else_def)

lemma concat_options_Some: "None \<notin> set xs \<Longrightarrow> concat_options xs \<noteq> None"
  by (induction xs rule: concat_options.induct) auto

lemma profile_json_fields:
  "map_of (profile_json p) ''one_liner'' = Some (JStr (se_one_liner p))"
  "map_of (profile_json p) ''problems_solved'' = Some (JList (map JStr (se_problems p)))"
  "map_of (profile_json p) ''target_personas'' = Some (JList (map JStr (se_personas p)))"
  "map_of (profile_json p) ''target_industries'' = Some (JList (map JStr (se_industries p)))"
  "map_of (profile_json p) ''target_company_sizes'' = Some (JList (map JStr (se_sizes p)))"
  "map_of (profile_json p) ''differentiators'' = Some (JList (map JStr (se_differentiators p)))"
  "map_of (profile_json p) ''proof_points'' = Some (JList (map JStr (se_proofs p)))"
  "map_of (profile_json p) ''keywords_to_seek'' = Some (JList (map JStr (se_keywords p)))"
  "map_of (profile_json p) ''notes'' = Some (JStr (se_notes p))"
  "map_of (profile_json p) ''source_pages'' = Some (JList (map JStr (se_pages p)))"
  by (simp_all add: profile_json_def Let_def)

lemma context_of_profile: "build_seller_profile_context loads (JDict (profile_json p)) \<noteq> None"
proof -
  have "None \<notin> set [text_line (profile_json p) ''one_liner'' l0, field_line (profile_json p) ''problems_solved'' l1 n1,
      field_line (profile_json p) ''target_personas'' l2 n2, field_line (profile_json p) ''target_industries'' l3 n3,
      field_line (profile_json p) ''target_company_sizes'' l4 n4, field_line (profile_json p) ''differentiators'' l5 n5,
      field_line (profile_json p) ''proof_points'' l6 n6, field_line (profile_json p) ''keywords_to_seek'' l7 n7,
      text_line (profile_json p) ''notes'' l8, field_line (profile_json p) ''source_pages'' l9 n9]" for l0 l1 l2 l3 l4 l5 l6 l7 l8 l9 n1 n2 n3 n4 n5 n6 n7 n9
    unfolding set_simps insert_iff de_Morgan_disj
    by (intro conjI not_sym [OF field_line_texts] not_sym [OF text_line_text]; (rule profile_json_fields | simp))
  then have "seller_profile_lines (profile_json p) \<noteq> None"
    unfolding seller_profile_lines_def by (rule concat_options_Some)
  then show ?thesis by (auto simp: build_seller_profile_context_def)
qed

text \<open>
  C16: whatever the site and the language model answer, a profile keeps the limits of its fields, names one to three
  pages of the seller's own host, and gives a context for the prompts when it is read back.
\<close>

theorem seller_profile_within:
  "case build_profile r m website company of None \<Rightarrow> True
   | Some p \<Rightarrow> profile_within p \<and> se_pages p \<noteq> [] \<and> length (se_pages p) \<le> 3 \<and> distinct (se_pages p) \<and>
       build_seller_profile_context loads (JDict (profile_json p)) \<noteq> None"
proof (cases "build_profile r m website company")
  case (Some p)
  then obtain home urls where h: "normalize_base_url website = Some home" "\<exists>candidates. select_profile_urls home candidates = Some urls"
    and p: "p = (let pages = read_pages r urls in if pages = [] then (fallback_profile [])\<lparr>se_one_liner := [], se_pages := take 1 urls\<rparr>
         else (synthesize_profile m (if company = [] then default_company_name home else company) home pages)\<lparr>se_pages := map fst pages\<rparr>)"
    by (auto simp: build_profile_def Let_def split: option.splits)
  from h(2) obtain home' where "chosen home' urls"
    using select_chosen by (fastforce simp: select_profile_urls_def split: option.splits)
  then have u: "urls \<noteq> []" "length urls \<le> 3" "distinct urls" by (auto simp: chosen_def)
  have k: "map fst (read_pages r urls) = filter (\<lambda>u. json_text (fst (scrape_url (sr_scrape r u))) \<noteq> []) urls"
    by (rule read_pages_urls)
  have n: "length (map fst (read_pages r urls)) \<le> 3" "distinct (map fst (read_pages r urls))"
    unfolding k using u by (simp_all add: order_trans [OF length_filter_le])
  have "profile_within p" by (simp add: p Let_def synthesize_within within_no_text)
  moreover have "se_pages p \<noteq> [] \<and> length (se_pages p) \<le> 3 \<and> distinct (se_pages p)"
    using n u by (simp add: p Let_def min_le_iff_disj)
  ultimately show ?thesis using Some context_of_profile by simp
qed simp

end
