(* ===== verification/Collection.thy ===== *)
theory Collection
  imports Firecrawl Research_Writer
begin

text \<open>
  What is collected around a site: filings of the SEC (\<open>services/edgar.py\<close>), coming regulations
  (\<open>services/federal_register.py\<close>), both for a prompt (\<open>services/collect.py\<close>), and what the web says
  (\<open>services/perplexity.py\<close>). The network is an argument; the services are objects of the process, their
  caches and the industry code seen last are a state.
\<close>

section \<open>The companies of the SEC\<close>

record ticker_entry =
  tk_title :: string
  tk_symbol :: string
  tk_number :: nat

record sec_company =
  sc_cik :: string
  sc_ticker :: string
  sc_title :: string

type_synonym sec_table = "(string \<times> sec_company) list"

definition zero_filled :: "nat \<Rightarrow> string \<Rightarrow> string" where
  "zero_filled n s = replicate (n - length s) (CHR ''0'') @ s"

definition py_upper :: "string \<Rightarrow> string" where
  "py_upper s = map upper_of s"

definition company_record :: "ticker_entry \<Rightarrow> sec_company" where
  "company_record e = \<lparr>sc_cik = zero_filled 10 (str_nat (tk_number e)), sc_ticker = py_strip (py_upper (tk_symbol e)), sc_title = tk_title e\<rparr>"

definition build_lookup :: "ticker_entry list \<Rightarrow> sec_table" where
  "build_lookup entries = fold (\<lambda>e table. put (py_lower (sc_ticker (company_record e))) (company_record e)
     (put (py_strip (py_lower (tk_title e))) (company_record e) table)) entries []"

definition domain_suffixes :: "string list" where
  "domain_suffixes = [''.com'', ''.io'', ''.ai'', ''.co'', ''.org'', ''.net'', ''.dev'', ''.so'', ''.app'']"

definition fillers :: "string list" where
  "fillers = [''hq'', ''app'', ''inc'', ''corp'', ''global'', ''official'']"

definition added_suffixes :: "string list" where
  "added_suffixes = ['', inc.'', '', inc'', '' inc.'', '' inc'', '', corp.'', '', corp'', '' corp.'', '' corp'', '', ltd.'', '', ltd'', '' ltd.'', '' ltd'',
     '', llc'', '' llc'', '', co.'', '' co.'']"

definition removed_suffixes :: "string list" where
  "removed_suffixes = ['', inc.'', '', inc'', '' inc.'', '' inc'', '', corp.'', '' corp.'', '', ltd.'', '' ltd.'', '', llc'', '' llc'']"

definition without :: "string \<Rightarrow> string \<Rightarrow> string" where
  "without s ending = take (length s - length ending) s"

definition strip_domain :: "string \<Rightarrow> string" where
  "strip_domain name = (case find (endswith name) domain_suffixes of None \<Rightarrow> name | Some s \<Rightarrow> py_strip (without name s))"

text \<open>The names that are looked up in turn\<close>

definition lookups :: "string \<Rightarrow> string list" where
  "lookups name =
     concat (map (\<lambda>f. if endswith name f \<and> length f + 2 < length name
         then (let c = without name f in [c, c @ '', inc.'', c @ '' inc.'']) else []) fillers) @
     [name] @ map (\<lambda>s. name @ s) added_suffixes @
     map (\<lambda>s. py_strip (without name s)) (filter (endswith name) removed_suffixes)"

definition first_found :: "string list \<Rightarrow> sec_table \<Rightarrow> sec_company option" where
  "first_found names table = (case concat (map (\<lambda>n. case map_of table n of None \<Rightarrow> [] | Some r \<Rightarrow> [r]) names) of [] \<Rightarrow> None | r # rs \<Rightarrow> Some r)"

definition title_matches :: "string \<Rightarrow> sec_table \<Rightarrow> (nat \<times> sec_company) list" where
  "title_matches name table = map (\<lambda>(k, r). (length k, r))
     (filter (\<lambda>(k, r). 3 \<le> length k \<and> (startswith (py_lower (sc_title r)) name \<or> name = k)) table)"

definition match_company :: "string \<Rightarrow> sec_table \<Rightarrow> sec_company option" where
  "match_company company table = (let name = strip_domain (py_strip (py_lower company)) in
     case first_found (lookups name) table of Some r \<Rightarrow> Some r
     | None \<Rightarrow> (case sort_key fst (title_matches name table) of [] \<Rightarrow> None | (n, r) # rest \<Rightarrow> Some r))"

section \<open>Filings\<close>

record submissions =
  su_name :: "string option"
  su_sic :: "string option"
  su_industry :: "string option"
  su_state :: "string option"
  su_category :: "string option"
  su_forms :: "string list"
  su_dates :: "string list"
  su_items :: "string list"
  su_reports :: "string list"
  su_accessions :: "string list"
  su_documents :: "string list"

definition trigger_items :: "(string \<times> string) list" where
  "trigger_items = [
     (''1.01'', ''Entry into a Material Definitive Agreement''), (''1.02'', ''Termination of a Material Definitive Agreement''),
     (''1.03'', ''Bankruptcy or Receivership''), (''2.01'', ''Completion of Acquisition or Disposition of Assets''),
     (''2.02'', ''Results of Operations and Financial Condition''), (''2.05'', ''Costs Associated with Exit or Disposal Activities''),
     (''2.06'', ''Material Impairments''), (''3.01'', ''Notice of Delisting or Failure to Satisfy Listing Rule''),
     (''4.01'', ''Changes in Registrant's Certifying Accountant''), (''4.02'', ''Non-Reliance on Previously Issued Financial Statements''),
     (''5.01'', ''Changes in Control of Registrant''),
     (''5.02'', ''Departure of Directors or Certain Officers; Election of Directors; Appointment of Certain Officers''),
     (''5.03'', ''Amendments to Articles of Incorporation or Bylaws''), (''7.01'', ''Regulation FD Disclosure''), (''8.01'', ''Other Events'')]"

definition high_signal_items :: "string list" where
  "high_signal_items = [''1.01'', ''1.02'', ''1.03'', ''2.01'', ''2.05'', ''2.06'', ''4.01'', ''4.02'', ''5.01'', ''5.02'']"

definition nth_or_empty :: "string list \<Rightarrow> nat \<Rightarrow> string" where
  "nth_or_empty xs i = (if i < length xs then xs ! i else [])"

definition bolt :: string where
  "bolt = [CHR 0x20, CHR 0xE2, CHR 0x9A, CHR 0xA1]"

definition event_line :: "string \<Rightarrow> string \<Rightarrow> string list" where
  "event_line date items = (let codes = filter (\<lambda>c. c \<noteq> []) (map py_strip (py_split items '',''));
       labels = concat (map (\<lambda>c. case map_of trigger_items c of None \<Rightarrow> [] | Some t \<Rightarrow> [c @ '': '' @ t]) codes)
     in if labels = [] then []
        else [''- **'' @ date @ ''**'' @ (if list_ex (\<lambda>c. c \<in> set high_signal_items) codes then bolt else []) @ '': '' @ py_join ''; '' labels])"

definition extract_8k_events :: "submissions \<Rightarrow> string option" where
  "extract_8k_events s = (let events = take 10 (concat (map (\<lambda>i. if su_forms s ! i = ''8-K'' \<and> i < length (su_dates s)
         then event_line (su_dates s ! i) (nth_or_empty (su_items s) i) else []) [0..<length (su_forms s)]))
     in if events = [] then None else Some (py_join nl ([''### Recent 8-K Filings (Material Events)''] @ events @ [[]])))"

text \<open>At most two annual and three quarterly reports\<close>

fun annual_lines :: "nat \<Rightarrow> nat \<Rightarrow> (string \<times> string \<times> string) list \<Rightarrow> string list" where
  "annual_lines k q [] = []"
| "annual_lines k q ((form, filed, period) # rest) = (let tail = ''Filed '' @ filed @ '', period ending '' @ period in
     if form = ''10-K'' \<and> k < 2 then (''- **10-K** (Annual Report): '' @ tail) # (if 2 \<le> k + 1 \<and> 3 \<le> q then [] else annual_lines (k + 1) q rest)
     else if form = ''10-Q'' \<and> q < 3 then (''- **10-Q** (Quarterly Report): '' @ tail) # (if 2 \<le> k \<and> 3 \<le> q + 1 then [] else annual_lines k (q + 1) rest)
     else annual_lines k q rest)"

definition extract_annual_filings :: "submissions \<Rightarrow> string option" where
  "extract_annual_filings s = (let ls = annual_lines 0 0 (map (\<lambda>i. (su_forms s ! i, su_dates s ! i, nth_or_empty (su_reports s) i))
         [0..<min (length (su_forms s)) (length (su_dates s))])
     in if ls = [] then None else Some (''### Financial Filings'' @ nl @ py_join nl ls @ nl))"

section \<open>Risk factors\<close>

text \<open>The longer dashes are three bytes of the text.\<close>

definition some_dash :: rx where
  "some_dash = Maybe (Or (One (\<lambda>c. c = CHR ''-'' \<or> c = CHR ''.'')) (Or (lit [CHR 0xE2, CHR 0x80, CHR 0x93]) (lit em_dash)))"

definition risk_heading :: rx where
  "risk_heading = in_order [any_case ''item'', many1 is_space, any_case ''1a'', Maybe (lit ''.''), Star is_space, some_dash, Star is_space,
     any_case ''risk'', many1 is_space, any_case ''factors'']"

definition next_heading :: rx where
  "next_heading = in_order [any_case ''item'', many1 is_space, Or (any_case ''1b'') (lit ''2''), Word_Edge]"

definition filing_text :: "string \<Rightarrow> string" where
  "filing_text html = (let s = re_sub_with (\<lambda>gs. '' '') (in_order [lit ''<'', many1 (\<lambda>c. c \<noteq> CHR ''>''), lit ''>'']) html;
       s = re_sub_with (\<lambda>gs. '' '') (in_order [lit ''&'', many1 word_char, lit '';'']) s
     in re_sub_with (\<lambda>gs. '' '') (many1 is_space) s)"

definition before_next :: "string \<Rightarrow> string option" where
  "before_next s = map_option (\<lambda>(p, q). rev (pl_before p)) (re_search next_heading s)"

text \<open>An entry of the table of contents is short.\<close>

definition risk_start :: "string \<Rightarrow> string option" where
  "risk_start s = (case re_finds risk_heading s of [] \<Rightarrow> None
     | ms \<Rightarrow> Some (pl_after (snd (case filter (\<lambda>(p, q). let window = take 2000 (pl_after q)
           in 500 < length (coalesce (before_next window) window)) ms of [] \<Rightarrow> last ms | m # rest \<Rightarrow> m))))"

definition parse_risk_factors :: "string \<Rightarrow> string option" where
  "parse_risk_factors html = (case risk_start (filing_text html) of None \<Rightarrow> None
     | Some s \<Rightarrow> (let risk = py_strip (coalesce (before_next s) (take 8000 s));
           risk = (if 6000 < length risk then take 6000 risk @ nl @ ''[... truncated for brevity]'' else risk)
         in if length risk < 200 then None else Some risk))"

section \<open>The service for filings\<close>

record sec_web =
  sw_tickers :: "(int \<times> ticker_entry list) option"
  sw_submissions :: "string \<Rightarrow> (int \<times> submissions) option"
  sw_document :: "string \<Rightarrow> (int \<times> string) option"

text \<open>The table in memory, the file on disk with its age in seconds at time 0, and the industry code seen last\<close>

record edgar =
  ed_tickers :: "sec_table option"
  ed_disk :: "(int \<times> ticker_entry list) option"
  ed_sic :: "string option"

definition load_disk_cache :: "int \<Rightarrow> edgar \<Rightarrow> ticker_entry list option" where
  "load_disk_cache now s = (case ed_disk s of None \<Rightarrow> None | Some (written, entries) \<Rightarrow> if 86400 < now - written then None else Some entries)"

text \<open>\<open>None\<close>: the request raised. A status other than 200 leaves an empty table.\<close>

definition load_tickers :: "int \<Rightarrow> sec_web \<Rightarrow> edgar \<Rightarrow> sec_table option \<times> edgar" where
  "load_tickers now w s = (case ed_tickers s of Some table \<Rightarrow> (Some table, s)
   | None \<Rightarrow> (case load_disk_cache now s of
       Some entries \<Rightarrow> (Some (build_lookup entries), s\<lparr>ed_tickers := Some (build_lookup entries)\<rparr>)
     | None \<Rightarrow> (case sw_tickers w of None \<Rightarrow> (None, s)
         | Some (status, entries) \<Rightarrow> if status \<noteq> 200 then (Some [], s\<lparr>ed_tickers := Some []\<rparr>)
             else (Some (build_lookup entries), s\<lparr>ed_tickers := Some (build_lookup entries), ed_disk := Some (now, entries)\<rparr>))))"

definition document_url :: "string \<Rightarrow> string \<Rightarrow> string \<Rightarrow> string" where
  "document_url cik accession doc = ''https://www.sec.gov/Archives/edgar/data/'' @ dropWhile (\<lambda>c. c = CHR ''0'') cik @ ''/'' @
     py_replace ''-'' [] accession @ ''/'' @ doc"

definition fetch_risk_factors :: "sec_web \<Rightarrow> string \<Rightarrow> submissions \<Rightarrow> string option" where
  "fetch_risk_factors w cik s = (case filter (\<lambda>i. su_forms s ! i = ''10-K'') [0..<length (su_forms s)] of [] \<Rightarrow> None
     | i # rest \<Rightarrow> if length (su_accessions s) \<le> i \<or> length (su_documents s) \<le> i then None
         else (case sw_document w (document_url cik (su_accessions s ! i) (su_documents s ! i)) of None \<Rightarrow> None
           | Some (status, html) \<Rightarrow> if status \<noteq> 200 then None else parse_risk_factors html))"

definition filled :: "string option \<Rightarrow> string list" where
  "filled x = (case x of None \<Rightarrow> [] | Some s \<Rightarrow> if s = [] then [] else [s])"

definition filings_text :: "sec_web \<Rightarrow> sec_company \<Rightarrow> submissions \<Rightarrow> string" where
  "filings_text w c s = py_join nl (
     [''**Company:** '' @ coalesce (su_name s) (sc_title c) @ '' ('' @ sc_ticker c @ '')'', ''**SIC:** '' @ coalesce (su_industry s) ''Unknown''] @
     map ((@) ''**Incorporated:** '') (filled (su_state s)) @ map ((@) ''**Filer Category:** '') (filled (su_category s)) @ [[]] @
     filled (extract_8k_events s) @ filled (extract_annual_filings s) @
     (case fetch_risk_factors w (sc_cik c) s of None \<Rightarrow> [] | Some risk \<Rightarrow> [''### Risk Factors (from 10-K)'',
        ''(Company's own disclosure of business challenges and threats)'', risk, []]))"

text \<open>An exception yields nothing; what the state had become stays.\<close>

definition get_company_filings :: "int \<Rightarrow> sec_web \<Rightarrow> string \<Rightarrow> edgar \<Rightarrow> string option \<times> edgar" where
  "get_company_filings now w company s = (case load_tickers now w s of (None, s) \<Rightarrow> (None, s)
   | (Some table, s) \<Rightarrow> (case match_company company table of None \<Rightarrow> (None, s)
     | Some c \<Rightarrow> (case sw_submissions w (sc_cik c) of None \<Rightarrow> (None, s)
       | Some (status, sub) \<Rightarrow> if status \<noteq> 200 then (None, s)
           else (Some (filings_text w c sub), s\<lparr>ed_sic := su_sic sub\<rparr>))))"

section \<open>Coming regulations\<close>

definition sic_to_topics :: "(string \<times> string list) list" where
  "sic_to_topics = [
     (''60'', [''banking regulation'', ''financial compliance'', ''anti-money laundering'']),
     (''61'', [''lending regulation'', ''consumer financial protection'', ''CFPB'']),
     (''62'', [''securities regulation'', ''SEC compliance'', ''investment adviser'']),
     (''63'', [''insurance regulation'', ''NAIC compliance'']), (''64'', [''insurance regulation'']),
     (''67'', [''investment regulation'', ''SEC compliance'']), (''80'', [''HIPAA'', ''healthcare regulation'', ''CMS compliance'']),
     (''28'', [''FDA regulation'', ''pharmaceutical compliance'', ''drug safety'']),
     (''38'', [''medical device regulation'', ''FDA compliance'']),
     (''73'', [''data privacy'', ''cybersecurity regulation'', ''AI regulation'']),
     (''48'', [''telecommunications regulation'', ''FCC compliance'']),
     (''13'', [''energy regulation'', ''EPA compliance'', ''environmental'']),
     (''49'', [''utility regulation'', ''FERC compliance'', ''energy'']),
     (''20'', [''food safety'', ''FDA regulation'', ''USDA compliance'']), (''35'', [''manufacturing safety'', ''OSHA compliance'']),
     (''36'', [''electronic equipment regulation'', ''FCC compliance'']), (''37'', [''transportation safety'', ''NHTSA regulation'']),
     (''52'', [''consumer protection'', ''FTC regulation'', ''product safety'']), (''53'', [''consumer protection'', ''FTC regulation'']),
     (''54'', [''consumer protection'', ''FTC regulation'']), (''97'', [''defense regulation'', ''DFARS compliance'', ''CMMC'']),
     (''65'', [''real estate regulation'', ''fair housing'', ''RESPA'']), (''40'', [''transportation regulation'', ''DOT compliance'']),
     (''41'', [''transportation regulation'', ''DOT compliance'']),
     (''42'', [''transportation regulation'', ''DOT compliance'', ''FMCSA'']),
     (''44'', [''transportation regulation'', ''maritime regulation'']), (''45'', [''aviation regulation'', ''FAA compliance''])]"

definition default_topics :: "string list" where
  "default_topics = [''data privacy'', ''cybersecurity regulation'']"

text \<open>A regulation; its date of effect and its abstract may be null, the name of an agency missing or empty.\<close>

record regulation =
  rg_title :: string
  rg_effective :: "string option"
  rg_agencies :: "string option list"
  rg_abstract :: "string option"
  rg_type :: string
  rg_published :: string

definition effective_key :: "regulation \<Rightarrow> string" where
  "effective_key r = (if coalesce (rg_effective r) [] = [] then ''9999-12-31'' else coalesce (rg_effective r) [])"

fun first_titles :: "string set \<Rightarrow> regulation list \<Rightarrow> regulation list" where
  "first_titles seen [] = []"
| "first_titles seen (r # rs) = (if rg_title r \<in> seen then first_titles seen rs else r # first_titles (insert (rg_title r) seen) rs)"

definition ranked :: "regulation list \<Rightarrow> regulation list" where
  "ranked rs = take 8 (sort_key effective_key (first_titles {} rs))"

text \<open>A null date is shown as the word that Python has for it.\<close>

definition regulation_lines :: "regulation \<Rightarrow> string list" where
  "regulation_lines r = (let agencies = concat (map filled (rg_agencies r)); summary = coalesce (rg_abstract r) [] in
     [''**'' @ rg_title r @ ''**'',
      ''Type: '' @ (if rg_type r = ''Rule'' then ''Final Rule'' else ''Proposed Rule'') @ '' | Agency: '' @
        (if agencies = [] then ''Unknown agency'' else py_join '', '' agencies),
      ''Published: '' @ rg_published r @ '' | Effective: '' @ coalesce (rg_effective r) ''None''] @
     (if summary = [] then [] else [''Summary: '' @ take 500 summary @ (if 500 < length summary then ''...'' else [])]) @ [[]])"

definition format_results :: "regulation list \<Rightarrow> string option" where
  "format_results rs = (if rs = [] then None else Some (py_join nl (concat (map regulation_lines rs))))"

type_synonym register = "string \<Rightarrow> (int \<times> regulation list) option"

definition search_regulations :: "register \<Rightarrow> string \<Rightarrow> regulation list" where
  "search_regulations web term = (case web term of Some (status, rs) \<Rightarrow> if status = 200 then rs else [] | None \<Rightarrow> [])"

definition topics_for :: "string option \<Rightarrow> string list \<Rightarrow> string list" where
  "topics_for sic keywords = (case filled sic of
     code # rest \<Rightarrow> coalesce (map_of sic_to_topics (take 2 code)) default_topics
   | [] \<Rightarrow> if keywords \<noteq> [] then keywords else default_topics)"

definition get_upcoming_regulations :: "register \<Rightarrow> string option \<Rightarrow> string list \<Rightarrow> string option" where
  "get_upcoming_regulations web sic keywords = (let rs = concat (map (search_regulations web) (take 3 (topics_for sic keywords)))
     in if rs = [] then None else format_results (ranked rs))"

section \<open>Everything around a site\<close>

definition extract_company_name :: "string \<Rightarrow> string" where
  "extract_company_name url = py_replace ''www.'' [] (hd (py_split (py_replace ''http://'' [] (py_replace ''https://'' [] url)) ''/''))"

text \<open>
  What is switched on and what answers: the retrieval of materials is given by the text it brings, \<open>None\<close> when
  it is off or raises.
\<close>

record collectors =
  co_edgar_on :: bool
  co_register_on :: bool
  co_sec :: sec_web
  co_register :: register
  co_materials :: "string \<Rightarrow> string \<Rightarrow> string option"

definition fetch_edgar :: "int \<Rightarrow> collectors \<Rightarrow> string \<Rightarrow> edgar \<Rightarrow> string option \<times> edgar" where
  "fetch_edgar now c company s = (if co_edgar_on c then get_company_filings now (co_sec c) company s else (None, s))"

definition fetch_fedreg :: "collectors \<Rightarrow> edgar \<Rightarrow> string option" where
  "fetch_fedreg c s = (if co_register_on c then get_upcoming_regulations (co_register c) (ed_sic s) [] else None)"

text \<open>The site is filled in and the materials returned. The regulations follow the filings, whose code they use.\<close>

definition collect_enrichment_data :: "int \<Rightarrow> collectors \<Rightarrow> scraped \<Rightarrow> string \<Rightarrow> edgar \<Rightarrow> string \<times> scraped \<times> edgar" where
  "collect_enrichment_data now c site url s = (let company = extract_company_name url in case fetch_edgar now c company s of (filings, s) \<Rightarrow>
     (let regulations = fetch_fedreg c s;
          site = (if filled filings = [] then site else site\<lparr>sp_edgar := hd (filled filings)\<rparr>);
          site = (if filled regulations = [] then site else site\<lparr>sp_federal := hd (filled regulations)\<rparr>)
      in (coalesce (co_materials c company (take 500 (sp_homepage site))) [], site, s)))"

section \<open>What the web says\<close>

definition about :: "string \<Rightarrow> string" where
  "about rest = [CHR 0x22] @ ''{company}'' @ [CHR 0x22] @ rest"

definition category_queries :: "(string \<times> string list) list" where
  "category_queries = [
     (''database'', map about ['' database migration scalability challenges'',
        '' data infrastructure engineering blog'',
        '' recent news funding growth 2025 2026'',
        '' hiring database engineer data infrastructure DBA careers'']),
     (''fintech'', map about ['' payment processing compliance PCI challenges'',
        '' financial infrastructure banking technology'',
        '' recent news funding regulatory 2025 2026'',
        '' hiring payments engineer compliance fintech careers'']),
     (''healthtech'', map about ['' healthcare integration HIPAA compliance challenges'',
        '' clinical data EHR technology infrastructure'',
        '' recent news funding growth 2025 2026'',
        '' hiring health informatics clinical engineer HIPAA careers'']),
     (''martech'', map about ['' marketing technology stack CDP analytics challenges'',
        '' customer data attribution personalization'',
        '' recent news funding growth 2025 2026'',
        '' hiring marketing operations growth engineer analytics careers'']),
     (''devtools'', map about ['' developer experience CI/CD infrastructure challenges'',
        '' engineering platform deployment observability'',
        '' recent news funding growth 2025 2026'',
        '' hiring DevOps SRE platform engineer infrastructure careers'']),
     (''cloud'', map about ['' AWS cloud migration modernization platform engineering'',
        '' landing zone FinOps observability Well-Architected'',
        '' recent news cloud transformation growth 2025 2026'',
        '' hiring DevOps platform cloud infrastructure AWS careers'']),
     (''security'', map about ['' cybersecurity compliance vulnerability challenges'',
        '' security infrastructure identity access management'',
        '' recent news funding growth 2025 2026'',
        '' hiring security engineer SecOps CISO IT security careers'']),
     (''hrtech'', map about ['' HR technology workforce management challenges'',
        '' hiring recruiting operations people analytics careers'',
        '' recent news funding growth 2025 2026'',
        '' payroll benefits HRIS employee experience'']),
     (''legaltech'', map about ['' legal operations contract management compliance challenges'',
        '' hiring legal ops paralegal counsel careers'',
        '' recent news funding regulatory 2025 2026'',
        '' legal technology ediscovery CLM automation'']),
     (''ecommerce'', map about ['' ecommerce platform checkout conversion challenges'',
        '' hiring ecommerce engineer product catalog careers'',
        '' recent news funding growth 2025 2026'',
        '' order management fulfillment inventory technology'']),
     (''constructiontech'', map about ['' construction technology project management challenges'',
        '' hiring construction technology BIM engineer careers'',
        '' recent news funding growth 2025 2026'',
        '' field service jobsite management subcontractor'']),
     (''edtech'', map about ['' education technology LMS learning platform challenges'',
        '' hiring instructional designer edtech engineer careers'',
        '' recent news funding growth 2025 2026'',
        '' student engagement curriculum e-learning'']),
     (''proptech'', map about ['' real estate technology property management challenges'',
        '' hiring property technology real estate engineer careers'',
        '' recent news funding growth 2025 2026'',
        '' lease management smart building tenant experience'']),
     (''insurtech'', map about ['' insurance technology claims underwriting challenges'',
        '' hiring actuary insurance engineer insurtech careers'',
        '' recent news funding regulatory 2025 2026'',
        '' policy management risk assessment automation'']),
     (''supplychain'', map about ['' supply chain logistics technology challenges'',
        '' hiring supply chain logistics operations engineer careers'',
        '' recent news funding growth 2025 2026'',
        '' warehouse management freight procurement visibility'']),
     (''govtech'', map about ['' government technology public sector challenges'',
        '' hiring govtech public sector engineer FedRAMP careers'',
        '' recent news funding government contracts 2025 2026'',
        '' civic technology citizen services procurement''])]"

definition default_queries :: "string list" where
  "default_queries = map about ['' recent news developments 2025 2026'',
     '' technology stack infrastructure engineering'',
     '' challenges problems scaling'',
     '' hiring open roles engineering careers 2025 2026'']"

definition get_queries :: "string \<Rightarrow> string \<Rightarrow> string list" where
  "get_queries company category = map (\<lambda>t. py_replace ''{company}'' company t) (coalesce (map_of category_queries category) default_queries)"

record web_answer =
  wa_query :: string
  wa_content :: string
  wa_citations :: "string list"

record web_answers =
  wr_results :: "web_answer list"
  wr_category :: string
  wr_cached :: bool

definition no_answers :: web_answers where
  "no_answers = \<lparr>wr_results = [], wr_category = [], wr_cached = False\<rparr>"

definition answer_text :: "web_answer \<Rightarrow> string" where
  "answer_text a = ''Query: '' @ wa_query a @ nl @ wa_content a @
     (if wa_citations a = [] then [] else nl @ ''Sources: '' @ py_join '', '' (take 3 (wa_citations a)))"

definition as_text :: "web_answers \<Rightarrow> string" where
  "as_text r = py_join block_rule (map answer_text (wr_results r))"

text \<open>The cache: key, time of writing in seconds, answers. The newest entry of a key counts.\<close>

type_synonym web_cache = "(string \<times> int \<times> web_answers) list"

definition without_key :: "string \<Rightarrow> web_cache \<Rightarrow> web_cache" where
  "without_key k c = filter (\<lambda>(k', t, r). k' \<noteq> k) c"

definition cache_key :: "(string \<Rightarrow> string) \<Rightarrow> string \<Rightarrow> string \<Rightarrow> string" where
  "cache_key sha domain category = sha (py_lower domain @ '':'' @ category)"

definition get_cached :: "int \<Rightarrow> string \<Rightarrow> web_cache \<Rightarrow> web_answers option \<times> web_cache" where
  "get_cached now k c = (case map_of c k of None \<Rightarrow> (None, c)
   | Some (t, r) \<Rightarrow> if now - t < 86400 then (Some r, c) else (None, without_key k c))"

definition save_cached :: "int \<Rightarrow> string \<Rightarrow> web_answers \<Rightarrow> web_cache \<Rightarrow> web_cache" where
  "save_cached now k r c = (let c = (k, now, r) # without_key k c in
     if 500 < length c then filter (\<lambda>(k', t, r'). \<not> t < now - 86400) c else c)"

text \<open>An answer that the service did not give: the request raised. \<open>None\<close> for all: the search timed out as a whole.\<close>

definition web_answers_of :: "(string \<Rightarrow> web_answer option) option \<Rightarrow> string list \<Rightarrow> web_answer list" where
  "web_answers_of ask queries = (case ask of None \<Rightarrow> []
     | Some f \<Rightarrow> concat (map (\<lambda>q. case f q of None \<Rightarrow> [] | Some a \<Rightarrow> [a]) queries))"

definition marked_cached :: "string \<Rightarrow> web_cache \<Rightarrow> web_cache" where
  "marked_cached k c = map (\<lambda>(k', t, r). (k', t, if k' = k then r\<lparr>wr_cached := True\<rparr> else r)) c"

definition search :: "int \<Rightarrow> (string \<Rightarrow> string) \<Rightarrow> string \<Rightarrow> (string \<Rightarrow> web_answer option) option \<Rightarrow> string \<Rightarrow> string \<Rightarrow> string \<Rightarrow> web_cache \<Rightarrow>
    web_answers \<times> web_cache" where
  "search now sha api_key ask domain company category c = (if api_key = [] then (no_answers, c)
     else (let k = cache_key sha domain category in case get_cached now k c of
       (Some r, c) \<Rightarrow> (r\<lparr>wr_cached := True\<rparr>, marked_cached k c)
     | (None, c) \<Rightarrow> (let results = web_answers_of ask (get_queries company category);
           out = \<lparr>wr_results = results, wr_category = category, wr_cached = False\<rparr>
         in (out, if results = [] then c else save_cached now k out c))))"

section \<open>Bounds\<close>

lemma annual_lines_bound: "length (annual_lines k q xs) \<le> (2 - k) + (3 - q)"
proof (induction k q xs rule: annual_lines.induct)
  case (2 k q form filed period rest)
  then show ?case by (auto simp: Let_def)
qed simp

lemma risk_factors_bound: "case parse_risk_factors html of None \<Rightarrow> True | Some s \<Rightarrow> 200 \<le> length s \<and> length s \<le> 6028"
  by (auto simp: parse_risk_factors_def Let_def nl_def split: option.split)

lemma first_titles_props:
  "set (first_titles seen rs) \<subseteq> set rs \<and> distinct (map rg_title (first_titles seen rs)) \<and> rg_title ` set (first_titles seen rs) \<inter> seen = {}"
  by (induction seen rs rule: first_titles.induct) auto

text \<open>
  the regulations shown are at most eight of those found, no title twice, in the order of their dates of effect.
\<close>

theorem regulations_ranked:
  "length (ranked rs) \<le> 8 \<and> distinct (map rg_title (ranked rs)) \<and> sorted (map effective_key (ranked rs)) \<and> set (ranked rs) \<subseteq> set rs"
proof -
  let ?l = "sort_key effective_key (first_titles {} rs)"
  have "distinct (map rg_title ?l)"
    using first_titles_props [of "{}" rs] by (simp add: distinct_map)
  then have "distinct (map rg_title (take 8 ?l))" by (simp add: take_map [symmetric] distinct_take)
  moreover have "sorted (map effective_key (take 8 ?l))" by (simp add: take_map [symmetric] sorted_wrt_take)
  moreover have "set (take 8 ?l) \<subseteq> set rs"
    using set_take_subset [of 8 ?l] first_titles_props [of "{}" rs] by auto
  ultimately show ?thesis by (simp add: ranked_def)
qed

section \<open>What is remembered wrongly\<close>

lemma no_table_no_match: "match_company company [] = None"
proof -
  have "first_found names [] = None" for names
    by (induction names) (simp_all add: first_found_def)
  then show ?thesis by (simp add: match_company_def title_matches_def Let_def)
qed

text \<open>One refused download leaves the table empty until the process ends.\<close>

lemma refused_download_is_final:
  assumes "ed_tickers s = None" "load_disk_cache now s = None" "sw_tickers w = Some (status, entries)" "status \<noteq> 200"
  shows "get_company_filings now' w' company (snd (load_tickers now w s)) = (None, snd (load_tickers now w s))"
  using assms by (simp add: get_company_filings_def load_tickers_def no_table_no_match)

text \<open>
  a company that is not registered with the SEC gets the regulations for the industry of the registered company
  that was looked up before it, because the code of that one is still there.
\<close>

theorem stale_industry_code:
  assumes "ed_tickers s = Some table" "match_company (extract_company_name url) table = None" "co_register_on c"
  shows "case collect_enrichment_data now c site url s of (materials, site', s') \<Rightarrow> s' = s \<and> sp_edgar site' = sp_edgar site \<and>
     sp_federal site' = hd (filled (get_upcoming_regulations (co_register c) (ed_sic s) []) @ [sp_federal site])"
proof -
  have "fetch_edgar now c (extract_company_name url) s = (None, s)"
    using assms by (simp add: fetch_edgar_def get_company_filings_def load_tickers_def)
  then show ?thesis using assms(3)
    by (auto simp: collect_enrichment_data_def fetch_fedreg_def filled_def Let_def split: option.split)
qed

definition drug_maker :: submissions where
  "drug_maker = \<lparr>su_name = Some ''Acme Pharma'', su_sic = Some ''2834'', su_industry = None, su_state = None, su_category = None, su_forms = [],
     su_dates = [], su_items = [], su_reports = [], su_accessions = [], su_documents = []\<rparr>"

definition drug_rule :: regulation where
  "drug_rule = \<lparr>rg_title = ''Drug safety'', rg_effective = Some ''2026-01-01'', rg_agencies = [Some ''FDA''], rg_abstract = None, rg_type = ''Rule'',
     rg_published = ''2025-10-01''\<rparr>"

definition sample_collectors :: collectors where
  "sample_collectors = \<lparr>co_edgar_on = True, co_register_on = True,
     co_sec = \<lparr>sw_tickers = Some (200, [\<lparr>tk_title = ''Acme Pharma'', tk_symbol = ''ACME'', tk_number = 77\<rparr>]),
        sw_submissions = (\<lambda>cik. Some (200, drug_maker)), sw_document = (\<lambda>url. None)\<rparr>,
     co_register = (\<lambda>term. if term = ''FDA regulation'' then Some (200, [drug_rule]) else None), co_materials = (\<lambda>company text. None)\<rparr>"

definition bare_site :: scraped where
  "bare_site = \<lparr>sp_homepage = [], sp_jobs = [], sp_mentions = [], sp_structure = [], sp_edgar = [], sp_federal = [], sp_firmographics = []\<rparr>"

text \<open>What the filings of a drug maker leave: after them a bakery is shown a rule on drugs.\<close>

definition after_drug_maker :: edgar where
  "after_drug_maker = \<lparr>ed_tickers = Some [(''acme'', \<lparr>sc_cik = ''77'', sc_ticker = ''ACME'', sc_title = ''Acme''\<rparr>)],
     ed_disk = None, ed_sic = Some ''2834''\<rparr>"

theorem stale_industry_code_witness:
  "sp_federal (fst (snd (collect_enrichment_data 9 sample_collectors bare_site ''https://bakery.com'' after_drug_maker))) =
     py_join nl (regulation_lines drug_rule)"
proof -
  let ?table = "[(''acme'', \<lparr>sc_cik = ''77'', sc_ticker = ''ACME'', sc_title = ''Acme''\<rparr>)]"
  have m: "match_company (extract_company_name ''https://bakery.com'') ?table = None" by code_simp
  have r: "hd (filled (get_upcoming_regulations (co_register sample_collectors) (Some ''2834'') []) @ [sp_federal bare_site]) =
      py_join nl (regulation_lines drug_rule)" by code_simp
  have o: "co_register_on sample_collectors" by (simp add: sample_collectors_def)
  have s: "ed_tickers after_drug_maker = Some ?table" "ed_sic after_drug_maker = Some ''2834''"
    by (simp_all add: after_drug_maker_def)
  from stale_industry_code [OF s(1) m o, where now = 9 and site = bare_site] r s(2)
  show ?thesis by (auto split: prod.splits)
qed

section \<open>The cache of the web search\<close>

lemma map_of_without: "map_of (without_key k c) k' = (if k' = k then None else map_of c k')"
  by (induction c) (auto simp: without_key_def)

lemma map_of_fresh_kept:
  "map_of c k = Some (t, r) \<Longrightarrow> \<not> t < old \<Longrightarrow> map_of (filter (\<lambda>(k', t, r'). \<not> t < old) c) k = Some (t, r)"
  by (induction c) (auto split: if_splits)

lemma get_save: "now' - now < 86400 \<Longrightarrow> fst (get_cached now' k (save_cached now k r c)) = Some r"
  by (auto simp: save_cached_def get_cached_def Let_def)

text \<open>
  what is written never displaces what would still be served: evicted is only what is older than a day.
\<close>

lemma eviction_spares_fresh:
  "k' \<noteq> k \<Longrightarrow> fst (get_cached now k' c) = Some r' \<Longrightarrow> fst (get_cached now k' (save_cached now k r c)) = Some r'"
proof -
  assume a: "k' \<noteq> k" "fst (get_cached now k' c) = Some r'"
  then obtain t where t: "map_of c k' = Some (t, r')" "now - t < 86400"
    by (auto simp: get_cached_def split: option.splits prod.splits if_splits)
  have "map_of ((k, now, r) # without_key k c) k' = Some (t, r')" using a t by (simp add: map_of_without)
  then have "map_of (save_cached now k r c) k' = Some (t, r')"
    using t(2) map_of_fresh_kept [of "(k, now, r) # without_key k c" k' t r' "now - 86400"] by (auto simp: save_cached_def Let_def)
  with t(2) show ?thesis by (simp add: get_cached_def)
qed

text \<open>
  a search that brought something is answered again for a day without a request, whatever the service would
  answer by then; a search that brought nothing is never remembered.
\<close>

lemma search_hit:
  assumes "fst (get_cached now (cache_key sha domain category) c) = Some r" "api_key \<noteq> []"
  shows "fst (search now sha api_key ask domain company category c) = r\<lparr>wr_cached := True\<rparr>"
proof -
  obtain c1 where "get_cached now (cache_key sha domain category) c = (Some r, c1)"
    using assms(1) by (cases "get_cached now (cache_key sha domain category) c") simp
  with assms(2) show ?thesis by (simp add: search_def Let_def)
qed

lemma search_remembered:
  assumes "fst (get_cached now (cache_key sha domain category) c) = None" "api_key \<noteq> []" "now' - now < 86400"
  shows "case search now sha api_key ask domain company category c of (found, c') \<Rightarrow>
     if wr_results found = [] then map_of c' (cache_key sha domain category) = None
     else fst (search now' sha api_key ask' domain company' category c') = found\<lparr>wr_cached := True\<rparr>"
proof -
  define k where "k = cache_key sha domain category"
  obtain c1 where g: "get_cached now k c = (None, c1)"
    using assms(1) by (cases "get_cached now k c") (simp add: k_def)
  then have n: "map_of c1 k = None"
    by (auto simp: get_cached_def map_of_without split: option.splits if_splits)
  define out where "out = \<lparr>wr_results = web_answers_of ask (get_queries company category), wr_category = category, wr_cached = False\<rparr>"
  have s: "search now sha api_key ask domain company category c = (out, if wr_results out = [] then c1 else save_cached now k out c1)"
    using g assms(2) by (simp add: search_def out_def k_def Let_def)
  have "fst (search now' sha api_key ask' domain company' category (save_cached now k out c1)) = out\<lparr>wr_cached := True\<rparr>"
    by (rule search_hit) (use assms(2) get_save [OF assms(3)] in \<open>simp_all add: k_def\<close>)
  then show ?thesis unfolding s using n by (simp add: k_def)
qed

end
