(* ===== verification/Screenshots.thy ===== *)
theory Screenshots
  imports Web_Research Py_Regex Materials
begin

text \<open>
  The reader of LinkedIn screenshots (\<open>services/vision.py\<close>): the labelled lines that a vision model writes,
  read back with one regular expression per label. The model is an argument: \<open>None\<close> when the call raises or
  brings no choice.
\<close>

section \<open>Labelled lines\<close>

definition any_label :: "string list \<Rightarrow> rx" where
  "any_label labels = foldr (\<lambda>l r. Or (lit l) r) labels (One (\<lambda>c. False))"

text \<open>From a label at the start of a line to the next label or the end of the text\<close>

definition label_rx :: "string list \<Rightarrow> string \<Rightarrow> rx" where
  "label_rx labels label = in_order [Line_Start, lit (label @ '':''), Star (\<lambda>c. c = CHR '' '' \<or> c = CHR 0x09), Group (Lazy any_char),
     Peek (Or (in_order [Line_Start, any_label labels, lit '':'']) (Not_Before any_char))]"

definition placeholders :: "string list" where
  "placeholders = [''n/a'', ''not visible'', ''blank'']"

definition field_text :: "string list \<Rightarrow> string \<Rightarrow> string \<Rightarrow> string option" where
  "field_text labels label answer = (case re_group (label_rx labels label) answer of None \<Rightarrow> None
     | Some g \<Rightarrow> (let v = py_strip g in if v = [] \<or> py_lower v \<in> set placeholders then None else Some v))"

definition labelled_fields :: "(string \<times> string) list \<Rightarrow> string \<Rightarrow> (string \<times> string) list" where
  "labelled_fields labels answer = concat (map (\<lambda>(label, key). case field_text (map fst labels) label answer of
     None \<Rightarrow> [] | Some v \<Rightarrow> [(key, v)]) labels)"

definition not_linkedin :: "string \<Rightarrow> bool" where
  "not_linkedin answer \<longleftrightarrow> py_in ''NOT_LINKEDIN'' answer"

section \<open>Personas\<close>

definition persona_fields :: "(string \<times> string) list" where
  "persona_fields = [(''NAME'', ''name''), (''TITLE'', ''title''), (''COMPANY'', ''company''), (''HEADLINE'', ''headline''),
     (''ABOUT'', ''about''), (''EXPERIENCE'', ''experience''), (''SKILLS'', ''skills'')]"

definition parse_persona :: "string \<Rightarrow> (string \<times> string) list" where
  "parse_persona answer = (if not_linkedin answer then [] else labelled_fields persona_fields answer)"

type_synonym vision = "string \<Rightarrow> string \<Rightarrow> string option"

definition extract_persona_from_screenshot :: "vision \<Rightarrow> reader" where
  "extract_persona_from_screenshot model shot kind = Some (case model shot kind of None \<Rightarrow> [] | Some answer \<Rightarrow> parse_persona answer)"

section \<open>Profiles and posts\<close>

definition context_fields :: "(string \<times> string) list" where
  "context_fields = [(''CONTENT_TYPE'', ''content_type''), (''AUTHOR_NAME'', ''author_name''), (''AUTHOR_TITLE'', ''author_title''),
     (''AUTHOR_COMPANY'', ''author_company''), (''FOCUS_SNIPPET'', ''focus_snippet''), (''ENGAGEMENT'', ''engagement'')]"

definition content_kind :: "string \<Rightarrow> string" where
  "content_kind s = (if map upper_of s = ''PROFILE'' then ''profile'' else if map upper_of s = ''POST'' then ''post'' else ''other'')"

text \<open>An image that is not of LinkedIn has no flag; a missing flag reads as false.\<close>

definition other_content :: linkedin where
  "other_content = \<lparr>li_type = ''other'', li_texts = [], li_unsure = False\<rparr>"

definition parse_linkedin_context :: "string \<Rightarrow> linkedin" where
  "parse_linkedin_context answer = (if not_linkedin answer then other_content
     else (let texts = labelled_fields context_fields answer in
       \<lparr>li_type = content_kind (coalesce (map_of texts ''content_type'') []), li_texts = filter (\<lambda>(k, v). k \<noteq> ''content_type'') texts,
        li_unsure = length (coalesce (map_of texts ''focus_snippet'') []) < 10\<rparr>))"

definition extract_linkedin_context :: "vision \<Rightarrow> string \<Rightarrow> string \<Rightarrow> linkedin option" where
  "extract_linkedin_context model shot kind = Some (case model shot kind of None \<Rightarrow> other_content | Some answer \<Rightarrow> parse_linkedin_context answer)"

section \<open>What the pages make of it\<close>

lemma labelled_fields_keys: "distinct (map snd labels) \<Longrightarrow> distinct (map fst (labelled_fields labels answer))"
proof -
  have keys: "map fst (concat (map (\<lambda>(label, key). case field_text ls label answer of None \<Rightarrow> [] | Some v \<Rightarrow> [(key, v)]) fs)) =
      map snd (filter (\<lambda>(label, key). field_text ls label answer \<noteq> None) fs)" for fs ls
    by (induction fs) (auto split: option.split)
  assume "distinct (map snd labels)"
  then show ?thesis unfolding labelled_fields_def keys by (rule distinct_map_filter)
qed

lemma labelled_fields_texts:
  "(k, v) \<in> set (labelled_fields labels answer) \<Longrightarrow> v \<noteq> [] \<and> py_lower v \<notin> set placeholders"
  by (auto simp: labelled_fields_def field_text_def Let_def split: option.splits if_splits)

text \<open>
  a sequence of e-mails is written all the same when the reader of screenshots fails, but a LinkedIn message is
  not: the failure of the model is reported as an image that is not of LinkedIn.
\<close>

theorem reader_failure_blamed_on_image:
  "screenshot_persona (extract_persona_from_screenshot (\<lambda>shot kind. None)) (Some f) = [] \<and>
   (up_name f = [] \<or> (\<exists>code message. linkedin_context (extract_linkedin_context (\<lambda>shot kind. None)) (Some f) = Inl (coded 422 code message)))"
  by (auto simp: screenshot_persona_def extract_persona_from_screenshot_def linkedin_context_def extract_linkedin_context_def
      other_content_def format_persona_for_prompt_def present_lines_def persona_labels_def)

text \<open>A field goes on over the lines up to the next label.\<close>

lemma field_over_lines:
  "field_text [''A'', ''B''] ''A'' (''A: x'' @ Profiles.newline @ ''y'' @ Profiles.newline @ ''B:'') = Some (''x'' @ Profiles.newline @ ''y'')"
  "field_text [''A'', ''B''] ''B'' (''A: x'' @ Profiles.newline @ ''B:'') = None"
  by code_simp+

end
