(* ===== verification/Spec2Isabelle.thy ===== *)
theory Spec2Isabelle
  imports Queue_Properties Credits Research_Jobs Cursors Bulk_Jobs List_Properties Watchlist
    Rate_Limit Idempotency Team Sdk_Client Pain_Properties Worker_Properties
    Queue_Refinement Api_Properties Startup Materials Web_Auth Csv
    Web_List_Properties Personas Leads Web_Research_Properties Web_Settings Billing
    Sdk_Service Webhooks Web_Main
    Web_Integrations Web_Admin Writing_Properties Research_Writer
    Seller_Site Collection Screenshots
begin

text \<open>
  A verification library of Auggie, a service that researches companies for sales teams: a client
  pays credits, a pipeline of collectors and language models writes a document about a company,
  scores it and stores it. The library models the parts that keep state and money straight; the
  world outside (models, networks, the payment provider, bcrypt, DNS, the clock) enters the
  definitions as arguments.

  How the parts interact. A request passes authentication (\<open>api/auth.py\<close>), validation, the rate
  limiter and the idempotency guard, charges the organization of its user, writes a job, a bulk
  job or a list, and enqueues tasks (\<open>db/task_queue.py\<close>). The worker (\<open>worker.py\<close>) claims tasks and
  dispatches them to the job functions (\<open>api/jobs.py\<close>); these run the pipeline, settle items,
  finalize parents, send webhooks and enqueue automation tasks. A failing task is tried again
  with backoff and refunded after its last attempt.

  Theories, in the order of the imports, and what they model:

  Auggie_Prelude: conditional updates of tables (\<open>update_where\<close>), counts, serial identifiers,
  errors of the database; the collections of hints the component proofs use.
  Py_Strings: the string functions of Python that the code uses (\<open>int\<close>, \<open>str\<close>, \<open>strip\<close>, \<open>split\<close>,
  \<open>lower\<close>) on 8-bit characters, with the round trip of decimal numbers.

  Task_Queue, Queue_Steps, Queue_Properties, Queue_Refinement (\<open>db/task_queue.py\<close>): the table of
  tasks and its operations; runs of operations; what every reachable queue satisfies; the life
  cycle of one task as an automaton that the queue refines, and that no due task starves.
  Profiles, Accounts, Credits (\<open>db/users.py\<close>, \<open>db/orgs.py\<close>, \<open>db/credit_ledger.py\<close>):
  users, organizations, balances, the ledger, sessions of the payment provider; conservation of
  credits and absence of overdrafts over all runs of the credit operations.
  Pagination, Cursors (\<open>api/pagination.py\<close>): keyset pages as an interface with two instances, and
  the byte-level encoding of cursors.
  Research_Jobs (\<open>db/jobs.py\<close>), Batches, Bulk_Jobs (\<open>db/bulk.py\<close>), Account_Lists, List_Properties
  (\<open>db/lists.py\<close>), Watchlist (\<open>db/watchlist.py\<close>): the tables of work; Batches is the contract of
  items that are settled and counted, shared by bulk jobs and lists.
  Rate_Limit (\<open>api/ratelimit.py\<close>), Idempotency (\<open>db/idempotency.py\<close>, \<open>api/idempotency.py\<close>), Team
  (\<open>db/orgs.py\<close>, \<open>routes/team.py\<close>), Webhooks (\<open>db/webhooks.py\<close>, \<open>api/webhooks.py\<close>, with the verification of a delivery in the client), Api_Auth
  (\<open>api/keys.py\<close>, \<open>api/auth.py\<close>, \<open>api/validation.py\<close>, \<open>db/api_keys.py\<close>): the guards of the API.
  Sdk_Client (\<open>sdk/auggie/__init__.py\<close>): the client, its retries, its exceptions (of the API, the transport and
  the decoder) and its polling, composed with the idempotency guard of the server. The endpoints without that
  guard (sequences, watchlist, invites, pushes, webhooks) can run twice and are outside of that composition.
  Pain_Rules, Pain_Engine, Pain_Properties (\<open>services/pain_inference.py\<close>): the engine
  that infers problems of a company from signals, rule by rule, and its ranking.
  Tech_Signals (\<open>db/tech_signals.py\<close>, \<open>api/routes.py\<close>): the stored signals and the pain part of an
  answer.
  Documents (\<open>db/documents.py\<close>, \<open>utils/slugs.py\<close>), Automation (\<open>db/automation.py\<close>,
  \<open>services/automation.py\<close>): stored documents with their slugs, and the rules users attach to events.
  Server, Server_Properties (\<open>api/jobs.py\<close>), Worker, Worker_Typing, Worker_Properties (\<open>worker.py\<close>):
  one state of all tables, the job functions on it, the dispatch of claimed tasks and the steps
  of the worker on the tables and the tasks in flight: claims, stale requeues, schedules and the work of
  claimed tasks interleave, the work of one dispatch is one step. With what holds of all runs.
  Api_Base, Api_Research, Api_Lists (\<open>api/routes.py\<close>, \<open>db/contacts.py\<close>, error handling of
  \<open>main.py\<close>): the state of the API process and its endpoints. Api_Router: the table of routes (without the
  endpoints of teams and webhooks, which are in Team and Webhooks), and a request from token to answer.
  Api_Frames, Api_Isolation: what any endpoint may change. Api_Properties: the steps of the service, that is
  requests, steps of the worker and start-ups on one database, and what holds of its runs.
  Startup (\<open>db/_migrate.py\<close>, \<open>db/_pool.py\<close>): the migration runner, in which a script and its
  record are two transactions, the sweeps of stale work and the migration of users without an organization, which a
  failing backfill rolls back without a word.
  Chunking, Materials (\<open>services/chunking.py\<close>, \<open>services/parser.py\<close>, \<open>services/embeddings.py\<close>,
  \<open>services/materials.py\<close>, \<open>services/retrieval.py\<close>, \<open>db/materials.py\<close>): uploaded materials from file to
  chunks, embeddings and prompt; the regular expressions of the chunker are written out as scans.
  Csv (\<open>routes/lists.py\<close>): the comma-separated files of the list pages, with the reader and
  writer of Python's \<open>csv\<close> module, which the handlers call.
  Web_Base, Web_Lists, Web_List_Properties (\<open>routes/lists.py\<close>, \<open>db/outreach.py\<close>, \<open>db/feedback.py\<close>):
  the state of the web process and the handlers of the list pages, on the same tables as the API.
  Personas (\<open>utils/personas.py\<close>, \<open>utils/icp.py\<close>): the buyer settings packed into strings and read back.
  Leads (\<open>services/leadmagic.py\<close>, \<open>services/enrichment.py\<close>): the search for contacts over a network argument.
  Web_Research, Web_Research_Properties (\<open>routes/research.py\<close>): the research and document pages.
  Web_Settings (\<open>routes/settings.py\<close>, \<open>routes/watchlist.py\<close>): onboarding, settings, keys, the materials and
  watchlist pages.
  Notifications (\<open>services/notifications.py\<close>), Web_Integrations (\<open>db/integrations.py\<close>,
  \<open>routes/integrations.py\<close>, \<open>routes/_helpers.py\<close>): messages to Slack and Teams, stored connections, OAuth.
  Web_Admin (\<open>routes/admin.py\<close>, \<open>routes/team.py\<close>): administration, impersonation, the team pages.
  Web_Main (\<open>main.py\<close>): middleware, exception handlers, health and version, the home and documentation pages.
  Billing (\<open>billing.py\<close>): the credit packs, the checkout and the webhook that fulfills it.
  Sdk_Methods (\<open>sdk/auggie/__init__.py\<close>, the decorators of \<open>api/routes.py\<close>): the calls of every method of both
  clients and the endpoint each call reaches. Sdk_Service: the polling
  of a bulk job against the running service.
  Py_Regex: the part of Python's \<open>re\<close> that the code uses, as a datatype of patterns with a matcher that
  tries matches in the order of backtracking.
  Writing_Text (\<open>services/writing/postprocess.py\<close>), Writing_Rules (\<open>services/writing/types.py\<close>,
  \<open>services/seller_relevance.py\<close>, the report and the relevance gate of \<open>services/writing/service.py\<close>),
  Writing_Email (\<open>services/writing/email.py\<close>, \<open>services/pea_selector.py\<close>), Writing_Service and
  Writing_Linkedin (\<open>services/writing/service.py\<close>, \<open>linkedin_shared.py\<close>, \<open>linkedin_dm.py\<close>,
  \<open>linkedin_connection.py\<close>): the writer of e-mail sequences and messages, with its calls of a language model
  as an argument. Writing_Properties: how its parts fit each other and the outreach pages.
  Research_Sections (\<open>services/claude.py\<close>): the document a model writes, its sections, scores, checks
  and formatter. Research_Prompts (\<open>services/claude.py\<close>, \<open>models.py\<close>): the prompts, flat and in tiers.
  Research_Writer (\<open>services/claude.py\<close>): the generation with its checks and its one repair. Job_Parser (\<open>services/job_parser.py\<close>): what job postings tell.
  Infrastructure (\<open>services/infrastructure_signals.py\<close>, \<open>dns_analyzer.py\<close>, \<open>ssl_analyzer.py\<close>): what
  a host tells in its records, certificate, headers and \<open>robots.txt\<close>. Tech_Detect (\<open>services/techdetect/\<close>,
  \<open>services/tech_detection.py\<close>): fingerprints, the technologies of a page and those they imply,
  archetypes, and the scan of the hosts and paths of a company.
  Firecrawl (\<open>services/firecrawl.py\<close>): pages, site maps, job boards, crawls and searches. Seller_Site
  (\<open>services/seller_profile.py\<close>): the profile of a seller from its own site. Collection (\<open>services/edgar.py\<close>,
  \<open>federal_register.py\<close>, \<open>collect.py\<close>, \<open>perplexity.py\<close>): filings, regulations and web answers, with the state
  that their services keep. Screenshots (\<open>services/vision.py\<close>): what a vision model reads from a screenshot.
  Web_Auth (\<open>auth.py\<close>, \<open>auth_cache.py\<close>): sessions, the cached user, and the sign-in callbacks.

  Bounds and fuel. The only fuel is the number of retries of the client and the number of polls;
  both are parameters of the code. The backoff of tasks is capped at 300 seconds, the fan-out
  works in chunks of 500, tasks have three attempts. Python integers are \<open>int\<close>; identifiers of
  tables are drawn from counters of the model. Times are in microseconds.

  Conventions. A row of a table is a record, a table a list of rows in the order of insertion;
  \<open>ORDER BY\<close> is a stable sort, ties where the database leaves the order open are an argument
  where a property depends on them. A transaction is one function. Errors of the database and of
  the API are left injections. Values of JSON are a datatype.

  Not modelled: the long fixed texts of the system prompts (they are arguments), the networks, parsers
  of HTML and XML and language models behind the collectors (arguments too), the templates and static guide pages, the image renderer and the client of Google Sheets:
  they are constants, calls of services outside the repository or formatting of their answers.
\<close>

end
